(* ===== verification/Prelude.thy ===== *)
theory Prelude
  imports Main "HOL-Library.List_Lexorder" "HOL-Library.Char_ord" "HOL-Library.Product_Lexorder"
    "HOL-Library.Multiset"
begin

text \<open>
  Shared vocabulary of the development: Go errors as values of a sum type, the sequencing of
  fallible steps and loops, the few functions of the Go standard library on strings the program
  calls (\<^verbatim>\<open>strings\<close>, \<^verbatim>\<open>strconv\<close>, \<^verbatim>\<open>slices\<close>), and Go maps as association lists.
  A Go map is iterated in an unspecified order; the association list is one such order, so a
  lemma about every list covers every iteration.
\<close>

section \<open>Errors\<close>

text \<open>
  \<open>Errf\<close> is \<^verbatim>\<open>fmt.Errorf\<close> without a wrapped error (its format and the arguments printed),
  \<open>Wrapf\<close> is \<^verbatim>\<open>fmt.Errorf\<close> with \<open>%w\<close>, \<open>Joined\<close> is \<^verbatim>\<open>errors.Join\<close> and \<open>Panic\<close> stands for a
  run-time panic (an index out of range) of the source.
\<close>

datatype go_err =
    Errf string "string list"
  | Wrapf string "string list" go_err
  | Joined "go_err list"
  | Panic string

type_synonym 'a result = "go_err + 'a"

fun err_is :: "go_err \<Rightarrow> go_err \<Rightarrow> bool" where
  "err_is (Wrapf f as e) t = (Wrapf f as e = t \<or> err_is e t)"
| "err_is (Joined es) t = (Joined es = t \<or> list_ex (\<lambda>e. err_is e t) es)"
| "err_is (Errf f as) t = (Errf f as = t)"
| "err_is (Panic m) t = (Panic m = t)"

section \<open>Sequencing fallible steps\<close>

definition ebind :: "'e + 'a \<Rightarrow> ('a \<Rightarrow> 'e + 'b) \<Rightarrow> 'e + 'b" where
  "ebind m f = (case m of Inl e \<Rightarrow> Inl e | Inr x \<Rightarrow> f x)"

definition ewrap :: "string \<Rightarrow> string list \<Rightarrow> 'a result \<Rightarrow> 'a result" where
  "ewrap f as m = (case m of Inl e \<Rightarrow> Inl (Wrapf f as e) | Inr x \<Rightarrow> Inr x)"

fun efold :: "('a \<Rightarrow> 's \<Rightarrow> 'e + 's) \<Rightarrow> 'a list \<Rightarrow> 's \<Rightarrow> 'e + 's" where
  "efold f [] s = Inr s"
| "efold f (x # xs) s = ebind (f x s) (efold f xs)"

named_theorems ok_iff \<open>when a fallible step succeeds, and with what\<close>

lemma ebind_simps [simp]:
  "ebind (Inl e) f = Inl e"
  "ebind (Inr x) f = f x"
  by (simp_all add: ebind_def)

lemma ewrap_simps [simp]:
  "ewrap f as (Inl e) = Inl (Wrapf f as e)"
  "ewrap f as (Inr x) = Inr x"
  by (simp_all add: ewrap_def)

lemma ebind_Inr_iff [ok_iff]: "ebind m f = Inr y \<longleftrightarrow> (\<exists>x. m = Inr x \<and> f x = Inr y)"
  by (cases m) auto

lemma ewrap_Inr_iff [ok_iff]: "ewrap f as m = Inr y \<longleftrightarrow> m = Inr y"
  by (cases m) auto

lemma if_Inl_Inr_iff [ok_iff]: "(if b then Inl e else m) = Inr y \<longleftrightarrow> \<not> b \<and> m = Inr y"
  by simp

lemma ebind_cong [fundef_cong]:
  "m = m' \<Longrightarrow> (\<And>x. m' = Inr x \<Longrightarrow> f x = f' x) \<Longrightarrow> ebind m f = ebind m' f'"
  by (cases m') auto

lemma efold_append: "efold f (xs @ ys) s = ebind (efold f xs s) (efold f ys)"
proof (induction xs arbitrary: s)
  case (Cons x xs)
  then show ?case by (cases "f x s") auto
qed simp

text \<open>The loop rule: what every successful step keeps, a successful loop keeps.\<close>

lemma efold_invariant:
  assumes "efold f xs s = Inr s'" and "P s"
    and "\<And>x s s'. x \<in> set xs \<Longrightarrow> P s \<Longrightarrow> f x s = Inr s' \<Longrightarrow> P s'"
  shows "P s'"
  using assms
proof (induction xs arbitrary: s)
  case (Cons x xs)
  from Cons.prems(1) obtain s1 where s1: "f x s = Inr s1" "efold f xs s1 = Inr s'"
    by (auto simp: ebind_Inr_iff)
  have "P s1" using Cons.prems(2,3) s1(1) by auto
  then show ?case using Cons.IH [OF s1(2)] Cons.prems(3) by auto
qed simp

text \<open>
  The loop rule with the elements seen so far: the invariant speaks of the prefix the loop has
  consumed.
\<close>

lemma efold_prefix_invariant:
  assumes "efold f xs s = Inr s'" and "P [] s"
    and "\<And>ys x s s'. \<exists>zs. xs = ys @ x # zs \<Longrightarrow> P ys s \<Longrightarrow> f x s = Inr s' \<Longrightarrow> P (ys @ [x]) s'"
  shows "P xs s'"
proof -
  have "P (us @ vs) s'"
    if "efold f vs t = Inr s'" "P us t" "xs = us @ vs" for us vs t
    using that
  proof (induction vs arbitrary: us t)
    case (Cons v vs)
    from Cons.prems(1) obtain t1 where t1: "f v t = Inr t1" "efold f vs t1 = Inr s'"
      by (auto simp: ebind_Inr_iff)
    have "P (us @ [v]) t1" using assms(3) Cons.prems t1(1) by blast
    from Cons.IH [OF t1(2) this] Cons.prems(3) show ?case by simp
  qed simp
  from this [OF assms(1,2)] show ?thesis by simp
qed

text \<open>Progress: where each step succeeds from an invariant state, so does the loop.\<close>

lemma efold_progress:
  assumes "P [] s"
    and "\<And>ys x zs t. xs = ys @ x # zs \<Longrightarrow> P ys t \<Longrightarrow> \<exists>t'. f x t = Inr t' \<and> P (ys @ [x]) t'"
  shows "\<exists>s'. efold f xs s = Inr s' \<and> P xs s'"
proof -
  have "\<exists>s'. efold f vs t = Inr s' \<and> P xs s'" if "P us t" "xs = us @ vs" for us vs t
    using that
  proof (induction vs arbitrary: us t)
    case (Cons v vs)
    from assms(2) [OF Cons.prems(2,1)] obtain t1
      where "f v t = Inr t1" and p: "P (us @ [v]) t1" by blast
    with Cons.IH [OF p] Cons.prems(2) show ?case by simp
  qed simp
  from this [OF assms(1)] show ?thesis by simp
qed

section \<open>Numbers as decimal strings\<close>

definition digit_char :: "nat \<Rightarrow> char" where
  "digit_char n = char_of (48 + n)"

definition is_digit :: "char \<Rightarrow> bool" where
  "is_digit c \<longleftrightarrow> 48 \<le> (of_char c :: nat) \<and> (of_char c :: nat) \<le> 57"

definition digit_val :: "char \<Rightarrow> nat" where
  "digit_val c = of_char c - 48"

fun itoa :: "nat \<Rightarrow> string" where
  "itoa n = (if n < 10 then [digit_char n] else itoa (n div 10) @ [digit_char (n mod 10)])"

declare itoa.simps [simp del]

lemma of_char_digit_char: "n < 10 \<Longrightarrow> (of_char (digit_char n) :: nat) = 48 + n"
  by (simp add: digit_char_def)

lemma is_digit_digit_char [simp]: "n < 10 \<Longrightarrow> is_digit (digit_char n)"
  by (simp add: is_digit_def of_char_digit_char)

lemma digit_val_digit_char [simp]: "n < 10 \<Longrightarrow> digit_val (digit_char n) = n"
  by (simp add: digit_val_def of_char_digit_char)

lemma itoa_digits: "c \<in> set (itoa n) \<Longrightarrow> is_digit c"
proof (induction n rule: itoa.induct)
  case (1 n)
  then show ?case
    by (cases "n < 10") (auto simp: itoa.simps [of n])
qed

lemma itoa_nonempty [simp]: "itoa n \<noteq> []"
  by (subst itoa.simps) simp

text \<open>\<^verbatim>\<open>strconv.ParseUint(s, 10, width)\<close>: decimal digits only, below \<open>2 ^ width\<close>.\<close>

definition digits_val :: "string \<Rightarrow> nat" where
  "digits_val s = foldl (\<lambda>v c. v * 10 + digit_val c) 0 s"

definition parse_uint :: "string \<Rightarrow> nat \<Rightarrow> nat result" where
  "parse_uint s w =
     (if s = [] \<or> \<not> list_all is_digit s
      then Inl (Errf ''strconv.ParseUint: parsing %q: invalid syntax'' [s])
      else if digits_val s \<ge> 2 ^ w
      then Inl (Errf ''strconv.ParseUint: parsing %q: value out of range'' [s])
      else Inr (digits_val s))"

lemma digits_val_snoc: "digits_val (s @ [c]) = digits_val s * 10 + digit_val c"
  by (simp add: digits_val_def)

lemma digits_val_itoa [simp]: "digits_val (itoa n) = n"
proof (induction n rule: itoa.induct)
  case (1 n)
  then show ?case
    by (cases "n < 10") (simp_all add: itoa.simps [of n] digits_val_snoc, simp add: digits_val_def)
qed

lemma parse_uint_itoa: "n < 2 ^ w \<Longrightarrow> parse_uint (itoa n) w = Inr n"
  by (auto simp: parse_uint_def list_all_iff dest: itoa_digits)

section \<open>Strings\<close>

definition has_prefix :: "string \<Rightarrow> string \<Rightarrow> bool" where
  "has_prefix s p \<longleftrightarrow> take (length p) s = p"

definition has_suffix :: "string \<Rightarrow> string \<Rightarrow> bool" where
  "has_suffix s p \<longleftrightarrow> has_prefix (rev s) (rev p)"

text \<open>\<^verbatim>\<open>strings.Split\<close> for a separator of one character.\<close>

fun split_on :: "char \<Rightarrow> string \<Rightarrow> string list" where
  "split_on c [] = [[]]"
| "split_on c (x # xs) =
     (if x = c then [] # split_on c xs
      else (case split_on c xs of [] \<Rightarrow> [[x]] | w # ws \<Rightarrow> (x # w) # ws))"

text \<open>\<^verbatim>\<open>strings.SplitN(s, sep, 2)\<close>: the part before the first separator and, if there is one, the rest.\<close>

definition split2 :: "char \<Rightarrow> string \<Rightarrow> string list" where
  "split2 c s =
     (case dropWhile (\<lambda>x. x \<noteq> c) s of
        [] \<Rightarrow> [s]
      | _ # r \<Rightarrow> [takeWhile (\<lambda>x. x \<noteq> c) s, r])"

text \<open>\<^verbatim>\<open>strings.TrimSpace\<close>, on ASCII.\<close>

definition is_space :: "char \<Rightarrow> bool" where
  "is_space c \<longleftrightarrow> (let n = (of_char c :: nat) in n = 32 \<or> (9 \<le> n \<and> n \<le> 13))"

definition trim_space :: "string \<Rightarrow> string" where
  "trim_space s = rev (dropWhile is_space (rev (dropWhile is_space s)))"

text \<open>\<^verbatim>\<open>strconv.Atoi\<close>: an optional sign and decimal digits, within 64 bits.\<close>

definition atoi :: "string \<Rightarrow> int option" where
  "atoi s =
     (let (neg, ds) = (case s of c # cs \<Rightarrow> if c = CHR ''-'' then (True, cs) else if c = CHR ''+'' then (False, cs) else (False, s) | [] \<Rightarrow> (False, []))
      in if ds = [] \<or> \<not> list_all is_digit ds then None
         else (let v = (if neg then - int (digits_val ds) else int (digits_val ds))
               in if - (2 ^ 63) \<le> v \<and> v < 2 ^ 63 then Some v else None))"

text \<open>\<^verbatim>\<open>strings.Join\<close>.\<close>

fun join_with :: "string \<Rightarrow> string list \<Rightarrow> string" where
  "join_with sep [] = []"
| "join_with sep [x] = x"
| "join_with sep (x # y # ys) = x @ sep @ join_with sep (y # ys)"

lemma split_on_nonempty [simp]: "split_on c s \<noteq> []"
  by (induction s) (auto split: list.splits)

lemma split2_no_sep: "c \<notin> set s \<Longrightarrow> split2 c s = [s]"
proof -
  assume "c \<notin> set s"
  then have "dropWhile (\<lambda>x. x \<noteq> c) s = []" unfolding dropWhile_eq_Nil_conv by auto
  then show ?thesis unfolding split2_def by (simp only: list.case)
qed

lemma split2_sep: "c \<notin> set s \<Longrightarrow> split2 c (s @ c # r) = [s, r]"
proof -
  assume "c \<notin> set s"
  then have "dropWhile (\<lambda>x. x \<noteq> c) (s @ c # r) = c # r" "takeWhile (\<lambda>x. x \<noteq> c) (s @ c # r) = s"
    by (induction s) auto
  then show ?thesis by (simp add: split2_def)
qed

section \<open>Go maps as association lists\<close>

type_synonym 'v gomap = "(string \<times> 'v) list"

fun map_put :: "'k \<Rightarrow> 'v \<Rightarrow> ('k \<times> 'v) list \<Rightarrow> ('k \<times> 'v) list" where
  "map_put k v [] = [(k, v)]"
| "map_put k v ((k', v') # m) = (if k = k' then (k, v) # m else (k', v') # map_put k v m)"

definition put_absent :: "'k \<Rightarrow> 'v \<Rightarrow> ('k \<times> 'v) list \<Rightarrow> ('k \<times> 'v) list" where
  "put_absent k v m = (case map_of m k of None \<Rightarrow> map_put k v m | Some _ \<Rightarrow> m)"

lemma map_of_map_put [simp]: "map_of (map_put k v m) = (map_of m)(k \<mapsto> v)"
  by (induction k v m rule: map_put.induct) auto

lemma keys_map_put: "fst ` set (map_put k v m) = insert k (fst ` set m)"
  by (induction k v m rule: map_put.induct) auto

lemma distinct_map_put: "distinct (map fst m) \<Longrightarrow> distinct (map fst (map_put k v m))"
proof (induction k v m rule: map_put.induct)
  case (2 k v k' v' m)
  have "k' \<in> set (map fst (map_put k v m)) \<longleftrightarrow> k' = k \<or> k' \<in> set (map fst m)"
    using keys_map_put [of k v m] by (simp flip: set_map)
  with 2 show ?case by auto
qed simp

lemma map_of_put_absent:
  "map_of (put_absent k v m) x = (case map_of m x of None \<Rightarrow> if x = k then Some v else None | Some y \<Rightarrow> Some y)"
  by (auto simp: put_absent_def split: option.splits)

section \<open>Sorting and lists\<close>

lemma distinct_sort_key [simp]: "distinct (map g (sort_key f xs)) = distinct (map g xs)"
  by (metis mset_map mset_sort mset_eq_imp_distinct_iff)

end
