(* ===== verification/NetIP.thy ===== *)
theory NetIP
  imports Prelude "HOL-Library.Word"
begin

text \<open>
  The part of the Go standard library package \<^verbatim>\<open>net/netip\<close> the program computes with: addresses,
  prefixes, their parsers and printers. An IPv4 address is a 32-bit word and an IPv6 address a
  128-bit word with its zone; \<open>NoAddr\<close> is the zero \<^verbatim>\<open>netip.Addr\<close>, which is not valid. A prefix
  keeps its length as an integer, -1 when the prefix is not valid, as \<^verbatim>\<open>Prefix.Bits\<close> reports it.
\<close>

unbundle bit_operations_syntax

section \<open>Addresses\<close>

datatype addr = NoAddr | V4 "32 word" | V6 "128 word" string

fun addr_is_valid :: "addr \<Rightarrow> bool" where
  "addr_is_valid NoAddr = False"
| "addr_is_valid _ = True"

fun addr_is4 :: "addr \<Rightarrow> bool" where
  "addr_is4 (V4 _) = True"
| "addr_is4 _ = False"

fun addr_bit_len :: "addr \<Rightarrow> nat" where
  "addr_bit_len NoAddr = 0"
| "addr_bit_len (V4 _) = 32"
| "addr_bit_len (V6 _ _) = 128"

fun addr_next :: "addr \<Rightarrow> addr" where
  "addr_next NoAddr = NoAddr"
| "addr_next (V4 w) = (if w + 1 = 0 then NoAddr else V4 (w + 1))"
| "addr_next (V6 w z) = (if w + 1 = 0 then NoAddr else V6 (w + 1) z)"

text \<open>\<^verbatim>\<open>Addr.Compare\<close>: bit length, then value, then zone.\<close>

fun addr_compare :: "addr \<Rightarrow> addr \<Rightarrow> int" where
  "addr_compare (V4 a) (V4 b) = (if a < b then -1 else if b < a then 1 else 0)"
| "addr_compare (V6 a y) (V6 b z) =
     (if a < b then -1 else if b < a then 1 else if y < z then -1 else if z < y then 1 else 0)"
| "addr_compare a b =
     (if addr_bit_len a < addr_bit_len b then -1
      else if addr_bit_len b < addr_bit_len a then 1 else 0)"

section \<open>Printing addresses\<close>

definition v4_octets :: "32 word \<Rightarrow> nat list" where
  "v4_octets w =
     (let n = unat w in [n div 2 ^ 24, n div 2 ^ 16 mod 256, n div 2 ^ 8 mod 256, n mod 256])"

definition v4_string :: "32 word \<Rightarrow> string" where
  "v4_string w = join_with ''.'' (map itoa (v4_octets w))"

definition hex_char :: "nat \<Rightarrow> char" where
  "hex_char n = (if n < 10 then digit_char n else char_of (87 + n))"

fun hex_string :: "nat \<Rightarrow> string" where
  "hex_string n = (if n < 16 then [hex_char n] else hex_string (n div 16) @ [hex_char (n mod 16)])"

declare hex_string.simps [simp del]

definition v6_groups :: "128 word \<Rightarrow> nat list" where
  "v6_groups w = map (\<lambda>i. unat w div 2 ^ (16 * (7 - i)) mod 65536) [0..<8]"

definition zero_run :: "nat list \<Rightarrow> nat \<Rightarrow> nat" where
  "zero_run gs i = length (takeWhile (\<lambda>g. g = 0) (drop i gs))"

text \<open>The first longest run of at least two zero groups: its start and end.\<close>

definition longest_zero_run :: "nat list \<Rightarrow> (nat \<times> nat) option" where
  "longest_zero_run gs =
     foldl (\<lambda>best i. let l = zero_run gs i in
              if l \<ge> 2 \<and> (case best of None \<Rightarrow> True | Some (s, e) \<Rightarrow> e - s < l)
              then Some (i, i + l) else best) None [0..<length gs]"

definition v6_string :: "128 word \<Rightarrow> string" where
  "v6_string w =
     (let gs = v6_groups w in
      case longest_zero_run gs of
        None \<Rightarrow> join_with '':'' (map hex_string gs)
      | Some (s, e) \<Rightarrow>
          join_with '':'' (map hex_string (take s gs)) @ ''::'' @
          join_with '':'' (map hex_string (drop e gs)))"

definition addr_is4in6 :: "128 word \<Rightarrow> bool" where
  "addr_is4in6 w \<longleftrightarrow> unat w div 2 ^ 32 = 65535"

fun addr_string :: "addr \<Rightarrow> string" where
  "addr_string NoAddr = ''invalid IP''"
| "addr_string (V4 w) = v4_string w"
| "addr_string (V6 w z) =
     (if addr_is4in6 w then ''::ffff:'' @ v4_string (word_of_nat (unat w mod 2 ^ 32)) else v6_string w)
       @ (if z = [] then [] else ''%'' @ z)"

section \<open>Parsing addresses\<close>

definition addr_err :: "string \<Rightarrow> string \<Rightarrow> 'a result" where
  "addr_err s msg = Inl (Errf (''ParseAddr(%q): '' @ msg) [s])"

text \<open>
  \<^verbatim>\<open>parseIPv4Fields\<close>: one pass over the characters, with the previous character, the value and
  number of digits of the current octet and the octets completed so far.
\<close>

fun v4_fields :: "string \<Rightarrow> string \<Rightarrow> char option \<Rightarrow> nat \<Rightarrow> nat \<Rightarrow> nat list \<Rightarrow> nat list result" where
  "v4_fields src [] prev val dl fs =
     (if length fs < 3 then addr_err src ''IPv4 address too short'' else Inr (fs @ [val]))"
| "v4_fields src (c # s) prev val dl fs =
     (if is_digit c then
        if dl = 1 \<and> val = 0 then addr_err src ''IPv4 field has octet with leading zero''
        else if val * 10 + digit_val c > 255 then addr_err src ''IPv4 field has value >255''
        else v4_fields src s (Some c) (val * 10 + digit_val c) (dl + 1) fs
      else if c = CHR ''.'' then
        if prev = None \<or> s = [] \<or> prev = Some (CHR ''.'')
        then addr_err src ''IPv4 field must have at least one digit''
        else if length fs = 3 then addr_err src ''IPv4 address too long''
        else v4_fields src s (Some c) 0 0 (fs @ [val])
      else addr_err src ''unexpected character'')"

definition v4_of_octets :: "nat list \<Rightarrow> 32 word" where
  "v4_of_octets fs = word_of_nat (foldl (\<lambda>v f. v * 256 + f) 0 fs)"

definition parse_v4 :: "string \<Rightarrow> addr result" where
  "parse_v4 s = ebind (v4_fields s s None 0 0 []) (\<lambda>fs. Inr (V4 (v4_of_octets fs)))"

definition is_hex :: "char \<Rightarrow> bool" where
  "is_hex c \<longleftrightarrow> is_digit c \<or> (let n = (of_char c :: nat) in (97 \<le> n \<and> n \<le> 102) \<or> (65 \<le> n \<and> n \<le> 70))"

definition hex_val :: "char \<Rightarrow> nat" where
  "hex_val c = (let n = (of_char c :: nat) in if n \<le> 57 then n - 48 else if 97 \<le> n then n - 87 else n - 55)"

text \<open>The loop of \<^verbatim>\<open>parseIPv6\<close>: the groups so far and the place of the \<^verbatim>\<open>::\<close> seen, if any.\<close>

function v6_loop :: "string \<Rightarrow> string \<Rightarrow> nat list \<Rightarrow> nat option \<Rightarrow> (nat list \<times> nat option \<times> string) result" where
  "v6_loop src s gs ell =
     (if length gs \<ge> 8 then Inr (gs, ell, s)
      else
        let h = takeWhile is_hex s; r = dropWhile is_hex s;
            gs' = gs @ [foldl (\<lambda>v c. v * 16 + hex_val c) 0 h] in
        if length h > 4 then addr_err src ''each group must have 4 or less digits''
        else if h = [] then addr_err src ''each colon-separated field must have at least one digit''
        else (case r of
          [] \<Rightarrow> Inr (gs', ell, [])
        | c # r' \<Rightarrow>
            if c = CHR ''.'' then
              if ell = None \<and> length gs \<noteq> 6
              then addr_err src ''embedded IPv4 address must replace the final 2 fields of the address''
              else if length gs + 2 > 8
              then addr_err src ''too many hex fields to fit an embedded IPv4 at the end of the address''
              else ebind (v4_fields src s None 0 0 []) (\<lambda>fs.
                Inr (gs @ [fs ! 0 * 256 + fs ! 1, fs ! 2 * 256 + fs ! 3], ell, []))
            else if c \<noteq> CHR '':'' then addr_err src ''unexpected character, want colon''
            else (case r' of
              [] \<Rightarrow> addr_err src ''colon must be followed by more characters''
            | c2 # r2 \<Rightarrow>
                if c2 = CHR '':'' then
                  if ell \<noteq> None then addr_err src ''multiple :: in address''
                  else if r2 = [] then Inr (gs', Some (length gs'), [])
                  else v6_loop src r2 gs' (Some (length gs'))
                else v6_loop src r' gs' ell)))"
  by pat_completeness auto
termination
proof (relation "measure (\<lambda>(src, s, gs, ell). length s)", goal_cases)
  case (2 src s gs ell h r gs' c r' c2 r2)
  then have "length (c # c2 # r2) \<le> length s" by (metis length_dropWhile_le)
  then show ?case by simp
next
  case (3 src s gs ell h r gs' c r' c2 r2)
  then have "length (c # c2 # r2) \<le> length s" by (metis length_dropWhile_le)
  with 3 show ?case by simp
qed simp

declare v6_loop.simps [simp del]

definition v6_of_groups :: "nat list \<Rightarrow> 128 word" where
  "v6_of_groups gs = word_of_nat (foldl (\<lambda>v g. v * 65536 + g) 0 gs)"

definition v6_finish :: "string \<Rightarrow> string \<Rightarrow> nat list \<times> nat option \<times> string \<Rightarrow> addr result" where
  "v6_finish src zone st =
     (case st of (gs, ell, rest) \<Rightarrow>
        if rest \<noteq> [] then addr_err src ''trailing garbage after address''
        else if length gs < 8 then
          (case ell of
             None \<Rightarrow> addr_err src ''address string too short''
           | Some k \<Rightarrow> Inr (V6 (v6_of_groups (take k gs @ replicate (8 - length gs) 0 @ drop k gs)) zone))
        else if ell \<noteq> None then addr_err src ''the :: must expand to at least one field of zeros''
        else Inr (V6 (v6_of_groups gs) zone))"

definition parse_v6 :: "string \<Rightarrow> addr result" where
  "parse_v6 src =
     (let s = takeWhile (\<lambda>c. c \<noteq> CHR ''%'') src;
          pct = dropWhile (\<lambda>c. c \<noteq> CHR ''%'') src;
          zone = drop 1 pct in
      if pct \<noteq> [] \<and> zone = [] then addr_err src ''zone must be a non-empty string''
      else if has_prefix s ''::'' then
        if length s = 2 then Inr (V6 0 zone)
        else ebind (v6_loop src (drop 2 s) [] (Some 0)) (v6_finish src zone)
      else ebind (v6_loop src s [] None) (v6_finish src zone))"

text \<open>\<^verbatim>\<open>netip.ParseAddr\<close>: the first of the separators decides the family.\<close>

definition parse_addr :: "string \<Rightarrow> addr result" where
  "parse_addr s =
     (case dropWhile (\<lambda>c. c \<noteq> CHR ''.'' \<and> c \<noteq> CHR '':'' \<and> c \<noteq> CHR ''%'') s of
        [] \<Rightarrow> addr_err s ''unable to parse IP''
      | c # _ \<Rightarrow>
          if c = CHR ''.'' then parse_v4 s
          else if c = CHR '':'' then parse_v6 s
          else addr_err s ''missing IPv6 address'')"

section \<open>Prefixes\<close>

record prefix =
  pf_addr :: addr
  pf_bits :: int

definition no_prefix :: prefix where
  "no_prefix = \<lparr>pf_addr = NoAddr, pf_bits = -1\<rparr>"

fun without_zone :: "addr \<Rightarrow> addr" where
  "without_zone (V6 w z) = V6 w []"
| "without_zone a = a"

definition prefix_from :: "addr \<Rightarrow> int \<Rightarrow> prefix" where
  "prefix_from a b =
     \<lparr>pf_addr = without_zone a,
      pf_bits = (if addr_is_valid a \<and> 0 \<le> b \<and> b \<le> int (addr_bit_len a) then b else -1)\<rparr>"

definition prefix_is_valid :: "prefix \<Rightarrow> bool" where
  "prefix_is_valid p \<longleftrightarrow> pf_bits p \<ge> 0"

fun addr_mask :: "addr \<Rightarrow> nat \<Rightarrow> addr" where
  "addr_mask NoAddr n = NoAddr"
| "addr_mask (V4 w) n = V4 (w AND NOT (mask (32 - n)))"
| "addr_mask (V6 w z) n = V6 (w AND NOT (mask (128 - n))) []"

definition prefix_masked :: "prefix \<Rightarrow> prefix" where
  "prefix_masked p =
     (if prefix_is_valid p then \<lparr>pf_addr = addr_mask (pf_addr p) (nat (pf_bits p)), pf_bits = pf_bits p\<rparr>
      else no_prefix)"

definition prefix_contains :: "prefix \<Rightarrow> addr \<Rightarrow> bool" where
  "prefix_contains p a =
     (prefix_is_valid p \<and>
      (case (pf_addr p, a) of
         (V4 x, V4 y) \<Rightarrow> drop_bit (32 - nat (pf_bits p)) (x XOR y) = 0
       | (V6 x _, V6 y z) \<Rightarrow> z = [] \<and> drop_bit (128 - nat (pf_bits p)) (x XOR y) = 0
       | _ \<Rightarrow> False))"

definition prefix_overlaps :: "prefix \<Rightarrow> prefix \<Rightarrow> bool" where
  "prefix_overlaps p q =
     (prefix_is_valid p \<and> prefix_is_valid q \<and>
      (p = q \<or>
       (addr_is4 (pf_addr p) = addr_is4 (pf_addr q) \<and>
        (let m = min (pf_bits p) (pf_bits q) in
         m = 0 \<or> addr_mask (pf_addr p) (nat m) = addr_mask (pf_addr q) (nat m)))))"

definition prefix_string :: "prefix \<Rightarrow> string" where
  "prefix_string p =
     (if prefix_is_valid p then addr_string (pf_addr p) @ ''/'' @ itoa (nat (pf_bits p))
      else ''invalid Prefix'')"

definition prefix_err :: "string \<Rightarrow> string \<Rightarrow> 'a result" where
  "prefix_err s msg = Inl (Errf (''netip.ParsePrefix(%q): '' @ msg) [s])"

text \<open>
  \<^verbatim>\<open>netip.ParsePrefix\<close>: the address before the last slash and the length after it, written without
  sign or leading zero.
\<close>

definition parse_prefix :: "string \<Rightarrow> prefix result" where
  "parse_prefix s =
     (let back = dropWhile (\<lambda>c. c \<noteq> CHR ''/'') (rev s);
          bits_str = rev (takeWhile (\<lambda>c. c \<noteq> CHR ''/'') (rev s)) in
      if back = [] then prefix_err s (''no '' @ [CHR 0x27, CHR ''/'', CHR 0x27])
      else
        case parse_addr (rev (tl back)) of
          Inl e \<Rightarrow> Inl (Wrapf ''netip.ParsePrefix(%q)'' [s] e)
        | Inr ip \<Rightarrow>
            if (case ip of V6 _ z \<Rightarrow> z \<noteq> [] | _ \<Rightarrow> False)
            then prefix_err s ''IPv6 zones cannot be present in a prefix''
            else if bits_str = [] \<or> \<not> list_all is_digit bits_str \<or>
                    (length bits_str > 1 \<and> hd bits_str = CHR ''0'')
            then prefix_err s ''bad bits after slash''
            else if digits_val bits_str > (if addr_is4 ip then 32 else 128)
            then prefix_err s ''prefix length out of range''
            else Inr (prefix_from ip (int (digits_val bits_str))))"

section \<open>Printing and parsing IPv4 addresses\<close>

lemma v4_octets_bound: "f \<in> set (v4_octets w) \<Longrightarrow> f \<le> 255"
proof -
  have "unat w < 2 ^ 32" using unsigned_less [of w, where ?'a = nat] by simp
  moreover assume "f \<in> set (v4_octets w)"
  ultimately show ?thesis by (auto simp: v4_octets_def Let_def)
qed

lemma v4_of_octets_v4_octets [simp]: "v4_of_octets (v4_octets w) = w"
proof -
  let ?n = "unat w"
  have split: "m div 256 * 256 + m mod 256 = m" for m :: nat
    by (rule div_mult_mod_eq)
  have "?n div 2 ^ 16 div 256 = ?n div 2 ^ 24" "?n div 2 ^ 8 div 256 = ?n div 2 ^ 16" "?n div 256 = ?n div 2 ^ 8"
    by (simp_all flip: div_mult2_eq)
  then have "((?n div 2 ^ 24 * 256 + ?n div 2 ^ 16 mod 256) * 256 + ?n div 2 ^ 8 mod 256) * 256 + ?n mod 256 = ?n"
    using split [of "?n div 2 ^ 16"] split [of "?n div 2 ^ 8"] split [of ?n] by metis
  then show ?thesis
    by (simp add: v4_of_octets_def v4_octets_def Let_def add.commute)
qed

lemma itoa_octet_cases:
  assumes "n \<le> 255"
  obtains "n < 10" "itoa n = [digit_char n]"
  | "10 \<le> n" "n < 100" "itoa n = [digit_char (n div 10), digit_char (n mod 10)]"
  | "100 \<le> n" "itoa n = [digit_char (n div 100), digit_char (n div 10 mod 10), digit_char (n mod 10)]"
proof -
  consider "n < 10" | "10 \<le> n" "n < 100" | "100 \<le> n" by linarith
  then show ?thesis
  proof cases
    case 1
    then show ?thesis using that(1) by (simp add: itoa.simps [of n])
  next
    case 2
    then show ?thesis using that(2) by (simp add: itoa.simps [of n] itoa.simps [of "n div 10"])
  next
    case 3
    have "n div 10 div 10 = n div 100" by (simp flip: div_mult2_eq)
    moreover have "\<not> n < 10" "\<not> n div 10 < 10" "n div 100 < 10" using 3 assms by auto
    ultimately have "itoa n = [digit_char (n div 100), digit_char (n div 10 mod 10), digit_char (n mod 10)]"
      by (simp add: itoa.simps [of n] itoa.simps [of "n div 10"] itoa.simps [of "n div 100"])
    with 3 show ?thesis using that(3) by simp
  qed
qed

text \<open>The parser reads back an octet as it is printed, at the start of a field.\<close>

lemma v4_fields_itoa:
  assumes "n \<le> 255"
  shows "\<exists>dl. v4_fields src (itoa n @ s) prev 0 0 fs = v4_fields src s (Some (last (itoa n))) n dl fs"
  using assms
proof (cases n rule: itoa_octet_cases)
  case 3
  have "n div 100 = n div 10 div 10" by (simp flip: div_mult2_eq)
  then have "(n div 100 * 10 + n div 10 mod 10) * 10 + n mod 10 = n" by simp
  with 3 assms show ?thesis by (auto simp: algebra_simps)
qed auto

lemma digit_not_sep: "is_digit c \<Longrightarrow> c \<noteq> CHR ''.'' \<and> c \<noteq> CHR '':'' \<and> c \<noteq> CHR ''%'' \<and> c \<noteq> CHR ''/''"
  by (auto simp: is_digit_def)

lemma not_digit_dot [simp]: "\<not> is_digit (CHR ''.'')"
  by (simp add: is_digit_def)

lemma digit_char_zero: "n < 10 \<Longrightarrow> digit_char n = CHR ''0'' \<longleftrightarrow> n = 0"
proof -
  assume n: "n < 10"
  have "digit_char 0 = CHR ''0''" by (simp add: digit_char_def char_of_eq_iff)
  then show ?thesis using digit_val_digit_char [OF n] digit_val_digit_char [of 0] by force
qed

lemma last_itoa_not_dot: "last (itoa n) \<noteq> CHR ''.''"
  using itoa_digits [of "last (itoa n)" n] digit_not_sep by auto

lemma v4_fields_octet_dot:
  assumes "n \<le> 255" "length fs < 3" "s \<noteq> []"
  shows "v4_fields src (itoa n @ CHR ''.'' # s) prev 0 0 fs = v4_fields src s (Some (CHR ''.'')) 0 0 (fs @ [n])"
  using v4_fields_itoa [OF assms(1), of src "CHR ''.'' # s" prev fs] assms last_itoa_not_dot [of n] by auto

lemma v4_fields_octet_end:
  assumes "n \<le> 255" "length fs = 3"
  shows "v4_fields src (itoa n) prev 0 0 fs = Inr (fs @ [n])"
  using v4_fields_itoa [OF assms(1), of src "[]" prev fs] assms by auto

lemma parse_addr_v4_string [simp]: "parse_addr (v4_string w) = Inr (V4 w)"
proof -
  obtain a b c d where o: "v4_octets w = [a, b, c, d]"
    by (simp add: v4_octets_def Let_def)
  then have le: "a \<le> 255" "b \<le> 255" "c \<le> 255" "d \<le> 255"
    using v4_octets_bound [of _ w] by auto
  have s: "v4_string w = itoa a @ CHR ''.'' # itoa b @ CHR ''.'' # itoa c @ CHR ''.'' # itoa d"
    by (simp add: v4_string_def o)
  have "dropWhile (\<lambda>c. c \<noteq> CHR ''.'' \<and> c \<noteq> CHR '':'' \<and> c \<noteq> CHR ''%'') (itoa a @ CHR ''.'' # r) = CHR ''.'' # r" for r
    by (rule trans [OF dropWhile_append2]) (auto dest!: itoa_digits digit_not_sep)
  moreover have "v4_fields src (itoa a @ CHR ''.'' # itoa b @ CHR ''.'' # itoa c @ CHR ''.'' # itoa d) None 0 0 [] = Inr [a, b, c, d]" for src
    by (simp add: v4_fields_octet_dot v4_fields_octet_end le)
  ultimately show ?thesis
    by (simp add: parse_addr_def parse_v4_def s flip: o)
qed

section \<open>Round trip of IPv4 prefixes\<close>

definition v4_prefix :: "32 word \<Rightarrow> nat \<Rightarrow> prefix" where
  "v4_prefix w n = \<lparr>pf_addr = V4 w, pf_bits = int n\<rparr>"

lemma v4_prefix_sel [simp]:
  "pf_addr (v4_prefix w n) = V4 w" "pf_bits (v4_prefix w n) = int n"
  by (simp_all add: v4_prefix_def)

lemma v4_prefix_valid [simp]: "prefix_is_valid (v4_prefix w n)"
  by (simp add: prefix_is_valid_def)

lemma prefix_from_v4 [simp]: "n \<le> 32 \<Longrightarrow> prefix_from (V4 w) (int n) = v4_prefix w n"
  by (simp add: prefix_from_def v4_prefix_def)

lemma slash_not_in_v4_string: "CHR ''/'' \<notin> set (v4_string w)"
proof
  assume "CHR ''/'' \<in> set (v4_string w)"
  then have "\<exists>n. CHR ''/'' \<in> set (itoa n)"
    by (auto simp: v4_string_def v4_octets_def Let_def)
  then show False using itoa_digits digit_not_sep by blast
qed

lemma parse_prefix_v4_string:
  assumes "n \<le> 32"
  shows "parse_prefix (v4_string w @ CHR ''/'' # itoa n) = Inr (v4_prefix w n)"
proof -
  let ?p = "\<lambda>c. c \<noteq> CHR ''/''"
  have slash: "\<forall>c\<in>set (rev (itoa n)). ?p c"
    using itoa_digits digit_not_sep by fastforce
  have dw: "dropWhile ?p (rev (itoa n) @ CHR ''/'' # rev (v4_string w)) = CHR ''/'' # rev (v4_string w)"
    using slash by (subst dropWhile_append2) auto
  have tw: "takeWhile ?p (rev (itoa n) @ CHR ''/'' # rev (v4_string w)) = rev (itoa n)"
    using slash by (subst takeWhile_append2) auto
  have zero: "hd (itoa n) \<noteq> CHR ''0'' \<or> length (itoa n) \<le> 1"
  proof (cases "n < 10")
    case False
    with assms have "n \<le> 255" by simp
    then show ?thesis
      by (cases n rule: itoa_octet_cases) (use assms False in \<open>auto simp: digit_char_zero\<close>)
  qed (simp add: itoa.simps [of n])
  have "list_all is_digit (itoa n)" by (auto simp: list_all_iff dest: itoa_digits)
  with assms zero show ?thesis
    by (auto simp: parse_prefix_def dw tw)
qed

lemma prefix_string_v4: "n \<le> 32 \<Longrightarrow> prefix_string (v4_prefix w n) = v4_string w @ CHR ''/'' # itoa n"
  by (simp add: prefix_string_def)

lemma parse_prefix_string_v4 [simp]:
  "n \<le> 32 \<Longrightarrow> parse_prefix (prefix_string (v4_prefix w n)) = Inr (v4_prefix w n)"
  by (simp add: prefix_string_v4 parse_prefix_v4_string)

section \<open>Arithmetic of IPv4 addresses and prefixes\<close>

text \<open>An address \<open>k\<close> steps after a base, where the 32-bit range is not left.\<close>

lemma addr_next_v4:
  assumes "unat w + 1 < 2 ^ 32"
  shows "addr_next (V4 w) = V4 (w + 1)"
proof -
  have "unat (w + 1) = unat w + 1" using assms by (simp add: unat_word_ariths)
  then have "w + 1 \<noteq> 0" by (metis add_is_0 one_neq_zero unat_0)
  then show ?thesis by simp
qed

lemma addr_next_funpow_v4:
  "unat w + k < 2 ^ 32 \<Longrightarrow> (addr_next ^^ k) (V4 w) = V4 (w + word_of_nat k)"
proof (induction k)
  case (Suc k)
  then have "unat (w + word_of_nat k) = unat w + k"
    by (simp add: unat_word_ariths unat_of_nat take_bit_nat_eq_self)
  with Suc show ?case by (simp add: addr_next_v4 del: addr_next.simps)
qed simp

lemma word_xor_eq_0_iff: "x XOR y = 0 \<longleftrightarrow> x = y" for x y :: "'a::len word"
proof
  assume "x XOR y = 0"
  then have "x XOR (x XOR y) = x" by simp
  then show "x = y" by (simp flip: xor.assoc)
qed simp

lemma drop_bit_xor_eq_0_iff:
  "drop_bit n (x XOR y) = 0 \<longleftrightarrow> unat x div 2 ^ n = unat y div 2 ^ n" for x y :: "32 word"
proof -
  have "drop_bit n (x XOR y) = 0 \<longleftrightarrow> drop_bit n x = drop_bit n y"
    by (simp add: word_xor_eq_0_iff)
  also have "\<dots> \<longleftrightarrow> unat (drop_bit n x) = unat (drop_bit n y)" by (rule word_unat_eq_iff)
  also have "\<dots> \<longleftrightarrow> unat x div 2 ^ n = unat y div 2 ^ n"
    by (simp only: unat_drop_bit_eq drop_bit_nat_def)
  finally show ?thesis .
qed

lemma contains_v4_iff:
  "prefix_contains (v4_prefix x n) (V4 y) \<longleftrightarrow> unat x div 2 ^ (32 - n) = unat y div 2 ^ (32 - n)"
  by (simp add: prefix_contains_def drop_bit_xor_eq_0_iff del: drop_bit_xor)

lemma unat_and_not_mask: "unat (w AND NOT (mask n)) = unat w div 2 ^ n * 2 ^ n" for w :: "32 word"
proof -
  have "w AND NOT (mask n) = push_bit n (drop_bit n w)"
    by (rule bit_eqI) (auto simp: bit_simps)
  then have "w AND NOT (mask n) = w - take_bit n w"
    by (metis add_diff_cancel_right' bits_ident)
  moreover have "take_bit n w \<le> w" by (simp add: take_bit_eq_mask word_and_le2)
  ultimately have "unat (w AND NOT (mask n)) = unat w - unat (take_bit n w)"
    by (simp add: unat_sub)
  also have "unat (take_bit n w) = unat w mod 2 ^ n" by (simp only: unsigned_take_bit_eq take_bit_nat_def)
  finally show ?thesis by (simp add: minus_mod_eq_div_mult)
qed

definition v4_base :: "32 word \<Rightarrow> nat \<Rightarrow> 32 word" where
  "v4_base w n = w AND NOT (mask (32 - n))"

lemma prefix_masked_v4 [simp]: "prefix_masked (v4_prefix w n) = v4_prefix (v4_base w n) n"
  by (simp add: prefix_masked_def v4_base_def v4_prefix_def prefix_is_valid_def)

lemma unat_v4_base: "unat (v4_base w n) = unat w div 2 ^ (32 - n) * 2 ^ (32 - n)"
  by (simp add: v4_base_def unat_and_not_mask)

text \<open>Every address less than the size of a prefix above its base lies in the prefix.\<close>

lemma contains_v4_offset:
  assumes "n \<le> 32" "k < 2 ^ (32 - n)"
  shows "unat (v4_base w n) + k < 2 ^ 32"
    and "prefix_contains (v4_prefix w n) (V4 (v4_base w n + word_of_nat k))"
proof -
  let ?m = "2 ^ (32 - n) :: nat" and ?b = "unat (v4_base w n)"
  have split: "(2::nat) ^ 32 = 2 ^ n * ?m" using assms(1) by (simp flip: power_add)
  have "unat w < 2 ^ n * ?m" using unsigned_less [of w, where ?'a = nat] split by simp
  then have "unat w div ?m < 2 ^ n" by (simp add: less_mult_imp_div_less)
  then have "(unat w div ?m + 1) * ?m \<le> 2 ^ n * ?m" by (intro mult_le_mono1) simp
  then show lt: "?b + k < 2 ^ 32" using assms(2) split by (simp add: unat_v4_base)
  then have "unat (v4_base w n + word_of_nat k) = ?b + k"
    by (simp add: unat_word_ariths unat_of_nat take_bit_nat_eq_self)
  then show "prefix_contains (v4_prefix w n) (V4 (v4_base w n + word_of_nat k))"
    using assms(2) by (simp add: contains_v4_iff unat_v4_base)
qed

section \<open>Overlap of IPv4 prefixes\<close>

lemma div_pow_coarser:
  "n \<le> m \<Longrightarrow> m \<le> 32 \<Longrightarrow> (a::nat) div 2 ^ (32 - m) = b div 2 ^ (32 - m) \<Longrightarrow> a div 2 ^ (32 - n) = b div 2 ^ (32 - n)"
proof -
  assume nm: "n \<le> m" "m \<le> 32" and eq: "a div 2 ^ (32 - m) = b div 2 ^ (32 - m)"
  have "(2::nat) ^ (32 - n) = 2 ^ (32 - m) * 2 ^ (m - n)"
    using nm by (simp flip: power_add)
  with eq show ?thesis by (simp add: div_mult2_eq)
qed

lemma v4_base_eq_iff:
  "v4_base x n = v4_base y n \<longleftrightarrow> unat x div 2 ^ (32 - n) = unat y div 2 ^ (32 - n)"
  by (auto simp: word_unat_eq_iff unat_v4_base)

lemma v4_div_full: "unat x div 2 ^ 32 = 0" for x :: "32 word"
  using unsigned_less [of x, where ?'a = nat] by simp

lemma overlaps_v4_iff:
  assumes "n \<le> 32" "m \<le> 32"
  shows "prefix_overlaps (v4_prefix x n) (v4_prefix y m) \<longleftrightarrow>
         unat x div 2 ^ (32 - min n m) = unat y div 2 ^ (32 - min n m)"
proof -
  have "min (int n) (int m) = int (min n m)" by simp
  then have "prefix_overlaps (v4_prefix x n) (v4_prefix y m) \<longleftrightarrow>
      (x = y \<and> n = m) \<or> min n m = 0 \<or> v4_base x (min n m) = v4_base y (min n m)"
    by (auto simp: prefix_overlaps_def v4_prefix_def prefix_is_valid_def v4_base_def Let_def)
  also have "\<dots> \<longleftrightarrow> unat x div 2 ^ (32 - min n m) = unat y div 2 ^ (32 - min n m)"
    using v4_div_full [of x] v4_div_full [of y] by (auto simp: v4_base_eq_iff min_def)
  finally show ?thesis .
qed

text \<open>Two prefixes overlap exactly when an address lies in both.\<close>

lemma overlaps_v4_shared:
  assumes "n \<le> 32" "m \<le> 32"
  shows "prefix_overlaps (v4_prefix x n) (v4_prefix y m) \<longleftrightarrow>
         (\<exists>a. prefix_contains (v4_prefix x n) (V4 a) \<and> prefix_contains (v4_prefix y m) (V4 a))"
    (is "?o \<longleftrightarrow> ?s")
proof
  assume o: ?o
  then have eq: "unat x div 2 ^ (32 - min n m) = unat y div 2 ^ (32 - min n m)"
    using assms by (simp add: overlaps_v4_iff)
  show ?s
  proof (cases "n \<le> m")
    case True
    with eq have "prefix_contains (v4_prefix x n) (V4 y)" by (simp add: contains_v4_iff)
    then show ?thesis by (auto simp: contains_v4_iff)
  next
    case False
    with eq have "prefix_contains (v4_prefix y m) (V4 x)" by (simp add: contains_v4_iff)
    then show ?thesis by (auto simp: contains_v4_iff)
  qed
next
  assume ?s
  then obtain a :: "32 word" where "unat x div 2 ^ (32 - n) = unat a div 2 ^ (32 - n)"
    "unat y div 2 ^ (32 - m) = unat a div 2 ^ (32 - m)" unfolding contains_v4_iff by blast
  then have "unat x div 2 ^ (32 - min n m) = unat a div 2 ^ (32 - min n m)"
    "unat y div 2 ^ (32 - min n m) = unat a div 2 ^ (32 - min n m)"
    using div_pow_coarser [of "min n m"] assms by (metis min.cobounded1, metis min.cobounded2)
  then show ?o using assms by (simp add: overlaps_v4_iff)
qed

end
