(* ===== verification/FabMeta.thy ===== *)
theory FabMeta
  imports NetIP
begin

text \<open>
  The textual value types of \<^verbatim>\<open>api/meta\<close>: addresses, prefixes and versions are strings that are
  parsed where they are used. The parsers accept IPv4 only. Semantic versions are parsed by a
  third-party package, the parameter \<open>semver\<close> of \<open>version_parse\<close>.
\<close>

definition ErrIPv4Only :: go_err where
  "ErrIPv4Only = Errf ''must be an IPv4'' []"

definition addr_parse :: "string \<Rightarrow> addr result" where
  "addr_parse val =
     (case parse_addr val of
        Inl e \<Rightarrow> Inl (Wrapf ''parsing addr %q: %w'' [val] e)
      | Inr ip \<Rightarrow>
          if \<not> addr_is4 ip then Inl (Wrapf ''parsing addr %q: %w'' [val] ErrIPv4Only)
          else Inr ip)"

definition prefix_parse :: "string \<Rightarrow> prefix result" where
  "prefix_parse val =
     (case parse_prefix val of
        Inl e \<Rightarrow> Inl (Wrapf ''parsing prefix %q: %w'' [val] e)
      | Inr p \<Rightarrow>
          if \<not> addr_is4 (pf_addr p) then Inl (Wrapf ''parsing prefix %q: %w'' [val] ErrIPv4Only)
          else Inr p)"

definition PrefixDHCP :: string where
  "PrefixDHCP = ''dhcp''"

definition prefix_or_dhcp_parse :: "string \<Rightarrow> (bool \<times> prefix) result" where
  "prefix_or_dhcp_parse val =
     (if val = PrefixDHCP then Inr (True, no_prefix)
      else
        case parse_prefix val of
          Inl e \<Rightarrow> Inl (Wrapf ''parsing prefix %q: %w'' [val] e)
        | Inr ip \<Rightarrow>
            if \<not> addr_is4 (pf_addr ip) then Inl (Wrapf ''parsing prefix %q: %w'' [val] ErrIPv4Only)
            else Inr (False, ip))"

definition ErrInvalidPrefix :: go_err where
  "ErrInvalidPrefix = Errf ''must start with %q'' [''v'']"

definition version_parse :: "(string \<Rightarrow> 'v result) \<Rightarrow> string \<Rightarrow> 'v result" where
  "version_parse semver v =
     (if \<not> has_prefix v ''v'' then Inl (Wrapf ''parsing version %q: %w'' [v] ErrInvalidPrefix)
      else case semver v of
             Inl e \<Rightarrow> Inl (Wrapf ''parsing version %q: %w'' [v] e)
           | Inr ver \<Rightarrow> Inr ver)"

text \<open>What the parsers return is IPv4, with a length within the family.\<close>

lemma parse_prefix_valid:
  assumes "parse_prefix s = Inr p" "addr_is4 (pf_addr p)"
  obtains w n where "p = v4_prefix w n" "n \<le> 32"
proof -
  let ?b = "rev (takeWhile (\<lambda>c. c \<noteq> CHR ''/'') (rev s))"
  obtain ip where ip: "p = prefix_from ip (int (digits_val ?b))"
    and le: "\<not> digits_val ?b > (if addr_is4 ip then 32 else 128)"
    using assms(1) by (auto simp: parse_prefix_def prefix_err_def Let_def split: if_splits sum.splits)
  have "addr_is4 ip" using assms(2) ip by (cases ip) (auto simp: prefix_from_def)
  then obtain w where "ip = V4 w" by (cases ip) auto
  with ip le that show ?thesis by simp
qed

lemma addr_parse_v4: "addr_parse s = Inr a \<Longrightarrow> \<exists>w. a = V4 w"
  by (cases a) (auto simp: addr_parse_def split: sum.splits if_splits)

lemma prefix_parse_v4:
  assumes "prefix_parse s = Inr p"
  obtains w n where "p = v4_prefix w n" "n \<le> 32"
  using assms parse_prefix_valid that by (auto simp: prefix_parse_def split: sum.splits if_splits)

lemma addr_parse_string [simp]: "addr_parse (v4_string w) = Inr (V4 w)"
  by (simp add: addr_parse_def)

lemma prefix_parse_string [simp]:
  "n \<le> 32 \<Longrightarrow> prefix_parse (prefix_string (v4_prefix w n)) = Inr (v4_prefix w n)"
  by (simp add: prefix_parse_def)

lemma prefix_parse_as_parse_prefix: "prefix_parse s = Inr p \<Longrightarrow> parse_prefix s = Inr p"
  by (auto simp: prefix_parse_def split: sum.splits if_splits)

text \<open>Evaluation of the parsers on literal strings by the simplifier.\<close>

lemmas parse_eval = prefix_parse_def addr_parse_def parse_prefix_def Let_def parse_addr_def parse_v4_def
  is_digit_def digit_val_def digits_val_def v4_of_octets_def prefix_from_def

end
