(* ===== verification/FabTypes.thy ===== *)
theory FabTypes
  imports FabMeta
begin

text \<open>
  The configuration and status of the Fabricator resource (\<^verbatim>\<open>fabricator_types.go\<close>), the control and
  fabric nodes (\<^verbatim>\<open>controlnode_types.go\<close>, \<^verbatim>\<open>fabnode_types.go\<close>) as records, and the readiness checks
  over the component statuses. Enumerations of the source are Go strings that may hold any value,
  and stay strings here; pointers are options and maps association lists. ASNs are 32-bit words and
  VLANs 16-bit words, as in the source.
\<close>

definition FabName :: string where "FabName = ''default''"
definition FabNamespace :: string where "FabNamespace = ''fab''"
definition ConditionApplied :: string where "ConditionApplied = ''Applied''"
definition ConditionReady :: string where "ConditionReady = ''Ready''"
definition ConditionGatewayReady :: string where "ConditionGatewayReady = ''GatewayReady''"

section \<open>Component statuses\<close>

definition CompStatusUnknown :: string where "CompStatusUnknown = ''''"
definition CompStatusNotFound :: string where "CompStatusNotFound = ''NotFound''"
definition CompStatusPending :: string where "CompStatusPending = ''Pending''"
definition CompStatusReady :: string where "CompStatusReady = ''Ready''"
definition CompStatusSkipped :: string where "CompStatusSkipped = ''Skipped''"

record components_status =
  FabricatorAPI :: string
  FabricatorCtrl :: string
  FabricatorNodeConfig :: string
  CertManagerCtrl :: string
  CertManagerWebhook :: string
  Reloader :: string
  Zot :: string
  NTP :: string
  FabricAPI :: string
  FabricCtrl :: string
  FabricBoot :: string
  FabricDHCP :: string
  ControlProxy :: string
  ControlAlloy :: string
  GatewayAlloy :: string
  GatewayDataplane :: "string gomap"
  GatewayFRR :: "string gomap"

section \<open>Configuration\<close>

record control_user =
  cu_PasswordHash :: string
  cu_AuthorizedKeys :: "string list"

record control_observability =
  co_KubePodLogs :: bool
  co_KubeEvents :: bool

record control_config =
  ManagementSubnet :: string
  VIP :: string
  ManagementSubnetAnyDevice :: bool
  ManagementSubnetStatic :: "string gomap"
  TLSSAN :: "string list"
  JoinToken :: string
  KubeClusterSubnet :: string
  KubeServiceSubnet :: string
  KubeClusterDNS :: string
  DummySubnet :: string
  DefaultUser :: control_user
  NoPassAuth :: bool
  NTPServers :: "string list"
  ControlObservability :: "control_observability option"

definition RegistryModeAirgap :: string where "RegistryModeAirgap = ''airgap''"
definition RegistryModeUpstream :: string where "RegistryModeUpstream = ''upstream''"

record registry_upstream =
  up_Repo :: string
  up_Prefix :: string
  up_NoTLSVerify :: bool
  up_Username :: string
  up_Password :: string

record registry_config =
  RegMode :: string
  Upstream :: "registry_upstream option"

definition IsAirgap :: "registry_config \<Rightarrow> bool" where
  "IsAirgap r \<longleftrightarrow> RegMode r = RegistryModeAirgap"

record vlan_range =
  vr_From :: "16 word"
  vr_To :: "16 word"

record relabel_rule =
  rr_SourceLabels :: "string list"
  rr_Regex :: string
  rr_Action :: string

record basic_auth =
  ba_Username :: string
  ba_Password :: string

text \<open>
  A target of the observability configuration; \<open>SendIntervalSeconds\<close> is a field of the Prometheus
  targets only, and is 0 in the others.
\<close>

record alloy_target =
  tg_URL :: string
  tg_BasicAuth :: "basic_auth option"
  tg_BearerToken :: string
  tg_Labels :: "string gomap"
  tg_InsecureSkipVerify :: bool
  tg_CAPEM :: string
  tg_CertPEM :: string
  tg_SendIntervalSeconds :: "64 word"

record alloy_targets =
  Prometheus :: "alloy_target gomap"
  Loki :: "alloy_target gomap"
  Pyroscope :: "alloy_target gomap"

text \<open>The targets of the old, now ignored, Alloy configuration: the basic auth is not optional.\<close>

record old_target =
  ot_URL :: string
  ot_BasicAuth :: basic_auth
  ot_BearerToken :: string
  ot_Labels :: "string gomap"
  ot_InsecureSkipVerify :: bool
  ot_CAPEM :: string
  ot_CertPEM :: string
  ot_SendIntervalSeconds :: "64 word"

record alloy_config =
  PrometheusTargets :: "old_target gomap"
  LokiTargets :: "old_target gomap"

record observability_agent =
  oa_Metrics :: bool
  oa_MetricsInterval :: "64 word"
  oa_MetricsRelabel :: "relabel_rule list"
  oa_Logs :: bool

record observability_unix =
  ou_Metrics :: bool
  ou_MetricsInterval :: "64 word"
  ou_MetricsRelabel :: "relabel_rule list"
  ou_MetricsCollectors :: "string list"
  ou_Syslog :: bool

record observability =
  Agent :: observability_agent
  Unix :: observability_unix

record switch_user =
  su_PasswordHash :: string
  su_Role :: string
  su_AuthorizedKeys :: "string list"

record fabric_config =
  FabMode :: string
  ManagementDHCPStart :: string
  ManagementDHCPEnd :: string
  SpineASN :: "32 word"
  LeafASNStart :: "32 word"
  LeafASNEnd :: "32 word"
  ProtocolSubnet :: string
  VTEPSubnet :: string
  FabricSubnet :: string
  ProxyExternalSubnet :: string
  BaseVPCCommunity :: string
  VPCIRBVLANs :: "vlan_range list"
  LoopbackWorkaroundDisable :: bool
  VPCWorkaroundVLANs :: "vlan_range list"
  VPCWorkaroundSubnet :: string
  TH5WorkaroundVLANs :: "vlan_range list"
  ESLAGMACBase :: string
  ESLAGESIPrefix :: string
  MCLAGSessionSubnet :: string
  DefaultSwitchUsers :: "switch_user gomap"
  DefaultAlloyConfig :: alloy_config
  ExcludeNOSInstallers :: bool
  IncludeONIE :: bool
  IncludeBCM :: bool
  IncludeCLSP :: bool
  IncludeCumulus :: bool
  DisableBFD :: bool
  FabricObservability :: "observability option"

record gateway_metrics =
  gm_Metrics :: bool
  gm_MetricsInterval :: "64 word"
  gm_MetricsRelabel :: "relabel_rule list"

record gateway_unix =
  gu_Metrics :: bool
  gu_MetricsInterval :: "64 word"
  gu_MetricsRelabel :: "relabel_rule list"
  gu_MetricsCollectors :: "string list"

record gateway_observability =
  Dataplane :: gateway_metrics
  FRR :: gateway_metrics
  GwUnix :: gateway_unix

record gateway_config =
  GwEnable :: bool
  GwASN :: "32 word"
  GwMAC :: string
  GwObservability :: "gateway_observability option"
  Communities :: "string gomap"

definition ObservabilityDefaultsAll :: string where "ObservabilityDefaultsAll = ''''"
definition ObservabilityDefaultsNone :: string where "ObservabilityDefaultsNone = ''none''"
definition ObservabilityDefaultsMinimal :: string where "ObservabilityDefaultsMinimal = ''minimal''"

definition ObservabilityDefaultsList :: "string list" where
  "ObservabilityDefaultsList =
     [ObservabilityDefaultsAll, ObservabilityDefaultsNone, ObservabilityDefaultsMinimal]"

record observability_config =
  Defaults :: string
  Labels :: "string gomap"
  Targets :: alloy_targets

record fab_config =
  Control :: control_config
  Registry :: registry_config
  Fabric :: fabric_config
  Gateway :: gateway_config
  Observability :: observability_config

record fabricator =
  fb_Name :: string
  fb_Namespace :: string
  Config :: fab_config

section \<open>Nodes\<close>

text \<open>
  A control node and a fabric node carry the same bootstrap, management and dummy settings; the
  external settings are of control nodes only and the roles of fabric nodes only.
\<close>

record node_base =
  nd_Name :: string
  nd_Namespace :: string
  nd_Disk :: string
  nd_MgmtIP :: string
  nd_MgmtInterface :: string
  nd_DummyIP :: string

record control_node = node_base +
  ext_IP :: string
  ext_Gateway :: string
  ext_DNS :: "string list"
  ext_Interface :: string

record fab_node = node_base +
  nd_Roles :: "string list"

definition NodeRoleGateway :: string where "NodeRoleGateway = ''gateway''"

definition NodeRoles :: "string list" where
  "NodeRoles = [NodeRoleGateway]"

end
