(* ===== verification/Defaults.thy ===== *)
theory Defaults
  imports FabTypes
begin

text \<open>
  \<^verbatim>\<open>Fabricator.Default\<close>: the values filled in for a configuration written by an older version or left
  out by the user, in the order of the code: the scalar defaults, the observability settings of the
  control, fabric and gateway parts, the move of the old Alloy targets, and the labels every target
  gets. \<open>fab_default\<close> composes the four; it is idempotent.
\<close>

definition default_ntp_servers :: "string list" where
  "default_ntp_servers =
     [''time.cloudflare.com'', ''time1.google.com'', ''time2.google.com'', ''time3.google.com'', ''time4.google.com'']"

definition default_communities :: "string gomap" where
  "default_communities =
     [(''0'', ''50001:0''), (''1'', ''50001:1''), (''2'', ''50001:2''), (''3'', ''50001:3''),
      (''4'', ''50001:4''), (''5'', ''50001:5''), (''6'', ''50001:6''), (''7'', ''50001:7''),
      (''8'', ''50001:8''), (''9'', ''50001:9'')]"

definition default_leaf_asn :: "fab_config \<Rightarrow> fab_config" where
  "default_leaf_asn c =
     (if LeafASNEnd (Fabric c) = 65534 then
        if GwASN (Gateway c) = 0 \<or> GwASN (Gateway c) = 65534 then
          c\<lparr>Fabric := (Fabric c)\<lparr>LeafASNEnd := 65533\<rparr>, Gateway := (Gateway c)\<lparr>GwASN := 65534\<rparr>\<rparr>
        else c
      else c)"

definition default_irb_vlans :: "vlan_range list \<Rightarrow> vlan_range list" where
  "default_irb_vlans vs =
     (if length vs = 1 \<and> vr_From (vs ! 0) = 3000 \<and> vr_To (vs ! 0) = 3999
      then [(vs ! 0)\<lparr>vr_To := 3899\<rparr>] else vs)"

definition if_empty :: "'a list \<Rightarrow> 'a list \<Rightarrow> 'a list" where
  "if_empty def xs = (if length xs = 0 then def else xs)"

definition if_nil :: "'a \<Rightarrow> 'a option \<Rightarrow> 'a option" where
  "if_nil def p = (if p = None then Some def else p)"

definition default_scalars :: "fab_config \<Rightarrow> fab_config" where
  "default_scalars c =
     (let c = c\<lparr>Control := (Control c)\<lparr>NTPServers := if_empty default_ntp_servers (NTPServers (Control c))\<rparr>\<rparr>;
          c = default_leaf_asn c;
          c = c\<lparr>Fabric := (Fabric c)\<lparr>VPCIRBVLANs := default_irb_vlans (VPCIRBVLANs (Fabric c))\<rparr>\<rparr>;
          c = c\<lparr>Fabric := (Fabric c)\<lparr>TH5WorkaroundVLANs :=
                 if_empty [\<lparr>vr_From = 3900, vr_To = 3999\<rparr>] (TH5WorkaroundVLANs (Fabric c))\<rparr>\<rparr>;
          c = c\<lparr>Fabric := (Fabric c)\<lparr>ProxyExternalSubnet :=
                 if_empty ''172.30.16.0/22'' (ProxyExternalSubnet (Fabric c))\<rparr>\<rparr>;
          c = c\<lparr>Gateway := (Gateway c)\<lparr>Communities := if_empty default_communities (Communities (Gateway c))\<rparr>\<rparr>
      in c\<lparr>Fabric := (Fabric c)\<lparr>LoopbackWorkaroundDisable := False\<rparr>\<rparr>)"

section \<open>Observability\<close>

definition keep_rule :: "string \<Rightarrow> relabel_rule" where
  "keep_rule re = \<lparr>rr_SourceLabels = [''__name__''], rr_Regex = re, rr_Action = ''keep''\<rparr>"

definition unix_collectors :: "string list" where
  "unix_collectors = [''cpu'', ''loadavg'', ''meminfo'', ''filesystem'']"

definition default_fabric_observability :: "bool \<Rightarrow> bool \<Rightarrow> observability" where
  "default_fabric_observability notNone minimal =
     \<lparr>Agent = \<lparr>oa_Metrics = notNone, oa_MetricsInterval = 60,
        oa_MetricsRelabel = (if minimal
          then [keep_rule ''.*(_in_bits|_status|_generation|_temperature|_transceiver).*''] else []),
        oa_Logs = True\<rparr>,
      Unix = \<lparr>ou_Metrics = notNone, ou_MetricsInterval = 60,
        ou_MetricsRelabel = (if minimal then [keep_rule ''.*(_load).*''] else []),
        ou_MetricsCollectors = unix_collectors, ou_Syslog = True\<rparr>\<rparr>"

definition default_gateway_observability :: "bool \<Rightarrow> bool \<Rightarrow> gateway_observability" where
  "default_gateway_observability notNone minimal =
     \<lparr>Dataplane = \<lparr>gm_Metrics = notNone, gm_MetricsInterval = 60, gm_MetricsRelabel = []\<rparr>,
      FRR = \<lparr>gm_Metrics = notNone, gm_MetricsInterval = 60, gm_MetricsRelabel = []\<rparr>,
      GwUnix = \<lparr>gu_Metrics = notNone, gu_MetricsInterval = 60,
        gu_MetricsRelabel = (if minimal then [keep_rule ''.*(_load).*''] else []),
        gu_MetricsCollectors = unix_collectors\<rparr>\<rparr>"

definition default_observability :: "fab_config \<Rightarrow> fab_config" where
  "default_observability c =
     (let notNone = (Defaults (Observability c) \<noteq> ObservabilityDefaultsNone);
          minimal = (Defaults (Observability c) = ObservabilityDefaultsMinimal);
          c = c\<lparr>Control := (Control c)\<lparr>ControlObservability :=
                 if_nil \<lparr>co_KubePodLogs = notNone, co_KubeEvents = notNone\<rparr> (ControlObservability (Control c))\<rparr>\<rparr>;
          c = c\<lparr>Fabric := (Fabric c)\<lparr>FabricObservability :=
                 if_nil (default_fabric_observability notNone minimal) (FabricObservability (Fabric c))\<rparr>\<rparr>
      in c\<lparr>Gateway := (Gateway c)\<lparr>GwObservability :=
             if_nil (default_gateway_observability notNone minimal) (GwObservability (Gateway c))\<rparr>\<rparr>)"

text \<open>
  An old Alloy target in the new form; the basic auth becomes a pointer that is always set, and the
  send interval is carried over for Prometheus only.
\<close>

definition convert_target :: "bool \<Rightarrow> old_target \<Rightarrow> alloy_target" where
  "convert_target prom t =
     \<lparr>tg_URL = ot_URL t, tg_BasicAuth = Some (ot_BasicAuth t), tg_BearerToken = ot_BearerToken t,
      tg_Labels = ot_Labels t, tg_InsecureSkipVerify = ot_InsecureSkipVerify t,
      tg_CAPEM = ot_CAPEM t, tg_CertPEM = ot_CertPEM t,
      tg_SendIntervalSeconds = (if prom then ot_SendIntervalSeconds t else 0)\<rparr>"

definition add_old_targets :: "bool \<Rightarrow> old_target gomap \<Rightarrow> alloy_target gomap \<Rightarrow> alloy_target gomap" where
  "add_old_targets prom old new = foldl (\<lambda>m (name, t). put_absent name (convert_target prom t) m) new old"

definition default_targets :: "fab_config \<Rightarrow> fab_config" where
  "default_targets c =
     (let old = DefaultAlloyConfig (Fabric c); ts = Targets (Observability c);
          ts = ts\<lparr>Prometheus := add_old_targets True (PrometheusTargets old) (Prometheus ts)\<rparr>;
          ts = ts\<lparr>Loki := add_old_targets False (LokiTargets old) (Loki ts)\<rparr>
      in c\<lparr>Observability := (Observability c)\<lparr>Targets := ts\<rparr>,
           Fabric := (Fabric c)\<lparr>DefaultAlloyConfig := \<lparr>PrometheusTargets = [], LokiTargets = []\<rparr>\<rparr>\<rparr>)"

definition add_labels :: "string gomap \<Rightarrow> alloy_target \<Rightarrow> alloy_target" where
  "add_labels labels t = t\<lparr>tg_Labels := foldl (\<lambda>m (k, v). put_absent k v m) (tg_Labels t) labels\<rparr>"

definition label_targets :: "string gomap \<Rightarrow> alloy_target gomap \<Rightarrow> alloy_target gomap" where
  "label_targets labels ts = map (\<lambda>(name, t). (name, add_labels labels t)) ts"

definition default_labels :: "fab_config \<Rightarrow> fab_config" where
  "default_labels c =
     (let o11y = Observability c; ts = Targets o11y; ls = Labels o11y;
          c = c\<lparr>Observability := o11y\<lparr>Targets :=
                 \<lparr>Prometheus = label_targets ls (Prometheus ts), Loki = label_targets ls (Loki ts),
                  Pyroscope = label_targets ls (Pyroscope ts)\<rparr>\<rparr>\<rparr>
      in (if \<not> IncludeBCM (Fabric c) \<and> \<not> IncludeCLSP (Fabric c) \<and> \<not> IncludeCumulus (Fabric c)
          then c\<lparr>Fabric := (Fabric c)\<lparr>IncludeBCM := True\<rparr>\<rparr> else c))"

definition config_default :: "fab_config \<Rightarrow> fab_config" where
  "config_default c = default_labels (default_targets (default_observability (default_scalars c)))"

definition fab_default :: "fabricator \<Rightarrow> fabricator" where
  "fab_default f = f\<lparr>Config := config_default (Config f)\<rparr>"

text \<open>The fields the defaults never touch, stage by stage.\<close>

lemma default_scalars_keeps:
  "ManagementSubnet (Control (default_scalars c)) = ManagementSubnet (Control c)"
  "VIP (Control (default_scalars c)) = VIP (Control c)"
  "KubeClusterSubnet (Control (default_scalars c)) = KubeClusterSubnet (Control c)"
  "KubeServiceSubnet (Control (default_scalars c)) = KubeServiceSubnet (Control c)"
  "KubeClusterDNS (Control (default_scalars c)) = KubeClusterDNS (Control c)"
  "DummySubnet (Control (default_scalars c)) = DummySubnet (Control c)"
  "DefaultUser (Control (default_scalars c)) = DefaultUser (Control c)"
  "NoPassAuth (Control (default_scalars c)) = NoPassAuth (Control c)"
  "FabMode (Fabric (default_scalars c)) = FabMode (Fabric c)"
  "ManagementDHCPStart (Fabric (default_scalars c)) = ManagementDHCPStart (Fabric c)"
  "ManagementDHCPEnd (Fabric (default_scalars c)) = ManagementDHCPEnd (Fabric c)"
  "SpineASN (Fabric (default_scalars c)) = SpineASN (Fabric c)"
  "LeafASNStart (Fabric (default_scalars c)) = LeafASNStart (Fabric c)"
  "ProtocolSubnet (Fabric (default_scalars c)) = ProtocolSubnet (Fabric c)"
  "VTEPSubnet (Fabric (default_scalars c)) = VTEPSubnet (Fabric c)"
  "FabricSubnet (Fabric (default_scalars c)) = FabricSubnet (Fabric c)"
  "BaseVPCCommunity (Fabric (default_scalars c)) = BaseVPCCommunity (Fabric c)"
  "VPCWorkaroundVLANs (Fabric (default_scalars c)) = VPCWorkaroundVLANs (Fabric c)"
  "VPCWorkaroundSubnet (Fabric (default_scalars c)) = VPCWorkaroundSubnet (Fabric c)"
  "MCLAGSessionSubnet (Fabric (default_scalars c)) = MCLAGSessionSubnet (Fabric c)"
  "ESLAGMACBase (Fabric (default_scalars c)) = ESLAGMACBase (Fabric c)"
  "ESLAGESIPrefix (Fabric (default_scalars c)) = ESLAGESIPrefix (Fabric c)"
  "DefaultSwitchUsers (Fabric (default_scalars c)) = DefaultSwitchUsers (Fabric c)"
  by (simp_all add: default_scalars_def default_leaf_asn_def Let_def)

lemma default_observability_keeps:
  "ManagementSubnet (Control (default_observability c)) = ManagementSubnet (Control c)"
  "VIP (Control (default_observability c)) = VIP (Control c)"
  "KubeClusterSubnet (Control (default_observability c)) = KubeClusterSubnet (Control c)"
  "KubeServiceSubnet (Control (default_observability c)) = KubeServiceSubnet (Control c)"
  "KubeClusterDNS (Control (default_observability c)) = KubeClusterDNS (Control c)"
  "DummySubnet (Control (default_observability c)) = DummySubnet (Control c)"
  "DefaultUser (Control (default_observability c)) = DefaultUser (Control c)"
  "NoPassAuth (Control (default_observability c)) = NoPassAuth (Control c)"
  "FabMode (Fabric (default_observability c)) = FabMode (Fabric c)"
  "ManagementDHCPStart (Fabric (default_observability c)) = ManagementDHCPStart (Fabric c)"
  "ManagementDHCPEnd (Fabric (default_observability c)) = ManagementDHCPEnd (Fabric c)"
  "SpineASN (Fabric (default_observability c)) = SpineASN (Fabric c)"
  "LeafASNStart (Fabric (default_observability c)) = LeafASNStart (Fabric c)"
  "ProtocolSubnet (Fabric (default_observability c)) = ProtocolSubnet (Fabric c)"
  "VTEPSubnet (Fabric (default_observability c)) = VTEPSubnet (Fabric c)"
  "FabricSubnet (Fabric (default_observability c)) = FabricSubnet (Fabric c)"
  "BaseVPCCommunity (Fabric (default_observability c)) = BaseVPCCommunity (Fabric c)"
  "VPCWorkaroundVLANs (Fabric (default_observability c)) = VPCWorkaroundVLANs (Fabric c)"
  "VPCWorkaroundSubnet (Fabric (default_observability c)) = VPCWorkaroundSubnet (Fabric c)"
  "MCLAGSessionSubnet (Fabric (default_observability c)) = MCLAGSessionSubnet (Fabric c)"
  "ESLAGMACBase (Fabric (default_observability c)) = ESLAGMACBase (Fabric c)"
  "ESLAGESIPrefix (Fabric (default_observability c)) = ESLAGESIPrefix (Fabric c)"
  "DefaultSwitchUsers (Fabric (default_observability c)) = DefaultSwitchUsers (Fabric c)"
  by (simp_all add: default_observability_def Let_def)

lemma default_targets_keeps:
  "ManagementSubnet (Control (default_targets c)) = ManagementSubnet (Control c)"
  "VIP (Control (default_targets c)) = VIP (Control c)"
  "KubeClusterSubnet (Control (default_targets c)) = KubeClusterSubnet (Control c)"
  "KubeServiceSubnet (Control (default_targets c)) = KubeServiceSubnet (Control c)"
  "KubeClusterDNS (Control (default_targets c)) = KubeClusterDNS (Control c)"
  "DummySubnet (Control (default_targets c)) = DummySubnet (Control c)"
  "DefaultUser (Control (default_targets c)) = DefaultUser (Control c)"
  "NoPassAuth (Control (default_targets c)) = NoPassAuth (Control c)"
  "FabMode (Fabric (default_targets c)) = FabMode (Fabric c)"
  "ManagementDHCPStart (Fabric (default_targets c)) = ManagementDHCPStart (Fabric c)"
  "ManagementDHCPEnd (Fabric (default_targets c)) = ManagementDHCPEnd (Fabric c)"
  "SpineASN (Fabric (default_targets c)) = SpineASN (Fabric c)"
  "LeafASNStart (Fabric (default_targets c)) = LeafASNStart (Fabric c)"
  "ProtocolSubnet (Fabric (default_targets c)) = ProtocolSubnet (Fabric c)"
  "VTEPSubnet (Fabric (default_targets c)) = VTEPSubnet (Fabric c)"
  "FabricSubnet (Fabric (default_targets c)) = FabricSubnet (Fabric c)"
  "BaseVPCCommunity (Fabric (default_targets c)) = BaseVPCCommunity (Fabric c)"
  "VPCWorkaroundVLANs (Fabric (default_targets c)) = VPCWorkaroundVLANs (Fabric c)"
  "VPCWorkaroundSubnet (Fabric (default_targets c)) = VPCWorkaroundSubnet (Fabric c)"
  "MCLAGSessionSubnet (Fabric (default_targets c)) = MCLAGSessionSubnet (Fabric c)"
  "ESLAGMACBase (Fabric (default_targets c)) = ESLAGMACBase (Fabric c)"
  "ESLAGESIPrefix (Fabric (default_targets c)) = ESLAGESIPrefix (Fabric c)"
  "DefaultSwitchUsers (Fabric (default_targets c)) = DefaultSwitchUsers (Fabric c)"
  by (simp_all add: default_targets_def Let_def)

lemma default_labels_keeps:
  "ManagementSubnet (Control (default_labels c)) = ManagementSubnet (Control c)"
  "VIP (Control (default_labels c)) = VIP (Control c)"
  "KubeClusterSubnet (Control (default_labels c)) = KubeClusterSubnet (Control c)"
  "KubeServiceSubnet (Control (default_labels c)) = KubeServiceSubnet (Control c)"
  "KubeClusterDNS (Control (default_labels c)) = KubeClusterDNS (Control c)"
  "DummySubnet (Control (default_labels c)) = DummySubnet (Control c)"
  "DefaultUser (Control (default_labels c)) = DefaultUser (Control c)"
  "NoPassAuth (Control (default_labels c)) = NoPassAuth (Control c)"
  "FabMode (Fabric (default_labels c)) = FabMode (Fabric c)"
  "ManagementDHCPStart (Fabric (default_labels c)) = ManagementDHCPStart (Fabric c)"
  "ManagementDHCPEnd (Fabric (default_labels c)) = ManagementDHCPEnd (Fabric c)"
  "SpineASN (Fabric (default_labels c)) = SpineASN (Fabric c)"
  "LeafASNStart (Fabric (default_labels c)) = LeafASNStart (Fabric c)"
  "ProtocolSubnet (Fabric (default_labels c)) = ProtocolSubnet (Fabric c)"
  "VTEPSubnet (Fabric (default_labels c)) = VTEPSubnet (Fabric c)"
  "FabricSubnet (Fabric (default_labels c)) = FabricSubnet (Fabric c)"
  "BaseVPCCommunity (Fabric (default_labels c)) = BaseVPCCommunity (Fabric c)"
  "VPCWorkaroundVLANs (Fabric (default_labels c)) = VPCWorkaroundVLANs (Fabric c)"
  "VPCWorkaroundSubnet (Fabric (default_labels c)) = VPCWorkaroundSubnet (Fabric c)"
  "MCLAGSessionSubnet (Fabric (default_labels c)) = MCLAGSessionSubnet (Fabric c)"
  "ESLAGMACBase (Fabric (default_labels c)) = ESLAGMACBase (Fabric c)"
  "ESLAGESIPrefix (Fabric (default_labels c)) = ESLAGESIPrefix (Fabric c)"
  "DefaultSwitchUsers (Fabric (default_labels c)) = DefaultSwitchUsers (Fabric c)"
  by (simp_all add: default_labels_def Let_def)

lemma config_default_keeps [simp]:
  "ManagementSubnet (Control (config_default c)) = ManagementSubnet (Control c)"
  "VIP (Control (config_default c)) = VIP (Control c)"
  "KubeClusterSubnet (Control (config_default c)) = KubeClusterSubnet (Control c)"
  "KubeServiceSubnet (Control (config_default c)) = KubeServiceSubnet (Control c)"
  "KubeClusterDNS (Control (config_default c)) = KubeClusterDNS (Control c)"
  "DummySubnet (Control (config_default c)) = DummySubnet (Control c)"
  "DefaultUser (Control (config_default c)) = DefaultUser (Control c)"
  "NoPassAuth (Control (config_default c)) = NoPassAuth (Control c)"
  "FabMode (Fabric (config_default c)) = FabMode (Fabric c)"
  "ManagementDHCPStart (Fabric (config_default c)) = ManagementDHCPStart (Fabric c)"
  "ManagementDHCPEnd (Fabric (config_default c)) = ManagementDHCPEnd (Fabric c)"
  "SpineASN (Fabric (config_default c)) = SpineASN (Fabric c)"
  "LeafASNStart (Fabric (config_default c)) = LeafASNStart (Fabric c)"
  "ProtocolSubnet (Fabric (config_default c)) = ProtocolSubnet (Fabric c)"
  "VTEPSubnet (Fabric (config_default c)) = VTEPSubnet (Fabric c)"
  "FabricSubnet (Fabric (config_default c)) = FabricSubnet (Fabric c)"
  "BaseVPCCommunity (Fabric (config_default c)) = BaseVPCCommunity (Fabric c)"
  "VPCWorkaroundVLANs (Fabric (config_default c)) = VPCWorkaroundVLANs (Fabric c)"
  "VPCWorkaroundSubnet (Fabric (config_default c)) = VPCWorkaroundSubnet (Fabric c)"
  "MCLAGSessionSubnet (Fabric (config_default c)) = MCLAGSessionSubnet (Fabric c)"
  "ESLAGMACBase (Fabric (config_default c)) = ESLAGMACBase (Fabric c)"
  "ESLAGESIPrefix (Fabric (config_default c)) = ESLAGESIPrefix (Fabric c)"
  "DefaultSwitchUsers (Fabric (config_default c)) = DefaultSwitchUsers (Fabric c)"
  by (simp_all add: config_default_def default_scalars_keeps default_observability_keeps default_targets_keeps
      default_labels_keeps)

lemma default_observability_asns:
  "LeafASNEnd (Fabric (default_observability c)) = LeafASNEnd (Fabric c)"
  "GwASN (Gateway (default_observability c)) = GwASN (Gateway c)"
  by (simp_all add: default_observability_def Let_def)

lemma default_targets_asns:
  "LeafASNEnd (Fabric (default_targets c)) = LeafASNEnd (Fabric c)"
  "GwASN (Gateway (default_targets c)) = GwASN (Gateway c)"
  by (simp_all add: default_targets_def Let_def)

lemma default_labels_asns:
  "LeafASNEnd (Fabric (default_labels c)) = LeafASNEnd (Fabric c)"
  "GwASN (Gateway (default_labels c)) = GwASN (Gateway c)"
  by (simp_all add: default_labels_def Let_def)

lemma default_scalars_asns:
  "LeafASNEnd (Fabric (default_scalars c)) = LeafASNEnd (Fabric (default_leaf_asn c))"
  "GwASN (Gateway (default_scalars c)) = GwASN (Gateway (default_leaf_asn c))"
  by (simp_all add: default_scalars_def default_leaf_asn_def Let_def)

lemma config_default_asns:
  "LeafASNEnd (Fabric (config_default c)) = LeafASNEnd (Fabric (default_leaf_asn c))"
  "GwASN (Gateway (config_default c)) = GwASN (Gateway (default_leaf_asn c))"
  by (simp_all add: config_default_def default_scalars_asns default_observability_asns default_targets_asns
      default_labels_asns)

section \<open>Idempotence\<close>

lemma put_absent_present: "k \<in> dom (map_of m) \<Longrightarrow> put_absent k v m = m"
  by (auto simp: put_absent_def)

lemma dom_put_absent: "dom (map_of (put_absent k v m)) = insert k (dom (map_of m))"
  by (auto simp: put_absent_def split: option.splits)

lemma dom_fold_put_absent:
  "dom (map_of (foldl (\<lambda>m (k, v). put_absent k (g v) m) m ls)) = dom (map_of m) \<union> fst ` set ls"
proof (induction ls arbitrary: m)
  case (Cons p ls)
  then show ?case by (cases p) (simp add: dom_put_absent)
qed simp

lemma fold_put_absent_present:
  "fst ` set ls \<subseteq> dom (map_of m) \<Longrightarrow> foldl (\<lambda>m (k, v). put_absent k (g v) m) m ls = m"
proof (induction ls arbitrary: m)
  case (Cons p ls)
  then show ?case by (cases p) (simp add: put_absent_present)
qed simp

lemma add_labels_idem: "add_labels ls (add_labels ls t) = add_labels ls t"
  unfolding add_labels_def
  using dom_fold_put_absent [of "\<lambda>v. v" "tg_Labels t" ls] by (simp add: fold_put_absent_present)

lemma label_targets_idem: "label_targets ls (label_targets ls ts) = label_targets ls ts"
  by (auto simp: label_targets_def add_labels_idem)

lemma default_irb_vlans_idem: "default_irb_vlans (default_irb_vlans vs) = default_irb_vlans vs"
  by (simp add: default_irb_vlans_def)

lemma if_empty_done [simp]: "def \<noteq> [] \<Longrightarrow> if_empty def xs \<noteq> []" and if_empty_id [simp]: "xs \<noteq> [] \<Longrightarrow> if_empty def xs = xs"
  by (simp_all add: if_empty_def)

lemma if_nil_done [simp]: "if_nil def p \<noteq> None" and if_nil_some [simp]: "\<exists>y. if_nil def p = Some y" and if_nil_id [simp]: "p \<noteq> None \<Longrightarrow> if_nil def p = p"
  by (auto simp: if_nil_def)

lemma default_irb_vlans_nil [simp]: "default_irb_vlans [] = []"
  by (simp add: default_irb_vlans_def)

text \<open>
  A configuration in the form \<open>config_default\<close> leaves it: every default is already filled in.
\<close>

definition defaulted :: "fab_config \<Rightarrow> bool" where
  "defaulted c \<longleftrightarrow>
     NTPServers (Control c) \<noteq> [] \<and>
     \<not> (LeafASNEnd (Fabric c) = 65534 \<and> (GwASN (Gateway c) = 0 \<or> GwASN (Gateway c) = 65534)) \<and>
     default_irb_vlans (VPCIRBVLANs (Fabric c)) = VPCIRBVLANs (Fabric c) \<and>
     TH5WorkaroundVLANs (Fabric c) \<noteq> [] \<and> ProxyExternalSubnet (Fabric c) \<noteq> '''' \<and>
     Communities (Gateway c) \<noteq> [] \<and> \<not> LoopbackWorkaroundDisable (Fabric c) \<and>
     ControlObservability (Control c) \<noteq> None \<and> FabricObservability (Fabric c) \<noteq> None \<and>
     GwObservability (Gateway c) \<noteq> None \<and>
     DefaultAlloyConfig (Fabric c) = \<lparr>PrometheusTargets = [], LokiTargets = []\<rparr> \<and>
     label_targets (Labels (Observability c)) (Prometheus (Targets (Observability c))) = Prometheus (Targets (Observability c)) \<and>
     label_targets (Labels (Observability c)) (Loki (Targets (Observability c))) = Loki (Targets (Observability c)) \<and>
     label_targets (Labels (Observability c)) (Pyroscope (Targets (Observability c))) = Pyroscope (Targets (Observability c)) \<and>
     (IncludeBCM (Fabric c) \<or> IncludeCLSP (Fabric c) \<or> IncludeCumulus (Fabric c))"

lemma default_leaf_asn_sel [simp]:
  "Control (default_leaf_asn c) = Control c"
  "Observability (default_leaf_asn c) = Observability c"
  "Registry (default_leaf_asn c) = Registry c"
  "Communities (Gateway (default_leaf_asn c)) = Communities (Gateway c)"
  "GwObservability (Gateway (default_leaf_asn c)) = GwObservability (Gateway c)"
  "GwEnable (Gateway (default_leaf_asn c)) = GwEnable (Gateway c)"
  "VPCIRBVLANs (Fabric (default_leaf_asn c)) = VPCIRBVLANs (Fabric c)"
  "TH5WorkaroundVLANs (Fabric (default_leaf_asn c)) = TH5WorkaroundVLANs (Fabric c)"
  "ProxyExternalSubnet (Fabric (default_leaf_asn c)) = ProxyExternalSubnet (Fabric c)"
  "FabricObservability (Fabric (default_leaf_asn c)) = FabricObservability (Fabric c)"
  "DefaultAlloyConfig (Fabric (default_leaf_asn c)) = DefaultAlloyConfig (Fabric c)"
  by (simp_all add: default_leaf_asn_def)

lemma default_leaf_asn_done:
  "\<not> (LeafASNEnd (Fabric (default_leaf_asn c)) = 65534 \<and>
      (GwASN (Gateway (default_leaf_asn c)) = 0 \<or> GwASN (Gateway (default_leaf_asn c)) = 65534))"
  by (simp add: default_leaf_asn_def)

lemma default_leaf_asn_id:
  "\<not> (LeafASNEnd (Fabric c) = 65534 \<and> (GwASN (Gateway c) = 0 \<or> GwASN (Gateway c) = 65534)) \<Longrightarrow>
   default_leaf_asn c = c"
  by (auto simp: default_leaf_asn_def)

lemma defaulted_id: "defaulted c \<Longrightarrow> config_default c = c"
  unfolding config_default_def defaulted_def
  by (simp add: default_scalars_def default_leaf_asn_id default_observability_def
      default_targets_def default_labels_def add_old_targets_def Let_def)

lemma default_scalars_done:
  "let d = default_scalars c in
     NTPServers (Control d) \<noteq> [] \<and>
     \<not> (LeafASNEnd (Fabric d) = 65534 \<and> (GwASN (Gateway d) = 0 \<or> GwASN (Gateway d) = 65534)) \<and>
     default_irb_vlans (VPCIRBVLANs (Fabric d)) = VPCIRBVLANs (Fabric d) \<and>
     TH5WorkaroundVLANs (Fabric d) \<noteq> [] \<and> ProxyExternalSubnet (Fabric d) \<noteq> '''' \<and>
     Communities (Gateway d) \<noteq> [] \<and> \<not> LoopbackWorkaroundDisable (Fabric d)"
  using default_leaf_asn_done [of "c\<lparr>Control := (Control c)\<lparr>NTPServers := if_empty default_ntp_servers (NTPServers (Control c))\<rparr>\<rparr>"]
  by (simp add: default_scalars_def Let_def default_ntp_servers_def default_communities_def
      default_irb_vlans_idem)

lemma config_default_defaulted: "defaulted (config_default c)"
  unfolding config_default_def defaulted_def
  using default_scalars_done [of c]
  by (simp add: default_observability_def default_targets_def default_labels_def Let_def label_targets_idem)

text \<open>
  Applying the defaults twice gives what applying them once gives: \<^verbatim>\<open>Default\<close> runs on every
  reconcile, on every validation and on every load, so its result has to be stable.
\<close>

theorem fab_default_idempotent: "fab_default (fab_default f) = fab_default f"
  by (simp add: fab_default_def defaulted_id config_default_defaulted)

end
