(* ===== verification/Validate.thy ===== *)
theory Validate
  imports Defaults
begin

text \<open>
  \<^verbatim>\<open>Fabricator.Validate\<close>, cut at the points where the code turns to the next part of the
  configuration, and the validation of the control and fabric nodes. The struct validator the code
  calls is a third-party package: it is the parameter \<open>struct_ctx\<close>. The lemmas say what an accepted
  configuration satisfies, in terms of the addresses its subnets hold.
\<close>

section \<open>Registry and control subnets\<close>

definition validate_registry :: "registry_config \<Rightarrow> unit result" where
  "validate_registry r =
     (if RegMode r \<noteq> RegistryModeAirgap \<and> RegMode r \<noteq> RegistryModeUpstream
      then Inl (Errf ''invalid registry mode %q'' [RegMode r])
      else if IsAirgap r \<and> Upstream r \<noteq> None
      then Inl (Errf (''airgap registry doesn'' @ [CHR 0x27] @ ''t support upstream'') [])
      else if \<not> IsAirgap r then
        (case Upstream r of
           None \<Rightarrow> Inl (Errf ''non-airgap registry requires upstream'' [])
         | Some u \<Rightarrow>
             if up_Repo u = '''' then Inl (Errf ''upstream registry requires repo'' []) else Inr ())
      else Inr ())"

text \<open>The result is the management and the dummy subnet, which the code keeps for later.\<close>

definition validate_control_subnets :: "fab_config \<Rightarrow> (prefix \<times> prefix) result" where
  "validate_control_subnets c =
     ebind (ewrap ''parsing management subnet: %w'' [] (prefix_parse (ManagementSubnet (Control c)))) (\<lambda>mgmtSubnet.
     ebind (ewrap ''parsing management DHCP start: %w'' [] (addr_parse (ManagementDHCPStart (Fabric c)))) (\<lambda>mgmtDHCPStart.
     if \<not> prefix_contains mgmtSubnet mgmtDHCPStart
     then Inl (Errf ''management DHCP start not in management subnet'' []) else
     ebind (ewrap ''parsing management DHCP end: %w'' [] (addr_parse (ManagementDHCPEnd (Fabric c)))) (\<lambda>mgmtDHCPEnd.
     if \<not> prefix_contains mgmtSubnet mgmtDHCPEnd
     then Inl (Errf ''management DHCP end not in management subnet'' []) else
     ebind (ewrap ''parsing control VIP: %w'' [] (prefix_parse (VIP (Control c)))) (\<lambda>controlVIP.
     if \<not> prefix_contains mgmtSubnet (pf_addr controlVIP)
     then Inl (Errf ''control VIP not in management subnet'' []) else
     if pf_bits controlVIP \<noteq> 32
     then Inl (Errf ''control VIP must be /32'' []) else
     ebind (ewrap ''parsing kube service subnet: %w'' [] (prefix_parse (KubeServiceSubnet (Control c)))) (\<lambda>kubeServiceSubnet.
     ebind (ewrap ''parsing kube cluster subnet: %w'' [] (prefix_parse (KubeClusterSubnet (Control c)))) (\<lambda>kubeClusterSubnet.
     ebind (ewrap ''parsing kube cluster DNS: %w'' [] (addr_parse (KubeClusterDNS (Control c)))) (\<lambda>kubeClusterDNS.
     if \<not> prefix_contains kubeServiceSubnet kubeClusterDNS
     then Inl (Errf ''kube cluster DNS not in kube service subnet'' []) else
     if prefix_overlaps kubeClusterSubnet kubeServiceSubnet
     then Inl (Errf ''kube cluster subnet overlaps kube service subnet'' []) else
     if prefix_overlaps mgmtSubnet kubeServiceSubnet
     then Inl (Errf ''management subnet overlaps kube service subnet'' []) else
     if prefix_overlaps mgmtSubnet kubeClusterSubnet
     then Inl (Errf ''management subnet overlaps kube cluster subnet'' []) else
     ebind (ewrap ''parsing dummy subnet: %w'' [] (prefix_parse (DummySubnet (Control c)))) (\<lambda>dummySubnet.
     Inr (mgmtSubnet, dummySubnet)))))))))"

section \<open>Users\<close>

definition validate_default_user :: "control_config \<Rightarrow> unit result" where
  "validate_default_user ctl =
     (let ph = cu_PasswordHash (DefaultUser ctl) in
      if ph = '''' then Inl (Errf ''default control user password hash is required'' [])
      else if NoPassAuth ctl \<and> length (cu_AuthorizedKeys (DefaultUser ctl)) = 0
      then Inl (Errf ''noPassAuth is true; but no default authorized keys are configured'' [])
      else if \<not> has_prefix ph ''$5$''
      then Inl (Errf ''default control user password hash must be bcrypt'' [])
      else Inr ())"

text \<open>One pass of the loop over the switch users; the state is the flag \<^verbatim>\<open>admin\<close>.\<close>

definition validate_switch_user :: "string \<times> switch_user \<Rightarrow> bool \<Rightarrow> bool result" where
  "validate_switch_user u admin =
     (case u of (username, user) \<Rightarrow>
      let admin = (admin \<or> (username = ''admin'' \<and> su_Role user = ''admin'')) in
      if su_Role user \<notin> {''admin'', ''operator''}
      then Inl (Errf ''invalid switch user %q role %q'' [username, su_Role user])
      else if su_PasswordHash user = ''''
      then Inl (Errf ''switch user %q password hash is required'' [username])
      else if \<not> has_prefix (su_PasswordHash user) ''$5$''
      then Inl (Errf ''switch user %q password hash must be bcrypt'' [username])
      else Inr admin)"

definition validate_switch_users :: "switch_user gomap \<Rightarrow> unit result" where
  "validate_switch_users us =
     ebind (efold validate_switch_user us False) (\<lambda>admin.
     if \<not> admin then Inl (Errf ''admin switch user with role admin is required'' []) else Inr ())"

definition knownSwitchUsers :: "string list" where
  "knownSwitchUsers =
     [''root'', ''daemon'', ''bin'', ''sys'', ''adm'', ''tty'', ''disk'', ''lp'', ''mail'', ''news'',
      ''uucp'', ''man'', ''proxy'', ''kmem'', ''dialout'', ''fax'', ''voice'', ''cdrom'', ''floppy'',
      ''tape'', ''sudo'', ''audio'', ''dip'', ''www-data'', ''backup'', ''operator'', ''list'', ''irc'',
      ''src'', ''gnats'', ''shadow'', ''utmp'', ''video'', ''sasl'', ''plugdev'', ''staff'', ''games'',
      ''users'', ''nogroup'', ''systemd-journal'', ''systemd-timesync'', ''systemd-network'',
      ''systemd-resolve'', ''docker'', ''redis'', ''netadmin'', ''secadmin'', ''messagebus'', ''input'',
      ''kvm'', ''render'', ''crontab'', ''i2c'', ''ssh'', ''systemd-coredump'', ''ntp'', ''frr'',
      ''hhagent'', ''alloy'']"

fun CheckForKnownSwitchUsers :: "switch_user gomap \<Rightarrow> unit result" where
  "CheckForKnownSwitchUsers [] = Inr ()"
| "CheckForKnownSwitchUsers ((userName, u) # us) =
     (if userName \<in> set knownSwitchUsers
      then Inl (Errf (''switch user can'' @ [CHR 0x27] @ ''t be named %q'') [userName])
      else CheckForKnownSwitchUsers us)"

section \<open>ASNs and VLANs\<close>

definition FabricModeSpineLeaf :: string where "FabricModeSpineLeaf = ''spine-leaf''"

definition FabricModes :: "string list" where "FabricModes = [FabricModeSpineLeaf]"

definition validate_asns :: "fab_config \<Rightarrow> unit result" where
  "validate_asns c =
     (let fc = Fabric c; gw = GwASN (Gateway c) in
      if FabMode fc \<notin> set FabricModes then Inl (Errf ''invalid fabric mode %q'' [FabMode fc])
      else if FabMode fc = FabricModeSpineLeaf then
        if SpineASN fc = 0 then Inl (Errf ''spine ASN is required for spine-leaf mode'' [])
        else if SpineASN fc \<ge> LeafASNStart fc \<and> SpineASN fc \<le> LeafASNEnd fc
        then Inl (Errf ''spine ASN must be outside leaf ASN range'' [])
        else if LeafASNStart fc = 0 then Inl (Errf ''leaf ASN start is required for spine-leaf mode'' [])
        else if LeafASNEnd fc = 0 then Inl (Errf ''leaf ASN end is required for spine-leaf mode'' [])
        else if LeafASNStart fc \<ge> LeafASNEnd fc
        then Inl (Errf ''leaf ASN start must be less than leaf ASN end'' [])
        else if gw = 0 then Inl (Errf ''gateway ASN is required for spine-leaf mode'' [])
        else if gw = SpineASN fc then Inl (Errf ''gateway ASN must be different from spine ASN'' [])
        else if gw \<ge> LeafASNStart fc \<and> gw \<le> LeafASNEnd fc
        then Inl (Errf ''gateway ASN must be outside leaf ASN range'' [])
        else Inr ()
      else Inr ())"

definition SortVLANRanges :: "vlan_range list \<Rightarrow> vlan_range list" where
  "SortVLANRanges rs = sort_key (\<lambda>r. (vr_From r, vr_To r)) rs"

fun vlan_overlap_scan :: "vlan_range list \<Rightarrow> unit result" where
  "vlan_overlap_scan (a # b # rs) =
     (if vr_To a \<ge> vr_From b
      then Inl (Errf ''VLAN ranges overlap: %d-%d and %d-%d''
             (map (itoa \<circ> unat) [vr_From a, vr_To a, vr_From b, vr_To b]))
      else vlan_overlap_scan (b # rs))"
| "vlan_overlap_scan _ = Inr ()"

definition CheckVLANRangesOverlap :: "vlan_range list \<Rightarrow> unit result" where
  "CheckVLANRangesOverlap rs = (if length rs < 2 then Inr () else vlan_overlap_scan (SortVLANRanges rs))"

definition validate_vlans :: "fabric_config \<Rightarrow> unit result" where
  "validate_vlans fc =
     (if BaseVPCCommunity fc = '''' then Inl (Errf ''base VPC community is required'' [])
      else if length (VPCIRBVLANs fc) = 0 then Inl (Errf ''VPC IRB VLANs are required'' [])
      else if length (VPCWorkaroundVLANs fc) = 0 then Inl (Errf ''VPC workaround VLANs are required'' [])
      else if length (TH5WorkaroundVLANs fc) = 0 then Inl (Errf ''TH5 workaround VLANs are required'' [])
      else ebind (ewrap ''overlap between TH5 workaround VLAN ranges and IRB VLAN ranges: %w'' []
                   (CheckVLANRangesOverlap (TH5WorkaroundVLANs fc @ VPCIRBVLANs fc))) (\<lambda>_.
      if ESLAGMACBase fc = '''' then Inl (Errf ''ESLAG MAC base is required'' [])
      else if ESLAGESIPrefix fc = '''' then Inl (Errf ''ESLAG ESI prefix is required'' [])
      else Inr ()))"

section \<open>Reserved subnets\<close>

definition parse_fabric_subnets :: "fabric_config \<Rightarrow> (prefix \<times> prefix \<times> prefix \<times> prefix \<times> prefix) result" where
  "parse_fabric_subnets fc =
     ebind (ewrap ''parsing protocol subnet: %w'' [] (prefix_parse (ProtocolSubnet fc))) (\<lambda>protoSubnet.
     ebind (ewrap ''parsing VTEP subnet: %w'' [] (prefix_parse (VTEPSubnet fc))) (\<lambda>vtepSubnet.
     ebind (ewrap ''parsing fabric subnet: %w'' [] (prefix_parse (FabricSubnet fc))) (\<lambda>fabricSubnet.
     ebind (ewrap ''parsing MCLAG session subnet: %w'' [] (prefix_parse (MCLAGSessionSubnet fc))) (\<lambda>mclagSessionSubnet.
     ebind (ewrap ''parsing VPC workaround subnet: %w'' [] (prefix_parse (VPCWorkaroundSubnet fc))) (\<lambda>vpcLoopSubnet.
     Inr (protoSubnet, vtepSubnet, fabricSubnet, mclagSessionSubnet, vpcLoopSubnet))))))"

text \<open>The double loop over the reserved subnets: every pair of different indices, both ways round.\<close>

definition index_pairs :: "'a list \<Rightarrow> ('a \<times> 'a) list" where
  "index_pairs xs =
     concat (map (\<lambda>i. map (\<lambda>j. (xs ! i, xs ! j)) (filter (\<lambda>j. i \<noteq> j) [0..<length xs])) [0..<length xs])"

fun first_overlap :: "(prefix \<times> prefix) list \<Rightarrow> unit result" where
  "first_overlap [] = Inr ()"
| "first_overlap ((a, b) # ps) =
     (if prefix_overlaps a b
      then Inl (Errf ''subnets %s and %s overlap'' [prefix_string a, prefix_string b])
      else first_overlap ps)"

definition validate_reserved :: "prefix list \<Rightarrow> unit result" where
  "validate_reserved reservedSubnets = first_overlap (index_pairs reservedSubnets)"

section \<open>Gateway communities\<close>

definition validate_community :: "string \<times> string \<Rightarrow> unit \<Rightarrow> unit result" where
  "validate_community pc u =
     (case pc of (prioStr, commStr) \<Rightarrow>
      ebind (ewrap ''config: gatewayCommunity priority %s is invalid: %w'' [prioStr] (parse_uint prioStr 32)) (\<lambda>_.
      let parts = split_on (CHR '':'') commStr in
      if length parts \<noteq> 2
      then Inl (Errf ''config: gatewayCommunity community %s format is invalid'' [commStr])
      else
      ebind (ewrap ''config: gatewayCommunity community %s is invalid: %w'' [commStr] (parse_uint (parts ! 0) 16)) (\<lambda>_.
      ebind (ewrap ''config: gatewayCommunity community %s is invalid: %w'' [commStr] (parse_uint (parts ! 1) 16)) (\<lambda>_.
      Inr ()))))"

definition validate_observability :: "fab_config \<Rightarrow> unit result" where
  "validate_observability c =
     (if Defaults (Observability c) \<notin> set ObservabilityDefaultsList
      then Inl (Errf ''invalid observability defaults mode: %s'' [Defaults (Observability c)])
      else Inr ())"

section \<open>The whole validation\<close>

definition validate_head :: "(fabricator \<Rightarrow> unit result) \<Rightarrow> fabricator \<Rightarrow> unit result" where
  "validate_head struct_ctx f =
     (if fb_Name f \<noteq> FabName then Inl (Errf ''fabricator name must be %q'' [FabName])
      else if fb_Namespace f \<noteq> FabNamespace
      then Inl (Errf ''fabricator namespace must be %q'' [FabNamespace])
      else ebind (ewrap ''validating: %w'' [] (struct_ctx f)) (\<lambda>_. validate_registry (Registry (Config f))))"

definition validate_config :: "fab_config \<Rightarrow> unit result" where
  "validate_config c =
     ebind (validate_control_subnets c) (\<lambda>(mgmtSubnet, dummySubnet).
     ebind (validate_default_user (Control c)) (\<lambda>_.
     ebind (validate_switch_users (DefaultSwitchUsers (Fabric c))) (\<lambda>_.
     ebind (validate_asns c) (\<lambda>_.
     ebind (parse_fabric_subnets (Fabric c)) (\<lambda>(protoSubnet, vtepSubnet, fabricSubnet, mclagSessionSubnet, vpcLoopSubnet).
     ebind (validate_vlans (Fabric c)) (\<lambda>_.
     ebind (validate_reserved [mgmtSubnet, protoSubnet, vtepSubnet, fabricSubnet, dummySubnet,
                               mclagSessionSubnet, vpcLoopSubnet]) (\<lambda>_.
     ebind (validate_observability c) (\<lambda>_.
     ebind (efold validate_community (Communities (Gateway c)) ()) (\<lambda>_.
     CheckForKnownSwitchUsers (DefaultSwitchUsers (Fabric c)))))))))))"

text \<open>The result is the configuration with the defaults the validation applies first.\<close>

definition fab_validate :: "(fabricator \<Rightarrow> unit result) \<Rightarrow> fabricator \<Rightarrow> fabricator result" where
  "fab_validate struct_ctx f =
     (let f = fab_default f in
      ebind (validate_head struct_ctx f) (\<lambda>_. ebind (validate_config (Config f)) (\<lambda>_. Inr f)))"

section \<open>Control and fabric nodes\<close>

text \<open>The checks of the addresses of a hydrated node, which both kinds of nodes share.\<close>

definition validate_node_ips :: "fab_config \<Rightarrow> ('a) node_base_scheme \<Rightarrow> (prefix \<times> prefix) result" where
  "validate_node_ips c n =
     ebind (ewrap ''parsing dummy IP: %w'' [] (prefix_parse (nd_DummyIP n))) (\<lambda>dummyAddr.
     ebind (ewrap ''parsing dummy subnet: %w'' [] (prefix_parse (DummySubnet (Control c)))) (\<lambda>dummySubnet.
     if \<not> prefix_contains dummySubnet (pf_addr dummyAddr)
     then Inl (Errf ''dummy IP %s not in dummy subnet %s'' [prefix_string dummyAddr, prefix_string dummySubnet]) else
     if pf_bits dummyAddr \<noteq> 31
     then Inl (Errf ''dummy IP %s should be /31'' [prefix_string dummyAddr]) else
     ebind (ewrap ''parsing management IP: %w'' [] (prefix_parse (nd_MgmtIP n))) (\<lambda>managementAddr.
     ebind (ewrap ''parsing management subnet: %w'' [] (prefix_parse (ManagementSubnet (Control c)))) (\<lambda>managementSubnet.
     if \<not> prefix_contains managementSubnet (pf_addr managementAddr)
     then Inl (Errf ''management IP %s not in management subnet %s''
            [prefix_string managementAddr, prefix_string managementSubnet]) else
     if pf_bits managementAddr \<noteq> pf_bits managementSubnet
     then Inl (Errf ''management IP %s not the same subnet as management subnet %s''
            [prefix_string managementAddr, prefix_string managementSubnet]) else
     Inr (dummyAddr, managementAddr)))))"

definition control_node_validate :: "fab_config option \<Rightarrow> bool \<Rightarrow> control_node \<Rightarrow> unit result" where
  "control_node_validate fabCfg allowNotHydrated n =
     (case fabCfg of
        None \<Rightarrow> Inl (Errf ''fabricator config must be non-nil'' [])
      | Some c \<Rightarrow>
          if nd_Namespace n \<noteq> FabNamespace
          then Inl (Errf ''control node must be in the fabricator namespace %q'' [FabNamespace]) else
          ebind (if allowNotHydrated then Inr () else ebind (validate_node_ips c n) (\<lambda>_. Inr ())) (\<lambda>_.
          ebind (ewrap ''parsing external IP: %w'' [] (prefix_or_dhcp_parse (ext_IP n))) (\<lambda>_.
          if nd_MgmtInterface n = '''' then Inl (Errf ''management interface must be set'' [])
          else if ext_Interface n = '''' then Inl (Errf ''external interface must be set'' [])
          else if nd_Disk n = '''' then Inl (Errf ''bootstrap disk must be set'' [])
          else Inr ())))"

text \<open>The address parsed from a node, when it parses: the others are skipped.\<close>

definition parsed_ips :: "string list \<Rightarrow> addr list" where
  "parsed_ips ss = concat (map (\<lambda>s. case prefix_parse s of Inl _ \<Rightarrow> [] | Inr p \<Rightarrow> [pf_addr p]) ss)"

text \<open>
  The check against the other nodes of the cluster; \<open>controls\<close> and \<open>fabnodes\<close> are what the two
  list calls of the client return. An error the client's \<^verbatim>\<open>IsNoMatchError\<close> recognises (the kind is not
  installed yet) leaves the list of the fabric nodes empty.
\<close>

definition validate_node_unique ::
  "(go_err \<Rightarrow> bool) \<Rightarrow> fab_config \<Rightarrow> control_node list result \<Rightarrow> fab_node list result \<Rightarrow> fab_node \<Rightarrow> prefix \<times> prefix \<Rightarrow> unit result" where
  "validate_node_unique isNoMatch c controls fabnodes n ips =
     (case ips of (dummyAddr, managementAddr) \<Rightarrow>
      ebind (ewrap ''parsing control VIP: %w'' [] (prefix_parse (VIP (Control c)))) (\<lambda>controlVIP.
      ebind (ewrap ''listing control nodes: %w'' [] controls) (\<lambda>controls.
      ebind (case fabnodes of
               Inl e \<Rightarrow> if isNoMatch e then Inr [] else Inl (Wrapf ''listing fabricator nodes: %w'' [] e)
             | Inr l \<Rightarrow> Inr l) (\<lambda>fabnodes.
      let others = filter (\<lambda>other. nd_Name other \<noteq> nd_Name n) fabnodes;
          dummyIPs = parsed_ips (map nd_DummyIP controls) @ parsed_ips (map nd_DummyIP others);
          mgmtIPs = pf_addr controlVIP # parsed_ips (map nd_MgmtIP controls) @ parsed_ips (map nd_MgmtIP others) in
      if pf_addr dummyAddr \<in> set dummyIPs
      then Inl (Errf ''dummy IP %s already in use'' [prefix_string dummyAddr])
      else if pf_addr managementAddr \<in> set mgmtIPs
      then Inl (Errf ''management IP %s already in use'' [prefix_string managementAddr])
      else Inr ()))))"

definition fab_node_validate ::
  "(go_err \<Rightarrow> bool) \<Rightarrow> fab_config option \<Rightarrow> bool \<Rightarrow> (control_node list result \<times> fab_node list result) option \<Rightarrow> fab_node \<Rightarrow> unit result" where
  "fab_node_validate isNoMatch fabCfg allowNotHydrated kube n =
     (case fabCfg of
        None \<Rightarrow> Inl (Errf ''fabricator config must be non-nil'' [])
      | Some c \<Rightarrow>
          if nd_Namespace n \<noteq> FabNamespace
          then Inl (Errf ''node must be in the fabricator namespace %q'' [FabNamespace]) else
          if length (remdups (nd_Roles n)) \<noteq> length (nd_Roles n)
          then Inl (Errf ''duplicate node roles %q'' (nd_Roles n)) else
          if \<not> list_all (\<lambda>r. r \<in> set NodeRoles) (nd_Roles n)
          then Inl (Errf ''unexpected node roles %q'' (nd_Roles n)) else
          ebind (if allowNotHydrated then Inr ()
                 else ebind (validate_node_ips c n) (\<lambda>ips.
                      case kube of None \<Rightarrow> Inr ()
                      | Some (controls, fabnodes) \<Rightarrow> validate_node_unique isNoMatch c controls fabnodes n ips)) (\<lambda>_.
          if nd_MgmtInterface n = '''' then Inl (Errf ''management interface must be set'' [])
          else if nd_Disk n = '''' then Inl (Errf ''bootstrap disk must be set'' [])
          else Inr ()))"

section \<open>VLAN ranges\<close>

definition vlan_in :: "16 word \<Rightarrow> vlan_range \<Rightarrow> bool" where
  "vlan_in v r \<longleftrightarrow> vr_From r \<le> v \<and> v \<le> vr_To r"

definition vlans_disjoint :: "vlan_range list \<Rightarrow> bool" where
  "vlans_disjoint rs = sorted_wrt (\<lambda>a b. \<forall>v. \<not> (vlan_in v a \<and> vlan_in v b)) rs"

lemma sorted_wrt_insort_sym:
  assumes "\<And>a b. R a b \<longleftrightarrow> R b a"
  shows "sorted_wrt R (insort_key f x xs) \<longleftrightarrow> sorted_wrt R (x # xs)"
  using assms by (induction xs) (auto simp: set_insort_key)

lemma set_sort_key_eq: "set (sort_key f xs) = set xs"
  by simp

lemma sorted_wrt_sort_sym:
  assumes "\<And>a b. R a b \<longleftrightarrow> R b a"
  shows "sorted_wrt R (sort_key f xs) \<longleftrightarrow> sorted_wrt R xs"
proof (induction xs)
  case (Cons x xs)
  then show ?case
    by (simp add: sorted_wrt_insort_sym [of R, OF assms] sort_key_def)
      (simp flip: sort_key_def)
qed (simp add: sort_key_def)

lemma vlans_disjoint_sort: "vlans_disjoint (SortVLANRanges rs) = vlans_disjoint rs"
  unfolding vlans_disjoint_def SortVLANRanges_def by (rule sorted_wrt_sort_sym) auto

lemma scan_below:
  "vlan_overlap_scan (a # rs) = Inr () \<Longrightarrow> sorted (map vr_From (a # rs)) \<Longrightarrow> b \<in> set rs \<Longrightarrow> vr_To a < vr_From b"
  by (cases rs) (auto split: if_splits intro: less_le_trans)

lemma scan_disjoint:
  "vlan_overlap_scan rs = Inr () \<Longrightarrow> sorted (map vr_From rs) \<Longrightarrow> vlans_disjoint rs"
proof (induction rs)
  case (Cons a rs)
  have "\<forall>b\<in>set rs. vr_To a < vr_From b"
    using scan_below [OF Cons.prems] by blast
  moreover have "vlan_overlap_scan rs = Inr ()" using Cons.prems(1) by (cases rs) (auto split: if_splits)
  ultimately show ?case
    using Cons by (fastforce simp: vlans_disjoint_def vlan_in_def)
qed (simp add: vlans_disjoint_def)

lemma disjoint_scan:
  "vlans_disjoint rs \<Longrightarrow> list_all (\<lambda>r. vr_From r \<le> vr_To r) rs \<Longrightarrow> sorted (map vr_From rs) \<Longrightarrow>
   vlan_overlap_scan rs = Inr ()"
proof (induction rs rule: vlan_overlap_scan.induct)
  case (1 a b rs)
  have "\<not> (vlan_in (vr_From b) a \<and> vlan_in (vr_From b) b)"
    using "1.prems"(1) by (simp add: vlans_disjoint_def)
  then have "\<not> vr_To a \<ge> vr_From b"
    using "1.prems" by (auto simp: vlan_in_def)
  with 1 show ?case by (simp add: vlans_disjoint_def)
qed simp_all

lemma sorted_map_From_sort: "sorted (map vr_From (SortVLANRanges rs))"
proof -
  have "sorted (map (\<lambda>r. (vr_From r, vr_To r)) (SortVLANRanges rs))"
    unfolding SortVLANRanges_def by (rule sorted_sort_key)
  then show ?thesis
    unfolding sorted_map by (rule sorted_wrt_mono_rel [rotated]) auto
qed

text \<open>
  C2. For ranges that are not empty, the overlap check (sort, then compare neighbours) accepts
  exactly the lists in which no VLAN lies in two ranges.
\<close>

theorem vlan_check_iff_disjoint:
  assumes "list_all (\<lambda>r. vr_From r \<le> vr_To r) rs"
  shows "CheckVLANRangesOverlap rs = Inr () \<longleftrightarrow> vlans_disjoint rs"
proof (cases "length rs < 2")
  case True
  then show ?thesis by (cases rs) (auto simp: CheckVLANRangesOverlap_def vlans_disjoint_def)
next
  case False
  have "list_all (\<lambda>r. vr_From r \<le> vr_To r) (SortVLANRanges rs)"
    using assms by (simp add: list_all_iff SortVLANRanges_def)
  then have "vlan_overlap_scan (SortVLANRanges rs) = Inr () \<longleftrightarrow> vlans_disjoint (SortVLANRanges rs)"
    using scan_disjoint disjoint_scan sorted_map_From_sort by blast
  with False show ?thesis by (simp add: CheckVLANRangesOverlap_def vlans_disjoint_sort)
qed

theorem vlan_check_iff_disjoint_witness:
  "vlans_disjoint [\<lparr>vr_From = 3900, vr_To = 3999\<rparr>, \<lparr>vr_From = 3000, vr_To = 3899\<rparr>]"
proof -
  let ?rs = "[\<lparr>vr_From = 3900, vr_To = 3999\<rparr>, \<lparr>vr_From = 3000, vr_To = 3899\<rparr>]"
  have "list_all (\<lambda>r. vr_From r \<le> vr_To r) ?rs" by simp
  moreover have "CheckVLANRangesOverlap ?rs = Inr ()"
    by (simp add: CheckVLANRangesOverlap_def SortVLANRanges_def)
  ultimately show ?thesis using vlan_check_iff_disjoint [of ?rs] by simp
qed

section \<open>The default configuration\<close>

text \<open>
  \<^verbatim>\<open>fab.DefaultConfig\<close>: the fields the source does not name have their zero value.
\<close>

definition DefaultConfig :: fab_config where
  "DefaultConfig =
     \<lparr>Control = \<lparr>ManagementSubnet = ''172.30.0.0/21'', VIP = ''172.30.0.1/32'',
        ManagementSubnetAnyDevice = False, ManagementSubnetStatic = [], TLSSAN = [], JoinToken = '''',
        KubeClusterSubnet = ''172.28.0.0/16'', KubeServiceSubnet = ''172.29.0.0/16'',
        KubeClusterDNS = ''172.29.0.10'', DummySubnet = ''172.30.90.0/24'',
        DefaultUser = \<lparr>cu_PasswordHash = '''', cu_AuthorizedKeys = []\<rparr>, NoPassAuth = False,
        NTPServers = [], ControlObservability = None\<rparr>,
      Registry = \<lparr>RegMode = RegistryModeAirgap, Upstream = None\<rparr>,
      Fabric = \<lparr>FabMode = FabricModeSpineLeaf, ManagementDHCPStart = ''172.30.4.0'',
        ManagementDHCPEnd = ''172.30.7.254'', SpineASN = 65100, LeafASNStart = 65101, LeafASNEnd = 65533,
        ProtocolSubnet = ''172.30.8.0/22'', VTEPSubnet = ''172.30.12.0/22'', FabricSubnet = ''172.30.128.0/17'',
        ProxyExternalSubnet = ''172.30.16.0/22'', BaseVPCCommunity = ''50000:0'',
        VPCIRBVLANs = [\<lparr>vr_From = 3000, vr_To = 3899\<rparr>], LoopbackWorkaroundDisable = False,
        VPCWorkaroundVLANs = [\<lparr>vr_From = 100, vr_To = 3999\<rparr>], VPCWorkaroundSubnet = ''172.30.96.0/19'',
        TH5WorkaroundVLANs = [\<lparr>vr_From = 3900, vr_To = 3999\<rparr>], ESLAGMACBase = ''f2:00:00:00:00:00'',
        ESLAGESIPrefix = ''00:f2:00:00:'', MCLAGSessionSubnet = ''172.30.95.0/31'', DefaultSwitchUsers = [],
        DefaultAlloyConfig = \<lparr>PrometheusTargets = [], LokiTargets = []\<rparr>, ExcludeNOSInstallers = False,
        IncludeONIE = False, IncludeBCM = False, IncludeCLSP = False, IncludeCumulus = False,
        DisableBFD = False, FabricObservability = None\<rparr>,
      Gateway = \<lparr>GwEnable = False, GwASN = 65534, GwMAC = '''', GwObservability = None, Communities = []\<rparr>,
      Observability = \<lparr>Defaults = '''', Labels = [], Targets = \<lparr>Prometheus = [], Loki = [], Pyroscope = []\<rparr>\<rparr>\<rparr>"

text \<open>The default configuration with the users the installer asks for.\<close>

definition example_config :: "string \<Rightarrow> fab_config" where
  "example_config hash =
     DefaultConfig\<lparr>Control := (Control DefaultConfig)\<lparr>DefaultUser := \<lparr>cu_PasswordHash = hash, cu_AuthorizedKeys = []\<rparr>\<rparr>,
       Fabric := (Fabric DefaultConfig)\<lparr>DefaultSwitchUsers :=
         [(''admin'', \<lparr>su_PasswordHash = hash, su_Role = ''admin'', su_AuthorizedKeys = []\<rparr>)]\<rparr>\<rparr>"

definition example_fab :: fabricator where
  "example_fab = \<lparr>fb_Name = FabName, fb_Namespace = FabNamespace, Config = example_config ''$5$salt$hash''\<rparr>"

section \<open>The default configuration is accepted\<close>

lemma default_subnets_parse:
  "prefix_parse ''172.30.0.0/21'' = Inr (v4_prefix 0xAC1E0000 21)"
  "prefix_parse ''172.30.0.1/32'' = Inr (v4_prefix 0xAC1E0001 32)"
  "prefix_parse ''172.28.0.0/16'' = Inr (v4_prefix 0xAC1C0000 16)"
  "prefix_parse ''172.29.0.0/16'' = Inr (v4_prefix 0xAC1D0000 16)"
  "prefix_parse ''172.30.90.0/24'' = Inr (v4_prefix 0xAC1E5A00 24)"
  "prefix_parse ''172.30.8.0/22'' = Inr (v4_prefix 0xAC1E0800 22)"
  "prefix_parse ''172.30.12.0/22'' = Inr (v4_prefix 0xAC1E0C00 22)"
  "prefix_parse ''172.30.128.0/17'' = Inr (v4_prefix 0xAC1E8000 17)"
  "prefix_parse ''172.30.95.0/31'' = Inr (v4_prefix 0xAC1E5F00 31)"
  "prefix_parse ''172.30.96.0/19'' = Inr (v4_prefix 0xAC1E6000 19)"
  "addr_parse ''172.30.4.0'' = Inr (V4 0xAC1E0400)"
  "addr_parse ''172.30.7.254'' = Inr (V4 0xAC1E07FE)"
  "addr_parse ''172.29.0.10'' = Inr (V4 0xAC1D000A)"
  by (simp_all add: parse_eval v4_prefix_def)

lemmas config_default_eval = config_default_def default_scalars_def default_leaf_asn_def
  default_observability_def default_targets_def default_labels_def if_empty_def default_irb_vlans_def
  add_old_targets_def Let_def

lemmas example_eval = example_config_def DefaultConfig_def config_default_asns default_leaf_asn_def

lemma example_control_subnets:
  "validate_control_subnets (config_default (example_config h)) =
   Inr (v4_prefix 0xAC1E0000 21, v4_prefix 0xAC1E5A00 24)"
  by (simp add: validate_control_subnets_def example_eval default_subnets_parse contains_v4_iff overlaps_v4_iff)

lemma example_fabric_subnets:
  "parse_fabric_subnets (Fabric (config_default (example_config h))) =
   Inr (v4_prefix 0xAC1E0800 22, v4_prefix 0xAC1E0C00 22, v4_prefix 0xAC1E8000 17,
        v4_prefix 0xAC1E5F00 31, v4_prefix 0xAC1E6000 19)"
  by (simp add: parse_fabric_subnets_def example_eval default_subnets_parse)

lemma example_reserved:
  "validate_reserved [v4_prefix 0xAC1E0000 21, v4_prefix 0xAC1E0800 22, v4_prefix 0xAC1E0C00 22,
     v4_prefix 0xAC1E8000 17, v4_prefix 0xAC1E5A00 24, v4_prefix 0xAC1E5F00 31, v4_prefix 0xAC1E6000 19] = Inr ()"
  by (simp add: validate_reserved_def index_pairs_def overlaps_v4_iff upt_rec)

lemma example_asns: "validate_asns (config_default (example_config h)) = Inr ()"
  by (simp add: validate_asns_def example_eval FabricModes_def)

lemma example_vlans: "validate_vlans (Fabric (config_default (example_config h))) = Inr ()"
  by (simp add: validate_vlans_def config_default_eval example_config_def DefaultConfig_def
      CheckVLANRangesOverlap_def SortVLANRanges_def)

lemma example_fields:
  "DefaultUser (Control (example_config h)) = \<lparr>cu_PasswordHash = h, cu_AuthorizedKeys = []\<rparr>"
  "NoPassAuth (Control (example_config h)) = False"
  "DefaultSwitchUsers (Fabric (example_config h)) =
     [(''admin'', \<lparr>su_PasswordHash = h, su_Role = ''admin'', su_AuthorizedKeys = []\<rparr>)]"
  "SpineASN (Fabric (example_config h)) = 65100"
  "LeafASNStart (Fabric (example_config h)) = 65101"
  "LeafASNEnd (Fabric (config_default (example_config h))) = 65533"
  by (simp_all add: example_eval)

lemma admin_not_known: "''admin'' \<notin> set knownSwitchUsers"
  by (simp add: knownSwitchUsers_def)

lemma example_users:
  assumes "has_prefix h ''$5$''"
  shows "validate_default_user (Control (config_default (example_config h))) = Inr ()"
    and "validate_switch_users (DefaultSwitchUsers (Fabric (example_config h))) = Inr ()"
    and "CheckForKnownSwitchUsers (DefaultSwitchUsers (Fabric (example_config h))) = Inr ()"
  using assms
  by (auto simp: validate_default_user_def validate_switch_users_def validate_switch_user_def
      example_fields admin_not_known has_prefix_def Let_def)

lemma example_communities:
  "efold validate_community (Communities (Gateway (config_default (example_config h)))) () = Inr ()"
  by (simp add: config_default_eval example_config_def DefaultConfig_def default_communities_def
      validate_community_def parse_uint_def is_digit_def digits_val_def digit_val_def)

lemma example_observability: "validate_observability (config_default (example_config h)) = Inr ()"
  by (simp add: validate_observability_def config_default_eval example_config_def DefaultConfig_def
      ObservabilityDefaultsList_def ObservabilityDefaultsAll_def)

lemma example_config_accepted:
  "has_prefix h ''$5$'' \<Longrightarrow> validate_config (config_default (example_config h)) = Inr ()"
  by (simp add: validate_config_def example_control_subnets example_fabric_subnets example_reserved
      example_asns example_vlans example_users example_communities example_observability)

text \<open>
  C3. The configuration the installer starts from, once the users have password hashes, is accepted.
\<close>

theorem default_config_accepted:
  assumes "has_prefix h ''$5$''"
  shows "fab_validate (\<lambda>_. Inr ()) \<lparr>fb_Name = FabName, fb_Namespace = FabNamespace, Config = example_config h\<rparr> =
         Inr (fab_default \<lparr>fb_Name = FabName, fb_Namespace = FabNamespace, Config = example_config h\<rparr>)"
proof -
  have "validate_registry (Registry (config_default (example_config h))) = Inr ()"
    by (simp add: validate_registry_def config_default_eval example_config_def DefaultConfig_def IsAirgap_def)
  with assms show ?thesis
    by (simp add: fab_validate_def Let_def fab_default_def validate_head_def example_config_accepted)
qed

theorem default_config_accepted_witness:
  "fab_validate (\<lambda>_. Inr ()) example_fab = Inr (fab_default example_fab)"
  using default_config_accepted [of "''$5$salt$hash''"] by (simp add: example_fab_def has_prefix_def)

section \<open>What an accepted configuration satisfies\<close>

lemma index_pairs_nth:
  "i < length xs \<Longrightarrow> j < length xs \<Longrightarrow> i \<noteq> j \<Longrightarrow> (xs ! i, xs ! j) \<in> set (index_pairs xs)"
  by (auto simp: index_pairs_def)

lemma first_overlap_ok: "first_overlap ps = Inr () \<Longrightarrow> (a, b) \<in> set ps \<Longrightarrow> \<not> prefix_overlaps a b"
  by (induction ps rule: first_overlap.induct) (auto split: if_splits)

lemma prefixes_disjoint:
  assumes "prefix_parse s = Inr p" "prefix_parse t = Inr q" "\<not> prefix_overlaps p q"
  shows "\<not> (prefix_contains p a \<and> prefix_contains q a)"
proof -
  obtain x n y m where "p = v4_prefix x n" "n \<le> 32" "q = v4_prefix y m" "m \<le> 32"
    using assms(1,2) by (meson prefix_parse_v4)
  with assms(3) show ?thesis
    by (cases a) (auto simp: overlaps_v4_shared, auto simp: prefix_contains_def)
qed

lemma fab_validate_ok:
  "fab_validate sc f = Inr f' \<longleftrightarrow>
   f' = fab_default f \<and> validate_head sc f' = Inr () \<and> validate_config (Config f') = Inr ()"
  by (auto simp: fab_validate_def Let_def ok_iff)

lemma validate_reserved_disjoint_nth:
  assumes "validate_reserved ps = Inr ()" "map prefix_parse ss = map Inr ps" "i < length ps" "j < length ps" "i \<noteq> j"
  shows "\<not> (prefix_contains (ps ! i) a \<and> prefix_contains (ps ! j) a)"
proof (rule prefixes_disjoint)
  have len: "length ss = length ps" using assms(2) by (metis length_map)
  show "prefix_parse (ss ! i) = Inr (ps ! i)" "prefix_parse (ss ! j) = Inr (ps ! j)"
    using assms(2-4) len by (metis nth_map)+
  show "\<not> prefix_overlaps (ps ! i) (ps ! j)"
    using first_overlap_ok [OF _ index_pairs_nth [OF assms(3-5)]] assms(1) by (simp add: validate_reserved_def)
qed

definition reserved_strings :: "fab_config \<Rightarrow> string list" where
  "reserved_strings c =
     [ManagementSubnet (Control c), ProtocolSubnet (Fabric c), VTEPSubnet (Fabric c), FabricSubnet (Fabric c),
      DummySubnet (Control c), MCLAGSessionSubnet (Fabric c), VPCWorkaroundSubnet (Fabric c)]"

lemma validate_control_subnets_ok:
  assumes "validate_control_subnets c = Inr (m, d)"
  shows "prefix_parse (ManagementSubnet (Control c)) = Inr m \<and> prefix_parse (DummySubnet (Control c)) = Inr d"
  using assms by (simp add: validate_control_subnets_def ok_iff) blast

lemma parse_fabric_subnets_ok:
  assumes "parse_fabric_subnets fc = Inr (p, v, fs, ml, vl)"
  shows "prefix_parse (ProtocolSubnet fc) = Inr p \<and> prefix_parse (VTEPSubnet fc) = Inr v \<and>
    prefix_parse (FabricSubnet fc) = Inr fs \<and> prefix_parse (MCLAGSessionSubnet fc) = Inr ml \<and>
    prefix_parse (VPCWorkaroundSubnet fc) = Inr vl"
  using assms by (simp add: parse_fabric_subnets_def ok_iff)

lemma validate_config_reserved:
  assumes "validate_config c = Inr ()"
  obtains ps where "map prefix_parse (reserved_strings c) = map Inr ps" "length ps = 7" "validate_reserved ps = Inr ()"
proof -
  from assms obtain m d p v fs ml vl
    where "validate_control_subnets c = Inr (m, d)" "parse_fabric_subnets (Fabric c) = Inr (p, v, fs, ml, vl)"
      and r: "validate_reserved [m, p, v, fs, d, ml, vl] = Inr ()"
    by (auto simp: validate_config_def ok_iff)
  then have "map prefix_parse (reserved_strings c) = map Inr [m, p, v, fs, d, ml, vl]"
    by (auto simp: reserved_strings_def dest!: validate_control_subnets_ok parse_fabric_subnets_ok)
  then show ?thesis using r by (intro that [of "[m, p, v, fs, d, ml, vl]"]) simp_all
qed

text \<open>
  C1. Once a configuration is accepted, its seven reserved subnets (management, protocol, VTEP,
  fabric, dummy, MCLAG session, VPC workaround) all parse and no address lies in two of them.
\<close>

theorem validate_reserved_subnets_disjoint:
  assumes "fab_validate sc f = Inr f'"
  shows "\<exists>ps. map prefix_parse (reserved_strings (Config f')) = map Inr ps \<and>
    (\<forall>i j a. i < 7 \<and> j < 7 \<and> i \<noteq> j \<longrightarrow> \<not> (prefix_contains (ps ! i) a \<and> prefix_contains (ps ! j) a))"
proof -
  from assms have "validate_config (Config f') = Inr ()" unfolding fab_validate_ok by blast
  then obtain ps where ps: "map prefix_parse (reserved_strings (Config f')) = map Inr ps" "length ps = 7"
    "validate_reserved ps = Inr ()" by (rule validate_config_reserved)
  show ?thesis
    using validate_reserved_disjoint_nth [OF ps(3,1), unfolded ps(2)] ps(1) by blast
qed

text \<open>
  An accepted configuration keeps the ASNs of the spines, of the gateways and of the leaves
  apart, none of them is 0 and the range of the leaves is not empty.
\<close>

theorem validate_asns_separate:
  assumes "fab_validate sc f = Inr f'" "LeafASNStart (Fabric (Config f')) \<le> asn" "asn \<le> LeafASNEnd (Fabric (Config f'))"
  shows "asn \<noteq> 0 \<and> asn \<noteq> SpineASN (Fabric (Config f')) \<and> asn \<noteq> GwASN (Gateway (Config f')) \<and>
    SpineASN (Fabric (Config f')) \<noteq> 0 \<and> GwASN (Gateway (Config f')) \<noteq> 0 \<and>
    SpineASN (Fabric (Config f')) \<noteq> GwASN (Gateway (Config f')) \<and>
    LeafASNStart (Fabric (Config f')) < LeafASNEnd (Fabric (Config f'))"
proof -
  from assms(1) have "validate_config (Config f') = Inr ()" unfolding fab_validate_ok by blast
  then have "validate_asns (Config f') = Inr ()" by (auto simp: validate_config_def ok_iff)
  moreover have "asn \<noteq> 0" if "LeafASNStart (Fabric (Config f')) \<noteq> 0"
    using assms(2) that word_zero_le order_antisym by metis
  ultimately show ?thesis using assms(2,3)
    by (auto simp: validate_asns_def Let_def FabricModes_def not_le split: if_splits)
qed

lemma example_fab_accepted: "fab_validate (\<lambda>_. Inr ()) example_fab = Inr (fab_default example_fab)"
proof -
  have "validate_head (\<lambda>_. Inr ()) (fab_default example_fab) = Inr ()"
    by (simp add: validate_head_def fab_default_def example_fab_def validate_registry_def
        config_default_eval example_config_def DefaultConfig_def IsAirgap_def)
  then show ?thesis
    using example_config_accepted [of "''$5$salt$hash''"]
    by (simp add: fab_validate_def Let_def fab_default_def example_fab_def has_prefix_def)
qed

theorem validate_reserved_subnets_disjoint_witness:
  "\<exists>ps. map prefix_parse (reserved_strings (Config (fab_default example_fab))) = map Inr ps"
  using validate_reserved_subnets_disjoint [OF example_fab_accepted] by blast

theorem validate_asns_separate_witness:
  "(65101 :: 32 word) \<noteq> SpineASN (Fabric (Config (fab_default example_fab)))"
proof -
  have "Config (fab_default example_fab) = config_default (example_config ''$5$salt$hash'')"
    by (simp add: fab_default_def example_fab_def)
  with validate_asns_separate [OF example_fab_accepted, of 65101] show ?thesis
    by (simp add: example_fields)
qed

end
