(* ===== verification/Readiness.thy ===== *)
theory Readiness
  imports Validate
begin

text \<open>
  The two readiness checks over the component statuses (\<^verbatim>\<open>ComponentsStatus.IsReady\<close> and
  \<^verbatim>\<open>ComponentsStatus.IsGatewayReady\<close>). The loops over the status maps only ever clear the result, so
  each is a check of every entry (\<open>statuses_loop\<close>).
\<close>

text \<open>\<open>gateway_names\<close> is the set of nodes both checks build: those with the gateway role.\<close>

definition gateway_names :: "fab_node list \<Rightarrow> string list" where
  "gateway_names nodes = map nd_Name (filter (\<lambda>n. NodeRoleGateway \<in> set (nd_Roles n)) nodes)"

definition components_ready :: "components_status \<Rightarrow> bool" where
  "components_ready c \<longleftrightarrow>
     FabricatorAPI c = CompStatusReady \<and> FabricatorCtrl c = CompStatusReady \<and>
     FabricatorNodeConfig c \<noteq> CompStatusUnknown \<and>
     CertManagerCtrl c = CompStatusReady \<and> CertManagerWebhook c = CompStatusReady \<and>
     Reloader c = CompStatusReady \<and> Zot c = CompStatusReady \<and> NTP c = CompStatusReady \<and>
     FabricAPI c = CompStatusReady \<and> FabricCtrl c = CompStatusReady \<and>
     FabricBoot c = CompStatusReady \<and> FabricDHCP c = CompStatusReady \<and>
     ControlProxy c = CompStatusReady \<and> ControlAlloy c = CompStatusReady"

definition IsReady :: "components_status \<Rightarrow> fabricator \<Rightarrow> fab_node list \<Rightarrow> bool" where
  "IsReady c cfg nodes =
     (let res = components_ready c in
      if GwEnable (Gateway (Config cfg)) then
        let res = (res \<and> FabricAPI c = CompStatusReady \<and> FabricCtrl c = CompStatusReady \<and>
                   GatewayAlloy c \<noteq> CompStatusUnknown);
            gws = gateway_names nodes;
            res = foldl (\<lambda>r (name, dp). r \<and> List.member gws name \<and> dp \<noteq> CompStatusUnknown) res (GatewayDataplane c)
        in foldl (\<lambda>r (name, frr). r \<and> List.member gws name \<and> frr \<noteq> CompStatusUnknown) res (GatewayFRR c)
      else
        res \<and> GatewayAlloy c = CompStatusSkipped \<and>
        length (GatewayDataplane c) = 0 \<and> length (GatewayFRR c) = 0)"

definition IsGatewayReady :: "components_status \<Rightarrow> fabricator \<Rightarrow> fab_node list \<Rightarrow> bool" where
  "IsGatewayReady c cfg nodes =
     (if \<not> GwEnable (Gateway (Config cfg)) then True
      else
        let res = (FabricAPI c = CompStatusReady \<and> FabricCtrl c = CompStatusReady \<and>
                   GatewayAlloy c = CompStatusReady \<and> FabricatorNodeConfig c \<noteq> CompStatusUnknown);
            gws = gateway_names nodes;
            res = foldl (\<lambda>r (name, dp). r \<and> List.member gws name \<and> dp = CompStatusReady) res (GatewayDataplane c)
        in foldl (\<lambda>r (name, frr). r \<and> List.member gws name \<and> frr = CompStatusReady) res (GatewayFRR c))"

lemma foldl_conj: "foldl (\<lambda>r x. r \<and> P x) b xs \<longleftrightarrow> b \<and> (\<forall>x\<in>set xs. P x)"
  by (induction xs arbitrary: b) auto

lemma foldl_conj_pair:
  "foldl (\<lambda>r (k, v). r \<and> P k v) b xs \<longleftrightarrow> b \<and> (\<forall>(k, v)\<in>set xs. P k v)"
  by (induction xs arbitrary: b) auto

lemma gateway_names_iff:
  "name \<in> set (gateway_names nodes) \<longleftrightarrow> (\<exists>n\<in>set nodes. nd_Name n = name \<and> NodeRoleGateway \<in> set (nd_Roles n))"
  by (auto simp: gateway_names_def)

text \<open>The two loops over the maps of the statuses, as a bounded check of every entry.\<close>

definition statuses_ok :: "(string \<Rightarrow> bool) \<Rightarrow> fab_node list \<Rightarrow> string gomap \<Rightarrow> bool" where
  "statuses_ok ok nodes m \<longleftrightarrow>
     list_all (\<lambda>(name, st). (\<exists>n\<in>set nodes. nd_Name n = name \<and> NodeRoleGateway \<in> set (nd_Roles n)) \<and> ok st) m"

lemma statuses_loop:
  "foldl (\<lambda>r (name, st). r \<and> List.member (gateway_names nodes) name \<and> ok st) b m \<longleftrightarrow> b \<and> statuses_ok ok nodes m"
  by (induction m arbitrary: b) (auto simp: statuses_ok_def gateway_names_iff)

lemma IsReady_enabled:
  "GwEnable (Gateway (Config f)) \<Longrightarrow>
   IsReady c f nodes \<longleftrightarrow> components_ready c \<and> GatewayAlloy c \<noteq> CompStatusUnknown \<and>
     statuses_ok (\<lambda>st. st \<noteq> CompStatusUnknown) nodes (GatewayDataplane c) \<and>
     statuses_ok (\<lambda>st. st \<noteq> CompStatusUnknown) nodes (GatewayFRR c)"
  unfolding IsReady_def Let_def statuses_loop by (auto simp: components_ready_def)

lemma IsGatewayReady_enabled:
  "GwEnable (Gateway (Config f)) \<Longrightarrow>
   IsGatewayReady c f nodes \<longleftrightarrow> FabricAPI c = CompStatusReady \<and> FabricCtrl c = CompStatusReady \<and>
     GatewayAlloy c = CompStatusReady \<and> FabricatorNodeConfig c \<noteq> CompStatusUnknown \<and>
     statuses_ok (\<lambda>st. st = CompStatusReady) nodes (GatewayDataplane c) \<and>
     statuses_ok (\<lambda>st. st = CompStatusReady) nodes (GatewayFRR c)"
  unfolding IsGatewayReady_def Let_def statuses_loop by auto

lemma statuses_ok_mono:
  "statuses_ok P nodes m \<Longrightarrow> (\<And>st. P st \<Longrightarrow> Q st) \<Longrightarrow> set nodes \<subseteq> set nodes' \<Longrightarrow> statuses_ok Q nodes' m"
  unfolding statuses_ok_def list_all_iff by (fastforce split: prod.splits)

lemma ready_not_unknown: "st = CompStatusReady \<Longrightarrow> st \<noteq> CompStatusUnknown"
  by (simp add: CompStatusReady_def CompStatusUnknown_def)

text \<open>
  The two readiness conditions are consistent: where the gateway is enabled, a status whose
  general components are ready and that counts as gateway-ready also counts as ready, and it stays
  so when further nodes join the cluster.
\<close>

theorem gateway_ready_implies_ready:
  assumes "GwEnable (Gateway (Config f))" "components_ready c" "IsGatewayReady c f nodes"
    and "set nodes \<subseteq> set nodes'"
  shows "IsReady c f nodes' \<and> IsGatewayReady c f nodes'"
proof -
  note gw = assms(3)[unfolded IsGatewayReady_enabled [OF assms(1)]]
  have "statuses_ok Q nodes' m" if "statuses_ok (\<lambda>st. st = CompStatusReady) nodes m"
    and "\<And>st. st = CompStatusReady \<Longrightarrow> Q st" for Q m
    using that assms(4) by (rule statuses_ok_mono)
  with gw assms(2) show ?thesis
    by (simp add: IsReady_enabled IsGatewayReady_enabled assms(1) ready_not_unknown)
qed

definition ready_status :: components_status where
  "ready_status =
     \<lparr>FabricatorAPI = CompStatusReady, FabricatorCtrl = CompStatusReady,
      FabricatorNodeConfig = CompStatusPending, CertManagerCtrl = CompStatusReady,
      CertManagerWebhook = CompStatusReady, Reloader = CompStatusReady, Zot = CompStatusReady,
      NTP = CompStatusReady, FabricAPI = CompStatusReady, FabricCtrl = CompStatusReady,
      FabricBoot = CompStatusReady, FabricDHCP = CompStatusReady, ControlProxy = CompStatusReady,
      ControlAlloy = CompStatusReady, GatewayAlloy = CompStatusReady,
      GatewayDataplane = [(''gateway-1'', CompStatusReady)], GatewayFRR = [(''gateway-1'', CompStatusReady)]\<rparr>"

definition gateway_node :: "string \<Rightarrow> fab_node" where
  "gateway_node name =
     \<lparr>nd_Name = name, nd_Namespace = FabNamespace, nd_Disk = ''/dev/sda'', nd_MgmtIP = '''',
      nd_MgmtInterface = ''enp2s1'', nd_DummyIP = '''', nd_Roles = [NodeRoleGateway]\<rparr>"

lemma gateway_node_sel [simp]:
  "nd_Name (gateway_node s) = s" "nd_Roles (gateway_node s) = [NodeRoleGateway]"
  by (simp_all add: gateway_node_def)

definition gateway_fab :: fabricator where
  "gateway_fab = example_fab\<lparr>Config := (Config example_fab)\<lparr>Gateway := (Gateway (Config example_fab))\<lparr>GwEnable := True\<rparr>\<rparr>\<rparr>"

theorem gateway_ready_implies_ready_witness:
  "IsReady ready_status gateway_fab [gateway_node ''gateway-2'', gateway_node ''gateway-1''] \<and>
   IsGatewayReady ready_status gateway_fab [gateway_node ''gateway-2'', gateway_node ''gateway-1'']"
proof (rule gateway_ready_implies_ready)
  show e: "GwEnable (Gateway (Config gateway_fab))"
    by (simp add: gateway_fab_def)
  show "components_ready ready_status"
    by (simp add: components_ready_def ready_status_def CompStatusPending_def CompStatusUnknown_def)
  show "IsGatewayReady ready_status gateway_fab [gateway_node ''gateway-1'']"
    by (simp add: IsGatewayReady_enabled e ready_status_def statuses_ok_def CompStatusPending_def CompStatusUnknown_def)
qed simp

end
