(* ===== verification/Kube.thy ===== *)
theory Kube
  imports Readiness
begin

text \<open>
  The in-memory API client the loader of \<^verbatim>\<open>pkg/util/apiutil/loader.go\<close> builds (the fake client of
  \<^verbatim>\<open>controller-runtime\<close>, vendored with the sources): objects are unique by namespace and name, a list
  is sorted by them, and an update is accepted only for the version of the object it was read from.
  The locale \<open>object_store\<close> is the contract the hydration relies on; the store of the client
  interprets it for objects of every kind.
\<close>

section \<open>Objects and the store\<close>

record obj =
  ob_Namespace :: string
  ob_Name :: string
  ob_RV :: nat

definition ob_key :: "('a) obj_scheme \<Rightarrow> string \<times> string" where
  "ob_key x = (ob_Namespace x, ob_Name x)"

definition NamespaceDefault :: string where "NamespaceDefault = ''default''"

text \<open>The gateway group of a gateway or of a peering that names none.\<close>

definition DefaultGatewayGroup :: string where "DefaultGatewayGroup = ''default''"

definition ErrNotFound :: "string \<Rightarrow> go_err" where
  "ErrNotFound name = Errf ''%q not found'' [name]"

definition ErrConflict :: "string \<Rightarrow> go_err" where
  "ErrConflict name = Errf ''Operation cannot be fulfilled on %q: object was modified'' [name]"

definition ErrAlreadyExists :: "string \<Rightarrow> go_err" where
  "ErrAlreadyExists name = Errf ''%q already exists'' [name]"

definition store_list :: "('a) obj_scheme list \<Rightarrow> ('a) obj_scheme list" where
  "store_list s = sort_key ob_key s"

definition store_get :: "string \<times> string \<Rightarrow> ('a) obj_scheme list \<Rightarrow> ('a) obj_scheme result" where
  "store_get k s =
     (case find (\<lambda>x. ob_key x = k) s of None \<Rightarrow> Inl (ErrNotFound (snd k)) | Some x \<Rightarrow> Inr x)"

definition store_create :: "('a) obj_scheme \<Rightarrow> ('a) obj_scheme list \<Rightarrow> ('a) obj_scheme list result" where
  "store_create x s =
     (if ob_Name x = '''' then Inl (Errf ''name is required'' [])
      else if find (\<lambda>y. ob_key y = ob_key x) s \<noteq> None then Inl (ErrAlreadyExists (ob_Name x))
      else Inr (s @ [x\<lparr>ob_RV := 1\<rparr>]))"

definition bump :: "('a) obj_scheme \<Rightarrow> ('a) obj_scheme" where
  "bump x = x\<lparr>ob_RV := ob_RV x + 1\<rparr>"

definition store_update :: "('a) obj_scheme \<Rightarrow> ('a) obj_scheme list \<Rightarrow> ('a) obj_scheme list result" where
  "store_update x s =
     (case find (\<lambda>y. ob_key y = ob_key x) s of
        None \<Rightarrow> Inl (ErrNotFound (ob_Name x))
      | Some old \<Rightarrow>
          if ob_RV x \<noteq> ob_RV old then Inl (ErrConflict (ob_Name x))
          else Inr (map (\<lambda>y. if ob_key y = ob_key x then bump x else y) s))"

definition store_wf :: "('a) obj_scheme list \<Rightarrow> bool" where
  "store_wf s \<longleftrightarrow> distinct (map ob_key s)"

section \<open>The contract of a store\<close>

lemma find_key:
  "distinct (map f s) \<Longrightarrow> y \<in> set s \<Longrightarrow> find (\<lambda>x. f x = f y) s = Some y"
  by (induction s) (auto simp: image_iff)

lemma mset_map_partition:
  "mset (map f xs) = mset (map f (filter P xs)) + mset (map f (filter (\<lambda>x. \<not> P x) xs))"
  by (induction xs) auto

text \<open>\<open>next\<close> is the object as it is stored: with the version that follows.\<close>

locale object_store =
  fixes key :: "'o \<Rightarrow> 'k" and version :: "'o \<Rightarrow> 'v" and after :: "'o \<Rightarrow> 'o"
    and wf :: "'s \<Rightarrow> bool" and objs :: "'s \<Rightarrow> 'o list"
    and get :: "'k \<Rightarrow> 's \<Rightarrow> 'e + 'o" and update :: "'o \<Rightarrow> 's \<Rightarrow> 'e + 's"
  assumes keys_distinct: "wf s \<Longrightarrow> distinct (map key (objs s))"
    and key_after: "key (after x) = key x"
    and get_objs: "wf s \<Longrightarrow> y \<in> set (objs s) \<Longrightarrow> get (key y) s = Inr y"
    and get_Inr: "wf s \<Longrightarrow> get k s = Inr y \<Longrightarrow> y \<in> set (objs s) \<and> key y = k"
    and update_ok: "wf s \<Longrightarrow> y \<in> set (objs s) \<Longrightarrow> key x = key y \<Longrightarrow> version x = version y \<Longrightarrow>
      \<exists>s'. update x s = Inr s' \<and> wf s' \<and> objs s' = map (\<lambda>z. if key z = key x then after x else z) (objs s)"
    and update_Inr: "wf s \<Longrightarrow> update x s = Inr s' \<Longrightarrow> \<exists>y\<in>set (objs s). key x = key y \<and> version x = version y"
begin

text \<open>An object of the store is determined by its key.\<close>

lemma key_inj: "wf s \<Longrightarrow> x \<in> set (objs s) \<Longrightarrow> y \<in> set (objs s) \<Longrightarrow> key x = key y \<Longrightarrow> x = y"
  using keys_distinct by (metis distinct_map inj_onD)

text \<open>An update that succeeds replaces the object under its key and touches no other.\<close>

lemma update_effect:
  assumes "wf s" "update x s = Inr s'"
  shows "wf s' \<and> objs s' = map (\<lambda>z. if key z = key x then after x else z) (objs s)"
  using update_Inr [OF assms] update_ok [OF assms(1), of _ x] assms(2) by fastforce

lemma get_update_same:
  assumes "wf s" "update x s = Inr s'"
  shows "get (key x) s' = Inr (after x)"
proof -
  obtain y where "y \<in> set (objs s)" "key x = key y"
    using update_Inr [OF assms] by blast
  with update_effect [OF assms] have "after x \<in> set (objs s')" "wf s'" by (auto simp: image_iff)
  with get_objs [of s' "after x"] show ?thesis by (simp add: key_after)
qed

text \<open>
  The objects of one list call, each changed but for its key and version, can all be written back
  in any order: no update finds a conflict.
\<close>

lemma update_all:
  assumes "wf s" "\<And>x. x \<in> set xs \<Longrightarrow> \<exists>y\<in>set (objs s). key x = key y \<and> version x = version y"
    and "distinct (map key xs)"
  shows "\<exists>s'. efold update xs s = Inr s' \<and> wf s' \<and>
           objs s' = map (\<lambda>z. case find (\<lambda>x. key x = key z) xs of Some x \<Rightarrow> after x | None \<Rightarrow> z) (objs s)"
  using assms
proof (induction xs arbitrary: s)
  case (Cons x xs)
  from Cons.prems(2) [of x] obtain y where y: "y \<in> set (objs s)" "key x = key y" "version x = version y"
    by auto
  from update_ok [OF Cons.prems(1) y] obtain s1 where s1: "update x s = Inr s1" "wf s1"
    "objs s1 = map (\<lambda>z. if key z = key x then after x else z) (objs s)" by blast
  have "\<exists>y\<in>set (objs s1). key u = key y \<and> version u = version y" if "u \<in> set xs" for u
  proof -
    from Cons.prems(2) [of u] that obtain v where v: "v \<in> set (objs s)" "key u = key v" "version u = version v"
      by auto
    moreover have "key v \<noteq> key x" using Cons.prems(3) that v(2) by (auto simp: image_iff)
    ultimately show ?thesis using s1(3) by (force simp: image_iff)
  qed
  from Cons.IH [OF s1(2) this] Cons.prems(3) obtain s' where s': "efold update xs s1 = Inr s'" "wf s'"
    "objs s' = map (\<lambda>z. case find (\<lambda>x. key x = key z) xs of Some x \<Rightarrow> after x | None \<Rightarrow> z) (objs s1)"
    by auto
  have "find (\<lambda>u. key u = key x) xs = None"
    using Cons.prems(3) by (auto simp: find_None_iff image_iff)
  then have "objs s' = map (\<lambda>z. case find (\<lambda>x. key x = key z) (x # xs) of Some x \<Rightarrow> after x | None \<Rightarrow> z) (objs s)"
    using s'(3) s1(3) by (auto simp: key_after)
  with s' s1(1) show ?case by auto
next
  case Nil
  then show ?case by simp
qed

text \<open>What is stored then: the objects written back, and those the writes did not name.\<close>

lemma update_all_mset:
  assumes "wf s" "\<And>x. x \<in> set xs \<Longrightarrow> \<exists>y\<in>set (objs s). key x = key y \<and> version x = version y"
    and "distinct (map key xs)"
  shows "\<exists>s'. efold update xs s = Inr s' \<and> wf s' \<and>
           mset (objs s') = mset (map after xs) + mset (filter (\<lambda>z. key z \<notin> key ` set xs) (objs s))"
proof -
  let ?f = "\<lambda>z. case find (\<lambda>x. key x = key z) xs of Some x \<Rightarrow> after x | None \<Rightarrow> z"
  from update_all [OF assms] obtain s' where s': "efold update xs s = Inr s'" "wf s'" "objs s' = map ?f (objs s)"
    by blast
  have other: "?f z = z" if "key z \<notin> key ` set xs" for z
  proof -
    have "find (\<lambda>x. key x = key z) xs = None" unfolding find_None_iff using that by (auto simp: image_iff)
    then show ?thesis by simp
  qed
  have named: "?f z = after x" if "x \<in> set xs" "key z = key x" for x z
    using find_key [OF assms(3) that(1)] that(2) by simp
  have "mset (map after xs) = mset (map ?f (filter (\<lambda>z. key z \<in> key ` set xs) (objs s)))"
  proof (rule set_eq_iff_mset_eq_distinct [THEN iffD1])
    show "distinct (map after xs)"
      using assms(3) by (metis (mono_tags, lifting) distinct_map inj_on_def key_after)
    have "distinct (map key (filter (\<lambda>z. key z \<in> key ` set xs) (objs s)))"
      using keys_distinct [OF assms(1)] by (simp add: distinct_map_filter)
    moreover have "map key (map ?f zs) = map key zs" for zs
      by (induction zs) (auto simp: key_after find_Some_iff split: option.splits)
    ultimately have "distinct (map key (map ?f (filter (\<lambda>z. key z \<in> key ` set xs) (objs s))))"
      by (simp only:)
    then show "distinct (map ?f (filter (\<lambda>z. key z \<in> key ` set xs) (objs s)))" unfolding distinct_map by blast
    show "set (map after xs) = set (map ?f (filter (\<lambda>z. key z \<in> key ` set xs) (objs s)))"
    proof (intro equalityI subsetI)
      fix u assume "u \<in> set (map after xs)"
      then obtain x where x: "x \<in> set xs" "u = after x" by auto
      from assms(2) [OF x(1)] obtain y where y: "y \<in> set (objs s)" "key x = key y" by blast
      have "u = ?f y" using x y(2) named [of x y] by simp
      moreover have "key y \<in> key ` set xs" using x(1) y(2) by (metis imageI)
      ultimately show "u \<in> set (map ?f (filter (\<lambda>z. key z \<in> key ` set xs) (objs s)))"
        using y(1) by simp
    next
      fix u assume "u \<in> set (map ?f (filter (\<lambda>z. key z \<in> key ` set xs) (objs s)))"
      then obtain z x where "z \<in> set (objs s)" "u = ?f z" "x \<in> set xs" "key z = key x" by auto
      with named [of x z] show "u \<in> set (map after xs)" by auto
    qed
  qed
  moreover have "map ?f (filter (\<lambda>z. key z \<notin> key ` set xs) (objs s)) = filter (\<lambda>z. key z \<notin> key ` set xs) (objs s)"
    by (rule map_idI) (simp add: other)
  moreover have "mset (map ?f (objs s)) = mset (map ?f (filter (\<lambda>z. key z \<in> key ` set xs) (objs s))) +
      mset (map ?f (filter (\<lambda>z. key z \<notin> key ` set xs) (objs s)))"
    by (rule mset_map_partition)
  ultimately show ?thesis using s' by auto
qed

end

section \<open>The client's store keeps the contract\<close>

lemma ob_key_bump [simp]: "ob_key (bump x) = ob_key x"
  by (simp add: ob_key_def bump_def)

lemma store_update_wf: "store_wf s \<Longrightarrow> store_wf (map (\<lambda>y. if ob_key y = ob_key x then bump x else y) s)"
proof -
  have "map ob_key (map (\<lambda>y. if ob_key y = ob_key x then bump x else y) s) = map ob_key s" by simp
  then show "store_wf s \<Longrightarrow> ?thesis" unfolding store_wf_def by metis
qed

lemma sort_key_map_key:
  "(\<And>x. k (f x) = k x) \<Longrightarrow> sort_key k (map f xs) = map f (sort_key k xs)"
proof (induction xs)
  case (Cons x xs)
  have "insort_key k (f x) (map f ys) = map f (insort_key k x ys)" for ys
    by (induction ys) (auto simp: Cons.prems)
  with Cons show ?case by simp
qed simp

interpretation store: object_store ob_key ob_RV bump store_wf store_list store_get store_update
proof
  fix s s' :: "('a) obj_scheme list" and x y :: "('a) obj_scheme" and k
  show "store_wf s \<Longrightarrow> distinct (map ob_key (store_list s))"
    by (simp add: store_wf_def store_list_def)
  show "ob_key (bump x) = ob_key x" by simp
  show "store_wf s \<Longrightarrow> y \<in> set (store_list s) \<Longrightarrow> store_get (ob_key y) s = Inr y"
    by (simp add: store_list_def store_get_def store_wf_def find_key)
  show "store_wf s \<Longrightarrow> store_get k s = Inr y \<Longrightarrow> y \<in> set (store_list s) \<and> ob_key y = k"
    by (auto simp: store_list_def store_get_def find_Some_iff split: option.splits)
  show "\<exists>s'. store_update x s = Inr s' \<and> store_wf s' \<and>
          store_list s' = map (\<lambda>z. if ob_key z = ob_key x then bump x else z) (store_list s)"
    if "store_wf s" "y \<in> set (store_list s)" "ob_key x = ob_key y" "ob_RV x = ob_RV y"
  proof -
    have "find (\<lambda>z. ob_key z = ob_key x) s = Some y"
      using that by (simp add: store_list_def store_wf_def find_key)
    moreover have "store_list (map (\<lambda>z. if ob_key z = ob_key x then bump x else z) s) =
        map (\<lambda>z. if ob_key z = ob_key x then bump x else z) (store_list s)"
      unfolding store_list_def by (rule sort_key_map_key) simp
    ultimately show ?thesis using that(1,4) by (simp add: store_update_def store_update_wf)
  qed
  show "\<exists>y\<in>set (store_list s). ob_key x = ob_key y \<and> ob_RV x = ob_RV y"
    if "store_wf s" "store_update x s = Inr s'"
    using that(2)
    by (force simp: store_update_def store_list_def find_Some_iff Bex_def in_set_conv_nth
        split: option.splits if_splits)
qed

lemma store_create_wf: "store_create x s = Inr s' \<Longrightarrow> store_wf s \<Longrightarrow> store_wf s'"
  by (fastforce simp: store_create_def store_wf_def find_None_iff ob_key_def split: if_splits)

section \<open>Wiring objects\<close>

text \<open>The fields the hydration reads and writes; a switch role may be any string.\<close>

definition SwitchRoleSpine :: string where "SwitchRoleSpine = ''spine''"
definition SwitchRoleServerLeaf :: string where "SwitchRoleServerLeaf = ''server-leaf''"
definition SwitchRoleBorderLeaf :: string where "SwitchRoleBorderLeaf = ''border-leaf''"
definition SwitchRoleMixedLeaf :: string where "SwitchRoleMixedLeaf = ''mixed-leaf''"

definition SwitchRoles :: "string list" where
  "SwitchRoles = [SwitchRoleSpine, SwitchRoleServerLeaf, SwitchRoleBorderLeaf, SwitchRoleMixedLeaf]"

definition IsSpine :: "string \<Rightarrow> bool" where
  "IsSpine r \<longleftrightarrow> r = SwitchRoleSpine"

definition IsLeaf :: "string \<Rightarrow> bool" where
  "IsLeaf r \<longleftrightarrow> r = SwitchRoleServerLeaf \<or> r = SwitchRoleBorderLeaf \<or> r = SwitchRoleMixedLeaf"

definition RedundancyTypeMCLAG :: string where "RedundancyTypeMCLAG = ''mclag''"

record switch = obj +
  sw_Role :: string
  sw_RedGroup :: string
  sw_RedType :: string
  sw_ASN :: "32 word"
  sw_IP :: string
  sw_VTEPIP :: string
  sw_ProtocolIP :: string

record link_end =
  le_Port :: string
  le_IP :: string

text \<open>
  A link of a fabric, mesh or gateway connection: the spine and the leaf, the two leaves, or the
  switch and the gateway, in the order the source names them.
\<close>

record p2p_link =
  ln_A :: link_end
  ln_B :: link_end

text \<open>Connections of the other kinds have none of the three.\<close>

record connection = obj +
  cn_Fabric :: "p2p_link list option"
  cn_Mesh :: "p2p_link list option"
  cn_Gateway :: "p2p_link list option"

record gw_iface =
  gi_PCI :: string
  gi_Kernel :: string
  gi_IPs :: "string list"
  gi_MTU :: "32 word"

record gw_neighbor =
  gn_Source :: string
  gn_IP :: string
  gn_ASN :: "32 word"

record gateway = obj +
  gt_ProtocolIP :: string
  gt_VTEPIP :: string
  gt_VTEPMAC :: string
  gt_ASN :: "32 word"
  gt_VTEPMTU :: "32 word"
  gt_Interfaces :: "gw_iface gomap"
  gt_Neighbors :: "gw_neighbor list"

record kube =
  k_Switches :: "switch list"
  k_Connections :: "connection list"
  k_Gateways :: "gateway list"

definition DeviceName :: "link_end \<Rightarrow> string" where
  "DeviceName e = hd (split2 (CHR ''/'') (le_Port e))"

text \<open>Indexing the part after the separator panics where there is none.\<close>

definition LocalPortName :: "link_end \<Rightarrow> string result" where
  "LocalPortName e =
     (case split2 (CHR ''/'') (le_Port e) of
        _ # p # _ \<Rightarrow> Inr p
      | _ \<Rightarrow> Inl (Panic ''runtime error: index out of range [1] with length 1''))"

lemma port_name_parts:
  assumes "CHR ''/'' \<notin> set dev"
  shows "DeviceName \<lparr>le_Port = dev @ CHR ''/'' # port, le_IP = ip\<rparr> = dev"
    and "LocalPortName \<lparr>le_Port = dev @ CHR ''/'' # port, le_IP = ip\<rparr> = Inr port"
  using assms by (simp_all add: DeviceName_def LocalPortName_def split2_sep)

end
