(* ===== verification/Hydration.thy ===== *)
theory Hydration
  imports Kube
begin

text \<open>
  \<^verbatim>\<open>Config.getHydration\<close> of \<^verbatim>\<open>pkg/hhfab/hydrate.go\<close>: it walks over the nodes, the switches, the links
  of the fabric, mesh and gateway connections and the gateways, counts the values to be set and the
  missing ones, and checks every value that is set. The maps it collects are the lists of the record
  \<open>hyd\<close>, one function models the checks of one value, and the loops are \<open>efold\<close>s over the lists.
\<close>

section \<open>State\<close>

datatype hydration_status = HydrationStatusNone | HydrationStatusPartial | HydrationStatusFull

text \<open>The part of \<^verbatim>\<open>hhfab.Config\<close> the hydration uses.\<close>

record hhfab_config =
  hc_Fab :: fabricator
  hc_Controls :: "control_node list"
  hc_Nodes :: "fab_node list"

record hyd =
  hy_total :: nat
  hy_missing :: nat
  hy_mgmtIPs :: "addr list"
  hy_dummyIPs :: "addr list"
  hy_vtepIPs :: "addr list"
  hy_protocolIPs :: "addr list"
  hy_leafASNs :: "32 word list"
  hy_mclagPeer :: "switch gomap"
  hy_fabricIPs :: "addr list"

definition count :: "hyd \<Rightarrow> hyd" where
  "count s = s\<lparr>hy_total := hy_total s + 1\<rparr>"

definition count_missing :: "hyd \<Rightarrow> hyd" where
  "count_missing s = s\<lparr>hy_missing := hy_missing s + 1\<rparr>"

text \<open>The management network of the prologue: the subnet and the start of its DHCP range.\<close>

record mgmt_net =
  mn_subnet :: prefix
  mn_dhcp_start :: addr

section \<open>Nodes\<close>

definition check_node :: "mgmt_net \<Rightarrow> prefix \<Rightarrow> ('a) node_base_scheme \<Rightarrow> hyd \<Rightarrow> hyd result" where
  "check_node mn dummySubnet n s =
     (let s = count s; name = nd_Name n in
      if nd_MgmtIP n \<noteq> '''' then
        ebind (ewrap ''parsing control node %s management IP %s: %w'' [name, nd_MgmtIP n] (prefix_parse (nd_MgmtIP n))) (\<lambda>controlIP.
        if \<not> prefix_contains (mn_subnet mn) (pf_addr controlIP)
        then Inl (Errf ''control node %s management IP %s is not in the management subnet %s''
               [name, prefix_string controlIP, prefix_string (mn_subnet mn)]) else
        if addr_compare (pf_addr controlIP) (mn_dhcp_start mn) \<ge> 0
        then Inl (Errf ''control node %s management IP %s should be less than the management DHCP start %s''
               [name, prefix_string controlIP, addr_string (mn_dhcp_start mn)]) else
        if pf_addr controlIP \<in> set (hy_mgmtIPs s)
        then Inl (Errf ''control node %s management IP %s is already in use'' [name, prefix_string controlIP]) else
        let s = s\<lparr>hy_mgmtIPs := pf_addr controlIP # hy_mgmtIPs s\<rparr> in
        ebind (ewrap ''parsing control node %s dummy IP %s: %w'' [name, nd_DummyIP n] (prefix_parse (nd_DummyIP n))) (\<lambda>dummyIP.
        if pf_bits dummyIP \<noteq> 31
        then Inl (Errf ''control node %s dummy IP %s must be a /31'' [name, prefix_string dummyIP]) else
        if \<not> prefix_contains dummySubnet (pf_addr dummyIP)
        then Inl (Errf ''control node %s dummy IP %s is not in the dummy subnet %s''
               [name, prefix_string dummyIP, prefix_string dummySubnet]) else
        if pf_addr dummyIP \<in> set (hy_dummyIPs s)
        then Inl (Errf ''control node %s dummy IP %s is already in use'' [name, prefix_string dummyIP]) else
        Inr (s\<lparr>hy_dummyIPs := pf_addr dummyIP # hy_dummyIPs s\<rparr>)))
      else Inr (count_missing s))"

section \<open>Switches\<close>

definition check_switch_role :: "switch \<Rightarrow> hyd \<Rightarrow> hyd result" where
  "check_switch_role sw s =
     (if sw_Role sw = '''' then Inl (Errf ''switch %s role is not set'' [ob_Name sw])
      else if sw_Role sw \<notin> set SwitchRoles
      then Inl (Errf ''switch %s role %q is invalid'' [ob_Name sw, sw_Role sw])
      else Inr s)"

definition check_switch_ip :: "mgmt_net \<Rightarrow> switch \<Rightarrow> hyd \<Rightarrow> hyd result" where
  "check_switch_ip mn sw s =
     (let s = count s; name = ob_Name sw in
      if sw_IP sw \<noteq> '''' then
        ebind (ewrap ''parsing switch %s IP %s: %w'' [name, sw_IP sw] (parse_prefix (sw_IP sw))) (\<lambda>swIP.
        if \<not> prefix_contains (mn_subnet mn) (pf_addr swIP)
        then Inl (Errf ''switch %s IP %s is not in the management subnet %s''
               [name, prefix_string swIP, prefix_string (mn_subnet mn)]) else
        if addr_compare (pf_addr swIP) (mn_dhcp_start mn) \<ge> 0
        then Inl (Errf ''switch %s IP %s should be less than the management DHCP start %s''
               [name, prefix_string swIP, addr_string (mn_dhcp_start mn)]) else
        if pf_addr swIP \<in> set (hy_mgmtIPs s)
        then Inl (Errf ''switch %s (management) IP %s is already in use'' [name, prefix_string swIP]) else
        Inr (s\<lparr>hy_mgmtIPs := pf_addr swIP # hy_mgmtIPs s\<rparr>))
      else Inr (count_missing s))"

text \<open>The protocol IP of a switch or of a gateway: the two checks differ in the word of the message.\<close>

definition check_protocol_ip :: "string \<Rightarrow> prefix \<Rightarrow> string \<Rightarrow> string \<Rightarrow> hyd \<Rightarrow> hyd result" where
  "check_protocol_ip kind protocolSubnet name ip s =
     (let s = count s in
      if ip \<noteq> '''' then
        ebind (ewrap (''parsing '' @ kind @ '' %s protocol IP %s: %w'') [name, ip] (parse_prefix ip)) (\<lambda>protoIP.
        if pf_bits protoIP \<noteq> 32
        then Inl (Errf (kind @ '' %s protocol IP %s must be a /32'') [name, prefix_string protoIP]) else
        if \<not> prefix_contains protocolSubnet (pf_addr protoIP)
        then Inl (Errf (kind @ '' %s protocol IP %s is not in the protocol subnet %s'')
               [name, prefix_string protoIP, prefix_string protocolSubnet]) else
        if pf_addr protoIP \<in> set (hy_protocolIPs s)
        then Inl (Errf (kind @ '' %s protocol IP %s is already in use'') [name, prefix_string protoIP]) else
        Inr (s\<lparr>hy_protocolIPs := pf_addr protoIP # hy_protocolIPs s\<rparr>))
      else Inr (count_missing s))"

definition check_switch_asn :: "fabric_config \<Rightarrow> switch \<Rightarrow> hyd \<Rightarrow> hyd result" where
  "check_switch_asn fc sw s =
     (let s = count s; name = ob_Name sw; asn = sw_ASN sw;
          used = Inl (Errf ''leaf %s ASN %d is already in use'' [name, itoa (unat asn)]) in
      if asn > 0 then
        ebind (if IsLeaf (sw_Role sw) then
                 if asn < LeafASNStart fc \<or> asn > LeafASNEnd fc
                 then Inl (Errf ''leaf %s ASN %d is not in the leaf ASN range %d-%d''
                        (name # map (itoa \<circ> unat) [asn, LeafASNStart fc, LeafASNEnd fc])) else
                 ebind (if sw_RedType sw = RedundancyTypeMCLAG then
                          (case map_of (hy_mclagPeer s) (sw_RedGroup sw) of
                             Some peer \<Rightarrow>
                               if sw_ASN peer \<noteq> asn
                               then Inl (Errf ''mclag peers should have same ASNs: %s and %s'' [name, ob_Name peer])
                               else Inr s
                           | None \<Rightarrow>
                               let s = s\<lparr>hy_mclagPeer := map_put (sw_RedGroup sw) sw (hy_mclagPeer s)\<rparr> in
                               if asn \<in> set (hy_leafASNs s) then used else Inr s)
                        else if asn \<in> set (hy_leafASNs s) then used else Inr s) (\<lambda>s.
                 Inr (s\<lparr>hy_leafASNs := asn # hy_leafASNs s\<rparr>))
               else Inr s) (\<lambda>s.
        if IsSpine (sw_Role sw) \<and> asn \<noteq> SpineASN fc
        then Inl (Errf ''spine %s ASN %d is not %d'' [name, itoa (unat asn), itoa (unat (SpineASN fc))])
        else Inr s)
      else Inr (count_missing s))"

definition check_switch_vtep :: "prefix \<Rightarrow> switch \<Rightarrow> hyd \<Rightarrow> hyd result" where
  "check_switch_vtep vtepSubnet sw s =
     (let name = ob_Name sw; ip = sw_VTEPIP sw in
      if ip \<noteq> '''' \<and> IsSpine (sw_Role sw)
      then Inl (Errf ''spine %s should not have VTEP IP'' [name])
      else if IsLeaf (sw_Role sw) then
        let s = count s in
        if ip \<noteq> '''' then
          ebind (ewrap ''parsing switch %s VTEP IP %s: %w'' [name, ip] (parse_prefix ip)) (\<lambda>swVTEPIP.
          let used = Inl (Errf ''switch %s VTEP IP %s is already in use'' [name, prefix_string swVTEPIP]) in
          if pf_bits swVTEPIP \<noteq> 32
          then Inl (Errf ''switch %s VTEP IP %s must be a /32'' [name, prefix_string swVTEPIP]) else
          if \<not> prefix_contains vtepSubnet (pf_addr swVTEPIP)
          then Inl (Errf ''switch %s VTEP IP %s is not in the VTEP subnet %s''
                 [name, prefix_string swVTEPIP, prefix_string vtepSubnet]) else
          ebind (if sw_RedType sw = RedundancyTypeMCLAG then
                   (case map_of (hy_mclagPeer s) (sw_RedGroup sw) of
                      Some peer \<Rightarrow>
                        if sw_VTEPIP peer \<noteq> ip
                        then Inl (Errf ''mclag peers should have same VTEP IPs: %s and %s'' [name, ob_Name peer])
                        else Inr s
                    | None \<Rightarrow>
                        let s = s\<lparr>hy_mclagPeer := map_put (sw_RedGroup sw) sw (hy_mclagPeer s)\<rparr> in
                        if pf_addr swVTEPIP \<in> set (hy_vtepIPs s) then used else Inr s)
                 else if pf_addr swVTEPIP \<in> set (hy_vtepIPs s) then used else Inr s) (\<lambda>s.
          Inr (s\<lparr>hy_vtepIPs := pf_addr swVTEPIP # hy_vtepIPs s\<rparr>)))
        else Inr (count_missing s)
      else Inr s)"

definition check_switch :: "mgmt_net \<Rightarrow> fabric_config \<Rightarrow> prefix \<Rightarrow> prefix \<Rightarrow> switch \<Rightarrow> hyd \<Rightarrow> hyd result" where
  "check_switch mn fc vtepSubnet protocolSubnet sw s =
     ebind (check_switch_role sw s) (\<lambda>s.
     ebind (check_switch_ip mn sw s) (\<lambda>s.
     ebind (check_protocol_ip ''switch'' protocolSubnet (ob_Name sw) (sw_ProtocolIP sw) s) (\<lambda>s.
     ebind (check_switch_asn fc sw s) (\<lambda>s.
     check_switch_vtep vtepSubnet sw s))))"

section \<open>Links\<close>

text \<open>
  The three kinds of links are checked alike; \<open>link_words\<close> holds the words the messages differ in:
  the kind of the connection, the two ends, and the ends the last message names.
\<close>

record link_words =
  lw_kind :: string
  lw_a :: string
  lw_b :: string
  lw_mismatch :: string

definition fabric_words :: link_words where
  "fabric_words = \<lparr>lw_kind = ''fabric'', lw_a = ''spine'', lw_b = ''leaf'', lw_mismatch = ''leaf''\<rparr>"

definition mesh_words :: link_words where
  "mesh_words = \<lparr>lw_kind = ''mesh'', lw_a = ''leaf1'', lw_b = ''leaf2'', lw_mismatch = ''leaf''\<rparr>"

definition gateway_words :: link_words where
  "gateway_words = \<lparr>lw_kind = ''gateway'', lw_a = ''switch'', lw_b = ''gateway'', lw_mismatch = ''gateway''\<rparr>"

text \<open>One end of a link: its prefix, and the addresses with the new one.\<close>

definition check_link_end ::
  "string \<Rightarrow> string \<Rightarrow> prefix \<Rightarrow> string \<Rightarrow> nat \<Rightarrow> string \<Rightarrow> hyd \<Rightarrow> (prefix \<times> hyd) result" where
  "check_link_end kind side fabricSubnet conn idx ip s =
     (let what = kind @ '' connection %s link %d '' @ side @ '' IP %s'' in
      ebind (ewrap (''parsing '' @ what @ '': %w'') [conn, itoa idx, ip] (parse_prefix ip)) (\<lambda>p.
      if pf_bits p \<noteq> 31
      then Inl (Errf (what @ '' is not a /31'') [conn, itoa idx, prefix_string p]) else
      if \<not> prefix_contains fabricSubnet (pf_addr p)
      then Inl (Errf (what @ '' is not in the fabric subnet %s'')
             [conn, itoa idx, addr_string (pf_addr p), prefix_string fabricSubnet]) else
      if pf_addr p \<in> set (hy_fabricIPs s)
      then Inl (Errf (what @ '' is already in use'') [conn, itoa idx, addr_string (pf_addr p)]) else
      Inr (p, s\<lparr>hy_fabricIPs := pf_addr p # hy_fabricIPs s\<rparr>)))"

definition missing_if :: "bool \<Rightarrow> hyd \<Rightarrow> hyd" where
  "missing_if b s = (if b then count_missing s else s)"

definition check_link :: "link_words \<Rightarrow> prefix \<Rightarrow> string \<Rightarrow> nat \<times> p2p_link \<Rightarrow> hyd \<Rightarrow> hyd result" where
  "check_link w fabricSubnet conn il s =
     (case il of (idx, l) \<Rightarrow>
      let a = le_IP (ln_A l); b = le_IP (ln_B l);
          s = missing_if (b = '''') (missing_if (a = '''') (count (count s))) in
      if a = '''' \<or> b = '''' then Inr s else
      ebind (check_link_end (lw_kind w) (lw_a w) fabricSubnet conn idx a s) (\<lambda>(pa, s).
      ebind (check_link_end (lw_kind w) (lw_b w) fabricSubnet conn idx b s) (\<lambda>(pb, s).
      if prefix_masked pa \<noteq> prefix_masked pb
      then Inl (Errf (lw_kind w @ '' connection %s link %d spine IP %s and '' @ lw_mismatch w @
                 '' IP %s are not in the same subnet'')
             [conn, itoa idx, addr_string (pf_addr pa), addr_string (pf_addr pb)])
      else Inr s)))"

definition check_conn :: "prefix \<Rightarrow> connection \<Rightarrow> hyd \<Rightarrow> hyd result" where
  "check_conn fabricSubnet conn s =
     (case cn_Fabric conn of
        Some links \<Rightarrow> efold (check_link fabric_words fabricSubnet (ob_Name conn)) (enumerate 0 links) s
      | None \<Rightarrow>
          (case cn_Mesh conn of
             Some links \<Rightarrow> efold (check_link mesh_words fabricSubnet (ob_Name conn)) (enumerate 0 links) s
           | None \<Rightarrow>
               (case cn_Gateway conn of
                  Some links \<Rightarrow> efold (check_link gateway_words fabricSubnet (ob_Name conn)) (enumerate 0 links) s
                | None \<Rightarrow> Inr s)))"

section \<open>Gateways\<close>

definition check_gateway_asn :: "32 word \<Rightarrow> gateway \<Rightarrow> hyd \<Rightarrow> hyd result" where
  "check_gateway_asn asn gw s =
     (let s = count s in
      if gt_ASN gw \<noteq> 0 then
        if gt_ASN gw \<noteq> asn
        then Inl (Errf ''gateway %s ASN %d is not %d'' [ob_Name gw, itoa (unat (gt_ASN gw)), itoa (unat asn)])
        else Inr s
      else Inr (count_missing s))"

definition check_gateway_vtep :: "prefix \<Rightarrow> gateway \<Rightarrow> hyd \<Rightarrow> hyd result" where
  "check_gateway_vtep vtepSubnet gw s =
     (let s = count s; name = ob_Name gw in
      if gt_VTEPIP gw \<noteq> '''' then
        ebind (ewrap ''parsing gateway %s vtep IP %s: %w'' [name, gt_VTEPIP gw] (parse_prefix (gt_VTEPIP gw))) (\<lambda>gwVTEPIP.
        if pf_bits gwVTEPIP \<noteq> 32
        then Inl (Errf ''gateway %s vtep IP %s must be a /32'' [name, prefix_string gwVTEPIP]) else
        if \<not> prefix_contains vtepSubnet (pf_addr gwVTEPIP)
        then Inl (Errf ''gateway %s vtep IP %s is not in the vtep subnet %s''
               [name, prefix_string gwVTEPIP, prefix_string vtepSubnet]) else
        if pf_addr gwVTEPIP \<in> set (hy_vtepIPs s)
        then Inl (Errf ''gateway %s vtep IP %s is already in use'' [name, prefix_string gwVTEPIP]) else
        Inr (s\<lparr>hy_vtepIPs := pf_addr gwVTEPIP # hy_vtepIPs s\<rparr>))
      else Inr (count_missing s))"

definition check_gateway :: "prefix \<Rightarrow> prefix \<Rightarrow> 32 word \<Rightarrow> gateway \<Rightarrow> hyd \<Rightarrow> hyd result" where
  "check_gateway vtepSubnet protocolSubnet asn gw s =
     ebind (check_gateway_asn asn gw s) (\<lambda>s.
     ebind (check_protocol_ip ''gateway'' protocolSubnet (ob_Name gw) (gt_ProtocolIP gw) s) (\<lambda>s.
     check_gateway_vtep vtepSubnet gw s))"

section \<open>The whole check\<close>

text \<open>
  The prologue; the message of the DHCP end prints the start, as the source does. The dummy subnet
  and the first state are returned with the management network.
\<close>

definition hydration_start :: "fab_config \<Rightarrow> (mgmt_net \<times> prefix \<times> hyd) result" where
  "hydration_start c =
     ebind (ewrap ''parsing management subnet: %w'' [] (prefix_parse (ManagementSubnet (Control c)))) (\<lambda>mgmtSubnet.
     ebind (ewrap ''parsing control VIP: %w'' [] (prefix_parse (VIP (Control c)))) (\<lambda>controlVIP.
     ebind (ewrap ''parsing management DHCP start: %w'' [] (addr_parse (ManagementDHCPStart (Fabric c)))) (\<lambda>mgmtDHCPStart.
     if \<not> prefix_contains mgmtSubnet mgmtDHCPStart
     then Inl (Errf ''management DHCP start %s is not in the management subnet %s''
            [addr_string mgmtDHCPStart, prefix_string mgmtSubnet]) else
     ebind (ewrap ''parsing management DHCP end: %w'' [] (addr_parse (ManagementDHCPEnd (Fabric c)))) (\<lambda>mgmtDHCPEnd.
     if \<not> prefix_contains mgmtSubnet mgmtDHCPEnd
     then Inl (Errf ''management DHCP end %s is not in the management subnet %s''
            [addr_string mgmtDHCPStart, prefix_string mgmtSubnet]) else
     if addr_compare mgmtDHCPStart mgmtDHCPEnd \<ge> 0
     then Inl (Errf ''management DHCP start %s should be less than the management DHCP end %s''
            [addr_string mgmtDHCPStart, addr_string mgmtDHCPEnd]) else
     ebind (ewrap ''parsing dummy subnet: %w'' [] (prefix_parse (DummySubnet (Control c)))) (\<lambda>dummySubnet.
     if pf_bits dummySubnet > 24
     then Inl (Errf ''dummy subnet %s should be at least a /24'' [prefix_string dummySubnet]) else
     Inr (\<lparr>mn_subnet = mgmtSubnet, mn_dhcp_start = mgmtDHCPStart\<rparr>, dummySubnet,
          \<lparr>hy_total = 0, hy_missing = 0, hy_mgmtIPs = [pf_addr controlVIP], hy_dummyIPs = [],
           hy_vtepIPs = [], hy_protocolIPs = [], hy_leafASNs = [], hy_mclagPeer = [], hy_fabricIPs = []\<rparr>))))))"

definition hydration_status_of :: "hyd \<Rightarrow> hydration_status result" where
  "hydration_status_of s =
     (if hy_missing s = hy_total s then Inr HydrationStatusNone
      else if hy_total s > 0 \<and> hy_missing s = 0 then Inr HydrationStatusFull
      else if hy_total s > 0 \<and> hy_missing s > 0 then Inr HydrationStatusPartial
      else Inl (Errf ''invalid hydration status: total=%d, missing=%d''
                 [itoa (hy_total s), itoa (hy_missing s)]))"

definition getHydration :: "hhfab_config \<Rightarrow> kube \<Rightarrow> hydration_status result" where
  "getHydration hc k =
     (let c = Config (hc_Fab hc) in
      ebind (hydration_start c) (\<lambda>(mn, dummySubnet, s).
      ebind (efold (check_node mn dummySubnet) (hc_Controls hc) s) (\<lambda>s.
      ebind (efold (check_node mn dummySubnet) (hc_Nodes hc) s) (\<lambda>s.
      ebind (ewrap ''parsing VTEP subnet: %w'' [] (prefix_parse (VTEPSubnet (Fabric c)))) (\<lambda>vtepSubnet.
      ebind (ewrap ''parsing protocol subnet: %w'' [] (prefix_parse (ProtocolSubnet (Fabric c)))) (\<lambda>protocolSubnet.
      ebind (efold (check_switch mn (Fabric c) vtepSubnet protocolSubnet) (store_list (k_Switches k)) s) (\<lambda>s.
      ebind (ewrap ''parsing fabric subnet: %w'' [] (prefix_parse (FabricSubnet (Fabric c)))) (\<lambda>fabricSubnet.
      ebind (efold (check_conn fabricSubnet) (store_list (k_Connections k)) s) (\<lambda>s.
      ebind (efold (check_gateway vtepSubnet protocolSubnet (GwASN (Gateway c))) (store_list (k_Gateways k)) s) (\<lambda>s.
      hydration_status_of s))))))))))"

end
