(* ===== verification/HydrationSpec.thy ===== *)
theory HydrationSpec
  imports Hydration
begin

text \<open>
  What \<open>getHydration\<close> accepts as fully hydrated, stated over the values themselves: every value is
  set and valid, and the addresses and ASNs are unique. A check that leaves nothing missing is a
  condition on the object, a condition on what the objects before it registered, and the state
  with its own values registered; \<open>efold_full\<close> lifts this to the loops.
\<close>

section \<open>Loops that register\<close>

text \<open>\<open>chain F R xs s\<close>: every element finds its condition true after those before it registered.\<close>

fun chain :: "('a \<Rightarrow> 's \<Rightarrow> bool) \<Rightarrow> ('a \<Rightarrow> 's \<Rightarrow> 's) \<Rightarrow> 'a list \<Rightarrow> 's \<Rightarrow> bool" where
  "chain F R [] s \<longleftrightarrow> True"
| "chain F R (x # xs) s \<longleftrightarrow> F x s \<and> chain F R xs (R x s)"

lemma chain_append: "chain F R (xs @ ys) s \<longleftrightarrow> chain F R xs s \<and> chain F R ys (fold R xs s)"
  by (induction xs arbitrary: s) auto

text \<open>\<open>full_step f G F R\<close>: the check \<open>f\<close> succeeds with nothing missing exactly under these conditions.\<close>

definition full_step ::
  "('a \<Rightarrow> hyd \<Rightarrow> hyd result) \<Rightarrow> ('a \<Rightarrow> bool) \<Rightarrow> ('a \<Rightarrow> hyd \<Rightarrow> bool) \<Rightarrow> ('a \<Rightarrow> hyd \<Rightarrow> hyd) \<Rightarrow> bool" where
  "full_step f G F R \<longleftrightarrow>
     (\<forall>x s s'. hy_missing (R x s) = hy_missing s \<and>
        (f x s = Inr s' \<and> hy_missing s' = 0 \<longleftrightarrow> hy_missing s = 0 \<and> G x \<and> F x s \<and> s' = R x s))"

lemma efold_full:
  assumes "full_step f G F R"
  shows "full_step (efold f) (list_all G) (chain F R) (fold R)"
proof -
  have miss: "hy_missing (R x s) = hy_missing s"
    and step: "f x s = Inr s' \<and> hy_missing s' = 0 \<longleftrightarrow> hy_missing s = 0 \<and> G x \<and> F x s \<and> s' = R x s" for x s s'
    using assms by (auto simp: full_step_def)
  have fold: "hy_missing (fold R xs s) = hy_missing s" for xs s
    by (induction xs arbitrary: s) (auto simp: miss)
  have "efold f xs s = Inr s' \<and> hy_missing s' = 0 \<longleftrightarrow>
      hy_missing s = 0 \<and> list_all G xs \<and> chain F R xs s \<and> s' = fold R xs s" for xs s s'
  proof (induction xs arbitrary: s)
    case (Cons x xs)
    have "efold f (x # xs) s = Inr s' \<and> hy_missing s' = 0 \<longleftrightarrow>
        (\<exists>t. f x s = Inr t \<and> efold f xs t = Inr s' \<and> hy_missing s' = 0)"
      by (auto simp: ebind_Inr_iff)
    also have "\<dots> \<longleftrightarrow> (\<exists>t. (f x s = Inr t \<and> hy_missing t = 0) \<and> list_all G xs \<and> chain F R xs t \<and> s' = fold R xs t)"
      using Cons.IH by blast
    also have "\<dots> \<longleftrightarrow> hy_missing s = 0 \<and> list_all G (x # xs) \<and> chain F R (x # xs) s \<and> s' = fold R (x # xs) s"
      unfolding step by auto
    finally show ?case .
  qed auto
  with fold show ?thesis by (simp add: full_step_def)
qed

lemma full_stepD:
  assumes "full_step f G F R"
  shows "f x s = Inr s' \<and> hy_missing s' = 0 \<longleftrightarrow> hy_missing s = 0 \<and> G x \<and> F x s \<and> s' = R x s"
  using assms by (simp add: full_step_def)

lemma full_step_bind:
  assumes "full_step f G F R" "full_step g G' F' R'"
  shows "full_step (\<lambda>x s. ebind (f x s) (g x)) (\<lambda>x. G x \<and> G' x) (\<lambda>x s. F x s \<and> F' x (R x s)) (\<lambda>x s. R' x (R x s))"
proof -
  have "ebind (f x s) (g x) = Inr s' \<and> hy_missing s' = 0 \<longleftrightarrow>
     (\<exists>t. (f x s = Inr t \<and> hy_missing t = 0) \<and> (g x t = Inr s' \<and> hy_missing s' = 0))" for x s s'
    using full_stepD [OF assms(2)] by (auto simp: ebind_Inr_iff)
  then have "ebind (f x s) (g x) = Inr s' \<and> hy_missing s' = 0 \<longleftrightarrow>
     hy_missing s = 0 \<and> (G x \<and> G' x) \<and> (F x s \<and> F' x (R x s)) \<and> s' = R' x (R x s)" for x s s'
    unfolding full_stepD [OF assms(1)] full_stepD [OF assms(2)]
    using assms(1) by (auto simp: full_step_def)
  with assms show ?thesis by (simp add: full_step_def)
qed

section \<open>Valid values\<close>

text \<open>The address of a value that parses.\<close>

definition ip_of :: "string \<Rightarrow> addr" where
  "ip_of s = (case parse_prefix s of Inl _ \<Rightarrow> NoAddr | Inr p \<Rightarrow> pf_addr p)"

lemma ip_of_parse: "parse_prefix s = Inr p \<Longrightarrow> ip_of s = pf_addr p"
  by (simp add: ip_of_def)

lemma parse_prefix_empty: "parse_prefix '''' = Inr p \<longleftrightarrow> False" "prefix_parse '''' = Inr p \<longleftrightarrow> False"
  by (simp_all add: parse_prefix_def prefix_parse_def prefix_err_def)

definition mgmt_ok :: "mgmt_net \<Rightarrow> prefix result \<Rightarrow> bool" where
  "mgmt_ok mn r = (case r of Inl _ \<Rightarrow> False | Inr p \<Rightarrow>
     prefix_contains (mn_subnet mn) (pf_addr p) \<and> addr_compare (pf_addr p) (mn_dhcp_start mn) < 0)"

definition host_ok :: "prefix \<Rightarrow> int \<Rightarrow> prefix result \<Rightarrow> bool" where
  "host_ok net bits r = (case r of Inl _ \<Rightarrow> False | Inr p \<Rightarrow> pf_bits p = bits \<and> prefix_contains net (pf_addr p))"

definition is_mclag :: "switch \<Rightarrow> bool" where
  "is_mclag sw \<longleftrightarrow> IsLeaf (sw_Role sw) \<and> sw_RedType sw = RedundancyTypeMCLAG"

definition node_ok :: "mgmt_net \<Rightarrow> prefix \<Rightarrow> ('a) node_base_scheme \<Rightarrow> bool" where
  "node_ok mn dummySubnet n \<longleftrightarrow>
     mgmt_ok mn (prefix_parse (nd_MgmtIP n)) \<and> host_ok dummySubnet 31 (prefix_parse (nd_DummyIP n))"

definition switch_ok :: "mgmt_net \<Rightarrow> fabric_config \<Rightarrow> prefix \<Rightarrow> prefix \<Rightarrow> switch \<Rightarrow> bool" where
  "switch_ok mn fc vtepSubnet protocolSubnet sw \<longleftrightarrow>
     sw_Role sw \<in> set SwitchRoles \<and>
     mgmt_ok mn (parse_prefix (sw_IP sw)) \<and> host_ok protocolSubnet 32 (parse_prefix (sw_ProtocolIP sw)) \<and>
     sw_ASN sw > 0 \<and>
     (if IsLeaf (sw_Role sw)
      then LeafASNStart fc \<le> sw_ASN sw \<and> sw_ASN sw \<le> LeafASNEnd fc \<and>
           host_ok vtepSubnet 32 (parse_prefix (sw_VTEPIP sw))
      else sw_ASN sw = SpineASN fc \<and> sw_VTEPIP sw = '''')"

definition link_ok :: "prefix \<Rightarrow> p2p_link \<Rightarrow> bool" where
  "link_ok fabricSubnet l \<longleftrightarrow>
     host_ok fabricSubnet 31 (parse_prefix (le_IP (ln_A l))) \<and>
     host_ok fabricSubnet 31 (parse_prefix (le_IP (ln_B l))) \<and>
     map_sum (\<lambda>_. ()) prefix_masked (parse_prefix (le_IP (ln_A l))) =
     map_sum (\<lambda>_. ()) prefix_masked (parse_prefix (le_IP (ln_B l)))"

definition gateway_ok :: "32 word \<Rightarrow> prefix \<Rightarrow> prefix \<Rightarrow> gateway \<Rightarrow> bool" where
  "gateway_ok asn vtepSubnet protocolSubnet gw \<longleftrightarrow>
     gt_ASN gw \<noteq> 0 \<and> gt_ASN gw = asn \<and> host_ok protocolSubnet 32 (parse_prefix (gt_ProtocolIP gw)) \<and>
     host_ok vtepSubnet 32 (parse_prefix (gt_VTEPIP gw))"

section \<open>The checks of one object\<close>

lemma count_sel [simp]:
  "hy_missing (count s) = hy_missing s" "hy_mgmtIPs (count s) = hy_mgmtIPs s" "hy_dummyIPs (count s) = hy_dummyIPs s"
  "hy_vtepIPs (count s) = hy_vtepIPs s" "hy_protocolIPs (count s) = hy_protocolIPs s"
  "hy_leafASNs (count s) = hy_leafASNs s" "hy_mclagPeer (count s) = hy_mclagPeer s"
  "hy_fabricIPs (count s) = hy_fabricIPs s" "hy_total (count s) = hy_total s + 1"
  by (simp_all add: count_def)

lemma missing_not_full [simp]: "hy_missing (count_missing s) = 0 \<longleftrightarrow> False"
  by (simp add: count_missing_def)

lemma full_stepI:
  assumes "\<And>x s. hy_missing (R x s) = hy_missing s"
    and "\<And>x s s'. f x s = Inr s' \<Longrightarrow> hy_missing s' = 0 \<Longrightarrow> hy_missing s = 0 \<and> G x \<and> F x s \<and> s' = R x s"
    and "\<And>x s. hy_missing s = 0 \<Longrightarrow> G x \<Longrightarrow> F x s \<Longrightarrow> f x s = Inr (R x s)"
  shows "full_step f G F R"
proof -
  have "f x s = Inr s' \<and> hy_missing s' = 0 \<longleftrightarrow> hy_missing s = 0 \<and> G x \<and> F x s \<and> s' = R x s" for x s s'
    using assms(2) [of x s s'] assms(3) [of s x] assms(1) [of x s] by auto
  with assms(1) show ?thesis by (simp add: full_step_def)
qed

lemma parse_set: "parse_prefix s = Inr p \<Longrightarrow> s \<noteq> ''''" "prefix_parse s = Inr p \<Longrightarrow> s \<noteq> ''''"
  by (auto simp: parse_prefix_empty)

lemma mgmt_okE:
  assumes "mgmt_ok mn r"
  obtains p where "r = Inr p" "prefix_contains (mn_subnet mn) (pf_addr p)" "addr_compare (pf_addr p) (mn_dhcp_start mn) < 0"
  using assms by (auto simp: mgmt_ok_def split: sum.splits)

lemma host_okE:
  assumes "host_ok net bits r"
  obtains p where "r = Inr p" "pf_bits p = bits" "prefix_contains net (pf_addr p)"
  using assms by (auto simp: host_ok_def split: sum.splits)

lemmas value_okE = mgmt_okE host_okE

lemma ip_of_prefix_parse: "prefix_parse s = Inr p \<Longrightarrow> ip_of s = pf_addr p"
  by (simp add: ip_of_parse prefix_parse_as_parse_prefix)

lemmas check_simps = Let_def ok_iff parse_prefix_empty ip_of_parse ip_of_prefix_parse parse_set not_le

lemma full_check_node:
  "full_step (check_node mn ds) (node_ok mn ds)
     (\<lambda>n s. ip_of (nd_MgmtIP n) \<notin> set (hy_mgmtIPs s) \<and> ip_of (nd_DummyIP n) \<notin> set (hy_dummyIPs s))
     (\<lambda>n s. (count s)\<lparr>hy_mgmtIPs := ip_of (nd_MgmtIP n) # hy_mgmtIPs s,
                     hy_dummyIPs := ip_of (nd_DummyIP n) # hy_dummyIPs s\<rparr>)"
proof (rule full_stepI, goal_cases)
  case (2 n s s')
  then show ?case
    by (auto simp: check_node_def node_ok_def check_simps mgmt_ok_def host_ok_def split: if_splits)
next
  case (3 n s)
  then show ?case
    by (auto simp: check_node_def node_ok_def check_simps elim!: value_okE)
qed simp

lemma full_check_switch_role:
  "full_step check_switch_role (\<lambda>sw. sw_Role sw \<in> set SwitchRoles) (\<lambda>_ _. True) (\<lambda>_ s. s)"
proof (rule full_stepI, goal_cases)
  case (3 sw s)
  then have "sw_Role sw \<noteq> ''''"
    by (auto simp: SwitchRoles_def SwitchRoleSpine_def SwitchRoleServerLeaf_def SwitchRoleBorderLeaf_def
        SwitchRoleMixedLeaf_def)
  with 3 show ?case by (simp add: check_switch_role_def)
qed (auto simp: check_switch_role_def split: if_splits)

lemma full_check_switch_ip:
  "full_step (check_switch_ip mn) (\<lambda>sw. mgmt_ok mn (parse_prefix (sw_IP sw)))
     (\<lambda>sw s. ip_of (sw_IP sw) \<notin> set (hy_mgmtIPs s))
     (\<lambda>sw s. (count s)\<lparr>hy_mgmtIPs := ip_of (sw_IP sw) # hy_mgmtIPs s\<rparr>)"
proof (rule full_stepI, goal_cases)
  case (2 n s s')
  then show ?case by (auto simp: check_switch_ip_def check_simps mgmt_ok_def host_ok_def split: if_splits)
next
  case (3 n s)
  then show ?case by (auto simp: check_switch_ip_def check_simps elim!: value_okE)
qed simp

lemma full_check_protocol_ip:
  "full_step (\<lambda>x. check_protocol_ip kind net (name x) (ip x)) (\<lambda>x. host_ok net 32 (parse_prefix (ip x)))
     (\<lambda>x s. ip_of (ip x) \<notin> set (hy_protocolIPs s))
     (\<lambda>x s. (count s)\<lparr>hy_protocolIPs := ip_of (ip x) # hy_protocolIPs s\<rparr>)"
proof (rule full_stepI, goal_cases)
  case (2 x s s')
  then show ?case by (auto simp: check_protocol_ip_def check_simps mgmt_ok_def host_ok_def split: if_splits)
next
  case (3 x s)
  then show ?case by (auto simp: check_protocol_ip_def check_simps elim!: value_okE)
qed simp

text \<open>The ASN and the VTEP of a switch, over the ASNs, peers and VTEPs registered before it.\<close>

type_synonym leaf_state = "32 word list \<times> switch gomap \<times> addr list"

definition leaf_fresh :: "switch \<Rightarrow> leaf_state \<Rightarrow> bool" where
  "leaf_fresh sw s = (case s of (asns, peers, vteps) \<Rightarrow>
     IsLeaf (sw_Role sw) \<longrightarrow>
       (case (if is_mclag sw then map_of peers (sw_RedGroup sw) else None) of
          Some peer \<Rightarrow> sw_ASN peer = sw_ASN sw \<and> sw_VTEPIP peer = sw_VTEPIP sw
        | None \<Rightarrow> sw_ASN sw \<notin> set asns \<and> (is_mclag sw \<or> ip_of (sw_VTEPIP sw) \<notin> set vteps)))"

definition leaf_reg :: "switch \<Rightarrow> leaf_state \<Rightarrow> leaf_state" where
  "leaf_reg sw s = (case s of (asns, peers, vteps) \<Rightarrow>
     if IsLeaf (sw_Role sw) then
       (sw_ASN sw # asns,
        (if is_mclag sw \<and> map_of peers (sw_RedGroup sw) = None then map_put (sw_RedGroup sw) sw peers else peers),
        ip_of (sw_VTEPIP sw) # vteps)
     else s)"

definition leaf_of :: "hyd \<Rightarrow> leaf_state" where
  "leaf_of s = (hy_leafASNs s, hy_mclagPeer s, hy_vtepIPs s)"

definition put_leaf :: "leaf_state \<Rightarrow> hyd \<Rightarrow> hyd" where
  "put_leaf l s = (case l of (asns, peers, vteps) \<Rightarrow>
     s\<lparr>hy_leafASNs := asns, hy_mclagPeer := peers, hy_vtepIPs := vteps\<rparr>)"

text \<open>The ASN step registers the switch as the peer of its group, so the VTEP step finds it there.\<close>

lemma spine_not_leaf: "IsSpine r \<Longrightarrow> \<not> IsLeaf r"
  by (simp add: IsSpine_def IsLeaf_def SwitchRoleSpine_def SwitchRoleServerLeaf_def SwitchRoleBorderLeaf_def
      SwitchRoleMixedLeaf_def)

lemma role_cases: "r \<in> set SwitchRoles \<Longrightarrow> IsSpine r \<or> IsLeaf r"
  by (auto simp: SwitchRoles_def IsSpine_def IsLeaf_def)

definition leaf_total :: "switch \<Rightarrow> hyd \<Rightarrow> hyd" where
  "leaf_total sw s = (if IsLeaf (sw_Role sw) then count (count s) else count s)"

definition peer_of :: "switch \<Rightarrow> hyd \<Rightarrow> switch option" where
  "peer_of sw s = (if is_mclag sw then map_of (hy_mclagPeer s) (sw_RedGroup sw) else None)"

definition reg_peer :: "switch \<Rightarrow> hyd \<Rightarrow> hyd" where
  "reg_peer sw s = (if is_mclag sw \<and> map_of (hy_mclagPeer s) (sw_RedGroup sw) = None
     then s\<lparr>hy_mclagPeer := map_put (sw_RedGroup sw) sw (hy_mclagPeer s)\<rparr> else s)"

lemma full_check_asn:
  "full_step (check_switch_asn fc)
     (\<lambda>sw. sw_ASN sw > 0 \<and>
        (IsLeaf (sw_Role sw) \<longrightarrow> LeafASNStart fc \<le> sw_ASN sw \<and> sw_ASN sw \<le> LeafASNEnd fc) \<and>
        (IsSpine (sw_Role sw) \<longrightarrow> sw_ASN sw = SpineASN fc))
     (\<lambda>sw s. IsLeaf (sw_Role sw) \<longrightarrow>
        (case peer_of sw s of Some peer \<Rightarrow> sw_ASN peer = sw_ASN sw | None \<Rightarrow> sw_ASN sw \<notin> set (hy_leafASNs s)))
     (\<lambda>sw s. if IsLeaf (sw_Role sw)
        then reg_peer sw ((count s)\<lparr>hy_leafASNs := sw_ASN sw # hy_leafASNs s\<rparr>) else count s)"
proof (rule full_stepI, goal_cases)
  case (2 sw s s')
  then show ?case
    by (cases "IsLeaf (sw_Role sw)"; cases "sw_RedType sw = RedundancyTypeMCLAG";
        cases "map_of (hy_mclagPeer s) (sw_RedGroup sw)")
      (auto simp: check_switch_asn_def check_simps peer_of_def reg_peer_def is_mclag_def count_def split: if_splits)
next
  case (3 sw s)
  then show ?case
    by (cases "IsLeaf (sw_Role sw)"; cases "sw_RedType sw = RedundancyTypeMCLAG";
        cases "map_of (hy_mclagPeer s) (sw_RedGroup sw)")
      (auto simp: check_switch_asn_def check_simps peer_of_def reg_peer_def is_mclag_def count_def spine_not_leaf)
qed (simp add: reg_peer_def)

lemma full_check_vtep:
  "full_step (\<lambda>sw s. check_switch_vtep vs sw s)
     (\<lambda>sw. (IsLeaf (sw_Role sw) \<longrightarrow> host_ok vs 32 (parse_prefix (sw_VTEPIP sw))) \<and>
        (IsSpine (sw_Role sw) \<longrightarrow> sw_VTEPIP sw = ''''))
     (\<lambda>sw s. IsLeaf (sw_Role sw) \<longrightarrow>
        (case peer_of sw s of Some peer \<Rightarrow> sw_VTEPIP peer = sw_VTEPIP sw
         | None \<Rightarrow> ip_of (sw_VTEPIP sw) \<notin> set (hy_vtepIPs s)))
     (\<lambda>sw s. if IsLeaf (sw_Role sw)
        then reg_peer sw ((count s)\<lparr>hy_vtepIPs := ip_of (sw_VTEPIP sw) # hy_vtepIPs s\<rparr>) else s)"
proof (rule full_stepI, goal_cases)
  case (2 sw s s')
  then show ?case
    by (cases "IsLeaf (sw_Role sw)"; cases "sw_RedType sw = RedundancyTypeMCLAG";
        cases "map_of (hy_mclagPeer s) (sw_RedGroup sw)")
      (auto simp: check_switch_vtep_def check_simps host_ok_def peer_of_def reg_peer_def is_mclag_def count_def
        split: if_splits)
next
  case (3 sw s)
  then show ?case
    by (cases "IsLeaf (sw_Role sw)"; cases "sw_RedType sw = RedundancyTypeMCLAG";
        cases "map_of (hy_mclagPeer s) (sw_RedGroup sw)")
      (auto simp: check_switch_vtep_def check_simps peer_of_def reg_peer_def is_mclag_def count_def spine_not_leaf
        elim!: host_okE)
qed (simp add: reg_peer_def)

lemma full_step_cong:
  assumes "full_step f G F R" "\<And>x s. f x s = f' x s" "\<And>x. G x = G' x" "\<And>x s. F x s = F' x s" "\<And>x s. R x s = R' x s"
  shows "full_step f' G' F' R'"
  using assms by (simp add: full_step_def)

lemma full_check_leaf:
  "full_step (\<lambda>sw s. ebind (check_switch_asn fc sw s) (check_switch_vtep vs sw))
     (\<lambda>sw. sw_ASN sw > 0 \<and>
        (IsLeaf (sw_Role sw) \<longrightarrow> LeafASNStart fc \<le> sw_ASN sw \<and> sw_ASN sw \<le> LeafASNEnd fc \<and>
           host_ok vs 32 (parse_prefix (sw_VTEPIP sw))) \<and>
        (IsSpine (sw_Role sw) \<longrightarrow> sw_ASN sw = SpineASN fc \<and> sw_VTEPIP sw = ''''))
     (\<lambda>sw s. leaf_fresh sw (leaf_of s))
     (\<lambda>sw s. put_leaf (leaf_reg sw (leaf_of s)) (leaf_total sw s))"
proof (rule full_step_cong [OF full_step_bind [OF full_check_asn full_check_vtep]], goal_cases)
  case (3 sw s)
  show ?case
    by (auto simp: leaf_fresh_def leaf_of_def peer_of_def reg_peer_def split: option.splits)
next
  case (4 sw s)
  show ?case
    by (auto simp: leaf_reg_def put_leaf_def leaf_total_def leaf_of_def reg_peer_def count_def)
qed auto

section \<open>Pools of unique values\<close>

definition fresh_list :: "'b list \<Rightarrow> 'b list \<Rightarrow> bool" where
  "fresh_list xs used \<longleftrightarrow> distinct xs \<and> set xs \<inter> set used = {}"

lemma fresh_list_simps [simp]:
  "fresh_list [] used"
  "fresh_list (x # xs) used \<longleftrightarrow> x \<notin> set used \<and> x \<notin> set xs \<and> fresh_list xs used"
  by (auto simp: fresh_list_def)

lemma fresh_list_append:
  "fresh_list (xs @ ys) used \<longleftrightarrow> fresh_list xs used \<and> fresh_list ys (rev xs @ used)"
  by (auto simp: fresh_list_def)

lemma chain_conj: "chain (\<lambda>x s. F x s \<and> F' x s) R xs s \<longleftrightarrow> chain F R xs s \<and> chain F' R xs s"
  by (induction xs arbitrary: s) auto

lemma chain_proj:
  assumes "\<And>x s. F x s = F' x (g s)" "\<And>x s. g (R x s) = R' x (g s)"
  shows "chain F R xs s = chain F' R' xs (g s)" "g (fold R xs s) = fold R' xs (g s)"
  by (induction xs arbitrary: s) (auto simp: assms)

lemma chain_push:
  assumes "\<And>x s. F x s = fresh_list (f x) (pool s)" "\<And>x s. pool (R x s) = rev (f x) @ pool s"
  shows "chain F R xs s = fresh_list (concat (map f xs)) (pool s)"
    and "pool (fold R xs s) = rev (concat (map f xs)) @ pool s"
  by (induction xs arbitrary: s) (auto simp: assms fresh_list_append)

lemma chain_push1:
  assumes "\<And>x s. F x s = (f x \<notin> set (pool s))" "\<And>x s. pool (R x s) = f x # pool s"
  shows "chain F R xs s = fresh_list (map f xs) (pool s)"
proof (induction xs arbitrary: s)
  case (Cons x xs)
  then show ?case by (auto simp: assms fresh_list_def)
qed simp

lemma fold_unchanged: "(\<And>x s. g (R x s) = g s) \<Longrightarrow> g (fold R xs s) = g s"
  by (induction xs arbitrary: s) auto

lemma fold_total:
  assumes "\<And>x s. 0 < (g (R x s) :: nat) \<longleftrightarrow> 0 < g s \<or> P x"
  shows "0 < g (fold R xs s) \<longleftrightarrow> 0 < g s \<or> list_ex P xs"
  by (induction xs arbitrary: s) (auto simp: assms)

section \<open>Nodes\<close>

definition node_reg :: "('a) node_base_scheme \<Rightarrow> hyd \<Rightarrow> hyd" where
  "node_reg n s = (count s)\<lparr>hy_mgmtIPs := ip_of (nd_MgmtIP n) # hy_mgmtIPs s,
     hy_dummyIPs := ip_of (nd_DummyIP n) # hy_dummyIPs s\<rparr>"

definition mgmt_ips :: "('a) node_base_scheme list \<Rightarrow> addr list" where
  "mgmt_ips ns = map (\<lambda>n. ip_of (nd_MgmtIP n)) ns"

definition dummy_ips :: "('a) node_base_scheme list \<Rightarrow> addr list" where
  "dummy_ips ns = map (\<lambda>n. ip_of (nd_DummyIP n)) ns"

lemma full_nodes:
  "full_step (efold (check_node mn ds)) (list_all (node_ok mn ds))
     (\<lambda>ns s. fresh_list (mgmt_ips ns) (hy_mgmtIPs s) \<and> fresh_list (dummy_ips ns) (hy_dummyIPs s))
     (fold node_reg)"
proof (rule full_step_cong [OF efold_full [OF full_check_node]], goal_cases)
  case (3 ns s)
  have "chain (\<lambda>n s. ip_of (nd_MgmtIP n) \<notin> set (hy_mgmtIPs s)) node_reg ns s = fresh_list (mgmt_ips ns) (hy_mgmtIPs s)"
    unfolding mgmt_ips_def by (rule chain_push1) (simp_all add: node_reg_def)
  moreover have "chain (\<lambda>n s. ip_of (nd_DummyIP n) \<notin> set (hy_dummyIPs s)) node_reg ns s = fresh_list (dummy_ips ns) (hy_dummyIPs s)"
    unfolding dummy_ips_def by (rule chain_push1) (simp_all add: node_reg_def)
  ultimately show ?case by (simp add: chain_conj node_reg_def [abs_def])
qed (simp_all add: node_reg_def [abs_def])

lemma fold_node_reg [simp]:
  "hy_mgmtIPs (fold node_reg ns s) = rev (mgmt_ips ns) @ hy_mgmtIPs s"
  "hy_dummyIPs (fold node_reg ns s) = rev (dummy_ips ns) @ hy_dummyIPs s"
  "hy_protocolIPs (fold node_reg ns s) = hy_protocolIPs s"
  "leaf_of (fold node_reg ns s) = leaf_of s"
  "hy_fabricIPs (fold node_reg ns s) = hy_fabricIPs s"
  "0 < hy_total (fold node_reg ns s) \<longleftrightarrow> 0 < hy_total s \<or> ns \<noteq> []"
proof -
  show "hy_mgmtIPs (fold node_reg ns s) = rev (mgmt_ips ns) @ hy_mgmtIPs s"
    "hy_dummyIPs (fold node_reg ns s) = rev (dummy_ips ns) @ hy_dummyIPs s"
    by (induction ns arbitrary: s) (simp_all add: node_reg_def mgmt_ips_def dummy_ips_def)
  show "0 < hy_total (fold node_reg ns s) \<longleftrightarrow> 0 < hy_total s \<or> ns \<noteq> []"
    by (subst fold_total [where P = "\<lambda>_. True"]) (auto simp: node_reg_def list_ex_iff)
qed (rule fold_unchanged, simp add: node_reg_def leaf_of_def)+

section \<open>Switches\<close>

definition switch_reg :: "switch \<Rightarrow> hyd \<Rightarrow> hyd" where
  "switch_reg sw s = put_leaf (leaf_reg sw (leaf_of s))
     (leaf_total sw ((count ((count s)\<lparr>hy_mgmtIPs := ip_of (sw_IP sw) # hy_mgmtIPs s\<rparr>))
        \<lparr>hy_protocolIPs := ip_of (sw_ProtocolIP sw) # hy_protocolIPs s\<rparr>))"

lemma switch_reg_sel [simp]:
  "hy_mgmtIPs (switch_reg sw s) = ip_of (sw_IP sw) # hy_mgmtIPs s"
  "hy_protocolIPs (switch_reg sw s) = ip_of (sw_ProtocolIP sw) # hy_protocolIPs s"
  "leaf_of (switch_reg sw s) = leaf_reg sw (leaf_of s)"
  "hy_fabricIPs (switch_reg sw s) = hy_fabricIPs s" "hy_dummyIPs (switch_reg sw s) = hy_dummyIPs s"
  "0 < hy_total (switch_reg sw s)"
  by (simp_all add: switch_reg_def put_leaf_def leaf_of_def leaf_total_def split: prod.splits)

definition switch_fresh :: "switch \<Rightarrow> hyd \<Rightarrow> bool" where
  "switch_fresh sw s \<longleftrightarrow> (ip_of (sw_IP sw) \<notin> set (hy_mgmtIPs s) \<and>
     ip_of (sw_ProtocolIP sw) \<notin> set (hy_protocolIPs s)) \<and> leaf_fresh sw (leaf_of s)"

lemma full_check_switch:
  "full_step (check_switch mn fc vs ps) (switch_ok mn fc vs ps) switch_fresh switch_reg"
proof (rule full_step_cong [OF full_step_bind [OF full_check_switch_role full_step_bind [OF full_check_switch_ip
        full_step_bind [OF full_check_protocol_ip [of "''switch''" _ ob_Name sw_ProtocolIP] full_check_leaf]]]])
  fix sw s
  show "ebind (check_switch_role sw s) (\<lambda>s. ebind (check_switch_ip mn sw s) (\<lambda>s.
          ebind (check_protocol_ip ''switch'' ps (ob_Name sw) (sw_ProtocolIP sw) s) (\<lambda>s.
          ebind (check_switch_asn fc sw s) (check_switch_vtep vs sw)))) = check_switch mn fc vs ps sw s"
    by (simp add: check_switch_def)
qed (use role_cases spine_not_leaf in \<open>auto simp: switch_ok_def switch_fresh_def switch_reg_def leaf_of_def\<close>)

definition switch_ips :: "switch list \<Rightarrow> addr list" where
  "switch_ips sws = map (\<lambda>sw. ip_of (sw_IP sw)) sws"

definition protocol_ips :: "switch list \<Rightarrow> addr list" where
  "protocol_ips sws = map (\<lambda>sw. ip_of (sw_ProtocolIP sw)) sws"

lemma full_switches:
  "full_step (efold (check_switch mn fc vs ps)) (list_all (switch_ok mn fc vs ps))
     (\<lambda>sws s. fresh_list (switch_ips sws) (hy_mgmtIPs s) \<and> fresh_list (protocol_ips sws) (hy_protocolIPs s) \<and>
        chain leaf_fresh leaf_reg sws (leaf_of s))
     (fold switch_reg)"
proof (rule full_step_cong [OF efold_full [OF full_check_switch]], goal_cases)
  case (3 sws s)
  have "chain (\<lambda>sw s. ip_of (sw_IP sw) \<notin> set (hy_mgmtIPs s)) switch_reg sws s = fresh_list (switch_ips sws) (hy_mgmtIPs s)"
    unfolding switch_ips_def by (rule chain_push1) simp_all
  moreover have "chain (\<lambda>sw s. ip_of (sw_ProtocolIP sw) \<notin> set (hy_protocolIPs s)) switch_reg sws s =
      fresh_list (protocol_ips sws) (hy_protocolIPs s)"
    unfolding protocol_ips_def by (rule chain_push1) simp_all
  moreover have "chain (\<lambda>sw s. leaf_fresh sw (leaf_of s)) switch_reg sws s = chain leaf_fresh leaf_reg sws (leaf_of s)"
    by (rule chain_proj) simp_all
  ultimately show ?case by (simp add: chain_conj switch_fresh_def [abs_def])
qed simp_all

lemma fold_switch_reg [simp]:
  "hy_mgmtIPs (fold switch_reg sws s) = rev (switch_ips sws) @ hy_mgmtIPs s"
  "hy_protocolIPs (fold switch_reg sws s) = rev (protocol_ips sws) @ hy_protocolIPs s"
  "leaf_of (fold switch_reg sws s) = fold leaf_reg sws (leaf_of s)"
  "hy_fabricIPs (fold switch_reg sws s) = hy_fabricIPs s"
  "0 < hy_total (fold switch_reg sws s) \<longleftrightarrow> 0 < hy_total s \<or> sws \<noteq> []"
proof -
  show "hy_mgmtIPs (fold switch_reg sws s) = rev (switch_ips sws) @ hy_mgmtIPs s"
    "hy_protocolIPs (fold switch_reg sws s) = rev (protocol_ips sws) @ hy_protocolIPs s"
    "leaf_of (fold switch_reg sws s) = fold leaf_reg sws (leaf_of s)"
    by (induction sws arbitrary: s) (simp_all add: switch_ips_def protocol_ips_def)
  show "0 < hy_total (fold switch_reg sws s) \<longleftrightarrow> 0 < hy_total s \<or> sws \<noteq> []"
    by (subst fold_total [where P = "\<lambda>_. True"]) (auto simp: list_ex_iff)
qed (rule fold_unchanged, simp)

section \<open>Links and gateways\<close>

definition link_ips :: "p2p_link \<Rightarrow> addr list" where
  "link_ips l = [ip_of (le_IP (ln_A l)), ip_of (le_IP (ln_B l))]"

definition link_reg :: "p2p_link \<Rightarrow> hyd \<Rightarrow> hyd" where
  "link_reg l s = (count (count s))\<lparr>hy_fabricIPs := rev (link_ips l) @ hy_fabricIPs s\<rparr>"

lemma check_link_end_iff:
  "check_link_end kind side fs conn idx ip s = Inr (p, s') \<longleftrightarrow>
     parse_prefix ip = Inr p \<and> host_ok fs 31 (parse_prefix ip) \<and> ip_of ip \<notin> set (hy_fabricIPs s) \<and>
     s' = s\<lparr>hy_fabricIPs := ip_of ip # hy_fabricIPs s\<rparr>"
  by (auto simp: check_link_end_def check_simps host_ok_def)

lemma full_check_link:
  "full_step (check_link w fs conn) (\<lambda>il. link_ok fs (snd il))
     (\<lambda>il s. fresh_list (link_ips (snd il)) (hy_fabricIPs s)) (\<lambda>il. link_reg (snd il))"
proof (rule full_stepI, goal_cases)
  case (2 il s s')
  obtain i l where il: "il = (i, l)" by (cases il)
  from 2 have "le_IP (ln_A l) \<noteq> ''''" "le_IP (ln_B l) \<noteq> ''''"
    by (auto simp: check_link_def Let_def missing_if_def il split: if_splits)
  with 2 show ?case
    by (auto simp: check_link_def Let_def missing_if_def ok_iff check_link_end_iff link_ok_def link_reg_def link_ips_def
        il split: if_splits prod.splits)
next
  case (3 il s)
  obtain i l where il: "il = (i, l)" by (cases il)
  from 3 obtain p q where "parse_prefix (le_IP (ln_A l)) = Inr p" "parse_prefix (le_IP (ln_B l)) = Inr q"
    by (auto simp: link_ok_def host_ok_def il split: sum.splits)
  moreover from this have "le_IP (ln_A l) \<noteq> ''''" "le_IP (ln_B l) \<noteq> ''''"
    by (auto simp: parse_prefix_empty)
  ultimately show ?case using 3
    by (auto simp: check_link_def Let_def missing_if_def ok_iff check_link_end_iff link_ok_def link_reg_def link_ips_def
        il split: prod.splits)
qed (simp add: link_reg_def)

definition conn_links :: "connection \<Rightarrow> p2p_link list" where
  "conn_links conn = (case cn_Fabric conn of Some ls \<Rightarrow> ls | None \<Rightarrow>
     (case cn_Mesh conn of Some ls \<Rightarrow> ls | None \<Rightarrow> (case cn_Gateway conn of Some ls \<Rightarrow> ls | None \<Rightarrow> [])))"

lemma fold_enumerate: "fold (\<lambda>il. f (snd il)) (enumerate n xs) s = fold f xs s"
  by (induction xs arbitrary: n s) simp_all

lemma chain_enumerate: "chain (\<lambda>il. F (snd il)) (\<lambda>il. R (snd il)) (enumerate n xs) s = chain F R xs s"
  by (induction xs arbitrary: n s) simp_all

lemma list_all_enumerate: "list_all (\<lambda>il. G (snd il)) (enumerate n xs) = list_all G xs"
  by (induction xs arbitrary: n) simp_all

lemma full_links:
  "full_step (\<lambda>ls. efold (check_link w fs conn) (enumerate 0 ls)) (list_all (link_ok fs))
     (\<lambda>ls s. fresh_list (concat (map link_ips ls)) (hy_fabricIPs s)) (fold link_reg)"
proof -
  note f = efold_full [OF full_check_link, of w fs conn]
  have "chain (\<lambda>l s. fresh_list (link_ips l) (hy_fabricIPs s)) link_reg ls s =
      fresh_list (concat (map link_ips ls)) (hy_fabricIPs s)" for ls s
    by (rule chain_push) (simp_all add: link_reg_def)
  moreover have "hy_missing (fold link_reg ls s) = hy_missing s" for ls s
    by (rule fold_unchanged) (simp add: link_reg_def)
  ultimately show ?thesis using f
    by (simp add: full_step_def fold_enumerate list_all_enumerate
        chain_enumerate [where F = "\<lambda>l s. fresh_list (link_ips l) (hy_fabricIPs s)" and R = link_reg])
qed

lemma full_check_conn:
  "full_step (check_conn fs) (\<lambda>c. list_all (link_ok fs) (conn_links c))
     (\<lambda>c s. fresh_list (concat (map link_ips (conn_links c))) (hy_fabricIPs s)) (\<lambda>c. fold link_reg (conn_links c))"
proof -
  have step: "\<exists>w. check_conn fs c s = efold (check_link w fs (ob_Name c)) (enumerate 0 (conn_links c)) s" for c s
    by (cases "cn_Fabric c"; cases "cn_Mesh c"; cases "cn_Gateway c")
      (auto simp: check_conn_def conn_links_def)
  show ?thesis unfolding full_step_def
  proof (intro allI)
    fix c s s'
    obtain w where "check_conn fs c s = efold (check_link w fs (ob_Name c)) (enumerate 0 (conn_links c)) s"
      using step by blast
    then show "hy_missing (fold link_reg (conn_links c) s) = hy_missing s \<and>
      (check_conn fs c s = Inr s' \<and> hy_missing s' = 0 \<longleftrightarrow> hy_missing s = 0 \<and> list_all (link_ok fs) (conn_links c) \<and>
         fresh_list (concat (map link_ips (conn_links c))) (hy_fabricIPs s) \<and> s' = fold link_reg (conn_links c) s)"
      using full_links [of w fs "ob_Name c"] by (simp add: full_step_def)
  qed
qed

definition all_links :: "connection list \<Rightarrow> p2p_link list" where
  "all_links cs = concat (map conn_links cs)"

definition fabric_ips :: "connection list \<Rightarrow> addr list" where
  "fabric_ips cs = concat (map link_ips (all_links cs))"

lemma fabric_ips_simps: "fabric_ips [] = []" "fabric_ips (c # cs) = concat (map link_ips (conn_links c)) @ fabric_ips cs"
  by (simp_all add: fabric_ips_def all_links_def)

definition conn_reg :: "connection \<Rightarrow> hyd \<Rightarrow> hyd" where
  "conn_reg c = fold link_reg (conn_links c)"

lemma fold_link_reg [simp]:
  "hy_fabricIPs (fold link_reg ls s) = rev (concat (map link_ips ls)) @ hy_fabricIPs s"
  "hy_protocolIPs (fold link_reg ls s) = hy_protocolIPs s"
  "leaf_of (fold link_reg ls s) = leaf_of s"
  "0 < hy_total (fold link_reg ls s) \<longleftrightarrow> 0 < hy_total s \<or> ls \<noteq> []"
proof -
  show "hy_fabricIPs (fold link_reg ls s) = rev (concat (map link_ips ls)) @ hy_fabricIPs s"
    by (induction ls arbitrary: s) (simp_all add: link_reg_def)
  show "0 < hy_total (fold link_reg ls s) \<longleftrightarrow> 0 < hy_total s \<or> ls \<noteq> []"
    by (subst fold_total [where P = "\<lambda>_. True"]) (auto simp: list_ex_iff link_reg_def)
qed (rule fold_unchanged, simp add: link_reg_def leaf_of_def)+

lemma conn_reg_sel [simp]:
  "hy_fabricIPs (conn_reg c s) = rev (concat (map link_ips (conn_links c))) @ hy_fabricIPs s"
  "hy_protocolIPs (conn_reg c s) = hy_protocolIPs s"
  "leaf_of (conn_reg c s) = leaf_of s"
  "0 < hy_total (conn_reg c s) \<longleftrightarrow> 0 < hy_total s \<or> conn_links c \<noteq> []"
  by (simp_all add: conn_reg_def)

lemma full_conns:
  "full_step (efold (check_conn fs)) (\<lambda>cs. list_all (link_ok fs) (all_links cs))
     (\<lambda>cs s. fresh_list (fabric_ips cs) (hy_fabricIPs s)) (fold conn_reg)"
proof (rule full_step_cong [OF efold_full [OF full_check_conn]])
  fix cs s
  show "list_all (\<lambda>c. list_all (link_ok fs) (conn_links c)) cs = list_all (link_ok fs) (all_links cs)"
    by (induction cs) (auto simp: all_links_def)
  have "chain (\<lambda>c s. fresh_list (concat (map link_ips (conn_links c))) (hy_fabricIPs s)) conn_reg cs s =
      fresh_list (concat (map (\<lambda>c. concat (map link_ips (conn_links c))) cs)) (hy_fabricIPs s)"
    by (rule chain_push) simp_all
  also have "concat (map (\<lambda>c. concat (map link_ips (conn_links c))) cs) = fabric_ips cs"
    by (induction cs) (simp_all add: fabric_ips_simps)
  finally show "chain (\<lambda>c s. fresh_list (concat (map link_ips (conn_links c))) (hy_fabricIPs s)) (\<lambda>c. fold link_reg (conn_links c)) cs s =
     fresh_list (fabric_ips cs) (hy_fabricIPs s)"
    by (simp add: conn_reg_def [abs_def])
qed (simp_all add: conn_reg_def [abs_def])

lemma fold_conn_reg [simp]:
  "hy_protocolIPs (fold conn_reg cs s) = hy_protocolIPs s"
  "leaf_of (fold conn_reg cs s) = leaf_of s"
  "0 < hy_total (fold conn_reg cs s) \<longleftrightarrow> 0 < hy_total s \<or> all_links cs \<noteq> []"
proof -
  show "0 < hy_total (fold conn_reg cs s) \<longleftrightarrow> 0 < hy_total s \<or> all_links cs \<noteq> []"
    by (subst fold_total [where P = "\<lambda>c. conn_links c \<noteq> []"]) (auto simp: list_ex_iff all_links_def)
qed (rule fold_unchanged, simp)+

definition gateway_reg :: "gateway \<Rightarrow> hyd \<Rightarrow> hyd" where
  "gateway_reg gw s = (count ((count (count s))\<lparr>hy_protocolIPs := ip_of (gt_ProtocolIP gw) # hy_protocolIPs s\<rparr>))
     \<lparr>hy_vtepIPs := ip_of (gt_VTEPIP gw) # hy_vtepIPs s\<rparr>"

lemma full_check_gateway_asn:
  "full_step (check_gateway_asn asn) (\<lambda>gw. gt_ASN gw \<noteq> 0 \<and> gt_ASN gw = asn) (\<lambda>_ _. True) (\<lambda>_. count)"
  by (rule full_stepI) (auto simp: check_gateway_asn_def Let_def split: if_splits)

lemma full_check_gateway_vtep:
  "full_step (check_gateway_vtep vs) (\<lambda>gw. host_ok vs 32 (parse_prefix (gt_VTEPIP gw)))
     (\<lambda>gw s. ip_of (gt_VTEPIP gw) \<notin> set (hy_vtepIPs s))
     (\<lambda>gw s. (count s)\<lparr>hy_vtepIPs := ip_of (gt_VTEPIP gw) # hy_vtepIPs s\<rparr>)"
proof (rule full_stepI, goal_cases)
  case (2 x s s')
  then show ?case by (auto simp: check_gateway_vtep_def check_simps host_ok_def split: if_splits)
next
  case (3 x s)
  then show ?case by (auto simp: check_gateway_vtep_def check_simps elim!: value_okE)
qed simp

lemma full_check_gateway:
  "full_step (check_gateway vs ps asn) (gateway_ok asn vs ps)
     (\<lambda>gw s. ip_of (gt_ProtocolIP gw) \<notin> set (hy_protocolIPs s) \<and> ip_of (gt_VTEPIP gw) \<notin> set (hy_vtepIPs s)) gateway_reg"
proof (rule full_step_cong [OF full_step_bind [OF full_check_gateway_asn full_step_bind
        [OF full_check_protocol_ip [of "''gateway''" _ ob_Name gt_ProtocolIP] full_check_gateway_vtep]]])
  fix gw s
  show "ebind (check_gateway_asn asn gw s) (\<lambda>s.
          ebind (check_protocol_ip ''gateway'' ps (ob_Name gw) (gt_ProtocolIP gw) s) (check_gateway_vtep vs gw)) =
        check_gateway vs ps asn gw s"
    by (simp add: check_gateway_def)
qed (auto simp: gateway_ok_def gateway_reg_def)

definition gw_protocol_ips :: "gateway list \<Rightarrow> addr list" where
  "gw_protocol_ips gws = map (\<lambda>gw. ip_of (gt_ProtocolIP gw)) gws"

definition gw_vtep_ips :: "gateway list \<Rightarrow> addr list" where
  "gw_vtep_ips gws = map (\<lambda>gw. ip_of (gt_VTEPIP gw)) gws"

lemma full_gateways:
  "full_step (efold (check_gateway vs ps asn)) (list_all (gateway_ok asn vs ps))
     (\<lambda>gws s. fresh_list (gw_protocol_ips gws) (hy_protocolIPs s) \<and> fresh_list (gw_vtep_ips gws) (hy_vtepIPs s))
     (fold gateway_reg)"
proof (rule full_step_cong [OF efold_full [OF full_check_gateway]], goal_cases)
  case (3 gws s)
  have "chain (\<lambda>gw s. ip_of (gt_ProtocolIP gw) \<notin> set (hy_protocolIPs s)) gateway_reg gws s =
      fresh_list (gw_protocol_ips gws) (hy_protocolIPs s)"
    unfolding gw_protocol_ips_def by (rule chain_push1) (simp_all add: gateway_reg_def)
  moreover have "chain (\<lambda>gw s. ip_of (gt_VTEPIP gw) \<notin> set (hy_vtepIPs s)) gateway_reg gws s =
      fresh_list (gw_vtep_ips gws) (hy_vtepIPs s)"
    unfolding gw_vtep_ips_def by (rule chain_push1) (simp_all add: gateway_reg_def)
  ultimately show ?case by (simp add: chain_conj)
qed simp_all

lemma fold_gateway_total: "0 < hy_total (fold gateway_reg gws s) \<longleftrightarrow> 0 < hy_total s \<or> gws \<noteq> []"
  by (subst fold_total [where P = "\<lambda>_. True"]) (auto simp: list_ex_iff gateway_reg_def)

end
