(* ===== verification/HydrationFull.thy ===== *)
theory HydrationFull
  imports HydrationSpec
begin

text \<open>
  \<open>getHydration\<close> reports a full hydration exactly when the values of every object are valid and
  unique (\<open>getHydration_full_iff\<close>); what this says of the ASNs and VTEP addresses of the leaves, with
  the groups that share them, is drawn out of the loop with the peer map.
\<close>

section \<open>Leaves and their groups\<close>

definition leaves :: "switch list \<Rightarrow> switch list" where
  "leaves sws = filter (\<lambda>sw. IsLeaf (sw_Role sw)) sws"

definition same_group :: "switch \<Rightarrow> switch \<Rightarrow> bool" where
  "same_group a b \<longleftrightarrow> is_mclag a \<and> is_mclag b \<and> sw_RedGroup a = sw_RedGroup b"

definition vtep_ip :: "switch \<Rightarrow> addr" where
  "vtep_ip sw = ip_of (sw_VTEPIP sw)"

abbreviation leaf_run :: "switch list \<Rightarrow> leaf_state" where
  "leaf_run sws \<equiv> fold leaf_reg sws ([], [], [])"

lemma is_mclag_leaf: "is_mclag sw \<Longrightarrow> IsLeaf (sw_Role sw)"
  by (simp add: is_mclag_def)

lemma find_append: "find P (xs @ ys) = (case find P xs of Some x \<Rightarrow> Some x | None \<Rightarrow> find P ys)"
  by (induction xs) auto

lemma leaves_snoc: "set (leaves (sws @ [x])) = set (leaves sws) \<union> (if IsLeaf (sw_Role x) then {x} else {})"
  by (simp add: leaves_def)

lemma leaf_reg_eq:
  "leaf_reg x (a, p, v) =
     (if IsLeaf (sw_Role x) then (sw_ASN x # a,
        if is_mclag x \<and> map_of p (sw_RedGroup x) = None then map_put (sw_RedGroup x) x p else p, vtep_ip x # v)
      else (a, p, v))"
  by (simp add: leaf_reg_def vtep_ip_def)

lemma leaf_run_eq:
  "fst (leaf_run sws) = rev (map sw_ASN (leaves sws)) \<and>
   snd (snd (leaf_run sws)) = rev (map vtep_ip (leaves sws)) \<and>
   (\<forall>g. map_of (fst (snd (leaf_run sws))) g = find (\<lambda>sw. is_mclag sw \<and> sw_RedGroup sw = g) sws)"
proof (induction sws rule: rev_induct)
  case (snoc x sws)
  obtain a p v where r: "leaf_run sws = (a, p, v)" by (cases "leaf_run sws")
  with snoc.IH show ?case
    by (auto simp: leaf_reg_eq leaves_def find_append is_mclag_leaf split: option.splits)
qed (simp add: leaves_def)

lemma leaf_fresh_run:
  "leaf_fresh x (leaf_run sws) \<longleftrightarrow> (IsLeaf (sw_Role x) \<longrightarrow>
     (case (if is_mclag x then find (\<lambda>sw. is_mclag sw \<and> sw_RedGroup sw = sw_RedGroup x) sws else None) of
        Some peer \<Rightarrow> sw_ASN peer = sw_ASN x \<and> sw_VTEPIP peer = sw_VTEPIP x
      | None \<Rightarrow> sw_ASN x \<notin> sw_ASN ` set (leaves sws) \<and> (is_mclag x \<or> vtep_ip x \<notin> vtep_ip ` set (leaves sws))))"
proof -
  obtain a p v where r: "leaf_run sws = (a, p, v)" by (cases "leaf_run sws")
  then show ?thesis using leaf_run_eq [of sws]
    by (simp add: leaf_fresh_def vtep_ip_def [symmetric] cong: option.case_cong)
qed

lemma leaf_chain_snoc:
  "chain leaf_fresh leaf_reg (sws @ [x]) ([], [], []) \<longleftrightarrow>
     chain leaf_fresh leaf_reg sws ([], [], []) \<and> leaf_fresh x (leaf_run sws)"
  by (simp add: chain_append)

text \<open>What the check of the leaves guarantees of two of them.\<close>

definition leaf_pair_ok :: "switch \<Rightarrow> switch \<Rightarrow> bool" where
  "leaf_pair_ok a b \<longleftrightarrow>
     (if same_group a b then sw_ASN a = sw_ASN b \<and> sw_VTEPIP a = sw_VTEPIP b
      else sw_ASN a \<noteq> sw_ASN b \<and> (is_mclag a \<or> is_mclag b \<or> vtep_ip a \<noteq> vtep_ip b))"

lemma same_group_sym: "same_group a b \<Longrightarrow> same_group b a"
  by (simp add: same_group_def)

lemma leaf_pair_ok_sym: "leaf_pair_ok a b \<Longrightarrow> leaf_pair_ok b a"
  by (auto simp: leaf_pair_ok_def same_group_def)

lemma leaf_chain_pairs:
  "chain leaf_fresh leaf_reg sws ([], [], []) \<Longrightarrow> a \<in> set (leaves sws) \<Longrightarrow> b \<in> set (leaves sws) \<Longrightarrow> a \<noteq> b \<Longrightarrow>
   leaf_pair_ok a b"
proof (induction sws arbitrary: a b rule: rev_induct)
  case (snoc x sws)
  have ch: "chain leaf_fresh leaf_reg sws ([], [], [])" and fx: "leaf_fresh x (leaf_run sws)"
    using snoc.prems(1) by (simp_all add: leaf_chain_snoc)
  have new: "leaf_pair_ok c x" if "c \<in> set (leaves sws)" "IsLeaf (sw_Role x)" for c
  proof (cases "if is_mclag x then find (\<lambda>sw. is_mclag sw \<and> sw_RedGroup sw = sw_RedGroup x) sws else None")
    case None
    then have "\<not> same_group c x"
      using that(1) by (auto simp: same_group_def find_None_iff leaves_def split: if_splits)
    then show ?thesis using fx None that by (fastforce simp: leaf_fresh_run leaf_pair_ok_def image_iff)
  next
    case (Some p)
    then have p: "p \<in> set (leaves sws)" "same_group p x"
      by (auto simp: find_Some_iff same_group_def leaves_def is_mclag_leaf split: if_splits)
    have eq: "sw_ASN p = sw_ASN x" "sw_VTEPIP p = sw_VTEPIP x" using fx Some that(2) by (auto simp: leaf_fresh_run)
    show ?thesis
    proof (cases "c = p")
      case True
      then show ?thesis using p(2) eq by (simp add: leaf_pair_ok_def)
    next
      case False
      have "leaf_pair_ok c p" using snoc.IH [OF ch that(1) p(1) False] .
      then show ?thesis using p(2) eq by (auto simp: leaf_pair_ok_def same_group_def)
    qed
  qed
  show ?case
  proof (cases "a \<in> set (leaves sws) \<and> b \<in> set (leaves sws)")
    case True
    then show ?thesis using snoc.IH [OF ch] snoc.prems(4) by blast
  next
    case False
    then have "a = x \<and> b \<in> set (leaves sws) \<and> IsLeaf (sw_Role x) \<or> b = x \<and> a \<in> set (leaves sws) \<and> IsLeaf (sw_Role x)"
      using snoc.prems(2-4) by (auto simp: leaves_snoc split: if_splits)
    then show ?thesis using new leaf_pair_ok_sym by blast
  qed
qed (simp add: leaves_def)

text \<open>The other way: unique ASNs and VTEPs, shared within a group, pass the check in any order.\<close>

definition leaf_pair_unique :: "switch \<Rightarrow> switch \<Rightarrow> bool" where
  "leaf_pair_unique a b \<longleftrightarrow>
     (if same_group a b then sw_ASN a = sw_ASN b \<and> sw_VTEPIP a = sw_VTEPIP b
      else sw_ASN a \<noteq> sw_ASN b \<and> vtep_ip a \<noteq> vtep_ip b)"

lemma leaf_pairs_chain:
  assumes "distinct sws"
    and "\<And>a b. a \<in> set (leaves sws) \<Longrightarrow> b \<in> set (leaves sws) \<Longrightarrow> a \<noteq> b \<Longrightarrow> leaf_pair_unique a b"
  shows "chain leaf_fresh leaf_reg sws ([], [], [])"
  using assms
proof (induction sws rule: rev_induct)
  case (snoc x sws)
  have "chain leaf_fresh leaf_reg sws ([], [], [])"
    using snoc by (auto simp: leaves_snoc)
  moreover have "leaf_fresh x (leaf_run sws)"
  proof (cases "IsLeaf (sw_Role x)")
    case True
    have u: "leaf_pair_unique c x" if "c \<in> set (leaves sws)" for c
      using snoc.prems that True by (auto simp: leaves_def)
    show ?thesis
    proof (cases "if is_mclag x then find (\<lambda>sw. is_mclag sw \<and> sw_RedGroup sw = sw_RedGroup x) sws else None")
      case None
      then have "\<not> same_group c x" if "c \<in> set (leaves sws)" for c
        using that by (auto simp: same_group_def find_None_iff leaves_def split: if_splits)
      then show ?thesis using u None by (fastforce simp: leaf_fresh_run leaf_pair_unique_def)
    next
      case (Some p)
      then have "p \<in> set (leaves sws)" "same_group p x"
        by (auto simp: find_Some_iff same_group_def leaves_def is_mclag_leaf split: if_splits)
      with u [of p] Some show ?thesis by (auto simp: leaf_fresh_run leaf_pair_unique_def)
    qed
  qed (simp add: leaf_fresh_run)
  ultimately show ?case by (simp add: leaf_chain_snoc)
qed simp

section \<open>When the status is full\<close>

definition values_ok ::
  "mgmt_net \<Rightarrow> prefix \<Rightarrow> prefix \<Rightarrow> prefix \<Rightarrow> prefix \<Rightarrow> hhfab_config \<Rightarrow> kube \<Rightarrow> bool" where
  "values_ok mn ds vs ps fs hc k \<longleftrightarrow>
     list_all (node_ok mn ds) (hc_Controls hc) \<and> list_all (node_ok mn ds) (hc_Nodes hc) \<and>
     list_all (switch_ok mn (Fabric (Config (hc_Fab hc))) vs ps) (store_list (k_Switches k)) \<and>
     list_all (link_ok fs) (all_links (store_list (k_Connections k))) \<and>
     list_all (gateway_ok (GwASN (Gateway (Config (hc_Fab hc)))) vs ps) (store_list (k_Gateways k))"

definition management_addresses :: "hhfab_config \<Rightarrow> kube \<Rightarrow> addr list" where
  "management_addresses hc k = ip_of (VIP (Control (Config (hc_Fab hc)))) #
     mgmt_ips (hc_Controls hc) @ mgmt_ips (hc_Nodes hc) @ switch_ips (store_list (k_Switches k))"

definition dummy_addresses :: "hhfab_config \<Rightarrow> addr list" where
  "dummy_addresses hc = dummy_ips (hc_Controls hc) @ dummy_ips (hc_Nodes hc)"

definition protocol_addresses :: "kube \<Rightarrow> addr list" where
  "protocol_addresses k = protocol_ips (store_list (k_Switches k)) @ gw_protocol_ips (store_list (k_Gateways k))"

definition fabric_addresses :: "kube \<Rightarrow> addr list" where
  "fabric_addresses k = fabric_ips (store_list (k_Connections k))"

definition vteps_ok :: "kube \<Rightarrow> bool" where
  "vteps_ok k \<longleftrightarrow> chain leaf_fresh leaf_reg (store_list (k_Switches k)) ([], [], []) \<and>
     fresh_list (gw_vtep_ips (store_list (k_Gateways k))) (map vtep_ip (leaves (store_list (k_Switches k))))"

definition values_unique :: "hhfab_config \<Rightarrow> kube \<Rightarrow> bool" where
  "values_unique hc k \<longleftrightarrow>
     distinct (management_addresses hc k) \<and> distinct (dummy_addresses hc) \<and> distinct (protocol_addresses k) \<and>
     distinct (fabric_addresses k) \<and> vteps_ok k"

definition some_value :: "hhfab_config \<Rightarrow> kube \<Rightarrow> bool" where
  "some_value hc k \<longleftrightarrow> hc_Controls hc \<noteq> [] \<or> hc_Nodes hc \<noteq> [] \<or> k_Switches k \<noteq> [] \<or>
     all_links (store_list (k_Connections k)) \<noteq> [] \<or> k_Gateways k \<noteq> []"

lemma hydration_status_full:
  "hydration_status_of s = Inr HydrationStatusFull \<longleftrightarrow> hy_missing s = 0 \<and> 0 < hy_total s"
  by (auto simp: hydration_status_of_def)

definition start_state :: "addr \<Rightarrow> hyd" where
  "start_state vip = \<lparr>hy_total = 0, hy_missing = 0, hy_mgmtIPs = [vip], hy_dummyIPs = [],
     hy_vtepIPs = [], hy_protocolIPs = [], hy_leafASNs = [], hy_mclagPeer = [], hy_fabricIPs = []\<rparr>"

lemma hydration_start_state:
  "hydration_start c = Inr (mn, ds, s) \<Longrightarrow> s = start_state (ip_of (VIP (Control c)))"
  by (auto simp: hydration_start_def ok_iff start_state_def ip_of_prefix_parse split: if_splits)

lemma store_list_empty [simp]: "store_list s = [] \<longleftrightarrow> s = []"
  by (metis store_list_def set_sort set_empty)

text \<open>The steps in sequence, read from the last one back.\<close>

lemma full_ebind:
  assumes "full_step f G F R" "\<And>t. h t = Inr y \<longleftrightarrow> hy_missing t = 0 \<and> Q t"
  shows "ebind (f x s) h = Inr y \<longleftrightarrow> hy_missing s = 0 \<and> G x \<and> F x s \<and> Q (R x s)"
proof -
  have "ebind (f x s) h = Inr y \<longleftrightarrow> (\<exists>t. (f x s = Inr t \<and> hy_missing t = 0) \<and> Q t)"
    by (auto simp: ebind_Inr_iff assms(2))
  then show ?thesis unfolding full_stepD [OF assms(1)] by blast
qed

lemma parse_ebind:
  assumes "\<And>v. h v = Inr y \<longleftrightarrow> M \<and> Q v"
  shows "ebind (ewrap f as m) h = Inr y \<longleftrightarrow> M \<and> (\<exists>v. m = Inr v \<and> Q v)"
  by (auto simp: ok_iff assms)

lemmas loops_full = full_ebind [OF full_nodes full_ebind [OF full_nodes parse_ebind [OF parse_ebind [OF full_ebind
  [OF full_switches parse_ebind [OF full_ebind [OF full_conns full_ebind [OF full_gateways hydration_status_full]]]]]]]]

lemma start_ebind:
  "ebind (hydration_start c) (\<lambda>(mn, ds, s). h mn ds s) = Inr y \<longleftrightarrow>
   (\<exists>mn ds. hydration_start c = Inr (mn, ds, start_state (ip_of (VIP (Control c)))) \<and>
      h mn ds (start_state (ip_of (VIP (Control c)))) = Inr y)"
  by (auto simp: ebind_Inr_iff dest: hydration_start_state)

lemma start_state_sel [simp]:
  "hy_missing (start_state a) = 0" "hy_total (start_state a) = 0" "hy_mgmtIPs (start_state a) = [a]"
  "hy_dummyIPs (start_state a) = []" "hy_protocolIPs (start_state a) = []" "hy_fabricIPs (start_state a) = []"
  "leaf_of (start_state a) = ([], [], [])"
  by (simp_all add: start_state_def leaf_of_def)

lemma distinct_pools:
  "distinct (v # a @ b @ c) \<longleftrightarrow> fresh_list a [v] \<and> fresh_list b (rev a @ [v]) \<and> fresh_list c (rev b @ rev a @ [v])"
  "distinct (a @ b) \<longleftrightarrow> fresh_list a [] \<and> fresh_list b (rev a)"
  by (auto simp: fresh_list_def)

lemma fresh_list_nil: "fresh_list xs [] = distinct xs"
  by (simp add: fresh_list_def)

lemma leaf_run_vteps: "hy_vtepIPs s = snd (snd (leaf_of s))"
  by (simp add: leaf_of_def)

lemma fresh_list_rev [simp]: "fresh_list xs (rev used) = fresh_list xs used"
  by (simp add: fresh_list_def)

lemma values_unique_pools:
  "values_unique hc k \<longleftrightarrow>
     (let v = ip_of (VIP (Control (Config (hc_Fab hc)))); mc = mgmt_ips (hc_Controls hc); mn = mgmt_ips (hc_Nodes hc);
          ms = switch_ips (store_list (k_Switches k)); dc = dummy_ips (hc_Controls hc); dn = dummy_ips (hc_Nodes hc);
          ps = protocol_ips (store_list (k_Switches k)); pg = gw_protocol_ips (store_list (k_Gateways k)) in
      (fresh_list mc [v] \<and> fresh_list dc []) \<and> (fresh_list mn (rev mc @ [v]) \<and> fresh_list dn (rev dc)) \<and>
      (fresh_list ms (rev mn @ rev mc @ [v]) \<and> fresh_list ps [] \<and>
       chain leaf_fresh leaf_reg (store_list (k_Switches k)) ([], [], [])) \<and>
      fresh_list (fabric_ips (store_list (k_Connections k))) [] \<and>
      fresh_list pg (rev ps) \<and>
      fresh_list (gw_vtep_ips (store_list (k_Gateways k))) (snd (snd (leaf_run (store_list (k_Switches k))))))"
  unfolding values_unique_def management_addresses_def dummy_addresses_def protocol_addresses_def
    fabric_addresses_def vteps_ok_def distinct_pools fresh_list_nil Let_def
  using leaf_run_eq [of "store_list (k_Switches k)"] by auto

lemma getHydration_full_iff:
  "getHydration hc k = Inr HydrationStatusFull \<longleftrightarrow>
   (\<exists>mn ds vs ps fs. hydration_start (Config (hc_Fab hc)) = Inr (mn, ds, start_state (ip_of (VIP (Control (Config (hc_Fab hc)))))) \<and>
      prefix_parse (VTEPSubnet (Fabric (Config (hc_Fab hc)))) = Inr vs \<and>
      prefix_parse (ProtocolSubnet (Fabric (Config (hc_Fab hc)))) = Inr ps \<and>
      prefix_parse (FabricSubnet (Fabric (Config (hc_Fab hc)))) = Inr fs \<and>
      values_ok mn ds vs ps fs hc k \<and> values_unique hc k \<and> some_value hc k)"
proof -
  have v: "hy_vtepIPs (fold conn_reg cs (fold switch_reg sws (fold node_reg ns (fold node_reg ms (start_state a))))) =
     snd (snd (leaf_run sws))" for cs sws a and ns :: "fab_node list" and ms :: "control_node list"
    by (simp add: leaf_run_vteps)
  show ?thesis
    unfolding getHydration_def Let_def start_ebind loops_full values_ok_def some_value_def values_unique_pools
    by (simp add: fold_gateway_total v) blast
qed

end
