(* ===== verification/Hydrate.thy ===== *)
theory Hydrate
  imports HydrationFull
begin

text \<open>
  \<^verbatim>\<open>Config.hydrate\<close> and \<^verbatim>\<open>Config.ensureHydrated\<close>: addresses and ASNs are handed out in one pass over
  the nodes, the switches, the links and the gateways, each sorted by name, from counters that start
  at the base of their subnet. The state is the configuration (its nodes change) and the objects of
  the client; where a step fails the result is the error, and the partly updated state is dropped,
  as the command that runs the hydration gives up on it.
\<close>

definition HydrateModeNever :: string where "HydrateModeNever = ''never''"
definition HydrateModeIfNotPresent :: string where "HydrateModeIfNotPresent = ''if-not-present''"
definition HydrateModeOverride :: string where "HydrateModeOverride = ''override''"

definition MTU :: "32 word" where "MTU = 9100"
definition ServerFacingMTUOffset :: "32 word" where "ServerFacingMTUOffset = 64"
definition ServerFacingMTU :: "32 word" where "ServerFacingMTU = MTU - ServerFacingMTUOffset"

section \<open>A fallible loop that also returns its elements\<close>

fun emap_fold :: "('a \<Rightarrow> 's \<Rightarrow> 'e + ('b \<times> 's)) \<Rightarrow> 'a list \<Rightarrow> 's \<Rightarrow> 'e + ('b list \<times> 's)" where
  "emap_fold f [] s = Inr ([], s)"
| "emap_fold f (x # xs) s =
     ebind (f x s) (\<lambda>(y, s). ebind (emap_fold f xs s) (\<lambda>(ys, s). Inr (y # ys, s)))"

section \<open>Nodes\<close>

text \<open>The two loops over the nodes; the counters are the next management and the next dummy address.\<close>

fun hydrate_nodes ::
  "int \<Rightarrow> addr \<Rightarrow> addr \<Rightarrow> ('a) node_base_scheme list \<Rightarrow> ('a) node_base_scheme list \<times> addr \<times> addr" where
  "hydrate_nodes bits nextMgmtIP nextDummyIP [] = ([], nextMgmtIP, nextDummyIP)"
| "hydrate_nodes bits nextMgmtIP nextDummyIP (n # ns) =
     (let n = n\<lparr>nd_MgmtIP := prefix_string (prefix_from nextMgmtIP bits),
                nd_DummyIP := prefix_string (prefix_from nextDummyIP 31)\<rparr>;
          (ns, nextMgmtIP, nextDummyIP) = hydrate_nodes bits (addr_next nextMgmtIP) (addr_next (addr_next nextDummyIP)) ns
      in (n # ns, nextMgmtIP, nextDummyIP))"

section \<open>Switches\<close>

text \<open>
  The order of the switches: spines first, then by role and by name. The comparison function of the
  source is the one of these keys.
\<close>

definition switch_sort_key :: "switch \<Rightarrow> bool \<times> string \<times> string" where
  "switch_sort_key sw = (sw_Role sw \<noteq> SwitchRoleSpine, sw_Role sw, ob_Name sw)"

record switch_alloc =
  sa_MgmtIP :: addr
  sa_ProtoIP :: addr
  sa_VTEPIP :: addr
  sa_LeafASN :: "32 word"
  sa_mclagPeer :: "switch gomap"

text \<open>
  One pass of the loop. The source keeps pointers to the switches as peers, read only after the pass
  that stored them has ended, so the peer kept here is the switch as that pass leaves it.
\<close>

definition hydrate_switch :: "int \<Rightarrow> 32 word \<Rightarrow> switch \<Rightarrow> switch_alloc \<Rightarrow> (switch \<times> switch_alloc) result" where
  "hydrate_switch bits spineASN sw a =
     (if sw_Role sw = '''' then Inl (Errf ''switch %s role is not set'' [ob_Name sw])
      else if sw_Role sw \<notin> set SwitchRoles
      then Inl (Errf ''switch %s role %q is invalid'' [ob_Name sw, sw_Role sw])
      else
        let sw = sw\<lparr>sw_IP := prefix_string (prefix_from (sa_MgmtIP a) bits),
                    sw_ProtocolIP := prefix_string (prefix_from (sa_ProtoIP a) 32)\<rparr>;
            a = a\<lparr>sa_MgmtIP := addr_next (sa_MgmtIP a), sa_ProtoIP := addr_next (sa_ProtoIP a)\<rparr>;
            sw = (if IsSpine (sw_Role sw) then sw\<lparr>sw_ASN := spineASN\<rparr> else sw);
            mclag = (sw_RedType sw = RedundancyTypeMCLAG) in
        case (if mclag then map_of (sa_mclagPeer a) (sw_RedGroup sw) else None) of
          Some peer \<Rightarrow> Inr (sw\<lparr>sw_ASN := sw_ASN peer, sw_VTEPIP := sw_VTEPIP peer\<rparr>, a)
        | None \<Rightarrow>
            let (sw, a) = (if IsLeaf (sw_Role sw)
                  then (sw\<lparr>sw_ASN := sa_LeafASN a, sw_VTEPIP := prefix_string (prefix_from (sa_VTEPIP a) 32)\<rparr>,
                        a\<lparr>sa_LeafASN := sa_LeafASN a + 1, sa_VTEPIP := addr_next (sa_VTEPIP a)\<rparr>)
                  else (sw, a))
            in Inr (sw, if mclag then a\<lparr>sa_mclagPeer := map_put (sw_RedGroup sw) sw (sa_mclagPeer a)\<rparr> else a))"

section \<open>Links\<close>

definition link_addr :: "addr \<Rightarrow> string" where
  "link_addr a = addr_string a @ ''/31''"

text \<open>Both ends of a link take the next two addresses.\<close>

definition hydrate_link :: "p2p_link \<Rightarrow> addr \<Rightarrow> p2p_link \<times> addr" where
  "hydrate_link l nextFabricIP =
     (l\<lparr>ln_A := (ln_A l)\<lparr>le_IP := link_addr nextFabricIP\<rparr>,
        ln_B := (ln_B l)\<lparr>le_IP := link_addr (addr_next nextFabricIP)\<rparr>\<rparr>,
      addr_next (addr_next nextFabricIP))"

definition hydrate_plain_link :: "p2p_link \<Rightarrow> addr \<times> kube \<Rightarrow> (p2p_link \<times> addr \<times> kube) result" where
  "hydrate_plain_link l s =
     (case s of (nextFabricIP, k) \<Rightarrow> let (l, nextFabricIP) = hydrate_link l nextFabricIP in Inr (l, nextFabricIP, k))"

text \<open>The ASN of the first switch of that name, or 0.\<close>

definition switch_asn :: "switch list \<Rightarrow> string \<Rightarrow> 32 word" where
  "switch_asn switches name = (case find (\<lambda>sw. ob_Name sw = name) switches of Some sw \<Rightarrow> sw_ASN sw | None \<Rightarrow> 0)"

definition hydrate_gateway_link ::
  "switch list \<Rightarrow> nat \<times> p2p_link \<Rightarrow> addr \<times> kube \<Rightarrow> (p2p_link \<times> addr \<times> kube) result" where
  "hydrate_gateway_link switches il s =
     (case il of (idx, l) \<Rightarrow> case s of (nextFabricIP, k) \<Rightarrow>
      let (l, nextFabricIP) = hydrate_link l nextFabricIP; gwName = DeviceName (ln_B l) in
      ebind (ewrap ''getting gateway %s: %w'' [gwName] (store_get (NamespaceDefault, gwName) (k_Gateways k))) (\<lambda>gw.
      ebind (LocalPortName (ln_B l)) (\<lambda>port.
      case map_of (gt_Interfaces gw) port of
        None \<Rightarrow> Inl (Errf ''gateway %s does not have interface %s'' [gwName, port])
      | Some iface \<Rightarrow>
          let iface = iface\<lparr>gi_IPs := [le_IP (ln_B l)], gi_MTU := MTU\<rparr>;
              gw = gw\<lparr>gt_Interfaces := map_put port iface (gt_Interfaces gw)\<rparr> in
          ebind (ewrap ''parsing gateway %s link %d switch IP %s: %w'' [gwName, itoa idx, le_IP (ln_A l)]
                   (parse_prefix (le_IP (ln_A l)))) (\<lambda>switchIP.
          let asn = switch_asn switches (DeviceName (ln_A l)) in
          if asn = 0
          then Inl (Errf ''switch %s not found or ASN not set'' [DeviceName (ln_A l)]) else
          let gw = gw\<lparr>gt_Neighbors := gt_Neighbors gw @
                [\<lparr>gn_Source = port, gn_IP = addr_string (pf_addr switchIP), gn_ASN = asn\<rparr>]\<rparr> in
          ebind (ewrap ''updating gateway %s: %w'' [ob_Name gw] (store_update gw (k_Gateways k))) (\<lambda>gws.
          Inr (l, nextFabricIP, k\<lparr>k_Gateways := gws\<rparr>))))))"

definition hydrate_conn :: "switch list \<Rightarrow> connection \<Rightarrow> addr \<times> kube \<Rightarrow> (addr \<times> kube) result" where
  "hydrate_conn switches conn s =
     (let update = (\<lambda>conn s. case s of (nextFabricIP, k) \<Rightarrow>
            ebind (ewrap ''updating connection %s: %w'' [ob_Name conn] (store_update conn (k_Connections k))) (\<lambda>conns.
            Inr (nextFabricIP, k\<lparr>k_Connections := conns\<rparr>))) in
      case cn_Fabric conn of
        Some links \<Rightarrow> ebind (emap_fold hydrate_plain_link links s) (\<lambda>(links, s). update (conn\<lparr>cn_Fabric := Some links\<rparr>) s)
      | None \<Rightarrow>
      case cn_Mesh conn of
        Some links \<Rightarrow> ebind (emap_fold hydrate_plain_link links s) (\<lambda>(links, s). update (conn\<lparr>cn_Mesh := Some links\<rparr>) s)
      | None \<Rightarrow>
      case cn_Gateway conn of
        Some links \<Rightarrow> ebind (emap_fold (hydrate_gateway_link switches) (enumerate 0 links) s)
                        (\<lambda>(links, s). update (conn\<lparr>cn_Gateway := Some links\<rparr>) s)
      | None \<Rightarrow> Inr s)"

section \<open>Gateways\<close>

definition MaxVTEPMACs :: nat where "MaxVTEPMACs = 254"

definition vtep_mac :: "8 word \<Rightarrow> string" where
  "vtep_mac b = ''CA:FE:BA:BE:01:'' @ [hex_char (unat b div 16), hex_char (unat b mod 16)]"

record gateway_alloc =
  ga_ProtoIP :: addr
  ga_VTEPIP :: addr
  ga_MACOctet :: "8 word"

definition hydrate_gateway :: "32 word \<Rightarrow> gateway \<Rightarrow> gateway_alloc \<times> gateway list \<Rightarrow> (gateway_alloc \<times> gateway list) result" where
  "hydrate_gateway asn gw s =
     (case s of (a, gws) \<Rightarrow>
      let gw = gw\<lparr>gt_ASN := asn,
                  gt_ProtocolIP := prefix_string (prefix_from (ga_ProtoIP a) 32),
                  gt_VTEPIP := prefix_string (prefix_from (ga_VTEPIP a) 32),
                  gt_VTEPMAC := vtep_mac (ga_MACOctet a),
                  gt_VTEPMTU := ServerFacingMTU\<rparr> in
      ebind (ewrap ''updating gateway %s: %w'' [ob_Name gw] (store_update gw gws)) (\<lambda>gws.
      Inr (\<lparr>ga_ProtoIP = addr_next (ga_ProtoIP a), ga_VTEPIP = addr_next (ga_VTEPIP a), ga_MACOctet = ga_MACOctet a + 1\<rparr>, gws)))"

section \<open>The whole hydration\<close>

definition update_switch :: "switch \<Rightarrow> switch list \<Rightarrow> switch list result" where
  "update_switch sw sws = ewrap ''updating switch %s: %w'' [ob_Name sw] (store_update sw sws)"

text \<open>The nodes: the configuration with their addresses and the next management address.\<close>

definition hydrate_config_nodes :: "prefix \<Rightarrow> prefix \<Rightarrow> addr \<Rightarrow> hhfab_config \<Rightarrow> hhfab_config \<times> addr" where
  "hydrate_config_nodes mgmtSubnet dummySubnet nextMgmtIP hc =
     (let controls = sort_key nd_Name (hc_Controls hc);
          (controls, nextMgmtIP, nextDummyIP) =
            hydrate_nodes (pf_bits mgmtSubnet) nextMgmtIP (pf_addr (prefix_masked dummySubnet)) controls;
          (nodes, nextMgmtIP, nextDummyIP) = hydrate_nodes (pf_bits mgmtSubnet) nextMgmtIP nextDummyIP (hc_Nodes hc)
      in (hc\<lparr>hc_Controls := controls, hc_Nodes := nodes\<rparr>, nextMgmtIP))"

definition hydrate :: "hhfab_config \<times> kube \<Rightarrow> (hhfab_config \<times> kube) result" where
  "hydrate st =
     (case st of (hc, k) \<Rightarrow>
      let c = Config (hc_Fab hc) in
      ebind (ewrap ''parsing management subnet: %w'' [] (prefix_parse (ManagementSubnet (Control c)))) (\<lambda>mgmtSubnet.
      ebind (ewrap ''parsing control VIP: %w'' [] (prefix_parse (VIP (Control c)))) (\<lambda>controlVIP.
      if pf_addr controlVIP \<noteq> addr_next (pf_addr (prefix_masked mgmtSubnet))
      then Inl (Errf ''control VIP %s is not the first IP of the management subnet %s''
             [prefix_string controlVIP, prefix_string mgmtSubnet]) else
      let nextMgmtIP = (addr_next ^^ 4) (pf_addr controlVIP) in
      ebind (ewrap ''parsing dummy subnet: %w'' [] (prefix_parse (DummySubnet (Control c)))) (\<lambda>dummySubnet.
      let (hc, nextMgmtIP) = hydrate_config_nodes mgmtSubnet dummySubnet nextMgmtIP hc in
      ebind (ewrap ''parsing VTEP subnet: %w'' [] (prefix_parse (VTEPSubnet (Fabric c)))) (\<lambda>vtepSubnet.
      ebind (ewrap ''parsing protocol subnet: %w'' [] (prefix_parse (ProtocolSubnet (Fabric c)))) (\<lambda>protocolSubnet.
      let switches = sort_key switch_sort_key (store_list (k_Switches k));
          alloc = \<lparr>sa_MgmtIP = nextMgmtIP, sa_ProtoIP = pf_addr (prefix_masked protocolSubnet),
                   sa_VTEPIP = pf_addr (prefix_masked vtepSubnet), sa_LeafASN = LeafASNStart (Fabric c),
                   sa_mclagPeer = []\<rparr> in
      ebind (emap_fold (hydrate_switch (pf_bits mgmtSubnet) (SpineASN (Fabric c))) switches alloc) (\<lambda>(switches, alloc).
      ebind (efold update_switch switches (k_Switches k)) (\<lambda>sws.
      let k = k\<lparr>k_Switches := sws\<rparr> in
      ebind (ewrap ''parsing fabric subnet: %w'' [] (prefix_parse (FabricSubnet (Fabric c)))) (\<lambda>fabricSubnet.
      let conns = sort_key ob_Name (store_list (k_Connections k)) in
      ebind (efold (hydrate_conn switches) conns (pf_addr (prefix_masked fabricSubnet), k)) (\<lambda>(nextFabricIP, k).
      let gateways = store_list (k_Gateways k) in
      if length gateways > MaxVTEPMACs
      then Inl (Errf ''too many gateways (%d) for our current VTEPMAC hydration scheme, maximum is %d''
             [itoa (length gateways), itoa MaxVTEPMACs]) else
      ebind (efold (hydrate_gateway (GwASN (Gateway c))) (sort_key ob_Name gateways)
               (\<lparr>ga_ProtoIP = sa_ProtoIP alloc, ga_VTEPIP = sa_VTEPIP alloc, ga_MACOctet = 1\<rparr>, k_Gateways k)) (\<lambda>(_, gws).
      Inr (hc, k\<lparr>k_Gateways := gws\<rparr>))))))))))))"

definition ensureHydrated :: "string \<Rightarrow> hhfab_config \<times> kube \<Rightarrow> (hhfab_config \<times> kube) result" where
  "ensureHydrated mode st =
     ebind (ewrap ''checking if hydrated: %w'' [] (getHydration (fst st) (snd st))) (\<lambda>h.
     if mode = HydrateModeNever then
       if h \<noteq> HydrationStatusFull
       then Inl (Errf ''wiring is not fully hydrated while hydration is disabled, cleanup and/or change hydration mode'' [])
       else Inr st
     else if mode = HydrateModeIfNotPresent \<or> mode = HydrateModeOverride then
       if mode = HydrateModeIfNotPresent \<and> h = HydrationStatusFull then Inr st
       else if mode = HydrateModeIfNotPresent \<and> h \<noteq> HydrationStatusNone
       then Inl (Errf ''wiring is already partially hydrated, cleanup or change hydration mode'' [])
       else
         ebind (ewrap ''hydrating: %w'' [] (hydrate st)) (\<lambda>st.
         ebind (ewrap ''checking status after hydration: %w'' [] (getHydration (fst st) (snd st))) (\<lambda>uh.
         if uh \<noteq> HydrationStatusFull
         then Inl (Errf ''wiring is not fully hydrated after hydration'' [])
         else Inr st))
     else Inl (Errf ''unknown hydration mode %q or invalid hydration status'' [mode]))"

end
