(* ===== verification/Alloc.thy ===== *)
theory Alloc
  imports Hydrate
begin

text \<open>
  What the loops of the hydration hand out: an address counter at \<open>n\<close> is \<open>v4_at n\<close>, which is no
  address once the 32-bit range is left, so a counter steps by one whatever its value, and what a
  loop over \<open>m\<close> elements hands out is the interval of length \<open>m\<close> above the counter.
\<close>

section \<open>Counters\<close>

definition v4_at :: "nat \<Rightarrow> addr" where
  "v4_at n = (if n < 2 ^ 32 then V4 (word_of_nat n) else NoAddr)"

lemma addr_next_v4_at [simp]: "addr_next (v4_at n) = v4_at (Suc n)"
proof (cases "n < 2 ^ 32")
  case True
  then have u: "unat (word_of_nat n :: 32 word) = n" by (simp add: unat_of_nat take_bit_nat_eq_self)
  show ?thesis
  proof (cases "Suc n < 2 ^ 32")
    case True
    then show ?thesis using u addr_next_v4 [of "word_of_nat n"] by (simp add: v4_at_def add.commute)
  next
    case False
    then have n: "n = 2 ^ 32 - 1" using \<open>n < 2 ^ 32\<close> by simp
    have "word_of_nat n + 1 = (0 :: 32 word)" unfolding n by simp
    then show ?thesis using False \<open>n < 2 ^ 32\<close> by (simp add: v4_at_def)
  qed
qed (simp add: v4_at_def)

lemma funpow_v4_at [simp]: "(addr_next ^^ k) (v4_at n) = v4_at (n + k)"
  by (induction k) simp_all

lemma v4_at_unat [simp]: "v4_at (unat w) = V4 w"
  using unsigned_less [of w, where ?'a = nat] by (simp add: v4_at_def)

lemma v4_at_inj:
  assumes "m < 2 ^ 32"
  shows "v4_at m = v4_at n \<longleftrightarrow> m = n"
proof
  assume eq: "v4_at m = v4_at n"
  with assms have n: "n < 2 ^ 32" by (auto simp: v4_at_def split: if_splits)
  with eq assms have "(word_of_nat m :: 32 word) = word_of_nat n" by (simp add: v4_at_def)
  then have "unat (word_of_nat m :: 32 word) = unat (word_of_nat n :: 32 word)" by simp
  with n assms show "m = n" by (simp add: unat_of_nat take_bit_nat_eq_self)
qed simp

lemma inj_on_v4_at: "inj_on v4_at {..< 2 ^ 32}"
  by (auto simp: inj_on_def v4_at_inj)

lemma distinct_v4_at: "distinct ns \<Longrightarrow> list_all (\<lambda>n. n < 2 ^ 32) ns \<Longrightarrow> distinct (map v4_at ns)"
  using inj_on_subset [OF inj_on_v4_at] by (auto simp: distinct_map list_all_iff)

text \<open>What the printed prefix of a counter parses to.\<close>

definition host :: "nat \<Rightarrow> nat \<Rightarrow> string" where
  "host bits n = prefix_string (prefix_from (v4_at n) (int bits))"

lemma parse_host:
  assumes "n < 2 ^ 32" "bits \<le> 32"
  shows "parse_prefix (host bits n) = Inr (v4_prefix (word_of_nat n) bits)"
    and "prefix_parse (host bits n) = Inr (v4_prefix (word_of_nat n) bits)"
  using assms by (simp_all add: host_def v4_at_def)

lemma ip_of_host [simp]: "n < 2 ^ 32 \<Longrightarrow> bits \<le> 32 \<Longrightarrow> ip_of (host bits n) = v4_at n"
  by (simp add: ip_of_parse [OF parse_host(1)] v4_at_def)

text \<open>A subnet of the configuration: its base and its size; the addresses of the base up to the size lie in it.\<close>

definition net_base :: "prefix \<Rightarrow> nat" where
  "net_base p = (case pf_addr (prefix_masked p) of V4 w \<Rightarrow> unat w | _ \<Rightarrow> 0)"

definition net_size :: "prefix \<Rightarrow> nat" where
  "net_size p = 2 ^ (32 - nat (pf_bits p))"

lemma net_v4 [simp]:
  "net_base (v4_prefix w n) = unat (v4_base w n)" "net_size (v4_prefix w n) = 2 ^ (32 - n)"
  by (simp_all add: net_base_def net_size_def)

lemma net_addr:
  assumes "prefix_parse s = Inr p"
  shows "pf_addr (prefix_masked p) = v4_at (net_base p)"
  using assms by (elim prefix_parse_v4) simp

lemma net_contains:
  assumes "prefix_parse s = Inr p" "net_base p \<le> n" "n < net_base p + net_size p"
  shows "n < 2 ^ 32" "prefix_contains p (V4 (word_of_nat n))"
proof -
  obtain w b where p: "p = v4_prefix w b" "b \<le> 32" using assms(1) by (rule prefix_parse_v4)
  obtain k where k: "n = unat (v4_base w b) + k" "k < 2 ^ (32 - b)"
    using assms(2,3) p(1) by (metis le_Suc_ex nat_add_left_cancel_less net_v4)
  show "n < 2 ^ 32" using contains_v4_offset(1) [OF p(2) k(2)] k(1) by simp
  show "prefix_contains p (V4 (word_of_nat n))"
    using contains_v4_offset(2) [OF p(2) k(2)] by (simp add: p(1) k(1))
qed

lemma host_ok_host:
  assumes "prefix_parse s = Inr p" "net_base p \<le> n" "n < net_base p + net_size p" "bits \<le> 32"
  shows "host_ok p (int bits) (parse_prefix (host bits n))" "host_ok p (int bits) (prefix_parse (host bits n))"
  using net_contains [OF assms(1-3)] assms(4) by (simp_all add: host_ok_def parse_host)

text \<open>The management addresses: below the start of the DHCP range, above the base.\<close>

lemma addr_compare_v4: "addr_compare (V4 a) (V4 b) < 0 \<longleftrightarrow> unat a < unat b"
  by (simp add: word_less_nat_alt)

lemma mgmt_ok_host:
  assumes "prefix_parse s = Inr (mn_subnet mn)" "mn_dhcp_start mn = V4 d" "prefix_contains (mn_subnet mn) (V4 d)"
    and "net_base (mn_subnet mn) \<le> n" "n < unat d" "bits \<le> 32"
  shows "n < 2 ^ 32" "mgmt_ok mn (parse_prefix (host bits n))" "mgmt_ok mn (prefix_parse (host bits n))"
proof -
  obtain w b where p: "mn_subnet mn = v4_prefix w b" "b \<le> 32" using assms(1) by (rule prefix_parse_v4)
  have "unat w div 2 ^ (32 - b) = unat d div 2 ^ (32 - b)"
    using assms(3) by (simp add: p(1) contains_v4_iff)
  moreover have "unat d mod 2 ^ (32 - b) < 2 ^ (32 - b)" by simp
  then have "unat d < unat d div 2 ^ (32 - b) * 2 ^ (32 - b) + 2 ^ (32 - b)"
    using div_mult_mod_eq [of "unat d" "2 ^ (32 - b)"] by linarith
  ultimately have "unat d < net_base (mn_subnet mn) + net_size (mn_subnet mn)"
    by (simp only: p(1) net_v4 unat_v4_base)
  then have n: "n < net_base (mn_subnet mn) + net_size (mn_subnet mn)" using assms(5) by simp
  note c = net_contains [OF assms(1,4) n]
  show "n < 2 ^ 32" by (rule c)
  then have "unat (word_of_nat n :: 32 word) = n" by (simp add: unat_of_nat take_bit_nat_eq_self)
  with c assms(2,5,6) show "mgmt_ok mn (parse_prefix (host bits n))" "mgmt_ok mn (prefix_parse (host bits n))"
    by (simp_all add: mgmt_ok_def parse_host addr_compare_v4 del: addr_compare.simps)
qed

section \<open>Nodes\<close>

lemma hydrate_nodes_ips:
  "hydrate_nodes bits (v4_at m) (v4_at d) ns = (ns', m', d') \<Longrightarrow>
   m' = v4_at (m + length ns) \<and> d' = v4_at (d + 2 * length ns) \<and>
   map nd_MgmtIP ns' = map (\<lambda>n. prefix_string (prefix_from (v4_at n) bits)) [m..<m + length ns] \<and>
   map nd_DummyIP ns' = map (\<lambda>i. host 31 (d + 2 * i)) [0..<length ns] \<and>
   map nd_Name ns' = map nd_Name ns"
proof (induction ns arbitrary: m d ns' m' d')
  case (Cons n ns)
  obtain r m1 d1 where r: "hydrate_nodes bits (v4_at (Suc m)) (v4_at (Suc (Suc d))) ns = (r, m1, d1)"
    by (metis prod_cases3)
  from Cons.IH [OF r] Cons.prems r show ?case
    by (auto simp: Let_def map_upt_Suc upt_conv_Cons [of m] host_def simp del: upt_Suc)
qed simp

section \<open>Switches\<close>

text \<open>Progress of a loop that returns its elements, with what it consumed and returned so far.\<close>

lemma emap_fold_progress:
  assumes "P [] [] s"
    and "\<And>us x zs vs t. xs = us @ x # zs \<Longrightarrow> P us vs t \<Longrightarrow> \<exists>y t'. f x t = Inr (y, t') \<and> P (us @ [x]) (vs @ [y]) t'"
  shows "\<exists>ys s'. emap_fold f xs s = Inr (ys, s') \<and> P xs ys s'"
proof -
  have "\<exists>ys s'. emap_fold f zs t = Inr (ys, s') \<and> P (us @ zs) (vs @ ys) s'" if "xs = us @ zs" "P us vs t" for us vs zs t
    using that
  proof (induction zs arbitrary: us vs t)
    case (Cons z zs)
    from assms(2) [OF Cons.prems] obtain y t' where y: "f z t = Inr (y, t')" "P (us @ [z]) (vs @ [y]) t'"
      by blast
    with Cons.IH [of "us @ [z]" "vs @ [y]" t'] Cons.prems(1) obtain ys s'
      where "emap_fold f zs t' = Inr (ys, s')" "P (us @ z # zs) (vs @ y # ys) s'" by auto
    with y(1) show ?case by auto
  qed simp
  from this [of "[]" xs "[]" s] assms(1) show ?thesis by simp
qed

definition switch_id :: "switch \<Rightarrow> (string \<times> string) \<times> nat \<times> string \<times> string \<times> string" where
  "switch_id sw = (ob_key sw, ob_RV sw, sw_Role sw, sw_RedGroup sw, sw_RedType sw)"

text \<open>What the wiring has to satisfy: MCLAG is for leaves, and a spine has no VTEP address.\<close>

definition switch_plannable :: "switch \<Rightarrow> bool" where
  "switch_plannable sw \<longleftrightarrow> sw_Role sw \<in> set SwitchRoles \<and>
     (sw_RedType sw = RedundancyTypeMCLAG \<longrightarrow> IsLeaf (sw_Role sw)) \<and> (IsSpine (sw_Role sw) \<longrightarrow> sw_VTEPIP sw = '''')"

text \<open>
  The leaves of a run with \<open>j\<close> numbers taken: every leaf holds one of them, two leaves the same one
  exactly when they are of one group.
\<close>

definition leaf_run_ok :: "nat \<Rightarrow> 32 word \<Rightarrow> nat \<Rightarrow> switch list \<Rightarrow> bool" where
  "leaf_run_ok v asn j vs \<longleftrightarrow>
     (\<forall>y\<in>set (leaves vs). \<exists>i<j. sw_ASN y = asn + word_of_nat i \<and> sw_VTEPIP y = host 32 (v + i)) \<and>
     (\<forall>y\<in>set (leaves vs). \<forall>z\<in>set (leaves vs). y \<noteq> z \<longrightarrow> (same_group y z \<longleftrightarrow> sw_ASN y = sw_ASN z))"

lemma word_add_inj: "i < 2 ^ 32 \<Longrightarrow> j < 2 ^ 32 \<Longrightarrow> a + word_of_nat i = a + (word_of_nat j :: 32 word) \<longleftrightarrow> i = j"
proof -
  assume "i < 2 ^ 32" "j < 2 ^ 32"
  then have "unat (word_of_nat i :: 32 word) = i" "unat (word_of_nat j :: 32 word) = j"
    by (simp_all add: unat_of_nat take_bit_nat_eq_self)
  then show ?thesis by (metis add_left_cancel)
qed

lemma leaf_run_ok_new:
  assumes "leaf_run_ok v asn j vs" "j < 2 ^ 32" "IsLeaf (sw_Role y)"
    and "sw_ASN y = asn + word_of_nat j" "sw_VTEPIP y = host 32 (v + j)"
    and "\<And>z. z \<in> set (leaves vs) \<Longrightarrow> \<not> same_group y z"
  shows "leaf_run_ok v asn (Suc j) (vs @ [y])"
proof -
  have new: "sw_ASN y \<noteq> sw_ASN z \<and> \<not> same_group y z \<and> \<not> same_group z y" if "z \<in> set (leaves vs)" for z
  proof -
    from assms(1) that obtain i where "i < j" "sw_ASN z = asn + word_of_nat i"
      by (auto simp: leaf_run_ok_def)
    with assms(2,4) word_add_inj [of j i asn] have "sw_ASN y \<noteq> sw_ASN z" by simp
    then show ?thesis using assms(6) [OF that] same_group_sym by blast
  qed
  then have "\<forall>z\<in>set (leaves vs). sw_ASN z \<noteq> sw_ASN y" by force
  with new assms show ?thesis
    unfolding leaf_run_ok_def leaves_snoc by (auto simp: less_Suc_eq)
qed

lemma leaf_run_ok_peer:
  assumes "leaf_run_ok v asn j vs" "p \<in> set (leaves vs)" "same_group y p"
    and "sw_ASN y = sw_ASN p" "sw_VTEPIP y = sw_VTEPIP p"
  shows "leaf_run_ok v asn j (vs @ [y])"
proof -
  have pair: "same_group y z \<longleftrightarrow> sw_ASN y = sw_ASN z" if "z \<in> set (leaves vs)" for z
  proof (cases "z = p")
    case False
    then have "same_group p z \<longleftrightarrow> sw_ASN p = sw_ASN z" using assms(1,2) that by (auto simp: leaf_run_ok_def)
    moreover have "same_group y z \<longleftrightarrow> same_group p z" using assms(3) by (auto simp: same_group_def)
    ultimately show ?thesis using assms(4) by simp
  qed (use assms in simp)
  then have "same_group z y \<longleftrightarrow> sw_ASN z = sw_ASN y" if "z \<in> set (leaves vs)" for z
    using that same_group_sym by metis
  with pair assms(1,2,4,5) show ?thesis unfolding leaf_run_ok_def leaves_snoc by auto
qed

lemma leaf_run_ok_spine:
  "leaf_run_ok v asn j vs \<Longrightarrow> \<not> IsLeaf (sw_Role y) \<Longrightarrow> leaf_run_ok v asn j (vs @ [y])"
  unfolding leaf_run_ok_def leaves_snoc by simp

definition switches_run ::
  "int \<Rightarrow> 32 word \<Rightarrow> nat \<Rightarrow> nat \<Rightarrow> nat \<Rightarrow> 32 word \<Rightarrow> switch list \<Rightarrow> switch list \<Rightarrow> switch_alloc \<Rightarrow> bool" where
  "switches_run bits sp m p v asn us vs a \<longleftrightarrow>
     map switch_id vs = map switch_id us \<and>
     sa_MgmtIP a = v4_at (m + length us) \<and> sa_ProtoIP a = v4_at (p + length us) \<and>
     map sw_IP vs = map (\<lambda>n. prefix_string (prefix_from (v4_at n) bits)) [m..<m + length us] \<and>
     map sw_ProtocolIP vs = map (host 32) [p..<p + length us] \<and>
     (\<forall>y\<in>set vs. IsSpine (sw_Role y) \<longrightarrow> sw_ASN y = sp \<and> sw_VTEPIP y = '''') \<and>
     (\<forall>g. map_of (sa_mclagPeer a) g = find (\<lambda>sw. is_mclag sw \<and> sw_RedGroup sw = g) vs) \<and>
     (\<exists>j\<le>length (leaves us). sa_VTEPIP a = v4_at (v + j) \<and> sa_LeafASN a = asn + word_of_nat j \<and> leaf_run_ok v asn j vs)"

definition numbered :: "int \<Rightarrow> switch_alloc \<Rightarrow> switch \<Rightarrow> switch" where
  "numbered bits a sw = sw\<lparr>sw_IP := prefix_string (prefix_from (sa_MgmtIP a) bits),
     sw_ProtocolIP := prefix_string (prefix_from (sa_ProtoIP a) 32)\<rparr>"

definition counted :: "switch_alloc \<Rightarrow> switch_alloc" where
  "counted a = a\<lparr>sa_MgmtIP := addr_next (sa_MgmtIP a), sa_ProtoIP := addr_next (sa_ProtoIP a)\<rparr>"

lemma numbered_sel [simp]:
  "switch_id (numbered bits a sw) = switch_id sw" "sw_Role (numbered bits a sw) = sw_Role sw"
  "sw_RedType (numbered bits a sw) = sw_RedType sw" "sw_RedGroup (numbered bits a sw) = sw_RedGroup sw"
  "sw_VTEPIP (numbered bits a sw) = sw_VTEPIP sw"
  "is_mclag (numbered bits a sw) = is_mclag sw"
  by (simp_all add: numbered_def switch_id_def is_mclag_def ob_key_def)

lemma counted_sel [simp]:
  "sa_MgmtIP (counted a) = addr_next (sa_MgmtIP a)" "sa_ProtoIP (counted a) = addr_next (sa_ProtoIP a)"
  "sa_VTEPIP (counted a) = sa_VTEPIP a" "sa_LeafASN (counted a) = sa_LeafASN a"
  "sa_mclagPeer (counted a) = sa_mclagPeer a"
  by (simp_all add: counted_def)

lemma plannable_role: "switch_plannable x \<Longrightarrow> sw_Role x \<noteq> '''' \<and> sw_Role x \<in> set SwitchRoles"
  by (auto simp: switch_plannable_def SwitchRoles_def SwitchRoleSpine_def SwitchRoleServerLeaf_def
      SwitchRoleBorderLeaf_def SwitchRoleMixedLeaf_def)

text \<open>The three passes: over a spine, a leaf whose group has a number, and a leaf that takes a new one.\<close>

lemma hydrate_spine:
  assumes "switch_plannable x" "IsSpine (sw_Role x)"
  shows "hydrate_switch bits sp x a = Inr ((numbered bits a x)\<lparr>sw_ASN := sp\<rparr>, counted a)"
proof -
  have "sw_RedType x \<noteq> RedundancyTypeMCLAG" "\<not> IsLeaf (sw_Role x)"
    using assms spine_not_leaf by (auto simp: switch_plannable_def)
  with plannable_role [OF assms(1)] assms(2) show ?thesis
    by (simp add: hydrate_switch_def Let_def numbered_def counted_def)
qed

lemma hydrate_leaf_peer:
  assumes "switch_plannable x" "is_mclag x" "map_of (sa_mclagPeer a) (sw_RedGroup x) = Some peer"
  shows "hydrate_switch bits sp x a = Inr ((numbered bits a x)\<lparr>sw_ASN := sw_ASN peer, sw_VTEPIP := sw_VTEPIP peer\<rparr>, counted a)"
proof -
  have "\<not> IsSpine (sw_Role x)" using assms(2) spine_not_leaf by (auto simp: is_mclag_def)
  with plannable_role [OF assms(1)] assms(2,3) show ?thesis
    by (simp add: hydrate_switch_def Let_def numbered_def counted_def is_mclag_def)
qed

definition new_leaf :: "int \<Rightarrow> switch_alloc \<Rightarrow> switch \<Rightarrow> switch" where
  "new_leaf bits a x = (numbered bits a x)\<lparr>sw_ASN := sa_LeafASN a, sw_VTEPIP := prefix_string (prefix_from (sa_VTEPIP a) 32)\<rparr>"

lemma new_leaf_sel [simp]:
  "switch_id (new_leaf bits a sw) = switch_id sw" "sw_Role (new_leaf bits a sw) = sw_Role sw"
  "is_mclag (new_leaf bits a sw) = is_mclag sw" "sw_RedGroup (new_leaf bits a sw) = sw_RedGroup sw"
  "sw_ASN (new_leaf bits a sw) = sa_LeafASN a" "sw_VTEPIP (new_leaf bits a sw) = prefix_string (prefix_from (sa_VTEPIP a) 32)"
  by (simp_all add: new_leaf_def numbered_def switch_id_def is_mclag_def ob_key_def)

lemma hydrate_leaf_new:
  assumes "switch_plannable x" "IsLeaf (sw_Role x)" "is_mclag x \<Longrightarrow> map_of (sa_mclagPeer a) (sw_RedGroup x) = None"
  shows "\<exists>a'. hydrate_switch bits sp x a = Inr (new_leaf bits a x, a') \<and>
     sa_MgmtIP a' = addr_next (sa_MgmtIP a) \<and> sa_ProtoIP a' = addr_next (sa_ProtoIP a) \<and>
     sa_VTEPIP a' = addr_next (sa_VTEPIP a) \<and> sa_LeafASN a' = sa_LeafASN a + 1 \<and>
     map_of (sa_mclagPeer a') = (if is_mclag x then (map_of (sa_mclagPeer a))(sw_RedGroup x \<mapsto> new_leaf bits a x)
                                 else map_of (sa_mclagPeer a))"
proof -
  have "\<not> IsSpine (sw_Role x)" using assms(2) spine_not_leaf by blast
  with plannable_role [OF assms(1)] assms(2,3) show ?thesis
    by (cases "is_mclag x")
      (auto simp: hydrate_switch_def Let_def numbered_def new_leaf_def counted_def is_mclag_def)
qed

lemma switches_run_snoc:
  assumes "switches_run bits sp m p v asn us vs a"
    and "switch_id y = switch_id x" "sw_IP y = prefix_string (prefix_from (sa_MgmtIP a) bits)"
    and "sw_ProtocolIP y = prefix_string (prefix_from (sa_ProtoIP a) 32)"
    and "sa_MgmtIP a' = addr_next (sa_MgmtIP a)" "sa_ProtoIP a' = addr_next (sa_ProtoIP a)"
    and "IsSpine (sw_Role y) \<Longrightarrow> sw_ASN y = sp \<and> sw_VTEPIP y = ''''"
    and "\<And>g. map_of (sa_mclagPeer a') g = find (\<lambda>sw. is_mclag sw \<and> sw_RedGroup sw = g) (vs @ [y])"
    and "\<exists>j\<le>length (leaves (us @ [x])). sa_VTEPIP a' = v4_at (v + j) \<and> sa_LeafASN a' = asn + word_of_nat j \<and>
           leaf_run_ok v asn j (vs @ [y])"
  shows "switches_run bits sp m p v asn (us @ [x]) (vs @ [y]) a'"
  using assms unfolding switches_run_def by (auto simp: host_def)

lemma leaves_len: "length (leaves (us @ [x])) = length (leaves us) + (if IsLeaf (sw_Role x) then 1 else 0)"
  by (simp add: leaves_def)

lemma hydrate_switch_run:
  assumes run: "switches_run bits sp m p v asn us vs a" and x: "switch_plannable x" and len: "length us < 2 ^ 32"
  shows "\<exists>y a'. hydrate_switch bits sp x a = Inr (y, a') \<and> switches_run bits sp m p v asn (us @ [x]) (vs @ [y]) a'"
proof -
  from run obtain j where j: "j \<le> length (leaves us)" "sa_VTEPIP a = v4_at (v + j)"
    "sa_LeafASN a = asn + word_of_nat j" "leaf_run_ok v asn j vs"
    unfolding switches_run_def by blast
  have peers: "map_of (sa_mclagPeer a) g = find (\<lambda>sw. is_mclag sw \<and> sw_RedGroup sw = g) vs" for g
    using run by (simp add: switches_run_def)
  have "length (leaves us) \<le> length us" by (simp add: leaves_def)
  then have jlen: "j < 2 ^ 32" using j(1) len by linarith
  consider (spine) "IsSpine (sw_Role x)"
    | (peer) peer where "is_mclag x" "map_of (sa_mclagPeer a) (sw_RedGroup x) = Some peer"
    | (new) "IsLeaf (sw_Role x)" "is_mclag x \<Longrightarrow> map_of (sa_mclagPeer a) (sw_RedGroup x) = None"
    using x role_cases by (fastforce simp: switch_plannable_def)
  then show ?thesis
  proof cases
    case spine
    let ?y = "(numbered bits a x)\<lparr>sw_ASN := sp\<rparr>"
    have nl: "\<not> IsLeaf (sw_Role x)" "\<not> is_mclag ?y"
      using spine spine_not_leaf by (auto simp: is_mclag_def)
    have "switches_run bits sp m p v asn (us @ [x]) (vs @ [?y]) (counted a)"
    proof (rule switches_run_snoc [OF run])
      show "\<exists>j\<le>length (leaves (us @ [x])). sa_VTEPIP (counted a) = v4_at (v + j) \<and>
          sa_LeafASN (counted a) = asn + word_of_nat j \<and> leaf_run_ok v asn j (vs @ [?y])"
        using j nl by (auto simp: leaves_len intro!: leaf_run_ok_spine)
    qed (use x spine nl peers in \<open>auto simp: numbered_def switch_id_def ob_key_def find_append switch_plannable_def
        split: option.splits\<close>)
    with hydrate_spine [OF x spine] show ?thesis by blast
  next
    case peer
    let ?y = "(numbered bits a x)\<lparr>sw_ASN := sw_ASN peer, sw_VTEPIP := sw_VTEPIP peer\<rparr>"
    have y: "is_mclag ?y" "sw_RedGroup ?y = sw_RedGroup x" using peer(1) by (simp_all add: is_mclag_def)
    have p: "peer \<in> set (leaves vs)" "same_group ?y peer"
      using peer y by (auto simp: peers find_Some_iff same_group_def leaves_def is_mclag_leaf)
    have "switches_run bits sp m p v asn (us @ [x]) (vs @ [?y]) (counted a)"
    proof (rule switches_run_snoc [OF run])
      show "map_of (sa_mclagPeer (counted a)) g = find (\<lambda>sw. is_mclag sw \<and> sw_RedGroup sw = g) (vs @ [?y])" for g
        using peer(2) y peers by (auto simp: find_append split: option.splits)
      show "\<exists>j\<le>length (leaves (us @ [x])). sa_VTEPIP (counted a) = v4_at (v + j) \<and>
          sa_LeafASN (counted a) = asn + word_of_nat j \<and> leaf_run_ok v asn j (vs @ [?y])"
        using j leaf_run_ok_peer [OF j(4) p] by (intro exI [of _ j]) (simp add: leaves_len)
      show "IsSpine (sw_Role ?y) \<Longrightarrow> sw_ASN ?y = sp \<and> sw_VTEPIP ?y = ''''"
        using peer(1) spine_not_leaf by (auto simp: is_mclag_def)
    qed (auto simp: numbered_def switch_id_def ob_key_def)
    with hydrate_leaf_peer [OF x peer] show ?thesis by blast
  next
    case new
    let ?y = "new_leaf bits a x"
    from hydrate_leaf_new [OF x new] obtain a' where a': "hydrate_switch bits sp x a = Inr (?y, a')"
      "sa_MgmtIP a' = addr_next (sa_MgmtIP a)" "sa_ProtoIP a' = addr_next (sa_ProtoIP a)"
      "sa_VTEPIP a' = addr_next (sa_VTEPIP a)" "sa_LeafASN a' = sa_LeafASN a + 1"
      "map_of (sa_mclagPeer a') = (if is_mclag x then (map_of (sa_mclagPeer a))(sw_RedGroup x \<mapsto> ?y)
                                   else map_of (sa_mclagPeer a))" by blast
    have "switches_run bits sp m p v asn (us @ [x]) (vs @ [?y]) a'"
    proof (rule switches_run_snoc [OF run])
      show "map_of (sa_mclagPeer a') g = find (\<lambda>sw. is_mclag sw \<and> sw_RedGroup sw = g) (vs @ [?y])" for g
        using a'(6) new(2) peers by (auto simp: find_append split: option.splits)
      have "\<not> same_group ?y z" if "z \<in> set (leaves vs)" for z
        using that new(2) peers by (auto simp: same_group_def find_None_iff leaves_def)
      then have "leaf_run_ok v asn (Suc j) (vs @ [?y])"
        using j new(1) by (intro leaf_run_ok_new [OF j(4) jlen]) (auto simp: host_def)
      then show "\<exists>j\<le>length (leaves (us @ [x])). sa_VTEPIP a' = v4_at (v + j) \<and>
          sa_LeafASN a' = asn + word_of_nat j \<and> leaf_run_ok v asn j (vs @ [?y])"
        using j a'(4,5) new(1) by (intro exI [of _ "Suc j"]) (auto simp: leaves_len)
      show "IsSpine (sw_Role ?y) \<Longrightarrow> sw_ASN ?y = sp \<and> sw_VTEPIP ?y = ''''"
        using new(1) spine_not_leaf by auto
    qed (use a' in \<open>auto simp: numbered_def new_leaf_def switch_id_def ob_key_def\<close>)
    with a'(1) show ?thesis by blast
  qed
qed

lemma hydrate_switches_run:
  assumes "list_all switch_plannable sws" "length sws \<le> 2 ^ 32"
  shows "\<exists>sws' a'. emap_fold (hydrate_switch bits sp) sws
           \<lparr>sa_MgmtIP = v4_at m, sa_ProtoIP = v4_at p, sa_VTEPIP = v4_at v, sa_LeafASN = asn, sa_mclagPeer = []\<rparr> =
         Inr (sws', a') \<and> switches_run bits sp m p v asn sws sws' a'"
proof (rule emap_fold_progress [where P = "switches_run bits sp m p v asn"])
  show "switches_run bits sp m p v asn [] []
      \<lparr>sa_MgmtIP = v4_at m, sa_ProtoIP = v4_at p, sa_VTEPIP = v4_at v, sa_LeafASN = asn, sa_mclagPeer = []\<rparr>"
    by (simp add: switches_run_def leaf_run_ok_def leaves_def)
next
  fix us x zs vs t
  assume "sws = us @ x # zs" "switches_run bits sp m p v asn us vs t"
  with assms show "\<exists>y t'. hydrate_switch bits sp x t = Inr (y, t') \<and> switches_run bits sp m p v asn (us @ [x]) (vs @ [y]) t'"
    by (intro hydrate_switch_run) auto
qed

end
