(* ===== verification/AllocLinks.thy ===== *)
theory AllocLinks
  imports Alloc
begin

text \<open>
  The loops of the hydration over the links and the gateways: the addresses they hand out, and that
  every update of the client they make is accepted.
\<close>

section \<open>Links\<close>

lemma itoa_31: "itoa 31 = ''31''"
  by code_simp

lemma link_addr_host: "n < 2 ^ 32 \<Longrightarrow> link_addr (v4_at n) = host 31 n"
  using prefix_from_v4 [of 31 "word_of_nat n"] by (simp add: link_addr_def host_def v4_at_def prefix_string_v4 itoa_31)

text \<open>The links of a connection that starts at the counter \<open>f\<close>.\<close>

definition numbered_link :: "nat \<Rightarrow> p2p_link \<Rightarrow> p2p_link" where
  "numbered_link f l = l\<lparr>ln_A := (ln_A l)\<lparr>le_IP := link_addr (v4_at f)\<rparr>,
     ln_B := (ln_B l)\<lparr>le_IP := link_addr (v4_at (Suc f))\<rparr>\<rparr>"

fun numbered_links :: "nat \<Rightarrow> p2p_link list \<Rightarrow> p2p_link list" where
  "numbered_links f [] = []"
| "numbered_links f (l # ls) = numbered_link f l # numbered_links (f + 2) ls"

lemma hydrate_link_numbered: "hydrate_link l (v4_at f) = (numbered_link f l, v4_at (f + 2))"
  by (simp add: hydrate_link_def numbered_link_def)

lemma plain_links_run:
  "emap_fold hydrate_plain_link ls (v4_at f, k) = Inr (numbered_links f ls, v4_at (f + 2 * length ls), k)"
  by (induction ls arbitrary: f) (simp_all add: hydrate_plain_link_def hydrate_link_numbered)

lemma numbered_links_ips:
  "f + 2 * length ls \<le> 2 ^ 32 \<Longrightarrow>
   concat (map link_ips (numbered_links f ls)) = map v4_at [f..<f + 2 * length ls]"
proof (induction ls arbitrary: f)
  case (Cons l ls)
  have "[f..<f + 2 * length (l # ls)] = f # Suc f # [f + 2..<f + 2 + 2 * length ls]"
    by (simp add: upt_conv_Cons del: upt_Suc)
  moreover have "link_ips (numbered_link f l) = [v4_at f, v4_at (Suc f)]"
    using Cons.prems by (simp add: link_ips_def numbered_link_def link_addr_host)
  ultimately show ?case using Cons by simp
qed simp

text \<open>Two neighbouring addresses from an even one on share their /31.\<close>

lemma numbered_link_ok:
  assumes "prefix_parse s = Inr p" "net_base p \<le> f" "Suc f < net_base p + net_size p" "even f"
  shows "link_ok p (numbered_link f l)"
proof -
  have f: "f < 2 ^ 32" "Suc f < 2 ^ 32" using net_contains(1) [OF assms(1), of f] net_contains(1) [OF assms(1), of "Suc f"] assms(2,3)
    by auto
  have u: "unat (word_of_nat n :: 32 word) = n" if "n < 2 ^ 32" for n
    using that by (simp add: unat_of_nat take_bit_nat_eq_self)
  have "v4_base (word_of_nat f) 31 = v4_base (word_of_nat (Suc f)) 31"
    unfolding v4_base_eq_iff using f assms(4) by (simp add: u del: of_nat_Suc)
  moreover have "host_ok p (int 31) (parse_prefix (host 31 f))" "host_ok p (int 31) (parse_prefix (host 31 (Suc f)))"
    using assms by (intro host_ok_host [OF assms(1)]; simp)+
  ultimately show ?thesis
    using f by (simp add: link_ok_def numbered_link_def link_addr_host parse_host del: of_nat_Suc)
qed

lemma numbered_links_ok:
  "prefix_parse s = Inr p \<Longrightarrow> net_base p \<le> f \<Longrightarrow> f + 2 * length ls \<le> net_base p + net_size p \<Longrightarrow> even f \<Longrightarrow>
   list_all (link_ok p) (numbered_links f ls)"
  by (induction ls arbitrary: f) (auto intro!: numbered_link_ok)

section \<open>Gateway links\<close>

text \<open>What the links of a gateway connection need: the gateway, its interface, and the switch.\<close>

definition has_iface :: "gateway list \<Rightarrow> string \<Rightarrow> string \<Rightarrow> bool" where
  "has_iface gws name port \<longleftrightarrow>
     (\<exists>g\<in>set gws. ob_key g = (NamespaceDefault, name) \<and> map_of (gt_Interfaces g) port \<noteq> None)"

definition gateway_link_plannable :: "switch list \<Rightarrow> gateway list \<Rightarrow> p2p_link \<Rightarrow> bool" where
  "gateway_link_plannable sws gws l \<longleftrightarrow>
     (case LocalPortName (ln_B l) of Inl _ \<Rightarrow> False | Inr port \<Rightarrow> has_iface gws (DeviceName (ln_B l)) port) \<and>
     switch_asn sws (DeviceName (ln_A l)) \<noteq> 0"

text \<open>The gateways while the links are numbered: the same ones, none of their interfaces lost.\<close>

definition gateways_grow :: "gateway list \<Rightarrow> gateway list \<Rightarrow> bool" where
  "gateways_grow gws gws' \<longleftrightarrow> store_wf gws' \<and> length gws' = length gws \<and>
     (\<forall>name port. has_iface gws name port \<longrightarrow> has_iface gws' name port)"

lemma gateways_grow_trans: "gateways_grow a b \<Longrightarrow> gateways_grow b c \<Longrightarrow> gateways_grow a c"
  by (simp add: gateways_grow_def)

lemma port_name_ip [simp]:
  "DeviceName (e\<lparr>le_IP := ip\<rparr>) = DeviceName e" "LocalPortName (e\<lparr>le_IP := ip\<rparr>) = LocalPortName e"
  by (simp_all add: DeviceName_def LocalPortName_def)

lemma update_gateway_grow:
  assumes "store_wf gws" "g \<in> set gws" "ob_key g' = ob_key g" "ob_RV g' = ob_RV g"
    and "dom (map_of (gt_Interfaces g)) \<subseteq> dom (map_of (gt_Interfaces g'))"
  shows "\<exists>gws'. store_update g' gws = Inr gws' \<and> gateways_grow gws gws'"
proof -
  have "find (\<lambda>z. ob_key z = ob_key g') gws = Some g"
    using assms by (simp add: store_wf_def find_key)
  then have u: "store_update g' gws = Inr (map (\<lambda>y. if ob_key y = ob_key g' then bump g' else y) gws)"
    using assms(4) by (simp add: store_update_def)
  have "has_iface (map (\<lambda>y. if ob_key y = ob_key g' then bump g' else y) gws) name port"
    if "has_iface gws name port" for name port
  proof -
    from that obtain h where h: "h \<in> set gws" "ob_key h = (NamespaceDefault, name)"
      "map_of (gt_Interfaces h) port \<noteq> None" by (auto simp: has_iface_def)
    show ?thesis
    proof (cases "ob_key h = ob_key g'")
      case True
      then have "h = g" using assms(1-3) h(1) by (metis store_wf_def distinct_map inj_onD)
      then have "map_of (gt_Interfaces (bump g')) port \<noteq> None" using h(3) assms(5) by (auto simp: bump_def)
      moreover have "bump g' \<in> set (map (\<lambda>y. if ob_key y = ob_key g' then bump g' else y) gws)"
        using imageI [OF h(1), of "\<lambda>y. if ob_key y = ob_key g' then bump g' else y"] True by simp
      moreover have "ob_key (bump g') = (NamespaceDefault, name)" using True h(2) by simp
      ultimately show ?thesis unfolding has_iface_def by blast
    next
      case False
      then have "h \<in> set (map (\<lambda>y. if ob_key y = ob_key g' then bump g' else y) gws)"
        using imageI [OF h(1), of "\<lambda>y. if ob_key y = ob_key g' then bump g' else y"] by simp
      with h show ?thesis unfolding has_iface_def by blast
    qed
  qed
  with u assms(1) store_update_wf [OF assms(1)] show ?thesis by (auto simp: gateways_grow_def)
qed

lemma hydrate_gateway_link_run:
  assumes "store_wf (k_Gateways k)" "gateway_link_plannable sws (k_Gateways k) l" "Suc f < 2 ^ 32"
  shows "\<exists>gws'. hydrate_gateway_link sws (i, l) (v4_at f, k) = Inr (numbered_link f l, v4_at (f + 2), k\<lparr>k_Gateways := gws'\<rparr>) \<and>
     gateways_grow (k_Gateways k) gws'"
proof -
  from assms(2) obtain port g where port: "LocalPortName (ln_B l) = Inr port"
    and g: "g \<in> set (k_Gateways k)" "ob_key g = (NamespaceDefault, DeviceName (ln_B l))"
    and "map_of (gt_Interfaces g) port \<noteq> None"
    by (auto simp: gateway_link_plannable_def has_iface_def split: sum.splits)
  then obtain iface where iface: "map_of (gt_Interfaces g) port = Some iface" by blast
  have get: "store_get (NamespaceDefault, DeviceName (ln_B l)) (k_Gateways k) = Inr g"
    using g assms(1) by (auto simp: store_get_def store_wf_def find_key simp flip: g(2))
  have asn: "switch_asn sws (DeviceName (ln_A l)) \<noteq> 0" using assms(2) by (simp add: gateway_link_plannable_def)
  have parse: "parse_prefix (link_addr (v4_at f)) = Inr (v4_prefix (word_of_nat f) 31)"
    using assms(3) by (simp add: link_addr_host parse_host)
  define g' where "g' = g\<lparr>gt_Interfaces := map_put port (iface\<lparr>gi_IPs := [le_IP (ln_B (numbered_link f l))], gi_MTU := MTU\<rparr>) (gt_Interfaces g),
     gt_Neighbors := gt_Neighbors g @ [\<lparr>gn_Source = port, gn_IP = addr_string (V4 (word_of_nat f)),
       gn_ASN = switch_asn sws (DeviceName (ln_A l))\<rparr>]\<rparr>"
  have g': "ob_key g' = ob_key g" "ob_RV g' = ob_RV g" "dom (map_of (gt_Interfaces g)) \<subseteq> dom (map_of (gt_Interfaces g'))"
    by (auto simp: g'_def ob_key_def)
  from update_gateway_grow [OF assms(1) g(1) g'] obtain gws'
    where gws': "store_update g' (k_Gateways k) = Inr gws'" "gateways_grow (k_Gateways k) gws'" by blast
  have "hydrate_gateway_link sws (i, l) (v4_at f, k) = Inr (numbered_link f l, v4_at (f + 2), k\<lparr>k_Gateways := gws'\<rparr>)"
    using get port iface asn parse gws'(1) unfolding g'_def
    by (simp add: hydrate_gateway_link_def hydrate_link_numbered Let_def numbered_link_def)
  with gws'(2) show ?thesis by blast
qed

lemma gateway_links_run:
  assumes "store_wf (k_Gateways k)" "list_all (gateway_link_plannable sws (k_Gateways k)) ls" "f + 2 * length ls \<le> 2 ^ 32"
  shows "\<exists>gws'. emap_fold (hydrate_gateway_link sws) (enumerate i ls) (v4_at f, k) =
       Inr (numbered_links f ls, v4_at (f + 2 * length ls), k\<lparr>k_Gateways := gws'\<rparr>) \<and> gateways_grow (k_Gateways k) gws'"
  using assms
proof (induction ls arbitrary: f k i)
  case Nil
  then show ?case by (intro exI [of _ "k_Gateways k"]) (simp add: gateways_grow_def)
next
  case (Cons l ls)
  from hydrate_gateway_link_run [of k sws l f i] Cons.prems obtain g1 where
    g1: "hydrate_gateway_link sws (i, l) (v4_at f, k) = Inr (numbered_link f l, v4_at (f + 2), k\<lparr>k_Gateways := g1\<rparr>)"
    "gateways_grow (k_Gateways k) g1" by auto
  have "list_all (gateway_link_plannable sws g1) ls"
    using Cons.prems(2) g1(2)
    by (auto simp: list_all_iff gateway_link_plannable_def gateways_grow_def split: sum.splits)
  with Cons.IH [of "k\<lparr>k_Gateways := g1\<rparr>" "f + 2" "Suc i"] Cons.prems(3) g1(2) obtain g2 where
    "emap_fold (hydrate_gateway_link sws) (enumerate (Suc i) ls) (v4_at (f + 2), k\<lparr>k_Gateways := g1\<rparr>) =
       Inr (numbered_links (f + 2) ls, v4_at (f + 2 + 2 * length ls), k\<lparr>k_Gateways := g2\<rparr>)" "gateways_grow g1 g2"
    by (auto simp: gateways_grow_def)
  with g1 gateways_grow_trans show ?case by (intro exI [of _ g2]) auto
qed

section \<open>Connections\<close>

definition is_link_conn :: "connection \<Rightarrow> bool" where
  "is_link_conn c \<longleftrightarrow> cn_Fabric c \<noteq> None \<or> cn_Mesh c \<noteq> None \<or> cn_Gateway c \<noteq> None"

definition numbered_conn :: "nat \<Rightarrow> connection \<Rightarrow> connection" where
  "numbered_conn f c =
     (case cn_Fabric c of Some ls \<Rightarrow> c\<lparr>cn_Fabric := Some (numbered_links f ls)\<rparr> | None \<Rightarrow>
     (case cn_Mesh c of Some ls \<Rightarrow> c\<lparr>cn_Mesh := Some (numbered_links f ls)\<rparr> | None \<Rightarrow>
     (case cn_Gateway c of Some ls \<Rightarrow> c\<lparr>cn_Gateway := Some (numbered_links f ls)\<rparr> | None \<Rightarrow> c)))"

fun numbered_conns :: "nat \<Rightarrow> connection list \<Rightarrow> connection list" where
  "numbered_conns f [] = []"
| "numbered_conns f (c # cs) = (if is_link_conn c then [numbered_conn f c] else []) @
     numbered_conns (f + 2 * length (conn_links c)) cs"

lemma numbered_conn_sel [simp]:
  "ob_key (numbered_conn f c) = ob_key c" "ob_RV (numbered_conn f c) = ob_RV c" "ob_Name (numbered_conn f c) = ob_Name c"
  "conn_links (numbered_conn f c) = numbered_links f (conn_links c)"
  by (auto simp: numbered_conn_def ob_key_def conn_links_def split: option.splits)

lemma conn_links_bump [simp]: "conn_links (bump c) = conn_links c"
  by (auto simp: conn_links_def bump_def split: option.splits)

lemma not_link_conn: "\<not> is_link_conn c \<Longrightarrow> conn_links c = []"
  by (simp add: is_link_conn_def conn_links_def)

definition conn_plannable :: "switch list \<Rightarrow> gateway list \<Rightarrow> connection \<Rightarrow> bool" where
  "conn_plannable sws gws c \<longleftrightarrow>
     (cn_Fabric c = None \<longrightarrow> cn_Mesh c = None \<longrightarrow> list_all (gateway_link_plannable sws gws) (conn_links c))"

lemma conn_plannable_grow: "conn_plannable sws gws c \<Longrightarrow> gateways_grow gws gws' \<Longrightarrow> conn_plannable sws gws' c"
  by (auto simp: conn_plannable_def list_all_iff gateway_link_plannable_def gateways_grow_def split: sum.splits)

lemma hydrate_conn_run:
  assumes "store_wf (k_Gateways k)" "conn_plannable sws (k_Gateways k) c" "f + 2 * length (conn_links c) \<le> 2 ^ 32"
    and "is_link_conn c" "store_update (numbered_conn f c) (k_Connections k) = Inr cs'"
  shows "\<exists>gws'. hydrate_conn sws c (v4_at f, k) =
      Inr (v4_at (f + 2 * length (conn_links c)), k\<lparr>k_Gateways := gws', k_Connections := cs'\<rparr>) \<and>
    gateways_grow (k_Gateways k) gws'"
proof -
  have same: "\<exists>gws'. k\<lparr>k_Connections := cs'\<rparr> = k\<lparr>k_Gateways := gws', k_Connections := cs'\<rparr> \<and> gateways_grow (k_Gateways k) gws'"
    using assms(1) by (intro exI [of _ "k_Gateways k"]) (simp add: gateways_grow_def)
  consider (fab) ls where "cn_Fabric c = Some ls" | (mesh) ls where "cn_Fabric c = None" "cn_Mesh c = Some ls"
    | (gw) ls where "cn_Fabric c = None" "cn_Mesh c = None" "cn_Gateway c = Some ls"
    using assms(4) by (cases "cn_Fabric c"; cases "cn_Mesh c"; cases "cn_Gateway c") (auto simp: is_link_conn_def)
  then show ?thesis
  proof cases
    case fab
    with assms(5) same show ?thesis
      by (simp add: hydrate_conn_def Let_def plain_links_run conn_links_def numbered_conn_def)
  next
    case mesh
    with assms(5) same show ?thesis
      by (simp add: hydrate_conn_def Let_def plain_links_run conn_links_def numbered_conn_def)
  next
    case gw
    then have "conn_links c = ls" by (simp add: conn_links_def)
    with assms(2,3) gw have "list_all (gateway_link_plannable sws (k_Gateways k)) ls" "f + 2 * length ls \<le> 2 ^ 32"
      by (simp_all add: conn_plannable_def)
    from gateway_links_run [OF assms(1) this, of 0] obtain gws' where
      "emap_fold (hydrate_gateway_link sws) (enumerate 0 ls) (v4_at f, k) =
         Inr (numbered_links f ls, v4_at (f + 2 * length ls), k\<lparr>k_Gateways := gws'\<rparr>)"
      "gateways_grow (k_Gateways k) gws'" by blast
    with gw assms(5) show ?thesis
      by (intro exI [of _ gws']) (simp add: hydrate_conn_def Let_def conn_links_def numbered_conn_def)
  qed
qed

lemma all_links_simps: "all_links [] = []" "all_links (c # cs) = conn_links c @ all_links cs"
  by (simp_all add: all_links_def)

lemma hydrate_conns_run:
  assumes "store_wf (k_Gateways k)" "list_all (conn_plannable sws (k_Gateways k)) cs"
    and "f + 2 * length (all_links cs) \<le> 2 ^ 32"
    and "efold store_update (numbered_conns f cs) (k_Connections k) = Inr final"
  shows "\<exists>gws'. efold (hydrate_conn sws) cs (v4_at f, k) =
      Inr (v4_at (f + 2 * length (all_links cs)), k\<lparr>k_Gateways := gws', k_Connections := final\<rparr>) \<and>
    gateways_grow (k_Gateways k) gws'"
  using assms
proof (induction cs arbitrary: f k)
  case Nil
  then show ?case
    by (intro exI [of _ "k_Gateways k"]) (simp add: gateways_grow_def all_links_simps)
next
  case (Cons c cs)
  show ?case
  proof (cases "is_link_conn c")
    case False
    then have "hydrate_conn sws c (v4_at f, k) = Inr (v4_at f, k)"
      by (simp add: hydrate_conn_def is_link_conn_def)
    with Cons.IH [of k f] Cons.prems False show ?thesis by (simp add: all_links_simps not_link_conn)
  next
    case True
    with Cons.prems(4) obtain cs' where
      cs': "store_update (numbered_conn f c) (k_Connections k) = Inr cs'"
      "efold store_update (numbered_conns (f + 2 * length (conn_links c)) cs) cs' = Inr final"
      by (auto simp: ebind_Inr_iff)
    from hydrate_conn_run [OF Cons.prems(1) _ _ True cs'(1)] Cons.prems(2,3) obtain g1 where
      g1: "hydrate_conn sws c (v4_at f, k) =
        Inr (v4_at (f + 2 * length (conn_links c)), k\<lparr>k_Gateways := g1, k_Connections := cs'\<rparr>)"
      "gateways_grow (k_Gateways k) g1" by (auto simp: all_links_simps)
    have "list_all (conn_plannable sws g1) cs"
      using Cons.prems(2) g1(2) conn_plannable_grow by (auto simp: list_all_iff)
    with Cons.IH [of "k\<lparr>k_Gateways := g1, k_Connections := cs'\<rparr>" "f + 2 * length (conn_links c)"] Cons.prems(3) g1(2) cs'(2)
    obtain g2 where
      "efold (hydrate_conn sws) cs (v4_at (f + 2 * length (conn_links c)), k\<lparr>k_Gateways := g1, k_Connections := cs'\<rparr>) =
        Inr (v4_at (f + 2 * length (conn_links c) + 2 * length (all_links cs)),
             k\<lparr>k_Gateways := g2, k_Connections := final\<rparr>)" "gateways_grow g1 g2"
      by (auto simp: all_links_simps gateways_grow_def)
    with g1 gateways_grow_trans show ?thesis
      by (intro exI [of _ g2]) (auto simp: all_links_simps algebra_simps)
  qed
qed

lemma numbered_conns_links:
  "all_links (numbered_conns f cs) = numbered_links f (all_links cs)"
proof -
  have app: "numbered_links f (xs @ ys) = numbered_links f xs @ numbered_links (f + 2 * length xs) ys" for f xs ys
    by (induction xs arbitrary: f) simp_all
  show ?thesis by (induction cs arbitrary: f) (simp_all add: all_links_simps app not_link_conn)
qed

section \<open>Gateways\<close>

fun numbered_gws :: "32 word \<Rightarrow> nat \<Rightarrow> nat \<Rightarrow> 8 word \<Rightarrow> gateway list \<Rightarrow> gateway list" where
  "numbered_gws asn p v b [] = []"
| "numbered_gws asn p v b (g # gs) =
     g\<lparr>gt_ASN := asn, gt_ProtocolIP := host 32 p, gt_VTEPIP := host 32 v, gt_VTEPMAC := vtep_mac b,
       gt_VTEPMTU := ServerFacingMTU\<rparr> # numbered_gws asn (Suc p) (Suc v) (b + 1) gs"

lemma hydrate_gateways_run:
  assumes "efold store_update (numbered_gws asn p v b gs) gws = Inr final"
  shows "\<exists>a. efold (hydrate_gateway asn) gs (\<lparr>ga_ProtoIP = v4_at p, ga_VTEPIP = v4_at v, ga_MACOctet = b\<rparr>, gws) = Inr (a, final)"
  using assms
proof (induction gs arbitrary: p v b gws)
  case (Cons g gs)
  then show ?case by (auto simp: ebind_Inr_iff hydrate_gateway_def Let_def host_def)
qed simp

lemma numbered_gws_keys:
  "map ob_key (numbered_gws asn p v b gs) = map ob_key gs" "map ob_RV (numbered_gws asn p v b gs) = map ob_RV gs"
  by (induction gs arbitrary: p v b) (simp_all add: ob_key_def)

lemma numbered_gws_ips:
  "p + length gs \<le> 2 ^ 32 \<Longrightarrow> gw_protocol_ips (numbered_gws asn p v b gs) = map v4_at [p..<p + length gs]"
  "v + length gs \<le> 2 ^ 32 \<Longrightarrow> gw_vtep_ips (numbered_gws asn p v b gs) = map v4_at [v..<v + length gs]"
  by (induction gs arbitrary: p v b)
    (simp_all add: gw_protocol_ips_def gw_vtep_ips_def upt_conv_Cons del: upt_Suc)

lemma numbered_gws_ok:
  assumes "prefix_parse s = Inr ps" "prefix_parse s' = Inr vs" "asn \<noteq> 0"
  shows "net_base ps \<le> p \<Longrightarrow> p + length gs \<le> net_base ps + net_size ps \<Longrightarrow>
    net_base vs \<le> v \<Longrightarrow> v + length gs \<le> net_base vs + net_size vs \<Longrightarrow>
    list_all (gateway_ok asn vs ps) (numbered_gws asn p v b gs)"
proof (induction gs arbitrary: p v b)
  case (Cons g gs)
  have "host_ok ps (int 32) (parse_prefix (host 32 p))" "host_ok vs (int 32) (parse_prefix (host 32 v))"
    using Cons.prems by (intro host_ok_host [OF assms(1)] host_ok_host [OF assms(2)]; simp)+
  with Cons assms(3) show ?case by (simp add: gateway_ok_def)
qed simp

end
