(* ===== verification/HydrateFull.thy ===== *)
theory HydrateFull
  imports AllocLinks
begin

text \<open>
  The hydration succeeds on every wiring its subnets have room for, and the check it is followed by
  finds the result fully hydrated (\<open>hydrate_full\<close>). \<open>hydratable\<close> is the condition, over the
  configuration and the wiring as they are given.
\<close>

section \<open>The condition\<close>

definition gateway_link_ready :: "kube \<Rightarrow> p2p_link \<Rightarrow> bool" where
  "gateway_link_ready k l \<longleftrightarrow>
     (case LocalPortName (ln_B l) of Inl _ \<Rightarrow> False | Inr port \<Rightarrow> has_iface (k_Gateways k) (DeviceName (ln_B l)) port) \<and>
     DeviceName (ln_A l) \<in> ob_Name ` set (k_Switches k)"

definition conn_ready :: "kube \<Rightarrow> connection \<Rightarrow> bool" where
  "conn_ready k c \<longleftrightarrow>
     (cn_Fabric c = None \<longrightarrow> cn_Mesh c = None \<longrightarrow> list_all (gateway_link_ready k) (conn_links c))"

definition wiring_ready :: "kube \<Rightarrow> bool" where
  "wiring_ready k \<longleftrightarrow>
     store_wf (k_Switches k) \<and> store_wf (k_Connections k) \<and> store_wf (k_Gateways k) \<and>
     list_all switch_plannable (k_Switches k) \<and> list_all (conn_ready k) (k_Connections k) \<and>
     length (k_Gateways k) \<le> MaxVTEPMACs"

definition asns_room :: "fab_config \<Rightarrow> nat \<Rightarrow> bool" where
  "asns_room c n \<longleftrightarrow> 0 < SpineASN (Fabric c) \<and> 0 < LeafASNStart (Fabric c) \<and>
     unat (LeafASNStart (Fabric c)) + n \<le> unat (LeafASNEnd (Fabric c)) + 1 \<and> GwASN (Gateway c) \<noteq> 0"

definition subnets_room :: "mgmt_net \<Rightarrow> prefix \<Rightarrow> prefix \<Rightarrow> prefix \<Rightarrow> prefix \<Rightarrow> hhfab_config \<Rightarrow> kube \<Rightarrow> bool" where
  "subnets_room mn ds vs ps fs hc k \<longleftrightarrow>
     (let n = length (hc_Controls hc) + length (hc_Nodes hc); s = length (k_Switches k); g = length (k_Gateways k) in
      (case mn_dhcp_start mn of V4 d \<Rightarrow> net_base (mn_subnet mn) + 5 + n + s \<le> unat d | _ \<Rightarrow> False) \<and>
      2 * n \<le> net_size ds \<and> length (leaves (k_Switches k)) + g \<le> net_size vs \<and> s + g \<le> net_size ps \<and>
      2 * length (all_links (k_Connections k)) \<le> net_size fs)"

definition hydratable :: "hhfab_config \<Rightarrow> kube \<Rightarrow> bool" where
  "hydratable hc k \<longleftrightarrow>
     (let c = Config (hc_Fab hc) in
      case (hydration_start c, prefix_parse (VTEPSubnet (Fabric c)), prefix_parse (ProtocolSubnet (Fabric c)),
            prefix_parse (FabricSubnet (Fabric c))) of
        (Inr (mn, ds, _), Inr vs, Inr ps, Inr fs) \<Rightarrow>
          ip_of (VIP (Control c)) = v4_at (net_base (mn_subnet mn) + 1) \<and>
          subnets_room mn ds vs ps fs hc k \<and> asns_room c (length (leaves (k_Switches k))) \<and>
          wiring_ready k \<and> some_value hc k
      | _ \<Rightarrow> False)"

section \<open>Nodes\<close>

lemma list_all_maps:
  assumes "map f xs = map g [m..<n]" "\<And>i. m \<le> i \<Longrightarrow> i < n \<Longrightarrow> P (g i)"
  shows "list_all (\<lambda>x. P (f x)) xs"
proof -
  have "list_all P (map f xs)" unfolding assms(1) using assms(2) by (auto simp: list_all_iff)
  then show ?thesis by (simp add: list_all_iff)
qed

lemma hydrate_nodes_ok:
  assumes mgmt: "prefix_parse ms = Inr (mn_subnet mn)" "mn_dhcp_start mn = V4 d" "prefix_contains (mn_subnet mn) (V4 d)"
      "net_base (mn_subnet mn) \<le> m" "m + length ns \<le> unat d"
    and dummy: "prefix_parse dst = Inr ds" "net_base ds \<le> e" "e + 2 * length ns \<le> net_base ds + net_size ds"
    and run: "hydrate_nodes (pf_bits (mn_subnet mn)) (v4_at m) (v4_at e) ns = (ns', m', e')"
  shows "m' = v4_at (m + length ns) \<and> e' = v4_at (e + 2 * length ns) \<and> length ns' = length ns \<and>
    mgmt_ips ns' = map v4_at [m..<m + length ns] \<and> dummy_ips ns' = map (\<lambda>i. v4_at (e + 2 * i)) [0..<length ns] \<and>
    list_all (node_ok mn ds) ns'"
proof -
  obtain w b where p: "mn_subnet mn = v4_prefix w b" "b \<le> 32" using mgmt(1) by (rule prefix_parse_v4)
  note r = hydrate_nodes_ips [OF run]
  have M: "map nd_MgmtIP ns' = map (host b) [m..<m + length ns]"
    and D: "map nd_DummyIP ns' = map (\<lambda>i. host 31 (e + 2 * i)) [0..<length ns]"
    using r by (simp_all add: p host_def)
  have len: "length ns' = length ns" using r by (metis length_map)
  have mok: "n < 2 ^ 32 \<and> mgmt_ok mn (prefix_parse (host b n))" if "m \<le> n" "n < m + length ns" for n
    using mgmt_ok_host [OF mgmt(1-3), of n b] that mgmt(4,5) p(2) by auto
  have dok: "e + 2 * i < 2 ^ 32 \<and> host_ok ds 31 (prefix_parse (host 31 (e + 2 * i)))" if "i < length ns" for i
    using net_contains(1) [OF dummy(1), of "e + 2 * i"] host_ok_host(2) [OF dummy(1), of "e + 2 * i" 31] that dummy(2,3) by simp
  have "list_all (\<lambda>x. mgmt_ok mn (prefix_parse (nd_MgmtIP x))) ns'"
    by (rule list_all_maps [OF M, where P = "\<lambda>s. mgmt_ok mn (prefix_parse s)"]) (simp add: mok)
  moreover have "list_all (\<lambda>x. host_ok ds 31 (prefix_parse (nd_DummyIP x))) ns'"
    by (rule list_all_maps [OF D, where P = "\<lambda>s. host_ok ds 31 (prefix_parse s)"]) (simp add: dok)
  moreover have "mgmt_ips ns' = map ip_of (map nd_MgmtIP ns')" "dummy_ips ns' = map ip_of (map nd_DummyIP ns')"
    by (simp_all add: mgmt_ips_def dummy_ips_def)
  then have "mgmt_ips ns' = map v4_at [m..<m + length ns]" "dummy_ips ns' = map (\<lambda>i. v4_at (e + 2 * i)) [0..<length ns]"
    unfolding M D using mok dok p(2) by simp_all
  ultimately show ?thesis using r len by (simp add: node_ok_def list_all_iff)
qed

lemma hydrate_config_nodes_ok:
  assumes mgmt: "prefix_parse ms = Inr (mn_subnet mn)" "mn_dhcp_start mn = V4 d" "prefix_contains (mn_subnet mn) (V4 d)"
      "net_base (mn_subnet mn) \<le> m" "m + (length (hc_Controls hc) + length (hc_Nodes hc)) \<le> unat d"
    and dummy: "prefix_parse dst = Inr ds" "2 * (length (hc_Controls hc) + length (hc_Nodes hc)) \<le> net_size ds"
  shows "\<exists>hc'. hydrate_config_nodes (mn_subnet mn) ds (v4_at m) hc = (hc', v4_at (m + (length (hc_Controls hc) + length (hc_Nodes hc)))) \<and>
    hc_Fab hc' = hc_Fab hc \<and> length (hc_Controls hc') = length (hc_Controls hc) \<and> length (hc_Nodes hc') = length (hc_Nodes hc) \<and>
    mgmt_ips (hc_Controls hc') @ mgmt_ips (hc_Nodes hc') = map v4_at [m..<m + (length (hc_Controls hc) + length (hc_Nodes hc))] \<and>
    dummy_ips (hc_Controls hc') @ dummy_ips (hc_Nodes hc') =
      map (\<lambda>i. v4_at (net_base ds + 2 * i)) [0..<length (hc_Controls hc) + length (hc_Nodes hc)] \<and>
    list_all (node_ok mn ds) (hc_Controls hc') \<and> list_all (node_ok mn ds) (hc_Nodes hc')"
proof -
  let ?cs = "sort_key nd_Name (hc_Controls hc)" and ?n1 = "length (hc_Controls hc)" and ?n2 = "length (hc_Nodes hc)"
  obtain cs' m1 e1 where r1: "hydrate_nodes (pf_bits (mn_subnet mn)) (v4_at m) (v4_at (net_base ds)) ?cs = (cs', m1, e1)"
    by (metis prod_cases3)
  have o1: "m1 = v4_at (m + ?n1) \<and> e1 = v4_at (net_base ds + 2 * ?n1) \<and> length cs' = ?n1 \<and>
      mgmt_ips cs' = map v4_at [m..<m + ?n1] \<and> dummy_ips cs' = map (\<lambda>i. v4_at (net_base ds + 2 * i)) [0..<?n1] \<and>
      list_all (node_ok mn ds) cs'"
    using hydrate_nodes_ok [OF mgmt(1-4) _ dummy(1) _ _ r1] mgmt(5) dummy(2) by simp
  then have r1': "hydrate_nodes (pf_bits (mn_subnet mn)) (v4_at m) (v4_at (net_base ds)) ?cs =
      (cs', v4_at (m + ?n1), v4_at (net_base ds + 2 * ?n1))" using r1 by simp
  obtain ns' m2 e2 where r2: "hydrate_nodes (pf_bits (mn_subnet mn)) (v4_at (m + ?n1)) (v4_at (net_base ds + 2 * ?n1))
      (hc_Nodes hc) = (ns', m2, e2)"
    by (metis prod_cases3)
  have o2: "m2 = v4_at (m + ?n1 + ?n2) \<and> e2 = v4_at (net_base ds + 2 * ?n1 + 2 * ?n2) \<and> length ns' = ?n2 \<and>
      mgmt_ips ns' = map v4_at [m + ?n1..<m + ?n1 + ?n2] \<and>
      dummy_ips ns' = map (\<lambda>i. v4_at (net_base ds + 2 * ?n1 + 2 * i)) [0..<?n2] \<and> list_all (node_ok mn ds) ns'"
    using hydrate_nodes_ok [OF mgmt(1-3) _ _ dummy(1) _ _ r2] mgmt(4,5) dummy(2) by simp
  have up: "[m..<m + (?n1 + ?n2)] = [m..<m + ?n1] @ [m + ?n1..<m + ?n1 + ?n2]"
    using upt_add_eq_append [of m "m + ?n1" ?n2] by (simp add: add.assoc)
  have shift: "map (\<lambda>i. v4_at (net_base ds + 2 * i)) [?n1..<?n1 + ?n2] =
      map (\<lambda>i. v4_at (net_base ds + 2 * ?n1 + 2 * i)) [0..<?n2]"
    by (rule nth_equalityI) (simp_all add: algebra_simps)
  have up': "[0..<?n1 + ?n2] = [0..<?n1] @ [?n1..<?n1 + ?n2]"
    using upt_add_eq_append [of 0 ?n1 ?n2] by simp
  show ?thesis
    by (rule exI [of _ "hc\<lparr>hc_Controls := cs', hc_Nodes := ns'\<rparr>"])
      (use r1' r2 o1 o2 in \<open>simp add: hydrate_config_nodes_def Let_def net_addr [OF dummy(1)] up up' shift add.assoc\<close>)
qed

section \<open>Switches\<close>

lemma efold_update_switch:
  "efold store_update sws s = Inr s' \<Longrightarrow> efold update_switch sws s = Inr s'"
  by (induction sws arbitrary: s) (auto simp: ebind_Inr_iff update_switch_def)

lemma store_list_mset [simp]: "mset (store_list s) = mset s"
  by (simp add: store_list_def)

lemma store_list_set [simp]: "set (store_list s) = set s"
  by (simp add: store_list_def)

lemma store_list_length [simp]: "length (store_list s) = length s"
  by (simp add: store_list_def)

text \<open>Objects written back under the keys and versions of the whole store replace it.\<close>

lemma store_update_all:
  assumes "store_wf s" "mset (map (\<lambda>x. (ob_key x, ob_RV x)) xs) = mset (map (\<lambda>x. (ob_key x, ob_RV x)) s)"
  shows "\<exists>s'. efold store_update xs s = Inr s' \<and> store_wf s' \<and> mset s' = mset (map bump xs)"
proof -
  have keys: "mset (map ob_key xs) = mset (map ob_key s)"
    using arg_cong [OF assms(2), of "image_mset fst"] by (simp add: multiset.map_comp comp_def)
  have sets: "(\<lambda>x. (ob_key x, ob_RV x)) ` set xs = (\<lambda>x. (ob_key x, ob_RV x)) ` set s"
    using mset_eq_setD [OF assms(2)] by simp
  have ks: "ob_key ` set xs = ob_key ` set s" using mset_eq_setD [OF keys] by simp
  have "\<exists>s'. efold store_update xs s = Inr s' \<and> store_wf s' \<and>
      mset (store_list s') = mset (map bump xs) + mset (filter (\<lambda>z. ob_key z \<notin> ob_key ` set xs) (store_list s))"
  proof (rule store.update_all_mset [OF assms(1)])
    show "distinct (map ob_key xs)" using mset_eq_imp_distinct_iff [OF keys] assms(1) by (simp add: store_wf_def)
    fix x assume "x \<in> set xs"
    then have "(ob_key x, ob_RV x) \<in> (\<lambda>x. (ob_key x, ob_RV x)) ` set s" using sets by blast
    then show "\<exists>y\<in>set (store_list s). ob_key x = ob_key y \<and> ob_RV x = ob_RV y" by auto
  qed
  moreover have "filter (\<lambda>z. ob_key z \<notin> ob_key ` set xs) (store_list s) = []"
    unfolding ks by (simp add: filter_empty_conv)
  ultimately show ?thesis by auto
qed

lemma hydrate_switches_ok:
  assumes "store_wf sws" "list_all switch_plannable sws" "length sws \<le> 2 ^ 32"
  shows "\<exists>sws' a' final. emap_fold (hydrate_switch bits sp) (sort_key switch_sort_key (store_list sws))
           \<lparr>sa_MgmtIP = v4_at m, sa_ProtoIP = v4_at p, sa_VTEPIP = v4_at v, sa_LeafASN = asn, sa_mclagPeer = []\<rparr> =
         Inr (sws', a') \<and> switches_run bits sp m p v asn (sort_key switch_sort_key (store_list sws)) sws' a' \<and>
         efold update_switch sws' sws = Inr final \<and> store_wf final \<and> mset final = mset (map bump sws')"
proof -
  let ?sws = "sort_key switch_sort_key (store_list sws)"
  have "list_all switch_plannable ?sws" "length ?sws \<le> 2 ^ 32" using assms by (simp_all add: list_all_iff)
  from hydrate_switches_run [OF this] obtain sws' a' where
    run: "emap_fold (hydrate_switch bits sp) ?sws
      \<lparr>sa_MgmtIP = v4_at m, sa_ProtoIP = v4_at p, sa_VTEPIP = v4_at v, sa_LeafASN = asn, sa_mclagPeer = []\<rparr> = Inr (sws', a')"
    "switches_run bits sp m p v asn ?sws sws' a'" by blast
  then have "map switch_id sws' = map switch_id ?sws" by (simp add: switches_run_def)
  from arg_cong [OF this, of "map (\<lambda>(k, rv, _). (k, rv))"]
  have "map (\<lambda>x. (ob_key x, ob_RV x)) sws' = map (\<lambda>x. (ob_key x, ob_RV x)) ?sws"
    by (simp add: switch_id_def comp_def)
  then have "mset (map (\<lambda>x. (ob_key x, ob_RV x)) sws') = mset (map (\<lambda>x. (ob_key x, ob_RV x)) sws)"
    by (simp only: mset_map mset_sort store_list_mset)
  from store_update_all [OF assms(1) this] efold_update_switch run show ?thesis by blast
qed

text \<open>What the numbered switches look like to the check.\<close>

lemma switch_bump [simp]:
  "sw_IP (bump sw) = sw_IP sw" "sw_ProtocolIP (bump sw) = sw_ProtocolIP sw" "sw_VTEPIP (bump sw) = sw_VTEPIP sw"
  "sw_ASN (bump sw) = sw_ASN sw" "sw_Role (bump sw) = sw_Role sw" "is_mclag (bump sw) = is_mclag sw"
  "sw_RedGroup (bump sw) = sw_RedGroup sw" "vtep_ip (bump sw) = vtep_ip sw"
  by (simp_all add: bump_def is_mclag_def vtep_ip_def)

lemma switch_ok_bump [simp]: "switch_ok mn fc vs ps (bump sw) = switch_ok mn fc vs ps sw"
  by (simp add: switch_ok_def)

lemma leaf_pair_unique_bump [simp]: "leaf_pair_unique (bump a) (bump b) = leaf_pair_unique a b"
  by (simp add: leaf_pair_unique_def same_group_def)

lemma leaves_map_bump: "leaves (map bump sws) = map bump (leaves sws)"
  by (simp add: leaves_def filter_map comp_def)

lemma leaf_run_facts:
  assumes "leaf_run_ok v asn j vs" "v + j \<le> 2 ^ 32" "j < 2 ^ 32"
  shows "y \<in> set (leaves vs) \<Longrightarrow> z \<in> set (leaves vs) \<Longrightarrow> y \<noteq> z \<Longrightarrow> leaf_pair_unique y z"
    and "y \<in> set (leaves vs) \<Longrightarrow> \<exists>i<j. sw_ASN y = asn + word_of_nat i \<and> sw_VTEPIP y = host 32 (v + i) \<and> vtep_ip y = v4_at (v + i)"
proof -
  have ex: "\<exists>i<j. sw_ASN y = asn + word_of_nat i \<and> sw_VTEPIP y = host 32 (v + i) \<and> vtep_ip y = v4_at (v + i)"
    if "y \<in> set (leaves vs)" for y
    using assms(1,2) that by (fastforce simp: leaf_run_ok_def vtep_ip_def)
  then show "y \<in> set (leaves vs) \<Longrightarrow>
    \<exists>i<j. sw_ASN y = asn + word_of_nat i \<and> sw_VTEPIP y = host 32 (v + i) \<and> vtep_ip y = v4_at (v + i)" .
  assume yz: "y \<in> set (leaves vs)" "z \<in> set (leaves vs)" "y \<noteq> z"
  from ex [OF yz(1)] obtain i where i: "i < j" "sw_ASN y = asn + word_of_nat i" "sw_VTEPIP y = host 32 (v + i)"
    "vtep_ip y = v4_at (v + i)" by blast
  from ex [OF yz(2)] obtain i' where i': "i' < j" "sw_ASN z = asn + word_of_nat i'" "sw_VTEPIP z = host 32 (v + i')"
    "vtep_ip z = v4_at (v + i')" by blast
  have "same_group y z \<longleftrightarrow> sw_ASN y = sw_ASN z" using assms(1) yz by (auto simp: leaf_run_ok_def)
  moreover have "sw_ASN y = sw_ASN z \<longleftrightarrow> i = i'" using i i' assms(3) word_add_inj [of i i' asn] by simp
  moreover have "vtep_ip y = vtep_ip z \<longleftrightarrow> i = i'" using i i' assms(2) by (simp add: v4_at_inj)
  ultimately show "leaf_pair_unique y z" using i i' by (auto simp: leaf_pair_unique_def)
qed

lemma numbered_switches_ok:
  assumes mgmt: "prefix_parse ms = Inr (mn_subnet mn)" "mn_dhcp_start mn = V4 d" "prefix_contains (mn_subnet mn) (V4 d)"
      "net_base (mn_subnet mn) \<le> m" "m + length us \<le> unat d"
    and proto: "prefix_parse pst = Inr ps" "net_base ps = p" "length us \<le> net_size ps"
    and vtep: "prefix_parse vst = Inr vs" "net_base vs = v" "length (leaves us) \<le> net_size vs"
    and asns: "asns_room c (length (leaves us))"
    and plan: "list_all switch_plannable us"
    and run: "switches_run (pf_bits (mn_subnet mn)) (SpineASN (Fabric c)) m p v (LeafASNStart (Fabric c)) us sws a"
  shows "list_all (switch_ok mn (Fabric c) vs ps) sws \<and> switch_ips sws = map v4_at [m..<m + length us] \<and>
     protocol_ips sws = map v4_at [p..<p + length us]"
proof -
  obtain w b where b: "mn_subnet mn = v4_prefix w b" "b \<le> 32" using mgmt(1) by (rule prefix_parse_v4)
  have ids: "map switch_id sws = map switch_id us"
    and M: "map sw_IP sws = map (host b) [m..<m + length us]"
    and P: "map sw_ProtocolIP sws = map (host 32) [p..<p + length us]"
    and spine: "\<And>y. y \<in> set sws \<Longrightarrow> IsSpine (sw_Role y) \<Longrightarrow> sw_ASN y = SpineASN (Fabric c) \<and> sw_VTEPIP y = ''''"
    using run by (simp_all add: switches_run_def b(1) host_def)
  from run obtain j where j: "j \<le> length (leaves us)" "leaf_run_ok v (LeafASNStart (Fabric c)) j sws"
    by (auto simp: switches_run_def)
  from arg_cong [OF ids, of "map (\<lambda>(_, _, r, _). r)"] have "map sw_Role sws = map sw_Role us"
    by (simp add: switch_id_def comp_def)
  from arg_cong [OF this, of set] have "sw_Role ` set sws = sw_Role ` set us" by simp
  moreover have "sw_Role ` set us \<subseteq> set SwitchRoles" using plan by (auto simp: list_all_iff switch_plannable_def)
  ultimately have roles: "sw_Role y \<in> set SwitchRoles" if "y \<in> set sws" for y
    using imageI [OF that, of sw_Role] by blast
  have mok: "n < 2 ^ 32 \<and> mgmt_ok mn (parse_prefix (host b n))" if "m \<le> n" "n < m + length us" for n
    using mgmt_ok_host [OF mgmt(1-3), of n b] that mgmt(4,5) b(2) by auto
  have pok: "n < 2 ^ 32 \<and> host_ok ps 32 (parse_prefix (host 32 n))" if "p \<le> n" "n < p + length us" for n
    using net_contains(1) [OF proto(1), of n] host_ok_host(1) [OF proto(1), of n 32] that proto(2,3) by simp
  have leaf: "0 < sw_ASN y \<and> LeafASNStart (Fabric c) \<le> sw_ASN y \<and> sw_ASN y \<le> LeafASNEnd (Fabric c) \<and>
      host_ok vs 32 (parse_prefix (sw_VTEPIP y))" if y: "y \<in> set sws" "IsLeaf (sw_Role y)" for y
  proof -
    from y j(2) obtain i where i: "i < j" "sw_ASN y = LeafASNStart (Fabric c) + word_of_nat i" "sw_VTEPIP y = host 32 (v + i)"
      by (auto simp: leaf_run_ok_def leaves_def)
    have "unat (LeafASNStart (Fabric c)) + i \<le> unat (LeafASNEnd (Fabric c))"
      using asns i(1) j(1) by (simp add: asns_room_def)
    moreover have "unat (LeafASNEnd (Fabric c)) < 2 ^ 32" using unsigned_less [of "LeafASNEnd (Fabric c)", where ?'a = nat] by simp
    ultimately have "unat (sw_ASN y) = unat (LeafASNStart (Fabric c)) + i"
      unfolding i(2) by (simp add: unat_word_ariths unat_of_nat take_bit_nat_eq_self)
    moreover have "0 < unat (LeafASNStart (Fabric c))" using asns by (simp add: asns_room_def word_less_nat_alt)
    ultimately show ?thesis
      using \<open>unat (LeafASNStart (Fabric c)) + i \<le> _\<close> i host_ok_host(1) [OF vtep(1), of "v + i" 32] vtep(2,3) j(1)
      by (simp add: word_less_nat_alt word_le_nat_alt)
  qed
  have "list_all (\<lambda>x. mgmt_ok mn (parse_prefix (sw_IP x))) sws"
    by (rule list_all_maps [OF M, where P = "\<lambda>s. mgmt_ok mn (parse_prefix s)"]) (simp add: mok)
  moreover have "list_all (\<lambda>x. host_ok ps 32 (parse_prefix (sw_ProtocolIP x))) sws"
    by (rule list_all_maps [OF P, where P = "\<lambda>s. host_ok ps 32 (parse_prefix s)"]) (simp add: pok)
  moreover have "0 < SpineASN (Fabric c)" using asns by (simp add: asns_room_def)
  ultimately have "list_all (switch_ok mn (Fabric c) vs ps) sws"
    using roles role_cases leaf spine by (fastforce simp: list_all_iff switch_ok_def)
  moreover have "switch_ips sws = map ip_of (map sw_IP sws)" "protocol_ips sws = map ip_of (map sw_ProtocolIP sws)"
    by (simp_all add: switch_ips_def protocol_ips_def)
  then have "switch_ips sws = map v4_at [m..<m + length us]" "protocol_ips sws = map v4_at [p..<p + length us]"
    unfolding M P using mok pok b(2) by simp_all
  ultimately show ?thesis by blast
qed

section \<open>Connections\<close>

lemma mset_concat_map: "mset xs = mset ys \<Longrightarrow> mset (concat (map f xs)) = mset (concat (map f ys))"
proof -
  have "mset (concat (map f xs)) = \<Sum>\<^sub># (image_mset (\<lambda>x. mset (f x)) (mset xs))" for xs
    by (induction xs) simp_all
  then show "mset xs = mset ys \<Longrightarrow> ?thesis" by metis
qed

lemma all_links_mset: "mset cs = mset cs' \<Longrightarrow> mset (all_links cs) = mset (all_links cs')"
  unfolding all_links_def by (rule mset_concat_map)

lemma all_links_append: "all_links (cs @ cs') = all_links cs @ all_links cs'"
  by (simp add: all_links_def)

lemma all_links_bump: "all_links (map bump cs) = all_links cs"
  by (induction cs) (simp_all add: all_links_simps)

lemma numbered_conns_keys:
  "map (\<lambda>x. (ob_key x, ob_RV x)) (numbered_conns f cs) = map (\<lambda>x. (ob_key x, ob_RV x)) (filter is_link_conn cs)"
  by (induction cs arbitrary: f) simp_all

lemma net_base_even: "prefix_parse s = Inr p \<Longrightarrow> 2 \<le> net_size p \<Longrightarrow> even (net_base p)"
proof (elim prefix_parse_v4)
  fix w n assume "p = v4_prefix w n" "n \<le> 32" "2 \<le> net_size p"
  then have "0 < 32 - n" "p = v4_prefix w n" by (auto intro: ccontr)
  then show "even (net_base p)" by (simp add: unat_v4_base)
qed

lemma net_top:
  assumes "prefix_parse s = Inr p"
  shows "net_base p + net_size p \<le> 2 ^ 32"
proof -
  have "0 < net_size p" by (simp add: net_size_def)
  then have "net_base p \<le> net_base p + net_size p - 1" "net_base p + net_size p - 1 < net_base p + net_size p" by linarith+
  from net_contains(1) [OF assms this] show ?thesis by linarith
qed

lemma hydrate_conns_ok:
  assumes wf: "store_wf (k_Connections k)" "store_wf (k_Gateways k)"
    and plan: "list_all (conn_plannable sws (k_Gateways k)) (k_Connections k)"
    and fabric: "prefix_parse s = Inr fs" "2 * length (all_links (k_Connections k)) \<le> net_size fs"
  shows "\<exists>a k'. efold (hydrate_conn sws) (sort_key ob_Name (store_list (k_Connections k))) (v4_at (net_base fs), k) = Inr (a, k') \<and>
     k_Switches k' = k_Switches k \<and> gateways_grow (k_Gateways k) (k_Gateways k') \<and>
     list_all (link_ok fs) (all_links (store_list (k_Connections k'))) \<and>
     distinct (fabric_ips (store_list (k_Connections k'))) \<and>
     length (all_links (store_list (k_Connections k'))) = length (all_links (k_Connections k))"
proof -
  let ?cs = "sort_key ob_Name (store_list (k_Connections k))" and ?f = "net_base fs"
  let ?n = "2 * length (all_links (k_Connections k))"
  have len: "length (all_links ?cs) = length (all_links (k_Connections k))"
    using all_links_mset [of ?cs "k_Connections k"] by (metis mset_sort size_mset store_list_mset)
  have top: "?f + ?n \<le> 2 ^ 32" using net_top [OF fabric(1)] fabric(2) by linarith
  have keys: "map ob_key (numbered_conns ?f ?cs) = map ob_key (filter is_link_conn ?cs)"
    using arg_cong [OF numbered_conns_keys, of "map fst"] by (simp add: comp_def)
  have sets: "(\<lambda>x. (ob_key x, ob_RV x)) ` set (numbered_conns ?f ?cs) = (\<lambda>x. (ob_key x, ob_RV x)) ` set (filter is_link_conn ?cs)"
    using arg_cong [OF numbered_conns_keys, of set] by simp
  have dk: "distinct (map ob_key ?cs)" using wf(1) by (simp add: store_wf_def store_list_def)
  have "\<exists>s'. efold store_update (numbered_conns ?f ?cs) (k_Connections k) = Inr s' \<and> store_wf s' \<and>
      mset (store_list s') = mset (map bump (numbered_conns ?f ?cs)) +
        mset (filter (\<lambda>z. ob_key z \<notin> ob_key ` set (numbered_conns ?f ?cs)) (store_list (k_Connections k)))"
  proof (rule store.update_all_mset [OF wf(1)])
    show "distinct (map ob_key (numbered_conns ?f ?cs))" unfolding keys using dk by (simp add: distinct_map_filter)
    fix x assume "x \<in> set (numbered_conns ?f ?cs)"
    then have "(ob_key x, ob_RV x) \<in> (\<lambda>x. (ob_key x, ob_RV x)) ` set (filter is_link_conn ?cs)" using sets by blast
    then show "\<exists>y\<in>set (store_list (k_Connections k)). ob_key x = ob_key y \<and> ob_RV x = ob_RV y" by auto
  qed
  then obtain final where final: "efold store_update (numbered_conns ?f ?cs) (k_Connections k) = Inr final"
    "mset (store_list final) = mset (map bump (numbered_conns ?f ?cs) @
        filter (\<lambda>z. ob_key z \<notin> ob_key ` set (numbered_conns ?f ?cs)) (store_list (k_Connections k)))" by auto
  have "list_all (conn_plannable sws (k_Gateways k)) ?cs" using plan by (simp add: list_all_iff)
  from hydrate_conns_run [OF wf(2) this _ final(1)] top len obtain gws' where
    run: "efold (hydrate_conn sws) ?cs (v4_at ?f, k) =
      Inr (v4_at (?f + ?n), k\<lparr>k_Gateways := gws', k_Connections := final\<rparr>)" "gateways_grow (k_Gateways k) gws'"
    by auto
  have "all_links (filter (\<lambda>z. ob_key z \<notin> ob_key ` set (numbered_conns ?f ?cs)) (store_list (k_Connections k))) = []"
    using arg_cong [OF keys, of set] by (fastforce simp: all_links_def intro: not_link_conn)
  then have links: "mset (all_links (store_list final)) = mset (numbered_links ?f (all_links ?cs))"
    using all_links_mset [OF final(2)] by (simp add: all_links_append all_links_bump numbered_conns_links)
  have "list_all (link_ok fs) (numbered_links ?f (all_links ?cs))"
  proof (cases "all_links ?cs = []")
    case False
    then have "2 \<le> net_size fs" using fabric(2) len by (cases "all_links ?cs") auto
    with net_base_even [OF fabric(1)] fabric(2) len show ?thesis
      by (intro numbered_links_ok [OF fabric(1)]) simp_all
  qed simp
  then have "list_all (link_ok fs) (all_links (store_list final))"
    using mset_eq_setD [OF links] by (simp add: list_all_iff)
  moreover have "distinct (fabric_ips (store_list final))"
  proof -
    have "mset (fabric_ips (store_list final)) = mset (map v4_at [?f..<?f + ?n])"
      using mset_concat_map [OF links, of link_ips] numbered_links_ips [of ?f "all_links ?cs"] top len
      by (simp add: fabric_ips_def)
    moreover have "distinct (map v4_at [?f..<?f + ?n])"
      using top by (intro distinct_v4_at) (auto simp: list_all_iff)
    ultimately show ?thesis by (metis mset_eq_imp_distinct_iff)
  qed
  moreover have "length (all_links (store_list final)) = length (all_links (k_Connections k))"
  proof -
    have "length (numbered_links f ls) = length ls" for f ls by (induction ls arbitrary: f) simp_all
    with arg_cong [OF links, of size] len show ?thesis by (simp add: size_mset)
  qed
  ultimately show ?thesis using run by auto
qed

section \<open>Gateways\<close>

lemma gateway_bump [simp]:
  "gt_ProtocolIP (bump g) = gt_ProtocolIP g" "gt_VTEPIP (bump g) = gt_VTEPIP g" "gateway_ok asn vs ps (bump g) = gateway_ok asn vs ps g"
  by (simp_all add: bump_def gateway_ok_def)

lemma hydrate_gateways_ok:
  assumes "store_wf gws" "prefix_parse s = Inr ps" "prefix_parse s' = Inr vs" "asn \<noteq> 0"
    and "net_base ps \<le> p" "p + length gws \<le> net_base ps + net_size ps" "net_base vs \<le> v" "v + length gws \<le> net_base vs + net_size vs"
    and "p + length gws \<le> 2 ^ 32" "v + length gws \<le> 2 ^ 32"
  shows "\<exists>a final. efold (hydrate_gateway asn) (sort_key ob_Name (store_list gws))
      (\<lparr>ga_ProtoIP = v4_at p, ga_VTEPIP = v4_at v, ga_MACOctet = 1\<rparr>, gws) = Inr (a, final) \<and>
    list_all (gateway_ok asn vs ps) (store_list final) \<and> length final = length gws \<and>
    mset (gw_protocol_ips (store_list final)) = mset (map v4_at [p..<p + length gws]) \<and>
    mset (gw_vtep_ips (store_list final)) = mset (map v4_at [v..<v + length gws])"
proof -
  let ?gs = "sort_key ob_Name (store_list gws)"
  let ?ns = "numbered_gws asn p v 1 ?gs"
  have "zip (map ob_key ?ns) (map ob_RV ?ns) = zip (map ob_key ?gs) (map ob_RV ?gs)"
    by (simp only: numbered_gws_keys)
  then have "map (\<lambda>x. (ob_key x, ob_RV x)) ?ns = map (\<lambda>x. (ob_key x, ob_RV x)) ?gs"
    by (simp only: zip_map_map zip_same_conv_map map_map) (simp add: comp_def)
  then have "mset (map (\<lambda>x. (ob_key x, ob_RV x)) ?ns) = mset (map (\<lambda>x. (ob_key x, ob_RV x)) gws)"
    by (simp only: mset_map mset_sort store_list_mset)
  from store_update_all [OF assms(1) this] obtain final where
    final: "efold store_update ?ns gws = Inr final" "mset final = mset (map bump ?ns)" by blast
  have len: "length ?gs = length gws" by simp
  have "list_all (gateway_ok asn vs ps) ?ns"
    using numbered_gws_ok [OF assms(2-4,5) _ assms(7), of ?gs] assms(6,8) by simp
  then have "list_all (gateway_ok asn vs ps) (store_list final)"
    using mset_eq_setD [OF final(2)] by (auto simp: list_all_iff)
  moreover have "mset (gw_protocol_ips (store_list final)) = mset (gw_protocol_ips ?ns)"
    "mset (gw_vtep_ips (store_list final)) = mset (gw_vtep_ips ?ns)"
    by (simp_all add: gw_protocol_ips_def gw_vtep_ips_def final(2) multiset.map_comp comp_def)
  moreover have "gw_protocol_ips ?ns = map v4_at [p..<p + length gws]" "gw_vtep_ips ?ns = map v4_at [v..<v + length gws]"
    using numbered_gws_ips(1) [of p ?gs] numbered_gws_ips(2) [of v ?gs] assms(9,10) by simp_all
  moreover have "length final = length gws"
    using arg_cong [OF final(2), of size] arg_cong [OF numbered_gws_keys(1), of length] by simp
  ultimately show ?thesis using hydrate_gateways_run [OF final(1)] by auto
qed

section \<open>The whole hydration\<close>

lemma hydration_start_facts:
  assumes "hydration_start c = Inr (mn, ds, s)"
  shows "prefix_parse (ManagementSubnet (Control c)) = Inr (mn_subnet mn)"
    and "prefix_contains (mn_subnet mn) (mn_dhcp_start mn)"
    and "prefix_parse (DummySubnet (Control c)) = Inr ds"
    and "\<exists>vip. prefix_parse (VIP (Control c)) = Inr vip \<and> pf_addr vip = ip_of (VIP (Control c))"
  using assms by (auto simp: hydration_start_def ok_iff ip_of_prefix_parse split: if_splits)

lemma plannable_after:
  assumes "conn_ready k c" "map ob_Name sws' = map ob_Name sws" "set sws = set (k_Switches k)"
    and "\<And>sw. sw \<in> set sws' \<Longrightarrow> 0 < sw_ASN sw"
  shows "conn_plannable sws' (k_Gateways k) c"
proof -
  have "ob_Name ` set sws' = ob_Name ` set (k_Switches k)"
    using arg_cong [OF assms(2), of set] assms(3) by simp
  then have "switch_asn sws' name \<noteq> 0" if "name \<in> ob_Name ` set (k_Switches k)" for name
  proof -
    have "name \<in> ob_Name ` set sws'" using that \<open>ob_Name ` set sws' = _\<close> by simp
    then obtain sw where "find (\<lambda>sw. ob_Name sw = name) sws' = Some sw"
      by (cases "find (\<lambda>sw. ob_Name sw = name) sws'") (auto simp: find_None_iff)
    moreover from this have "sw \<in> set sws'" by (auto simp: find_Some_iff)
    ultimately show ?thesis using assms(4) [of sw] by (simp add: switch_asn_def)
  qed
  with assms(1) show ?thesis
    by (auto simp: conn_ready_def conn_plannable_def gateway_link_ready_def gateway_link_plannable_def list_all_iff)
qed

text \<open>The leaves of the stored switches pass the check, and the gateways find their addresses free.\<close>

lemma stored_leaves_ok:
  assumes "leaf_run_ok v asn j sws" "v + j \<le> 2 ^ 32" "j < 2 ^ 32"
    and final: "store_wf final" "mset final = mset (map bump sws)"
    and gws: "mset (gw_vtep_ips gws) = mset (map v4_at [v + j..<v + j + g])" "v + j + g \<le> 2 ^ 32"
  shows "chain leaf_fresh leaf_reg (store_list final) ([], [], []) \<and>
     fresh_list (gw_vtep_ips gws) (map vtep_ip (leaves (store_list final)))"
proof -
  have set: "set (leaves (store_list final)) = bump ` set (leaves sws)"
    using mset_eq_setD [OF final(2)] by (auto simp: leaves_def)
  have "chain leaf_fresh leaf_reg (store_list final) ([], [], [])"
  proof (rule leaf_pairs_chain)
    show "distinct (store_list final)"
      using final(1) by (simp add: store_wf_def store_list_def distinct_map)
    show "leaf_pair_unique a b" if "a \<in> set (leaves (store_list final))" "b \<in> set (leaves (store_list final))" "a \<noteq> b" for a b
    proof -
      from that obtain y z where yz: "a = bump y" "b = bump z" "y \<in> set (leaves sws)" "z \<in> set (leaves sws)"
        unfolding set by blast
      with that(3) have "y \<noteq> z" by blast
      with leaf_run_facts(1) [OF assms(1-3) yz(3,4)] yz(1,2) show ?thesis by simp
    qed
  qed
  moreover have "distinct (gw_vtep_ips gws)"
  proof -
    have "distinct (map v4_at [v + j..<v + j + g])" using gws(2) by (intro distinct_v4_at) (auto simp: list_all_iff)
    then show ?thesis using mset_eq_imp_distinct_iff [OF gws(1)] by simp
  qed
  moreover have "set (gw_vtep_ips gws) \<inter> vtep_ip ` set (leaves (store_list final)) = {}"
  proof -
    have ne: "vtep_ip y \<noteq> v4_at n" if y: "y \<in> set (leaves sws)" "v + j \<le> n" for y n
    proof -
      obtain i where "i < j" "vtep_ip y = v4_at (v + i)" using leaf_run_facts(2) [OF assms(1-3) y(1)] by blast
      with y(2) assms(2) show ?thesis by (simp add: v4_at_inj)
    qed
    have "set (gw_vtep_ips gws) = v4_at ` {v + j..<v + j + g}" using mset_eq_setD [OF gws(1)] by simp
    moreover have "vtep_ip ` set (leaves (store_list final)) = vtep_ip ` set (leaves sws)"
      unfolding set by (simp add: image_image)
    ultimately have "\<exists>n y. x = v4_at n \<and> v + j \<le> n \<and> x = vtep_ip y \<and> y \<in> set (leaves sws)"
      if "x \<in> set (gw_vtep_ips gws) \<inter> vtep_ip ` set (leaves (store_list final))" for x
      using that by auto
    then show ?thesis using ne by fastforce
  qed
  ultimately show ?thesis by (simp add: fresh_list_def)
qed

lemma switches_run_names: "switches_run bits sp m p v asn us vs a \<Longrightarrow> map ob_Name vs = map ob_Name us"
proof -
  assume "switches_run bits sp m p v asn us vs a"
  then have "map (\<lambda>(k, _). snd k) (map switch_id vs) = map (\<lambda>(k, _). snd k) (map switch_id us)"
    by (simp add: switches_run_def)
  then show ?thesis by (simp add: switch_id_def ob_key_def comp_def)
qed

lemma mset_map_ips:
  "mset s' = mset (map bump sws) \<Longrightarrow> mset (switch_ips (store_list s')) = mset (switch_ips sws)"
  "mset s' = mset (map bump sws) \<Longrightarrow> mset (protocol_ips (store_list s')) = mset (protocol_ips sws)"
  by (simp_all add: switch_ips_def protocol_ips_def multiset.map_comp comp_def)

lemma hydratableE:
  assumes "hydratable hc k"
  obtains mn ds s vs ps fs where "hydration_start (Config (hc_Fab hc)) = Inr (mn, ds, s)"
    "prefix_parse (VTEPSubnet (Fabric (Config (hc_Fab hc)))) = Inr vs"
    "prefix_parse (ProtocolSubnet (Fabric (Config (hc_Fab hc)))) = Inr ps"
    "prefix_parse (FabricSubnet (Fabric (Config (hc_Fab hc)))) = Inr fs"
    "ip_of (VIP (Control (Config (hc_Fab hc)))) = v4_at (net_base (mn_subnet mn) + 1)"
    "subnets_room mn ds vs ps fs hc k" "asns_room (Config (hc_Fab hc)) (length (leaves (k_Switches k)))"
    "wiring_ready k" "some_value hc k"
proof -
  note h = assms [unfolded hydratable_def Let_def]
  obtain r where r: "hydration_start (Config (hc_Fab hc)) = Inr r"
    using h by (cases "hydration_start (Config (hc_Fab hc))") auto
  obtain vs where vs: "prefix_parse (VTEPSubnet (Fabric (Config (hc_Fab hc)))) = Inr vs"
    using h r by (cases "prefix_parse (VTEPSubnet (Fabric (Config (hc_Fab hc))))") (auto split: prod.splits)
  obtain ps where ps: "prefix_parse (ProtocolSubnet (Fabric (Config (hc_Fab hc)))) = Inr ps"
    using h r vs by (cases "prefix_parse (ProtocolSubnet (Fabric (Config (hc_Fab hc))))") (auto split: prod.splits)
  obtain fs where fs: "prefix_parse (FabricSubnet (Fabric (Config (hc_Fab hc)))) = Inr fs"
    using h r vs ps by (cases "prefix_parse (FabricSubnet (Fabric (Config (hc_Fab hc))))") (auto split: prod.splits)
  obtain mn ds s where "r = (mn, ds, s)" by (metis prod_cases3)
  with h r vs ps fs that show ?thesis by simp
qed

text \<open>The stages of the hydration put together.\<close>

lemma hydrate_stages:
  assumes "Config (hc_Fab hc) = c" "prefix_parse (ManagementSubnet (Control c)) = Inr ms"
    and "prefix_parse (VIP (Control c)) = Inr cv" "pf_addr cv = v4_at (net_base ms + 1)"
    and "prefix_parse (DummySubnet (Control c)) = Inr ds"
    and "hydrate_config_nodes ms ds (v4_at (net_base ms + 5)) hc = (hc', v4_at m)"
    and "prefix_parse (VTEPSubnet (Fabric c)) = Inr vs" "prefix_parse (ProtocolSubnet (Fabric c)) = Inr ps"
    and "prefix_parse (FabricSubnet (Fabric c)) = Inr fs"
    and "emap_fold (hydrate_switch (pf_bits ms) (SpineASN (Fabric c))) (sort_key switch_sort_key (store_list (k_Switches k)))
      \<lparr>sa_MgmtIP = v4_at m, sa_ProtoIP = v4_at (net_base ps), sa_VTEPIP = v4_at (net_base vs),
       sa_LeafASN = LeafASNStart (Fabric c), sa_mclagPeer = []\<rparr> = Inr (sws, a)"
    and "efold update_switch sws (k_Switches k) = Inr final"
    and "efold (hydrate_conn sws) (sort_key ob_Name (store_list (k_Connections k)))
      (v4_at (net_base fs), k\<lparr>k_Switches := final\<rparr>) = Inr (f, k')"
    and "length (k_Gateways k') \<le> MaxVTEPMACs"
    and "efold (hydrate_gateway (GwASN (Gateway c))) (sort_key ob_Name (store_list (k_Gateways k')))
      (\<lparr>ga_ProtoIP = sa_ProtoIP a, ga_VTEPIP = sa_VTEPIP a, ga_MACOctet = 1\<rparr>, k_Gateways k') = Inr (ga, gws)"
  shows "hydrate (hc, k) = Inr (hc', k'\<lparr>k_Gateways := gws\<rparr>)"
proof -
  have "addr_next (pf_addr (prefix_masked ms)) = v4_at (net_base ms + 1)"
    using net_addr [OF assms(2)] by simp
  moreover have "(addr_next ^^ 4) (v4_at (net_base ms + 1)) = v4_at (net_base ms + 5)"
    by (simp add: add.commute del: funpow.simps)
  ultimately show ?thesis
    using assms net_addr [OF assms(7)] net_addr [OF assms(8)] net_addr [OF assms(9)]
    by (simp add: hydrate_def Let_def del: funpow.simps)
qed

text \<open>The values the stages leave behind, read by the check.\<close>

lemma stages_check:
  assumes "Config (hc_Fab hc') = c" "hydration_start c = Inr (mn, ds, s)"
    and subnets: "prefix_parse (VTEPSubnet (Fabric c)) = Inr vs" "prefix_parse (ProtocolSubnet (Fabric c)) = Inr ps"
      "prefix_parse (FabricSubnet (Fabric c)) = Inr fs"
    and vip: "ip_of (VIP (Control c)) = v4_at (B + 1)"
    and nodes: "mgmt_ips (hc_Controls hc') @ mgmt_ips (hc_Nodes hc') = map v4_at [B + 5..<m]"
      "dummy_ips (hc_Controls hc') @ dummy_ips (hc_Nodes hc') = map (\<lambda>i. v4_at (D + 2 * i)) [0..<n]"
      "list_all (node_ok mn ds) (hc_Controls hc')" "list_all (node_ok mn ds) (hc_Nodes hc')"
    and switches: "list_all (switch_ok mn (Fabric c) vs ps) sws" "switch_ips sws = map v4_at [m..<m']"
      "protocol_ips sws = map v4_at [p..<p']" "mset (k_Switches k) = mset (map bump sws)"
    and links: "list_all (link_ok fs) (all_links (store_list (k_Connections k)))" "distinct (fabric_ips (store_list (k_Connections k)))"
    and gws: "list_all (gateway_ok (GwASN (Gateway c)) vs ps) (store_list (k_Gateways k))"
      "mset (gw_protocol_ips (store_list (k_Gateways k))) = mset (map v4_at [p'..<p''])"
    and vteps: "vteps_ok k" and some: "some_value hc' k"
    and bounds: "B + 5 \<le> m" "m \<le> m'" "m' \<le> 2 ^ 32" "D + 2 * n \<le> 2 ^ 32" "p \<le> p'" "p' \<le> p''" "p'' \<le> 2 ^ 32"
  shows "getHydration hc' k = Inr HydrationStatusFull"
proof -
  have "list_all (switch_ok mn (Fabric c) vs ps) (store_list (k_Switches k))"
    using switches(1) mset_eq_setD [OF switches(4)] by (auto simp: list_all_iff)
  then have ok: "values_ok mn ds vs ps fs hc' k" using nodes links gws assms(1) by (simp add: values_ok_def)
  have "mset (management_addresses hc' k) = mset (map v4_at ((B + 1) # [B + 5..<m] @ [m..<m']))"
    using arg_cong [OF nodes(1), of mset] mset_map_ips(1) [OF switches(4)]
    by (simp add: management_addresses_def assms(1) vip switches(2))
  moreover have "distinct (map v4_at ((B + 1) # [B + 5..<m] @ [m..<m']))"
    using bounds by (intro distinct_v4_at) (auto simp: list_all_iff)
  ultimately have m: "distinct (management_addresses hc' k)" by (metis mset_eq_imp_distinct_iff)
  have "distinct (map v4_at (map (\<lambda>i. D + 2 * i) [0..<n]))"
    using bounds(4) by (intro distinct_v4_at) (auto simp: list_all_iff distinct_map inj_on_def)
  then have dd: "distinct (dummy_addresses hc')" by (simp add: dummy_addresses_def nodes(2) comp_def)
  have "mset (protocol_addresses k) = mset (map v4_at ([p..<p'] @ [p'..<p'']))"
    using gws(2) mset_map_ips(2) [OF switches(4)] by (simp add: protocol_addresses_def switches(3))
  moreover have "distinct (map v4_at ([p..<p'] @ [p'..<p'']))"
    using bounds by (intro distinct_v4_at) (auto simp: list_all_iff)
  ultimately have "distinct (protocol_addresses k)" by (metis mset_eq_imp_distinct_iff)
  with m dd links(2) vteps have "values_unique hc' k" by (simp add: values_unique_def fabric_addresses_def)
  with ok some assms(2) hydration_start_state [OF assms(2)] subnets show ?thesis
    unfolding getHydration_full_iff assms(1) by blast
qed

lemma hydrate_full_lemma:
  assumes "hydratable hc k"
  shows "\<exists>hc' k'. hydrate (hc, k) = Inr (hc', k') \<and> getHydration hc' k' = Inr HydrationStatusFull"
proof -
  define c where "c = Config (hc_Fab hc)"
  from hydratableE [OF assms] obtain mn ds s vs ps fs where start: "hydration_start c = Inr (mn, ds, s)"
    and sub: "prefix_parse (VTEPSubnet (Fabric c)) = Inr vs" "prefix_parse (ProtocolSubnet (Fabric c)) = Inr ps"
      "prefix_parse (FabricSubnet (Fabric c)) = Inr fs"
    and vip: "ip_of (VIP (Control c)) = v4_at (net_base (mn_subnet mn) + 1)"
    and room: "subnets_room mn ds vs ps fs hc k" and asns: "asns_room c (length (leaves (k_Switches k)))"
    and ready: "wiring_ready k" and some: "some_value hc k"
    unfolding c_def by blast
  note st = hydration_start_facts [OF start]
  let ?B = "net_base (mn_subnet mn)" and ?n = "length (hc_Controls hc) + length (hc_Nodes hc)"
  let ?s = "length (k_Switches k)" and ?g = "length (k_Gateways k)" and ?l = "length (leaves (k_Switches k))"
  let ?us = "sort_key switch_sort_key (store_list (k_Switches k))"
  from room obtain d where d: "mn_dhcp_start mn = V4 d" "?B + 5 + ?n + ?s \<le> unat d"
    by (auto simp: subnets_room_def Let_def split: addr.splits)
  have sizes: "2 * ?n \<le> net_size ds" "?l + ?g \<le> net_size vs" "?s + ?g \<le> net_size ps"
    "2 * length (all_links (k_Connections k)) \<le> net_size fs" using room by (auto simp: subnets_room_def Let_def)
  have mgmt: "prefix_contains (mn_subnet mn) (V4 d)" using st(2) d(1) by simp
  have small: "?s \<le> 2 ^ 32" "?B + 5 + ?n + ?s \<le> 2 ^ 32"
    using d(2) unsigned_less [of d, where ?'a = nat] by simp_all
  have wf: "store_wf (k_Switches k)" "store_wf (k_Connections k)" "store_wf (k_Gateways k)"
    "list_all switch_plannable (k_Switches k)" using ready by (simp_all add: wiring_ready_def)
  from st(4) obtain cv where cv: "prefix_parse (VIP (Control c)) = Inr cv" "pf_addr cv = v4_at (?B + 1)" using vip by auto
  from hydrate_config_nodes_ok [OF st(1) d(1) mgmt, of "?B + 5" hc, OF _ _ st(3) sizes(1)] d(2) obtain hc' where
    hc': "hydrate_config_nodes (mn_subnet mn) ds (v4_at (?B + 5)) hc = (hc', v4_at (?B + 5 + ?n))"
    "hc_Fab hc' = hc_Fab hc" "length (hc_Controls hc') = length (hc_Controls hc)" "length (hc_Nodes hc') = length (hc_Nodes hc)"
    "mgmt_ips (hc_Controls hc') @ mgmt_ips (hc_Nodes hc') = map v4_at [?B + 5..<?B + 5 + ?n]"
    "dummy_ips (hc_Controls hc') @ dummy_ips (hc_Nodes hc') = map (\<lambda>i. v4_at (net_base ds + 2 * i)) [0..<?n]"
    "list_all (node_ok mn ds) (hc_Controls hc')" "list_all (node_ok mn ds) (hc_Nodes hc')" by auto
  from hydrate_switches_ok [OF wf(1,4) small(1), of "pf_bits (mn_subnet mn)" "SpineASN (Fabric c)" "?B + 5 + ?n" "net_base ps"
      "net_base vs" "LeafASNStart (Fabric c)"] obtain sws a final
    where sw: "emap_fold (hydrate_switch (pf_bits (mn_subnet mn)) (SpineASN (Fabric c))) ?us
       \<lparr>sa_MgmtIP = v4_at (?B + 5 + ?n), sa_ProtoIP = v4_at (net_base ps), sa_VTEPIP = v4_at (net_base vs),
        sa_LeafASN = LeafASNStart (Fabric c), sa_mclagPeer = []\<rparr> = Inr (sws, a)"
    and run: "switches_run (pf_bits (mn_subnet mn)) (SpineASN (Fabric c)) (?B + 5 + ?n) (net_base ps) (net_base vs)
        (LeafASNStart (Fabric c)) ?us sws a"
    and fin: "efold update_switch sws (k_Switches k) = Inr final" "store_wf final" "mset final = mset (map bump sws)"
    by blast
  have us: "length ?us = ?s" "length (leaves ?us) = ?l" "list_all switch_plannable ?us"
    using wf(4) mset_filter [of "\<lambda>sw. IsLeaf (sw_Role sw)"] by (simp_all add: list_all_iff leaves_def)
      (metis mset_filter mset_sort size_mset store_list_mset)
  have swok: "list_all (switch_ok mn (Fabric c) vs ps) sws \<and> switch_ips sws = map v4_at [?B + 5 + ?n..<?B + 5 + ?n + ?s] \<and>
      protocol_ips sws = map v4_at [net_base ps..<net_base ps + ?s]"
    using numbered_switches_ok [OF st(1) d(1) mgmt _ _ sub(2) refl _ sub(1) refl _ _ us(3) run] us d(2) sizes asns by simp
  let ?k = "k\<lparr>k_Switches := final\<rparr>"
  have "list_all (conn_plannable sws (k_Gateways k)) (k_Connections k)"
    using ready swok by (auto simp: wiring_ready_def list_all_iff switch_ok_def
        intro!: plannable_after [OF _ switches_run_names [OF run]])
  with hydrate_conns_ok [of ?k sws, OF _ _ _ sub(3)] wf(2,3) sizes(4) obtain f k' where
    conns: "efold (hydrate_conn sws) (sort_key ob_Name (store_list (k_Connections k))) (v4_at (net_base fs), ?k) = Inr (f, k')"
      "k_Switches k' = final" "gateways_grow (k_Gateways k) (k_Gateways k')"
      "list_all (link_ok fs) (all_links (store_list (k_Connections k')))"
      "distinct (fabric_ips (store_list (k_Connections k')))"
      "length (all_links (store_list (k_Connections k'))) = length (all_links (k_Connections k))" by auto
  have gwf: "store_wf (k_Gateways k')" "length (k_Gateways k') = ?g" using conns(3) by (simp_all add: gateways_grow_def)
  from run obtain j where j: "j \<le> ?l" "sa_VTEPIP a = v4_at (net_base vs + j)" "sa_ProtoIP a = v4_at (net_base ps + ?s)"
    "leaf_run_ok (net_base vs) (LeafASNStart (Fabric c)) j sws" unfolding switches_run_def us by blast
  have "?l \<le> ?s" by (simp add: leaves_def)
  then have bounds: "net_base vs + j + ?g \<le> net_base vs + net_size vs" "net_base ps + ?s + ?g \<le> net_base ps + net_size ps"
    "net_base vs + j + ?g \<le> 2 ^ 32" "net_base ps + ?s + ?g \<le> 2 ^ 32" "net_base ds + 2 * ?n \<le> 2 ^ 32" "j < 2 ^ 32"
    using sizes j(1) net_top [OF sub(1)] net_top [OF sub(2)] net_top [OF st(3)] small(2) by linarith+
  have gwasn: "GwASN (Gateway c) \<noteq> 0" using asns by (simp add: asns_room_def)
  from hydrate_gateways_ok [OF gwf(1) sub(2,1) gwasn, of "net_base ps + ?s" "net_base vs + j"] bounds gwf(2) obtain ga gws where
    gw: "efold (hydrate_gateway (GwASN (Gateway c))) (sort_key ob_Name (store_list (k_Gateways k')))
        (\<lparr>ga_ProtoIP = sa_ProtoIP a, ga_VTEPIP = sa_VTEPIP a, ga_MACOctet = 1\<rparr>, k_Gateways k') = Inr (ga, gws)"
      "list_all (gateway_ok (GwASN (Gateway c)) vs ps) (store_list gws)" "length gws = ?g"
      "mset (gw_protocol_ips (store_list gws)) = mset (map v4_at [net_base ps + ?s..<net_base ps + ?s + ?g])"
      "mset (gw_vtep_ips (store_list gws)) = mset (map v4_at [net_base vs + j..<net_base vs + j + ?g])"
    unfolding j by auto
  let ?k' = "k'\<lparr>k_Gateways := gws\<rparr>"
  have "hydrate (hc, k) = Inr (hc', ?k')"
    by (rule hydrate_stages [OF c_def [symmetric] st(1) cv st(3) hc'(1) sub sw fin(1) conns(1) _ gw(1)])
      (use gwf ready in \<open>simp add: wiring_ready_def\<close>)
  moreover have "vteps_ok ?k'"
    using stored_leaves_ok [OF j(4) _ bounds(6) fin(2,3) gw(5)] bounds conns(2) by (simp add: vteps_ok_def)
  moreover have "some_value hc' ?k'"
  proof -
    have "length final = ?s" using arg_cong [OF fin(3), of size] arg_cong [OF switches_run_names [OF run], of length] us by simp
    moreover have "length (all_links (store_list (k_Connections k))) = length (all_links (k_Connections k))"
      using all_links_mset [of "store_list (k_Connections k)" "k_Connections k"] by (metis size_mset store_list_mset)
    ultimately show ?thesis using some hc'(3,4) conns(2,6) gw(3)
      unfolding some_value_def length_greater_0_conv [symmetric] by simp
  qed
  ultimately have "getHydration hc' ?k' = Inr HydrationStatusFull"
    using swok conns(2,4,5) fin(3) gw(2,4) bounds small(2) hc'(2)
    by (intro stages_check [OF _ start sub vip hc'(5-8), where p = "net_base ps" and p' = "net_base ps + ?s"
          and p'' = "net_base ps + ?s + ?g" and m' = "?B + 5 + ?n + ?s" and sws = sws]) (simp_all add: c_def)
  with \<open>hydrate (hc, k) = _\<close> show ?thesis by blast
qed

end
