(* ===== verification/HydrateProps.thy ===== *)
theory HydrateProps
  imports HydrateFull
begin

text \<open>
  The properties of the hydration, with a small wiring as their witness: a control node, one spine,
  an MCLAG pair and a single leaf, and a gateway.
\<close>

section \<open>A wiring\<close>

definition bare_switch :: "string \<Rightarrow> string \<Rightarrow> string \<Rightarrow> string \<Rightarrow> switch" where
  "bare_switch name role grp red =
     \<lparr>ob_Namespace = NamespaceDefault, ob_Name = name, ob_RV = 1, sw_Role = role, sw_RedGroup = grp,
      sw_RedType = red, sw_ASN = 0, sw_IP = '''', sw_VTEPIP = '''', sw_ProtocolIP = ''''\<rparr>"

definition bare_link :: "string \<Rightarrow> string \<Rightarrow> p2p_link" where
  "bare_link a b = \<lparr>ln_A = \<lparr>le_Port = a, le_IP = ''''\<rparr>, ln_B = \<lparr>le_Port = b, le_IP = ''''\<rparr>\<rparr>"

definition bare_conn :: "string \<Rightarrow> connection" where
  "bare_conn name = \<lparr>ob_Namespace = NamespaceDefault, ob_Name = name, ob_RV = 1, cn_Fabric = None, cn_Mesh = None, cn_Gateway = None\<rparr>"

definition bare_gateway :: "string \<Rightarrow> gateway" where
  "bare_gateway name =
     \<lparr>ob_Namespace = NamespaceDefault, ob_Name = name, ob_RV = 1, gt_ProtocolIP = '''', gt_VTEPIP = '''',
      gt_VTEPMAC = '''', gt_ASN = 0, gt_VTEPMTU = 0,
      gt_Interfaces = [(''enp2s1'', \<lparr>gi_PCI = '''', gi_Kernel = ''enp2s1'', gi_IPs = [], gi_MTU = 0\<rparr>)], gt_Neighbors = []\<rparr>"

definition example_control :: control_node where
  "example_control =
     \<lparr>nd_Name = ''control-1'', nd_Namespace = FabNamespace, nd_Disk = ''/dev/sda'', nd_MgmtIP = '''',
      nd_MgmtInterface = ''enp2s1'', nd_DummyIP = '''', ext_IP = PrefixDHCP, ext_Gateway = '''', ext_DNS = [],
      ext_Interface = ''enp2s0''\<rparr>"

definition example_hhfab :: hhfab_config where
  "example_hhfab = \<lparr>hc_Fab = example_fab, hc_Controls = [example_control], hc_Nodes = []\<rparr>"

definition example_kube :: kube where
  "example_kube =
     \<lparr>k_Switches = [bare_switch ''leaf-1'' SwitchRoleServerLeaf ''mclag-1'' RedundancyTypeMCLAG,
        bare_switch ''leaf-2'' SwitchRoleServerLeaf ''mclag-1'' RedundancyTypeMCLAG,
        bare_switch ''leaf-3'' SwitchRoleBorderLeaf '''' '''', bare_switch ''spine-1'' SwitchRoleSpine '''' ''''],
      k_Connections =
        [bare_conn ''server-1--unbundled--leaf-3'',
         (bare_conn ''spine-1--fabric--leaf-1'')\<lparr>cn_Fabric := Some [bare_link ''spine-1/E1/1'' ''leaf-1/E1/1'',
           bare_link ''spine-1/E1/2'' ''leaf-1/E1/2'']\<rparr>,
         (bare_conn ''spine-1--gateway--gateway-1'')\<lparr>cn_Gateway := Some [bare_link ''spine-1/E1/3'' ''gateway-1/enp2s1'']\<rparr>],
      k_Gateways = [bare_gateway ''gateway-1'']\<rparr>"

lemma example_start:
  "hydration_start (Config example_fab) =
     Inr (\<lparr>mn_subnet = v4_prefix 0xAC1E0000 21, mn_dhcp_start = V4 0xAC1E0400\<rparr>, v4_prefix 0xAC1E5A00 24,
       start_state (V4 0xAC1E0001))"
  by (simp add: hydration_start_def example_fab_def example_eval default_subnets_parse contains_v4_iff start_state_def
      v4_prefix_def [of _ "32"])

lemma example_stores:
  "store_wf (k_Switches example_kube)" "store_wf (k_Connections example_kube)" "store_wf (k_Gateways example_kube)"
  by (simp_all add: store_wf_def ob_key_def example_kube_def bare_switch_def bare_conn_def bare_gateway_def)

lemma example_leaves: "length (leaves (k_Switches example_kube)) = 3"
  by (simp add: leaves_def example_kube_def bare_switch_def IsLeaf_def SwitchRoleSpine_def SwitchRoleServerLeaf_def
      SwitchRoleBorderLeaf_def SwitchRoleMixedLeaf_def)

lemma example_links: "length (all_links (k_Connections example_kube)) = 3"
  by (simp add: all_links_def conn_links_def example_kube_def bare_conn_def)

lemma example_lengths:
  "length (k_Switches example_kube) = 4" "length (k_Gateways example_kube) = 1"
  "length (hc_Controls example_hhfab) = 1" "length (hc_Nodes example_hhfab) = 0"
  "hc_Controls example_hhfab \<noteq> []"
  by (simp_all add: example_kube_def example_hhfab_def)

lemma example_plannable: "list_all switch_plannable (k_Switches example_kube)"
  by (simp add: switch_plannable_def example_kube_def bare_switch_def SwitchRoles_def IsLeaf_def SwitchRoleSpine_def
      SwitchRoleServerLeaf_def SwitchRoleBorderLeaf_def SwitchRoleMixedLeaf_def RedundancyTypeMCLAG_def)

lemma example_conns: "list_all (conn_ready example_kube) (k_Connections example_kube)"
  by (simp add: conn_ready_def example_kube_def bare_conn_def bare_switch_def conn_links_def gateway_link_ready_def
      bare_link_def LocalPortName_def DeviceName_def split2_def has_iface_def bare_gateway_def ob_key_def)

lemma example_config_sel:
  "Config (hc_Fab example_hhfab) = Config example_fab"
  "prefix_parse (VTEPSubnet (Fabric (Config example_fab))) = Inr (v4_prefix 0xAC1E0C00 22)"
  "prefix_parse (ProtocolSubnet (Fabric (Config example_fab))) = Inr (v4_prefix 0xAC1E0800 22)"
  "prefix_parse (FabricSubnet (Fabric (Config example_fab))) = Inr (v4_prefix 0xAC1E8000 17)"
  "ip_of (VIP (Control (Config example_fab))) = V4 0xAC1E0001"
  "asns_room (Config example_fab) 3"
  by (simp_all add: example_hhfab_def example_fab_def example_eval default_subnets_parse asns_room_def
      ip_of_prefix_parse [OF default_subnets_parse(2)])

lemma example_hydratable: "hydratable example_hhfab example_kube"
  by (simp add: hydratable_def Let_def example_config_sel example_start subnets_room_def example_lengths
      example_leaves example_links unat_v4_base wiring_ready_def example_stores example_plannable example_conns
      MaxVTEPMACs_def some_value_def v4_at_def)

section \<open>Hydration is complete\<close>

text \<open>
  C4. Where the subnets, the DHCP range and the ASN range of the configuration have room for the
  nodes, switches, links and gateways, and the gateway links name known interfaces and switches,
  the hydration succeeds: no update of the client is refused, and the check that follows reports
  the wiring fully hydrated.
\<close>

theorem hydrate_full:
  assumes "hydratable hc k"
  shows "\<exists>hc' k'. hydrate (hc, k) = Inr (hc', k') \<and> getHydration hc' k' = Inr HydrationStatusFull"
  using assms by (rule hydrate_full_lemma)

theorem hydrate_full_witness:
  "\<exists>hc' k'. hydrate (example_hhfab, example_kube) = Inr (hc', k') \<and> getHydration hc' k' = Inr HydrationStatusFull"
  by (rule hydrate_full [OF example_hydratable])

section \<open>What a full hydration means\<close>

definition in_subnet :: "string \<Rightarrow> addr \<Rightarrow> bool" where
  "in_subnet s a = (case prefix_parse s of Inl _ \<Rightarrow> False | Inr p \<Rightarrow> prefix_contains p a)"

lemma mgmt_ok_subnet:
  "prefix_parse s = Inr (mn_subnet mn) \<Longrightarrow> mgmt_ok mn (parse_prefix t) \<Longrightarrow> in_subnet s (ip_of t)"
  "prefix_parse s = Inr (mn_subnet mn) \<Longrightarrow> mgmt_ok mn (prefix_parse t) \<Longrightarrow> in_subnet s (ip_of t)"
  by (auto simp: in_subnet_def ip_of_parse ip_of_prefix_parse elim!: mgmt_okE)

lemma host_ok_subnet:
  "prefix_parse s = Inr p \<Longrightarrow> host_ok p b (parse_prefix t) \<Longrightarrow> in_subnet s (ip_of t)"
  "prefix_parse s = Inr p \<Longrightarrow> host_ok p b (prefix_parse t) \<Longrightarrow> in_subnet s (ip_of t)"
  by (auto simp: in_subnet_def ip_of_parse ip_of_prefix_parse elim!: host_okE)

lemma values_ok_subnets:
  assumes "values_ok mn ds vs ps fs hc k" "c = Config (hc_Fab hc)"
    and "prefix_parse (ManagementSubnet (Control c)) = Inr (mn_subnet mn)" "prefix_parse (DummySubnet (Control c)) = Inr ds"
    and "prefix_parse (ProtocolSubnet (Fabric c)) = Inr ps" "prefix_parse (FabricSubnet (Fabric c)) = Inr fs"
  shows "list_all (in_subnet (ManagementSubnet (Control c))) (tl (management_addresses hc k))"
    and "list_all (in_subnet (DummySubnet (Control c))) (dummy_addresses hc)"
    and "list_all (in_subnet (ProtocolSubnet (Fabric c))) (protocol_addresses k)"
    and "list_all (in_subnet (FabricSubnet (Fabric c))) (fabric_addresses k)"
  using assms(1) mgmt_ok_subnet [OF assms(3)] host_ok_subnet [OF assms(4)] host_ok_subnet [OF assms(5)] host_ok_subnet [OF assms(6)]
  by (auto simp: list_all_iff values_ok_def node_ok_def switch_ok_def gateway_ok_def link_ok_def management_addresses_def
      mgmt_ips_def switch_ips_def dummy_addresses_def dummy_ips_def protocol_addresses_def protocol_ips_def
      gw_protocol_ips_def fabric_addresses_def fabric_ips_def link_ips_def)

text \<open>
  C5. When the check reports a full hydration, the management addresses (the control VIP, the nodes
  and the switches), the dummy addresses, the protocol addresses of switches and gateways and the
  addresses of the fabric links are each pairwise different, and all but the VIP lie in their subnet.
\<close>

theorem full_hydration_addresses:
  assumes "getHydration hc k = Inr HydrationStatusFull"
  shows "distinct (management_addresses hc k) \<and> distinct (dummy_addresses hc) \<and>
    distinct (protocol_addresses k) \<and> distinct (fabric_addresses k) \<and>
    list_all (in_subnet (ManagementSubnet (Control (Config (hc_Fab hc))))) (tl (management_addresses hc k)) \<and>
    list_all (in_subnet (DummySubnet (Control (Config (hc_Fab hc))))) (dummy_addresses hc) \<and>
    list_all (in_subnet (ProtocolSubnet (Fabric (Config (hc_Fab hc))))) (protocol_addresses k) \<and>
    list_all (in_subnet (FabricSubnet (Fabric (Config (hc_Fab hc))))) (fabric_addresses k)"
proof -
  from assms obtain mn ds s vs ps fs where start: "hydration_start (Config (hc_Fab hc)) = Inr (mn, ds, s)"
    and sub: "prefix_parse (ProtocolSubnet (Fabric (Config (hc_Fab hc)))) = Inr ps"
      "prefix_parse (FabricSubnet (Fabric (Config (hc_Fab hc)))) = Inr fs"
    and ok: "values_ok mn ds vs ps fs hc k" and "values_unique hc k"
    unfolding getHydration_full_iff by blast
  then show ?thesis
    using values_ok_subnets [OF ok refl hydration_start_facts(1,3) [OF start] sub] by (simp add: values_unique_def)
qed

theorem full_hydration_addresses_witness:
  "\<exists>hc k. getHydration hc k = Inr HydrationStatusFull \<and> distinct (management_addresses hc k)"
proof -
  obtain hc k where "getHydration hc k = Inr HydrationStatusFull"
    using hydrate_full_lemma [OF example_hydratable] by blast
  with full_hydration_addresses [OF this] show ?thesis by blast
qed

lemma leaf_before:
  assumes "chain leaf_fresh leaf_reg (us @ x # vs) ([], [], [])" "c \<in> set (leaves us)" "IsLeaf (sw_Role x)"
  shows "if same_group c x then sw_ASN c = sw_ASN x \<and> sw_VTEPIP c = sw_VTEPIP x
         else sw_ASN c \<noteq> sw_ASN x \<and> (is_mclag x \<or> vtep_ip c \<noteq> vtep_ip x)"
proof -
  have ch: "chain leaf_fresh leaf_reg us ([], [], [])" and fx: "leaf_fresh x (leaf_run us)"
    using assms(1) by (simp_all add: chain_append)
  show ?thesis
  proof (cases "if is_mclag x then find (\<lambda>sw. is_mclag sw \<and> sw_RedGroup sw = sw_RedGroup x) us else None")
    case None
    then have "\<not> same_group c x"
      using assms(2) by (auto simp: same_group_def find_None_iff leaves_def split: if_splits)
    then show ?thesis using fx None assms(2,3) by (fastforce simp: leaf_fresh_run image_iff)
  next
    case (Some p)
    then have p: "p \<in> set (leaves us)" "same_group p x"
      by (auto simp: find_Some_iff same_group_def leaves_def is_mclag_leaf split: if_splits)
    have eq: "sw_ASN p = sw_ASN x" "sw_VTEPIP p = sw_VTEPIP x" using fx Some assms(3) by (auto simp: leaf_fresh_run)
    show ?thesis
    proof (cases "c = p")
      case True
      then show ?thesis using p(2) eq by simp
    next
      case False
      then show ?thesis using leaf_chain_pairs [OF ch assms(2) p(1)] p(2) eq by (auto simp: leaf_pair_ok_def same_group_def)
    qed
  qed
qed

text \<open>
  C6. In a full hydration two leaves of one MCLAG group have the same ASN and VTEP address. Any two other leaves have
  different ASNs, and where the one that is listed later is not of an MCLAG group its VTEP address differs from those of
  all leaves listed before it. No gateway has the VTEP address of a leaf.
\<close>

theorem full_hydration_leaves:
  assumes "getHydration hc k = Inr HydrationStatusFull" "store_list (k_Switches k) = us @ b # vs"
    and "a \<in> set us" "IsLeaf (sw_Role a)" "IsLeaf (sw_Role b)"
  shows "(if same_group a b then sw_ASN a = sw_ASN b \<and> sw_VTEPIP a = sw_VTEPIP b
          else sw_ASN a \<noteq> sw_ASN b \<and> (\<not> is_mclag b \<longrightarrow> vtep_ip a \<noteq> vtep_ip b)) \<and>
         {vtep_ip a, vtep_ip b} \<inter> set (gw_vtep_ips (k_Gateways k)) = {}"
proof -
  from assms(1) have v: "vteps_ok k" unfolding getHydration_full_iff values_unique_def by blast
  have a: "a \<in> set (leaves us)" using assms(3,4) by (simp add: leaves_def)
  have "chain leaf_fresh leaf_reg (us @ b # vs) ([], [], [])" using v assms(2) by (simp add: vteps_ok_def)
  note pair = leaf_before [OF this a assms(5)]
  have "a \<in> set (leaves (store_list (k_Switches k)))" "b \<in> set (leaves (store_list (k_Switches k)))"
    using assms(2-5) by (simp_all add: leaves_def)
  then have "{vtep_ip a, vtep_ip b} \<inter> set (gw_vtep_ips (k_Gateways k)) = {}"
    using v by (auto simp: vteps_ok_def fresh_list_def gw_vtep_ips_def)
  with pair show ?thesis by (auto split: if_splits)
qed

section \<open>A VTEP address used twice\<close>

text \<open>
  The ASN check has already made an MCLAG switch the peer of its own group when its VTEP address is
  checked, so that address is compared with the switch itself and never with those in use.
\<close>

definition leaf_1 :: switch where
  "leaf_1 = (bare_switch ''leaf-1'' SwitchRoleServerLeaf '''' '''')\<lparr>sw_ASN := 65101, sw_IP := ''172.30.0.5/21'',
     sw_ProtocolIP := ''172.30.8.0/32'', sw_VTEPIP := ''172.30.12.0/32''\<rparr>"

definition leaf_2 :: switch where
  "leaf_2 = (bare_switch ''leaf-2'' SwitchRoleServerLeaf ''mclag-1'' RedundancyTypeMCLAG)\<lparr>sw_ASN := 65102,
     sw_IP := ''172.30.0.6/21'', sw_ProtocolIP := ''172.30.8.1/32'', sw_VTEPIP := ''172.30.12.0/32''\<rparr>"

definition reuse_kube :: kube where
  "reuse_kube = \<lparr>k_Switches = [leaf_1, leaf_2], k_Connections = [], k_Gateways = []\<rparr>"

definition reuse_hhfab :: hhfab_config where
  "reuse_hhfab = \<lparr>hc_Fab = example_fab, hc_Controls = [], hc_Nodes = []\<rparr>"

lemma reuse_parse:
  "parse_prefix ''172.30.0.5/21'' = Inr (v4_prefix 0xAC1E0005 21)"
  "parse_prefix ''172.30.0.6/21'' = Inr (v4_prefix 0xAC1E0006 21)"
  "parse_prefix ''172.30.8.0/32'' = Inr (v4_prefix 0xAC1E0800 32)"
  "parse_prefix ''172.30.8.1/32'' = Inr (v4_prefix 0xAC1E0801 32)"
  "parse_prefix ''172.30.12.0/32'' = Inr (v4_prefix 0xAC1E0C00 32)"
  by (simp_all add: parse_eval v4_prefix_def)

lemma reuse_leaves:
  "sw_Role leaf_1 = SwitchRoleServerLeaf" "sw_Role leaf_2 = SwitchRoleServerLeaf" "IsLeaf SwitchRoleServerLeaf"
  "is_mclag leaf_1 = False" "is_mclag leaf_2 = True" "leaf_1 \<noteq> leaf_2"
  "sw_ASN leaf_1 = 65101" "sw_ASN leaf_2 = 65102" "vtep_ip leaf_1 = V4 0xAC1E0C00" "vtep_ip leaf_2 = V4 0xAC1E0C00"
  "store_list [leaf_1, leaf_2] = [leaf_1, leaf_2]"
  by (simp_all add: leaf_1_def leaf_2_def bare_switch_def IsLeaf_def is_mclag_def RedundancyTypeMCLAG_def vtep_ip_def
      ip_of_def reuse_parse store_list_def ob_key_def)

lemma reuse_ok:
  "list_all (switch_ok \<lparr>mn_subnet = v4_prefix 0xAC1E0000 21, mn_dhcp_start = V4 0xAC1E0400\<rparr> (Fabric (Config example_fab))
     (v4_prefix 0xAC1E0C00 22) (v4_prefix 0xAC1E0800 22)) [leaf_1, leaf_2]"
  by (simp add: switch_ok_def reuse_leaves mgmt_ok_def host_ok_def SwitchRoles_def)
    (simp add: leaf_1_def leaf_2_def bare_switch_def reuse_parse contains_v4_iff example_fab_def example_eval)

lemma reuse_full: "getHydration reuse_hhfab reuse_kube = Inr HydrationStatusFull"
proof -
  have "values_unique reuse_hhfab reuse_kube"
    by (simp add: values_unique_def management_addresses_def dummy_addresses_def protocol_addresses_def fabric_addresses_def
        reuse_kube_def reuse_hhfab_def reuse_leaves mgmt_ips_def dummy_ips_def switch_ips_def protocol_ips_def
        gw_protocol_ips_def fabric_ips_def all_links_def vteps_ok_def gw_vtep_ips_def example_config_sel
        store_list_def leaf_fresh_def leaf_reg_eq)
      (simp add: leaf_1_def leaf_2_def bare_switch_def reuse_parse ip_of_def ob_key_def)
  moreover have "some_value reuse_hhfab reuse_kube" by (simp add: some_value_def reuse_kube_def)
  moreover have "values_ok \<lparr>mn_subnet = v4_prefix 0xAC1E0000 21, mn_dhcp_start = V4 0xAC1E0400\<rparr> (v4_prefix 0xAC1E5A00 24)
      (v4_prefix 0xAC1E0C00 22) (v4_prefix 0xAC1E0800 22) (v4_prefix 0xAC1E8000 17) reuse_hhfab reuse_kube"
    using reuse_ok by (simp add: values_ok_def reuse_hhfab_def reuse_kube_def reuse_leaves all_links_def)
      (simp add: store_list_def)
  moreover have "Config (hc_Fab reuse_hhfab) = Config example_fab" by (simp add: reuse_hhfab_def)
  ultimately show ?thesis
    unfolding getHydration_full_iff using example_start example_config_sel by auto
qed

theorem full_hydration_leaves_witness:
  "sw_ASN leaf_1 \<noteq> sw_ASN leaf_2 \<and> vtep_ip leaf_1 \<notin> set (gw_vtep_ips (k_Gateways reuse_kube))"
proof -
  have "store_list (k_Switches reuse_kube) = [leaf_1] @ leaf_2 # []" by (simp add: reuse_kube_def reuse_leaves)
  from full_hydration_leaves [OF reuse_full this, of leaf_1] show ?thesis by (simp add: reuse_leaves same_group_def)
qed

text \<open>
  C7. The uniqueness of the VTEP addresses stops short of MCLAG switches: there is a wiring the check
  reports fully hydrated in which two leaves of different groups have the same VTEP address.
\<close>

theorem mclag_vtep_reuse_accepted:
  "\<exists>hc k a b. getHydration hc k = Inr HydrationStatusFull \<and> a \<in> set (k_Switches k) \<and> b \<in> set (k_Switches k) \<and>
     IsLeaf (sw_Role a) \<and> IsLeaf (sw_Role b) \<and> \<not> same_group a b \<and> sw_ASN a \<noteq> sw_ASN b \<and> vtep_ip a = vtep_ip b"
  by (rule exI [of _ reuse_hhfab], rule exI [of _ reuse_kube], rule exI [of _ leaf_1], rule exI [of _ leaf_2])
    (simp add: reuse_full, simp add: reuse_kube_def reuse_leaves same_group_def)

section \<open>The hydration modes\<close>

lemma ensureHydrated_full:
  assumes "ensureHydrated mode st = Inr st'"
  shows "getHydration (fst st') (snd st') = Inr HydrationStatusFull"
  using assms by (auto simp: ensureHydrated_def ok_iff split: if_splits)

text \<open>
  Whatever the mode, when it succeeds the wiring is fully hydrated, and running it again to check it or to hydrate it
  if it is not changes nothing. Overriding does: the neighbors of the gateways are appended once more.
\<close>

lemma ensureHydrated_settles:
  assumes "ensureHydrated mode st = Inr st'"
  shows "getHydration (fst st') (snd st') = Inr HydrationStatusFull \<and>
    ensureHydrated HydrateModeNever st' = Inr st' \<and> ensureHydrated HydrateModeIfNotPresent st' = Inr st' \<and>
    (mode = HydrateModeNever \<longrightarrow> st' = st)"
  using ensureHydrated_full [OF assms] assms
  by (auto simp: ensureHydrated_def ok_iff HydrateModeNever_def HydrateModeIfNotPresent_def split: if_splits)

text \<open>
  A wiring with nothing set that the subnets have room for is hydrated by the mode that hydrates
  it if it is not: the run succeeds, and ends fully hydrated.
\<close>

theorem ensureHydrated_if_not_present:
  assumes "hydratable hc k" "getHydration hc k = Inr HydrationStatusNone"
  shows "\<exists>st'. ensureHydrated HydrateModeIfNotPresent (hc, k) = Inr st' \<and>
    getHydration (fst st') (snd st') = Inr HydrationStatusFull"
proof -
  obtain hc' k' where h: "hydrate (hc, k) = Inr (hc', k')" "getHydration hc' k' = Inr HydrationStatusFull"
    using hydrate_full_lemma [OF assms(1)] by blast
  then have "ensureHydrated HydrateModeIfNotPresent (hc, k) = Inr (hc', k')"
    by (simp add: ensureHydrated_def assms(2) HydrateModeNever_def HydrateModeIfNotPresent_def)
  with h(2) show ?thesis by auto
qed

definition all_missing :: "addr \<Rightarrow> nat \<Rightarrow> hyd" where
  "all_missing vip n = (start_state vip)\<lparr>hy_total := n, hy_missing := n\<rparr>"

lemmas check_defs = check_node_def check_switch_def check_switch_role_def check_switch_ip_def check_protocol_ip_def
  check_switch_asn_def check_switch_vtep_def check_conn_def check_link_def missing_if_def check_gateway_def
  check_gateway_asn_def check_gateway_vtep_def count_def count_missing_def SwitchRoles_def IsLeaf_def IsSpine_def
  SwitchRoleSpine_def SwitchRoleServerLeaf_def SwitchRoleBorderLeaf_def SwitchRoleMixedLeaf_def all_missing_def start_state_def

lemma example_checks:
  "check_node mn d example_control (start_state v) = Inr (all_missing v (Suc 0))"
  "efold (check_switch mn fc vs ps) (k_Switches example_kube) (all_missing v (Suc 0)) = Inr (all_missing v 16)"
  "efold (check_conn fs) (k_Connections example_kube) (all_missing v 16) = Inr (all_missing v 22)"
  "efold (check_gateway vs ps asn) (k_Gateways example_kube) (all_missing v 22) = Inr (all_missing v 25)"
  by (simp_all add: check_defs Let_def example_kube_def example_control_def bare_switch_def bare_conn_def bare_gateway_def
      bare_link_def RedundancyTypeMCLAG_def)

lemma example_none: "getHydration example_hhfab example_kube = Inr HydrationStatusNone"
proof -
  have st: "store_list (k_Switches example_kube) = k_Switches example_kube"
    "store_list (k_Connections example_kube) = k_Connections example_kube"
    "store_list (k_Gateways example_kube) = k_Gateways example_kube"
    by (simp_all add: store_list_def example_kube_def bare_switch_def bare_conn_def bare_gateway_def ob_key_def)
  have hc: "hc_Controls example_hhfab = [example_control]" "hc_Nodes example_hhfab = []"
    by (simp_all add: example_hhfab_def)
  show ?thesis
    by (simp add: getHydration_def Let_def st hc example_config_sel example_start example_checks hydration_status_of_def)
      (simp add: all_missing_def)
qed

theorem ensureHydrated_if_not_present_witness:
  "\<exists>st'. ensureHydrated HydrateModeIfNotPresent (example_hhfab, example_kube) = Inr st' \<and>
    getHydration (fst st') (snd st') = Inr HydrationStatusFull"
  by (rule ensureHydrated_if_not_present [OF example_hydratable example_none])

end
