(* ===== verification/Reach.thy ===== *)
theory Reach
  imports Kube
begin

text \<open>
  Whether two servers, two VPC subnets, or a server and an external can reach each other:
  \<^verbatim>\<open>pkg/hhfab/testing.go\<close> (\<^verbatim>\<open>IsServerReachable\<close> and what it calls) and the functions of the fabric
  module it builds on (\<^verbatim>\<open>fabric/pkg/util/apiutil/connectivity.go\<close>, vendored with the sources). The
  objects are those of the API server, listed by namespace and labels.
\<close>

section \<open>Objects with labels\<close>

record lobj = obj +
  ob_Labels :: "string gomap"

definition list_labelled :: "(string \<times> string) list \<Rightarrow> ('a) lobj_scheme list \<Rightarrow> ('a) lobj_scheme list" where
  "list_labelled sel s =
     filter (\<lambda>x. ob_Namespace x = NamespaceDefault \<and> list_all (\<lambda>(l, v). map_of (ob_Labels x) l = Some v) sel) (store_list s)"

definition FabricLabelPrefix :: string where "FabricLabelPrefix = ''fabric.githedgehog.com/''"
definition GatewayLabelPrefix :: string where "GatewayLabelPrefix = ''gateway.githedgehog.com/''"
definition ListLabelValue :: string where "ListLabelValue = ''true''"
definition LabelVPC :: string where "LabelVPC = FabricLabelPrefix @ ''vpc''"
definition LabelExternal :: string where "LabelExternal = FabricLabelPrefix @ ''external''"
definition LabelConnection :: string where "LabelConnection = FabricLabelPrefix @ ''connection''"
definition ListLabelVPC :: "string \<Rightarrow> string" where "ListLabelVPC v = ''vpc.'' @ FabricLabelPrefix @ v"
definition ListLabelServer :: "string \<Rightarrow> string" where "ListLabelServer v = ''server.'' @ FabricLabelPrefix @ v"
definition GwListLabelVPC :: "string \<Rightarrow> string" where "GwListLabelVPC v = ''vpc.'' @ GatewayLabelPrefix @ v"
definition VPCInfoExtPrefix :: string where "VPCInfoExtPrefix = ''ext.''"

record vpc_subnet =
  vs_Subnet :: string
  vs_Isolated :: "bool option"
  vs_Restricted :: "bool option"
  vs_HostBGP :: bool

record vpc = lobj +
  vp_Subnets :: "vpc_subnet gomap"
  vp_DefaultIsolated :: bool
  vp_DefaultRestricted :: bool
  vp_Permit :: "string list list"

text \<open>A policy of a VPC peering maps a VPC to the subnets it lets through, all of them if none is named.\<close>

record vpc_peering = lobj +
  vq_Permit :: "string list gomap list"

record ext_peering = lobj +
  xp_Subnets :: "string list"
  xp_External :: string
  xp_Prefixes :: "string list"

record vpc_attachment = lobj +
  va_Subnet :: string
  va_Connection :: string

text \<open>
  A connection as its method \<^verbatim>\<open>Endpoints\<close> shows it: the servers of the connection, or the error of a
  malformed one. The method itself belongs to the fabric module.
\<close>

record server_conn = lobj +
  sc_Endpoints :: "string list result"

record gw_vpc = lobj +
  gv_Subnets :: "string gomap"

record expose_ip =
  xi_CIDR :: string
  xi_Not :: string
  xi_VPCSubnet :: string

record expose =
  xe_IPs :: "expose_ip list"
  xe_As :: "(string \<times> string) list"
  xe_DefaultDestination :: bool

record gw_peering = lobj +
  gp_Peering :: "expose list gomap"

record cluster =
  cl_Servers :: "lobj list"
  cl_Conns :: "server_conn list"
  cl_Attachments :: "vpc_attachment list"
  cl_VPCs :: "vpc list"
  cl_Peerings :: "vpc_peering list"
  cl_ExtPeerings :: "ext_peering list"
  cl_ExtAttachments :: "lobj list"
  cl_Externals :: "lobj list"
  cl_GwVPCs :: "gw_vpc list"
  cl_GwPeerings :: "gw_peering list"

section \<open>CIDRs as the net package reads them\<close>

text \<open>
  \<^verbatim>\<open>net.ParseCIDR\<close> is laxer than \<^verbatim>\<open>netip.ParsePrefix\<close> in the mask (leading zeros) and stricter in the
  address (no zone); \<^verbatim>\<open>net.IP\<close> makes no difference between an IPv4 address and the IPv6 address it
  is mapped to.
\<close>

definition parse_cidr :: "string \<Rightarrow> (addr \<times> nat) result" where
  "parse_cidr s =
     (let bad = Inl (Errf ''invalid CIDR address: %s'' [s]) in
      case split2 (CHR ''/'') s of
        [a, m] \<Rightarrow>
          (case parse_addr a of
             Inl _ \<Rightarrow> bad
           | Inr ip \<Rightarrow>
               if CHR ''%'' \<in> set a \<or> m = '''' \<or> \<not> list_all is_digit m \<or> digits_val m > addr_bit_len ip
               then bad else Inr (ip, digits_val m))
      | _ \<Rightarrow> bad)"

fun to4 :: "addr \<Rightarrow> addr" where
  "to4 (V6 w z) = (if addr_is4in6 w then V4 (ucast w) else V6 w z)"
| "to4 a = a"

definition cidr_net :: "addr \<Rightarrow> nat \<Rightarrow> prefix" where
  "cidr_net ip n =
     (let nw = to4 (addr_mask ip n) in
      \<lparr>pf_addr = nw, pf_bits = (if addr_is4 nw \<and> \<not> addr_is4 ip then int n - 96 else int n)\<rparr>)"

definition SubnetContains :: "string \<Rightarrow> string \<Rightarrow> bool result" where
  "SubnetContains sourceSubnet destSubnet =
     ebind (ewrap ''parsing source subnet: %w'' [] (parse_cidr sourceSubnet)) (\<lambda>(sAddr, sSize).
     ebind (ewrap ''parsing destination subnet: %w'' [] (parse_cidr destSubnet)) (\<lambda>(dAddr, dSize).
     Inr (prefix_contains (cidr_net sAddr sSize) (to4 dAddr) \<and> dSize \<ge> sSize)))"

section \<open>Within a VPC\<close>

definition IsSubnetIsolated :: "vpc \<Rightarrow> string \<Rightarrow> bool" where
  "IsSubnetIsolated v sub =
     (case map_of (vp_Subnets v) sub of
        Some s \<Rightarrow> (case vs_Isolated s of Some b \<Rightarrow> b | None \<Rightarrow> vp_DefaultIsolated v)
      | None \<Rightarrow> vp_DefaultIsolated v)"

definition IsSubnetRestricted :: "vpc \<Rightarrow> string \<Rightarrow> bool" where
  "IsSubnetRestricted v sub =
     (case map_of (vp_Subnets v) sub of
        Some s \<Rightarrow> (case vs_Restricted s of Some b \<Rightarrow> b | None \<Rightarrow> vp_DefaultRestricted v)
      | None \<Rightarrow> vp_DefaultRestricted v)"

definition IsSubnetReachableWithinVPCObj :: "vpc \<Rightarrow> string \<Rightarrow> string \<Rightarrow> bool result" where
  "IsSubnetReachableWithinVPCObj v source dest =
     (if map_of (vp_Subnets v) source = None
      then Inl (Errf ''source subnet %s not found in VPC %s'' [source, ob_Name v])
      else if map_of (vp_Subnets v) dest = None
      then Inl (Errf ''destination subnet %s not found in VPC %s'' [dest, ob_Name v])
      else if source = dest then Inr (\<not> IsSubnetRestricted v source)
      else if \<not> IsSubnetIsolated v source \<and> \<not> IsSubnetIsolated v dest then Inr True
      else Inr (list_ex (\<lambda>permit. source \<in> set permit \<and> dest \<in> set permit) (vp_Permit v)))"

definition IsSubnetReachableWithinVPC :: "cluster \<Rightarrow> string \<Rightarrow> string \<Rightarrow> string \<Rightarrow> bool result" where
  "IsSubnetReachableWithinVPC k vpcName source dest =
     ebind (ewrap ''failed to get VPC %s: %w'' [vpcName] (store_get (NamespaceDefault, vpcName) (cl_VPCs k))) (\<lambda>v.
     IsSubnetReachableWithinVPCObj v source dest)"

section \<open>Reachability\<close>

definition ReachabilityReasonIntraVPC :: string where "ReachabilityReasonIntraVPC = ''intra-vpc''"
definition ReachabilityReasonSwitchPeering :: string where "ReachabilityReasonSwitchPeering = ''switch-peering''"
definition ReachabilityReasonGatewayPeering :: string where "ReachabilityReasonGatewayPeering = ''gateway-peering''"

record reachability =
  re_Reachable :: bool
  re_Reason :: string
  re_Peering :: string

definition unreachable :: reachability where
  "unreachable = \<lparr>re_Reachable = False, re_Reason = '''', re_Peering = ''''\<rparr>"

text \<open>The error for a peering the check does not understand; its callers look for it with \<^verbatim>\<open>errors.Is\<close>.\<close>

definition reachCheckUnsupported :: go_err where
  "reachCheckUnsupported = Errf ''reachability check unsupported for this type of peering'' []"

text \<open>The first element a fallible check finds reachable, in the order of the list.\<close>

fun first_reachable :: "('a \<Rightarrow> reachability result) \<Rightarrow> 'a list \<Rightarrow> reachability result" where
  "first_reachable f [] = Inr unreachable"
| "first_reachable f (x # xs) = ebind (f x) (\<lambda>r. if re_Reachable r then Inr r else first_reachable f xs)"

text \<open>What the two kinds of peering check first: both VPCs exist and have the subnets.\<close>

definition check_subnets ::
  "(('a) obj_scheme \<Rightarrow> ('b) gomap) \<Rightarrow> ('a) obj_scheme list \<Rightarrow> string \<Rightarrow> string \<Rightarrow> string \<Rightarrow> string \<Rightarrow>
     (('a) obj_scheme \<times> ('a) obj_scheme) result" where
  "check_subnets subnets vpcs vpc1Name vpc1Subnet vpc2Name vpc2Subnet =
     (if vpc1Name = vpc2Name then Inl (Errf ''VPCs %s and %s are the same'' [vpc1Name, vpc2Name]) else
      ebind (ewrap ''failed to get VPC %s: %w'' [vpc1Name] (store_get (NamespaceDefault, vpc1Name) vpcs)) (\<lambda>vpc1.
      ebind (ewrap ''failed to get VPC %s: %w'' [vpc2Name] (store_get (NamespaceDefault, vpc2Name) vpcs)) (\<lambda>vpc2.
      if map_of (subnets vpc1) vpc1Subnet = None
      then Inl (Errf ''source subnet %s not found in VPC %s'' [vpc1Subnet, vpc1Name]) else
      if map_of (subnets vpc2) vpc2Subnet = None
      then Inl (Errf ''destination subnet %s not found in VPC %s'' [vpc2Subnet, vpc2Name])
      else Inr (vpc1, vpc2))))"

definition permits :: "string list gomap \<Rightarrow> string \<Rightarrow> string \<Rightarrow> bool" where
  "permits permit vpcName sub =
     (case map_of permit vpcName of None \<Rightarrow> False | Some subnets \<Rightarrow> subnets = [] \<or> sub \<in> set subnets)"

definition IsSubnetReachableWithSwitchPeering ::
  "cluster \<Rightarrow> string \<Rightarrow> string \<Rightarrow> string \<Rightarrow> string \<Rightarrow> reachability result" where
  "IsSubnetReachableWithSwitchPeering k vpc1Name vpc1Subnet vpc2Name vpc2Subnet =
     ebind (check_subnets vp_Subnets (cl_VPCs k) vpc1Name vpc1Subnet vpc2Name vpc2Subnet) (\<lambda>_.
     first_reachable (\<lambda>p.
         Inr (if list_ex (\<lambda>permit. permits permit vpc1Name vpc1Subnet \<and> permits permit vpc2Name vpc2Subnet) (vq_Permit p)
              then \<lparr>re_Reachable = True, re_Reason = ReachabilityReasonSwitchPeering, re_Peering = ob_Name p\<rparr>
              else unreachable))
       (list_labelled [(ListLabelVPC vpc1Name, ListLabelValue), (ListLabelVPC vpc2Name, ListLabelValue)] (cl_Peerings k)))"

text \<open>\<^verbatim>\<open>%s\<close> of a slice of structs of two strings.\<close>

definition as_string :: "(string \<times> string) list \<Rightarrow> string" where
  "as_string as = ''['' @ join_with '' '' (map (\<lambda>(c, n). ''{'' @ c @ '' '' @ n @ ''}'') as) @ '']''"

text \<open>
  The subnet an exposed entry stands for: the one it names, or the last one in the iteration that has
  its CIDR, or the empty name.
\<close>

definition exposed_subnet :: "gw_vpc \<Rightarrow> string \<Rightarrow> expose_ip \<Rightarrow> string result" where
  "exposed_subnet v vpcName e =
     (if xi_VPCSubnet e \<noteq> '''' then
        if map_of (gv_Subnets v) (xi_VPCSubnet e) \<noteq> None then Inr (xi_VPCSubnet e)
        else Inl (Errf ''subnet %s not found in VPC %s'' [xi_VPCSubnet e, vpcName])
      else if xi_CIDR e \<noteq> '''' then
        Inr (foldl (\<lambda>found (sub, cidr). if cidr = xi_CIDR e then sub else found) '''' (gv_Subnets v))
      else Inl (Wrapf ''%w: gw peering with non-empty expose 'not' %s in IPs'' [xi_Not e] reachCheckUnsupported))"

fun exposes_subnet :: "gw_vpc \<Rightarrow> string \<Rightarrow> string \<Rightarrow> expose_ip list \<Rightarrow> bool result" where
  "exposes_subnet v vpcName vpcSubnet [] = Inr False"
| "exposes_subnet v vpcName vpcSubnet (e # es) =
     ebind (exposed_subnet v vpcName e) (\<lambda>n. if n = vpcSubnet then Inr True else exposes_subnet v vpcName vpcSubnet es)"

fun isVPCSubnetPresentInPeering :: "expose list \<Rightarrow> gw_vpc \<Rightarrow> string \<Rightarrow> string \<Rightarrow> bool result" where
  "isVPCSubnetPresentInPeering [] v vpcName vpcSubnet = Inr False"
| "isVPCSubnetPresentInPeering (e # es) v vpcName vpcSubnet =
     (if xe_DefaultDestination e then Inr True
      else if xe_As e \<noteq> []
      then Inl (Wrapf ''%w: gw peering with non-empty expose 'As' %s'' [as_string (xe_As e)] reachCheckUnsupported)
      else ebind (exposes_subnet v vpcName vpcSubnet (xe_IPs e)) (\<lambda>found.
        if found then Inr True else isVPCSubnetPresentInPeering es v vpcName vpcSubnet))"

definition gw_peering_step :: "gw_vpc \<times> string \<times> string \<Rightarrow> gw_vpc \<times> string \<times> string \<Rightarrow> gw_peering \<Rightarrow> reachability result" where
  "gw_peering_step a b p =
     (case a of (vpc1, vpc1Name, vpc1Subnet) \<Rightarrow> case b of (vpc2, vpc2Name, vpc2Subnet) \<Rightarrow>
      case (map_of (gp_Peering p) vpc1Name, map_of (gp_Peering p) vpc2Name) of
        (Some vpc1Peering, Some vpc2Peering) \<Rightarrow>
          let check = (\<lambda>peering v vpcName sub.
            ewrap ''checking if VPC %s subnet %s is present in peering %s: %w'' [vpcName, sub, ob_Name p]
              (isVPCSubnetPresentInPeering peering v vpcName sub)) in
          ebind (check vpc1Peering vpc1 vpc1Name vpc1Subnet) (\<lambda>vpc1Found.
          ebind (check vpc2Peering vpc2 vpc2Name vpc2Subnet) (\<lambda>vpc2Found.
          Inr (if vpc1Found \<and> vpc2Found
               then \<lparr>re_Reachable = True, re_Reason = ReachabilityReasonGatewayPeering, re_Peering = ob_Name p\<rparr>
               else unreachable)))
      | _ \<Rightarrow> Inr unreachable)"

definition IsSubnetReachableWithGatewayPeering ::
  "cluster \<Rightarrow> string \<Rightarrow> string \<Rightarrow> string \<Rightarrow> string \<Rightarrow> reachability result" where
  "IsSubnetReachableWithGatewayPeering k vpc1Name vpc1Subnet vpc2Name vpc2Subnet =
     ebind (check_subnets gv_Subnets (cl_GwVPCs k) vpc1Name vpc1Subnet vpc2Name vpc2Subnet) (\<lambda>(vpc1, vpc2).
     first_reachable (gw_peering_step (vpc1, vpc1Name, vpc1Subnet) (vpc2, vpc2Name, vpc2Subnet))
       (list_labelled [(GwListLabelVPC vpc1Name, ListLabelValue), (GwListLabelVPC vpc2Name, ListLabelValue)] (cl_GwPeerings k)))"

definition IsSubnetReachable :: "cluster \<Rightarrow> string \<Rightarrow> string \<Rightarrow> bool \<Rightarrow> reachability result" where
  "IsSubnetReachable k source dest checkGateway =
     (case split2 (CHR ''/'') source of [sourceVPC, sourceSubnet] \<Rightarrow>
        (case split2 (CHR ''/'') dest of [destVPC, destSubnet] \<Rightarrow>
          if sourceVPC = destVPC then
            ebind (ewrap ''checking if subnets %s and %s are reachable within VPC %s: %w'' [source, dest, sourceVPC]
                     (IsSubnetReachableWithinVPC k sourceVPC sourceSubnet destSubnet)) (\<lambda>reachable.
            Inr \<lparr>re_Reachable = reachable, re_Reason = ReachabilityReasonIntraVPC, re_Peering = ''''\<rparr>)
          else
            ebind (ewrap ''checking if subnets %s and %s are reachable through fabric: %w'' [source, dest]
                     (IsSubnetReachableWithSwitchPeering k sourceVPC sourceSubnet destVPC destSubnet)) (\<lambda>r.
            if re_Reachable r then Inr r
            else if checkGateway then
              ebind (ewrap ''checking if subnets %s and %s are reachable through gateway: %w'' [source, dest]
                       (IsSubnetReachableWithGatewayPeering k sourceVPC sourceSubnet destVPC destSubnet)) (\<lambda>r.
              if re_Reachable r then Inr r else Inr unreachable)
            else Inr unreachable)
        | _ \<Rightarrow> Inl (Errf ''dest must be full VPC subnet name (<vpc-name>/<subnet-name>)'' []))
      | _ \<Rightarrow> Inl (Errf ''source must be full VPC subnet name (<vpc-name>/<subnet-name>)'' []))"

section \<open>Servers and externals\<close>

text \<open>
  The subnets a server is attached to: the keys of the map the source returns, in the order they
  are inserted. The loops over it take them in this order.
\<close>

definition attach_conn :: "cluster \<Rightarrow> string \<Rightarrow> server_conn \<Rightarrow> string gomap \<Rightarrow> string gomap result" where
  "attach_conn k server conn ret =
     ebind (ewrap ''failed to get endpoints for connection %s of server %s: %w'' [ob_Name conn, server] (sc_Endpoints conn)) (\<lambda>_.
     Inr (foldl (\<lambda>ret a. map_put (va_Subnet a) (ob_Name conn) ret) ret
       (list_labelled [(LabelConnection, ob_Name conn)] (cl_Attachments k))))"

definition GetAttachedSubnets :: "cluster \<Rightarrow> string \<Rightarrow> string gomap result" where
  "GetAttachedSubnets k server =
     ebind (ewrap ''failed to get server %s: %w'' [server] (store_get (NamespaceDefault, server) (cl_Servers k))) (\<lambda>_.
     efold (attach_conn k server) (list_labelled [(ListLabelServer server, ListLabelValue)] (cl_Conns k)) [])"

definition IsServerReachable :: "cluster \<Rightarrow> string \<Rightarrow> string \<Rightarrow> bool \<Rightarrow> reachability result" where
  "IsServerReachable k sourceServer destServer checkGateway =
     ebind (ewrap ''getting attached subnets for source server %s: %w'' [sourceServer] (GetAttachedSubnets k sourceServer)) (\<lambda>sourceSubnets.
     ebind (ewrap ''getting attached subnets for dest server %s: %w'' [destServer] (GetAttachedSubnets k destServer)) (\<lambda>destSubnets.
     first_reachable (\<lambda>(s, d). IsSubnetReachable k s d checkGateway)
       (List.product (map fst sourceSubnets) (map fst destSubnets))))"

definition IsExternalAttached :: "cluster \<Rightarrow> string \<Rightarrow> bool" where
  "IsExternalAttached k external = (list_labelled [(LabelExternal, external)] (cl_ExtAttachments k) \<noteq> [])"

fun ext_prefix_reachable :: "cluster \<Rightarrow> string \<Rightarrow> string \<Rightarrow> string list \<Rightarrow> bool result" where
  "ext_prefix_reachable k external destSubnet [] = Inr False"
| "ext_prefix_reachable k external destSubnet (p # ps) =
     ebind (ewrap ''failed to check if external prefix %s contains destination subnet %s: %w'' [p, destSubnet]
              (SubnetContains p destSubnet)) (\<lambda>contained.
     if contained \<and> IsExternalAttached k external then Inr True else ext_prefix_reachable k external destSubnet ps)"

fun any_result :: "('a \<Rightarrow> bool result) \<Rightarrow> 'a list \<Rightarrow> bool result" where
  "any_result f [] = Inr False"
| "any_result f (x # xs) = ebind (f x) (\<lambda>b. if b then Inr True else any_result f xs)"

text \<open>The check of the fabric module, over the peerings of the switches only.\<close>

definition FabricIsExternalSubnetReachable :: "cluster \<Rightarrow> string \<Rightarrow> string \<Rightarrow> bool result" where
  "FabricIsExternalSubnetReachable k sourceServer destSubnet =
     ebind (ewrap ''failed to get attached subnets for server %s: %w'' [sourceServer] (GetAttachedSubnets k sourceServer)) (\<lambda>sourceSubnets.
     any_result (\<lambda>subnetName.
         case split2 (CHR ''/'') subnetName of
           [sourceVPC, sourceSubnet] \<Rightarrow>
             any_result (\<lambda>p. if sourceSubnet \<notin> set (xp_Subnets p) then Inr False
                             else ext_prefix_reachable k (xp_External p) destSubnet (xp_Prefixes p))
               (list_labelled [(LabelVPC, sourceVPC)] (cl_ExtPeerings k))
         | _ \<Rightarrow> Inl (Errf ''source subnet name must be full VPC subnet name (<vpc-name>/<subnet-name>)'' []))
       (map fst sourceSubnets))"

definition IsExternalSubnetReachable :: "cluster \<Rightarrow> string \<Rightarrow> string \<Rightarrow> bool \<Rightarrow> reachability result" where
  "IsExternalSubnetReachable k sourceServer destSubnet checkGateway =
     ebind (ewrap ''checking if external subnet %s is reachable from server %s: %w'' [destSubnet, sourceServer]
              (FabricIsExternalSubnetReachable k sourceServer destSubnet)) (\<lambda>switchPeeringReachable.
     if switchPeeringReachable
     then Inr \<lparr>re_Reachable = True, re_Reason = ReachabilityReasonSwitchPeering, re_Peering = ''''\<rparr>
     else if \<not> checkGateway then Inr unreachable else
     ebind (ewrap ''getting attached subnets for source server %s: %w'' [sourceServer] (GetAttachedSubnets k sourceServer)) (\<lambda>sourceSubnets.
     let externalNames = map ob_Name (store_list (cl_Externals k)) in
     if externalNames = [] then Inr unreachable else
     first_reachable (\<lambda>sourceSubnetName.
         case split2 (CHR ''/'') sourceSubnetName of
           [sourceVPC, sourceSubnet] \<Rightarrow>
             first_reachable (\<lambda>ext.
                 IsSubnetReachableWithGatewayPeering k sourceVPC sourceSubnet (VPCInfoExtPrefix @ ext) ''external'')
               externalNames
         | _ \<Rightarrow> Inl (Errf ''source must be full VPC subnet name (<vpc-name>/<subnet-name>)'' []))
       (map fst sourceSubnets)))"

end
