(* ===== verification/ReachProps.thy ===== *)
theory ReachProps
  imports Reach
begin

text \<open>
  What the reachability checks mean: the loop that looks for the first reachable element finds one
  exactly if there is one, the check of two subnets does not depend on the direction, and the check
  of a server pair is the one of their attached subnets.
\<close>

section \<open>The loop\<close>

lemma first_reachable_iff:
  "first_reachable f xs = Inr r \<Longrightarrow> re_Reachable r \<longleftrightarrow> (\<exists>x\<in>set xs. \<exists>r'. f x = Inr r' \<and> re_Reachable r')"
proof (induction xs)
  case (Cons x xs)
  then show ?case by (cases "f x") (auto split: if_splits)
qed (auto simp: unreachable_def)

lemma first_reachable_result:
  "first_reachable f xs = Inr r \<Longrightarrow> r = unreachable \<or> (\<exists>x\<in>set xs. f x = Inr r \<and> re_Reachable r)"
  by (induction xs) (auto simp: ok_iff split: if_splits)

lemma first_reachable_same:
  assumes "\<And>x r. f x = Inr r \<longleftrightarrow> g x = Inr r"
  shows "first_reachable f xs = Inr r \<longleftrightarrow> first_reachable g xs = Inr r"
proof (induction xs)
  case (Cons x xs)
  have "f x = Inr r' \<longleftrightarrow> g x = Inr r'" for r' by (rule assms)
  with Cons show ?case by (auto simp: ok_iff)
qed simp

text \<open>Whether something is found does not depend on the order the map is iterated in.\<close>

lemma first_reachable_order:
  assumes "first_reachable f xs = Inr r" "first_reachable f ys = Inr r'" "set xs = set ys"
  shows "re_Reachable r = re_Reachable r'"
  using first_reachable_iff [OF assms(1)] first_reachable_iff [OF assms(2)] assms(3) by simp

section \<open>Subnets, both ways\<close>

lemma check_subnets_swap:
  "check_subnets sub vs a x b y = Inr (v, w) \<longleftrightarrow> check_subnets sub vs b y a x = Inr (w, v)"
  unfolding check_subnets_def by (auto simp: ok_iff)

lemma check_subnets_result:
  "check_subnets sub vs a x b y = Inr r \<Longrightarrow>
     store_get (NamespaceDefault, a) vs = Inr (fst r) \<and> store_get (NamespaceDefault, b) vs = Inr (snd r)"
  unfolding check_subnets_def by (auto simp: ok_iff)

lemma list_labelled_swap: "list_labelled [a, b] s = list_labelled [b, a] s"
  unfolding list_labelled_def by (rule filter_cong) auto

lemma switch_peering_swap:
  "IsSubnetReachableWithSwitchPeering k a x b y = Inr r \<Longrightarrow> IsSubnetReachableWithSwitchPeering k b y a x = Inr r"
proof -
  assume r: "IsSubnetReachableWithSwitchPeering k a x b y = Inr r"
  then obtain v w where "check_subnets vp_Subnets (cl_VPCs k) a x b y = Inr (v, w)"
    unfolding IsSubnetReachableWithSwitchPeering_def by (auto simp: ok_iff)
  then have "check_subnets vp_Subnets (cl_VPCs k) b y a x = Inr (w, v)" by (simp add: check_subnets_swap)
  with r show ?thesis
    unfolding IsSubnetReachableWithSwitchPeering_def
    by (auto simp: ok_iff list_labelled_swap [of "(ListLabelVPC a, _)"] conj_commute)
qed

lemma ebind_pair_swap:
  assumes "\<And>x y. f x y = g y x"
  shows "ebind A (\<lambda>x. ebind B (\<lambda>y. Inr (f x y))) = Inr r \<longleftrightarrow> ebind B (\<lambda>y. ebind A (\<lambda>x. Inr (g y x))) = Inr r"
  by (cases A; cases B) (simp_all add: assms)

lemma gw_peering_step_swap:
  "gw_peering_step (v, a, x) (w, b, y) p = Inr r \<longleftrightarrow> gw_peering_step (w, b, y) (v, a, x) p = Inr r"
  unfolding gw_peering_step_def Let_def prod.case
  by (cases "map_of (gp_Peering p) a"; cases "map_of (gp_Peering p) b"; simp only: option.case prod.case)
    (rule ebind_pair_swap, simp)

lemma gw_peering_swap:
  "IsSubnetReachableWithGatewayPeering k a x b y = Inr r \<Longrightarrow> IsSubnetReachableWithGatewayPeering k b y a x = Inr r"
proof -
  assume r: "IsSubnetReachableWithGatewayPeering k a x b y = Inr r"
  then obtain v w where "check_subnets gv_Subnets (cl_GwVPCs k) a x b y = Inr (v, w)"
    and f: "first_reachable (gw_peering_step (v, a, x) (w, b, y))
      (list_labelled [(GwListLabelVPC a, ListLabelValue), (GwListLabelVPC b, ListLabelValue)] (cl_GwPeerings k)) = Inr r"
    unfolding IsSubnetReachableWithGatewayPeering_def by (auto simp: ok_iff)
  then have "check_subnets gv_Subnets (cl_GwVPCs k) b y a x = Inr (w, v)" by (simp add: check_subnets_swap)
  moreover have "first_reachable (gw_peering_step (w, b, y) (v, a, x))
      (list_labelled [(GwListLabelVPC b, ListLabelValue), (GwListLabelVPC a, ListLabelValue)] (cl_GwPeerings k)) = Inr r"
    using f unfolding first_reachable_same [OF gw_peering_step_swap [of v a x w b y]]
      list_labelled_swap [of "(GwListLabelVPC a, ListLabelValue)"] .
  ultimately show ?thesis by (simp add: IsSubnetReachableWithGatewayPeering_def)
qed

lemma within_vpc_swap:
  "IsSubnetReachableWithinVPC k v a b = Inr r \<Longrightarrow> IsSubnetReachableWithinVPC k v b a = Inr r"
  unfolding IsSubnetReachableWithinVPC_def IsSubnetReachableWithinVPCObj_def
  by (auto simp: ok_iff conj_commute split: if_splits)

lemma IsSubnetReachable_swap:
  assumes "IsSubnetReachable k a b g = Inr r"
  shows "IsSubnetReachable k b a g = Inr r"
proof -
  from assms obtain va sa vb sb where s: "split2 (CHR ''/'') a = [va, sa]" "split2 (CHR ''/'') b = [vb, sb]"
    unfolding IsSubnetReachable_def by (auto split: list.splits)
  show ?thesis
  proof (cases "va = vb")
    case True
    with assms s show ?thesis unfolding IsSubnetReachable_def by (auto simp: ok_iff dest: within_vpc_swap)
  next
    case False
    with assms s show ?thesis unfolding IsSubnetReachable_def
      by (auto simp: ok_iff split: if_splits dest: switch_peering_swap gw_peering_swap)
  qed
qed

text \<open>
  The check of two VPC subnets does not depend on the direction: it succeeds both ways or neither,
  with the same verdict, reason and peering.
\<close>

theorem subnet_reachability_symmetric:
  "IsSubnetReachable k a b g = Inr r \<longleftrightarrow> IsSubnetReachable k b a g = Inr r"
  using IsSubnetReachable_swap by blast

section \<open>Servers\<close>

lemma server_reachable_iff:
  assumes "IsServerReachable k a b g = Inr r" "GetAttachedSubnets k a = Inr A" "GetAttachedSubnets k b = Inr B"
  shows "re_Reachable r \<longleftrightarrow>
    (\<exists>s\<in>fst ` set A. \<exists>d\<in>fst ` set B. \<exists>r'. IsSubnetReachable k s d g = Inr r' \<and> re_Reachable r')"
proof -
  have "first_reachable (\<lambda>(s, d). IsSubnetReachable k s d g) (List.product (map fst A) (map fst B)) = Inr r"
    using assms by (simp add: IsServerReachable_def)
  from first_reachable_iff [OF this] show ?thesis by auto
qed

text \<open>
  C12. The verdict on a pair of servers: reachable exactly if some subnet one is attached to can reach
  some subnet the other is attached to; and where the checks of both directions succeed, they agree.
\<close>

theorem server_reachability:
  assumes "IsServerReachable k a b g = Inr r"
  shows "(\<exists>A B. GetAttachedSubnets k a = Inr A \<and> GetAttachedSubnets k b = Inr B \<and>
      (re_Reachable r \<longleftrightarrow>
        (\<exists>s\<in>fst ` set A. \<exists>d\<in>fst ` set B. \<exists>r'. IsSubnetReachable k s d g = Inr r' \<and> re_Reachable r'))) \<and>
    (\<forall>r'. IsServerReachable k b a g = Inr r' \<longrightarrow> re_Reachable r' = re_Reachable r)"
proof -
  from assms obtain A B where ab: "GetAttachedSubnets k a = Inr A" "GetAttachedSubnets k b = Inr B"
    by (auto simp: IsServerReachable_def ok_iff)
  have "re_Reachable r' = re_Reachable r" if "IsServerReachable k b a g = Inr r'" for r'
    using server_reachable_iff [OF assms ab] server_reachable_iff [OF that ab(2,1)]
      IsSubnetReachable_swap by blast
  with server_reachable_iff [OF assms ab] ab show ?thesis by blast
qed

text \<open>Two servers, each in a VPC of its own, with a peering of the switches between the VPCs.\<close>

definition example_object :: "string \<Rightarrow> (string \<times> string) list \<Rightarrow> lobj" where
  "example_object name labels = \<lparr>ob_Namespace = NamespaceDefault, ob_Name = name, ob_RV = 1, ob_Labels = labels\<rparr>"

definition example_vpc :: "string \<Rightarrow> string \<Rightarrow> vpc" where
  "example_vpc name cidr = lobj.extend (example_object name [])
     \<lparr>vp_Subnets = [(''default'', \<lparr>vs_Subnet = cidr, vs_Isolated = None, vs_Restricted = None, vs_HostBGP = False\<rparr>)],
      vp_DefaultIsolated = False, vp_DefaultRestricted = False, vp_Permit = []\<rparr>"

definition example_conn :: "string \<Rightarrow> string \<Rightarrow> server_conn" where
  "example_conn name server =
     lobj.extend (example_object name [(ListLabelServer server, ListLabelValue)]) \<lparr>sc_Endpoints = Inr [server]\<rparr>"

definition example_attachment :: "string \<Rightarrow> string \<Rightarrow> string \<Rightarrow> vpc_attachment" where
  "example_attachment name subnet conn =
     lobj.extend (example_object name [(LabelConnection, conn)]) \<lparr>va_Subnet = subnet, va_Connection = conn\<rparr>"

definition example_peering :: vpc_peering where
  "example_peering = lobj.extend (example_object ''vpc-1--vpc-2''
       [(ListLabelVPC ''vpc-1'', ListLabelValue), (ListLabelVPC ''vpc-2'', ListLabelValue)])
     \<lparr>vq_Permit = [[(''vpc-1'', []), (''vpc-2'', [''default''])]]\<rparr>"

definition example_cluster :: cluster where
  "example_cluster =
     \<lparr>cl_Servers = [example_object ''server-1'' [], example_object ''server-2'' []],
      cl_Conns = [example_conn ''conn-1'' ''server-1'', example_conn ''conn-2'' ''server-2''],
      cl_Attachments = [example_attachment ''attach-1'' ''vpc-1/default'' ''conn-1'',
        example_attachment ''attach-2'' ''vpc-2/default'' ''conn-2''],
      cl_VPCs = [example_vpc ''vpc-1'' ''10.0.1.0/24'', example_vpc ''vpc-2'' ''10.0.2.0/24''],
      cl_Peerings = [example_peering], cl_ExtPeerings = [], cl_ExtAttachments = [], cl_Externals = [],
      cl_GwVPCs = [], cl_GwPeerings = []\<rparr>"

lemmas example_cluster_defs = example_object_def example_vpc_def example_conn_def example_attachment_def example_peering_def
  example_cluster_def lobj.defs

lemma example_subnets:
  "GetAttachedSubnets example_cluster ''server-1'' = Inr [(''vpc-1/default'', ''conn-1'')]"
  "GetAttachedSubnets example_cluster ''server-2'' = Inr [(''vpc-2/default'', ''conn-2'')]"
  by (simp_all add: GetAttachedSubnets_def attach_conn_def list_labelled_def store_list_def store_get_def ob_key_def
      example_cluster_defs ListLabelServer_def)

lemma example_reachable:
  "IsServerReachable example_cluster ''server-1'' ''server-2'' False =
     Inr \<lparr>re_Reachable = True, re_Reason = ReachabilityReasonSwitchPeering, re_Peering = ''vpc-1--vpc-2''\<rparr>"
  by (simp add: IsServerReachable_def example_subnets IsSubnetReachable_def split2_def IsSubnetReachableWithSwitchPeering_def
      check_subnets_def)
    (simp add: list_labelled_def store_list_def store_get_def ob_key_def example_cluster_defs ListLabelVPC_def permits_def)

lemma example_reachable_back:
  "IsServerReachable example_cluster ''server-2'' ''server-1'' False =
     Inr \<lparr>re_Reachable = True, re_Reason = ReachabilityReasonSwitchPeering, re_Peering = ''vpc-1--vpc-2''\<rparr>"
  by (simp add: IsServerReachable_def example_subnets IsSubnetReachable_def split2_def IsSubnetReachableWithSwitchPeering_def
      check_subnets_def)
    (simp add: list_labelled_def store_list_def store_get_def ob_key_def example_cluster_defs ListLabelVPC_def permits_def)

theorem server_reachability_witness:
  "\<exists>r. IsServerReachable example_cluster ''server-2'' ''server-1'' False = Inr r \<and> re_Reachable r"
  using server_reachability [OF example_reachable] by (simp add: example_reachable_back)

section \<open>CIDRs\<close>

lemma take_drop_slash:
  "split2 (CHR ''/'') (v4_string w @ CHR ''/'' # s) = [v4_string w, s]"
  by (rule split2_sep [OF slash_not_in_v4_string])

lemma percent_not_in_v4_string: "CHR ''%'' \<notin> set (v4_string w)"
proof
  assume "CHR ''%'' \<in> set (v4_string w)"
  then have "\<exists>n. CHR ''%'' \<in> set (itoa n)" by (auto simp: v4_string_def v4_octets_def Let_def)
  then show False using itoa_digits digit_not_sep by blast
qed

lemma parse_cidr_v4: "n \<le> 32 \<Longrightarrow> parse_cidr (prefix_string (v4_prefix w n)) = Inr (V4 w, n)"
  by (simp add: parse_cidr_def prefix_string_v4 take_drop_slash percent_not_in_v4_string list_all_iff itoa_digits)

lemma cidr_net_v4: "n \<le> 32 \<Longrightarrow> cidr_net (V4 w) n = v4_prefix (v4_base w n) n"
  by (simp add: cidr_net_def v4_base_def v4_prefix_def)

lemma v4_base_div: "n \<le> 32 \<Longrightarrow> unat (v4_base w n) div 2 ^ (32 - n) = unat w div 2 ^ (32 - n)"
  by (simp add: unat_v4_base)

text \<open>Containment of the sets of addresses, in terms of the bases and lengths.\<close>

lemma v4_subset_iff:
  assumes "n \<le> 32" "m \<le> 32"
  shows "(\<forall>a. prefix_contains (v4_prefix y m) (V4 a) \<longrightarrow> prefix_contains (v4_prefix x n) (V4 a)) \<longleftrightarrow>
         prefix_contains (v4_prefix x n) (V4 y) \<and> n \<le> m" (is "?L \<longleftrightarrow> ?R")
proof
  assume R: ?R
  show ?L
  proof (intro allI impI)
    fix a assume "prefix_contains (v4_prefix y m) (V4 a)"
    then have "unat y div 2 ^ (32 - n) = unat a div 2 ^ (32 - n)"
      using R assms div_pow_coarser [of n m "unat y" "unat a"] by (simp add: contains_v4_iff)
    with R show "prefix_contains (v4_prefix x n) (V4 a)" by (simp add: contains_v4_iff)
  qed
next
  assume L: ?L
  have y: "prefix_contains (v4_prefix y m) (V4 y)" by (simp add: contains_v4_iff)
  have "n \<le> m"
  proof (rule ccontr)
    assume "\<not> n \<le> m"
    then have nm: "m < n" by simp
    let ?k = "2 ^ (32 - n) :: nat" and ?B = "v4_base y m"
    have k: "?k < 2 ^ (32 - m)" using nm assms by simp
    have c: "prefix_contains (v4_prefix y m) (V4 ?B)" "prefix_contains (v4_prefix y m) (V4 (?B + word_of_nat ?k))"
      using contains_v4_offset(2) [OF assms(2), of 0 y] contains_v4_offset(2) [OF assms(2) k, of y] by simp_all
    have u: "unat (?B + word_of_nat ?k) = unat ?B + ?k"
    proof -
      have lt: "unat ?B + ?k < 2 ^ 32" by (rule contains_v4_offset(1) [OF assms(2) k])
      then have "unat (word_of_nat ?k :: 32 word) = ?k"
        using k by (simp add: unsigned_of_nat take_bit_nat_eq_self del: of_nat_power)
      with lt show ?thesis by (subst unat_add_lem [THEN iffD1]) simp_all
    qed
    have "unat x div ?k = unat ?B div ?k" "unat x div ?k = unat (?B + word_of_nat ?k) div ?k"
      using L [rule_format, OF c(1)] L [rule_format, OF c(2)] unfolding contains_v4_iff by simp_all
    then have "unat ?B div ?k = (unat ?B + ?k) div ?k" unfolding u by simp
    moreover have "(unat ?B + ?k) div ?k = unat ?B div ?k + 1" by (rule div_add_self2) simp
    ultimately show False by linarith
  qed
  with L y show ?R by blast
qed

text \<open>
  C13. On IPv4 CIDRs the containment check of the external peerings is containment of the sets of
  addresses.
\<close>

theorem subnet_contains_iff_subset:
  assumes "n \<le> 32" "m \<le> 32"
  shows "SubnetContains (prefix_string (v4_prefix x n)) (prefix_string (v4_prefix y m)) =
    Inr (\<forall>a. prefix_contains (v4_prefix y m) (V4 a) \<longrightarrow> prefix_contains (v4_prefix x n) (V4 a))"
  unfolding v4_subset_iff [OF assms]
  using assms by (simp add: SubnetContains_def parse_cidr_v4 cidr_net_v4 contains_v4_iff v4_base_div)

theorem subnet_contains_iff_subset_witness:
  "SubnetContains (prefix_string (v4_prefix 0x0A000000 8)) (prefix_string (v4_prefix 0x0A010200 24)) = Inr True"
proof -
  have "prefix_contains (v4_prefix 0x0A000000 8) (V4 0x0A010200)" by (simp add: contains_v4_iff)
  then have "\<forall>a. prefix_contains (v4_prefix 0x0A010200 24) (V4 a) \<longrightarrow> prefix_contains (v4_prefix 0x0A000000 8) (V4 a)"
    by (simp add: v4_subset_iff)
  with subnet_contains_iff_subset [of 8 24 "0x0A000000" "0x0A010200"] show ?thesis by simp
qed

end
