(* ===== verification/Matrix.thy ===== *)
theory Matrix
  imports ReachProps NetIP
begin

text \<open>
  The connectivity matrix (\<^verbatim>\<open>pkg/hhfab/matrix.go\<close>): what is expected of the traffic between each pair of
  endpoints, per protocol and port. Endpoints are objects compared by address, so they live in a heap
  and the matrix holds their addresses; an address without an object is the nil pointer. Reading a
  field of nil, where the source does not check for it, gives no server and no external here: the code
  never puts a nil in the list of endpoints.
\<close>

section \<open>Printing an error\<close>

definition quoted :: "string \<Rightarrow> string" where
  "quoted s = CHR 0x22 # concat (map (\<lambda>c. if c = CHR 0x22 \<or> c = CHR 0x5C then [CHR 0x5C, c] else [c]) s) @ [CHR 0x22]"

text \<open>The verbs of a format take the arguments in turn, \<open>%w\<close> the text of the wrapped error.\<close>

fun render :: "string \<Rightarrow> string list \<Rightarrow> string \<Rightarrow> string" where
  "render (c # v # f) as w =
     (if c = CHR ''%'' then
        if v = CHR ''w'' then w @ render f as w
        else (case as of
                a # as \<Rightarrow> (if v = CHR ''q'' then quoted a else a) @ render f as w
              | [] \<Rightarrow> render f [] w)
      else c # render (v # f) as w)"
| "render f as w = f"

fun err_text :: "go_err \<Rightarrow> string" where
  "err_text (Errf f as) = render f as ''''"
| "err_text (Wrapf f as e) = render f as (err_text e)"
| "err_text (Joined es) = join_with [CHR 0x0A] (map err_text es)"
| "err_text (Panic m) = m"

section \<open>Endpoints and expectations\<close>

type_synonym ptr = nat

definition VerdictAllow :: string where "VerdictAllow = ''allow''"
definition VerdictDeny :: string where "VerdictDeny = ''deny''"
definition VerdictUnknown :: string where "VerdictUnknown = ''unknown''"

record translated_address =
  ta_SourcePool :: prefix
  ta_DestinationIP :: addr
  ta_DestinationPort :: "16 word"

definition no_translation :: translated_address where
  "no_translation = \<lparr>ta_SourcePool = no_prefix, ta_DestinationIP = NoAddr, ta_DestinationPort = 0\<rparr>"

record proto_port =
  pp_Protocol :: string
  pp_Port :: "16 word"

definition any_port :: proto_port where
  "any_port = \<lparr>pp_Protocol = '''', pp_Port = 0\<rparr>"

record expectation =
  ce_Pair :: "ptr \<times> ptr"
  ce_Verdict :: string
  ce_NAT :: "translated_address option"
  ce_Reason :: string
  ce_Peering :: string
  ce_Detail :: string
  ce_ProtoPort :: proto_port

definition no_expectation :: expectation where
  "no_expectation =
     \<lparr>ce_Pair = (0, 0), ce_Verdict = '''', ce_NAT = None, ce_Reason = '''', ce_Peering = '''', ce_Detail = '''',
      ce_ProtoPort = any_port\<rparr>"

record server_endpoint =
  se_Name :: string
  se_VPC :: string
  se_Subnet :: string
  se_HostBGP :: bool
  se_IP :: addr

record external_endpoint =
  ee_ExternalName :: string
  ee_Prefixes :: "prefix list"
  ee_SourceIP :: addr

record endpoint =
  ep_Server :: "server_endpoint option"
  ep_External :: "external_endpoint option"

type_synonym heap = "ptr \<Rightarrow> endpoint option"

definition server_at :: "heap \<Rightarrow> ptr \<Rightarrow> server_endpoint option" where
  "server_at h p = (case h p of None \<Rightarrow> None | Some e \<Rightarrow> ep_Server e)"

definition external_at :: "heap \<Rightarrow> ptr \<Rightarrow> external_endpoint option" where
  "external_at h p = (case h p of None \<Rightarrow> None | Some e \<Rightarrow> ep_External e)"

record dropped_endpoint =
  de_Server :: string
  de_VPC :: string
  de_Subnet :: string
  de_Reason :: string

definition dropped_string :: "dropped_endpoint \<Rightarrow> string" where
  "dropped_string d =
     (if de_VPC d = '''' then de_Server d @ '': '' @ de_Reason d
      else de_Server d @ '' ('' @ de_VPC d @ ''/'' @ de_Subnet d @ ''): '' @ de_Reason d)"

record matrix =
  cm_AllEndpoints :: "ptr list"
  cm_entries :: "((ptr \<times> ptr) \<times> (proto_port \<times> expectation) list) list"
  cm_dropped :: "dropped_endpoint list"

definition NewConnectivityMatrix :: matrix where
  "NewConnectivityMatrix = \<lparr>cm_AllEndpoints = [], cm_entries = [], cm_dropped = []\<rparr>"

definition ServerInVPC :: "string \<Rightarrow> heap \<Rightarrow> ptr \<Rightarrow> bool" where
  "ServerInVPC vpc h ep = (case server_at h ep of None \<Rightarrow> False | Some s \<Rightarrow> se_VPC s = vpc)"

definition ExternalNamed :: "string \<Rightarrow> heap \<Rightarrow> ptr \<Rightarrow> bool" where
  "ExternalNamed name h ep = (case external_at h ep of None \<Rightarrow> False | Some x \<Rightarrow> ee_ExternalName x = name)"

section \<open>Reading and writing expectations\<close>

definition Add :: "expectation \<Rightarrow> matrix \<Rightarrow> matrix" where
  "Add e m =
     (let byPP = (case map_of (cm_entries m) (ce_Pair e) of None \<Rightarrow> [] | Some byPP \<Rightarrow> byPP) in
      m\<lparr>cm_entries := map_put (ce_Pair e) (map_put (ce_ProtoPort e) e byPP) (cm_entries m)\<rparr>)"

definition Lookup :: "matrix \<Rightarrow> ptr \<Rightarrow> ptr \<Rightarrow> proto_port \<Rightarrow> expectation" where
  "Lookup m src dst pp =
     (let deny = no_expectation\<lparr>ce_Pair := (src, dst), ce_Verdict := VerdictDeny, ce_ProtoPort := pp\<rparr> in
      case map_of (cm_entries m) (src, dst) of
        None \<Rightarrow> deny
      | Some byPP \<Rightarrow>
          (case map_of byPP pp of
             Some e \<Rightarrow> e
           | None \<Rightarrow>
               if pp \<noteq> any_port then (case map_of byPP any_port of Some e \<Rightarrow> e | None \<Rightarrow> deny)
               else deny))"

definition HasProtoPortEntries :: "matrix \<Rightarrow> ptr \<Rightarrow> ptr \<Rightarrow> bool" where
  "HasProtoPortEntries m src dst =
     (case map_of (cm_entries m) (src, dst) of
        None \<Rightarrow> False
      | Some byPP \<Rightarrow> list_ex (\<lambda>(pp, e). pp \<noteq> any_port) byPP)"

definition ProtoPortEntries :: "matrix \<Rightarrow> ptr \<Rightarrow> ptr \<Rightarrow> expectation list" where
  "ProtoPortEntries m src dst =
     (case map_of (cm_entries m) (src, dst) of
        None \<Rightarrow> []
      | Some byPP \<Rightarrow>
          sort_key (\<lambda>e. (pp_Protocol (ce_ProtoPort e), unat (pp_Port (ce_ProtoPort e))))
            (map snd (filter (\<lambda>(pp, e). pp \<noteq> any_port) byPP)))"

definition overlayReason :: "string \<Rightarrow> string" where
  "overlayReason existing = (if existing \<noteq> '''' then existing else ReachabilityReasonGatewayPeering)"

text \<open>
  One pair of an overlay: the predicates and the mutator are closures of the caller. The mutator
  works on a copy of the translation the pair has.
\<close>

definition overlay_pair ::
  "(ptr \<Rightarrow> ptr \<Rightarrow> translated_address \<Rightarrow> translated_address result) \<Rightarrow> ptr \<times> ptr \<Rightarrow> matrix \<Rightarrow> matrix result" where
  "overlay_pair mutator p m =
     (case p of (src, dst) \<Rightarrow>
      let existing = Lookup m src dst any_port;
          nat = (case ce_NAT existing of None \<Rightarrow> no_translation | Some t \<Rightarrow> t) in
      ebind (mutator src dst nat) (\<lambda>nat.
      Inr (Add (no_expectation\<lparr>ce_Pair := (src, dst), ce_Verdict := VerdictAllow,
             ce_Reason := overlayReason (ce_Reason existing), ce_Peering := ce_Peering existing, ce_NAT := Some nat\<rparr>) m)))"

definition OverlayMatrixNAT ::
  "(ptr \<Rightarrow> bool) \<Rightarrow> (ptr \<Rightarrow> bool) \<Rightarrow> (ptr \<Rightarrow> ptr \<Rightarrow> translated_address \<Rightarrow> translated_address result) \<Rightarrow>
     matrix \<Rightarrow> matrix result" where
  "OverlayMatrixNAT srcPred dstPred mutator m =
     (let pairs = List.product (filter srcPred (cm_AllEndpoints m)) (filter dstPred (cm_AllEndpoints m)) in
      ebind (efold (overlay_pair mutator) pairs m) (\<lambda>m.
      if pairs = [] then Inl (Errf ''matrix overlay applied to no entries (check predicates)'' []) else Inr m))"

section \<open>Filling the matrix\<close>

text \<open>
  The expectations added for a pair, in their order: none if the pair is not reachable, an unknown
  verdict where the check does not understand the peering.
\<close>

definition allow_for :: "ptr \<times> ptr \<Rightarrow> reachability \<Rightarrow> expectation" where
  "allow_for p r =
     no_expectation\<lparr>ce_Pair := p, ce_Verdict := VerdictAllow, ce_Reason := re_Reason r, ce_Peering := re_Peering r\<rparr>"

definition unknown_for :: "ptr \<times> ptr \<Rightarrow> go_err \<Rightarrow> expectation" where
  "unknown_for p e = no_expectation\<lparr>ce_Pair := p, ce_Verdict := VerdictUnknown, ce_Detail := err_text e\<rparr>"

fun external_expectations :: "cluster \<Rightarrow> bool \<Rightarrow> string \<Rightarrow> string \<Rightarrow> ptr \<times> ptr \<Rightarrow> prefix list \<Rightarrow> expectation list result" where
  "external_expectations k gw server external p [] = Inr []"
| "external_expectations k gw server external p (x # xs) =
     (case IsExternalSubnetReachable k server (prefix_string x) gw of
        Inl e \<Rightarrow>
          if err_is e reachCheckUnsupported
          then ebind (external_expectations k gw server external p xs) (\<lambda>es. Inr (unknown_for p e # es))
          else Inl (Wrapf ''checking %s -> %s/%s: %w'' [server, external, prefix_string x] e)
      | Inr r \<Rightarrow> if re_Reachable r then Inr [allow_for p r] else external_expectations k gw server external p xs)"

definition pair_expectations :: "cluster \<Rightarrow> bool \<Rightarrow> heap \<Rightarrow> ptr \<times> ptr \<Rightarrow> expectation list result" where
  "pair_expectations k gw h p =
     (if fst p = snd p then Inr [] else
      case server_at h (fst p) of
        None \<Rightarrow> Inr []
      | Some s \<Rightarrow>
      case server_at h (snd p) of
        Some d \<Rightarrow>
          if se_Name s = se_Name d then Inr [] else
          (case IsServerReachable k (se_Name s) (se_Name d) gw of
             Inl e \<Rightarrow> if err_is e reachCheckUnsupported then Inr [unknown_for p e]
                      else Inl (Wrapf ''checking %s -> %s: %w'' [se_Name s, se_Name d] e)
           | Inr r \<Rightarrow> Inr (if re_Reachable r then [allow_for p r] else []))
      | None \<Rightarrow>
      case external_at h (snd p) of
        Some x \<Rightarrow> external_expectations k gw (se_Name s) (ee_ExternalName x) p (ee_Prefixes x)
      | None \<Rightarrow> Inr [])"

definition populateConnectivityMatrix :: "cluster \<Rightarrow> bool \<Rightarrow> heap \<Rightarrow> matrix \<Rightarrow> matrix result" where
  "populateConnectivityMatrix k gw h m =
     efold (\<lambda>p m. ebind (pair_expectations k gw h p) (\<lambda>es. Inr (fold Add es m)))
       (List.product (cm_AllEndpoints m) (cm_AllEndpoints m)) (m\<lparr>cm_entries := []\<rparr>)"

text \<open>
  The externals become endpoints in the order of their names, each at the next free address. The
  server endpoints are those of the discovery.
\<close>

definition buildExternalEndpoints :: "lobj list \<Rightarrow> endpoint list" where
  "buildExternalEndpoints externals =
     map (\<lambda>name. \<lparr>ep_Server = None,
            ep_External = Some \<lparr>ee_ExternalName = name, ee_Prefixes = [v4_prefix 0 0], ee_SourceIP = NoAddr\<rparr>\<rparr>)
       (sort (map ob_Name externals))"

fun alloc_endpoints :: "endpoint list \<Rightarrow> ptr \<Rightarrow> heap \<Rightarrow> heap" where
  "alloc_endpoints [] next h = h"
| "alloc_endpoints (e # es) next h = alloc_endpoints es (Suc next) (h(next \<mapsto> e))"

text \<open>\<open>fab_gw\<close> is the result of reading the fabricator: whether the gateway is enabled.\<close>

definition Repopulate :: "cluster \<Rightarrow> bool result \<Rightarrow> heap \<Rightarrow> matrix \<Rightarrow> matrix result" where
  "Repopulate k fab_gw h m =
     ebind (ewrap ''getting fab for matrix repopulate: %w'' [] fab_gw) (\<lambda>gw.
     ewrap ''populating connectivity matrix: %w'' [] (populateConnectivityMatrix k gw h m))"

definition BuildConnectivityMatrix ::
  "cluster \<Rightarrow> bool result \<Rightarrow> ptr \<Rightarrow> heap \<Rightarrow> ptr list \<Rightarrow> dropped_endpoint list \<Rightarrow> (heap \<times> matrix) result" where
  "BuildConnectivityMatrix k fab_gw next h serverEndpoints dropped =
     (let externals = buildExternalEndpoints (store_list (cl_Externals k));
          h = alloc_endpoints externals next h;
          m = NewConnectivityMatrix\<lparr>cm_AllEndpoints := serverEndpoints @ [next..<next + length externals],
                 cm_dropped := dropped\<rparr> in
      ebind (Repopulate k fab_gw h m) (\<lambda>m. Inr (h, m)))"

section \<open>Validation\<close>

definition externalCurlAllowed :: "heap \<Rightarrow> matrix \<Rightarrow> ptr \<Rightarrow> expectation option" where
  "externalCurlAllowed h m src =
     (if server_at h src = None then None else
      map_option (\<lambda>dst. Lookup m src dst any_port)
        (find (\<lambda>dst. external_at h dst \<noteq> None \<and>
            (let e = Lookup m src dst any_port in
             ce_Verdict e = VerdictAllow \<and>
             (case ce_NAT e of None \<Rightarrow> True | Some t \<Rightarrow> prefix_is_valid (ta_SourcePool t))))
          (cm_AllEndpoints m)))"

definition port_forward :: "expectation \<Rightarrow> bool" where
  "port_forward e = (case ce_NAT e of None \<Rightarrow> False | Some t \<Rightarrow> ta_DestinationPort t \<noteq> 0)"

definition defaultEntryShadowed :: "heap \<Rightarrow> matrix \<Rightarrow> ptr \<times> ptr \<Rightarrow> proto_port \<Rightarrow> expectation \<Rightarrow> bool" where
  "defaultEntryShadowed h m p pp e =
     (pp = any_port \<and> server_at h (fst p) \<noteq> None \<and> server_at h (snd p) \<noteq> None \<and> \<not> port_forward e \<and>
      HasProtoPortEntries m (fst p) (snd p))"

definition endpointLabel :: "heap \<Rightarrow> ptr \<Rightarrow> string" where
  "endpointLabel h p =
     (case h p of
        None \<Rightarrow> ''<nil>''
      | Some e \<Rightarrow>
          (case ep_Server e of
             Some s \<Rightarrow> se_Name s @ ''('' @ se_VPC s @ ''/'' @ se_Subnet s @ '')''
           | None \<Rightarrow> (case ep_External e of Some x \<Rightarrow> ''external:'' @ ee_ExternalName x | None \<Rightarrow> ''<empty>'')))"

text \<open>The arrow of the messages, in UTF-8.\<close>

definition arrow :: string where
  "arrow = [CHR 0x20, CHR 0xE2, CHR 0x86, CHR 0x92, CHR 0x20]"

definition describeUnknownEntry :: "heap \<Rightarrow> ptr \<times> ptr \<Rightarrow> proto_port \<Rightarrow> expectation \<Rightarrow> string" where
  "describeUnknownEntry h p pp e =
     endpointLabel h (fst p) @ arrow @ endpointLabel h (snd p) @
     (if pp \<noteq> any_port then '' ['' @ pp_Protocol pp @ ''/'' @ itoa (unat (pp_Port pp)) @ '']'' else '''') @
     (if ce_Detail e \<noteq> '''' then '': '' @ ce_Detail e
      else if ce_Reason e \<noteq> '''' then '': '' @ ce_Reason e else '''')"

definition reported_unknown :: "heap \<Rightarrow> matrix \<Rightarrow> ptr \<times> ptr \<Rightarrow> proto_port \<times> expectation \<Rightarrow> bool" where
  "reported_unknown h m p x =
     (case x of (pp, e) \<Rightarrow>
        ce_Verdict e = VerdictUnknown \<and>
        \<not> (external_at h (snd p) \<noteq> None \<and> fst p \<in> set (cm_AllEndpoints m) \<and> externalCurlAllowed h m (fst p) \<noteq> None) \<and>
        \<not> defaultEntryShadowed h m p pp e)"

definition unknown_entries :: "heap \<Rightarrow> matrix \<Rightarrow> string list" where
  "unknown_entries h m =
     concat (map (\<lambda>(p, byPP). map (\<lambda>(pp, e). describeUnknownEntry h p pp e) (filter (reported_unknown h m p) byPP))
       (cm_entries m))"

definition MatrixValidate :: "heap \<Rightarrow> matrix option \<Rightarrow> unit result" where
  "MatrixValidate h mo =
     (case mo of
        None \<Rightarrow> Inl (Errf ''connectivity matrix is nil'' [])
      | Some m \<Rightarrow>
          let unknowns = unknown_entries h m;
              errs = (if cm_AllEndpoints m = [] then [Errf ''matrix has no endpoints'' []] else []) @
                (if cm_dropped m \<noteq> []
                 then [Errf ''endpoint discovery dropped %d attachment(s)/address(es), topology only partially visible: %s''
                         [itoa (length (cm_dropped m)), join_with ''; '' (sort (map dropped_string (cm_dropped m)))]] else []) @
                (if unknowns \<noteq> []
                 then [Errf ''%d matrix entries could not be evaluated and were not overlaid by the test: %s''
                         [itoa (length unknowns), join_with ''; '' (sort unknowns)]] else []) in
          if errs = [] then Inr () else Inl (Joined errs))"

end
