(* ===== verification/MatrixTest.thy ===== *)
theory MatrixTest
  imports Matrix
begin

text \<open>
  The test that checks the traffic against the matrix: the phases of \<^verbatim>\<open>TestConnectivityWithMatrix\<close>.
  A phase starts its checks as goroutines, which send what they find wrong to a channel that is read
  once all of them have ended. A phase is modelled as the list of probes it starts; what a probe
  observes comes from the servers over ssh and is a parameter.
\<close>

section \<open>Options and probes\<close>

record test_opts =
  to_PingsCount :: int
  to_IPerfsSeconds :: int
  to_CurlsCount :: int
  to_Sources :: "string list"
  to_Destinations :: "string list"

definition inSources :: "test_opts \<Rightarrow> string \<Rightarrow> bool" where
  "inSources opts name = (to_Sources opts = [] \<or> name \<in> set (to_Sources opts))"

definition inDestinations :: "test_opts \<Rightarrow> string \<Rightarrow> bool" where
  "inDestinations opts name = (to_Destinations opts = [] \<or> name \<in> set (to_Destinations opts))"

definition reachabilityFromExpectation :: "expectation \<Rightarrow> reachability" where
  "reachabilityFromExpectation e =
     \<lparr>re_Reachable = (ce_Verdict e = VerdictAllow), re_Reason = ce_Reason e, re_Peering = ce_Peering e\<rparr>"

definition IsSameEndpointNode :: "heap \<Rightarrow> ptr \<Rightarrow> ptr \<Rightarrow> bool" where
  "IsSameEndpointNode h a b =
     ((case (external_at h a, external_at h b) of
         (Some x, Some y) \<Rightarrow> ee_ExternalName x = ee_ExternalName y | _ \<Rightarrow> False) \<or>
      (case (server_at h a, server_at h b) of
         (Some s, Some t) \<Rightarrow> se_Name s = se_Name t | _ \<Rightarrow> False))"

record pair_args =
  pa_From :: string
  pa_To :: string
  pa_ToIP :: addr
  pa_Expected :: reachability
  pa_Bidir :: bool

datatype probe =
    PingIperf pair_args
  | Curl string reachability
  | PortForward string addr "16 word" reachability
  | Ping string string addr reachability
  | TCPPort string addr "16 word" bool
  | UDPPort string addr "16 word" bool
  | Failed go_err

text \<open>All probes of a loop, or the first error.\<close>

definition collect_probes :: "('a \<Rightarrow> 'b list result) \<Rightarrow> 'a list \<Rightarrow> 'b list result" where
  "collect_probes f xs = efold (\<lambda>x acc. ebind (f x) (\<lambda>ys. Inr (acc @ ys))) xs []"

section \<open>Server to server\<close>

definition dnat :: "expectation \<Rightarrow> bool" where
  "dnat e = (case ce_NAT e of None \<Rightarrow> False | Some t \<Rightarrow> addr_is_valid (ta_DestinationIP t))"

definition target_ip :: "expectation \<Rightarrow> server_endpoint \<Rightarrow> addr" where
  "target_ip e d =
     (case ce_NAT e of
        Some t \<Rightarrow> if addr_is_valid (ta_DestinationIP t) then ta_DestinationIP t else se_IP d
      | None \<Rightarrow> se_IP d)"

definition bidirectional :: "test_opts \<Rightarrow> matrix \<Rightarrow> ptr \<times> ptr \<Rightarrow> server_endpoint \<Rightarrow> server_endpoint \<Rightarrow> bool" where
  "bidirectional opts m p s d =
     (let entry = Lookup m (fst p) (snd p) any_port; reverse = Lookup m (snd p) (fst p) any_port in
      to_IPerfsSeconds opts > 0 \<and> ce_Verdict entry = VerdictAllow \<and> inSources opts (se_Name d) \<and>
      inDestinations opts (se_Name s) \<and> ce_Verdict reverse = VerdictAllow \<and> \<not> dnat entry \<and> \<not> dnat reverse)"

definition server_probe :: "test_opts \<Rightarrow> heap \<Rightarrow> matrix \<Rightarrow> ptr \<times> ptr \<Rightarrow> probe list result" where
  "server_probe opts h m p =
     (case server_at h (fst p) of
        None \<Rightarrow> Inr []
      | Some s \<Rightarrow>
      if \<not> inSources opts (se_Name s) then Inr [] else
      case server_at h (snd p) of
        None \<Rightarrow> Inr []
      | Some d \<Rightarrow>
      if fst p = snd p \<or> IsSameEndpointNode h (fst p) (snd p) \<or> \<not> inDestinations opts (se_Name d) \<or>
         HasProtoPortEntries m (fst p) (snd p) then Inr []
      else
        let entry = Lookup m (fst p) (snd p) any_port in
        if port_forward entry then Inr []
        else if \<not> addr_is_valid (target_ip entry d)
        then Inl (Errf (''matrix entry %s'' @ [CHR 0xE2, CHR 0x86, CHR 0x92] @ ''%s (vpc %s/%s) has no valid target IP'')
               [se_Name s, se_Name d, se_VPC d, se_Subnet d])
        else Inr [PingIperf \<lparr>pa_From = se_Name s, pa_To = se_Name d, pa_ToIP = target_ip entry d,
               pa_Expected = reachabilityFromExpectation entry, pa_Bidir = bidirectional opts m p s d\<rparr>])"

definition runMatrixServerServerPhase :: "test_opts \<Rightarrow> heap \<Rightarrow> matrix \<Rightarrow> probe list result" where
  "runMatrixServerServerPhase opts h m =
     collect_probes (server_probe opts h m) (List.product (cm_AllEndpoints m) (cm_AllEndpoints m))"

section \<open>Externals\<close>

definition expect_curl :: "test_opts \<Rightarrow> heap \<Rightarrow> matrix \<Rightarrow> ptr \<Rightarrow> reachability gomap \<Rightarrow> reachability gomap" where
  "expect_curl opts h m src exps =
     (case server_at h src of
        None \<Rightarrow> exps
      | Some s \<Rightarrow>
          let name = se_Name s in
          if \<not> inSources opts name then exps else
          let exps = put_absent name unreachable exps in
          if (case map_of exps name of Some r \<Rightarrow> re_Reachable r | None \<Rightarrow> False) then exps else
          (case externalCurlAllowed h m src of
             Some e \<Rightarrow> map_put name (reachabilityFromExpectation e) exps
           | None \<Rightarrow> exps))"

text \<open>\<open>servers\<close> are the keys of the ssh configurations, in the order the map is iterated in.\<close>

definition runMatrixCurlPhase :: "test_opts \<Rightarrow> heap \<Rightarrow> matrix \<Rightarrow> string list \<Rightarrow> probe list" where
  "runMatrixCurlPhase opts h m servers =
     (let expectedByServer = fold (expect_curl opts h m) (cm_AllEndpoints m) [] in
      map (\<lambda>name. Curl name (case map_of expectedByServer name of Some r \<Rightarrow> r | None \<Rightarrow> unreachable))
        (filter (inSources opts) servers))"

section \<open>Port forwarding\<close>

type_synonym pf_target = "string \<times> addr \<times> 16 word"

text \<open>
  One pair: a target of an external goes to the map of targets, where an allowed expectation wins
  over a denied one; a server is probed at once.
\<close>

definition port_forward_probe ::
  "test_opts \<Rightarrow> heap \<Rightarrow> matrix \<Rightarrow> ptr \<times> ptr \<Rightarrow> (pf_target \<times> reachability) list \<times> probe list \<Rightarrow>
     (pf_target \<times> reachability) list \<times> probe list" where
  "port_forward_probe opts h m p st =
     (case st of (targets, probes) \<Rightarrow>
      case server_at h (fst p) of
        None \<Rightarrow> st
      | Some s \<Rightarrow>
      if \<not> inSources opts (se_Name s) \<or> fst p = snd p then st else
      let e = Lookup m (fst p) (snd p) any_port in
      case ce_NAT e of
        None \<Rightarrow> st
      | Some t \<Rightarrow>
      if (ce_Verdict e \<noteq> VerdictAllow \<and> ce_Verdict e \<noteq> VerdictDeny) \<or> \<not> addr_is_valid (ta_DestinationIP t) \<or>
         ta_DestinationPort t = 0 then st
      else if external_at h (snd p) \<noteq> None then
        let key = (se_Name s, ta_DestinationIP t, ta_DestinationPort t) in
        if (case map_of targets key of
              Some prev \<Rightarrow> re_Reachable prev \<or> ce_Verdict e \<noteq> VerdictAllow | None \<Rightarrow> False) then st
        else (map_put key (reachabilityFromExpectation e) targets, probes)
      else case server_at h (snd p) of
        None \<Rightarrow> st
      | Some d \<Rightarrow>
          if IsSameEndpointNode h (fst p) (snd p) \<or> \<not> inDestinations opts (se_Name d) then st
          else (targets, probes @ [PortForward (se_Name s) (ta_DestinationIP t) (ta_DestinationPort t)
                  (reachabilityFromExpectation e)]))"

definition runMatrixPortForwardPhase :: "test_opts \<Rightarrow> heap \<Rightarrow> matrix \<Rightarrow> probe list" where
  "runMatrixPortForwardPhase opts h m =
     (case fold (port_forward_probe opts h m) (List.product (cm_AllEndpoints m) (cm_AllEndpoints m)) ([], []) of
        (targets, probes) \<Rightarrow> probes @ map (\<lambda>((from', ip, port), r). PortForward from' ip port r) targets)"

section \<open>Protocols and ports\<close>

definition persistentIperf3Port :: "16 word" where "persistentIperf3Port = 5201"

text \<open>The listeners to start, each once.\<close>

definition wanted_listeners :: "heap \<Rightarrow> matrix \<Rightarrow> (string \<times> 16 word) list" where
  "wanted_listeners h m =
     remdups (concat (map (\<lambda>(src, dst).
       (case (server_at h src, server_at h dst) of
          (Some s, Some d) \<Rightarrow>
            if src = dst then [] else
            map (\<lambda>e. (se_Name d, pp_Port (ce_ProtoPort e)))
              (filter (\<lambda>e. (pp_Protocol (ce_ProtoPort e) = ''tcp'' \<or> pp_Protocol (ce_ProtoPort e) = ''udp'') \<and>
                 pp_Port (ce_ProtoPort e) \<noteq> 0 \<and> pp_Port (ce_ProtoPort e) \<noteq> persistentIperf3Port)
                (ProtoPortEntries m src dst))
        | _ \<Rightarrow> [])) (List.product (cm_AllEndpoints m) (cm_AllEndpoints m))))"

definition entry_probe :: "server_endpoint \<Rightarrow> server_endpoint \<Rightarrow> expectation \<Rightarrow> probe" where
  "entry_probe s d e =
     (let expected = reachabilityFromExpectation e; pp = ce_ProtoPort e; toIP = target_ip e d;
          to' = [CHR 0xE2, CHR 0x86, CHR 0x92] in
      if \<not> addr_is_valid toIP
      then Failed (Errf (''matrix proto entry %s'' @ to' @ ''%s (%s/%d) has no valid target IP'')
             [se_Name s, se_Name d, pp_Protocol pp, itoa (unat (pp_Port pp))])
      else if pp_Protocol pp = ''icmp'' then Ping (se_Name s) (se_Name d) toIP expected
      else if pp_Protocol pp = ''tcp'' then TCPPort (se_Name s) toIP (pp_Port pp) (re_Reachable expected)
      else if pp_Protocol pp = ''udp'' then UDPPort (se_Name s) toIP (pp_Port pp) (re_Reachable expected)
      else Failed (Errf (''matrix proto entry %s'' @ to' @ ''%s has unsupported protocol %q'')
             [se_Name s, se_Name d, pp_Protocol pp]))"

definition proto_probes :: "test_opts \<Rightarrow> heap \<Rightarrow> matrix \<Rightarrow> ptr \<times> ptr \<Rightarrow> probe list" where
  "proto_probes opts h m p =
     (case (server_at h (fst p), server_at h (snd p)) of
        (Some s, Some d) \<Rightarrow>
          if \<not> inSources opts (se_Name s) \<or> fst p = snd p \<or> IsSameEndpointNode h (fst p) (snd p) \<or>
             \<not> inDestinations opts (se_Name d) then []
          else map (entry_probe s d) (ProtoPortEntries m (fst p) (snd p))
      | _ \<Rightarrow> [])"

definition runMatrixProtoPortPhase :: "test_opts \<Rightarrow> heap \<Rightarrow> matrix \<Rightarrow> probe list" where
  "runMatrixProtoPortPhase opts h m =
     concat (map (proto_probes opts h m) (List.product (cm_AllEndpoints m) (cm_AllEndpoints m)))"

section \<open>The whole test\<close>

text \<open>The servers of the matrix, each once; all of them must have an ssh configuration.\<close>

definition matrix_servers :: "heap \<Rightarrow> matrix \<Rightarrow> string list \<Rightarrow> string list result" where
  "matrix_servers h m sshConfigs =
     efold (\<lambda>p acc. case server_at h p of
          None \<Rightarrow> Inr acc
        | Some s \<Rightarrow>
            if se_Name s \<in> set acc then Inr acc
            else if se_Name s \<notin> set sshConfigs
            then Inl (Errf ''no ssh config for server %q referenced by matrix'' [se_Name s])
            else Inr (acc @ [se_Name s])) (cm_AllEndpoints m) []"

text \<open>The capacity of the channel of errors.\<close>

definition err_capacity :: "matrix \<Rightarrow> nat" where
  "err_capacity m =
     (let n = length (cm_AllEndpoints m) in
      2 * n * n + n +
      sum_list (map (\<lambda>(src, dst). if src = dst then 0 else length (ProtoPortEntries m src dst))
        (List.product (cm_AllEndpoints m) (cm_AllEndpoints m))))"

definition enabled :: "bool \<Rightarrow> 'a list result \<Rightarrow> 'a list result" where
  "enabled b ps = (if b then ps else Inr [])"

text \<open>
  The probes of the test, or the error that keeps it from starting any. The listeners of the
  protocol phase are started by remote commands before the phases; they are left out.
\<close>

definition matrix_test_probes ::
  "test_opts \<Rightarrow> heap \<Rightarrow> matrix option \<Rightarrow> string list \<Rightarrow> probe list result" where
  "matrix_test_probes opts h mo sshConfigs =
     (case mo of
        None \<Rightarrow> Inl (Errf ''connectivity matrix must be non-nil'' [])
      | Some m \<Rightarrow>
      if to_PingsCount opts = 0 \<and> to_IPerfsSeconds opts = 0 \<and> to_CurlsCount opts = 0
      then Inl (Errf ''at least one of pings, iperfs or curls should be enabled'' []) else
      ebind (ewrap ''connectivity matrix is not a sound oracle: %w'' [] (MatrixValidate h mo)) (\<lambda>_.
      ebind (matrix_servers h m sshConfigs) (\<lambda>servers.
      let traffic = (to_PingsCount opts > 0 \<or> to_IPerfsSeconds opts > 0) in
      ebind (enabled traffic (runMatrixServerServerPhase opts h m)) (\<lambda>ss.
      ebind (enabled (to_CurlsCount opts > 0) (Inr (runMatrixCurlPhase opts h m servers))) (\<lambda>cs.
      ebind (enabled (to_IPerfsSeconds opts > 0) (Inr (runMatrixPortForwardPhase opts h m))) (\<lambda>pf.
      ebind (enabled traffic (Inr (runMatrixProtoPortPhase opts h m))) (\<lambda>pp.
      Inr (ss @ cs @ pf @ pp))))))))"

text \<open>
  What running the probes observes: one possible error of a ping, a curl or a port check, and the
  errors of an iperf run (one per direction it measures).
\<close>

record observation =
  obs_ping :: "string \<Rightarrow> string \<Rightarrow> addr \<Rightarrow> reachability \<Rightarrow> go_err option"
  obs_iperf :: "pair_args \<Rightarrow> go_err list"
  obs_other :: "probe \<Rightarrow> go_err option"

definition runPingIperfPair :: "test_opts \<Rightarrow> observation \<Rightarrow> pair_args \<Rightarrow> go_err list" where
  "runPingIperfPair opts obs a =
     (case obs_ping obs (pa_From a) (pa_To a) (pa_ToIP a) (pa_Expected a) of
        Some e \<Rightarrow> [e]
      | None \<Rightarrow>
          if to_IPerfsSeconds opts \<le> 0 then []
          else if pa_Bidir a \<and> pa_From a > pa_To a then []
          else obs_iperf obs a)"

definition run_probe :: "test_opts \<Rightarrow> observation \<Rightarrow> probe \<Rightarrow> go_err list" where
  "run_probe opts obs p =
     (case p of
        PingIperf a \<Rightarrow> runPingIperfPair opts obs a
      | Failed e \<Rightarrow> [e]
      | Ping from' to' ip r \<Rightarrow> (case obs_ping obs from' to' ip r of None \<Rightarrow> [] | Some e \<Rightarrow> [e])
      | _ \<Rightarrow> (case obs_other obs p of None \<Rightarrow> [] | Some e \<Rightarrow> [e]))"

definition TestConnectivityWithMatrix ::
  "test_opts \<Rightarrow> heap \<Rightarrow> matrix option \<Rightarrow> string list \<Rightarrow> observation \<Rightarrow> unit result" where
  "TestConnectivityWithMatrix opts h mo sshConfigs obs =
     ebind (matrix_test_probes opts h mo sshConfigs) (\<lambda>probes.
     let errs = concat (map (run_probe opts obs) probes) in
     if errs = [] then Inr () else Inl (Joined errs))"

end
