(* ===== verification/MatrixProps.thy ===== *)
theory MatrixProps
  imports MatrixTest
begin

text \<open>
  What the matrix promises. The locale \<open>expectation_store\<close> is the contract of reading and writing it;
  filling it from the cluster and overlaying translations are loops over it, proved once there.
\<close>

section \<open>The contract of the matrix\<close>

locale expectation_store =
  fixes look :: "'m \<Rightarrow> 'k \<Rightarrow> 'e" and put :: "'e \<Rightarrow> 'm \<Rightarrow> 'm" and key :: "'e \<Rightarrow> 'k" and ok :: "'e \<Rightarrow> bool"
  assumes look_put: "ok e \<Longrightarrow> look (put e m) k = (if key e = k then e else look m k)"
begin

lemma look_puts:
  assumes "\<And>e. e \<in> set es \<Longrightarrow> ok e \<and> key e = k"
  shows "look (fold put es m) k' = (if k' = k \<and> es \<noteq> [] then last es else look m k')"
  using assms by (induction es arbitrary: m) (auto simp: look_put)

text \<open>
  A loop over different keys that writes, for each, expectations of that key which depend on what is
  there for it: every key ends with the last of its own, the others keep what they had.
\<close>

lemma loop:
  assumes "efold (\<lambda>k m. ebind (f k (look m k)) (\<lambda>es. Inr (fold put es m))) ks m = Inr m'" "distinct ks"
    and "\<And>k e es. f k e = Inr es \<Longrightarrow> \<forall>e'\<in>set es. ok e' \<and> key e' = k"
  shows "if k \<in> set ks
    then \<exists>es. f k (look m k) = Inr es \<and> look m' k = (if es = [] then look m k else last es)
    else look m' k = look m k"
  using assms(1,2)
proof (induction ks arbitrary: m)
  case (Cons x ks)
  from Cons.prems obtain es where es: "f x (look m x) = Inr es"
    and run: "efold (\<lambda>k m. ebind (f k (look m k)) (\<lambda>es. Inr (fold put es m))) ks (fold put es m) = Inr m'"
    by (auto simp: ok_iff)
  have puts: "look (fold put es m) k' = (if k' = x \<and> es \<noteq> [] then last es else look m k')" for k'
    using look_puts [of es x m k'] assms(3) [OF es] by auto
  show ?case
  proof (cases "k = x")
    case True
    with Cons.IH [OF run] Cons.prems(2) puts es show ?thesis by auto
  next
    case False
    then have eq: "look (fold put es m) k = look m k" and mem: "k \<in> set (x # ks) \<longleftrightarrow> k \<in> set ks"
      using puts [of k] by simp_all
    have "distinct ks" using Cons.prems(2) by simp
    from Cons.IH [OF run this] show ?thesis unfolding mem eq .
  qed
qed simp

end

abbreviation default_expectation :: "matrix \<Rightarrow> ptr \<times> ptr \<Rightarrow> expectation" where
  "default_expectation m p \<equiv> Lookup m (fst p) (snd p) any_port"

lemma Lookup_Add:
  "ce_ProtoPort e = any_port \<Longrightarrow>
     default_expectation (Add e m) p = (if ce_Pair e = p then e else default_expectation m p)"
  by (cases p) (auto simp: Lookup_def Add_def Let_def split: option.splits)

interpretation mx: expectation_store default_expectation Add ce_Pair "\<lambda>e. ce_ProtoPort e = any_port"
  by unfold_locales (rule Lookup_Add)

lemma Lookup_empty [simp]:
  "default_expectation (m\<lparr>cm_entries := []\<rparr>) p =
     no_expectation\<lparr>ce_Pair := p, ce_Verdict := VerdictDeny, ce_ProtoPort := any_port\<rparr>"
  "ce_Verdict (Lookup (m\<lparr>cm_entries := []\<rparr>) a b any_port) = VerdictDeny"
  by (simp_all add: Lookup_def)

section \<open>Filling the matrix\<close>

lemma new_sel [simp]:
  "ce_Pair (allow_for p r) = p" "ce_ProtoPort (allow_for p r) = any_port" "ce_Verdict (allow_for p r) = VerdictAllow"
  "ce_Pair (unknown_for p e) = p" "ce_ProtoPort (unknown_for p e) = any_port" "ce_Verdict (unknown_for p e) = VerdictUnknown"
  "ce_Reason (allow_for p r) = re_Reason r" "ce_Peering (allow_for p r) = re_Peering r"
  by (simp_all add: allow_for_def unknown_for_def no_expectation_def)

lemma verdicts_differ [simp]:
  "VerdictAllow \<noteq> VerdictDeny" "VerdictAllow \<noteq> VerdictUnknown" "VerdictDeny \<noteq> VerdictUnknown"
  "VerdictDeny \<noteq> VerdictAllow" "VerdictUnknown \<noteq> VerdictAllow" "VerdictUnknown \<noteq> VerdictDeny"
  by (simp_all add: VerdictAllow_def VerdictDeny_def VerdictUnknown_def)

lemma external_expectations_keys:
  "external_expectations k gw server external p xs = Inr es \<Longrightarrow>
     \<forall>e\<in>set es. ce_ProtoPort e = any_port \<and> ce_Pair e = p"
  by (induction xs arbitrary: es) (auto simp: ok_iff split: sum.splits if_splits)

lemma pair_expectations_keys:
  "pair_expectations k gw h p = Inr es \<Longrightarrow> \<forall>e\<in>set es. ce_ProtoPort e = any_port \<and> ce_Pair e = p"
  unfolding pair_expectations_def
  by (auto simp: external_expectations_keys split: if_splits option.splits sum.splits
      dest: external_expectations_keys)

lemma populate_look:
  assumes "distinct (cm_AllEndpoints m)" "populateConnectivityMatrix k gw h m = Inr m'"
    and "set [fst p, snd p] \<subseteq> set (cm_AllEndpoints m)"
  obtains es where "pair_expectations k gw h p = Inr es"
    and "default_expectation m' p = (if es = [] then default_expectation (m\<lparr>cm_entries := []\<rparr>) p else last es)"
proof -
  let ?ps = "List.product (cm_AllEndpoints m) (cm_AllEndpoints m)"
  have "distinct ?ps" using assms(1) by (simp add: distinct_product)
  moreover have "p \<in> set ?ps" using assms(3) by (cases p) auto
  ultimately show ?thesis
    using mx.loop [of "\<lambda>p _. pair_expectations k gw h p" ?ps "m\<lparr>cm_entries := []\<rparr>" m' p]
      assms(2) pair_expectations_keys that unfolding populateConnectivityMatrix_def by auto
qed

text \<open>The verdict the checks of the cluster stand for.\<close>

definition verdict_of :: "reachability result \<Rightarrow> string \<Rightarrow> bool" where
  "verdict_of r v =
     (case r of
        Inr r \<Rightarrow> v = (if re_Reachable r then VerdictAllow else VerdictDeny)
      | Inl e \<Rightarrow> err_is e reachCheckUnsupported \<and> v = VerdictUnknown)"

text \<open>
  C14. A matrix filled from the cluster says of two endpoints of different servers what the check of the
  servers says: allowed if reachable, denied if not, unknown if the check does not support a peering;
  between endpoints of one server it denies.
\<close>

theorem populate_server_verdicts:
  assumes "distinct (cm_AllEndpoints m)" "populateConnectivityMatrix k gw h m = Inr m'"
    and "a \<in> set (cm_AllEndpoints m)" "b \<in> set (cm_AllEndpoints m)"
    and "server_at h a = Some s" "server_at h b = Some d"
  shows "if se_Name s = se_Name d then ce_Verdict (Lookup m' a b any_port) = VerdictDeny
    else verdict_of (IsServerReachable k (se_Name s) (se_Name d) gw) (ce_Verdict (Lookup m' a b any_port))"
proof -
  from populate_look [OF assms(1,2), of "(a, b)"] assms(3,4) obtain es
    where es: "pair_expectations k gw h (a, b) = Inr es"
    and look: "Lookup m' a b any_port =
      (if es = [] then default_expectation (m\<lparr>cm_entries := []\<rparr>) (a, b) else last es)"
    by auto
  have "a = b \<Longrightarrow> se_Name s = se_Name d" using assms(5,6) by simp
  with es assms(5,6) show ?thesis
    unfolding look by (auto simp: pair_expectations_def verdict_of_def no_expectation_def split: if_splits sum.splits)
qed

section \<open>Overlays\<close>

text \<open>
  C15. An overlay that succeeds allows every pair its predicates select, with the translation the mutator
  makes of the one it had and the peering it had, and leaves every other pair as it was; it fails if
  the predicates select no pair.
\<close>

theorem overlay_effect:
  assumes "distinct (cm_AllEndpoints m)" "OverlayMatrixNAT sp dp mut m = Inr m'"
  shows "(\<exists>a\<in>set (cm_AllEndpoints m). sp a) \<and> (\<exists>b\<in>set (cm_AllEndpoints m). dp b) \<and>
    (if a \<in> set (cm_AllEndpoints m) \<and> sp a \<and> b \<in> set (cm_AllEndpoints m) \<and> dp b
     then let old = Lookup m a b any_port in
       \<exists>t. mut a b (case ce_NAT old of None \<Rightarrow> no_translation | Some t \<Rightarrow> t) = Inr t \<and>
         Lookup m' a b any_port = no_expectation\<lparr>ce_Pair := (a, b), ce_Verdict := VerdictAllow, ce_NAT := Some t,
           ce_Reason := overlayReason (ce_Reason old), ce_Peering := ce_Peering old\<rparr>
     else Lookup m' a b any_port = Lookup m a b any_port)"
proof -
  let ?xs = "filter sp (cm_AllEndpoints m)" and ?ys = "filter dp (cm_AllEndpoints m)"
  let ?new = "\<lambda>p (old::expectation). ebind (mut (fst p) (snd p) (case ce_NAT old of None \<Rightarrow> no_translation | Some t \<Rightarrow> t))
    (\<lambda>t. Inr [no_expectation\<lparr>ce_Pair := p, ce_Verdict := VerdictAllow, ce_NAT := Some t,
      ce_Reason := overlayReason (ce_Reason old), ce_Peering := ce_Peering old\<rparr>])"
  from assms(2) have run: "efold (overlay_pair mut) (List.product ?xs ?ys) m = Inr m'" and "List.product ?xs ?ys \<noteq> []"
    by (auto simp: OverlayMatrixNAT_def Let_def ok_iff split: if_splits)
  then have "hd (List.product ?xs ?ys) \<in> set (List.product ?xs ?ys)" by (intro hd_in_set) simp
  then have ne: "(\<exists>a\<in>set (cm_AllEndpoints m). sp a) \<and> (\<exists>b\<in>set (cm_AllEndpoints m). dp b)"
    unfolding set_product by auto
  have step: "overlay_pair mut p m = ebind (?new p (default_expectation m p)) (\<lambda>es. Inr (fold Add es m))" for p m
    by (cases p; cases "mut (fst p) (snd p) (case ce_NAT (default_expectation m p) of None \<Rightarrow> no_translation | Some t \<Rightarrow> t)")
      (simp_all add: overlay_pair_def Let_def no_expectation_def)
  have "distinct (List.product ?xs ?ys)" using assms(1) by (simp add: distinct_product)
  moreover have "?new p e = Inr es \<Longrightarrow> \<forall>e'\<in>set es. ce_ProtoPort e' = any_port \<and> ce_Pair e' = p" for p e es
    by (auto simp: ok_iff no_expectation_def)
  ultimately show ?thesis
    using mx.loop [of ?new, OF run [unfolded step], of "(a, b)"] ne by (auto simp: ok_iff no_expectation_def Let_def)
qed

section \<open>What a validated matrix is tested for\<close>

lemma validated_no_unknowns:
  assumes "MatrixValidate h (Some m) = Inr ()" "(p, byPP) \<in> set (cm_entries m)" "(pp, e) \<in> set byPP"
  shows "\<not> reported_unknown h m p (pp, e)"
proof
  assume "reported_unknown h m p (pp, e)"
  with assms(2,3) have "describeUnknownEntry h p pp e \<in> set (unknown_entries h m)"
    by (cases p) (auto simp: unknown_entries_def intro!: bexI [of _ "(p, byPP)"] image_eqI [of _ _ "(pp, e)"])
  then have "unknown_entries h m \<noteq> []" by auto
  with assms(1) show False by (simp add: MatrixValidate_def Let_def split: if_splits)
qed

lemma Lookup_default_cases:
  assumes "ce_Verdict (default_expectation m p) = VerdictUnknown"
  obtains byPP where "(p, byPP) \<in> set (cm_entries m)" "(any_port, default_expectation m p) \<in> set byPP"
  using assms by (auto simp: Lookup_def Let_def no_expectation_def dest!: map_of_SomeD split: option.splits)

lemma ProtoPortEntries_in:
  assumes "e \<in> set (ProtoPortEntries m a b)"
  obtains byPP pp where "((a, b), byPP) \<in> set (cm_entries m)" "(pp, e) \<in> set byPP" "pp \<noteq> any_port"
  using assms by (cases "map_of (cm_entries m) (a, b)") (auto simp: ProtoPortEntries_def dest!: map_of_SomeD)

text \<open>
  C18. No probe of a validated matrix rests on a verdict that could not be evaluated: neither a probe
  between two servers, nor one of a protocol and port, nor the expectation that a server with no
  allowed external cannot reach any.
\<close>

theorem validated_probes_decided:
  assumes "MatrixValidate h (Some m) = Inr ()" "\<forall>p. server_at h p \<noteq> None \<longrightarrow> external_at h p = None"
  shows "(\<forall>a. server_probe opts h m p = Inr [PingIperf a] \<longrightarrow> ce_Verdict (default_expectation m p) \<noteq> VerdictUnknown) \<and>
    (\<forall>e\<in>set (ProtoPortEntries m (fst p) (snd p)). server_at h (snd p) \<noteq> None \<longrightarrow> ce_Verdict e \<noteq> VerdictUnknown) \<and>
    (external_at h (snd p) \<noteq> None \<and> externalCurlAllowed h m (fst p) = None \<longrightarrow>
      ce_Verdict (default_expectation m p) \<noteq> VerdictUnknown)"
proof -
  have default: "external_at h (snd p) \<noteq> None \<and> externalCurlAllowed h m (fst p) \<noteq> None \<or>
      defaultEntryShadowed h m p any_port (default_expectation m p)"
    if u: "ce_Verdict (default_expectation m p) = VerdictUnknown"
  proof (rule Lookup_default_cases [OF u])
    fix byPP
    assume "(p, byPP) \<in> set (cm_entries m)" "(any_port, default_expectation m p) \<in> set byPP"
    from validated_no_unknowns [OF assms(1) this] u show ?thesis by (auto simp: reported_unknown_def)
  qed
  have "ce_Verdict e \<noteq> VerdictUnknown" if e: "e \<in> set (ProtoPortEntries m (fst p) (snd p))" "server_at h (snd p) \<noteq> None" for e
  proof (rule ProtoPortEntries_in [OF e(1)])
    fix byPP pp
    assume "((fst p, snd p), byPP) \<in> set (cm_entries m)" "(pp, e) \<in> set byPP" "pp \<noteq> any_port"
    with validated_no_unknowns [OF assms(1)] assms(2) e(2) show ?thesis
      by (fastforce simp: reported_unknown_def defaultEntryShadowed_def)
  qed
  moreover have "ce_Verdict (default_expectation m p) \<noteq> VerdictUnknown" if "server_probe opts h m p = Inr [PingIperf a]" for a
    using that default assms(2) by (auto simp: server_probe_def defaultEntryShadowed_def Let_def split: option.splits if_splits)
  moreover have "ce_Verdict (default_expectation m p) \<noteq> VerdictUnknown"
    if "external_at h (snd p) \<noteq> None" "externalCurlAllowed h m (fst p) = None"
    using that default assms(2) by (auto simp: defaultEntryShadowed_def)
  ultimately show ?thesis by blast
qed

section \<open>The channel of errors\<close>

lemma collect_probes_acc:
  "efold (\<lambda>x acc. ebind (f x) (\<lambda>ys. Inr (acc @ ys))) xs acc = Inr zs \<Longrightarrow>
     \<exists>yss. map f xs = map Inr yss \<and> zs = acc @ concat yss"
proof (induction xs arbitrary: acc)
  case (Cons x xs)
  then obtain ys where ys: "f x = Inr ys" "efold (\<lambda>x acc. ebind (f x) (\<lambda>ys. Inr (acc @ ys))) xs (acc @ ys) = Inr zs"
    by (auto simp: ok_iff)
  from Cons.IH [OF ys(2)] obtain yss where "map f xs = map Inr yss" "zs = (acc @ ys) @ concat yss" by blast
  with ys(1) show ?case by (intro exI [of _ "ys # yss"]) simp
qed simp

lemma collect_probes_length:
  assumes "collect_probes f xs = Inr zs" "\<And>x ys. x \<in> set xs \<Longrightarrow> f x = Inr ys \<Longrightarrow> length ys \<le> g x"
  shows "length zs \<le> sum_list (map g xs)"
proof -
  from collect_probes_acc [OF assms(1) [unfolded collect_probes_def]] obtain yss
    where yss: "map f xs = map Inr yss" "zs = concat yss" by auto
  from yss(1) assms(2) have "sum_list (map length yss) \<le> sum_list (map g xs)"
  proof (induction xs arbitrary: yss)
    case (Cons x xs)
    then obtain ys yss' where y: "yss = ys # yss'" "f x = Inr ys" "map f xs = map Inr yss'" by (cases yss) auto
    have "length ys \<le> g x" using Cons.prems(2) [of x ys] y(2) by simp
    moreover have "sum_list (map length yss') \<le> sum_list (map g xs)"
      using Cons.IH [OF y(3)] Cons.prems(2) by simp
    ultimately show ?case by (simp add: y(1))
  qed simp
  then show ?thesis by (simp add: yss(2) length_concat)
qed

lemma server_probe_length: "server_probe opts h m p = Inr ys \<Longrightarrow>
    length ys \<le> (if port_forward (default_expectation m p) then 0 else 1)"
  by (auto simp: server_probe_def Let_def split: option.splits if_splits)

lemma length_map_put: "length (map_put k v m) \<le> Suc (length m)"
  by (induction k v m rule: map_put.induct) auto

lemma port_forward_probe_length:
  "length (fst (port_forward_probe opts h m p st)) + length (snd (port_forward_probe opts h m p st)) \<le>
     length (fst st) + length (snd st) + (if port_forward (default_expectation m p) then 1 else 0)"
proof -
  have put: "length (map_put k v t) \<le> Suc (length t)" for k v and t :: "(pf_target \<times> reachability) list"
    by (rule length_map_put)
  show ?thesis
    unfolding port_forward_probe_def port_forward_def
    by (auto simp: Let_def split: prod.splits option.splits intro: put le_SucI)
qed

lemma port_forward_phase_length:
  "length (runMatrixPortForwardPhase opts h m) \<le>
     sum_list (map (\<lambda>p. if port_forward (default_expectation m p) then 1 else 0)
       (List.product (cm_AllEndpoints m) (cm_AllEndpoints m)))"
proof -
  have "length (fst (fold (port_forward_probe opts h m) ps st)) + length (snd (fold (port_forward_probe opts h m) ps st)) \<le>
      length (fst st) + length (snd st) + sum_list (map (\<lambda>p. if port_forward (default_expectation m p) then 1 else 0) ps)" for ps st
  proof (induction ps arbitrary: st)
    case (Cons p ps)
    show ?case
      using Cons [of "port_forward_probe opts h m p st"] port_forward_probe_length [of opts h m p st] by simp
  qed simp
  from this [of "List.product (cm_AllEndpoints m) (cm_AllEndpoints m)" "([], [])"] show ?thesis
    by (auto simp: runMatrixPortForwardPhase_def split: prod.splits)
qed

lemma matrix_servers_length:
  "matrix_servers h m ssh = Inr servers \<Longrightarrow> length servers \<le> length (cm_AllEndpoints m)"
proof -
  have "length acc' \<le> length acc + length ps" if "efold (\<lambda>p acc. case server_at h p of
          None \<Rightarrow> Inr acc
        | Some s \<Rightarrow>
            if se_Name s \<in> set acc then Inr acc
            else if se_Name s \<notin> set ssh
            then Inl (Errf ''no ssh config for server %q referenced by matrix'' [se_Name s])
            else Inr (acc @ [se_Name s])) ps acc = Inr acc'" for ps acc acc'
    using that by (induction ps arbitrary: acc) (fastforce split: option.splits if_splits)+
  then show "matrix_servers h m ssh = Inr servers \<Longrightarrow> ?thesis"
    unfolding matrix_servers_def by force
qed


lemma proto_phase_length:
  "length (runMatrixProtoPortPhase opts h m) \<le>
     sum_list (map (\<lambda>(src, dst). if src = dst then 0 else length (ProtoPortEntries m src dst))
       (List.product (cm_AllEndpoints m) (cm_AllEndpoints m)))"
proof -
  have "length (proto_probes opts h m p) \<le> (case p of (src, dst) \<Rightarrow> if src = dst then 0 else length (ProtoPortEntries m src dst))" for p
    by (cases p) (auto simp: proto_probes_def split: option.splits)
  then show ?thesis by (simp add: runMatrixProtoPortPhase_def length_concat comp_def sum_list_mono)
qed

lemma run_probe_lengths:
  assumes "\<And>a. length (obs_iperf obs a) \<le> 2"
  shows "length (run_probe opts obs p) \<le> 2"
    and "(\<And>a. p \<noteq> PingIperf a) \<Longrightarrow> length (run_probe opts obs p) \<le> 1"
  using assms by (auto simp: run_probe_def runPingIperfPair_def split: probe.splits option.splits)

lemma runs_length:
  "(\<And>p. p \<in> set ps \<Longrightarrow> length (run_probe opts obs p) \<le> k) \<Longrightarrow>
     length (concat (map (run_probe opts obs) ps)) \<le> k * length ps"
  by (induction ps) (auto simp: add_mono)

lemma no_pair_probes:
  "PingIperf a \<notin> set (runMatrixCurlPhase opts h m servers)"
  "PingIperf a \<notin> set (runMatrixProtoPortPhase opts h m)"
  by (auto simp: runMatrixCurlPhase_def Let_def runMatrixProtoPortPhase_def proto_probes_def entry_probe_def
      split: option.splits if_splits)

lemma enabled_Inr: "enabled b r = Inr xs \<Longrightarrow> xs = [] \<or> r = Inr xs"
  by (auto simp: enabled_def split: if_splits)

lemma matrix_test_probes_parts:
  assumes "matrix_test_probes opts h (Some m) ssh = Inr probes"
  obtains servers ss cs pf pp where "probes = ss @ cs @ pf @ pp" "matrix_servers h m ssh = Inr servers"
    "ss = [] \<or> runMatrixServerServerPhase opts h m = Inr ss" "cs = [] \<or> cs = runMatrixCurlPhase opts h m servers"
    "pf = [] \<or> pf = runMatrixPortForwardPhase opts h m" "pp = [] \<or> pp = runMatrixProtoPortPhase opts h m"
    "MatrixValidate h (Some m) = Inr ()"
proof -
  let ?traffic = "to_PingsCount opts > 0 \<or> to_IPerfsSeconds opts > 0"
  from assms obtain servers ss cs pf pp where e: "probes = ss @ cs @ pf @ pp" "matrix_servers h m ssh = Inr servers"
    "enabled ?traffic (runMatrixServerServerPhase opts h m) = Inr ss"
    "enabled (to_CurlsCount opts > 0) (Inr (runMatrixCurlPhase opts h m servers)) = Inr cs"
    "enabled (to_IPerfsSeconds opts > 0) (Inr (runMatrixPortForwardPhase opts h m)) = Inr pf"
    "enabled ?traffic (Inr (runMatrixProtoPortPhase opts h m)) = Inr pp" "MatrixValidate h (Some m) = Inr ()"
    unfolding matrix_test_probes_def ok_iff Let_def option.case by (elim conjE exE) (rule that; (assumption | simp))
  show ?thesis
    by (rule that [OF e(1,2)]) (use enabled_Inr [OF e(3)] enabled_Inr [OF e(4)] enabled_Inr [OF e(5)] enabled_Inr [OF e(6)] e(7) in auto)
qed

text \<open>The channel of the errors has room for all of them, with at most one per direction of an iperf run.\<close>

lemma errors_fit:
  assumes "matrix_test_probes opts h (Some m) ssh = Inr probes" "\<And>a. length (obs_iperf obs a) \<le> 2"
  shows "length (concat (map (run_probe opts obs) probes)) \<le> err_capacity m"
proof -
  let ?ps = "List.product (cm_AllEndpoints m) (cm_AllEndpoints m)" and ?n = "length (cm_AllEndpoints m)"
  let ?run = "\<lambda>ps. length (concat (map (run_probe opts obs) ps))"
  let ?pf = "\<lambda>p. if port_forward (default_expectation m p) then 1 else 0 :: nat"
  from assms(1) obtain servers ss cs pf pp where parts: "probes = ss @ cs @ pf @ pp" "matrix_servers h m ssh = Inr servers"
    "ss = [] \<or> runMatrixServerServerPhase opts h m = Inr ss" "cs = [] \<or> cs = runMatrixCurlPhase opts h m servers"
    "pf = [] \<or> pf = runMatrixPortForwardPhase opts h m" "pp = [] \<or> pp = runMatrixProtoPortPhase opts h m"
    by (rule matrix_test_probes_parts)
  note two = run_probe_lengths(1) [OF assms(2)] and one = run_probe_lengths(2) [OF assms(2)]
  have "length ss \<le> sum_list (map (\<lambda>p. 1 - ?pf p) ?ps)"
  proof (cases "ss = []")
    case False
    with parts(3) have "collect_probes (server_probe opts h m) ?ps = Inr ss" by (simp add: runMatrixServerServerPhase_def)
    then show ?thesis by (rule collect_probes_length) (use server_probe_length [of opts h m] in force)
  qed simp
  moreover have "length pf \<le> sum_list (map ?pf ?ps)" using parts(5) port_forward_phase_length [of opts h m] by auto
  moreover have "sum_list (map (\<lambda>p. 1 - ?pf p) ?ps) + sum_list (map ?pf ?ps) = ?n * ?n"
  proof -
    have "sum_list (map (\<lambda>p. 1 - ?pf p) xs) + sum_list (map ?pf xs) = length xs" for xs by (induction xs) auto
    from this [of ?ps] show ?thesis by (simp add: length_product)
  qed
  ultimately have traffic: "?run ss + ?run pf \<le> 2 * ?n * ?n"
    using runs_length [of ss opts obs 2] runs_length [of pf opts obs 2] two by (simp add: mult.assoc)
  have "length cs \<le> ?n"
    using parts(4) matrix_servers_length [OF parts(2)] by (auto simp: runMatrixCurlPhase_def Let_def intro: le_trans [OF length_filter_le])
  moreover have "?run cs \<le> 1 * length cs" by (rule runs_length, rule one) (use parts(4) no_pair_probes(1) in fastforce)
  moreover have "?run pp \<le> 1 * length pp" by (rule runs_length, rule one) (use parts(6) no_pair_probes(2) in fastforce)
  moreover have "length pp \<le> sum_list (map (\<lambda>(src, dst). if src = dst then 0 else length (ProtoPortEntries m src dst)) ?ps)"
    using parts(6) proto_phase_length [of opts h m] by auto
  ultimately show ?thesis using traffic by (simp add: parts(1) err_capacity_def Let_def)
qed

section \<open>Which direction drives an iperf run\<close>

lemma collect_probes_all:
  assumes "collect_probes f xs = Inr zs" "x \<in> set xs"
  obtains ys where "f x = Inr ys" "set ys \<subseteq> set zs"
proof -
  from collect_probes_acc [OF assms(1) [unfolded collect_probes_def]] obtain yss
    where yss: "map f xs = map Inr yss" "zs = concat yss" by auto
  from assms(2) obtain i where i: "i < length xs" "x = xs ! i" by (auto simp: in_set_conv_nth)
  have len: "length xs = length yss" using yss(1) by (rule map_eq_imp_length_eq)
  have "map f xs ! i = map Inr yss ! i" using yss(1) by simp
  with i len have "i < length yss" "f x = Inr (yss ! i)" by simp_all
  moreover have "set (yss ! i) \<subseteq> set zs" using nth_mem [of i yss] calculation(1) yss(2) by fastforce
  ultimately show ?thesis using that by blast
qed

lemma server_probe_pair:
  assumes "server_probe opts h m p = Inr [PingIperf a]"
  obtains s d where "server_at h (fst p) = Some s" "server_at h (snd p) = Some d" "se_Name s \<noteq> se_Name d"
    "pa_From a = se_Name s" "pa_To a = se_Name d" "inSources opts (se_Name s)" "inDestinations opts (se_Name d)"
    "pa_Expected a = reachabilityFromExpectation (default_expectation m p)" "pa_Bidir a = bidirectional opts m p s d"
    "\<not> HasProtoPortEntries m (fst p) (snd p)" "\<not> IsSameEndpointNode h (fst p) (snd p)"
  using assms that by (auto simp: server_probe_def Let_def IsSameEndpointNode_def split: option.splits if_splits)

text \<open>The other direction of a pair tested both ways at once.\<close>

lemma reverse_probe:
  assumes "server_probe opts h m p = Inr [PingIperf a]" "pa_Bidir a" "server_probe opts h m (snd p, fst p) = Inr ys"
    and "\<not> HasProtoPortEntries m (snd p) (fst p)" "\<not> port_forward (default_expectation m (snd p, fst p))"
  shows "\<exists>b. ys = [PingIperf b] \<and> pa_From b = pa_To a \<and> pa_To b = pa_From a \<and> pa_Bidir b \<and> re_Reachable (pa_Expected b)"
proof -
  from server_probe_pair [OF assms(1)] obtain s d where sd: "server_at h (fst p) = Some s" "server_at h (snd p) = Some d"
    "se_Name s \<noteq> se_Name d" "pa_From a = se_Name s" "pa_To a = se_Name d" "inSources opts (se_Name s)"
    "inDestinations opts (se_Name d)" "pa_Bidir a = bidirectional opts m p s d" "\<not> IsSameEndpointNode h (fst p) (snd p)"
    by metis
  have bi: "bidirectional opts m p s d" using sd(8) assms(2) by simp
  then have "bidirectional opts m (snd p, fst p) d s" "inSources opts (se_Name d)" "inDestinations opts (se_Name s)"
    "ce_Verdict (Lookup m (snd p) (fst p) any_port) = VerdictAllow"
    using sd(6,7) by (simp_all add: bidirectional_def Let_def)
  moreover have "\<not> IsSameEndpointNode h (snd p) (fst p)" "snd p \<noteq> fst p"
    using sd(1-3,9) by (auto simp: IsSameEndpointNode_def split: option.splits)
  ultimately show ?thesis
    using assms(3-5) sd(1,2,4,5)
    by (auto simp: server_probe_def Let_def reachabilityFromExpectation_def split: if_splits)
qed

text \<open>
  C20. Where the other direction of a pair is neither forwarded nor scoped to protocols and ports, a pair
  expected to be reachable has its iperf run: by its own probe or, when one run measures both
  directions, by the probe of the other.
\<close>

theorem iperf_driven:
  assumes "matrix_test_probes opts h (Some m) ssh = Inr probes" "to_IPerfsSeconds opts > 0"
    and "fst p \<in> set (cm_AllEndpoints m)" "snd p \<in> set (cm_AllEndpoints m)"
    and "server_probe opts h m p = Inr [PingIperf a]"
    and "\<not> HasProtoPortEntries m (snd p) (fst p)" "\<not> port_forward (default_expectation m (snd p, fst p))"
  shows "PingIperf a \<in> set probes \<and>
    (\<exists>b. PingIperf b \<in> set probes \<and> (b = a \<or> pa_Bidir b \<and> pa_From b = pa_To a \<and> pa_To b = pa_From a) \<and>
      (\<forall>obs. (\<forall>f t ip r. obs_ping obs f t ip r = None) \<longrightarrow> runPingIperfPair opts obs b = obs_iperf obs b))"
proof -
  let ?ps = "List.product (cm_AllEndpoints m) (cm_AllEndpoints m)"
  from assms(1,2) obtain ss where ss: "collect_probes (server_probe opts h m) ?ps = Inr ss" "set ss \<subseteq> set probes"
    by (auto simp: matrix_test_probes_def ok_iff Let_def enabled_def runMatrixServerServerPhase_def)
  have ps: "p \<in> set ?ps" "(snd p, fst p) \<in> set ?ps" using assms(3,4) by (cases p; simp)+
  from collect_probes_all [OF ss(1) ps(1)] assms(5) ss(2) have a: "PingIperf a \<in> set probes" by auto
  show ?thesis
  proof (cases "pa_Bidir a \<and> pa_From a > pa_To a")
    case True
    from collect_probes_all [OF ss(1) ps(2)] obtain ys where ys: "server_probe opts h m (snd p, fst p) = Inr ys" "set ys \<subseteq> set ss"
      by blast
    from reverse_probe [OF assms(5) _ ys(1) assms(6,7)] True obtain b where b: "ys = [PingIperf b]"
      "pa_From b = pa_To a" "pa_To b = pa_From a" "pa_Bidir b" by blast
    have "runPingIperfPair opts obs b = obs_iperf obs b" if "\<forall>f t ip r. obs_ping obs f t ip r = None" for obs
      using that True b assms(2) by (auto simp: runPingIperfPair_def dest: order_less_asym)
    with a b ys(2) ss(2) show ?thesis by auto
  next
    case False
    then have "runPingIperfPair opts obs a = obs_iperf obs a" if "\<forall>f t ip r. obs_ping obs f t ip r = None" for obs
      using that assms(2) by (auto simp: runPingIperfPair_def)
    with a show ?thesis by blast
  qed
qed

section \<open>Examples\<close>

definition example_server :: "string \<Rightarrow> string \<Rightarrow> 32 word \<Rightarrow> endpoint" where
  "example_server name vpc' ip =
     \<lparr>ep_Server = Some \<lparr>se_Name = name, se_VPC = vpc', se_Subnet = ''default'', se_HostBGP = False, se_IP = V4 ip\<rparr>,
      ep_External = None\<rparr>"

definition example_heap :: heap where
  "example_heap = [0 \<mapsto> example_server ''server-1'' ''vpc-1'' 0x0A000105, 1 \<mapsto> example_server ''server-2'' ''vpc-2'' 0x0A000205]"

definition example_opts :: test_opts where
  "example_opts = \<lparr>to_PingsCount = 5, to_IPerfsSeconds = 5, to_CurlsCount = 0, to_Sources = [], to_Destinations = []\<rparr>"

definition open_matrix :: matrix where
  "open_matrix = Add (allow_for (1, 0) unreachable) (Add (allow_for (0, 1) unreachable)
     (NewConnectivityMatrix\<lparr>cm_AllEndpoints := [0, 1]\<rparr>))"

definition http :: proto_port where "http = \<lparr>pp_Protocol = ''tcp'', pp_Port = 80\<rparr>"

definition scoped_matrix :: matrix where
  "scoped_matrix = Add ((allow_for (0, 1) unreachable)\<lparr>ce_ProtoPort := http\<rparr>) open_matrix"

lemma http_not_any: "http \<noteq> any_port" "any_port \<noteq> http"
  by (simp_all add: http_def any_port_def)

lemma example_servers:
  "server_at example_heap 0 = Some \<lparr>se_Name = ''server-1'', se_VPC = ''vpc-1'', se_Subnet = ''default'', se_HostBGP = False, se_IP = V4 0x0A000105\<rparr>"
  "server_at example_heap 1 = Some \<lparr>se_Name = ''server-2'', se_VPC = ''vpc-2'', se_Subnet = ''default'', se_HostBGP = False, se_IP = V4 0x0A000205\<rparr>"
  "external_at example_heap p = None"
  by (simp_all add: server_at_def external_at_def example_heap_def example_server_def)

lemma example_populate:
  "\<exists>m'. populateConnectivityMatrix example_cluster False example_heap (NewConnectivityMatrix\<lparr>cm_AllEndpoints := [0, 1]\<rparr>) = Inr m'"
  by (simp add: populateConnectivityMatrix_def NewConnectivityMatrix_def pair_expectations_def example_servers
      example_servers(2) [unfolded One_nat_def] example_reachable example_reachable_back)

theorem populate_server_verdicts_witness:
  "\<exists>m'. populateConnectivityMatrix example_cluster False example_heap (NewConnectivityMatrix\<lparr>cm_AllEndpoints := [0, 1]\<rparr>) = Inr m' \<and>
     ce_Verdict (Lookup m' 0 1 any_port) = VerdictAllow"
proof -
  obtain m' where m': "populateConnectivityMatrix example_cluster False example_heap
      (NewConnectivityMatrix\<lparr>cm_AllEndpoints := [0, 1]\<rparr>) = Inr m'" using example_populate by blast
  from populate_server_verdicts [OF _ m' _ _ example_servers(1,2)]
  have "ce_Verdict (Lookup m' 0 1 any_port) = VerdictAllow"
    by (simp add: example_reachable verdict_of_def)
  with m' show ?thesis by blast
qed

theorem overlay_effect_witness:
  "\<exists>m'. OverlayMatrixNAT (\<lambda>p. p = 0) (\<lambda>p. p = 1) (\<lambda>_ _ t. Inr (t\<lparr>ta_DestinationPort := 8080\<rparr>)) open_matrix = Inr m' \<and>
     port_forward (Lookup m' 0 1 any_port)"
proof -
  obtain m' where m': "OverlayMatrixNAT (\<lambda>p. p = 0) (\<lambda>p. p = 1) (\<lambda>_ _ t. Inr (t\<lparr>ta_DestinationPort := 8080\<rparr>)) open_matrix = Inr m'"
    by (simp add: OverlayMatrixNAT_def open_matrix_def Add_def NewConnectivityMatrix_def overlay_pair_def Let_def)
  have "cm_AllEndpoints open_matrix = [0, 1]" by (simp add: open_matrix_def Add_def Let_def)
  with overlay_effect [OF _ m', of 0 1] have "port_forward (Lookup m' 0 1 any_port)"
    by (auto simp: Let_def port_forward_def no_expectation_def)
  with m' show ?thesis by blast
qed

lemma matrices_valid:
  "MatrixValidate example_heap (Some open_matrix) = Inr ()"
  "MatrixValidate example_heap (Some scoped_matrix) = Inr ()"
  by (simp_all add: MatrixValidate_def Let_def unknown_entries_def reported_unknown_def scoped_matrix_def open_matrix_def
      Add_def NewConnectivityMatrix_def http_not_any)

lemmas probe_defs = matrix_test_probes_def matrix_servers_def enabled_def runMatrixServerServerPhase_def collect_probes_def
  server_probe_def runMatrixPortForwardPhase_def port_forward_probe_def runMatrixProtoPortPhase_def proto_probes_def
  inSources_def inDestinations_def IsSameEndpointNode_def HasProtoPortEntries_def ProtoPortEntries_def port_forward_def
  target_ip_def bidirectional_def dnat_def

lemma open_lookups:
  "Lookup open_matrix 0 1 any_port = allow_for (0, 1) unreachable" "Lookup open_matrix 1 0 any_port = allow_for (1, 0) unreachable"
  "HasProtoPortEntries open_matrix a b = False" "ProtoPortEntries open_matrix a b = []"
  "cm_AllEndpoints open_matrix = [0, 1]"
  by (auto simp: open_matrix_def Lookup_def Add_def NewConnectivityMatrix_def HasProtoPortEntries_def ProtoPortEntries_def
      allow_for_def no_expectation_def split: option.splits)

definition open_pair :: "string \<Rightarrow> string \<Rightarrow> 32 word \<Rightarrow> probe" where
  "open_pair f t ip = PingIperf \<lparr>pa_From = f, pa_To = t, pa_ToIP = V4 ip,
     pa_Expected = \<lparr>re_Reachable = True, re_Reason = '''', re_Peering = ''''\<rparr>, pa_Bidir = True\<rparr>"

lemma open_sel:
  "ce_NAT (allow_for p r) = None" "reachabilityFromExpectation (allow_for p unreachable) =
     \<lparr>re_Reachable = True, re_Reason = '''', re_Peering = ''''\<rparr>"
  by (simp_all add: allow_for_def no_expectation_def reachabilityFromExpectation_def unreachable_def)

lemma open_probes:
  "server_probe example_opts example_heap open_matrix (0, 1) = Inr [open_pair ''server-1'' ''server-2'' 0x0A000205]"
  "server_probe example_opts example_heap open_matrix (1, 0) = Inr [open_pair ''server-2'' ''server-1'' 0x0A000105]"
  "server_probe example_opts example_heap open_matrix (0, 0) = Inr []"
  "server_probe example_opts example_heap open_matrix (1, 1) = Inr []"
  by (simp_all add: server_probe_def example_servers example_servers(2) [unfolded One_nat_def] open_lookups
      open_lookups(1,2) [unfolded One_nat_def] open_sel inSources_def
      inDestinations_def example_opts_def IsSameEndpointNode_def Let_def port_forward_def target_ip_def bidirectional_def
      dnat_def open_pair_def)

theorem validated_probes_decided_witness:
  "MatrixValidate example_heap (Some open_matrix) = Inr () \<and>
     ce_Verdict (default_expectation open_matrix (1, 0)) \<noteq> VerdictUnknown"
proof (rule conjI [OF matrices_valid(1)])
  have "\<forall>p. server_at example_heap p \<noteq> None \<longrightarrow> external_at example_heap p = None" by (simp add: example_servers)
  from validated_probes_decided [OF matrices_valid(1) this, THEN conjunct1, rule_format, OF open_probes(2) [unfolded open_pair_def]]
  show "ce_Verdict (default_expectation open_matrix (1, 0)) \<noteq> VerdictUnknown" .
qed

lemma open_test:
  "matrix_test_probes example_opts example_heap (Some open_matrix) [''server-1'', ''server-2''] =
     Inr [open_pair ''server-1'' ''server-2'' 0x0A000205, open_pair ''server-2'' ''server-1'' 0x0A000105]"
proof -
  have ss: "runMatrixServerServerPhase example_opts example_heap open_matrix =
      Inr [open_pair ''server-1'' ''server-2'' 0x0A000205, open_pair ''server-2'' ''server-1'' 0x0A000105]"
    by (simp add: runMatrixServerServerPhase_def collect_probes_def open_lookups open_probes open_probes [unfolded One_nat_def])
  have pf: "runMatrixPortForwardPhase example_opts example_heap open_matrix = []"
    by (simp add: runMatrixPortForwardPhase_def open_lookups port_forward_probe_def example_servers open_sel
        example_servers(2) [unfolded One_nat_def] open_lookups(1,2) [unfolded One_nat_def] Let_def)
  have pp: "runMatrixProtoPortPhase example_opts example_heap open_matrix = []"
    by (simp add: runMatrixProtoPortPhase_def open_lookups proto_probes_def split: option.splits)
  have ms: "matrix_servers example_heap open_matrix [''server-1'', ''server-2''] = Inr [''server-1'', ''server-2'']"
    by (simp add: matrix_servers_def open_lookups example_servers example_servers(2) [unfolded One_nat_def])
  show ?thesis
    by (simp add: matrix_test_probes_def matrices_valid ms enabled_def ss pf pp Let_def) (simp add: example_opts_def)
qed

theorem iperf_driven_witness:
  "\<exists>b. PingIperf b \<in> {open_pair ''server-1'' ''server-2'' 0x0A000205, open_pair ''server-2'' ''server-1'' 0x0A000105} \<and>
     runPingIperfPair example_opts \<lparr>obs_ping = \<lambda>_ _ _ _. None, obs_iperf = \<lambda>_. [Panic ''slow''], obs_other = \<lambda>_. None\<rparr> b =
       [Panic ''slow'']"
proof -
  have prems: "to_IPerfsSeconds example_opts > 0" "fst (1, 0) \<in> set (cm_AllEndpoints open_matrix)"
    "snd (1, 0) \<in> set (cm_AllEndpoints open_matrix)"
    "\<not> HasProtoPortEntries open_matrix (snd (1, 0)) (fst (1, 0))"
    "\<not> port_forward (default_expectation open_matrix (snd (1, 0), fst (1, 0)))"
    by (simp_all add: open_lookups open_lookups(1) [unfolded One_nat_def] open_sel port_forward_def example_opts_def)
  from iperf_driven [OF open_test prems(1-3) open_probes(2) [unfolded open_pair_def] prems(4,5), THEN conjunct2]
  obtain b where b: "PingIperf b \<in> set [open_pair ''server-1'' ''server-2'' 0x0A000205, open_pair ''server-2'' ''server-1'' 0x0A000105]"
    "\<forall>obs. (\<forall>f t ip r. obs_ping obs f t ip r = None) \<longrightarrow> runPingIperfPair example_opts obs b = obs_iperf obs b"
    by (elim exE conjE) (rule that, assumption+)
  from b(2) [rule_format, of "\<lparr>obs_ping = \<lambda>_ _ _ _. None, obs_iperf = \<lambda>_. [Panic ''slow''], obs_other = \<lambda>_. None\<rparr>"]
  have "runPingIperfPair example_opts \<lparr>obs_ping = \<lambda>_ _ _ _. None, obs_iperf = \<lambda>_. [Panic ''slow''], obs_other = \<lambda>_. None\<rparr> b =
      [Panic ''slow'']" by simp
  with b(1) show ?thesis by (intro exI [of _ b]) simp
qed

text \<open>
  C21. Of a pair whose probe pings and may run iperf, the run is made by neither direction exactly when it is left to the
  other one, which measures both, and the server phase skips that one because it is forwarded or scoped to protocols
  and ports.
\<close>

theorem iperf_skipped_iff:
  assumes "matrix_test_probes opts h (Some m) ssh = Inr probes" "to_IPerfsSeconds opts > 0"
    and "fst p \<in> set (cm_AllEndpoints m)" "snd p \<in> set (cm_AllEndpoints m)"
    and "server_probe opts h m p = Inr [PingIperf a]"
  shows "(\<forall>b obs. server_probe opts h m p = Inr [PingIperf b] \<or> server_probe opts h m (snd p, fst p) = Inr [PingIperf b] \<longrightarrow>
      (\<forall>f t ip r. obs_ping obs f t ip r = None) \<longrightarrow> runPingIperfPair opts obs b = []) \<longleftrightarrow>
    pa_Bidir a \<and> pa_To a < pa_From a \<and>
    (HasProtoPortEntries m (snd p) (fst p) \<or> port_forward (default_expectation m (snd p, fst p)))"
    (is "?skipped \<longleftrightarrow> ?bidir \<and> ?later \<and> ?other")
proof
  assume s: ?skipped
  let ?obs = "\<lparr>obs_ping = \<lambda>_ _ _ _. None, obs_iperf = \<lambda>_. [Panic ''slow''], obs_other = \<lambda>_. None\<rparr>"
  have skip: "runPingIperfPair opts ?obs b = []"
    if "server_probe opts h m p = Inr [PingIperf b] \<or> server_probe opts h m (snd p, fst p) = Inr [PingIperf b]" for b
    by (rule s [rule_format, OF that]) simp
  have left: "pa_Bidir a" "pa_To a < pa_From a"
    using skip [of a] assms(2,5) by (auto simp: runPingIperfPair_def split: if_splits)
  from assms(1,2) obtain ss where ss: "collect_probes (server_probe opts h m) (List.product (cm_AllEndpoints m) (cm_AllEndpoints m)) = Inr ss"
    by (auto simp: matrix_test_probes_def ok_iff Let_def enabled_def runMatrixServerServerPhase_def)
  have "(snd p, fst p) \<in> set (List.product (cm_AllEndpoints m) (cm_AllEndpoints m))" using assms(3,4) by simp
  from collect_probes_all [OF ss this] obtain ys where ys: "server_probe opts h m (snd p, fst p) = Inr ys" by blast
  show "?bidir \<and> ?later \<and> ?other"
  proof (intro conjI left, rule ccontr)
    assume "\<not> ?other"
    with reverse_probe [OF assms(5) left(1) ys] obtain b where
      b: "ys = [PingIperf b]" "pa_From b = pa_To a" "pa_To b = pa_From a" by auto
    with skip [of b] ys left(2) assms(2) show False by (auto simp: runPingIperfPair_def dest: order_less_asym split: if_splits)
  qed
next
  assume other: "?bidir \<and> ?later \<and> ?other"
  have "ys = []" if "server_probe opts h m (snd p, fst p) = Inr ys" for ys
    using that other by (auto simp: server_probe_def Let_def split: option.splits if_splits)
  with other assms(5) show ?skipped by (auto simp: runPingIperfPair_def)
qed

lemma scoped_lookups:
  "Lookup scoped_matrix 0 1 any_port = allow_for (0, 1) unreachable"
  "Lookup scoped_matrix 1 0 any_port = allow_for (1, 0) unreachable"
  "HasProtoPortEntries scoped_matrix 0 1" "\<not> HasProtoPortEntries scoped_matrix 1 0"
  "cm_AllEndpoints scoped_matrix = [0, 1]"
  by (auto simp: scoped_matrix_def open_matrix_def Lookup_def Add_def NewConnectivityMatrix_def HasProtoPortEntries_def
      allow_for_def no_expectation_def http_not_any)

lemma scoped_probes:
  "server_probe example_opts example_heap scoped_matrix (0, 1) = Inr []"
  "server_probe example_opts example_heap scoped_matrix (1, 0) = Inr [open_pair ''server-2'' ''server-1'' 0x0A000105]"
  "server_probe example_opts example_heap scoped_matrix (0, 0) = Inr []"
  "server_probe example_opts example_heap scoped_matrix (1, 1) = Inr []"
  using scoped_lookups(3,4) by (simp_all add: server_probe_def example_servers example_servers(2) [unfolded One_nat_def]
      scoped_lookups scoped_lookups(1,2) [unfolded One_nat_def] open_sel inSources_def inDestinations_def example_opts_def
      IsSameEndpointNode_def Let_def port_forward_def target_ip_def bidirectional_def dnat_def open_pair_def)

lemma scoped_test:
  "\<exists>probes. matrix_test_probes example_opts example_heap (Some scoped_matrix) [''server-1'', ''server-2''] = Inr probes"
proof -
  have ss: "runMatrixServerServerPhase example_opts example_heap scoped_matrix = Inr [open_pair ''server-2'' ''server-1'' 0x0A000105]"
    by (simp add: runMatrixServerServerPhase_def collect_probes_def scoped_lookups scoped_probes scoped_probes [unfolded One_nat_def])
  have ms: "matrix_servers example_heap scoped_matrix [''server-1'', ''server-2''] = Inr [''server-1'', ''server-2'']"
    by (simp add: matrix_servers_def scoped_lookups example_servers example_servers(2) [unfolded One_nat_def])
  show ?thesis
    by (simp add: matrix_test_probes_def matrices_valid ms enabled_def ss Let_def) (simp add: example_opts_def)
qed

theorem iperf_skipped_iff_witness:
  "\<exists>probes b. matrix_test_probes example_opts example_heap (Some scoped_matrix) [''server-1'', ''server-2''] = Inr probes \<and>
     HasProtoPortEntries scoped_matrix 0 1 \<and> server_probe example_opts example_heap scoped_matrix (1, 0) = Inr [PingIperf b] \<and>
     re_Reachable (pa_Expected b) \<and> (\<forall>obs. (\<forall>f t ip r. obs_ping obs f t ip r = None) \<longrightarrow> runPingIperfPair example_opts obs b = [])"
proof -
  obtain probes where test: "matrix_test_probes example_opts example_heap (Some scoped_matrix) [''server-1'', ''server-2''] = Inr probes"
    using scoped_test by blast
  have prems: "to_IPerfsSeconds example_opts > 0" "fst (1, 0) \<in> set (cm_AllEndpoints scoped_matrix)"
    "snd (1, 0) \<in> set (cm_AllEndpoints scoped_matrix)"
    by (simp_all add: scoped_lookups scoped_lookups(5) [unfolded One_nat_def] example_opts_def)
  have "\<forall>obs. (\<forall>f t ip r. obs_ping obs f t ip r = None) \<longrightarrow> runPingIperfPair example_opts obs
      \<lparr>pa_From = ''server-2'', pa_To = ''server-1'', pa_ToIP = V4 0x0A000105,
       pa_Expected = \<lparr>re_Reachable = True, re_Reason = '''', re_Peering = ''''\<rparr>, pa_Bidir = True\<rparr> = []"
    using iperf_skipped_iff [OF test prems scoped_probes(2) [unfolded open_pair_def]] scoped_lookups(3) scoped_probes(2) [unfolded open_pair_def]
    by simp
  with test scoped_probes(2) [unfolded open_pair_def] scoped_lookups(3) show ?thesis by auto
qed

end
