(* ===== verification/Endpoints.thy ===== *)
theory Endpoints
  imports MatrixProps
begin

text \<open>
  Discovery of the server endpoints and their replacement in the matrix (\<^verbatim>\<open>pkg/hhfab/endpoints.go\<close>). What
  a server prints over ssh is a parameter: the output of the command, or its error and standard error.
\<close>

section \<open>The addresses of a server\<close>

text \<open>\<^verbatim>\<open>strings.Fields\<close>: the words between runs of white space.\<close>

fun words_of :: "string \<Rightarrow> string list" where
  "words_of [] = [[]]"
| "words_of (x # xs) =
     (if is_space x then [] # words_of xs
      else (case words_of xs of [] \<Rightarrow> [[x]] | w # ws \<Rightarrow> (x # w) # ws))"

definition fields_of :: "string \<Rightarrow> string list" where
  "fields_of s = filter (\<lambda>w. w \<noteq> []) (words_of s)"

record discovered_ip =
  di_iface :: string
  di_prefix :: prefix

fun discover_lines :: "string \<Rightarrow> string list \<Rightarrow> discovered_ip list result" where
  "discover_lines server [] = Inr []"
| "discover_lines server (l # ls) =
     (case fields_of l of
        [iface, addr] \<Rightarrow>
          if (iface = ''lo'' \<and> addr = ''127.0.0.1/8'') \<or> iface = ''enp2s0'' \<or> iface = ''docker0''
          then discover_lines server ls
          else ebind (ewrap ''parsing %q on %s: %w'' [addr, server] (parse_prefix addr)) (\<lambda>p.
               ebind (discover_lines server ls) (\<lambda>ips. Inr (\<lparr>di_iface = iface, di_prefix = p\<rparr> # ips)))
      | _ \<Rightarrow> discover_lines server ls)"

type_synonym ssh_run = "(go_err \<times> string) + string"

definition discoverServerIPs :: "ssh_run \<Rightarrow> string \<Rightarrow> discovered_ip list result" where
  "discoverServerIPs run server =
     (case run of
        Inl (e, stderr) \<Rightarrow> Inl (Wrapf ''running ip addr show on %s: %w: %s'' [server, stderr] e)
      | Inr stdout \<Rightarrow> discover_lines server (split_on (CHR 0x0A) (trim_space stdout)))"

section \<open>Attachments\<close>

definition VPCName :: "vpc_attachment \<Rightarrow> string" where
  "VPCName a = hd (split2 (CHR ''/'') (va_Subnet a))"

definition SubnetName :: "vpc_attachment \<Rightarrow> string" where
  "SubnetName a =
     (case split2 (CHR ''/'') (va_Subnet a) of
        [_, sub] \<Rightarrow> if sub = '''' then ''default'' else sub
      | _ \<Rightarrow> ''default'')"

record server_attachment =
  at_vpcName :: string
  at_subnetName :: string
  at_subnetCIDR :: prefix
  at_hostBGP :: bool
  at_attachName :: string

definition map_append :: "'k \<Rightarrow> 'v \<Rightarrow> ('k \<times> 'v list) list \<Rightarrow> ('k \<times> 'v list) list" where
  "map_append k v m = map_put k ((case map_of m k of None \<Rightarrow> [] | Some vs \<Rightarrow> vs) @ [v]) m"

text \<open>
  One attachment; a second one of a multihomed server to a subnet of BGP speaking hosts is dropped.
\<close>

definition attach_server ::
  "cluster \<Rightarrow> string list \<Rightarrow> vpc_attachment \<Rightarrow> (string \<times> server_attachment list) list \<Rightarrow>
     (string \<times> server_attachment list) list result" where
  "attach_server k want attach m =
     ebind (ewrap ''resolving attachment %q: %w'' [ob_Name attach] (ewrap ''getting connection %q: %w'' [va_Connection attach]
              (store_get (NamespaceDefault, va_Connection attach) (cl_Conns k)))) (\<lambda>conn.
     ebind (ewrap ''getting endpoints of connection %q: %w'' [ob_Name conn] (sc_Endpoints conn)) (\<lambda>srvs.
     case srvs of
       [serverName] \<Rightarrow>
         if want \<noteq> [] \<and> serverName \<notin> set want then Inr m else
         ebind (ewrap ''resolving attachment %q: %w'' [ob_Name attach] (ewrap ''getting VPC %q: %w'' [VPCName attach]
                  (store_get (NamespaceDefault, VPCName attach) (cl_VPCs k)))) (\<lambda>v.
         let subnetName = SubnetName attach in
         case map_of (vp_Subnets v) subnetName of
           None \<Rightarrow> Inl (Errf ''attachment %q references missing subnet %s/%s'' [ob_Name attach, ob_Name v, subnetName])
         | Some subnet \<Rightarrow>
             ebind (ewrap ''parsing VPC %s/%s subnet CIDR %q: %w'' [ob_Name v, subnetName, vs_Subnet subnet]
                      (parse_prefix (vs_Subnet subnet))) (\<lambda>cidr.
             if vs_HostBGP subnet \<and>
                list_ex (\<lambda>a. at_vpcName a = ob_Name v \<and> at_subnetName a = subnetName)
                  (case map_of m serverName of None \<Rightarrow> [] | Some as \<Rightarrow> as)
             then Inr m
             else Inr (map_append serverName
                    \<lparr>at_vpcName = ob_Name v, at_subnetName = subnetName, at_subnetCIDR = cidr,
                     at_hostBGP = vs_HostBGP subnet, at_attachName = ob_Name attach\<rparr> m)))
     | _ \<Rightarrow> Inr m))"

section \<open>Matching addresses and attachments\<close>

text \<open>The narrowest attachment an address lies in, the first of them; the length found so far starts at -1.\<close>

definition best_step :: "addr \<Rightarrow> nat option \<times> int \<Rightarrow> nat \<times> server_attachment \<Rightarrow> nat option \<times> int" where
  "best_step ip b ia =
     (if \<not> prefix_contains (at_subnetCIDR (snd ia)) ip then b
      else if pf_bits (at_subnetCIDR (snd ia)) > snd b then (Some (fst ia), pf_bits (at_subnetCIDR (snd ia)))
      else b)"

definition best_attachment :: "addr \<Rightarrow> server_attachment list \<Rightarrow> nat option" where
  "best_attachment ip atts = fst (foldl (best_step ip) (None, -1) (enumerate 0 atts))"

record match_state =
  ms_used :: "nat list"
  ms_out :: "(nat \<times> server_endpoint) list"
  ms_dropped :: "dropped_endpoint list"

text \<open>The endpoints found are kept with the index of their attachment.\<close>

definition match_ip :: "string \<Rightarrow> server_attachment list \<Rightarrow> discovered_ip \<Rightarrow> match_state \<Rightarrow> match_state" where
  "match_ip server atts ip s =
     (case best_attachment (pf_addr (di_prefix ip)) atts of
        None \<Rightarrow> s\<lparr>ms_dropped := ms_dropped s @
          [\<lparr>de_Server = server, de_VPC = '''', de_Subnet = '''',
            de_Reason = ''address '' @ prefix_string (di_prefix ip) @ '' on '' @ di_iface ip @
              '' matches none of the server's '' @ itoa (length atts) @ '' attachment subnets''\<rparr>]\<rparr>
      | Some i \<Rightarrow>
          if i \<in> set (ms_used s) then s else
          let att = atts ! i in
          s\<lparr>ms_used := i # ms_used s,
            ms_out := ms_out s @ [(i, \<lparr>se_Name = server, se_VPC = at_vpcName att, se_Subnet = at_subnetName att,
              se_HostBGP = at_hostBGP att, se_IP = pf_addr (di_prefix ip)\<rparr>)]\<rparr>)"

definition unmatched :: "string \<Rightarrow> nat \<Rightarrow> server_attachment \<Rightarrow> dropped_endpoint" where
  "unmatched server n att =
     \<lparr>de_Server = server, de_VPC = at_vpcName att, de_Subnet = at_subnetName att,
      de_Reason = ''attachment '' @ at_attachName att @ '' has no matching address among the server's '' @ itoa n @
        '' configured addresses''\<rparr>"

definition match_server ::
  "string \<Rightarrow> server_attachment list \<Rightarrow> discovered_ip list \<Rightarrow> (nat \<times> server_endpoint) list \<times> dropped_endpoint list" where
  "match_server server atts ips =
     (if ips = [] then ([], []) else
      let s = fold (match_ip server atts) ips \<lparr>ms_used = [], ms_out = [], ms_dropped = []\<rparr> in
      (ms_out s, ms_dropped s @
         map (\<lambda>(i, att). unmatched server (length ips) att)
           (filter (\<lambda>(i, att). i \<notin> set (ms_used s)) (enumerate 0 atts))))"

text \<open>
  The servers are probed concurrently; where several fail the group reports the first to do so, here
  the first by name.
\<close>

definition probe_server ::
  "(string \<Rightarrow> ssh_run result) \<Rightarrow> string \<times> server_attachment list \<Rightarrow> (string \<times> server_attachment list \<times> discovered_ip list) list \<Rightarrow>
     (string \<times> server_attachment list \<times> discovered_ip list) list result" where
  "probe_server ssh na acc =
     (case na of (name, atts) \<Rightarrow>
      ebind (ewrap ''getting ssh config for %s: %w'' [name] (ssh name)) (\<lambda>run.
      ebind (ewrap ''discovering IPs on %s: %w'' [name] (discoverServerIPs run name)) (\<lambda>ips.
      Inr (acc @ [(name, atts, ips)]))))"

definition CollectServerEndpoints ::
  "cluster \<Rightarrow> (string \<Rightarrow> ssh_run result) \<Rightarrow> string list \<Rightarrow> (server_endpoint list \<times> dropped_endpoint list) result" where
  "CollectServerEndpoints k ssh servers =
     ebind (efold (attach_server k servers) (store_list (cl_Attachments k)) []) (\<lambda>serverAttachments.
     ebind (ewrap ''probing servers for IPs: %w'' [] (efold (probe_server ssh) (sort_key fst serverAttachments) [])) (\<lambda>probed.
     let ms = map (\<lambda>(name, atts, ips). match_server name atts ips) probed in
     Inr (concat (map (map snd \<circ> fst) ms), concat (map snd ms))))"

definition BuildConnectivityMatrixFromCluster ::
  "cluster \<Rightarrow> bool result \<Rightarrow> (string \<Rightarrow> ssh_run result) \<Rightarrow> (heap \<times> matrix) result" where
  "BuildConnectivityMatrixFromCluster k fab_gw ssh =
     ebind (ewrap ''collecting server endpoints for matrix: %w'' [] (CollectServerEndpoints k ssh [])) (\<lambda>(eps, dropped).
     let objs = map (\<lambda>s. \<lparr>ep_Server = Some s, ep_External = None\<rparr>) eps in
     BuildConnectivityMatrix k fab_gw (length objs) (alloc_endpoints objs 0 Map.empty) [0..<length objs] dropped)"

section \<open>Replacing the endpoints of a server\<close>

definition vs_key :: "server_endpoint \<Rightarrow> string \<times> string" where
  "vs_key s = (se_VPC s, se_Subnet s)"

definition named :: "heap \<Rightarrow> string \<Rightarrow> ptr \<Rightarrow> bool" where
  "named h name p = (case server_at h p of None \<Rightarrow> False | Some s \<Rightarrow> se_Name s = name)"

definition by_vs :: "heap \<Rightarrow> string \<Rightarrow> ptr list \<Rightarrow> ((string \<times> string) \<times> ptr) list" where
  "by_vs h name newEPs =
     fold (\<lambda>p m. case server_at h p of None \<Rightarrow> m | Some s \<Rightarrow> if se_Name s \<noteq> name then m else map_put (vs_key s) p m)
       newEPs []"

record replace_state =
  rs_heap :: heap
  rs_matched :: "ptr list"
  rs_stale :: "ptr list"
  rs_kept :: "ptr list"

definition replace_step :: "string \<Rightarrow> ((string \<times> string) \<times> ptr) list \<Rightarrow> ptr \<Rightarrow> replace_state \<Rightarrow> replace_state" where
  "replace_step name byVS p s =
     (let keep = s\<lparr>rs_kept := rs_kept s @ [p]\<rparr> in
      case (rs_heap s p, server_at (rs_heap s) p) of
        (Some e, Some srv) \<Rightarrow>
          if se_Name srv \<noteq> name then keep else
          (case map_of byVS (vs_key srv) of
             None \<Rightarrow> s\<lparr>rs_stale := p # rs_stale s\<rparr>
           | Some q \<Rightarrow>
               (case server_at (rs_heap s) q of
                  None \<Rightarrow> keep
                | Some new \<Rightarrow>
                    keep\<lparr>rs_heap := (rs_heap s)(p \<mapsto> e\<lparr>ep_Server := Some (srv\<lparr>se_IP := se_IP new, se_HostBGP := se_HostBGP new\<rparr>)\<rparr>),
                         rs_matched := q # rs_matched s\<rparr>))
      | _ \<Rightarrow> keep)"

text \<open>New endpoints that no old one stands for are appended, whatever server they name; nil is skipped.\<close>

definition ReplaceServerEndpoints :: "string \<Rightarrow> ptr list \<Rightarrow> heap \<times> matrix \<Rightarrow> heap \<times> matrix" where
  "ReplaceServerEndpoints name newEPs hm =
     (case hm of (h, m) \<Rightarrow>
      let s = fold (replace_step name (by_vs h name newEPs)) (cm_AllEndpoints m)
                \<lparr>rs_heap = h, rs_matched = [], rs_stale = [], rs_kept = []\<rparr>;
          kept = rs_kept s @ filter (\<lambda>p. rs_heap s p \<noteq> None \<and> p \<notin> set (rs_matched s)) newEPs;
          gone = (\<lambda>p. p \<in> set (rs_stale s)) in
      (rs_heap s,
       m\<lparr>cm_AllEndpoints := kept,
         cm_entries := filter (\<lambda>(p, byPP). \<not> gone (fst p) \<and> \<not> gone (snd p)) (cm_entries m)\<rparr>))"

definition ReplaceServerDrops :: "string \<Rightarrow> dropped_endpoint list \<Rightarrow> matrix \<Rightarrow> matrix" where
  "ReplaceServerDrops name dropped m =
     m\<lparr>cm_dropped := filter (\<lambda>d. de_Server d \<noteq> name) (cm_dropped m) @ filter (\<lambda>d. de_Server d = name) dropped\<rparr>"

end
