(* ===== verification/EndpointsProps.thy ===== *)
theory EndpointsProps
  imports Endpoints
begin

text \<open>
  What the discovery promises: the output of a server reads back as its addresses, each attachment ends
  as one endpoint or one reported drop, at its narrowest match; and what replacing the endpoints of one
  server leaves of the matrix.
\<close>

section \<open>Reading the output of a server\<close>

definition ip_line :: "discovered_ip \<Rightarrow> string" where
  "ip_line ip = di_iface ip @ '' '' @ prefix_string (di_prefix ip)"

definition plain_iface :: "string \<Rightarrow> bool" where
  "plain_iface s \<longleftrightarrow> s \<noteq> '''' \<and> (\<forall>c\<in>set s. \<not> is_space c) \<and> s \<noteq> ''lo'' \<and> s \<noteq> ''enp2s0'' \<and> s \<noteq> ''docker0''"

lemma is_space_blank [simp]: "is_space (CHR '' '')" "is_space (CHR 0x0A)"
  by (simp_all add: is_space_def)

lemma words_of_plain: "\<forall>c\<in>set s. \<not> is_space c \<Longrightarrow> words_of s = [s]"
  by (induction s) auto

lemma words_of_cons: "\<forall>c\<in>set s. \<not> is_space c \<Longrightarrow> is_space x \<Longrightarrow> words_of (s @ x # t) = s # words_of t"
  by (induction s) auto

lemma fields_two:
  assumes "\<forall>c\<in>set s. \<not> is_space c" "\<forall>c\<in>set t. \<not> is_space c" "s \<noteq> []" "t \<noteq> []"
  shows "fields_of (s @ '' '' @ t) = [s, t]"
  using assms by (simp add: fields_of_def words_of_cons words_of_plain)

lemma digit_not_space: "is_digit c \<Longrightarrow> \<not> is_space c"
  by (auto simp: is_digit_def is_space_def Let_def)

lemma v4_string_chars: "c \<in> set (v4_string w) \<Longrightarrow> is_digit c \<or> c = CHR ''.''"
  by (auto simp: v4_string_def v4_octets_def Let_def dest: itoa_digits)

lemma prefix_string_chars: "n \<le> 32 \<Longrightarrow> c \<in> set (prefix_string (v4_prefix w n)) \<Longrightarrow> \<not> is_space c"
  by (auto simp: prefix_string_v4 digit_not_space dest!: v4_string_chars dest: itoa_digits)
    (auto simp: is_space_def)

lemma prefix_string_nonempty: "n \<le> 32 \<Longrightarrow> prefix_string (v4_prefix w n) \<noteq> []"
  by (simp add: prefix_string_v4)

lemma discover_line:
  assumes "plain_iface f" "n \<le> 32"
  shows "discover_lines server (ip_line \<lparr>di_iface = f, di_prefix = v4_prefix w n\<rparr> # ls) =
    ebind (discover_lines server ls) (\<lambda>ips. Inr (\<lparr>di_iface = f, di_prefix = v4_prefix w n\<rparr> # ips))"
  using assms fields_two [of f "prefix_string (v4_prefix w n)"] prefix_string_chars [OF assms(2)] prefix_string_nonempty [OF assms(2)]
  by (simp add: ip_line_def plain_iface_def)

lemma split_on_join:
  assumes "\<And>l. l \<in> set (l0 # ls) \<Longrightarrow> c \<notin> set l"
  shows "split_on c (join_with [c] (l0 # ls)) = l0 # ls"
proof -
  have one: "c \<notin> set l \<Longrightarrow> split_on c l = [l]" for l by (induction l) auto
  have sep: "c \<notin> set l \<Longrightarrow> split_on c (l @ c # t) = l # split_on c t" for l t by (induction l) auto
  show ?thesis using assms
  proof (induction ls arbitrary: l0)
    case (Cons l ls)
    from Cons.IH [of l] Cons.prems have "split_on c (join_with [c] (l # ls)) = l # ls" by auto
    with Cons.prems show ?case by (simp add: sep)
  qed (simp add: one)
qed

lemma trim_space_id:
  "s = [] \<or> \<not> is_space (hd s) \<and> \<not> is_space (last s) \<Longrightarrow> trim_space s = s"
proof -
  assume a: "s = [] \<or> \<not> is_space (hd s) \<and> \<not> is_space (last s)"
  then have "dropWhile is_space s = s" by (cases s) auto
  moreover have "dropWhile is_space (rev s) = rev s" using a by (cases s rule: rev_cases) auto
  ultimately show ?thesis by (simp add: trim_space_def)
qed

lemma trim_space_newline:
  assumes "s \<noteq> []" "\<not> is_space (hd s)" "\<not> is_space (last s)"
  shows "trim_space (s @ [CHR 0x0A]) = s"
proof -
  have "dropWhile is_space (s @ [CHR 0x0A]) = s @ [CHR 0x0A]" using assms by (cases s) auto
  moreover have "dropWhile is_space (rev s) = rev s" using assms by (cases s rule: rev_cases) auto
  ultimately show ?thesis by (simp add: trim_space_def)
qed

lemma join_with_ends:
  assumes "\<And>l. l \<in> set (l0 # ls) \<Longrightarrow> l \<noteq> []"
  shows "join_with [c] (l0 # ls) \<noteq> [] \<and> hd (join_with [c] (l0 # ls)) = hd l0 \<and>
    last (join_with [c] (l0 # ls)) = last (last (l0 # ls))"
  using assms
proof (induction ls arbitrary: l0)
  case (Cons l ls)
  from Cons.IH [of l] Cons.prems show ?case by simp
qed simp

lemma concat_lines: "concat (map (\<lambda>l. l @ [c]) (l0 # ls)) = join_with [c] (l0 # ls) @ [c]"
  by (induction ls arbitrary: l0) auto

definition plain_ip :: "discovered_ip \<Rightarrow> bool" where
  "plain_ip ip \<longleftrightarrow> plain_iface (di_iface ip) \<and> pf_bits (di_prefix ip) \<ge> 0 \<and> pf_bits (di_prefix ip) \<le> 32 \<and>
     addr_is4 (pf_addr (di_prefix ip))"

lemma plain_ipE:
  assumes "plain_ip ip"
  obtains f w n where "ip = \<lparr>di_iface = f, di_prefix = v4_prefix w n\<rparr>" "plain_iface f" "n \<le> 32"
proof (cases ip)
  case (fields f q)
  from assms fields obtain w where "pf_addr q = V4 w" by (cases "pf_addr q") (auto simp: plain_ip_def)
  then have "q = v4_prefix w (nat (pf_bits q))" using assms fields by (cases q) (simp add: plain_ip_def v4_prefix_def)
  with that [of f w "nat (pf_bits q)"] assms fields show ?thesis by (auto simp: plain_ip_def)
qed

lemma ip_line_chars:
  assumes "plain_ip ip"
  shows "ip_line ip \<noteq> []" "\<not> is_space (hd (ip_line ip))" "\<not> is_space (last (ip_line ip))" "CHR 0x0A \<notin> set (ip_line ip)"
proof -
  from assms obtain f w n where ip: "ip = \<lparr>di_iface = f, di_prefix = v4_prefix w n\<rparr>" "plain_iface f" "n \<le> 32"
    by (rule plain_ipE)
  have ne: "prefix_string (v4_prefix w n) \<noteq> []" using ip(3) by (rule prefix_string_nonempty)
  have sp: "\<not> is_space c" if "c \<in> set f \<union> set (prefix_string (v4_prefix w n))" for c
    using that ip(2) prefix_string_chars [OF ip(3)] by (auto simp: plain_iface_def)
  have "f \<noteq> []" using ip(2) by (simp add: plain_iface_def)
  with ne sp show "ip_line ip \<noteq> []" "\<not> is_space (hd (ip_line ip))" "\<not> is_space (last (ip_line ip))"
    by (auto simp: ip_line_def ip(1))
  show "CHR 0x0A \<notin> set (ip_line ip)" using sp [of "CHR 0x0A"] by (auto simp: ip_line_def ip(1))
qed

lemma discover_lines_plain: "\<forall>ip\<in>set ips. plain_ip ip \<Longrightarrow> discover_lines server (map ip_line ips) = Inr ips"
proof (induction ips)
  case (Cons ip ips)
  from Cons.prems obtain f w n where "ip = \<lparr>di_iface = f, di_prefix = v4_prefix w n\<rparr>" "plain_iface f" "n \<le> 32"
    by (auto elim: plain_ipE)
  with Cons discover_line [of f n server w "map ip_line ips"] show ?case by simp
qed simp

text \<open>
  The addresses a server prints, one line per address with its interface, read back as they are:
  IPv4 addresses on interfaces other than the loopback, the management interface and the docker bridge.
\<close>

theorem discovered_ips_roundtrip:
  assumes "\<forall>ip\<in>set ips. plain_ip ip"
  shows "discoverServerIPs (Inr (concat (map (\<lambda>ip. ip_line ip @ [CHR 0x0A]) ips))) server = Inr ips"
proof (cases ips)
  case Nil
  then show ?thesis by (simp add: discoverServerIPs_def trim_space_def fields_of_def)
next
  case (Cons ip ips')
  let ?ls = "map ip_line ips"
  have ls: "?ls = ip_line ip # map ip_line ips'" using Cons by simp
  have plain: "\<And>l. l \<in> set ?ls \<Longrightarrow> l \<noteq> [] \<and> \<not> is_space (hd l) \<and> \<not> is_space (last l) \<and> CHR 0x0A \<notin> set l"
    using assms ip_line_chars by auto
  have "concat (map (\<lambda>ip. ip_line ip @ [CHR 0x0A]) ips) = join_with [CHR 0x0A] ?ls @ [CHR 0x0A]"
    using concat_lines [of "CHR 0x0A" "ip_line ip" "map ip_line ips'"] by (simp add: Cons comp_def)
  moreover have "last ?ls \<in> set ?ls" "ip_line ip \<in> set ?ls" unfolding ls by (rule last_in_set) simp_all
  then have "trim_space (join_with [CHR 0x0A] ?ls @ [CHR 0x0A]) = join_with [CHR 0x0A] ?ls"
    using join_with_ends [of "ip_line ip" "map ip_line ips'" "CHR 0x0A", folded ls] plain
    by (intro trim_space_newline) simp_all
  moreover have "split_on (CHR 0x0A) (join_with [CHR 0x0A] ?ls) = ?ls"
    unfolding ls by (rule split_on_join) (use plain ls in auto)
  ultimately show ?thesis using discover_lines_plain [OF assms] by (simp add: discoverServerIPs_def)
qed

theorem discovered_ips_roundtrip_witness:
  "discoverServerIPs (Inr (concat (map (\<lambda>ip. ip_line ip @ [CHR 0x0A])
     [\<lparr>di_iface = ''bond0.1001'', di_prefix = v4_prefix 0x0A000105 24\<rparr>]))) ''server-1'' =
   Inr [\<lparr>di_iface = ''bond0.1001'', di_prefix = v4_prefix 0x0A000105 24\<rparr>]"
  by (rule discovered_ips_roundtrip) (simp add: plain_ip_def plain_iface_def is_space_def)

section \<open>Matching\<close>

definition lies_in :: "addr \<Rightarrow> server_attachment \<Rightarrow> bool" where
  "lies_in ip a \<longleftrightarrow> prefix_contains (at_subnetCIDR a) ip"

definition att_bits :: "server_attachment \<Rightarrow> int" where
  "att_bits a = pf_bits (at_subnetCIDR a)"

definition narrowest :: "addr \<Rightarrow> server_attachment list \<Rightarrow> nat \<Rightarrow> bool" where
  "narrowest ip atts i \<longleftrightarrow> i < length atts \<and> lies_in ip (atts ! i) \<and>
     (\<forall>j<length atts. lies_in ip (atts ! j) \<longrightarrow> att_bits (atts ! j) \<le> att_bits (atts ! i))"

lemma best_fold:
  "case foldl (best_step ip) (None, -1) (enumerate 0 atts) of
     (None, b) \<Rightarrow> b = -1 \<and> (\<forall>a\<in>set atts. \<not> lies_in ip a)
   | (Some i, b) \<Rightarrow> narrowest ip atts i \<and> b = att_bits (atts ! i)"
proof (induction atts rule: rev_induct)
  case (snoc a atts)
  have bits: "lies_in ip a \<Longrightarrow> att_bits a \<ge> 0"
    by (simp add: lies_in_def prefix_contains_def prefix_is_valid_def att_bits_def)
  obtain bi bb where r: "foldl (best_step ip) (None, -1) (enumerate 0 atts) = (bi, bb)" by force
  have step: "foldl (best_step ip) (None, -1) (enumerate 0 (atts @ [a])) = best_step ip (bi, bb) (length atts, a)"
    using r by (simp add: enumerate_append_eq)
  have step_eq: "best_step ip (bi, bb) (length atts, a) =
      (if lies_in ip a \<and> att_bits a > bb then (Some (length atts), att_bits a) else (bi, bb))"
    by (simp add: best_step_def lies_in_def att_bits_def)
  show ?case
  proof (cases bi)
    case None
    with snoc [unfolded r] bits show ?thesis unfolding step step_eq
      by (auto simp: narrowest_def nth_append less_Suc_eq)
  next
    case (Some i)
    with snoc [unfolded r] bits show ?thesis unfolding step step_eq
      by (auto simp: narrowest_def nth_append less_Suc_eq)
  qed
qed simp

lemma best_attachment_cases:
  "(\<exists>i. best_attachment ip atts = Some i \<and> narrowest ip atts i) \<or>
   (best_attachment ip atts = None \<and> (\<forall>a\<in>set atts. \<not> lies_in ip a))"
  using best_fold [where ip = ip and atts = atts] by (auto simp: best_attachment_def split: prod.splits option.splits)

definition endpoint_of :: "string \<Rightarrow> server_attachment \<Rightarrow> addr \<Rightarrow> server_endpoint" where
  "endpoint_of server a ip =
     \<lparr>se_Name = server, se_VPC = at_vpcName a, se_Subnet = at_subnetName a, se_HostBGP = at_hostBGP a, se_IP = ip\<rparr>"

abbreviation ip_addr :: "discovered_ip \<Rightarrow> addr" where
  "ip_addr ip \<equiv> pf_addr (di_prefix ip)"

definition match_inv :: "string \<Rightarrow> server_attachment list \<Rightarrow> discovered_ip list \<Rightarrow> match_state \<Rightarrow> bool" where
  "match_inv server atts seen s \<longleftrightarrow>
     set (ms_used s) = fst ` set (ms_out s) \<and> distinct (map fst (ms_out s)) \<and>
     (\<forall>(i, e)\<in>set (ms_out s). \<exists>ip\<in>set seen. narrowest (ip_addr ip) atts i \<and> e = endpoint_of server (atts ! i) (ip_addr ip)) \<and>
     (\<forall>d\<in>set (ms_dropped s). de_VPC d = '''') \<and>
     (ms_dropped s = [] \<longrightarrow> (\<forall>ip\<in>set seen. \<exists>a\<in>set atts. lies_in (ip_addr ip) a))"

lemma match_inv_step:
  assumes "match_inv server atts seen s"
  shows "match_inv server atts (seen @ [ip]) (match_ip server atts ip s)"
  using best_attachment_cases [of "ip_addr ip" atts]
proof (elim disjE exE conjE)
  fix i assume i: "best_attachment (ip_addr ip) atts = Some i" "narrowest (ip_addr ip) atts i"
  then have "\<exists>a\<in>set atts. lies_in (ip_addr ip) a" by (auto simp: narrowest_def)
  with i assms show ?thesis
    by (fastforce simp: match_inv_def match_ip_def Let_def endpoint_of_def)
next
  assume "best_attachment (ip_addr ip) atts = None"
  with assms show ?thesis by (auto simp: match_inv_def match_ip_def)
qed

lemma match_inv_fold:
  "match_inv server atts seen s \<Longrightarrow> match_inv server atts (seen @ ips) (fold (match_ip server atts) ips s)"
proof (induction ips arbitrary: seen s)
  case (Cons ip ips)
  from Cons.IH [OF match_inv_step [OF Cons.prems]] show ?case by simp
qed simp

lemma filter_enumerate_length:
  "length (filter (\<lambda>(i, a). i \<notin> U) (enumerate n xs)) = length xs - card {i \<in> U. n \<le> i \<and> i < n + length xs}"
proof (induction xs arbitrary: n)
  case (Cons x xs)
  let ?C = "\<lambda>n. {i \<in> U. n \<le> i \<and> i < n + length xs}"
  have eq: "{i \<in> U. n \<le> i \<and> i < n + length (x # xs)} = (if n \<in> U then insert n (?C (Suc n)) else ?C (Suc n))"
    by (auto simp: Suc_le_eq le_less)
  have fin: "finite (?C (Suc n))" and notin: "n \<notin> ?C (Suc n)" by auto
  have "card (?C (Suc n)) \<le> card {Suc n..<Suc n + length xs}" by (rule card_mono) auto
  then have le: "card (?C (Suc n)) \<le> length xs" by simp
  show ?case
    unfolding eq using Cons.IH [of "Suc n"] le fin notin by (simp add: Suc_diff_le)
qed simp

text \<open>
  C22. What becomes of a server that has addresses: each attachment is used at most once, by an address
  for which it is the narrowest of the attachments that contain it, and is otherwise reported as
  dropped, so none is lost; and if nothing is reported, every address lies in an attachment and every
  attachment has its endpoint.
\<close>

theorem match_server_complete:
  assumes "match_server server atts ips = (out, dropped)" "ips \<noteq> []" "\<forall>a\<in>set atts. at_vpcName a \<noteq> ''''"
  shows "distinct (map fst out) \<and>
    (\<forall>(i, e)\<in>set out. narrowest (se_IP e) atts i \<and> e = endpoint_of server (atts ! i) (se_IP e) \<and> se_IP e \<in> ip_addr ` set ips) \<and>
    length out + length (filter (\<lambda>d. de_VPC d \<noteq> '''') dropped) = length atts \<and>
    (dropped = [] \<longrightarrow> (\<forall>ip\<in>set ips. \<exists>a\<in>set atts. lies_in (ip_addr ip) a) \<and> length out = length atts)"
proof -
  define s where "s = fold (match_ip server atts) ips \<lparr>ms_used = [], ms_out = [], ms_dropped = []\<rparr>"
  let ?rest = "filter (\<lambda>(i, att). i \<notin> set (ms_used s)) (enumerate 0 atts)"
  from assms(1,2) have out: "out = ms_out s" and dropped: "dropped = ms_dropped s @ map (\<lambda>(i, att). unmatched server (length ips) att) ?rest"
    by (auto simp: match_server_def s_def Let_def)
  have "match_inv server atts [] \<lparr>ms_used = [], ms_out = [], ms_dropped = []\<rparr>" by (simp add: match_inv_def)
  from match_inv_fold [OF this, of ips] have inv: "match_inv server atts ips s" by (simp add: s_def)
  then have used: "set (ms_used s) = fst ` set out" and dist: "distinct (map fst out)"
    and elems: "\<forall>(i, e)\<in>set out. \<exists>ip\<in>set ips. narrowest (ip_addr ip) atts i \<and> e = endpoint_of server (atts ! i) (ip_addr ip)"
    and none: "\<forall>d\<in>set (ms_dropped s). de_VPC d = ''''"
    and covered: "ms_dropped s = [] \<Longrightarrow> \<forall>ip\<in>set ips. \<exists>a\<in>set atts. lies_in (ip_addr ip) a"
    by (auto simp: match_inv_def out)
  have vpcs: "filter (\<lambda>d. de_VPC d \<noteq> '''') dropped = map (\<lambda>(i, att). unmatched server (length ips) att) ?rest"
  proof -
    have "filter (\<lambda>d. de_VPC d \<noteq> '''') (ms_dropped s) = []" using none by (simp add: filter_empty_conv)
    moreover have "filter (\<lambda>d. de_VPC d \<noteq> '''') (map (\<lambda>(i, att). unmatched server (length ips) att) ?rest) =
        map (\<lambda>(i, att). unmatched server (length ips) att) ?rest"
      using assms(3) by (intro filter_True) (auto simp: unmatched_def in_set_enumerate_eq)
    ultimately show ?thesis by (simp add: dropped)
  qed
  have range: "\<forall>i\<in>fst ` set out. i < length atts" using elems by (fastforce simp: narrowest_def)
  have "card (fst ` set out) = length out" using dist by (metis distinct_card length_map set_map)
  moreover have "{i \<in> fst ` set out. 0 \<le> i \<and> i < 0 + length atts} = fst ` set out" using range by auto
  moreover have "card (fst ` set out) \<le> card {..<length atts}" using range by (intro card_mono) auto
  ultimately have total: "length out + length ?rest = length atts"
    using filter_enumerate_length [of "fst ` set out" 0 atts] by (simp add: used)
  have "\<forall>(i, e)\<in>set out. narrowest (se_IP e) atts i \<and> e = endpoint_of server (atts ! i) (se_IP e) \<and> se_IP e \<in> ip_addr ` set ips"
    using elems by (fastforce simp: endpoint_of_def)
  moreover have "length out + length (filter (\<lambda>d. de_VPC d \<noteq> '''') dropped) = length atts"
    using total by (simp add: vpcs)
  moreover have "dropped = [] \<longrightarrow> (\<forall>ip\<in>set ips. \<exists>a\<in>set atts. lies_in (ip_addr ip) a) \<and> length out = length atts"
    using total covered by (auto simp: dropped)
  ultimately show ?thesis using dist by blast
qed

definition two_attachments :: "server_attachment list" where
  "two_attachments =
     [\<lparr>at_vpcName = ''vpc-1'', at_subnetName = ''wide'', at_subnetCIDR = v4_prefix 0x0A000000 8, at_hostBGP = False,
       at_attachName = ''attach-1''\<rparr>,
      \<lparr>at_vpcName = ''vpc-1'', at_subnetName = ''narrow'', at_subnetCIDR = v4_prefix 0x0A000100 24, at_hostBGP = False,
       at_attachName = ''attach-2''\<rparr>]"

theorem match_server_complete_witness:
  "length (fst (match_server ''server-1'' two_attachments [\<lparr>di_iface = ''bond0'', di_prefix = v4_prefix 0x0A000105 24\<rparr>])) +
   length (filter (\<lambda>d. de_VPC d \<noteq> '''')
     (snd (match_server ''server-1'' two_attachments [\<lparr>di_iface = ''bond0'', di_prefix = v4_prefix 0x0A000105 24\<rparr>]))) = 2"
  using match_server_complete [of "''server-1''" two_attachments "[\<lparr>di_iface = ''bond0'', di_prefix = v4_prefix 0x0A000105 24\<rparr>]"]
  by (simp add: two_attachments_def split: prod.splits)

section \<open>Replacing the endpoints of a server\<close>

lemma by_vs_acc:
  assumes "\<forall>p\<in>set ps. \<exists>s. server_at h p = Some s \<and> se_Name s = name"
  shows "map_of (fold (\<lambda>p m. case server_at h p of None \<Rightarrow> m
      | Some s \<Rightarrow> if se_Name s \<noteq> name then m else map_put (vs_key s) p m) ps m0) k =
    (case find (\<lambda>p. map_option vs_key (server_at h p) = Some k) (rev ps) of Some p \<Rightarrow> Some p | None \<Rightarrow> map_of m0 k)"
  using assms
proof (induction ps arbitrary: m0)
  case (Cons p ps)
  from Cons.prems obtain s where s: "server_at h p = Some s" "se_Name s = name" by auto
  have find_snoc: "find P (xs @ [x]) = (case find P xs of Some y \<Rightarrow> Some y | None \<Rightarrow> if P x then Some x else None)" for P xs and x :: ptr
    by (induction xs) auto
  from Cons s show ?case by (auto simp: find_snoc split: option.splits)
qed simp

lemma find_SomeD: "find P xs = Some x \<Longrightarrow> x \<in> set xs \<and> P x"
  by (induction xs) (auto split: if_splits)

text \<open>Endpoints of one server with different subnets are found under their subnet.\<close>

lemma by_vs_find:
  assumes "\<forall>p\<in>set ps. \<exists>s. server_at h p = Some s \<and> se_Name s = name"
    and "distinct (map (\<lambda>p. map_option vs_key (server_at h p)) ps)"
  shows "map_of (by_vs h name ps) k = Some q \<longleftrightarrow> q \<in> set ps \<and> map_option vs_key (server_at h q) = Some k"
proof -
  let ?P = "\<lambda>p. map_option vs_key (server_at h p) = Some k"
  have eq: "map_of (by_vs h name ps) k = find ?P (rev ps)"
    using by_vs_acc [OF assms(1), of "[]" k] by (simp add: by_vs_def split: option.splits)
  have uniq: "p = p'" if "p \<in> set ps" "p' \<in> set ps" "?P p" "?P p'" for p p'
    using that assms(2) by (auto simp: distinct_map inj_on_def)
  show ?thesis
  proof (cases "find ?P (rev ps)")
    case None
    then have "\<not> ?P p" if "p \<in> set ps" for p using that by (auto simp: find_None_iff)
    then show ?thesis unfolding eq None by auto
  next
    case (Some p)
    have "p \<in> set (rev ps) \<and> ?P p" by (rule find_SomeD [OF Some])
    then have p: "p \<in> set ps" "?P p" unfolding set_rev by (rule conjunct1, rule conjunct2)
    have "Some p = Some q \<longleftrightarrow> q \<in> set ps \<and> ?P q" using p uniq [OF p(1) _ p(2)] by blast
    then show ?thesis unfolding eq Some .
  qed
qed

definition replacement :: "heap \<Rightarrow> string \<Rightarrow> ((string \<times> string) \<times> ptr) list \<Rightarrow> ptr \<Rightarrow> ptr option" where
  "replacement h name B p =
     (case server_at h p of None \<Rightarrow> None
      | Some srv \<Rightarrow> if se_Name srv = name then map_of B (vs_key srv) else None)"

definition replaced :: "heap \<Rightarrow> string \<Rightarrow> ((string \<times> string) \<times> ptr) list \<Rightarrow> ptr \<Rightarrow> endpoint option" where
  "replaced h name B p =
     (case (replacement h name B p, h p, server_at h p) of
        (Some q, Some e, Some srv) \<Rightarrow>
          (case server_at h q of None \<Rightarrow> h p
           | Some new \<Rightarrow> Some (e\<lparr>ep_Server := Some (srv\<lparr>se_IP := se_IP new, se_HostBGP := se_HostBGP new\<rparr>)\<rparr>))
      | _ \<Rightarrow> h p)"

definition goes :: "heap \<Rightarrow> string \<Rightarrow> ((string \<times> string) \<times> ptr) list \<Rightarrow> ptr \<Rightarrow> bool" where
  "goes h name B p \<longleftrightarrow> named h name p \<and> replacement h name B p = None"

text \<open>
  The pass over the endpoints in closed form, where the new endpoints are not among those it changes.
\<close>

lemma replace_fold:
  assumes "distinct ps" "\<forall>k q. map_of B k = Some q \<longrightarrow> server_at h q \<noteq> None \<and> q \<notin> set ps"
    and "\<forall>p\<in>set ps \<union> {q. \<exists>k. map_of B k = Some q}. rs_heap s p = h p"
  shows "let t = fold (replace_step name B) ps s in
    rs_heap t = (\<lambda>p. if p \<in> set ps then replaced h name B p else rs_heap s p) \<and>
    set (rs_matched t) = set (rs_matched s) \<union> {q. \<exists>p\<in>set ps. replacement h name B p = Some q} \<and>
    set (rs_stale t) = set (rs_stale s) \<union> {p \<in> set ps. goes h name B p} \<and>
    rs_kept t = rs_kept s @ filter (\<lambda>p. \<not> goes h name B p) ps"
  using assms
proof (induction ps arbitrary: s)
  case (Cons p ps)
  let ?s = "replace_step name B p s"
  have hp: "rs_heap s p = h p" using Cons.prems(3) by simp
  have at: "server_at (rs_heap s) p = server_at h p" by (simp add: server_at_def hp)
  have atq: "server_at (rs_heap s) q = server_at h q" if "map_of B k = Some q" for k q
  proof -
    have "rs_heap s q = h q" using Cons.prems(3) that by blast
    then show ?thesis by (simp add: server_at_def)
  qed
  have step: "rs_heap ?s = (rs_heap s)(p := replaced h name B p) \<and>
      set (rs_matched ?s) = set (rs_matched s) \<union> {q. replacement h name B p = Some q} \<and>
      set (rs_stale ?s) = set (rs_stale s) \<union> (if goes h name B p then {p} else {}) \<and>
      rs_kept ?s = rs_kept s @ (if goes h name B p then [] else [p])"
  proof (cases "server_at h p")
    case None
    then show ?thesis
      by (cases "h p") (auto simp: replace_step_def Let_def at hp replaced_def replacement_def goes_def named_def)
  next
    case (Some srv)
    then obtain e where e: "h p = Some e" by (auto simp: server_at_def split: option.splits)
    show ?thesis
    proof (cases "se_Name srv = name")
      case False
      with Some e show ?thesis by (auto simp: replace_step_def Let_def at hp replaced_def replacement_def goes_def named_def)
    next
      case True
      show ?thesis
      proof (cases "map_of B (vs_key srv)")
        case None
        with True Some e hp show ?thesis
          by (auto simp: replace_step_def Let_def at replaced_def replacement_def goes_def named_def)
      next
        case (Some q)
        with Cons.prems(2) obtain new where new: "server_at h q = Some new" by blast
        with Some True e \<open>server_at h p = Some srv\<close> atq [OF Some] show ?thesis
          by (auto simp: replace_step_def Let_def at hp replaced_def replacement_def goes_def named_def)
      qed
    qed
  qed
  have d: "distinct ps" "p \<notin> set ps" using Cons.prems(1) by auto
  have "\<forall>p'\<in>set ps \<union> {q. \<exists>k. map_of B k = Some q}. rs_heap ?s p' = h p'"
  proof
    fix p' assume p': "p' \<in> set ps \<union> {q. \<exists>k. map_of B k = Some q}"
    with d(2) Cons.prems(2) have "p' \<noteq> p" by auto
    with p' Cons.prems(3) step show "rs_heap ?s p' = h p'" by auto
  qed
  from Cons.IH [OF d(1) _ this] Cons.prems(2)
  have IH: "rs_heap (fold (replace_step name B) ps ?s) = (\<lambda>p. if p \<in> set ps then replaced h name B p else rs_heap ?s p)"
    "set (rs_matched (fold (replace_step name B) ps ?s)) = set (rs_matched ?s) \<union> {q. \<exists>p\<in>set ps. replacement h name B p = Some q}"
    "set (rs_stale (fold (replace_step name B) ps ?s)) = set (rs_stale ?s) \<union> {p \<in> set ps. goes h name B p}"
    "rs_kept (fold (replace_step name B) ps ?s) = rs_kept ?s @ filter (\<lambda>p. \<not> goes h name B p) ps"
    by (simp_all add: Let_def)
  show ?case unfolding Let_def fold_simps IH using step d(2) by (auto simp: fun_eq_iff)
qed (simp add: Let_def)

text \<open>An updated endpoint holds what the new one says.\<close>

lemma replaced_server:
  assumes "replacement h name B p = Some q" "server_at h q = Some new" "se_Name new = name"
    and "\<And>k. map_of B k = Some q \<Longrightarrow> vs_key new = k"
  shows "case replaced h name B p of None \<Rightarrow> False | Some e \<Rightarrow> ep_Server e = Some new"
proof -
  from assms(1) obtain srv where srv: "server_at h p = Some srv" "se_Name srv = name" "map_of B (vs_key srv) = Some q"
    by (auto simp: replacement_def split: option.splits if_splits)
  then obtain e where e: "h p = Some e" by (auto simp: server_at_def split: option.splits)
  have "vs_key new = vs_key srv" using assms(4) srv(3) by blast
  then have "srv\<lparr>se_IP := se_IP new, se_HostBGP := se_HostBGP new\<rparr> = new"
    using srv(2) assms(3) by (cases srv; cases new) (simp add: vs_key_def)
  then show ?thesis by (simp add: replaced_def assms(1,2) srv e)
qed

lemma map_of_filter_keys: "P k \<Longrightarrow> map_of (filter (\<lambda>(k, v). P k) xs) k = map_of xs k"
  by (induction xs) auto

text \<open>The arguments the replacement is meant for: the new endpoints are of the server, each for a subnet of its own.\<close>

definition new_endpoints :: "heap \<Rightarrow> string \<Rightarrow> ptr list \<Rightarrow> ptr list \<Rightarrow> bool" where
  "new_endpoints h name newEPs old \<longleftrightarrow>
     distinct old \<and> set newEPs \<inter> set old = {} \<and> (\<forall>p\<in>set newEPs. \<exists>s. server_at h p = Some s \<and> se_Name s = name) \<and>
     distinct (map (\<lambda>p. map_option vs_key (server_at h p)) newEPs)"

lemma by_vs_new:
  assumes "new_endpoints h name newEPs old" "map_of (by_vs h name newEPs) k = Some q"
  obtains s where "server_at h q = Some s" "se_Name s = name" "vs_key s = k" "q \<in> set newEPs" "q \<notin> set old"
proof -
  from assms have n: "\<forall>p\<in>set newEPs. \<exists>s. server_at h p = Some s \<and> se_Name s = name" "set newEPs \<inter> set old = {}"
    and q: "q \<in> set newEPs" "map_option vs_key (server_at h q) = Some k"
    by (simp_all add: new_endpoints_def by_vs_find)
  from n(1) q(1) obtain s where "server_at h q = Some s" "se_Name s = name" by blast
  with n(2) q that show ?thesis by auto
qed

lemma replace_shape:
  assumes "ReplaceServerEndpoints name newEPs (h, m) = (h', m')" "new_endpoints h name newEPs (cm_AllEndpoints m)"
  defines "B \<equiv> by_vs h name newEPs"
  shows "h' p = (if p \<in> set (cm_AllEndpoints m) then replaced h name B p else h p)"
    and "set (cm_AllEndpoints m') = {p \<in> set (cm_AllEndpoints m). \<not> goes h name B p} \<union>
      {q \<in> set newEPs. \<forall>p\<in>set (cm_AllEndpoints m). replacement h name B p \<noteq> Some q}"
    and "cm_entries m' = filter (\<lambda>(p, byPP). \<not> (fst p \<in> set (cm_AllEndpoints m) \<and> goes h name B (fst p)) \<and>
      \<not> (snd p \<in> set (cm_AllEndpoints m) \<and> goes h name B (snd p))) (cm_entries m)"
proof -
  define t where "t = fold (replace_step name B) (cm_AllEndpoints m) \<lparr>rs_heap = h, rs_matched = [], rs_stale = [], rs_kept = []\<rparr>"
  have prems: "\<forall>k q. map_of B k = Some q \<longrightarrow> server_at h q \<noteq> None \<and> q \<notin> set (cm_AllEndpoints m)"
    unfolding B_def by (auto elim: by_vs_new [OF assms(2)])
  have "distinct (cm_AllEndpoints m)" using assms(2) by (simp add: new_endpoints_def)
  note fold = replace_fold [OF this prems, where s = "\<lparr>rs_heap = h, rs_matched = [], rs_stale = [], rs_kept = []\<rparr>" and name = name,
      unfolded Let_def replace_state.select_convs, folded t_def, simplified]
  then have heap: "rs_heap t = (\<lambda>p. if p \<in> set (cm_AllEndpoints m) then replaced h name B p else h p)"
    and matched: "set (rs_matched t) = {q. \<exists>p\<in>set (cm_AllEndpoints m). replacement h name B p = Some q}"
    and stale: "set (rs_stale t) = {p \<in> set (cm_AllEndpoints m). goes h name B p}"
    and kept: "rs_kept t = filter (\<lambda>p. \<not> goes h name B p) (cm_AllEndpoints m)"
    by auto
  from assms(1) have m': "h' = rs_heap t" "cm_AllEndpoints m' = rs_kept t @ filter (\<lambda>p. h' p \<noteq> None \<and> p \<notin> set (rs_matched t)) newEPs"
    "cm_entries m' = filter (\<lambda>(p, byPP). fst p \<notin> set (rs_stale t) \<and> snd p \<notin> set (rs_stale t)) (cm_entries m)"
    by (auto simp: ReplaceServerEndpoints_def Let_def t_def B_def)
  show "h' p = (if p \<in> set (cm_AllEndpoints m) then replaced h name B p else h p)" by (simp add: m'(1) heap)
  have "h' q \<noteq> None" if "q \<in> set newEPs" for q
    using that assms(2) by (fastforce simp: m'(1) heap new_endpoints_def server_at_def)
  then show "set (cm_AllEndpoints m') = {p \<in> set (cm_AllEndpoints m). \<not> goes h name B p} \<union>
      {q \<in> set newEPs. \<forall>p\<in>set (cm_AllEndpoints m). replacement h name B p \<noteq> Some q}"
    unfolding m'(2) kept set_append set_filter matched by auto
  show "cm_entries m' = filter (\<lambda>(p, byPP). \<not> (fst p \<in> set (cm_AllEndpoints m) \<and> goes h name B (fst p)) \<and>
      \<not> (snd p \<in> set (cm_AllEndpoints m) \<and> goes h name B (snd p))) (cm_entries m)"
    unfolding m'(3) stale by simp
qed

text \<open>An old endpoint that stays for the server holds a new one's data.\<close>

lemma kept_server:
  assumes "new_endpoints h name newEPs old" "named h name p" "\<not> goes h name (by_vs h name newEPs) p"
  shows "\<exists>q\<in>set newEPs. replacement h name (by_vs h name newEPs) p = Some q \<and>
    (case replaced h name (by_vs h name newEPs) p of None \<Rightarrow> False | Some e \<Rightarrow> Some e \<noteq> None \<and> ep_Server e = server_at h q)"
proof -
  let ?B = "by_vs h name newEPs"
  from assms(2,3) obtain q where q: "replacement h name ?B p = Some q" by (auto simp: goes_def)
  then obtain k where k: "map_of ?B k = Some q" by (auto simp: replacement_def split: option.splits if_splits)
  obtain s where s: "server_at h q = Some s" "se_Name s = name" "q \<in> set newEPs" using by_vs_new [OF assms(1) k] by metis
  have "vs_key s = k'" if "map_of ?B k' = Some q" for k' using by_vs_new [OF assms(1) that] s(1) by (metis option.inject)
  from replaced_server [OF q s(1,2) this] s(1,3) q show ?thesis by (auto split: option.splits)
qed

lemma not_named_same: "\<not> named h name p \<Longrightarrow> replaced h name B p = h p \<and> \<not> goes h name B p"
  by (auto simp: replaced_def replacement_def named_def goes_def split: option.splits)

text \<open>
  C23. Replacing the endpoints of a server by new ones, each for a subnet of its own: other endpoints stay
  as they are, those of the server afterwards are exactly the new ones, no expectation is left for an
  endpoint that is gone, and what the matrix says of two endpoints that stay is unchanged.
\<close>

theorem replace_server_endpoints:
  assumes "ReplaceServerEndpoints name newEPs (h, m) = (h', m')" "new_endpoints h name newEPs (cm_AllEndpoints m)"
  shows "(\<forall>p\<in>set (cm_AllEndpoints m). \<not> named h name p \<longrightarrow> p \<in> set (cm_AllEndpoints m') \<and> h' p = h p) \<and>
    server_at h' ` {p \<in> set (cm_AllEndpoints m'). named h' name p} = server_at h ` set newEPs \<and>
    (\<forall>(pr, byPP)\<in>set (cm_entries m'). {fst pr, snd pr} \<inter> (set (cm_AllEndpoints m) - set (cm_AllEndpoints m')) = {}) \<and>
    (\<forall>a\<in>set (cm_AllEndpoints m) \<inter> set (cm_AllEndpoints m'). \<forall>b\<in>set (cm_AllEndpoints m) \<inter> set (cm_AllEndpoints m').
       \<forall>pp. Lookup m' a b pp = Lookup m a b pp)"
proof -
  let ?B = "by_vs h name newEPs" and ?old = "set (cm_AllEndpoints m)"
  note shape = replace_shape [OF assms]
  have disj: "q \<notin> ?old" "\<exists>s. server_at h q = Some s \<and> se_Name s = name" if "q \<in> set newEPs" for q
    using that assms(2) by (auto simp: new_endpoints_def)
  have new_at: "server_at h' q = server_at h q" if "q \<in> set newEPs" for q
    using disj(1) [OF that] by (simp add: server_at_def shape(1))
  have gone: "?old - set (cm_AllEndpoints m') = {p \<in> ?old. goes h name ?B p}" using disj(1) by (auto simp: shape(2))
  have old_at: "\<exists>q\<in>set newEPs. replacement h name ?B p = Some q \<and> server_at h' p = server_at h q"
    if "p \<in> ?old" "named h name p" "\<not> goes h name ?B p" for p
    using kept_server [OF assms(2) that(2,3)] that(1) by (auto simp: server_at_def shape(1) split: option.splits)
  have old_named: "named h' name p \<Longrightarrow> named h name p" if "p \<in> ?old" for p
    using that not_named_same [of h name p ?B] by (cases "named h name p") (simp_all add: named_def server_at_def shape(1))
  have named_new: "named h' name p" if "server_at h' p = server_at h q" "q \<in> set newEPs" for p q
    using that disj(2) by (fastforce simp: named_def)
  have f2: "server_at h' ` {p \<in> set (cm_AllEndpoints m'). named h' name p} = server_at h ` set newEPs" (is "?L = ?R")
  proof (rule equalityI)
    show "?L \<subseteq> ?R"
    proof (clarsimp simp: shape(2))
      fix p assume "named h' name p" "p \<in> ?old \<and> \<not> goes h name ?B p \<or> p \<in> set newEPs \<and> (\<forall>pa\<in>?old. replacement h name ?B pa \<noteq> Some p)"
      then show "server_at h' p \<in> ?R" using old_at old_named new_at by blast
    qed
    show "?R \<subseteq> ?L"
    proof (rule image_subsetI)
      fix q assume q: "q \<in> set newEPs"
      show "server_at h q \<in> ?L"
      proof (cases "\<exists>p\<in>?old. replacement h name ?B p = Some q")
        case True
        then obtain p where p: "p \<in> ?old" "replacement h name ?B p = Some q" by blast
        then have "named h name p" "\<not> goes h name ?B p"
          by (auto simp: replacement_def named_def goes_def split: option.splits if_splits)
        with old_at p q show ?thesis using named_new by (force simp: shape(2))
      next
        case False
        with q new_at [OF q] named_new [OF new_at [OF q] q] show ?thesis by (force simp: shape(2))
      qed
    qed
  qed
  have f1: "\<forall>p\<in>?old. \<not> named h name p \<longrightarrow> p \<in> set (cm_AllEndpoints m') \<and> h' p = h p"
    using not_named_same by (auto simp: shape(1,2))
  have f3: "\<forall>(pr, byPP)\<in>set (cm_entries m'). {fst pr, snd pr} \<inter> (?old - set (cm_AllEndpoints m')) = {}"
    unfolding gone by (auto simp: shape(3))
  have f4: "Lookup m' a b pp = Lookup m a b pp"
    if "a \<in> ?old \<inter> set (cm_AllEndpoints m')" "b \<in> ?old \<inter> set (cm_AllEndpoints m')" for a b pp
  proof -
    have "map_of (cm_entries m') (a, b) = map_of (cm_entries m) (a, b)"
      unfolding shape(3) using that gone by (intro map_of_filter_keys) auto
    then show ?thesis by (simp add: Lookup_def)
  qed
  show ?thesis
    by (rule conjI [OF f1 conjI [OF f2 conjI [OF f3]]]) (intro ballI allI f4)
qed

definition moved_heap :: heap where
  "moved_heap = example_heap(2 \<mapsto> example_server ''server-1'' ''vpc-1'' 0x0A000163)"

lemma moved_new: "new_endpoints moved_heap ''server-1'' [2] (cm_AllEndpoints open_matrix)"
  by (simp add: new_endpoints_def open_lookups server_at_def moved_heap_def example_server_def)

theorem replace_server_endpoints_witness:
  "\<exists>h' m'. ReplaceServerEndpoints ''server-1'' [2] (moved_heap, open_matrix) = (h', m') \<and>
     server_at h' ` {p \<in> set (cm_AllEndpoints m'). named h' ''server-1'' p} = {server_at moved_heap 2} \<and> h' 1 = moved_heap 1"
proof -
  obtain h' m' where r: "ReplaceServerEndpoints ''server-1'' [2] (moved_heap, open_matrix) = (h', m')" by force
  have "1 \<in> set (cm_AllEndpoints open_matrix)" "\<not> named moved_heap ''server-1'' 1"
    by (simp_all add: open_lookups named_def server_at_def moved_heap_def example_heap_def example_server_def)
  with replace_server_endpoints [OF r moved_new] r show ?thesis by auto
qed

end
