(* ===== verification/Versions.thy ===== *)
theory Versions
  imports FabTypes
begin

text \<open>
  The versions of what a Fabricator installs (\<^verbatim>\<open>Versions\<close> of \<^verbatim>\<open>fabricator_types.go\<close>, \<^verbatim>\<open>pkg/fab/versions.go\<close>)
  and how they are computed: the overrides of the spec, completed by the versions of the release.
  \<^verbatim>\<open>mergo.Merge\<close> without options, as the program calls it, fills the empty strings of a struct and the
  missing or empty entries of a map, and keeps everything else.
\<close>

section \<open>Versions\<close>

record platform_versions =
  pv_K3s :: string
  pv_Zot :: string
  pv_ZotChart :: string
  pv_CertManager :: string
  pv_K9s :: string
  pv_Toolbox :: string
  pv_Reloader :: string
  pv_ReloaderChart :: string
  pv_NTP :: string
  pv_NTPChart :: string
  pv_Alloy :: string
  pv_ControlProxy :: string
  pv_ControlProxyChart :: string
  pv_BashCompletion :: string
  pv_HostBGPContainer :: string

record fabricator_versions =
  rv_API :: string
  rv_Controller :: string
  rv_ControlUSBRoot :: string
  rv_Ctl :: string
  rv_NodeConfig :: string
  rv_Pause :: string
  rv_Flatcar :: string

record fabric_versions =
  fv_API :: string
  fv_Controller :: string
  fv_DHCPD :: string
  fv_Boot :: string
  fv_Agent :: string
  fv_Ctl :: string
  fv_NOS :: "string gomap"
  fv_ONIE :: "string gomap"

record gateway_versions =
  gv_API :: string
  gv_Controller :: string
  gv_Agent :: string
  gv_Dataplane :: string
  gv_FRR :: string

record vlab_versions =
  vv_ONIE :: string
  vv_Flatcar :: string

record versions =
  vs_Platform :: platform_versions
  vs_Fabricator :: fabricator_versions
  vs_Fabric :: fabric_versions
  vs_Gateway :: gateway_versions
  vs_VLAB :: vlab_versions

section \<open>The versions of the release\<close>

definition Release :: string where "Release = ''26.03.0''"
definition FabricVersion :: string where "FabricVersion = ''v0.129.1''"
definition DataplaneVersion :: string where "DataplaneVersion = ''v0.24.0''"
definition FRRVersion :: string where "FRRVersion = ''v0.24.0''"
definition BCMSONiCVersion :: string where "BCMSONiCVersion = ''v4.5.2''"
definition CLSSONiCVersion :: string where "CLSSONiCVersion = ''v5.0.0''"
definition CumulusVersion :: string where "CumulusVersion = ''v5.16.0''"

definition NOSTypeSONiCBCMBase :: string where "NOSTypeSONiCBCMBase = ''sonic-bcm-base''"
definition NOSTypeSONiCBCMCampus :: string where "NOSTypeSONiCBCMCampus = ''sonic-bcm-campus''"
definition NOSTypeSONiCBCMVS :: string where "NOSTypeSONiCBCMVS = ''sonic-bcm-vs''"
definition NOSTypeSONiCCLSPlusBroadcom :: string where "NOSTypeSONiCCLSPlusBroadcom = ''sonic-cls-plus-broadcom''"
definition NOSTypeSONiCCLSPlusMarvell :: string where "NOSTypeSONiCCLSPlusMarvell = ''sonic-cls-plus-marvell''"
definition NOSTypeSONiCCLSPlusVS :: string where "NOSTypeSONiCCLSPlusVS = ''sonic-cls-plus-vs''"
definition NOSTypeCumulusVX :: string where "NOSTypeCumulusVX = ''cumulus-vx''"
definition NOSTypeCumulusMlx :: string where "NOSTypeCumulusMlx = ''cumulus-mlx''"

lemmas nos_types = NOSTypeSONiCBCMBase_def NOSTypeSONiCBCMCampus_def NOSTypeSONiCBCMVS_def
  NOSTypeSONiCCLSPlusBroadcom_def NOSTypeSONiCCLSPlusMarvell_def NOSTypeSONiCCLSPlusVS_def
  NOSTypeCumulusVX_def NOSTypeCumulusMlx_def

definition release_platform :: "string \<Rightarrow> platform_versions" where
  "release_platform FabricatorVersion =
     \<lparr>pv_K3s = ''v1.36.2-k3s1'', pv_Zot = ''v2.1.16'', pv_ZotChart = ''v0.1.67-hh1'', pv_CertManager = ''v1.20.2'',
      pv_K9s = ''v0.50.18'', pv_Toolbox = ''v0.13.0'', pv_Reloader = ''v1.4.16'', pv_ReloaderChart = ''2.2.11'',
      pv_NTP = ''v0.0.5'', pv_NTPChart = FabricatorVersion, pv_Alloy = ''v1.16.1'', pv_ControlProxy = ''v1.11.2-hh2'',
      pv_ControlProxyChart = FabricatorVersion, pv_BashCompletion = ''v2.16.0'', pv_HostBGPContainer = ''v0.4.1''\<rparr>"

definition release_fabricator :: "string \<Rightarrow> fabricator_versions" where
  "release_fabricator FabricatorVersion =
     \<lparr>rv_API = FabricatorVersion, rv_Controller = FabricatorVersion, rv_ControlUSBRoot = ''v4593.2.4-hh2'',
      rv_Ctl = FabricatorVersion, rv_NodeConfig = FabricatorVersion, rv_Pause = ''3.6'', rv_Flatcar = ''v4593.2.4''\<rparr>"

definition release_nos :: "string gomap" where
  "release_nos =
     [(NOSTypeSONiCBCMVS, BCMSONiCVersion), (NOSTypeSONiCBCMBase, BCMSONiCVersion), (NOSTypeSONiCBCMCampus, BCMSONiCVersion),
      (NOSTypeSONiCCLSPlusVS, CLSSONiCVersion), (NOSTypeSONiCCLSPlusBroadcom, CLSSONiCVersion),
      (NOSTypeSONiCCLSPlusMarvell, CLSSONiCVersion), (NOSTypeCumulusVX, CumulusVersion), (NOSTypeCumulusMlx, CumulusVersion)]"

text \<open>The platforms are those of the switch profiles; the Supermicro switch has the platform of the DS3000.\<close>

definition release_onie :: "string gomap" where
  "release_onie =
     [(''x86_64-dellemc_s5232f_c3538-r0'', ''v0.1.0''), (''x86_64-dellemc_s5248f_c3538-r0'', ''v0.1.0''),
      (''x86_64-dellemc_z9332f_d1508-r0'', ''v0.1.0''), (''x86_64-cel_ds2000-r0'', ''v0.4.0''),
      (''x86_64-cel_seastone_2-r0'', ''v0.1.0''), (''x86_64-cel_silverstone-r0'', ''v0.1.0''),
      (''x86_64-cel_ds4101-r0'', ''v0.2.0''), (''x86_64-accton_as7326_56x-r0'', ''v0.1.0''),
      (''x86_64-accton_as7726_32x-r0'', ''v0.1.0''), (''x86_64-accton_as7712_32x-r0'', ''v0.1.0''),
      (''x86_64-accton_as4630_54npe-r0'', ''v0.1.0''), (''x86_64-kvm_x86_64-r0'', ''v0.1.0'')]"

definition release_fabric :: fabric_versions where
  "release_fabric =
     \<lparr>fv_API = FabricVersion, fv_Controller = FabricVersion, fv_DHCPD = FabricVersion, fv_Boot = FabricVersion,
      fv_Agent = FabricVersion, fv_Ctl = FabricVersion, fv_NOS = release_nos, fv_ONIE = release_onie\<rparr>"

definition release_versions :: "string \<Rightarrow> versions" where
  "release_versions FabricatorVersion =
     \<lparr>vs_Platform = release_platform FabricatorVersion, vs_Fabricator = release_fabricator FabricatorVersion,
      vs_Fabric = release_fabric,
      vs_Gateway = \<lparr>gv_API = '''', gv_Controller = '''', gv_Agent = '''', gv_Dataplane = DataplaneVersion, gv_FRR = FRRVersion\<rparr>,
      vs_VLAB = \<lparr>vv_ONIE = ''v0.2.1'', vv_Flatcar = ''v4593.2.4''\<rparr>\<rparr>"

definition CleanupFabricNOSVersion :: "string \<Rightarrow> string" where
  "CleanupFabricNOSVersion version = map (\<lambda>c. if c = CHR ''_'' then CHR ''-'' else c) version"

text \<open>\<open>semver\<close> is the parser of versions, a library: the major and minor numbers of a version.\<close>

definition ReleaseChannel :: "(string \<Rightarrow> (nat \<times> nat) result) \<Rightarrow> string result" where
  "ReleaseChannel semver =
     ebind (ewrap ''parsing release version'' [] (semver Release)) (\<lambda>(major, minor).
     Inr (itoa major @ ''.'' @ (if minor < 10 then ''0'' @ itoa minor else itoa minor)))"

section \<open>Merging\<close>

definition merge_str :: "string \<Rightarrow> string \<Rightarrow> string" where
  "merge_str dst src = (if dst = '''' then src else dst)"

definition merge_entry :: "string \<times> string \<Rightarrow> string gomap \<Rightarrow> string gomap" where
  "merge_entry kv dst =
     (case map_of dst (fst kv) of
        Some v \<Rightarrow> if v = '''' then map_put (fst kv) (snd kv) dst else dst
      | None \<Rightarrow> map_put (fst kv) (snd kv) dst)"

definition merge_map :: "string gomap \<Rightarrow> string gomap \<Rightarrow> string gomap" where
  "merge_map dst src = fold merge_entry src dst"

definition merge_platform :: "platform_versions \<Rightarrow> platform_versions \<Rightarrow> platform_versions" where
  "merge_platform d s =
     \<lparr>pv_K3s = merge_str (pv_K3s d) (pv_K3s s), pv_Zot = merge_str (pv_Zot d) (pv_Zot s),
      pv_ZotChart = merge_str (pv_ZotChart d) (pv_ZotChart s), pv_CertManager = merge_str (pv_CertManager d) (pv_CertManager s),
      pv_K9s = merge_str (pv_K9s d) (pv_K9s s), pv_Toolbox = merge_str (pv_Toolbox d) (pv_Toolbox s),
      pv_Reloader = merge_str (pv_Reloader d) (pv_Reloader s),
      pv_ReloaderChart = merge_str (pv_ReloaderChart d) (pv_ReloaderChart s),
      pv_NTP = merge_str (pv_NTP d) (pv_NTP s), pv_NTPChart = merge_str (pv_NTPChart d) (pv_NTPChart s),
      pv_Alloy = merge_str (pv_Alloy d) (pv_Alloy s), pv_ControlProxy = merge_str (pv_ControlProxy d) (pv_ControlProxy s),
      pv_ControlProxyChart = merge_str (pv_ControlProxyChart d) (pv_ControlProxyChart s),
      pv_BashCompletion = merge_str (pv_BashCompletion d) (pv_BashCompletion s),
      pv_HostBGPContainer = merge_str (pv_HostBGPContainer d) (pv_HostBGPContainer s)\<rparr>"

definition merge_fabricator :: "fabricator_versions \<Rightarrow> fabricator_versions \<Rightarrow> fabricator_versions" where
  "merge_fabricator d s =
     \<lparr>rv_API = merge_str (rv_API d) (rv_API s), rv_Controller = merge_str (rv_Controller d) (rv_Controller s),
      rv_ControlUSBRoot = merge_str (rv_ControlUSBRoot d) (rv_ControlUSBRoot s), rv_Ctl = merge_str (rv_Ctl d) (rv_Ctl s),
      rv_NodeConfig = merge_str (rv_NodeConfig d) (rv_NodeConfig s), rv_Pause = merge_str (rv_Pause d) (rv_Pause s),
      rv_Flatcar = merge_str (rv_Flatcar d) (rv_Flatcar s)\<rparr>"

definition merge_fabric :: "fabric_versions \<Rightarrow> fabric_versions \<Rightarrow> fabric_versions" where
  "merge_fabric d s =
     \<lparr>fv_API = merge_str (fv_API d) (fv_API s), fv_Controller = merge_str (fv_Controller d) (fv_Controller s),
      fv_DHCPD = merge_str (fv_DHCPD d) (fv_DHCPD s), fv_Boot = merge_str (fv_Boot d) (fv_Boot s),
      fv_Agent = merge_str (fv_Agent d) (fv_Agent s), fv_Ctl = merge_str (fv_Ctl d) (fv_Ctl s),
      fv_NOS = merge_map (fv_NOS d) (fv_NOS s), fv_ONIE = merge_map (fv_ONIE d) (fv_ONIE s)\<rparr>"

definition merge_gateway :: "gateway_versions \<Rightarrow> gateway_versions \<Rightarrow> gateway_versions" where
  "merge_gateway d s =
     \<lparr>gv_API = merge_str (gv_API d) (gv_API s), gv_Controller = merge_str (gv_Controller d) (gv_Controller s),
      gv_Agent = merge_str (gv_Agent d) (gv_Agent s), gv_Dataplane = merge_str (gv_Dataplane d) (gv_Dataplane s),
      gv_FRR = merge_str (gv_FRR d) (gv_FRR s)\<rparr>"

definition merge_versions :: "versions \<Rightarrow> versions \<Rightarrow> versions" where
  "merge_versions d s =
     \<lparr>vs_Platform = merge_platform (vs_Platform d) (vs_Platform s),
      vs_Fabricator = merge_fabricator (vs_Fabricator d) (vs_Fabricator s),
      vs_Fabric = merge_fabric (vs_Fabric d) (vs_Fabric s), vs_Gateway = merge_gateway (vs_Gateway d) (vs_Gateway s),
      vs_VLAB = \<lparr>vv_ONIE = merge_str (vv_ONIE (vs_VLAB d)) (vv_ONIE (vs_VLAB s)),
        vv_Flatcar = merge_str (vv_Flatcar (vs_VLAB d)) (vv_Flatcar (vs_VLAB s))\<rparr>\<rparr>"

section \<open>The versions of a Fabricator\<close>

text \<open>
  A Fabricator as the API server holds it: the resource with its generation and version, the overrides
  of the spec and the status. Times are seconds.
\<close>

record condition =
  cd_Type :: string
  cd_Status :: string
  cd_Reason :: string
  cd_ObservedGeneration :: int
  cd_Message :: string

record fab_status =
  st_Versions :: versions
  st_IsBootstrap :: bool
  st_IsInstall :: bool
  st_LastAppliedGen :: int
  st_LastAppliedTime :: int
  st_LastAppliedController :: string
  st_LastAttemptGen :: int
  st_LastAttemptTime :: int
  st_LastStatusCheck :: int
  st_Conditions :: "condition list"
  st_Components :: components_status
  st_Release :: string
  st_ReleaseChannel :: string

record fab_object =
  fo_Fab :: fabricator
  fo_Overrides :: versions
  fo_Generation :: int
  fo_ResourceVersion :: string
  fo_Status :: fab_status

definition CalculateVersions :: "versions \<Rightarrow> fab_object \<Rightarrow> fab_object" where
  "CalculateVersions def f =
     (let v = merge_versions (fo_Overrides f) def;
          v = (if \<not> IncludeONIE (Fabric (Config (fo_Fab f))) then v\<lparr>vs_Fabric := (vs_Fabric v)\<lparr>fv_ONIE := []\<rparr>\<rparr> else v)
      in f\<lparr>fo_Status := (fo_Status f)\<lparr>st_Versions := v\<rparr>\<rparr>)"

section \<open>What a merge keeps and fills\<close>

lemma merge_str_simps [simp]:
  "merge_str '''' s = s"
  "d \<noteq> '''' \<Longrightarrow> merge_str d s = d"
  "merge_str d '''' = d"
  by (simp_all add: merge_str_def)

lemma merge_str_idem [simp]: "merge_str (merge_str d s) s = merge_str d s"
  by (simp add: merge_str_def)

lemma merge_str_empty_iff [simp]: "merge_str d s = '''' \<longleftrightarrow> d = '''' \<and> s = ''''"
  by (simp add: merge_str_def)

lemma map_of_merge_entry:
  "map_of (merge_entry kv dst) k =
     (if k = fst kv then Some (case map_of dst k of Some v \<Rightarrow> merge_str v (snd kv) | None \<Rightarrow> snd kv) else map_of dst k)"
  by (auto simp: merge_entry_def merge_str_def split: option.splits)

text \<open>An entry of a merged map: what the destination has, unless it is missing or empty.\<close>

lemma map_of_merge_map:
  "distinct (map fst src) \<Longrightarrow> map_of (merge_map dst src) k =
     (case map_of src k of None \<Rightarrow> map_of dst k
      | Some s \<Rightarrow> Some (case map_of dst k of Some v \<Rightarrow> merge_str v s | None \<Rightarrow> s))"
proof (induction src arbitrary: dst)
  case (Cons kv src)
  from Cons.prems have "map_of src (fst kv) = None" by (simp add: map_of_eq_None_iff)
  with Cons.IH [of "merge_entry kv dst"] Cons.prems show ?case
    by (cases kv) (auto simp: merge_map_def map_of_merge_entry split: option.splits)
qed (simp add: merge_map_def)

lemma merge_entry_fixed: "map_of dst k = Some v \<Longrightarrow> v \<noteq> '''' \<Longrightarrow> merge_entry (k, s) dst = dst"
  by (simp add: merge_entry_def)

lemma distinct_merge_map: "distinct (map fst dst) \<Longrightarrow> distinct (map fst (merge_map dst src))"
  by (induction src arbitrary: dst) (auto simp: merge_map_def merge_entry_def distinct_map_put split: option.splits)

lemma release_maps_distinct [simp]: "distinct (map fst release_nos)" "distinct (map fst release_onie)"
  by (simp_all add: release_nos_def release_onie_def nos_types)

lemma st_Versions_CalculateVersions:
  "st_Versions (fo_Status (CalculateVersions def f)) =
     (let v = merge_versions (fo_Overrides f) def in
      if IncludeONIE (Fabric (Config (fo_Fab f))) then v else v\<lparr>vs_Fabric := (vs_Fabric v)\<lparr>fv_ONIE := []\<rparr>\<rparr>)"
  by (simp add: CalculateVersions_def Let_def)

end
