(* ===== verification/Registry.thy ===== *)
theory Registry
  imports Versions FabMeta Kube
begin

text \<open>
  Where images and charts come from (\<^verbatim>\<open>pkg/fab/comp/registry.go\<close>): the registry of the control node, or,
  while a control node is being bootstrapped, the charts it serves itself and the upstream images.
\<close>

definition RegistryPort :: "16 word" where "RegistryPort = 31000"
definition RegistryPrefix :: string where "RegistryPrefix = ''githedgehog''"
definition OCISchema :: string where "OCISchema = ''oci://''"
definition BootstrapChartsPrefix :: string where "BootstrapChartsPrefix = ''charts''"
definition BootstrapImageRepo :: string where "BootstrapImageRepo = ''ghcr.io''"
definition BootstrapStatic :: string where "BootstrapStatic = ''https://%{KUBERNETES_API}%/static''"

definition ClusterDomain :: string where "ClusterDomain = ''cluster.local''"
definition FabCAIssuer :: string where "FabCAIssuer = ''fab-ca''"
definition FabCASecret :: string where "FabCASecret = FabCAIssuer"
definition FabCAConfigMap :: string where "FabCAConfigMap = FabCAIssuer"
definition FabCAConfigMapKey :: string where "FabCAConfigMapKey = ''ca.crt''"
definition FabNodeRegistriesSecret :: string where "FabNodeRegistriesSecret = ''fab-node-registries''"
definition FabNodeRegistriesSecretKey :: string where "FabNodeRegistriesSecretKey = ''registries.yaml''"
definition RegistryUserReader :: string where "RegistryUserReader = ''reader''"
definition RegistryUserSecretPrefix :: string where "RegistryUserSecretPrefix = ''registry-user-''"
definition RegistryUserSecretDockerSuffix :: string where "RegistryUserSecretDockerSuffix = ''-docker''"
definition RegistryUserReaderSecret :: string where
  "RegistryUserReaderSecret = RegistryUserSecretPrefix @ RegistryUserReader"

text \<open>\<^verbatim>\<open>netip.AddrPort.String\<close>, with the brackets of an IPv6 address.\<close>

definition addr_port_string :: "addr \<Rightarrow> 16 word \<Rightarrow> string" where
  "addr_port_string a p =
     (case a of
        NoAddr \<Rightarrow> ''invalid AddrPort''
      | V4 _ \<Rightarrow> addr_string a @ '':'' @ itoa (unat p)
      | V6 _ _ \<Rightarrow> ''['' @ addr_string a @ '']:'' @ itoa (unat p))"

definition control_vip :: "fab_object \<Rightarrow> prefix result" where
  "control_vip cfg = ewrap ''parsing control VIP'' [] (prefix_parse (VIP (Control (Config (fo_Fab cfg)))))"

definition RegistryURL :: "fab_object \<Rightarrow> string result" where
  "RegistryURL cfg = ebind (control_vip cfg) (\<lambda>vip. Inr (addr_port_string (pf_addr vip) RegistryPort))"

definition trim_slashes :: "string \<Rightarrow> string" where
  "trim_slashes s = rev (dropWhile (\<lambda>c. c = CHR ''/'') (rev (dropWhile (\<lambda>c. c = CHR ''/'') s)))"

definition JoinURLParts :: "string list \<Rightarrow> string" where
  "JoinURLParts parts = join_with ''/'' (map trim_slashes parts)"

definition ImageURL :: "fab_object \<Rightarrow> string \<Rightarrow> string result" where
  "ImageURL cfg name =
     (if st_IsBootstrap (fo_Status cfg) then Inr (JoinURLParts [BootstrapImageRepo, RegistryPrefix, name])
      else ebind (ewrap ''getting registry URL'' [] (RegistryURL cfg)) (\<lambda>regURL.
        Inr (JoinURLParts [regURL, RegistryPrefix, name])))"

definition ChartURL :: "fab_object \<Rightarrow> string \<Rightarrow> string \<Rightarrow> string result" where
  "ChartURL cfg name bootstrap =
     (if st_IsBootstrap (fo_Status cfg) then
        if bootstrap = '''' then Inl (Errf ''bootstrap chart name is required'' [])
        else Inr (JoinURLParts [BootstrapStatic, BootstrapChartsPrefix, bootstrap])
      else ebind (ewrap ''getting registry URL'' [] (RegistryURL cfg)) (\<lambda>regURL.
        Inr (OCISchema @ JoinURLParts [regURL, RegistryPrefix, name])))"

text \<open>The artifacts of several components; a later one overrides the version of an earlier one.\<close>

definition CollectArtifacts :: "fab_object \<Rightarrow> (fab_object \<Rightarrow> string gomap result) list \<Rightarrow> string gomap result" where
  "CollectArtifacts cfg listers =
     efold (\<lambda>list res. ebind (ewrap ''listing artifacts'' [] (list cfg)) (\<lambda>arts.
       Inr (fold (\<lambda>(k, v) m. map_put k v m) arts res))) listers []"

end
