(* ===== verification/VpcTypes.thy ===== *)
theory VpcTypes
  imports Reach
begin

text \<open>
  The specs of the objects \<^verbatim>\<open>pkg/hhfab/testing.go\<close> sets up for a test: VPCs with their subnets,
  attachments of connections to them, and the peerings between VPCs and with externals, as the fabric
  module declares them (vendored with the sources). Fields the program never sets are left out.
\<close>

section \<open>VPCs and attachments\<close>

record dhcp_options =
  do_DNSServers :: "string list"
  do_TimeServers :: "string list"
  do_InterfaceMTU :: "16 word"

record subnet_spec =
  sb_Subnet :: string
  sb_VLAN :: "16 word"
  sb_DHCPEnable :: bool
  sb_DHCPOptions :: "dhcp_options option"
  sb_HostBGP :: bool

record vpc_spec =
  vc_Mode :: string
  vc_Subnets :: "subnet_spec gomap"

record vpc_attach_spec =
  at_Connection :: string
  at_Subnet :: string

definition VPCModeL2VNI :: string where "VPCModeL2VNI = ''''"
definition VPCModeL3VNI :: string where "VPCModeL3VNI = ''l3vni''"
definition VPCModeL3Flat :: string where "VPCModeL3Flat = ''l3flat''"
definition VPCModes :: "string list" where "VPCModes = [VPCModeL2VNI, VPCModeL3VNI, VPCModeL3Flat]"

section \<open>Peerings\<close>

record ext_peering_spec =
  ep_VPC :: string
  ep_Subnets :: "string list"
  ep_External :: string
  ep_Prefixes :: "string list"

definition PeeringNATProtocolAny :: string where "PeeringNATProtocolAny = ''''"
definition PeeringNATProtocolTCP :: string where "PeeringNATProtocolTCP = ''tcp''"
definition PeeringNATProtocolUDP :: string where "PeeringNATProtocolUDP = ''udp''"

record pf_entry =
  fw_Protocol :: string
  fw_Port :: string
  fw_As :: string

record pf_nat =
  pn_IdleTimeout :: int
  pn_Ports :: "pf_entry list"

text \<open>
  Each of the three is a pointer, set or nil. A masquerade is its idle timeout; idle timeouts are in
  nanoseconds, as \<^verbatim>\<open>time.Duration\<close> has them.
\<close>

record peering_nat =
  nt_Masquerade :: "int option"
  nt_PortForward :: "pf_nat option"
  nt_Static :: bool

record nat_expose = expose +
  ne_NAT :: "peering_nat option"

text \<open>The ACL is left out: the program never sets it.\<close>

record gw_peering_spec =
  gs_GatewayGroup :: string
  gs_Peering :: "nat_expose list gomap"

section \<open>Defaults of peerings\<close>

text \<open>
  What \<^verbatim>\<open>Default\<close> of the two modules makes of the specs, when the API server admits an object; the labels
  and annotations it sets are not part of the specs. A gateway peering that does not have two VPCs is left alone.
\<close>

definition DefaultMasqueradeIdleTimeout :: int where "DefaultMasqueradeIdleTimeout = 2 * 60 * 10 ^ 9"
definition DefaultPortForwardIdleTimeout :: int where "DefaultPortForwardIdleTimeout = 2 * 60 * 10 ^ 9"

definition default_nat :: "peering_nat \<Rightarrow> peering_nat" where
  "default_nat n = n\<lparr>
     nt_Masquerade := map_option (\<lambda>t. if t = 0 then DefaultMasqueradeIdleTimeout else t) (nt_Masquerade n),
     nt_PortForward := map_option (\<lambda>p. if pn_IdleTimeout p = 0 then p\<lparr>pn_IdleTimeout := DefaultPortForwardIdleTimeout\<rparr> else p)
       (nt_PortForward n)\<rparr>"

definition default_gw_peering :: "gw_peering_spec \<Rightarrow> gw_peering_spec" where
  "default_gw_peering s =
     (if length (gs_Peering s) \<noteq> 2 then s
      else s\<lparr>gs_Peering := map (\<lambda>(v, xs). (v, map (\<lambda>x. x\<lparr>ne_NAT := map_option default_nat (ne_NAT x)\<rparr>) xs)) (gs_Peering s),
        gs_GatewayGroup := (if gs_GatewayGroup s = '''' then DefaultGatewayGroup else gs_GatewayGroup s)\<rparr>)"

definition default_ext_peering :: "ext_peering_spec \<Rightarrow> ext_peering_spec" where
  "default_ext_peering s = s\<lparr>ep_Subnets := sort (ep_Subnets s), ep_Prefixes := sort (ep_Prefixes s)\<rparr>"

section \<open>The VPCs of a peering\<close>

text \<open>\<^verbatim>\<open>VPCPeeringSpec.VPCs\<close>: the two VPCs every policy of a peering names.\<close>

fun peering_vpcs :: "nat \<Rightarrow> string list gomap list \<Rightarrow> string list \<Rightarrow> string list result" where
  "peering_vpcs idx [] vpcs = Inr vpcs"
| "peering_vpcs idx (permit # ps) vpcs =
     (if length permit \<noteq> 2
      then Inl (Errf ''each permit policy must have exactly 2 VPCs (idx %d)'' [itoa idx])
      else peering_vpcs (idx + 1) ps
        (foldl (\<lambda>vs v. if v \<in> set vs then vs else vs @ [v]) vpcs (map fst permit)))"

definition VPCs :: "string list gomap list \<Rightarrow> (string \<times> string) result" where
  "VPCs permit =
     ebind (peering_vpcs 0 permit []) (\<lambda>vpcs.
     if length vpcs \<noteq> 2 then Inl (Errf ''VPCPeering must have exactly 2 VPCs'' [])
     else (case sort vpcs of a # b # _ \<Rightarrow> Inr (a, b) | _ \<Rightarrow> Inl (Panic ''runtime error: index out of range'')))"

end
