(* ===== verification/KubeIO.thy ===== *)
theory KubeIO
  imports Registry VpcTypes
begin

text \<open>
  The objects the operator installs and how it applies them (\<^verbatim>\<open>pkg/fab/comp/kube.go\<close>,
  \<^verbatim>\<open>pkg/util/apiutil/kube.go\<close>, and \<^verbatim>\<open>CreateOrUpdate\<close> and \<^verbatim>\<open>OnError\<close> of the vendored client libraries).
  The API server is not part of the sources: it is a record of operations on a world of any type, and a
  call may move the world in any way, so other actors may act between two calls. The calls that were
  made and their outcomes are recorded in order.
\<close>

section \<open>Objects\<close>

record helm_spec =
  hc_Chart :: string
  hc_Version :: string
  hc_TargetNamespace :: string
  hc_CreateNamespace :: bool
  hc_FailurePolicy :: string
  hc_DockerRegistrySecret :: "string option"
  hc_RepoCAConfigMap :: "string option"
  hc_ValuesContent :: string

record issuer_ref =
  ir_Group :: string
  ir_Kind :: string
  ir_Name :: string

record certificate_spec =
  cs_DNSNames :: "string list"
  cs_IPAddresses :: "string list"
  cs_IssuerRef :: issuer_ref
  cs_SecretName :: string

record service_port =
  sp_Name :: string
  sp_Port :: nat
  sp_TargetPort :: string
  sp_Protocol :: string

datatype env_var =
    EnvValue string string
  | EnvField string string
  | EnvConfigMapKey string string string
  | EnvSecretKey string string string

record container =
  ct_Name :: string
  ct_Image :: string
  ct_ImagePullPolicy :: string
  ct_Privileged :: bool
  ct_Command :: "string list"
  ct_Env :: "env_var list"

record toleration =
  tl_Key :: string
  tl_Operator :: string
  tl_Effect :: string

record pod_spec =
  ps_Labels :: "string gomap"
  ps_NodeAffinity :: "(string \<times> string) list"
  ps_Tolerations :: "toleration list"
  ps_HostPID :: bool
  ps_HostNetwork :: bool
  ps_InitContainers :: "container list"
  ps_Containers :: "container list"

record dhcp_subnet_spec =
  dh_Subnet :: string
  dh_CIDRBlock :: string
  dh_Gateway :: string
  dh_StartIP :: string
  dh_EndIP :: string
  dh_LeaseTimeSeconds :: nat
  dh_ZTPBaseURL :: string
  dh_DNSServers :: "string list"
  dh_TimeServers :: "string list"
  dh_Static :: "string gomap"

text \<open>What an update of an object sets, by kind: the spec, with the annotations of an attachment, or the data and type of
  a secret.\<close>

datatype kspec =
    HelmChart helm_spec
  | Certificate certificate_spec
  | Issuer string
  | Secret string "string gomap" "string gomap"
  | ConfigMap "string gomap"
  | Service "string gomap" "service_port list"
  | DaemonSet "string gomap" pod_spec
  | DHCPSubnet dhcp_subnet_spec
  | FabricatorSpec fab_config versions
  | ControlNodeSpec control_node
  | FabNodeSpec fab_node
  | Deployment pod_spec
  | CRD "string list"
  | Namespace
  | VPCSpec vpc_spec
  | VPCAttachmentSpec "string gomap" vpc_attach_spec
  | VPCPeeringSpec "string list gomap list"
  | ExternalPeeringSpec ext_peering_spec
  | GatewayPeeringSpec gw_peering_spec

record workload_status =
  ws_ObservedGeneration :: int
  ws_DesiredNumberScheduled :: int
  ws_UpdatedNumberScheduled :: int
  ws_UpdatedReplicas :: int
  ws_Conditions :: "(string \<times> string) list"

definition no_workload :: workload_status where
  "no_workload = \<lparr>ws_ObservedGeneration = 0, ws_DesiredNumberScheduled = 0, ws_UpdatedNumberScheduled = 0,
     ws_UpdatedReplicas = 0, ws_Conditions = []\<rparr>"

record kobject =
  ko_Kind :: string
  ko_Name :: string
  ko_Namespace :: string
  ko_Labels :: "string gomap"
  ko_Generation :: int
  ko_ResourceVersion :: string
  ko_Spec :: kspec
  ko_Status :: workload_status

fun kind_of :: "kspec \<Rightarrow> string" where
  "kind_of (HelmChart _) = ''HelmChart''"
| "kind_of (Certificate _) = ''Certificate''"
| "kind_of (Issuer _) = ''Issuer''"
| "kind_of (Secret _ _ _) = ''Secret''"
| "kind_of (ConfigMap _) = ''ConfigMap''"
| "kind_of (Service _ _) = ''Service''"
| "kind_of (DaemonSet _ _) = ''DaemonSet''"
| "kind_of (DHCPSubnet _) = ''DHCPSubnet''"
| "kind_of (FabricatorSpec _ _) = ''Fabricator''"
| "kind_of (ControlNodeSpec _) = ''ControlNode''"
| "kind_of (FabNodeSpec _) = ''FabNode''"
| "kind_of (Deployment _) = ''Deployment''"
| "kind_of (CRD _) = ''CustomResourceDefinition''"
| "kind_of Namespace = ''Namespace''"
| "kind_of (VPCSpec _) = ''VPC''"
| "kind_of (VPCAttachmentSpec _ _) = ''VPCAttachment''"
| "kind_of (VPCPeeringSpec _) = ''VPCPeering''"
| "kind_of (ExternalPeeringSpec _) = ''ExternalPeering''"
| "kind_of (GatewayPeeringSpec _) = ''GatewayPeering''"

text \<open>The Go type of an object, its namespace and its name.\<close>

type_synonym okey = "string \<times> string \<times> string"

definition ko_key :: "kobject \<Rightarrow> okey" where
  "ko_key x = (kind_of (ko_Spec x), ko_Namespace x, ko_Name x)"

definition new_object :: "string \<Rightarrow> string \<Rightarrow> kspec \<Rightarrow> kobject" where
  "new_object ns name spec =
     \<lparr>ko_Kind = kind_of spec, ko_Name = name, ko_Namespace = ns, ko_Labels = [], ko_Generation = 0,
      ko_ResourceVersion = '''', ko_Spec = spec, ko_Status = no_workload\<rparr>"

subsection \<open>Constructors\<close>

definition NewHelmChart ::
    "fab_object \<Rightarrow> string \<Rightarrow> string \<Rightarrow> string \<Rightarrow> string \<Rightarrow> bool \<Rightarrow> string \<Rightarrow> kobject result" where
  "NewHelmChart cfg name chart version bootstrapChart abortOnFail vals =
     ebind (ewrap ''getting chart URL'' [] (ChartURL cfg chart bootstrapChart)) (\<lambda>chartURL.
     Inr (new_object FabNamespace name (HelmChart
       \<lparr>hc_Chart = chartURL, hc_Version = version, hc_TargetNamespace = FabNamespace, hc_CreateNamespace = True,
        hc_FailurePolicy = (if abortOnFail then ''abort'' else ''''),
        hc_DockerRegistrySecret =
          (if \<not> st_IsBootstrap (fo_Status cfg) then Some (RegistryUserReaderSecret @ RegistryUserSecretDockerSuffix) else None),
        hc_RepoCAConfigMap = (if \<not> st_IsBootstrap (fo_Status cfg) then Some FabCAConfigMap else None),
        hc_ValuesContent = vals\<rparr>)))"

definition NewIssuer :: "string \<Rightarrow> string \<Rightarrow> kobject" where
  "NewIssuer name secret = new_object FabNamespace name (Issuer secret)"

definition NewCertificate :: "string \<Rightarrow> certificate_spec \<Rightarrow> kobject" where
  "NewCertificate name spec = new_object FabNamespace name (Certificate spec)"

definition NewIssuerRef :: "string \<Rightarrow> issuer_ref" where
  "NewIssuerRef name = \<lparr>ir_Group = ''cert-manager.io'', ir_Kind = ''Issuer'', ir_Name = name\<rparr>"

definition NewNamespace :: "string \<Rightarrow> kobject" where
  "NewNamespace name = new_object '''' name Namespace"

definition NewSecret :: "string \<Rightarrow> string \<Rightarrow> string gomap \<Rightarrow> kobject" where
  "NewSecret name t dat = new_object FabNamespace name (Secret t [] dat)"

definition NewConfigMap :: "string \<Rightarrow> string gomap \<Rightarrow> kobject" where
  "NewConfigMap name dat = new_object FabNamespace name (ConfigMap dat)"

definition NewService :: "string \<Rightarrow> string gomap \<Rightarrow> service_port list \<Rightarrow> kobject" where
  "NewService name selector ports = new_object FabNamespace name (Service selector ports)"

definition NewDHCPSubnet :: "string \<Rightarrow> dhcp_subnet_spec \<Rightarrow> kobject" where
  "NewDHCPSubnet name spec = new_object NamespaceDefault name (DHCPSubnet spec)"

definition NewDaemonSet :: "string \<Rightarrow> string gomap \<Rightarrow> pod_spec \<Rightarrow> kobject" where
  "NewDaemonSet name selector template = new_object FabNamespace name (DaemonSet selector template)"

section \<open>Calls to the API server\<close>

datatype kevent =
    KGet okey "kobject result"
  | KCreate kobject "go_err option"
  | KUpdate kobject "go_err option"
  | KDelete okey "go_err option"
  | KStatus fab_object "fab_object result"

text \<open>
  The server: its operations on the world, how its errors are classified, and the equality of objects
  (\<^verbatim>\<open>equality.Semantic.DeepEqual\<close>, a library). \<open>kc_kinds\<close> are the kinds the scheme knows for a type.
\<close>

record 'w kclient =
  kc_get :: "okey \<Rightarrow> 'w \<Rightarrow> kobject result \<times> 'w"
  kc_create :: "kobject \<Rightarrow> 'w \<Rightarrow> go_err option \<times> 'w"
  kc_update :: "kobject \<Rightarrow> 'w \<Rightarrow> go_err option \<times> 'w"
  kc_delete :: "okey \<Rightarrow> 'w \<Rightarrow> go_err option \<times> 'w"
  kc_not_found :: "go_err \<Rightarrow> bool"
  kc_conflict :: "go_err \<Rightarrow> bool"
  kc_equal :: "kobject \<Rightarrow> kobject \<Rightarrow> bool"
  kc_kinds :: "kobject \<Rightarrow> string list result"

type_synonym ('w, 'a) kio = "'w \<times> kevent list \<Rightarrow> 'a result \<times> 'w \<times> kevent list"

definition kret :: "'a \<Rightarrow> ('w, 'a) kio" where "kret x = (\<lambda>s. (Inr x, s))"
definition kfail :: "go_err \<Rightarrow> ('w, 'a) kio" where "kfail e = (\<lambda>s. (Inl e, s))"
definition klift :: "'a result \<Rightarrow> ('w, 'a) kio" where "klift r = (\<lambda>s. (r, s))"

definition kbind :: "('w, 'a) kio \<Rightarrow> ('a \<Rightarrow> ('w, 'b) kio) \<Rightarrow> ('w, 'b) kio" where
  "kbind m f = (\<lambda>s. case m s of (Inl e, s') \<Rightarrow> (Inl e, s') | (Inr x, s') \<Rightarrow> f x s')"

definition kwrap :: "string \<Rightarrow> string list \<Rightarrow> ('w, 'a) kio \<Rightarrow> ('w, 'a) kio" where
  "kwrap msg args m = (\<lambda>s. case m s of (r, s') \<Rightarrow> (ewrap msg args r, s'))"

fun kseq :: "('a \<Rightarrow> ('w, unit) kio) \<Rightarrow> 'a list \<Rightarrow> ('w, unit) kio" where
  "kseq f [] = kret ()"
| "kseq f (x # xs) = kbind (f x) (\<lambda>_. kseq f xs)"

definition kget :: "'w kclient \<Rightarrow> okey \<Rightarrow> ('w, kobject) kio" where
  "kget c k = (\<lambda>(w, l). case kc_get c k w of (r, w') \<Rightarrow> (r, w', l @ [KGet k r]))"

definition kwrite ::
    "('w \<Rightarrow> go_err option \<times> 'w) \<Rightarrow> (go_err option \<Rightarrow> kevent) \<Rightarrow> ('w, unit) kio" where
  "kwrite f ev = (\<lambda>(w, l). case f w of
     (None, w') \<Rightarrow> (Inr (), w', l @ [ev None])
   | (Some e, w') \<Rightarrow> (Inl e, w', l @ [ev (Some e)]))"

definition kcreate :: "'w kclient \<Rightarrow> kobject \<Rightarrow> ('w, unit) kio" where
  "kcreate c x = kwrite (kc_create c x) (KCreate x)"

definition kupdate :: "'w kclient \<Rightarrow> kobject \<Rightarrow> ('w, unit) kio" where
  "kupdate c x = kwrite (kc_update c x) (KUpdate x)"

definition kdelete :: "'w kclient \<Rightarrow> okey \<Rightarrow> ('w, unit) kio" where
  "kdelete c k = kwrite (kc_delete c k) (KDelete k)"

section \<open>Creating or updating an object\<close>

datatype operation_result = ResultNone | ResultCreated | ResultUpdated

text \<open>\<open>want\<close> is the object the caller built; \<^verbatim>\<open>tmp\<close> of the source is read over it.\<close>

definition ctrlutil_CreateOrUpdate :: "'w kclient \<Rightarrow> kobject \<Rightarrow> ('w, operation_result) kio" where
  "ctrlutil_CreateOrUpdate c want = (\<lambda>s. case kget c (ko_key want) s of
     (Inl e, s') \<Rightarrow>
       if \<not> kc_not_found c e then (Inl e, s')
       else kbind (kcreate c want) (\<lambda>_. kret ResultCreated) s'
   | (Inr existing, s') \<Rightarrow>
       let new = existing\<lparr>ko_Spec := ko_Spec want\<rparr> in
       if kc_equal c existing new then (Inr ResultNone, s')
       else kbind (kupdate c new) (\<lambda>_. kret ResultUpdated) s')"

definition ErrUnsupportedKind :: go_err where "ErrUnsupportedKind = Errf ''unsupported kind'' []"

fun supported :: "kspec \<Rightarrow> bool" where
  "supported (HelmChart _) = True"
| "supported (Certificate _) = True"
| "supported (Issuer _) = True"
| "supported (Secret _ _ _) = True"
| "supported (ConfigMap _) = True"
| "supported (Service _ _) = True"
| "supported (DaemonSet _ _) = True"
| "supported (DHCPSubnet _) = True"
| "supported (FabricatorSpec _ _) = True"
| "supported (ControlNodeSpec _) = True"
| "supported (FabNodeSpec _) = True"
| "supported _ = False"

definition fresh_meta :: "kobject \<Rightarrow> kobject" where
  "fresh_meta x = x\<lparr>ko_Kind := '''', ko_Generation := 0, ko_ResourceVersion := '''', ko_Status := no_workload\<rparr>"

definition CreateOrUpdate :: "'w kclient \<Rightarrow> kobject \<Rightarrow> ('w, operation_result) kio" where
  "CreateOrUpdate c x =
     (if supported (ko_Spec x)
      then kwrap ''creating or updating object'' [] (ctrlutil_CreateOrUpdate c (fresh_meta x))
      else kfail (Wrapf ''%T'' [kind_of (ko_Spec x)] ErrUnsupportedKind))"

definition DeleteIfPresent :: "'w kclient \<Rightarrow> okey \<Rightarrow> ('w, unit) kio" where
  "DeleteIfPresent c k = (\<lambda>s. case kdelete c k s of
     (Inl e, s') \<Rightarrow> if kc_not_found c e then (Inr (), s') else (Inl (Wrapf ''deleting object'' [] e), s')
   | (Inr _, s') \<Rightarrow> (Inr (), s'))"

definition DeleteHelmChartIfPresent :: "'w kclient \<Rightarrow> string \<Rightarrow> ('w, unit) kio" where
  "DeleteHelmChartIfPresent c name = DeleteIfPresent c (''HelmChart'', FabNamespace, name)"

section \<open>Enforcing an install\<close>

definition EnsureKind :: "'w kclient \<Rightarrow> kobject \<Rightarrow> kobject result" where
  "EnsureKind c x =
     (if ko_Kind x = '''' then
        ebind (ewrap ''getting object kinds for %T'' [kind_of (ko_Spec x)] (kc_kinds c x)) (\<lambda>kinds.
        case kinds of
          [] \<Rightarrow> Inl (Errf ''no object kinds found for %T'' [kind_of (ko_Spec x)])
        | [k] \<Rightarrow> Inr (x\<lparr>ko_Kind := k\<rparr>)
        | _ \<Rightarrow> Inl (Errf ''multiple object kinds found for %T'' [kind_of (ko_Spec x)]))
      else Inr x)"

text \<open>
  \<^verbatim>\<open>retry.OnError\<close>: at most \<open>n\<close> runs, until one succeeds or fails with an error that is not to be
  retried; the last error otherwise. The delays between the runs are left out. Without steps it returns
  no error, as the source does.
\<close>

fun OnError :: "nat \<Rightarrow> (go_err \<Rightarrow> bool) \<Rightarrow> ('w, 'a) kio \<Rightarrow> 'a \<Rightarrow> ('w, 'a) kio" where
  "OnError 0 again f dflt = kret dflt"
| "OnError (Suc n) again f dflt = (\<lambda>s. case f s of
     (Inr x, s') \<Rightarrow> (Inr x, s')
   | (Inl e, s') \<Rightarrow> if again e \<and> n > 0 then OnError n again f dflt s' else (Inl e, s'))"

definition backoff_steps :: "fab_object \<Rightarrow> nat" where
  "backoff_steps cfg = (if \<not> st_IsInstall (fo_Status cfg) then 1 else 17)"

definition enforce_object :: "'w kclient \<Rightarrow> fab_object \<Rightarrow> kobject \<Rightarrow> ('w, unit) kio" where
  "enforce_object c cfg x =
     kbind (klift (ewrap ''ensuring kind'' [] (EnsureKind c x))) (\<lambda>x.
     kwrap ''retrying create or update %s/%s'' [ko_Kind x, ko_Name x]
       (kwrap ''creating or updating %s %s'' [ko_Kind x, ko_Name x]
         (kbind (OnError (backoff_steps cfg) (\<lambda>e. \<not> kc_conflict c e) (CreateOrUpdate c x) ResultNone) (\<lambda>_. kret ()))))"

type_synonym kube_install = "fab_object \<Rightarrow> kobject list result"

definition EnforceKubeInstall :: "'w kclient \<Rightarrow> fab_object \<Rightarrow> kube_install list \<Rightarrow> ('w, unit) kio" where
  "EnforceKubeInstall c cfg depls =
     kseq (\<lambda>depl. kbind (klift (depl cfg)) (kseq (enforce_object c cfg))) depls"

end
