(* ===== verification/AlloyConfig.thy ===== *)
theory AlloyConfig
  imports Defaults
begin

text \<open>
  The configuration of Alloy and its validation, which every rendering starts with (\<^verbatim>\<open>config.go\<close>,
  \<^verbatim>\<open>targets.go\<close> and \<^verbatim>\<open>common.go\<close> of \<^verbatim>\<open>libmeta/pkg/alloy\<close>, vendored with the sources). Of the configuration, the
  fields the installs set: no log files and no scrape of Alloy itself. A map is checked in the order of the model's
  list, so which of several errors is reported may differ.
\<close>

section \<open>The configuration\<close>

record scrape =
  sc_Address :: string
  sc_UnixEnable :: bool
  sc_UnixCollectors :: "string list"
  sc_IntervalSeconds :: "64 word"
  sc_Relabel :: "relabel_rule list"

record alloy_render_config =
  ar_ProxyURL :: string
  ar_AutoHostname :: bool
  ar_Targets :: alloy_targets
  ar_Scrapes :: "scrape gomap"
  ar_KubePodLogs :: bool
  ar_KubeEvents :: bool
  ar_Pyroscope :: bool

section \<open>Validation\<close>

definition lower_letter :: "char \<Rightarrow> bool" where "lower_letter c \<longleftrightarrow> CHR ''a'' \<le> c \<and> c \<le> CHR ''z''"
definition digit_char :: "char \<Rightarrow> bool" where "digit_char c \<longleftrightarrow> CHR ''0'' \<le> c \<and> c \<le> CHR ''9''"

text \<open>\<^verbatim>\<open>alloyIdentRegex\<close>: a lower case letter, then letters, digits and underscores that do not end in an underscore.\<close>

definition alloy_ident :: "string \<Rightarrow> bool" where
  "alloy_ident s = (case s of
     [] \<Rightarrow> False
   | c # cs \<Rightarrow> lower_letter c \<and> list_all (\<lambda>d. lower_letter d \<or> digit_char d \<or> d = CHR ''_'') cs \<and>
       (cs = [] \<or> last cs \<noteq> CHR ''_''))"

definition alloyIdentLen :: nat where "alloyIdentLen = 32"

definition validateIdentifier :: "string \<Rightarrow> unit result" where
  "validateIdentifier ident =
     (if \<not> alloy_ident ident then Inl (Errf ''invalid identifier: %s'' [ident])
      else if length ident > alloyIdentLen then Inl (Errf ''identifier too long: %s'' [ident]) else Inr ())"

definition validate_target :: "alloy_target \<Rightarrow> unit result" where
  "validate_target t =
     (if tg_URL t = '''' then Inl (Errf ''URL is required'' [])
      else if tg_BasicAuth t \<noteq> None \<and> tg_BearerToken t \<noteq> '''' then Inl (Errf ''only one of basicAuth or bearerToken can be set'' [])
      else efold (\<lambda>(label, _) _. case validateIdentifier label of
          Inl _ \<Rightarrow> Inl (Errf ''invalid label name: %s'' [label]) | Inr _ \<Rightarrow> Inr ()) (tg_Labels t) ())"

definition validate_named_targets :: "string \<Rightarrow> alloy_target gomap \<Rightarrow> unit result" where
  "validate_named_targets kind ts = efold (\<lambda>(name, t) _.
     ebind (ewrap (''invalid '' @ kind @ '' target name %q: %w'') [name] (validateIdentifier name)) (\<lambda>_.
     ewrap (''invalid '' @ kind @ '' target %q: %w'') [name] (validate_target t))) ts ()"

definition validate_targets :: "alloy_targets \<Rightarrow> unit result" where
  "validate_targets ts =
     ebind (validate_named_targets ''prometheus'' (Prometheus ts)) (\<lambda>_.
     ebind (validate_named_targets ''loki'' (Loki ts)) (\<lambda>_.
     validate_named_targets ''pyroscope'' (Pyroscope ts)))"

definition validate_scrape :: "scrape \<Rightarrow> unit result" where
  "validate_scrape s =
     (let opts = (if sc_Address s \<noteq> '''' then 1 else 0) + (if sc_UnixEnable s then 1 else 0 :: nat) in
      if opts = 0 then Inl (Errf ''no scrape options enabled'' [])
      else if opts > 1 then Inl (Errf ''multiple scrape options enabled'' []) else Inr ())"

definition validate_alloy :: "alloy_render_config \<Rightarrow> unit result" where
  "validate_alloy c =
     ebind (ewrap ''invalid targets: %w'' [] (validate_targets (ar_Targets c))) (\<lambda>_.
     efold (\<lambda>(name, s) _.
       ebind (ewrap ''invalid scrape name %q: %w'' [name] (validateIdentifier name)) (\<lambda>_.
       ewrap ''invalid scrape %q: %w'' [name] (validate_scrape s))) (ar_Scrapes c) ())"

text \<open>
  \<^verbatim>\<open>Render\<close>, with the rendering of its template without blank lines as a parameter. The address and port of
  Pyroscope, which it fills in where Pyroscope is enabled and neither is set, belong to the data of that template.
\<close>

definition render_alloy :: "(alloy_render_config \<Rightarrow> string result) \<Rightarrow> alloy_render_config \<Rightarrow> string result" where
  "render_alloy tmpl c =
     ebind (ewrap ''invalid config: %w'' [] (validate_alloy c)) (\<lambda>_. ewrap ''failed to render config: %w'' [] (tmpl c))"

section \<open>What is accepted\<close>

text \<open>A target with a URL, one way to authenticate, and identifiers as its labels.\<close>

definition good_ident :: "string \<Rightarrow> bool" where "good_ident s \<longleftrightarrow> alloy_ident s \<and> length s \<le> 32"

definition good_target :: "string \<times> alloy_target \<Rightarrow> bool" where
  "good_target nt \<longleftrightarrow> good_ident (fst nt) \<and> tg_URL (snd nt) \<noteq> '''' \<and> (tg_BasicAuth (snd nt) = None \<or> tg_BearerToken (snd nt) = '''') \<and>
     list_all (good_ident \<circ> fst) (tg_Labels (snd nt))"

definition all_targets :: "alloy_targets \<Rightarrow> (string \<times> alloy_target) list" where
  "all_targets ts = Prometheus ts @ Loki ts @ Pyroscope ts"

lemma efold_unit_iff: "efold (\<lambda>x _. f x) xs () = Inr () \<longleftrightarrow> (\<forall>x \<in> set xs. f x = Inr ())"
  by (induction xs) (auto simp: ok_iff)

lemma validateIdentifier_iff: "validateIdentifier s = Inr () \<longleftrightarrow> good_ident s"
  by (auto simp: validateIdentifier_def good_ident_def alloyIdentLen_def split: if_splits)

lemma validate_target_iff:
  "validate_target t = Inr () \<longleftrightarrow> tg_URL t \<noteq> '''' \<and> (tg_BasicAuth t = None \<or> tg_BearerToken t = '''') \<and> list_all (good_ident \<circ> fst) (tg_Labels t)"
proof -
  have "efold (\<lambda>(label, _) _. case validateIdentifier label of
      Inl _ \<Rightarrow> Inl (Errf ''invalid label name: %s'' [label]) | Inr _ \<Rightarrow> Inr ()) xs () = Inr () \<longleftrightarrow> list_all (good_ident \<circ> fst) xs"
    for xs :: "string gomap"
  proof (induction xs)
    case (Cons x xs)
    then show ?case using validateIdentifier_iff [of "fst x"] by (cases x; cases "validateIdentifier (fst x)") simp_all
  qed simp
  then show ?thesis by (auto simp: validate_target_def)
qed

lemma validate_named_targets_iff: "validate_named_targets kind ts = Inr () \<longleftrightarrow> list_all good_target ts"
  unfolding validate_named_targets_def case_prod_beta efold_unit_iff
  by (auto simp: ok_iff validateIdentifier_iff validate_target_iff good_target_def list_all_iff)

lemma validate_targets_iff: "validate_targets ts = Inr () \<longleftrightarrow> list_all good_target (all_targets ts)"
  by (simp add: validate_targets_def ok_iff validate_named_targets_iff all_targets_def)

end
