(* ===== verification/CompPlatform.thy ===== *)
theory CompPlatform
  imports KubeIO AlloyConfig
begin

text \<open>
  What each component of a Fabricator installs and which artifacts it needs (\<^verbatim>\<open>pkg/fab/comp/*\<close>). The
  libraries the installs render and marshal with (templates, YAML, JSON, URLs) are the functions of a
  record, and a template is named by its file; the template of the Alloy configuration is one of its own,
  as its data is the configuration itself.
\<close>

section \<open>Libraries\<close>

datatype tval = TStr string | TNat nat | TBool bool | TStrs "string list"

record user_creds =
  uc_Name :: string
  uc_Password :: string
  uc_Role :: string
  uc_SSHKeys :: "string list"

record fabric_ctrl_config =
  fc_ControlVIP :: string
  fc_APIServer :: string
  fc_AgentRepo :: string
  fc_VPCIRBVLANRanges :: "vlan_range list"
  fc_VPCPeeringVLANRanges :: "vlan_range list"
  fc_TH5WorkaroundVLANRange :: "vlan_range list"
  fc_VPCPeeringDisabled :: bool
  fc_ReservedSubnets :: "string list"
  fc_Users :: "user_creds list"
  fc_FabricMode :: string
  fc_BaseVPCCommunity :: string
  fc_VPCLoopbackSubnet :: string
  fc_FabricMTU :: "16 word"
  fc_ServerFacingMTUOffset :: "16 word"
  fc_ESLAGMACBase :: string
  fc_ESLAGESIPrefix :: string
  fc_AlloyRepo :: string
  fc_AlloyVersion :: string
  fc_AlloyTargets :: alloy_targets
  fc_Observability :: observability
  fc_ControlProxyURL :: string
  fc_DefaultMaxPathsEBGP :: "32 word"
  fc_AllowExtraSwitchProfiles :: bool
  fc_MCLAGSessionSubnet :: string
  fc_GatewayASN :: "32 word"
  fc_GatewayAPISync :: bool
  fc_LoopbackWorkaround :: bool
  fc_ProtocolSubnet :: string
  fc_VTEPSubnet :: string
  fc_FabricSubnet :: string
  fc_L2ProxyExternalSubnet :: string
  fc_DisableBFD :: bool
  fc_IncludeSONiCCLSPlus :: bool
  fc_IncludeCumulus :: bool
  fc_SpineASN :: "32 word"
  fc_LeafASNStart :: "32 word"
  fc_LeafASNEnd :: "32 word"
  fc_ManagementSubnet :: string
  fc_ManagementDHCPStart :: string
  fc_ManagementDHCPEnd :: string
  fc_GatewayCommunities :: "(nat \<times> string) list"
  fc_GatewayBFD :: bool
  fc_EnableGateway :: bool
  fc_GatewayNamespace :: string
  fc_GatewayTolerations :: "toleration list"
  fc_DataplaneRef :: string
  fc_DataplaneValidatorRef :: string
  fc_FRRRef :: string
  fc_ToolboxRef :: string
  fc_DataplaneMetricsPort :: nat
  fc_FRRMetricsPort :: nat

record boot_config =
  bc_ControlVIP :: string
  bc_NOSRepos :: "string gomap"
  bc_NOSVersions :: "string gomap"
  bc_ONIERepos :: "string gomap"
  bc_ONIEPlatformVersions :: "string gomap"
  bc_AgentRef :: string
  bc_AgentVersion :: string

record libs =
  lb_template :: "string \<Rightarrow> string \<Rightarrow> (string \<times> tval) list \<Rightarrow> string result"
  lb_alloy :: "alloy_render_config \<Rightarrow> string result"
  lb_fabric_yaml :: "fabric_ctrl_config \<Rightarrow> string result"
  lb_boot_yaml :: "boot_config \<Rightarrow> string result"
  lb_tolerations_yaml :: "toleration list \<Rightarrow> string result"
  lb_creds_json :: "(string \<times> string \<times> string) list \<Rightarrow> string result"
  lb_hostname :: "string \<Rightarrow> string result"

text \<open>The image of a component, or the error naming it.\<close>

definition image_for :: "fab_object \<Rightarrow> string \<Rightarrow> string result" where
  "image_for cfg r = ewrap ''getting image URL for %q'' [r] (ImageURL cfg r)"

definition platform :: "fab_object \<Rightarrow> platform_versions" where
  "platform cfg = vs_Platform (st_Versions (fo_Status cfg))"

definition fabricator_vers :: "fab_object \<Rightarrow> fabricator_versions" where
  "fabricator_vers cfg = vs_Fabricator (st_Versions (fo_Status cfg))"

definition fabric_vers :: "fab_object \<Rightarrow> fabric_versions" where
  "fabric_vers cfg = vs_Fabric (st_Versions (fo_Status cfg))"

definition gateway_vers :: "fab_object \<Rightarrow> gateway_versions" where
  "gateway_vers cfg = vs_Gateway (st_Versions (fo_Status cfg))"

definition fabcfg :: "fab_object \<Rightarrow> fab_config" where
  "fabcfg cfg = Config (fo_Fab cfg)"

section \<open>Reloader, cert-manager and NTP\<close>

definition ReloaderChartRef :: string where "ReloaderChartRef = ''fabricator/charts/reloader''"
definition ReloaderImageRef :: string where "ReloaderImageRef = ''fabricator/reloader''"

definition ReloaderInstall :: "libs \<Rightarrow> kube_install" where
  "ReloaderInstall lb cfg =
     ebind (image_for cfg ReloaderImageRef) (\<lambda>repo.
     ebind (ewrap ''values'' [] (lb_template lb ''values'' ''reloader/values.tmpl.yaml''
       [(''Repo'', TStr repo), (''Tag'', TStr (pv_Reloader (platform cfg)))])) (\<lambda>vals.
     ebind (ewrap ''helm chart'' [] (NewHelmChart cfg ''reloader'' ReloaderChartRef
       (pv_ReloaderChart (platform cfg)) '''' False vals)) (\<lambda>chart.
     Inr [chart])))"

definition ReloaderArtifacts :: "fab_object \<Rightarrow> string gomap result" where
  "ReloaderArtifacts cfg = Inr
     [(ReloaderChartRef, pv_ReloaderChart (platform cfg)), (ReloaderImageRef, pv_Reloader (platform cfg))]"

definition CertManagerChartRef :: string where "CertManagerChartRef = ''fabricator/charts/cert-manager''"
definition ControllerImageRef :: string where "ControllerImageRef = ''fabricator/cert-manager-controller''"
definition WebhookImageRef :: string where "WebhookImageRef = ''fabricator/cert-manager-webhook''"
definition CAInjectorImageRef :: string where "CAInjectorImageRef = ''fabricator/cert-manager-cainjector''"
definition ACMESolverImageRef :: string where "ACMESolverImageRef = ''fabricator/cert-manager-acmesolver''"
definition StartupAPICheckImageRef :: string where "StartupAPICheckImageRef = ''fabricator/cert-manager-startupapicheck''"
definition CertManagerAirgapChartName :: string where "CertManagerAirgapChartName = ''cert-manager-chart.tgz''"

definition CertManagerInstall :: "libs \<Rightarrow> kube_install" where
  "CertManagerInstall lb cfg =
     (let version = pv_CertManager (platform cfg) in
     ebind (image_for cfg ControllerImageRef) (\<lambda>controllerRepo.
     ebind (image_for cfg WebhookImageRef) (\<lambda>webhookRepo.
     ebind (image_for cfg CAInjectorImageRef) (\<lambda>caInjectorRepo.
     ebind (image_for cfg ACMESolverImageRef) (\<lambda>acmeSolverRepo.
     ebind (image_for cfg StartupAPICheckImageRef) (\<lambda>startupAPICheckRepo.
     ebind (ewrap ''values'' [] (lb_template lb ''values'' ''certmanager/values.tmpl.yaml''
       [(''ControllerRepo'', TStr controllerRepo), (''ControllerTag'', TStr version),
        (''WebhookRepo'', TStr webhookRepo), (''WebhookTag'', TStr version),
        (''CAInjectorRepo'', TStr caInjectorRepo), (''CAInjectorTag'', TStr version),
        (''ACMESolverRepo'', TStr acmeSolverRepo), (''ACMESolverTag'', TStr version),
        (''StartupAPICheckRepo'', TStr startupAPICheckRepo), (''StartupAPICheckTag'', TStr version)])) (\<lambda>vals.
     ebind (ewrap ''creating Helm chart'' [] (NewHelmChart cfg ''cert-manager'' CertManagerChartRef version
       CertManagerAirgapChartName False vals)) (\<lambda>chart.
     Inr [chart]))))))))"

definition CertManagerArtifacts :: "fab_object \<Rightarrow> string gomap result" where
  "CertManagerArtifacts cfg = Inr (map (\<lambda>r. (r, pv_CertManager (platform cfg)))
     [CertManagerChartRef, ControllerImageRef, WebhookImageRef, CAInjectorImageRef, ACMESolverImageRef, StartupAPICheckImageRef])"

record ca =
  ca_Crt :: string
  ca_Key :: string

definition InstallFabCA :: "ca \<Rightarrow> kube_install" where
  "InstallFabCA ca cfg = Inr
     [NewSecret FabCASecret ''Opaque'' [(''tls.crt'', ca_Crt ca), (''tls.key'', ca_Key ca)],
      NewConfigMap FabCAConfigMap [(FabCAConfigMapKey, ca_Crt ca)],
      NewIssuer FabCAIssuer FabCASecret]"

definition NTPChartRef :: string where "NTPChartRef = ''fabricator/charts/ntp''"
definition NTPImageRef :: string where "NTPImageRef = ''fabricator/ntp''"
definition NTPNodePort :: nat where "NTPNodePort = 30123"

definition NTPInstall :: "libs \<Rightarrow> kube_install" where
  "NTPInstall lb cfg =
     ebind (image_for cfg NTPImageRef) (\<lambda>repo.
     ebind (ewrap ''values'' [] (lb_template lb ''values'' ''ntp/values.tmpl.yaml''
       [(''Repo'', TStr repo), (''Tag'', TStr (pv_NTP (platform cfg))), (''NodePort'', TNat NTPNodePort),
        (''NTPServers'', TStr (join_with '','' (NTPServers (Control (fabcfg cfg)))))])) (\<lambda>vals.
     ebind (ewrap ''chart'' [] (NewHelmChart cfg ''ntp'' NTPChartRef (pv_NTPChart (platform cfg)) '''' False vals)) (\<lambda>chart.
     Inr [chart])))"

definition NTPArtifacts :: "fab_object \<Rightarrow> string gomap result" where
  "NTPArtifacts cfg = Inr [(NTPChartRef, pv_NTPChart (platform cfg)), (NTPImageRef, pv_NTP (platform cfg))]"

section \<open>Zot, the registry\<close>

definition ZotChartRef :: string where "ZotChartRef = ''fabricator/charts/zot''"
definition ZotImageRef :: string where "ZotImageRef = ''fabricator/zot''"
definition ZotAirgapChartName :: string where "ZotAirgapChartName = ''zot-chart.tgz''"
definition ZotPort :: nat where "ZotPort = 31000"
definition ZotServiceName :: string where "ZotServiceName = ''registry''"
definition TLSSecret :: string where "TLSSecret = ''registry-tls''"
definition HtpasswdSecret :: string where "HtpasswdSecret = ''registry-htpasswd''"
definition UpstreamSecret :: string where "UpstreamSecret = ''registry-upstream''"
definition UpstreamCredentialsKey :: string where "UpstreamCredentialsKey = ''credentials.json''"

text \<open>The upstream registry in use, and the options of the configuration it gives.\<close>

definition zot_upstream :: "fab_object \<Rightarrow> registry_upstream option" where
  "zot_upstream cfg = (let r = Registry (fabcfg cfg) in if \<not> IsAirgap r then Upstream r else None)"

definition zot_config_opts :: "fab_object \<Rightarrow> (string \<times> tval) list" where
  "zot_config_opts cfg = (case zot_upstream cfg of
     None \<Rightarrow> [(''Upstream'', TBool False)]
   | Some up \<Rightarrow>
       let prefix = trim_slashes (up_Prefix up);
           prefix = (if prefix \<noteq> '''' then ''/'' @ prefix else prefix)
       in [(''Upstream'', TBool True), (''UpstreamURL'', TStr (up_Repo up)), (''UpstreamPrefix'', TStr (prefix @ ''/**'')),
           (''UpstreamTLSVerify'', TStr (if \<not> up_NoTLSVerify up then ''true'' else ''false''))])"

definition zot_creds :: "fab_object \<Rightarrow> (string \<times> string \<times> string) list" where
  "zot_creds cfg = (case zot_upstream cfg of
     None \<Rightarrow> []
   | Some up \<Rightarrow> if up_Username up \<noteq> '''' \<and> up_Password up \<noteq> '''' then [(up_Repo up, up_Username up, up_Password up)] else [])"

definition ZotInstall :: "libs \<Rightarrow> kube_install" where
  "ZotInstall lb cfg =
     (let version = pv_Zot (platform cfg); releaseName = ''zot'' in
     ebind (ewrap ''config'' [] (lb_template lb ''config'' ''zot/config.tmpl.json'' (zot_config_opts cfg))) (\<lambda>config.
     ebind (image_for cfg ZotImageRef) (\<lambda>repo.
     ebind (ewrap ''values'' [] (lb_template lb ''values'' ''zot/values.tmpl.yaml''
       [(''Repo'', TStr repo), (''Tag'', TStr version), (''Port'', TNat ZotPort), (''Config'', TStr config),
        (''HtpasswdSecret'', TStr HtpasswdSecret), (''UpstreamSecret'', TStr UpstreamSecret),
        (''Upstream'', TBool (zot_upstream cfg \<noteq> None)), (''TLSSecret'', TStr TLSSecret)])) (\<lambda>vals.
     ebind (control_vip cfg) (\<lambda>vip.
     ebind (ewrap ''creating Helm chart'' [] (NewHelmChart cfg releaseName ZotChartRef (pv_ZotChart (platform cfg))
       ZotAirgapChartName False vals)) (\<lambda>chart.
     ebind (ewrap ''marshaling upstream credentials'' [] (lb_creds_json lb (zot_creds cfg))) (\<lambda>creds.
     Inr [NewCertificate ''registry''
            \<lparr>cs_DNSNames = [ZotServiceName @ ''.'' @ FabNamespace @ ''.svc.'' @ ClusterDomain],
             cs_IPAddresses = [addr_string (pf_addr vip)], cs_IssuerRef = NewIssuerRef FabCAIssuer, cs_SecretName = TLSSecret\<rparr>,
          NewSecret UpstreamSecret ''Opaque'' [(UpstreamCredentialsKey, creds)],
          chart,
          NewService ZotServiceName
            [(''app.kubernetes.io/instance'', releaseName), (''app.kubernetes.io/name'', releaseName)]
            [\<lparr>sp_Name = ''zot'', sp_Port = 5000, sp_TargetPort = ''zot'', sp_Protocol = ''TCP''\<rparr>]])))))))"

definition ZotArtifacts :: "fab_object \<Rightarrow> string gomap result" where
  "ZotArtifacts cfg = Inr [(ZotChartRef, pv_ZotChart (platform cfg)), (ZotImageRef, pv_Zot (platform cfg))]"

section \<open>The control proxy\<close>

definition ControlProxyChartRef :: string where "ControlProxyChartRef = ''fabricator/charts/control-proxy''"
definition ControlProxyImageRef :: string where "ControlProxyImageRef = ''fabricator/control-proxy''"
definition ControlProxyNodePort :: nat where "ControlProxyNodePort = 31028"

text \<open>The host names of the targets of one kind, with the first URL that does not parse as the error.\<close>

definition target_hosts :: "libs \<Rightarrow> string \<Rightarrow> alloy_target gomap \<Rightarrow> string list \<Rightarrow> string list result" where
  "target_hosts lb what targets urls =
     efold (\<lambda>(_, t) urls. ebind (ewrap (''url parsing '' @ what @ '' target failed'') [] (lb_hostname lb (tg_URL t))) (\<lambda>h.
       Inr (if h \<noteq> '''' then urls @ [h] else urls))) targets urls"

fun uniq :: "'a list \<Rightarrow> 'a list" where
  "uniq [] = []"
| "uniq (x # xs) = x # filter (\<lambda>y. y \<noteq> x) (uniq xs)"

definition ControlProxyInstall :: "libs \<Rightarrow> kube_install" where
  "ControlProxyInstall lb cfg =
     (let targets = Targets (Observability (fabcfg cfg)) in
     ebind (image_for cfg ControlProxyImageRef) (\<lambda>repo.
     ebind (target_hosts lb ''prometheus'' (Prometheus targets) []) (\<lambda>urls.
     ebind (target_hosts lb ''loki'' (Loki targets) urls) (\<lambda>urls.
     ebind (target_hosts lb ''pyroscope'' (Pyroscope targets) urls) (\<lambda>urls.
     ebind (ewrap ''values'' [] (lb_template lb ''values'' ''controlproxy/values.tmpl.yaml''
       [(''Repo'', TStr repo), (''Tag'', TStr (pv_ControlProxy (platform cfg))), (''NodePort'', TNat ControlProxyNodePort),
        (''TinyproxyURLs'', TStrs (uniq urls))])) (\<lambda>vals.
     ebind (ewrap ''chart'' [] (NewHelmChart cfg ''control-proxy'' ControlProxyChartRef (pv_ControlProxyChart (platform cfg))
       '''' False vals)) (\<lambda>chart.
     Inr [chart])))))))"

definition ControlProxyArtifacts :: "fab_object \<Rightarrow> string gomap result" where
  "ControlProxyArtifacts cfg = Inr
     [(ControlProxyChartRef, pv_ControlProxyChart (platform cfg)), (ControlProxyImageRef, pv_ControlProxy (platform cfg))]"

end
