(* ===== verification/CompFabricator.thy ===== *)
theory CompFabricator
  imports CompPlatform
begin

text \<open>
  The components of Fabricator itself, of the fabric and of the gateways, k3s and Alloy (\<^verbatim>\<open>pkg/fab/comp/f8r\<close>,
  \<^verbatim>\<open>fabric\<close>, \<^verbatim>\<open>gateway\<close>, \<^verbatim>\<open>k3s\<close>, \<^verbatim>\<open>alloy\<close>, \<^verbatim>\<open>flatcar\<close>). A map of the configuration is iterated in the
  order of its association list.
\<close>

section \<open>Fabricator\<close>

definition CtrlRef :: string where "CtrlRef = ''fabricator/fabricator''"
definition CtrlChartRef :: string where "CtrlChartRef = ''fabricator/charts/fabricator''"
definition APIChartRef :: string where "APIChartRef = ''fabricator/charts/fabricator-api''"
definition CtlRef :: string where "CtlRef = ''fabricator/hhfabctl''"
definition NodeConfigRef :: string where "NodeConfigRef = ''fabricator/hhfab-node-config''"
definition NodeConfigDaemonSet :: string where "NodeConfigDaemonSet = ''fab-node-config''"
definition NodeConfigDaemonSetConfigContainer :: string where "NodeConfigDaemonSetConfigContainer = ''config''"
definition PauseImageURL :: string where "PauseImageURL = ''docker.io/rancher/mirrored-pause''"

definition F8rInstall :: "libs \<Rightarrow> kube_install" where
  "F8rInstall lb cfg =
     ebind (image_for cfg CtrlRef) (\<lambda>repo.
     ebind (ewrap ''values'' [] (lb_template lb ''values'' ''f8r/values.tmpl.yaml''
       [(''Repo'', TStr repo), (''Tag'', TStr (rv_Controller (fabricator_vers cfg)))])) (\<lambda>vals.
     ebind (ewrap ''ctrl chart'' [] (NewHelmChart cfg ''fabricator'' CtrlChartRef (rv_Controller (fabricator_vers cfg))
       '''' False vals)) (\<lambda>ctrlChart.
     ebind (ewrap ''api chart'' [] (NewHelmChart cfg ''fabricator-api'' APIChartRef (rv_API (fabricator_vers cfg))
       '''' False '''')) (\<lambda>apiChart.
     Inr [apiChart, ctrlChart]))))"

text \<open>The resources themselves, with their defaults: an install like any other.\<close>

definition InstallFabAndControl :: "control_node \<Rightarrow> kube_install" where
  "InstallFabAndControl control cfg = Inr
     [(new_object (fb_Namespace (fo_Fab cfg)) (fb_Name (fo_Fab cfg)) (FabricatorSpec (fabcfg cfg) (fo_Overrides cfg)))
        \<lparr>ko_Kind := '''', ko_Generation := fo_Generation cfg, ko_ResourceVersion := fo_ResourceVersion cfg\<rparr>,
      (new_object (nd_Namespace control) (nd_Name control) (ControlNodeSpec control))\<lparr>ko_Kind := ''''\<rparr>]"

definition InstallNodes :: "fab_node list \<Rightarrow> kube_install" where
  "InstallNodes nodes cfg = Inr (map (\<lambda>n. (new_object (nd_Namespace n) (nd_Name n) (FabNodeSpec n))\<lparr>ko_Kind := ''''\<rparr>) nodes)"

definition F8rArtifacts :: "fab_object \<Rightarrow> string gomap result" where
  "F8rArtifacts cfg = (let v = fabricator_vers cfg in Inr
     [(APIChartRef, rv_API v), (CtrlRef, rv_Controller v), (CtrlChartRef, rv_Controller v), (CtlRef, rv_Ctl v),
      (NodeConfigRef, rv_NodeConfig v)])"

definition trimMultiline :: "string \<Rightarrow> string" where
  "trimMultiline s =
     (let ls = split_on (CHR 0x0A) s; ls = (if last ls = '''' then butlast ls else ls)
      in concat (map (\<lambda>l. trim_space l @ [CHR 0x0A]) ls))"

definition RoleTaintKey :: "string \<Rightarrow> string" where
  "RoleTaintKey role = ''role.'' @ ''fabricator.githedgehog.com'' @ ''/'' @ role"

definition role_toleration :: "string \<Rightarrow> toleration" where
  "role_toleration role = \<lparr>tl_Key = RoleTaintKey role, tl_Operator = ''Exists'', tl_Effect = ''NoExecute''\<rparr>"

definition node_config_command :: string where
  "node_config_command =
     (let nl = CHR 0x0A # replicate 9 (CHR 0x09) in
      nl @ ''set -ex'' @ nl @ ''mkdir -p /proc/1/root/opt/hedgehog/node'' @ nl @
      ''cp /bin/hhfab-node-config /proc/1/root/opt/hedgehog/node'' @ nl @
      ''nsenter --mount=/proc/1/ns/mnt -- /opt/hedgehog/node/hhfab-node-config'' @ butlast nl)"

definition node_config_image :: "fab_object \<Rightarrow> string result" where
  "node_config_image cfg = ebind (image_for cfg NodeConfigRef) (\<lambda>repo.
     Inr (repo @ '':'' @ rv_NodeConfig (fabricator_vers cfg)))"

definition InstallNodeConfig :: kube_install where
  "InstallNodeConfig cfg =
     ebind (node_config_image cfg) (\<lambda>image.
     let pauseImage = PauseImageURL @ '':'' @ rv_Pause (fabricator_vers cfg);
         labels = [(''app.kubernetes.io/name'', NodeConfigDaemonSet)]
     in Inr [NewDaemonSet NodeConfigDaemonSet labels
       \<lparr>ps_Labels = labels,
        ps_NodeAffinity = [(''node-role.kubernetes.io/control-plane'', ''DoesNotExist''),
          (''node-role.kubernetes.io/etcd'', ''DoesNotExist'')],
        ps_Tolerations = map role_toleration NodeRoles,
        ps_HostPID = True, ps_HostNetwork = True,
        ps_InitContainers =
          [\<lparr>ct_Name = NodeConfigDaemonSetConfigContainer, ct_Image = image, ct_ImagePullPolicy = ''IfNotPresent'',
            ct_Privileged = True, ct_Command = [''/bin/sh'', ''-c'', trimMultiline node_config_command],
            ct_Env = [EnvField ''FAB_NODE_NAME'' ''spec.nodeName'', EnvConfigMapKey ''FAB_CA'' FabCAConfigMap FabCAConfigMapKey,
              EnvSecretKey ''FAB_REGISTRIES'' FabNodeRegistriesSecret FabNodeRegistriesSecretKey, EnvValue ''FAB_IMAGE'' image]\<rparr>],
        ps_Containers =
          [\<lparr>ct_Name = ''wait'', ct_Image = pauseImage, ct_ImagePullPolicy = '''', ct_Privileged = False, ct_Command = [],
            ct_Env = []\<rparr>]\<rparr>])"

section \<open>k3s\<close>

definition RegistriesFor :: "libs \<Rightarrow> string \<Rightarrow> string \<Rightarrow> string \<Rightarrow> string result" where
  "RegistriesFor lb regURL username password =
     ewrap ''registries'' [] (lb_template lb ''registries'' ''k3s/registries.tmpl.yaml''
       [(''Registry'', TStr regURL), (''Username'', TStr username), (''Password'', TStr password)])"

definition Registries :: "libs \<Rightarrow> fab_object \<Rightarrow> string \<Rightarrow> string \<Rightarrow> string result" where
  "Registries lb cfg username password =
     ebind (ewrap ''getting registry URL'' [] (RegistryURL cfg)) (\<lambda>reg. RegistriesFor lb reg username password)"

definition InstallNodeRegistries :: "libs \<Rightarrow> string \<Rightarrow> string \<Rightarrow> kube_install" where
  "InstallNodeRegistries lb username password cfg =
     ebind (ewrap ''getting registries'' [] (Registries lb cfg username password)) (\<lambda>regs.
     Inr [NewSecret FabNodeRegistriesSecret ''Opaque'' [(FabNodeRegistriesSecretKey, regs)]])"

definition KubeVersion :: "fab_object \<Rightarrow> string" where
  "KubeVersion cfg = map (\<lambda>c. if c = CHR ''-'' then CHR ''+'' else c) (pv_K3s (platform cfg))"

definition ServerConfig :: "libs \<Rightarrow> fab_object \<Rightarrow> control_node \<Rightarrow> string result" where
  "ServerConfig lb cfg control =
     ebind (control_vip cfg) (\<lambda>vip.
     let c = Control (fabcfg cfg); vipstr = addr_string (pf_addr vip);
         tlsSAN = (if vipstr \<notin> set (TLSSAN c) then TLSSAN c @ [vipstr] else TLSSAN c) in
     ebind (ewrap ''parsing control node IP'' [] (prefix_parse (nd_MgmtIP control))) (\<lambda>nodeIP.
     ewrap ''k3s config'' [] (lb_template lb ''k3s-server-config'' ''k3s/server_config.tmpl.yaml''
       [(''Name'', TStr (nd_Name control)), (''NodeIP'', TStr (addr_string (pf_addr nodeIP))),
        (''NodeSubnet'', TStr (ManagementSubnet c)), (''FlannelIface'', TStr (nd_MgmtInterface control)),
        (''ClusterSubnet'', TStr (KubeClusterSubnet c)), (''ServiceSubnet'', TStr (KubeServiceSubnet c)),
        (''ClusterDNS'', TStr (KubeClusterDNS c)), (''TLSSAN'', TStrs tlsSAN)])))"

definition AgentConfig :: "libs \<Rightarrow> fab_node \<Rightarrow> string result" where
  "AgentConfig lb node =
     ebind (ewrap ''parsing control node IP'' [] (prefix_parse (nd_MgmtIP node))) (\<lambda>nodeIP.
     ewrap ''k3s config'' [] (lb_template lb ''k3s-agent-config'' ''k3s/agent_config.tmpl.yaml''
       [(''Name'', TStr (nd_Name node)), (''NodeIP'', TStr (addr_string (pf_addr nodeIP))),
        (''FlannelIface'', TStr (nd_MgmtInterface node))]))"

section \<open>Gateway, Alloy and Flatcar artifacts\<close>

definition DataplaneRef :: string where "DataplaneRef = ''dataplane''"
definition DataplaneValidatorRef :: string where "DataplaneValidatorRef = ''dataplane/validator''"
definition FRRRef :: string where "FRRRef = ''dataplane/frr''"
definition DataplaneMetricsPort :: nat where "DataplaneMetricsPort = 9442"
definition FRRMetricsPort :: nat where "FRRMetricsPort = 9342"

definition GatewayArtifacts :: "fab_object \<Rightarrow> string gomap result" where
  "GatewayArtifacts cfg = Inr
     [(DataplaneRef, gv_Dataplane (gateway_vers cfg)), (DataplaneValidatorRef, gv_Dataplane (gateway_vers cfg)),
      (FRRRef, gv_FRR (gateway_vers cfg))]"

definition ToolboxRef :: string where "ToolboxRef = ''toolbox''"
definition HostBGPRef :: string where "HostBGPRef = ''host-bgp''"

definition FlatcarArtifacts :: "fab_object \<Rightarrow> string gomap result" where
  "FlatcarArtifacts cfg = Inr [(ToolboxRef, pv_Toolbox (platform cfg)), (HostBGPRef, pv_HostBGPContainer (platform cfg))]"

definition AlloyBinRef :: string where "AlloyBinRef = ''fabricator/alloy-bin''"
definition AlloyImageRef :: string where "AlloyImageRef = ''fabricator/alloy''"
definition AlloyChartRef :: string where "AlloyChartRef = ''fabricator/charts/alloy''"

definition AlloyArtifacts :: "fab_object \<Rightarrow> string gomap result" where
  "AlloyArtifacts cfg = Inr [(AlloyImageRef, pv_Alloy (platform cfg)), (AlloyChartRef, pv_Alloy (platform cfg))]"

section \<open>Alloy\<close>

definition loopback_port :: "nat \<Rightarrow> string" where "loopback_port p = ''127.0.0.1:'' @ itoa p"

definition gateway_scrapes :: "gateway_observability option \<Rightarrow> scrape gomap" where
  "gateway_scrapes o11y = (case o11y of None \<Rightarrow> [] | Some obs \<Rightarrow>
     (if gm_Metrics (Dataplane obs) then
        [(''dataplane'', \<lparr>sc_Address = loopback_port DataplaneMetricsPort, sc_UnixEnable = False, sc_UnixCollectors = [],
           sc_IntervalSeconds = gm_MetricsInterval (Dataplane obs), sc_Relabel = gm_MetricsRelabel (Dataplane obs)\<rparr>)] else []) @
     (if gm_Metrics (FRR obs) then
        [(''frr'', \<lparr>sc_Address = loopback_port FRRMetricsPort, sc_UnixEnable = False, sc_UnixCollectors = [],
           sc_IntervalSeconds = gm_MetricsInterval (FRR obs), sc_Relabel = gm_MetricsRelabel (FRR obs)\<rparr>)] else []) @
     (if gu_Metrics (GwUnix obs) then
        [(''unix'', \<lparr>sc_Address = '''', sc_UnixEnable = True, sc_UnixCollectors = gu_MetricsCollectors (GwUnix obs),
           sc_IntervalSeconds = gu_MetricsInterval (GwUnix obs), sc_Relabel = gu_MetricsRelabel (GwUnix obs)\<rparr>)] else []))"

definition alloy_values :: "fab_object \<Rightarrow> string \<Rightarrow> string \<Rightarrow> (string \<times> tval) list" where
  "alloy_values cfg registryURL config =
     [(''Registry'', TStr registryURL), (''Image'', TStr (JoinURLParts [RegistryPrefix, AlloyImageRef])),
      (''Version'', TStr (pv_Alloy (platform cfg))), (''Config'', TStr config)]"

definition gateway_alloy_chart :: "libs \<Rightarrow> fab_object \<Rightarrow> string \<Rightarrow> kobject result" where
  "gateway_alloy_chart lb cfg registryURL =
     ebind (control_vip cfg) (\<lambda>vip.
     ebind (ewrap ''gateway tolerations'' [] (lb_tolerations_yaml lb [role_toleration NodeRoleGateway])) (\<lambda>tolerations.
     ebind (ewrap ''gateway alloy config'' [] (render_alloy (lb_alloy lb)
       \<lparr>ar_ProxyURL = ''http://'' @ addr_string (pf_addr vip) @ '':'' @ itoa ControlProxyNodePort, ar_AutoHostname = True,
        ar_Targets = Targets (Observability (fabcfg cfg)), ar_Scrapes = gateway_scrapes (GwObservability (Gateway (fabcfg cfg))),
        ar_KubePodLogs = False, ar_KubeEvents = False, ar_Pyroscope = True\<rparr>)) (\<lambda>config.
     ebind (ewrap ''gateway alloy values'' [] (lb_template lb ''values'' ''alloy/gw_values.tmpl.yaml''
       (alloy_values cfg registryURL config @ [(''Tolerations'', TStr tolerations)]))) (\<lambda>vals.
     ewrap ''gateway alloy chart'' [] (NewHelmChart cfg ''alloy-gw'' AlloyChartRef (pv_Alloy (platform cfg)) '''' False vals)))))"

definition control_alloy_chart :: "libs \<Rightarrow> fab_object \<Rightarrow> string \<Rightarrow> kobject result" where
  "control_alloy_chart lb cfg registryURL =
     (case ControlObservability (Control (fabcfg cfg)) of
        None \<Rightarrow> Inl (Panic ''nil control observability'')
      | Some obs \<Rightarrow>
          ebind (ewrap ''ctrl alloy config'' [] (render_alloy (lb_alloy lb)
            \<lparr>ar_ProxyURL = '''', ar_AutoHostname = True, ar_Targets = Targets (Observability (fabcfg cfg)), ar_Scrapes = [],
             ar_KubePodLogs = co_KubePodLogs obs, ar_KubeEvents = co_KubeEvents obs, ar_Pyroscope = False\<rparr>)) (\<lambda>config.
          ebind (ewrap ''ctrl alloy values'' [] (lb_template lb ''values'' ''alloy/ctrl_values.tmpl.yaml''
            (alloy_values cfg registryURL config))) (\<lambda>vals.
          ewrap ''ctrl alloy chart'' [] (NewHelmChart cfg ''alloy-ctrl'' AlloyChartRef (pv_Alloy (platform cfg)) '''' False vals))))"

definition AlloyInstall :: "libs \<Rightarrow> kube_install" where
  "AlloyInstall lb cfg =
     ebind (ewrap ''getting registry URL'' [] (RegistryURL cfg)) (\<lambda>registryURL.
     ebind (if GwEnable (Gateway (fabcfg cfg)) then ebind (gateway_alloy_chart lb cfg registryURL) (\<lambda>x. Inr [x]) else Inr []) (\<lambda>res.
     ebind (control_alloy_chart lb cfg registryURL) (\<lambda>chart.
     Inr (res @ [chart]))))"

section \<open>The fabric\<close>

definition FabricAPIChartRef :: string where "FabricAPIChartRef = ''fabric/charts/fabric-api''"
definition FabricCtrlChartRef :: string where "FabricCtrlChartRef = ''fabric/charts/fabric''"
definition FabricCtrlRef :: string where "FabricCtrlRef = ''fabric/fabric''"
definition DHCPChartRef :: string where "DHCPChartRef = ''fabric/charts/fabric-dhcpd''"
definition DHCPRef :: string where "DHCPRef = ''fabric/fabric-dhcpd''"
definition BootChartRef :: string where "BootChartRef = ''fabric/charts/fabric-boot''"
definition BootRef :: string where "BootRef = ''fabric/fabric-boot''"
definition AgentRef :: string where "AgentRef = ''fabric/agent''"
definition FabricCtlRef :: string where "FabricCtlRef = ''fabric/hhfctl''"
definition BroadcomSonicRefBase :: string where "BroadcomSonicRefBase = ''sonic-bcm-private''"
definition CelesticaSonicRefBase :: string where "CelesticaSonicRefBase = ''sonic-cls-private''"
definition CumulusRefBase :: string where "CumulusRefBase = ''cumulus-private''"
definition OnieRefBase :: string where "OnieRefBase = ''onie-updater-private''"
definition FabricMTU :: "16 word" where "FabricMTU = 9100"
definition ServerFacingMTUOffset :: "16 word" where "ServerFacingMTUOffset = 64"

definition getNOSRefBase :: "string \<Rightarrow> string" where
  "getNOSRefBase nosType =
     (if nosType \<in> {NOSTypeSONiCBCMBase, NOSTypeSONiCBCMCampus, NOSTypeSONiCBCMVS} then BroadcomSonicRefBase
      else if nosType \<in> {NOSTypeSONiCCLSPlusBroadcom, NOSTypeSONiCCLSPlusMarvell, NOSTypeSONiCCLSPlusVS} then CelesticaSonicRefBase
      else if nosType = NOSTypeCumulusMlx then CumulusRefBase
      else ''invalid'')"

definition isIncludeNOS :: "fab_object \<Rightarrow> string \<Rightarrow> bool" where
  "isIncludeNOS cfg nosType =
     (let fc = Fabric (fabcfg cfg) in
      if ExcludeNOSInstallers fc then False
      else if nosType \<in> {NOSTypeSONiCBCMBase, NOSTypeSONiCBCMCampus, NOSTypeSONiCBCMVS} then IncludeBCM fc
      else if nosType \<in> {NOSTypeSONiCCLSPlusBroadcom, NOSTypeSONiCCLSPlusMarvell, NOSTypeSONiCCLSPlusVS} then IncludeCLSP fc
      else if nosType = NOSTypeCumulusMlx then IncludeCumulus fc
      else False)"

definition included_nos :: "fab_object \<Rightarrow> string gomap" where
  "included_nos cfg = filter (\<lambda>(n, _). isIncludeNOS cfg n) (fv_NOS (fabric_vers cfg))"

definition no_observability :: observability where
  "no_observability =
     \<lparr>Agent = \<lparr>oa_Metrics = False, oa_MetricsInterval = 0, oa_MetricsRelabel = [], oa_Logs = False\<rparr>,
      Unix = \<lparr>ou_Metrics = False, ou_MetricsInterval = 0, ou_MetricsRelabel = [], ou_MetricsCollectors = [], ou_Syslog = False\<rparr>\<rparr>"

definition switch_users :: "fab_object \<Rightarrow> user_creds list" where
  "switch_users cfg = map (\<lambda>(name, u). \<lparr>uc_Name = name, uc_Password = su_PasswordHash u, uc_Role = su_Role u,
     uc_SSHKeys = su_AuthorizedKeys u\<rparr>) (DefaultSwitchUsers (Fabric (fabcfg cfg)))"

definition gateway_communities :: "string gomap \<Rightarrow> (nat \<times> string) list result" where
  "gateway_communities comms =
     efold (\<lambda>(prioStr, commStr) res.
       ebind (ewrap ''config: gatewayCommunity priority %s is invalid'' [prioStr] (parse_uint prioStr 32)) (\<lambda>prio.
       Inr (map_put prio commStr res))) comms []"

end
