(* ===== verification/CompFabric.thy ===== *)
theory CompFabric
  imports CompFabricator
begin

text \<open>
  What the fabric component installs: the configuration of the fabric controller and of the boot server,
  the charts and the management DHCP subnet (\<^verbatim>\<open>pkg/fab/comp/fabric/fabric.go\<close>).
\<close>

text \<open>The images the configuration of the fabric controller names.\<close>

definition fabric_config_with ::
    "fab_object \<Rightarrow> addr \<Rightarrow> (nat \<times> string) list \<Rightarrow> string \<Rightarrow> string \<Rightarrow> string \<Rightarrow> string \<Rightarrow> fabric_ctrl_config" where
  "fabric_config_with f vip gwComms dataplaneRepo validatorRepo frrRepo toolboxRepo =
     (let c = fabcfg f; fc = Fabric c; registry = addr_port_string vip RegistryPort in
      \<lparr>fc_ControlVIP = VIP (Control c),
       fc_APIServer = addr_port_string vip 6443,
       fc_AgentRepo = JoinURLParts [registry, RegistryPrefix, AgentRef],
       fc_VPCIRBVLANRanges = VPCIRBVLANs fc,
       fc_VPCPeeringVLANRanges = VPCWorkaroundVLANs fc,
       fc_TH5WorkaroundVLANRange = TH5WorkaroundVLANs fc,
       fc_VPCPeeringDisabled = False,
       fc_ReservedSubnets = [ManagementSubnet (Control c), FabricSubnet fc, ProtocolSubnet fc, VTEPSubnet fc,
         VPCWorkaroundSubnet fc, MCLAGSessionSubnet fc, ProxyExternalSubnet fc],
       fc_Users = switch_users f,
       fc_FabricMode = FabMode fc,
       fc_BaseVPCCommunity = BaseVPCCommunity fc,
       fc_VPCLoopbackSubnet = VPCWorkaroundSubnet fc,
       fc_FabricMTU = FabricMTU,
       fc_ServerFacingMTUOffset = ServerFacingMTUOffset,
       fc_ESLAGMACBase = ESLAGMACBase fc,
       fc_ESLAGESIPrefix = ESLAGESIPrefix fc,
       fc_AlloyRepo = JoinURLParts [registry, RegistryPrefix, AlloyBinRef],
       fc_AlloyVersion = pv_Alloy (platform f),
       fc_AlloyTargets = Targets (Observability c),
       fc_Observability = (case FabricObservability fc of Some obs \<Rightarrow> obs | None \<Rightarrow> no_observability),
       fc_ControlProxyURL = ''http://'' @ addr_string vip @ '':'' @ itoa ControlProxyNodePort,
       fc_DefaultMaxPathsEBGP = 64,
       fc_AllowExtraSwitchProfiles = False,
       fc_MCLAGSessionSubnet = MCLAGSessionSubnet fc,
       fc_GatewayASN = GwASN (Gateway c),
       fc_GatewayAPISync = GwEnable (Gateway c),
       fc_LoopbackWorkaround = False,
       fc_ProtocolSubnet = ProtocolSubnet fc,
       fc_VTEPSubnet = VTEPSubnet fc,
       fc_FabricSubnet = FabricSubnet fc,
       fc_L2ProxyExternalSubnet = ProxyExternalSubnet fc,
       fc_DisableBFD = DisableBFD fc,
       fc_IncludeSONiCCLSPlus = IncludeCLSP fc,
       fc_IncludeCumulus = IncludeCumulus fc,
       fc_SpineASN = SpineASN fc,
       fc_LeafASNStart = LeafASNStart fc,
       fc_LeafASNEnd = LeafASNEnd fc,
       fc_ManagementSubnet = ManagementSubnet (Control c),
       fc_ManagementDHCPStart = ManagementDHCPStart fc,
       fc_ManagementDHCPEnd = ManagementDHCPEnd fc,
       fc_GatewayCommunities = gwComms,
       fc_GatewayBFD = True,
       fc_EnableGateway = GwEnable (Gateway c),
       fc_GatewayNamespace = FabNamespace,
       fc_GatewayTolerations = [role_toleration NodeRoleGateway],
       fc_DataplaneRef = dataplaneRepo @ '':'' @ gv_Dataplane (gateway_vers f),
       fc_DataplaneValidatorRef = validatorRepo @ '':'' @ gv_Dataplane (gateway_vers f),
       fc_FRRRef = frrRepo @ '':'' @ gv_FRR (gateway_vers f),
       fc_ToolboxRef = toolboxRepo @ '':'' @ pv_Toolbox (platform f),
       fc_DataplaneMetricsPort = DataplaneMetricsPort,
       fc_FRRMetricsPort = FRRMetricsPort\<rparr>)"

definition GetFabricConfig :: "fab_object \<Rightarrow> fabric_ctrl_config result" where
  "GetFabricConfig f =
     ebind (control_vip f) (\<lambda>vip.
     ebind (gateway_communities (Communities (Gateway (fabcfg f)))) (\<lambda>gwComms.
     ebind (image_for f DataplaneRef) (\<lambda>dataplaneRepo.
     ebind (image_for f DataplaneValidatorRef) (\<lambda>validatorRepo.
     ebind (image_for f FRRRef) (\<lambda>frrRepo.
     ebind (image_for f ToolboxRef) (\<lambda>toolboxRepo.
     Inr (fabric_config_with f (pf_addr vip) gwComms dataplaneRepo validatorRepo frrRepo toolboxRepo)))))))"

definition GetFabricBootConfig :: "fab_object \<Rightarrow> boot_config result" where
  "GetFabricBootConfig f =
     ebind (ewrap ''getting registry URL'' [] (RegistryURL f)) (\<lambda>regURL.
     Inr \<lparr>bc_ControlVIP = VIP (Control (fabcfg f)),
       bc_NOSRepos = map (\<lambda>(nosType, _). (nosType, JoinURLParts [regURL, RegistryPrefix, getNOSRefBase nosType, nosType])) (included_nos f),
       bc_NOSVersions = included_nos f,
       bc_ONIERepos = map (\<lambda>(p, _). (p, JoinURLParts [regURL, RegistryPrefix, OnieRefBase, p])) (fv_ONIE (fabric_vers f)),
       bc_ONIEPlatformVersions = fv_ONIE (fabric_vers f),
       bc_AgentRef = JoinURLParts [regURL, RegistryPrefix, AgentRef],
       bc_AgentVersion = fv_Agent (fabric_vers f)\<rparr>)"

text \<open>The chart of a service of the fabric: its image, its values from a template, its own version.\<close>

definition fabric_chart ::
    "libs \<Rightarrow> fab_object \<Rightarrow> string \<Rightarrow> string \<Rightarrow> string \<Rightarrow> string \<Rightarrow> string \<Rightarrow> string \<Rightarrow> string \<Rightarrow> (string \<times> tval) list \<Rightarrow> kobject result" where
  "fabric_chart lb cfg what creating name imageRef chartRef file version extra =
     ebind (image_for cfg imageRef) (\<lambda>repo.
     ebind (ewrap (what @ '' values'') [] (lb_template lb (what @ ''-values'') (''fabric/'' @ file)
       ([(''Repo'', TStr repo), (''Tag'', TStr version)] @ extra))) (\<lambda>vals.
     ewrap creating [] (NewHelmChart cfg name chartRef version '''' False vals)))"

definition FabricInstall :: "libs \<Rightarrow> control_node \<Rightarrow> kube_install" where
  "FabricInstall lb control cfg =
     (let v = fabric_vers cfg in
     ebind (control_vip cfg) (\<lambda>vip.
     ebind (ewrap ''getting fabric config'' [] (GetFabricConfig cfg)) (\<lambda>fabricCfg.
     ebind (ewrap ''marshalling fabric config'' [] (lb_fabric_yaml lb fabricCfg)) (\<lambda>fabricCfgYaml.
     ebind (ewrap ''getting fabric boot config'' [] (GetFabricBootConfig cfg)) (\<lambda>bootCfg.
     ebind (ewrap ''marshalling fabric boot config'' [] (lb_boot_yaml lb bootCfg)) (\<lambda>bootCfgYaml.
     ebind (ewrap ''creating fabric API helm chart'' [] (NewHelmChart cfg ''fabric-api'' FabricAPIChartRef (fv_API v) '''' True '''')) (\<lambda>apiHelm.
     ebind (fabric_chart lb cfg ''ctrl'' ''creating fabric helm chart'' ''fabric'' FabricCtrlRef FabricCtrlChartRef
       ''ctrl_values.tmpl.yaml'' (fv_Controller v) []) (\<lambda>ctrlHelm.
     ebind (fabric_chart lb cfg ''dhcp'' ''creating fabric DHCP helm chart'' ''fabric-dhcpd'' DHCPRef DHCPChartRef
       ''dhcp_values.tmpl.yaml'' (fv_DHCPD v)
       [(''ListenInterface'', TStr (nd_MgmtInterface control)),
        (''AnyDeviceOnMgmt'', TBool (ManagementSubnetAnyDevice (Control (fabcfg cfg))))]) (\<lambda>dhcpHelm.
     ebind (fabric_chart lb cfg ''boot'' ''creating fabric boot helm chart'' ''fabric-boot'' BootRef BootChartRef
       ''boot_values.tmpl.yaml'' (fv_Boot v) [(''Host'', TStr (addr_string (pf_addr vip)))]) (\<lambda>bootHelm.
     Inr [apiHelm, NewConfigMap ''fabric-ctrl-config'' [(''config.yaml'', fabricCfgYaml)], ctrlHelm, dhcpHelm,
       NewConfigMap ''fabric-boot-config'' [(''config.yaml'', bootCfgYaml)], bootHelm]))))))))))"

definition InstallManagementDHCPSubnet :: kube_install where
  "InstallManagementDHCPSubnet cfg =
     (let c = Control (fabcfg cfg); fc = Fabric (fabcfg cfg) in
     ebind (ewrap ''parsing management subnet'' [] (prefix_parse (ManagementSubnet c))) (\<lambda>mgmt.
     ebind (control_vip cfg) (\<lambda>vip.
     Inr [NewDHCPSubnet ''management''
       \<lparr>dh_Subnet = ''management'', dh_CIDRBlock = prefix_string (prefix_masked mgmt),
        dh_Gateway = addr_string (addr_next (pf_addr mgmt)), dh_StartIP = ManagementDHCPStart fc,
        dh_EndIP = ManagementDHCPEnd fc, dh_LeaseTimeSeconds = 1800,
        dh_ZTPBaseURL = ''http://'' @ addr_string (pf_addr vip) @ '':32000'', dh_DNSServers = [], dh_TimeServers = [],
        dh_Static = ManagementSubnetStatic c\<rparr>])))"

definition add_nos_artifact :: "fab_object \<Rightarrow> string \<times> string \<Rightarrow> string gomap \<Rightarrow> string gomap result" where
  "add_nos_artifact cfg kv arts =
     (case kv of (nosType, version) \<Rightarrow>
        if nosType = '''' \<or> version = '''' then Inl (Errf ''empty NOS type or version'' [])
        else if \<not> isIncludeNOS cfg nosType then Inr arts
        else Inr (map_put (JoinURLParts [getNOSRefBase nosType, nosType]) version arts))"

definition add_onie_artifact :: "string \<times> string \<Rightarrow> string gomap \<Rightarrow> string gomap result" where
  "add_onie_artifact kv arts =
     (case kv of (p, version) \<Rightarrow>
        if p = '''' \<or> version = '''' then Inl (Errf ''empty ONIE platform or version'' [])
        else Inr (map_put (JoinURLParts [OnieRefBase, p]) version arts))"

definition FabricArtifacts :: "fab_object \<Rightarrow> string gomap result" where
  "FabricArtifacts cfg =
     (let v = fabric_vers cfg;
          arts = [(FabricAPIChartRef, fv_API v), (FabricCtrlChartRef, fv_Controller v), (FabricCtrlRef, fv_Controller v),
            (DHCPChartRef, fv_DHCPD v), (DHCPRef, fv_DHCPD v), (BootChartRef, fv_Boot v), (BootRef, fv_Boot v),
            (AgentRef, fv_Agent v), (FabricCtlRef, fv_Ctl v), (AlloyBinRef, pv_Alloy (platform cfg))] in
     ebind (efold (add_nos_artifact cfg) (fv_NOS v) arts) (\<lambda>arts.
     efold add_onie_artifact (fv_ONIE v) arts))"

end
