(* ===== verification/CompStatus.thy ===== *)
theory CompStatus
  imports CompFabric Readiness
begin

text \<open>
  The status of the components, read from the API server (the status functions of \<^verbatim>\<open>pkg/fab/comp/kube.go\<close>
  and of the components).
\<close>

definition ComponentStatuses :: "string list" where
  "ComponentStatuses = [CompStatusUnknown, CompStatusNotFound, CompStatusPending, CompStatusReady, CompStatusSkipped]"

text \<open>\<^verbatim>\<open>slices.Index\<close>: the position of a value, or -1.\<close>

fun slices_index :: "'a list \<Rightarrow> 'a \<Rightarrow> int" where
  "slices_index [] x = -1"
| "slices_index (y # ys) x = (if y = x then 0 else (let i = slices_index ys x in if i = -1 then -1 else i + 1))"

definition minStatus :: "string \<Rightarrow> string \<Rightarrow> string" where
  "minStatus a b = (if slices_index ComponentStatuses a < slices_index ComponentStatuses b then a else b)"

type_synonym 'w kube_status = "'w kclient \<Rightarrow> fab_object \<Rightarrow> ('w, string) kio"

text \<open>The object of a status check: a missing one is a status, any other error is returned.\<close>

definition status_of ::
    "string \<Rightarrow> okey \<Rightarrow> (kobject \<Rightarrow> string) \<Rightarrow> 'w kube_status" where
  "status_of what k f c cfg = (\<lambda>s. case kget c k s of
     (Inl e, s') \<Rightarrow>
       if kc_not_found c e then (Inr CompStatusNotFound, s')
       else (Inl (Wrapf (''getting '' @ what @ '' %q'') [snd (snd k)] e), s')
   | (Inr x, s') \<Rightarrow> (Inr (f x), s'))"

definition has_image :: "string \<Rightarrow> string \<Rightarrow> container list \<Rightarrow> bool" where
  "has_image container img cs \<longleftrightarrow> list_ex (\<lambda>c. ct_Name c = container \<and> ct_Image c = img) cs"

fun pod_of :: "kspec \<Rightarrow> pod_spec option" where
  "pod_of (Deployment p) = Some p"
| "pod_of (DaemonSet _ p) = Some p"
| "pod_of _ = None"

definition deployment_status :: "string \<Rightarrow> string \<Rightarrow> kobject \<Rightarrow> string" where
  "deployment_status container img x =
     (let upToDate = (case pod_of (ko_Spec x) of Some p \<Rightarrow> has_image container img (ps_Containers p) | None \<Rightarrow> False) in
      if upToDate \<and> ws_UpdatedReplicas (ko_Status x) \<ge> 1 \<and>
         list_ex (\<lambda>(t, v). t = ''Progressing'' \<and> v = ''True'') (ws_Conditions (ko_Status x))
      then CompStatusReady else CompStatusPending)"

definition GetDeploymentStatus :: "string \<Rightarrow> string \<Rightarrow> string \<Rightarrow> 'w kube_status" where
  "GetDeploymentStatus name container img =
     status_of ''deployment'' (''Deployment'', FabNamespace, name) (deployment_status container img)"

definition daemonset_status :: "string \<Rightarrow> string \<Rightarrow> kobject \<Rightarrow> string" where
  "daemonset_status container img x =
     (let upToDate = (case pod_of (ko_Spec x) of
            Some p \<Rightarrow> has_image container img (ps_InitContainers p) \<or> has_image container img (ps_Containers p)
          | None \<Rightarrow> False);
          st = ko_Status x in
      if upToDate \<and> ws_ObservedGeneration st = ko_Generation x \<and> ws_DesiredNumberScheduled st > 0 \<and>
         ws_UpdatedNumberScheduled st = ws_DesiredNumberScheduled st
      then CompStatusReady else CompStatusPending)"

definition GetDaemonSetStatus :: "string \<Rightarrow> string \<Rightarrow> string \<Rightarrow> 'w kube_status" where
  "GetDaemonSetStatus name container img =
     status_of ''daemonset'' (''DaemonSet'', FabNamespace, name) (daemonset_status container img)"

definition crd_status :: "string \<Rightarrow> kobject \<Rightarrow> string" where
  "crd_status version x =
     (let versionOk = (case ko_Spec x of CRD vs \<Rightarrow> version \<in> set vs | _ \<Rightarrow> False) in
      if versionOk \<and> list_ex (\<lambda>(t, v). t = ''Established'' \<and> v = ''True'') (ws_Conditions (ko_Status x))
      then CompStatusReady else CompStatusPending)"

definition GetCRDStatus :: "string \<Rightarrow> string \<Rightarrow> 'w kube_status" where
  "GetCRDStatus name version =
     status_of ''crd'' (''CustomResourceDefinition'', NamespaceDefault, name) (crd_status version)"

fun merge_statuses :: "'w kube_status list \<Rightarrow> string \<Rightarrow> 'w kube_status" where
  "merge_statuses [] status c cfg = kret status"
| "merge_statuses (f # fs) status c cfg =
     kbind (f c cfg) (\<lambda>s. merge_statuses fs (minStatus status s) c cfg)"

definition MergeKubeStatuses :: "'w kube_status list \<Rightarrow> 'w kube_status" where
  "MergeKubeStatuses fs = merge_statuses fs CompStatusReady"

section \<open>The components\<close>

text \<open>The status of a workload that runs an image of the registry at a version.\<close>

definition image_status ::
    "(string \<Rightarrow> string \<Rightarrow> string \<Rightarrow> 'w kube_status) \<Rightarrow> string \<Rightarrow> string \<Rightarrow> string \<Rightarrow> (fab_object \<Rightarrow> string) \<Rightarrow> 'w kube_status" where
  "image_status get name container imageRef version c cfg =
     kbind (klift (image_for cfg imageRef)) (\<lambda>r. get name container (r @ '':'' @ version cfg) c cfg)"

definition F8rStatusAPI :: "'w kube_status" where
  "F8rStatusAPI = MergeKubeStatuses
     [GetCRDStatus ''fabricators.fabricator.githedgehog.com'' ''v1beta1'',
      GetCRDStatus ''controlnodes.fabricator.githedgehog.com'' ''v1beta1'',
      GetCRDStatus ''fabnodes.fabricator.githedgehog.com'' ''v1beta1'']"

definition F8rStatusCtrl :: "'w kube_status" where
  "F8rStatusCtrl = image_status GetDeploymentStatus ''fabricator-ctrl'' ''manager'' CtrlRef (\<lambda>cfg. rv_Controller (fabricator_vers cfg))"

definition StatusNodeConfig :: "'w kube_status" where
  "StatusNodeConfig = image_status GetDaemonSetStatus NodeConfigDaemonSet NodeConfigDaemonSetConfigContainer NodeConfigRef
     (\<lambda>cfg. rv_NodeConfig (fabricator_vers cfg))"

definition CertManagerStatusCtrl :: "'w kube_status" where
  "CertManagerStatusCtrl = image_status GetDeploymentStatus ''cert-manager'' ''cert-manager-controller'' ControllerImageRef
     (\<lambda>cfg. pv_CertManager (platform cfg))"

definition CertManagerStatusWebhook :: "'w kube_status" where
  "CertManagerStatusWebhook = image_status GetDeploymentStatus ''cert-manager-webhook'' ''cert-manager-webhook'' WebhookImageRef
     (\<lambda>cfg. pv_CertManager (platform cfg))"

definition ReloaderStatus :: "'w kube_status" where
  "ReloaderStatus = image_status GetDeploymentStatus ''reloader-reloader'' ''reloader-reloader'' ReloaderImageRef
     (\<lambda>cfg. pv_Reloader (platform cfg))"

definition ZotStatus :: "'w kube_status" where
  "ZotStatus = image_status GetDeploymentStatus ''zot'' ''zot'' ZotImageRef (\<lambda>cfg. pv_Zot (platform cfg))"

definition NTPStatus :: "'w kube_status" where
  "NTPStatus = image_status GetDeploymentStatus ''ntp'' ''ntp'' NTPImageRef (\<lambda>cfg. pv_NTP (platform cfg))"

definition FabricStatusAPI :: "'w kube_status" where
  "FabricStatusAPI = MergeKubeStatuses
     [GetCRDStatus ''switches.wiring.githedgehog.com'' ''v1beta1'', GetCRDStatus ''connections.wiring.githedgehog.com'' ''v1beta1'']"

definition FabricStatusCtrl :: "'w kube_status" where
  "FabricStatusCtrl = image_status GetDeploymentStatus ''fabric-ctrl'' ''manager'' FabricCtrlRef (\<lambda>cfg. fv_Controller (fabric_vers cfg))"

definition FabricStatusDHCP :: "'w kube_status" where
  "FabricStatusDHCP = image_status GetDeploymentStatus ''fabric-dhcpd'' ''fabric-dhcpd'' DHCPRef (\<lambda>cfg. fv_DHCPD (fabric_vers cfg))"

definition FabricStatusBoot :: "'w kube_status" where
  "FabricStatusBoot = image_status GetDeploymentStatus ''fabric-boot'' ''fabric-boot'' BootRef (\<lambda>cfg. fv_Boot (fabric_vers cfg))"

definition ControlProxyStatus :: "'w kube_status" where
  "ControlProxyStatus = image_status GetDeploymentStatus ''control-proxy'' ''control-proxy'' ControlProxyImageRef
     (\<lambda>cfg. pv_ControlProxy (platform cfg))"

definition AlloyStatusGateway :: "'w kube_status" where
  "AlloyStatusGateway c cfg =
     (if \<not> GwEnable (Gateway (fabcfg cfg)) then kret CompStatusSkipped
      else image_status GetDaemonSetStatus ''alloy-gw'' ''alloy'' AlloyImageRef (\<lambda>cfg. pv_Alloy (platform cfg)) c cfg)"

definition AlloyStatusControl :: "'w kube_status" where
  "AlloyStatusControl = image_status GetDaemonSetStatus ''alloy-ctrl'' ''alloy'' AlloyImageRef (\<lambda>cfg. pv_Alloy (platform cfg))"

text \<open>The status of a daemon of every gateway node, by node.\<close>

fun gateway_statuses ::
    "string \<Rightarrow> string \<Rightarrow> string \<Rightarrow> fab_node list \<Rightarrow> string gomap \<Rightarrow> 'w kclient \<Rightarrow> fab_object \<Rightarrow> ('w, string gomap) kio" where
  "gateway_statuses daemon what img [] res c cfg = kret res"
| "gateway_statuses daemon what img (n # ns) res c cfg =
     (if NodeRoleGateway \<notin> set (nd_Roles n) then gateway_statuses daemon what img ns res c cfg
      else kbind (kwrap (''getting status for '' @ what @ '' on node %q'') [nd_Name n]
             (GetDaemonSetStatus (''gw--'' @ nd_Name n @ ''--'' @ daemon) daemon img c cfg)) (\<lambda>st.
           gateway_statuses daemon what img ns (map_put (nd_Name n) st res) c cfg))"

definition gateway_status ::
    "string \<Rightarrow> string \<Rightarrow> string \<Rightarrow> (fab_object \<Rightarrow> string) \<Rightarrow> 'w kclient \<Rightarrow> fab_object \<Rightarrow> fab_node list \<Rightarrow> ('w, string gomap) kio" where
  "gateway_status daemon what imageRef version c cfg nodes =
     (if \<not> GwEnable (Gateway (fabcfg cfg)) then kret []
      else kbind (klift (image_for cfg imageRef)) (\<lambda>r.
        gateway_statuses daemon what (r @ '':'' @ version cfg) nodes [] c cfg))"

definition StatusDataplane :: "'w kclient \<Rightarrow> fab_object \<Rightarrow> fab_node list \<Rightarrow> ('w, string gomap) kio" where
  "StatusDataplane = gateway_status ''dataplane'' ''dataplane'' DataplaneRef (\<lambda>cfg. gv_Dataplane (gateway_vers cfg))"

definition StatusFRR :: "'w kclient \<Rightarrow> fab_object \<Rightarrow> fab_node list \<Rightarrow> ('w, string gomap) kio" where
  "StatusFRR = gateway_status ''frr'' ''FRR'' FRRRef (\<lambda>cfg. gv_FRR (gateway_vers cfg))"

end
