(* ===== verification/Operator.thy ===== *)
theory Operator
  imports CompStatus
begin

text \<open>
  The operator (\<^verbatim>\<open>pkg/controller/fabricator_ctrl.go\<close>): the reconciliation of the Fabricator, which
  enforces every component and records that it did, and the status check, which reads the components
  and sets the readiness conditions. Both end in a write of the status that the API server may refuse.
  The mutex of the status check orders the checks of one operator; here a check is one run of
  \<open>statusCheck\<close>, and whatever else happens meanwhile is the world moving between its calls. Times are
  nanoseconds.
\<close>

section \<open>Conditions\<close>

definition ConditionTrue :: string where "ConditionTrue = ''True''"
definition ConditionFalse :: string where "ConditionFalse = ''False''"

fun SetStatusCondition :: "condition \<Rightarrow> condition list \<Rightarrow> condition list" where
  "SetStatusCondition new [] = [new]"
| "SetStatusCondition new (c # cs) =
     (if cd_Type c = cd_Type new
      then c\<lparr>cd_Status := cd_Status new, cd_Reason := cd_Reason new, cd_Message := cd_Message new,
        cd_ObservedGeneration := cd_ObservedGeneration new\<rparr> # cs
      else c # SetStatusCondition new cs)"

fun IsStatusConditionTrue :: "condition list \<Rightarrow> string \<Rightarrow> bool" where
  "IsStatusConditionTrue [] t = False"
| "IsStatusConditionTrue (c # cs) t = (if cd_Type c = t then cd_Status c = ConditionTrue else IsStatusConditionTrue cs t)"

definition itoa_int :: "int \<Rightarrow> string" where
  "itoa_int i = (if i < 0 then ''-'' @ itoa (nat (- i)) else itoa (nat i))"

definition upd_status :: "(fab_status \<Rightarrow> fab_status) \<Rightarrow> fab_object \<Rightarrow> fab_object" where
  "upd_status g f = f\<lparr>fo_Status := g (fo_Status f)\<rparr>"

definition set_condition :: "string \<Rightarrow> string \<Rightarrow> string \<Rightarrow> string \<Rightarrow> fab_object \<Rightarrow> fab_object" where
  "set_condition t st reason msg f = upd_status (\<lambda>s. s\<lparr>st_Conditions := SetStatusCondition
     \<lparr>cd_Type = t, cd_Status = st, cd_Reason = reason, cd_ObservedGeneration = fo_Generation f, cd_Message = msg\<rparr>
     (st_Conditions s)\<rparr>) f"

definition condition_true :: "fab_object \<Rightarrow> string \<Rightarrow> bool" where
  "condition_true f t = IsStatusConditionTrue (st_Conditions (fo_Status f)) t"

section \<open>The operator and its environment\<close>

text \<open>
  The rest of the client: reading the resources, the clock, and the write of the status, which returns
  the object as the server stores it. \<open>oe_Version\<close> is the version linked into the operator.
\<close>

record 'w operator_env =
  oe_kube :: "'w kclient"
  oe_libs :: libs
  oe_Version :: string
  oe_semver :: "string \<Rightarrow> (nat \<times> nat) result"
  oe_get_fab :: "string \<times> string \<Rightarrow> 'w \<Rightarrow> fab_object result \<times> 'w"
  oe_list_nodes :: "'w \<Rightarrow> fab_node list result \<times> 'w"
  oe_list_controls :: "'w \<Rightarrow> control_node list result \<times> 'w"
  oe_now :: "'w \<Rightarrow> int \<times> 'w"
  oe_status_update :: "fab_object \<Rightarrow> 'w \<Rightarrow> fab_object result \<times> 'w"

definition kread :: "('w \<Rightarrow> 'a result \<times> 'w) \<Rightarrow> ('w, 'a) kio" where
  "kread f = (\<lambda>(w, l). case f w of (r, w') \<Rightarrow> (r, w', l))"

definition know :: "'w operator_env \<Rightarrow> ('w, int) kio" where
  "know e = (\<lambda>(w, l). case oe_now e w of (t, w') \<Rightarrow> (Inr t, w', l))"

definition status_update :: "'w operator_env \<Rightarrow> fab_object \<Rightarrow> ('w, fab_object) kio" where
  "status_update e f = (\<lambda>(w, l). case oe_status_update e f w of (r, w') \<Rightarrow> (r, w', l @ [KStatus f r]))"

section \<open>Applying the configuration\<close>

text \<open>The steps of a reconciliation, in order: an install to enforce, or a chart of an older release to delete.\<close>

datatype apply_step = Enforce kube_install | DeleteChart string

definition apply_steps :: "libs \<Rightarrow> control_node \<Rightarrow> string \<Rightarrow> (string \<times> apply_step) list" where
  "apply_steps lb control regPassword =
     [(''enforcing reloader install'', Enforce (ReloaderInstall lb)),
      (''enforcing cert-manager install'', Enforce (CertManagerInstall lb)),
      (''enforcing zot install'', Enforce (ZotInstall lb)),
      (''enforcing fabric install'', Enforce (FabricInstall lb control)),
      (''enforcing fabric management dhcp subnet install'', Enforce InstallManagementDHCPSubnet),
      (''enforcing ntp install'', Enforce (NTPInstall lb)),
      (''enforcing controlproxy install'', Enforce (ControlProxyInstall lb)),
      (''deleting fabric-proxy helm chart'', DeleteChart ''fabric-proxy''),
      (''enforcing k3s node registries install'', Enforce (InstallNodeRegistries lb RegistryUserReader regPassword)),
      (''enforcing node config install'', Enforce InstallNodeConfig),
      (''enforcing alloy install'', Enforce (AlloyInstall lb)),
      (''enforcing fabricactor install'', Enforce (F8rInstall lb))]"

definition run_step :: "'w kclient \<Rightarrow> fab_object \<Rightarrow> string \<times> apply_step \<Rightarrow> ('w, unit) kio" where
  "run_step c f st = kwrap (fst st) [] (case snd st of
     Enforce inst \<Rightarrow> EnforceKubeInstall c f [inst] | DeleteChart n \<Rightarrow> DeleteHelmChartIfPresent c n)"

definition pending_status :: "int \<Rightarrow> fab_object \<Rightarrow> fab_object" where
  "pending_status now f =
     (let f = set_condition ConditionApplied ConditionFalse ''ApplyPending'' (''Config will be applied, gen='' @ itoa_int (fo_Generation f)) f;
          f = set_condition ConditionReady ConditionFalse ''ApplyPending'' ''Config will be applied'' f;
          f = set_condition ConditionGatewayReady ConditionFalse ''ApplyPending'' ''Config will be applied'' f
      in upd_status (\<lambda>s. s\<lparr>st_LastAttemptGen := fo_Generation f, st_LastAttemptTime := now\<rparr>) f)"

definition applied_status :: "string \<Rightarrow> int \<Rightarrow> fab_object \<Rightarrow> fab_object" where
  "applied_status version now f =
     (let f = set_condition ConditionApplied ConditionTrue ''ApplySucceeded'' (''Config applied, gen='' @ itoa_int (fo_Generation f)) f
      in upd_status (\<lambda>s. s\<lparr>st_LastAppliedGen := fo_Generation f, st_LastAppliedTime := now, st_LastAppliedController := version\<rparr>) f)"

text \<open>The only control node, or why there is none.\<close>

definition single_control :: "control_node list \<Rightarrow> control_node result" where
  "single_control controls = (case controls of
     [] \<Rightarrow> Inl (Errf ''no control nodes found'' [])
   | [c] \<Rightarrow> Inr c
   | _ \<Rightarrow> Inl (Errf ''multiple control nodes found'' []))"

definition reader_password :: "kobject \<Rightarrow> string result" where
  "reader_password x = (case ko_Spec x of
     Secret t dat strs \<Rightarrow>
       (case map_of dat ''password'' of
          Some p \<Rightarrow> if p = '''' then Inl (Errf ''registry reader user secret missing password'' []) else Inr p
        | None \<Rightarrow> Inl (Errf ''registry reader user secret missing password'' []))
   | _ \<Rightarrow> Inl (Errf ''registry reader user secret missing password'' []))"

definition apply_config :: "'w operator_env \<Rightarrow> fab_object \<Rightarrow> ('w, fab_object) kio" where
  "apply_config e f =
     kbind (kwrap ''listing controls'' [] (kread (oe_list_controls e))) (\<lambda>controls.
     kbind (klift (single_control controls)) (\<lambda>control.
     kbind (kwrap ''enforcing fabricator and control install defaults'' []
       (EnforceKubeInstall (oe_kube e) f [InstallFabAndControl control])) (\<lambda>_.
     kbind (kwrap ''getting registry reader user secret'' []
       (kget (oe_kube e) (''Secret'', FabNamespace, RegistryUserReaderSecret))) (\<lambda>regSecret.
     kbind (klift (reader_password regSecret)) (\<lambda>regPassword.
     kbind (know e) (\<lambda>now.
     kbind (kwrap ''updating attempt status'' [] (status_update e (pending_status now f))) (\<lambda>f.
     let f = CalculateVersions (release_versions (oe_Version e)) f in
     kbind (kseq (run_step (oe_kube e) f) (apply_steps (oe_libs e) control regPassword)) (\<lambda>_.
     kbind (know e) (\<lambda>now.
     kwrap ''updating applied status'' [] (status_update e (applied_status (oe_Version e) now f)))))))))))"

section \<open>The status check\<close>

definition minute :: int where "minute = 60 * 10 ^ 9"

definition check_component ::
    "string \<Rightarrow> (fab_object \<Rightarrow> ('w, 'a) kio) \<Rightarrow> ('a \<Rightarrow> components_status \<Rightarrow> components_status) \<Rightarrow>
     fab_object \<Rightarrow> ('w, fab_object) kio" where
  "check_component what get put f =
     kbind (kwrap (''getting '' @ what @ '' status'') [] (get f)) (\<lambda>v.
     kret (upd_status (\<lambda>s. s\<lparr>st_Components := put v (st_Components s)\<rparr>) f))"

fun kchain :: "('a \<Rightarrow> ('w, 'a) kio) list \<Rightarrow> 'a \<Rightarrow> ('w, 'a) kio" where
  "kchain [] x = kret x"
| "kchain (g # gs) x = kbind (g x) (kchain gs)"

definition component_checks :: "'w kclient \<Rightarrow> fab_node list \<Rightarrow> (fab_object \<Rightarrow> ('w, fab_object) kio) list" where
  "component_checks c nodes =
     [check_component ''fabricator api'' (F8rStatusAPI c) (\<lambda>v s. s\<lparr>FabricatorAPI := v\<rparr>),
      check_component ''fabricator ctrl'' (F8rStatusCtrl c) (\<lambda>v s. s\<lparr>FabricatorCtrl := v\<rparr>),
      check_component ''fabricator node config'' (StatusNodeConfig c) (\<lambda>v s. s\<lparr>FabricatorNodeConfig := v\<rparr>),
      check_component ''cert-manager ctrl'' (CertManagerStatusCtrl c) (\<lambda>v s. s\<lparr>CertManagerCtrl := v\<rparr>),
      check_component ''cert-manager webhook'' (CertManagerStatusWebhook c) (\<lambda>v s. s\<lparr>CertManagerWebhook := v\<rparr>),
      check_component ''reloader'' (ReloaderStatus c) (\<lambda>v s. s\<lparr>Reloader := v\<rparr>),
      check_component ''zot'' (ZotStatus c) (\<lambda>v s. s\<lparr>Zot := v\<rparr>),
      check_component ''ntp'' (NTPStatus c) (\<lambda>v s. s\<lparr>NTP := v\<rparr>),
      check_component ''fabric api'' (FabricStatusAPI c) (\<lambda>v s. s\<lparr>FabricAPI := v\<rparr>),
      check_component ''fabric ctrl'' (FabricStatusCtrl c) (\<lambda>v s. s\<lparr>FabricCtrl := v\<rparr>),
      check_component ''fabric boot'' (FabricStatusBoot c) (\<lambda>v s. s\<lparr>FabricBoot := v\<rparr>),
      check_component ''fabric dhcp'' (FabricStatusDHCP c) (\<lambda>v s. s\<lparr>FabricDHCP := v\<rparr>),
      check_component ''controlproxy'' (ControlProxyStatus c) (\<lambda>v s. s\<lparr>ControlProxy := v\<rparr>),
      check_component ''gateway dataplane'' (\<lambda>f. StatusDataplane c f nodes) (\<lambda>v s. s\<lparr>GatewayDataplane := v\<rparr>),
      check_component ''gateway frr'' (\<lambda>f. StatusFRR c f nodes) (\<lambda>v s. s\<lparr>GatewayFRR := v\<rparr>),
      check_component ''gateway alloy'' (AlloyStatusGateway c) (\<lambda>v s. s\<lparr>GatewayAlloy := v\<rparr>),
      check_component ''ctrl alloy'' (AlloyStatusControl c) (\<lambda>v s. s\<lparr>ControlAlloy := v\<rparr>)]"

definition readiness_conditions :: "fab_node list \<Rightarrow> fab_object \<Rightarrow> fab_object" where
  "readiness_conditions nodes f =
     (let comps = st_Components (fo_Status f);
          f = (if IsReady comps (fo_Fab f) nodes
               then set_condition ConditionReady ConditionTrue ''ComponentsReady'' ''All components are ready'' f
               else set_condition ConditionReady ConditionFalse ''ComponentsPending'' ''Not all components are ready'' f)
      in if IsGatewayReady comps (fo_Fab f) nodes
         then set_condition ConditionGatewayReady ConditionTrue ''GatewaysReady'' ''All gateways are ready'' f
         else set_condition ConditionGatewayReady ConditionFalse ''GatewaysPending'' ''Not all gateways are ready'' f)"

definition statusCheck :: "'w operator_env \<Rightarrow> fab_object \<Rightarrow> fab_node list \<Rightarrow> ('w, unit) kio" where
  "statusCheck e f nodes =
     kbind (know e) (\<lambda>now.
     if now - st_LastStatusCheck (fo_Status f) < minute \<and> condition_true f ConditionReady then kret ()
     else
       kbind (kchain (component_checks (oe_kube e) nodes) f) (\<lambda>f.
       kbind (know e) (\<lambda>now.
       kbind (kwrap ''updating ready status'' []
         (status_update e (upd_status (\<lambda>s. s\<lparr>st_LastStatusCheck := now\<rparr>) (readiness_conditions nodes f)))) (\<lambda>_.
       kret ()))))"

section \<open>Reconciling\<close>

definition outdated :: "string \<Rightarrow> fab_object \<Rightarrow> bool" where
  "outdated version f \<longleftrightarrow>
     st_LastAppliedController (fo_Status f) \<noteq> version \<or> st_LastAppliedGen (fo_Status f) \<noteq> fo_Generation f"

definition start_reconcile :: "string \<Rightarrow> fab_object \<Rightarrow> fab_object" where
  "start_reconcile ch f =
     upd_status (\<lambda>s. s\<lparr>st_IsBootstrap := False, st_IsInstall := False, st_ReleaseChannel := ch, st_Release := Release\<rparr>)
       (f\<lparr>fo_Fab := fab_default (fo_Fab f)\<rparr>)"

definition Reconcile :: "'w operator_env \<Rightarrow> string \<times> string \<Rightarrow> ('w, unit) kio" where
  "Reconcile e req =
     (if snd req \<noteq> FabName \<and> fst req \<noteq> FabNamespace then kret ()
      else
        kbind (kwrap ''fetching fabricator'' [] (kread (oe_get_fab e req))) (\<lambda>f.
        kbind (klift (ewrap ''getting release channel'' [] (ReleaseChannel (oe_semver e)))) (\<lambda>ch.
        let f = start_reconcile ch f in
        kbind (kwrap ''listing nodes'' [] (kread (oe_list_nodes e))) (\<lambda>nodes.
        kbind (if outdated (oe_Version e) f \<or> \<not> condition_true f ConditionApplied then apply_config e f else kret f) (\<lambda>f.
        statusCheck e f nodes)))))"

text \<open>A tick of the status watcher; its errors are only logged.\<close>

definition watch_tick :: "'w operator_env \<Rightarrow> ('w, unit) kio" where
  "watch_tick e =
     kbind (kread (oe_get_fab e (FabNamespace, FabName))) (\<lambda>f.
     kbind (kread (oe_list_nodes e)) (\<lambda>nodes.
     statusCheck e f nodes))"

end
