(* ===== verification/KubeLog.thy ===== *)
theory KubeLog
  imports Operator
begin

text \<open>
  Reasoning about programs that call the API server. A program only appends to the record of calls, so a
  run is read off its run from an empty record; the run of a sequence is the runs of its parts. On it
  rest what a successful install leaves in the record, how often a call is retried, and that a second
  enforcement of an install writes nothing.
\<close>

section \<open>Runs\<close>

definition appends :: "('w, 'a) kio \<Rightarrow> bool" where
  "appends m \<longleftrightarrow> (\<forall>w l. m (w, l) = (case m (w, []) of (r, w', es) \<Rightarrow> (r, w', l @ es)))"

named_theorems appends_intro \<open>programs that only append to the record\<close>

lemma appendsD: "appends m \<Longrightarrow> m (w, []) = (r, w', es) \<Longrightarrow> m (w, l) = (r, w', l @ es)"
  unfolding appends_def by (drule spec, drule spec [of _ l], erule trans) simp

lemma appendsI:
  "(\<And>w l. \<exists>r w' es. m (w, []) = (r, w', es) \<and> m (w, l) = (r, w', l @ es)) \<Longrightarrow> appends m"
  unfolding appends_def
proof (intro allI)
  fix w l
  assume "\<And>w l. \<exists>r w' es. m (w, []) = (r, w', es) \<and> m (w, l) = (r, w', l @ es)"
  from this [of w l] show "m (w, l) = (case m (w, []) of (r, w', es) \<Rightarrow> (r, w', l @ es))" by (elim exE conjE) simp
qed

lemma appends_kret [appends_intro]: "appends (kret x)"
  by (simp add: appends_def kret_def)

lemma appends_kfail [appends_intro]: "appends (kfail x)"
  by (simp add: appends_def kfail_def)

lemma appends_klift [appends_intro]: "appends (klift x)"
  by (simp add: appends_def klift_def)

lemma appends_kread [appends_intro]: "appends (kread f)"
  by (rule appendsI) (simp add: kread_def split: prod.splits)

lemma appends_know [appends_intro]: "appends (know e)"
  by (rule appendsI) (simp add: know_def split: prod.splits)

lemma appends_kget [appends_intro]: "appends (kget c k)"
  by (rule appendsI) (simp add: kget_def split: prod.splits)

lemma appends_kwrite [appends_intro]: "appends (kwrite f ev)"
  by (rule appendsI) (simp add: kwrite_def split: prod.splits option.splits)

lemma appends_status_update [appends_intro]: "appends (status_update e f)"
  by (rule appendsI) (simp add: status_update_def split: prod.splits)

lemma appends_kwrap [appends_intro]: "appends m \<Longrightarrow> appends (kwrap msg args m)"
proof (rule appendsI)
  fix w l
  assume a: "appends m"
  obtain r w1 es where m: "m (w, []) = (r, w1, es)" by (cases "m (w, [])")
  with appendsD [OF a m, of l]
  show "\<exists>r w' es. kwrap msg args m (w, []) = (r, w', es) \<and> kwrap msg args m (w, l) = (r, w', l @ es)"
    by (simp add: kwrap_def)
qed

lemma appends_kbind [appends_intro]:
  assumes "appends m" "\<And>x. appends (f x)"
  shows "appends (kbind m f)"
proof (rule appendsI)
  fix w l
  obtain r w1 es where m: "m (w, []) = (r, w1, es)" by (cases "m (w, [])")
  show "\<exists>r w' es. kbind m f (w, []) = (r, w', es) \<and> kbind m f (w, l) = (r, w', l @ es)"
  proof (cases r)
    case (Inl e)
    with m appendsD [OF assms(1) m, of l] show ?thesis by (simp add: kbind_def)
  next
    case (Inr x)
    obtain r2 w2 es2 where f: "f x (w1, []) = (r2, w2, es2)" by (cases "f x (w1, [])")
    with Inr m appendsD [OF assms(1) m, of l] appendsD [OF assms(2) f] show ?thesis by (simp add: kbind_def)
  qed
qed

lemma appends_if [appends_intro]: "appends m \<Longrightarrow> appends m' \<Longrightarrow> appends (if b then m else m')"
  by simp

lemma appends_kseq [appends_intro]: "(\<And>x. appends (f x)) \<Longrightarrow> appends (kseq f xs)"
  by (induction xs) (auto intro: appends_intro)

lemma appends_kchain: "(\<And>g x. g \<in> set gs \<Longrightarrow> appends (g x)) \<Longrightarrow> appends (kchain gs x)"
  by (induction gs arbitrary: x) (auto intro!: appends_intro)

text \<open>A program that goes on after a call, whatever the call returned.\<close>

lemma appends_try:
  assumes "appends m" "\<And>x. appends (f x)" "\<And>e. appends (g e)"
    and "\<And>s. h s = (case m s of (Inl e, s') \<Rightarrow> g e s' | (Inr x, s') \<Rightarrow> f x s')"
  shows "appends h"
proof (rule appendsI)
  fix w l
  obtain r w1 es where m: "m (w, []) = (r, w1, es)" by (cases "m (w, [])")
  note ml = appendsD [OF assms(1) m, of l]
  show "\<exists>r w' es. h (w, []) = (r, w', es) \<and> h (w, l) = (r, w', l @ es)"
  proof (cases r)
    case (Inl e)
    obtain r2 w2 es2 where g: "g e (w1, []) = (r2, w2, es2)" by (cases "g e (w1, [])")
    with Inl m ml appendsD [OF assms(3) g] show ?thesis by (simp add: assms(4))
  next
    case (Inr x)
    obtain r2 w2 es2 where f: "f x (w1, []) = (r2, w2, es2)" by (cases "f x (w1, [])")
    with Inr m ml appendsD [OF assms(2) f] show ?thesis by (simp add: assms(4))
  qed
qed

lemma try_kret: "(Inr x, s') = kret x s'" "(Inl e, s') = kfail e s'"
  by (simp_all add: kret_def kfail_def)

lemma appends_ctrlutil [appends_intro]: "appends (ctrlutil_CreateOrUpdate c x)"
proof (rule appends_try)
  show "appends (kget c (ko_key x))" by (rule appends_intro)
  show "appends (\<lambda>s'. let new = e\<lparr>ko_Spec := ko_Spec x\<rparr> in if kc_equal c e new then (Inr ResultNone, s')
      else kbind (kupdate c new) (\<lambda>_. kret ResultUpdated) s')" for e
    unfolding Let_def try_kret kupdate_def by (cases "kc_equal c e (e\<lparr>ko_Spec := ko_Spec x\<rparr>)") (auto intro!: appends_intro)
  show "appends (\<lambda>s'. if \<not> kc_not_found c e then (Inl e, s') else kbind (kcreate c x) (\<lambda>_. kret ResultCreated) s')" for e
    unfolding try_kret kcreate_def by (cases "kc_not_found c e") (auto intro!: appends_intro)
qed (simp add: ctrlutil_CreateOrUpdate_def)

lemma appends_CreateOrUpdate [appends_intro]: "appends (CreateOrUpdate c x)"
  by (auto simp: CreateOrUpdate_def intro!: appends_intro)

lemma appends_OnError [appends_intro]: "appends f \<Longrightarrow> appends (OnError n again f d)"
proof (induction n)
  case (Suc n)
  show ?case
  proof (rule appends_try [where f = kret and g = "\<lambda>e s'. if again e \<and> n > 0 then OnError n again f d s' else (Inl e, s')", OF Suc.prems])
    show "appends (kret x)" for x :: 'b by (rule appends_intro)
    show "appends (\<lambda>s'. if again e \<and> n > 0 then OnError n again f d s' else (Inl e, s'))" for e
      using Suc unfolding try_kret by (cases "again e \<and> n > 0") (auto intro!: appends_intro)
  qed (simp add: kret_def split: sum.splits prod.splits)
qed (auto intro: appends_intro)

lemma appends_DeleteIfPresent [appends_intro]: "appends (DeleteIfPresent c k)"
proof (rule appends_try [where f = "\<lambda>_. kret ()" and
    g = "\<lambda>e s'. if kc_not_found c e then (Inr (), s') else (Inl (Wrapf ''deleting object'' [] e), s')"])
  show "appends (kdelete c k)" unfolding kdelete_def by (rule appends_intro)
  show "appends (kret ())" by (rule appends_intro)
  show "appends (\<lambda>s'. if kc_not_found c e then (Inr (), s') else (Inl (Wrapf ''deleting object'' [] e), s'))" for e
    unfolding try_kret by (cases "kc_not_found c e") (auto intro!: appends_intro)
qed (simp add: DeleteIfPresent_def kret_def split: sum.splits prod.splits)

lemma appends_enforce_object [appends_intro]: "appends (enforce_object c cfg x)"
  unfolding enforce_object_def by (intro appends_intro)

lemma appends_EnforceKubeInstall [appends_intro]: "appends (EnforceKubeInstall c cfg depls)"
  unfolding EnforceKubeInstall_def by (intro appends_intro)

lemma appends_run_step [appends_intro]: "appends (run_step c f st)"
  unfolding run_step_def DeleteHelmChartIfPresent_def
  by (cases "snd st") (auto intro!: appends_intro)

section \<open>Runs of sequences\<close>

lemma kbind_run:
  assumes "appends m" "\<And>x. appends (f x)"
  shows "kbind m f (w, []) = (r, w', es) \<longleftrightarrow>
    (\<exists>e. m (w, []) = (Inl e, w', es) \<and> r = Inl e) \<or>
    (\<exists>x w1 es1 es2. m (w, []) = (Inr x, w1, es1) \<and> f x (w1, []) = (r, w', es2) \<and> es = es1 @ es2)"
proof -
  obtain r0 w1 es1 where m: "m (w, []) = (r0, w1, es1)" by (cases "m (w, [])")
  show ?thesis
  proof (cases r0)
    case (Inl e)
    with m show ?thesis by (auto simp: kbind_def)
  next
    case (Inr x)
    obtain r2 w2 es2 where f: "f x (w1, []) = (r2, w2, es2)" by (cases "f x (w1, [])")
    with Inr m appendsD [OF assms(2) f, of es1] show ?thesis by (auto simp: kbind_def)
  qed
qed

lemma kbind_Inr:
  assumes "appends m" "\<And>x. appends (f x)" "kbind m f (w, []) = (Inr y, w', es)"
  obtains x w1 es1 es2 where "m (w, []) = (Inr x, w1, es1)" "f x (w1, []) = (Inr y, w', es2)" "es = es1 @ es2"
  using assms by (auto simp: kbind_run)

lemma kwrap_run: "kwrap msg args m s = (r, s') \<longleftrightarrow> (\<exists>r0. m s = (r0, s') \<and> r = ewrap msg args r0)"
  by (auto simp: kwrap_def split: prod.splits)

lemma kwrap_Inr: "kwrap msg args m s = (Inr x, s') \<longleftrightarrow> m s = (Inr x, s')"
  by (auto simp: kwrap_run) (metis ewrap_Inr_iff)

lemma klift_run: "klift v (w, l) = (r, w', l') \<longleftrightarrow> r = v \<and> w' = w \<and> l' = l"
  by (auto simp: klift_def)

lemma kret_run: "kret x (w, l) = (r, w', l') \<longleftrightarrow> r = Inr x \<and> w' = w \<and> l' = l"
  by (auto simp: kret_def)

lemma kbind_klift_Inr: "kbind (klift v) f s = (Inr y, s') \<longleftrightarrow> (\<exists>x. v = Inr x \<and> f x s = (Inr y, s'))"
  by (cases v) (simp_all add: kbind_def klift_def)

lemma kbind_kret_Inr: "kbind m (\<lambda>x. kret (g x)) s = (Inr y, s') \<longleftrightarrow> (\<exists>x. m s = (Inr x, s') \<and> y = g x)"
  by (auto simp: kbind_def kret_def split: prod.splits sum.splits)

lemmas kio_Inr = kbind_klift_Inr kbind_kret_Inr kwrap_Inr ewrap_Inr_iff

text \<open>A successful sequence is a list of successful runs.\<close>

inductive seq_runs :: "('a \<Rightarrow> ('w, unit) kio) \<Rightarrow> 'a list \<Rightarrow> 'w \<Rightarrow> kevent list list \<Rightarrow> 'w \<Rightarrow> bool" for f where
  seq_nil: "seq_runs f [] w [] w"
| seq_cons: "f x (w, []) = (Inr (), w1, es) \<Longrightarrow> seq_runs f xs w1 ess w' \<Longrightarrow> seq_runs f (x # xs) w (es # ess) w'"

inductive_cases seq_runs_cons: "seq_runs f (x # xs) w ess w'"

lemma kseq_Inr:
  assumes "\<And>x. appends (f x)" "kseq f xs (w, []) = (Inr (), w', es)"
  shows "\<exists>ess. seq_runs f xs w ess w' \<and> es = concat ess"
  using assms(2)
proof (induction xs arbitrary: w es)
  case (Cons x xs)
  from Cons.prems have "kbind (f x) (\<lambda>_. kseq f xs) (w, []) = (Inr (), w', es)" by simp
  from kbind_Inr [OF assms(1) appends_kseq [OF assms(1)] this] obtain u w1 es1 es2
    where r: "f x (w, []) = (Inr u, w1, es1)" "kseq f xs (w1, []) = (Inr (), w', es2)" "es = es1 @ es2" by blast
  from Cons.IH [OF r(2)] obtain ess where "seq_runs f xs w1 ess w'" "es2 = concat ess" by blast
  with r show ?case by (intro exI [of _ "es1 # ess"]) (auto intro: seq_cons)
qed (auto simp: kret_def intro: seq_nil)

lemma seq_runs_list: "seq_runs f xs w ess w' \<Longrightarrow> (\<And>x w w' es. x \<in> set xs \<Longrightarrow> f x (w, []) = (Inr (), w', es) \<Longrightarrow> P x es) \<Longrightarrow>
    list_all2 P xs ess"
  by (induction rule: seq_runs.induct) auto

section \<open>What an enforced install leaves in the record\<close>

text \<open>
  The calls that settle an object: it was found equal to what is wanted, or found and updated with the
  wanted spec over everything else it had, or not found and created.
\<close>

definition settles :: "'w kclient \<Rightarrow> kobject \<Rightarrow> kevent list \<Rightarrow> bool" where
  "settles c x es \<longleftrightarrow>
     (\<exists>old. es = [KGet (ko_key x) (Inr old)] \<and> kc_equal c old (old\<lparr>ko_Spec := ko_Spec x\<rparr>)) \<or>
     (\<exists>old. es = [KGet (ko_key x) (Inr old), KUpdate (old\<lparr>ko_Spec := ko_Spec x\<rparr>) None]) \<or>
     (\<exists>e. es = [KGet (ko_key x) (Inl e), KCreate (fresh_meta x) None] \<and> kc_not_found c e)"

lemma fresh_meta_simps [simp]:
  "ko_key (fresh_meta x) = ko_key x" "ko_Spec (fresh_meta x) = ko_Spec x" "fresh_meta (fresh_meta x) = fresh_meta x"
  "fresh_meta (x\<lparr>ko_Kind := k\<rparr>) = fresh_meta x"
  by (simp_all add: fresh_meta_def ko_key_def)

lemma ko_key_kind [simp]: "ko_key (x\<lparr>ko_Kind := k\<rparr>) = ko_key x"
  by (simp add: ko_key_def)

lemma CreateOrUpdate_Inr:
  "CreateOrUpdate c x (w, []) = (Inr res, w', es) \<Longrightarrow> supported (ko_Spec x) \<and> settles c x es"
  by (auto simp: CreateOrUpdate_def ctrlutil_CreateOrUpdate_def kwrap_Inr settles_def kget_def kupdate_def kcreate_def kwrite_def
      kbind_def kret_def kfail_def Let_def split: if_splits prod.splits sum.splits option.splits)

lemma OnError_Inr:
  assumes "appends f" "OnError n again f d (w, []) = (Inr x, w', es)" "n > 0"
  shows "\<exists>pre w1 es'. es = pre @ es' \<and> f (w1, []) = (Inr x, w', es') \<and> (n = 1 \<longrightarrow> pre = [])"
  using assms(2,3)
proof (induction n arbitrary: w es)
  case (Suc n)
  obtain r w1 es1 where f: "f (w, []) = (r, w1, es1)" by (cases "f (w, [])")
  show ?case
  proof (cases r)
    case (Inr y)
    with f Suc.prems have "f (w, []) = (Inr x, w', es)" by simp
    then show ?thesis by (intro exI [of _ "[]"] exI [of _ w] exI [of _ es]) simp
  next
    case (Inl e)
    with f Suc.prems have again: "n > 0" and o: "OnError n again f d (w1, es1) = (Inr x, w', es)"
      by (auto split: if_splits)
    obtain r2 w2 es2 where o2: "OnError n again f d (w1, []) = (r2, w2, es2)" by (cases "OnError n again f d (w1, [])")
    from appendsD [OF appends_OnError [OF assms(1)] o2, of es1] o o2
    have e: "OnError n again f d (w1, []) = (Inr x, w', es2)" "es = es1 @ es2" by auto
    from Suc.IH [OF e(1) again] obtain pre w3 es' where "es2 = pre @ es'" "f (w3, []) = (Inr x, w', es')" by blast
    with e(2) again show ?thesis by (intro exI [of _ "es1 @ pre"]) auto
  qed
qed simp

definition enforced :: "'w kclient \<Rightarrow> fab_object \<Rightarrow> kobject \<Rightarrow> kevent list \<Rightarrow> bool" where
  "enforced c cfg x es \<longleftrightarrow> supported (ko_Spec x) \<and>
     (\<exists>pre es'. es = pre @ es' \<and> settles c x es' \<and> (backoff_steps cfg = 1 \<longrightarrow> pre = []))"

lemma settles_kind: "settles c (x\<lparr>ko_Kind := k\<rparr>) es = settles c x es"
  by (simp add: settles_def)

lemma EnsureKind_Inr: "EnsureKind c x = Inr y \<Longrightarrow> \<exists>k. y = x\<lparr>ko_Kind := k\<rparr>"
proof (cases "ko_Kind x = ''''")
  case True
  assume "EnsureKind c x = Inr y"
  with True obtain kinds where "(case kinds of [] \<Rightarrow> Inl (Errf ''no object kinds found for %T'' [kind_of (ko_Spec x)])
        | [k] \<Rightarrow> Inr (x\<lparr>ko_Kind := k\<rparr>)
        | _ \<Rightarrow> Inl (Errf ''multiple object kinds found for %T'' [kind_of (ko_Spec x)])) = Inr y"
    by (auto simp: EnsureKind_def ok_iff)
  then show ?thesis by (cases kinds) (auto split: list.splits)
next
  case False
  assume "EnsureKind c x = Inr y"
  with False show ?thesis by (intro exI [of _ "ko_Kind x"]) (simp add: EnsureKind_def)
qed

lemma enforce_object_Inr:
  assumes "enforce_object c cfg x (w, []) = (Inr (), w', es)"
  shows "enforced c cfg x es"
proof -
  have n: "backoff_steps cfg > 0" by (simp add: backoff_steps_def)
  from assms [unfolded enforce_object_def kio_Inr] obtain y res where y: "EnsureKind c x = Inr y"
    and "OnError (backoff_steps cfg) (\<lambda>e. \<not> kc_conflict c e) (CreateOrUpdate c y) ResultNone (w, []) = (Inr res, w', es)"
    by blast
  from OnError_Inr [OF appends_CreateOrUpdate this(2) n] obtain pre w1 es' where o: "es = pre @ es'"
    "CreateOrUpdate c y (w1, []) = (Inr res, w', es')" "backoff_steps cfg = 1 \<longrightarrow> pre = []" by blast
  from EnsureKind_Inr [OF y] obtain k where k: "y = x\<lparr>ko_Kind := k\<rparr>" by blast
  from CreateOrUpdate_Inr [OF o(2)] k have "supported (ko_Spec x)" "settles c x es'" by (simp_all add: settles_kind)
  with o show ?thesis unfolding enforced_def by blast
qed

text \<open>An install is enforced when its objects are, one after the other.\<close>

lemma EnforceKubeInstall_Inr:
  assumes "EnforceKubeInstall c cfg [inst] (w, []) = (Inr (), w', es)"
  shows "\<exists>objs ess. inst cfg = Inr objs \<and> list_all2 (enforced c cfg) objs ess \<and> es = concat ess"
proof -
  from assms obtain objs where objs: "inst cfg = Inr objs" "kseq (enforce_object c cfg) objs (w, []) = (Inr (), w', es)"
    by (auto simp: EnforceKubeInstall_def kio_Inr)
  from kseq_Inr [OF appends_enforce_object objs(2)] obtain ess
    where "seq_runs (enforce_object c cfg) objs w ess w'" "es = concat ess" by blast
  with objs(1) enforce_object_Inr show ?thesis by (metis seq_runs_list)
qed

end
