(* ===== verification/InstallProps.thy ===== *)
theory InstallProps
  imports KubeLog
begin

text \<open>
  How the installs fit the rest: the artifacts an air-gapped installation uploads, the validation of a
  Fabricator, the versions it computes, and the status checks that read back what was installed.
\<close>

section \<open>The artifacts of an air-gapped installation\<close>

definition AirgapArtifactsBase :: "(fab_object \<Rightarrow> string gomap result) list" where
  "AirgapArtifactsBase = [FlatcarArtifacts, CertManagerArtifacts, ZotArtifacts, ReloaderArtifacts, FabricArtifacts,
     NTPArtifacts, ControlProxyArtifacts, F8rArtifacts, AlloyArtifacts]"

definition AirgapArtifactsGateway :: "(fab_object \<Rightarrow> string gomap result) list" where
  "AirgapArtifactsGateway = [GatewayArtifacts]"

definition airgap_artifacts :: "fab_object \<Rightarrow> string gomap result" where
  "airgap_artifacts cfg = ewrap ''collecting airgap artifacts'' [] (CollectArtifacts cfg
     (AirgapArtifactsBase @ (if GwEnable (Gateway (fabcfg cfg)) then AirgapArtifactsGateway else [])))"

lemmas artifact_refs = ReloaderChartRef_def ReloaderImageRef_def CertManagerChartRef_def ControllerImageRef_def WebhookImageRef_def
  CAInjectorImageRef_def ACMESolverImageRef_def StartupAPICheckImageRef_def NTPChartRef_def NTPImageRef_def ZotChartRef_def
  ZotImageRef_def ControlProxyChartRef_def ControlProxyImageRef_def CtrlRef_def CtrlChartRef_def APIChartRef_def CtlRef_def
  NodeConfigRef_def DataplaneRef_def DataplaneValidatorRef_def FRRRef_def ToolboxRef_def HostBGPRef_def AlloyBinRef_def
  AlloyImageRef_def AlloyChartRef_def FabricAPIChartRef_def FabricCtrlChartRef_def FabricCtrlRef_def DHCPChartRef_def DHCPRef_def
  BootChartRef_def BootRef_def AgentRef_def FabricCtlRef_def

definition put_all :: "string gomap \<Rightarrow> string gomap \<Rightarrow> string gomap" where
  "put_all arts res = fold (\<lambda>(k, v) m. map_put k v m) arts res"

lemma map_of_put_all: "map_of (put_all arts res) k = (case map_of (rev arts) k of Some v \<Rightarrow> Some v | None \<Rightarrow> map_of res k)"
proof (induction arts arbitrary: res)
  case (Cons kv arts)
  then show ?case by (cases kv) (auto simp: put_all_def map_add_Some_iff map_add_def split: option.splits)
qed (simp add: put_all_def)

lemma collect_steps:
  "CollectArtifacts cfg ls = efold (\<lambda>list res. ebind (ewrap ''listing artifacts'' [] (list cfg)) (\<lambda>arts. Inr (put_all arts res))) ls []"
  by (simp add: CollectArtifacts_def put_all_def)

text \<open>An operating system or ONIE image of a switch does not share its reference with a component.\<close>

definition switch_ref :: "string \<Rightarrow> bool" where
  "switch_ref r \<longleftrightarrow> r \<noteq> '''' \<and> hd r \<in> {CHR ''s'', CHR ''c'', CHR ''o'', CHR ''i''}"

lemma join_base: "trim_slashes b = b \<Longrightarrow> b \<noteq> '''' \<Longrightarrow> hd (JoinURLParts [b, n]) = hd b \<and> JoinURLParts [b, n] \<noteq> ''''"
  by (cases b) (simp_all add: JoinURLParts_def)

lemma base_trimmed:
  "trim_slashes BroadcomSonicRefBase = BroadcomSonicRefBase" "trim_slashes CelesticaSonicRefBase = CelesticaSonicRefBase"
  "trim_slashes CumulusRefBase = CumulusRefBase" "trim_slashes OnieRefBase = OnieRefBase" "trim_slashes ''invalid'' = ''invalid''"
  by (simp_all add: trim_slashes_def BroadcomSonicRefBase_def CelesticaSonicRefBase_def CumulusRefBase_def OnieRefBase_def)

lemma switch_ref_nos: "switch_ref (JoinURLParts [getNOSRefBase n, n])"
  using join_base [OF base_trimmed(1), of n] join_base [OF base_trimmed(2), of n] join_base [OF base_trimmed(3), of n]
    join_base [OF base_trimmed(5), of n]
  by (auto simp: switch_ref_def getNOSRefBase_def BroadcomSonicRefBase_def CelesticaSonicRefBase_def CumulusRefBase_def)

lemma switch_ref_onie: "switch_ref (JoinURLParts [OnieRefBase, p])"
  using join_base [OF base_trimmed(4), of p] by (auto simp: switch_ref_def OnieRefBase_def)

definition fabric_fixed :: "fab_object \<Rightarrow> string gomap" where
  "fabric_fixed cfg = (let v = fabric_vers cfg in
     [(FabricAPIChartRef, fv_API v), (FabricCtrlChartRef, fv_Controller v), (FabricCtrlRef, fv_Controller v),
      (DHCPChartRef, fv_DHCPD v), (DHCPRef, fv_DHCPD v), (BootChartRef, fv_Boot v), (BootRef, fv_Boot v),
      (AgentRef, fv_Agent v), (FabricCtlRef, fv_Ctl v), (AlloyBinRef, pv_Alloy (platform cfg))])"

lemma FabricArtifacts_fixed:
  assumes "FabricArtifacts cfg = Inr arts" "\<not> switch_ref r"
  shows "map_of arts r = map_of (fabric_fixed cfg) r \<and> (distinct (map fst arts))"
proof -
  let ?P = "\<lambda>m. map_of m r = map_of (fabric_fixed cfg) r \<and> distinct (map fst m)"
  have start: "?P (fabric_fixed cfg)" by (simp add: fabric_fixed_def Let_def artifact_refs)
  from assms(1) obtain m where m: "efold (add_nos_artifact cfg) (fv_NOS (fabric_vers cfg)) (fabric_fixed cfg) = Inr m"
    "efold add_onie_artifact (fv_ONIE (fabric_vers cfg)) m = Inr arts"
    by (auto simp: FabricArtifacts_def fabric_fixed_def Let_def ok_iff)
  have "?P m" using m(1) start
    by (rule efold_invariant)
      (use assms(2) switch_ref_nos in \<open>auto simp: add_nos_artifact_def distinct_map_put split: if_splits prod.splits\<close>)
  from m(2) this show ?thesis
    by (rule efold_invariant)
      (use assms(2) switch_ref_onie in \<open>auto simp: add_onie_artifact_def distinct_map_put split: if_splits prod.splits\<close>)
qed

lemma map_of_rev_distinct: "distinct (map fst m) \<Longrightarrow> map_of (rev m) k = map_of m k"
proof (induction m)
  case (Cons kv m)
  have "map_of m (fst kv) = None" using Cons.prems by (simp add: map_of_eq_None_iff)
  with Cons show ?case by (cases kv) (auto simp: map_add_def split: option.splits)
qed simp

text \<open>Every fixed artifact of a component is among the artifacts of an air-gapped installation.\<close>

definition component_artifacts :: "fab_object \<Rightarrow> string gomap" where
  "component_artifacts cfg = (let p = platform cfg; f = fabricator_vers cfg in
     [(ToolboxRef, pv_Toolbox p), (HostBGPRef, pv_HostBGPContainer p),
      (CertManagerChartRef, pv_CertManager p), (ControllerImageRef, pv_CertManager p), (WebhookImageRef, pv_CertManager p),
      (CAInjectorImageRef, pv_CertManager p), (ACMESolverImageRef, pv_CertManager p), (StartupAPICheckImageRef, pv_CertManager p),
      (ZotChartRef, pv_ZotChart p), (ZotImageRef, pv_Zot p), (ReloaderChartRef, pv_ReloaderChart p), (ReloaderImageRef, pv_Reloader p),
      (NTPChartRef, pv_NTPChart p), (NTPImageRef, pv_NTP p),
      (ControlProxyChartRef, pv_ControlProxyChart p), (ControlProxyImageRef, pv_ControlProxy p),
      (APIChartRef, rv_API f), (CtrlRef, rv_Controller f), (CtrlChartRef, rv_Controller f), (CtlRef, rv_Ctl f),
      (NodeConfigRef, rv_NodeConfig f), (AlloyImageRef, pv_Alloy p), (AlloyChartRef, pv_Alloy p)] @ fabric_fixed cfg)"

lemma component_refs: "kv \<in> set (component_artifacts cfg) \<Longrightarrow> \<not> switch_ref (fst kv) \<and> fst kv \<notin> {DataplaneRef, DataplaneValidatorRef, FRRRef}"
  by (auto simp: component_artifacts_def fabric_fixed_def Let_def switch_ref_def artifact_refs)

lemma component_artifacts_distinct: "distinct (map fst (component_artifacts cfg))"
  by (simp add: component_artifacts_def fabric_fixed_def Let_def artifact_refs)

lemma airgap_lookup:
  assumes "airgap_artifacts cfg = Inr arts" "(r, v) \<in> set (component_artifacts cfg)"
  shows "map_of arts r = Some v"
proof -
  have c: "map_of (component_artifacts cfg) r = Some v"
    using assms(2) component_artifacts_distinct by (rule map_of_is_SomeI [rotated])
  from component_refs [OF assms(2)] have r: "\<not> switch_ref r" "r \<notin> {DataplaneRef, DataplaneValidatorRef, FRRRef}" by simp_all
  have gateway: "map_of (put_all arts' m) r = map_of m r" if "GatewayArtifacts cfg = Inr arts'" for arts' m
    using that r(2) by (auto simp: GatewayArtifacts_def map_of_put_all)
  from assms(1) obtain fa rest where fa: "FabricArtifacts cfg = Inr fa" and
    arts: "map_of arts r = map_of (put_all [(AlloyImageRef, pv_Alloy (platform cfg)), (AlloyChartRef, pv_Alloy (platform cfg))] rest) r" and
    rest: "rest = put_all (projr (F8rArtifacts cfg)) (put_all (projr (ControlProxyArtifacts cfg)) (put_all (projr (NTPArtifacts cfg))
      (put_all fa (put_all (projr (ReloaderArtifacts cfg)) (put_all (projr (ZotArtifacts cfg)) (put_all (projr (CertManagerArtifacts cfg))
        (put_all (projr (FlatcarArtifacts cfg)) [])))))))"
    by (auto simp: airgap_artifacts_def collect_steps AirgapArtifactsBase_def AirgapArtifactsGateway_def ok_iff gateway
        FlatcarArtifacts_def CertManagerArtifacts_def ZotArtifacts_def ReloaderArtifacts_def NTPArtifacts_def ControlProxyArtifacts_def
        F8rArtifacts_def AlloyArtifacts_def Let_def split: if_splits)
  have f: "map_of (rev fa) r = map_of (fabric_fixed cfg) r"
    using FabricArtifacts_fixed [OF fa r(1)] by (simp add: map_of_rev_distinct)
  show ?thesis
    using c unfolding arts rest map_of_put_all f
    by (auto simp: component_artifacts_def FlatcarArtifacts_def CertManagerArtifacts_def ZotArtifacts_def ReloaderArtifacts_def
        NTPArtifacts_def ControlProxyArtifacts_def F8rArtifacts_def Let_def fabric_fixed_def artifact_refs split: if_splits)
qed

text \<open>A chart of the registry: a reference and a version that are among the artifacts.\<close>

definition chart_of :: "fab_object \<Rightarrow> kobject \<Rightarrow> bool" where
  "chart_of cfg x \<longleftrightarrow> (\<forall>h. ko_Spec x = HelmChart h \<longrightarrow> (\<exists>r reg. RegistryURL cfg = Inr reg \<and>
     hc_Chart h = OCISchema @ JoinURLParts [reg, RegistryPrefix, r] \<and> (r, hc_Version h) \<in> set (component_artifacts cfg)))"

lemma chart_of_helm:
  assumes "NewHelmChart cfg name r v boot ab vals = Inr x" "\<not> st_IsBootstrap (fo_Status cfg)" "(r, v) \<in> set (component_artifacts cfg)"
  shows "chart_of cfg x"
  using assms by (auto simp: NewHelmChart_def ChartURL_def ok_iff chart_of_def new_object_def) blast

lemma chart_of_other [simp]:
  "chart_of cfg (NewSecret n t d)" "chart_of cfg (NewConfigMap n d)" "chart_of cfg (NewCertificate n c)" "chart_of cfg (NewService n sel ps)"
  "chart_of cfg (NewDaemonSet n l p)" "chart_of cfg (NewDHCPSubnet n dh)"
  by (simp_all add: chart_of_def NewSecret_def NewConfigMap_def NewCertificate_def NewService_def NewDaemonSet_def NewDHCPSubnet_def new_object_def)

lemma component_artifacts_in:
  "(ReloaderChartRef, pv_ReloaderChart (platform cfg)) \<in> set (component_artifacts cfg)"
  "(CertManagerChartRef, pv_CertManager (platform cfg)) \<in> set (component_artifacts cfg)"
  "(ZotChartRef, pv_ZotChart (platform cfg)) \<in> set (component_artifacts cfg)"
  "(NTPChartRef, pv_NTPChart (platform cfg)) \<in> set (component_artifacts cfg)"
  "(ControlProxyChartRef, pv_ControlProxyChart (platform cfg)) \<in> set (component_artifacts cfg)"
  "(CtrlChartRef, rv_Controller (fabricator_vers cfg)) \<in> set (component_artifacts cfg)"
  "(APIChartRef, rv_API (fabricator_vers cfg)) \<in> set (component_artifacts cfg)"
  "(AlloyChartRef, pv_Alloy (platform cfg)) \<in> set (component_artifacts cfg)"
  "(FabricAPIChartRef, fv_API (fabric_vers cfg)) \<in> set (component_artifacts cfg)"
  "(FabricCtrlChartRef, fv_Controller (fabric_vers cfg)) \<in> set (component_artifacts cfg)"
  "(DHCPChartRef, fv_DHCPD (fabric_vers cfg)) \<in> set (component_artifacts cfg)"
  "(BootChartRef, fv_Boot (fabric_vers cfg)) \<in> set (component_artifacts cfg)"
  by (simp_all add: component_artifacts_def fabric_fixed_def Let_def)

lemma fabric_chart_of:
  "fabric_chart lb cfg what creating name img r file v extra = Inr x \<Longrightarrow> \<not> st_IsBootstrap (fo_Status cfg) \<Longrightarrow>
     (r, v) \<in> set (component_artifacts cfg) \<Longrightarrow> chart_of cfg x"
  by (auto simp: fabric_chart_def ok_iff intro: chart_of_helm)

lemma alloy_charts_of:
  assumes "\<not> st_IsBootstrap (fo_Status cfg)"
  shows "gateway_alloy_chart lb cfg u = Inr x \<Longrightarrow> chart_of cfg x" "control_alloy_chart lb cfg u = Inr x \<Longrightarrow> chart_of cfg x"
  using assms chart_of_helm [OF _ assms component_artifacts_in(8)]
  by (auto simp: gateway_alloy_chart_def control_alloy_chart_def ok_iff split: option.splits)

lemma install_charts:
  assumes "(msg, Enforce inst) \<in> set (apply_steps lb control pw)" "inst cfg = Inr objs" "\<not> st_IsBootstrap (fo_Status cfg)"
  shows "list_all (chart_of cfg) objs"
proof -
  note chart = chart_of_helm [OF _ assms(3)]
  have "list_all (chart_of cfg) objs" if "ReloaderInstall lb cfg = Inr objs \<or> CertManagerInstall lb cfg = Inr objs \<or> ZotInstall lb cfg = Inr objs"
    using that chart [OF _ component_artifacts_in(1)] chart [OF _ component_artifacts_in(2)] chart [OF _ component_artifacts_in(3)]
    by (auto simp: ReloaderInstall_def CertManagerInstall_def ZotInstall_def Let_def ok_iff)
  moreover have "list_all (chart_of cfg) objs" if "NTPInstall lb cfg = Inr objs \<or> ControlProxyInstall lb cfg = Inr objs \<or> F8rInstall lb cfg = Inr objs"
    using that chart [OF _ component_artifacts_in(4)] chart [OF _ component_artifacts_in(5)] chart [OF _ component_artifacts_in(6)]
      chart [OF _ component_artifacts_in(7)]
    by (auto simp: NTPInstall_def ControlProxyInstall_def F8rInstall_def Let_def ok_iff)
  moreover have "list_all (chart_of cfg) objs" if "FabricInstall lb control cfg = Inr objs"
    using that fabric_chart_of [OF _ assms(3) component_artifacts_in(10)] fabric_chart_of [OF _ assms(3) component_artifacts_in(11)]
      fabric_chart_of [OF _ assms(3) component_artifacts_in(12)] chart [OF _ component_artifacts_in(9)]
    by (auto simp: FabricInstall_def Let_def ok_iff)
  moreover have "list_all (chart_of cfg) objs" if "AlloyInstall lb cfg = Inr objs"
    using that alloy_charts_of [OF assms(3)] by (auto simp: AlloyInstall_def ok_iff split: if_splits)
  moreover have "list_all (chart_of cfg) objs"
    if "InstallManagementDHCPSubnet cfg = Inr objs \<or> InstallNodeRegistries lb RegistryUserReader pw cfg = Inr objs \<or> InstallNodeConfig cfg = Inr objs"
    using that by (auto simp: InstallManagementDHCPSubnet_def InstallNodeRegistries_def InstallNodeConfig_def Let_def ok_iff)
  ultimately show ?thesis using assms(1,2) unfolding apply_steps_def by auto
qed

text \<open>
  C29. Everything the operator installs is there in an air-gapped installation: every chart of its steps
  is a chart of the local registry, and among the artifacts uploaded there with the version the chart
  asks for.
\<close>

theorem charts_in_airgap_artifacts:
  assumes "airgap_artifacts cfg = Inr arts" "\<not> st_IsBootstrap (fo_Status cfg)"
    and "(msg, Enforce inst) \<in> set (apply_steps lb control pw)" "inst cfg = Inr objs" "x \<in> set objs" "ko_Spec x = HelmChart h"
  shows "\<exists>r reg. RegistryURL cfg = Inr reg \<and> hc_Chart h = OCISchema @ JoinURLParts [reg, RegistryPrefix, r] \<and>
    map_of arts r = Some (hc_Version h)"
proof -
  from install_charts [OF assms(3,4,2)] assms(5) have "chart_of cfg x" by (simp add: list_all_iff)
  with assms(6) airgap_lookup [OF assms(1)] show ?thesis unfolding chart_of_def by blast
qed

end
