(* ===== verification/InstallOk.thy ===== *)
theory InstallOk
  imports InstallProps
begin

text \<open>
  When a Fabricator that passes validation can be installed: exactly when the targets of its observability are
  ones that Alloy accepts and have URLs that parse. The validation looks at neither, so two installs of the operator
  may fail on what it accepted; no other install does. What the fabric controller then makes of the configuration
  is another matter: one subnet is never looked at by the validation.
\<close>

section \<open>Installs of a validated Fabricator\<close>

text \<open>
  The templates and encoders do not fail on what they are given. Alloy renders a configuration only after it has
  validated it, and that may fail, as may the parsing of a URL.
\<close>

definition libs_total :: "libs \<Rightarrow> bool" where
  "libs_total lb \<longleftrightarrow> (\<forall>n t d. \<exists>s. lb_template lb n t d = Inr s) \<and> (\<forall>a. \<exists>s. lb_alloy lb a = Inr s) \<and>
     (\<forall>c. \<exists>s. lb_fabric_yaml lb c = Inr s) \<and> (\<forall>c. \<exists>s. lb_boot_yaml lb c = Inr s) \<and>
     (\<forall>t. \<exists>s. lb_tolerations_yaml lb t = Inr s) \<and> (\<forall>c. \<exists>s. lb_creds_json lb c = Inr s)"

definition url_parses :: "libs \<Rightarrow> string \<times> alloy_target \<Rightarrow> bool" where
  "url_parses lb nt \<longleftrightarrow> (\<exists>h. lb_hostname lb (tg_URL (snd nt)) = Inr h)"

text \<open>The targets of a Fabricator, and what the installs need of them.\<close>

definition fab_targets :: "fab_object \<Rightarrow> alloy_targets" where
  "fab_targets cfg = Targets (Observability (fabcfg cfg))"

definition targets_ok :: "libs \<Rightarrow> fab_object \<Rightarrow> bool" where
  "targets_ok lb cfg \<longleftrightarrow> list_all good_target (all_targets (fab_targets cfg)) \<and> list_all (url_parses lb) (all_targets (fab_targets cfg))"

definition installable :: "fab_object \<Rightarrow> bool" where
  "installable cfg \<longleftrightarrow> (\<exists>vip. control_vip cfg = Inr vip) \<and> (\<exists>m. prefix_parse (ManagementSubnet (Control (fabcfg cfg))) = Inr m) \<and>
     (\<exists>cs. gateway_communities (Communities (Gateway (fabcfg cfg))) = Inr cs) \<and> ControlObservability (Control (fabcfg cfg)) \<noteq> None \<and>
     \<not> st_IsBootstrap (fo_Status cfg)"

lemma installable_urls:
  assumes "installable cfg"
  shows "\<exists>u. RegistryURL cfg = Inr u" "\<exists>u. image_for cfg r = Inr u" "\<exists>x. NewHelmChart cfg n c v b ab vals = Inr x"
  using assms by (auto simp: installable_def RegistryURL_def image_for_def ImageURL_def NewHelmChart_def ChartURL_def)

lemma ebind_total: "(\<exists>x. m = Inr x) \<Longrightarrow> (\<And>x. m = Inr x \<Longrightarrow> \<exists>y. f x = Inr y \<and> P y) \<Longrightarrow> \<exists>y. ebind m f = Inr y \<and> P y"
  by auto

lemma ewrap_total: "(\<exists>x. m = Inr x) \<Longrightarrow> \<exists>x. ewrap msg as m = Inr x"
  by auto

lemma target_hosts_iff: "(\<exists>us. target_hosts lb what ts acc = Inr us) \<longleftrightarrow> list_all (url_parses lb) ts"
  unfolding target_hosts_def
proof (induction ts arbitrary: acc)
  case (Cons t ts)
  then show ?case by (cases t; cases "lb_hostname lb (tg_URL (snd t))") (simp_all add: url_parses_def)
qed simp

text \<open>The objects of an install: of a kind that can be applied, and never the Fabricator itself.\<close>

definition plain_spec :: "kspec \<Rightarrow> bool" where
  "plain_spec s \<longleftrightarrow> supported s \<and> kind_of s \<noteq> ''Fabricator''"

lemma NewHelmChart_plain: "NewHelmChart cfg n c v b ab vals = Inr x \<Longrightarrow> plain_spec (ko_Spec x)"
  by (auto simp: NewHelmChart_def ok_iff new_object_def plain_spec_def)

lemma plain_objects [simp]:
  "plain_spec (ko_Spec (NewSecret n t d))" "plain_spec (ko_Spec (NewConfigMap n d))" "plain_spec (ko_Spec (NewCertificate n cs))"
  "plain_spec (ko_Spec (NewService n sel ps))" "plain_spec (ko_Spec (NewDaemonSet n l p))" "plain_spec (ko_Spec (NewDHCPSubnet n dh))"
  by (simp_all add: NewSecret_def NewConfigMap_def NewCertificate_def NewService_def NewDaemonSet_def NewDHCPSubnet_def new_object_def
      plain_spec_def)

abbreviation installs :: "kube_install \<Rightarrow> fab_object \<Rightarrow> bool" where
  "installs inst cfg \<equiv> \<exists>objs. inst cfg = Inr objs \<and> list_all (\<lambda>x. plain_spec (ko_Spec x)) objs"

lemma helm_total:
  assumes "installable cfg"
  shows "\<exists>x. ewrap msg as (NewHelmChart cfg n c v b ab vals) = Inr x \<and> plain_spec (ko_Spec x)"
proof -
  obtain x where "NewHelmChart cfg n c v b ab vals = Inr x" using installable_urls(3) [OF assms] by blast
  with NewHelmChart_plain [OF this] show ?thesis by simp
qed

lemma platform_installs:
  assumes "installable cfg" "libs_total lb"
  shows "installs (ReloaderInstall lb) cfg" "installs (CertManagerInstall lb) cfg" "installs (NTPInstall lb) cfg" "installs (F8rInstall lb) cfg"
proof -
  have t: "\<exists>s. lb_template lb n f d = Inr s" for n f d using assms(2) unfolding libs_total_def by blast
  note total = ebind_total ewrap_total t installable_urls [OF assms(1)]
  show "installs (ReloaderInstall lb) cfg" unfolding ReloaderInstall_def
    by (intro total) (auto simp: ok_iff intro: NewHelmChart_plain)
  show "installs (CertManagerInstall lb) cfg" unfolding CertManagerInstall_def Let_def
    by (intro total) (auto simp: ok_iff intro: NewHelmChart_plain)
  show "installs (NTPInstall lb) cfg" unfolding NTPInstall_def
    by (intro total) (auto simp: ok_iff intro: NewHelmChart_plain)
  show "installs (F8rInstall lb) cfg" unfolding F8rInstall_def
    by (intro total) (auto simp: ok_iff intro: NewHelmChart_plain)
qed

lemma service_installs:
  assumes "installable cfg" "libs_total lb"
  shows "installs (ZotInstall lb) cfg" "targets_ok lb cfg \<Longrightarrow> installs (ControlProxyInstall lb) cfg" "installs (InstallNodeRegistries lb u p) cfg"
    "installs InstallNodeConfig cfg" "installs InstallManagementDHCPSubnet cfg"
proof -
  have t: "\<exists>s. lb_template lb n f d = Inr s" "\<exists>s. lb_creds_json lb c = Inr s" for n f d c using assms(2) unfolding libs_total_def by blast+
  have v: "\<exists>vip. control_vip cfg = Inr vip" "\<exists>m. prefix_parse (ManagementSubnet (Control (fabcfg cfg))) = Inr m"
    using assms(1) unfolding installable_def by blast+
  note total = ebind_total ewrap_total t v installable_urls [OF assms(1)]
  show "installs (ZotInstall lb) cfg" unfolding ZotInstall_def Let_def
    by (intro total) (auto simp: ok_iff intro: NewHelmChart_plain)
  show "installs (ControlProxyInstall lb) cfg" if "targets_ok lb cfg"
  proof -
    have "\<exists>us. target_hosts lb what (Prometheus (fab_targets cfg)) acc = Inr us" "\<exists>us. target_hosts lb what (Loki (fab_targets cfg)) acc = Inr us"
      "\<exists>us. target_hosts lb what (Pyroscope (fab_targets cfg)) acc = Inr us" for what acc
      using that unfolding target_hosts_iff by (simp_all add: targets_ok_def all_targets_def)
    note hosts = this [unfolded fab_targets_def]
    show ?thesis unfolding ControlProxyInstall_def Let_def
      by (intro total hosts) (auto simp: ok_iff intro: NewHelmChart_plain)
  qed
  obtain reg where "RegistryURL cfg = Inr reg" using installable_urls(1) [OF assms(1)] by blast
  moreover obtain regs where "lb_template lb ''registries'' ''k3s/registries.tmpl.yaml''
      [(''Registry'', TStr reg), (''Username'', TStr u), (''Password'', TStr p)] = Inr regs" using t(1) by blast
  ultimately show "installs (InstallNodeRegistries lb u p) cfg"
    by (simp add: InstallNodeRegistries_def Registries_def RegistriesFor_def)
  show "installs InstallNodeConfig cfg" unfolding InstallNodeConfig_def node_config_image_def Let_def
    using installable_urls(2) [OF assms(1), of NodeConfigRef] by auto
  show "installs InstallManagementDHCPSubnet cfg" unfolding InstallManagementDHCPSubnet_def Let_def
    by (intro total) auto
qed

lemma render_alloy_iff:
  assumes "libs_total lb"
  shows "(\<exists>s. render_alloy (lb_alloy lb) c = Inr s) \<longleftrightarrow>
    list_all good_target (all_targets (ar_Targets c)) \<and> list_all (\<lambda>(n, s). good_ident n \<and> validate_scrape s = Inr ()) (ar_Scrapes c)"
proof -
  obtain s where t: "lb_alloy lb c = Inr s" using assms unfolding libs_total_def by blast
  have "efold (\<lambda>(name, s) _.
       ebind (ewrap ''invalid scrape name %q: %w'' [name] (validateIdentifier name)) (\<lambda>_.
       ewrap ''invalid scrape %q: %w'' [name] (validate_scrape s))) xs () = Inr () \<longleftrightarrow>
    list_all (\<lambda>(n, s). good_ident n \<and> validate_scrape s = Inr ()) xs" for xs
    unfolding case_prod_beta efold_unit_iff by (auto simp: ok_iff validateIdentifier_iff list_all_iff)
  then have "validate_alloy c = Inr () \<longleftrightarrow>
    list_all good_target (all_targets (ar_Targets c)) \<and> list_all (\<lambda>(n, s). good_ident n \<and> validate_scrape s = Inr ()) (ar_Scrapes c)"
    by (simp add: validate_alloy_def ok_iff validate_targets_iff)
  with t show ?thesis by (simp add: render_alloy_def ok_iff)
qed

lemma gateway_scrapes_valid: "list_all (\<lambda>(n, s). good_ident n \<and> validate_scrape s = Inr ()) (gateway_scrapes obs)"
proof -
  have "good_ident ''dataplane''" "good_ident ''frr''" "good_ident ''unix''" by code_simp+
  moreover have "loopback_port p \<noteq> ''''" for p by (simp add: loopback_port_def)
  ultimately show ?thesis by (auto simp: gateway_scrapes_def validate_scrape_def split: option.split)
qed

lemma alloy_installs:
  assumes "installable cfg" "libs_total lb" "targets_ok lb cfg"
  shows "installs (AlloyInstall lb) cfg"
proof -
  have t: "\<exists>s. lb_template lb n f d = Inr s" "\<exists>s. lb_tolerations_yaml lb ts = Inr s" for n f d ts
    using assms(2) unfolding libs_total_def by blast+
  have good: "list_all good_target (all_targets (Targets (Observability (fabcfg cfg))))"
    using assms(3) by (simp add: targets_ok_def fab_targets_def)
  have r: "\<exists>s. render_alloy (lb_alloy lb) \<lparr>ar_ProxyURL = u, ar_AutoHostname = a, ar_Targets = Targets (Observability (fabcfg cfg)),
      ar_Scrapes = sc, ar_KubePodLogs = p, ar_KubeEvents = ev, ar_Pyroscope = py\<rparr> = Inr s"
    if "sc = [] \<or> sc = gateway_scrapes obs" for u a sc p ev py obs
    unfolding render_alloy_iff [OF assms(2)] using good gateway_scrapes_valid that by auto
  obtain vip obs where v: "control_vip cfg = Inr vip" "ControlObservability (Control (fabcfg cfg)) = Some obs"
    using assms(1) unfolding installable_def by blast
  have g: "\<exists>x. gateway_alloy_chart lb cfg u = Inr x \<and> plain_spec (ko_Spec x)" for u
    unfolding gateway_alloy_chart_def using v(1)
    by (intro ebind_total helm_total [OF assms(1)] ewrap_total t r) auto
  have c: "\<exists>x. control_alloy_chart lb cfg u = Inr x \<and> plain_spec (ko_Spec x)" for u
    unfolding control_alloy_chart_def v(2) option.case
    by (intro ebind_total helm_total [OF assms(1)] ewrap_total t r) auto
  obtain u where u: "RegistryURL cfg = Inr u" using installable_urls(1) [OF assms(1)] by blast
  from g [of u] c [of u] obtain x y where "gateway_alloy_chart lb cfg u = Inr x" "plain_spec (ko_Spec x)"
    "control_alloy_chart lb cfg u = Inr y" "plain_spec (ko_Spec y)" by blast
  with u show ?thesis by (simp add: AlloyInstall_def)
qed

text \<open>What fails otherwise.\<close>

lemma alloy_needs_targets:
  assumes "AlloyInstall lb cfg = Inr objs" "ControlObservability (Control (fabcfg cfg)) \<noteq> None" "libs_total lb"
  shows "list_all good_target (all_targets (fab_targets cfg))"
proof -
  from assms(1) obtain u x where "control_alloy_chart lb cfg u = Inr x" by (auto simp: AlloyInstall_def ok_iff)
  moreover from assms(2) obtain obs where "ControlObservability (Control (fabcfg cfg)) = Some obs" by blast
  ultimately have "\<exists>s. render_alloy (lb_alloy lb)
      \<lparr>ar_ProxyURL = '''', ar_AutoHostname = True, ar_Targets = Targets (Observability (fabcfg cfg)), ar_Scrapes = [],
       ar_KubePodLogs = co_KubePodLogs obs, ar_KubeEvents = co_KubeEvents obs, ar_Pyroscope = False\<rparr> = Inr s"
    by (auto simp: control_alloy_chart_def ok_iff)
  then show ?thesis unfolding render_alloy_iff [OF assms(3)] by (simp add: fab_targets_def)
qed

lemma proxy_needs_urls:
  assumes "ControlProxyInstall lb cfg = Inr objs"
  shows "list_all (url_parses lb) (all_targets (fab_targets cfg))"
proof -
  from assms obtain u v w where "target_hosts lb ''prometheus'' (Prometheus (fab_targets cfg)) [] = Inr u"
    "target_hosts lb ''loki'' (Loki (fab_targets cfg)) u = Inr v" "target_hosts lb ''pyroscope'' (Pyroscope (fab_targets cfg)) v = Inr w"
    by (auto simp: ControlProxyInstall_def Let_def ok_iff fab_targets_def)
  then have "list_all (url_parses lb) (Prometheus (fab_targets cfg))" "list_all (url_parses lb) (Loki (fab_targets cfg))"
    "list_all (url_parses lb) (Pyroscope (fab_targets cfg))" using target_hosts_iff by metis+
  then show ?thesis by (simp add: all_targets_def)
qed

lemma fabric_installs:
  assumes "installable cfg" "libs_total lb"
  shows "installs (FabricInstall lb control) cfg"
proof -
  have t: "\<exists>s. lb_template lb n f d = Inr s" "\<exists>s. lb_fabric_yaml lb fc = Inr s" "\<exists>s. lb_boot_yaml lb bc = Inr s" for n f d fc bc
    using assms(2) unfolding libs_total_def by blast+
  have v: "\<exists>vip. control_vip cfg = Inr vip" "\<exists>cs. gateway_communities (Communities (Gateway (fabcfg cfg))) = Inr cs"
    using assms(1) unfolding installable_def by blast+
  have chart: "\<exists>x. fabric_chart lb cfg what creating n i c fl ver ex = Inr x" for what creating n i c fl ver ex
    unfolding fabric_chart_def using installable_urls(2,3) [OF assms(1)] t(1) by (metis ebind_simps(2) ewrap_simps(2))
  have sup: "fabric_chart lb cfg what creating n i c fl ver ex = Inr x \<Longrightarrow> plain_spec (ko_Spec x)" for what creating n i c fl ver ex x
    by (auto simp: fabric_chart_def ok_iff intro: NewHelmChart_plain)
  obtain vip cs d1 d2 d3 d4 where "control_vip cfg = Inr vip" "gateway_communities (Communities (Gateway (fabcfg cfg))) = Inr cs"
    "image_for cfg DataplaneRef = Inr d1" "image_for cfg DataplaneValidatorRef = Inr d2" "image_for cfg FRRRef = Inr d3" "image_for cfg ToolboxRef = Inr d4"
    using v installable_urls(2) [OF assms(1)] by metis
  then have fc: "\<exists>fc. GetFabricConfig cfg = Inr fc" by (simp add: GetFabricConfig_def)
  have bc: "\<exists>bc. GetFabricBootConfig cfg = Inr bc" using installable_urls(1) [OF assms(1)] by (auto simp: GetFabricBootConfig_def)
  show ?thesis
    unfolding FabricInstall_def Let_def
    by (intro ebind_total ewrap_total t v(1) fc bc chart installable_urls(3) [OF assms(1)])
      (auto simp: ok_iff intro: NewHelmChart_plain sup)
qed

lemma installable_steps:
  assumes "installable cfg" "libs_total lb" "targets_ok lb cfg" "(msg, Enforce inst) \<in> set (apply_steps lb control pw)"
  shows "installs inst cfg"
  using assms(4) platform_installs [OF assms(1,2)] service_installs [OF assms(1,2)] alloy_installs [OF assms(1,2)] assms(3)
    fabric_installs [OF assms(1,2)]
  unfolding apply_steps_def by auto

section \<open>Validation\<close>

lemma communities_total:
  "efold validate_community comms () = Inr () \<Longrightarrow> \<exists>cs. gateway_communities comms = Inr cs"
proof -
  have "\<exists>cs. efold (\<lambda>(prioStr, commStr) res.
       ebind (ewrap ''config: gatewayCommunity priority %s is invalid'' [prioStr] (parse_uint prioStr 32)) (\<lambda>prio.
       Inr (map_put prio commStr res))) comms acc = Inr cs" if "efold validate_community comms () = Inr ()" for acc
    using that
  proof (induction comms arbitrary: acc)
    case (Cons pc comms)
    then obtain prio where "parse_uint (fst pc) 32 = Inr prio"
      by (cases pc) (auto simp: validate_community_def ok_iff Let_def)
    with Cons show ?case by (cases pc) (auto simp: ok_iff)
  qed simp
  then show "efold validate_community comms () = Inr () \<Longrightarrow> ?thesis" unfolding gateway_communities_def by blast
qed

lemma default_control_observability: "ControlObservability (Control (config_default c)) \<noteq> None"
  using config_default_defaulted [of c] by (simp add: defaulted_def)

lemma validated_installable:
  assumes "fab_validate sc f = Inr (fo_Fab cfg)" "\<not> st_IsBootstrap (fo_Status cfg)"
  shows "installable cfg"
proof -
  from assms(1) have f: "fo_Fab cfg = fab_default f" and v: "validate_config (Config (fo_Fab cfg)) = Inr ()"
    unfolding fab_validate_ok by auto
  from v obtain m d where m: "validate_control_subnets (fabcfg cfg) = Inr (m, d)"
    and c: "efold validate_community (Communities (Gateway (fabcfg cfg))) () = Inr ()"
    by (auto simp: validate_config_def ok_iff fabcfg_def)
  from m have "\<exists>vip. prefix_parse (VIP (Control (fabcfg cfg))) = Inr vip"
    by (auto simp: validate_control_subnets_def ok_iff)
  moreover have "ControlObservability (Control (fabcfg cfg)) \<noteq> None"
    using default_control_observability by (simp add: fabcfg_def f fab_default_def)
  ultimately show ?thesis
    using validate_control_subnets_ok [OF m] communities_total [OF c] assms(2)
    by (auto simp: installable_def control_vip_def fabcfg_def)
qed

text \<open>
  C28. Let a Fabricator pass validation and not be bootstrapping, and let the templates and encoders not fail. Then all
  installs of the operator succeed on it, each with objects of kinds that can be applied, exactly if every target of
  its observability has an identifier as its name and as its labels, a URL that is not empty and parses, and not both
  a user and a token. The validation checks none of these.
\<close>

theorem validated_fabricator_installs:
  assumes "fab_validate sc f = Inr (fo_Fab cfg)" "\<not> st_IsBootstrap (fo_Status cfg)" "libs_total lb"
  shows "(\<forall>(msg, st) \<in> set (apply_steps lb control pw). \<forall>inst. st = Enforce inst \<longrightarrow>
      (\<exists>objs. inst cfg = Inr objs \<and> list_all (\<lambda>x. supported (ko_Spec x)) objs)) \<longleftrightarrow>
    (\<forall>t \<in> set (all_targets (Targets (Observability (fabcfg cfg)))). good_target t \<and> (\<exists>h. lb_hostname lb (tg_URL (snd t)) = Inr h))"
    (is "?installs \<longleftrightarrow> ?targets")
proof -
  have inst: "installable cfg" by (rule validated_installable [OF assms(1,2)])
  have ok: "?targets \<longleftrightarrow> targets_ok lb cfg" by (auto simp: targets_ok_def fab_targets_def list_all_iff url_parses_def)
  show ?thesis unfolding ok
  proof
    assume all: ?installs
    have s: "(''enforcing controlproxy install'', Enforce (ControlProxyInstall lb)) \<in> set (apply_steps lb control pw)"
      "(''enforcing alloy install'', Enforce (AlloyInstall lb)) \<in> set (apply_steps lb control pw)" by (simp_all add: apply_steps_def)
    obtain o1 o2 where "ControlProxyInstall lb cfg = Inr o1" "AlloyInstall lb cfg = Inr o2"
      using bspec [OF all s(1)] bspec [OF all s(2)] by auto
    with inst show "targets_ok lb cfg" unfolding targets_ok_def
      by (auto intro: proxy_needs_urls alloy_needs_targets [OF _ _ assms(3)] simp: installable_def)
  next
    assume t: "targets_ok lb cfg"
    have "\<exists>objs. i cfg = Inr objs \<and> list_all (\<lambda>x. supported (ko_Spec x)) objs"
      if "(m, Enforce i) \<in> set (apply_steps lb control pw)" for m i
      using installable_steps [OF inst assms(3) t that] by (auto simp: plain_spec_def list_all_iff)
    then show ?installs by blast
  qed
qed

section \<open>The reserved subnets of the fabric controller\<close>

text \<open>\<^verbatim>\<open>FabricConfig.WithReservedSubnets\<close> of the fabric controller, which reads the configuration when it starts.\<close>

definition WithReservedSubnets :: "fabric_ctrl_config \<Rightarrow> prefix list result" where
  "WithReservedSubnets c =
     (if fc_ReservedSubnets c = [] then Inl (Errf ''config: reservedSubnets is required'' [])
      else efold (\<lambda>s acc. ebind (ewrap ''config: reservedSubnets: invalid subnet %s'' [s] (parse_prefix s)) (\<lambda>p.
        Inr (acc @ [prefix_masked p]))) (fc_ReservedSubnets c) [])"

lemma prefix_parse_netip: "prefix_parse s = Inr p \<Longrightarrow> parse_prefix s = Inr p"
  by (auto simp: prefix_parse_def split: sum.splits if_splits)

lemma reserved_loop:
  "(\<exists>ps. efold (\<lambda>s acc. ebind (ewrap msg [s] (parse_prefix s)) (\<lambda>p. Inr (acc @ [prefix_masked p]))) ss acc = Inr ps) \<longleftrightarrow>
     list_all (\<lambda>s. \<exists>p. parse_prefix s = Inr p) ss"
proof (induction ss arbitrary: acc)
  case (Cons s ss)
  show ?case
  proof (cases "parse_prefix s")
    case (Inr p)
    with Cons [of "acc @ [prefix_masked p]"] show ?thesis by simp
  qed simp
qed simp

text \<open>
  C30. The configuration the operator writes for the fabric controller of a validated Fabricator has
  reserved subnets the controller accepts exactly where the subnet of the external proxies parses: it
  alone among them is not looked at by the validation.
\<close>

theorem reserved_subnets_accepted_iff:
  assumes "fab_validate sc f = Inr (fo_Fab cfg)" "GetFabricConfig cfg = Inr fc"
  shows "(\<exists>ps. WithReservedSubnets fc = Inr ps) \<longleftrightarrow> (\<exists>p. parse_prefix (ProxyExternalSubnet (Fabric (fabcfg cfg))) = Inr p)"
proof -
  let ?c = "fabcfg cfg"
  from assms(1) have "validate_config ?c = Inr ()" unfolding fab_validate_ok fabcfg_def by blast
  then obtain ps where "map prefix_parse (reserved_strings ?c) = map Inr ps" by (rule validate_config_reserved)
  then have "\<forall>s\<in>set (reserved_strings ?c). \<exists>p. prefix_parse s = Inr p"
    by (metis (no_types, lifting) imageE image_eqI list.set_map)
  then have ok: "\<forall>s\<in>set (reserved_strings ?c). \<exists>p. parse_prefix s = Inr p" using prefix_parse_netip by blast
  from assms(2) have "fc_ReservedSubnets fc = [ManagementSubnet (Control ?c), FabricSubnet (Fabric ?c), ProtocolSubnet (Fabric ?c),
      VTEPSubnet (Fabric ?c), VPCWorkaroundSubnet (Fabric ?c), MCLAGSessionSubnet (Fabric ?c), ProxyExternalSubnet (Fabric ?c)]"
    by (auto simp: GetFabricConfig_def ok_iff fabric_config_with_def Let_def)
  with ok show ?thesis by (simp add: WithReservedSubnets_def reserved_loop reserved_strings_def del: efold.simps)
qed

end
