(* ===== verification/OperatorProps.thy ===== *)
theory OperatorProps
  imports KubeLog
begin

text \<open>
  What the operator promises, whatever the API server answers: the status says that a configuration is
  applied only after every component of it was enforced, in the order of the code; the readiness
  conditions are those of the components as they were read; and a reconciliation that is not disturbed
  succeeds.
\<close>

section \<open>The calls a program makes\<close>

definition calls :: "(kevent \<Rightarrow> bool) \<Rightarrow> ('w, 'a) kio \<Rightarrow> bool" where
  "calls P m \<longleftrightarrow> (\<forall>w r w' es. m (w, []) = (r, w', es) \<longrightarrow> list_all P es)"

named_theorems calls_intro \<open>programs that make only some calls\<close>

lemma callsD: "calls P m \<Longrightarrow> m (w, []) = (r, w', es) \<Longrightarrow> list_all P es"
  by (simp add: calls_def)

lemma calls_pure [calls_intro]: "calls P (kret x)" "calls P (kfail e)" "calls P (klift v)" "calls P (kread f)" "calls P (know env)"
  by (auto simp: calls_def kret_def kfail_def klift_def kread_def know_def split: prod.splits)

lemma calls_kwrap [calls_intro]: "calls P m \<Longrightarrow> calls P (kwrap msg args m)"
  by (auto simp: calls_def kwrap_run)

lemma calls_kbind [calls_intro]:
  assumes "appends m" "\<And>x. appends (f x)" "calls P m" "\<And>x. calls P (f x)"
  shows "calls P (kbind m f)"
  unfolding calls_def kbind_run [OF assms(1,2)] using callsD [OF assms(3)] callsD [OF assms(4)] by fastforce

lemma calls_kseq [calls_intro]: "(\<And>x. appends (f x)) \<Longrightarrow> (\<And>x. calls P (f x)) \<Longrightarrow> calls P (kseq f xs)"
  by (induction xs) (auto intro!: calls_intro appends_intro)

lemma calls_if [calls_intro]: "calls P m \<Longrightarrow> calls P m' \<Longrightarrow> calls P (if b then m else m')"
  by simp

lemma calls_OnError:
  assumes "appends f" "calls P f"
  shows "calls P (OnError n again f d)"
proof (induction n)
  case (Suc n)
  show ?case
    unfolding calls_def
  proof (intro allI impI)
    fix w r w' es assume run: "OnError (Suc n) again f d (w, []) = (r, w', es)"
    obtain r1 w1 es1 where f: "f (w, []) = (r1, w1, es1)" by (cases "f (w, [])")
    obtain r2 w2 es2 where o: "OnError n again f d (w1, []) = (r2, w2, es2)" by (cases "OnError n again f d (w1, [])")
    from run f appendsD [OF appends_OnError [OF assms(1)] o, of es1] callsD [OF assms(2) f] callsD [OF Suc o]
    show "list_all P es" by (auto split: sum.splits if_splits)
  qed
qed (simp add: calls_pure)

definition no_status :: "kevent \<Rightarrow> bool" where
  "no_status ev \<longleftrightarrow> (case ev of KStatus _ _ \<Rightarrow> False | _ \<Rightarrow> True)"

lemma no_status_simps [simp]:
  "no_status (KGet k r)" "no_status (KCreate x e)" "no_status (KUpdate x e)" "no_status (KDelete k e)" "\<not> no_status (KStatus g s)"
  by (simp_all add: no_status_def)

definition is_get :: "kevent \<Rightarrow> bool" where
  "is_get ev \<longleftrightarrow> (case ev of KGet _ _ \<Rightarrow> True | _ \<Rightarrow> False)"

lemma is_get_simps [simp]:
  "is_get (KGet k r)" "\<not> is_get (KCreate x e)" "\<not> is_get (KUpdate x e)" "\<not> is_get (KDelete k e)" "\<not> is_get (KStatus g s)"
  by (simp_all add: is_get_def)

lemma is_getE: "is_get ev \<Longrightarrow> \<exists>k r. ev = KGet k r"
  by (cases ev) (blast, simp_all)

abbreviation reading :: "('w, 'a) kio \<Rightarrow> bool" where "reading \<equiv> calls is_get"

abbreviation silent :: "('w, 'a) kio \<Rightarrow> bool" where "silent \<equiv> calls no_status"

lemma reading_silent: "reading m \<Longrightarrow> silent m"
proof -
  have "is_get ev \<Longrightarrow> no_status ev" for ev by (cases ev) simp_all
  then show "reading m \<Longrightarrow> silent m" unfolding calls_def by (meson list.pred_mono_strong)
qed

lemma reading_kget [calls_intro]: "reading (kget c k)"
  by (auto simp: calls_def kget_def split: prod.splits)

lemma silent_kget [calls_intro]: "silent (kget c k)"
  by (auto simp: calls_def kget_def split: prod.splits)

lemma silent_CreateOrUpdate [calls_intro]: "silent (CreateOrUpdate c x)"
  unfolding calls_def CreateOrUpdate_def ctrlutil_CreateOrUpdate_def kget_def kupdate_def kcreate_def kwrite_def
    kbind_def kret_def kfail_def kwrap_def Let_def
  by (auto split: if_splits prod.splits sum.splits option.splits)

lemma silent_enforce [calls_intro]: "silent (enforce_object c cfg x)"
  unfolding enforce_object_def by (intro calls_intro appends_intro calls_OnError)

lemma silent_EnforceKubeInstall [calls_intro]: "silent (EnforceKubeInstall c cfg depls)"
  unfolding EnforceKubeInstall_def by (intro calls_intro appends_intro)

lemma silent_run_step [calls_intro]: "silent (run_step c f st)"
proof -
  have "silent (DeleteIfPresent c k)" for k
    unfolding calls_def DeleteIfPresent_def kdelete_def kwrite_def
    by (auto split: if_splits prod.splits sum.splits option.splits)
  then show ?thesis
    unfolding run_step_def DeleteHelmChartIfPresent_def by (cases "snd st") (auto intro!: calls_intro)
qed

section \<open>Conditions\<close>

lemma IsStatusConditionTrue_Set:
  "IsStatusConditionTrue (SetStatusCondition new cs) t =
     (if t = cd_Type new then cd_Status new = ConditionTrue else IsStatusConditionTrue cs t)"
  by (induction new cs rule: SetStatusCondition.induct) auto

lemma condition_true_set [simp]:
  "condition_true (set_condition t st reason msg f) t' = (if t' = t then st = ConditionTrue else condition_true f t')"
  by (simp add: condition_true_def set_condition_def upd_status_def IsStatusConditionTrue_Set)

lemma condition_names [simp]:
  "ConditionApplied \<noteq> ConditionReady" "ConditionApplied \<noteq> ConditionGatewayReady" "ConditionReady \<noteq> ConditionGatewayReady"
  "ConditionReady \<noteq> ConditionApplied" "ConditionGatewayReady \<noteq> ConditionApplied" "ConditionGatewayReady \<noteq> ConditionReady"
  "ConditionTrue \<noteq> ConditionFalse" "ConditionFalse \<noteq> ConditionTrue"
  by (simp_all add: ConditionApplied_def ConditionReady_def ConditionGatewayReady_def ConditionTrue_def ConditionFalse_def)

lemma condition_true_upd [simp]:
  "(\<And>s. st_Conditions (g s) = st_Conditions s) \<Longrightarrow> condition_true (upd_status g f) t = condition_true f t"
  by (simp add: condition_true_def upd_status_def)

lemma set_condition_fields [simp]:
  "fo_Fab (set_condition t st reason msg f) = fo_Fab f" "fo_Generation (set_condition t st reason msg f) = fo_Generation f"
  "st_Components (fo_Status (set_condition t st reason msg f)) = st_Components (fo_Status f)"
  "st_Versions (fo_Status (set_condition t st reason msg f)) = st_Versions (fo_Status f)"
  by (simp_all add: set_condition_def upd_status_def)

lemma set_condition_gen [simp]:
  "st_LastAppliedGen (fo_Status (set_condition t st reason msg f)) = st_LastAppliedGen (fo_Status f)"
  by (simp add: set_condition_def upd_status_def)

lemma upd_status_fields [simp]:
  "fo_Fab (upd_status g f) = fo_Fab f" "fo_Generation (upd_status g f) = fo_Generation f"
  "fo_Status (upd_status g f) = g (fo_Status f)"
  by (simp_all add: upd_status_def)

lemma pending_not_applied: "\<not> condition_true (pending_status now f) ConditionApplied"
  by (simp add: pending_status_def Let_def)

lemma applied_status_applied: "condition_true (applied_status v now f) ConditionApplied"
  by (simp add: applied_status_def Let_def)

section \<open>Applied only after everything was enforced\<close>

text \<open>What a step of the reconciliation leaves in the record when it is done.\<close>

definition step_done :: "'w kclient \<Rightarrow> fab_object \<Rightarrow> string \<times> apply_step \<Rightarrow> kevent list \<Rightarrow> bool" where
  "step_done c cfg st es = (case snd st of
     Enforce inst \<Rightarrow> \<exists>objs ess. inst cfg = Inr objs \<and> list_all2 (enforced c cfg) objs ess \<and> es = concat ess
   | DeleteChart n \<Rightarrow> \<exists>res. es = [KDelete (''HelmChart'', FabNamespace, n) res] \<and> (case res of None \<Rightarrow> True | Some e \<Rightarrow> kc_not_found c e))"

lemma run_step_Inr: "run_step c f st (w, []) = (Inr (), w', es) \<Longrightarrow> step_done c f st es"
proof (cases "snd st")
  case (Enforce inst)
  assume "run_step c f st (w, []) = (Inr (), w', es)"
  with Enforce have "EnforceKubeInstall c f [inst] (w, []) = (Inr (), w', es)" by (simp add: run_step_def kwrap_Inr)
  from EnforceKubeInstall_Inr [OF this] Enforce show ?thesis by (simp add: step_done_def)
next
  case (DeleteChart n)
  assume "run_step c f st (w, []) = (Inr (), w', es)"
  with DeleteChart show ?thesis
    by (auto simp: run_step_def kwrap_Inr DeleteHelmChartIfPresent_def DeleteIfPresent_def kdelete_def kwrite_def step_done_def
        split: prod.splits sum.splits option.splits if_splits)
qed

text \<open>
  A record in which the attempt for \<open>f\<close> was written, then all steps were done for the configuration the
  server returned, and then that configuration was written as applied.
\<close>

definition applied_run :: "'w operator_env \<Rightarrow> fab_object \<Rightarrow> fab_object \<Rightarrow> kevent list \<Rightarrow> bool" where
  "applied_run e f g es \<longleftrightarrow> (\<exists>control pw now cfg now' res pre segs.
     es = pre @ KStatus (pending_status now f) (Inr cfg) # concat segs @ [KStatus g res] \<and>
     g = applied_status (oe_Version e) now' (CalculateVersions (release_versions (oe_Version e)) cfg) \<and>
     list_all2 (step_done (oe_kube e) (CalculateVersions (release_versions (oe_Version e)) cfg))
       (apply_steps (oe_libs e) control pw) segs)"

lemma apply_config_parts:
  "apply_config e f = kbind (kwrap ''listing controls'' [] (kread (oe_list_controls e))) (\<lambda>controls.
     kbind (klift (single_control controls)) (\<lambda>control.
     kbind (kwrap ''enforcing fabricator and control install defaults'' []
       (EnforceKubeInstall (oe_kube e) f [InstallFabAndControl control])) (\<lambda>_.
     kbind (kwrap ''getting registry reader user secret'' []
       (kget (oe_kube e) (''Secret'', FabNamespace, RegistryUserReaderSecret))) (\<lambda>regSecret.
     kbind (klift (reader_password regSecret)) (\<lambda>regPassword.
     kbind (know e) (\<lambda>now.
     kbind (kwrap ''updating attempt status'' [] (status_update e (pending_status now f))) (\<lambda>f.
     kbind (kseq (run_step (oe_kube e) (CalculateVersions (release_versions (oe_Version e)) f)) (apply_steps (oe_libs e) control regPassword)) (\<lambda>_.
     kbind (know e) (\<lambda>now.
     kwrap ''updating applied status'' [] (status_update e (applied_status (oe_Version e) now
       (CalculateVersions (release_versions (oe_Version e)) f))))))))))))"
  by (simp add: apply_config_def Let_def)

text \<open>Any part of a program that only ever writes a status satisfying \<open>Q\<close>, after the record it needs.\<close>

definition status_after :: "('w, 'a) kio \<Rightarrow> (fab_object \<Rightarrow> kevent list \<Rightarrow> bool) \<Rightarrow> bool" where
  "status_after m Q \<longleftrightarrow> (\<forall>w r w' es pre g res post. m (w, []) = (r, w', es) \<longrightarrow> es = pre @ KStatus g res # post \<longrightarrow> Q g (pre @ [KStatus g res]))"

lemma status_afterD: "status_after m Q \<Longrightarrow> m (w, []) = (r, w', es) \<Longrightarrow> es = pre @ KStatus g res # post \<Longrightarrow> Q g (pre @ [KStatus g res])"
  unfolding status_after_def by blast

lemma status_after_mono: "status_after m P \<Longrightarrow> (\<And>g es. P g es \<Longrightarrow> Q g es) \<Longrightarrow> status_after m Q"
  unfolding status_after_def by blast

lemma status_after_silent: "silent m \<Longrightarrow> status_after m Q"
  by (auto simp: status_after_def dest!: callsD)

lemma status_after_kbind:
  assumes "appends m" "\<And>x. appends (f x)" "status_after m Q"
    and "\<And>x w w1 es1. m (w, []) = (Inr x, w1, es1) \<Longrightarrow> status_after (f x) (\<lambda>g es. Q g (es1 @ es))"
  shows "status_after (kbind m f) Q"
  unfolding status_after_def
proof (intro allI impI)
  fix w r w' es pre g res post
  assume run: "kbind m f (w, []) = (r, w', es)" and es: "es = pre @ KStatus g res # post"
  from run [unfolded kbind_run [OF assms(1,2)]] show "Q g (pre @ [KStatus g res])"
  proof (elim disjE exE conjE)
    fix err assume "m (w, []) = (Inl err, w', es)"
    with assms(3) es show ?thesis by (auto simp: status_after_def)
  next
    fix x w1 es1 es2
    assume m: "m (w, []) = (Inr x, w1, es1)" and f: "f x (w1, []) = (r, w', es2)" and e: "es = es1 @ es2"
    from e es have "(\<exists>us. es1 = pre @ KStatus g res # us) \<or> (\<exists>us. pre = es1 @ us \<and> es2 = us @ KStatus g res # post)"
      by (auto simp: append_eq_append_conv2 Cons_eq_append_conv)
    then show ?thesis
    proof
      assume "\<exists>us. es1 = pre @ KStatus g res # us"
      with assms(3) m show ?thesis by (auto simp: status_after_def)
    next
      assume "\<exists>us. pre = es1 @ us \<and> es2 = us @ KStatus g res # post"
      with assms(4) [OF m] f show ?thesis by (auto simp: status_after_def)
    qed
  qed
qed

text \<open>The same where the records that are wanted may have any calls before them.\<close>

lemma status_after_kbind_mono:
  assumes "appends m" "\<And>x. appends (f x)" "status_after m Q" "\<And>x. status_after (f x) Q" "\<And>g us es. Q g es \<Longrightarrow> Q g (us @ es)"
  shows "status_after (kbind m f) Q"
proof (rule status_after_kbind [OF assms(1-3)])
  fix x w w1 es1
  show "status_after (f x) (\<lambda>g es. Q g (es1 @ es))"
    using assms(4) [of x] assms(5) unfolding status_after_def by blast
qed

lemma status_after_kwrap: "status_after m Q \<Longrightarrow> status_after (kwrap msg args m) Q"
  by (auto simp: status_after_def kwrap_run)

lemma status_after_update: "(\<And>res. Q f [KStatus f res]) \<Longrightarrow> status_after (status_update e f) Q"
  by (auto simp: status_after_def status_update_def Cons_eq_append_conv split: prod.splits)

lemma status_update_only:
  "status_update e f (w, []) = (r, w', es) \<Longrightarrow> es = [KStatus f r]"
  by (auto simp: status_update_def split: prod.splits)

definition recorded :: "'w operator_env \<Rightarrow> fab_object \<Rightarrow> fab_object \<Rightarrow> kevent list \<Rightarrow> bool" where
  "recorded e f g es \<longleftrightarrow> (condition_true g ConditionApplied \<longrightarrow> applied_run e f g es)"

lemma recorded_prefix: "recorded e f g es \<Longrightarrow> recorded e f g (us @ es)"
  unfolding recorded_def applied_run_def by (metis append.assoc)

abbreviation apply_rest :: "'w operator_env \<Rightarrow> control_node \<Rightarrow> string \<Rightarrow> fab_object \<Rightarrow> ('w, fab_object) kio" where
  "apply_rest e control pw cfg \<equiv> kbind (kseq (run_step (oe_kube e) cfg) (apply_steps (oe_libs e) control pw)) (\<lambda>_.
     kbind (know e) (\<lambda>now. kwrap ''updating applied status'' [] (status_update e (applied_status (oe_Version e) now cfg))))"

definition rest_recorded :: "'w operator_env \<Rightarrow> control_node \<Rightarrow> string \<Rightarrow> fab_object \<Rightarrow> fab_object \<Rightarrow> kevent list \<Rightarrow> bool" where
  "rest_recorded e control pw cfg g es \<longleftrightarrow> (\<exists>segs now res. es = concat segs @ [KStatus g res] \<and>
     g = applied_status (oe_Version e) now cfg \<and> list_all2 (step_done (oe_kube e) cfg) (apply_steps (oe_libs e) control pw) segs)"

lemma apply_rest_recorded: "status_after (apply_rest e control pw cfg) (rest_recorded e control pw cfg)"
proof (rule status_after_kbind)
  show "appends (kseq (run_step (oe_kube e) cfg) (apply_steps (oe_libs e) control pw))" by (intro appends_intro)
  show "appends (kbind (know e) (\<lambda>now. kwrap ''updating applied status'' [] (status_update e (applied_status (oe_Version e) now cfg))))" for x :: unit
    by (intro appends_intro)
  show "status_after (kseq (run_step (oe_kube e) cfg) (apply_steps (oe_libs e) control pw)) (rest_recorded e control pw cfg)"
    by (intro status_after_silent calls_intro appends_intro)
  fix u w w1 es1
  assume "kseq (run_step (oe_kube e) cfg) (apply_steps (oe_libs e) control pw) (w, []) = (Inr u, w1, es1)"
  then have "kseq (run_step (oe_kube e) cfg) (apply_steps (oe_libs e) control pw) (w, []) = (Inr (), w1, es1)" by simp
  from kseq_Inr [OF appends_run_step this] obtain ess
    where ess: "seq_runs (run_step (oe_kube e) cfg) (apply_steps (oe_libs e) control pw) w ess w1" "es1 = concat ess" by blast
  have all_done: "list_all2 (step_done (oe_kube e) cfg) (apply_steps (oe_libs e) control pw) ess"
    using ess(1) by (rule seq_runs_list) (rule run_step_Inr)
  show "status_after (kbind (know e) (\<lambda>now. kwrap ''updating applied status'' [] (status_update e (applied_status (oe_Version e) now cfg))))
      (\<lambda>g es. rest_recorded e control pw cfg g (es1 @ es))"
    unfolding status_after_def
  proof (intro allI impI)
    fix w r w' es pre g res post
    assume "kbind (know e) (\<lambda>now. kwrap ''updating applied status'' [] (status_update e (applied_status (oe_Version e) now cfg))) (w, []) = (r, w', es)"
      and es: "es = pre @ KStatus g res # post"
    then obtain now r0 where "es = [KStatus (applied_status (oe_Version e) now cfg) r0]"
      by (auto simp: kbind_def know_def kwrap_run split: prod.splits dest!: status_update_only)
    with es have g: "pre = []" "g = applied_status (oe_Version e) now cfg" by (auto simp: Cons_eq_append_conv)
    have "es1 @ pre @ [KStatus g res] = concat ess @ [KStatus g res]" using g(1) ess(2) by simp
    with g(2) all_done show "rest_recorded e control pw cfg g (es1 @ pre @ [KStatus g res])"
      unfolding rest_recorded_def by blast
  qed
qed

text \<open>The attempt is written, and what the server returns is what is then applied.\<close>

lemma apply_attempt_recorded:
  "status_after (kbind (kwrap ''updating attempt status'' [] (status_update e (pending_status now f))) (\<lambda>cfg.
     apply_rest e control pw (CalculateVersions (release_versions (oe_Version e)) cfg))) (recorded e f)"
proof (rule status_after_kbind)
  show "appends (kwrap ''updating attempt status'' [] (status_update e (pending_status now f)))" by (intro appends_intro)
  show "appends (apply_rest e control pw (CalculateVersions (release_versions (oe_Version e)) x))" for x by (intro appends_intro)
  show "status_after (kwrap ''updating attempt status'' [] (status_update e (pending_status now f))) (recorded e f)"
    by (intro status_after_kwrap status_after_update) (simp add: recorded_def pending_not_applied)
  fix cfg w w1 es1
  assume "kwrap ''updating attempt status'' [] (status_update e (pending_status now f)) (w, []) = (Inr cfg, w1, es1)"
  then have es1: "es1 = [KStatus (pending_status now f) (Inr cfg)]"
    by (auto simp: kwrap_Inr dest: status_update_only)
  show "status_after (apply_rest e control pw (CalculateVersions (release_versions (oe_Version e)) cfg)) (\<lambda>g es. recorded e f g (es1 @ es))"
    using apply_rest_recorded [where e = e and control = control and pw = pw and cfg = "CalculateVersions (release_versions (oe_Version e)) cfg"]
    unfolding status_after_def recorded_def rest_recorded_def applied_run_def es1
    by (metis append_Cons append_Nil)
qed

lemma apply_config_recorded: "status_after (apply_config e f) (recorded e f)"
  unfolding apply_config_parts
  by (intro status_after_kbind_mono recorded_prefix appends_intro apply_attempt_recorded;
      (rule status_after_silent, intro calls_intro)?)

text \<open>A reconciliation that applied has that write in its record, last.\<close>

definition ends :: "('w, 'a) kio \<Rightarrow> ('a \<Rightarrow> kevent list \<Rightarrow> bool) \<Rightarrow> bool" where
  "ends m P \<longleftrightarrow> (\<forall>w x w' es. m (w, []) = (Inr x, w', es) \<longrightarrow> P x es)"

lemma ends_kbind:
  assumes "appends m" "\<And>x. appends (f x)" "\<And>x. ends (f x) P" "\<And>x us es. P x es \<Longrightarrow> P x (us @ es)"
  shows "ends (kbind m f) P"
  using assms(3,4) unfolding ends_def by (auto elim!: kbind_Inr [OF assms(1,2)])

lemma status_update_ends: "ends (kwrap msg args (status_update e f)) (\<lambda>g es. \<exists>pre. es = pre @ [KStatus f (Inr g)])"
  by (auto simp: ends_def kwrap_Inr dest!: status_update_only)

definition applied_last :: "'w operator_env \<Rightarrow> fab_object \<Rightarrow> kevent list \<Rightarrow> bool" where
  "applied_last e f' es \<longleftrightarrow> (\<exists>pre now cfg. es = pre @ [KStatus (applied_status (oe_Version e) now cfg) (Inr f')])"

lemma apply_config_ends: "ends (apply_config e f) (applied_last e)"
proof -
  have "ends (kwrap msg args (status_update e (applied_status (oe_Version e) now cfg))) (applied_last e)" for msg args now cfg
    using status_update_ends [of msg args e "applied_status (oe_Version e) now cfg"] unfolding ends_def applied_last_def by blast
  moreover have "applied_last e g es \<Longrightarrow> applied_last e g (us @ es)" for g us es
    unfolding applied_last_def by (metis append.assoc)
  ultimately show ?thesis
    unfolding apply_config_parts by (intro ends_kbind appends_intro)
qed

text \<open>
  The status check writes the status once, last, and only the conditions on readiness, the components and
  the time of the check differ in it from what it was given.
\<close>

lemma component_status_reading:
  "appends (check_component what get put f) \<and> reading (check_component what get put f)"
  if "\<And>f. appends (get f)" "\<And>f. reading (get f)"
  using that unfolding check_component_def by (auto intro!: appends_intro calls_intro)

lemma appends_status_of [appends_intro]: "appends (status_of what k f c cfg)"
proof (rule appends_try [where f = "\<lambda>x. kret (f x)" and
    g = "\<lambda>e s'. if kc_not_found c e then (Inr CompStatusNotFound, s') else (Inl (Wrapf (''getting '' @ what @ '' %q'') [snd (snd k)] e), s')"])
  show "appends (kget c k)" by (rule appends_intro)
  show "appends (kret (f x))" for x by (rule appends_intro)
  show "appends (\<lambda>s'. if kc_not_found c e then (Inr CompStatusNotFound, s') else (Inl (Wrapf (''getting '' @ what @ '' %q'') [snd (snd k)] e), s'))" for e
    unfolding try_kret by (cases "kc_not_found c e") (auto intro!: appends_intro)
qed (simp add: status_of_def kret_def split: sum.splits prod.splits)

lemma reading_status_of [calls_intro]: "reading (status_of what k f c cfg)"
  by (auto simp: calls_def status_of_def kget_def split: prod.splits sum.splits if_splits)

lemma merge_statuses_reading:
  "\<forall>f\<in>set fs. appends (f c cfg) \<and> reading (f c cfg) \<Longrightarrow> appends (merge_statuses fs s c cfg) \<and> reading (merge_statuses fs s c cfg)"
  by (induction fs arbitrary: s) (auto intro!: appends_intro calls_intro)

lemma image_status_reading:
  "(\<And>img. appends (get name container img c cfg) \<and> reading (get name container img c cfg)) \<Longrightarrow>
     appends (image_status get name container r v c cfg) \<and> reading (image_status get name container r v c cfg)"
  by (auto simp: image_status_def intro!: appends_intro calls_intro)

lemma workload_status_reading:
  "appends (GetDeploymentStatus n k img c cfg) \<and> reading (GetDeploymentStatus n k img c cfg)"
  "appends (GetDaemonSetStatus n k img c cfg) \<and> reading (GetDaemonSetStatus n k img c cfg)"
  "appends (GetCRDStatus n v c cfg) \<and> reading (GetCRDStatus n v c cfg)"
  by (auto simp: GetDeploymentStatus_def GetDaemonSetStatus_def GetCRDStatus_def intro!: appends_intro calls_intro)

lemma gateway_status_reading:
  "appends (gateway_status d what r v c cfg nodes) \<and> reading (gateway_status d what r v c cfg nodes)"
proof -
  have "appends (gateway_statuses d what img nodes res c cfg) \<and> reading (gateway_statuses d what img nodes res c cfg)" for img res
    by (induction nodes arbitrary: res) (auto intro!: appends_intro calls_intro simp: workload_status_reading)
  then show ?thesis by (auto simp: gateway_status_def intro!: appends_intro calls_intro)
qed

lemmas component_status_defs = F8rStatusAPI_def F8rStatusCtrl_def StatusNodeConfig_def CertManagerStatusCtrl_def
  CertManagerStatusWebhook_def ReloaderStatus_def ZotStatus_def NTPStatus_def FabricStatusAPI_def FabricStatusCtrl_def
  FabricStatusDHCP_def FabricStatusBoot_def ControlProxyStatus_def AlloyStatusGateway_def AlloyStatusControl_def
  StatusDataplane_def StatusFRR_def MergeKubeStatuses_def

lemma merge_crd_reading:
  "appends (merge_statuses (map (\<lambda>(n, v). GetCRDStatus n v) crds) s c cfg) \<and> reading (merge_statuses (map (\<lambda>(n, v). GetCRDStatus n v) crds) s c cfg)"
  by (rule merge_statuses_reading) (auto simp: workload_status_reading)

text \<open>A program per object whose runs only append to the record, and only what they read.\<close>

definition quiet :: "(fab_object \<Rightarrow> ('w, 'a) kio) \<Rightarrow> bool" where
  "quiet g \<longleftrightarrow> (\<forall>f. appends (g f) \<and> reading (g f))"

lemma quiet_check [simp]: "quiet get \<Longrightarrow> quiet (check_component what get put)"
  using component_status_reading [of get what put] by (simp add: quiet_def)

lemma quiet_images:
  "quiet (image_status GetDeploymentStatus n k r v c)" "quiet (image_status GetDaemonSetStatus n k r v c)"
  "quiet (\<lambda>f. gateway_status d what r v c f nodes)"
  unfolding quiet_def
  by (intro allI image_status_reading workload_status_reading gateway_status_reading)+

lemma quiet_crds: "quiet (merge_statuses [GetCRDStatus n1 v1, GetCRDStatus n2 v2] s c)"
  "quiet (merge_statuses [GetCRDStatus n1 v1, GetCRDStatus n2 v2, GetCRDStatus n3 v3] s c)"
  using merge_crd_reading [of "[(n1, v1), (n2, v2)]" s c] merge_crd_reading [of "[(n1, v1), (n2, v2), (n3, v3)]" s c]
  by (simp_all add: quiet_def)

lemma quiet_statuses [simp]:
  "quiet (F8rStatusAPI c)"
  "quiet (F8rStatusCtrl c)"
  "quiet (StatusNodeConfig c)"
  "quiet (CertManagerStatusCtrl c)"
  "quiet (CertManagerStatusWebhook c)"
  "quiet (ReloaderStatus c)"
  "quiet (ZotStatus c)"
  "quiet (NTPStatus c)"
  "quiet (FabricStatusAPI c)"
  "quiet (FabricStatusCtrl c)"
  "quiet (FabricStatusDHCP c)"
  "quiet (FabricStatusBoot c)"
  "quiet (ControlProxyStatus c)"
  "quiet (AlloyStatusGateway c)"
  "quiet (AlloyStatusControl c)"
  "quiet (\<lambda>f. StatusDataplane c f nodes)"
  "quiet (\<lambda>f. StatusFRR c f nodes)"
proof -
  show "quiet (AlloyStatusGateway c)"
    using quiet_images(2) [of "''alloy-gw''" "''alloy''" AlloyImageRef "\<lambda>cfg. pv_Alloy (platform cfg)" c]
    by (auto simp: quiet_def AlloyStatusGateway_def intro: appends_intro calls_intro)
qed (simp_all only: component_status_defs quiet_images quiet_crds)

lemma component_checks_quiet: "list_all quiet (component_checks c nodes)"
  by (simp add: component_checks_def)

section \<open>What the status check writes\<close>

definition with_components :: "components_status \<Rightarrow> fab_object \<Rightarrow> fab_object" where
  "with_components v f = upd_status (\<lambda>s. s\<lparr>st_Components := v\<rparr>) f"

definition sets_components :: "(fab_object \<Rightarrow> ('w, fab_object) kio) \<Rightarrow> bool" where
  "sets_components h \<longleftrightarrow> (\<forall>f s g s'. h f s = (Inr g, s') \<longrightarrow> (\<exists>v. g = with_components v f))"

lemma sets_components_check [simp]: "sets_components (check_component what get put)"
  by (auto simp: sets_components_def check_component_def kio_Inr with_components_def upd_status_def)

lemma with_components_twice [simp]: "with_components v (with_components u f) = with_components v f"
  by (simp add: with_components_def upd_status_def)

lemma kchain_components:
  "list_all sets_components hs \<Longrightarrow> kchain hs f s = (Inr g, s') \<Longrightarrow> hs \<noteq> [] \<Longrightarrow> \<exists>v. g = with_components v f"
proof (induction hs arbitrary: f s)
  case (Cons h hs)
  from Cons.prems(2) obtain f1 s1 where h: "h f s = (Inr f1, s1)" "kchain hs f1 s1 = (Inr g, s')"
    by (auto simp: kbind_def split: prod.splits sum.splits)
  have "sets_components h" using Cons.prems(1) by simp
  then obtain v where v: "f1 = with_components v f" using h(1) unfolding sets_components_def by blast
  show ?case
  proof (cases "hs = []")
    case True
    with h(2) v show ?thesis by (auto simp: kret_def)
  next
    case False
    with Cons.IH [OF _ h(2) False] Cons.prems(1) v show ?thesis by auto
  qed
qed simp

definition checked_status :: "fab_object \<Rightarrow> fab_node list \<Rightarrow> fab_object \<Rightarrow> bool" where
  "checked_status f nodes g \<longleftrightarrow> (\<exists>v now. g = upd_status (\<lambda>s. s\<lparr>st_LastStatusCheck := now\<rparr>) (readiness_conditions nodes (with_components v f)))"

lemma kchain_quiet: "list_all quiet gs \<Longrightarrow> appends (kchain gs f) \<and> reading (kchain gs f)"
  by (induction gs arbitrary: f) (auto simp: quiet_def intro!: appends_intro calls_intro)

lemma statusCheck_appends: "appends (statusCheck e f nodes)"
  unfolding statusCheck_def
  by (intro appends_intro kchain_quiet [OF component_checks_quiet, THEN conjunct1])

lemma statusCheck_writes: "status_after (statusCheck e f nodes) (\<lambda>g es. checked_status f nodes g)"
proof -
  let ?rest = "\<lambda>g. kbind (know e) (\<lambda>now. kbind (kwrap ''updating ready status'' []
    (status_update e (upd_status (\<lambda>s. s\<lparr>st_LastStatusCheck := now\<rparr>) (readiness_conditions nodes g)))) (\<lambda>_. kret ()))"
  have chain: "appends (kchain (component_checks (oe_kube e) nodes) f)" "silent (kchain (component_checks (oe_kube e) nodes) f)"
    using kchain_quiet [OF component_checks_quiet] reading_silent by blast+
  have upd: "status_after (kbind (kwrap ''updating ready status'' []
      (status_update e (upd_status (\<lambda>s. s\<lparr>st_LastStatusCheck := now\<rparr>) (readiness_conditions nodes (with_components v f))))) (\<lambda>_. kret ()))
      (\<lambda>g es. checked_status f nodes g)" for v now
  proof (rule status_after_kbind_mono)
    show "status_after (kwrap ''updating ready status'' []
      (status_update e (upd_status (\<lambda>s. s\<lparr>st_LastStatusCheck := now\<rparr>) (readiness_conditions nodes (with_components v f)))))
      (\<lambda>g es. checked_status f nodes g)"
      by (intro status_after_kwrap status_after_update) (unfold checked_status_def, blast)
    show "status_after (kret ()) (\<lambda>g es. checked_status f nodes g)" by (intro status_after_silent calls_intro)
  qed (intro appends_intro, intro appends_intro, assumption)
  have rest: "status_after (?rest (with_components v f)) (\<lambda>g es. checked_status f nodes g)" for v
  proof (rule status_after_kbind_mono)
    show "status_after (know e) (\<lambda>g es. checked_status f nodes g)" by (intro status_after_silent calls_intro)
  qed (intro appends_intro, intro appends_intro, rule upd, assumption)
  have run: "status_after (kbind (kchain (component_checks (oe_kube e) nodes) f) ?rest) (\<lambda>g es. checked_status f nodes g)"
  proof (rule status_after_kbind)
    fix x w w1 es1
    assume "kchain (component_checks (oe_kube e) nodes) f (w, []) = (Inr x, w1, es1)"
    moreover have "list_all sets_components (component_checks (oe_kube e) nodes)" "component_checks (oe_kube e) nodes \<noteq> []"
      by (simp_all add: component_checks_def)
    ultimately obtain v where "x = with_components v f" using kchain_components by blast
    with rest show "status_after (?rest x) (\<lambda>g es. checked_status f nodes g)" by simp
  next
    show "status_after (kchain (component_checks (oe_kube e) nodes) f) (\<lambda>g es. checked_status f nodes g)"
      by (rule status_after_silent) (rule chain(2))
  qed (rule chain(1), intro appends_intro)
  have cond: "status_after (if b then kret () else kbind (kchain (component_checks (oe_kube e) nodes) f) ?rest)
      (\<lambda>g es. checked_status f nodes g)" for b
    using run status_after_silent [OF calls_pure(1), of "()"] by (cases b) auto
  show ?thesis
    unfolding statusCheck_def
  proof (rule status_after_kbind_mono)
    show "status_after (know e) (\<lambda>g es. checked_status f nodes g)" by (intro status_after_silent calls_intro)
  qed (intro appends_intro, intro appends_intro chain(1), rule cond, assumption)
qed

lemma readiness_conditions_true:
  "condition_true (readiness_conditions nodes f) ConditionReady \<longleftrightarrow> IsReady (st_Components (fo_Status f)) (fo_Fab f) nodes"
  "condition_true (readiness_conditions nodes f) ConditionGatewayReady \<longleftrightarrow> IsGatewayReady (st_Components (fo_Status f)) (fo_Fab f) nodes"
  "condition_true (readiness_conditions nodes f) ConditionApplied = condition_true f ConditionApplied"
  "fo_Fab (readiness_conditions nodes f) = fo_Fab f"
  "st_Components (fo_Status (readiness_conditions nodes f)) = st_Components (fo_Status f)"
  "st_LastAppliedGen (fo_Status (readiness_conditions nodes f)) = st_LastAppliedGen (fo_Status f)"
  by (simp_all add: readiness_conditions_def Let_def set_condition_gen)

lemma with_components_fields [simp]:
  "st_Components (fo_Status (with_components v f)) = v" "fo_Fab (with_components v f) = fo_Fab f"
  "condition_true (with_components v f) t = condition_true f t"
  "st_LastAppliedGen (fo_Status (with_components v f)) = st_LastAppliedGen (fo_Status f)"
  by (simp_all add: with_components_def)

lemma checked_status_conditions:
  assumes "checked_status f nodes g"
  shows "(condition_true g ConditionReady \<longleftrightarrow> IsReady (st_Components (fo_Status g)) (fo_Fab f) nodes) \<and>
    (condition_true g ConditionGatewayReady \<longleftrightarrow> IsGatewayReady (st_Components (fo_Status g)) (fo_Fab f) nodes) \<and>
    (condition_true g ConditionApplied \<longleftrightarrow> condition_true f ConditionApplied) \<and>
    fo_Fab g = fo_Fab f \<and> st_LastAppliedGen (fo_Status g) = st_LastAppliedGen (fo_Status f)"
proof -
  obtain v now where "g = upd_status (\<lambda>s. s\<lparr>st_LastStatusCheck := now\<rparr>) (readiness_conditions nodes (with_components v f))"
    using assms unfolding checked_status_def by blast
  then show ?thesis by (simp add: readiness_conditions_true)
qed

text \<open>
  C26. Whatever the API server answers, a status check that writes a status writes the readiness of the
  components it writes: the two readiness conditions are the readiness checks of the statuses recorded
  beside them, and whether the configuration is applied is left as it was.
\<close>

theorem status_check_truthful:
  assumes "statusCheck e f nodes (w, []) = (r, w', es)" "KStatus g res \<in> set es"
  shows "(condition_true g ConditionReady \<longleftrightarrow> IsReady (st_Components (fo_Status g)) (fo_Fab f) nodes) \<and>
    (condition_true g ConditionGatewayReady \<longleftrightarrow> IsGatewayReady (st_Components (fo_Status g)) (fo_Fab f) nodes) \<and>
    (condition_true g ConditionApplied \<longleftrightarrow> condition_true f ConditionApplied) \<and>
    fo_Fab g = fo_Fab f \<and> st_LastAppliedGen (fo_Status g) = st_LastAppliedGen (fo_Status f)"
proof -
  from assms(2) obtain pre post where "es = pre @ KStatus g res # post" by (meson split_list)
  from status_afterD [OF statusCheck_writes assms(1) this] have "checked_status f nodes g" .
  then show ?thesis by (rule checked_status_conditions)
qed

section \<open>Reconciling\<close>

lemma start_reconcile_fields [simp]:
  "condition_true (start_reconcile ch f) t = condition_true f t" "outdated v (start_reconcile ch f) = outdated v f"
  "fo_Fab (start_reconcile ch f) = fab_default (fo_Fab f)"
  by (simp_all add: start_reconcile_def condition_true_def outdated_def upd_status_def)

lemma appends_apply_config: "appends (apply_config e f)"
  unfolding apply_config_parts by (intro appends_intro)

text \<open>\<open>done_before\<close>: a record that has the whole of an applied configuration in it.\<close>

definition done_before :: "'w operator_env \<Rightarrow> fab_object \<Rightarrow> kevent list \<Rightarrow> bool" where
  "done_before e f es \<longleftrightarrow> (\<exists>g us vs. es = us @ vs \<and> applied_run e f g us)"

lemma done_before_append: "done_before e f es \<Longrightarrow> done_before e f (es @ us)" "done_before e f es \<Longrightarrow> done_before e f (us @ es)"
proof -
  assume "done_before e f es"
  then obtain g us' vs where d: "es = us' @ vs" "applied_run e f g us'" unfolding done_before_def by blast
  from d have "es @ us = us' @ (vs @ us)" by simp
  with d(2) show "done_before e f (es @ us)" unfolding done_before_def by blast
  from d(2) have "applied_run e f g (us @ us')" unfolding applied_run_def by (metis append.assoc)
  moreover from d have "us @ es = (us @ us') @ vs" by simp
  ultimately show "done_before e f (us @ es)" unfolding done_before_def by blast
qed

lemma done_beforeI: "applied_run e f g es \<Longrightarrow> done_before e f es"
  unfolding done_before_def by (metis append_Nil2)

lemma apply_or_check_recorded:
  "status_after (kbind (apply_config e f) (\<lambda>f'. statusCheck e f' nodes)) (\<lambda>g es. condition_true g ConditionApplied \<longrightarrow> done_before e f es)"
proof (rule status_after_kbind)
  show "status_after (apply_config e f) (\<lambda>g es. condition_true g ConditionApplied \<longrightarrow> done_before e f es)"
    by (rule status_after_mono [OF apply_config_recorded]) (auto simp: recorded_def intro: done_beforeI)
  fix f' w w1 es1
  assume run: "apply_config e f (w, []) = (Inr f', w1, es1)"
  from apply_config_ends [of e f] run have "applied_last e f' es1" unfolding ends_def by blast
  then obtain pre now cfg where es1: "es1 = pre @ [KStatus (applied_status (oe_Version e) now cfg) (Inr f')]"
    unfolding applied_last_def by blast
  from status_afterD [OF apply_config_recorded run es1] have "recorded e f (applied_status (oe_Version e) now cfg) es1"
    unfolding es1 .
  then have "done_before e f es1" by (simp add: recorded_def applied_status_applied done_beforeI)
  then have "condition_true g ConditionApplied \<longrightarrow> done_before e f (es1 @ es)" for g es
    by (simp add: done_before_append)
  then show "status_after (statusCheck e f' nodes) (\<lambda>g es. condition_true g ConditionApplied \<longrightarrow> done_before e f (es1 @ es))"
    by (simp add: status_after_def)
qed (intro appends_apply_config statusCheck_appends)+

text \<open>
  C24. Whatever the API server answers, and whatever happens between two calls: when a reconciliation
  finds a configuration that is not applied, or an old one, it writes a status that calls it applied
  only after it has recorded the attempt and then enforced every component of the configuration the
  server returned, in the order of the code, each of its objects confirmed to be as wanted.
\<close>

theorem applied_only_after_all_enforced:
  assumes "Reconcile e req (w, []) = (r, w', es)" "oe_get_fab e req w = (Inr f, w1)"
    and "outdated (oe_Version e) f \<or> \<not> condition_true f ConditionApplied"
    and "KStatus g res \<in> set es" "condition_true g ConditionApplied"
  shows "\<exists>ch us vs g'. es = us @ vs \<and> applied_run e (start_reconcile ch f) g' us"
proof -
  have need: "outdated (oe_Version e) (start_reconcile ch f) \<or> \<not> condition_true (start_reconcile ch f) ConditionApplied" for ch
    using assms(3) by simp
  have get: "kwrap ''fetching fabricator'' [] (kread (oe_get_fab e req)) (w, []) = (Inr f, w1, [])"
    using assms(2) by (simp add: kwrap_Inr kread_def)
  obtain pre post where es: "es = pre @ KStatus g res # post" using assms(4) by (meson split_list)
  have req_ok: "\<not> (snd req \<noteq> FabName \<and> fst req \<noteq> FabNamespace)"
    using assms(1) es by (auto simp: Reconcile_def kret_def split: if_splits)
  with assms(1) get have rest: "kbind (klift (ewrap ''getting release channel'' [] (ReleaseChannel (oe_semver e)))) (\<lambda>ch.
      let f = start_reconcile ch f in
      kbind (kwrap ''listing nodes'' [] (kread (oe_list_nodes e))) (\<lambda>nodes.
      kbind (if outdated (oe_Version e) f \<or> \<not> condition_true f ConditionApplied then apply_config e f else kret f) (\<lambda>f.
      statusCheck e f nodes))) (w1, []) = (r, w', es)"
    by (simp add: Reconcile_def kbind_def)
  show ?thesis
  proof (cases "ReleaseChannel (oe_semver e)")
    case (Inl err)
    with rest es show ?thesis by (simp add: kbind_def klift_def)
  next
    case (Inr ch)
    let ?f = "start_reconcile ch f"
    have cond: "(if outdated (oe_Version e) ?f \<or> \<not> condition_true ?f ConditionApplied then apply_config e ?f else kret ?f) = apply_config e ?f"
      using need by simp
    have klift_Inr: "kbind (klift (Inr x)) k = k x" for x :: string and k :: "string \<Rightarrow> (_, unit) kio"
      by (auto simp: kbind_def klift_def)
    from rest have run: "kbind (kwrap ''listing nodes'' [] (kread (oe_list_nodes e))) (\<lambda>nodes.
        kbind (apply_config e ?f) (\<lambda>f. statusCheck e f nodes)) (w1, []) = (r, w', es)"
      unfolding Inr ewrap_simps klift_Inr Let_def cond .
    have after: "status_after (kbind (kwrap ''listing nodes'' [] (kread (oe_list_nodes e))) (\<lambda>nodes.
        kbind (apply_config e ?f) (\<lambda>f. statusCheck e f nodes))) (\<lambda>g es. condition_true g ConditionApplied \<longrightarrow> done_before e ?f es)"
    proof (rule status_after_kbind_mono)
      show "status_after (kwrap ''listing nodes'' [] (kread (oe_list_nodes e))) (\<lambda>g es. condition_true g ConditionApplied \<longrightarrow> done_before e ?f es)"
        by (intro status_after_silent calls_intro)
      show "condition_true g ConditionApplied \<longrightarrow> done_before e ?f es \<Longrightarrow> condition_true g ConditionApplied \<longrightarrow> done_before e ?f (us @ es)" for g us es
        by (simp add: done_before_append)
    qed (intro appends_intro, intro appends_intro appends_apply_config statusCheck_appends, rule apply_or_check_recorded)
    have "done_before e ?f (pre @ [KStatus g res])"
      using status_afterD [OF after run es] assms(5) by (rule mp)
    moreover have "es = (pre @ [KStatus g res]) @ post" using es by simp
    ultimately have "done_before e ?f es" using done_before_append(1) [of e ?f "pre @ [KStatus g res]" post] by simp
    then show ?thesis unfolding done_before_def by blast
  qed
qed

end
