(* ===== verification/OperatorLive.thy ===== *)
theory OperatorLive
  imports OperatorProps InstallOk
begin

text \<open>
  What the operator achieves on an API server that answers, accepts, and versions the Fabricator: when the
  stored configuration has its defaults, one reconciliation ends without an error and leaves a status that calls
  the generation applied. When it has not, the first reconciliation writes the defaults and then loses against its
  own write; the next one succeeds. From then on, as long as neither the generation nor the operator changes, the
  operator only reads and writes statuses.
\<close>

section \<open>Programs that succeed\<close>

definition yields :: "('w, 'a) kio \<Rightarrow> 'w \<Rightarrow> ('a \<Rightarrow> 'w \<Rightarrow> bool) \<Rightarrow> bool" where
  "yields m w P \<longleftrightarrow> (\<exists>x w' es. m (w, []) = (Inr x, w', es) \<and> P x w')"

lemma yieldsE:
  assumes "yields m w P"
  obtains x w' es where "m (w, []) = (Inr x, w', es)" "P x w'"
  using assms unfolding yields_def by blast

lemma yields_mono: "yields m w P \<Longrightarrow> (\<And>x w'. P x w' \<Longrightarrow> Q x w') \<Longrightarrow> yields m w Q"
  unfolding yields_def by blast

lemma yields_kret: "P x w \<Longrightarrow> yields (kret x) w P"
  by (simp add: yields_def kret_def)

lemma yields_klift: "v = Inr x \<Longrightarrow> P x w \<Longrightarrow> yields (klift v) w P"
  by (simp add: yields_def klift_def)

lemma yields_kwrap: "yields m w P \<Longrightarrow> yields (kwrap msg args m) w P"
  unfolding yields_def by (simp add: kwrap_Inr)

lemma yields_kread: "f w = (Inr x, w') \<Longrightarrow> P x w' \<Longrightarrow> yields (kread f) w P"
  by (simp add: yields_def kread_def)

lemma yields_know: "P (fst (oe_now e w)) (snd (oe_now e w)) \<Longrightarrow> yields (know e) w P"
  by (cases "oe_now e w") (simp add: yields_def know_def)

lemma yields_kbind:
  assumes "yields m w P" "\<And>x w'. P x w' \<Longrightarrow> yields (f x) w' Q" "\<And>x. appends (f x)"
  shows "yields (kbind m f) w Q"
proof -
  obtain x w1 es where m: "m (w, []) = (Inr x, w1, es)" "P x w1" by (rule yieldsE [OF assms(1)])
  obtain y w2 es2 where f: "f x (w1, []) = (Inr y, w2, es2)" "Q y w2" by (rule yieldsE [OF assms(2) [OF m(2)]])
  from m f appendsD [OF assms(3) f(1)] show ?thesis by (simp add: yields_def kbind_def)
qed

lemma yields_kseq:
  assumes "\<And>x w. x \<in> set xs \<Longrightarrow> I w \<Longrightarrow> yields (f x) w (\<lambda>_. I)" "\<And>x. appends (f x)" "I w"
  shows "yields (kseq f xs) w (\<lambda>_. I)"
  using assms(1,3)
proof (induction xs arbitrary: w)
  case (Cons x xs)
  have "yields (kbind (f x) (\<lambda>_. kseq f xs)) w (\<lambda>_. I)"
  proof (rule yields_kbind)
    show "yields (f x) w (\<lambda>_. I)" using Cons.prems by simp
  qed (use Cons assms(2) in \<open>auto intro!: appends_intro\<close>)
  then show ?case by simp
qed (auto intro: yields_kret)

lemma yields_OnError: "yields m w P \<Longrightarrow> n > 0 \<Longrightarrow> yields (OnError n again m d) w P"
  unfolding yields_def by (cases n) auto

text \<open>Programs that end in some way, and how they do.\<close>

definition runs :: "('w, 'a) kio \<Rightarrow> 'w \<Rightarrow> ('a result \<Rightarrow> 'w \<Rightarrow> bool) \<Rightarrow> bool" where
  "runs m w Q \<longleftrightarrow> (\<exists>r w' es. m (w, []) = (r, w', es) \<and> Q r w')"

lemma runs_kbind:
  assumes "yields m w P" "\<And>x w'. P x w' \<Longrightarrow> runs (f x) w' Q" "\<And>x. appends (f x)"
  shows "runs (kbind m f) w Q"
proof -
  obtain x w1 es where m: "m (w, []) = (Inr x, w1, es)" "P x w1" by (rule yieldsE [OF assms(1)])
  from assms(2) [OF m(2)] obtain r w2 es2 where f: "f x (w1, []) = (r, w2, es2)" "Q r w2" unfolding runs_def by blast
  from m f appendsD [OF assms(3) f(1)] show ?thesis by (simp add: runs_def kbind_def)
qed

lemma runs_yields: "runs m w (\<lambda>r w'. \<exists>x. r = Inr x \<and> P x w') \<longleftrightarrow> yields m w P"
  by (auto simp: runs_def yields_def)

section \<open>A server that accepts\<close>

text \<open>
  The environment in the worlds of \<open>I\<close>, for everything but the Fabricator: every object is found or reported missing,
  every write is accepted, there is one control node and the password of the registry user.
\<close>

definition accepting_kube :: "'w kclient \<Rightarrow> ('w \<Rightarrow> bool) \<Rightarrow> bool" where
  "accepting_kube c I \<longleftrightarrow>
     (\<forall>k w. I w \<and> fst k \<noteq> ''Fabricator'' \<longrightarrow> I (snd (kc_get c k w)) \<and> (\<forall>err. fst (kc_get c k w) = Inl err \<longrightarrow> kc_not_found c err)) \<and>
     (\<forall>x w. I w \<and> kind_of (ko_Spec x) \<noteq> ''Fabricator'' \<longrightarrow> fst (kc_create c x w) = None \<and> I (snd (kc_create c x w))) \<and>
     (\<forall>x w. I w \<and> kind_of (ko_Spec x) \<noteq> ''Fabricator'' \<longrightarrow> fst (kc_update c x w) = None \<and> I (snd (kc_update c x w))) \<and>
     (\<forall>k w. I w \<and> fst k \<noteq> ''Fabricator'' \<longrightarrow> I (snd (kc_delete c k w)) \<and> (\<forall>err. fst (kc_delete c k w) = Some err \<longrightarrow> kc_not_found c err)) \<and>
     (\<forall>x. \<exists>k. kc_kinds c x = Inr [k])"

definition accepting :: "'w operator_env \<Rightarrow> ('w \<Rightarrow> bool) \<Rightarrow> bool" where
  "accepting e I \<longleftrightarrow> accepting_kube (oe_kube e) I \<and>
     (\<forall>w. I w \<longrightarrow> I (snd (oe_now e w))) \<and>
     (\<forall>w. I w \<longrightarrow> (\<exists>nodes w'. oe_list_nodes e w = (Inr nodes, w') \<and> I w')) \<and>
     (\<forall>w. I w \<longrightarrow> (\<exists>control w'. oe_list_controls e w = (Inr [control], w') \<and> I w')) \<and>
     (\<forall>w. I w \<longrightarrow> (\<exists>x p w'. kc_get (oe_kube e) (''Secret'', FabNamespace, RegistryUserReaderSecret) w = (Inr x, w') \<and>
       reader_password x = Inr p \<and> I w'))"

text \<open>
  The Fabricator as the server stores it, and what its calls do to it in the worlds of \<open>I\<close>. A read returns it. An update of its spec is accepted when it was
  made from the stored version; its admission is \<^verbatim>\<open>FabricatorWebhook\<close>, which defaults and validates, and the
  version changes. An update of its status is accepted when it was made from the stored version, changes nothing
  but the status and perhaps the version, and returns what is stored; it is refused as a conflict otherwise. No other call touches the
  Fabricator.
\<close>

definition fab_key :: okey where "fab_key = (''Fabricator'', FabNamespace, FabName)"

definition stored_spec :: "fab_object \<Rightarrow> kspec" where
  "stored_spec F = FabricatorSpec (Config (fo_Fab F)) (fo_Overrides F)"

definition reads_fab :: "'w operator_env \<Rightarrow> ('w \<Rightarrow> fab_object) \<Rightarrow> ('w \<Rightarrow> bool) \<Rightarrow> bool" where
  "reads_fab e stored I \<longleftrightarrow>
     (\<forall>w. I w \<longrightarrow> (\<exists>w'. oe_get_fab e (FabNamespace, FabName) w = (Inr (stored w), w') \<and> I w' \<and> stored w' = stored w)) \<and>
     (\<forall>w. I w \<longrightarrow> (\<exists>x w'. kc_get (oe_kube e) fab_key w = (Inr x, w') \<and> I w' \<and> stored w' = stored w \<and>
        ko_key x = fab_key \<and> ko_ResourceVersion x = fo_ResourceVersion (stored w) \<and> ko_Spec x = stored_spec (stored w))) \<and>
     (\<forall>x s. kc_equal (oe_kube e) x (x\<lparr>ko_Spec := s\<rparr>) \<longleftrightarrow> ko_Spec x = s)"

definition updates_fab :: "'w operator_env \<Rightarrow> (fabricator \<Rightarrow> unit result) \<Rightarrow> ('w \<Rightarrow> fab_object) \<Rightarrow> ('w \<Rightarrow> bool) \<Rightarrow> bool" where
  "updates_fab e sc stored I \<longleftrightarrow>
     (\<forall>w x c v f. I w \<and> ko_key x = fab_key \<and> ko_ResourceVersion x = fo_ResourceVersion (stored w) \<and> ko_Spec x = FabricatorSpec c v \<and>
        fab_validate sc ((fo_Fab (stored w))\<lparr>Config := c\<rparr>) = Inr f \<longrightarrow>
        (\<exists>w' n r. kc_update (oe_kube e) x w = (None, w') \<and> I w' \<and> r \<noteq> fo_ResourceVersion (stored w) \<and>
          stored w' = (stored w)\<lparr>fo_Fab := f, fo_Overrides := v, fo_Generation := n, fo_ResourceVersion := r\<rparr>))"

definition updates_status :: "'w operator_env \<Rightarrow> ('w \<Rightarrow> fab_object) \<Rightarrow> ('w \<Rightarrow> bool) \<Rightarrow> bool" where
  "updates_status e stored I \<longleftrightarrow>
     (\<forall>w f. I w \<longrightarrow>
        (if fo_ResourceVersion f = fo_ResourceVersion (stored w)
         then \<exists>w' r. oe_status_update e f w = (Inr (stored w'), w') \<and> I w' \<and>
           stored w' = (stored w)\<lparr>fo_Status := fo_Status f, fo_ResourceVersion := r\<rparr>
         else \<exists>err w'. oe_status_update e f w = (Inl err, w') \<and> kc_conflict (oe_kube e) err \<and> I w' \<and> stored w' = stored w))"

definition fab_server :: "'w operator_env \<Rightarrow> (fabricator \<Rightarrow> unit result) \<Rightarrow> ('w \<Rightarrow> fab_object) \<Rightarrow> ('w \<Rightarrow> bool) \<Rightarrow> bool" where
  "fab_server e sc stored I \<longleftrightarrow> (\<forall>F. accepting e (\<lambda>w. I w \<and> stored w = F)) \<and>
     reads_fab e stored I \<and> updates_fab e sc stored I \<and> updates_status e stored I"

lemma accepting_kubeD:
  assumes "accepting_kube c I" "I w"
  shows "fst k \<noteq> ''Fabricator'' \<Longrightarrow> I (snd (kc_get c k w))" "fst k \<noteq> ''Fabricator'' \<Longrightarrow> fst (kc_get c k w) = Inl err \<Longrightarrow> kc_not_found c err"
    "kind_of (ko_Spec x) \<noteq> ''Fabricator'' \<Longrightarrow> fst (kc_create c x w) = None" "kind_of (ko_Spec x) \<noteq> ''Fabricator'' \<Longrightarrow> I (snd (kc_create c x w))"
    "kind_of (ko_Spec x) \<noteq> ''Fabricator'' \<Longrightarrow> fst (kc_update c x w) = None" "kind_of (ko_Spec x) \<noteq> ''Fabricator'' \<Longrightarrow> I (snd (kc_update c x w))"
    "fst k \<noteq> ''Fabricator'' \<Longrightarrow> I (snd (kc_delete c k w))" "fst k \<noteq> ''Fabricator'' \<Longrightarrow> fst (kc_delete c k w) = Some err \<Longrightarrow> kc_not_found c err"
  using assms unfolding accepting_kube_def by blast+

lemma yields_CreateOrUpdate:
  assumes "accepting_kube c I" "I w" "plain_spec (ko_Spec x)"
  shows "yields (CreateOrUpdate c x) w (\<lambda>_. I)"
proof -
  let ?x = "fresh_meta x"
  have plain: "supported (ko_Spec x)" "kind_of (ko_Spec ?x) \<noteq> ''Fabricator''" "fst (ko_key ?x) \<noteq> ''Fabricator''"
    using assms(3) by (simp_all add: plain_spec_def) (simp add: ko_key_def)
  obtain r w1 where g: "kc_get c (ko_key ?x) w = (r, w1)" by (cases "kc_get c (ko_key ?x) w")
  have I1: "I w1" using accepting_kubeD(1) [OF assms(1,2) plain(3)] g by simp
  have nf: "r = Inl err \<Longrightarrow> kc_not_found c err" for err using accepting_kubeD(2) [OF assms(1,2) plain(3)] g by simp
  obtain w2 where cr: "kc_create c ?x w1 = (None, w2)" "I w2"
    using accepting_kubeD(3,4) [OF assms(1) I1 plain(2)] by (cases "kc_create c ?x w1") auto
  have up: "\<exists>w3. kc_update c y w1 = (None, w3) \<and> I w3" if "ko_Spec y = ko_Spec ?x" for y
    using accepting_kubeD(5,6) [OF assms(1) I1, of y] plain(2) that by (cases "kc_update c y w1") auto
  have "yields (ctrlutil_CreateOrUpdate c ?x) w (\<lambda>_. I)"
  proof (cases r)
    case (Inl err)
    with nf g cr show ?thesis
      by (simp add: yields_def ctrlutil_CreateOrUpdate_def kget_def kbind_def kcreate_def kwrite_def kret_def)
  next
    case (Inr old)
    with g up [of "old\<lparr>ko_Spec := ko_Spec ?x\<rparr>"] I1 show ?thesis
      by (auto simp: yields_def ctrlutil_CreateOrUpdate_def kget_def kbind_def kupdate_def kwrite_def kret_def Let_def)
  qed
  with plain(1) show ?thesis unfolding CreateOrUpdate_def by (simp add: yields_kwrap)
qed

text \<open>An object is enforced when its creation or update succeeds once its kind is known.\<close>

lemma yields_enforced:
  assumes "accepting_kube c J" "\<And>k. yields (CreateOrUpdate c (x\<lparr>ko_Kind := k\<rparr>)) w (\<lambda>_. I)"
  shows "yields (enforce_object c cfg x) w (\<lambda>_. I)"
proof -
  obtain k where "kc_kinds c x = Inr [k]" using assms(1) unfolding accepting_kube_def by blast
  then obtain k' where k: "EnsureKind c x = Inr (x\<lparr>ko_Kind := k'\<rparr>)"
    by (cases "ko_Kind x = ''''") (auto simp: EnsureKind_def intro: that [of "ko_Kind x"])
  show ?thesis
    unfolding enforce_object_def
  proof (rule yields_kbind)
    show "yields (klift (ewrap ''ensuring kind'' [] (EnsureKind c x))) w (\<lambda>y w'. y = x\<lparr>ko_Kind := k'\<rparr> \<and> w' = w)"
      using k by (intro yields_klift) simp_all
  next
    fix y w' assume "y = x\<lparr>ko_Kind := k'\<rparr> \<and> w' = w"
    then show "yields (kwrap ''retrying create or update %s/%s'' [ko_Kind y, ko_Name y]
       (kwrap ''creating or updating %s %s'' [ko_Kind y, ko_Name y]
         (kbind (OnError (backoff_steps cfg) (\<lambda>e. \<not> kc_conflict c e) (CreateOrUpdate c y) ResultNone) (\<lambda>_. kret ())))) w' (\<lambda>_. I)"
      using assms(2) [of k'] by (intro yields_kwrap yields_kbind [OF yields_OnError] yields_kret appends_intro) (auto simp: backoff_steps_def)
  qed (intro appends_intro)
qed

lemma yields_enforce: "accepting_kube c I \<Longrightarrow> I w \<Longrightarrow> plain_spec (ko_Spec x) \<Longrightarrow> yields (enforce_object c cfg x) w (\<lambda>_. I)"
  by (rule yields_enforced, assumption, rule yields_CreateOrUpdate) simp_all

lemma yields_EnforceKubeInstall:
  assumes "accepting_kube c I" "I w" "installs inst cfg"
  shows "yields (EnforceKubeInstall c cfg [inst]) w (\<lambda>_. I)"
proof -
  obtain objs where o: "inst cfg = Inr objs" "list_all (\<lambda>x. plain_spec (ko_Spec x)) objs" using assms(3) by blast
  show ?thesis
    unfolding EnforceKubeInstall_def
  proof (rule yields_kseq)
    fix i w assume "i \<in> set [inst]" "I w"
    then show "yields (kbind (klift (i cfg)) (kseq (enforce_object c cfg))) w (\<lambda>_. I)"
      using o assms(1)
      by (intro yields_kbind [OF yields_klift [where P = "\<lambda>y w'. y = objs \<and> I w'"]] appends_intro)
        (auto intro!: yields_kseq yields_enforce appends_intro simp: list_all_iff)
  qed (use assms(2) in \<open>auto intro!: appends_intro\<close>)
qed

lemma yields_DeleteIfPresent:
  assumes "accepting_kube c I" "I w" "fst k \<noteq> ''Fabricator''"
  shows "yields (DeleteIfPresent c k) w (\<lambda>_. I)"
proof -
  obtain r w1 where d: "kc_delete c k w = (r, w1)" by (cases "kc_delete c k w")
  have I1: "I w1" using accepting_kubeD(7) [OF assms] d by simp
  have nf: "r = Some err \<Longrightarrow> kc_not_found c err" for err using accepting_kubeD(8) [OF assms] d by simp
  show ?thesis
    using d I1 nf by (cases r) (auto simp: yields_def DeleteIfPresent_def kdelete_def kwrite_def)
qed

lemma yields_run_step:
  assumes "accepting_kube c I" "I w" "installable cfg" "libs_total lb" "targets_ok lb cfg" "st \<in> set (apply_steps lb control pw)"
  shows "yields (run_step c cfg st) w (\<lambda>_. I)"
proof (cases "snd st")
  case (Enforce inst)
  then have "(fst st, Enforce inst) \<in> set (apply_steps lb control pw)" using assms(6) by (metis prod.collapse)
  from installable_steps [OF assms(3,4,5) this] Enforce show ?thesis
    unfolding run_step_def using assms(1,2) by (simp add: yields_kwrap yields_EnforceKubeInstall)
next
  case (DeleteChart n)
  with assms(1,2) show ?thesis
    unfolding run_step_def DeleteHelmChartIfPresent_def by (simp add: yields_kwrap yields_DeleteIfPresent)
qed

section \<open>Applying the configuration\<close>

lemma acceptingD:
  assumes "accepting e I" "I w"
  shows "I (snd (oe_now e w))" "\<exists>nodes w'. oe_list_nodes e w = (Inr nodes, w') \<and> I w'"
    "\<exists>control w'. oe_list_controls e w = (Inr [control], w') \<and> I w'"
    "\<exists>x p w'. kc_get (oe_kube e) (''Secret'', FabNamespace, RegistryUserReaderSecret) w = (Inr x, w') \<and> reader_password x = Inr p \<and> I w'"
  using assms unfolding accepting_def by blast+

text \<open>The worlds of a server that store the Fabricator \<open>F\<close>.\<close>

abbreviation storing :: "('w \<Rightarrow> fab_object) \<Rightarrow> ('w \<Rightarrow> bool) \<Rightarrow> fab_object \<Rightarrow> 'w \<Rightarrow> bool" where
  "storing stored I F \<equiv> (\<lambda>w. I w \<and> stored w = F)"

lemma runs_mono: "runs m w P \<Longrightarrow> (\<And>r w'. P r w' \<Longrightarrow> Q r w') \<Longrightarrow> runs m w Q"
  unfolding runs_def by blast

lemma fab_serverD:
  assumes "fab_server e sc stored I"
  shows "accepting e (storing stored I F)" "accepting_kube (oe_kube e) (storing stored I F)"
    "reads_fab e stored I" "updates_fab e sc stored I" "updates_status e stored I"
  using assms unfolding fab_server_def accepting_def by blast+

lemma installable_cong:
  "fo_Fab g = fo_Fab f \<Longrightarrow> st_IsBootstrap (fo_Status g) = st_IsBootstrap (fo_Status f) \<Longrightarrow> installable g = installable f"
  by (simp add: installable_def control_vip_def fabcfg_def)

lemma targets_ok_cong: "fo_Fab g = fo_Fab f \<Longrightarrow> targets_ok lb g = targets_ok lb f"
  by (simp add: targets_ok_def fab_targets_def fabcfg_def)

lemma set_condition_bootstrap [simp]:
  "st_IsBootstrap (fo_Status (set_condition t st reason msg f)) = st_IsBootstrap (fo_Status f)"
  by (simp add: set_condition_def)

lemma upd_status_meta [simp]:
  "fo_ResourceVersion (upd_status h f) = fo_ResourceVersion f" "fo_Overrides (upd_status h f) = fo_Overrides f"
  by (simp_all add: upd_status_def)

lemma set_condition_meta [simp]: "fo_ResourceVersion (set_condition t st reason msg f) = fo_ResourceVersion f"
  by (simp add: set_condition_def)

lemma pending_status_fields [simp]:
  "fo_Fab (pending_status now f) = fo_Fab f" "fo_Generation (pending_status now f) = fo_Generation f"
  "st_IsBootstrap (fo_Status (pending_status now f)) = st_IsBootstrap (fo_Status f)"
  "fo_ResourceVersion (pending_status now f) = fo_ResourceVersion f"
  by (simp_all add: pending_status_def Let_def)

lemma CalculateVersions_fields [simp]:
  "fo_Fab (CalculateVersions v f) = fo_Fab f" "fo_Generation (CalculateVersions v f) = fo_Generation f"
  "st_IsBootstrap (fo_Status (CalculateVersions v f)) = st_IsBootstrap (fo_Status f)"
  "fo_ResourceVersion (CalculateVersions v f) = fo_ResourceVersion f"
  by (simp_all add: CalculateVersions_def Let_def)

lemma applied_status_fields [simp]:
  "fo_Fab (applied_status v now f) = fo_Fab f" "fo_Generation (applied_status v now f) = fo_Generation f"
  "st_IsBootstrap (fo_Status (applied_status v now f)) = st_IsBootstrap (fo_Status f)"
  "outdated v (applied_status v now f) = False" "fo_ResourceVersion (applied_status v now f) = fo_ResourceVersion f"
  by (simp_all add: applied_status_def Let_def outdated_def)

definition up_to_date :: "string \<Rightarrow> fab_object \<Rightarrow> bool" where
  "up_to_date v f \<longleftrightarrow> condition_true f ConditionApplied \<and> \<not> outdated v f"

text \<open>What a status update stores counts as applied exactly if what was sent does.\<close>

lemma up_to_date_stored:
  "fo_Status g = fo_Status f \<Longrightarrow> fo_Generation g = fo_Generation f \<Longrightarrow> up_to_date v g = up_to_date v f"
  by (simp add: up_to_date_def condition_true_def outdated_def)

text \<open>The object stored by a status update of \<open>f\<close> over \<open>F\<close>.\<close>

definition restatused :: "fab_object \<Rightarrow> fab_object \<Rightarrow> fab_object \<Rightarrow> bool" where
  "restatused F f g \<longleftrightarrow> (\<exists>r. g = F\<lparr>fo_Status := fo_Status f, fo_ResourceVersion := r\<rparr>)"

lemma restatused_fields:
  assumes "restatused F f g"
  shows "fo_Fab g = fo_Fab F" "fo_Generation g = fo_Generation F" "fo_Status g = fo_Status f" "fo_Overrides g = fo_Overrides F"
  using assms by (auto simp: restatused_def)

lemma yields_status_update:
  assumes "fab_server e sc stored I" "I w" "fo_ResourceVersion f = fo_ResourceVersion (stored w)"
  shows "yields (kwrap msg args (status_update e f)) w (\<lambda>g w'. I w' \<and> stored w' = g \<and> restatused (stored w) f g)"
proof -
  obtain w' r where "oe_status_update e f w = (Inr (stored w'), w')" "I w'"
    "stored w' = (stored w)\<lparr>fo_Status := fo_Status f, fo_ResourceVersion := r\<rparr>"
    using fab_serverD(5) [OF assms(1)] assms(2,3) unfolding updates_status_def by metis
  then show ?thesis by (intro yields_kwrap) (auto simp: yields_def status_update_def restatused_def)
qed

lemma runs_status_conflict:
  assumes "fab_server e sc stored I" "I w" "fo_ResourceVersion f \<noteq> fo_ResourceVersion (stored w)" "\<And>x. appends (k x)"
  shows "runs (kbind (kwrap msg args (status_update e f)) k) w
    (\<lambda>r w'. \<exists>err. r = Inl (Wrapf msg args err) \<and> kc_conflict (oe_kube e) err \<and> I w' \<and> stored w' = stored w)"
proof -
  obtain err w' where "oe_status_update e f w = (Inl err, w')" "kc_conflict (oe_kube e) err" "I w'" "stored w' = stored w"
    using fab_serverD(5) [OF assms(1)] assms(2,3) unfolding updates_status_def by metis
  then show ?thesis by (simp add: runs_def kbind_def kwrap_def status_update_def)
qed

text \<open>What is left of an object: its configuration, whether it can be installed, and what its status says.\<close>

definition applied_over :: "string \<Rightarrow> fab_object \<Rightarrow> fab_object \<Rightarrow> bool" where
  "applied_over v F g \<longleftrightarrow> fo_Fab g = fo_Fab F \<and> fo_Generation g = fo_Generation F \<and> up_to_date v g \<and> \<not> st_IsBootstrap (fo_Status g)"

lemma yields_know_storing:
  assumes "fab_server e sc stored I" "I w"
  shows "yields (know e) w (\<lambda>_ w'. I w' \<and> stored w' = stored w)"
  using acceptingD(1) [OF fab_serverD(1) [OF assms(1), of "stored w"], of w] assms(2) by (intro yields_know) simp

lemma yields_apply_rest:
  assumes srv: "fab_server e sc stored I" and "I w" "installable cfg" "libs_total (oe_libs e)" "targets_ok (oe_libs e) cfg"
    and F: "stored w = F" "fo_Fab cfg = fo_Fab F" "fo_Generation cfg = fo_Generation F" "fo_ResourceVersion cfg = fo_ResourceVersion F"
  shows "yields (apply_rest e control pw cfg) w (\<lambda>g w'. I w' \<and> stored w' = g \<and> applied_over (oe_Version e) F g)"
proof (rule yields_kbind)
  show "yields (kseq (run_step (oe_kube e) cfg) (apply_steps (oe_libs e) control pw)) w (\<lambda>_. storing stored I F)"
    using assms(2) F(1) by (intro yields_kseq yields_run_step [OF fab_serverD(2) [OF srv] _ assms(3,4,5)] appends_intro) simp_all
  fix u :: unit and w' assume w': "I w' \<and> stored w' = F"
  show "yields (kbind (know e) (\<lambda>now. kwrap ''updating applied status'' [] (status_update e (applied_status (oe_Version e) now cfg)))) w'
      (\<lambda>g w'. I w' \<and> stored w' = g \<and> applied_over (oe_Version e) F g)"
  proof (rule yields_kbind)
    show "yields (know e) w' (\<lambda>_. storing stored I F)" using yields_know_storing [OF srv] w' by auto
    fix now w2 assume w2: "I w2 \<and> stored w2 = F"
    have boot: "\<not> st_IsBootstrap (fo_Status cfg)" using assms(3) by (simp add: installable_def)
    let ?a = "applied_status (oe_Version e) now cfg"
    have up: "up_to_date (oe_Version e) ?a" by (simp add: up_to_date_def applied_status_applied)
    have over: "applied_over (oe_Version e) F g" if "restatused F ?a g" for g
      using restatused_fields [OF that] up_to_date_stored [of g ?a] up boot F(3) by (simp add: applied_over_def)
    show "yields (kwrap ''updating applied status'' [] (status_update e ?a)) w2
        (\<lambda>g w'. I w' \<and> stored w' = g \<and> applied_over (oe_Version e) F g)"
      by (rule yields_mono [OF yields_status_update [OF srv]]) (use w2 F(4) over in auto)
  qed (intro appends_intro)
qed (intro appends_intro)

text \<open>What enforcing the Fabricator leaves: nothing changes if it has its defaults; otherwise it has them then, in a new version.\<close>

definition rewritten :: "fabricator \<Rightarrow> fab_object \<Rightarrow> fab_object \<Rightarrow> bool" where
  "rewritten v F G \<longleftrightarrow> (if fo_Fab F = v then G = F
     else fo_Fab G = v \<and> fo_Overrides G = fo_Overrides F \<and> fo_Status G = fo_Status F \<and> fo_ResourceVersion G \<noteq> fo_ResourceVersion F)"

lemma yields_CreateOrUpdate_fab:
  assumes srv: "fab_server e sc stored I" and w: "I w" and valid: "fab_validate sc (fo_Fab (stored w)) = Inr v"
    and x: "ko_key x = fab_key" "ko_Spec x = FabricatorSpec (Config v) (fo_Overrides (stored w))"
  shows "yields (CreateOrUpdate (oe_kube e) x) w (\<lambda>_ w'. I w' \<and> rewritten v (stored w) (stored w'))"
proof -
  let ?c = "oe_kube e" and ?F = "stored w" and ?x = "fresh_meta x"
  have d: "v = fab_default (fo_Fab ?F)" using valid unfolding fab_validate_ok by blast
  have v: "v = (fo_Fab ?F)\<lparr>Config := Config v\<rparr>" "fab_default v = v"
    unfolding d by (simp add: fab_default_def, rule fab_default_idempotent)
  have again: "fab_validate sc ((fo_Fab ?F)\<lparr>Config := Config v\<rparr>) = Inr v"
    using valid v unfolding fab_validate_ok by metis
  note rd = fab_serverD(3) [OF srv, unfolded reads_fab_def]
  from rd w obtain old w1 where g: "kc_get ?c fab_key w = (Inr old, w1)" "I w1" "stored w1 = ?F"
    "ko_key old = fab_key" "ko_ResourceVersion old = fo_ResourceVersion ?F" "ko_Spec old = stored_spec ?F" by metis
  let ?y = "old\<lparr>ko_Spec := ko_Spec x\<rparr>"
  have cfg: "Config (fo_Fab ?F) = Config v \<longleftrightarrow> fo_Fab ?F = v"
  proof
    assume "Config (fo_Fab ?F) = Config v"
    with v(1) have "v = (fo_Fab ?F)\<lparr>Config := Config (fo_Fab ?F)\<rparr>" by metis
    then show "fo_Fab ?F = v" by simp
  qed simp
  have "kc_equal ?c old ?y \<longleftrightarrow> ko_Spec old = ko_Spec x" using rd by blast
  then have eq: "kc_equal ?c old ?y \<longleftrightarrow> fo_Fab ?F = v" using cfg by (simp add: g(6) x(2) stored_spec_def)
  have "yields (ctrlutil_CreateOrUpdate ?c ?x) w (\<lambda>_ w'. I w' \<and> rewritten v ?F (stored w'))"
  proof (cases "fo_Fab ?F = v")
    case True
    with eq g show ?thesis
      by (simp add: yields_def ctrlutil_CreateOrUpdate_def kget_def Let_def x(1) rewritten_def)
  next
    case False
    have "ko_key ?y = fab_key" using g(4) by (simp add: ko_key_def x(2) fab_key_def)
    moreover have "ko_ResourceVersion ?y = fo_ResourceVersion (stored w1)" "ko_Spec ?y = FabricatorSpec (Config v) (fo_Overrides ?F)"
      using g by (simp_all add: x(2))
    ultimately obtain w2 n r where u: "kc_update ?c ?y w1 = (None, w2)" "I w2" "r \<noteq> fo_ResourceVersion ?F"
      "stored w2 = ?F\<lparr>fo_Fab := v, fo_Overrides := fo_Overrides ?F, fo_Generation := n, fo_ResourceVersion := r\<rparr>"
      using fab_serverD(4) [OF srv, unfolded updates_fab_def] g(2,3) again by metis
    with eq g False show ?thesis
      by (simp add: yields_def ctrlutil_CreateOrUpdate_def kget_def Let_def x(1) kbind_def kupdate_def kwrite_def kret_def rewritten_def)
  qed
  then show ?thesis unfolding CreateOrUpdate_def x(2) by (simp add: yields_kwrap)
qed

lemma yields_enforce_fab:
  assumes srv: "fab_server e sc stored I" and w: "I w" and valid: "fab_validate sc (fo_Fab (stored w)) = Inr v"
    and f: "fo_Fab f = v" "fo_Overrides f = fo_Overrides (stored w)"
  shows "yields (EnforceKubeInstall (oe_kube e) f [InstallFabAndControl control]) w (\<lambda>_ w'. I w' \<and> rewritten v (stored w) (stored w'))"
proof -
  let ?x = "(new_object (fb_Namespace (fo_Fab f)) (fb_Name (fo_Fab f)) (FabricatorSpec (fabcfg f) (fo_Overrides f)))
        \<lparr>ko_Kind := '''', ko_Generation := fo_Generation f, ko_ResourceVersion := fo_ResourceVersion f\<rparr>"
  let ?y = "(new_object (nd_Namespace control) (nd_Name control) (ControlNodeSpec control))\<lparr>ko_Kind := ''''\<rparr>"
  let ?Q = "\<lambda>_ w'. I w' \<and> rewritten v (stored w) (stored w')"
  have "fb_Name v = FabName" "fb_Namespace v = FabNamespace"
    using valid unfolding fab_validate_ok by (auto simp: validate_head_def split: if_splits)
  then have x: "ko_key (?x\<lparr>ko_Kind := k\<rparr>) = fab_key"
    "ko_Spec (?x\<lparr>ko_Kind := k\<rparr>) = FabricatorSpec (Config v) (fo_Overrides (stored w))" for k
    by (simp_all add: ko_key_def new_object_def fab_key_def f fabcfg_def)
  have fab: "yields (enforce_object (oe_kube e) f ?x) w ?Q"
    by (rule yields_enforced [OF fab_serverD(2) [OF srv]], rule yields_CreateOrUpdate_fab [OF srv w valid x])
  have ctl: "yields (enforce_object (oe_kube e) f ?y) w' ?Q" if "?Q u w'" for u :: unit and w'
    by (rule yields_mono [OF yields_enforce [OF fab_serverD(2) [OF srv, of "stored w'"]]]) (use that in \<open>auto simp: plain_spec_def new_object_def\<close>)
  have "yields (kseq (enforce_object (oe_kube e) f) [?x, ?y]) w ?Q"
    by (simp only: kseq.simps)
      (intro yields_kbind [OF fab] yields_kbind [OF ctl] yields_kret appends_intro; assumption)
  then show ?thesis unfolding EnforceKubeInstall_def InstallFabAndControl_def kseq.simps
    by (intro yields_kbind [where P = ?Q] yields_kbind [OF yields_klift [OF refl, where P = "\<lambda>y w'. y = [?x, ?y] \<and> w' = w"]]
        yields_kret appends_intro) auto
qed

text \<open>The writes of a status, which come after the Fabricator was enforced.\<close>

abbreviation attempt :: "'w operator_env \<Rightarrow> fab_object \<Rightarrow> control_node \<Rightarrow> string \<Rightarrow> int \<Rightarrow> ('w, fab_object) kio" where
  "attempt e f control pw now \<equiv> kbind (kwrap ''updating attempt status'' [] (status_update e (pending_status now f)))
     (\<lambda>f. apply_rest e control pw (CalculateVersions (release_versions (oe_Version e)) f))"

lemma runs_apply_config:
  assumes srv: "fab_server e sc stored I" and w: "I w" and valid: "fab_validate sc (fo_Fab (stored w)) = Inr v"
    and f: "fo_Fab f = v" "fo_Overrides f = fo_Overrides (stored w)"
    and rest: "\<And>control pw now w'. I w' \<Longrightarrow> rewritten v (stored w) (stored w') \<Longrightarrow> runs (attempt e f control pw now) w' Q"
  shows "runs (apply_config e f) w Q"
  unfolding apply_config_parts
proof (rule runs_kbind)
  note acc = fab_serverD(1) [OF srv]
  let ?J = "storing stored I (stored w)"
  have w0: "?J w" using w by simp
  show "yields (kwrap ''listing controls'' [] (kread (oe_list_controls e))) w (\<lambda>cs w'. (\<exists>control. single_control cs = Inr control) \<and> ?J w')"
    using acceptingD(3) [OF acc w0] by (auto intro!: yields_kwrap intro: yields_kread simp: single_control_def)
  fix cs and w1 assume "(\<exists>control. single_control cs = Inr control) \<and> ?J w1"
  then obtain control where cs: "single_control cs = Inr control" and w1: "I w1" "stored w1 = stored w" by blast
  have f1: "fab_validate sc (fo_Fab (stored w1)) = Inr v" "fo_Overrides f = fo_Overrides (stored w1)" using valid f(2) w1(2) by simp_all
  let ?K = "\<lambda>w'. I w' \<and> rewritten v (stored w) (stored w')"
  have enf: "yields (kwrap ''enforcing fabricator and control install defaults'' [] (EnforceKubeInstall (oe_kube e) f [InstallFabAndControl control])) w1 (\<lambda>_. ?K)"
    using yields_enforce_fab [OF srv w1(1) f1(1) f(1) f1(2)] unfolding w1(2) by (rule yields_kwrap)
  have sec: "yields (kwrap ''getting registry reader user secret'' []
          (kget (oe_kube e) (''Secret'', FabNamespace, RegistryUserReaderSecret))) w2 (\<lambda>x w'. (\<exists>p. reader_password x = Inr p) \<and> ?K w')"
    if "?K w2" for w2
    using acceptingD(4) [OF acc, of w2 "stored w2"] that by (intro yields_kwrap) (auto simp: yields_def kget_def)
  have now: "yields (know e) w3 (\<lambda>_. ?K)" if "?K w3" for w3
    by (rule yields_mono [OF yields_know_storing [OF srv]]) (use that in auto)
  have pw: "yields (klift (reader_password x)) w3 (\<lambda>_. ?K)" if "(\<exists>p. reader_password x = Inr p) \<and> ?K w3" for x w3
    using that by (auto intro: yields_klift)
  have ctl: "yields (klift (single_control cs)) w1 (\<lambda>c w'. c = control \<and> w' = w1)" using cs by (auto intro: yields_klift)
  show "runs (kbind (klift (single_control cs)) (\<lambda>control.
       kbind (kwrap ''enforcing fabricator and control install defaults'' [] (EnforceKubeInstall (oe_kube e) f [InstallFabAndControl control])) (\<lambda>_.
       kbind (kwrap ''getting registry reader user secret'' [] (kget (oe_kube e) (''Secret'', FabNamespace, RegistryUserReaderSecret))) (\<lambda>regSecret.
       kbind (klift (reader_password regSecret)) (\<lambda>pw. kbind (know e) (\<lambda>now. attempt e f control pw now)))))) w1 Q"
    by (rule runs_kbind [OF ctl], clarify, rule runs_kbind [OF enf], rule runs_kbind [OF sec], assumption,
        rule runs_kbind [OF pw], assumption, rule runs_kbind [OF now], assumption, rule rest) (auto intro!: appends_intro)
qed (intro appends_intro)

lemma yields_apply_config:
  assumes srv: "fab_server e sc stored I" and w: "I w" and valid: "fab_validate sc (fo_Fab (stored w)) = Inr (fo_Fab (stored w))"
    and f: "fo_Fab f = fo_Fab (stored w)" "fo_Overrides f = fo_Overrides (stored w)" "fo_Generation f = fo_Generation (stored w)"
      "fo_ResourceVersion f = fo_ResourceVersion (stored w)"
    and "installable f" and libs: "libs_total (oe_libs e)" "targets_ok (oe_libs e) f"
  shows "yields (apply_config e f) w (\<lambda>g w'. I w' \<and> stored w' = g \<and> applied_over (oe_Version e) (stored w) g)"
  unfolding runs_yields [symmetric]
proof (rule runs_apply_config [OF srv w valid f(1,2)], unfold runs_yields)
  fix control pw now w' assume w': "I w'" and "rewritten (fo_Fab (stored w)) (stored w) (stored w')"
  then have same: "stored w' = stored w" by (simp add: rewritten_def)
  show "yields (attempt e f control pw now) w' (\<lambda>g w'. I w' \<and> stored w' = g \<and> applied_over (oe_Version e) (stored w) g)"
  proof (rule yields_kbind)
    show "yields (kwrap ''updating attempt status'' [] (status_update e (pending_status now f))) w'
        (\<lambda>g w2. I w2 \<and> stored w2 = g \<and> restatused (stored w) (pending_status now f) g)"
      using yields_status_update [OF srv w', of "pending_status now f"] by (simp add: same f(4))
    fix g w2 assume g: "I w2 \<and> stored w2 = g \<and> restatused (stored w) (pending_status now f) g"
    let ?cfg = "CalculateVersions (release_versions (oe_Version e)) g"
    from g have r: "fo_Fab g = fo_Fab f" "fo_Generation g = fo_Generation f" "fo_Status g = fo_Status (pending_status now f)"
      using restatused_fields f by auto
    have "installable ?cfg" "targets_ok (oe_libs e) ?cfg"
      using assms(8) libs(2) installable_cong [of ?cfg f] targets_ok_cong [of ?cfg f] by (simp_all add: r)
    from yields_apply_rest [OF srv _ this(1) libs(1) this(2), of w2 g] g
    have "yields (apply_rest e control pw ?cfg) w2 (\<lambda>h w'. I w' \<and> stored w' = h \<and> applied_over (oe_Version e) g h)" by simp
    then show "yields (apply_rest e control pw ?cfg) w2 (\<lambda>h w'. I w' \<and> stored w' = h \<and> applied_over (oe_Version e) (stored w) h)"
      by (rule yields_mono) (use r f in \<open>auto simp: applied_over_def\<close>)
  qed (intro appends_intro)
qed

lemma apply_config_conflicts:
  assumes srv: "fab_server e sc stored I" and w: "I w" and valid: "fab_validate sc (fo_Fab (stored w)) = Inr v" "v \<noteq> fo_Fab (stored w)"
    and f: "fo_Fab f = v" "fo_Overrides f = fo_Overrides (stored w)" "fo_ResourceVersion f = fo_ResourceVersion (stored w)"
  shows "runs (apply_config e f) w (\<lambda>r w'. \<exists>err. r = Inl (Wrapf ''updating attempt status'' [] err) \<and> kc_conflict (oe_kube e) err \<and>
    I w' \<and> fo_Fab (stored w') = v \<and> fo_Status (stored w') = fo_Status (stored w))"
proof (rule runs_apply_config [OF srv w valid(1) f(1,2)])
  fix control pw now w' assume w': "I w'" and r: "rewritten v (stored w) (stored w')"
  have new: "fo_Fab (stored w') = v" "fo_Status (stored w') = fo_Status (stored w)" "fo_ResourceVersion (stored w') \<noteq> fo_ResourceVersion (stored w)"
    using r valid(2) by (auto simp: rewritten_def)
  have "runs (attempt e f control pw now) w' (\<lambda>r w2. \<exists>err. r = Inl (Wrapf ''updating attempt status'' [] err) \<and>
      kc_conflict (oe_kube e) err \<and> I w2 \<and> stored w2 = stored w')"
  proof (rule runs_status_conflict [OF srv w'])
    show "fo_ResourceVersion (pending_status now f) \<noteq> fo_ResourceVersion (stored w')" using new(3) f(3) by simp
  qed (intro appends_intro)
  then show "runs (attempt e f control pw now) w' (\<lambda>r w2. \<exists>err. r = Inl (Wrapf ''updating attempt status'' [] err) \<and>
      kc_conflict (oe_kube e) err \<and> I w2 \<and> fo_Fab (stored w2) = v \<and> fo_Status (stored w2) = fo_Status (stored w))"
    by (rule runs_mono) (use new(1,2) in auto)
qed

section \<open>Checking the status\<close>

text \<open>A reading of the status of a component that always succeeds.\<close>

definition steady :: "('w \<Rightarrow> bool) \<Rightarrow> (fab_object \<Rightarrow> ('w, 'a) kio) \<Rightarrow> bool" where
  "steady I g \<longleftrightarrow> (\<forall>f w. I w \<longrightarrow> installable f \<longrightarrow> yields (g f) w (\<lambda>_. I))"

lemma steadyI: "(\<And>f w. I w \<Longrightarrow> installable f \<Longrightarrow> yields (g f) w (\<lambda>_. I)) \<Longrightarrow> steady I g"
  by (simp add: steady_def)

lemma steadyD: "steady I g \<Longrightarrow> I w \<Longrightarrow> installable f \<Longrightarrow> yields (g f) w (\<lambda>_. I)"
  by (simp add: steady_def)

lemma steady_status_of:
  assumes "accepting_kube c I" "fst k \<noteq> ''Fabricator''"
  shows "steady I (status_of what k f c)"
proof (rule steadyI)
  fix cfg w assume w: "I w"
  obtain r w1 where g: "kc_get c k w = (r, w1)" by (cases "kc_get c k w")
  have "I w1" "\<And>err. r = Inl err \<Longrightarrow> kc_not_found c err"
    using accepting_kubeD(1,2) [OF assms(1) w assms(2)] g by simp_all
  with g show "yields (status_of what k f c cfg) w (\<lambda>_. I)"
    by (cases r) (auto simp: yields_def status_of_def kget_def)
qed

lemma steady_workloads:
  assumes "accepting_kube c I"
  shows "steady I (GetDeploymentStatus n k img c)" "steady I (GetDaemonSetStatus n k img c)" "steady I (GetCRDStatus n v c)"
  unfolding GetDeploymentStatus_def GetDaemonSetStatus_def GetCRDStatus_def by (simp_all add: steady_status_of [OF assms])

lemma steady_merge:
  "list_all (\<lambda>g. steady I (g c) \<and> quiet (g c)) gs \<Longrightarrow> steady I (merge_statuses gs s c)"
proof (rule steadyI)
  fix cfg w
  assume "list_all (\<lambda>g. steady I (g c) \<and> quiet (g c)) gs" "I w" "installable cfg"
  then show "yields (merge_statuses gs s c cfg) w (\<lambda>_. I)"
  proof (induction gs arbitrary: s w)
    case (Cons g gs)
    then have h: "list_all (\<lambda>g. steady I (g c) \<and> quiet (g c)) gs" "steady I (g c)" by simp_all
    have "appends (merge_statuses gs s' c cfg)" for s'
      using merge_statuses_reading [of gs c cfg s'] h(1) by (auto simp: list_all_iff quiet_def)
    then show ?case using steadyD [OF h(2) Cons.prems(2,3)] Cons.IH [OF h(1) _ Cons.prems(3)]
      by (auto intro!: yields_kbind)
  qed (auto intro: yields_kret)
qed

lemma steady_image:
  assumes "\<And>img. steady I (get n k img c) \<and> quiet (get n k img c)"
  shows "steady I (image_status get n k r v c)"
proof (rule steadyI)
  fix f w assume w: "I w" and inst: "installable f"
  obtain u where u: "image_for f r = Inr u" using installable_urls(2) [OF inst] by blast
  show "yields (image_status get n k r v c f) w (\<lambda>_. I)"
    unfolding image_status_def
    by (rule yields_kbind [OF yields_klift [where P = "\<lambda>_. I", OF u w]])
      (use assms inst in \<open>auto simp: quiet_def intro: steadyD\<close>)
qed

lemma steady_gateway:
  assumes "accepting_kube c I"
  shows "steady I (\<lambda>f. gateway_status d what r v c f nodes)"
proof (rule steadyI)
  fix f w assume w: "I w" and inst: "installable f"
  have quiet: "appends (gateway_statuses d what img ns res c f)" for img ns res
    by (induction ns arbitrary: res) (auto intro!: appends_intro simp: workload_status_reading)
  have all: "yields (gateway_statuses d what img ns res c f) w (\<lambda>_. I)" if "I w" for img ns res w
    using that
  proof (induction ns arbitrary: res w)
    case (Cons n ns)
    with steadyD [OF steady_workloads(2) [OF assms] Cons.prems inst] show ?case
      by (auto intro!: yields_kbind [OF yields_kwrap] quiet)
  qed (auto intro: yields_kret)
  obtain u where u: "image_for f r = Inr u" using installable_urls(2) [OF inst] by blast
  show "yields (gateway_status d what r v c f nodes) w (\<lambda>_. I)"
    unfolding gateway_status_def
    by (auto intro!: yields_kret [of "\<lambda>_. I"] w yields_kbind [OF yields_klift [where P = "\<lambda>_. I", OF u w]] all quiet)
qed

text \<open>One component is checked: only its status changes, and the Fabricator stays installable.\<close>

definition checks :: "('w \<Rightarrow> bool) \<Rightarrow> (fab_object \<Rightarrow> ('w, fab_object) kio) \<Rightarrow> bool" where
  "checks I h \<longleftrightarrow> (\<forall>f w. I w \<longrightarrow> installable f \<longrightarrow> yields (h f) w (\<lambda>g w'. I w' \<and> installable g))"

lemma checks_component:
  assumes "steady I get"
  shows "checks I (check_component what get put)"
  unfolding checks_def check_component_def
proof (intro allI impI)
  fix f w assume f: "I w" "installable f"
  show "yields (kbind (kwrap (''getting '' @ what @ '' status'') [] (get f))
      (\<lambda>v. kret (upd_status (\<lambda>s. s\<lparr>st_Components := put v (st_Components s)\<rparr>) f))) w (\<lambda>g w'. I w' \<and> installable g)"
  proof (rule yields_kbind [OF yields_kwrap [OF steadyD [OF assms f]]])
    fix v w1 assume "I w1"
    then show "yields (kret (upd_status (\<lambda>s. s\<lparr>st_Components := put v (st_Components s)\<rparr>) f)) w1 (\<lambda>g w'. I w' \<and> installable g)"
      using f(2) installable_cong [of "upd_status (\<lambda>s. s\<lparr>st_Components := put v (st_Components s)\<rparr>) f" f]
      by (auto intro: yields_kret)
  qed (rule appends_intro)
qed

lemma steady_statuses:
  assumes "accepting_kube c I"
  shows "list_all (checks I) (component_checks c nodes)"
proof -
  have q: "quiet (GetDeploymentStatus n k img c)" "quiet (GetDaemonSetStatus n k img c)" "quiet (GetCRDStatus n v c)" for n k img v
    by (auto simp: quiet_def workload_status_reading)
  note im = steady_image [of I GetDeploymentStatus, OF conjI, OF steady_workloads(1) [OF assms] q(1)]
    steady_image [of I GetDaemonSetStatus, OF conjI, OF steady_workloads(2) [OF assms] q(2)]
  have crd: "steady I (F8rStatusAPI c)" "steady I (FabricStatusAPI c)"
    unfolding F8rStatusAPI_def FabricStatusAPI_def MergeKubeStatuses_def
    by (intro steady_merge, simp add: steady_workloads(3) [OF assms] q(3))+
  have gw: "steady I (AlloyStatusGateway c)"
    unfolding AlloyStatusGateway_def by (rule steadyI) (auto intro: yields_kret steadyD im(2))
  show ?thesis
    unfolding component_checks_def list.pred_inject
    by (intro conjI checks_component crd gw; (simp; fail)?; unfold component_status_defs, intro im steady_gateway [OF assms])
qed

lemma yields_kchain:
  assumes "list_all (checks I) hs" "list_all quiet hs" "I w" "installable f"
  shows "yields (kchain hs f) w (\<lambda>g w'. I w' \<and> installable g)"
  using assms
proof (induction hs arbitrary: f w)
  case (Cons h hs)
  have "yields (kbind (h f) (kchain hs)) w (\<lambda>g w'. I w' \<and> installable g)"
  proof (rule yields_kbind)
    show "yields (h f) w (\<lambda>g w'. I w' \<and> installable g)" using Cons.prems by (simp add: checks_def)
  qed (use Cons kchain_quiet [of hs] in auto)
  then show ?case by simp
qed (auto intro: yields_kret)

lemma readiness_conditions_meta [simp]:
  "fo_ResourceVersion (readiness_conditions nodes f) = fo_ResourceVersion f"
  by (simp add: readiness_conditions_def Let_def)

lemma checked_status_up_to_date:
  assumes "checked_status f nodes g"
  shows "up_to_date v g = up_to_date v f" "fo_Generation g = fo_Generation f" "fo_ResourceVersion g = fo_ResourceVersion f"
proof -
  obtain u now where g: "g = upd_status (\<lambda>s. s\<lparr>st_LastStatusCheck := now\<rparr>) (readiness_conditions nodes (with_components u f))"
    using assms unfolding checked_status_def by blast
  then show "up_to_date v g = up_to_date v f" "fo_Generation g = fo_Generation f"
    by (simp_all add: up_to_date_def outdated_def readiness_conditions_def Let_def set_condition_def with_components_def
        condition_true_def upd_status_def IsStatusConditionTrue_Set)
  show "fo_ResourceVersion g = fo_ResourceVersion f" by (simp add: g with_components_def)
qed

lemma yields_kchain_components:
  assumes "accepting_kube c I" "I w" "installable f"
  shows "yields (kchain (component_checks c nodes) f) w (\<lambda>g w'. I w' \<and> (\<exists>v. g = with_components v f))"
proof -
  obtain g w' es where k: "kchain (component_checks c nodes) f (w, []) = (Inr g, w', es)" "I w'"
    using yields_kchain [OF steady_statuses [OF assms(1)] component_checks_quiet assms(2,3)] unfolding yields_def by blast
  have "list_all sets_components (component_checks c nodes)" "component_checks c nodes \<noteq> []" by (simp_all add: component_checks_def)
  with k kchain_components show ?thesis unfolding yields_def by blast
qed

lemma yields_statusCheck:
  assumes srv: "fab_server e sc stored I" and w: "I w" and f: "installable f" "fo_ResourceVersion f = fo_ResourceVersion (stored w)"
      "fo_Generation f = fo_Generation (stored w)"
    and up: "up_to_date v (stored w)" "up_to_date v f"
  shows "yields (statusCheck e f nodes) w (\<lambda>_ w'. I w' \<and> fo_Fab (stored w') = fo_Fab (stored w) \<and>
    fo_Generation (stored w') = fo_Generation (stored w) \<and> up_to_date v (stored w'))" (is "yields _ _ (\<lambda>_. ?Q)")
proof -
  let ?J = "storing stored I (stored w)"
  have app: "appends (kchain (component_checks (oe_kube e) nodes) f)" by (rule kchain_quiet [OF component_checks_quiet, THEN conjunct1])
  have now: "yields (know e) w' (\<lambda>_. ?J)" if "?J w'" for w'
    by (rule yields_mono [OF yields_know_storing [OF srv]]) (use that in auto)
  have chain: "yields (kchain (component_checks (oe_kube e) nodes) f) w' (\<lambda>g w'. ?J w' \<and> (\<exists>u. g = with_components u f))" if "?J w'" for w'
    using yields_kchain_components [OF fab_serverD(2) [OF srv] that f(1)] .
  have upd: "yields (kwrap ''updating ready status'' [] (status_update e g)) w' (\<lambda>_. ?Q)" if "?J w'" "checked_status f nodes g" for g w'
  proof (rule yields_mono [OF yields_status_update [OF srv]])
    note c = checked_status_up_to_date [OF that(2)]
    show "I w'" "fo_ResourceVersion g = fo_ResourceVersion (stored w')" using that(1) c(3) f(2) by simp_all
    fix h w2 assume h: "I w2 \<and> stored w2 = h \<and> restatused (stored w') g h"
    then have "fo_Fab h = fo_Fab (stored w)" "fo_Generation h = fo_Generation (stored w)" "fo_Status h = fo_Status g"
      using restatused_fields that(1) by auto
    moreover from this have "up_to_date v h" using up_to_date_stored [of h g] c(1) [of v] c(2) up(2) f(3) by simp
    ultimately show "?Q w2" using h by simp
  qed
  show ?thesis
    unfolding statusCheck_def
  proof (rule yields_kbind [OF now])
    fix t w1 assume w1: "?J w1"
    show "yields (if t - st_LastStatusCheck (fo_Status f) < minute \<and> condition_true f ConditionReady then kret ()
        else kbind (kchain (component_checks (oe_kube e) nodes) f) (\<lambda>f. kbind (know e) (\<lambda>now.
          kbind (kwrap ''updating ready status'' []
            (status_update e (upd_status (\<lambda>s. s\<lparr>st_LastStatusCheck := now\<rparr>) (readiness_conditions nodes f)))) (\<lambda>_. kret ())))) w1 (\<lambda>_. ?Q)"
    proof (cases "t - st_LastStatusCheck (fo_Status f) < minute \<and> condition_true f ConditionReady")
      case True
      with w1 up(1) show ?thesis by (simp add: yields_kret)
    next
      case False
      have "yields (kbind (kwrap ''updating ready status'' []
            (status_update e (upd_status (\<lambda>s. s\<lparr>st_LastStatusCheck := now\<rparr>) (readiness_conditions nodes (with_components u f))))) (\<lambda>_. kret ())) w' (\<lambda>_. ?Q)"
        if "?J w'" for u now w'
        by (rule yields_kbind [OF upd [OF that]]) (auto simp: checked_status_def intro!: yields_kret appends_intro)
      then have "yields (kbind (kchain (component_checks (oe_kube e) nodes) f) (\<lambda>f. kbind (know e) (\<lambda>now.
          kbind (kwrap ''updating ready status'' []
            (status_update e (upd_status (\<lambda>s. s\<lparr>st_LastStatusCheck := now\<rparr>) (readiness_conditions nodes f)))) (\<lambda>_. kret ())))) w1 (\<lambda>_. ?Q)"
        by (intro yields_kbind [OF chain [OF w1]]) (auto intro!: yields_kbind [OF now] appends_intro)
      then show ?thesis unfolding if_not_P [OF False] .
    qed
  qed (use w in \<open>auto intro!: appends_intro app\<close>)
qed

section \<open>Reconciling\<close>

lemma kbind_step: "m s = (Inr x, s') \<Longrightarrow> kbind m k s = k x s'"
  by (simp add: kbind_def)

lemma up_to_date_start [simp]: "up_to_date v (start_reconcile ch f) = up_to_date v f"
  by (simp add: up_to_date_def)

text \<open>A reconciliation whose first calls succeed.\<close>

lemma Reconcile_run:
  assumes "snd req = FabName \<or> fst req = FabNamespace" "oe_get_fab e req w = (Inr f, w1)"
    "ReleaseChannel (oe_semver e) = Inr ch" "oe_list_nodes e w1 = (Inr nodes, w2)"
  shows "Reconcile e req (w, []) =
    kbind (if up_to_date (oe_Version e) f then kret (start_reconcile ch f) else apply_config e (start_reconcile ch f))
      (\<lambda>f. statusCheck e f nodes) (w2, [])"
proof -
  have cond: "(if outdated (oe_Version e) g \<or> \<not> condition_true g ConditionApplied then apply_config e g else kret g) =
      (if up_to_date (oe_Version e) g then kret g else apply_config e g)" for g
    by (auto simp: up_to_date_def)
  have req: "\<not> (snd req \<noteq> FabName \<and> fst req \<noteq> FabNamespace)" using assms(1) by blast
  have get: "kwrap ''fetching fabricator'' [] (kread (oe_get_fab e req)) (w, []) = (Inr f, w1, [])"
    using assms(2) by (simp add: kwrap_Inr kread_def)
  have channel: "klift (ewrap ''getting release channel'' [] (ReleaseChannel (oe_semver e))) (w1, []) = (Inr ch, w1, [])"
    using assms(3) by (simp add: klift_def)
  have list: "kwrap ''listing nodes'' [] (kread (oe_list_nodes e)) (w1, []) = (Inr nodes, w2, [])"
    using assms(4) by (simp add: kwrap_Inr kread_def)
  show ?thesis
    unfolding Reconcile_def if_not_P [OF req] cond
    by (simp add: kbind_def get channel list Let_def)
qed

lemma statusCheck_up_to_date:
  assumes "statusCheck e f nodes (w, []) = (r, w', es)" "KStatus g res \<in> set es"
  shows "up_to_date v g = up_to_date v f \<and> fo_Generation g = fo_Generation f"
proof -
  from assms(2) obtain pre post where "es = pre @ KStatus g res # post" by (meson split_list)
  from status_afterD [OF statusCheck_writes assms(1) this] show ?thesis using checked_status_up_to_date by blast
qed

lemma checked_statuses: "statusCheck e f nodes (w, []) = (r, w', es) \<Longrightarrow> up_to_date v f \<Longrightarrow>
    list_all (\<lambda>ev. case ev of KStatus g res \<Rightarrow> up_to_date v g \<and> fo_Generation g = fo_Generation f | _ \<Rightarrow> True) es"
  by (auto simp: list_all_iff dest!: statusCheck_up_to_date [where v = v] split: kevent.split)

text \<open>A Fabricator that is reconciled: its status says that its generation was applied by this version of the operator.\<close>

definition reconciled :: "'w operator_env \<Rightarrow> ('w \<Rightarrow> fab_object) \<Rightarrow> ('w \<Rightarrow> bool) \<Rightarrow> fab_object \<Rightarrow> 'w \<Rightarrow> bool" where
  "reconciled e stored I F w \<longleftrightarrow> I w \<and> up_to_date (oe_Version e) (stored w) \<and>
     fo_Fab (stored w) = fo_Fab F \<and> fo_Generation (stored w) = fo_Generation F"

lemma reconcile_up_to_date:
  assumes srv: "fab_server e sc stored I" and ch: "ReleaseChannel (oe_semver e) = Inr ch" and w: "I w"
    and valid: "fab_validate sc (fo_Fab (stored w)) = Inr v" and up: "up_to_date (oe_Version e) (stored w)"
  shows "\<exists>w' es. Reconcile e (FabNamespace, FabName) (w, []) = (Inr (), w', es) \<and> reconciled e stored I (stored w) w'"
proof -
  obtain w1 where w1: "oe_get_fab e (FabNamespace, FabName) w = (Inr (stored w), w1)" "I w1" "stored w1 = stored w"
    using fab_serverD(3) [OF srv] w unfolding reads_fab_def by blast
  obtain nodes w2 where nodes: "oe_list_nodes e w1 = (Inr nodes, w2)" "I w2" "stored w2 = stored w"
    using acceptingD(2) [OF fab_serverD(1) [OF srv, of "stored w"], of w1] w1 by auto
  let ?f = "start_reconcile ch (stored w)"
  have inst: "installable ?f"
    by (rule validated_installable [of sc "fo_Fab (stored w)"]) (use valid in \<open>auto simp: fab_validate_ok start_reconcile_def\<close>)
  have "yields (statusCheck e ?f nodes) w2 (\<lambda>_ w'. I w' \<and> fo_Fab (stored w') = fo_Fab (stored w2) \<and>
    fo_Generation (stored w') = fo_Generation (stored w2) \<and> up_to_date (oe_Version e) (stored w'))"
    by (rule yields_statusCheck [OF srv nodes(2) inst]) (simp_all add: nodes(3) up, simp_all add: start_reconcile_def)
  then obtain u w' es where "statusCheck e ?f nodes (w2, []) = (Inr u, w', es)" "reconciled e stored I (stored w) w'"
    unfolding yields_def reconciled_def nodes(3) by blast
  then show ?thesis
    using up by (simp add: Reconcile_run [OF _ w1(1) ch nodes(1)] kbind_def kret_def)
qed

text \<open>The run of a Fabricator that has its defaults, with the record of its status.\<close>

lemma reconcile_applies:
  assumes srv: "fab_server e sc stored I" and libs: "libs_total (oe_libs e)" and ch: "ReleaseChannel (oe_semver e) = Inr ch" and w: "I w"
    and valid: "fab_validate sc (fo_Fab (stored w)) = Inr (fo_Fab (stored w))" and t: "targets_ok (oe_libs e) (stored w)"
    and old: "\<not> up_to_date (oe_Version e) (stored w)"
  shows "\<exists>w' es pre g g' post. Reconcile e (FabNamespace, FabName) (w, []) = (Inr (), w', es) \<and> reconciled e stored I (stored w) w' \<and>
    es = pre @ KStatus g (Inr g') # post \<and> up_to_date (oe_Version e) g"
proof -
  obtain w1 where w1: "oe_get_fab e (FabNamespace, FabName) w = (Inr (stored w), w1)" "I w1" "stored w1 = stored w"
    using fab_serverD(3) [OF srv] w unfolding reads_fab_def by blast
  obtain nodes w2 where nodes: "oe_list_nodes e w1 = (Inr nodes, w2)" "I w2" "stored w2 = stored w"
    using acceptingD(2) [OF fab_serverD(1) [OF srv, of "stored w"], of w1] w1 by auto
  let ?f = "start_reconcile ch (stored w)"
  have fab: "fo_Fab ?f = fo_Fab (stored w)" using valid by (simp add: fab_validate_ok)
  have inst: "installable ?f"
    by (rule validated_installable [of sc "fo_Fab (stored w)"]) (use valid fab in \<open>auto simp: start_reconcile_def\<close>)
  have meta: "fo_Generation ?f = fo_Generation (stored w)" "fo_ResourceVersion ?f = fo_ResourceVersion (stored w)"
    "fo_Overrides ?f = fo_Overrides (stored w)" by (simp_all add: start_reconcile_def)
  have "targets_ok (oe_libs e) ?f" using t targets_ok_cong [OF fab] by simp
  from yields_apply_config [OF srv nodes(2) _ _ _ _ _ inst libs this] valid fab meta
  have "yields (apply_config e ?f) w2 (\<lambda>g w'. I w' \<and> stored w' = g \<and> applied_over (oe_Version e) (stored w) g)"
    by (simp add: nodes(3))
  then obtain f' w3 es1 where a: "apply_config e ?f (w2, []) = (Inr f', w3, es1)" "I w3" "stored w3 = f'"
    "applied_over (oe_Version e) (stored w) f'" unfolding yields_def by blast
  have f': "fo_Fab f' = fo_Fab (stored w)" "fo_Generation f' = fo_Generation (stored w)" "up_to_date (oe_Version e) f'"
    "\<not> st_IsBootstrap (fo_Status f')" using a(4) by (simp_all add: applied_over_def)
  have inst': "installable f'" by (rule validated_installable [of sc "fo_Fab (stored w)"]) (use valid f' in auto)
  have "yields (statusCheck e f' nodes) w3 (\<lambda>_ w'. I w' \<and> fo_Fab (stored w') = fo_Fab (stored w3) \<and>
    fo_Generation (stored w') = fo_Generation (stored w3) \<and> up_to_date (oe_Version e) (stored w'))"
    by (rule yields_statusCheck [OF srv a(2) inst']) (simp_all add: a(3) f')
  then obtain u w4 es2 where c: "statusCheck e f' nodes (w3, []) = (Inr u, w4, es2)" "reconciled e stored I (stored w) w4"
    unfolding yields_def reconciled_def a(3) f' by blast
  from apply_config_ends [of e ?f] a(1) have "applied_last e f' es1" unfolding ends_def by blast
  then obtain pre now cfg where es1: "es1 = pre @ [KStatus (applied_status (oe_Version e) now cfg) (Inr f')]"
    unfolding applied_last_def by blast
  have "Reconcile e (FabNamespace, FabName) (w, []) = (Inr (), w4, es1 @ es2)"
    using old a(1) appendsD [OF statusCheck_appends c(1), of es1] by (simp add: Reconcile_run [OF _ w1(1) ch nodes(1)] kbind_def)
  moreover have "es1 @ es2 = pre @ KStatus (applied_status (oe_Version e) now cfg) (Inr f') # es2" by (simp add: es1)
  moreover have "up_to_date (oe_Version e) (applied_status (oe_Version e) now cfg)" by (simp add: up_to_date_def applied_status_applied)
  ultimately show ?thesis using c(2) by blast
qed

lemma reconcile_conflicts:
  assumes srv: "fab_server e sc stored I" and ch: "ReleaseChannel (oe_semver e) = Inr ch" and w: "I w"
    and valid: "fab_validate sc (fo_Fab (stored w)) = Inr v" "v \<noteq> fo_Fab (stored w)" and old: "\<not> up_to_date (oe_Version e) (stored w)"
  shows "\<exists>err w' es. Reconcile e (FabNamespace, FabName) (w, []) = (Inl (Wrapf ''updating attempt status'' [] err), w', es) \<and>
    kc_conflict (oe_kube e) err \<and> I w' \<and> fo_Fab (stored w') = v \<and> fo_Status (stored w') = fo_Status (stored w)"
proof -
  obtain w1 where w1: "oe_get_fab e (FabNamespace, FabName) w = (Inr (stored w), w1)" "I w1" "stored w1 = stored w"
    using fab_serverD(3) [OF srv] w unfolding reads_fab_def by blast
  obtain nodes w2 where nodes: "oe_list_nodes e w1 = (Inr nodes, w2)" "I w2" "stored w2 = stored w"
    using acceptingD(2) [OF fab_serverD(1) [OF srv, of "stored w"], of w1] w1 by auto
  let ?f = "start_reconcile ch (stored w)"
  have f: "fo_Fab ?f = v" using valid(1) by (simp add: fab_validate_ok)
  have meta: "fo_Overrides ?f = fo_Overrides (stored w)" "fo_ResourceVersion ?f = fo_ResourceVersion (stored w)"
    by (simp_all add: start_reconcile_def)
  from apply_config_conflicts [OF srv nodes(2) _ _ f] valid meta
  have "runs (apply_config e ?f) w2 (\<lambda>r w'. \<exists>err. r = Inl (Wrapf ''updating attempt status'' [] err) \<and> kc_conflict (oe_kube e) err \<and>
    I w' \<and> fo_Fab (stored w') = v \<and> fo_Status (stored w') = fo_Status (stored w))" by (simp add: nodes(3))
  then obtain err w' es where "apply_config e ?f (w2, []) = (Inl (Wrapf ''updating attempt status'' [] err), w', es)"
    "kc_conflict (oe_kube e) err" "I w'" "fo_Fab (stored w') = v" "fo_Status (stored w') = fo_Status (stored w)" unfolding runs_def by blast
  then show ?thesis
    using old by (simp add: Reconcile_run [OF _ w1(1) ch nodes(1)] kbind_def)
qed

text \<open>
  C25. Let the API server answer, accept and version the Fabricator as \<open>fab_server\<close> says, with nobody else writing;
  let the stored Fabricator pass validation, its targets be ones Alloy accepts with URLs that parse, and the
  templates not fail. If the stored configuration has its defaults, or its generation was applied already, one
  reconciliation succeeds and leaves a stored Fabricator that is applied. If not, the first one writes the defaults
  and then fails on the conflict its own write has caused, without having applied anything; the next one succeeds and
  leaves the Fabricator, now with its defaults, applied.
\<close>

theorem reconcile_converges:
  assumes "fab_server e sc stored I" "libs_total (oe_libs e)" "ReleaseChannel (oe_semver e) = Inr ch" "I w"
    and "fab_validate sc (fo_Fab (stored w)) = Inr v"
    and "\<forall>t \<in> set (all_targets (Targets (Observability (Config v)))). good_target t \<and> (\<exists>h. lb_hostname (oe_libs e) (tg_URL (snd t)) = Inr h)"
  shows "if v = fo_Fab (stored w) \<or> up_to_date (oe_Version e) (stored w)
    then \<exists>w1 es. Reconcile e (FabNamespace, FabName) (w, []) = (Inr (), w1, es) \<and> reconciled e stored I (stored w) w1
    else \<exists>err w1 es1 w2 es2.
      Reconcile e (FabNamespace, FabName) (w, []) = (Inl (Wrapf ''updating attempt status'' [] err), w1, es1) \<and>
      kc_conflict (oe_kube e) err \<and> fo_Fab (stored w1) = v \<and> fo_Status (stored w1) = fo_Status (stored w) \<and>
      Reconcile e (FabNamespace, FabName) (w1, []) = (Inr (), w2, es2) \<and> reconciled e stored I (stored w1) w2"
proof -
  have again: "fab_validate sc v = Inr v"
    using assms(5) fab_default_idempotent unfolding fab_validate_ok by metis
  have t: "targets_ok (oe_libs e) F" if "fo_Fab F = v" for F
    using assms(6) that by (auto simp: targets_ok_def fab_targets_def fabcfg_def list_all_iff url_parses_def)
  have run: "\<exists>w2 es. Reconcile e (FabNamespace, FabName) (w', []) = (Inr (), w2, es) \<and> reconciled e stored I (stored w') w2"
    if "I w'" "fo_Fab (stored w') = v" for w'
  proof (cases "up_to_date (oe_Version e) (stored w')")
    case True
    then show ?thesis using reconcile_up_to_date [OF assms(1,3) that(1)] again that(2) by metis
  next
    case False
    then show ?thesis using reconcile_applies [OF assms(1,2,3) that(1) _ t [OF that(2)]] again that(2) by metis
  qed
  consider "v = fo_Fab (stored w)" | "v \<noteq> fo_Fab (stored w)" "up_to_date (oe_Version e) (stored w)"
    | "v \<noteq> fo_Fab (stored w)" "\<not> up_to_date (oe_Version e) (stored w)" by blast
  then show ?thesis
  proof cases
    case 1
    then show ?thesis using run [OF assms(4)] by simp
  next
    case 2
    then show ?thesis using reconcile_up_to_date [OF assms(1,3,4,5)] by simp
  next
    case 3
    obtain err w1 es1 where c: "Reconcile e (FabNamespace, FabName) (w, []) = (Inl (Wrapf ''updating attempt status'' [] err), w1, es1)"
      "kc_conflict (oe_kube e) err" "I w1" "fo_Fab (stored w1) = v" "fo_Status (stored w1) = fo_Status (stored w)"
      using reconcile_conflicts [OF assms(1,3,4,5) 3] by blast
    with run [OF c(3,4)] 3 show ?thesis by auto
  qed
qed

text \<open>Reading and writing a status is all a status check does.\<close>

lemma calls_mono: "calls Q m \<Longrightarrow> (\<And>ev. Q ev \<Longrightarrow> P ev) \<Longrightarrow> calls P m"
  unfolding calls_def by (meson list.pred_mono_strong)

lemma statusCheck_calls: "calls (\<lambda>ev. is_get ev \<or> (\<exists>g r. ev = KStatus g r)) (statusCheck e f nodes)"
proof -
  have q: "appends (kchain (component_checks (oe_kube e) nodes) f) \<and> reading (kchain (component_checks (oe_kube e) nodes) f)"
    by (rule kchain_quiet [OF component_checks_quiet])
  have "calls (\<lambda>ev. is_get ev \<or> (\<exists>g r. ev = KStatus g r)) (kchain (component_checks (oe_kube e) nodes) f)"
    by (rule calls_mono [OF conjunct2 [OF q]]) simp
  note chain = conjunct1 [OF q] this
  have upd: "calls (\<lambda>ev. is_get ev \<or> (\<exists>g r. ev = KStatus g r)) (status_update e g)" for g
    by (auto simp: calls_def dest!: status_update_only)
  show ?thesis
    unfolding statusCheck_def by (intro calls_intro appends_intro chain upd)
qed

text \<open>
  C27. Whatever the server answers: a reconciliation that finds the generation applied by this operator
  creates, updates and deletes nothing. It reads objects, and the only thing it may write is a status that
  still calls the generation applied.
\<close>

theorem up_to_date_reconcile_only_reads:
  assumes "Reconcile e req (w, []) = (r, w', es)" "oe_get_fab e req w = (Inr f, w1)" "up_to_date (oe_Version e) f"
  shows "list_all (\<lambda>ev. (\<exists>k x. ev = KGet k x) \<or>
    (\<exists>g res. ev = KStatus g res \<and> up_to_date (oe_Version e) g \<and> fo_Generation g = fo_Generation f)) es"
proof (cases "snd req = FabName \<or> fst req = FabNamespace")
  case False
  with assms(1) show ?thesis by (auto simp: Reconcile_def kret_def)
next
  case req: True
  have get: "kwrap ''fetching fabricator'' [] (kread (oe_get_fab e req)) (w, []) = (Inr f, w1, [])"
    using assms(2) by (simp add: kwrap_Inr kread_def)
  show ?thesis
  proof (cases "ReleaseChannel (oe_semver e)")
    case (Inl err)
    with assms(1) req get show ?thesis by (auto simp: Reconcile_def kbind_def klift_def)
  next
    case (Inr ch)
    obtain rn w2 where l: "oe_list_nodes e w1 = (rn, w2)" by (cases "oe_list_nodes e w1")
    show ?thesis
    proof (cases rn)
      case (Inl err)
      have "kwrap ''listing nodes'' [] (kread (oe_list_nodes e)) (w1, []) = (Inl (Wrapf ''listing nodes'' [] err), w2, [])"
        using l Inl by (simp add: kwrap_def kread_def)
      with assms(1) req get \<open>ReleaseChannel (oe_semver e) = Inr ch\<close> show ?thesis by (auto simp: Reconcile_def kbind_def klift_def Let_def)
    next
      case nodes: (Inr nodes)
      let ?f = "start_reconcile ch f"
      from assms(1,3) have c: "statusCheck e ?f nodes (w2, []) = (r, w', es)"
        unfolding Reconcile_run [OF req assms(2) Inr l [unfolded nodes]] by (simp add: kbind_def kret_def)
      have "up_to_date (oe_Version e) ?f" "fo_Generation ?f = fo_Generation f" using assms(3) by simp (simp add: start_reconcile_def)
      from checked_statuses [OF c this(1)] this(2) callsD [OF statusCheck_calls c]
      show ?thesis by (auto simp: list_all_iff dest!: bspec is_getE)
    qed
  qed
qed

end
