(* ===== verification/OperatorExample.thy ===== *)
theory OperatorExample
  imports OperatorLive HydrateProps
begin

text \<open>
  The operator on a concrete API server. Its world is the Fabricator it stores, in versions: a write made from an
  older version is refused as a conflict, a write of the spec is defaulted and validated. Beside it the server has
  the password of the registry user and no other object, and it accepts every other write.
\<close>

definition example_libs :: libs where
  "example_libs = \<lparr>lb_template = \<lambda>_ _ _. Inr ''yaml'', lb_alloy = \<lambda>_. Inr ''alloy'', lb_fabric_yaml = \<lambda>_. Inr ''yaml'',
     lb_boot_yaml = \<lambda>_. Inr ''yaml'', lb_tolerations_yaml = \<lambda>_. Inr ''yaml'', lb_creds_json = \<lambda>_. Inr ''json'',
     lb_hostname = \<lambda>u. Inr u\<rparr>"

definition not_found :: go_err where "not_found = Errf ''not found'' []"

definition reader_secret :: kobject where
  "reader_secret = new_object FabNamespace RegistryUserReaderSecret (Secret ''basic-auth'' [(''password'', ''hunter2'')] [])"

definition conflict :: go_err where "conflict = Errf ''the object has been modified'' []"

definition next_version :: "string \<Rightarrow> string" where "next_version v = v @ ''0''"

definition fab_kobject :: "fab_object \<Rightarrow> kobject" where
  "fab_kobject w = (new_object FabNamespace FabName (stored_spec w))
     \<lparr>ko_Generation := fo_Generation w, ko_ResourceVersion := fo_ResourceVersion w\<rparr>"

definition write_fab :: "kobject \<Rightarrow> fab_object \<Rightarrow> go_err option \<times> fab_object" where
  "write_fab x w =
     (if ko_ResourceVersion x \<noteq> fo_ResourceVersion w then (Some conflict, w)
      else case ko_Spec x of
        FabricatorSpec c v \<Rightarrow>
          (case fab_validate (\<lambda>_. Inr ()) ((fo_Fab w)\<lparr>Config := c\<rparr>) of
             Inl err \<Rightarrow> (Some err, w)
           | Inr f \<Rightarrow> (None, w\<lparr>fo_Fab := f, fo_Overrides := v, fo_Generation := fo_Generation w + 1,
               fo_ResourceVersion := next_version (fo_ResourceVersion w)\<rparr>))
      | _ \<Rightarrow> (Some conflict, w))"

definition api_kube :: "fab_object kclient" where
  "api_kube = \<lparr>kc_get = (\<lambda>k w. (if k = ko_key reader_secret then Inr reader_secret
       else if k = fab_key then Inr (fab_kobject w) else Inl not_found, w)),
     kc_create = (\<lambda>_ w. (None, w)), kc_update = (\<lambda>x w. if ko_key x = fab_key then write_fab x w else (None, w)),
     kc_delete = (\<lambda>_ w. (Some not_found, w)),
     kc_not_found = (\<lambda>e. e = not_found), kc_conflict = (\<lambda>e. e = conflict), kc_equal = (=), kc_kinds = (\<lambda>x. Inr [kind_of (ko_Spec x)])\<rparr>"

definition write_status :: "fab_object \<Rightarrow> fab_object \<Rightarrow> fab_object result \<times> fab_object" where
  "write_status f w =
     (if fo_ResourceVersion f \<noteq> fo_ResourceVersion w then (Inl conflict, w)
      else let w' = w\<lparr>fo_Status := fo_Status f, fo_ResourceVersion := next_version (fo_ResourceVersion w)\<rparr> in (Inr w', w'))"

definition no_components :: components_status where
  "no_components = \<lparr>FabricatorAPI = '''', FabricatorCtrl = '''', FabricatorNodeConfig = '''', CertManagerCtrl = '''',
     CertManagerWebhook = '''', Reloader = '''', Zot = '''', NTP = '''', FabricAPI = '''', FabricCtrl = '''', FabricBoot = '''',
     FabricDHCP = '''', ControlProxy = '''', ControlAlloy = '''', GatewayAlloy = '''', GatewayDataplane = [], GatewayFRR = []\<rparr>"

text \<open>The Fabricator of the example as it was created, with no switch software listed in its overrides.\<close>

definition example_versions :: versions where
  "example_versions = (release_versions ''v1'')\<lparr>vs_Fabric := (vs_Fabric (release_versions ''v1''))\<lparr>fv_NOS := [], fv_ONIE := []\<rparr>\<rparr>"

definition example_object :: fab_object where
  "example_object = \<lparr>fo_Fab = example_fab, fo_Overrides = example_versions, fo_Generation = 1, fo_ResourceVersion = ''7'',
     fo_Status = \<lparr>st_Versions = example_versions, st_IsBootstrap = False, st_IsInstall = False, st_LastAppliedGen = 0,
       st_LastAppliedTime = 0, st_LastAppliedController = '''', st_LastAttemptGen = 0, st_LastAttemptTime = 0,
       st_LastStatusCheck = 0, st_Conditions = [], st_Components = no_components, st_Release = '''', st_ReleaseChannel = ''''\<rparr>\<rparr>"

text \<open>The same as it is stored once it has its defaults.\<close>

definition defaulted_object :: fab_object where
  "defaulted_object = example_object\<lparr>fo_Fab := fab_default example_fab\<rparr>"

definition api_env :: "fab_object operator_env" where
  "api_env = \<lparr>oe_kube = api_kube, oe_libs = example_libs, oe_Version = ''v1'', oe_semver = (\<lambda>_. Inr (25, 5)),
     oe_get_fab = (\<lambda>_ w. (Inr w, w)), oe_list_nodes = (\<lambda>w. (Inr [], w)), oe_list_controls = (\<lambda>w. (Inr [example_control], w)),
     oe_now = (\<lambda>w. (10 ^ 12, w)), oe_status_update = write_status\<rparr>"

lemma example_libs_total: "libs_total example_libs"
  by (simp add: libs_total_def example_libs_def)

lemma api_env_fields [simp]:
  "oe_libs api_env = example_libs" "oe_kube api_env = api_kube" "oe_Version api_env = ''v1''"
  "oe_get_fab api_env req w = (Inr w, w)" "oe_semver api_env v = Inr (25, 5)" "oe_status_update api_env = write_status"
  by (simp_all add: api_env_def)

lemma reader_key: "ko_key reader_secret = (''Secret'', FabNamespace, RegistryUserReaderSecret)"
  by (simp add: ko_key_def reader_secret_def new_object_def)

lemma fab_kobject_key [simp]: "ko_key (fab_kobject w) = fab_key" "ko_Spec (fab_kobject w) = stored_spec w"
    "ko_ResourceVersion (fab_kobject w) = fo_ResourceVersion w"
  by (simp_all add: ko_key_def fab_kobject_def new_object_def fab_key_def stored_spec_def)

lemma api_accepting: "accepting api_env (\<lambda>w. True \<and> w = F)"
proof -
  have pw: "reader_password reader_secret = Inr ''hunter2''" by (simp add: reader_password_def reader_secret_def new_object_def)
  have "ko_key x \<noteq> fab_key" if "kind_of (ko_Spec x) \<noteq> ''Fabricator''" for x using that by (simp add: ko_key_def fab_key_def)
  then have "accepting_kube api_kube (\<lambda>w. True \<and> w = F)"
    by (auto simp: accepting_kube_def api_kube_def fab_key_def)
  then show ?thesis
    unfolding accepting_def by (simp add: api_env_def api_kube_def reader_key pw)
qed

lemma api_server: "fab_server api_env (\<lambda>_. Inr ()) (\<lambda>w. w) (\<lambda>_. True)"
  unfolding fab_server_def
proof (intro conjI allI)
  show "accepting api_env (\<lambda>w. True \<and> w = F)" for F by (rule api_accepting)
  have "x = x\<lparr>ko_Spec := s\<rparr> \<longleftrightarrow> ko_Spec x = s" for x :: kobject and s by (cases x) auto
  moreover have "fab_key \<noteq> ko_key reader_secret" by (simp add: reader_key fab_key_def)
  ultimately show "reads_fab api_env (\<lambda>w. w) (\<lambda>_. True)"
    by (simp add: reads_fab_def) (simp add: api_kube_def)
  have "next_version v \<noteq> v" for v by (simp add: next_version_def)
  then show "updates_fab api_env (\<lambda>_. Inr ()) (\<lambda>w. w) (\<lambda>_. True)"
    by (simp add: updates_fab_def) (fastforce simp: api_kube_def write_fab_def)
  show "updates_status api_env (\<lambda>w. w) (\<lambda>_. True)"
    by (simp add: updates_status_def write_status_def Let_def) (simp add: api_kube_def, metis)
qed

lemma example_channel: "\<exists>ch. ReleaseChannel (oe_semver api_env) = Inr ch"
  by (simp add: ReleaseChannel_def)

lemma example_not_applied: "\<not> up_to_date ''v1'' example_object" "\<not> up_to_date ''v1'' defaulted_object"
  by (simp_all add: up_to_date_def condition_true_def example_object_def defaulted_object_def)

lemma example_valid: "fab_validate (\<lambda>_. Inr ()) (fo_Fab example_object) = Inr (fab_default example_fab)"
  by (simp add: example_object_def example_fab_accepted)

lemma defaulted_valid: "fab_validate (\<lambda>_. Inr ()) (fo_Fab defaulted_object) = Inr (fo_Fab defaulted_object)"
  using example_fab_accepted fab_default_idempotent unfolding fab_validate_ok defaulted_object_def by simp

lemma example_defaults: "fab_default example_fab \<noteq> fo_Fab example_object" "all_targets (Targets (Observability (Config (fab_default example_fab)))) = []"
proof -
  have "ControlObservability (Control (Config (fab_default example_fab))) \<noteq> None"
    using default_control_observability by (simp add: fab_default_def)
  then show "fab_default example_fab \<noteq> fo_Fab example_object"
    by (auto simp: example_object_def example_fab_def example_config_def DefaultConfig_def)
  show "all_targets (Targets (Observability (Config (fab_default example_fab)))) = []"
    by (simp add: fab_default_def example_fab_def config_default_eval example_config_def DefaultConfig_def all_targets_def label_targets_def)
qed

text \<open>
  The example is stored without its defaults: the first reconciliation ends in a conflict, the second applies it.
\<close>

theorem reconcile_converges_witness:
  "\<exists>w1 es1 w2 es2. Reconcile api_env (FabNamespace, FabName) (example_object, []) = (Inl (Wrapf ''updating attempt status'' [] conflict), w1, es1) \<and>
     fo_Fab w1 = fab_default example_fab \<and> Reconcile api_env (FabNamespace, FabName) (w1, []) = (Inr (), w2, es2) \<and> up_to_date ''v1'' w2"
proof -
  obtain ch where ch: "ReleaseChannel (oe_semver api_env) = Inr ch" using example_channel by blast
  have lib: "libs_total (oe_libs api_env)" using example_libs_total by simp
  have targets: "\<forall>t \<in> set (all_targets (Targets (Observability (Config (fab_default example_fab))))). good_target t \<and>
      (\<exists>h. lb_hostname (oe_libs api_env) (tg_URL (snd t)) = Inr h)" unfolding example_defaults(2) by simp
  have no: "\<not> (fab_default example_fab = fo_Fab example_object \<or> up_to_date (oe_Version api_env) example_object)"
    using example_defaults(1) example_not_applied(1) by simp
  from reconcile_converges [OF api_server lib ch TrueI example_valid targets, unfolded if_not_P [OF no]]
  obtain err w1 es1 w2 es2 where
    "Reconcile api_env (FabNamespace, FabName) (example_object, []) = (Inl (Wrapf ''updating attempt status'' [] err), w1, es1)"
    "kc_conflict (oe_kube api_env) err" "fo_Fab w1 = fab_default example_fab"
    "Reconcile api_env (FabNamespace, FabName) (w1, []) = (Inr (), w2, es2)" "up_to_date ''v1'' w2"
    unfolding reconciled_def by auto
  moreover from this(2) have "err = conflict" by (simp add: api_kube_def)
  ultimately show ?thesis by blast
qed

text \<open>A reconciliation of the example with its defaults, for the properties of its record.\<close>

lemma example_reconciliation:
  obtains w' es pre g g' post where "Reconcile api_env (FabNamespace, FabName) (defaulted_object, []) = (Inr (), w', es)"
    "es = pre @ KStatus g (Inr g') # post" "up_to_date ''v1'' g"
proof -
  obtain ch where ch: "ReleaseChannel (oe_semver api_env) = Inr ch" using example_channel by blast
  have lib: "libs_total (oe_libs api_env)" using example_libs_total by simp
  have "targets_ok (oe_libs api_env) defaulted_object"
    using example_defaults(2) by (simp add: targets_ok_def fab_targets_def fabcfg_def defaulted_object_def)
  from reconcile_applies [OF api_server lib ch TrueI defaulted_valid this] example_not_applied(2) that show thesis by auto
qed

theorem applied_only_after_all_enforced_witness:
  "\<exists>w' es ch us vs g'. Reconcile api_env (FabNamespace, FabName) (defaulted_object, []) = (Inr (), w', es) \<and>
     es = us @ vs \<and> applied_run api_env (start_reconcile ch defaulted_object) g' us"
proof -
  obtain w' es pre g g' post where run: "Reconcile api_env (FabNamespace, FabName) (defaulted_object, []) = (Inr (), w', es)"
    "es = pre @ KStatus g (Inr g') # post" "up_to_date ''v1'' g" by (rule example_reconciliation)
  have need: "outdated (oe_Version api_env) defaulted_object \<or> \<not> condition_true defaulted_object ConditionApplied"
    using example_not_applied(2) by (auto simp: up_to_date_def)
  have "KStatus g (Inr g') \<in> set es" "condition_true g ConditionApplied" using run(2,3) by (simp_all add: up_to_date_def)
  from applied_only_after_all_enforced [OF run(1) _ need this, of defaulted_object] run(1) show ?thesis by auto
qed

theorem up_to_date_reconcile_only_reads_witness:
  "\<exists>r w' es. Reconcile api_env (FabNamespace, FabName) (applied_status ''v1'' 5 example_object, []) = (r, w', es) \<and>
     list_all (\<lambda>ev. (\<exists>k x. ev = KGet k x) \<or> (\<exists>g res. ev = KStatus g res \<and> up_to_date ''v1'' g \<and> fo_Generation g = 1)) es"
proof -
  let ?f = "applied_status ''v1'' 5 example_object"
  obtain r w' es where run: "Reconcile api_env (FabNamespace, FabName) (?f, []) = (r, w', es)"
    by (cases "Reconcile api_env (FabNamespace, FabName) (?f, [])")
  have "up_to_date (oe_Version api_env) ?f" by (simp add: up_to_date_def applied_status_applied)
  moreover have "fo_Generation ?f = 1" by (simp add: example_object_def)
  ultimately show ?thesis using up_to_date_reconcile_only_reads [OF run, of ?f ?f] run by auto
qed

section \<open>The status check and the installs\<close>

definition started_object :: fab_object where
  "started_object = start_reconcile ''25.05'' example_object"

lemma started_valid: "fab_validate (\<lambda>_. Inr ()) example_fab = Inr (fo_Fab started_object)"
  by (simp add: started_object_def example_object_def example_fab_accepted)

lemma started_not_bootstrap: "\<not> st_IsBootstrap (fo_Status started_object)"
  by (simp add: started_object_def start_reconcile_def)

lemma started_installable: "installable started_object"
  by (rule validated_installable [OF started_valid started_not_bootstrap])

lemma example_status_check:
  obtains r w' es g res where "statusCheck api_env started_object [] (started_object, []) = (r, w', es)" "KStatus g res \<in> set es"
proof -
  have k: "accepting_kube api_kube (\<lambda>w. True \<and> w = started_object)" using api_accepting unfolding accepting_def by simp
  from yields_kchain_components [OF k _ started_installable, of started_object "[]"]
  obtain g w es where c: "kchain (component_checks api_kube []) started_object (started_object, []) = (Inr g, w, es)"
    unfolding yields_def by blast
  let ?g = "upd_status (\<lambda>s. s\<lparr>st_LastStatusCheck := 10 ^ 12\<rparr>) (readiness_conditions [] g)"
  have "\<not> condition_true started_object ConditionReady"
    by (simp add: started_object_def condition_true_def start_reconcile_def example_object_def upd_status_def)
  then have "statusCheck api_env started_object [] (started_object, []) =
      kbind (kwrap ''updating ready status'' [] (status_update api_env ?g)) (\<lambda>_. kret ()) (w, es)"
    using c by (simp add: statusCheck_def kbind_def know_def api_env_def)
  moreover obtain r w' where "kbind (kwrap ''updating ready status'' [] (status_update api_env ?g)) (\<lambda>_. kret ()) (w, es) =
      (r, w', es @ [KStatus ?g (fst (write_status ?g w))])"
    by (cases "write_status ?g w"; cases "fst (write_status ?g w)") (auto simp: kbind_def kwrap_def status_update_def kret_def)
  ultimately have run: "statusCheck api_env started_object [] (started_object, []) = (r, w', es @ [KStatus ?g (fst (write_status ?g w))])"
    by simp
  show thesis by (rule that [OF run, of ?g "fst (write_status ?g w)"]) simp
qed

theorem status_check_truthful_witness:
  "\<exists>r w' es g res. statusCheck api_env started_object [] (started_object, []) = (r, w', es) \<and> KStatus g res \<in> set es \<and>
     (condition_true g ConditionReady \<longleftrightarrow> IsReady (st_Components (fo_Status g)) (fo_Fab started_object) [])"
proof -
  obtain r w' es g res where run: "statusCheck api_env started_object [] (started_object, []) = (r, w', es)"
    "KStatus g res \<in> set es" by (rule example_status_check)
  with status_check_truthful [OF run] show ?thesis by blast
qed

lemma started_artifacts: "\<exists>arts. airgap_artifacts started_object = Inr arts"
proof -
  have f: "fv_NOS (fabric_vers started_object) = []" "fv_ONIE (fabric_vers started_object) = []"
    by (simp_all add: fabric_vers_def started_object_def start_reconcile_def upd_status_def example_object_def example_versions_def)
  then have "\<exists>arts. FabricArtifacts started_object = Inr arts" by (simp add: FabricArtifacts_def Let_def)
  then show ?thesis
    by (auto simp: airgap_artifacts_def collect_steps AirgapArtifactsBase_def AirgapArtifactsGateway_def
        FlatcarArtifacts_def CertManagerArtifacts_def ZotArtifacts_def ReloaderArtifacts_def NTPArtifacts_def ControlProxyArtifacts_def
        F8rArtifacts_def AlloyArtifacts_def GatewayArtifacts_def Let_def)
qed

lemma started_reloader: "\<exists>x h. ReloaderInstall example_libs started_object = Inr [x] \<and> ko_Spec x = HelmChart h"
proof -
  obtain objs where o: "ReloaderInstall example_libs started_object = Inr objs"
    using platform_installs(1) [OF started_installable example_libs_total] by blast
  then obtain x where "objs = [x]" "\<exists>h. ko_Spec x = HelmChart h"
    by (auto simp: ReloaderInstall_def NewHelmChart_def new_object_def ok_iff)
  with o show ?thesis by blast
qed

theorem charts_in_airgap_artifacts_witness:
  "\<exists>arts x h r reg. airgap_artifacts started_object = Inr arts \<and> ReloaderInstall example_libs started_object = Inr [x] \<and>
     ko_Spec x = HelmChart h \<and> hc_Chart h = OCISchema @ JoinURLParts [reg, RegistryPrefix, r] \<and> map_of arts r = Some (hc_Version h)"
proof -
  obtain arts where arts: "airgap_artifacts started_object = Inr arts" using started_artifacts by blast
  obtain x h where x: "ReloaderInstall example_libs started_object = Inr [x]" "ko_Spec x = HelmChart h" using started_reloader by blast
  have step: "(''enforcing reloader install'', Enforce (ReloaderInstall example_libs)) \<in> set (apply_steps example_libs example_control ''hunter2'')"
    by (simp add: apply_steps_def)
  have "x \<in> set [x]" by simp
  from charts_in_airgap_artifacts [OF arts started_not_bootstrap step x(1) this x(2)] arts x show ?thesis by blast
qed

section \<open>A target the validation does not look at\<close>

definition with_target :: "string \<Rightarrow> fab_config \<Rightarrow> fab_config" where
  "with_target url c = c\<lparr>Observability := (Observability c)\<lparr>Targets := \<lparr>Prometheus = [(''main'', \<lparr>tg_URL = url, tg_BasicAuth = None,
     tg_BearerToken = '''', tg_Labels = [], tg_InsecureSkipVerify = False, tg_CAPEM = '''', tg_CertPEM = '''', tg_SendIntervalSeconds = 0\<rparr>)],
     Loki = [], Pyroscope = []\<rparr>\<rparr>\<rparr>"

text \<open>The example with a target without a URL.\<close>

definition target_fab :: fabricator where
  "target_fab = example_fab\<lparr>Config := with_target '''' (Config example_fab)\<rparr>"

definition target_object :: fab_object where
  "target_object = started_object\<lparr>fo_Fab := fab_default target_fab\<rparr>"

lemma default_with_target: "config_default (with_target u (example_config h)) = with_target u (config_default (example_config h))"
  by (simp add: with_target_def config_default_eval example_config_def DefaultConfig_def label_targets_def add_labels_def)

lemma validate_with_target: "validate_config (with_target u c) = validate_config c"
proof -
  have f: "Control (with_target u c) = Control c" "Fabric (with_target u c) = Fabric c" "Gateway (with_target u c) = Gateway c"
    "Defaults (Observability (with_target u c)) = Defaults (Observability c)" by (simp_all add: with_target_def)
  have "validate_control_subnets (with_target u c) = validate_control_subnets c" "validate_asns (with_target u c) = validate_asns c"
    "validate_observability (with_target u c) = validate_observability c"
    unfolding validate_control_subnets_def validate_asns_def validate_observability_def f by (rule refl)+
  with f show ?thesis by (simp only: validate_config_def)
qed

lemma target_fields: "Config (fab_default target_fab) = with_target '''' (Config (fab_default example_fab))"
  "fb_Name (fab_default target_fab) = fb_Name (fab_default example_fab)"
  "fb_Namespace (fab_default target_fab) = fb_Namespace (fab_default example_fab)"
  by (simp_all add: target_fab_def fab_default_def example_fab_def default_with_target)

lemma target_validated: "fab_validate (\<lambda>_. Inr ()) target_fab = Inr (fo_Fab target_object)"
proof -
  have "validate_head (\<lambda>_. Inr ()) (fab_default target_fab) = validate_head (\<lambda>_. Inr ()) (fab_default example_fab)"
    by (simp add: validate_head_def target_fields) (simp add: with_target_def)
  with example_fab_accepted show ?thesis
    by (simp add: fab_validate_ok target_object_def target_fields validate_with_target)
qed

text \<open>The installs succeed on the example, and not on the example with the target, which is validated all the same.\<close>

theorem validated_fabricator_installs_witness:
  "(\<exists>objs. AlloyInstall example_libs started_object = Inr objs \<and> list_all (\<lambda>x. supported (ko_Spec x)) objs) \<and>
   fab_validate (\<lambda>_. Inr ()) target_fab = Inr (fo_Fab target_object) \<and>
   (\<exists>msg inst. (msg, Enforce inst) \<in> set (apply_steps example_libs example_control ''hunter2'') \<and>
     \<not> (\<exists>objs. inst target_object = Inr objs \<and> list_all (\<lambda>x. supported (ko_Spec x)) objs))"
proof (intro conjI)
  have "\<forall>t \<in> set (all_targets (Targets (Observability (fabcfg started_object)))). good_target t \<and>
      (\<exists>h. lb_hostname example_libs (tg_URL (snd t)) = Inr h)"
    using example_defaults(2) by (simp add: fabcfg_def started_object_def example_object_def)
  from validated_fabricator_installs [OF started_valid started_not_bootstrap example_libs_total, of example_control "''hunter2''", THEN iffD2, OF this]
  show "\<exists>objs. AlloyInstall example_libs started_object = Inr objs \<and> list_all (\<lambda>x. supported (ko_Spec x)) objs"
    by (fastforce simp: apply_steps_def)
  show "fab_validate (\<lambda>_. Inr ()) target_fab = Inr (fo_Fab target_object)" by (rule target_validated)
  have "\<not> st_IsBootstrap (fo_Status target_object)" using started_not_bootstrap by (simp add: target_object_def)
  note iff = validated_fabricator_installs [OF target_validated this example_libs_total, of example_control "''hunter2''"]
  have "\<not> (\<forall>t \<in> set (all_targets (Targets (Observability (fabcfg target_object)))). good_target t \<and>
      (\<exists>h. lb_hostname example_libs (tg_URL (snd t)) = Inr h))"
    by (simp add: fabcfg_def target_object_def target_fields) (simp add: with_target_def all_targets_def good_target_def)
  with iff show "\<exists>msg inst. (msg, Enforce inst) \<in> set (apply_steps example_libs example_control ''hunter2'') \<and>
     \<not> (\<exists>objs. inst target_object = Inr objs \<and> list_all (\<lambda>x. supported (ko_Spec x)) objs)" by blast
qed

section \<open>A subnet the validation does not look at\<close>

definition with_proxy :: "string \<Rightarrow> fab_config \<Rightarrow> fab_config" where
  "with_proxy s c = c\<lparr>Fabric := (Fabric c)\<lparr>ProxyExternalSubnet := s\<rparr>\<rparr>"

definition bad_fab :: fabricator where
  "bad_fab = example_fab\<lparr>Config := with_proxy ''tbd'' (Config example_fab)\<rparr>"

definition bad_object :: fab_object where
  "bad_object = started_object\<lparr>fo_Fab := fab_default bad_fab\<rparr>"

lemma default_with_proxy: "s \<noteq> '''' \<Longrightarrow> config_default (with_proxy s (example_config h)) = with_proxy s (config_default (example_config h))"
  by (simp add: with_proxy_def config_default_eval example_config_def DefaultConfig_def)

lemma with_proxy_fields:
  "Control (with_proxy s c) = Control c" "Gateway (with_proxy s c) = Gateway c" "Observability (with_proxy s c) = Observability c"
  "DefaultSwitchUsers (Fabric (with_proxy s c)) = DefaultSwitchUsers (Fabric c)"
  "ManagementDHCPStart (Fabric (with_proxy s c)) = ManagementDHCPStart (Fabric c)"
  "ManagementDHCPEnd (Fabric (with_proxy s c)) = ManagementDHCPEnd (Fabric c)"
  by (simp_all add: with_proxy_def)

lemma with_proxy_checks:
  "validate_control_subnets (with_proxy s c) = validate_control_subnets c"
  "validate_asns (with_proxy s c) = validate_asns c"
  "parse_fabric_subnets (Fabric (with_proxy s c)) = parse_fabric_subnets (Fabric c)"
  "validate_vlans (Fabric (with_proxy s c)) = validate_vlans (Fabric c)"
  "validate_observability (with_proxy s c) = validate_observability c"
proof -
  show "validate_control_subnets (with_proxy s c) = validate_control_subnets c"
    unfolding validate_control_subnets_def with_proxy_fields ..
  show "validate_asns (with_proxy s c) = validate_asns c"
    by (simp add: validate_asns_def with_proxy_def Let_def)
  show "parse_fabric_subnets (Fabric (with_proxy s c)) = parse_fabric_subnets (Fabric c)"
    by (simp add: parse_fabric_subnets_def with_proxy_def)
  show "validate_vlans (Fabric (with_proxy s c)) = validate_vlans (Fabric c)"
    by (simp add: validate_vlans_def with_proxy_def)
  show "validate_observability (with_proxy s c) = validate_observability c"
    by (simp add: validate_observability_def with_proxy_fields)
qed

lemma validate_with_proxy: "validate_config (with_proxy s c) = validate_config c"
  by (simp only: validate_config_def with_proxy_checks with_proxy_fields)

lemma bad_validated: "fab_validate (\<lambda>_. Inr ()) bad_fab = Inr (fo_Fab bad_object)"
proof -
  have d: "fab_default bad_fab = (fab_default example_fab)\<lparr>Config := with_proxy ''tbd'' (Config (fab_default example_fab))\<rparr>"
    by (simp add: fab_default_def bad_fab_def example_fab_def default_with_proxy)
  have "validate_head (\<lambda>_. Inr ()) (f\<lparr>Config := with_proxy s (Config f)\<rparr>) = validate_head (\<lambda>_. Inr ()) f" for s f
    by (simp add: validate_head_def with_proxy_def)
  with example_fab_accepted show ?thesis
    by (simp add: fab_validate_ok bad_object_def d validate_with_proxy)
qed

lemma fabric_config_total: "installable cfg \<Longrightarrow> \<exists>fc. GetFabricConfig cfg = Inr fc"
proof -
  assume inst: "installable cfg"
  obtain vip cs d1 d2 d3 d4 where "control_vip cfg = Inr vip" "gateway_communities (Communities (Gateway (fabcfg cfg))) = Inr cs"
    "image_for cfg DataplaneRef = Inr d1" "image_for cfg DataplaneValidatorRef = Inr d2" "image_for cfg FRRRef = Inr d3" "image_for cfg ToolboxRef = Inr d4"
    using inst installable_urls(2) [OF inst] unfolding installable_def by metis
  then show ?thesis by (simp add: GetFabricConfig_def)
qed

lemma bad_subnet: "ProxyExternalSubnet (Fabric (fabcfg bad_object)) = ''tbd''"
  by (simp add: bad_object_def bad_fab_def fab_default_def fabcfg_def example_fab_def default_with_proxy)
    (simp add: with_proxy_def)

theorem reserved_subnets_accepted_iff_witness:
  "fab_validate (\<lambda>_. Inr ()) bad_fab = Inr (fo_Fab bad_object) \<and>
   (\<exists>fc e. GetFabricConfig bad_object = Inr fc \<and> WithReservedSubnets fc = Inl e)"
proof -
  have "\<not> st_IsBootstrap (fo_Status bad_object)" using started_not_bootstrap by (simp add: bad_object_def)
  from fabric_config_total [OF validated_installable [OF bad_validated this]] obtain fc where fc: "GetFabricConfig bad_object = Inr fc" by blast
  have "\<nexists>p. parse_prefix (ProxyExternalSubnet (Fabric (fabcfg bad_object))) = Inr p"
    by (simp add: bad_subnet parse_prefix_def prefix_err_def)
  with reserved_subnets_accepted_iff [OF bad_validated fc] have "\<nexists>ps. WithReservedSubnets fc = Inr ps" by blast
  then obtain e where "WithReservedSubnets fc = Inl e" by (cases "WithReservedSubnets fc") auto
  with bad_validated fc show ?thesis by blast
qed

end
