(* ===== verification/VlabWiring.thy ===== *)
theory VlabWiring
  imports Kube FabTypes
begin

text \<open>
  What the builders of virtual labs share (\<^verbatim>\<open>VLABBuilderBase\<close> of \<^verbatim>\<open>pkg/hhfab/vlabbuilder.go\<close>): the objects
  of a wiring diagram, the loader they are added to, the counter of the ports each device has in use,
  and the loops of the builders. A loop over a \<^verbatim>\<open>uint8\<close> that may not end has no result.
\<close>

section \<open>Wiring objects\<close>

record srv_link =
  sl_Server :: string
  sl_Switch :: string

text \<open>The connections, by the field of the spec that is set.\<close>

datatype conn_spec =
    ConnUnbundled srv_link
  | ConnBundled "srv_link list"
  | ConnMCLAG "srv_link list"
  | ConnESLAG "srv_link list"
  | ConnFabric "p2p_link list"
  | ConnMesh "p2p_link list"
  | ConnGateway "p2p_link list"
  | ConnVPCLoopback "p2p_link list"
  | ConnMCLAGDomain "p2p_link list" "p2p_link list"
  | ConnExternal string
  | ConnStaticExternal string

record switch_spec =
  ss_Role :: string
  ss_Description :: string
  ss_Profile :: string
  ss_Groups :: "string list"
  ss_RedGroup :: string
  ss_RedType :: string
  ss_VLANNamespaces :: "string list"
  ss_BootMAC :: string
  ss_ASN :: "32 word"

record gw_spec =
  gs_Groups :: "string list"
  gs_Interfaces :: "gw_iface gomap"
  gs_Workers :: "8 word"
  gs_LogDefault :: string
  gs_LogTags :: "string gomap"

record ext_spec =
  es_IPv4Namespace :: string
  es_Inbound :: string
  es_Outbound :: string
  es_Static :: "string list option"

record ext_static =
  xs_RemoteIP :: string
  xs_VLAN :: "16 word"
  xs_Proxy :: bool
  xs_IP :: string

record ext_attach =
  ea_External :: string
  ea_Connection :: string
  ea_Static :: "ext_static option"
  ea_VLAN :: "16 word"
  ea_IP :: string
  ea_ASN :: "32 word"
  ea_NeighborIP :: string

datatype wspec =
    VLANNamespace "vlan_range list"
  | IPv4Namespace "string list"
  | SwitchGroup
  | SwitchObj switch_spec
  | ServerObj string
  | ConnObj conn_spec
  | GatewayGroup
  | GatewayObj gw_spec
  | ExternalObj ext_spec
  | ExternalAttachObj ext_attach
  | VPCObj string "(string \<times> string \<times> 16 word) list"
  | VPCAttachObj string string

record wobj =
  wo_Namespace :: string
  wo_Name :: string
  wo_Annotations :: "string gomap"
  wo_Spec :: wspec

fun wkind :: "wspec \<Rightarrow> string" where
  "wkind (VLANNamespace _) = ''VLANNamespace''"
| "wkind (IPv4Namespace _) = ''IPv4Namespace''"
| "wkind SwitchGroup = ''SwitchGroup''"
| "wkind (SwitchObj _) = ''Switch''"
| "wkind (ServerObj _) = ''Server''"
| "wkind (ConnObj _) = ''Connection''"
| "wkind GatewayGroup = ''GatewayGroup''"
| "wkind (GatewayObj _) = ''Gateway''"
| "wkind (ExternalObj _) = ''External''"
| "wkind (ExternalAttachObj _) = ''ExternalAttachment''"
| "wkind (VPCObj _ _) = ''VPC''"
| "wkind (VPCAttachObj _ _) = ''VPCAttachment''"

definition wo_key :: "wobj \<Rightarrow> string \<times> string \<times> string" where
  "wo_key x = (wkind (wo_Spec x), wo_Namespace x, wo_Name x)"

definition device_of :: "string \<Rightarrow> string" where
  "device_of port = hd (split2 (CHR ''/'') port)"

definition INVALID :: string where "INVALID = ''<invalid>''"

text \<open>Indexing the first of no links panics.\<close>

definition no_first :: go_err where "no_first = Panic ''runtime error: index out of range [0] with length 0''"

definition conn_name :: "string \<Rightarrow> string \<Rightarrow> string list \<Rightarrow> string" where
  "conn_name role left right =
     (if left \<noteq> '''' then left @ ''--'' @ role @ concat (map (\<lambda>r. ''--'' @ r) right) else INVALID)"

fun GenerateName :: "conn_spec \<Rightarrow> string result" where
  "GenerateName (ConnUnbundled l) = Inr (conn_name ''unbundled'' (device_of (sl_Server l)) [device_of (sl_Switch l)])"
| "GenerateName (ConnBundled ls) = (case ls of [] \<Rightarrow> Inl no_first | l # _ \<Rightarrow>
     if list_ex (\<lambda>k. device_of (sl_Server k) \<noteq> device_of (sl_Server l) \<or> device_of (sl_Switch k) \<noteq> device_of (sl_Switch l)) ls
     then Inr INVALID
     else Inr (conn_name ''bundled'' (device_of (sl_Server l)) [device_of (sl_Switch l)]))"
| "GenerateName (ConnESLAG ls) = (case ls of [] \<Rightarrow> Inl no_first | l # _ \<Rightarrow>
     if list_ex (\<lambda>k. device_of (sl_Server k) \<noteq> device_of (sl_Server l)) ls then Inr INVALID
     else Inr (conn_name ''eslag'' (device_of (sl_Server l)) (map (\<lambda>k. device_of (sl_Switch k)) ls)))"
| "GenerateName (ConnFabric ls) = (case ls of [] \<Rightarrow> Inl no_first | l # _ \<Rightarrow>
     Inr (conn_name ''fabric'' (DeviceName (ln_A l)) [DeviceName (ln_B l)]))"
| "GenerateName (ConnMesh ls) = (case ls of [] \<Rightarrow> Inl no_first | l # _ \<Rightarrow>
     Inr (conn_name ''mesh'' (DeviceName (ln_A l)) [DeviceName (ln_B l)]))"
| "GenerateName (ConnGateway ls) = (case ls of [] \<Rightarrow> Inl no_first | l # _ \<Rightarrow>
     Inr (conn_name ''gateway'' (DeviceName (ln_A l)) [DeviceName (ln_B l)]))"
| "GenerateName (ConnVPCLoopback ls) = (case ls of [] \<Rightarrow> Inl no_first | l # _ \<Rightarrow>
     Inr (conn_name ''vpc-loopback'' (DeviceName (ln_A l)) []))"
| "GenerateName (ConnExternal p) = Inr (conn_name ''external'' (device_of p) [])"
| "GenerateName (ConnStaticExternal p) = Inr (conn_name ''static-external'' (device_of p) [])"
| "GenerateName (ConnMCLAG _) = Inr INVALID"
| "GenerateName (ConnMCLAGDomain _ _) = Inr INVALID"

section \<open>The builder\<close>

record builder_base =
  bb_DefaultSwitchProfile :: string
  bb_SwitchProfileOverrides :: "string gomap"
  bb_ServerPortBase :: string

record bstate =
  bs_Objs :: "wobj list"
  bs_Iface :: "string \<Rightarrow> 8 word"
  bs_SwitchID :: nat

text \<open>A fresh builder and a fresh loader.\<close>

definition empty_wiring :: bstate where
  "empty_wiring = \<lparr>bs_Objs = [], bs_Iface = (\<lambda>_. 0), bs_SwitchID = 0\<rparr>"

type_synonym 'a bld = "bstate \<Rightarrow> ('a \<times> bstate) result option"

definition bret :: "'a \<Rightarrow> 'a bld" where "bret a = (\<lambda>s. Some (Inr (a, s)))"
definition bfail :: "go_err \<Rightarrow> 'a bld" where "bfail e = (\<lambda>s. Some (Inl e))"
definition blift :: "'a result \<Rightarrow> 'a bld" where "blift r = (case r of Inl e \<Rightarrow> bfail e | Inr a \<Rightarrow> bret a)"

definition bbind :: "'a bld \<Rightarrow> ('a \<Rightarrow> 'b bld) \<Rightarrow> 'b bld" where
  "bbind m f = (\<lambda>s. case m s of None \<Rightarrow> None | Some (Inl e) \<Rightarrow> Some (Inl e) | Some (Inr (a, s')) \<Rightarrow> f a s')"

text \<open>A loop over the elements of a list, with the local variables it changes.\<close>

fun bfold :: "('x \<Rightarrow> 'a \<Rightarrow> 'a bld) \<Rightarrow> 'x list \<Rightarrow> 'a \<Rightarrow> 'a bld" where
  "bfold f [] a = bret a"
| "bfold f (x # xs) a = bbind (f x a) (bfold f xs)"

text \<open>A loop over a \<^verbatim>\<open>uint8\<close>, which wraps: where the condition holds forever there is no result.\<close>

partial_function (option) for_u8 ::
    "8 word \<Rightarrow> (8 word \<Rightarrow> 'a \<Rightarrow> bool) \<Rightarrow> (8 word \<Rightarrow> 'a \<Rightarrow> bstate \<Rightarrow> ('a \<times> bstate) result option) \<Rightarrow> 'a \<Rightarrow> bstate \<Rightarrow> ('a \<times> bstate) result option"
where
  "for_u8 i cond body a s =
     (if cond i a
      then Option.bind (body i a s) (\<lambda>r. if isl r then Some (Inl (projl r)) else for_u8 (i + 1) cond body (fst (projr r)) (snd (projr r)))
      else Some (Inr (a, s)))"

declare for_u8.simps [code]

definition for_to :: "8 word \<Rightarrow> 8 word \<Rightarrow> (8 word \<Rightarrow> 'a \<Rightarrow> 'a bld) \<Rightarrow> 'a \<Rightarrow> 'a bld" where
  "for_to i n body a = for_u8 i (\<lambda>i _. i \<le> n) body a"

definition get_iface :: "string \<Rightarrow> (8 word) bld" where "get_iface d = (\<lambda>s. bret (bs_Iface s d) s)"

definition put_iface :: "string \<Rightarrow> 8 word \<Rightarrow> unit bld" where
  "put_iface d v = (\<lambda>s. bret () (s\<lparr>bs_Iface := (bs_Iface s)(d := v)\<rparr>))"

text \<open>\<^verbatim>\<open>Loader.Add\<close>: the client refuses an object without a name, and one that is there already.\<close>

definition ErrAlreadyExists :: "wobj \<Rightarrow> go_err" where
  "ErrAlreadyExists x = Errf ''%s %q already exists'' [wkind (wo_Spec x), wo_Name x]"

definition wadd :: "wobj \<Rightarrow> unit bld" where
  "wadd x = (\<lambda>s.
     if wo_Name x = '''' then bfail (Wrapf ''adding %T'' [wkind (wo_Spec x)] (Errf ''name is required'' [])) s
     else if wo_key x \<in> wo_key ` set (bs_Objs s) then bfail (Wrapf ''adding %T'' [wkind (wo_Spec x)] (ErrAlreadyExists x)) s
     else bret () (s\<lparr>bs_Objs := bs_Objs s @ [x]\<rparr>))"

definition bwrap :: "string \<Rightarrow> string list \<Rightarrow> 'a bld \<Rightarrow> 'a bld" where
  "bwrap msg args m = (\<lambda>s. map_option (ewrap msg args) (m s))"

section \<open>Ports\<close>

definition u8 :: "8 word \<Rightarrow> string" where "u8 w = itoa (unat w)"

definition pad2 :: "nat \<Rightarrow> string" where "pad2 n = (if n < 10 then ''0'' @ itoa n else itoa n)"

definition next_iface :: "8 word \<Rightarrow> 8 word" where
  "next_iface i = i + (if i \<ge> 48 then 4 else 1)"

text \<open>More than 76 interfaces are only logged.\<close>

definition nextSwitchPort :: "string \<Rightarrow> string bld" where
  "nextSwitchPort sw =
     bbind (get_iface sw) (\<lambda>i.
     bbind (put_iface sw (next_iface i)) (\<lambda>_.
     bret (sw @ ''/E1/'' @ itoa (unat (i + 1)))))"

definition nextServerPort :: "('b) builder_base_scheme \<Rightarrow> string \<Rightarrow> string bld" where
  "nextServerPort b srv =
     (let portBase = (if bb_ServerPortBase b = '''' then ''enp2s'' else bb_ServerPortBase b) in
     bbind (get_iface srv) (\<lambda>i.
     bbind (put_iface srv (i + 1)) (\<lambda>_.
     bret (srv @ ''/'' @ portBase @ itoa (unat (i + 1))))))"

section \<open>Creating objects\<close>

definition named :: "string \<Rightarrow> wspec \<Rightarrow> wobj" where
  "named name spec = \<lparr>wo_Namespace = '''', wo_Name = name, wo_Annotations = [], wo_Spec = spec\<rparr>"

definition create :: "string \<Rightarrow> wobj \<Rightarrow> unit bld" where
  "create what x = bwrap (''creating '' @ what @ '' %s'') [wo_Name x] (wadd x)"

definition createSwitchGroup :: "string \<Rightarrow> unit bld" where
  "createSwitchGroup name = create ''switch group'' (named name SwitchGroup)"

definition hex2 :: "nat \<Rightarrow> string" where "hex2 n = (if n < 16 then ''0'' @ hex_string n else hex_string n)"

definition VLABSwitchMAC :: "nat \<Rightarrow> string" where
  "VLABSwitchMAC n = ''0c:20:12:ff:'' @ hex2 n @ '':00''"

definition createSwitch :: "('b) builder_base_scheme \<Rightarrow> string \<Rightarrow> switch_spec \<Rightarrow> string gomap \<Rightarrow> unit bld" where
  "createSwitch b name spec anns = (\<lambda>s.
     let profile = (case map_of (bb_SwitchProfileOverrides b) name of Some p \<Rightarrow> p | None \<Rightarrow> bb_DefaultSwitchProfile b);
         spec = spec\<lparr>ss_Profile := profile, ss_BootMAC := VLABSwitchMAC (bs_SwitchID s)\<rparr>
     in create ''switch'' ((named name (SwitchObj spec))\<lparr>wo_Annotations := anns\<rparr>) (s\<lparr>bs_SwitchID := bs_SwitchID s + 1\<rparr>))"

definition createServer :: "string \<Rightarrow> string \<Rightarrow> unit bld" where
  "createServer name description = create ''server'' (named name (ServerObj description))"

definition createGateway :: "string \<Rightarrow> gw_spec \<Rightarrow> unit bld" where
  "createGateway name spec = create ''gateway'' ((named name (GatewayObj spec))\<lparr>wo_Namespace := ''default''\<rparr>)"

definition createGatewayGroup :: "string \<Rightarrow> unit bld" where
  "createGatewayGroup name = create ''gateway group'' ((named name GatewayGroup)\<lparr>wo_Namespace := ''default''\<rparr>)"

definition createConnectionWithName :: "string \<Rightarrow> conn_spec \<Rightarrow> (string \<times> conn_spec) bld" where
  "createConnectionWithName name spec =
     bbind (create ''connection'' (named name (ConnObj spec))) (\<lambda>_. bret (name, spec))"

definition createConnection :: "conn_spec \<Rightarrow> (string \<times> conn_spec) bld" where
  "createConnection spec = bbind (blift (GenerateName spec)) (\<lambda>name. createConnectionWithName name spec)"

definition createExternal :: "string \<Rightarrow> ext_spec \<Rightarrow> string gomap \<Rightarrow> (string \<times> ext_spec) bld" where
  "createExternal name spec anns =
     bbind (create ''external'' ((named name (ExternalObj spec))\<lparr>wo_Annotations := anns\<rparr>)) (\<lambda>_. bret (name, spec))"

definition createExternalAttach :: "string \<Rightarrow> ext_attach \<Rightarrow> unit bld" where
  "createExternalAttach name spec = create ''external attachment'' (named name (ExternalAttachObj spec))"

definition createVPC :: "string \<Rightarrow> string \<Rightarrow> (string \<times> string \<times> 16 word) list \<Rightarrow> unit bld" where
  "createVPC name vlanns subnets = create ''vpc'' (named name (VPCObj vlanns subnets))"

definition createVPCAttachment :: "string \<Rightarrow> string \<Rightarrow> string \<Rightarrow> string gomap \<Rightarrow> unit bld" where
  "createVPCAttachment name conn subnet anns =
     create ''vpc attachment'' ((named name (VPCAttachObj conn subnet))\<lparr>wo_Annotations := anns\<rparr>)"

definition addExternalConnection :: "(string \<times> conn_spec) list \<Rightarrow> string \<Rightarrow> (string \<times> conn_spec) list bld" where
  "addExternalConnection conns sw =
     bbind (nextSwitchPort sw) (\<lambda>port.
     bbind (createConnection (ConnExternal port)) (\<lambda>conn.
     bret (conns @ [conn])))"

end
