(* ===== verification/VlabBuilder.thy ===== *)
theory VlabBuilder
  imports VlabWiring
begin

text \<open>
  The default builder of a virtual lab (\<^verbatim>\<open>VLABBuilderDefault.Build\<close> of \<^verbatim>\<open>pkg/hhfab/vlabbuilder.go\<close>): the
  defaults and checks of its options, and the wiring it generates: switches and servers, their
  connections, gateways and externals.
\<close>

section \<open>Options\<close>

record vlab_default = builder_base +
  vd_SpinesCount :: "8 word"
  vd_FabricLinksCount :: "8 word"
  vd_MeshLinksCount :: "8 word"
  vd_ESLAGLeafGroups :: string
  vd_OrphanLeafsCount :: "8 word"
  vd_ESLAGServers :: "8 word"
  vd_UnbundledServers :: "8 word"
  vd_BundledServers :: "8 word"
  vd_MultiHomedServers :: "8 word"
  vd_NoSwitches :: bool
  vd_GatewayUplinks :: "8 word"
  vd_GatewayDriver :: string
  vd_GatewayWorkers :: "8 word"
  vd_GatewayLogLevel :: string
  vd_GatewayTags :: "string gomap"
  vd_ExtBGPCount :: "8 word"
  vd_ExtStaticCount :: "8 word"
  vd_ExtStaticProxyCount :: "8 word"
  vd_ExtESLAGConnCount :: "8 word"
  vd_ExtOrphanConnCount :: "8 word"
  vd_YesFlag :: bool

definition GatewayDriverKernel :: string where "GatewayDriverKernel = ''kernel''"
definition GatewayDriverDPDK :: string where "GatewayDriverDPDK = ''dpdk''"
definition GatewayDrivers :: "string list" where "GatewayDrivers = [GatewayDriverKernel, GatewayDriverDPDK]"
definition VirtualSwitchProfiles :: "string list" where "VirtualSwitchProfiles = [''vs'', ''vs-clsp'', ''cumulus-vx'']"

definition GatewayLogLevels :: "string list" where
  "GatewayLogLevels = [''off'', ''error'', ''warning'', ''info'', ''debug'', ''trace'']"

definition RedundancyTypeESLAG :: string where "RedundancyTypeESLAG = ''eslag''"

text \<open>The spine-leaf defaults, or those of a mesh.\<close>

definition mode_defaults :: "string \<Rightarrow> vlab_default \<Rightarrow> vlab_default result" where
  "mode_defaults fabricMode b =
     (if fabricMode \<noteq> FabricModeSpineLeaf then Inl (Errf ''unsupported fabric mode %s'' [fabricMode])
      else if vd_MeshLinksCount b > 0 \<and> vd_FabricLinksCount b > 0
      then Inl (Errf ''cannot use both mesh and fabric links at the same time'' [])
      else if vd_NoSwitches b then Inr b
      else if vd_MeshLinksCount b = 0 then
        (let b = (if vd_SpinesCount b = 0 then b\<lparr>vd_SpinesCount := 2\<rparr> else b);
             b = (if vd_FabricLinksCount b = 0 then b\<lparr>vd_FabricLinksCount := 2\<rparr> else b);
             b = (if vd_OrphanLeafsCount b = 0 \<and> vd_ESLAGLeafGroups b = ''''
                  then b\<lparr>vd_ESLAGLeafGroups := ''2'', vd_OrphanLeafsCount := 1\<rparr> else b)
         in Inr b)
      else if vd_SpinesCount b \<noteq> 0 then Inl (Errf ''spines not supported for when using mesh connections'' [])
      else Inr (if vd_OrphanLeafsCount b = 0 \<and> vd_ESLAGLeafGroups b = ''''
                then b\<lparr>vd_ESLAGLeafGroups := ''2'', vd_OrphanLeafsCount := 1\<rparr> else b))"

definition check_profiles :: "('b) builder_base_scheme \<Rightarrow> unit result" where
  "check_profiles b =
     (if bb_DefaultSwitchProfile b \<notin> set VirtualSwitchProfiles
      then Inl (Errf ''unsupported default switch profile %s'' [bb_DefaultSwitchProfile b])
      else efold (\<lambda>(_, p) _. if p \<notin> set VirtualSwitchProfiles
        then Inl (Errf ''unsupported switch profile override %s'' [p]) else Inr ()) (bb_SwitchProfileOverrides b) ())"

text \<open>The number of ESLAG leafs as the gateways count it: what does not read as a number counts nothing.\<close>

definition gateway_eslag_leafs :: "string \<Rightarrow> int" where
  "gateway_eslag_leafs groups =
     (if groups \<noteq> '''' then sum_list (map (\<lambda>g. case atoi (trim_space g) of Some v \<Rightarrow> v | None \<Rightarrow> 0) (split_on (CHR '','') groups)) else 0)"

definition gateway_leafs :: "vlab_default \<Rightarrow> 8 word" where
  "gateway_leafs b = word_of_int (gateway_eslag_leafs (vd_ESLAGLeafGroups b)) + vd_OrphanLeafsCount b"

definition gateway_uplinks :: "vlab_default \<Rightarrow> vlab_default result" where
  "gateway_uplinks b =
     (if vd_GatewayUplinks b = 0 then Inr
        (if vd_SpinesCount b > 0 then b\<lparr>vd_GatewayUplinks := min 2 (vd_SpinesCount b)\<rparr>
         else if vd_MeshLinksCount b > 0 then b\<lparr>vd_GatewayUplinks := min 2 (gateway_leafs b)\<rparr> else b)
      else if vd_MeshLinksCount b > 0 then
        (if vd_GatewayUplinks b > gateway_leafs b
         then Inl (Errf ''gateway uplinks count must be <= total leaf switches (ESLAG + orphan)'' []) else Inr b)
      else if vd_GatewayUplinks b > vd_SpinesCount b then Inl (Errf ''gateway uplinks count must be <= spines count'' [])
      else Inr b)"

definition gateway_defaults :: "vlab_default \<Rightarrow> vlab_default result" where
  "gateway_defaults b =
     (let b = (if vd_GatewayDriver b = '''' then b\<lparr>vd_GatewayDriver := GatewayDriverKernel\<rparr> else b);
          b = (if vd_GatewayWorkers b = 0 then b\<lparr>vd_GatewayWorkers := 8\<rparr> else b) in
      if vd_GatewayDriver b \<notin> set GatewayDrivers then Inl (Errf ''unsupported gateway driver %s'' [vd_GatewayDriver b])
      else if vd_GatewayLogLevel b \<notin> set GatewayLogLevels then Inl (Errf ''invalid gateway log level %s'' [vd_GatewayLogLevel b])
      else ebind (efold (\<lambda>(target, level) _. if level \<notin> set GatewayLogLevels
          then Inl (Errf ''invalid gateway log level %s for tag target %s'' [level, target]) else Inr ()) (vd_GatewayTags b) ()) (\<lambda>_.
        gateway_uplinks b))"

definition eslag_groups :: "string \<Rightarrow> (8 word list) result" where
  "eslag_groups groups =
     (if groups = '''' then Inr []
      else efold (\<lambda>part gs. let part = trim_space part in
        case parse_uint part 8 of
          Inl _ \<Rightarrow> Inl (Errf ''invalid ESLAG leaf group %s'' [part])
        | Inr leafs \<Rightarrow> if leafs < 2 \<or> leafs > 4 then Inl (Errf ''ESLAG leaf group must have 2-4 leafs'' [])
            else Inr (gs @ [of_nat leafs])) (split_on (CHR '','') groups) [])"

definition maxExtBGPForNATPool :: "8 word" where "maxExtBGPForNATPool = 9"
definition maxExtStaticForNATPool :: nat where "maxExtStaticForNATPool = 9"

definition check_counts :: "8 word \<Rightarrow> vlab_default \<Rightarrow> unit result" where
  "check_counts totalESLAGLeafs b =
     (if vd_MultiHomedServers b > 0 \<and> vd_OrphanLeafsCount b + totalESLAGLeafs < 2
      then Inl (Errf ''at least two leaves are needed for multihomed servers'' [])
      else if vd_ExtESLAGConnCount b > totalESLAGLeafs
      then Inl (Errf ''external ESLAG connections count must be less than or equal to total ESLAG leaves'' [])
      else if vd_ExtOrphanConnCount b > vd_OrphanLeafsCount b
      then Inl (Errf ''external orphan connections count must be less than or equal to orphan leaves'' [])
      else if vd_ExtESLAGConnCount b + vd_ExtOrphanConnCount b > 1 \<and> \<not> vd_YesFlag b
      then Inl (Errf ''Multiple external connections are not supported if using virtual switches'' [])
      else if vd_ExtStaticCount b > 1
      then Inl (Errf ''multiple non-proxy static externals are not supported'' [])
      else Inr ())"

definition gateway_nodes :: "fab_node list \<Rightarrow> fab_node list" where
  "gateway_nodes nodes = filter (\<lambda>n. NodeRoleGateway \<in> set (nd_Roles n)) nodes"

text \<open>The options the wiring is generated from: the builder with its defaults, and the ESLAG groups.\<close>

definition build_options :: "vlab_default \<Rightarrow> string \<Rightarrow> fab_node list \<Rightarrow> (vlab_default \<times> 8 word list) result" where
  "build_options b fabricMode nodes =
     ebind (mode_defaults fabricMode b) (\<lambda>b.
     ebind (check_profiles b) (\<lambda>_.
     ebind (if gateway_nodes nodes \<noteq> [] then gateway_defaults b else Inr b) (\<lambda>b.
     ebind (eslag_groups (vd_ESLAGLeafGroups b)) (\<lambda>gs.
     let b = (if sum_list gs = 0 then b\<lparr>vd_ESLAGServers := 0\<rparr> else b) in
     ebind (check_counts (sum_list gs) b) (\<lambda>_. Inr (b, gs))))))"

section \<open>Gateways\<close>

definition gw_port_name :: "vlab_default \<Rightarrow> 8 word \<Rightarrow> string" where
  "gw_port_name b i =
     (if vd_GatewayDriver b = GatewayDriverKernel then ''enp2s'' @ u8 i
      else if vd_GatewayDriver b = GatewayDriverDPDK then ''port'' @ u8 i else '''')"

definition add_gw_iface :: "vlab_default \<Rightarrow> 8 word \<Rightarrow> gw_iface gomap \<Rightarrow> gw_iface gomap" where
  "add_gw_iface b i ifaces =
     (if vd_GatewayDriver b = GatewayDriverKernel
      then map_put (''enp2s'' @ u8 i) \<lparr>gi_PCI = '''', gi_Kernel = '''', gi_IPs = [], gi_MTU = 0\<rparr> ifaces
      else if vd_GatewayDriver b = GatewayDriverDPDK
      then map_put (''port'' @ u8 i) \<lparr>gi_PCI = ''0000:02:'' @ pad2 (unat i) @ ''.0'', gi_Kernel = '''', gi_IPs = [], gi_MTU = 0\<rparr> ifaces
      else ifaces)"

definition build_gateway :: "vlab_default \<Rightarrow> fab_node \<Rightarrow> unit bld" where
  "build_gateway b node =
     bbind (for_to 1 (vd_GatewayUplinks b) (\<lambda>i ifaces. bret (add_gw_iface b i ifaces)) []) (\<lambda>ifaces.
     createGateway (nd_Name node)
       \<lparr>gs_Groups = [DefaultGatewayGroup], gs_Interfaces = ifaces, gs_Workers = vd_GatewayWorkers b,
        gs_LogDefault = vd_GatewayLogLevel b, gs_LogTags = vd_GatewayTags b\<rparr>)"

definition build_gateway_link :: "vlab_default \<Rightarrow> string \<Rightarrow> 8 word \<Rightarrow> fab_node \<Rightarrow> unit bld" where
  "build_gateway_link b sw i gw =
     bbind (nextSwitchPort sw) (\<lambda>switchPort.
     bbind (createConnection (ConnGateway [\<lparr>ln_A = \<lparr>le_Port = switchPort, le_IP = ''''\<rparr>,
       ln_B = \<lparr>le_Port = nd_Name gw @ ''/'' @ gw_port_name b i, le_IP = ''''\<rparr>\<rparr>])) (\<lambda>_.
     bret ()))"

section \<open>Servers\<close>

definition server_name :: "8 word \<Rightarrow> string" where "server_name i = ''server-'' @ pad2 (unat i)"
definition leaf_name :: "8 word \<Rightarrow> string" where "leaf_name i = ''leaf-'' @ pad2 (unat i)"
definition spine_name :: "8 word \<Rightarrow> string" where "spine_name i = ''spine-'' @ pad2 (unat i)"

definition server_link :: "('b) builder_base_scheme \<Rightarrow> string \<Rightarrow> string \<Rightarrow> srv_link bld" where
  "server_link b server sw =
     bbind (nextServerPort b server) (\<lambda>srv.
     bbind (nextSwitchPort sw) (\<lambda>p.
     bret \<lparr>sl_Server = srv, sl_Switch = p\<rparr>))"

text \<open>A server of each kind; each takes the next server ID.\<close>

definition eslag_server :: "vlab_default \<Rightarrow> string list \<Rightarrow> nat \<Rightarrow> 8 word \<Rightarrow> (8 word) bld" where
  "eslag_server b leafNames _ serverID =
     (let serverName = server_name serverID in
     bbind (createServer serverName (''S-'' @ pad2 (unat serverID) @ '' ESLAG '' @ join_with '' '' leafNames)) (\<lambda>_.
     bbind (bfold (\<lambda>leaf links. bbind (server_link b serverName leaf) (\<lambda>l. bret (links @ [l]))) leafNames []) (\<lambda>links.
     bbind (createConnection (ConnESLAG links)) (\<lambda>_.
     bret (serverID + 1)))))"

definition unbundled_server :: "vlab_default \<Rightarrow> string \<Rightarrow> nat \<Rightarrow> 8 word \<Rightarrow> (8 word) bld" where
  "unbundled_server b leaf _ serverID =
     (let serverName = server_name serverID in
     bbind (createServer serverName (''S-'' @ pad2 (unat serverID) @ '' Unbundled '' @ leaf)) (\<lambda>_.
     bbind (server_link b serverName leaf) (\<lambda>l.
     bbind (createConnection (ConnUnbundled l)) (\<lambda>_.
     bret (serverID + 1)))))"

definition bundled_server :: "vlab_default \<Rightarrow> string \<Rightarrow> nat \<Rightarrow> 8 word \<Rightarrow> (8 word) bld" where
  "bundled_server b leaf _ serverID =
     (let serverName = server_name serverID in
     bbind (createServer serverName (''S-'' @ pad2 (unat serverID) @ '' Bundled '' @ leaf)) (\<lambda>_.
     bbind (server_link b serverName leaf) (\<lambda>l1.
     bbind (server_link b serverName leaf) (\<lambda>l2.
     bbind (createConnection (ConnBundled [l1, l2])) (\<lambda>_.
     bret (serverID + 1))))))"

text \<open>A server on two leaves, and the position of the next one among the candidates.\<close>

definition multihomed_server :: "vlab_default \<Rightarrow> string list \<Rightarrow> nat \<Rightarrow> nat \<times> 8 word \<Rightarrow> (nat \<times> 8 word) bld" where
  "multihomed_server b mhLeaves _ st =
     (let (mhIdx, serverID) = st; serverName = server_name serverID; n = length mhLeaves in
     if mhIdx \<ge> n then bfail (Panic ''runtime error: index out of range'') else
     let leaf1 = mhLeaves ! mhIdx; mhIdx = (mhIdx + 1) mod n; leaf2 = mhLeaves ! mhIdx; mhIdx = (mhIdx + 1) mod n in
     bbind (createServer serverName (''S-'' @ pad2 (unat serverID) @ '' MultiHomed '' @ leaf1 @ '' + '' @ leaf2)) (\<lambda>_.
     bbind (server_link b serverName leaf1) (\<lambda>l1.
     bbind (createConnection (ConnUnbundled l1)) (\<lambda>_.
     bbind (server_link b serverName leaf2) (\<lambda>l2.
     bbind (createConnection (ConnUnbundled l2)) (\<lambda>_.
     bret (mhIdx, serverID + 1)))))))"

section \<open>Leaves\<close>

record blocals =
  bl_SwitchID :: "8 word"
  bl_LeafID :: "8 word"
  bl_ServerID :: "8 word"
  bl_ExternalConns :: "(string \<times> conn_spec) list"
  bl_ExtESLAG :: "8 word"
  bl_ExtOrphan :: "8 word"
  bl_MhLeaves :: "string list"

definition first_locals :: blocals where
  "first_locals = \<lparr>bl_SwitchID = 1, bl_LeafID = 1, bl_ServerID = 1, bl_ExternalConns = [], bl_ExtESLAG = 0, bl_ExtOrphan = 0,
     bl_MhLeaves = []\<rparr>"

definition leaf_spec :: "string \<Rightarrow> string \<Rightarrow> switch_spec" where
  "leaf_spec role description = \<lparr>ss_Role = role, ss_Description = description, ss_Profile = '''', ss_Groups = [], ss_RedGroup = '''',
     ss_RedType = '''', ss_VLANNamespaces = [], ss_BootMAC = '''', ss_ASN = 0\<rparr>"

definition server_loop :: "8 word \<Rightarrow> (nat \<Rightarrow> 8 word \<Rightarrow> (8 word) bld) \<Rightarrow> blocals \<Rightarrow> blocals bld" where
  "server_loop n f l = bbind (bfold f [0..<unat n] (bl_ServerID l)) (\<lambda>i. bret (l\<lparr>bl_ServerID := i\<rparr>))"

definition eslag_leaf :: "vlab_default \<Rightarrow> 8 word \<Rightarrow> 8 word \<Rightarrow> string list \<times> blocals \<Rightarrow> (string list \<times> blocals) bld" where
  "eslag_leaf b eslagID eslagLeafID st =
     (let (leafNames, l) = st; leafName = leaf_name (bl_LeafID l + eslagLeafID); sg = ''eslag-'' @ u8 (eslagID + 1);
          l = (if vd_OrphanLeafsCount b < 2 then l\<lparr>bl_MhLeaves := bl_MhLeaves l @ [leafName]\<rparr> else l) in
     bbind (createSwitch b leafName
       ((leaf_spec SwitchRoleServerLeaf (''VS-'' @ pad2 (unat (bl_SwitchID l + eslagLeafID)) @ '' ESLAG '' @ u8 (eslagID + 1)))
         \<lparr>ss_Groups := [sg], ss_RedGroup := sg, ss_RedType := RedundancyTypeESLAG\<rparr>) []) (\<lambda>_.
     if bl_ExtESLAG l < vd_ExtESLAGConnCount b
     then bbind (addExternalConnection (bl_ExternalConns l) leafName) (\<lambda>conns.
       bret (leafNames @ [leafName], l\<lparr>bl_ExternalConns := conns, bl_ExtESLAG := bl_ExtESLAG l + 1\<rparr>))
     else bret (leafNames @ [leafName], l)))"

definition eslag_group_servers :: "vlab_default \<Rightarrow> 8 word \<Rightarrow> string list \<times> blocals \<Rightarrow> blocals bld" where
  "eslag_group_servers b leafs st =
     (let (leafNames, l) = st; l = l\<lparr>bl_SwitchID := bl_SwitchID l + leafs, bl_LeafID := bl_LeafID l + leafs\<rparr> in
     bbind (server_loop (vd_ESLAGServers b) (eslag_server b leafNames) l) (\<lambda>l.
     bbind (server_loop (vd_UnbundledServers b) (unbundled_server b (leafNames ! 0)) l) (\<lambda>l.
     if leafs > 1 then server_loop (vd_BundledServers b) (bundled_server b (leafNames ! 1)) l else bret l)))"

definition eslag_group :: "vlab_default \<Rightarrow> 8 word list \<Rightarrow> 8 word \<Rightarrow> blocals \<Rightarrow> blocals bld" where
  "eslag_group b groups eslagID l =
     bbind (createSwitchGroup (''eslag-'' @ u8 (eslagID + 1))) (\<lambda>_.
     let leafs = groups ! unat eslagID in
     bbind (bfold (eslag_leaf b eslagID) (map of_nat [0..<unat leafs]) ([], l)) (eslag_group_servers b leafs))"

definition orphan_leaf :: "vlab_default \<Rightarrow> 8 word \<Rightarrow> blocals \<Rightarrow> blocals bld" where
  "orphan_leaf b _ l =
     (let leafName = leaf_name (bl_LeafID l) in
     bbind (createSwitch b leafName (leaf_spec SwitchRoleServerLeaf (''VS-'' @ pad2 (unat (bl_SwitchID l)))) []) (\<lambda>_.
     let l = l\<lparr>bl_MhLeaves := bl_MhLeaves l @ [leafName]\<rparr> in
     bbind (if bl_ExtOrphan l < vd_ExtOrphanConnCount b
            then bbind (addExternalConnection (bl_ExternalConns l) leafName) (\<lambda>conns.
              bret (l\<lparr>bl_ExternalConns := conns, bl_ExtOrphan := bl_ExtOrphan l + 1\<rparr>))
            else bret l) (\<lambda>l.
     let l = l\<lparr>bl_SwitchID := bl_SwitchID l + 1, bl_LeafID := bl_LeafID l + 1\<rparr> in
     bbind (server_loop (vd_UnbundledServers b) (unbundled_server b leafName) l) (\<lambda>l.
     server_loop (vd_BundledServers b) (bundled_server b leafName) l))))"

definition multihomed_servers :: "vlab_default \<Rightarrow> blocals \<Rightarrow> blocals bld" where
  "multihomed_servers b l =
     bbind (bfold (multihomed_server b (bl_MhLeaves l)) [0..<unat (vd_MultiHomedServers b)] (0, bl_ServerID l)) (\<lambda>(_, i).
     bret (l\<lparr>bl_ServerID := i\<rparr>))"

section \<open>Spines and meshes\<close>

definition p2p_links :: "8 word \<Rightarrow> string \<Rightarrow> string \<Rightarrow> p2p_link list bld" where
  "p2p_links n sw1 sw2 = bfold (\<lambda>_ links.
     bbind (nextSwitchPort sw1) (\<lambda>p1.
     bbind (nextSwitchPort sw2) (\<lambda>p2.
     bret (links @ [\<lparr>ln_A = \<lparr>le_Port = p1, le_IP = ''''\<rparr>, ln_B = \<lparr>le_Port = p2, le_IP = ''''\<rparr>\<rparr>])))) [0..<unat n] []"

definition fabric_conn :: "vlab_default \<Rightarrow> string \<Rightarrow> 8 word \<Rightarrow> unit \<Rightarrow> unit bld" where
  "fabric_conn b spineName leafID _ =
     bbind (p2p_links (vd_FabricLinksCount b) spineName (leaf_name leafID)) (\<lambda>links.
     bbind (createConnection (ConnFabric links)) (\<lambda>_. bret ()))"

definition gateway_links :: "vlab_default \<Rightarrow> string \<Rightarrow> 8 word \<Rightarrow> fab_node list \<Rightarrow> unit bld" where
  "gateway_links b sw i gws = bfold (\<lambda>gw _. build_gateway_link b sw i gw) gws ()"

definition spine :: "vlab_default \<Rightarrow> 8 word \<Rightarrow> fab_node list \<Rightarrow> 8 word \<Rightarrow> 8 word \<Rightarrow> (8 word) bld" where
  "spine b leafs gws spineID switchID =
     (let spineName = spine_name spineID in
     bbind (createSwitch b spineName (leaf_spec SwitchRoleSpine (''VS-'' @ pad2 (unat switchID))) []) (\<lambda>_.
     bbind (for_to 1 leafs (fabric_conn b spineName) ()) (\<lambda>_.
     bbind (if gws \<noteq> [] \<and> spineID \<le> vd_GatewayUplinks b then gateway_links b spineName spineID gws else bret ()) (\<lambda>_.
     bret (switchID + 1)))))"

definition mesh_conn :: "vlab_default \<Rightarrow> 8 word \<Rightarrow> 8 word \<Rightarrow> unit \<Rightarrow> unit bld" where
  "mesh_conn b leaf1ID leaf2ID _ =
     bbind (p2p_links (vd_MeshLinksCount b) (leaf_name leaf1ID) (leaf_name leaf2ID)) (\<lambda>links.
     bbind (createConnection (ConnMesh links)) (\<lambda>_. bret ()))"

definition mesh :: "vlab_default \<Rightarrow> 8 word \<Rightarrow> unit bld" where
  "mesh b leafs =
     (if vd_MeshLinksCount b > 0
      then for_to 1 leafs (\<lambda>leaf1ID _. for_to (leaf1ID + 1) leafs (mesh_conn b leaf1ID) ()) ()
      else bret ())"

text \<open>The first leaves of a mesh take the uplinks of the gateways; the state is how many have.\<close>

definition mesh_gateways :: "vlab_default \<Rightarrow> 8 word \<Rightarrow> fab_node list \<Rightarrow> unit bld" where
  "mesh_gateways b leafs gws =
     (if vd_MeshLinksCount b > 0 \<and> gws \<noteq> []
      then bbind (for_u8 1 (\<lambda>leafID connected. leafID \<le> leafs \<and> connected < vd_GatewayUplinks b) (\<lambda>leafID connected.
        bbind (gateway_links b (leaf_name leafID) (connected + 1) gws) (\<lambda>_. bret (connected + 1))) (0 :: 8 word)) (\<lambda>_. bret ())
      else bret ())"

section \<open>Externals\<close>

definition extBGPNATAnnotation :: string where
  "extBGPNATAnnotation = ''hhfab.githedgehog.com/test-bgp-nat-pool''"

definition extStaticNATPoolAnnotation :: string where
  "extStaticNATPoolAnnotation = ''hhfab.githedgehog.com/test-static-nat-pool''"

definition extAsn :: nat where "extAsn = 64102"

definition bgp_external :: "8 word \<Rightarrow> nat \<times> (string \<times> ext_spec) list \<Rightarrow> (nat \<times> (string \<times> ext_spec) list) bld" where
  "bgp_external i st =
     (let (communityRuleID, exts) = st in
     bbind (createExternal (''ext-bgp-'' @ pad2 (unat i))
       \<lparr>es_IPv4Namespace = ''default'', es_Inbound = itoa 65102 @ '':'' @ itoa communityRuleID,
        es_Outbound = itoa extAsn @ '':'' @ itoa communityRuleID, es_Static = None\<rparr>
       [(extBGPNATAnnotation, ''192.168.'' @ itoa (90 + unat i) @ ''.0/24'')]) (\<lambda>ext.
     bret (communityRuleID + 100, exts @ [ext])))"

definition static_external :: "vlab_default \<Rightarrow> nat \<Rightarrow> (string \<times> ext_spec) list \<Rightarrow> (string \<times> ext_spec) list bld" where
  "static_external b i exts =
     (let (name, anns) = (if i \<le> unat (vd_ExtStaticProxyCount b) then (''ext-sp-'' @ pad2 i, [])
        else (''ext-snp-'' @ pad2 i, [(extStaticNATPoolAnnotation, ''192.168.'' @ itoa (100 + i) @ ''.0/24'')])) in
     bbind (createExternal name \<lparr>es_IPv4Namespace = ''default'', es_Inbound = '''', es_Outbound = '''', es_Static = Some [''0.0.0.0/0'']\<rparr> anns)
       (\<lambda>ext. bret (exts @ [ext])))"

definition static_externals :: "vlab_default \<Rightarrow> nat" where
  "static_externals b = unat (vd_ExtStaticCount b) + unat (vd_ExtStaticProxyCount b)"

definition build_externals :: "vlab_default \<Rightarrow> (string \<times> ext_spec) list bld" where
  "build_externals b =
     (if vd_ExtBGPCount b > maxExtBGPForNATPool
      then bfail (Errf ''ExtBGPCount=%d exceeds %d (NAT pool CIDR scheme limit)'' [u8 (vd_ExtBGPCount b), u8 maxExtBGPForNATPool])
      else if static_externals b > maxExtStaticForNATPool
      then bfail (Errf ''ExtStaticCount+ExtStaticProxyCount=%d exceeds %d (NAT pool CIDR scheme limit)''
        [itoa (static_externals b), itoa maxExtStaticForNATPool])
      else bbind (if vd_ExtBGPCount b > 0 then for_to 1 (vd_ExtBGPCount b) bgp_external (1000, []) else bret (1000, [])) (\<lambda>(_, exts).
        bfold (static_external b) [1..<Suc (static_externals b)] exts))"

definition attach_ip :: "8 word \<Rightarrow> 16 word \<Rightarrow> string \<Rightarrow> string" where
  "attach_ip octet vlan suffix = ''100.'' @ u8 octet @ ''.'' @ itoa (unat vlan) @ suffix"

definition attach_spec :: "8 word \<Rightarrow> string \<Rightarrow> 16 word \<Rightarrow> string \<times> ext_spec \<Rightarrow> ext_attach" where
  "attach_spec octet conn vlan ext =
     (case es_Static (snd ext) of
        Some _ \<Rightarrow>
          (let proxy = has_prefix (fst ext) ''ext-sp'' in
           \<lparr>ea_External = fst ext, ea_Connection = conn,
            ea_Static = Some \<lparr>xs_RemoteIP = attach_ip octet vlan ''.1'', xs_VLAN = vlan, xs_Proxy = proxy,
              xs_IP = (if proxy then '''' else attach_ip octet vlan ''.2/24'')\<rparr>,
            ea_VLAN = 0, ea_IP = '''', ea_ASN = 0, ea_NeighborIP = ''''\<rparr>)
      | None \<Rightarrow>
          \<lparr>ea_External = fst ext, ea_Connection = conn, ea_Static = None, ea_VLAN = vlan, ea_IP = attach_ip octet vlan ''.1/24'',
           ea_ASN = of_nat extAsn, ea_NeighborIP = attach_ip octet vlan ''.6''\<rparr>)"

definition attach_external :: "8 word \<Rightarrow> string \<times> conn_spec \<Rightarrow> string \<times> ext_spec \<Rightarrow> 16 word \<Rightarrow> (16 word) bld" where
  "attach_external octet conn ext vlan =
     (let sw = (case snd conn of ConnExternal p \<Rightarrow> device_of p | _ \<Rightarrow> '''') in
     bbind (createExternalAttach (sw @ ''--'' @ fst ext) (attach_spec octet (fst conn) vlan ext)) (\<lambda>_. bret (vlan + 10)))"

definition attach_externals :: "(string \<times> ext_spec) list \<Rightarrow> (string \<times> conn_spec) list \<Rightarrow> unit bld" where
  "attach_externals exts conns =
     bbind (bfold (\<lambda>conn octet. let octet = octet + 1 in
       bbind (bfold (attach_external octet conn) exts 10) (\<lambda>_. bret octet)) conns 0) (\<lambda>_. bret ())"

section \<open>The wiring\<close>

definition build_start :: "vlab_default \<Rightarrow> fab_node list \<Rightarrow> unit bld" where
  "build_start b nodes =
     bbind (bwrap ''creating VLAN namespace'' [] (wadd (named ''default'' (VLANNamespace [\<lparr>vr_From = 1000, vr_To = 2999\<rparr>])))) (\<lambda>_.
     bbind (bwrap ''creating IPv4 namespace'' [] (wadd (named ''default'' (IPv4Namespace [''10.0.0.0/16''])))) (\<lambda>_.
     bbind (if gateway_nodes nodes \<noteq> [] then createGatewayGroup DefaultGatewayGroup else bret ()) (\<lambda>_.
     bbind (bfold (\<lambda>node _. build_gateway b node) (gateway_nodes nodes) ()) (\<lambda>_.
     createSwitchGroup ''empty''))))"

definition build_leaves :: "vlab_default \<Rightarrow> 8 word list \<Rightarrow> blocals bld" where
  "build_leaves b groups =
     bbind (bfold (eslag_group b groups) (map of_nat [0..<unat (of_nat (length groups) :: 8 word)]) first_locals) (\<lambda>l.
     bbind (for_to 1 (vd_OrphanLeafsCount b) (orphan_leaf b) l) (\<lambda>l.
     multihomed_servers b l))"

definition sorted_gateways :: "fab_node list \<Rightarrow> fab_node list" where
  "sorted_gateways nodes = sort_key nd_Name (gateway_nodes nodes)"

definition build_wiring :: "vlab_default \<Rightarrow> 8 word list \<Rightarrow> fab_node list \<Rightarrow> unit bld" where
  "build_wiring b groups nodes =
     (let leafs = vd_OrphanLeafsCount b + sum_list groups; gws = sorted_gateways nodes in
     bbind (build_start b nodes) (\<lambda>_.
     bbind (build_leaves b groups) (\<lambda>l.
     bbind (for_to 1 (vd_SpinesCount b) (spine b leafs gws) (bl_SwitchID l)) (\<lambda>_.
     bbind (mesh b leafs) (\<lambda>_.
     bbind (mesh_gateways b leafs gws) (\<lambda>_.
     bbind (build_externals b) (\<lambda>exts.
     attach_externals exts (bl_ExternalConns l))))))))"

text \<open>The wiring of a fresh builder in a fresh loader: \<open>None\<close> where the build never returns.\<close>

definition Build :: "vlab_default \<Rightarrow> string \<Rightarrow> fab_node list \<Rightarrow> wobj list result option" where
  "Build b fabricMode nodes =
     (case build_options b fabricMode nodes of
        Inl e \<Rightarrow> Some (Inl e)
      | Inr (b, groups) \<Rightarrow> map_option (map_sum id (\<lambda>(_, s). bs_Objs s)) (build_wiring b groups nodes empty_wiring))"

end
