(* ===== verification/VlabRail.thy ===== *)
theory VlabRail
  imports VlabWiring
begin

text \<open>
  The builder of a rail-optimized fabric for GPU servers (\<^verbatim>\<open>VLABBuilderGPURail.Build\<close> of
  \<^verbatim>\<open>pkg/hhfab/vlabbuilder.go\<close>): scalable units of four leaves each, two spines, and servers with eight
  rails attached to VPCs. Its counters are 64-bit and stay far below their range.
\<close>

record vlab_rail = builder_base +
  vr_ScalableUnits :: nat
  vr_VPCs :: nat
  vr_ServersPerVPCPerUnit :: nat
  vr_P2P :: bool

definition rail_spines :: nat where "rail_spines = 2"
definition leafsPerScalableUnit :: nat where "leafsPerScalableUnit = 4"
definition startingVLAN :: "16 word" where "startingVLAN = 1000"
definition rail_fabricLinks :: nat where "rail_fabricLinks = 4"
definition rails :: nat where "rails = 8"

definition AnnotationVPCAttachmentP2PLink :: string where
  "AnnotationVPCAttachmentP2PLink = ''fabric.githedgehog.com/p2p-link''"

definition AnnotationSwitchRouteSumm :: string where
  "AnnotationSwitchRouteSumm = ''fabric.githedgehog.com/route-summ''"

definition leafNameFor :: "nat \<Rightarrow> nat \<Rightarrow> string" where
  "leafNameFor suID leafID = ''leaf-su'' @ pad2 suID @ ''-r'' @ itoa leafID"

definition rail_switch_spec :: "string \<Rightarrow> switch_spec" where
  "rail_switch_spec role = \<lparr>ss_Role = role, ss_Description = '''', ss_Profile = '''', ss_Groups = [], ss_RedGroup = '''',
     ss_RedType = '''', ss_VLANNamespaces = [''default''], ss_BootMAC = '''', ss_ASN = 0\<rparr>"

section \<open>Spines\<close>

definition rail_fabric_conn :: "string \<Rightarrow> nat \<Rightarrow> nat \<Rightarrow> unit bld" where
  "rail_fabric_conn spineName suID leafID =
     (let leafName = leafNameFor suID leafID in
     bbind (bfold (\<lambda>_ links.
       bbind (nextSwitchPort spineName) (\<lambda>spinePort.
       bbind (nextSwitchPort leafName) (\<lambda>leafPort.
       bret (links @ [\<lparr>ln_A = \<lparr>le_Port = spinePort, le_IP = ''''\<rparr>, ln_B = \<lparr>le_Port = leafPort, le_IP = ''''\<rparr>\<rparr>])))) [0..<rail_fabricLinks] []) (\<lambda>links.
     bbind (createConnection (ConnFabric links)) (\<lambda>_. bret ())))"

definition rail_spine :: "vlab_rail \<Rightarrow> nat \<Rightarrow> unit \<Rightarrow> unit bld" where
  "rail_spine b spineID _ =
     (let spineName = ''spine-s'' @ pad2 spineID in
     bbind (createSwitch b spineName (rail_switch_spec SwitchRoleSpine) []) (\<lambda>_.
     bfold (\<lambda>suID _. bfold (\<lambda>leafID _. rail_fabric_conn spineName suID leafID) [0..<leafsPerScalableUnit] ())
       [0..<vr_ScalableUnits b] ()))"

section \<open>Servers\<close>

definition rail_vpc_subnet :: "nat \<Rightarrow> string" where
  "rail_vpc_subnet vpcID = ''10.'' @ itoa (rails * vpcID) @ ''.0.0/13''"

definition rail_p2p :: "vlab_rail \<Rightarrow> nat \<Rightarrow> nat \<Rightarrow> nat \<Rightarrow> nat \<Rightarrow> string" where
  "rail_p2p b vpcID railID suID serverIDInSUInVPC =
     (if vr_P2P b
      then ''10.'' @ itoa (rails * vpcID + railID) @ ''.'' @ itoa suID @ ''.'' @ itoa (2 * serverIDInSUInVPC) @ ''/31''
      else '''')"

definition rail_server_name :: "vlab_rail \<Rightarrow> nat \<Rightarrow> nat \<Rightarrow> nat \<Rightarrow> string" where
  "rail_server_name b vpcID suID serverIDInSUInVPC =
     ''server-su'' @ pad2 suID @ ''-n'' @ pad2 (serverIDInSUInVPC + vpcID * vr_ServersPerVPCPerUnit b)"

definition rail_conn_name :: "string \<Rightarrow> nat \<Rightarrow> string \<Rightarrow> string" where
  "rail_conn_name serverName railID leafName = serverName @ ''-r'' @ itoa railID @ ''-'' @ leafName"

definition rail_vpc_name :: "nat \<Rightarrow> string" where "rail_vpc_name vpcID = ''vpc-'' @ itoa vpcID"

text \<open>A rail of a server: its connection, and the attachment of the connection to the VPC.\<close>

definition rail_attach :: "vlab_rail \<Rightarrow> nat \<Rightarrow> nat \<Rightarrow> nat \<Rightarrow> nat \<Rightarrow> unit bld" where
  "rail_attach b vpcID suID serverIDInSUInVPC railID =
     (let serverName = rail_server_name b vpcID suID serverIDInSUInVPC;
          leafName = leafNameFor suID (railID mod leafsPerScalableUnit);
          connName = rail_conn_name serverName railID leafName in
     bbind (nextServerPort b serverName) (\<lambda>srv.
     bbind (nextSwitchPort leafName) (\<lambda>sw.
     bbind (createConnectionWithName connName (ConnUnbundled \<lparr>sl_Server = srv, sl_Switch = sw\<rparr>)) (\<lambda>_.
     createVPCAttachment (rail_vpc_name vpcID @ ''-'' @ connName) connName (rail_vpc_name vpcID @ ''/default'')
       [(AnnotationVPCAttachmentP2PLink, rail_p2p b vpcID railID suID serverIDInSUInVPC)]))))"

definition rail_server :: "vlab_rail \<Rightarrow> nat \<Rightarrow> nat \<Rightarrow> nat \<Rightarrow> unit bld" where
  "rail_server b vpcID suID serverIDInSUInVPC =
     bbind (createServer (rail_server_name b vpcID suID serverIDInSUInVPC) '''') (\<lambda>_.
     bfold (\<lambda>railID _. rail_attach b vpcID suID serverIDInSUInVPC railID) [0..<rails] ())"

text \<open>The routes a leaf summarises, by VPC; a leaf takes every rail of its position.\<close>

definition rail_summ :: "nat \<Rightarrow> nat \<Rightarrow> nat \<Rightarrow> string list gomap \<Rightarrow> string list gomap" where
  "rail_summ vpcID suID railID routeSumm =
     (let leafName = leafNameFor suID (railID mod leafsPerScalableUnit);
          hints = (case map_of routeSumm leafName of Some h \<Rightarrow> h | None \<Rightarrow> []) in
      map_put leafName (hints @ [rail_vpc_name vpcID @ ''='' @ ''10.'' @ itoa (rails * vpcID + railID) @ ''.'' @ itoa suID @ ''.0/24'']) routeSumm)"

definition rail_unit :: "vlab_rail \<Rightarrow> nat \<Rightarrow> nat \<Rightarrow> string list gomap \<Rightarrow> string list gomap bld" where
  "rail_unit b vpcID suID routeSumm =
     bbind (bfold (\<lambda>s _. rail_server b vpcID suID s) [0..<vr_ServersPerVPCPerUnit b] ()) (\<lambda>_.
     bret (fold (rail_summ vpcID suID) [0..<rails] routeSumm))"

definition rail_vpc :: "vlab_rail \<Rightarrow> nat \<Rightarrow> string list gomap \<Rightarrow> string list gomap bld" where
  "rail_vpc b vpcID routeSumm =
     bbind (createVPC (rail_vpc_name vpcID) ''default'' [(''default'', rail_vpc_subnet vpcID, startingVLAN + of_nat vpcID)]) (\<lambda>_.
     bfold (rail_unit b vpcID) [0..<vr_ScalableUnits b] routeSumm)"

section \<open>Leaves\<close>

definition rail_leaf :: "vlab_rail \<Rightarrow> string list gomap \<Rightarrow> nat \<Rightarrow> nat \<Rightarrow> unit bld" where
  "rail_leaf b routeSumm suID leafID =
     (let leafName = leafNameFor suID leafID in
     createSwitch b leafName (rail_switch_spec SwitchRoleServerLeaf)
       [(AnnotationSwitchRouteSumm, join_with '','' (case map_of routeSumm leafName of Some h \<Rightarrow> h | None \<Rightarrow> []))])"

section \<open>The wiring\<close>

definition rail_wiring :: "vlab_rail \<Rightarrow> unit bld" where
  "rail_wiring b =
     bbind (bwrap ''creating VLAN namespace'' [] (wadd (named ''default'' (VLANNamespace [\<lparr>vr_From = startingVLAN, vr_To = 2999\<rparr>])))) (\<lambda>_.
     bbind (bwrap ''creating IPv4 namespace'' [] (wadd (named ''default'' (IPv4Namespace [''10.0.0.0/8''])))) (\<lambda>_.
     bbind (bfold (rail_spine b) [0..<rail_spines] ()) (\<lambda>_.
     bbind (bfold (rail_vpc b) [0..<vr_VPCs b] []) (\<lambda>routeSumm.
     bfold (\<lambda>suID _. bfold (\<lambda>leafID _. rail_leaf b routeSumm suID leafID) [0..<leafsPerScalableUnit] ())
       [0..<vr_ScalableUnits b] ()))))"

definition BuildRail :: "vlab_rail \<Rightarrow> wobj list result option" where
  "BuildRail b = map_option (map_sum id (\<lambda>(_, s). bs_Objs s)) (rail_wiring b empty_wiring)"

end
