(* ===== verification/VlabLogic.thy ===== *)
theory VlabLogic
  imports VlabWiring
begin

text \<open>
  Reasoning about the builders of virtual labs: what a successful step establishes (\<open>hoare\<close>), with a
  rule per construct of their code, the steps that return at all (\<open>returns\<close>), and the interface
  \<open>wiring_invariant\<close>: an invariant the primitive operations of a builder keep is kept by the builders.
\<close>

section \<open>Partial correctness\<close>

definition hoare :: "(bstate \<Rightarrow> bool) \<Rightarrow> 'a bld \<Rightarrow> ('a \<Rightarrow> bstate \<Rightarrow> bool) \<Rightarrow> bool" where
  "hoare P m Q \<longleftrightarrow> (\<forall>s a s'. P s \<longrightarrow> m s = Some (Inr (a, s')) \<longrightarrow> Q a s')"

lemma hoareI: "(\<And>s a s'. P s \<Longrightarrow> m s = Some (Inr (a, s')) \<Longrightarrow> Q a s') \<Longrightarrow> hoare P m Q"
  unfolding hoare_def by blast

lemma hoareD: "hoare P m Q \<Longrightarrow> P s \<Longrightarrow> m s = Some (Inr (a, s')) \<Longrightarrow> Q a s'"
  unfolding hoare_def by blast

lemma hoare_pre: "hoare P m Q \<Longrightarrow> (\<And>s. P' s \<Longrightarrow> P s) \<Longrightarrow> hoare P' m Q"
  unfolding hoare_def by blast

lemma hoare_post: "hoare P m Q \<Longrightarrow> (\<And>a s. Q a s \<Longrightarrow> Q' a s) \<Longrightarrow> hoare P m Q'"
  unfolding hoare_def by blast

lemma hoare_conj: "hoare P m Q \<Longrightarrow> hoare P' m Q' \<Longrightarrow> hoare (\<lambda>s. P s \<and> P' s) m (\<lambda>a s. Q a s \<and> Q' a s)"
  unfolding hoare_def by blast

text \<open>A fact that does not speak of the state.\<close>

lemma hoare_pure: "(F \<Longrightarrow> hoare P m Q) \<Longrightarrow> hoare (\<lambda>s. P s \<and> F) m Q"
  unfolding hoare_def by blast

lemma hoare_frame: "hoare P m Q \<Longrightarrow> hoare (\<lambda>s. P s \<and> F) m (\<lambda>a s. Q a s \<and> F)"
  unfolding hoare_def by blast

lemma hoare_bret: "(\<And>s. P s \<Longrightarrow> Q a s) \<Longrightarrow> hoare P (bret a) Q"
  unfolding hoare_def bret_def by simp

lemma hoare_bret' [intro]: "hoare (Q a) (bret a) Q"
  by (rule hoare_bret)

lemma hoare_bfail [intro]: "hoare P (bfail e) Q"
  unfolding hoare_def bfail_def by simp

lemma hoare_blift: "(\<And>a. r = Inr a \<Longrightarrow> hoare P (bret a) Q) \<Longrightarrow> hoare P (blift r) Q"
  unfolding blift_def by (cases r) auto

lemma hoare_bbind: "hoare P m R \<Longrightarrow> (\<And>a. hoare (R a) (f a) Q) \<Longrightarrow> hoare P (bbind m f) Q"
  unfolding hoare_def bbind_def by (fastforce split: option.splits sum.splits)

lemma bwrap_Inr: "bwrap msg args m s = Some (Inr r) \<longleftrightarrow> m s = Some (Inr r)"
  by (auto simp: bwrap_def ewrap_Inr_iff)

lemma hoare_bwrap: "hoare P m Q \<Longrightarrow> hoare P (bwrap msg args m) Q"
  unfolding hoare_def by (simp add: bwrap_Inr)

lemma hoare_if: "(c \<Longrightarrow> hoare P m Q) \<Longrightarrow> (\<not> c \<Longrightarrow> hoare P m' Q) \<Longrightarrow> hoare P (if c then m else m') Q"
  by simp

lemma hoare_bfold:
  assumes "\<And>x a. x \<in> set xs \<Longrightarrow> hoare (J a) (f x a) J"
  shows "hoare (J a) (bfold f xs a) J"
  using assms by (induction xs arbitrary: a) (auto intro: hoare_bbind)

text \<open>The loop rule with the elements the loop has consumed.\<close>

lemma hoare_bfold_prefix:
  assumes "\<And>ys x zs a. xs = ys @ x # zs \<Longrightarrow> hoare (J ys a) (f x a) (J (ys @ [x]))"
  shows "hoare (J [] a) (bfold f xs a) (J xs)"
proof -
  have "hoare (J us a) (bfold f vs a) (J xs)" if "xs = us @ vs" for us vs a
    using that
  proof (induction vs arbitrary: us a)
    case (Cons v vs)
    show ?case using assms [OF Cons.prems] Cons.IH [of "us @ [v]"] Cons.prems by (auto intro: hoare_bbind)
  qed auto
  from this [of "[]" xs] show ?thesis by simp
qed

lemma for_u8_unfold:
  "for_u8 i cond body a = (if cond i a then bbind (body i a) (for_u8 (i + 1) cond body) else bret a)"
  by (rule ext) (subst for_u8.simps, auto simp: bbind_def bret_def split: option.splits sum.splits)

lemma for_u8_keeps:
  assumes "for_u8 i cond body a s = Some r"
  shows "(\<forall>i a s a' s'. cond i a \<longrightarrow> J i a s \<longrightarrow> body i a s = Some (Inr (a', s')) \<longrightarrow> J (i + 1) a' s') \<longrightarrow>
    J i a s \<longrightarrow> (\<forall>a' s'. r = Inr (a', s') \<longrightarrow> (\<exists>i. \<not> cond i a' \<and> J i a' s'))"
  using assms
proof (rule for_u8.raw_induct [rotated])
  fix loop i cond body a s r
  assume IH: "\<And>i cond body a s r. loop i cond body a s = Some r \<Longrightarrow>
      (\<forall>i a s a' s'. cond i a \<longrightarrow> J i a s \<longrightarrow> body i a s = Some (Inr (a', s')) \<longrightarrow> J (i + 1) a' s') \<longrightarrow>
      J i a s \<longrightarrow> (\<forall>a' s'. r = Inr (a', s') \<longrightarrow> (\<exists>i. \<not> cond i a' \<and> J i a' s'))"
    and eq: "(if cond i a then Option.bind (body i a s)
        (\<lambda>r. if isl r then Some (Inl (projl r)) else loop (i + 1) cond body (fst (projr r)) (snd (projr r)))
      else Some (Inr (a, s))) = Some r"
  show "(\<forall>i a s a' s'. cond i a \<longrightarrow> J i a s \<longrightarrow> body i a s = Some (Inr (a', s')) \<longrightarrow> J (i + 1) a' s') \<longrightarrow>
      J i a s \<longrightarrow> (\<forall>a' s'. r = Inr (a', s') \<longrightarrow> (\<exists>i. \<not> cond i a' \<and> J i a' s'))"
  proof (intro impI allI)
    fix a' s'
    assume step: "\<forall>i a s a' s'. cond i a \<longrightarrow> J i a s \<longrightarrow> body i a s = Some (Inr (a', s')) \<longrightarrow> J (i + 1) a' s'"
      and J: "J i a s" and r: "r = Inr (a', s')"
    show "\<exists>i. \<not> cond i a' \<and> J i a' s'"
    proof (cases "cond i a")
      case True
      with eq obtain q where q: "body i a s = Some q" by (cases "body i a s") auto
      with True eq r obtain a1 s1 where qr: "q = Inr (a1, s1)" by (cases q) auto
      with True q eq r have "loop (i + 1) cond body a1 s1 = Some (Inr (a', s'))" by simp
      moreover have "J (i + 1) a1 s1" using step True J q qr by blast
      ultimately show ?thesis using IH step by blast
    qed (use eq J r in auto)
  qed
qed

lemma hoare_for_u8:
  assumes "\<And>i a. cond i a \<Longrightarrow> hoare (J i a) (body i a) (J (i + 1))"
  shows "hoare (J i a) (for_u8 i cond body a) (\<lambda>a s. \<exists>i. \<not> cond i a \<and> J i a s)"
  using for_u8_keeps [of i cond body a _ _ J] assms [THEN hoareD]
  by (intro hoareI) blast

section \<open>Steps that return\<close>

definition returns :: "'a bld \<Rightarrow> bool" where
  "returns m \<longleftrightarrow> (\<forall>s. m s \<noteq> None)"

named_theorems returning \<open>the constructs that return where their parts do\<close>

lemma returns_bret [returning]: "returns (bret a)"
  by (simp add: returns_def bret_def)

lemma returns_bfail [returning]: "returns (bfail e)"
  by (simp add: returns_def bfail_def)

lemma returns_blift [returning]: "returns (blift r)"
  unfolding blift_def by (cases r) (simp_all add: returning)

lemma returns_bbind [returning]: "returns m \<Longrightarrow> (\<And>a. returns (f a)) \<Longrightarrow> returns (bbind m f)"
  unfolding returns_def bbind_def by (auto split: option.splits sum.splits)

lemma returns_bwrap [returning]: "returns m \<Longrightarrow> returns (bwrap msg args m)"
  by (simp add: returns_def bwrap_def)

lemma returns_if [returning]: "(c \<Longrightarrow> returns m) \<Longrightarrow> (\<not> c \<Longrightarrow> returns m') \<Longrightarrow> returns (if c then m else m')"
  by simp

lemma returns_prod [returning]: "(\<And>a c. returns (f a c)) \<Longrightarrow> returns (case p of (a, c) \<Rightarrow> f a c)"
  by (cases p) simp

lemma returns_bfold [returning]: "(\<And>x a. x \<in> set xs \<Longrightarrow> returns (f x a)) \<Longrightarrow> returns (bfold f xs a)"
  by (induction xs arbitrary: a) (auto intro: returning)

text \<open>A loop over a \<^verbatim>\<open>uint8\<close> returns where its body does and each round that succeeds lowers a measure.\<close>

lemma returns_for_u8:
  assumes "\<And>i a. returns (body i a)"
    and "\<And>i a s a' s'. cond i a \<Longrightarrow> body i a s = Some (Inr (a', s')) \<Longrightarrow> M (i + 1) a' s' < (M i a s :: nat)"
  shows "returns (for_u8 i cond body a)"
proof -
  have "for_u8 i cond body a s \<noteq> None" for i a s
  proof (induction "M i a s" arbitrary: i a s rule: less_induct)
    case less
    show ?case
    proof (cases "cond i a")
      case True
      obtain q where q: "body i a s = Some q" using assms(1) [of i a] by (auto simp: returns_def)
      show ?thesis
      proof (cases q)
        case (Inr p)
        obtain a' s' where p: "p = (a', s')" by (cases p)
        from less [OF assms(2) [OF True q [unfolded Inr p]]] True q Inr p show ?thesis
          by (subst for_u8_unfold) (simp add: bbind_def)
      qed (subst for_u8_unfold, use True q in \<open>simp add: bbind_def\<close>)
    qed (subst for_u8_unfold, simp add: bret_def)
  qed
  then show ?thesis by (simp add: returns_def)
qed

lemma unat_u8_less: "unat (i :: 8 word) < 256"
  using unsigned_less [of i] by simp

lemma unat_u8_Suc: "unat (i :: 8 word) < 255 \<Longrightarrow> unat (i + 1) = unat i + 1"
  by (simp add: unat_word_ariths)

lemma unat_u8_max: "(n :: 8 word) \<noteq> 255 \<Longrightarrow> unat n < 255"
proof -
  assume "n \<noteq> 255"
  then have "unat n \<noteq> unat (255 :: 8 word)" by (simp add: word_unat_eq_iff)
  then show ?thesis using unat_u8_less [of n] by simp
qed

lemma returns_for_to:
  assumes "\<And>i a. returns (body i a)" and "n \<noteq> 255"
  shows "returns (for_to i n body a)"
  unfolding for_to_def
proof (rule returns_for_u8 [where M = "\<lambda>i _ _. 256 - unat i"])
  fix i :: "8 word" and a a' :: 'a and s s' :: bstate
  assume "i \<le> n"
  with unat_u8_max [OF assms(2)] have "unat i < 255" by (simp add: word_le_nat_alt)
  from unat_u8_Suc [OF this] this show "256 - unat (i + 1) < 256 - unat i" by simp
qed (rule assms(1))

text \<open>A loop up to 255 whose body always succeeds never returns.\<close>

lemma for_to_255:
  assumes "\<And>i a. body i a = bret (g i a)"
  shows "for_to i 255 body a s = None"
proof -
  have "for_u8 i cond body a s = Some r \<Longrightarrow> cond = (\<lambda>i _. i \<le> 255) \<longrightarrow> (\<forall>i a. body i a = bret (g i a)) \<longrightarrow> False"
    for i cond body a s r
  proof (rule for_u8.raw_induct [where P = "\<lambda>i cond body a s r. cond = (\<lambda>i _. i \<le> 255) \<longrightarrow> (\<forall>i a. body i a = bret (g i a)) \<longrightarrow> False"])
    fix loop i cond body a s r
    assume IH: "\<And>i cond body a s r. loop i cond body a s = Some r \<Longrightarrow>
        cond = (\<lambda>i _. i \<le> 255) \<longrightarrow> (\<forall>i a. body i a = bret (g i a)) \<longrightarrow> False"
      and eq: "(if cond i a then Option.bind (body i a s)
          (\<lambda>r. if isl r then Some (Inl (projl r)) else loop (i + 1) cond body (fst (projr r)) (snd (projr r)))
        else Some (Inr (a, s))) = Some r"
    show "cond = (\<lambda>i _. i \<le> 255) \<longrightarrow> (\<forall>i a. body i a = bret (g i a)) \<longrightarrow> False"
    proof (intro impI)
      assume c: "cond = (\<lambda>i _. i \<le> 255)" and b: "\<forall>i a. body i a = bret (g i a)"
      have "i \<le> 255" using unat_u8_less [of i] by (simp add: word_le_nat_alt)
      with eq c b have "loop (i + 1) cond body (g i a) s = Some r" by (simp add: bret_def)
      from IH [OF this] c b show False by blast
    qed
  qed
  with assms show ?thesis unfolding for_to_def by (cases "for_u8 i (\<lambda>i _. i \<le> 255) body a s") blast+
qed

section \<open>Ports\<close>

text \<open>The ports of switches and servers an object names; a gateway names its own.\<close>

definition link_ports :: "srv_link \<Rightarrow> string list" where
  "link_ports l = [sl_Server l, sl_Switch l]"

definition p2p_ports :: "p2p_link \<Rightarrow> string list" where
  "p2p_ports l = [le_Port (ln_A l), le_Port (ln_B l)]"

fun conn_ports :: "conn_spec \<Rightarrow> string list" where
  "conn_ports (ConnUnbundled l) = link_ports l"
| "conn_ports (ConnBundled ls) = concat (map link_ports ls)"
| "conn_ports (ConnESLAG ls) = concat (map link_ports ls)"
| "conn_ports (ConnFabric ls) = concat (map p2p_ports ls)"
| "conn_ports (ConnMesh ls) = concat (map p2p_ports ls)"
| "conn_ports (ConnGateway ls) = map (\<lambda>l. le_Port (ln_A l)) ls"
| "conn_ports (ConnMCLAG ls) = concat (map link_ports ls)"
| "conn_ports (ConnVPCLoopback ls) = concat (map p2p_ports ls)"
| "conn_ports (ConnMCLAGDomain ls ks) = concat (map p2p_ports ls) @ concat (map p2p_ports ks)"
| "conn_ports (ConnExternal p) = [p]"
| "conn_ports (ConnStaticExternal p) = [p]"

fun spec_ports :: "wspec \<Rightarrow> string list" where
  "spec_ports (ConnObj c) = conn_ports c"
| "spec_ports _ = []"

definition wiring_ports :: "wobj list \<Rightarrow> string list" where
  "wiring_ports xs = concat (map (\<lambda>x. spec_ports (wo_Spec x)) xs)"

fun is_switch_obj :: "wspec \<Rightarrow> bool" where
  "is_switch_obj (SwitchObj _) = True"
| "is_switch_obj _ = False"

section \<open>Invariants of a wiring\<close>

text \<open>
  What an invariant has to satisfy: the ports taken but not yet in an object are its first argument.
\<close>

locale wiring_invariant =
  fixes b :: "('b) builder_base_scheme"
    and I :: "string list \<Rightarrow> bstate \<Rightarrow> bool"
    and sw :: "string \<Rightarrow> bool"
    and srv :: "string \<Rightarrow> bool"
  assumes switch_port: "sw d \<Longrightarrow> hoare (I ps) (nextSwitchPort d) (\<lambda>p. I (ps @ [p]))"
    and server_port: "srv d \<Longrightarrow> hoare (I ps) (nextServerPort b d) (\<lambda>p. I (ps @ [p]))"
    and add: "\<not> is_switch_obj (wo_Spec x) \<Longrightarrow> hoare (I (spec_ports (wo_Spec x))) (wadd x) (\<lambda>_. I [])"
    and switch: "sw name \<Longrightarrow> hoare (I []) (createSwitch b name spec anns) (\<lambda>_. I [])"
begin

lemma create_keeps:
  assumes "\<not> is_switch_obj (wo_Spec x)" and "spec_ports (wo_Spec x) = ps"
  shows "hoare (I ps) (create what x) (\<lambda>_. I [])"
  unfolding create_def using add [OF assms(1)] assms(2) by (auto intro: hoare_bwrap)

lemma simple_creates:
  "hoare (I []) (createSwitchGroup name) (\<lambda>_. I [])"
  "hoare (I []) (createServer name description) (\<lambda>_. I [])"
  "hoare (I []) (createGateway name gspec) (\<lambda>_. I [])"
  "hoare (I []) (createGatewayGroup name) (\<lambda>_. I [])"
  "hoare (I []) (createExternalAttach name aspec) (\<lambda>_. I [])"
  "hoare (I []) (createVPC name vlanns subnets) (\<lambda>_. I [])"
  "hoare (I []) (createVPCAttachment name conn subnet anns) (\<lambda>_. I [])"
  unfolding createSwitchGroup_def createServer_def createGateway_def createGatewayGroup_def createExternalAttach_def
    createVPC_def createVPCAttachment_def
  by (rule create_keeps; simp add: named_def)+

lemma createExternal_keeps: "hoare (I []) (createExternal name spec anns) (\<lambda>_. I [])"
  unfolding createExternal_def by (rule hoare_bbind [OF create_keeps]) (auto simp: named_def)

lemma createConnectionWithName_keeps: "hoare (I (conn_ports spec)) (createConnectionWithName name spec) (\<lambda>_. I [])"
  unfolding createConnectionWithName_def by (rule hoare_bbind [OF create_keeps]) (auto simp: named_def)

lemma createConnection_keeps: "conn_ports spec = ps \<Longrightarrow> hoare (I ps) (createConnection spec) (\<lambda>_. I [])"
  unfolding createConnection_def
  by (rule hoare_bbind [OF hoare_blift [OF hoare_bret']]) (use createConnectionWithName_keeps in auto)

lemma addExternalConnection_keeps:
  assumes "sw d"
  shows "hoare (I []) (addExternalConnection conns d) (\<lambda>_. I [])"
  unfolding addExternalConnection_def
  by (rule hoare_bbind [OF switch_port [OF assms]], rule hoare_bbind [OF createConnection_keeps]) auto

end

end
