(* ===== verification/VlabInvariant.thy ===== *)
theory VlabInvariant
  imports VlabLogic VlabBuilder VlabRail
begin

text \<open>
  Both builders keep every invariant their primitive operations keep: the wiring a build starts with
  satisfies it, so does the wiring it returns.
\<close>

section \<open>The default builder\<close>

locale default_builder = wiring_invariant b I sw srv
  for b :: vlab_default and I :: "string list \<Rightarrow> bstate \<Rightarrow> bool" and sw :: "string \<Rightarrow> bool" and srv :: "string \<Rightarrow> bool" +
  assumes leaf: "sw (leaf_name i)"
    and spine_sw: "sw (spine_name i)"
    and server: "srv (server_name i)"
begin

lemma server_link_keeps:
  assumes "sw d"
  shows "hoare (I ps) (server_link b (server_name i) d) (\<lambda>l. I (ps @ link_ports l))"
  unfolding server_link_def
  by (rule hoare_bbind [OF server_port [OF server]], rule hoare_bbind [OF switch_port [OF assms]])
     (auto intro!: hoare_bret simp: link_ports_def)

lemmas server_link_first = server_link_keeps [where ps = "[]", simplified]

lemma links_keep:
  assumes "list_all sw ds"
  shows "hoare (I []) (bfold (\<lambda>d links. bbind (server_link b (server_name i) d) (\<lambda>l. bret (links @ [l]))) ds [])
    (\<lambda>links. I (concat (map link_ports links)))"
proof -
  have "hoare (I (concat (map link_ports links))) (bbind (server_link b (server_name i) d) (\<lambda>l. bret (links @ [l])))
      (\<lambda>links. I (concat (map link_ports links)))" if "d \<in> set ds" for d links
    by (rule hoare_bbind [OF server_link_keeps]) (use assms that in \<open>auto simp: list_all_iff intro!: hoare_bret\<close>)
  then show ?thesis
    using hoare_bfold [of ds "\<lambda>links. I (concat (map link_ports links))" _ "[]"] by simp
qed

lemma eslag_server_keeps:
  "list_all sw leafNames \<Longrightarrow> hoare (I []) (eslag_server b leafNames n i) (\<lambda>_. I [])"
  unfolding eslag_server_def Let_def
  by (rule hoare_bbind [OF simple_creates(2)], rule hoare_bbind [OF links_keep], assumption,
      rule hoare_bbind [OF createConnection_keeps]) auto

lemma unbundled_keeps:
  "hoare (I (link_ports l)) (createConnection (ConnUnbundled l)) (\<lambda>_. I [])"
  by (rule createConnection_keeps) simp

lemma unbundled_server_keeps:
  "sw d \<Longrightarrow> hoare (I []) (unbundled_server b d n i) (\<lambda>_. I [])"
  unfolding unbundled_server_def Let_def
  by (rule hoare_bbind [OF simple_creates(2)], rule hoare_bbind [OF server_link_keeps], assumption,
      simp only: append_Nil, rule hoare_bbind [OF unbundled_keeps]) auto

lemma bundled_server_keeps:
  "sw d \<Longrightarrow> hoare (I []) (bundled_server b d n i) (\<lambda>_. I [])"
  unfolding bundled_server_def Let_def
  by (rule hoare_bbind [OF simple_creates(2)], rule hoare_bbind [OF server_link_keeps], assumption,
      rule hoare_bbind [OF server_link_keeps], assumption, rule hoare_bbind [OF createConnection_keeps]) auto

lemma multihomed_server_keeps:
  assumes "list_all sw ds"
  shows "hoare (I []) (multihomed_server b ds n st) (\<lambda>_. I [])"
proof (cases st)
  case (Pair k i)
  have d: "sw (ds ! j)" if "j < length ds" for j using assms that by (simp add: list_all_length)
  have "hoare (I []) (multihomed_server b ds n (k, i)) (\<lambda>_. I [])"
    unfolding multihomed_server_def Let_def prod.case
    by (intro hoare_if hoare_bfail hoare_bbind [OF simple_creates(2)] hoare_bbind [OF server_link_first]
        hoare_bbind [OF unbundled_keeps] hoare_bret' d) (auto simp: not_le intro!: mod_less_divisor)
  then show ?thesis using Pair by simp
qed

text \<open>The loops over the leaves also keep that the candidates for multihomed servers are switches.\<close>

lemma server_loop_keeps:
  assumes "\<And>n i. hoare (I []) (f n i) (\<lambda>_. I [])"
  shows "hoare (\<lambda>s. I [] s \<and> list_all sw (bl_MhLeaves l)) (server_loop k f l)
    (\<lambda>l s. I [] s \<and> list_all sw (bl_MhLeaves l))"
  unfolding server_loop_def
  by (intro hoare_pure hoare_bbind [OF hoare_bfold [where J = "\<lambda>_. I []"]] assms) (auto intro: hoare_bret)

lemma eslag_leaf_keeps:
  "hoare (\<lambda>s. I [] s \<and> (length (fst st) = k \<and> list_all sw (fst st) \<and> list_all sw (bl_MhLeaves (snd st)))) (eslag_leaf b g i st)
    (\<lambda>st s. I [] s \<and> (length (fst st) = Suc k \<and> list_all sw (fst st) \<and> list_all sw (bl_MhLeaves (snd st))))"
proof (cases st)
  case (Pair names l)
  show ?thesis unfolding Pair eslag_leaf_def Let_def prod.case fst_conv snd_conv
    by (rule hoare_pure, rule hoare_bbind [OF switch [OF leaf]], rule hoare_if;
        (rule hoare_bbind [OF addExternalConnection_keeps [OF leaf]])?; rule hoare_bret; simp add: leaf)
qed

lemma eslag_leaves_keep:
  "hoare (\<lambda>s. I [] s \<and> list_all sw (bl_MhLeaves l)) (bfold (eslag_leaf b g) is ([], l))
    (\<lambda>st s. I [] s \<and> (length (fst st) = length is \<and> list_all sw (fst st) \<and> list_all sw (bl_MhLeaves (snd st))))"
  using hoare_bfold_prefix [of "is" "\<lambda>js st s. I [] s \<and>
    (length (fst st) = length js \<and> list_all sw (fst st) \<and> list_all sw (bl_MhLeaves (snd st)))" "eslag_leaf b g" "([], l)"] eslag_leaf_keeps
  by simp

lemma eslag_group_servers_keeps:
  "hoare (\<lambda>s. I [] s \<and> (2 \<le> length (fst st) \<and> list_all sw (fst st) \<and> list_all sw (bl_MhLeaves (snd st))))
    (eslag_group_servers b leafs st) (\<lambda>l s. I [] s \<and> list_all sw (bl_MhLeaves l))"
proof (cases st)
  case (Pair names l)
  show ?thesis unfolding Pair fst_conv snd_conv eslag_group_servers_def Let_def prod.case
  proof (rule hoare_pure, elim conjE)
    assume "2 \<le> length names" "list_all sw names" and l: "list_all sw (bl_MhLeaves l)"
    then have n: "list_all sw names" "sw (names ! 0)" "sw (names ! 1)"
      by (cases names; cases "tl names"; auto)+
    note loop = hoare_pre [OF server_loop_keeps]
    show "hoare (I []) (bbind (server_loop (vd_ESLAGServers b) (eslag_server b names)
        (l\<lparr>bl_SwitchID := bl_SwitchID l + leafs, bl_LeafID := bl_LeafID l + leafs\<rparr>)) (\<lambda>l.
      bbind (server_loop (vd_UnbundledServers b) (unbundled_server b (names ! 0)) l) (\<lambda>l.
      if leafs > 1 then server_loop (vd_BundledServers b) (bundled_server b (names ! 1)) l else bret l)))
      (\<lambda>l s. I [] s \<and> list_all sw (bl_MhLeaves l))"
      by (rule hoare_bbind [OF loop [OF eslag_server_keeps [OF n(1)]]], use l in simp,
          rule hoare_bbind [OF loop [OF unbundled_server_keeps [OF n(2)]]], assumption, rule hoare_if,
          rule loop [OF bundled_server_keeps [OF n(3)]]) (auto intro: hoare_bret)
  qed
qed

lemma eslag_group_keeps:
  assumes "2 \<le> unat (groups ! unat g)"
  shows "hoare (\<lambda>s. I [] s \<and> list_all sw (bl_MhLeaves l)) (eslag_group b groups g l) (\<lambda>l s. I [] s \<and> list_all sw (bl_MhLeaves l))"
  unfolding eslag_group_def Let_def
  by (rule hoare_bbind [OF hoare_frame [OF simple_creates(1)]], rule hoare_bbind [OF eslag_leaves_keep],
      rule hoare_pre [OF eslag_group_servers_keeps]) (use assms in auto)

lemma orphan_leaf_keeps:
  "hoare (\<lambda>s. I [] s \<and> list_all sw (bl_MhLeaves l)) (orphan_leaf b i l) (\<lambda>l s. I [] s \<and> list_all sw (bl_MhLeaves l))"
  unfolding orphan_leaf_def Let_def
  by (rule hoare_bbind [OF hoare_frame [OF switch [OF leaf]]],
      rule hoare_bbind [where R = "\<lambda>l s. I [] s \<and> list_all sw (bl_MhLeaves l)"], rule hoare_if,
      rule hoare_bbind [OF hoare_frame [OF addExternalConnection_keeps [OF leaf]]],
      (rule hoare_bret, simp add: leaf)+,
      rule hoare_bbind [OF hoare_pre [OF server_loop_keeps [OF unbundled_server_keeps [OF leaf]]]], simp,
      rule server_loop_keeps [OF bundled_server_keeps [OF leaf]])

lemma multihomed_servers_keep:
  "hoare (\<lambda>s. I [] s \<and> list_all sw (bl_MhLeaves l)) (multihomed_servers b l) (\<lambda>_. I [])"
  unfolding multihomed_servers_def
  by (rule hoare_pure, rule hoare_bbind [OF hoare_bfold [where J = "\<lambda>_. I []", OF multihomed_server_keeps]])
     (auto split: prod.splits intro: hoare_bret)

lemma build_leaves_keep:
  assumes "\<forall>n\<in>set groups. 2 \<le> unat n"
  shows "hoare (I []) (build_leaves b groups) (\<lambda>_. I [])"
proof -
  let ?J = "\<lambda>l s. I [] s \<and> list_all sw (bl_MhLeaves l)"
  have g: "2 \<le> unat (groups ! unat g)" if "g \<in> set (map of_nat [0..<unat (of_nat (length groups) :: 8 word)] :: 8 word list)" for g
  proof -
    from that obtain k where "k < unat (of_nat (length groups) :: 8 word)" "g = of_nat k" by auto
    then have "unat g < length groups" by (simp add: unat_of_nat order.strict_trans2)
    with assms show ?thesis by simp
  qed
  show ?thesis unfolding build_leaves_def
    by (rule hoare_bbind [OF hoare_bfold [where J = ?J, OF eslag_group_keeps [OF g]], THEN hoare_pre])
       (auto simp: first_locals_def for_to_def
         intro!: hoare_bbind [OF hoare_for_u8 [where J = "\<lambda>_. ?J", OF orphan_leaf_keeps]]
           hoare_pre [OF multihomed_servers_keep])
qed

text \<open>Links between switches.\<close>

lemma p2p_links_keep:
  assumes "sw d" and "sw d'"
  shows "hoare (I []) (p2p_links n d d') (\<lambda>links. I (concat (map p2p_ports links)))"
proof -
  have "hoare (I (concat (map p2p_ports links))) (bbind (nextSwitchPort d) (\<lambda>p1. bbind (nextSwitchPort d') (\<lambda>p2.
      bret (links @ [\<lparr>ln_A = \<lparr>le_Port = p1, le_IP = ''''\<rparr>, ln_B = \<lparr>le_Port = p2, le_IP = ''''\<rparr>\<rparr>]))))
      (\<lambda>links. I (concat (map p2p_ports links)))" for links
    by (rule hoare_bbind [OF switch_port [OF assms(1)]], rule hoare_bbind [OF switch_port [OF assms(2)]])
       (auto intro!: hoare_bret simp: p2p_ports_def)
  then show ?thesis unfolding p2p_links_def
    using hoare_bfold [of "[0..<unat n]" "\<lambda>links. I (concat (map p2p_ports links))" _ "[]"] by simp
qed

lemma fabric_conn_keeps: "sw d \<Longrightarrow> hoare (I []) (fabric_conn b d i u) (\<lambda>_. I [])"
  unfolding fabric_conn_def
  by (rule hoare_bbind [OF p2p_links_keep [OF _ leaf]], assumption, rule hoare_bbind [OF createConnection_keeps]) auto

lemma mesh_conn_keeps: "hoare (I []) (mesh_conn b i j u) (\<lambda>_. I [])"
  unfolding mesh_conn_def
  by (rule hoare_bbind [OF p2p_links_keep [OF leaf leaf]], rule hoare_bbind [OF createConnection_keeps]) auto

lemma gateway_links_keep: "sw d \<Longrightarrow> hoare (I []) (gateway_links b d i gws) (\<lambda>_. I [])"
  unfolding gateway_links_def
proof (rule hoare_bfold)
  fix gw and u :: unit
  assume "sw d"
  from switch_port [OF this, of "[]"] show "hoare (I []) (build_gateway_link b d i gw) (\<lambda>_. I [])"
    unfolding build_gateway_link_def
    by (rule hoare_bbind) (rule hoare_bbind [OF createConnection_keeps], auto)
qed

lemma for_to_keeps:
  assumes "\<And>i a. hoare (I []) (body i a) (\<lambda>_. I [])"
  shows "hoare (I []) (for_to i n body a) (\<lambda>_. I [])"
  unfolding for_to_def
  by (rule hoare_post [OF hoare_for_u8 [where J = "\<lambda>_ _. I []", OF assms]]) blast

lemma spine_keeps: "hoare (I []) (spine b leafs gws i k) (\<lambda>_. I [])"
  unfolding spine_def Let_def
  by (rule hoare_bbind [OF switch [OF spine_sw]], rule hoare_bbind [OF for_to_keeps [OF fabric_conn_keeps [OF spine_sw]]],
      rule hoare_bbind [where R = "\<lambda>_. I []"], rule hoare_if, rule gateway_links_keep [OF spine_sw]) auto

lemma mesh_keeps: "hoare (I []) (mesh b leafs) (\<lambda>_. I [])"
  unfolding mesh_def by (intro hoare_if for_to_keeps mesh_conn_keeps hoare_bret')

lemma mesh_gateways_keep: "hoare (I []) (mesh_gateways b leafs gws) (\<lambda>_. I [])"
  unfolding mesh_gateways_def
  by (intro hoare_if hoare_bbind [where R = "\<lambda>_. I []"] hoare_post [OF hoare_for_u8 [where J = "\<lambda>_ _. I []"]]
      gateway_links_keep leaf hoare_bret') auto

text \<open>Externals.\<close>

lemma bgp_external_keeps: "hoare (I []) (bgp_external i st) (\<lambda>_. I [])"
  unfolding bgp_external_def
  by (cases st, simp only: Let_def prod.case, rule hoare_bbind [OF createExternal_keeps], rule hoare_bret')

lemma static_external_keeps: "hoare (I []) (static_external b i exts) (\<lambda>_. I [])"
  unfolding static_external_def
  by (auto simp: Let_def split: prod.split intro!: hoare_bbind [OF createExternal_keeps])

lemma build_externals_keep: "hoare (I []) (build_externals b) (\<lambda>_. I [])"
  unfolding build_externals_def
  by (intro hoare_if hoare_bfail hoare_bbind [where R = "\<lambda>_. I []"])
     (auto split: prod.split intro!: hoare_bret for_to_keeps bgp_external_keeps static_external_keeps
       hoare_bfold [where J = "\<lambda>_. I []"])

lemma attach_externals_keep: "hoare (I []) (attach_externals exts conns) (\<lambda>_. I [])"
  unfolding attach_externals_def attach_external_def Let_def
  by (intro hoare_bbind [OF hoare_bfold [where J = "\<lambda>_. I []"]] hoare_bbind [OF simple_creates(5)] hoare_bret')

text \<open>The wiring.\<close>

lemma build_start_keeps: "hoare (I []) (build_start b nodes) (\<lambda>_. I [])"
proof -
  have n: "hoare (I []) (bwrap msg args (wadd (named name spec))) (\<lambda>_. I [])"
    if "spec_ports spec = []" "\<not> is_switch_obj spec" for msg args name spec
    using add [of "named name spec"] that by (intro hoare_bwrap) (simp add: named_def)
  have "hoare (I []) (build_gateway b node) (\<lambda>_. I [])" for node
    unfolding build_gateway_def
    by (rule hoare_bbind [OF for_to_keeps]) (auto intro: simple_creates)
  then show ?thesis unfolding build_start_def
    by (intro hoare_bbind [OF n] hoare_bbind [where R = "\<lambda>_. I []"] hoare_if simple_creates hoare_bret'
        hoare_bfold [where J = "\<lambda>_. I []"]) auto
qed

theorem build_wiring_keeps:
  assumes "\<forall>n\<in>set groups. 2 \<le> unat n"
  shows "hoare (I []) (build_wiring b groups nodes) (\<lambda>_. I [])"
  unfolding build_wiring_def Let_def
  by (intro hoare_bbind [OF build_start_keeps] hoare_bbind [OF build_leaves_keep] hoare_bbind [OF for_to_keeps]
      hoare_bbind [OF mesh_keeps] hoare_bbind [OF mesh_gateways_keep] hoare_bbind [OF build_externals_keep]
      spine_keeps attach_externals_keep assms)

end

section \<open>The builder of rail-optimized fabrics\<close>

locale rail_builder = wiring_invariant b I sw srv
  for b :: vlab_rail and I :: "string list \<Rightarrow> bstate \<Rightarrow> bool" and sw :: "string \<Rightarrow> bool" and srv :: "string \<Rightarrow> bool" +
  assumes leaf: "sw (leafNameFor u i)"
    and spine_sw: "sw (''spine-s'' @ pad2 i)"
    and server: "srv (rail_server_name b v u i)"
begin

lemma loop_keeps:
  assumes "\<And>x a. hoare (I []) (f x a) (\<lambda>_. I [])"
  shows "hoare (I []) (bfold f xs a) (\<lambda>_. I [])"
  by (rule hoare_bfold [where J = "\<lambda>_. I []", OF assms])

lemma rail_fabric_conn_keeps:
  assumes "sw d"
  shows "hoare (I []) (rail_fabric_conn d u i) (\<lambda>_. I [])"
proof -
  have "hoare (I (concat (map p2p_ports links))) (bbind (nextSwitchPort d) (\<lambda>p1. bbind (nextSwitchPort (leafNameFor u i)) (\<lambda>p2.
      bret (links @ [\<lparr>ln_A = \<lparr>le_Port = p1, le_IP = ''''\<rparr>, ln_B = \<lparr>le_Port = p2, le_IP = ''''\<rparr>\<rparr>]))))
      (\<lambda>links. I (concat (map p2p_ports links)))" for links
    by (rule hoare_bbind [OF switch_port [OF assms(1)]], rule hoare_bbind [OF switch_port [OF leaf]])
       (auto intro!: hoare_bret simp: p2p_ports_def)
  from hoare_bfold [of "[0..<rail_fabricLinks]" "\<lambda>links. I (concat (map p2p_ports links))", OF this, of "[]"]
  show ?thesis unfolding rail_fabric_conn_def Let_def
    by (rule hoare_bbind [OF hoare_pre]) (simp, rule hoare_bbind [OF createConnection_keeps], auto)
qed

lemma rail_spine_keeps: "hoare (I []) (rail_spine b i u) (\<lambda>_. I [])"
  unfolding rail_spine_def Let_def
  by (rule hoare_bbind [OF switch [OF spine_sw]]) (intro loop_keeps rail_fabric_conn_keeps spine_sw)

lemma rail_attach_keeps: "hoare (I []) (rail_attach b v u i r) (\<lambda>_. I [])"
  unfolding rail_attach_def Let_def
  by (rule hoare_bbind [OF server_port [OF server]], rule hoare_bbind [OF switch_port [OF leaf]],
      rule hoare_bbind [OF hoare_pre [OF createConnectionWithName_keeps]])
     (auto simp: link_ports_def intro: simple_creates)

lemma rail_vpc_keeps: "hoare (I []) (rail_vpc b v summ) (\<lambda>_. I [])"
  unfolding rail_vpc_def rail_unit_def rail_server_def
  by (intro hoare_bbind [OF simple_creates(2)] hoare_bbind [OF simple_creates(6)] loop_keeps rail_attach_keeps
      hoare_bbind [where R = "\<lambda>_. I []"] hoare_bret')

theorem rail_wiring_keeps: "hoare (I []) (rail_wiring b) (\<lambda>_. I [])"
proof -
  have n: "hoare (I []) (bwrap msg args (wadd (named name spec))) (\<lambda>_. I [])"
    if "spec_ports spec = []" "\<not> is_switch_obj spec" for msg args name spec
    using add [of "named name spec"] that by (intro hoare_bwrap) (simp add: named_def)
  show ?thesis unfolding rail_wiring_def rail_leaf_def Let_def
    by (intro hoare_bbind [OF n] hoare_bbind [OF loop_keeps] loop_keeps rail_spine_keeps rail_vpc_keeps switch leaf) simp_all
qed

end

end
