(* ===== verification/VlabPorts.thy ===== *)
theory VlabPorts
  imports VlabInvariant
begin

text \<open>
  The ports of a generated wiring: an abstract allocator hands out the ports of each device in order,
  the \<^verbatim>\<open>uint8\<close> counters of the builders implement it, and a port is used twice exactly when a device
  has more ports than its counter can number.
\<close>

section \<open>Names\<close>

lemma itoa_inj: "itoa m = itoa n \<longleftrightarrow> m = n"
  by (metis digits_val_itoa)

lemma slash_notin_itoa [simp]: "CHR ''/'' \<notin> set (itoa n)"
  using itoa_digits [of "CHR ''/''" n] by (auto simp: is_digit_def)

lemma slash_notin_pad2 [simp]: "CHR ''/'' \<notin> set (pad2 n)"
  by (simp add: pad2_def)

lemma device_of_port: "CHR ''/'' \<notin> set d \<Longrightarrow> device_of (d @ CHR ''/'' # r) = d"
  by (simp add: device_of_def split2_sep)

definition is_server :: "string \<Rightarrow> bool" where
  "is_server d = has_prefix d ''server-''"

definition switch_name :: "string \<Rightarrow> bool" where
  "switch_name d \<longleftrightarrow> CHR ''/'' \<notin> set d \<and> \<not> is_server d"

definition server_device :: "string \<Rightarrow> bool" where
  "server_device d \<longleftrightarrow> CHR ''/'' \<notin> set d \<and> is_server d"

section \<open>The abstract allocator\<close>

text \<open>The counter of a device after it has handed out \<open>k\<close> ports, and the port it hands out then.\<close>

definition tick :: "string \<Rightarrow> 8 word \<Rightarrow> 8 word" where
  "tick d i = (if is_server d then i + 1 else next_iface i)"

definition counter :: "string \<Rightarrow> nat \<Rightarrow> 8 word" where
  "counter d k = (tick d ^^ k) 0"

definition port_base :: "string \<Rightarrow> string" where
  "port_base base = (if base = '''' then ''enp2s'' else base)"

definition port_at :: "string \<Rightarrow> string \<Rightarrow> nat \<Rightarrow> string" where
  "port_at base d k = d @ ''/'' @ (if is_server d then port_base base else ''E1/'') @ itoa (unat (counter d k + 1))"

text \<open>How many ports a counter can number: 48 and then every fourth one, or all of them.\<close>

definition port_capacity :: "string \<Rightarrow> nat" where
  "port_capacity d = (if is_server d then 256 else 100)"

definition ports_of :: "string \<Rightarrow> string list \<Rightarrow> string list" where
  "ports_of d ps = filter (\<lambda>p. device_of p = d) ps"

lemma ports_of_simps [simp]:
  "ports_of d [] = []"
  "ports_of d (ps @ qs) = ports_of d ps @ ports_of d qs"
  "ports_of d (p # ps) = (if device_of p = d then p # ports_of d ps else ports_of d ps)"
  by (simp_all add: ports_of_def)

lemma counter_simps [simp]:
  "counter d 0 = 0"
  "counter d (Suc k) = tick d (counter d k)"
  by (simp_all add: counter_def)

text \<open>The counters and the ports agree, device by device.\<close>

definition allocated :: "string \<Rightarrow> string list \<Rightarrow> bstate \<Rightarrow> bool" where
  "allocated base ps s \<longleftrightarrow> (\<forall>d. let qs = ports_of d (wiring_ports (bs_Objs s) @ ps) in
     bs_Iface s d = counter d (length qs) \<and> qs = map (port_at base d) [0..<length qs])"

lemma allocated_take:
  assumes "allocated base ps s" and "CHR ''/'' \<notin> set d"
  shows "allocated base (ps @ [port_at base d (length (ports_of d (wiring_ports (bs_Objs s) @ ps)))])
     (s\<lparr>bs_Iface := (bs_Iface s)(d := tick d (bs_Iface s d))\<rparr>)"
  using assms unfolding allocated_def Let_def
  by (auto simp: port_at_def device_of_port)

lemma allocated_counter:
  "allocated base ps s \<Longrightarrow> bs_Iface s d = counter d (length (ports_of d (wiring_ports (bs_Objs s) @ ps)))"
  unfolding allocated_def Let_def by blast

lemma wadd_Inr: "wadd x s = Some (Inr (u, s')) \<longleftrightarrow>
    wo_Name x \<noteq> '''' \<and> wo_key x \<notin> wo_key ` set (bs_Objs s) \<and> s' = s\<lparr>bs_Objs := bs_Objs s @ [x]\<rparr>"
  by (auto simp: wadd_def bfail_def bret_def)

lemma wiring_ports_simps [simp]:
  "wiring_ports [] = []"
  "wiring_ports (xs @ ys) = wiring_ports xs @ wiring_ports ys"
  "wiring_ports (x # xs) = spec_ports (wo_Spec x) @ wiring_ports xs"
  by (simp_all add: wiring_ports_def)

lemma createSwitch_Inr:
  assumes "createSwitch b name spec anns s = Some (Inr (u, s'))"
  shows "\<exists>p. s' = s\<lparr>bs_SwitchID := bs_SwitchID s + 1,
    bs_Objs := bs_Objs s @ [(named name (SwitchObj (spec\<lparr>ss_Profile := p, ss_BootMAC := VLABSwitchMAC (bs_SwitchID s)\<rparr>)))\<lparr>wo_Annotations := anns\<rparr>]\<rparr>"
  using assms by (auto simp: createSwitch_def Let_def create_def bwrap_Inr wadd_Inr split: option.splits)

interpretation ports: wiring_invariant b "allocated (bb_ServerPortBase b)" switch_name server_device for b
proof (unfold_locales, goal_cases)
  case (1 d ps)
  then have d: "CHR ''/'' \<notin> set d" "\<not> is_server d" by (simp_all add: switch_name_def)
  show ?case
  proof (rule hoareI)
    fix s p s'
    assume a: "allocated (bb_ServerPortBase b) ps s" and "nextSwitchPort d s = Some (Inr (p, s'))"
    then have "s' = s\<lparr>bs_Iface := (bs_Iface s)(d := tick d (bs_Iface s d))\<rparr>" "p = port_at (bb_ServerPortBase b) d (length (ports_of d (wiring_ports (bs_Objs s) @ ps)))"
      using allocated_counter [OF a, of d] d
      by (simp_all add: nextSwitchPort_def bbind_def get_iface_def put_iface_def bret_def tick_def port_at_def)
    with allocated_take [OF a d(1)] show "allocated (bb_ServerPortBase b) (ps @ [p]) s'" by simp
  qed
next
  case (2 d ps)
  then have d: "CHR ''/'' \<notin> set d" "is_server d" by (simp_all add: server_device_def)
  show ?case
  proof (rule hoareI)
    fix s p s'
    assume a: "allocated (bb_ServerPortBase b) ps s" and "nextServerPort b d s = Some (Inr (p, s'))"
    then have "s' = s\<lparr>bs_Iface := (bs_Iface s)(d := tick d (bs_Iface s d))\<rparr>" "p = port_at (bb_ServerPortBase b) d (length (ports_of d (wiring_ports (bs_Objs s) @ ps)))"
      using allocated_counter [OF a, of d] d
      by (simp_all add: nextServerPort_def bbind_def get_iface_def put_iface_def bret_def tick_def port_at_def Let_def port_base_def)
    with allocated_take [OF a d(1)] show "allocated (bb_ServerPortBase b) (ps @ [p]) s'" by simp
  qed
next
  case (3 x)
  show ?case by (rule hoareI) (auto simp: wadd_Inr allocated_def)
next
  case (4 name spec anns)
  show ?case by (rule hoareI) (auto dest!: createSwitch_Inr simp: allocated_def named_def)
qed

interpretation default_ports: default_builder b "allocated (bb_ServerPortBase b)" switch_name server_device for b
  by unfold_locales
     (auto simp: switch_name_def server_device_def is_server_def has_prefix_def leaf_name_def spine_name_def server_name_def)

interpretation rail_ports: rail_builder b "allocated (bb_ServerPortBase b)" switch_name server_device for b
  by unfold_locales
     (auto simp: switch_name_def server_device_def is_server_def has_prefix_def leafNameFor_def rail_server_name_def)

section \<open>Uniqueness\<close>

lemma u8_of_nat: "n < 256 \<Longrightarrow> unat (of_nat n :: 8 word) = n"
  by (simp add: unat_of_nat)

lemma next_iface_of_nat:
  "n < 48 \<Longrightarrow> next_iface (of_nat n) = of_nat (n + 1)"
  "48 \<le> n \<Longrightarrow> n < 256 \<Longrightarrow> next_iface (of_nat n) = of_nat (n + 4)"
  by (simp_all add: next_iface_def word_le_nat_alt u8_of_nat)

text \<open>The counter of a switch: each port up to 48, then every fourth one, and round again after 100.\<close>

lemma counter_switch:
  assumes "\<not> is_server d"
  shows "k \<le> 48 \<Longrightarrow> counter d k = of_nat k"
    and "j \<le> 52 \<Longrightarrow> counter d (48 + j) = of_nat (48 + 4 * j)"
proof -
  have t: "tick d = next_iface" using assms by (auto simp: tick_def)
  show *: "k \<le> 48 \<Longrightarrow> counter d k = of_nat k" for k
    by (induction k) (simp_all add: t next_iface_of_nat del: of_nat_Suc)
  show "j \<le> 52 \<Longrightarrow> counter d (48 + j) = of_nat (48 + 4 * j)"
  proof (induction j)
    case 0
    then show ?case using * [of 48] by simp
  next
    case (Suc j)
    then have "counter d (48 + Suc j) = next_iface (of_nat (48 + 4 * j))"
      by (simp only: add_Suc_right counter_simps t Suc_leD)
    also have "\<dots> = of_nat (48 + 4 * j + 4)" by (rule next_iface_of_nat) (use Suc.prems in auto)
    finally show ?case by (simp add: algebra_simps)
  qed
qed

lemma counter_server: "is_server d \<Longrightarrow> counter d k = of_nat k"
  by (induction k) (auto simp: tick_def)

lemma counter_wraps: "counter d (port_capacity d) = 0"
  using counter_switch(2) [of d 52] counter_server [of d 256]
  by (cases "is_server d") (simp_all add: port_capacity_def)

lemma counter_inj: "inj_on (counter d) {..<port_capacity d}"
proof (cases "is_server d")
  case True
  then show ?thesis
    by (intro inj_onI) (simp add: port_capacity_def counter_server, metis u8_of_nat)
next
  case False
  have c: "unat (counter d k) = (if k < 48 then k else 48 + 4 * (k - 48))" if "k < 100" for k
    using counter_switch(1) [OF False, of k] counter_switch(2) [OF False, of "k - 48"] that
    by (auto simp: u8_of_nat simp del: of_nat_add of_nat_mult of_nat_numeral)
  show ?thesis
  proof (rule inj_onI)
    fix i j
    assume *: "i \<in> {..<port_capacity d}" "j \<in> {..<port_capacity d}" "counter d i = counter d j"
    then have "i < 100" "j < 100" using False by (simp_all add: port_capacity_def)
    from *(3) have "unat (counter d i) = unat (counter d j)" by simp
    then show "i = j" unfolding c [OF \<open>i < 100\<close>] c [OF \<open>j < 100\<close>] by (simp split: if_splits)
  qed
qed

lemma port_at_eq: "port_at base d i = port_at base d j \<longleftrightarrow> counter d i = counter d j"
  by (auto simp: port_at_def itoa_inj word_unat_eq_iff [symmetric])

lemma ports_distinct_iff:
  "distinct (map (port_at base d) [0..<n]) \<longleftrightarrow> n \<le> port_capacity d"
proof
  assume *: "distinct (map (port_at base d) [0..<n])"
  show "n \<le> port_capacity d"
  proof (rule ccontr)
    assume n: "\<not> n \<le> port_capacity d"
    have "0 < port_capacity d" by (simp add: port_capacity_def)
    moreover have "inj_on (port_at base d) {0..<n}" using * by (simp add: distinct_map)
    moreover have "port_at base d (port_capacity d) = port_at base d 0"
      by (simp add: port_at_eq counter_wraps)
    ultimately show False using n by (auto dest: inj_onD)
  qed
next
  assume "n \<le> port_capacity d"
  then have "inj_on (port_at base d) {0..<n}"
    using counter_inj [of d] by (auto simp: inj_on_def port_at_eq)
  then show "distinct (map (port_at base d) [0..<n])" by (simp add: distinct_map)
qed

lemma distinct_ports_of: "distinct ps \<longleftrightarrow> (\<forall>d. distinct (ports_of d ps))"
proof
  assume "\<forall>d. distinct (ports_of d ps)"
  then show "distinct ps"
  proof (induction ps)
    case (Cons p ps)
    from Cons.prems [rule_format, of "device_of p"] have "p \<notin> set ps" by (auto simp: ports_of_def)
    moreover have "distinct (ports_of d ps)" for d
      using Cons.prems [rule_format, of d] by (auto split: if_splits)
    ultimately show ?case using Cons.IH by simp
  qed simp
qed (simp add: ports_of_def)

lemma allocated_empty: "allocated base [] empty_wiring"
  by (simp add: allocated_def empty_wiring_def)

lemma allocated_in_order:
  "allocated base [] s \<Longrightarrow> ports_of d (wiring_ports (bs_Objs s)) = map (port_at base d) [0..<length (ports_of d (wiring_ports (bs_Objs s)))]"
  unfolding allocated_def Let_def by simp

lemma allocated_distinct:
  assumes "allocated base [] s"
  shows "distinct (wiring_ports (bs_Objs s)) \<longleftrightarrow>
    (\<forall>d. length (ports_of d (wiring_ports (bs_Objs s))) \<le> port_capacity d)"
  unfolding distinct_ports_of [of "wiring_ports (bs_Objs s)"]
  by (subst allocated_in_order [OF assms]) (simp only: ports_distinct_iff)

section \<open>The wiring of a build\<close>

lemma efold_const:
  assumes "\<And>x a a'. f x a = Inr a' \<Longrightarrow> P a a'" and "\<And>a. P a a" and "\<And>a b c. P a b \<Longrightarrow> P b c \<Longrightarrow> P a c"
  shows "efold f xs a = Inr a' \<Longrightarrow> P a a'"
  by (induction xs arbitrary: a) (auto simp: ebind_Inr_iff assms(2) intro: assms(1,3))

lemma eslag_groups_sizes:
  assumes "eslag_groups groups = Inr gs"
  shows "\<forall>n\<in>set gs. 2 \<le> unat n \<and> unat n \<le> 4"
proof (cases "groups = ''''")
  case False
  with assms have "efold (\<lambda>part gs. let part = trim_space part in
        case parse_uint part 8 of
          Inl _ \<Rightarrow> Inl (Errf ''invalid ESLAG leaf group %s'' [part])
        | Inr leafs \<Rightarrow> if leafs < 2 \<or> leafs > 4 then Inl (Errf ''ESLAG leaf group must have 2-4 leafs'' [])
            else Inr (gs @ [of_nat leafs])) (split_on (CHR '','') groups) [] = Inr gs"
    by (simp add: eslag_groups_def)
  then show ?thesis
    by (rule efold_invariant [where P = "\<lambda>gs. \<forall>n\<in>set gs. 2 \<le> unat n \<and> unat n \<le> 4"])
       (auto simp: Let_def u8_of_nat split: sum.splits if_splits)
qed (use assms in \<open>simp add: eslag_groups_def\<close>)

lemma mode_defaults_base: "mode_defaults m b = Inr b' \<Longrightarrow> bb_ServerPortBase b' = bb_ServerPortBase b"
  by (auto simp: mode_defaults_def Let_def split: if_splits)

lemma gateway_defaults_base: "gateway_defaults b = Inr b' \<Longrightarrow> bb_ServerPortBase b' = bb_ServerPortBase b"
  by (auto simp: gateway_defaults_def gateway_uplinks_def Let_def ebind_Inr_iff split: if_splits)

lemma build_options_facts:
  assumes "build_options b m nodes = Inr (b', gs)"
  shows "bb_ServerPortBase b' = bb_ServerPortBase b" and "\<forall>n\<in>set gs. 2 \<le> unat n \<and> unat n \<le> 4"
  using assms
  by (auto simp: build_options_def Let_def ebind_Inr_iff dest!: mode_defaults_base gateway_defaults_base eslag_groups_sizes
      split: if_splits)

lemma Build_Inr:
  assumes "Build b m nodes = Some (Inr objs)"
  obtains b' gs s where "build_options b m nodes = Inr (b', gs)"
    and "build_wiring b' gs nodes empty_wiring = Some (Inr ((), s))" and "bs_Objs s = objs"
  using assms by (auto simp: Build_def map_sum_def split: sum.splits)

end
