(* ===== verification/VlabTotal.thy ===== *)
theory VlabTotal
  imports VlabPorts
begin

text \<open>
  When a build returns. A loop over a \<^verbatim>\<open>uint8\<close> up to 255 has no end of its own; where each round adds
  an object, the loader refuses a repeated name and the build fails. The interfaces of a gateway are
  not objects, so a gateway with 255 uplinks is built forever.
\<close>

section \<open>Objects stay\<close>

definition has_obj :: "(wobj \<Rightarrow> bool) \<Rightarrow> bstate \<Rightarrow> bool" where
  "has_obj \<phi> s \<longleftrightarrow> (\<exists>x\<in>set (bs_Objs s). \<phi> x)"

lemma has_obj_simps [simp]:
  "has_obj \<phi> (s\<lparr>bs_Iface := f\<rparr>) = has_obj \<phi> s"
  "has_obj \<phi> (s\<lparr>bs_SwitchID := n\<rparr>) = has_obj \<phi> s"
  "has_obj \<phi> (s\<lparr>bs_Objs := xs\<rparr>) = (\<exists>x\<in>set xs. \<phi> x)"
  by (simp_all add: has_obj_def)

lemma nextSwitchPort_Inr: "nextSwitchPort d s = Some (Inr (p, s')) \<longleftrightarrow>
    p = d @ ''/E1/'' @ itoa (unat (bs_Iface s d + 1)) \<and> s' = s\<lparr>bs_Iface := (bs_Iface s)(d := next_iface (bs_Iface s d))\<rparr>"
  by (auto simp: nextSwitchPort_def bbind_def get_iface_def put_iface_def bret_def)

lemma nextServerPort_objs: "nextServerPort b d s = Some (Inr (p, s')) \<Longrightarrow> bs_Objs s' = bs_Objs s"
  by (auto simp: nextServerPort_def bbind_def get_iface_def put_iface_def bret_def Let_def)

interpretation grow: wiring_invariant b "\<lambda>_. has_obj \<phi>" "\<lambda>_. True" "\<lambda>_. True" for b \<phi>
  by unfold_locales
     (auto simp: hoare_def nextSwitchPort_Inr wadd_Inr has_obj_def dest!: nextServerPort_objs createSwitch_Inr)

interpretation default_grow: default_builder b "\<lambda>_. has_obj \<phi>" "\<lambda>_. True" "\<lambda>_. True" for b \<phi>
  by unfold_locales simp_all

interpretation rail_grow: rail_builder b "\<lambda>_. has_obj \<phi>" "\<lambda>_. True" "\<lambda>_. True" for b \<phi>
  by unfold_locales simp_all

section \<open>Steps that add an object\<close>

definition wo_keys :: "bstate \<Rightarrow> (string \<times> string \<times> string) set" where
  "wo_keys s = wo_key ` set (bs_Objs s)"

lemma wo_keys_has: "k \<in> wo_keys s \<longleftrightarrow> has_obj (\<lambda>x. wo_key x = k) s"
  by (auto simp: wo_keys_def has_obj_def)

definition grows :: "'a bld \<Rightarrow> bool" where
  "grows m \<longleftrightarrow> (\<forall>s a s'. m s = Some (Inr (a, s')) \<longrightarrow> wo_keys s \<subseteq> wo_keys s')"

definition adds :: "string \<times> string \<times> string \<Rightarrow> 'a bld \<Rightarrow> bool" where
  "adds k m \<longleftrightarrow> (\<forall>s a s'. m s = Some (Inr (a, s')) \<longrightarrow> wo_keys s \<subseteq> wo_keys s' \<and> k \<notin> wo_keys s \<and> k \<in> wo_keys s')"

lemma growsI: "(\<And>\<phi>. hoare (has_obj \<phi>) m (\<lambda>_. has_obj \<phi>)) \<Longrightarrow> grows m"
  unfolding grows_def hoare_def wo_keys_has subset_iff by blast

lemma adds_grows: "adds k m \<Longrightarrow> grows m"
  unfolding adds_def grows_def by blast

lemma adds_bbind_first: "adds k m \<Longrightarrow> (\<And>a. grows (f a)) \<Longrightarrow> adds k (bbind m f)"
  unfolding adds_def grows_def bbind_def by (fastforce split: option.splits sum.splits)

lemma adds_bbind_then: "grows m \<Longrightarrow> (\<And>s a s'. m s = Some (Inr (a, s')) \<Longrightarrow> adds k (f a)) \<Longrightarrow> adds k (bbind m f)"
  unfolding adds_def grows_def bbind_def by (fastforce split: option.splits sum.splits)

lemma grows_bret: "grows (bret a)"
  by (simp add: grows_def bret_def)

lemma adds_create: "adds (wo_key x) (create what x)"
  by (auto simp: adds_def create_def bwrap_Inr wadd_Inr wo_keys_def)

lemma adds_createSwitch: "adds (''Switch'', '''', name) (createSwitch b name spec anns)"
  by (auto simp: adds_def createSwitch_def Let_def create_def bwrap_Inr wadd_Inr wo_keys_def wo_key_def named_def)

lemma adds_connection:
  assumes "GenerateName spec = Inr name"
  shows "adds (''Connection'', '''', name) (createConnection spec)"
  using adds_create [of "named name (ConnObj spec)" "''connection''"] assms grows_bret
  by (auto simp: createConnection_def blift_def createConnectionWithName_def named_def wo_key_def bbind_def bret_def adds_def
      split: option.splits sum.splits)

text \<open>Of the names a loop can take there are 256 at most, so it cannot take a new one each round.\<close>

lemma returns_adding:
  fixes key :: "8 word \<Rightarrow> string \<times> string \<times> string"
  assumes "\<And>i a. returns (body i a)"
    and "\<And>i a. cond i a \<Longrightarrow> \<exists>k. adds (key k) (body i a)"
  shows "returns (for_u8 i cond body a)"
proof (rule returns_for_u8 [where M = "\<lambda>_ _ s. card {k. key k \<notin> wo_keys s}"])
  fix i a s a' s'
  assume "cond i a" and eq: "body i a s = Some (Inr (a', s'))"
  then obtain k where "adds (key k) (body i a)" using assms(2) by blast
  with eq have *: "wo_keys s \<subseteq> wo_keys s'" "key k \<notin> wo_keys s" "key k \<in> wo_keys s'"
    unfolding adds_def by blast+
  then have "{k. key k \<notin> wo_keys s'} \<subset> {k. key k \<notin> wo_keys s}" by auto
  then show "card {k. key k \<notin> wo_keys s'} < card {k. key k \<notin> wo_keys s}"
    by (rule psubset_card_mono [rotated]) simp
qed (rule assms(1))

section \<open>The steps of the default builder return\<close>

lemma returns_primitives [returning]:
  "returns (wadd x)" "returns (nextSwitchPort d)" "returns (nextServerPort b d)"
  by (auto simp: returns_def wadd_def bfail_def bret_def nextSwitchPort_def nextServerPort_def bbind_def get_iface_def
      put_iface_def Let_def)

lemma returns_create [returning]: "returns (create what x)"
  unfolding create_def by (intro returning)

lemma returns_createSwitch [returning]: "returns (createSwitch b name spec anns)"
  using returns_create by (auto simp: returns_def createSwitch_def Let_def)

lemma returns_creates [returning]:
  "returns (createSwitchGroup name)" "returns (createServer name description)" "returns (createGateway name gspec)"
  "returns (createGatewayGroup name)" "returns (createExternalAttach name aspec)" "returns (createVPC name vlanns subnets)"
  "returns (createVPCAttachment name conn subnet anns)" "returns (createExternal name xspec anns)"
  "returns (createConnectionWithName name cspec)" "returns (createConnection cspec)"
  "returns (addExternalConnection conns d)"
  unfolding createSwitchGroup_def createServer_def createGateway_def createGatewayGroup_def createExternalAttach_def
    createVPC_def createVPCAttachment_def createExternal_def createConnectionWithName_def createConnection_def
    addExternalConnection_def
  by (intro returning)+

lemma returns_servers [returning]:
  "returns (server_link b d1 d2)" "returns (eslag_server c names n i)" "returns (unbundled_server c d n i)"
  "returns (bundled_server c d n i)" "returns (multihomed_server c names n st)"
  unfolding server_link_def eslag_server_def unbundled_server_def bundled_server_def multihomed_server_def Let_def
  by (intro returning)+

lemma returns_server_loop [returning]: "(\<And>n i. returns (f n i)) \<Longrightarrow> returns (server_loop k f l)"
  unfolding server_loop_def by (intro returning)

lemma returns_leaves [returning]:
  "returns (eslag_leaf b g i st)" "returns (eslag_group_servers b n st)" "returns (orphan_leaf b i l)"
  "returns (multihomed_servers b l)"
  unfolding eslag_leaf_def eslag_group_servers_def orphan_leaf_def multihomed_servers_def Let_def
  by (intro returning)+

lemma returns_eslag_group [returning]: "returns (eslag_group b groups g l)"
  unfolding eslag_group_def Let_def by (intro returning)

lemma returns_links [returning]:
  "returns (p2p_links n d1 d2)" "returns (fabric_conn b d i u)" "returns (mesh_conn b i j u)"
  "returns (build_gateway_link b d i gw)" "returns (gateway_links b d i gws)"
  unfolding p2p_links_def fabric_conn_def mesh_conn_def build_gateway_link_def gateway_links_def
  by (intro returning)+

section \<open>The loops of the default builder return\<close>

named_theorems growing \<open>the steps that keep every object\<close>

lemma grows_bbind [growing]: "grows m \<Longrightarrow> (\<And>a. grows (f a)) \<Longrightarrow> grows (bbind m f)"
  unfolding grows_def bbind_def by (fastforce split: option.splits sum.splits)

lemma grows_if [growing]: "grows m \<Longrightarrow> grows m' \<Longrightarrow> grows (if c then m else m')"
  by simp

lemma grows_steps [growing]:
  "grows (bret a)"
  "grows (addExternalConnection conns d)"
  "grows (unbundled_server b d n i)"
  "grows (bundled_server b d n i)"
  "grows (p2p_links k d d')"
  "grows (gateway_links b d i gws)"
  "grows (for_to i j (fabric_conn b d) u)"
  by (rule growsI, (rule hoare_bret' grow.addExternalConnection_keeps default_grow.unbundled_server_keeps
      default_grow.bundled_server_keeps default_grow.p2p_links_keep default_grow.gateway_links_keep
      default_grow.for_to_keeps default_grow.fabric_conn_keeps | rule TrueI)+)+

lemma grows_server_loop [growing]: "(\<And>n i. grows (f n i)) \<Longrightarrow> grows (server_loop k f l)"
proof -
  assume f: "\<And>n i. grows (f n i)"
  have "grows (bfold f ns i)" for ns i
    by (induction ns arbitrary: i) (auto intro: growing f)
  then show ?thesis unfolding server_loop_def by (intro growing)
qed

lemma adds_orphan_leaf: "adds (''Switch'', '''', leaf_name (bl_LeafID l)) (orphan_leaf b i l)"
  unfolding orphan_leaf_def Let_def
  by (rule adds_bbind_first [OF adds_createSwitch]) (intro growing)

lemma adds_spine: "adds (''Switch'', '''', spine_name i) (spine b leafs gws i k)"
  unfolding spine_def Let_def
  by (rule adds_bbind_first [OF adds_createSwitch]) (intro growing)

definition links_between :: "string \<Rightarrow> string \<Rightarrow> nat \<Rightarrow> p2p_link list \<Rightarrow> bool" where
  "links_between d d' n links \<longleftrightarrow> length links = n \<and> list_all (\<lambda>l. DeviceName (ln_A l) = d \<and> DeviceName (ln_B l) = d') links"

lemma p2p_links_between:
  assumes d: "CHR ''/'' \<notin> set d" "CHR ''/'' \<notin> set d'"
  shows "hoare (\<lambda>_. True) (p2p_links n d d') (\<lambda>links _. links_between d d' (unat n) links)"
proof -
  have "hoare (\<lambda>_. links_between d d' (length ks) links) (bbind (nextSwitchPort d) (\<lambda>p1. bbind (nextSwitchPort d') (\<lambda>p2.
      bret (links @ [\<lparr>ln_A = \<lparr>le_Port = p1, le_IP = ''''\<rparr>, ln_B = \<lparr>le_Port = p2, le_IP = ''''\<rparr>\<rparr>]))))
    (\<lambda>links _. links_between d d' (length (ks @ [k])) links)"
    for links and ks :: "nat list" and k
    using d by (auto simp: hoare_def bbind_def bret_def nextSwitchPort_Inr links_between_def DeviceName_def split2_sep
        split: option.splits sum.splits)
  from hoare_bfold_prefix [where J = "\<lambda>ks links _. links_between d d' (length ks) links", OF this]
  show ?thesis unfolding p2p_links_def
    by (rule hoare_post [OF hoare_pre]) (simp_all add: links_between_def)
qed

lemma adds_p2p_connection:
  assumes d: "CHR ''/'' \<notin> set d" "CHR ''/'' \<notin> set d'" "d \<noteq> ''''"
    and spec: "spec = ConnFabric \<and> role = ''fabric'' \<or> spec = ConnMesh \<and> role = ''mesh''"
  shows "adds (''Connection'', '''', d @ ''--'' @ role @ ''--'' @ d')
    (bbind (p2p_links n d d') (\<lambda>links. bbind (createConnection (spec links)) (\<lambda>_. bret ())))"
proof (rule adds_bbind_then [OF grows_steps(5)])
  fix s links s'
  assume "p2p_links n d d' s = Some (Inr (links, s'))"
  from hoareD [OF p2p_links_between [OF d(1,2)] TrueI this] have links: "links_between d d' (unat n) links" .
  show "adds (''Connection'', '''', d @ ''--'' @ role @ ''--'' @ d') (bbind (createConnection (spec links)) (\<lambda>_. bret ()))"
  proof (cases links)
    case Nil
    with spec have "GenerateName (spec links) = Inl no_first" by auto
    then show ?thesis by (simp add: createConnection_def blift_def bfail_def bbind_def adds_def)
  next
    case (Cons l ls)
    with links spec d(3) have "GenerateName (spec links) = Inr (d @ ''--'' @ role @ ''--'' @ d')"
      by (auto simp: conn_name_def links_between_def)
    from adds_connection [OF this] show ?thesis by (rule adds_bbind_first) (rule growing)
  qed
qed

lemma device_names [simp]:
  "CHR ''/'' \<notin> set (leaf_name i)" "CHR ''/'' \<notin> set (spine_name i)" "leaf_name i \<noteq> ''''" "spine_name i \<noteq> ''''"
  by (simp_all add: leaf_name_def spine_name_def)

lemma adds_fabric_conn:
  "adds (''Connection'', '''', spine_name k @ ''--'' @ ''fabric'' @ ''--'' @ leaf_name i) (fabric_conn b (spine_name k) i u)"
  unfolding fabric_conn_def by (rule adds_p2p_connection) simp_all

lemma adds_mesh_conn:
  "adds (''Connection'', '''', leaf_name i @ ''--'' @ ''mesh'' @ ''--'' @ leaf_name j) (mesh_conn b i j u)"
  unfolding mesh_conn_def by (rule adds_p2p_connection) simp_all

lemma returns_spine [returning]: "returns (spine b leafs gws i k)"
proof -
  have "returns (for_to 1 leafs (fabric_conn b (spine_name i)) ())"
    unfolding for_to_def
    by (rule returns_adding [where key = "\<lambda>j. (''Connection'', '''', spine_name i @ ''--'' @ ''fabric'' @ ''--'' @ leaf_name j)"])
       (blast intro: returning adds_fabric_conn)+
  then show ?thesis unfolding spine_def Let_def by (intro returning)
qed

lemma for_to_no_exit: "for_to i 255 body a s \<noteq> Some (Inr r)"
proof
  assume "for_to i 255 body a s = Some (Inr r)"
  then obtain a' s' where "for_to i 255 body a s = Some (Inr (a', s'))" by (cases r) simp
  moreover have "hoare (\<lambda>_. True) (for_to i 255 body a) (\<lambda>_ _. \<exists>i :: 8 word. \<not> i \<le> 255 \<and> True)"
    unfolding for_to_def by (rule hoare_for_u8) (simp add: hoare_def)
  ultimately obtain i :: "8 word" where "\<not> i \<le> 255" by (auto simp: hoare_def)
  then show False using unat_u8_less [of i] by (simp add: word_le_nat_alt)
qed

lemma returns_mesh [returning]: "returns (mesh b leafs)"
proof -
  have inner: "returns (for_to j leafs (mesh_conn b i) ())" for i j
    unfolding for_to_def
    by (rule returns_adding [where key = "\<lambda>j. (''Connection'', '''', leaf_name i @ ''--'' @ ''mesh'' @ ''--'' @ leaf_name j)"])
       (blast intro: returning adds_mesh_conn)+
  have "returns (for_to 1 leafs (\<lambda>i _. for_to (i + 1) leafs (mesh_conn b i) ()) ())"
  proof (cases "leafs = 255")
    case True
    have "returns (for_u8 1 (\<lambda>i _. i \<le> leafs) (\<lambda>i _. for_to (i + 1) leafs (mesh_conn b i) ()) ())"
      by (rule returns_for_u8 [where M = "\<lambda>_ _ _. 0"]) (rule inner, metis for_to_no_exit True)
    then show ?thesis unfolding for_to_def .
  qed (rule returns_for_to [OF inner])
  then show ?thesis unfolding mesh_def by (intro returning)
qed

lemma returns_mesh_gateways [returning]: "returns (mesh_gateways b leafs gws)"
proof -
  have "returns (for_u8 1 (\<lambda>i c. i \<le> leafs \<and> c < vd_GatewayUplinks b)
      (\<lambda>i c. bbind (gateway_links b (leaf_name i) (c + 1) gws) (\<lambda>_. bret (c + 1))) (0 :: 8 word))"
  proof (rule returns_for_u8 [where M = "\<lambda>_ c _. 256 - unat c"])
    fix i c c' :: "8 word" and s s'
    assume "i \<le> leafs \<and> c < vd_GatewayUplinks b"
      and "bbind (gateway_links b (leaf_name i) (c + 1) gws) (\<lambda>_. bret (c + 1)) s = Some (Inr (c', s'))"
    then have c: "c < vd_GatewayUplinks b" "c' = c + 1"
      by (auto simp: bbind_def bret_def split: option.splits sum.splits)
    then have "unat c < 255" using unat_u8_less [of "vd_GatewayUplinks b"] by (simp add: word_less_nat_alt)
    with c(2) show "256 - unat c' < 256 - unat c" by (simp add: unat_u8_Suc)
  qed (intro returning)
  then show ?thesis unfolding mesh_gateways_def by (intro returning)
qed

lemma returns_externals [returning]: "returns (build_externals b)"
proof -
  have "returns (bgp_external i st)" "returns (static_external b n exts)" for i st n exts
    unfolding bgp_external_def static_external_def Let_def by (intro returning)+
  moreover have "vd_ExtBGPCount b \<le> 9 \<Longrightarrow> vd_ExtBGPCount b \<noteq> 255" by (auto simp: word_le_nat_alt)
  ultimately show ?thesis unfolding build_externals_def
    by (intro returning returns_for_to) (auto simp: maxExtBGPForNATPool_def)
qed

lemma returns_attach_externals [returning]: "returns (attach_externals exts conns)"
  unfolding attach_externals_def attach_external_def Let_def by (intro returning)

lemma returns_build_leaves [returning]: "returns (build_leaves b groups)"
proof -
  have "returns (for_to 1 (vd_OrphanLeafsCount b) (orphan_leaf b) l)" for l
    unfolding for_to_def
    by (rule returns_adding [where key = "\<lambda>j. (''Switch'', '''', leaf_name j)"]) (blast intro: returning adds_orphan_leaf)+
  then show ?thesis unfolding build_leaves_def by (intro returning)
qed

lemma returns_spines [returning]: "returns (for_to 1 n (spine b leafs gws) k)"
  unfolding for_to_def
  by (rule returns_adding [where key = "\<lambda>j. (''Switch'', '''', spine_name j)"]) (blast intro: returning adds_spine)+

section \<open>The start of a build\<close>

lemma returns_build_gateway: "vd_GatewayUplinks b \<noteq> 255 \<Longrightarrow> returns (build_gateway b node)"
  unfolding build_gateway_def by (intro returning returns_for_to)

lemma returns_build_start:
  assumes "gateway_nodes nodes = [] \<or> vd_GatewayUplinks b \<noteq> 255"
  shows "returns (build_start b nodes)"
proof -
  have "returns (bfold (\<lambda>node _. build_gateway b node) (gateway_nodes nodes) ())"
    using assms returns_build_gateway by (auto intro: returning)
  note loop = this
  show ?thesis unfolding build_start_def by (rule loop returning)+
qed

text \<open>The interfaces of a gateway with 255 uplinks are listed forever.\<close>

lemma build_gateway_255: "vd_GatewayUplinks b = 255 \<Longrightarrow> build_gateway b node s = None"
  unfolding build_gateway_def bbind_def using for_to_255 [of "\<lambda>i ifaces. bret (add_gw_iface b i ifaces)" "add_gw_iface b" 1 "[]" s] by simp

lemma build_start_255:
  assumes "gateway_nodes nodes \<noteq> []" and "vd_GatewayUplinks b = 255"
  shows "build_start b nodes empty_wiring = None"
  using assms
  by (cases "gateway_nodes nodes")
     (auto simp: build_start_def bbind_def bwrap_def wadd_def named_def bret_def bfail_def empty_wiring_def createGatewayGroup_def
       create_def wo_key_def DefaultGatewayGroup_def build_gateway_255)

lemma bbind_None: "m s = None \<Longrightarrow> bbind m f s = None"
  by (simp add: bbind_def)

lemma build_wiring_returns:
  "build_wiring b groups nodes empty_wiring \<noteq> None \<longleftrightarrow> gateway_nodes nodes = [] \<or> vd_GatewayUplinks b \<noteq> 255"
proof
  assume "gateway_nodes nodes = [] \<or> vd_GatewayUplinks b \<noteq> 255"
  then have "returns (build_wiring b groups nodes)"
    unfolding build_wiring_def Let_def by (intro returning returns_build_start)
  then show "build_wiring b groups nodes empty_wiring \<noteq> None" by (simp add: returns_def)
next
  assume w: "build_wiring b groups nodes empty_wiring \<noteq> None"
  show "gateway_nodes nodes = [] \<or> vd_GatewayUplinks b \<noteq> 255"
  proof (rule ccontr)
    assume "\<not> (gateway_nodes nodes = [] \<or> vd_GatewayUplinks b \<noteq> 255)"
    then have "build_start b nodes empty_wiring = None" using build_start_255 by blast
    then have "bbind (build_start b nodes) f empty_wiring = None" for f :: "unit \<Rightarrow> unit bld"
      by (rule bbind_None [of "build_start b nodes"])
    with w show False unfolding build_wiring_def Let_def by (simp add: bbind_def)
  qed
qed

lemma build_wiring_None:
  "build_wiring b groups nodes empty_wiring = None \<longleftrightarrow> gateway_nodes nodes \<noteq> [] \<and> vd_GatewayUplinks b = 255"
  using build_wiring_returns [of b groups nodes] by blast

section \<open>The builder of rail-optimized fabrics returns\<close>

lemma returns_rail_wiring: "returns (rail_wiring b)"
  unfolding rail_wiring_def rail_spine_def rail_fabric_conn_def rail_vpc_def rail_unit_def rail_server_def rail_attach_def rail_leaf_def Let_def
  by (intro returning)

end
