(* ===== verification/VlabComplete.thy ===== *)
theory VlabComplete
  imports VlabTotal
begin

text \<open>
  What a successful build contains: the switches its counters name, and the links between every
  spine and leaf, or between the leaves of a mesh.
\<close>

section \<open>Loops over a range\<close>

lemma hoare_True: "hoare P m (\<lambda>_ _. True)"
  by (simp add: hoare_def)

lemma hoare_all:
  assumes "\<And>k. hoare (P k) m (\<lambda>_. Q k)"
  shows "hoare (\<lambda>s. \<forall>k. A k \<longrightarrow> P k s) m (\<lambda>_ s. \<forall>k. A k \<longrightarrow> Q k s)"
  using assms unfolding hoare_def by blast

lemma u8_less_Suc: "i + 1 \<noteq> (0 :: 8 word) \<Longrightarrow> k < i + 1 \<longleftrightarrow> k \<le> i"
proof -
  assume "i + 1 \<noteq> 0"
  then have "i \<noteq> 255" by auto
  from unat_u8_Suc [OF unat_u8_max [OF this]] show ?thesis by (auto simp: word_less_nat_alt word_le_nat_alt)
qed

text \<open>
  A loop up to \<open>n\<close> that ends has been through every number of its range; what a round establishes has to
  be kept by the others. Counting past 255 starts over, with nothing claimed.
\<close>

lemma hoare_for_to_all:
  assumes step: "\<And>i a. i \<le> n \<Longrightarrow> hoare G (body i a) (\<lambda>_. D i)"
    and keep: "\<And>k i a. hoare (D k) (body i a) (\<lambda>_. D k)"
    and G: "\<And>i a. hoare G (body i a) (\<lambda>_. G)"
  shows "hoare G (for_to m n body a) (\<lambda>_ s. G s \<and> (\<forall>k. m \<le> k \<and> k \<le> n \<longrightarrow> D k s))"
proof -
  let ?J = "\<lambda>i _ s. G s \<and> (\<forall>k. m \<le> k \<and> k < i \<longrightarrow> D k s)"
  have "hoare (?J i a) (body i a) (?J (i + 1))" if "i \<le> n" for i a
  proof (rule hoareI)
    fix s a' s'
    assume J: "?J i a s" and eq: "body i a s = Some (Inr (a', s'))"
    have "D k s'" if "m \<le> k" "k < i + 1" for k
    proof (cases "k = i")
      case True
      with hoareD [OF step [OF \<open>i \<le> n\<close>] _ eq] J show ?thesis by blast
    next
      case False
      have "i + 1 \<noteq> 0" using that(2) by (auto simp: word_less_nat_alt)
      with False that u8_less_Suc have "k < i" by (simp add: word_le_less_eq)
      with J that(1) have "D k s" by blast
      from hoareD [OF keep this eq] show ?thesis .
    qed
    with hoareD [OF G _ eq] J show "?J (i + 1) a' s'" by blast
  qed
  from hoare_for_u8 [where J = ?J and cond = "\<lambda>i _. i \<le> n", OF this]
  have *: "hoare (?J m a) (for_u8 m (\<lambda>i _. i \<le> n) body a) (\<lambda>a s. \<exists>i. \<not> i \<le> n \<and> ?J i a s)" .
  show ?thesis unfolding for_to_def
  proof (rule hoareI)
    fix s a' s'
    assume g: "G s" and eq: "for_u8 m (\<lambda>i _. i \<le> n) body a s = Some (Inr (a', s'))"
    have "?J m a s" using g by auto
    from hoareD [OF * this eq] obtain i where i: "\<not> i \<le> n" "?J i a' s'" by blast
    then have "k < i" if "k \<le> n" for k using that by (simp add: word_less_nat_alt word_le_nat_alt)
    with i(2) show "G s' \<and> (\<forall>k. m \<le> k \<and> k \<le> n \<longrightarrow> D k s')" by blast
  qed
qed

section \<open>Links\<close>

text \<open>A connection of the wiring between two switches, with as many links as asked for.\<close>

definition joined :: "(p2p_link list \<Rightarrow> conn_spec) \<Rightarrow> string \<Rightarrow> string \<Rightarrow> nat \<Rightarrow> wobj \<Rightarrow> bool" where
  "joined conn d d' n x \<longleftrightarrow> (\<exists>links. wo_Spec x = ConnObj (conn links) \<and> links_between d d' n links)"

lemma connection_joined:
  assumes "CHR ''/'' \<notin> set d" "CHR ''/'' \<notin> set d'"
  shows "hoare (\<lambda>_. True) (bbind (p2p_links n d d') (\<lambda>links. bbind (createConnection (conn links)) (\<lambda>_. bret ())))
    (\<lambda>_. has_obj (joined conn d d' (unat n)))"
  by (rule hoare_bbind [OF p2p_links_between [OF assms]])
     (auto simp: hoare_def bbind_def bret_def createConnection_def blift_def bfail_def createConnectionWithName_def create_def bwrap_Inr
       wadd_Inr joined_def named_def split: option.splits sum.splits)

lemma fabric_conn_joined:
  "hoare (\<lambda>_. True) (fabric_conn b (spine_name k) i u) (\<lambda>_. has_obj (joined ConnFabric (spine_name k) (leaf_name i) (unat (vd_FabricLinksCount b))))"
  unfolding fabric_conn_def by (rule connection_joined) simp_all

lemma mesh_conn_joined:
  "hoare (\<lambda>_. True) (mesh_conn b i j u) (\<lambda>_. has_obj (joined ConnMesh (leaf_name i) (leaf_name j) (unat (vd_MeshLinksCount b))))"
  unfolding mesh_conn_def by (rule connection_joined) simp_all

definition is_switch_named :: "string \<Rightarrow> wobj \<Rightarrow> bool" where
  "is_switch_named name x \<longleftrightarrow> is_switch_obj (wo_Spec x) \<and> wo_Name x = name"

lemma createSwitch_named: "hoare P (createSwitch b name spec anns) (\<lambda>_. has_obj (is_switch_named name))"
  by (auto simp: hoare_def is_switch_named_def has_obj_def named_def dest!: createSwitch_Inr)

text \<open>A spine with its links to every leaf.\<close>

definition spine_done :: "vlab_default \<Rightarrow> 8 word \<Rightarrow> 8 word \<Rightarrow> bstate \<Rightarrow> bool" where
  "spine_done b leafs k s \<longleftrightarrow> has_obj (is_switch_named (spine_name k)) s \<and>
     (\<forall>i. 1 \<le> i \<and> i \<le> leafs \<longrightarrow> has_obj (joined ConnFabric (spine_name k) (leaf_name i) (unat (vd_FabricLinksCount b))) s)"

text \<open>What speaks of single objects is kept.\<close>

lemma spine_done_kept:
  assumes "\<And>\<phi>. hoare (has_obj \<phi>) m (\<lambda>_. has_obj \<phi>)"
  shows "hoare (spine_done b leafs k) m (\<lambda>_. spine_done b leafs k)"
  unfolding spine_done_def by (rule hoare_conj [OF assms hoare_all [OF assms]])

lemma spine_all:
  "hoare (\<lambda>_. True) (spine b leafs gws k i) (\<lambda>_. spine_done b leafs k)"
  unfolding spine_def Let_def
proof (rule hoare_bbind [OF createSwitch_named])
  fix u :: unit
  let ?sw = "has_obj (is_switch_named (spine_name k))"
  note loop = hoare_for_to_all [where G = ?sw and body = "fabric_conn b (spine_name k)" and m = 1 and n = leafs and a = "()"
      and D = "\<lambda>i. has_obj (joined ConnFabric (spine_name k) (leaf_name i) (unat (vd_FabricLinksCount b)))",
      OF hoare_pre [OF fabric_conn_joined] default_grow.fabric_conn_keeps default_grow.fabric_conn_keeps]
  show "hoare ?sw (bbind (for_to 1 leafs (fabric_conn b (spine_name k)) ()) (\<lambda>_.
      bbind (if gws \<noteq> [] \<and> k \<le> vd_GatewayUplinks b then gateway_links b (spine_name k) k gws else bret ()) (\<lambda>_. bret (i + 1))))
    (\<lambda>_. spine_done b leafs k)"
    unfolding spine_done_def
    by (rule hoare_bbind [OF loop], (rule TrueI)+, rule hoare_bbind [OF hoare_if, rotated 2], rule hoare_bret')
       (auto intro!: hoare_conj hoare_all default_grow.gateway_links_keep hoare_bret)
qed

lemma spines_all:
  "hoare (\<lambda>_. True) (for_to 1 n (spine b leafs gws) i) (\<lambda>_ s. \<forall>k. 1 \<le> k \<and> k \<le> n \<longrightarrow> spine_done b leafs k s)"
  by (rule hoare_post [OF hoare_for_to_all [where G = "\<lambda>_. True" and D = "spine_done b leafs"]])
     (auto intro: spine_all spine_done_kept default_grow.spine_keeps intro: hoare_True)

section \<open>The mesh\<close>

definition mesh_done :: "vlab_default \<Rightarrow> 8 word \<Rightarrow> 8 word \<Rightarrow> bstate \<Rightarrow> bool" where
  "mesh_done b leafs i s \<longleftrightarrow>
     (\<forall>j. i + 1 \<le> j \<and> j \<le> leafs \<longrightarrow> has_obj (joined ConnMesh (leaf_name i) (leaf_name j) (unat (vd_MeshLinksCount b))) s)"

lemma mesh_all:
  assumes "vd_MeshLinksCount b > 0"
  shows "hoare (\<lambda>_. True) (mesh b leafs) (\<lambda>_ s. \<forall>i. 1 \<le> i \<and> i \<le> leafs \<longrightarrow> mesh_done b leafs i s)"
proof -
  have row: "hoare (\<lambda>_. True) (for_to (i + 1) leafs (mesh_conn b i) ()) (\<lambda>_. mesh_done b leafs i)" for i
    unfolding mesh_done_def
    by (rule hoare_post [OF hoare_for_to_all [where G = "\<lambda>_. True" and
        D = "\<lambda>j. has_obj (joined ConnMesh (leaf_name i) (leaf_name j) (unat (vd_MeshLinksCount b)))"]])
       (auto intro: mesh_conn_joined default_grow.mesh_conn_keeps intro: hoare_True)
  have kept: "hoare (mesh_done b leafs k) (for_to j leafs (mesh_conn b i) ()) (\<lambda>_. mesh_done b leafs k)" for i j k
    unfolding mesh_done_def by (intro hoare_all default_grow.for_to_keeps default_grow.mesh_conn_keeps)
  have "hoare (\<lambda>_. True) (for_to 1 leafs (\<lambda>i _. for_to (i + 1) leafs (mesh_conn b i) ()) ())
      (\<lambda>_ s. True \<and> (\<forall>i. 1 \<le> i \<and> i \<le> leafs \<longrightarrow> mesh_done b leafs i s))"
    by (rule hoare_for_to_all) (auto intro: row kept hoare_True)
  with assms show ?thesis unfolding mesh_def by simp
qed

section \<open>The leaves\<close>

text \<open>The first \<open>n\<close> leaves are there, and the counter of the next one is \<open>d\<close>.\<close>

definition leaves_made :: "nat \<Rightarrow> 8 word \<Rightarrow> blocals \<Rightarrow> bstate \<Rightarrow> bool" where
  "leaves_made n d l s \<longleftrightarrow> bl_LeafID l = d \<and> (\<forall>k. 1 \<le> k \<and> k \<le> n \<longrightarrow> has_obj (is_switch_named (leaf_name (of_nat k))) s)"

abbreviation leaves_to :: "nat \<Rightarrow> blocals \<Rightarrow> bstate \<Rightarrow> bool" where
  "leaves_to n \<equiv> leaves_made n (of_nat (n + 1))"

lemma leaves_made_kept:
  assumes "\<And>\<phi>. hoare (has_obj \<phi>) m (\<lambda>_. has_obj \<phi>)"
    and "hoare (\<lambda>_. True) m (\<lambda>l' _. bl_LeafID l' = bl_LeafID l)"
  shows "hoare (leaves_made n d l) m (leaves_made n d)"
  using assms unfolding leaves_made_def hoare_def by metis

lemma leaves_made_kept':
  assumes "\<And>\<phi>. hoare (has_obj \<phi>) m (\<lambda>_. has_obj \<phi>)"
  shows "hoare (leaves_made n d l) m (\<lambda>_. leaves_made n d l)"
  using assms unfolding leaves_made_def hoare_def by metis

lemma server_loop_leaves:
  assumes "\<And>\<phi> n i. hoare (has_obj \<phi>) (f n i) (\<lambda>_. has_obj \<phi>)"
  shows "hoare (leaves_made n d l) (server_loop k f l) (leaves_made n d)"
proof (rule leaves_made_kept)
  show "hoare (has_obj \<phi>) (server_loop k f l) (\<lambda>_. has_obj \<phi>)" for \<phi>
    unfolding server_loop_def
    by (rule hoare_bbind [OF hoare_bfold [where J = "\<lambda>_. has_obj \<phi>", OF assms]]) (rule hoare_bret')
  show "hoare (\<lambda>_. True) (server_loop k f l) (\<lambda>l' _. bl_LeafID l' = bl_LeafID l)"
    unfolding server_loop_def by (rule hoare_bbind [OF hoare_True]) (rule hoare_bret, simp)
qed

lemma list_all_True: "list_all (\<lambda>_. True) xs"
  by (simp add: list_all_iff)

lemma servers_leaves:
  "hoare (leaves_made n d l) (server_loop k (eslag_server b names) l) (leaves_made n d)"
  "hoare (leaves_made n d l) (server_loop k (unbundled_server b leaf) l) (leaves_made n d)"
  "hoare (leaves_made n d l) (server_loop k (bundled_server b leaf) l) (leaves_made n d)"
  by (intro server_loop_leaves default_grow.eslag_server_keeps default_grow.unbundled_server_keeps
      default_grow.bundled_server_keeps list_all_True TrueI)+

lemma eslag_leaf_made:
  "hoare (\<lambda>s. bl_LeafID (snd st) = d \<and> P s) (eslag_leaf b g i st)
    (\<lambda>st s. bl_LeafID (snd st) = d \<and> has_obj (is_switch_named (leaf_name (d + i))) s)"
proof (cases st)
  case (Pair names l)
  show ?thesis unfolding Pair
    by (rule hoareI) (auto simp: eslag_leaf_def Let_def bbind_def bret_def addExternalConnection_def nextSwitchPort_Inr
        createConnection_def blift_def bfail_def createConnectionWithName_def create_def bwrap_Inr wadd_Inr has_obj_def
        is_switch_named_def named_def dest!: createSwitch_Inr split: option.splits sum.splits if_splits)
qed

lemma eslag_leaf_grows: "hoare (has_obj \<phi>) (eslag_leaf b g i st) (\<lambda>_. has_obj \<phi>)"
  by (rule hoare_pre [OF hoare_post [OF default_grow.eslag_leaf_keeps [where k = "length (fst st)"]]]) (auto simp: list_all_iff)

lemma eslag_leaves_made:
  "hoare (leaves_to n l) (bfold (eslag_leaf b g) (map of_nat [0..<k]) (names, l))
    (\<lambda>st. leaves_made (n + k) (of_nat (n + 1)) (snd st))"
proof -
  let ?sw = "\<lambda>i. has_obj (is_switch_named (leaf_name i))"
  let ?J = "\<lambda>js st s. leaves_to n (snd st) s \<and> (\<forall>i. i \<in> set js \<longrightarrow> ?sw (of_nat (n + 1) + i) s)"
  have "hoare (?J js st) (eslag_leaf b g i st) (?J (js @ [i]))" for js i st
  proof (rule hoareI)
    fix s st' s'
    assume J: "?J js st s" and eq: "eslag_leaf b g i st s = Some (Inr (st', s'))"
    have kept: "?sw m s'" if "?sw m s" for m using hoareD [OF eslag_leaf_grows that eq] .
    from hoareD [OF eslag_leaf_made [where P = "\<lambda>_. True"] _ eq, of "of_nat (n + 1)"] J
    have "bl_LeafID (snd st') = of_nat (n + 1)" "?sw (of_nat (n + 1) + i) s'" by (auto simp: leaves_made_def)
    with J kept show "?J (js @ [i]) st' s'" by (auto simp: leaves_made_def)
  qed
  then have *: "hoare (?J [] (names, l)) (bfold (eslag_leaf b g) (map of_nat [0..<k]) (names, l)) (?J (map of_nat [0..<k]))"
    by (rule hoare_bfold_prefix)
  show ?thesis
  proof (rule hoare_pre [OF hoare_post [OF *]])
    fix st s
    assume J: "?J (map of_nat [0..<k]) st s"
    have "?sw (of_nat j) s" if j: "1 \<le> j" "j \<le> n + k" for j
    proof (cases "j \<le> n")
      case False
      define i where "i = j - (n + 1)"
      with False j have i: "j = n + 1 + i" "i < k" by auto
      then have "of_nat i \<in> set (map of_nat [0..<k] :: 8 word list)" by simp
      with J have "?sw (of_nat (n + 1) + of_nat i) s" by blast
      then show ?thesis unfolding i(1) by (simp only: of_nat_add)
    qed (use J j in \<open>simp add: leaves_made_def\<close>)
    with J show "leaves_made (n + k) (of_nat (n + 1)) (snd st) s" by (simp add: leaves_made_def)
  qed simp
qed

lemma eslag_group_servers_leaves:
  "hoare (leaves_made (n + unat leafs) (of_nat (n + 1)) (snd st)) (eslag_group_servers b leafs st) (leaves_to (n + unat leafs))"
proof (cases st)
  case (Pair names l)
  show ?thesis unfolding Pair eslag_group_servers_def Let_def prod.case snd_conv
    by (rule hoare_bbind [OF hoare_pre [OF servers_leaves(1) [where n = "n + unat leafs" and d = "of_nat (n + unat leafs + 1)"]]],
        simp add: leaves_made_def add.commute add.left_commute,
        rule hoare_bbind [OF servers_leaves(2)], rule hoare_if, rule servers_leaves(3), rule hoare_bret')
qed

lemma eslag_group_leaves:
  "hoare (leaves_to n l) (eslag_group b groups g l) (leaves_to (n + unat (groups ! unat g)))"
  unfolding eslag_group_def Let_def
  by (rule hoare_bbind [OF leaves_made_kept' [OF grow.simple_creates(1)]], rule hoare_bbind [OF eslag_leaves_made],
      rule eslag_group_servers_leaves)

lemma orphan_leaf_leaves: "hoare (leaves_to n l) (orphan_leaf b i l) (leaves_to (n + 1))"
  unfolding orphan_leaf_def Let_def
proof (rule hoare_bbind [where R = "\<lambda>_. leaves_made (n + 1) (of_nat (n + 1)) l"])
  let ?sp = "leaf_spec SwitchRoleServerLeaf (''VS-'' @ pad2 (unat (bl_SwitchID l)))"
  show "hoare (leaves_to n l) (createSwitch b (leaf_name (bl_LeafID l)) ?sp []) (\<lambda>_. leaves_made (n + 1) (of_nat (n + 1)) l)"
  proof (rule hoareI)
    fix s u s'
    assume l: "leaves_to n l s" and eq: "createSwitch b (leaf_name (bl_LeafID l)) ?sp [] s = Some (Inr (u, s'))"
    from hoareD [OF createSwitch_named _ eq] l have "has_obj (is_switch_named (leaf_name (of_nat (n + 1)))) s'"
      by (auto simp: leaves_made_def)
    moreover have "leaves_to n l s'"
      using hoareD [OF leaves_made_kept' [OF grow.switch [OF TrueI]] l eq] .
    ultimately show "leaves_made (n + 1) (of_nat (n + 1)) l s'" by (auto simp: leaves_made_def le_Suc_eq)
  qed
next
  fix u :: unit
  let ?l = "l\<lparr>bl_MhLeaves := bl_MhLeaves l @ [leaf_name (bl_LeafID l)]\<rparr>"
  show "hoare (leaves_made (n + 1) (of_nat (n + 1)) l)
    (bbind (if bl_ExtOrphan ?l < vd_ExtOrphanConnCount b
       then bbind (addExternalConnection (bl_ExternalConns ?l) (leaf_name (bl_LeafID l))) (\<lambda>conns.
         bret (?l\<lparr>bl_ExternalConns := conns, bl_ExtOrphan := bl_ExtOrphan ?l + 1\<rparr>))
       else bret ?l) (\<lambda>l'. bbind (server_loop (vd_UnbundledServers b) (unbundled_server b (leaf_name (bl_LeafID l)))
         (l'\<lparr>bl_SwitchID := bl_SwitchID l' + 1, bl_LeafID := bl_LeafID l' + 1\<rparr>))
       (server_loop (vd_BundledServers b) (bundled_server b (leaf_name (bl_LeafID l))))))
    (leaves_to (n + 1))"
    by (rule hoare_bbind [where R = "leaves_made (n + 1) (of_nat (n + 1))"], rule hoare_if,
        rule hoare_bbind [OF leaves_made_kept' [OF grow.addExternalConnection_keeps [OF TrueI]]],
        (rule hoare_bret, simp add: leaves_made_def)+,
        rule hoare_bbind [OF hoare_pre [OF servers_leaves(2) [where n = "n + 1" and d = "of_nat (n + 1 + 1)"]]],
        simp add: leaves_made_def, rule servers_leaves(3))
qed

text \<open>All of them, when the number of groups does not wrap.\<close>

definition total_leaves :: "vlab_default \<Rightarrow> 8 word list \<Rightarrow> nat" where
  "total_leaves b groups = sum_list (map unat groups) + unat (vd_OrphanLeafsCount b)"

lemma multihomed_servers_leaves:
  "hoare (leaves_made n d l) (multihomed_servers b l) (leaves_made n d)"
proof (rule leaves_made_kept)
  show "hoare (has_obj \<phi>) (multihomed_servers b l) (\<lambda>_. has_obj \<phi>)" for \<phi>
    by (rule hoare_pre [OF default_grow.multihomed_servers_keep]) (simp add: list_all_True)
  show "hoare (\<lambda>_. True) (multihomed_servers b l) (\<lambda>l' _. bl_LeafID l' = bl_LeafID l)"
    unfolding multihomed_servers_def
    by (rule hoare_bbind [OF hoare_True]) (auto intro: hoare_bret split: prod.split)
qed

lemma orphans_leaves:
  "hoare (leaves_to n l) (for_to 1 k (orphan_leaf b) l) (leaves_to (n + unat k))"
proof (cases "k = 255")
  case True
  show ?thesis unfolding True by (rule hoareI) (metis for_to_no_exit)
next
  case False
  let ?J = "\<lambda>i l s. i \<noteq> 0 \<and> unat i \<le> unat k + 1 \<and> leaves_to (n + (unat i - 1)) l s"
  have "hoare (?J i l) (orphan_leaf b i l) (?J (i + 1))" if "i \<le> k" for i l
  proof (rule hoareI)
    fix s l' s'
    assume J: "?J i l s" and eq: "orphan_leaf b i l s = Some (Inr (l', s'))"
    have "unat i < 255" using that unat_u8_max [OF False] by (simp add: word_le_nat_alt)
    note unat_u8_Suc [OF this]
    moreover from this have "i + 1 \<noteq> 0" by (metis unat_0 add_is_0 one_neq_zero)
    moreover have "unat i \<noteq> 0" using J by (simp add: unat_eq_0)
    moreover from hoareD [OF orphan_leaf_leaves _ eq] J have "leaves_to (n + (unat i - 1) + 1) l' s'" by blast
    ultimately show "?J (i + 1) l' s'" using that J by (simp add: word_le_nat_alt)
  qed
  from hoare_for_u8 [where J = ?J and cond = "\<lambda>i _. i \<le> k", OF this, of 1 l]
  show ?thesis unfolding for_to_def
    by (rule hoare_post [OF hoare_pre]) (auto simp: word_le_nat_alt not_le le_Suc_eq)
qed

lemma build_leaves_made:
  assumes "length groups < 256"
  shows "hoare (\<lambda>_. True) (build_leaves b groups) (leaves_to (total_leaves b groups))"
proof -
  let ?J = "\<lambda>(js :: 8 word list) l s. leaves_to (sum_list (map (\<lambda>g. unat (groups ! unat g)) js)) l s"
  have "hoare (?J js l) (eslag_group b groups g l) (?J (js @ [g]))" for js g l
    using eslag_group_leaves by simp
  then have "hoare (?J [] first_locals) (bfold (eslag_group b groups) (map of_nat [0..<length groups]) first_locals)
      (?J (map of_nat [0..<length groups]))"
    by (intro hoare_bfold_prefix [where J = ?J])
  moreover have "sum_list (map (\<lambda>g. unat (groups ! unat (g :: 8 word))) (map of_nat [0..<length groups])) = sum_list (map unat groups)"
  proof -
    have "map (\<lambda>g. unat (groups ! unat (g :: 8 word))) (map of_nat [0..<length groups]) = map (\<lambda>i. unat (groups ! i)) [0..<length groups]"
      using assms by (simp add: u8_of_nat)
    also have "\<dots> = map unat groups" by (simp add: map_nth flip: map_map [of unat "(!) groups", unfolded comp_def])
    finally show ?thesis by simp
  qed
  ultimately have groups: "hoare (leaves_to 0 first_locals) (bfold (eslag_group b groups) (map of_nat [0..<length groups]) first_locals)
      (leaves_to (sum_list (map unat groups)))" by simp
  have len: "unat (of_nat (length groups) :: 8 word) = length groups" using assms by (rule u8_of_nat)
  show ?thesis unfolding build_leaves_def len total_leaves_def
    by (rule hoare_bbind [OF hoare_pre [OF groups]], simp add: leaves_made_def first_locals_def,
        rule hoare_bbind [OF orphans_leaves], rule multihomed_servers_leaves)
qed

end
