(* ===== verification/VlabProps.thy ===== *)
theory VlabProps
  imports VlabComplete
begin

text \<open>
  What the virtual labs guarantee: when the build returns, that it contains every link of the fabric,
  and that its ports are handed out in order and not twice. The witnesses build small labs.
\<close>

section \<open>Links of the whole wiring\<close>

definition wiring_leafs :: "vlab_default \<Rightarrow> 8 word list \<Rightarrow> 8 word" where
  "wiring_leafs b groups = vd_OrphanLeafsCount b + sum_list groups"

lemma wiring_leafs_total: "wiring_leafs b groups = of_nat (total_leaves b groups)"
proof -
  have "sum_list groups = of_nat (sum_list (map unat groups))" by (induction groups) simp_all
  then show ?thesis by (simp add: wiring_leafs_def total_leaves_def add.commute)
qed

definition leaf_switches :: "8 word \<Rightarrow> bstate \<Rightarrow> bool" where
  "leaf_switches leafs s \<longleftrightarrow> (\<forall>i. 1 \<le> i \<and> i \<le> leafs \<longrightarrow> has_obj (is_switch_named (leaf_name i)) s)"

lemma leaves_made_switches:
  assumes "leaves_to (total_leaves b groups) l s"
  shows "leaf_switches (wiring_leafs b groups) s"
  unfolding leaf_switches_def
proof (intro allI impI, elim conjE)
  fix i :: "8 word"
  assume i: "1 \<le> i" "i \<le> wiring_leafs b groups"
  have "unat (of_nat n :: 8 word) \<le> n" for n by (simp add: unat_of_nat)
  with i(2) have "unat i \<le> total_leaves b groups"
    unfolding wiring_leafs_total by (meson le_trans word_le_nat_alt)
  moreover have "1 \<le> unat i" using i(1) by (simp add: word_le_nat_alt)
  ultimately have "has_obj (is_switch_named (leaf_name (of_nat (unat i)))) s"
    using assms unfolding leaves_made_def by blast
  then show "has_obj (is_switch_named (leaf_name i)) s" by simp
qed

lemma leaf_switches_kept:
  "(\<And>\<phi>. hoare (has_obj \<phi>) m (\<lambda>_. has_obj \<phi>)) \<Longrightarrow> hoare (leaf_switches n) m (\<lambda>_. leaf_switches n)"
  unfolding leaf_switches_def by (rule hoare_all)

lemma mesh_done_kept:
  "(\<And>\<phi>. hoare (has_obj \<phi>) m (\<lambda>_. has_obj \<phi>)) \<Longrightarrow> hoare (mesh_done b n i) m (\<lambda>_. mesh_done b n i)"
  unfolding mesh_done_def by (rule hoare_all)

text \<open>The end of a build keeps what is there.\<close>

lemma build_end_keeps:
  "hoare (has_obj \<phi>) (bbind (mesh_gateways b leafs gws) (\<lambda>_. bbind (build_externals b) (\<lambda>exts. attach_externals exts conns)))
    (\<lambda>_. has_obj \<phi>)"
  by (intro hoare_bbind [OF default_grow.mesh_gateways_keep] hoare_bbind [OF default_grow.build_externals_keep]
      default_grow.attach_externals_keep)

lemma build_wiring_linked:
  assumes "length groups < 256"
  shows "hoare (\<lambda>_. True) (build_wiring b groups nodes) (\<lambda>_ s.
    leaf_switches (wiring_leafs b groups) s \<and>
    (\<forall>k. 1 \<le> k \<and> k \<le> vd_SpinesCount b \<longrightarrow> spine_done b (wiring_leafs b groups) k s) \<and>
    (vd_MeshLinksCount b > 0 \<longrightarrow> (\<forall>i. 1 \<le> i \<and> i \<le> wiring_leafs b groups \<longrightarrow> mesh_done b (wiring_leafs b groups) i s)))"
proof -
  let ?n = "wiring_leafs b groups"
  let ?S = "\<lambda>s. \<forall>k. 1 \<le> k \<and> k \<le> vd_SpinesCount b \<longrightarrow> spine_done b ?n k s"
  let ?M = "\<lambda>s. vd_MeshLinksCount b > 0 \<longrightarrow> (\<forall>i. 1 \<le> i \<and> i \<le> ?n \<longrightarrow> mesh_done b ?n i s)"
  have spines: "hoare (leaf_switches ?n) (for_to 1 (vd_SpinesCount b) (spine b ?n gws) k) (\<lambda>_ s. leaf_switches ?n s \<and> ?S s)" for gws k
    by (rule hoare_pre [OF hoare_conj [OF leaf_switches_kept spines_all]]) (auto intro: default_grow.for_to_keeps default_grow.spine_keeps)
  have mesh: "hoare (\<lambda>s. leaf_switches ?n s \<and> ?S s) (mesh b ?n) (\<lambda>_ s. (leaf_switches ?n s \<and> ?S s) \<and> ?M s)"
  proof -
    have m: "hoare (\<lambda>_. True) (mesh b ?n) (\<lambda>_. ?M)"
      using mesh_all [of b ?n] by (cases "vd_MeshLinksCount b > 0") (auto intro: hoare_post hoare_True)
    show ?thesis
      by (rule hoare_pre [OF hoare_conj [OF hoare_conj [OF leaf_switches_kept hoare_all [OF spine_done_kept]] m]])
         (auto intro: default_grow.mesh_keeps)
  qed
  have rest: "hoare (\<lambda>s. (leaf_switches ?n s \<and> ?S s) \<and> ?M s)
      (bbind (mesh_gateways b ?n gws) (\<lambda>_. bbind (build_externals b) (\<lambda>exts. attach_externals exts conns)))
      (\<lambda>_ s. (leaf_switches ?n s \<and> ?S s) \<and> ?M s)" for gws conns
  proof (intro hoare_conj leaf_switches_kept hoare_all spine_done_kept build_end_keeps)
    show "hoare ?M (bbind (mesh_gateways b ?n gws) (\<lambda>_. bbind (build_externals b) (\<lambda>exts. attach_externals exts conns))) (\<lambda>_. ?M)"
      using hoare_all [OF mesh_done_kept [OF build_end_keeps]] by (cases "vd_MeshLinksCount b > 0") (auto intro: hoare_True)
  qed
  have leaves: "hoare (\<lambda>_. True) (build_leaves b groups) (\<lambda>_. leaf_switches ?n)"
    by (rule hoare_post [OF build_leaves_made [OF assms] leaves_made_switches])
  show ?thesis
    unfolding build_wiring_def Let_def wiring_leafs_def [symmetric]
    by (rule hoare_bbind [OF hoare_True], rule hoare_bbind [OF leaves], rule hoare_bbind [OF spines],
        rule hoare_bbind [OF mesh], rule hoare_post [OF rest], simp)
qed

section \<open>Labs for the witnesses\<close>

definition small_lab :: vlab_default where
  "small_lab = \<lparr>bb_DefaultSwitchProfile = ''vs'', bb_SwitchProfileOverrides = [], bb_ServerPortBase = '''',
     vd_SpinesCount = 1, vd_FabricLinksCount = 1, vd_MeshLinksCount = 0, vd_ESLAGLeafGroups = '''', vd_OrphanLeafsCount = 1,
     vd_ESLAGServers = 0, vd_UnbundledServers = 1, vd_BundledServers = 0, vd_MultiHomedServers = 0, vd_NoSwitches = False,
     vd_GatewayUplinks = 0, vd_GatewayDriver = '''', vd_GatewayWorkers = 0, vd_GatewayLogLevel = ''info'', vd_GatewayTags = [],
     vd_ExtBGPCount = 0, vd_ExtStaticCount = 0, vd_ExtStaticProxyCount = 0, vd_ExtESLAGConnCount = 0, vd_ExtOrphanConnCount = 0,
     vd_YesFlag = False\<rparr>"

definition mesh_lab :: vlab_default where
  "mesh_lab = small_lab\<lparr>vd_SpinesCount := 0, vd_FabricLinksCount := 0, vd_MeshLinksCount := 1, vd_OrphanLeafsCount := 2, vd_UnbundledServers := 0\<rparr>"

text \<open>A lab with as many spines, and as many uplinks of its gateway, as a \<^verbatim>\<open>uint8\<close> counts.\<close>

definition wide_lab :: vlab_default where
  "wide_lab = small_lab\<lparr>vd_SpinesCount := 255, vd_GatewayUplinks := 255\<rparr>"

definition gateway_node :: fab_node where
  "gateway_node = \<lparr>nd_Name = ''gateway-1'', nd_Namespace = '''', nd_Disk = '''', nd_MgmtIP = '''', nd_MgmtInterface = '''',
     nd_DummyIP = '''', nd_Roles = [NodeRoleGateway]\<rparr>"

lemma small_lab_options: "build_options small_lab FabricModeSpineLeaf [] = Inr (small_lab, [])"
  by code_simp

lemma mesh_lab_options: "build_options mesh_lab FabricModeSpineLeaf [] = Inr (mesh_lab, [])"
  by code_simp

lemma small_lab_builds: "\<exists>objs. Build small_lab FabricModeSpineLeaf [] = Some (Inr objs)"
proof -
  have "(case Build small_lab FabricModeSpineLeaf [] of Some (Inr _) \<Rightarrow> True | _ \<Rightarrow> False)" by code_simp
  then show ?thesis by (auto split: option.splits sum.splits)
qed

lemma mesh_lab_builds: "\<exists>objs. Build mesh_lab FabricModeSpineLeaf [] = Some (Inr objs)"
proof -
  have "(case Build mesh_lab FabricModeSpineLeaf [] of Some (Inr _) \<Rightarrow> True | _ \<Rightarrow> False)" by code_simp
  then show ?thesis by (auto split: option.splits sum.splits)
qed

section \<open>Properties\<close>

lemma Build_allocated:
  assumes "Build b m nodes = Some (Inr objs)"
  shows "\<exists>s. bs_Objs s = objs \<and> allocated (bb_ServerPortBase b) [] s"
  using assms
proof (rule Build_Inr)
  fix b' gs s
  assume opts: "build_options b m nodes = Inr (b', gs)" and s: "bs_Objs s = objs"
    and w: "build_wiring b' gs nodes empty_wiring = Some (Inr ((), s))"
  have "\<forall>n\<in>set gs. 2 \<le> unat n" using build_options_facts(2) [OF opts] by blast
  from hoareD [OF default_ports.build_wiring_keeps [OF this] allocated_empty w] show ?thesis
    using s build_options_facts(1) [OF opts] by auto
qed

text \<open>
  C31. The ports of each device in a generated wiring are those an abstract allocator hands out for it, in order and
  without gaps: the first \<open>n\<close> of them when the device has \<open>n\<close> ports.\<close>

theorem vlab_ports_in_order:
  assumes "Build b m nodes = Some (Inr objs)"
  shows "ports_of d (wiring_ports objs) = map (port_at (bb_ServerPortBase b) d) [0..<length (ports_of d (wiring_ports objs))]"
  using Build_allocated [OF assms] allocated_in_order by metis

theorem vlab_ports_in_order_witness:
  "\<exists>objs. Build small_lab FabricModeSpineLeaf [] = Some (Inr objs) \<and>
     ports_of ''leaf-01'' (wiring_ports objs) = map (port_at '''' ''leaf-01'') [0..<length (ports_of ''leaf-01'' (wiring_ports objs))]"
proof -
  have "bb_ServerPortBase small_lab = ''''" by (simp add: small_lab_def)
  with small_lab_builds vlab_ports_in_order [of small_lab FabricModeSpineLeaf "[]" _ "''leaf-01''"] show ?thesis by metis
qed

text \<open>
  C32. A generated wiring uses no port twice exactly when no switch has more than 100 ports and no server more than 256:
  beyond that the counter of the device starts over and the build still succeeds.
\<close>

theorem vlab_ports_distinct_iff:
  assumes "Build b m nodes = Some (Inr objs)"
  shows "distinct (wiring_ports objs) \<longleftrightarrow> (\<forall>d. length (ports_of d (wiring_ports objs)) \<le> (if is_server d then 256 else 100))"
  using Build_allocated [OF assms] allocated_distinct unfolding port_capacity_def by metis

theorem vlab_ports_distinct_iff_witness:
  "\<exists>objs. Build small_lab FabricModeSpineLeaf [] = Some (Inr objs) \<and>
     (distinct (wiring_ports objs) \<longleftrightarrow> (\<forall>d. length (ports_of d (wiring_ports objs)) \<le> (if is_server d then 256 else 100)))"
  using small_lab_builds vlab_ports_distinct_iff by blast

text \<open>
  C33. A build returns unless a gateway is to have 255 uplinks: then the interfaces of the gateway are listed forever.
\<close>

theorem vlab_build_diverges_iff:
  "Build b m nodes = None \<longleftrightarrow>
     gateway_nodes nodes \<noteq> [] \<and> (case build_options b m nodes of Inl _ \<Rightarrow> False | Inr (b', _) \<Rightarrow> vd_GatewayUplinks b' = 255)"
  by (simp add: Build_def build_wiring_None split: sum.split prod.split)

lemma vlab_build_hangs: "Build wide_lab FabricModeSpineLeaf [gateway_node] = None"
proof -
  have "(case build_options wide_lab FabricModeSpineLeaf [gateway_node] of Inl _ \<Rightarrow> False | Inr (b', _) \<Rightarrow> vd_GatewayUplinks b' = 255)"
    by code_simp
  moreover have "gateway_nodes [gateway_node] \<noteq> []" by (simp add: gateway_nodes_def gateway_node_def)
  ultimately show ?thesis by (simp add: Build_def build_wiring_None split: sum.splits prod.splits)
qed

text \<open>
  C34. A generated spine-leaf fabric has, between every spine and every leaf it counts, a connection with the configured
  number of links, each between the two switches, and the two switches themselves. The leaves are counted in 8 bits
  (\<open>wiring_leafs\<close>, the sum \<^verbatim>\<open>vlabbuilder.go\<close> computes): a build whose leaves, in groups and alone, come to 256 counts none, succeeds, and
  has no fabric connections, and of such a build the statement says nothing.
\<close>

theorem vlab_spine_leaf_complete:
  assumes "Build b m nodes = Some (Inr objs)" and "build_options b m nodes = Inr (b', gs)" and "length gs < 256"
    and "1 \<le> k" "k \<le> vd_SpinesCount b'" and "1 \<le> i" "i \<le> wiring_leafs b' gs"
  shows "list_ex (joined ConnFabric (spine_name k) (leaf_name i) (unat (vd_FabricLinksCount b'))) objs \<and>
    list_ex (is_switch_named (spine_name k)) objs \<and> list_ex (is_switch_named (leaf_name i)) objs"
  using assms(1)
proof (rule Build_Inr)
  fix b1 gs1 s
  assume "build_options b m nodes = Inr (b1, gs1)" "bs_Objs s = objs"
    and w: "build_wiring b1 gs1 nodes empty_wiring = Some (Inr ((), s))"
  with assms(2) have eq: "b1 = b'" "gs1 = gs" "bs_Objs s = objs" by simp_all
  from hoareD [OF build_wiring_linked [OF assms(3)] TrueI w [unfolded eq]] assms(4-) show ?thesis
    unfolding leaf_switches_def spine_done_def has_obj_def eq(3) list_ex_iff by blast
qed

theorem vlab_spine_leaf_complete_witness:
  "\<exists>objs. Build small_lab FabricModeSpineLeaf [] = Some (Inr objs) \<and>
     list_ex (joined ConnFabric ''spine-01'' ''leaf-01'' 1) objs"
proof -
  obtain objs where objs: "Build small_lab FabricModeSpineLeaf [] = Some (Inr objs)" using small_lab_builds by blast
  have n: "spine_name 1 = ''spine-01''" "leaf_name 1 = ''leaf-01''" "unat (vd_FabricLinksCount small_lab) = 1" by code_simp+
  have "1 \<le> vd_SpinesCount small_lab" "1 \<le> wiring_leafs small_lab []" by code_simp+
  from vlab_spine_leaf_complete [OF objs small_lab_options _ _ this(1) _ this(2)] objs show ?thesis
    unfolding n by auto
qed

text \<open>A generated mesh has, between every two of the leaves it counts, a connection with the configured number of links,
  each between the two leaves, and the leaves themselves.\<close>

theorem vlab_mesh_complete:
  assumes "Build b m nodes = Some (Inr objs)" and "build_options b m nodes = Inr (b', gs)" and "length gs < 256"
    and "vd_MeshLinksCount b' > 0" and "1 \<le> i" "i < j" "j \<le> wiring_leafs b' gs"
  shows "list_ex (joined ConnMesh (leaf_name i) (leaf_name j) (unat (vd_MeshLinksCount b'))) objs \<and>
    list_ex (is_switch_named (leaf_name i)) objs \<and> list_ex (is_switch_named (leaf_name j)) objs"
  using assms(1)
proof (rule Build_Inr)
  fix b1 gs1 s
  assume "build_options b m nodes = Inr (b1, gs1)" "bs_Objs s = objs"
    and w: "build_wiring b1 gs1 nodes empty_wiring = Some (Inr ((), s))"
  with assms(2) have eq: "b1 = b'" "gs1 = gs" "bs_Objs s = objs" by simp_all
  have le: "1 \<le> j" "i \<le> wiring_leafs b' gs" "i + 1 \<le> j"
    using assms(5-) by (auto intro: order.trans less_imp_le inc_le)
  from hoareD [OF build_wiring_linked [OF assms(3)] TrueI w [unfolded eq]] assms(4-) le show ?thesis
    unfolding leaf_switches_def mesh_done_def has_obj_def eq(3) list_ex_iff by blast
qed

theorem vlab_mesh_complete_witness:
  "\<exists>objs. Build mesh_lab FabricModeSpineLeaf [] = Some (Inr objs) \<and>
     list_ex (joined ConnMesh ''leaf-01'' ''leaf-02'' 1) objs"
proof -
  obtain objs where objs: "Build mesh_lab FabricModeSpineLeaf [] = Some (Inr objs)" using mesh_lab_builds by blast
  have n: "leaf_name 1 = ''leaf-01''" "leaf_name 2 = ''leaf-02''" "unat (vd_MeshLinksCount mesh_lab) = 1" by code_simp+
  have "0 < vd_MeshLinksCount mesh_lab" "2 \<le> wiring_leafs mesh_lab []" by code_simp+
  from vlab_mesh_complete [where i = 1, OF objs mesh_lab_options _ this(1) _ _ this(2)] objs show ?thesis
    unfolding n by auto
qed

lemma BuildRail_allocated:
  assumes "BuildRail b = Some (Inr objs)"
  shows "\<exists>s. bs_Objs s = objs \<and> allocated (bb_ServerPortBase b) [] s"
proof -
  obtain z where z: "rail_wiring b empty_wiring = Some z" "map_sum id (\<lambda>(_, s). bs_Objs s) z = Inr objs"
    using assms by (auto simp: BuildRail_def)
  then obtain s where s: "rail_wiring b empty_wiring = Some (Inr ((), s))" "bs_Objs s = objs"
    by (cases z) auto
  from hoareD [OF rail_ports.rail_wiring_keeps allocated_empty s(1)] s(2) show ?thesis by blast
qed

text \<open>
  C35. A rail-optimized wiring always returns, hands out the ports of each device in order, and uses no port twice exactly
  when no switch has more than 100 ports and no server more than 256.
\<close>

theorem rail_ports_distinct_iff:
  "\<exists>r. BuildRail b = Some r \<and> (case r of Inl _ \<Rightarrow> True | Inr objs \<Rightarrow>
     (\<forall>d. ports_of d (wiring_ports objs) = map (port_at (bb_ServerPortBase b) d) [0..<length (ports_of d (wiring_ports objs))]) \<and>
     (distinct (wiring_ports objs) \<longleftrightarrow> (\<forall>d. length (ports_of d (wiring_ports objs)) \<le> (if is_server d then 256 else 100))))"
proof -
  have "BuildRail b \<noteq> None" using returns_rail_wiring [of b] by (simp add: BuildRail_def returns_def)
  then obtain r where r: "BuildRail b = Some r" by blast
  show ?thesis
  proof (cases r)
    case (Inr objs)
    from BuildRail_allocated [OF r [unfolded Inr]] allocated_in_order allocated_distinct r Inr show ?thesis
      unfolding port_capacity_def by fastforce
  qed (use r in simp)
qed

end
