(* ===== verification/VlabConfig.thy ===== *)
theory VlabConfig
  imports VlabBuilder
begin

text \<open>
  The configuration of the VMs of a virtual lab (\<^verbatim>\<open>createVLABConfig\<close> of \<^verbatim>\<open>pkg/hhfab/vlabconfig.go\<close>): a VM
  per node, server and switch that is not hardware, the NICs the connections of the wiring join, and the
  VM that plays the external systems. The client is the list of the objects it returns, in its order.
\<close>

section \<open>Data\<close>

definition HHFabCfgPrefix :: string where "HHFabCfgPrefix = ''.hhfab.githedgehog.com''"
definition HHFabCfgType :: string where "HHFabCfgType = ''type'' @ HHFabCfgPrefix"
definition HHFabCfgTypeHW :: string where "HHFabCfgTypeHW = ''hw''"
definition HHFabCfgLinkPrefix :: string where "HHFabCfgLinkPrefix = ''link'' @ HHFabCfgPrefix @ ''/''"
definition HHFabCfgPCIPrefix :: string where "HHFabCfgPCIPrefix = ''pci@''"
definition HHFabCfgASNPrefix :: string where "HHFabCfgASNPrefix = ''asn''"
definition ExternalVMName :: string where "ExternalVMName = ''virt-external''"
definition MaxExternalConns :: nat where "MaxExternalConns = 48"

type_synonym vm_type = string

definition VMTypeControl :: vm_type where "VMTypeControl = ''control''"
definition VMTypeSwitch :: vm_type where "VMTypeSwitch = ''switch''"
definition VMTypeServer :: vm_type where "VMTypeServer = ''server''"
definition VMTypeGateway :: vm_type where "VMTypeGateway = ''gateway''"
definition VMTypeExternal :: vm_type where "VMTypeExternal = ''external''"
definition VMTypes :: "vm_type list" where
  "VMTypes = [VMTypeControl, VMTypeSwitch, VMTypeServer, VMTypeGateway, VMTypeExternal]"

type_synonym vm_switch_mode = string

definition VMSwitchModeONIE :: vm_switch_mode where "VMSwitchModeONIE = ''''"
definition VMSwitchModeImage :: vm_switch_mode where "VMSwitchModeImage = ''image''"
definition VMSwitchModes :: "vm_switch_mode list" where "VMSwitchModes = [VMSwitchModeONIE, VMSwitchModeImage]"

record vm_config =
  vm_Type :: vm_type
  vm_SwitchMode :: vm_switch_mode
  vm_SwitchProfile :: string
  vm_NICs :: "string gomap"

record ext_attach_cfg =
  eac_IsStatic :: bool
  eac_Prefix :: string
  eac_NeighborIP :: string
  eac_NeighborASN :: string
  eac_Vlan :: "16 word"
  eac_VRF :: string

record ext_nic_cfg =
  enc_Attachments :: "ext_attach_cfg list"
  enc_Untagged :: "ext_attach_cfg option"

record ext_vrf_cfg =
  evc_IsStatic :: bool
  evc_TableID :: "32 word"
  evc_ASN :: "32 word"
  evc_InCommunity :: string
  evc_OutCommunity :: string
  evc_Prefixes :: "string list"
  evc_GatewayIPs :: "string list"
  evc_SwitchIP :: string
  evc_NICName :: string
  evc_NATPoolCIDR :: string

definition NICTypeNoop :: string where "NICTypeNoop = ''noop''"
definition NICTypeUsernet :: string where "NICTypeUsernet = ''usernet''"
definition NICTypeManagement :: string where "NICTypeManagement = ''management''"
definition NICTypeDirect :: string where "NICTypeDirect = ''direct''"
definition NICTypePassthrough :: string where "NICTypePassthrough = ''passthrough''"

definition nic_cfg :: "string \<Rightarrow> string \<Rightarrow> string" where "nic_cfg t cfg = t @ '':'' @ cfg"

definition new_vm :: "vm_type \<Rightarrow> string gomap \<Rightarrow> vm_config" where
  "new_vm t nics = \<lparr>vm_Type = t, vm_SwitchMode = VMSwitchModeONIE, vm_SwitchProfile = '''', vm_NICs = nics\<rparr>"

text \<open>The configuration as it grows, with what the function remembers of hardware and passthrough links.\<close>

record vlab_config =
  vc_VMs :: "vm_config gomap"
  vc_NICs :: "ext_nic_cfg gomap"
  vc_VRFs :: "ext_vrf_cfg gomap"

record vlab_create = vlab_config +
  vk_hw :: "string list"
  vk_passthrough :: "string gomap"
  vk_usedPassthroughs :: "string list"
  vk_hwExternals :: "string list"
  vk_externalID :: nat

section \<open>Annotations\<close>

definition getAsn :: "string gomap \<Rightarrow> 32 word" where
  "getAsn anns =
     (case map_of anns (HHFabCfgASNPrefix @ HHFabCfgPrefix) of
        Some t \<Rightarrow> (case parse_uint t 32 of Inr asn \<Rightarrow> of_nat asn | Inl _ \<Rightarrow> 0)
      | None \<Rightarrow> 0)"

definition isHardware :: "string gomap \<Rightarrow> bool" where
  "isHardware anns \<longleftrightarrow> map_of anns HHFabCfgType = Some HHFabCfgTypeHW"

definition getPassthroughLinks :: "string \<Rightarrow> string gomap \<Rightarrow> string gomap" where
  "getPassthroughLinks name anns = fold (\<lambda>(k, v) links.
     if has_prefix k HHFabCfgLinkPrefix \<and> has_prefix v HHFabCfgPCIPrefix
     then map_put (name @ ''/'' @ map (\<lambda>c. if c = CHR ''_'' then CHR ''/'' else c) (drop (length HHFabCfgLinkPrefix) k))
       (drop (length HHFabCfgPCIPrefix) v) links
     else links) anns []"

definition addPassthroughLinks :: "string \<Rightarrow> string gomap \<Rightarrow> vlab_create \<Rightarrow> (string gomap \<times> vlab_create) result" where
  "addPassthroughLinks name anns cfg =
     (let links = getPassthroughLinks name anns in
     ebind (efold (\<lambda>(k, v) cfg.
       if v \<in> set (vk_usedPassthroughs cfg) then Inl (Errf ''duplicate pci address: %q'' [v])
       else if map_of (vk_passthrough cfg) k \<noteq> None then Inl (Errf ''duplicate passthrough link: %q'' [k])
       else Inr (cfg\<lparr>vk_usedPassthroughs := v # vk_usedPassthroughs cfg, vk_passthrough := map_put k v (vk_passthrough cfg)\<rparr>))
       links cfg) (\<lambda>cfg. Inr (links, cfg)))"

section \<open>VMs\<close>

definition add_vm :: "string \<Rightarrow> vm_config \<Rightarrow> vlab_create \<Rightarrow> vlab_create" where
  "add_vm name vm cfg = cfg\<lparr>vc_VMs := map_put name vm (vc_VMs cfg)\<rparr>"

definition vm_exists :: "string \<Rightarrow> vlab_create \<Rightarrow> bool" where
  "vm_exists name cfg \<longleftrightarrow> map_of (vc_VMs cfg) name \<noteq> None"

text \<open>A port that is passed through takes its PCI device, if that is not empty.\<close>

definition port_nic :: "string \<Rightarrow> string \<Rightarrow> string gomap \<Rightarrow> string" where
  "port_nic port mgmt links =
     (case map_of links port of Some pci \<Rightarrow> if pci \<noteq> '''' then nic_cfg NICTypePassthrough pci else mgmt | None \<Rightarrow> mgmt)"

definition fmt_map :: "string gomap \<Rightarrow> string" where
  "fmt_map m = ''map['' @ join_with '' '' (map (\<lambda>(k, v). k @ '':'' @ v) (sort_key fst m)) @ '']''"

definition add_control :: "control_node \<times> string gomap \<Rightarrow> vlab_create \<Rightarrow> vlab_create result" where
  "add_control c cfg =
     (let (control, anns) = c; name = nd_Name control; mgmtIface = nd_MgmtInterface control; extIface = ext_Interface control in
     if vm_exists name cfg then Inl (Errf ''duplicate VM name (control): %q'' [name])
     else ebind (ewrap ''failed to add passthrough links for control %q'' [name] (addPassthroughLinks name anns cfg)) (\<lambda>(links, cfg).
     if mgmtIface = '''' then Inl (Errf ''control VM %q has no management interface'' [name])
     else if extIface = '''' then Inl (Errf ''control VM %q has no external interface'' [name])
     else let mgmt = port_nic (name @ ''/'' @ mgmtIface) NICTypeManagement links;
              links = filter (\<lambda>(k, _). k \<noteq> name @ ''/'' @ mgmtIface) links in
     if links \<noteq> [] then Inl (Errf ''unexpected passthrough links for control %q: %v'' [name, fmt_map links])
     else if isHardware anns then Inl (Errf ''control VM %q can't be hardware'' [name])
     else Inr (add_vm name (new_vm VMTypeControl (map_put mgmtIface mgmt [(extIface, NICTypeUsernet)])) cfg)))"

definition add_node :: "fab_node \<times> string gomap \<Rightarrow> vlab_create \<Rightarrow> vlab_create result" where
  "add_node n cfg =
     (let (node, anns) = n; name = nd_Name node; mgmtIface = nd_MgmtInterface node in
     if nd_Roles node \<noteq> [NodeRoleGateway] then Inl (Errf ''node %q isn't a gateway role'' [name])
     else if vm_exists name cfg then Inl (Errf ''duplicate VM name (node): %q'' [name])
     else ebind (ewrap ''failed to add passthrough links for node %q'' [name] (addPassthroughLinks name anns cfg)) (\<lambda>(links, cfg).
     if mgmtIface = '''' then Inl (Errf ''node VM %q has no management interface'' [name])
     else let mgmt = port_nic (name @ ''/'' @ mgmtIface) NICTypeManagement links;
              links = filter (\<lambda>(k, _). k \<noteq> name @ ''/'' @ mgmtIface) links in
     if links \<noteq> [] then Inl (Errf ''unexpected passthrough links for node %q: %v'' [name, fmt_map links])
     else if isHardware anns then Inl (Errf ''node VM %q can't be hardware'' [name])
     else Inr (add_vm name (new_vm VMTypeGateway [(mgmtIface, mgmt)]) cfg)))"

definition add_server :: "wobj \<Rightarrow> vlab_create \<Rightarrow> vlab_create result" where
  "add_server x cfg =
     (let name = wo_Name x; anns = wo_Annotations x in
     if vm_exists name cfg then Inl (Errf ''duplicate VM name (server): %q'' [name])
     else ebind (ewrap ''failed to add passthrough links for server %q'' [name] (addPassthroughLinks name anns cfg)) (\<lambda>(_, cfg).
     if isHardware anns then Inr (cfg\<lparr>vk_hw := name # vk_hw cfg\<rparr>)
     else Inr (add_vm name (new_vm VMTypeServer [(''enp2s0'', NICTypeUsernet)]) cfg)))"

definition SwitchProfileVS :: string where "SwitchProfileVS = ''vs''"
definition SwitchProfileVSCLSP :: string where "SwitchProfileVSCLSP = ''vs-clsp''"
definition SwitchProfileCmlsVX :: string where "SwitchProfileCmlsVX = ''cumulus-vx''"

definition add_switch :: "wobj \<times> switch_spec \<Rightarrow> vlab_create \<Rightarrow> vlab_create result" where
  "add_switch s cfg =
     (let (x, sw) = s; name = wo_Name x; anns = wo_Annotations x in
     if vm_exists name cfg then Inl (Errf ''duplicate VM name (switch): %q'' [name])
     else ebind (ewrap ''failed to add passthrough links for switch %q'' [name] (addPassthroughLinks name anns cfg)) (\<lambda>(links, cfg).
     if isHardware anns then Inr (cfg\<lparr>vk_hw := name # vk_hw cfg\<rparr>)
     else if ss_Profile sw \<notin> {SwitchProfileVS, SwitchProfileVSCLSP, SwitchProfileCmlsVX}
     then Inl (Errf ''switch %q has unsupported profile: %q'' [name, ss_Profile sw])
     else if ss_BootMAC sw = '''' then Inl (Errf ''switch %q has no MAC'' [name])
     else Inr (add_vm name
       \<lparr>vm_Type = VMTypeSwitch,
        vm_SwitchMode = (if ss_Profile sw = SwitchProfileCmlsVX then VMSwitchModeImage else VMSwitchModeONIE),
        vm_SwitchProfile = ss_Profile sw,
        vm_NICs = [(''M1'', port_nic (name @ ''/M1'') (nic_cfg NICTypeManagement (ss_BootMAC sw)) links)]\<rparr> cfg)))"

section \<open>Externals\<close>

definition external_vrf :: "32 word \<Rightarrow> wobj \<times> ext_spec \<Rightarrow> ext_vrf_cfg result" where
  "external_vrf tableID e =
     (let (x, ext) = e;
          vrf = \<lparr>evc_IsStatic = False, evc_TableID = tableID, evc_ASN = 0, evc_InCommunity = '''', evc_OutCommunity = '''',
            evc_Prefixes = [], evc_GatewayIPs = [], evc_SwitchIP = '''', evc_NICName = '''', evc_NATPoolCIDR = ''''\<rparr> in
     case es_Static ext of
       None \<Rightarrow> Inr (vrf\<lparr>evc_ASN := getAsn (wo_Annotations x), evc_InCommunity := es_Outbound ext, evc_OutCommunity := es_Inbound ext\<rparr>)
     | Some prefixes \<Rightarrow>
       (let cidr = (case map_of (wo_Annotations x) extStaticNATPoolAnnotation of Some c \<Rightarrow> c | None \<Rightarrow> '''') in
        ebind (if cidr = '''' then Inr ''''
               else ebind (ewrap ''invalid %s annotation on external %q: %q'' [extStaticNATPoolAnnotation, wo_Name x, cidr] (parse_prefix cidr)) (\<lambda>p.
                 if \<not> addr_is4 (pf_addr p) \<or> pf_bits p \<noteq> 24
                 then Inl (Errf ''invalid %s annotation on external %q: %q: must be an IPv4 /24 prefix''
                   [extStaticNATPoolAnnotation, wo_Name x, cidr])
                 else Inr (prefix_string (prefix_masked p)))) (\<lambda>pool.
        Inr (vrf\<lparr>evc_IsStatic := True, evc_Prefixes := prefixes, evc_NATPoolCIDR := pool\<rparr>))))"

definition add_external :: "wobj \<times> ext_spec \<Rightarrow> 32 word \<times> vlab_create \<Rightarrow> (32 word \<times> vlab_create) result" where
  "add_external e st =
     (let (tableID, cfg) = st; name = wo_Name (fst e) in
     if isHardware (wo_Annotations (fst e)) then Inr (tableID, cfg\<lparr>vk_hwExternals := name # vk_hwExternals cfg\<rparr>)
     else if map_of (vc_VRFs cfg) name \<noteq> None then Inl (Errf ''duplicate external VRF name: %q'' [name])
     else ebind (external_vrf tableID e) (\<lambda>vrf. Inr (tableID + 1, cfg\<lparr>vc_VRFs := map_put name vrf (vc_VRFs cfg)\<rparr>)))"

definition add_externals :: "(wobj \<times> ext_spec) list \<Rightarrow> vlab_create \<Rightarrow> vlab_create result" where
  "add_externals exts cfg =
     (if vm_exists ExternalVMName cfg then Inl (Errf ''VM name %s is reserved for externals'' [ExternalVMName])
      else ebind (efold add_external exts (1000, add_vm ExternalVMName (new_vm VMTypeExternal [(''enp2s0'', NICTypeUsernet)]) cfg))
        (\<lambda>(_, cfg). Inr cfg))"

section \<open>Links\<close>

text \<open>The part after the separator of a port; there is none where the port has no separator.\<close>

definition port_parts :: "string \<Rightarrow> (string \<times> string) result" where
  "port_parts p = (case split2 (CHR ''/'') p of [d, nic] \<Rightarrow> Inr (d, nic)
     | _ \<Rightarrow> Inl (Panic ''runtime error: index out of range [1] with length 1''))"

definition put_nic :: "string \<Rightarrow> string \<Rightarrow> string \<Rightarrow> vlab_create \<Rightarrow> vlab_create" where
  "put_nic name nic v cfg =
     (case map_of (vc_VMs cfg) name of
        Some vm \<Rightarrow> add_vm name (vm\<lparr>vm_NICs := map_put nic v (vm_NICs vm)\<rparr>) cfg
      | None \<Rightarrow> cfg)"

definition nic_used :: "string \<Rightarrow> string \<Rightarrow> vlab_create \<Rightarrow> bool" where
  "nic_used name nic cfg \<longleftrightarrow> (case map_of (vc_VMs cfg) name of Some vm \<Rightarrow> map_of (vm_NICs vm) nic \<noteq> None | None \<Rightarrow> False)"

definition is_control_vm :: "string \<Rightarrow> vlab_create \<Rightarrow> bool" where
  "is_control_vm name cfg \<longleftrightarrow> (case map_of (vc_VMs cfg) name of Some vm \<Rightarrow> vm_Type vm = VMTypeControl | None \<Rightarrow> False)"

definition addLink :: "string \<Rightarrow> string \<Rightarrow> vlab_create \<Rightarrow> vlab_create result" where
  "addLink from to cfg =
     ebind (port_parts from) (\<lambda>(fromName, fromNIC).
     ebind (port_parts to) (\<lambda>(toName, toNIC).
     let fromHW = fromName \<in> set (vk_hw cfg); toHW = toName \<in> set (vk_hw cfg) in
     if fromHW \<and> toHW then Inr cfg
     else if \<not> fromHW \<and> \<not> vm_exists fromName cfg then Inl (Errf ''VM %s not found'' [fromName])
     else if \<not> toHW \<and> \<not> vm_exists toName cfg then Inl (Errf ''VM %s not found'' [toName])
     else if is_control_vm fromName cfg \<or> is_control_vm toName cfg then Inl (Errf ''control VMs can't have links from wiring'' [])
     else if \<not> fromHW \<and> \<not> toHW then
       (if nic_used fromName fromNIC cfg then Inl (Errf ''NIC %s/%s is already in use'' [fromName, fromNIC])
        else if nic_used toName toNIC cfg then Inl (Errf ''NIC %s/%s is already in use'' [toName, toNIC])
        else Inr (put_nic toName toNIC (nic_cfg NICTypeDirect from) (put_nic fromName fromNIC (nic_cfg NICTypeDirect to) cfg)))
     else if fromHW then
       (case map_of (vk_passthrough cfg) from of
          None \<Rightarrow> Inl (Errf ''missing passthrough link for %s'' [from])
        | Some pci \<Rightarrow> Inr (put_nic toName toNIC (nic_cfg NICTypePassthrough pci) cfg))
     else
       (case map_of (vk_passthrough cfg) to of
          None \<Rightarrow> Inl (Errf ''missing passthrough link for %s'' [to])
        | Some pci \<Rightarrow> Inr (put_nic fromName fromNIC (nic_cfg NICTypePassthrough pci) cfg))))"

definition addLinks :: "string \<Rightarrow> string \<Rightarrow> (string \<times> string) list \<Rightarrow> vlab_create \<Rightarrow> vlab_create result" where
  "addLinks what name links cfg =
     efold (\<lambda>(from, to) cfg. ewrap what [name] (addLink from to cfg)) links cfg"

definition srv_ends :: "srv_link list \<Rightarrow> (string \<times> string) list" where
  "srv_ends ls = map (\<lambda>l. (sl_Server l, sl_Switch l)) ls"

definition p2p_ends :: "p2p_link list \<Rightarrow> (string \<times> string) list" where
  "p2p_ends ls = map (\<lambda>l. (le_Port (ln_A l), le_Port (ln_B l))) ls"

section \<open>Attachments of the externals\<close>

record attach_state = vlab_create +
  at_NIC :: ext_nic_cfg
  at_tagged :: bool
  at_untagged :: bool

definition static_attach :: "string \<Rightarrow> ext_attach \<Rightarrow> ext_vrf_cfg \<Rightarrow> (ext_vrf_cfg \<times> ext_attach_cfg) result" where
  "static_attach nicName ea vrf =
     (case ea_Static ea of
        None \<Rightarrow> Inl (Panic ''runtime error: invalid memory address or nil pointer dereference'')
      | Some st \<Rightarrow>
        ebind (ewrap ''failed to parse static external remote IP %q'' [xs_RemoteIP st] (parse_prefix (xs_RemoteIP st @ ''/24''))) (\<lambda>p.
        let vrf = vrf\<lparr>evc_GatewayIPs := [prefix_string (prefix_masked p)]\<rparr> in
        ebind (if xs_IP st \<noteq> ''''
               then ebind (ewrap ''failed to parse static external switch IP %q'' [xs_IP st] (parse_prefix (xs_IP st)))
                 (\<lambda>q. Inr (vrf\<lparr>evc_SwitchIP := addr_string (pf_addr q)\<rparr>))
               else Inr vrf) (\<lambda>vrf.
        Inr (vrf\<lparr>evc_NICName := (if xs_VLAN st \<noteq> 0 then nicName @ ''.'' @ itoa (unat (xs_VLAN st)) else nicName)\<rparr>,
          \<lparr>eac_IsStatic = True, eac_Prefix = xs_RemoteIP st @ ''/24'', eac_NeighborIP = '''', eac_NeighborASN = '''',
           eac_Vlan = xs_VLAN st, eac_VRF = ea_External ea\<rparr>))))"

definition find_switch :: "string \<Rightarrow> string \<Rightarrow> wobj list \<Rightarrow> switch_spec result" where
  "find_switch ns name wiring =
     (case List.find (\<lambda>x. wkind (wo_Spec x) = ''Switch'' \<and> wo_Namespace x = ns \<and> wo_Name x = name) wiring of
        Some x \<Rightarrow> (case wo_Spec x of SwitchObj sw \<Rightarrow> Inr sw | _ \<Rightarrow> Inl (ErrNotFound name))
      | None \<Rightarrow> Inl (ErrNotFound name))"

definition bgp_attach :: "wobj list \<Rightarrow> string \<Rightarrow> wobj \<Rightarrow> string \<Rightarrow> ext_attach \<Rightarrow> ext_vrf_cfg \<Rightarrow> (ext_vrf_cfg \<times> ext_attach_cfg) result" where
  "bgp_attach wiring switchName conn name ea vrf =
     ebind (if evc_ASN vrf = 0 then Inr (vrf\<lparr>evc_ASN := ea_ASN ea\<rparr>)
            else if evc_ASN vrf \<noteq> ea_ASN ea
            then Inl (Errf ''external attachment %q has inconsistent ASN: connection %q, attach ASN %d, previously known ASN %d''
              [name, wo_Name conn, itoa (unat (ea_ASN ea)), itoa (unat (evc_ASN vrf))])
            else Inr vrf) (\<lambda>vrf.
     ebind (ewrap ''failed to get switch %q'' [switchName] (find_switch (wo_Namespace conn) switchName wiring)) (\<lambda>sw.
     ebind (ewrap ''failed to parse switch IP %q'' [ea_IP ea] (parse_prefix (ea_IP ea))) (\<lambda>fabSwitchPrefix.
     ebind (ewrap ''failed to parse virtual external IP %q'' [ea_NeighborIP ea] (parse_addr (ea_NeighborIP ea))) (\<lambda>extAddr.
     Inr (vrf, \<lparr>eac_IsStatic = False, eac_Prefix = prefix_string (prefix_from extAddr (pf_bits fabSwitchPrefix)),
       eac_NeighborIP = addr_string (pf_addr fabSwitchPrefix), eac_NeighborASN = itoa (unat (ss_ASN sw)),
       eac_Vlan = ea_VLAN ea, eac_VRF = ea_External ea\<rparr>)))))"

definition attach_untagged :: "ext_attach \<Rightarrow> bool" where
  "attach_untagged ea \<longleftrightarrow> (case ea_Static ea of Some st \<Rightarrow> xs_VLAN st = 0 | None \<Rightarrow> ea_VLAN ea = 0)"

definition add_attach :: "wobj list \<Rightarrow> string \<Rightarrow> string \<Rightarrow> wobj \<Rightarrow> wobj \<times> ext_attach \<Rightarrow> attach_state \<Rightarrow> attach_state result" where
  "add_attach wiring switchName nicName conn a st =
     (let (x, ea) = a; extName = ea_External ea in
     if ea_Connection ea \<noteq> wo_Name conn then Inr st
     else if extName \<in> set (vk_hwExternals st)
     then Inl (Errf ''external attachment %q is for hardware external %q'' [wo_Name x, extName])
     else case map_of (vc_VRFs st) extName of
       None \<Rightarrow> Inl (Errf ''virtual external attachment %q has no associated VRF for the external %q'' [wo_Name x, extName])
     | Some vrf \<Rightarrow>
       ebind (if evc_IsStatic vrf then static_attach nicName ea vrf else bgp_attach wiring switchName conn (wo_Name x) ea vrf) (\<lambda>(vrf, cfg).
       let st = st\<lparr>vc_VRFs := map_put extName vrf (vc_VRFs st)\<rparr> in
       ebind (if attach_untagged ea
              then (if enc_Untagged (at_NIC st) \<noteq> None
                    then Inl (Errf ''multiple untagged attachments for the same virtual external %s'' [extName])
                    else Inr (st\<lparr>at_NIC := (at_NIC st)\<lparr>enc_Untagged := Some cfg\<rparr>, at_untagged := True\<rparr>))
              else Inr (st\<lparr>at_NIC := (at_NIC st)\<lparr>enc_Attachments := enc_Attachments (at_NIC st) @ [cfg]\<rparr>, at_tagged := True\<rparr>)) (\<lambda>st.
       if at_tagged st \<and> at_untagged st
       then Inl (Errf ''both tagged and untagged attachments for the same virtual external connection %s, this is not supported'' [wo_Name conn])
       else Inr st)))"

text \<open>An external connection: with attachments to virtual externals it becomes a link to their VM.\<close>

definition add_external_conn :: "wobj list \<Rightarrow> (wobj \<times> ext_attach) list \<Rightarrow> wobj \<Rightarrow> string \<Rightarrow> vlab_create \<Rightarrow> vlab_create result" where
  "add_external_conn wiring attachs conn port cfg =
     (let mine = filter (\<lambda>a. ea_Connection (snd a) = wo_Name conn) attachs;
          hwExt = list_ex (\<lambda>a. ea_External (snd a) \<in> set (vk_hwExternals cfg)) mine;
          virtExt = list_ex (\<lambda>a. ea_External (snd a) \<notin> set (vk_hwExternals cfg)) mine in
     if hwExt \<and> virtExt
     then Inl (Errf ''external connection %q has both hardware and virtual external attachments'' [wo_Name conn])
     else if \<not> virtExt then Inr cfg
     else if vk_externalID cfg > MaxExternalConns then Inl (Errf ''too many external connections'' [])
     else let switchName = device_of port; nicName = ''enp2s'' @ itoa (vk_externalID cfg);
              cfg = cfg\<lparr>vk_externalID := vk_externalID cfg + 1\<rparr> in
     ebind (ewrap ''failed to add link for virtual external connection %q'' [wo_Name conn]
       (addLink port (ExternalVMName @ ''/'' @ nicName) cfg)) (\<lambda>cfg.
     ebind (efold (add_attach wiring switchName nicName conn) attachs
       (vlab_create.extend cfg (attach_state.fields \<lparr>enc_Attachments = [], enc_Untagged = None\<rparr> False False))) (\<lambda>st.
     Inr ((vlab_create.truncate st)\<lparr>vc_NICs := map_put nicName (at_NIC st) (vc_NICs st)\<rparr>))))"

definition add_conn :: "wobj list \<Rightarrow> (wobj \<times> ext_attach) list \<Rightarrow> wobj \<times> conn_spec \<Rightarrow> vlab_create \<Rightarrow> vlab_create result" where
  "add_conn wiring attachs c cfg =
     (let (x, spec) = c; name = wo_Name x in
     case spec of
       ConnFabric ls \<Rightarrow> addLinks ''failed to add link for fabric connection %s'' name (p2p_ends ls) cfg
     | ConnMesh ls \<Rightarrow> addLinks ''failed to add link for mesh connection %s'' name (p2p_ends ls) cfg
     | ConnGateway ls \<Rightarrow> addLinks ''failed to add link for gateway connection %s'' name (p2p_ends ls) cfg
     | ConnUnbundled l \<Rightarrow> addLinks ''failed to add link for unbundled connection %s'' name (srv_ends [l]) cfg
     | ConnBundled ls \<Rightarrow> addLinks ''failed to add link for bundled connection %s'' name (srv_ends ls) cfg
     | ConnMCLAG ls \<Rightarrow> addLinks ''failed to add link for MCLAG connection %s'' name (srv_ends ls) cfg
     | ConnESLAG ls \<Rightarrow> addLinks ''failed to add link for ESLAG connection %s'' name (srv_ends ls) cfg
     | ConnVPCLoopback ls \<Rightarrow> addLinks ''failed to add link for VPC loopback connection %s'' name (p2p_ends ls) cfg
     | ConnMCLAGDomain ses peer \<Rightarrow>
         ebind (addLinks ''failed to add session link for MCLAG domain connection %s'' name (p2p_ends ses) cfg) (\<lambda>cfg.
         addLinks ''failed to add peer link for MCLAG domain connection %s'' name (p2p_ends peer) cfg)
     | ConnExternal port \<Rightarrow> add_external_conn wiring attachs x port cfg
     | ConnStaticExternal _ \<Rightarrow> Inr cfg)"

section \<open>The configuration\<close>

definition list_kind :: "(wspec \<Rightarrow> 'a option) \<Rightarrow> wobj list \<Rightarrow> (wobj \<times> 'a) list" where
  "list_kind f wiring = List.map_filter (\<lambda>x. map_option (Pair x) (f (wo_Spec x))) wiring"

fun as_server :: "wspec \<Rightarrow> unit option" where
  "as_server (ServerObj _) = Some ()" | "as_server _ = None"

fun as_switch :: "wspec \<Rightarrow> switch_spec option" where
  "as_switch (SwitchObj s) = Some s" | "as_switch _ = None"

fun as_conn :: "wspec \<Rightarrow> conn_spec option" where
  "as_conn (ConnObj c) = Some c" | "as_conn _ = None"

fun as_external :: "wspec \<Rightarrow> ext_spec option" where
  "as_external (ExternalObj e) = Some e" | "as_external _ = None"

fun as_attach :: "wspec \<Rightarrow> ext_attach option" where
  "as_attach (ExternalAttachObj a) = Some a" | "as_attach _ = None"

definition by_name :: "(wobj \<times> 'a) list \<Rightarrow> (wobj \<times> 'a) list" where
  "by_name xs = sort_key (\<lambda>x. wo_Name (fst x)) xs"

definition empty_create :: vlab_create where
  "empty_create = \<lparr>vc_VMs = [], vc_NICs = [], vc_VRFs = [], vk_hw = [], vk_passthrough = [], vk_usedPassthroughs = [],
     vk_hwExternals = [], vk_externalID = 1\<rparr>"

definition drop_external_vm :: "vlab_create \<Rightarrow> vlab_create" where
  "drop_external_vm cfg =
     (case map_of (vc_VMs cfg) ExternalVMName of
        Some vm \<Rightarrow> if length (vm_NICs vm) = 1 then cfg\<lparr>vc_VMs := filter (\<lambda>(n, _). n \<noteq> ExternalVMName) (vc_VMs cfg)\<rparr> else cfg
      | None \<Rightarrow> cfg)"

definition create_vms :: "(control_node \<times> string gomap) list \<Rightarrow> (fab_node \<times> string gomap) list \<Rightarrow> wobj list \<Rightarrow> vlab_create result" where
  "create_vms controls nodes wiring =
     ebind (efold add_control controls empty_create) (\<lambda>cfg.
     ebind (efold add_node nodes cfg) (\<lambda>cfg.
     ebind (efold (\<lambda>x. add_server (fst x)) (by_name (list_kind as_server wiring)) cfg) (\<lambda>cfg.
     ebind (add_externals (list_kind as_external wiring) cfg) (\<lambda>cfg.
     efold add_switch (by_name (list_kind as_switch wiring)) cfg))))"

definition createVLABConfig :: "(control_node \<times> string gomap) list \<Rightarrow> (fab_node \<times> string gomap) list \<Rightarrow> wobj list \<Rightarrow> vlab_config result" where
  "createVLABConfig controls nodes wiring =
     ebind (create_vms controls nodes wiring) (\<lambda>cfg.
     ebind (efold (add_conn wiring (list_kind as_attach wiring)) (by_name (list_kind as_conn wiring)) cfg) (\<lambda>cfg.
     Inr (vlab_config.truncate (drop_external_vm cfg))))"

end
