(* ===== verification/VlabRun.thy ===== *)
theory VlabRun
  imports VlabConfig
begin

text \<open>
  From the configuration of a virtual lab to its VMs (\<^verbatim>\<open>vlabFromConfig\<close> and the checks of
  \<^verbatim>\<open>PrepareVLAB\<close> in \<^verbatim>\<open>pkg/hhfab/vlabconfig.go\<close>): the order of the VMs, the PCI slots of their NICs, and the
  sockets and devices the NICs are connected to. A Go map is iterated in the order of the association
  list.
\<close>

section \<open>NIC numbers\<close>

definition srvPrefix :: string where "srvPrefix = ''enp2s''"
definition swMPrefix :: string where "swMPrefix = ''M1''"
definition swEPrefix :: string where "swEPrefix = ''E1/''"
definition gwPrefix :: string where "gwPrefix = ''port''"

text \<open>The expression \<^verbatim>\<open>^enp2s\\d+np\\d+$\<close>: what follows the prefix is digits, \<^verbatim>\<open>np\<close> and digits.\<close>

definition devlink_digits :: "string \<Rightarrow> string option" where
  "devlink_digits rest =
     (let ds = takeWhile is_digit rest; r = drop (length ds) rest in
      if ds \<noteq> [] \<and> has_prefix r ''np'' \<and> drop 2 r \<noteq> [] \<and> list_all is_digit (drop 2 r) then Some ds else None)"

definition getNICID :: "string \<Rightarrow> nat result" where
  "getNICID nic =
     (if nic = swMPrefix then Inr 0
      else if has_prefix nic srvPrefix then
        (let rest = drop (length srvPrefix) nic; raw = (case devlink_digits rest of Some ds \<Rightarrow> ds | None \<Rightarrow> rest) in
         ewrap ''parsing NIC ID %q'' [srvPrefix @ raw] (parse_uint raw 8))
      else if has_prefix nic swEPrefix then ewrap ''parsing NIC ID %q'' [nic] (parse_uint (drop (length swEPrefix) nic) 8)
      else if has_prefix nic gwPrefix then ewrap ''parsing NIC ID %q'' [nic] (parse_uint (drop (length gwPrefix) nic) 8)
      else Inl (Errf ''invalid NIC ID %q'' [nic]))"

definition VLABNICsPerPCIBridge :: nat where "VLABNICsPerPCIBridge = 32"
definition VLABPCIBridges :: nat where "VLABPCIBridges = 2"
definition VLABMaxNICs :: nat where "VLABMaxNICs = VLABNICsPerPCIBridge * VLABPCIBridges"
definition VLABBaseSSHPort :: nat where "VLABBaseSSHPort = 22000"
definition VLABBaseDirectPort :: nat where "VLABBaseDirectPort = 22100"

definition getDirectNICPort :: "nat \<Rightarrow> nat \<Rightarrow> nat" where
  "getDirectNICPort vmID nicID = VLABBaseDirectPort + 100 * vmID + nicID"

definition getSSHPort :: "nat \<Rightarrow> nat" where "getSSHPort vmID = VLABBaseSSHPort + vmID"

section \<open>Data\<close>

record vm_size =
  sz_CPU :: nat
  sz_RAM :: nat
  sz_Disk :: nat

record vm_sizes =
  sz_Control :: vm_size
  sz_Switch :: vm_size
  sz_Server :: vm_size
  sz_Gateway :: vm_size
  sz_External :: vm_size

definition DefaultSizes :: vm_sizes where
  "DefaultSizes =
     \<lparr>sz_Control = \<lparr>sz_CPU = 6, sz_RAM = 6144, sz_Disk = 100\<rparr>,
      sz_Switch = \<lparr>sz_CPU = 4, sz_RAM = 5120, sz_Disk = 50\<rparr>,
      sz_Server = \<lparr>sz_CPU = 2, sz_RAM = 768, sz_Disk = 14\<rparr>,
      sz_Gateway = \<lparr>sz_CPU = 8, sz_RAM = 6144, sz_Disk = 50\<rparr>,
      sz_External = \<lparr>sz_CPU = 4, sz_RAM = 5120, sz_Disk = 50\<rparr>\<rparr>"

record vlab_vm =
  lv_ID :: nat
  lv_Name :: string
  lv_Type :: vm_type
  lv_SwitchMode :: vm_switch_mode
  lv_SwitchProfile :: string
  lv_NICs :: "string list"
  lv_Size :: vm_size

record vlab_opts =
  lo_ControlsRestricted :: bool
  lo_ServersRestricted :: bool

record vlab =
  lb_VMs :: "vlab_vm list"
  lb_Taps :: nat
  lb_Passthroughs :: "string list"

section \<open>The NICs of a VM\<close>

definition vm_order :: "vm_config gomap \<Rightarrow> string list" where
  "vm_order vms = sort_key (\<lambda>n. (case map_of vms n of Some vm \<Rightarrow> vm_Type vm | None \<Rightarrow> '''', n)) (map fst vms)"

fun index_of :: "'a \<Rightarrow> 'a list \<Rightarrow> nat option" where
  "index_of x [] = None"
| "index_of x (y # ys) = (if x = y then Some 0 else map_option Suc (index_of x ys))"

text \<open>The configurations by number; a later one takes the place of one with the same number.\<close>

definition nics_by_id :: "string gomap \<Rightarrow> (nat \<times> string) list result" where
  "nics_by_id nics = efold (\<lambda>(n, cfg) m.
     ebind (ewrap ''getting NIC ID for %q'' [n] (getNICID n)) (\<lambda>i. Inr (map_put i cfg m))) nics []"

definition max_nic :: "(nat \<times> string) list \<Rightarrow> nat" where
  "max_nic m = fold max (map fst m) 0"

definition padded_nics :: "string \<Rightarrow> string gomap \<Rightarrow> string list result" where
  "padded_nics name nics =
     ebind (nics_by_id nics) (\<lambda>m.
     if max_nic m \<ge> VLABMaxNICs then Inl (Errf ''too many NICs for VM %q: %d'' [name, itoa (length m)])
     else Inr (map (\<lambda>i. case map_of m i of Some nic \<Rightarrow> nic | None \<Rightarrow> NICTypeNoop) [0..<Suc (max_nic m)]))"

record nic_state =
  ns_Taps :: nat
  ns_Passthroughs :: "string list"
  ns_ControlID :: nat
  ns_Usernet :: nat

definition nic_mac :: "nat \<Rightarrow> nat \<Rightarrow> string" where
  "nic_mac vmID nicID = ''0c:20:12:fe:'' @ hex2 vmID @ '':'' @ hex2 nicID"

text \<open>The socket of a NIC: it sends to the port numbered after itself and is bound to the one numbered after the other end.\<close>

definition direct_netdev :: "nat \<Rightarrow> nat \<Rightarrow> string" where
  "direct_netdev port otherPort = ''socket,udp=127.0.0.1:'' @ itoa port @ '',localaddr=127.0.0.1:'' @ itoa otherPort"

definition usernet_netdev :: "vlab_opts \<Rightarrow> string \<Rightarrow> vm_config \<Rightarrow> nat \<Rightarrow> nat \<Rightarrow> string" where
  "usernet_netdev opts name vm vmID controlID =
     ''user,hostname='' @ name @ '',hostfwd=tcp:0.0.0.0:'' @ itoa (getSSHPort vmID) @ ''-:22,net=172.31.'' @ itoa vmID @
     ''.0/24,dhcpstart=172.31.'' @ itoa vmID @ ''.10'' @
     (if vm_Type vm = VMTypeControl \<and> controlID = 0
      then '',hostfwd=tcp:0.0.0.0:6443-:6443,hostfwd=tcp:0.0.0.0:31000-:31000'' else '''') @
     (if vm_Type vm = VMTypeControl \<and> lo_ControlsRestricted opts \<or> vm_Type vm = VMTypeServer \<and> lo_ServersRestricted opts
      then '',restrict=yes'' else '''')"

text \<open>The network device, the MAC and the passed through device of a NIC.\<close>

definition nic_backend :: "vlab_opts \<Rightarrow> string list \<Rightarrow> string \<Rightarrow> vm_config \<Rightarrow> nat \<Rightarrow> nat \<Rightarrow> string \<Rightarrow> nic_state \<Rightarrow>
    ((string \<times> string \<times> string) \<times> nic_state) result" where
  "nic_backend opts order name vm vmID nicID raw st =
     (let mac = nic_mac vmID nicID; parts = split2 (CHR '':'') raw; nicType = hd parts;
          nicCfg = (if length parts > 1 then parts ! 1 else ''''); port = getDirectNICPort vmID nicID in
     if nicType = NICTypeNoop then Inr ((''socket,listen=127.0.0.1:'' @ itoa port, mac, ''''), st)
     else if nicType = NICTypeDirect then
       (if nicCfg = ''''
        then Inl (Errf ''missing NIC config for direct NIC %d of VM %q, nicCfgRaw: %q'' [itoa nicID, name, raw])
        else case split2 (CHR ''/'') nicCfg of
          [otherVM, otherNIC] \<Rightarrow>
            (case index_of otherVM order of
               None \<Rightarrow> Inl (Errf ''unknown VM %q in NIC config %q for VM %q'' [otherVM, nicCfg, name])
             | Some otherVMID \<Rightarrow>
                 ebind (ewrap ''getting NIC ID for %q'' [nicCfg] (getNICID otherNIC)) (\<lambda>otherNICID.
                 Inr ((direct_netdev port (getDirectNICPort otherVMID otherNICID), mac, ''''), st)))
        | _ \<Rightarrow> Inl (Errf ''invalid NIC config %q for VM %q'' [nicCfg, name]))
     else if nicType = NICTypeUsernet then
       (if ns_Usernet st > 0 then Inl (Errf ''multiple usernet NICs for VM %q'' [name])
        else Inr ((usernet_netdev opts name vm vmID (ns_ControlID st), mac, ''''), st\<lparr>ns_Usernet := ns_Usernet st + 1\<rparr>))
     else if nicType = NICTypeManagement then
       Inr ((''tap,ifname=hhtap'' @ itoa (ns_Taps st) @ '',script=no,downscript=no'', if nicCfg \<noteq> '''' then nicCfg else mac, ''''),
         st\<lparr>ns_Taps := ns_Taps st + 1\<rparr>)
     else if nicType = NICTypePassthrough then
       (if nicCfg = '''' then Inl (Errf ''missing NIC config for passthrough NIC %d of VM %q'' [itoa nicID, name])
        else Inr (('''', mac, ''vfio-pci,host='' @ nicCfg), st\<lparr>ns_Passthroughs := ns_Passthroughs st @ [nicCfg]\<rparr>))
     else Inl (Errf ''unknown NIC type %q for VM %q'' [nicType, name]))"

definition nic_args :: "vm_config \<Rightarrow> nat \<Rightarrow> string \<times> string \<times> string \<Rightarrow> string" where
  "nic_args vm nicID be =
     (let (netdev, mac, device) = be;
          netdev = (if netdev \<noteq> '''' then netdev @ '',id=eth'' @ pad2 nicID else netdev);
          nic = (if vm_Type vm = VMTypeSwitch \<and> vm_SwitchMode vm = VMSwitchModeImage then ''virtio-net-pci'' else ''e1000'');
          device = (if device = '''' then nic @ '',netdev=eth'' @ pad2 nicID @ '',mac='' @ mac else device) @
            '',bus=pcibr'' @ itoa (nicID div VLABNICsPerPCIBridge) @ '',addr=0x'' @ hex_string (nicID mod VLABNICsPerPCIBridge) in
      (if netdev \<noteq> '''' then ''-netdev '' @ netdev @ '' '' else '''') @ ''-device '' @ device)"

definition vm_nic :: "vlab_opts \<Rightarrow> string list \<Rightarrow> string \<Rightarrow> vm_config \<Rightarrow> nat \<Rightarrow> nat \<times> string \<Rightarrow> string list \<times> nic_state \<Rightarrow>
    (string list \<times> nic_state) result" where
  "vm_nic opts order name vm vmID nic acc =
     ebind (nic_backend opts order name vm vmID (fst nic) (snd nic) (snd acc)) (\<lambda>(be, st).
     Inr (fst acc @ [nic_args vm (fst nic) be], st))"

definition vm_size_of :: "vm_sizes \<Rightarrow> vm_config \<Rightarrow> vm_size" where
  "vm_size_of sizes vm =
     (let size = (if vm_Type vm = VMTypeSwitch then sz_Switch sizes
                  else if vm_Type vm = VMTypeControl then sz_Control sizes
                  else if vm_Type vm = VMTypeGateway then sz_Gateway sizes
                  else if vm_Type vm = VMTypeServer then sz_Server sizes
                  else if vm_Type vm = VMTypeExternal then sz_External sizes
                  else \<lparr>sz_CPU = 0, sz_RAM = 0, sz_Disk = 0\<rparr>)
      in if vm_SwitchProfile vm = SwitchProfileVSCLSP then size\<lparr>sz_RAM := sz_RAM size + 1024\<rparr> else size)"

definition add_lab_vm :: "vm_sizes \<Rightarrow> vlab_opts \<Rightarrow> vm_config gomap \<Rightarrow> string list \<Rightarrow> nat \<times> string \<Rightarrow> vlab_vm list \<times> nic_state \<Rightarrow>
    (vlab_vm list \<times> nic_state) result" where
  "add_lab_vm sizes opts vms order v acc =
     (let (vmID, name) = v in
     case map_of vms name of
       None \<Rightarrow> Inr acc
     | Some vm \<Rightarrow>
       ebind (padded_nics name (vm_NICs vm)) (\<lambda>padded.
       ebind (efold (vm_nic opts order name vm vmID) (enumerate 0 padded) ([], (snd acc)\<lparr>ns_Usernet := 0\<rparr>)) (\<lambda>(nics, st).
       let st = (if vm_Type vm = VMTypeControl then st\<lparr>ns_ControlID := ns_ControlID st + 1\<rparr> else st) in
       Inr (fst acc @ [\<lparr>lv_ID = vmID, lv_Name = name, lv_Type = vm_Type vm, lv_SwitchMode = vm_SwitchMode vm,
         lv_SwitchProfile = vm_SwitchProfile vm, lv_NICs = nics, lv_Size = vm_size_of sizes vm\<rparr>], st))))"

definition vlabFromConfig :: "vm_sizes \<Rightarrow> vlab_opts \<Rightarrow> vm_config gomap \<Rightarrow> vlab result" where
  "vlabFromConfig sizes opts vms =
     (let order = vm_order vms in
     ebind (efold (add_lab_vm sizes opts vms order) (enumerate 0 order)
       ([], \<lparr>ns_Taps = 0, ns_Passthroughs = [], ns_ControlID = 0, ns_Usernet = 0\<rparr>)) (\<lambda>(lab, st).
     Inr \<lparr>lb_VMs = lab, lb_Taps = ns_Taps st, lb_Passthroughs = ns_Passthroughs st\<rparr>))"

section \<open>Preparing a lab\<close>

text \<open>\<^verbatim>\<open>mergo.Merge\<close> fills the fields that are zero.\<close>

definition merge_size :: "vm_size \<Rightarrow> vm_size \<Rightarrow> vm_size" where
  "merge_size d s = \<lparr>sz_CPU = (if sz_CPU d = 0 then sz_CPU s else sz_CPU d), sz_RAM = (if sz_RAM d = 0 then sz_RAM s else sz_RAM d),
     sz_Disk = (if sz_Disk d = 0 then sz_Disk s else sz_Disk d)\<rparr>"

definition merge_sizes :: "vm_sizes \<Rightarrow> vm_sizes \<Rightarrow> vm_sizes" where
  "merge_sizes d s =
     \<lparr>sz_Control = merge_size (sz_Control d) (sz_Control s), sz_Switch = merge_size (sz_Switch d) (sz_Switch s),
      sz_Server = merge_size (sz_Server d) (sz_Server s), sz_Gateway = merge_size (sz_Gateway d) (sz_Gateway s),
      sz_External = merge_size (sz_External d) (sz_External s)\<rparr>"

definition NICTypes :: "string list" where
  "NICTypes = [NICTypeNoop, NICTypeUsernet, NICTypeManagement, NICTypeDirect, NICTypePassthrough]"

definition check_nic :: "string \<Rightarrow> string \<times> string \<Rightarrow> unit result" where
  "check_nic name nic =
     ebind (ewrap ''getting NIC ID for %q'' [fst nic] (getNICID (fst nic))) (\<lambda>_.
     let nicType = hd (split2 (CHR '':'') (snd nic)) in
     if nicType \<notin> set NICTypes then Inl (Errf ''invalid NIC type %q for NIC %q of VM %q'' [nicType, fst nic, name]) else Inr ())"

definition check_vm :: "string \<times> vm_config \<Rightarrow> unit result" where
  "check_vm v =
     (let (name, vm) = v in
     if vm_Type vm \<notin> set VMTypes then Inl (Errf ''invalid VM type %q for VM %q'' [vm_Type vm, name])
     else if vm_Type vm \<noteq> VMTypeSwitch \<and> vm_SwitchMode vm \<noteq> ''''
     then Inl (Errf ''non-switch VM %s should not have switch mode'' [name])
     else if vm_Type vm = VMTypeSwitch \<and> vm_SwitchMode vm \<notin> set VMSwitchModes
     then Inl (Errf ''invalid switch mode %q for switch VM %q'' [vm_SwitchMode vm, name])
     else efold (\<lambda>nic _. check_nic name nic) (vm_NICs vm) ())"

definition prepare_vms :: "vm_sizes \<Rightarrow> vm_sizes \<Rightarrow> vlab_opts \<Rightarrow> vm_config gomap \<Rightarrow> vlab result" where
  "prepare_vms overrides cfgSizes opts vms =
     ebind (efold (\<lambda>v _. check_vm v) vms ()) (\<lambda>_.
     ewrap ''creating VLAB'' [] (vlabFromConfig (merge_sizes (merge_sizes overrides cfgSizes) DefaultSizes) opts vms))"

definition bootstrap_disk :: "('a) node_base_scheme \<times> string gomap \<Rightarrow> ('a) node_base_scheme \<times> string gomap" where
  "bootstrap_disk n = (if isHardware (snd n) then n else ((fst n)\<lparr>nd_Disk := ''/dev/vda''\<rparr>, snd n))"

end
