(* ===== verification/VlabLinks.thy ===== *)
theory VlabLinks
  imports VlabRun
begin

text \<open>
  The links of a virtual lab: the NICs a configuration joins name each other, as long as no server or
  switch is hardware.
\<close>

section \<open>Ports\<close>

lemma port_parts_Inr: "port_parts p = Inr (d, n) \<longleftrightarrow> p = d @ CHR ''/'' # n \<and> CHR ''/'' \<notin> set d"
proof
  assume "port_parts p = Inr (d, n)"
  then have "split2 (CHR ''/'') p = [d, n]" by (auto simp: port_parts_def split: list.splits)
  then show "p = d @ CHR ''/'' # n \<and> CHR ''/'' \<notin> set d"
    by (auto simp: split2_def dropWhile_eq_Cons_conv split: list.splits dest: set_takeWhileD)
next
  assume "p = d @ CHR ''/'' # n \<and> CHR ''/'' \<notin> set d"
  then show "port_parts p = Inr (d, n)" by (simp add: port_parts_def split2_sep)
qed

definition nic_of :: "vm_config gomap \<Rightarrow> string \<Rightarrow> string \<Rightarrow> string option" where
  "nic_of vms a x = (case map_of vms a of Some vm \<Rightarrow> map_of (vm_NICs vm) x | None \<Rightarrow> None)"

definition direct_to :: "string \<Rightarrow> string \<Rightarrow> string" where
  "direct_to b y = nic_cfg NICTypeDirect (b @ CHR ''/'' # y)"

lemma direct_to_eq [simp]:
  assumes "CHR ''/'' \<notin> set b" "CHR ''/'' \<notin> set d"
  shows "direct_to b y = direct_to d z \<longleftrightarrow> b = d \<and> y = z"
proof -
  have "direct_to b y = direct_to d z \<longleftrightarrow> b @ CHR ''/'' # y = d @ CHR ''/'' # z" by (simp add: direct_to_def nic_cfg_def)
  also have "\<dots> \<longleftrightarrow> b = d \<and> y = z"
    by (metis assms split2_sep list.inject)
  finally show ?thesis .
qed

text \<open>A NIC that is joined directly is joined to one that is joined back.\<close>

definition links_paired :: "vm_config gomap \<Rightarrow> bool" where
  "links_paired vms \<longleftrightarrow> (\<forall>a x p. nic_of vms a x = Some (nic_cfg NICTypeDirect p) \<longrightarrow>
     CHR ''/'' \<notin> set a \<and> (\<exists>b y. CHR ''/'' \<notin> set b \<and> p = b @ CHR ''/'' # y \<and> nic_of vms b y = Some (direct_to a x)))"

lemma nic_of_add_vm:
  "nic_of (vc_VMs (add_vm name vm cfg)) a x = (if a = name then map_of (vm_NICs vm) x else nic_of (vc_VMs cfg) a x)"
  by (simp add: nic_of_def add_vm_def)

lemma nic_of_put_nic:
  "nic_of (vc_VMs (put_nic name nic v cfg)) a x =
     (if a = name \<and> x = nic \<and> vm_exists name cfg then Some v else nic_of (vc_VMs cfg) a x)"
  by (auto simp: put_nic_def nic_of_add_vm vm_exists_def split: option.split) (auto simp: nic_of_def)

lemma vm_exists_put_nic [simp]: "vm_exists a (put_nic name nic v cfg) = vm_exists a cfg"
  by (auto simp: put_nic_def add_vm_def vm_exists_def split: option.split)

lemma nic_used_iff: "nic_used a x cfg \<longleftrightarrow> nic_of (vc_VMs cfg) a x \<noteq> None"
  by (auto simp: nic_used_def nic_of_def split: option.split)

section \<open>Links of the wiring\<close>

text \<open>
  What links keep of the configuration: no hardware, paired links and, once the VM of the externals is there, its outside NIC.
\<close>

definition vlab_ok :: "bool \<Rightarrow> vlab_create \<Rightarrow> bool" where
  "vlab_ok ext cfg \<longleftrightarrow> vk_hw cfg = [] \<and> links_paired (vc_VMs cfg) \<and>
     (ext \<longrightarrow> nic_of (vc_VMs cfg) ExternalVMName ''enp2s0'' = Some NICTypeUsernet)"

lemma not_direct [simp]:
  "NICTypeUsernet \<noteq> nic_cfg NICTypeDirect p" "NICTypeManagement \<noteq> nic_cfg NICTypeDirect p"
  "nic_cfg NICTypeManagement q \<noteq> nic_cfg NICTypeDirect p" "nic_cfg NICTypePassthrough q \<noteq> nic_cfg NICTypeDirect p"
  by (simp_all add: NICTypeUsernet_def NICTypeManagement_def NICTypePassthrough_def NICTypeDirect_def nic_cfg_def)

lemma vk_hw_put_nic [simp]: "vk_hw (put_nic name nic v cfg) = vk_hw cfg"
  by (auto simp: put_nic_def add_vm_def split: option.split)

lemma links_paired_join:
  assumes "links_paired (vc_VMs cfg)" and "vm_exists a cfg" "vm_exists b cfg"
    and "nic_of (vc_VMs cfg) a x = None" "nic_of (vc_VMs cfg) b y = None"
    and "CHR ''/'' \<notin> set a" "CHR ''/'' \<notin> set b"
  shows "links_paired (vc_VMs (put_nic b y (direct_to a x) (put_nic a x (direct_to b y) cfg)))"
proof -
  let ?N = "nic_of (vc_VMs (put_nic b y (direct_to a x) (put_nic a x (direct_to b y) cfg)))"
  have N: "?N u z = (if u = b \<and> z = y then Some (direct_to a x) else if u = a \<and> z = x then Some (direct_to b y)
      else nic_of (vc_VMs cfg) u z)" for u z
    using assms(2,3) by (simp add: nic_of_put_nic)
  have dir: "direct_to c w = nic_cfg NICTypeDirect p \<longleftrightarrow> p = c @ CHR ''/'' # w" for c w p
    by (auto simp: direct_to_def nic_cfg_def)
  show ?thesis unfolding links_paired_def
  proof (intro allI impI)
    fix u z p
    assume p: "?N u z = Some (nic_cfg NICTypeDirect p)"
    consider "u = b" "z = y" | "(u, z) \<noteq> (b, y)" "u = a" "z = x" | "(u, z) \<noteq> (b, y)" "(u, z) \<noteq> (a, x)" by blast
    then show "CHR ''/'' \<notin> set u \<and> (\<exists>b y. CHR ''/'' \<notin> set b \<and> p = b @ CHR ''/'' # y \<and> ?N b y = Some (direct_to u z))"
    proof cases
      case 1
      with p have "p = a @ CHR ''/'' # x" by (simp add: N dir)
      with 1 assms(6,7) show ?thesis using N [of a x] by auto
    next
      case 2
      then have "?N u z = Some (direct_to b y)" by (auto simp: N)
      with p have "p = b @ CHR ''/'' # y" by (simp add: dir)
      with 2 assms(6,7) show ?thesis using N [of b y] by auto
    next
      case 3
      with p have "nic_of (vc_VMs cfg) u z = Some (nic_cfg NICTypeDirect p)" by (auto simp: N split: if_splits)
      with assms(1) obtain c w where c: "CHR ''/'' \<notin> set u" "CHR ''/'' \<notin> set c" "p = c @ CHR ''/'' # w"
        "nic_of (vc_VMs cfg) c w = Some (direct_to u z)" unfolding links_paired_def by blast
      then have "?N c w = Some (direct_to u z)" using assms(4,5) by (auto simp: N)
      with c show ?thesis by blast
    qed
  qed
qed

lemma addLink_ok:
  assumes "vlab_ok e cfg" and "addLink from to cfg = Inr cfg'"
  shows "vlab_ok e cfg'"
proof -
  from assms(2) obtain a x b y where p: "port_parts from = Inr (a, x)" "port_parts to = Inr (b, y)"
    by (auto simp: addLink_def ebind_Inr_iff)
  have hw: "vk_hw cfg = []" using assms(1) by (simp add: vlab_ok_def)
  from assms(2) p hw have *: "vm_exists a cfg" "vm_exists b cfg" "\<not> nic_used a x cfg" "\<not> nic_used b y cfg"
    "cfg' = put_nic b y (direct_to a x) (put_nic a x (direct_to b y) cfg)"
    by (auto simp: addLink_def Let_def direct_to_def port_parts_Inr split: if_splits)
  with assms(1) p links_paired_join [of cfg a b x y] show ?thesis
    by (auto simp: vlab_ok_def nic_used_iff port_parts_Inr nic_of_put_nic)
qed

lemma addLinks_ok: "vlab_ok e cfg \<Longrightarrow> addLinks what name links cfg = Inr cfg' \<Longrightarrow> vlab_ok e cfg'"
  unfolding addLinks_def
  by (erule efold_invariant) (auto simp: ewrap_Inr_iff intro: addLink_ok)

text \<open>Attachments change the settings of the externals only.\<close>

lemma add_attach_vms:
  "add_attach wiring sw nic conn a st = Inr st' \<Longrightarrow> vc_VMs st' = vc_VMs st \<and> vk_hw st' = vk_hw st"
  by (auto simp: add_attach_def Let_def ebind_Inr_iff split: prod.splits option.splits if_splits)

lemma vlab_ok_same: "vlab_ok e cfg \<Longrightarrow> vc_VMs cfg' = vc_VMs cfg \<Longrightarrow> vk_hw cfg' = vk_hw cfg \<Longrightarrow> vlab_ok e cfg'"
  by (simp add: vlab_ok_def vm_exists_def)

lemma add_external_conn_ok:
  assumes "vlab_ok e cfg" and "add_external_conn wiring attachs conn port cfg = Inr cfg'"
  shows "vlab_ok e cfg'"
proof (cases "cfg' = cfg")
  case False
  let ?c1 = "cfg\<lparr>vk_externalID := vk_externalID cfg + 1\<rparr>"
  from False assms(2) obtain c2 nic st where c: "addLink port (ExternalVMName @ ''/'' @ nic) ?c1 = Inr c2"
    and st: "efold (add_attach wiring (device_of port) nic conn) attachs
      (vlab_create.extend c2 (attach_state.fields \<lparr>enc_Attachments = [], enc_Untagged = None\<rparr> False False)) = Inr st"
    and cfg': "cfg' = (vlab_create.truncate st)\<lparr>vc_NICs := map_put nic (at_NIC st) (vc_NICs st)\<rparr>"
    by (auto simp: add_external_conn_def Let_def ebind_Inr_iff ewrap_Inr_iff split: if_splits)
  have "vlab_ok e c2" using addLink_ok [OF vlab_ok_same [OF assms(1)] c] by simp
  moreover have "vc_VMs st = vc_VMs c2 \<and> vk_hw st = vk_hw c2"
    by (rule efold_invariant [OF st]) (auto simp: vlab_create.defs attach_state.defs dest: add_attach_vms)
  ultimately show ?thesis unfolding cfg' by (auto simp: vlab_create.defs intro: vlab_ok_same)
qed (use assms in simp)

lemma add_conn_ok: "vlab_ok e cfg \<Longrightarrow> add_conn wiring attachs c cfg = Inr cfg' \<Longrightarrow> vlab_ok e cfg'"
  by (cases c; cases "snd c") (auto simp: add_conn_def Let_def ebind_Inr_iff intro: addLinks_ok add_external_conn_ok)

section \<open>The VMs\<close>

lemma addPassthroughLinks_vms:
  assumes "addPassthroughLinks name anns cfg = Inr (links, cfg')"
  shows "vc_VMs cfg' = vc_VMs cfg \<and> vk_hw cfg' = vk_hw cfg"
proof -
  from assms obtain ls where "efold (\<lambda>(k, v) cfg.
       if v \<in> set (vk_usedPassthroughs cfg) then Inl (Errf ''duplicate pci address: %q'' [v])
       else if map_of (vk_passthrough cfg) k \<noteq> None then Inl (Errf ''duplicate passthrough link: %q'' [k])
       else Inr (cfg\<lparr>vk_usedPassthroughs := v # vk_usedPassthroughs cfg, vk_passthrough := map_put k v (vk_passthrough cfg)\<rparr>))
       ls cfg = Inr cfg'" by (auto simp: addPassthroughLinks_def Let_def ebind_Inr_iff)
  then show ?thesis by (rule efold_invariant) (auto split: prod.splits if_splits)
qed

lemma port_nic_not_direct [simp]:
  "port_nic port NICTypeManagement links \<noteq> nic_cfg NICTypeDirect p"
  "port_nic port (nic_cfg NICTypeManagement mac) links \<noteq> nic_cfg NICTypeDirect p"
  by (auto simp: port_nic_def split: option.split)

text \<open>A new VM brings no direct links.\<close>

lemma add_vm_ok:
  assumes "vlab_ok e cfg" and "\<not> vm_exists name cfg"
    and "\<And>x p. map_of (vm_NICs vm) x \<noteq> Some (nic_cfg NICTypeDirect p)"
  shows "vlab_ok e (add_vm name vm cfg)"
proof -
  have n: "nic_of (vc_VMs cfg) name x = None" for x
    using assms(2) by (simp add: vm_exists_def nic_of_def)
  then have "links_paired (vc_VMs (add_vm name vm cfg))"
    using assms(1,3) unfolding links_paired_def vlab_ok_def nic_of_add_vm by (metis option.distinct(1))
  moreover have "vk_hw (add_vm name vm cfg) = vk_hw cfg" by (simp add: add_vm_def)
  ultimately show ?thesis using assms(1) n by (auto simp: vlab_ok_def nic_of_add_vm)
qed

lemma new_vm_ok:
  assumes "vlab_ok e cfg" and "\<not> vm_exists name cfg" and "addPassthroughLinks name anns cfg = Inr (links, cfg1)"
    and "\<And>x p. map_of (vm_NICs vm) x \<noteq> Some (nic_cfg NICTypeDirect p)"
  shows "vlab_ok e (add_vm name vm cfg1)"
proof -
  have same: "vc_VMs cfg1 = vc_VMs cfg" "vk_hw cfg1 = vk_hw cfg" using addPassthroughLinks_vms [OF assms(3)] by simp_all
  show ?thesis
    by (rule add_vm_ok [OF vlab_ok_same [OF assms(1) same] _ assms(4)]) (use assms(2) same in \<open>simp add: vm_exists_def\<close>)
qed

lemma add_control_ok: "vlab_ok e cfg \<Longrightarrow> add_control c cfg = Inr cfg' \<Longrightarrow> vlab_ok e cfg'"
  by (auto simp: add_control_def Let_def new_vm_def ebind_Inr_iff ewrap_Inr_iff split: prod.splits if_splits intro!: new_vm_ok)

lemma add_node_ok: "vlab_ok e cfg \<Longrightarrow> add_node c cfg = Inr cfg' \<Longrightarrow> vlab_ok e cfg'"
  by (auto simp: add_node_def Let_def new_vm_def ebind_Inr_iff ewrap_Inr_iff split: prod.splits if_splits intro!: new_vm_ok)

lemma add_server_ok:
  "vlab_ok e cfg \<Longrightarrow> \<not> isHardware (wo_Annotations x) \<Longrightarrow> add_server x cfg = Inr cfg' \<Longrightarrow> vlab_ok e cfg'"
  by (auto simp: add_server_def Let_def new_vm_def ebind_Inr_iff ewrap_Inr_iff split: prod.splits if_splits intro!: new_vm_ok)

lemma add_switch_ok:
  "vlab_ok e cfg \<Longrightarrow> \<not> isHardware (wo_Annotations (fst x)) \<Longrightarrow> add_switch x cfg = Inr cfg' \<Longrightarrow> vlab_ok e cfg'"
  by (cases x) (auto simp: add_switch_def Let_def new_vm_def ebind_Inr_iff ewrap_Inr_iff split: prod.splits if_splits intro!: new_vm_ok)

lemma add_externals_ok:
  assumes "vlab_ok e cfg" and "add_externals exts cfg = Inr cfg'"
  shows "vlab_ok True cfg'"
proof -
  let ?vm = "new_vm VMTypeExternal [(''enp2s0'', NICTypeUsernet)]"
  let ?c = "add_vm ExternalVMName ?vm cfg"
  from assms(2) obtain t where new: "\<not> vm_exists ExternalVMName cfg" and loop: "efold add_external exts (1000, ?c) = Inr (t, cfg')"
    by (auto simp: add_externals_def ebind_Inr_iff split: if_splits)
  have "vlab_ok e ?c" by (rule add_vm_ok [OF assms(1) new]) (simp add: new_vm_def)
  then have "vlab_ok True ?c" by (simp add: vlab_ok_def nic_of_add_vm new_vm_def)
  moreover have "vc_VMs (snd (t, cfg')) = vc_VMs ?c \<and> vk_hw (snd (t, cfg')) = vk_hw ?c"
    by (rule efold_invariant [OF loop]) (auto simp: add_external_def Let_def ebind_Inr_iff split: prod.splits if_splits)
  ultimately show ?thesis by (auto intro: vlab_ok_same)
qed

section \<open>The configuration\<close>

definition no_hardware :: "wobj list \<Rightarrow> bool" where
  "no_hardware wiring \<longleftrightarrow> list_all (\<lambda>x. \<not> isHardware (wo_Annotations x))
     (map fst (list_kind as_server wiring) @ map fst (list_kind as_switch wiring))"

lemma create_vms_ok:
  assumes "create_vms controls nodes wiring = Inr cfg" and "no_hardware wiring"
  shows "vlab_ok True cfg"
proof -
  from assms(1) obtain c1 c2 c3 c4 where c: "efold add_control controls empty_create = Inr c1" "efold add_node nodes c1 = Inr c2"
    "efold (\<lambda>x. add_server (fst x)) (by_name (list_kind as_server wiring)) c2 = Inr c3"
    "add_externals (list_kind as_external wiring) c3 = Inr c4"
    "efold add_switch (by_name (list_kind as_switch wiring)) c4 = Inr cfg"
    by (auto simp: create_vms_def ebind_Inr_iff)
  have hw: "\<not> isHardware (wo_Annotations (fst x))" if "x \<in> set (by_name (list_kind as_server wiring))" for x
    using assms(2) that by (auto simp: no_hardware_def list_all_iff by_name_def)
  have hw': "\<not> isHardware (wo_Annotations (fst x))" if "x \<in> set (by_name (list_kind as_switch wiring))" for x
    using assms(2) that by (auto simp: no_hardware_def list_all_iff by_name_def)
  have "vlab_ok False empty_create" by (simp add: vlab_ok_def links_paired_def empty_create_def nic_of_def)
  with c(1) have "vlab_ok False c1" by (rule efold_invariant) (rule add_control_ok)
  with c(2) have "vlab_ok False c2" by (rule efold_invariant) (rule add_node_ok)
  with c(3) have "vlab_ok False c3" by (rule efold_invariant) (rule add_server_ok [OF _ hw])
  from add_externals_ok [OF this c(4)] have "vlab_ok True c4" .
  with c(5) show ?thesis by (rule efold_invariant) (rule add_switch_ok [OF _ hw'])
qed

lemma map_of_other: "map_of (filter (\<lambda>(n, _). n \<noteq> k) m) a = (if a = k then None else map_of m a)"
  by (induction m) auto

text \<open>The VM of the externals is dropped only when nothing is joined to it.\<close>

lemma drop_external_paired:
  assumes "vlab_ok True cfg"
  shows "links_paired (vc_VMs (drop_external_vm cfg))"
proof (cases "vc_VMs (drop_external_vm cfg) = vc_VMs cfg")
  case False
  then obtain vm where vm: "map_of (vc_VMs cfg) ExternalVMName = Some vm" "length (vm_NICs vm) = 1"
    and vms: "vc_VMs (drop_external_vm cfg) = filter (\<lambda>(n, _). n \<noteq> ExternalVMName) (vc_VMs cfg)"
    by (auto simp: drop_external_vm_def split: option.splits if_splits)
  have nics: "nic_of (filter (\<lambda>(n, _). n \<noteq> ExternalVMName) (vc_VMs cfg)) a x = (if a = ExternalVMName then None else nic_of (vc_VMs cfg) a x)" for a x
    by (simp add: nic_of_def map_of_other)
  have ext: "nic_of (vc_VMs cfg) ExternalVMName y \<noteq> Some (direct_to a x)" for y a x
    using assms vm by (cases "vm_NICs vm") (auto simp: vlab_ok_def nic_of_def direct_to_def split: if_splits)
  show ?thesis
    using assms ext unfolding vms links_paired_def nics vlab_ok_def by (metis option.distinct(1))
qed (use assms in \<open>simp add: vlab_ok_def\<close>)

end
