(* ===== verification/VlabSockets.thy ===== *)
theory VlabSockets
  imports VlabLinks
begin

text \<open>
  The VMs of a virtual lab and their NICs: the two ends of a link name each other's socket, and the
  ports of the sockets are not shared.
\<close>

section \<open>The VMs of a lab\<close>

lemma index_of_nth: "index_of x xs = Some i \<Longrightarrow> i < length xs \<and> xs ! i = x"
  by (induction xs arbitrary: i) (auto split: if_splits)

lemma index_of_distinct: "distinct xs \<Longrightarrow> i < length xs \<Longrightarrow> index_of (xs ! i) xs = Some i"
  by (induction xs arbitrary: i) (auto simp: nth_Cons split: nat.splits)

lemma index_of_None: "index_of x xs = None \<longleftrightarrow> x \<notin> set xs"
  by (induction xs) auto

lemma vm_order_set [simp]: "set (vm_order vms) = fst ` set vms"
  by (simp add: vm_order_def)

lemma vm_order_distinct [simp]: "distinct (vm_order vms) \<longleftrightarrow> distinct (map fst vms)"
  by (simp add: vm_order_def)

text \<open>What a VM of a lab has to do with its configuration: each NIC comes from the padded list of them.\<close>

definition nic_made :: "vlab_opts \<Rightarrow> string list \<Rightarrow> string \<Rightarrow> vm_config \<Rightarrow> nat \<Rightarrow> nat \<Rightarrow> string \<Rightarrow> string \<Rightarrow> bool" where
  "nic_made opts order name vm vmID nicID raw nic \<longleftrightarrow>
     (\<exists>st be st'. nic_backend opts order name vm vmID nicID raw st = Inr (be, st') \<and> nic = nic_args vm nicID be)"

definition vm_made :: "vlab_opts \<Rightarrow> vm_config gomap \<Rightarrow> string list \<Rightarrow> nat \<times> string \<Rightarrow> vlab_vm \<Rightarrow> bool" where
  "vm_made opts vms order v m \<longleftrightarrow> lv_ID m = fst v \<and> lv_Name m = snd v \<and>
     (\<exists>vm padded. map_of vms (snd v) = Some vm \<and> padded_nics (snd v) (vm_NICs vm) = Inr padded \<and>
        list_all2 (\<lambda>(n, raw) nic. nic_made opts order (snd v) vm (fst v) n raw nic) (enumerate 0 padded) (lv_NICs m))"

lemma nic_madeI:
  "nic_backend opts order name vm vmID n raw st = Inr (be, st') \<Longrightarrow> nic_made opts order name vm vmID n raw (nic_args vm n be)"
  unfolding nic_made_def by blast

lemma vm_nics_made:
  assumes "efold (vm_nic opts order name vm vmID) nics ([], st) = Inr acc"
  shows "list_all2 (\<lambda>(n, raw) nic. nic_made opts order name vm vmID n raw nic) nics (fst acc)"
proof (rule efold_prefix_invariant [OF assms, where P = "\<lambda>ns acc. list_all2 (\<lambda>(n, raw) nic. nic_made opts order name vm vmID n raw nic) ns (fst acc)"])
  fix ns n acc acc'
  assume "list_all2 (\<lambda>(n, raw) nic. nic_made opts order name vm vmID n raw nic) ns (fst acc)"
    and "vm_nic opts order name vm vmID n acc = Inr acc'"
  then show "list_all2 (\<lambda>(n, raw) nic. nic_made opts order name vm vmID n raw nic) (ns @ [n]) (fst acc')"
    by (cases n) (auto simp: vm_nic_def ebind_Inr_iff intro!: list_all2_appendI nic_madeI)
qed simp

lemma add_lab_vm_made:
  assumes "add_lab_vm sizes opts vms order v acc = Inr acc'" and "map_of vms (snd v) \<noteq> None"
  shows "\<exists>m. fst acc' = fst acc @ [m] \<and> vm_made opts vms order v m"
  using assms
  by (cases v) (auto simp: add_lab_vm_def Let_def ebind_Inr_iff vm_made_def split: prod.splits option.splits dest!: vm_nics_made)

lemma vlabFromConfig_made:
  assumes "vlabFromConfig sizes opts vms = Inr lab"
  shows "list_all2 (vm_made opts vms (vm_order vms)) (enumerate 0 (vm_order vms)) (lb_VMs lab)"
proof -
  let ?order = "vm_order vms"
  from assms obtain acc where loop: "efold (add_lab_vm sizes opts vms ?order) (enumerate 0 ?order)
       ([], \<lparr>ns_Taps = 0, ns_Passthroughs = [], ns_ControlID = 0, ns_Usernet = 0\<rparr>) = Inr acc" and lab: "lb_VMs lab = fst acc"
    by (auto simp: vlabFromConfig_def Let_def ebind_Inr_iff)
  have "list_all2 (vm_made opts vms ?order) (enumerate 0 ?order) (fst acc)"
  proof (rule efold_prefix_invariant [OF loop, where P = "\<lambda>vs acc. list_all2 (vm_made opts vms ?order) vs (fst acc)"])
    fix vs v acc acc'
    assume "\<exists>zs. enumerate 0 ?order = vs @ v # zs" and IH: "list_all2 (vm_made opts vms ?order) vs (fst acc)"
      and step: "add_lab_vm sizes opts vms ?order v acc = Inr acc'"
    then have "v \<in> set (enumerate 0 ?order)" by (metis in_set_conv_decomp)
    then have "snd v \<in> set ?order" by (metis in_set_enumerate_eq add.right_neutral diff_zero nth_mem)
    then have "map_of vms (snd v) \<noteq> None" by (auto simp: map_of_eq_None_iff)
    from add_lab_vm_made [OF step this] IH show "list_all2 (vm_made opts vms ?order) (vs @ [v]) (fst acc')"
      by (auto intro!: list_all2_appendI)
  qed simp
  with lab show ?thesis by simp
qed

lemma lab_vm:
  assumes "vlabFromConfig sizes opts vms = Inr lab" and "i < length (vm_order vms)"
  shows "i < length (lb_VMs lab) \<and> vm_made opts vms (vm_order vms) (i, vm_order vms ! i) (lb_VMs lab ! i)"
  using list_all2_nthD [OF vlabFromConfig_made [OF assms(1)], of i] list_all2_lengthD [OF vlabFromConfig_made [OF assms(1)]] assms(2)
  by (simp add: nth_enumerate_eq)

lemma lab_ids:
  assumes "vlabFromConfig sizes opts vms = Inr lab"
  shows "map lv_ID (lb_VMs lab) = [0..<length (lb_VMs lab)]"
proof (rule nth_equalityI)
  fix i
  assume "i < length (map lv_ID (lb_VMs lab))"
  then have "i < length (vm_order vms)" using list_all2_lengthD [OF vlabFromConfig_made [OF assms]] by simp
  from lab_vm [OF assms this] show "map lv_ID (lb_VMs lab) ! i = [0..<length (lb_VMs lab)] ! i"
    by (simp add: vm_made_def)
qed simp

section \<open>NIC numbers\<close>

lemma nics_by_id_keys:
  assumes "nics_by_id nics = Inr m" and "distinct (map (\<lambda>n. getNICID (fst n)) nics)" and "(x, v) \<in> set nics"
  shows "\<exists>n. getNICID x = Inr n \<and> map_of m n = Some v"
proof -
  let ?P = "\<lambda>ns m. (\<forall>n \<in> fst ` set m. Inr n \<in> (\<lambda>x. getNICID (fst x)) ` set ns) \<and>
    (\<forall>(x, v) \<in> set ns. \<exists>n. getNICID x = Inr n \<and> map_of m n = Some v)"
  have "?P nics m"
  proof (rule efold_prefix_invariant [OF assms(1) [unfolded nics_by_id_def], where P = ?P])
    fix ns c m m'
    assume split: "\<exists>zs. nics = ns @ c # zs" and P: "?P ns m"
      and step: "(case c of (n, cfg) \<Rightarrow> \<lambda>m. ebind (ewrap ''getting NIC ID for %q'' [n] (getNICID n)) (\<lambda>i. Inr (map_put i cfg m))) m = Inr m'"
    obtain x v where c: "c = (x, v)" by (cases c)
    with step obtain i where i: "getNICID x = Inr i" "m' = map_put i v m" by (auto simp: ebind_Inr_iff ewrap_Inr_iff)
    from split obtain zs where "nics = ns @ (x, v) # zs" using c by blast
    with assms(2) i(1) have "Inr i \<notin> set (map (\<lambda>x. getNICID (fst x)) ns)" by auto
    then have new: "getNICID y \<noteq> Inr i" if "(y, w) \<in> set ns" for y w using that by force
    have "\<exists>n. getNICID y = Inr n \<and> map_of m' n = Some w" if "(y, w) \<in> set (ns @ [c])" for y w
    proof (cases "(y, w) = c")
      case False
      with that have y: "(y, w) \<in> set ns" by simp
      with P obtain n where "getNICID y = Inr n" "map_of m n = Some w" by blast
      with new [OF y] i(2) show ?thesis by auto
    qed (use c i in simp)
    moreover have "Inr n \<in> (\<lambda>x. getNICID (fst x)) ` set (ns @ [c])" if "n \<in> fst ` set m'" for n
      using that P i c by (auto simp: keys_map_put)
    ultimately show "?P (ns @ [c]) m'" by blast
  qed simp
  with assms(3) show ?thesis by blast
qed

lemma fold_max_init: "(a :: nat) \<le> fold max xs a"
proof (induction xs arbitrary: a)
  case (Cons x xs)
  show ?case using Cons.IH [of "max x a"] by simp
qed simp

lemma fold_max_ge: "(x :: nat) \<in> set xs \<Longrightarrow> x \<le> fold max xs a"
proof (induction xs arbitrary: a)
  case (Cons y xs)
  then show ?case using fold_max_init [of "max y a" xs] by auto
qed simp

lemma padded_nics_length:
  assumes "padded_nics name nics = Inr padded"
  shows "0 < length padded \<and> length padded \<le> 64"
  using assms by (auto simp: padded_nics_def ebind_Inr_iff VLABMaxNICs_def VLABNICsPerPCIBridge_def VLABPCIBridges_def split: if_splits)

lemma padded_nics_nth:
  assumes "padded_nics name nics = Inr padded" and "distinct (map (\<lambda>n. getNICID (fst n)) nics)" and "(x, v) \<in> set nics"
  shows "\<exists>n. getNICID x = Inr n \<and> n < length padded \<and> padded ! n = v"
proof -
  from assms(1) obtain m where m: "nics_by_id nics = Inr m"
    and p: "padded = map (\<lambda>i. case map_of m i of Some nic \<Rightarrow> nic | None \<Rightarrow> NICTypeNoop) [0..<Suc (max_nic m)]"
    by (auto simp: padded_nics_def ebind_Inr_iff split: if_splits)
  from nics_by_id_keys [OF m assms(2,3)] obtain n where n: "getNICID x = Inr n" "map_of m n = Some v" by blast
  then have "n \<in> set (map fst m)" by (metis map_of_SomeD fst_conv image_eqI list.set_map)
  then have "n \<le> max_nic m" unfolding max_nic_def by (rule fold_max_ge)
  with n p show ?thesis by (auto simp del: upt_Suc simp: nth_map_upt)
qed

section \<open>Sockets\<close>

text \<open>No two NICs of a VM have the same number. The program does not check it: the later one replaces the earlier one.\<close>

definition nic_numbers_distinct :: "vm_config gomap \<Rightarrow> bool" where
  "nic_numbers_distinct vms \<longleftrightarrow> list_all (\<lambda>(_, vm). distinct (map (\<lambda>n. getNICID (fst n)) (vm_NICs vm))) vms"

text \<open>A NIC of a VM of the lab whose socket is bound to the given port, and sends to the port of the NIC itself.\<close>

definition nic_socket :: "vlab \<Rightarrow> vm_config gomap \<Rightarrow> nat \<Rightarrow> string \<Rightarrow> nat \<Rightarrow> nat \<Rightarrow> bool" where
  "nic_socket lab vms i a n other \<longleftrightarrow>
     i < length (lb_VMs lab) \<and> lv_Name (lb_VMs lab ! i) = a \<and> n < length (lv_NICs (lb_VMs lab ! i)) \<and>
     (\<exists>vm. map_of vms a = Some vm \<and>
        lv_NICs (lb_VMs lab ! i) ! n = nic_args vm n (direct_netdev (getDirectNICPort i n) other, nic_mac i n, ''''))"

lemma nic_backend_direct:
  assumes "nic_backend opts order name vm i n (direct_to b y) st = Inr (be, st')" and "CHR ''/'' \<notin> set b"
  shows "\<exists>j m. index_of b order = Some j \<and> getNICID y = Inr m \<and>
    be = (direct_netdev (getDirectNICPort i n) (getDirectNICPort j m), nic_mac i n, '''')"
proof -
  have "split2 (CHR '':'') (direct_to b y) = [NICTypeDirect, b @ CHR ''/'' # y]"
    using split2_sep [of "CHR '':''" NICTypeDirect "b @ CHR ''/'' # y"] by (simp add: direct_to_def nic_cfg_def NICTypeDirect_def)
  moreover have "NICTypeDirect \<noteq> NICTypeNoop" by (simp add: NICTypeDirect_def NICTypeNoop_def)
  ultimately show ?thesis using assms
    by (auto simp: nic_backend_def Let_def split2_sep ebind_Inr_iff ewrap_Inr_iff split: option.splits)
qed

lemma one_end:
  assumes lab: "vlabFromConfig sizes opts vms = Inr lab" and ids: "nic_numbers_distinct vms"
    and link: "nic_of vms a x = Some (direct_to b y)" and b: "CHR ''/'' \<notin> set b"
  shows "\<exists>i j n m. i < length (vm_order vms) \<and> vm_order vms ! i = a \<and> index_of b (vm_order vms) = Some j \<and> getNICID x = Inr n \<and>
    getNICID y = Inr m \<and> nic_socket lab vms i a n (getDirectNICPort j m)"
proof -
  from link obtain vm where vm: "map_of vms a = Some vm" "map_of (vm_NICs vm) x = Some (direct_to b y)"
    by (auto simp: nic_of_def split: option.splits)
  then have a: "(a, vm) \<in> set vms" by (auto dest: map_of_SomeD)
  then have "a \<in> set (vm_order vms)" by force
  then obtain i where i: "i < length (vm_order vms)" "vm_order vms ! i = a" by (auto simp: in_set_conv_nth simp del: vm_order_set)
  from lab_vm [OF lab i(1)] i(2) vm(1) obtain padded where
    m: "i < length (lb_VMs lab)" "lv_Name (lb_VMs lab ! i) = a" "padded_nics a (vm_NICs vm) = Inr padded"
      "list_all2 (\<lambda>(n, raw) nic. nic_made opts (vm_order vms) a vm i n raw nic) (enumerate 0 padded) (lv_NICs (lb_VMs lab ! i))"
    by (auto simp: vm_made_def)
  have "distinct (map (\<lambda>n. getNICID (fst n)) (vm_NICs vm))" using ids a by (auto simp: nic_numbers_distinct_def list_all_iff)
  from padded_nics_nth [OF m(3) this map_of_SomeD [OF vm(2)]] obtain n
    where n: "getNICID x = Inr n" "n < length padded" "padded ! n = direct_to b y" by blast
  from list_all2_nthD [OF m(4), of n] n have "nic_made opts (vm_order vms) a vm i n (direct_to b y) (lv_NICs (lb_VMs lab ! i) ! n)"
    by (simp add: nth_enumerate_eq)
  then obtain st be st' where "nic_backend opts (vm_order vms) a vm i n (direct_to b y) st = Inr (be, st')"
    and nic: "lv_NICs (lb_VMs lab ! i) ! n = nic_args vm n be" unfolding nic_made_def by blast
  from nic_backend_direct [OF this(1) b] obtain j m' where "index_of b (vm_order vms) = Some j" "getNICID y = Inr m'"
    "be = (direct_netdev (getDirectNICPort i n) (getDirectNICPort j m'), nic_mac i n, '''')" by blast
  moreover have "n < length (lv_NICs (lb_VMs lab ! i))" using list_all2_lengthD [OF m(4)] n(2) by simp
  ultimately show ?thesis using i m(1,2) n(1) nic vm(1) unfolding nic_socket_def by blast
qed

section \<open>Ports of a lab\<close>

text \<open>The ports a lab takes on its host: that of SSH and those of the NICs, of each VM.\<close>

definition vm_ports :: "vlab_vm \<Rightarrow> nat list" where
  "vm_ports v = map (getDirectNICPort (lv_ID v)) [0..<length (lv_NICs v)]"

definition lab_ports :: "vlab \<Rightarrow> nat list" where
  "lab_ports lab = map (\<lambda>v. getSSHPort (lv_ID v)) (lb_VMs lab) @ concat (map vm_ports (lb_VMs lab))"

lemma direct_port_inj:
  assumes "n < 64" "m < 64" and "getDirectNICPort i n = getDirectNICPort j m"
  shows "i = j \<and> n = m"
proof -
  have "100 * i + n = 100 * j + m" using assms(3) by (simp add: getDirectNICPort_def)
  then have "(100 * i + n) div 100 = (100 * j + m) div 100" "(100 * i + n) mod 100 = (100 * j + m) mod 100" by simp_all
  with assms(1,2) show ?thesis by simp
qed

lemma lab_nics:
  assumes "vlabFromConfig sizes opts vms = Inr lab" and "v \<in> set (lb_VMs lab)"
  shows "0 < length (lv_NICs v) \<and> length (lv_NICs v) \<le> 64"
proof -
  from assms(2) obtain i where i: "i < length (lb_VMs lab)" "lb_VMs lab ! i = v" by (auto simp: in_set_conv_nth)
  then have "i < length (vm_order vms)" using list_all2_lengthD [OF vlabFromConfig_made [OF assms(1)]] by simp
  from lab_vm [OF assms(1) this] i(2) obtain vm padded where "padded_nics (vm_order vms ! i) (vm_NICs vm) = Inr padded"
    and "list_all2 (\<lambda>(n, raw) nic. nic_made opts (vm_order vms) (vm_order vms ! i) vm i n raw nic) (enumerate 0 padded) (lv_NICs v)"
    by (auto simp: vm_made_def)
  from padded_nics_length [OF this(1)] list_all2_lengthD [OF this(2)] show ?thesis by (simp only: length_enumerate)
qed

lemma nic_ports_distinct:
  assumes "map lv_ID vs = [k..<k + length vs]" and "\<forall>v\<in>set vs. length (lv_NICs v) \<le> 64"
  shows "distinct (concat (map vm_ports vs))"
  using assms
proof (induction vs arbitrary: k)
  case (Cons v vs)
  from Cons.prems(1) have v: "lv_ID v = k" and vs: "map lv_ID vs = [Suc k..<Suc k + length vs]"
    by (auto simp: upt_conv_Cons simp del: upt_Suc)
  have "lv_ID w > k" if "w \<in> set vs" for w
  proof -
    have "lv_ID w \<in> set (map lv_ID vs)" using that by simp
    then show ?thesis unfolding vs by (auto simp del: upt_Suc)
  qed
  then have "set (vm_ports v) \<inter> set (concat (map vm_ports vs)) = {}"
    using Cons.prems(2) v by (fastforce simp: vm_ports_def dest: direct_port_inj [rotated 2])
  moreover have "distinct (vm_ports v)"
    by (auto simp: vm_ports_def distinct_map inj_on_def getDirectNICPort_def)
  ultimately show ?case using Cons.IH [OF vs] Cons.prems(2) by simp
qed simp

end
