(* ===== verification/VlabLabProps.thy ===== *)
theory VlabLabProps
  imports VlabSockets "HOL-Library.Code_Target_Nat"
begin

text \<open>
  What the configuration and the VMs of a virtual lab guarantee, with a lab of a server and a switch
  for the witnesses, and one with hardware where the links are not paired.
\<close>

section \<open>Labs for the witnesses\<close>

definition lab_server :: "string \<Rightarrow> string gomap \<Rightarrow> wobj" where
  "lab_server name anns = \<lparr>wo_Namespace = '''', wo_Name = name, wo_Annotations = anns, wo_Spec = ServerObj ''''\<rparr>"

definition lab_switch :: "string \<Rightarrow> wobj" where
  "lab_switch name = named name (SwitchObj \<lparr>ss_Role = ''server-leaf'', ss_Description = '''', ss_Profile = ''vs'', ss_Groups = [],
     ss_RedGroup = '''', ss_RedType = '''', ss_VLANNamespaces = [], ss_BootMAC = ''0c:20:12:ff:00:00'', ss_ASN = 0\<rparr>)"

definition lab_conn :: "string \<Rightarrow> string \<Rightarrow> string \<Rightarrow> wobj" where
  "lab_conn name srv sw = named name (ConnObj (ConnUnbundled \<lparr>sl_Server = srv, sl_Switch = sw\<rparr>))"

definition pair_wiring :: "wobj list" where
  "pair_wiring = [lab_server ''server-1'' [], lab_switch ''leaf-1'', lab_conn ''c1'' ''server-1/enp2s1'' ''leaf-1/E1/1'']"

definition pair_vms :: "vm_config gomap" where
  "pair_vms =
     [(''server-1'', (new_vm VMTypeServer [(''enp2s0'', NICTypeUsernet), (''enp2s1'', ''direct:leaf-1/E1/1'')])),
      (''leaf-1'', (new_vm VMTypeSwitch [(''M1'', ''management:0c:20:12:ff:00:00''), (''E1/1'', ''direct:server-1/enp2s1'')])
         \<lparr>vm_SwitchProfile := ''vs''\<rparr>)]"

definition no_opts :: vlab_opts where "no_opts = \<lparr>lo_ControlsRestricted = False, lo_ServersRestricted = False\<rparr>"

lemma pair_created: "createVLABConfig [] [] pair_wiring = Inr \<lparr>vc_VMs = pair_vms, vc_NICs = [], vc_VRFs = []\<rparr>"
  by code_simp

lemma pair_no_hardware: "no_hardware pair_wiring"
  by code_simp

lemma pair_starts: "\<exists>lab. vlabFromConfig DefaultSizes no_opts pair_vms = Inr lab"
proof -
  have "(case vlabFromConfig DefaultSizes no_opts pair_vms of Inr _ \<Rightarrow> True | Inl _ \<Rightarrow> False)" by code_simp
  then show ?thesis by (auto split: sum.splits)
qed

section \<open>Properties\<close>

lemma created_paired:
  assumes "createVLABConfig controls nodes wiring = Inr cfg" and "no_hardware wiring"
  shows "links_paired (vc_VMs cfg)"
proof -
  from assms(1) obtain c1 c2 where c: "create_vms controls nodes wiring = Inr c1"
    "efold (add_conn wiring (list_kind as_attach wiring)) (by_name (list_kind as_conn wiring)) c1 = Inr c2"
    "cfg = vlab_config.truncate (drop_external_vm c2)"
    by (auto simp: createVLABConfig_def ebind_Inr_iff)
  have "vlab_ok True c2" using c(2) create_vms_ok [OF c(1) assms(2)] by (rule efold_invariant) (rule add_conn_ok)
  from drop_external_paired [OF this] c(3) show ?thesis by (simp add: vlab_config.defs)
qed

text \<open>
  C36. In the configuration of a virtual lab without hardware the NICs are joined in pairs: a NIC that is joined directly to
  a NIC of another VM is the one that is joined to.
\<close>

theorem vlab_links_paired:
  assumes "createVLABConfig controls nodes wiring = Inr cfg" and "no_hardware wiring"
    and "CHR ''/'' \<notin> set b" and "nic_of (vc_VMs cfg) a x = Some (direct_to b y)"
  shows "nic_of (vc_VMs cfg) b y = Some (direct_to a x)"
  using created_paired [OF assms(1,2)] assms(3,4) unfolding links_paired_def
  by (metis direct_to_def direct_to_eq)

theorem vlab_links_paired_witness:
  "nic_of pair_vms ''leaf-1'' ''E1/1'' = Some (direct_to ''server-1'' ''enp2s1'')"
proof -
  have "nic_of pair_vms ''server-1'' ''enp2s1'' = Some (direct_to ''leaf-1'' ''E1/1'')" by code_simp
  with vlab_links_paired [OF pair_created pair_no_hardware, of "''leaf-1''" "''server-1''" "''enp2s1''" "''E1/1''"]
  show ?thesis by simp
qed

text \<open>
  With hardware they need not be: the link of a hardware server to a port of a switch that is taken already replaces the link
  there, and the other end still names it.
\<close>

lemma hardware_link_replaces:
  "(case createVLABConfig [] []
      [lab_server ''server-1'' [], lab_server ''server-2'' [(HHFabCfgType, ''hw''), (HHFabCfgLinkPrefix @ ''eth0'', ''pci@0000:01:00.0'')],
       lab_switch ''leaf-1'', lab_conn ''c1'' ''server-1/enp2s1'' ''leaf-1/E1/1'', lab_conn ''c2'' ''server-2/eth0'' ''leaf-1/E1/1''] of
    Inl _ \<Rightarrow> False
  | Inr cfg \<Rightarrow> nic_of (vc_VMs cfg) ''server-1'' ''enp2s1'' = Some (direct_to ''leaf-1'' ''E1/1'') \<and>
      nic_of (vc_VMs cfg) ''leaf-1'' ''E1/1'' = Some ''passthrough:0000:01:00.0'')"
  by code_simp

text \<open>
  C37. If no two NICs of a VM have the same number, the two ends of a link of a lab are sockets that name each other: each is
  bound to the port numbered after the other end and sends to the port numbered after itself, where the other end listens.
\<close>

theorem vlab_sockets_paired:
  assumes lab: "vlabFromConfig sizes opts vms = Inr lab" and ids: "nic_numbers_distinct vms" and names: "distinct (map fst vms)"
    and paired: "links_paired vms" and link: "nic_of vms a x = Some (direct_to b y)" and b: "CHR ''/'' \<notin> set b"
  shows "\<exists>i j n m. getNICID x = Inr n \<and> getNICID y = Inr m \<and>
    nic_socket lab vms i a n (getDirectNICPort j m) \<and> nic_socket lab vms j b m (getDirectNICPort i n)"
proof -
  from paired link have a: "CHR ''/'' \<notin> set a" unfolding links_paired_def direct_to_def by blast
  from paired link b have rev_link: "nic_of vms b y = Some (direct_to a x)"
    unfolding links_paired_def by (metis direct_to_def direct_to_eq)
  obtain i j n m where 1: "i < length (vm_order vms)" "vm_order vms ! i = a" "index_of b (vm_order vms) = Some j"
    "getNICID x = Inr n" "getNICID y = Inr m" "nic_socket lab vms i a n (getDirectNICPort j m)"
    using one_end [OF lab ids link b] by blast
  obtain j' i' m' n' where 2: "j' < length (vm_order vms)" "vm_order vms ! j' = b" "index_of a (vm_order vms) = Some i'"
    "getNICID y = Inr m'" "getNICID x = Inr n'" "nic_socket lab vms j' b m' (getDirectNICPort i' n')"
    using one_end [OF lab ids rev_link a] by blast
  have "distinct (vm_order vms)" using names by simp
  then have "j' = j" "i' = i" using 1(1-3) 2(1-3) index_of_distinct by (metis option.inject)+
  with 1 2 show ?thesis by (metis sum.inject(2))
qed

theorem vlab_sockets_paired_witness:
  "\<exists>lab. vlabFromConfig DefaultSizes no_opts pair_vms = Inr lab \<and>
     (\<exists>i j. nic_socket lab pair_vms i ''server-1'' 1 (getDirectNICPort j 1) \<and> nic_socket lab pair_vms j ''leaf-1'' 1 (getDirectNICPort i 1))"
proof -
  obtain lab where lab: "vlabFromConfig DefaultSizes no_opts pair_vms = Inr lab" using pair_starts by blast
  have ids: "nic_numbers_distinct pair_vms" and names: "distinct (map fst pair_vms)"
    and link: "nic_of pair_vms ''server-1'' ''enp2s1'' = Some (direct_to ''leaf-1'' ''E1/1'')"
    and n: "getNICID ''enp2s1'' = Inr 1" "getNICID ''E1/1'' = Inr 1" by code_simp+
  have paired: "links_paired pair_vms" using created_paired [OF pair_created pair_no_hardware] by simp
  from vlab_sockets_paired [OF lab ids names paired link] lab n show ?thesis by auto
qed

text \<open>
  Two NICs of a server whose names give the same number are accepted, and only one of them is made: here the link of
  \<^verbatim>\<open>enp2s1\<close> has a first end that is not there, and both NICs of the leaf are bound to the port numbered after the one
  NIC that is.
\<close>

definition clash_wiring :: "wobj list" where
  "clash_wiring = [lab_server ''server-1'' [], lab_switch ''leaf-1'', lab_conn ''c1'' ''server-1/enp2s1'' ''leaf-1/E1/1'',
     lab_conn ''c2'' ''server-1/enp2s1np0'' ''leaf-1/E1/2'']"

lemma same_number_unpaired:
  "(case createVLABConfig [] [] clash_wiring of Inl _ \<Rightarrow> False | Inr cfg \<Rightarrow>
     \<not> nic_numbers_distinct (vc_VMs cfg) \<and>
     nic_of (vc_VMs cfg) ''server-1'' ''enp2s1'' = Some (direct_to ''leaf-1'' ''E1/1'') \<and>
     nic_of (vc_VMs cfg) ''leaf-1'' ''E1/1'' = Some (direct_to ''server-1'' ''enp2s1'') \<and>
     (case vlabFromConfig DefaultSizes no_opts (vc_VMs cfg) of Inl _ \<Rightarrow> False | Inr lab \<Rightarrow>
        map lv_Name (lb_VMs lab) = [''server-1'', ''leaf-1''] \<and>
        (case map_of (vc_VMs cfg) ''server-1'' of None \<Rightarrow> False | Some vm \<Rightarrow>
           lv_NICs (lb_VMs lab ! 0) ! 1 = nic_args vm 1 (direct_netdev (getDirectNICPort 0 1) (getDirectNICPort 1 2), nic_mac 0 1, '''')) \<and>
        (case map_of (vc_VMs cfg) ''leaf-1'' of None \<Rightarrow> False | Some vm \<Rightarrow>
           lv_NICs (lb_VMs lab ! 1) ! 1 = nic_args vm 1 (direct_netdev (getDirectNICPort 1 1) (getDirectNICPort 0 1), nic_mac 1 1, '''') \<and>
           lv_NICs (lb_VMs lab ! 1) ! 2 = nic_args vm 2 (direct_netdev (getDirectNICPort 1 2) (getDirectNICPort 0 1), nic_mac 1 2, ''''))))"
  by code_simp

text \<open>The ports a lab takes on its host, those of SSH and those of the NICs, are all different exactly when it has at most
  100 VMs.\<close>

theorem vlab_ports_distinct:
  assumes "vlabFromConfig sizes opts vms = Inr lab"
  shows "distinct (lab_ports lab) \<longleftrightarrow> length (lb_VMs lab) \<le> 100"
proof -
  note ids = lab_ids [OF assms]
  have nics: "distinct (concat (map vm_ports (lb_VMs lab)))"
    by (rule nic_ports_distinct [of _ 0]) (use ids lab_nics [OF assms] in auto)
  have "map (\<lambda>v. getSSHPort (lv_ID v)) (lb_VMs lab) = map getSSHPort [0..<length (lb_VMs lab)]"
    unfolding ids [symmetric] by simp
  then have ssh: "distinct (map (\<lambda>v. getSSHPort (lv_ID v)) (lb_VMs lab))"
    "set (map (\<lambda>v. getSSHPort (lv_ID v)) (lb_VMs lab)) = {22000..<22000 + length (lb_VMs lab)}"
    by (auto simp: distinct_map inj_on_def getSSHPort_def VLABBaseSSHPort_def image_iff)
  have low: "p \<ge> 22100" if "p \<in> set (concat (map vm_ports (lb_VMs lab)))" for p
    using that by (auto simp: vm_ports_def getDirectNICPort_def VLABBaseDirectPort_def)
  have first: "22100 \<in> set (concat (map vm_ports (lb_VMs lab)))" if "lb_VMs lab \<noteq> []"
  proof -
    have v: "hd (lb_VMs lab) \<in> set (lb_VMs lab)" using that by simp
    moreover have "lv_ID (hd (lb_VMs lab)) = 0" using ids that by (cases "lb_VMs lab") (auto simp: upt_conv_Cons simp del: upt_Suc)
    ultimately have "22100 \<in> set (vm_ports (hd (lb_VMs lab)))"
      using lab_nics [OF assms v] by (auto simp: vm_ports_def getDirectNICPort_def VLABBaseDirectPort_def image_iff)
    with v show ?thesis by auto
  qed
  show ?thesis
  proof
    assume d: "distinct (lab_ports lab)"
    show "length (lb_VMs lab) \<le> 100"
    proof (rule ccontr)
      assume n: "\<not> length (lb_VMs lab) \<le> 100"
      then have "22100 \<in> set (map (\<lambda>v. getSSHPort (lv_ID v)) (lb_VMs lab))" unfolding ssh(2) by simp
      moreover have "lb_VMs lab \<noteq> []" using n by auto
      ultimately show False using d first unfolding lab_ports_def distinct_append by blast
    qed
  next
    assume n: "length (lb_VMs lab) \<le> 100"
    have "p < 22100" if "p \<in> set (map (\<lambda>v. getSSHPort (lv_ID v)) (lb_VMs lab))" for p
      using that n unfolding ssh(2) by simp
    then have "set (map (\<lambda>v. getSSHPort (lv_ID v)) (lb_VMs lab)) \<inter> set (concat (map vm_ports (lb_VMs lab))) = {}"
      using low by (meson disjoint_iff not_le)
    then show "distinct (lab_ports lab)" unfolding lab_ports_def distinct_append using ssh(1) nics by blast
  qed
qed

theorem vlab_ports_distinct_witness:
  "\<exists>lab. vlabFromConfig DefaultSizes no_opts pair_vms = Inr lab \<and> (distinct (lab_ports lab) \<longleftrightarrow> length (lb_VMs lab) \<le> 100)"
  using pair_starts vlab_ports_distinct by blast

end
