(* ===== verification/SetupPlan.thy ===== *)
theory SetupPlan
  imports VpcTypes VlabRail
begin

text \<open>
  What \<^verbatim>\<open>SetupVPCs\<close> of \<^verbatim>\<open>pkg/hhfab/testing.go\<close> decides before it writes anything: how the servers of
  a fabric are spread over VPCs and subnets, the VLAN and the prefix of each subnet, the attachments,
  and the command that configures each server. What the client returns for the lists and objects it
  reads is a parameter.
\<close>

section \<open>Options\<close>

definition ServerNamePrefix :: string where "ServerNamePrefix = ''server-''"
definition HashPolicyL2 :: string where "HashPolicyL2 = ''layer2''"
definition HashPolicyL2And3 :: string where "HashPolicyL2And3 = ''layer2+3''"
definition HashPolicyL3And4 :: string where "HashPolicyL3And4 = ''layer3+4''"
definition HashPolicyEncap2And3 :: string where "HashPolicyEncap2And3 = ''encap2+3''"
definition HashPolicyEncap3And4 :: string where "HashPolicyEncap3And4 = ''encap3+4''"
definition HashPolicyVLANAndSrcMAC :: string where "HashPolicyVLANAndSrcMAC = ''vlan+srcmac''"

definition HashPolicies :: "string list" where
  "HashPolicies = [HashPolicyL2, HashPolicyL2And3, HashPolicyL3And4, HashPolicyEncap2And3,
     HashPolicyEncap3And4, HashPolicyVLANAndSrcMAC]"

record setup_opts =
  su_WaitSwitchesReady :: bool
  su_ForceCleanup :: bool
  su_VLANNamespace :: string
  su_IPv4Namespace :: string
  su_ServersPerSubnet :: int
  su_SubnetsPerVPC :: int
  su_DNSServers :: "string list"
  su_TimeServers :: "string list"
  su_InterfaceMTU :: "16 word"
  su_HashPolicy :: string
  su_VPCMode :: string
  su_KeepPeerings :: bool
  su_HostBGPSubnet :: bool
  su_P2P :: bool

text \<open>
  The answers of the client: the profiles of the switches, the type of the operating system of a
  profile, the servers, the namespaces, the connections of a server (by its label), and for a connection
  the subnets its attachments name and for a VPC its mode.
\<close>

type_synonym conn = "string \<times> conn_spec"

record setup_env =
  en_Switches :: "string list result"
  en_NOSType :: "string \<Rightarrow> string result"
  en_Servers :: "string list result"
  en_VLANNS :: "string \<Rightarrow> vlan_range list result"
  en_IPv4NS :: "string \<Rightarrow> string list result"
  en_Conns :: "string \<Rightarrow> conn list result"
  en_Attaches :: "string \<Rightarrow> string list result"
  en_VPCMode :: "string \<Rightarrow> string result"

definition NOSTypesCumulus :: "string list" where "NOSTypesCumulus = [''cumulus-vx'', ''cumulus-mlx'']"

fun all_cumulus :: "setup_env \<Rightarrow> string list \<Rightarrow> bool result" where
  "all_cumulus env [] = Inr True"
| "all_cumulus env (p # ps) =
     ebind (ewrap ''getting switch profile %q: %w'' [p] (en_NOSType env p)) (\<lambda>nos.
     if nos \<in> set NOSTypesCumulus then all_cumulus env ps else Inr False)"

definition SwitchProfilesVS :: "string list" where "SwitchProfilesVS = [''vs'', ''vs-clsp'']"

definition server_facing_mtu :: "16 word" where "server_facing_mtu = 9100 - 64"

definition ResolveDefaultServerMTU :: "setup_env \<Rightarrow> setup_opts \<Rightarrow> setup_opts result" where
  "ResolveDefaultServerMTU env opts =
     (if su_InterfaceMTU opts \<noteq> 0 then Inr opts
      else ebind (ewrap ''listing switches: %w'' [] (en_Switches env)) (\<lambda>switches.
        if list_ex (\<lambda>p. p \<in> set SwitchProfilesVS) switches then
          Inr (if su_DNSServers opts \<noteq> [] \<or> su_TimeServers opts \<noteq> [] then opts\<lparr>su_InterfaceMTU := 1500\<rparr> else opts)
        else Inr (opts\<lparr>su_InterfaceMTU := server_facing_mtu\<rparr>)))"

section \<open>VLANs and prefixes, one at a time\<close>

text \<open>
  The iterators \<^verbatim>\<open>VLANsFrom\<close> and \<^verbatim>\<open>SubPrefixesFrom\<close>, pulled one element at a time. The state of the first
  is the next VLAN and the last one of each range to go; the counter has 16 bits and wraps.
\<close>

type_synonym vlan_iter = "(16 word \<times> 16 word) list"

definition VLANsFrom :: "vlan_range list \<Rightarrow> vlan_iter" where
  "VLANsFrom ranges = map (\<lambda>r. (vr_From r, vr_To r)) ranges"

fun next_vlan :: "vlan_iter \<Rightarrow> (16 word \<times> vlan_iter) option" where
  "next_vlan [] = None"
| "next_vlan ((vlan, to) # rs) = (if vlan \<le> to then Some (vlan, (vlan + 1, to) # rs) else next_vlan rs)"

text \<open>
  The state of the second is the prefix it is in with the next address to try, and the prefixes to come.
  The addresses are stepped in 32 bits, so the iteration starts again at the end of \<^verbatim>\<open>0.0.0.0/0\<close>.
\<close>

type_synonym prefix_iter = "(prefix \<times> 32 word) option \<times> prefix list"

definition SubPrefixesFrom :: "prefix list \<Rightarrow> prefix_iter" where
  "SubPrefixesFrom prefixes = (None, prefixes)"

definition sub_step :: "int \<Rightarrow> 32 word" where
  "sub_step bits = (if bits \<le> 32 then push_bit (nat (32 - bits)) 1 else 0)"

fun first_sub :: "int \<Rightarrow> prefix list \<Rightarrow> (prefix \<times> prefix_iter) option" where
  "first_sub bits [] = None"
| "first_sub bits (p # ps) =
     (if bits < pf_bits p \<or> \<not> addr_is4 (pf_addr p) then first_sub bits ps
      else (case pf_addr (prefix_masked p) of
          V4 w \<Rightarrow> if prefix_contains p (V4 w)
                 then Some (prefix_from (V4 w) bits, (Some (p, w + sub_step bits), ps)) else first_sub bits ps
        | _ \<Rightarrow> first_sub bits ps))"

fun next_sub :: "int \<Rightarrow> prefix_iter \<Rightarrow> (prefix \<times> prefix_iter) option" where
  "next_sub bits (Some (p, w), ps) =
     (if prefix_contains p (V4 w) then Some (prefix_from (V4 w) bits, (Some (p, w + sub_step bits), ps))
      else first_sub bits ps)"
| "next_sub bits (None, ps) = first_sub bits ps"

section \<open>Commands for servers\<close>

definition port_local :: "string \<Rightarrow> string result" where
  "port_local p = LocalPortName \<lparr>le_Port = p, le_IP = ''''\<rparr>"

fun local_ports :: "srv_link list \<Rightarrow> string list result" where
  "local_ports [] = Inr []"
| "local_ports (l # ls) = ebind (port_local (sl_Server l)) (\<lambda>p. ebind (local_ports ls) (\<lambda>ps. Inr (p # ps)))"

record netconf_opts =
  nc_VLAN :: "16 word"
  nc_HashPolicy :: string
  nc_P2P :: string
  nc_MTU :: "16 word"

definition u16 :: "16 word \<Rightarrow> string" where "u16 w = itoa (unat w)"

definition mtu_flag :: "16 word \<Rightarrow> string" where
  "mtu_flag mtu = (if mtu > 0 then '' --mtu='' @ u16 mtu else '''')"

fun unbundled_link :: "conn_spec \<Rightarrow> srv_link option" where
  "unbundled_link (ConnUnbundled l) = Some l"
| "unbundled_link _ = None"

fun bonded_links :: "conn_spec \<Rightarrow> srv_link list option" where
  "bonded_links (ConnBundled ls) = Some ls"
| "bonded_links (ConnESLAG ls) = Some ls"
| "bonded_links _ = None"

definition p2p_command :: "conn_spec \<Rightarrow> string \<Rightarrow> string result" where
  "p2p_command spec arg =
     ebind (ewrap ''invalid p2p prefix: %w'' [] (parse_prefix arg)) (\<lambda>p2p.
     if \<not> prefix_is_valid p2p \<or> \<not> addr_is4 (pf_addr p2p) \<or> pf_bits p2p \<noteq> 31
     then Inl (Errf ''p2p prefix must be a valid /31 IPv4 prefix: %s'' [arg])
     else (case unbundled_link spec of
         None \<Rightarrow> Inl (Panic ''runtime error: invalid memory address or nil pointer dereference'')
       | Some l \<Rightarrow> ebind (port_local (sl_Server l)) (\<lambda>port.
           Inr (''p2p '' @ port @ '' '' @ prefix_string (prefix_masked p2p) @ '' '' @
                addr_string (addr_next (pf_addr (prefix_masked p2p)))))))"

definition GetServerNetconfCmd :: "conn option \<Rightarrow> netconf_opts \<Rightarrow> string result" where
  "GetServerNetconfCmd c opts =
     (case c of None \<Rightarrow> Inl (Errf ''connection is nil'' []) | Some (name, spec) \<Rightarrow>
      if nc_P2P opts \<noteq> '''' \<and> (nc_VLAN opts \<noteq> 0 \<or> nc_HashPolicy opts \<noteq> '''')
      then Inl (Errf ''p2p option cannot be used with VLAN or HashPolicy'' [])
      else if nc_P2P opts \<noteq> '''' \<and> nc_MTU opts \<noteq> 0
      then Inl (Errf ''p2p option does not support MTU configuration'' [])
      else if nc_P2P opts \<noteq> '''' \<and> unbundled_link spec = None
      then Inl (Errf ''p2p option cannot be used with connections other than unbundled'' [])
      else if nc_P2P opts \<noteq> '''' then p2p_command spec (nc_P2P opts)
      else (case unbundled_link spec of
          Some l \<Rightarrow> ebind (port_local (sl_Server l)) (\<lambda>port.
            Inr (''vlan '' @ u16 (nc_VLAN opts) @ '' '' @ port @ mtu_flag (nc_MTU opts)))
        | None \<Rightarrow> (case bonded_links spec of
            Some ls \<Rightarrow> ebind (local_ports ls) (\<lambda>ports.
              Inr (''bond '' @ u16 (nc_VLAN opts) @ '' '' @ nc_HashPolicy opts @ concat (map (\<lambda>p. '' '' @ p) ports)
                   @ mtu_flag (nc_MTU opts)))
          | None \<Rightarrow> Inl (Errf ''unexpected connection type for conn %q'' [name]))))"

record host_bgp =
  hb_VPCLabel :: string
  hb_Connections :: "conn list"
  hb_VLAN :: "16 word"
  hb_Subnet :: prefix
  hb_ServerOffset :: nat

fun host_bgp_interfaces :: "conn list \<Rightarrow> string list result" where
  "host_bgp_interfaces [] = Inr []"
| "host_bgp_interfaces ((name, spec) # cs) =
     ebind (case unbundled_link spec of Some l \<Rightarrow> local_ports [l]
       | None \<Rightarrow> (case bonded_links spec of Some ls \<Rightarrow> local_ports ls
         | None \<Rightarrow> Inl (Errf ''unexpected connection type for conn %q'' [name]))) (\<lambda>ports.
     ebind (host_bgp_interfaces cs) (\<lambda>rest. Inr (ports @ rest)))"

definition host_bgp_param :: "host_bgp \<Rightarrow> string result" where
  "host_bgp_param p =
     (if hb_Connections p = [] then Inl (Errf ''no connections provided'' [])
      else ebind (host_bgp_interfaces (hb_Connections p)) (\<lambda>ifs.
        let addr = (addr_next ^^ hb_ServerOffset p) (pf_addr (hb_Subnet p)) in
        if \<not> addr_is_valid addr
        then Inl (Errf ''failed to get IP address from subnet %s'' [prefix_string (hb_Subnet p)])
        else Inr (hb_VPCLabel p @ '':v='' @ u16 (hb_VLAN p) @ '':i='' @ join_with '':i='' ifs
             @ '':a='' @ addr_string addr @ ''/32'')))"

fun host_bgp_params :: "host_bgp list \<Rightarrow> string list result" where
  "host_bgp_params [] = Inr []"
| "host_bgp_params (p # ps) = ebind (host_bgp_param p) (\<lambda>s. ebind (host_bgp_params ps) (\<lambda>ss. Inr (s # ss)))"

definition getServerHostBGPCmd :: "host_bgp list \<Rightarrow> string result" where
  "getServerHostBGPCmd params =
     (if params = [] then Inl (Errf ''no params provided'' [])
      else ebind (host_bgp_params params) (\<lambda>ss. Inr (join_with '' '' ss)))"

section \<open>What a server is attached to\<close>

record server_attach =
  sv_ServerName :: string
  sv_Attached :: bool
  sv_ESLAG :: bool
  sv_L3VNI :: bool

definition is_eslag :: "conn_spec \<Rightarrow> bool" where
  "is_eslag spec = (case spec of ConnESLAG _ \<Rightarrow> True | _ \<Rightarrow> False)"

fun attach_state_loop :: "setup_env \<Rightarrow> bool \<Rightarrow> conn list \<Rightarrow> server_attach \<Rightarrow> server_attach result" where
  "attach_state_loop env checkVPCMode [] sa = Inr sa"
| "attach_state_loop env checkVPCMode ((name, spec) # cs) sa =
     (let sa = (if is_eslag spec then sa\<lparr>sv_ESLAG := True\<rparr> else sa) in
      ebind (ewrap ''listing VPC attachments for connection %q: %w'' [name] (en_Attaches env name)) (\<lambda>attaches.
      case attaches of
        [] \<Rightarrow> attach_state_loop env checkVPCMode cs sa
      | [sub] \<Rightarrow>
          let sa = sa\<lparr>sv_Attached := True\<rparr> in
          if checkVPCMode then
            let vpcName = hd (split2 (CHR ''/'') sub) in
            ebind (ewrap ''getting VPC %q: %w'' [vpcName] (en_VPCMode env vpcName)) (\<lambda>mode.
            Inr (if mode \<noteq> VPCModeL2VNI then sa\<lparr>sv_L3VNI := True\<rparr> else sa))
          else Inr sa
      | _ \<Rightarrow> Inl (Errf ''expected at most one VPC attachment for connection %q, got %d'' [name, itoa (length attaches)])))"

definition getServerAttachState :: "setup_env \<Rightarrow> string \<Rightarrow> bool \<Rightarrow> server_attach result" where
  "getServerAttachState env server checkVPCMode =
     ebind (ewrap ''listing connections for server %q: %w'' [server] (en_Conns env server)) (\<lambda>conns.
     if conns = [] then Inl (Errf ''no connections for server %q'' [server])
     else attach_state_loop env checkVPCMode conns
       \<lparr>sv_ServerName = server, sv_Attached = False, sv_ESLAG = False, sv_L3VNI = False\<rparr>)"

end
