(* ===== verification/SetupVPCs.thy ===== *)
theory SetupVPCs
  imports SetupPlan
begin

text \<open>
  The loop of \<^verbatim>\<open>SetupVPCs\<close> over the servers (\<^verbatim>\<open>pkg/hhfab/testing.go\<close>), with its local variables as a
  state: the counters, the VPCs built so far, their attachments and what is expected of each server.
\<close>

section \<open>The state of the loop\<close>

text \<open>An attachment to build: its name, its annotations and its spec. The last VPC is the one in use.\<close>

record setup_state =
  pl_ServerInSubnet :: nat
  pl_SubnetInVPC :: nat
  pl_VpcID :: nat
  pl_HostBGPDone :: bool
  pl_VPCs :: "(string \<times> vpc_spec) list"
  pl_Attaches :: "(string \<times> string gomap \<times> vpc_attach_spec) list"
  pl_Netconfs :: "string gomap"
  pl_Expected :: "prefix gomap"
  pl_ESLAG :: "string list"
  pl_HostBGP :: "string list"
  pl_VLANs :: vlan_iter
  pl_Prefixes :: prefix_iter

definition next_subnet :: "setup_opts \<Rightarrow> setup_state \<Rightarrow> setup_state" where
  "next_subnet opts s =
     (let s = s\<lparr>pl_ServerInSubnet := 0, pl_SubnetInVPC := pl_SubnetInVPC s + 1\<rparr> in
      if int (pl_SubnetInVPC s) \<ge> su_SubnetsPerVPC opts
      then s\<lparr>pl_SubnetInVPC := 0, pl_VpcID := pl_VpcID s + 1, pl_HostBGPDone := False\<rparr> else s)"

definition vpc_name :: "setup_state \<Rightarrow> string" where
  "vpc_name s = ''vpc-'' @ pad2 (pl_VpcID s + 1)"

definition subnet_name :: "setup_state \<Rightarrow> string" where
  "subnet_name s = ''subnet-'' @ pad2 (pl_SubnetInVPC s + 1)"

definition current_vpc :: "setup_state \<Rightarrow> vpc_spec option" where
  "current_vpc s =
     (if pl_VPCs s \<noteq> [] \<and> fst (last (pl_VPCs s)) = vpc_name s then Some (snd (last (pl_VPCs s))) else None)"

definition current_subnet :: "setup_state \<Rightarrow> subnet_spec option" where
  "current_subnet s = (case current_vpc s of None \<Rightarrow> None | Some v \<Rightarrow> map_of (vc_Subnets v) (subnet_name s))"

section \<open>The steps for a server\<close>

definition server_conns :: "setup_env \<Rightarrow> string \<Rightarrow> (conn list \<times> bool) result" where
  "server_conns env server =
     ebind (ewrap ''listing connections for server %q: %w'' [server] (en_Conns env server)) (\<lambda>conns.
     if conns = [] then Inl (Errf ''no connections for server %q'' [server])
     else if length conns > 1 \<and> list_ex (\<lambda>c. unbundled_link (snd c) = None) conns
     then Inl (Errf ''multiple connections for server %q of which some are not unbundled'' [server])
     else Inr (conns, length conns > 1))"

text \<open>A server that speaks BGP and one that does not never share a subnet.\<close>

definition place_server :: "setup_opts \<Rightarrow> conn list \<Rightarrow> bool \<Rightarrow> setup_state \<Rightarrow> bool \<times> setup_state" where
  "place_server opts conns multihomed s =
     (let hostBGP = (multihomed \<or> (su_HostBGPSubnet opts \<and> \<not> pl_HostBGPDone s \<and> unbundled_link (snd (hd conns)) \<noteq> None));
          s = (case current_subnet s of None \<Rightarrow> s | Some sub \<Rightarrow> if sb_HostBGP sub \<noteq> hostBGP then next_subnet opts s else s)
      in (hostBGP, if hostBGP then s\<lparr>pl_HostBGPDone := True\<rparr> else s))"

definition ensure_vpc :: "setup_opts \<Rightarrow> setup_state \<Rightarrow> setup_state" where
  "ensure_vpc opts s =
     (if current_vpc s \<noteq> None then s
      else s\<lparr>pl_VPCs := pl_VPCs s @ [(vpc_name s, \<lparr>vc_Mode = su_VPCMode opts, vc_Subnets = []\<rparr>)]\<rparr>)"

definition dhcp_opts :: "setup_opts \<Rightarrow> dhcp_options option" where
  "dhcp_opts opts =
     (if su_DNSServers opts \<noteq> [] \<or> su_TimeServers opts \<noteq> [] \<or> su_InterfaceMTU opts > 0
      then Some \<lparr>do_DNSServers = su_DNSServers opts, do_TimeServers = su_TimeServers opts, do_InterfaceMTU = su_InterfaceMTU opts\<rparr>
      else None)"

definition put_subnet :: "string \<Rightarrow> subnet_spec \<Rightarrow> (string \<times> vpc_spec) list \<Rightarrow> (string \<times> vpc_spec) list" where
  "put_subnet name sub vs =
     (let (n, v) = last vs in butlast vs @ [(n, v\<lparr>vc_Subnets := map_put name sub (vc_Subnets v)\<rparr>)])"

definition ensure_subnet :: "setup_opts \<Rightarrow> bool \<Rightarrow> setup_state \<Rightarrow> setup_state result" where
  "ensure_subnet opts hostBGP s =
     (if current_subnet s \<noteq> None then Inr s
      else (case next_sub 24 (pl_Prefixes s) of
          None \<Rightarrow> Inl (Errf ''no more subnets available'' [])
        | Some (subnet, prefixes) \<Rightarrow> (case next_vlan (pl_VLANs s) of
            None \<Rightarrow> Inl (Errf ''no more vlans available'' [])
          | Some (vlan, vlans) \<Rightarrow>
              let dhcp = (\<not> hostBGP \<and> \<not> su_P2P opts) in
              Inr (s\<lparr>pl_Prefixes := prefixes, pl_VLANs := vlans,
                pl_VPCs := put_subnet (subnet_name s)
                  \<lparr>sb_Subnet = prefix_string subnet, sb_VLAN = vlan, sb_DHCPEnable = dhcp,
                   sb_DHCPOptions = (if dhcp then dhcp_opts opts else None), sb_HostBGP = hostBGP\<rparr> (pl_VPCs s)\<rparr>))))"

text \<open>The link of the n-th server of a subnet; the addresses are added in 32 bits.\<close>

definition p2p_link_prefix :: "prefix \<Rightarrow> nat \<Rightarrow> prefix result" where
  "p2p_link_prefix subnet n =
     (case pf_addr (prefix_masked subnet) of
        V4 w \<Rightarrow> Inr (prefix_from (V4 (w + 2 * of_nat n)) 31)
      | _ \<Rightarrow> Inl (Panic ''As4 called on IP zero value or IPv6 address''))"

definition attach_name :: "setup_state \<Rightarrow> conn \<Rightarrow> string" where
  "attach_name s c = fst c @ ''--'' @ vpc_name s @ ''--'' @ subnet_name s"

definition attach_conns :: "setup_state \<Rightarrow> conn list \<Rightarrow> prefix option \<Rightarrow> (string \<times> string gomap \<times> vpc_attach_spec) list" where
  "attach_conns s conns p2p =
     map (\<lambda>c. (attach_name s c,
        (case p2p of None \<Rightarrow> [] | Some p \<Rightarrow> [(AnnotationVPCAttachmentP2PLink, prefix_string p)]),
        \<lparr>at_Connection = fst c, at_Subnet = vpc_name s @ ''/'' @ subnet_name s\<rparr>)) conns"

definition conf_cmd :: "setup_opts \<Rightarrow> setup_state \<Rightarrow> conn list \<Rightarrow> bool \<Rightarrow> prefix option \<Rightarrow> prefix \<Rightarrow> 16 word \<Rightarrow> string result" where
  "conf_cmd opts s conns hostBGP p2p expected vlan =
     (if hostBGP then
        getServerHostBGPCmd [\<lparr>hb_VPCLabel = vpc_name s, hb_Connections = conns, hb_VLAN = vlan,
          hb_Subnet = expected, hb_ServerOffset = pl_ServerInSubnet s\<rparr>]
      else (case p2p of
          Some p \<Rightarrow> GetServerNetconfCmd (Some (hd conns))
            \<lparr>nc_VLAN = 0, nc_HashPolicy = '''', nc_P2P = prefix_string p, nc_MTU = 0\<rparr>
        | None \<Rightarrow> GetServerNetconfCmd (Some (hd conns))
            \<lparr>nc_VLAN = vlan, nc_HashPolicy = su_HashPolicy opts, nc_P2P = '''', nc_MTU = su_InterfaceMTU opts\<rparr>))"

text \<open>What is built for a server once its subnet is there.\<close>

definition attach_to_subnet :: "setup_opts \<Rightarrow> string \<Rightarrow> conn list \<Rightarrow> bool \<Rightarrow> subnet_spec \<Rightarrow> setup_state \<Rightarrow> setup_state result" where
  "attach_to_subnet opts server conns hostBGP sub s =
     (let useP2P = (su_P2P opts \<and> \<not> hostBGP);
          parse = ewrap ''parsing vpc subnet %s/%s %q: %w'' [vpc_name s, subnet_name s, sb_Subnet sub] (parse_prefix (sb_Subnet sub))
      in
      ebind (if useP2P then ebind parse (\<lambda>subnet. ebind (p2p_link_prefix subnet (pl_ServerInSubnet s)) (\<lambda>p. Inr (Some p)))
             else Inr None) (\<lambda>p2p.
      let s = s\<lparr>pl_ServerInSubnet := pl_ServerInSubnet s + 1\<rparr> in
      ebind parse (\<lambda>expected.
      let s = s\<lparr>pl_Expected := map_put server (case p2p of Some p \<Rightarrow> p | None \<Rightarrow> expected) (pl_Expected s),
                pl_HostBGP := (if hostBGP then pl_HostBGP s @ [server] else pl_HostBGP s),
                pl_Attaches := pl_Attaches s @ attach_conns s conns p2p\<rparr> in
      ebind (ewrap ''getting conf cmd for server %q: %w'' [server] (conf_cmd opts s conns hostBGP p2p expected (sb_VLAN sub))) (\<lambda>cmd.
      Inr (s\<lparr>pl_Netconfs := map_put server cmd (pl_Netconfs s)\<rparr>)))))"

definition setup_server :: "setup_opts \<Rightarrow> setup_env \<Rightarrow> string \<Rightarrow> setup_state \<Rightarrow> setup_state result" where
  "setup_server opts env server s =
     (let s = (if int (pl_ServerInSubnet s) \<ge> su_ServersPerSubnet opts then next_subnet opts s else s) in
      ebind (server_conns env server) (\<lambda>(conns, multihomed).
      case place_server opts conns multihomed s of (hostBGP, s) \<Rightarrow>
      ebind (ensure_subnet opts hostBGP (ensure_vpc opts s)) (\<lambda>s.
      case current_subnet s of
        None \<Rightarrow> Inl (Panic ''runtime error: invalid memory address or nil pointer dereference'')
      | Some sub \<Rightarrow> attach_to_subnet opts server conns hostBGP sub s)))"

text \<open>With a mode other than the default, servers attached by ESLAG are skipped.\<close>

definition visit_server :: "setup_opts \<Rightarrow> setup_env \<Rightarrow> string \<Rightarrow> setup_state \<Rightarrow> setup_state result" where
  "visit_server opts env server s =
     (if su_VPCMode opts \<noteq> VPCModeL2VNI then
        ebind (ewrap ''checking server %q attachment state: %w'' [server] (getServerAttachState env server False)) (\<lambda>sa.
        if sv_ESLAG sa then Inr (s\<lparr>pl_ESLAG := pl_ESLAG s @ [server]\<rparr>) else setup_server opts env server s)
      else setup_server opts env server s)"

section \<open>Before the loop\<close>

text \<open>
  The checks of the options, and P2P mode, which an all-Cumulus fabric forces and any other refuses. The
  loop over the switches of an empty fabric finds no other kind of switch.
\<close>

definition check_setup_opts :: "setup_env \<Rightarrow> setup_opts \<Rightarrow> setup_opts result" where
  "check_setup_opts env opts =
     (if su_ServersPerSubnet opts \<le> 0 then Inl (Errf ''servers per subnet must be positive'' [])
      else if su_SubnetsPerVPC opts \<le> 0 then Inl (Errf ''subnets per VPC must be positive'' [])
      else if su_HashPolicy opts \<notin> set HashPolicies
      then Inl (Errf ''invalid hash policy %q, must be one of %v'' [su_HashPolicy opts])
      else if su_VPCMode opts \<notin> set VPCModes then Inl (Errf ''invalid VPC mode %q, must be one of %v'' [su_VPCMode opts])
      else
        ebind (ewrap ''listing switches: %w'' [] (en_Switches env)) (\<lambda>switches.
        ebind (all_cumulus env switches) (\<lambda>allCumulus.
        if su_P2P opts \<and> \<not> allCumulus then Inl (Errf ''P2P mode requires all switches to be cumulus'' [])
        else ewrap ''resolving default server MTU: %w'' []
          (ResolveDefaultServerMTU env (if allCumulus then opts\<lparr>su_P2P := True\<rparr> else opts)))))"

definition server_id :: "string \<Rightarrow> nat result" where
  "server_id name =
     (if \<not> has_prefix name ServerNamePrefix
      then Inl (Errf ''unexpected server name %q, should be %s<number>'' [name, ServerNamePrefix])
      else ewrap ''parsing server id: %w'' [] (parse_uint (drop (length ServerNamePrefix) name) 64))"

fun server_ids :: "string list \<Rightarrow> (string \<times> nat) list result" where
  "server_ids [] = Inr []"
| "server_ids (n # ns) = ebind (server_id n) (\<lambda>i. ebind (server_ids ns) (\<lambda>is. Inr ((n, i) # is)))"

text \<open>The order of the servers; the number of a server is converted to 64 signed bits. The source compares by
  a subtraction, which overflows only for numbers from \<open>2 ^ 63\<close> on.\<close>

definition sort_servers :: "(string \<times> nat) list \<Rightarrow> (string \<times> nat) list" where
  "sort_servers ns = sort_key (\<lambda>(_, i). sint (word_of_nat i :: 64 word)) ns"

fun parse_prefixes :: "string \<Rightarrow> string list \<Rightarrow> prefix list result" where
  "parse_prefixes ns [] = Inr []"
| "parse_prefixes ns (s # ss) =
     ebind (ewrap ''parsing IPv4 namespace %s prefix %q: %w'' [ns, s] (parse_prefix s)) (\<lambda>p.
     ebind (parse_prefixes ns ss) (\<lambda>ps. Inr (p # ps)))"

text \<open>Servers that count from one leave the first VLAN and the first prefix out.\<close>

definition setup_start :: "(string \<times> nat) list \<Rightarrow> vlan_iter \<Rightarrow> prefix_iter \<Rightarrow> setup_state" where
  "setup_start servers vlans prefixes =
     (let first = (servers \<noteq> [] \<and> snd (hd servers) > 0) in
      \<lparr>pl_ServerInSubnet = 0, pl_SubnetInVPC = 0, pl_VpcID = 0, pl_HostBGPDone = False, pl_VPCs = [], pl_Attaches = [],
       pl_Netconfs = [], pl_Expected = [], pl_ESLAG = [], pl_HostBGP = [],
       pl_VLANs = (if first then (case next_vlan vlans of None \<Rightarrow> vlans | Some (_, v) \<Rightarrow> v) else vlans),
       pl_Prefixes = (if first then (case next_sub 24 prefixes of None \<Rightarrow> prefixes | Some (_, p) \<Rightarrow> p) else prefixes)\<rparr>)"

definition plan_vpcs :: "setup_env \<Rightarrow> setup_opts \<Rightarrow> setup_state result" where
  "plan_vpcs env opts =
     ebind (ewrap ''listing servers: %w'' [] (en_Servers env)) (\<lambda>names.
     ebind (server_ids names) (\<lambda>ids.
     let servers = sort_servers ids in
     ebind (ewrap ''getting VLAN namespace %s: %w'' [su_VLANNamespace opts] (en_VLANNS env (su_VLANNamespace opts))) (\<lambda>ranges.
     ebind (ewrap ''getting IPv4 namespace %s: %w'' [su_IPv4Namespace opts] (en_IPv4NS env (su_IPv4Namespace opts))) (\<lambda>subnets.
     ebind (parse_prefixes (su_IPv4Namespace opts) subnets) (\<lambda>prefixes.
     efold (visit_server opts env) (map fst servers)
       (setup_start servers (VLANsFrom ranges) (SubPrefixesFrom prefixes)))))))"

definition plan_setup :: "setup_env \<Rightarrow> setup_opts \<Rightarrow> (setup_opts \<times> setup_state) result" where
  "plan_setup env opts =
     ebind (check_setup_opts env opts) (\<lambda>opts. ebind (plan_vpcs env opts) (\<lambda>s. Inr (opts, s)))"

end
