(* ===== verification/SetupSlots.thy ===== *)
theory SetupSlots
  imports SetupVPCs VlabPorts
begin

text \<open>
  The plan of \<^verbatim>\<open>SetupVPCs\<close> as an abstract one: a list of subnets, each with the servers in it, where
  the i-th subnet has a fixed place in a fixed VPC. The counters of the loop are shown to implement it.
\<close>

section \<open>Pulling from an iterator\<close>

primrec pulled :: "('s \<Rightarrow> ('a \<times> 's) option) \<Rightarrow> 's \<Rightarrow> 'a list \<Rightarrow> 's \<Rightarrow> bool" where
  "pulled nx s [] s' = (s' = s)"
| "pulled nx s (x # xs) s' = (\<exists>t. nx s = Some (x, t) \<and> pulled nx t xs s')"

lemma pulled_snoc: "pulled nx s xs t \<Longrightarrow> nx t = Some (x, u) \<Longrightarrow> pulled nx s (xs @ [x]) u"
  by (induction xs arbitrary: s) auto

text \<open>An iterator that yields the items of a list in order.\<close>

locale iterator =
  fixes nx :: "'s \<Rightarrow> ('a \<times> 's) option" and ok :: "'s \<Rightarrow> bool" and items :: "'s \<Rightarrow> 'a list"
  assumes yields: "ok s \<Longrightarrow> nx s = Some (x, t) \<Longrightarrow> ok t \<and> items s = x # items t"
    and ends: "ok s \<Longrightarrow> nx s = None \<Longrightarrow> items s = []"
begin

lemma pulled_items: "ok s \<Longrightarrow> pulled nx s xs t \<Longrightarrow> ok t \<and> items s = xs @ items t"
proof (induction xs arbitrary: s)
  case (Cons x xs)
  from Cons.prems(2) obtain u where u: "nx s = Some (x, u)" "pulled nx u xs t" by auto
  from yields [OF Cons.prems(1) u(1)] Cons.IH [OF _ u(2)] show ?case by simp
qed simp

lemma pulled_distinct: "ok s \<Longrightarrow> distinct (items s) \<Longrightarrow> pulled nx s xs t \<Longrightarrow> distinct xs"
  using pulled_items by fastforce

lemma more_items: "ok s \<Longrightarrow> items s \<noteq> [] \<Longrightarrow> \<exists>x t. nx s = Some (x, t)"
  using ends by (cases "nx s") auto

end

section \<open>Names of the slots\<close>

lemma pad2_inj [simp]: "pad2 m = pad2 n \<longleftrightarrow> m = n"
proof -
  have two: "length (itoa n) \<ge> 2 \<and> hd (itoa n) \<noteq> CHR ''0''" if "n \<ge> 10" for n
    using that
  proof (induction n rule: itoa.induct)
    case (1 n)
    show ?case
    proof (cases "n < 100")
      case True
      with 1(2) have d: "n div 10 < 10" "n div 10 > 0" by auto
      then have "of_char (digit_char (n div 10)) \<noteq> (48 :: nat)" using of_char_digit_char [OF d(1)] by simp
      then have "digit_char (n div 10) \<noteq> CHR ''0''" by auto
      with 1(2) d show ?thesis by (simp add: itoa.simps [of n] itoa.simps [of "n div 10"])
    next
      case False
      with 1 have "length (itoa (n div 10)) \<ge> 2 \<and> hd (itoa (n div 10)) \<noteq> CHR ''0''" by auto
      with 1(2) show ?thesis by (simp add: itoa.simps [of n])
    qed
  qed
  have one: "length (itoa n) = 1" if "n < 10" for n using that by (simp add: itoa.simps [of n])
  have mixed: "pad2 m \<noteq> pad2 n" if "m < 10" "\<not> n < 10" for m n
    using two [of n] that by (cases "itoa n") (auto simp: pad2_def)
  show ?thesis
    using mixed [of m n] mixed [of n m] by (cases "m < 10"; cases "n < 10") (auto simp: pad2_def itoa_inj)
qed

definition slot_vpc :: "nat \<Rightarrow> nat \<Rightarrow> string" where "slot_vpc k i = ''vpc-'' @ pad2 (i div k + 1)"
definition sub_name :: "nat \<Rightarrow> string" where "sub_name j = ''subnet-'' @ pad2 (j + 1)"
definition slot_subnet :: "nat \<Rightarrow> nat \<Rightarrow> string" where "slot_subnet k i = sub_name (i mod k)"

lemma sub_name_eq [simp]: "sub_name i = sub_name j \<longleftrightarrow> i = j" by (simp add: sub_name_def)

lemma slot_vpc_eq: "slot_vpc k i = slot_vpc k j \<longleftrightarrow> i div k = j div k" by (simp add: slot_vpc_def)
lemma slot_subnet_eq: "slot_subnet k i = slot_subnet k j \<longleftrightarrow> i mod k = j mod k" by (simp add: slot_subnet_def)

lemma slots_distinct: "(slot_vpc k i, slot_subnet k i) = (slot_vpc k j, slot_subnet k j) \<longleftrightarrow> i = j"
  by (metis Pair_inject div_mult_mod_eq slot_vpc_eq slot_subnet_eq)

section \<open>The VPCs of a list of subnets\<close>

definition add_slot :: "nat \<Rightarrow> string \<Rightarrow> nat \<Rightarrow> subnet_spec \<Rightarrow> (string \<times> vpc_spec) list \<Rightarrow> (string \<times> vpc_spec) list" where
  "add_slot k mode i sub vs =
     (if i mod k = 0 then vs @ [(slot_vpc k i, \<lparr>vc_Mode = mode, vc_Subnets = [(slot_subnet k i, sub)]\<rparr>)]
      else put_subnet (slot_subnet k i) sub vs)"

fun slot_vpcs :: "nat \<Rightarrow> string \<Rightarrow> nat \<Rightarrow> subnet_spec list \<Rightarrow> (string \<times> vpc_spec) list \<Rightarrow> (string \<times> vpc_spec) list" where
  "slot_vpcs k mode i [] vs = vs"
| "slot_vpcs k mode i (sub # subs) vs = slot_vpcs k mode (i + 1) subs (add_slot k mode i sub vs)"

definition vpcs_of :: "nat \<Rightarrow> string \<Rightarrow> subnet_spec list \<Rightarrow> (string \<times> vpc_spec) list" where
  "vpcs_of k mode subs = slot_vpcs k mode 0 subs []"

lemma slot_vpcs_snoc: "slot_vpcs k mode i (subs @ [sub]) vs = add_slot k mode (i + length subs) sub (slot_vpcs k mode i subs vs)"
  by (induction subs arbitrary: i vs) simp_all

lemma vpcs_of_snoc: "vpcs_of k mode (subs @ [sub]) = add_slot k mode (length subs) sub (vpcs_of k mode subs)"
  by (simp add: vpcs_of_def slot_vpcs_snoc)

lemma vpcs_of_nil [simp]: "vpcs_of k mode [] = []" by (simp add: vpcs_of_def)

lemma map_put_absent: "k \<notin> fst ` set m \<Longrightarrow> map_put k v m = m @ [(k, v)]"
  by (induction k v m rule: map_put.induct) auto

text \<open>The VPC in use is the last one, and holds the subnets of its slots in order.\<close>

lemma last_vpc:
  assumes "k > 0" "subs \<noteq> []"
  shows "\<exists>vs. vpcs_of k mode subs = vs @ [(slot_vpc k (length subs - 1),
     \<lparr>vc_Mode = mode, vc_Subnets = map (\<lambda>j. (sub_name j, subs ! ((length subs - 1) div k * k + j)))
        [0..<(length subs - 1) mod k + 1]\<rparr>)]"
  using assms(2)
proof (induction subs rule: rev_induct)
  case (snoc sub subs)
  let ?n = "length subs"
  show ?case
  proof (cases "?n mod k = 0")
    case True
    then have "?n div k * k = ?n" by (metis add.right_neutral div_mult_mod_eq)
    with True show ?thesis by (simp add: vpcs_of_snoc add_slot_def slot_subnet_def)
  next
    case False
    then have "subs \<noteq> []" by auto
    then have len: "?n - 1 + 1 = ?n" by (cases subs) auto
    have m: "(?n - 1) div k = ?n div k" "(?n - 1) mod k + 1 = ?n mod k"
      using False len assms(1) by (metis Suc_eq_plus1 div_Suc mod_Suc)+
    have below: "j < ?n mod k \<Longrightarrow> ?n div k * k + j < ?n" for j
      by (metis add_less_cancel_left div_mult_mod_eq)
    have same: "(subs @ [sub]) ! (?n div k * k + j) = subs ! (?n div k * k + j)" if "j < ?n mod k" for j
      using below [OF that] by (simp add: nth_append)
    from snoc.IH [OF \<open>subs \<noteq> []\<close>] obtain vs where vs: "vpcs_of k mode subs = vs @ [(slot_vpc k (?n - 1),
        \<lparr>vc_Mode = mode, vc_Subnets = map (\<lambda>j. (sub_name j, subs ! (?n div k * k + j))) [0..<?n mod k]\<rparr>)]"
      unfolding m by blast
    have name: "slot_vpc k (?n - 1) = slot_vpc k ?n" using m(1) by (simp add: slot_vpc_eq)
    have "map_put (sub_name (?n mod k)) sub (map (\<lambda>j. (sub_name j, subs ! (?n div k * k + j))) [0..<?n mod k]) =
        map (\<lambda>j. (sub_name j, (subs @ [sub]) ! (?n div k * k + j))) [0..<?n mod k + 1]"
      by (subst map_put_absent) (auto simp: same)
    then show ?thesis
      unfolding vpcs_of_snoc add_slot_def put_subnet_def vs using False by (simp add: name [simplified] slot_subnet_def del: upt_Suc)
  qed
qed simp

section \<open>The counters\<close>

definition at_slot :: "nat \<Rightarrow> nat \<Rightarrow> setup_state \<Rightarrow> bool" where
  "at_slot k i s \<longleftrightarrow> pl_VpcID s = i div k \<and> pl_SubnetInVPC s = i mod k"

definition per_vpc :: "setup_opts \<Rightarrow> nat" where "per_vpc opts = nat (su_SubnetsPerVPC opts)"

lemma at_slot_names:
  assumes "at_slot k i s"
  shows "vpc_name s = slot_vpc k i" "subnet_name s = slot_subnet k i"
  using assms by (simp_all add: at_slot_def vpc_name_def subnet_name_def slot_vpc_def slot_subnet_def sub_name_def)

lemma at_slot_next:
  assumes "su_SubnetsPerVPC opts > 0" "at_slot (per_vpc opts) i s"
  shows "at_slot (per_vpc opts) (i + 1) (next_subnet opts s)"
proof -
  have "int (i mod per_vpc opts + 1) \<ge> su_SubnetsPerVPC opts \<longleftrightarrow> Suc (i mod per_vpc opts) = per_vpc opts"
    using assms(1) mod_less_divisor [of "per_vpc opts" i] unfolding per_vpc_def by linarith
  with assms(2) show ?thesis
    by (simp add: at_slot_def next_subnet_def Let_def div_Suc mod_Suc)
qed

lemma next_subnet_fields [simp]:
  "pl_VPCs (next_subnet opts s) = pl_VPCs s" "pl_Attaches (next_subnet opts s) = pl_Attaches s"
  "pl_Netconfs (next_subnet opts s) = pl_Netconfs s" "pl_Expected (next_subnet opts s) = pl_Expected s"
  "pl_ESLAG (next_subnet opts s) = pl_ESLAG s" "pl_HostBGP (next_subnet opts s) = pl_HostBGP s"
  "pl_VLANs (next_subnet opts s) = pl_VLANs s" "pl_Prefixes (next_subnet opts s) = pl_Prefixes s"
  "pl_ServerInSubnet (next_subnet opts s) = 0"
  by (simp_all add: next_subnet_def Let_def)

text \<open>Of the slots, the last one filled is the current subnet, and the next one is not there yet.\<close>

lemma current_filled:
  assumes "k > 0" "subs \<noteq> []" "pl_VPCs s = vpcs_of k mode subs" "at_slot k (length subs - 1) s"
  shows "current_subnet s = Some (last subs)"
proof -
  let ?n = "length subs - 1"
  obtain vs where vs: "vpcs_of k mode subs = vs @ [(slot_vpc k ?n, \<lparr>vc_Mode = mode, vc_Subnets =
      map (\<lambda>j. (sub_name j, subs ! (?n div k * k + j))) [0..<?n mod k + 1]\<rparr>)]"
    using last_vpc [OF assms(1,2)] by blast
  have "map_of (map (\<lambda>j. (sub_name j, subs ! (?n div k * k + j))) [0..<?n mod k + 1]) (sub_name (?n mod k)) =
      Some (subs ! (?n div k * k + ?n mod k))"
    by (rule map_of_is_SomeI) (auto simp: distinct_map inj_on_def comp_def)
  then have "map_of (map (\<lambda>j. (sub_name j, subs ! (?n div k * k + j))) [0..<?n mod k + 1]) (slot_subnet k ?n) = Some (last subs)"
    unfolding slot_subnet_def div_mult_mod_eq last_conv_nth [OF assms(2)] .
  then show ?thesis
    unfolding current_subnet_def current_vpc_def assms(3) vs at_slot_names [OF assms(4)] by (simp del: upt_Suc map_append)
qed

lemma current_fresh:
  assumes "k > 0" "pl_VPCs s = vpcs_of k mode subs" "at_slot k (length subs) s"
  shows "current_subnet s = None"
    and "current_vpc s = None \<longleftrightarrow> length subs mod k = 0"
proof -
  have "current_subnet s = None \<and> (current_vpc s = None \<longleftrightarrow> length subs mod k = 0)"
  proof (cases "subs = []")
    case True
    with assms show ?thesis by (simp add: current_subnet_def current_vpc_def)
  next
    case False
    then obtain n where len: "length subs = Suc n" by (cases subs) auto
    obtain vs where vs: "vpcs_of k mode subs = vs @ [(slot_vpc k n, \<lparr>vc_Mode = mode, vc_Subnets =
        map (\<lambda>j. (sub_name j, subs ! (n div k * k + j))) [0..<n mod k + 1]\<rparr>)]"
      using last_vpc [OF assms(1) False] len by auto
    have "map_of (map (\<lambda>j. (sub_name j, subs ! (n div k * k + j))) [0..<n mod k + 1]) (slot_subnet k (Suc n)) = None"
      if "Suc n mod k \<noteq> 0"
    proof -
      have "Suc n mod k = Suc (n mod k)" using that by (simp add: mod_Suc split: if_splits)
      then show ?thesis unfolding map_of_eq_None_iff by (auto simp: slot_subnet_def)
    qed
    moreover have "slot_vpc k n = slot_vpc k (Suc n) \<longleftrightarrow> Suc n mod k \<noteq> 0"
      by (auto simp: slot_vpc_eq div_Suc)
    ultimately show ?thesis
      using assms(2,3) len unfolding current_subnet_def current_vpc_def
      by (auto simp: at_slot_names vs simp del: upt_Suc)
  qed
  then show "current_subnet s = None" "current_vpc s = None \<longleftrightarrow> length subs mod k = 0" by auto
qed

end
