(* ===== verification/SetupRefine.thy ===== *)
theory SetupRefine
  imports SetupSlots
begin

text \<open>
  The loop of \<^verbatim>\<open>SetupVPCs\<close> implements an abstract plan: groups of servers, one per subnet, from which the
  VPCs, the attachments and the expectations can be read off.
\<close>

section \<open>The abstract plan\<close>

text \<open>A subnet with its address and its servers, in the order they were placed, each with its connections.\<close>

type_synonym group = "32 word \<times> subnet_spec \<times> (string \<times> conn list) list"

definition group_subnet :: "group \<Rightarrow> subnet_spec" where "group_subnet g = fst (snd g)"
definition group_servers :: "group \<Rightarrow> (string \<times> conn list) list" where "group_servers g = snd (snd g)"
definition group_prefix :: "group \<Rightarrow> prefix" where "group_prefix g = v4_prefix (fst g) 24"

text \<open>The link of the j-th server of a group, where its servers have one.\<close>

definition group_link :: "setup_opts \<Rightarrow> group \<Rightarrow> nat \<Rightarrow> prefix option" where
  "group_link opts g j =
     (if su_P2P opts \<and> \<not> sb_HostBGP (group_subnet g)
      then Some (v4_prefix (v4_base (fst g) 24 + 2 * word_of_nat j) 31) else None)"

definition server_attaches ::
    "setup_opts \<Rightarrow> nat \<Rightarrow> group \<Rightarrow> nat \<Rightarrow> string \<times> conn list \<Rightarrow> (string \<times> string gomap \<times> vpc_attach_spec) list" where
  "server_attaches opts i g j sv =
     (let v = slot_vpc (per_vpc opts) i; n = slot_subnet (per_vpc opts) i in
      map (\<lambda>c. (fst c @ ''--'' @ v @ ''--'' @ n,
        (case group_link opts g j of None \<Rightarrow> [] | Some p \<Rightarrow> [(AnnotationVPCAttachmentP2PLink, prefix_string p)]),
        \<lparr>at_Connection = fst c, at_Subnet = v @ ''/'' @ n\<rparr>)) (snd sv))"

definition group_attaches :: "setup_opts \<Rightarrow> nat \<Rightarrow> group \<Rightarrow> (string \<times> string gomap \<times> vpc_attach_spec) list" where
  "group_attaches opts i g = concat (map (\<lambda>(j, sv). server_attaches opts i g j sv) (enumerate 0 (group_servers g)))"

definition plan_attaches :: "setup_opts \<Rightarrow> group list \<Rightarrow> (string \<times> string gomap \<times> vpc_attach_spec) list" where
  "plan_attaches opts gs = concat (map (\<lambda>(i, g). group_attaches opts i g) (enumerate 0 gs))"

definition group_expected :: "setup_opts \<Rightarrow> group \<Rightarrow> (string \<times> prefix) list" where
  "group_expected opts g =
     map (\<lambda>(j, sv). (fst sv, case group_link opts g j of None \<Rightarrow> group_prefix g | Some p \<Rightarrow> p)) (enumerate 0 (group_servers g))"

definition plan_expected :: "setup_opts \<Rightarrow> group list \<Rightarrow> (string \<times> prefix) list" where
  "plan_expected opts gs = concat (map (group_expected opts) gs)"

definition plan_vpc_list :: "setup_opts \<Rightarrow> group list \<Rightarrow> (string \<times> vpc_spec) list" where
  "plan_vpc_list opts gs = vpcs_of (per_vpc opts) (su_VPCMode opts) (map group_subnet gs)"

definition plan_servers :: "group list \<Rightarrow> (string \<times> conn list) list" where
  "plan_servers gs = concat (map group_servers gs)"

text \<open>The servers of the subnets of BGP speakers, in order.\<close>

definition plan_host_bgp :: "group list \<Rightarrow> string list" where
  "plan_host_bgp gs = concat (map (\<lambda>g. if sb_HostBGP (group_subnet g) then map fst (group_servers g) else []) gs)"

text \<open>
  A group the options allow: not empty, not too large, and all its servers of its kind. A server with several
  connections is a BGP speaker; one with a single connection is in a group of BGP speakers only if the options ask
  for it, its connection is not bundled, and it is the first of the group.
\<close>

definition group_ok :: "setup_env \<Rightarrow> setup_opts \<Rightarrow> group \<Rightarrow> bool" where
  "group_ok env opts g \<longleftrightarrow>
     group_servers g \<noteq> [] \<and> int (length (group_servers g)) \<le> su_ServersPerSubnet opts \<and>
     sb_Subnet (group_subnet g) = prefix_string (group_prefix g) \<and>
     (\<forall>(n, cs) \<in> set (group_servers g). en_Conns env n = Inr cs \<and> cs \<noteq> [] \<and>
        (length cs > 1 \<longrightarrow> sb_HostBGP (group_subnet g) \<and> (\<forall>c \<in> set cs. unbundled_link (snd c) \<noteq> None))) \<and>
     (sb_HostBGP (group_subnet g) \<longrightarrow>
        (\<forall>(n, cs) \<in> set (group_servers g). length cs > 1 \<or> su_HostBGPSubnet opts \<and> unbundled_link (snd (hd cs)) \<noteq> None) \<and>
        (\<forall>(n, cs) \<in> set (tl (group_servers g)). length cs > 1))"

definition implements ::
    "setup_opts \<Rightarrow> vlan_iter \<Rightarrow> prefix_iter \<Rightarrow> group list \<Rightarrow> setup_state \<Rightarrow> bool" where
  "implements opts v0 p0 gs s \<longleftrightarrow>
     pl_VPCs s = plan_vpc_list opts gs \<and> pl_Attaches s = plan_attaches opts gs \<and>
     pl_Expected s = foldl (\<lambda>m (n, p). map_put n p m) [] (plan_expected opts gs) \<and>
     pl_HostBGP s = plan_host_bgp gs \<and>
     pulled next_vlan v0 (map (\<lambda>g. sb_VLAN (group_subnet g)) gs) (pl_VLANs s) \<and>
     pulled (next_sub 24) p0 (map group_prefix gs) (pl_Prefixes s)"

definition counters_at :: "setup_opts \<Rightarrow> group list \<Rightarrow> setup_state \<Rightarrow> bool" where
  "counters_at opts gs s \<longleftrightarrow>
     (if gs = [] then at_slot (per_vpc opts) 0 s \<and> pl_ServerInSubnet s = 0
      else at_slot (per_vpc opts) (length gs - 1) s \<and> pl_ServerInSubnet s = length (group_servers (last gs)) \<and>
        (sb_HostBGP (group_subnet (last gs)) \<longrightarrow> pl_HostBGPDone s))"

section \<open>Where a server goes\<close>

text \<open>The place found for a server: the last group, with room and of its kind, or a new one.\<close>

definition joins :: "setup_opts \<Rightarrow> group list \<Rightarrow> bool \<Rightarrow> setup_state \<Rightarrow> bool" where
  "joins opts gs hostBGP s \<longleftrightarrow>
     gs \<noteq> [] \<and> at_slot (per_vpc opts) (length gs - 1) s \<and> pl_ServerInSubnet s = length (group_servers (last gs)) \<and>
     int (pl_ServerInSubnet s) < su_ServersPerSubnet opts \<and> sb_HostBGP (group_subnet (last gs)) = hostBGP"

definition opens :: "setup_opts \<Rightarrow> group list \<Rightarrow> setup_state \<Rightarrow> bool" where
  "opens opts gs s \<longleftrightarrow> at_slot (per_vpc opts) (length gs) s \<and> pl_ServerInSubnet s = 0"

definition plannable_opts :: "setup_opts \<Rightarrow> bool" where
  "plannable_opts opts \<longleftrightarrow> su_ServersPerSubnet opts > 0 \<and> su_SubnetsPerVPC opts > 0"

lemma per_vpc_pos: "plannable_opts opts \<Longrightarrow> per_vpc opts > 0"
  by (simp add: plannable_opts_def per_vpc_def)

lemma implements_cong:
  "implements opts v0 p0 gs s \<Longrightarrow> pl_VPCs s' = pl_VPCs s \<Longrightarrow> pl_Attaches s' = pl_Attaches s \<Longrightarrow>
   pl_Expected s' = pl_Expected s \<Longrightarrow> pl_HostBGP s' = pl_HostBGP s \<Longrightarrow> pl_VLANs s' = pl_VLANs s \<Longrightarrow> pl_Prefixes s' = pl_Prefixes s \<Longrightarrow>
   implements opts v0 p0 gs s'"
  by (simp add: implements_def)

lemma implements_next [simp]: "implements opts v0 p0 gs (next_subnet opts s) = implements opts v0 p0 gs s"
  by (simp add: implements_def)

lemma at_slot_HostBGPDone [simp]: "at_slot k i (s\<lparr>pl_HostBGPDone := b\<rparr>) = at_slot k i s"
  by (simp add: at_slot_def)

lemma at_slot_unique: "at_slot k i s \<Longrightarrow> at_slot k j s \<Longrightarrow> i = j"
  by (metis at_slot_def div_mult_mod_eq)

lemma joins_not_opens: "joins opts gs h s \<Longrightarrow> \<not> opens opts gs s"
proof
  assume "joins opts gs h s" "opens opts gs s"
  then have "gs \<noteq> []" "length gs - 1 = length gs" by (auto simp: joins_def opens_def intro: at_slot_unique)
  then show False by (cases gs) simp_all
qed

lemma current_filled_group:
  assumes "plannable_opts opts" "implements opts v0 p0 gs s" "gs \<noteq> []" "at_slot (per_vpc opts) (length gs - 1) s"
  shows "current_subnet s = Some (group_subnet (last gs))"
  using current_filled [OF per_vpc_pos [OF assms(1)], of "map group_subnet gs" s "su_VPCMode opts"] assms(2-4)
  by (simp add: implements_def plan_vpc_list_def last_map)

lemma current_fresh_group:
  assumes "plannable_opts opts" "implements opts v0 p0 gs s" "at_slot (per_vpc opts) (length gs) s"
  shows "current_subnet s = None" and "current_vpc s = None \<longleftrightarrow> length gs mod per_vpc opts = 0"
  using current_fresh [OF per_vpc_pos [OF assms(1)], of s "su_VPCMode opts" "map group_subnet gs"] assms(2,3)
  by (simp_all add: implements_def plan_vpc_list_def)

lemma next_opens:
  assumes "plannable_opts opts" "gs \<noteq> []" "at_slot (per_vpc opts) (length gs - 1) s"
  shows "opens opts gs (next_subnet opts s)"
  using at_slot_next [of opts "length gs - 1" s] assms by (simp add: opens_def plannable_opts_def)

lemma place_server_finds:
  assumes "plannable_opts opts" "implements opts v0 p0 gs s" "counters_at opts gs s"
    and s1: "s1 = (if int (pl_ServerInSubnet s) \<ge> su_ServersPerSubnet opts then next_subnet opts s else s)"
    and place: "place_server opts conns multihomed s1 = (hostBGP, s2)"
  shows "implements opts v0 p0 gs s2 \<and> (joins opts gs hostBGP s2 \<and> (hostBGP \<longrightarrow> multihomed) \<or> opens opts gs s2) \<and>
    (multihomed \<longrightarrow> hostBGP) \<and> (hostBGP \<longrightarrow> pl_HostBGPDone s2 \<and>
      (multihomed \<or> su_HostBGPSubnet opts \<and> unbundled_link (snd (hd conns)) \<noteq> None))"
proof -
  define s1' where "s1' = (case current_subnet s1 of None \<Rightarrow> s1 | Some sub \<Rightarrow> if sb_HostBGP sub \<noteq> hostBGP then next_subnet opts s1 else s1)"
  note found = place [unfolded place_server_def Let_def prod.inject]
  note host = found [THEN conjunct1, symmetric]
  have s2: "s2 = (if hostBGP then s1'\<lparr>pl_HostBGPDone := True\<rparr> else s1')"
    unfolding s1'_def by (rule found [THEN conjunct2, unfolded found [THEN conjunct1], symmetric])
  have i1: "implements opts v0 p0 gs s1" using assms(2) s1 by simp
  then have i1': "implements opts v0 p0 gs s1'" by (auto simp: s1'_def split: option.splits)
  then have i2: "implements opts v0 p0 gs s2" using s2 by (auto intro: implements_cong)
  have "joins opts gs hostBGP s1' \<and> (hostBGP \<longrightarrow> multihomed) \<or> opens opts gs s1'"
  proof (cases "opens opts gs s1")
    case True
    then have "s1' = s1" using current_fresh_group(1) [OF assms(1) i1] by (simp add: opens_def s1'_def)
    with True show ?thesis by simp
  next
    case False
    then have ne: "gs \<noteq> []" and room: "int (pl_ServerInSubnet s) < su_ServersPerSubnet opts" and s: "s1 = s"
      using assms(1,3) s1 next_opens [OF assms(1), of gs s] by (auto simp: counters_at_def opens_def plannable_opts_def split: if_splits)
    then have at: "at_slot (per_vpc opts) (length gs - 1) s1" "pl_ServerInSubnet s1 = length (group_servers (last gs))"
      "sb_HostBGP (group_subnet (last gs)) \<longrightarrow> pl_HostBGPDone s1"
      using assms(3) by (simp_all add: counters_at_def)
    have cur: "current_subnet s1 = Some (group_subnet (last gs))" by (rule current_filled_group [OF assms(1) i1 ne at(1)])
    show ?thesis
      using next_opens [OF assms(1) ne at(1)] ne room at cur host by (auto simp: s1'_def s joins_def)
  qed
  then have "joins opts gs hostBGP s2 \<and> (hostBGP \<longrightarrow> multihomed) \<or> opens opts gs s2" using s2 by (auto simp: joins_def opens_def)
  with i2 host s2 show ?thesis by auto
qed

section \<open>The subnet of a server\<close>

lemma first_sub_v4: "first_sub (int n) ps = Some (p, it) \<Longrightarrow> n \<le> 32 \<Longrightarrow> \<exists>w. p = v4_prefix w n"
  by (induction "int n" ps rule: first_sub.induct) (auto split: if_splits addr.splits)

lemma next_sub_v4: "next_sub 24 it = Some (p, it') \<Longrightarrow> \<exists>w. p = v4_prefix w 24"
  using first_sub_v4 [of 24] prefix_from_v4 [of 24]
  by (cases "(24 :: int, it)" rule: next_sub.cases) (auto split: if_splits)

lemma implements_cur:
  assumes "plannable_opts opts" "implements opts v0 p0 gs s" "joins opts gs h s"
  shows "current_subnet s = Some (group_subnet (last gs))" "current_vpc s \<noteq> None"
proof -
  show c: "current_subnet s = Some (group_subnet (last gs))"
    using current_filled_group [OF assms(1,2)] assms(3) by (simp add: joins_def)
  then show "current_vpc s \<noteq> None" by (auto simp: current_subnet_def split: option.splits)
qed

text \<open>A new subnet is the next slot; its group has no server yet.\<close>

lemma ensure_opens:
  assumes "plannable_opts opts" "implements opts v0 p0 gs s" "opens opts gs s"
    and "ensure_subnet opts hostBGP (ensure_vpc opts s) = Inr s'"
  shows "\<exists>w sub. implements opts v0 p0 (gs @ [(w, sub, [])]) s' \<and> at_slot (per_vpc opts) (length gs) s' \<and>
    pl_ServerInSubnet s' = 0 \<and> pl_HostBGPDone s' = pl_HostBGPDone s \<and> current_subnet s' = Some sub \<and> sb_HostBGP sub = hostBGP \<and>
    sb_Subnet sub = prefix_string (v4_prefix w 24)"
proof -
  let ?k = "per_vpc opts"
  have at: "at_slot ?k (length gs) s" using assms(3) by (simp add: opens_def)
  note fresh = current_fresh_group [OF assms(1,2) at]
  define t where "t = ensure_vpc opts s"
  have t: "pl_VLANs t = pl_VLANs s" "pl_Prefixes t = pl_Prefixes s" "at_slot ?k (length gs) t" "pl_ServerInSubnet t = 0"
    "pl_Attaches t = pl_Attaches s" "pl_Expected t = pl_Expected s" "pl_HostBGP t = pl_HostBGP s" "pl_HostBGPDone t = pl_HostBGPDone s"
    using assms(3) by (auto simp: t_def ensure_vpc_def opens_def at_slot_def)
  have "current_subnet t = None"
    using fresh by (auto simp: t_def ensure_vpc_def current_subnet_def current_vpc_def vpc_name_def)
  with assms(4) obtain p ps vlan vs where p: "next_sub 24 (pl_Prefixes s) = Some (p, ps)" "next_vlan (pl_VLANs s) = Some (vlan, vs)"
    and s': "s' = t\<lparr>pl_Prefixes := ps, pl_VLANs := vs, pl_VPCs := put_subnet (subnet_name t)
       \<lparr>sb_Subnet = prefix_string p, sb_VLAN = vlan, sb_DHCPEnable = (\<not> hostBGP \<and> \<not> su_P2P opts),
        sb_DHCPOptions = (if \<not> hostBGP \<and> \<not> su_P2P opts then dhcp_opts opts else None), sb_HostBGP = hostBGP\<rparr> (pl_VPCs t)\<rparr>"
    by (auto simp: ensure_subnet_def Let_def t_def [symmetric] t split: option.splits)
  obtain w where w: "p = v4_prefix w 24" using next_sub_v4 [OF p(1)] by blast
  define sub where "sub = \<lparr>sb_Subnet = prefix_string p, sb_VLAN = vlan, sb_DHCPEnable = (\<not> hostBGP \<and> \<not> su_P2P opts),
        sb_DHCPOptions = (if \<not> hostBGP \<and> \<not> su_P2P opts then dhcp_opts opts else None), sb_HostBGP = hostBGP\<rparr>"
  have names: "vpc_name s = slot_vpc ?k (length gs)" "subnet_name t = slot_subnet ?k (length gs)"
    using at_slot_names [OF at] at_slot_names [OF t(3)] by simp_all
  have old: "pl_VPCs s = vpcs_of ?k (su_VPCMode opts) (map group_subnet gs)"
    using assms(2) by (simp add: implements_def plan_vpc_list_def)
  have vpcs: "put_subnet (subnet_name t) sub (pl_VPCs t) =
      vpcs_of ?k (su_VPCMode opts) (map group_subnet gs @ [sub])"
    unfolding vpcs_of_snoc names(2) using fresh(2) old
    by (simp add: add_slot_def t_def ensure_vpc_def names(1) put_subnet_def)
  note s' = s' [folded sub_def]
  have sub: "sb_VLAN sub = vlan" "sb_HostBGP sub = hostBGP" "sb_Subnet sub = prefix_string p" by (simp_all add: sub_def)
  have impl: "implements opts v0 p0 (gs @ [(w, sub, [])]) s'"
    using assms(2) p pulled_snoc [of next_vlan v0 _ "pl_VLANs s"] pulled_snoc [of "next_sub 24" p0 _ "pl_Prefixes s"]
    by (simp add: implements_def s' t vpcs sub plan_vpc_list_def group_subnet_def group_prefix_def w
        plan_attaches_def enumerate_append_eq group_attaches_def group_servers_def plan_expected_def group_expected_def plan_host_bgp_def)
  have at': "at_slot ?k (length gs) s'" using t(3) by (simp add: s' at_slot_def)
  have "current_subnet s' = Some sub"
    using current_filled_group [OF assms(1) impl] at' by (simp add: group_subnet_def)
  with impl at' t(4,8) sub w show ?thesis by (auto simp: s')
qed

lemma ensure_joins:
  assumes "plannable_opts opts" "implements opts v0 p0 gs s" "joins opts gs hostBGP s"
    and "ensure_subnet opts hostBGP (ensure_vpc opts s) = Inr s'"
  shows "s' = s"
  using implements_cur [OF assms(1-3)] assms(4) by (auto simp: ensure_vpc_def ensure_subnet_def)

end
