(* ===== verification/SetupProps.thy ===== *)
theory SetupProps
  imports SetupRefine AllocLinks
begin

text \<open>
  The run of the loop of \<^verbatim>\<open>SetupVPCs\<close>, and what follows for the VPCs, VLANs, prefixes and links it plans.
\<close>

section \<open>The step for a server\<close>

lemma p2p_link_v4: "p2p_link_prefix (v4_prefix w 24) j = Inr (v4_prefix (v4_base w 24 + 2 * word_of_nat j) 31)"
  using prefix_from_v4 [of 31 "v4_base w 24 + 2 * word_of_nat j"] by (simp add: p2p_link_prefix_def)

lemma attach_to_subnet_group:
  assumes "implements opts v0 p0 (gs @ [(w, sub, svs)]) s" "at_slot (per_vpc opts) (length gs) s"
    "pl_ServerInSubnet s = length svs" "sb_HostBGP sub \<longrightarrow> pl_HostBGPDone s" "sb_Subnet sub = prefix_string (v4_prefix w 24)"
    and "attach_to_subnet opts server conns (sb_HostBGP sub) sub s = Inr s'"
  shows "implements opts v0 p0 (gs @ [(w, sub, svs @ [(server, conns)])]) s' \<and>
    counters_at opts (gs @ [(w, sub, svs @ [(server, conns)])]) s' \<and> pl_ESLAG s' = pl_ESLAG s"
proof -
  let ?g = "(w, sub, svs @ [(server, conns)])"
  have link: "group_link opts (w, sub, vs) j = group_link opts ?g j" for vs j
    by (simp add: group_link_def group_subnet_def)
  have parse: "ewrap msg args (parse_prefix (sb_Subnet sub)) = Inr (v4_prefix w 24)" for msg args
    using parse_prefix_string_v4 [of 24 w] by (simp add: assms(5))
  define t where "t = s\<lparr>pl_ServerInSubnet := length svs + 1,
      pl_Expected := map_put server (case group_link opts ?g (length svs) of Some p \<Rightarrow> p | None \<Rightarrow> v4_prefix w 24) (pl_Expected s),
      pl_HostBGP := (if sb_HostBGP sub then pl_HostBGP s @ [server] else pl_HostBGP s),
      pl_Attaches := pl_Attaches s @ attach_conns (s\<lparr>pl_ServerInSubnet := length svs + 1,
        pl_Expected := map_put server (case group_link opts ?g (length svs) of Some p \<Rightarrow> p | None \<Rightarrow> v4_prefix w 24) (pl_Expected s),
        pl_HostBGP := (if sb_HostBGP sub then pl_HostBGP s @ [server] else pl_HostBGP s)\<rparr>) conns (group_link opts ?g (length svs))\<rparr>"
  have "\<exists>c. s' = t\<lparr>pl_Netconfs := c\<rparr>"
    using assms(3,6) unfolding attach_to_subnet_def Let_def parse t_def group_link_def group_subnet_def
    by (cases "su_P2P opts \<and> \<not> sb_HostBGP sub") (auto simp: p2p_link_v4 ok_iff attach_conns_def attach_name_def vpc_name_def subnet_name_def)
  then obtain c where s': "s' = t\<lparr>pl_Netconfs := c\<rparr>" by blast
  have att: "attach_conns s conns (group_link opts ?g (length svs)) = server_attaches opts (length gs) ?g (length svs) (server, conns)"
    by (simp add: attach_conns_def attach_name_def server_attaches_def Let_def at_slot_names [OF assms(2)])
  have att': "attach_conns (s\<lparr>pl_ServerInSubnet := a, pl_Expected := b, pl_HostBGP := d\<rparr>) cs p = attach_conns s cs p" for a b d cs p
    by (simp add: attach_conns_def attach_name_def vpc_name_def subnet_name_def)
  have gatt: "group_attaches opts i ?g = group_attaches opts i (w, sub, svs) @ server_attaches opts i ?g (length svs) (server, conns)" for i
  proof -
    have "server_attaches opts i (w, sub, svs) = server_attaches opts i ?g"
      by (intro ext) (simp add: server_attaches_def link [of svs])
    then show ?thesis by (simp add: group_attaches_def group_servers_def enumerate_append_eq)
  qed
  have gexp: "group_expected opts ?g = group_expected opts (w, sub, svs) @
      [(server, case group_link opts ?g (length svs) of None \<Rightarrow> v4_prefix w 24 | Some p \<Rightarrow> p)]"
    unfolding group_expected_def group_servers_def group_prefix_def fst_conv
    by (simp add: enumerate_append_eq link [of svs])
  have "implements opts v0 p0 (gs @ [?g]) s'"
    using assms(1)
    by (simp add: implements_def s' t_def att att' plan_vpc_list_def plan_attaches_def plan_expected_def enumerate_append_eq
        gatt gexp group_subnet_def group_prefix_def plan_host_bgp_def group_servers_def)
  moreover have "counters_at opts (gs @ [?g]) s'"
    using assms(2,4) by (simp add: counters_at_def s' t_def at_slot_def group_servers_def group_subnet_def)
  ultimately show ?thesis by (simp add: s' t_def)
qed

lemma group_ok_snoc:
  assumes "svs \<noteq> [] \<longrightarrow> group_ok env opts (w, sub, svs)" "int (length svs) < su_ServersPerSubnet opts"
    "sb_Subnet sub = prefix_string (v4_prefix w 24)" "en_Conns env server = Inr conns" "conns \<noteq> []"
    "length conns > 1 \<Longrightarrow> sb_HostBGP sub \<and> (\<forall>c \<in> set conns. unbundled_link (snd c) \<noteq> None)"
    "sb_HostBGP sub \<Longrightarrow> length conns > 1 \<or> svs = [] \<and> su_HostBGPSubnet opts \<and> unbundled_link (snd (hd conns)) \<noteq> None"
  shows "group_ok env opts (w, sub, svs @ [(server, conns)])"
  using assms by (cases "svs = []") (auto simp: group_ok_def group_servers_def group_subnet_def group_prefix_def)

definition plan_state :: "setup_env \<Rightarrow> setup_opts \<Rightarrow> vlan_iter \<Rightarrow> prefix_iter \<Rightarrow> group list \<Rightarrow> setup_state \<Rightarrow> bool" where
  "plan_state env opts v0 p0 gs s \<longleftrightarrow>
     implements opts v0 p0 gs s \<and> counters_at opts gs s \<and> (\<forall>g \<in> set gs. group_ok env opts g)"

lemma setup_server_step:
  assumes "plannable_opts opts" "plan_state env opts v0 p0 gs s" "setup_server opts env server s = Inr s'"
  shows "\<exists>gs' cs. plan_state env opts v0 p0 gs' s' \<and> plan_servers gs' = plan_servers gs @ [(server, cs)] \<and> pl_ESLAG s' = pl_ESLAG s"
proof -
  define s1 where "s1 = (if int (pl_ServerInSubnet s) \<ge> su_ServersPerSubnet opts then next_subnet opts s else s)"
  from assms(3) obtain conns multi where conns: "server_conns env server = Inr (conns, multi)"
    unfolding setup_server_def by (auto simp: ok_iff)
  obtain hostBGP s2 where place: "place_server opts conns multi s1 = (hostBGP, s2)" by (cases "place_server opts conns multi s1")
  from assms(3) obtain s3 sub where s3: "ensure_subnet opts hostBGP (ensure_vpc opts s2) = Inr s3" "current_subnet s3 = Some sub"
    and attach: "attach_to_subnet opts server conns hostBGP sub s3 = Inr s'"
    unfolding setup_server_def Let_def s1_def [symmetric] by (auto simp: ok_iff conns place split: option.splits)
  have cs: "en_Conns env server = Inr conns" "conns \<noteq> []"
      "length conns > 1 \<Longrightarrow> (\<forall>c \<in> set conns. unbundled_link (snd c) \<noteq> None)" "multi \<longleftrightarrow> length conns > 1"
    using conns by (auto simp: server_conns_def ok_iff list_ex_iff split: if_splits)
  have S: "su_ServersPerSubnet opts > 0" using assms(1) by (simp add: plannable_opts_def)
  from place_server_finds [OF assms(1) _ _ s1_def place, of v0 p0 gs] assms(2)
  have i2: "implements opts v0 p0 gs s2" "joins opts gs hostBGP s2 \<and> (hostBGP \<longrightarrow> multi) \<or> opens opts gs s2" "multi \<longrightarrow> hostBGP"
      "hostBGP \<longrightarrow> pl_HostBGPDone s2 \<and> (multi \<or> su_HostBGPSubnet opts \<and> unbundled_link (snd (hd conns)) \<noteq> None)"
    by (auto simp: plan_state_def)
  have eslag: "pl_ESLAG s3 = pl_ESLAG s"
    using place s3(1) by (auto simp: s1_def place_server_def ensure_subnet_def ensure_vpc_def Let_def split: option.splits if_splits)
  show ?thesis
  proof (cases "joins opts gs hostBGP s2")
    case True
    then obtain gs0 w sub0 svs where gs: "gs = gs0 @ [(w, sub0, svs)]"
      by (metis append_butlast_last_id joins_def prod_cases3)
    have s32: "s3 = s2" by (rule ensure_joins [OF assms(1) i2(1) True s3(1)])
    have sub: "sub = sub0" using s3(2) implements_cur(1) [OF assms(1) i2(1) True] by (simp add: s32 gs group_subnet_def)
    have ok: "group_ok env opts (w, sub, svs)" using assms(2) gs sub by (simp add: plan_state_def)
    have multi: "hostBGP \<longrightarrow> multi" using i2(2) True joins_not_opens by blast
    have j: "at_slot (per_vpc opts) (length gs0) s2" "pl_ServerInSubnet s2 = length svs"
      "int (length svs) < su_ServersPerSubnet opts" "sb_HostBGP sub = hostBGP"
      using True by (simp_all add: joins_def gs group_servers_def group_subnet_def sub)
    have pre: "sb_Subnet sub = prefix_string (v4_prefix w 24)"
      using ok by (simp add: group_ok_def group_subnet_def group_prefix_def)
    let ?gs = "gs0 @ [(w, sub, svs @ [(server, conns)])]"
    from attach_to_subnet_group [OF i2(1) [unfolded gs sub [symmetric]] j(1,2) _ pre, of server conns s'] attach i2(4)
    have "implements opts v0 p0 ?gs s' \<and> counters_at opts ?gs s' \<and> pl_ESLAG s' = pl_ESLAG s3" by (simp add: j(4) s32)
    moreover have "group_ok env opts (w, sub, svs @ [(server, conns)])"
      by (rule group_ok_snoc) (use ok j pre cs i2(3) multi in auto)
    moreover have "plan_servers ?gs = plan_servers gs @ [(server, conns)]" by (simp add: plan_servers_def gs group_servers_def)
    ultimately show ?thesis using assms(2) gs eslag by (intro exI [of _ ?gs] exI [of _ conns]) (simp add: plan_state_def)
  next
    case False
    with i2(2) have "opens opts gs s2" by simp
    from ensure_opens [OF assms(1) i2(1) this s3(1)] obtain w where w: "implements opts v0 p0 (gs @ [(w, sub, [])]) s3"
      "at_slot (per_vpc opts) (length gs) s3" "pl_ServerInSubnet s3 = 0" "sb_HostBGP sub = hostBGP"
      "sb_Subnet sub = prefix_string (v4_prefix w 24)" "pl_HostBGPDone s3 = pl_HostBGPDone s2"
      using s3(2) by auto
    let ?gs = "gs @ [(w, sub, [(server, conns)])]"
    from attach_to_subnet_group [OF w(1,2) _ _ w(5), of server conns s'] attach w(3,4,6) i2(4)
    have "implements opts v0 p0 ?gs s' \<and> counters_at opts ?gs s' \<and> pl_ESLAG s' = pl_ESLAG s3" by (simp add: w(4))
    moreover have "group_ok env opts (w, sub, [] @ [(server, conns)])"
      by (rule group_ok_snoc) (use S w cs i2(3,4) in auto)
    moreover have "plan_servers ?gs = plan_servers gs @ [(server, conns)]" by (simp add: plan_servers_def group_servers_def)
    ultimately show ?thesis using assms(2) eslag by (intro exI [of _ ?gs] exI [of _ conns]) (auto simp: plan_state_def)
  qed
qed

section \<open>The run of the loop\<close>

text \<open>The servers the loop skips are those it finds attached by ESLAG.\<close>

definition skipped :: "setup_env \<Rightarrow> setup_opts \<Rightarrow> string \<Rightarrow> bool" where
  "skipped env opts server \<longleftrightarrow> su_VPCMode opts \<noteq> VPCModeL2VNI \<and>
     (case getServerAttachState env server False of Inr sa \<Rightarrow> sv_ESLAG sa | Inl _ \<Rightarrow> False)"

lemma visit_server_step:
  assumes "plannable_opts opts" "plan_state env opts v0 p0 gs s" "visit_server opts env server s = Inr s'"
  shows "\<exists>gs'. plan_state env opts v0 p0 gs' s' \<and>
    map fst (plan_servers gs') = map fst (plan_servers gs) @ (if skipped env opts server then [] else [server]) \<and>
    pl_ESLAG s' = pl_ESLAG s @ (if skipped env opts server then [server] else [])"
proof (cases "skipped env opts server")
  case True
  then have "s' = s\<lparr>pl_ESLAG := pl_ESLAG s @ [server]\<rparr>"
    using assms(3) by (auto simp: skipped_def visit_server_def ok_iff split: sum.splits)
  then have "plan_state env opts v0 p0 gs s'"
    using assms(2) by (auto simp: plan_state_def implements_def counters_at_def at_slot_def split: if_splits)
  with True \<open>s' = _\<close> show ?thesis by auto
next
  case False
  then have "setup_server opts env server s = Inr s'"
    using assms(3) by (auto simp: skipped_def visit_server_def ok_iff split: sum.splits if_splits)
  from setup_server_step [OF assms(1,2) this] False show ?thesis by fastforce
qed

lemma loop_plan:
  assumes "plannable_opts opts" "plan_state env opts v0 p0 [] s0" "pl_ESLAG s0 = []"
    and "efold (visit_server opts env) servers s0 = Inr s"
  shows "\<exists>gs. plan_state env opts v0 p0 gs s \<and>
    map fst (plan_servers gs) = filter (\<lambda>n. \<not> skipped env opts n) servers \<and> pl_ESLAG s = filter (skipped env opts) servers"
proof (rule efold_prefix_invariant [OF assms(4), where P = "\<lambda>ys t. \<exists>gs. plan_state env opts v0 p0 gs t \<and>
    map fst (plan_servers gs) = filter (\<lambda>n. \<not> skipped env opts n) ys \<and> pl_ESLAG t = filter (skipped env opts) ys"])
  show "\<exists>gs. plan_state env opts v0 p0 gs s0 \<and> map fst (plan_servers gs) = filter (\<lambda>n. \<not> skipped env opts n) [] \<and>
      pl_ESLAG s0 = filter (skipped env opts) []"
    using assms(2,3) by (intro exI [of _ "[]"]) (simp add: plan_servers_def)
next
  fix ys x t t'
  assume "\<exists>gs. plan_state env opts v0 p0 gs t \<and> map fst (plan_servers gs) = filter (\<lambda>n. \<not> skipped env opts n) ys \<and>
      pl_ESLAG t = filter (skipped env opts) ys" and "visit_server opts env x t = Inr t'"
  with visit_server_step [OF assms(1)] show "\<exists>gs. plan_state env opts v0 p0 gs t' \<and>
      map fst (plan_servers gs) = filter (\<lambda>n. \<not> skipped env opts n) (ys @ [x]) \<and> pl_ESLAG t' = filter (skipped env opts) (ys @ [x])"
    by fastforce
qed

end
