(* ===== verification/SetupIters.thy ===== *)
theory SetupIters
  imports SetupProps
begin

text \<open>
  What the two iterators of \<^verbatim>\<open>SetupVPCs\<close> yield: the VLANs of the ranges in order, and the blocks of 256
  addresses of the prefixes in order. The ranges must end below the last 16-bit number and no prefix be
  \<^verbatim>\<open>0.0.0.0/0\<close>; otherwise the counters wrap and the iteration starts again.
\<close>

section \<open>VLANs\<close>

definition range_vlans :: "16 word \<times> 16 word \<Rightarrow> 16 word list" where
  "range_vlans r = map word_of_nat [unat (fst r)..<Suc (unat (snd r))]"

definition vlan_items :: "vlan_iter \<Rightarrow> 16 word list" where
  "vlan_items it = concat (map range_vlans it)"

definition vlans_end :: "vlan_iter \<Rightarrow> bool" where
  "vlans_end it \<longleftrightarrow> (\<forall>r \<in> set it. snd r < 65535)"

lemma range_vlans_unfold:
  assumes "v \<le> t" "t < 65535"
  shows "range_vlans (v, t) = v # range_vlans (v + 1, t)"
proof -
  have le: "unat v \<le> unat t" "unat t < 65535" using assms by (simp_all add: word_le_nat_alt word_less_nat_alt)
  then have "unat (v + 1) = Suc (unat v)" by (simp add: unat_word_ariths)
  with le show ?thesis by (simp add: range_vlans_def upt_conv_Cons del: upt_Suc)
qed

lemma range_vlans_empty: "\<not> v \<le> t \<Longrightarrow> range_vlans (v, t) = []"
  by (simp add: range_vlans_def word_le_nat_alt)

lemma next_vlan_yields:
  "vlans_end it \<Longrightarrow> next_vlan it = Some (x, it') \<Longrightarrow> vlans_end it' \<and> vlan_items it = x # vlan_items it'"
  by (induction it rule: next_vlan.induct)
    (auto simp: vlans_end_def vlan_items_def range_vlans_unfold range_vlans_empty split: if_splits)

lemma next_vlan_ends: "next_vlan it = None \<Longrightarrow> vlan_items it = []"
  by (induction it rule: next_vlan.induct) (auto simp: vlan_items_def range_vlans_empty split: if_splits)

interpretation vlans: iterator next_vlan vlans_end vlan_items
  by unfold_locales (use next_vlan_yields next_vlan_ends in blast)+

section \<open>Blocks of addresses\<close>

text \<open>The blocks from an address on, to the end of a prefix of n bits it lies in.\<close>

definition blocks_from :: "nat \<Rightarrow> 32 word \<Rightarrow> nat list" where
  "blocks_from n w = [unat w div 256..<(unat w div 2 ^ (32 - n) + 1) * 2 ^ (24 - n)]"

definition block :: "nat \<Rightarrow> prefix" where "block k = v4_prefix (word_of_nat (k * 256)) 24"

definition usable :: "prefix \<Rightarrow> bool" where "usable p \<longleftrightarrow> addr_is4 (pf_addr p) \<and> pf_bits p \<le> 24"

definition prefix_blocks :: "prefix \<Rightarrow> nat list" where
  "prefix_blocks p =
     (case pf_addr p of V4 b \<Rightarrow> if pf_bits p \<le> 24 then blocks_from (nat (pf_bits p)) (v4_base b (nat (pf_bits p))) else []
      | _ \<Rightarrow> [])"

fun block_items :: "prefix_iter \<Rightarrow> nat list" where
  "block_items (Some (p, w), ps) =
     (if prefix_contains p (V4 w) then blocks_from (nat (pf_bits p)) w else []) @ concat (map prefix_blocks ps)"
| "block_items (None, ps) = concat (map prefix_blocks ps)"

definition proper :: "prefix \<Rightarrow> bool" where "proper p \<longleftrightarrow> (usable p \<longrightarrow> pf_bits p \<ge> 1)"

fun blocks_end :: "prefix_iter \<Rightarrow> bool" where
  "blocks_end (Some (p, w), ps) = (usable p \<and> pf_bits p \<ge> 1 \<and> unat w mod 256 = 0 \<and> (\<forall>q \<in> set ps. proper q))"
| "blocks_end (None, ps) = (\<forall>q \<in> set ps. proper q)"

lemma usable_v4: "usable p \<Longrightarrow> pf_bits p \<ge> 1 \<Longrightarrow> \<exists>b n. p = v4_prefix b n \<and> 1 \<le> n \<and> n \<le> 24"
  by (cases p; cases "pf_addr p") (auto simp: usable_def v4_prefix_def intro!: exI [of _ "nat (pf_bits p)"])

lemma sub_step_24: "sub_step 24 = 256" by (simp add: sub_step_def push_bit_eq_mult)

lemma div_pow_blocks: "n \<le> 24 \<Longrightarrow> (a :: nat) div 2 ^ (32 - n) = a div 256 div 2 ^ (24 - n)"
proof -
  assume "n \<le> 24"
  then have "32 - n = 8 + (24 - n)" by simp
  then have "(2::nat) ^ (32 - n) = 256 * 2 ^ (24 - n)" by (simp only: power_add) simp
  then show ?thesis by (simp add: div_mult2_eq)
qed

lemma next_multiple: "(q + 1) div m = q div m \<longleftrightarrow> q + 1 < (q div m + 1) * m" if "m > 0" for q m :: nat
proof -
  have "(q + 1) div m = q div m \<longleftrightarrow> Suc q mod m \<noteq> 0" using that by (simp add: div_Suc)
  also have "\<dots> \<longleftrightarrow> Suc (q mod m) < m" using that by (simp add: mod_Suc le_less_Suc_eq Suc_lessI)
  also have "\<dots> \<longleftrightarrow> q + 1 < (q div m + 1) * m"
    unfolding distrib_right mult_1 using div_mult_mod_eq [of q m] by linarith
  finally show ?thesis .
qed

text \<open>One step of 256 addresses: the block is used up, whether or not the addresses wrap.\<close>

lemma blocks_step:
  assumes "1 \<le> n" "n \<le> 24" "unat w mod 256 = 0" "prefix_contains (v4_prefix b n) (V4 w)"
  shows "blocks_from n w = (unat w div 256) #
      (if prefix_contains (v4_prefix b n) (V4 (w + 256)) then blocks_from n (w + 256) else [])"
    and "unat (w + 256) mod 256 = 0"
proof -
  let ?m = "2 ^ (24 - n) :: nat" and ?q = "unat w div 256"
  have w: "unat w = ?q * 256" using assms(3) by (metis add.right_neutral div_mult_mod_eq)
  have q: "?q < 2 ^ 24" using unsigned_less [of w, where ?'a = nat] by simp
  have e: "blocks_from n w = [?q..<(?q div ?m + 1) * ?m]" by (simp add: blocks_from_def div_pow_blocks [OF assms(2)])
  have "0 < ?m" by simp
  then have lt: "?q < (?q div ?m + 1) * ?m" 
    unfolding distrib_right mult_1 using div_mult_mod_eq [of ?q ?m] mod_less_divisor [of ?m ?q] by linarith
  have "(unat (w + 256) mod 256 = 0) \<and> (if prefix_contains (v4_prefix b n) (V4 (w + 256)) then blocks_from n (w + 256) else [])
      = [?q + 1..<(?q div ?m + 1) * ?m]"
  proof (cases "?q + 1 = 2 ^ 24")
    case True
    have "256 * unat w = 256 * (?q * 256)" using w by simp
    have "unat w + 256 = 2 ^ 32" using True w by simp
    then have z: "unat (w + 256) = 0" by (simp add: unat_word_ariths)
    have "unat w div 2 ^ (32 - n) \<noteq> 0"
    proof -
      have "(2::nat) ^ (32 - n) \<le> 2 ^ 31" using assms(1) by (intro power_increasing) simp_all
      also have "\<dots> \<le> unat w" using \<open>unat w + 256 = 2 ^ 32\<close> by simp
      finally show ?thesis by (simp add: div_eq_0_iff)
    qed
    then have no: "\<not> prefix_contains (v4_prefix b n) (V4 (w + 256))" using assms(4) z by (simp add: contains_v4_iff)
    have "?m dvd 2 ^ 24" by (intro le_imp_power_dvd) simp
    then have "Suc ?q mod ?m = 0" using True by simp
    then have "\<not> (?q + 1) div ?m = ?q div ?m" by (simp add: div_Suc)
    then have "(?q div ?m + 1) * ?m \<le> ?q + 1" using next_multiple [of ?m ?q] by simp
    with no z show ?thesis by simp
  next
    case False
    then have "unat w + 256 < 2 ^ 32" using w q by simp
    then have u: "unat (w + 256) = (?q + 1) * 256" using w by (simp add: unat_word_ariths)
    then have c: "prefix_contains (v4_prefix b n) (V4 (w + 256)) \<longleftrightarrow> (?q + 1) div ?m = ?q div ?m"
      using assms(4) by (auto simp: contains_v4_iff div_pow_blocks [OF assms(2)])
    have "blocks_from n (w + 256) = [?q + 1..<((?q + 1) div ?m + 1) * ?m]"
      by (simp add: blocks_from_def div_pow_blocks [OF assms(2)] u)
    with u c show ?thesis using next_multiple [of ?m ?q] by auto
  qed
  with e lt show "blocks_from n w = ?q # (if prefix_contains (v4_prefix b n) (V4 (w + 256)) then blocks_from n (w + 256) else [])"
    and "unat (w + 256) mod 256 = 0" by (simp_all add: upt_conv_Cons)
qed

lemma block_of_word: "unat w mod 256 = 0 \<Longrightarrow> prefix_from (V4 w) 24 = block (unat w div 256)"
proof -
  assume "unat w mod 256 = 0"
  then have "unat w div 256 * 256 = unat w" by (metis add.right_neutral div_mult_mod_eq)
  then show ?thesis using prefix_from_v4 [of 24 w] by (simp add: block_def)
qed

lemma v4_base_mod: "n \<le> 24 \<Longrightarrow> unat (v4_base b n) mod 256 = 0"
proof -
  assume n: "n \<le> 24"
  have "(256::nat) dvd 2 ^ (32 - n)" using n le_imp_power_dvd [of 8 "32 - n" "2::nat"] by simp
  then show ?thesis by (simp add: unat_v4_base)
qed

lemma first_sub_yields:
  assumes "\<forall>q \<in> set ps. proper q"
  shows "case first_sub 24 ps of None \<Rightarrow> concat (map prefix_blocks ps) = []
    | Some (x, it) \<Rightarrow> \<exists>k. x = block k \<and> blocks_end it \<and> concat (map prefix_blocks ps) = k # block_items it"
  using assms
proof (induction ps)
  case (Cons p ps)
  show ?case
  proof (cases "usable p")
    case False
    then have "first_sub 24 (p # ps) = first_sub 24 ps" "prefix_blocks p = []"
      by (auto simp: usable_def prefix_blocks_def split: addr.splits)
    with Cons show ?thesis by (auto simp del: first_sub.simps split: option.splits)
  next
    case True
    with Cons.prems obtain b n where p: "p = v4_prefix b n" "1 \<le> n" "n \<le> 24" using usable_v4 [of p] by (auto simp: proper_def)
    let ?w = "v4_base b n"
    have c: "prefix_contains p (V4 ?w)" using contains_v4_offset(2) [of n 0 b] p by simp
    have m: "unat ?w mod 256 = 0" by (rule v4_base_mod [OF p(3)])
    have "first_sub 24 (p # ps) = Some (block (unat ?w div 256), (Some (p, ?w + 256), ps))"
      using c p block_of_word [OF m] by (simp add: sub_step_24)
    moreover have "prefix_blocks p = blocks_from n ?w" using p by (simp add: prefix_blocks_def)
    moreover note blocks_step [OF p(2,3) m c [unfolded p(1)]]
    ultimately show ?thesis using True Cons.prems p by (auto simp: p(1))
  qed
qed simp

text \<open>The iterator over prefixes, as one over numbers of blocks.\<close>

lemma next_sub_yields:
  assumes "blocks_end it"
  shows "case next_sub 24 it of None \<Rightarrow> block_items it = []
    | Some (x, it') \<Rightarrow> \<exists>k. x = block k \<and> blocks_end it' \<and> block_items it = k # block_items it'"
proof (cases it)
  case (Pair c ps)
  show ?thesis
  proof (cases "\<exists>p w. c = Some (p, w) \<and> prefix_contains p (V4 w)")
    case True
    then obtain p w where c: "c = Some (p, w)" "prefix_contains p (V4 w)" by blast
    with assms Pair obtain b n where p: "p = v4_prefix b n" "1 \<le> n" "n \<le> 24" using usable_v4 [of p] by auto
    have m: "unat w mod 256 = 0" using assms Pair c by simp
    from blocks_step [OF p(2,3) m c(2) [unfolded p(1)]] assms show ?thesis
      using Pair c p block_of_word [OF m] by (auto simp: sub_step_24)
  next
    case False
    then have "next_sub 24 it = first_sub 24 ps" "block_items it = concat (map prefix_blocks ps)"
      using Pair by (cases c; auto)+
    moreover have "\<forall>q \<in> set ps. proper q" using assms Pair by (cases c) auto
    ultimately show ?thesis using first_sub_yields [of ps] by (simp only:)
  qed
qed

interpretation blocks: iterator "next_sub 24" blocks_end "\<lambda>it. map block (block_items it)"
proof
  fix it x t
  show "blocks_end it \<Longrightarrow> next_sub 24 it = Some (x, t) \<Longrightarrow> blocks_end t \<and> map block (block_items it) = x # map block (block_items t)"
    using next_sub_yields [of it] by auto
  show "blocks_end it \<Longrightarrow> next_sub 24 it = None \<Longrightarrow> map block (block_items it) = []"
    using next_sub_yields [of it] by auto
qed

end
