(* ===== verification/SetupSafe.thy ===== *)
theory SetupSafe
  imports SetupIters Validate
begin

text \<open>
  The properties of the plan of \<^verbatim>\<open>SetupVPCs\<close>: it implements the abstract plan, its VPCs keep to the limits
  of the options, and its VLANs, prefixes and links are disjoint where the namespaces allow it.
\<close>

section \<open>From the run to the plan\<close>

definition plan_refines :: "setup_env \<Rightarrow> setup_opts \<Rightarrow> group list \<Rightarrow> setup_state \<Rightarrow> bool" where
  "plan_refines env opts gs s \<longleftrightarrow>
     pl_VPCs s = plan_vpc_list opts gs \<and> pl_Attaches s = plan_attaches opts gs \<and>
     pl_Expected s = foldl (\<lambda>m (n, p). map_put n p m) [] (plan_expected opts gs) \<and>
     pl_HostBGP s = plan_host_bgp gs \<and> (\<forall>g \<in> set gs. group_ok env opts g)"

lemma resolve_mtu_keeps: "ResolveDefaultServerMTU env o1 = Inr o2 \<Longrightarrow> plannable_opts o2 = plannable_opts o1"
  unfolding ResolveDefaultServerMTU_def plannable_opts_def
  by (cases "en_Switches env") (auto split: if_split_asm)

lemma check_setup_opts_plannable:
  assumes "check_setup_opts env opts = Inr o'"
  shows "plannable_opts o'"
proof -
  have "plannable_opts opts" using assms by (auto simp: check_setup_opts_def plannable_opts_def split: if_splits)
  then have p2p: "plannable_opts (opts\<lparr>su_P2P := True\<rparr>)" by (simp add: plannable_opts_def)
  from assms obtain a where "ResolveDefaultServerMTU env (if a then opts\<lparr>su_P2P := True\<rparr> else opts) = Inr o'"
    unfolding check_setup_opts_def if_Inl_Inr_iff ebind_Inr_iff ewrap_Inr_iff by blast
  with \<open>plannable_opts opts\<close> p2p show ?thesis using resolve_mtu_keeps by (metis (full_types))
qed

lemma setup_start_fields [simp]:
  "pl_ServerInSubnet (setup_start sv v p) = 0" "pl_VPCs (setup_start sv v p) = []" "pl_Attaches (setup_start sv v p) = []"
  "pl_Expected (setup_start sv v p) = []" "pl_ESLAG (setup_start sv v p) = []" "pl_HostBGP (setup_start sv v p) = []" "at_slot k 0 (setup_start sv v p)"
  by (simp_all add: setup_start_def Let_def at_slot_def)

lemma start_plan_state:
  "plan_state env opts (pl_VLANs (setup_start sv v p)) (pl_Prefixes (setup_start sv v p)) [] (setup_start sv v p)"
  by (simp add: plan_state_def implements_def counters_at_def plan_vpc_list_def plan_attaches_def plan_expected_def plan_host_bgp_def)

text \<open>Everything a plan is made from, and the groups it implements.\<close>

lemma plan_run:
  assumes "plan_setup env opts = Inr (o', s)"
  shows "\<exists>names ids ranges subnets prefixes gs s0.
    plannable_opts o' \<and> en_Servers env = Inr names \<and> server_ids names = Inr ids \<and>
    en_VLANNS env (su_VLANNamespace o') = Inr ranges \<and> en_IPv4NS env (su_IPv4Namespace o') = Inr subnets \<and>
    parse_prefixes (su_IPv4Namespace o') subnets = Inr prefixes \<and>
    s0 = setup_start (sort_servers ids) (VLANsFrom ranges) (SubPrefixesFrom prefixes) \<and>
    plan_state env o' (pl_VLANs s0) (pl_Prefixes s0) gs s \<and>
    map fst (plan_servers gs) = filter (\<lambda>n. \<not> skipped env o' n) (map fst (sort_servers ids)) \<and>
    pl_ESLAG s = filter (skipped env o') (map fst (sort_servers ids))"
proof -
  from assms have o: "plannable_opts o'" and p: "plan_vpcs env o' = Inr s"
    by (auto simp: plan_setup_def ok_iff check_setup_opts_plannable)
  from p obtain names ids ranges subnets prefixes where
    "en_Servers env = Inr names" "server_ids names = Inr ids"
    "en_VLANNS env (su_VLANNamespace o') = Inr ranges" "en_IPv4NS env (su_IPv4Namespace o') = Inr subnets"
    "parse_prefixes (su_IPv4Namespace o') subnets = Inr prefixes"
    and run: "efold (visit_server o' env) (map fst (sort_servers ids))
      (setup_start (sort_servers ids) (VLANsFrom ranges) (SubPrefixesFrom prefixes)) = Inr s"
    by (auto simp: plan_vpcs_def ok_iff Let_def)
  with o loop_plan [OF o start_plan_state setup_start_fields(5) run] show ?thesis by blast
qed

section \<open>The VPCs of a plan\<close>

definition plan_subnets :: "(string \<times> vpc_spec) list \<Rightarrow> (string \<times> string \<times> subnet_spec) list" where
  "plan_subnets vs = concat (map (\<lambda>(v, spec). map (\<lambda>(n, sub). (v, n, sub)) (vc_Subnets spec)) vs)"

lemma plan_subnets_snoc:
  "plan_subnets (vs @ [(v, spec)]) = plan_subnets vs @ map (\<lambda>(n, sub). (v, n, sub)) (vc_Subnets spec)"
  by (simp add: plan_subnets_def)

lemma vpcs_of_slots:
  assumes "k > 0"
  shows "plan_subnets (vpcs_of k mode subs) = map (\<lambda>i. (slot_vpc k i, slot_subnet k i, subs ! i)) [0..<length subs] \<and>
    fst ` set (vpcs_of k mode subs) = slot_vpc k ` {..<length subs} \<and> distinct (map fst (vpcs_of k mode subs)) \<and>
    (\<forall>(v, spec) \<in> set (vpcs_of k mode subs). vc_Mode spec = mode \<and> vc_Subnets spec \<noteq> [] \<and> length (vc_Subnets spec) \<le> k)"
proof (induction subs rule: rev_induct)
  case Nil
  show ?case by (simp add: plan_subnets_def)
next
  case (snoc sub subs)
  let ?n = "length subs"
  have same: "map (\<lambda>i. (slot_vpc k i, slot_subnet k i, (subs @ [sub]) ! i)) [0..<length (subs @ [sub])] =
      map (\<lambda>i. (slot_vpc k i, slot_subnet k i, subs ! i)) [0..<?n] @ [(slot_vpc k ?n, slot_subnet k ?n, sub)]"
    by (simp add: nth_append)
  have names: "slot_vpc k ` {..<length (subs @ [sub])} = insert (slot_vpc k ?n) (slot_vpc k ` {..<?n})"
    by (simp add: lessThan_Suc)
  show ?case
  proof (cases "?n mod k = 0")
    case True
    have "slot_vpc k ?n \<notin> slot_vpc k ` {..<?n}"
    proof
      assume "slot_vpc k ?n \<in> slot_vpc k ` {..<?n}"
      then obtain i where "i < ?n" "?n div k = i div k" by (auto simp: slot_vpc_eq)
      with True show False by (metis add.right_neutral div_mult_mod_eq div_times_less_eq_dividend leD)
    qed
    with snoc True assms show ?thesis unfolding same names
      by (auto simp: vpcs_of_snoc add_slot_def plan_subnets_snoc simp flip: set_map)
  next
    case False
    then obtain n where len: "?n = Suc n" by (cases "?n") auto
    then have m: "n div k = ?n div k" "n mod k + 1 = ?n mod k" using False assms by (simp_all add: div_Suc mod_Suc split: if_splits)
    obtain vs spec where vs: "vpcs_of k mode subs = vs @ [(slot_vpc k ?n, spec)]" "fst ` set (vc_Subnets spec) = sub_name ` {..<?n mod k}"
      "length (vc_Subnets spec) = ?n mod k"
      using last_vpc [OF assms, of subs mode] len m
      by (force simp: slot_vpc_eq slot_vpc_def image_image lessThan_atLeast0 simp del: upt_Suc)
    have put: "map_put (slot_subnet k ?n) sub (vc_Subnets spec) = vc_Subnets spec @ [(slot_subnet k ?n, sub)]"
      by (rule map_put_absent) (auto simp: vs(2) slot_subnet_def)
    have "?n mod k < k" using assms by simp
    with snoc vs put False show ?thesis unfolding same names
      by (auto simp: vpcs_of_snoc add_slot_def put_subnet_def plan_subnets_snoc insert_absorb)
  qed
qed

end
