(* ===== verification/SetupDisjoint.thy ===== *)
theory SetupDisjoint
  imports SetupSafe
begin

text \<open>
  Disjointness of what \<^verbatim>\<open>SetupVPCs\<close> hands out: what the iterators yield is distinct when the namespaces
  are made of disjoint ranges and prefixes, and so are the links cut out of the blocks.
\<close>

section \<open>Distinct VLANs\<close>

lemma distinct_concat_disjoint:
  "sorted_wrt (\<lambda>xs ys. set xs \<inter> set ys = {}) xss \<Longrightarrow> \<forall>xs \<in> set xss. distinct xs \<Longrightarrow> distinct (concat xss)"
  by (induction xss) auto

lemma set_range_vlans: "set (range_vlans r) = {v. fst r \<le> v \<and> v \<le> snd r}"
proof -
  have "v \<in> word_of_nat ` {unat (fst r)..<Suc (unat (snd r))}" if "fst r \<le> v" "v \<le> snd r" for v
    using that by (intro image_eqI [of _ _ "unat v"]) (simp_all add: word_le_nat_alt)
  moreover have "fst r \<le> word_of_nat k \<and> word_of_nat k \<le> snd r" if "unat (fst r) \<le> k" "k < Suc (unat (snd r))" for k
  proof -
    have "k < 2 ^ 16" using that(2) unsigned_less [of "snd r", where ?'a = nat] by simp
    then have "unat (word_of_nat k :: 16 word) = k" by (simp add: unat_of_nat take_bit_nat_eq_self)
    with that show ?thesis by (simp add: word_le_nat_alt)
  qed
  ultimately show ?thesis by (auto simp: range_vlans_def simp del: upt_Suc)
qed

lemma distinct_range_vlans: "distinct (range_vlans r)"
proof -
  have "inj_on (word_of_nat :: nat \<Rightarrow> 16 word) {unat (fst r)..<Suc (unat (snd r))}"
  proof (rule inj_on_inverseI [where g = unat])
    fix k assume "k \<in> {unat (fst r)..<Suc (unat (snd r))}"
    then have "k < 2 ^ 16" using unsigned_less [of "snd r", where ?'a = nat] by simp
    then show "unat (word_of_nat k :: 16 word) = k" by (simp add: unat_of_nat take_bit_nat_eq_self)
  qed
  then show ?thesis by (simp add: range_vlans_def distinct_map del: upt_Suc)
qed

lemma distinct_vlan_items: "vlans_disjoint ranges \<Longrightarrow> distinct (vlan_items (VLANsFrom ranges))"
  unfolding vlan_items_def VLANsFrom_def
proof (rule distinct_concat_disjoint)
  assume "vlans_disjoint ranges"
  then show "sorted_wrt (\<lambda>xs ys. set xs \<inter> set ys = {}) (map range_vlans (map (\<lambda>r. (vr_From r, vr_To r)) ranges))"
    unfolding vlans_disjoint_def sorted_wrt_map
    by (rule sorted_wrt_mono_rel [rotated]) (auto simp: set_range_vlans vlan_in_def)
qed (auto intro: distinct_range_vlans)

section \<open>Disjoint blocks\<close>

lemma block_address: "k < 2 ^ 24 \<Longrightarrow> unat (word_of_nat (k * 256) :: 32 word) = k * 256"
  by (simp add: unat_of_nat take_bit_nat_eq_self del: of_nat_mult)

lemma blocks_disjoint:
  assumes "k < 2 ^ 24" "l < 2 ^ 24" "k \<noteq> l"
  shows "\<not> prefix_overlaps (block k) (block l)"
  using assms by (simp add: block_def overlaps_v4_iff block_address del: of_nat_mult)

lemma prefix_blocks_in:
  assumes "k \<in> set (prefix_blocks p)" "pf_bits p \<ge> 1"
  shows "k < 2 ^ 24 \<and> prefix_contains p (V4 (word_of_nat (k * 256))) \<and> usable p"
proof -
  have u: "usable p" using assms(1) by (cases "pf_addr p") (auto simp: prefix_blocks_def usable_def split: if_splits)
  from usable_v4 [OF this assms(2)] obtain b n where p: "p = v4_prefix b n" "1 \<le> n" "n \<le> 24" by blast
  let ?m = "2 ^ (24 - n) :: nat" and ?Q = "unat b div 2 ^ (32 - n)"
  have m: "(2::nat) ^ (32 - n) = 256 * ?m"
  proof -
    have "32 - n = 8 + (24 - n)" using p(3) by simp
    then show ?thesis by (simp only: power_add) simp
  qed
  have base: "unat (v4_base b n) = ?Q * ?m * 256" by (simp add: unat_v4_base m)
  then have "unat (v4_base b n) div 2 ^ (32 - n) = ?Q" by (simp add: m mult.assoc mult.commute [of ?m])
  with assms(1) base have k: "?Q * ?m \<le> k" "k < (?Q + 1) * ?m" by (simp_all add: p prefix_blocks_def blocks_from_def)
  have "?Q < 2 ^ n"
  proof -
    have "unat b < 2 ^ n * 2 ^ (32 - n)"
      using unsigned_less [of b, where ?'a = nat] p(3) by (simp flip: power_add)
    then show ?thesis by (rule less_mult_imp_div_less)
  qed
  then have "(?Q + 1) * ?m \<le> 2 ^ n * ?m" by (intro mult_le_mono1) simp
  also have "2 ^ n * ?m = 2 ^ 24" using p(3) by (simp flip: power_add)
  finally have lt: "k < 2 ^ 24" using k(2) by simp
  have "k div ?m = ?Q" using k by (intro div_nat_eqI) (simp_all add: algebra_simps)
  then have "k * 256 div 2 ^ (32 - n) = ?Q" by (simp add: div_pow_blocks [OF p(3)])
  with lt u show ?thesis by (simp add: p(1) contains_v4_iff block_address del: of_nat_mult)
qed

lemma usable_overlaps:
  assumes "usable p" "usable q" "pf_bits p \<ge> 1" "pf_bits q \<ge> 1" "prefix_contains p (V4 a)" "prefix_contains q (V4 a)"
  shows "prefix_overlaps p q"
proof -
  from usable_v4 [OF assms(1,3)] usable_v4 [OF assms(2,4)] obtain b n c m
    where "p = v4_prefix b n" "n \<le> 24" "q = v4_prefix c m" "m \<le> 24" by blast
  with assms(5,6) overlaps_v4_shared [of n m b c] show ?thesis by auto
qed

lemma distinct_blocks:
  assumes "sorted_wrt (\<lambda>p q. \<not> prefix_overlaps p q) ps" "\<forall>p \<in> set ps. pf_bits p \<ge> 1"
  shows "distinct (concat (map prefix_blocks ps))"
proof (rule distinct_concat_disjoint)
  have "sorted_wrt (\<lambda>p q. set (prefix_blocks p) \<inter> set (prefix_blocks q) = {}) ps"
    using assms(1)
  proof (rule sorted_wrt_mono_rel [rotated])
    fix p q assume pq: "p \<in> set ps" "q \<in> set ps" "\<not> prefix_overlaps p q"
    with assms(2) prefix_blocks_in [of _ p] prefix_blocks_in [of _ q] usable_overlaps [of p q]
    show "set (prefix_blocks p) \<inter> set (prefix_blocks q) = {}" by (auto simp del: of_nat_mult)
  qed
  then show "sorted_wrt (\<lambda>xs ys. set xs \<inter> set ys = {}) (map prefix_blocks ps)" by (simp add: sorted_wrt_map)
  show "\<forall>xs \<in> set (map prefix_blocks ps). distinct xs"
    by (auto simp: prefix_blocks_def blocks_from_def split: addr.splits)
qed

section \<open>Links\<close>

lemma link_address:
  assumes "j < 128"
  shows "unat (v4_base w 24 + 2 * word_of_nat j) = unat w div 256 * 256 + 2 * j"
proof -
  have "2 * word_of_nat j = (word_of_nat (2 * j) :: 32 word)" by simp
  moreover have "unat (v4_base w 24) + 2 * j < 2 ^ 32" using contains_v4_offset(1) [of 24 "2 * j" w] assms by simp
  ultimately show ?thesis
    by (simp add: unat_word_ariths unat_of_nat take_bit_nat_eq_self unat_v4_base del: of_nat_mult)
qed

text \<open>A link lies in its block for the first 128 servers, and for no other.\<close>

lemma link_in_block:
  assumes "j < 2 ^ 31"
  shows "prefix_contains (v4_prefix w 24) (V4 (v4_base w 24 + 2 * word_of_nat j)) \<longleftrightarrow> j < 128"
proof (cases "j < 128")
  case True
  then show ?thesis by (simp add: contains_v4_iff link_address)
next
  case False
  let ?b = "unat (v4_base w 24)"
  have b: "?b = unat w div 256 * 256" "?b < 2 ^ 32" using unsigned_less [of "v4_base w 24", where ?'a = nat] by (simp_all add: unat_v4_base)
  have "2 * word_of_nat j = (word_of_nat (2 * j) :: 32 word)" by simp
  then have u: "unat (v4_base w 24 + 2 * word_of_nat j) = (?b + 2 * j) mod 2 ^ 32"
    using assms by (simp add: unat_word_ariths unat_of_nat take_bit_nat_eq_self del: of_nat_mult)
  have "(?b + 2 * j) mod 2 ^ 32 div 256 \<noteq> unat w div 256"
  proof (cases "?b + 2 * j < 2 ^ 32")
    case True
    with False b(1) show ?thesis by simp
  next
    case wraps: False
    then have "(?b + 2 * j) mod 2 ^ 32 = ?b + 2 * j - 2 ^ 32" using assms b(2) by (simp add: le_mod_geq)
    moreover have "?b + 2 * j - 2 ^ 32 < ?b" using assms wraps by simp
    ultimately show ?thesis using b(1) by (metis less_mult_imp_div_less nless_le)
  qed
  with False u show ?thesis by (simp add: contains_v4_iff)
qed

lemma links_overlap:
  assumes "i < 128" "j < 128"
  shows "prefix_overlaps (v4_prefix (v4_base v 24 + 2 * word_of_nat i) 31) (v4_prefix (v4_base w 24 + 2 * word_of_nat j) 31)
    \<longleftrightarrow> unat v div 256 = unat w div 256 \<and> i = j"
proof -
  have half: "(a * 256 + 2 * i) div 2 = a * 128 + i" for a i :: nat by simp
  have "a * 128 + i = b * 128 + j \<longleftrightarrow> a = b \<and> i = j" if "i < 128" "j < 128" for a b i j :: nat
  proof
    assume eq: "a * 128 + i = b * 128 + j"
    then have "(a * 128 + i) div 128 = (b * 128 + j) div 128" by simp
    then have "a = b" using that by simp
    with eq show "a = b \<and> i = j" by simp
  qed simp
  note split = this [OF assms, of "unat v div 256" "unat w div 256"]
  show ?thesis unfolding overlaps_v4_iff [of 31 31, simplified] using split
    by (simp only: link_address [OF assms(1)] link_address [OF assms(2)] half)
qed

end
