(* ===== verification/SetupClaims.thy ===== *)
theory SetupClaims
  imports SetupDisjoint "HOL-Library.Code_Target_Nat"
begin

text \<open>
  The properties of the plan of \<^verbatim>\<open>SetupVPCs\<close>, with a fabric of three servers as their example.
\<close>

section \<open>A fabric of three servers\<close>

definition example_conn :: "string \<Rightarrow> string \<Rightarrow> conn" where
  "example_conn server nic = (server @ ''--unbundled--leaf-01'',
     ConnUnbundled \<lparr>sl_Server = server @ ''/'' @ nic, sl_Switch = ''leaf-01/E1/1''\<rparr>)"

definition example_env :: "string \<Rightarrow> setup_env" where
  "example_env nos = \<lparr>en_Switches = Inr [''p''], en_NOSType = (\<lambda>_. Inr nos),
     en_Servers = Inr [''server-2'', ''server-10'', ''server-1''],
     en_VLANNS = (\<lambda>_. Inr [\<lparr>vr_From = 1000, vr_To = 1001\<rparr>, \<lparr>vr_From = 2000, vr_To = 2999\<rparr>]),
     en_IPv4NS = (\<lambda>_. Inr [''10.0.0.0/23'', ''10.1.0.0/16'']),
     en_Conns = (\<lambda>n. Inr (if n = ''server-10'' then [example_conn n ''enp2s1'', example_conn (n @ ''b'') ''enp2s2'']
        else [example_conn n ''enp2s1''])),
     en_Attaches = (\<lambda>_. Inr []), en_VPCMode = (\<lambda>_. Inr VPCModeL2VNI)\<rparr>"

definition example_opts :: setup_opts where
  "example_opts = \<lparr>su_WaitSwitchesReady = True, su_ForceCleanup = False, su_VLANNamespace = ''default'', su_IPv4Namespace = ''default'',
     su_ServersPerSubnet = 2, su_SubnetsPerVPC = 1, su_DNSServers = [], su_TimeServers = [], su_InterfaceMTU = 0,
     su_HashPolicy = HashPolicyL2And3, su_VPCMode = VPCModeL2VNI, su_KeepPeerings = False, su_HostBGPSubnet = False, su_P2P = False\<rparr>"

definition plan_ok :: "setup_env \<Rightarrow> setup_opts \<Rightarrow> bool" where
  "plan_ok env opts = (case plan_setup env opts of Inl _ \<Rightarrow> False | Inr _ \<Rightarrow> True)"

lemma example_planned:
  "\<exists>o' s. plan_setup (example_env ''cumulus-vx'') example_opts = Inr (o', s) \<and>
     map (\<lambda>(v, n, sub). (v, n, sb_VLAN sub, sb_Subnet sub, sb_HostBGP sub)) (plan_subnets (pl_VPCs s)) =
       [(''vpc-01'', ''subnet-01'', 1001, ''10.0.1.0/24'', False), (''vpc-02'', ''subnet-01'', 2000, ''10.1.0.0/24'', True)] \<and>
     su_P2P o' \<and> su_VLANNamespace o' = ''default'' \<and> su_IPv4Namespace o' = ''default'' \<and> su_ServersPerSubnet o' = 2"
proof -
  have "case plan_setup (example_env ''cumulus-vx'') example_opts of Inl _ \<Rightarrow> False | Inr (o', s) \<Rightarrow>
     map (\<lambda>(v, n, sub). (v, n, sb_VLAN sub, sb_Subnet sub, sb_HostBGP sub)) (plan_subnets (pl_VPCs s)) =
       [(''vpc-01'', ''subnet-01'', 1001, ''10.0.1.0/24'', False), (''vpc-02'', ''subnet-01'', 2000, ''10.1.0.0/24'', True)] \<and>
     su_P2P o' \<and> su_VLANNamespace o' = ''default'' \<and> su_IPv4Namespace o' = ''default'' \<and> su_ServersPerSubnet o' = 2"
    by code_simp
  then show ?thesis by (auto split: sum.splits prod.splits)
qed

lemma example_plan_subnets:
  "\<exists>o' s. plan_setup (example_env ''cumulus-vx'') example_opts = Inr (o', s) \<and> length (plan_subnets (pl_VPCs s)) = 2 \<and>
     su_P2P o' \<and> su_VLANNamespace o' = ''default'' \<and> su_IPv4Namespace o' = ''default'' \<and> su_ServersPerSubnet o' = 2"
proof -
  have "length xs = 2" if "map f xs = [a, b]" for f :: "_ \<Rightarrow> 'b" and xs a b using arg_cong [OF that, of length] by simp
  then show ?thesis using example_planned by (elim exE conjE) (intro exI conjI, assumption+)
qed

section \<open>The plan refines the abstract one\<close>

text \<open>
  C10. A plan of \<^verbatim>\<open>SetupVPCs\<close> is an abstract plan: every server that is not skipped is in exactly one group, in
  the order of the numbers of the servers; the i-th group is the subnet \<^verbatim>\<open>i mod k\<close> of the VPC \<^verbatim>\<open>i div k\<close>
  for \<^verbatim>\<open>k\<close> subnets per VPC; no group is empty or larger than the option allows, and none is
  mixed: the servers set up to speak BGP are those of the groups of BGP speakers, in order. Every server with
  several connections is one of them; one with a single connection is only if the options ask for it, the connection is
  not bundled, and it is the first of its group. The attachments and expectations are those of the groups. The VPCs have different names and at most \<^verbatim>\<open>k\<close> subnets each.
\<close>

theorem vpc_plan_refines:
  assumes "plan_setup env opts = Inr (o', s)"
  shows "\<exists>names ids gs. en_Servers env = Inr names \<and> server_ids names = Inr ids \<and> plan_refines env o' gs s \<and>
    map fst (plan_servers gs) = filter (\<lambda>n. \<not> skipped env o' n) (map fst (sort_servers ids)) \<and>
    pl_ESLAG s = filter (skipped env o') (map fst (sort_servers ids)) \<and>
    plan_subnets (pl_VPCs s) =
      map (\<lambda>i. (slot_vpc (per_vpc o') i, slot_subnet (per_vpc o') i, group_subnet (gs ! i))) [0..<length gs] \<and>
    distinct (map fst (pl_VPCs s)) \<and>
    (\<forall>(v, spec) \<in> set (pl_VPCs s). vc_Subnets spec \<noteq> [] \<and> int (length (vc_Subnets spec)) \<le> su_SubnetsPerVPC o')"
proof -
  from plan_run [OF assms] obtain names ids gs v0 p0 where run: "plannable_opts o'" "en_Servers env = Inr names" "server_ids names = Inr ids"
    "plan_state env o' v0 p0 gs s" "map fst (plan_servers gs) = filter (\<lambda>n. \<not> skipped env o' n) (map fst (sort_servers ids))"
    "pl_ESLAG s = filter (skipped env o') (map fst (sort_servers ids))" by blast
  have k: "int (per_vpc o') = su_SubnetsPerVPC o'" using run(1) by (simp add: plannable_opts_def per_vpc_def)
  have "plan_refines env o' gs s" using run(4) by (simp add: plan_refines_def plan_state_def implements_def)
  with run(2,3,5,6) vpcs_of_slots [OF per_vpc_pos [OF run(1)], of "su_VPCMode o'" "map group_subnet gs"]
  show ?thesis
    by (intro exI [of _ names] exI [of _ ids] exI [of _ gs]) (force simp: plan_refines_def plan_vpc_list_def simp flip: k)
qed

theorem vpc_plan_refines_witness:
  "\<exists>o' s gs. plan_refines (example_env ''cumulus-vx'') o' gs s \<and> length gs = 2 \<and>
     map fst (plan_servers gs) = filter (\<lambda>n. \<not> skipped (example_env ''cumulus-vx'') o' n)
       [''server-1'', ''server-2'', ''server-10'']"
proof -
  obtain o' s where s: "plan_setup (example_env ''cumulus-vx'') example_opts = Inr (o', s)"
    "length (plan_subnets (pl_VPCs s)) = 2" using example_plan_subnets by blast
  have ids: "case en_Servers (example_env ''cumulus-vx'') of Inl _ \<Rightarrow> False | Inr names \<Rightarrow>
      (case server_ids names of Inl _ \<Rightarrow> False | Inr ids \<Rightarrow>
        map fst (sort_servers ids) = [''server-1'', ''server-2'', ''server-10''])"
    by code_simp
  from vpc_plan_refines [OF s(1)] obtain names ids gs where "en_Servers (example_env ''cumulus-vx'') = Inr names" "server_ids names = Inr ids"
    "plan_refines (example_env ''cumulus-vx'') o' gs s"
    "map fst (plan_servers gs) = filter (\<lambda>n. \<not> skipped (example_env ''cumulus-vx'') o' n) (map fst (sort_servers ids))"
    "length (plan_subnets (pl_VPCs s)) = length gs" by (metis (no_types, lifting) length_map length_upt minus_nat.diff_0)
  moreover from this ids have "map fst (sort_servers ids) = [''server-1'', ''server-2'', ''server-10'']" by (simp del: server_ids.simps)
  ultimately show ?thesis using s(2) by metis
qed

section \<open>Disjoint subnets\<close>

lemma plan_subnet_specs:
  assumes "plannable_opts o'" "implements o' v0 p0 gs s"
  shows "map (\<lambda>(v, n, sub). sub) (plan_subnets (pl_VPCs s)) = map group_subnet gs"
  using vpcs_of_slots [OF per_vpc_pos [OF assms(1)], of "su_VPCMode o'" "map group_subnet gs"] assms(2)
  by (simp add: implements_def plan_vpc_list_def map_nth comp_def) (metis (no_types) map_nth map_map length_map)

lemma start_vlans:
  assumes "vlans_end v0"
  shows "vlans_end (pl_VLANs (setup_start sv v0 p0)) \<and> (\<exists>xs. vlan_items v0 = xs @ vlan_items (pl_VLANs (setup_start sv v0 p0)))"
proof (cases "next_vlan v0")
  case (Some a)
  then show ?thesis using next_vlan_yields [OF assms, of "fst a" "snd a"] assms by (cases a) (auto simp: setup_start_def Let_def intro: exI [of _ "[]"] exI [of _ "[x]" for x])
qed (use assms in \<open>auto simp: setup_start_def Let_def\<close>)

lemma start_blocks:
  assumes "blocks_end p0"
  shows "blocks_end (pl_Prefixes (setup_start sv v0 p0)) \<and> (\<exists>xs. block_items p0 = xs @ block_items (pl_Prefixes (setup_start sv v0 p0)))"
proof (cases "next_sub 24 p0")
  case (Some a)
  then show ?thesis using next_sub_yields [OF assms] assms by (cases a) (auto simp: setup_start_def Let_def intro: exI [of _ "[]"] exI [of _ "[k]" for k])
qed (use assms in \<open>auto simp: setup_start_def Let_def\<close>)

lemma sorted_blocks: "distinct ks \<Longrightarrow> \<forall>k \<in> set ks. k < 2 ^ 24 \<Longrightarrow> sorted_wrt (\<lambda>p q. \<not> prefix_overlaps p q) (map block ks)"
proof (induction ks)
  case (Cons k ks)
  then have "\<not> prefix_overlaps (block k) (block l)" if "l \<in> set ks" for l
    using that by (intro blocks_disjoint) auto
  with Cons show ?case by simp
qed simp

text \<open>The blocks of the groups of a plan are different blocks of the prefixes of the namespace.\<close>

lemma plan_blocks:
  assumes "plan_setup env opts = Inr (o', s)"
    and "en_IPv4NS env (su_IPv4Namespace o') = Inr subnets" "parse_prefixes (su_IPv4Namespace o') subnets = Inr prefixes"
    and "sorted_wrt (\<lambda>p q. \<not> prefix_overlaps p q) prefixes" "\<forall>p \<in> set prefixes. pf_bits p \<ge> 1"
  shows "\<exists>gs ks. plan_refines env o' gs s \<and> map (\<lambda>(v, n, sub). sub) (plan_subnets (pl_VPCs s)) = map group_subnet gs \<and>
    map group_prefix gs = map block ks \<and> distinct ks \<and> set ks \<subseteq> set (concat (map prefix_blocks prefixes))"
proof -
  from plan_run [OF assms(1)] assms(2,3) obtain ids ranges gs v0 p0 where run: "plannable_opts o'"
    "p0 = pl_Prefixes (setup_start (sort_servers ids) (VLANsFrom ranges) (SubPrefixesFrom prefixes))"
    "plan_state env o' v0 p0 gs s" by (metis sum.inject(2))
  then have impl: "implements o' v0 p0 gs s" "plan_refines env o' gs s"
    by (auto simp: plan_state_def plan_refines_def implements_def)
  have "blocks_end (SubPrefixesFrom prefixes)" using assms(5) by (auto simp: SubPrefixesFrom_def proper_def)
  from start_blocks [OF this, of "sort_servers ids" "VLANsFrom ranges"] obtain xs where
    p0: "blocks_end p0" "concat (map prefix_blocks prefixes) = xs @ block_items p0"
    by (auto simp: run(2) SubPrefixesFrom_def)
  have "pulled (next_sub 24) p0 (map group_prefix gs) (pl_Prefixes s)" using impl(1) by (simp add: implements_def)
  from blocks.pulled_items [OF p0(1) this] have "map block (block_items p0) = map group_prefix gs @ map block (block_items (pl_Prefixes s))"
    by blast
  then obtain ks where ks: "map group_prefix gs = map block ks" "block_items p0 = ks @ block_items (pl_Prefixes s) \<or> ks = take (length gs) (block_items p0)"
    by (metis append_eq_conv_conj length_map take_map)
  then have "map group_prefix gs = map block (take (length gs) (block_items p0))"
    by (metis append_eq_conv_conj \<open>map block (block_items p0) = _\<close> length_map take_map)
  moreover have "distinct (take (length gs) (block_items p0)) \<and> set (take (length gs) (block_items p0)) \<subseteq> set (concat (map prefix_blocks prefixes))"
    using distinct_blocks [OF assms(4,5)] p0(2) by (auto dest: in_set_takeD)
  ultimately show ?thesis using impl plan_subnet_specs [OF run(1) impl(1)] by blast
qed

text \<open>
  C11. If the VLAN ranges of the namespace are disjoint and end below the last 16-bit number, and its
  prefixes are disjoint and none is \<^verbatim>\<open>0.0.0.0/0\<close>, then no two subnets of a plan share a VLAN or overlap,
  the VLAN of each is in a range of its namespace and each lies in a prefix of its namespace.
\<close>

theorem vpc_subnets_disjoint:
  assumes "plan_setup env opts = Inr (o', s)"
    and "en_VLANNS env (su_VLANNamespace o') = Inr ranges" "vlans_disjoint ranges" "\<forall>r \<in> set ranges. vr_To r < 65535"
    and "en_IPv4NS env (su_IPv4Namespace o') = Inr subnets" "parse_prefixes (su_IPv4Namespace o') subnets = Inr prefixes"
    and "sorted_wrt (\<lambda>p q. \<not> prefix_overlaps p q) prefixes" "\<forall>p \<in> set prefixes. pf_bits p \<ge> 1"
  shows "distinct (map (\<lambda>(v, n, sub). sb_VLAN sub) (plan_subnets (pl_VPCs s))) \<and>
    (\<forall>(v, n, sub) \<in> set (plan_subnets (pl_VPCs s)). \<exists>r \<in> set ranges. vr_From r \<le> sb_VLAN sub \<and> sb_VLAN sub \<le> vr_To r) \<and>
    (\<exists>ps. map (\<lambda>(v, n, sub). parse_prefix (sb_Subnet sub)) (plan_subnets (pl_VPCs s)) = map Inr ps \<and>
       sorted_wrt (\<lambda>p q. \<not> prefix_overlaps p q) ps \<and>
       (\<forall>p \<in> set ps. \<exists>q \<in> set prefixes. prefix_contains q (pf_addr p) \<and> pf_bits q \<le> pf_bits p))"
proof -
  from plan_run [OF assms(1)] assms(2) obtain ids prefixes' gs v0 p0 where run: "plannable_opts o'"
    "v0 = pl_VLANs (setup_start (sort_servers ids) (VLANsFrom ranges) (SubPrefixesFrom prefixes'))" "plan_state env o' v0 p0 gs s"
    by (metis sum.inject(2))
  then have impl: "implements o' v0 p0 gs s" by (simp add: plan_state_def)
  have "vlans_end (VLANsFrom ranges)" using assms(4) by (simp add: vlans_end_def VLANsFrom_def)
  from start_vlans [OF this] distinct_vlan_items [OF assms(3)] have v0: "vlans_end v0" "distinct (vlan_items v0)"
      "set (vlan_items v0) \<subseteq> set (vlan_items (VLANsFrom ranges))"
    unfolding run(2) by (metis distinct_append, metis distinct_append, metis Un_upper2 set_append)
  have pulled: "pulled next_vlan v0 (map (\<lambda>g. sb_VLAN (group_subnet g)) gs) (pl_VLANs s)" using impl by (simp add: implements_def)
  note specs = plan_subnet_specs [OF run(1) impl]
  from vlans.pulled_items [OF v0(1) pulled] v0(3) have "sb_VLAN ` set (map group_subnet gs) \<subseteq> set (vlan_items (VLANsFrom ranges))"
    by (auto simp: image_image)
  then have in_ranges: "\<forall>(v, n, sub) \<in> set (plan_subnets (pl_VPCs s)). \<exists>r \<in> set ranges. vr_From r \<le> sb_VLAN sub \<and> sb_VLAN sub \<le> vr_To r"
    unfolding specs [symmetric] by (fastforce simp: vlan_items_def VLANsFrom_def set_range_vlans)
  from vlans.pulled_distinct [OF v0(1,2) pulled]
  have "distinct (map sb_VLAN (map (\<lambda>(v, n, sub). sub) (plan_subnets (pl_VPCs s))))"
    by (simp add: specs comp_def)
  moreover from plan_blocks [OF assms(1,5-8)] obtain gs ks where gs: "plan_refines env o' gs s"
    "map (\<lambda>(v, n, sub). sub) (plan_subnets (pl_VPCs s)) = map group_subnet gs" "map group_prefix gs = map block ks"
    "distinct ks" "set ks \<subseteq> set (concat (map prefix_blocks prefixes))" by blast
  have in_ns: "k < 2 ^ 24 \<and> (\<exists>q \<in> set prefixes. prefix_contains q (pf_addr (block k)) \<and> pf_bits q \<le> 24)" if "k \<in> set ks" for k
    using gs(5) that prefix_blocks_in [of k] assms(8) by (fastforce simp: block_def usable_def simp del: of_nat_mult)
  have "parse_prefix (sb_Subnet (group_subnet g)) = Inr (group_prefix g)" if "g \<in> set gs" for g
    using gs(1) that parse_prefix_string_v4 [of 24 "fst g"] by (auto simp: plan_refines_def group_ok_def group_prefix_def)
  then have "map (\<lambda>sub. parse_prefix (sb_Subnet sub)) (map group_subnet gs) = map Inr (map block ks)"
    by (simp flip: gs(3))
  then have "map (\<lambda>sub. parse_prefix (sb_Subnet sub)) (map (\<lambda>(v, n, sub). sub) (plan_subnets (pl_VPCs s))) = map Inr (map block ks)"
    by (simp only: gs(2))
  moreover have "sorted_wrt (\<lambda>p q. \<not> prefix_overlaps p q) (map block ks)" using gs(4) in_ns by (simp add: sorted_blocks)
  ultimately show ?thesis
    using in_ns in_ranges by (auto simp: comp_def case_prod_unfold block_def intro!: exI [of _ "map block ks"])
qed

lemma example_namespaces:
  "en_VLANNS (example_env nos) n = Inr [\<lparr>vr_From = 1000, vr_To = 1001\<rparr>, \<lparr>vr_From = 2000, vr_To = 2999\<rparr>]"
  "en_IPv4NS (example_env nos) n = Inr [''10.0.0.0/23'', ''10.1.0.0/16'']"
  "vlans_disjoint [\<lparr>vr_From = 1000, vr_To = 1001\<rparr>, \<lparr>vr_From = 2000, vr_To = 2999\<rparr>]"
  "parse_prefixes ''default'' [''10.0.0.0/23'', ''10.1.0.0/16''] = Inr [v4_prefix 0x0A000000 23, v4_prefix 0x0A010000 16]"
  "sorted_wrt (\<lambda>p q. \<not> prefix_overlaps p q) [v4_prefix 0x0A000000 23, v4_prefix 0x0A010000 16]"
proof -
  have "\<not> (v \<le> 1001 \<and> 2000 \<le> v)" for v :: "16 word"
    using order_trans [of 2000 v "1001 :: 16 word"] by auto
  then show "vlans_disjoint [\<lparr>vr_From = 1000, vr_To = 1001\<rparr>, \<lparr>vr_From = 2000, vr_To = 2999\<rparr>]"
    by (auto simp: vlans_disjoint_def vlan_in_def)
  show "parse_prefixes ''default'' [''10.0.0.0/23'', ''10.1.0.0/16''] = Inr [v4_prefix 0x0A000000 23, v4_prefix 0x0A010000 16]"
    "sorted_wrt (\<lambda>p q. \<not> prefix_overlaps p q) [v4_prefix 0x0A000000 23, v4_prefix 0x0A010000 16]" by code_simp+
qed (simp_all add: example_env_def)

theorem vpc_subnets_disjoint_witness:
  "\<exists>o' s. plan_setup (example_env ''cumulus-vx'') example_opts = Inr (o', s) \<and> length (plan_subnets (pl_VPCs s)) = 2 \<and>
     distinct (map (\<lambda>(v, n, sub). sb_VLAN sub) (plan_subnets (pl_VPCs s)))"
proof -
  obtain o' s where s: "plan_setup (example_env ''cumulus-vx'') example_opts = Inr (o', s)"
    "length (plan_subnets (pl_VPCs s)) = 2" "su_IPv4Namespace o' = ''default''" using example_plan_subnets by blast
  from vpc_subnets_disjoint [OF s(1) example_namespaces(1,3) _ example_namespaces(2) _ example_namespaces(5)]
  show ?thesis using s example_namespaces(4) by simp
qed

section \<open>Links\<close>

definition group_links :: "setup_opts \<Rightarrow> group \<Rightarrow> prefix list" where
  "group_links opts g = List.map_filter (group_link opts g) [0..<length (group_servers g)]"

lemma group_links_in:
  "l \<in> set (group_links opts g) \<Longrightarrow> \<exists>j<length (group_servers g). l = v4_prefix (v4_base (fst g) 24 + 2 * word_of_nat j) 31"
  by (auto simp: group_links_def List.map_filter_def group_link_def split: if_splits)

lemma links_in_group:
  assumes "length (group_servers g) \<le> 128"
  shows "sorted_wrt (\<lambda>p q. \<not> prefix_overlaps p q) (group_links opts g)"
proof (cases "su_P2P opts \<and> \<not> sb_HostBGP (group_subnet g)")
  case True
  then have "group_links opts g = map (\<lambda>j. v4_prefix (v4_base (fst g) 24 + 2 * word_of_nat j) 31) [0..<length (group_servers g)]"
    by (simp add: group_links_def group_link_def List.map_filter_def comp_def)
  moreover have "sorted_wrt (\<lambda>i j. i \<noteq> j \<and> i < 128 \<and> j < 128) [0..<length (group_servers g)]"
    using assms by (auto simp: sorted_wrt_iff_nth_less)
  ultimately show ?thesis
    by (simp add: sorted_wrt_map) (erule sorted_wrt_mono_rel [rotated], simp add: links_overlap)
next
  case False
  then have "group_links opts g = []" by (auto simp: group_links_def group_link_def List.map_filter_def)
  then show ?thesis by simp
qed

lemma links_of_groups:
  assumes "distinct (map (\<lambda>g. unat (fst g) div 256) gs)" "\<forall>g \<in> set gs. length (group_servers g) \<le> 128"
  shows "sorted_wrt (\<lambda>p q. \<not> prefix_overlaps p q) (concat (map (group_links opts) gs))"
  using assms
proof (induction gs)
  case (Cons g gs)
  have "\<not> prefix_overlaps p q" if p: "p \<in> set (group_links opts g)" and h: "h \<in> set gs" and q: "q \<in> set (group_links opts h)" for p q h
  proof -
    obtain i where i: "i < length (group_servers g)" "p = v4_prefix (v4_base (fst g) 24 + 2 * word_of_nat i) 31"
      using group_links_in [OF p] by blast
    obtain j where j: "j < length (group_servers h)" "q = v4_prefix (v4_base (fst h) 24 + 2 * word_of_nat j) 31"
      using group_links_in [OF q] by blast
    have "i < 128" "j < 128" using i(1) j(1) Cons.prems(2) h by (auto dest: order_less_le_trans)
    moreover have "unat (fst g) div 256 \<noteq> unat (fst h) div 256" using Cons.prems(1) h by auto
    ultimately show ?thesis using links_overlap [of i j "fst g" "fst h"] i(2) j(2) by simp
  qed
  with Cons links_in_group [of g opts] show ?case by (auto simp: sorted_wrt_append)
qed simp

text \<open>
  C38. In P2P mode the link of a server lies in its subnet exactly for the first 128 servers of the subnet.
  With at most 128 servers per subnet no two links of a plan overlap, if the prefixes of the namespace do
  not; the option itself is not bounded.
\<close>

theorem vpc_links_fit_iff:
  assumes "plan_setup env opts = Inr (o', s)"
    and "en_IPv4NS env (su_IPv4Namespace o') = Inr subnets" "parse_prefixes (su_IPv4Namespace o') subnets = Inr prefixes"
    and "sorted_wrt (\<lambda>p q. \<not> prefix_overlaps p q) prefixes" "\<forall>p \<in> set prefixes. pf_bits p \<ge> 1"
  shows "\<exists>gs. plan_refines env o' gs s \<and>
    (\<forall>g \<in> set gs. \<forall>j l. group_link o' g j = Some l \<and> j < 2 ^ 31 \<longrightarrow> (prefix_contains (group_prefix g) (pf_addr l) \<longleftrightarrow> j < 128)) \<and>
    (su_ServersPerSubnet o' \<le> 128 \<longrightarrow> sorted_wrt (\<lambda>p q. \<not> prefix_overlaps p q) (concat (map (group_links o') gs)))"
proof -
  from plan_blocks [OF assms] obtain gs ks where gs: "plan_refines env o' gs s" "map group_prefix gs = map block ks"
    "distinct ks" "set ks \<subseteq> set (concat (map prefix_blocks prefixes))" by blast
  have small: "k < 2 ^ 24" if "k \<in> set ks" for k
    using gs(4) that prefix_blocks_in [of k] assms(5) by fastforce
  have "map (\<lambda>p. (case pf_addr p of V4 w \<Rightarrow> unat w div 256 | _ \<Rightarrow> 0)) (map block ks) = ks"
    using small by (intro map_idI [THEN trans [OF map_map]]) (simp add: block_def block_address del: of_nat_mult)
  then have "map (\<lambda>g. unat (fst g) div 256) gs = ks"
    by (simp flip: gs(2) add: group_prefix_def comp_def)
  with gs(3) have "distinct (map (\<lambda>g. unat (fst g) div 256) gs)" by simp
  moreover have "length (group_servers g) \<le> 128" if "su_ServersPerSubnet o' \<le> 128" "g \<in> set gs" for g
    using gs(1) that by (force simp: plan_refines_def group_ok_def)
  ultimately show ?thesis
    using gs(1) links_of_groups [of gs o'] link_in_block
    by (intro exI [of _ gs]) (auto simp: group_link_def group_prefix_def split: if_splits)
qed

theorem vpc_links_fit_iff_witness:
  "\<exists>o' s gs. su_P2P o' \<and> plan_refines (example_env ''cumulus-vx'') o' gs s \<and>
     sorted_wrt (\<lambda>p q. \<not> prefix_overlaps p q) (concat (map (group_links o') gs))"
proof -
  obtain o' s where s: "plan_setup (example_env ''cumulus-vx'') example_opts = Inr (o', s)"
    "su_P2P o'" "su_IPv4Namespace o' = ''default''" "su_ServersPerSubnet o' = 2" using example_plan_subnets by blast
  from vpc_links_fit_iff [OF s(1) example_namespaces(2) _ example_namespaces(5)]
  obtain gs where "plan_refines (example_env ''cumulus-vx'') o' gs s"
    "su_ServersPerSubnet o' \<le> 128 \<longrightarrow> sorted_wrt (\<lambda>p q. \<not> prefix_overlaps p q) (concat (map (group_links o') gs))"
    using s(3) example_namespaces(4) by auto
  with s show ?thesis by auto
qed

end
