(* ===== verification/PeerReq.thy ===== *)
theory PeerReq
  imports VpcTypes VlabWiring
begin

text \<open>
  How \<^verbatim>\<open>SetupPeerings\<close> of \<^verbatim>\<open>pkg/hhfab/testing.go\<close> reads its requests, such as
  \<^verbatim>\<open>1+2:gw:as1=10.10.0.0/24\<close> or \<^verbatim>\<open>1~as5835:s=default\<close>: the specs of the peerings between VPCs, with
  externals, and through gateways, with their NAT. The VPCs and externals the client lists are parameters.
\<close>

section \<open>NAT options\<close>

definition lower_char :: "char \<Rightarrow> char" where
  "lower_char c = (let n = (of_char c :: nat) in if 65 \<le> n \<and> n \<le> 90 then char_of (n + 32) else c)"

text \<open>\<^verbatim>\<open>strings.ToLower\<close>, on ASCII.\<close>

definition to_lower :: "string \<Rightarrow> string" where "to_lower s = map lower_char s"

definition natTypeNone :: string where "natTypeNone = ''''"
definition natTypeStatic :: string where "natTypeStatic = ''static''"
definition natTypeMasquerade :: string where "natTypeMasquerade = ''masquerade''"
definition natTypePortFwd :: string where "natTypePortFwd = ''port-forward''"

definition parseNatType :: "string \<Rightarrow> string result" where
  "parseNatType optValue =
     (if optValue = '''' then Inl (Errf ''nat type should be non-empty'' [])
      else let nt = trim_space (to_lower optValue) in
        if nt = natTypeStatic then Inr natTypeStatic
        else if nt = natTypeMasquerade then Inr natTypeMasquerade
        else if nt = natTypePortFwd \<or> nt = ''portforward'' \<or> nt = ''port_forward'' \<or> nt = ''pf'' then Inr natTypePortFwd
        else Inl (Errf ''unknown nat type %q (supported: static, masquerade, port-forward)'' [optValue]))"

text \<open>A prefix is included, or excluded by an exclamation mark; the pair holds its CIDR and its exclusion.\<close>

fun parse_as_items :: "nat \<Rightarrow> string list \<Rightarrow> (string \<times> string) list result" where
  "parse_as_items idx [] = Inr []"
| "parse_as_items idx (raw # items) =
     (let item = trim_space raw in
      if item = '''' then Inl (Errf ''invalid as prefix at index %d: should not be empty'' [itoa idx])
      else ebind
        (if has_prefix item ''!'' then
           (let asStr = drop 1 item in
            ebind (ewrap ''invalid as not prefix at index %d: %w'' [itoa idx] (parse_prefix asStr)) (\<lambda>_. Inr ('''', asStr)))
         else ebind (ewrap ''invalid as prefix at index %d: %w'' [itoa idx] (parse_prefix item)) (\<lambda>_. Inr (item, '''')))
        (\<lambda>as. ebind (parse_as_items (idx + 1) items) (\<lambda>rest. Inr (as # rest))))"

definition parsePeeringEntryAsList :: "string \<Rightarrow> (string \<times> string) list result" where
  "parsePeeringEntryAsList raw =
     (if raw = '''' then Inl (Errf ''invalid as prefixes: should not be empty'' []) else parse_as_items 0 (split_on (CHR '','') raw))"

text \<open>The left side of a rule: a port, or a protocol and a port.\<close>

definition parse_rule_left :: "string \<Rightarrow> nat \<Rightarrow> string \<Rightarrow> (string \<times> string) result" where
  "parse_rule_left rule idx left =
     (if CHR ''/'' \<in> set left then
        (case split_on (CHR ''/'') left of
           [p, q] \<Rightarrow>
             let proto = trim_space p; port = trim_space q in
             if proto = '''' \<or> port = ''''
             then Inl (Errf ''invalid port-forward rule %q at index %d: proto and port must be non-empty'' [rule, itoa idx])
             else if proto = PeeringNATProtocolTCP then Inr (PeeringNATProtocolTCP, port)
             else if proto = PeeringNATProtocolUDP then Inr (PeeringNATProtocolUDP, port)
             else if proto = PeeringNATProtocolAny then Inr (PeeringNATProtocolAny, port)
             else Inl (Errf ''invalid port-forward rule %q at index %d: unknown protocol %q (supported: tcp, udp)'' [rule, itoa idx, proto])
         | _ \<Rightarrow> Inl (Errf ''invalid port-forward rule %q at index %d: left side must be in format proto/port'' [rule, itoa idx]))
      else Inr (PeeringNATProtocolAny, left))"

definition bad_rule_part :: "string \<Rightarrow> bool" where
  "bad_rule_part s \<longleftrightarrow> CHR '','' \<in> set s \<or> trim_space s \<noteq> s \<or> s = ''''"

definition parse_rule :: "nat \<Rightarrow> string \<Rightarrow> pf_entry result" where
  "parse_rule idx raw =
     (let rule = trim_space raw in
      if rule = '''' then Inl (Errf ''invalid port-forward rule at index %d: should not be empty'' [itoa idx])
      else (case split_on (CHR ''='') rule of
          [a, b] \<Rightarrow>
            let left = trim_space a; right = trim_space b in
            if left = '''' \<or> right = ''''
            then Inl (Errf ''invalid port-forward rule %q at index %d: port and as must be non-empty'' [rule, itoa idx])
            else ebind (parse_rule_left rule idx left) (\<lambda>(proto, port).
              if bad_rule_part port then Inl (Errf ''invalid port %q in port-forward rule %q at index %d'' [port, rule, itoa idx])
              else if bad_rule_part right then Inl (Errf ''invalid as %q in port-forward rule %q at index %d'' [right, rule, itoa idx])
              else Inr \<lparr>fw_Protocol = proto, fw_Port = port, fw_As = right\<rparr>)
        | _ \<Rightarrow> Inl (Errf ''invalid port-forward rule %q at index %d: must be in format [proto/]port=as'' [rule, itoa idx])))"

fun parse_rules :: "nat \<Rightarrow> string list \<Rightarrow> pf_entry list result" where
  "parse_rules idx [] = Inr []"
| "parse_rules idx (r # rs) = ebind (parse_rule idx r) (\<lambda>e. ebind (parse_rules (idx + 1) rs) (\<lambda>es. Inr (e # es)))"

definition parsePortForwardRuleList :: "string \<Rightarrow> pf_entry list result" where
  "parsePortForwardRuleList raw =
     (if raw = '''' then Inl (Errf ''invalid port-forward rules: should not be empty'' []) else parse_rules 0 (split_on (CHR '','') raw))"

record nat_cfg =
  ng_AsRaw :: string
  ng_Nat :: string
  ng_PfRaw :: string

definition no_nat :: nat_cfg where "no_nat = \<lparr>ng_AsRaw = '''', ng_Nat = natTypeNone, ng_PfRaw = ''''\<rparr>"

definition populateExposeNat :: "nat_expose \<Rightarrow> nat_cfg \<Rightarrow> nat_expose result" where
  "populateExposeNat x cfg =
     ebind (ewrap ''invalid as prefixes: %w'' [] (parsePeeringEntryAsList (ng_AsRaw cfg))) (\<lambda>asList.
     let nat = (if ng_Nat cfg = natTypeNone then natTypeStatic else ng_Nat cfg);
         put = (\<lambda>n. Inr (x\<lparr>xe_As := asList, ne_NAT := Some n\<rparr>));
         none = \<lparr>nt_Masquerade = None, nt_PortForward = None, nt_Static = False\<rparr> in
     if nat = natTypeStatic then put (none\<lparr>nt_Static := True\<rparr>)
     else if nat = natTypeMasquerade then put (none\<lparr>nt_Masquerade := Some 0\<rparr>)
     else if nat = natTypePortFwd then
       (if ng_PfRaw cfg = '''' then Inl (Errf ''port-forward NAT requires port-forward rules (pf=...)'' [])
        else ebind (ewrap ''invalid port-forward rules: %w'' [] (parsePortForwardRuleList (ng_PfRaw cfg))) (\<lambda>ports.
          put (none\<lparr>nt_PortForward := Some \<lparr>pn_IdleTimeout = 0, pn_Ports = ports\<rparr>\<rparr>)))
     else Inl (Errf ''unexpected NAT type %q'' [nat]))"

text \<open>
  One option of a side; \<open>kind\<close> is the kind of the peering and \<open>label\<close> and \<open>rules\<close> name the side in the
  errors.
\<close>

definition bad_option :: "string \<Rightarrow> string \<Rightarrow> nat \<Rightarrow> string \<Rightarrow> go_err" where
  "bad_option kind what idx option = Errf (''invalid '' @ kind @ '' option #%d %s, '' @ what) [itoa idx, option]"

definition set_as :: "string \<Rightarrow> string \<Rightarrow> nat \<Rightarrow> string \<Rightarrow> string \<Rightarrow> nat_cfg \<Rightarrow> nat_cfg result" where
  "set_as kind label idx option optValue cfg =
     (if optValue = '''' then Inl (bad_option kind (label @ ''-as should be non-empty'') idx option)
      else if ng_AsRaw cfg \<noteq> '''' then Inl (bad_option kind (label @ ''-as already specified'') idx option)
      else Inr (cfg\<lparr>ng_AsRaw := optValue\<rparr>))"

definition set_nat :: "string \<Rightarrow> string \<Rightarrow> nat \<Rightarrow> string \<Rightarrow> string \<Rightarrow> nat_cfg \<Rightarrow> nat_cfg result" where
  "set_nat kind side idx option optValue cfg =
     ebind (ewrap (''invalid '' @ kind @ '' option #%d %s, %w'') [itoa idx, option] (parseNatType optValue)) (\<lambda>n.
     if ng_Nat cfg \<noteq> natTypeNone \<and> ng_Nat cfg \<noteq> n
     then Inl (bad_option kind (''multiple NAT types specified for '' @ side @ '' ('' @ ng_Nat cfg @ '' and '' @ n @ '')'') idx option)
     else Inr (cfg\<lparr>ng_Nat := n\<rparr>))"

definition set_pf :: "string \<Rightarrow> string \<Rightarrow> nat \<Rightarrow> string \<Rightarrow> string \<Rightarrow> nat_cfg \<Rightarrow> nat_cfg result" where
  "set_pf kind side idx option optValue cfg =
     (if optValue = '''' then Inl (bad_option kind (side @ '' port-forward rules should be non-empty'') idx option)
      else if ng_PfRaw cfg \<noteq> '''' then Inl (bad_option kind (side @ '' port-forward rules already specified'') idx option)
      else Inr (cfg\<lparr>ng_PfRaw := optValue\<rparr>))"

text \<open>An option and its value, empty if there is none.\<close>

definition split_option :: "string \<Rightarrow> string \<times> string" where
  "split_option option = (case split2 (CHR ''='') option of [n, v] \<Rightarrow> (n, v) | n # _ \<Rightarrow> (n, '''') | [] \<Rightarrow> ('''', ''''))"

definition nat_free :: "nat_cfg \<Rightarrow> bool" where
  "nat_free cfg \<longleftrightarrow> ng_AsRaw cfg = '''' \<and> ng_Nat cfg = natTypeNone \<and> ng_PfRaw cfg = ''''"

section \<open>Peerings between VPCs\<close>

definition peer_vpc_name :: "string \<Rightarrow> string" where
  "peer_vpc_name v =
     (if has_prefix v ''vpc-'' then v
      else ''vpc-'' @ (case parse_uint v 64 of Inr n \<Rightarrow> pad2 n | Inl _ \<Rightarrow> v))"

record vpc_req =
  rq_GW :: bool
  rq_Subnets1 :: "string list"
  rq_Subnets2 :: "string list"
  rq_Nat1 :: nat_cfg
  rq_Nat2 :: nat_cfg

definition no_vpc_req :: vpc_req where
  "no_vpc_req = \<lparr>rq_GW = False, rq_Subnets1 = [], rq_Subnets2 = [], rq_Nat1 = no_nat, rq_Nat2 = no_nat\<rparr>"

definition VPCReqKind :: string where "VPCReqKind = ''VPC peering''"

definition vpc_req_option :: "nat \<times> string \<Rightarrow> vpc_req \<Rightarrow> vpc_req result" where
  "vpc_req_option io r =
     (case io of (idx, option) \<Rightarrow> case split_option option of (optName, optValue) \<Rightarrow>
      if optName = ''gw'' \<or> optName = ''gateway'' then Inr (r\<lparr>rq_GW := True\<rparr>)
      else if optName = ''vpc1'' \<or> optName = ''vpc1-subnets'' then Inr (r\<lparr>rq_Subnets1 := split_on (CHR '','') optValue\<rparr>)
      else if optName = ''vpc2'' \<or> optName = ''vpc2-subnets'' then Inr (r\<lparr>rq_Subnets2 := split_on (CHR '','') optValue\<rparr>)
      else if optName = ''vpc1-as'' \<or> optName = ''as1'' then
        ebind (set_as VPCReqKind ''vpc1'' idx option optValue (rq_Nat1 r)) (\<lambda>n. Inr (r\<lparr>rq_Nat1 := n\<rparr>))
      else if optName = ''vpc2-as'' \<or> optName = ''as2'' then
        ebind (set_as VPCReqKind ''vpc2'' idx option optValue (rq_Nat2 r)) (\<lambda>n. Inr (r\<lparr>rq_Nat2 := n\<rparr>))
      else if optName = ''vpc1-nat'' \<or> optName = ''nat1'' then
        ebind (set_nat VPCReqKind ''vpc1'' idx option optValue (rq_Nat1 r)) (\<lambda>n. Inr (r\<lparr>rq_Nat1 := n\<rparr>))
      else if optName = ''vpc2-nat'' \<or> optName = ''nat2'' then
        ebind (set_nat VPCReqKind ''vpc2'' idx option optValue (rq_Nat2 r)) (\<lambda>n. Inr (r\<lparr>rq_Nat2 := n\<rparr>))
      else if optName = ''vpc1-pf'' \<or> optName = ''pf1'' then
        ebind (set_pf VPCReqKind ''vpc1'' idx option optValue (rq_Nat1 r)) (\<lambda>n. Inr (r\<lparr>rq_Nat1 := n\<rparr>))
      else if optName = ''vpc2-pf'' \<or> optName = ''pf2'' then
        ebind (set_pf VPCReqKind ''vpc2'' idx option optValue (rq_Nat2 r)) (\<lambda>n. Inr (r\<lparr>rq_Nat2 := n\<rparr>))
      else if optName \<in> {''nat'', ''nat-type'', ''pf'', ''port-forward''}
      then Inl (bad_option VPCReqKind ''use per-side NAT options (vpc1-nat/nat1, vpc2-nat/nat2, vpc1-pf/pf1, vpc2-pf/pf2)'' idx option)
      else Inl (Errf ''invalid peering option #%d %s'' [itoa idx, option]))"

text \<open>
  The prefixes a VPC exposes: those of its subnets, or of the ones named; none if it is not known. A VPC
  is its name and the prefixes of its subnets by name.
\<close>

type_synonym listed_vpc = "string \<times> string gomap"

definition exposed_prefixes :: "listed_vpc list \<Rightarrow> string \<Rightarrow> string list \<Rightarrow> expose_ip list" where
  "exposed_prefixes vpcs name names =
     (case map_of (rev vpcs) name of
        None \<Rightarrow> []
      | Some subnets \<Rightarrow> map (\<lambda>(n, cidr). \<lparr>xi_CIDR = cidr, xi_Not = '''', xi_VPCSubnet = ''''\<rparr>)
          (filter (\<lambda>(n, cidr). names = [] \<or> n \<in> set names) subnets))"

definition nat_expose_of :: "expose_ip list \<Rightarrow> bool \<Rightarrow> nat_expose" where
  "nat_expose_of ips dflt = \<lparr>xe_IPs = ips, xe_As = [], xe_DefaultDestination = dflt, ne_NAT = None\<rparr>"

text \<open>What a side may combine, and its expose with its NAT.\<close>

definition nat_without_as :: "nat_cfg \<Rightarrow> bool" where
  "nat_without_as cfg \<longleftrightarrow> ng_AsRaw cfg = '''' \<and> (ng_Nat cfg \<noteq> natTypeNone \<or> ng_PfRaw cfg \<noteq> '''')"

definition rules_without_pf :: "nat_cfg \<Rightarrow> bool" where
  "rules_without_pf cfg \<longleftrightarrow> ng_PfRaw cfg \<noteq> '''' \<and> ng_Nat cfg \<noteq> natTypePortFwd"

definition side_expose :: "string \<Rightarrow> nat_expose \<Rightarrow> nat_cfg \<Rightarrow> nat_expose result" where
  "side_expose side x cfg =
     (if ng_AsRaw cfg \<noteq> '''' then ewrap (''invalid NAT config for '' @ side @ '': %w'') [] (populateExposeNat x cfg) else Inr x)"

record peerings =
  pr_VPC :: "string list gomap list gomap"
  pr_Ext :: "ext_peering_spec gomap"
  pr_GW :: "gw_peering_spec gomap"

definition gw_pair :: "string \<Rightarrow> nat_expose \<Rightarrow> string \<Rightarrow> nat_expose \<Rightarrow> gw_peering_spec" where
  "gw_pair a x b y = \<lparr>gs_GatewayGroup = '''', gs_Peering = map_put b [y] (map_put a [x] [])\<rparr>"

definition vpc_gw_spec :: "listed_vpc list \<Rightarrow> string \<Rightarrow> string \<Rightarrow> vpc_req \<Rightarrow> gw_peering_spec result" where
  "vpc_gw_spec vpcs vpc1 vpc2 r =
     (let x1 = nat_expose_of (exposed_prefixes vpcs vpc1 (rq_Subnets1 r)) False;
          x2 = nat_expose_of (exposed_prefixes vpcs vpc2 (rq_Subnets2 r)) False in
      if nat_without_as (rq_Nat1 r) then Inl (Errf ''NAT options specified for vpc1 without vpc1-as'' [])
      else if nat_without_as (rq_Nat2 r) then Inl (Errf ''NAT options specified for vpc2 without vpc2-as'' [])
      else if rules_without_pf (rq_Nat1 r) then Inl (Errf ''vpc1 port-forward rules specified but vpc1-nat is not port-forward'' [])
      else if rules_without_pf (rq_Nat2 r) then Inl (Errf ''vpc2 port-forward rules specified but vpc2-nat is not port-forward'' [])
      else ebind (side_expose ''vpc1'' x1 (rq_Nat1 r)) (\<lambda>x1. ebind (side_expose ''vpc2'' x2 (rq_Nat2 r)) (\<lambda>x2.
        Inr (gw_pair vpc1 x1 vpc2 x2))))"

definition nat_needs_gateway :: go_err where
  "nat_needs_gateway = Errf ''NAT options (as*, nat, port-forward) are only supported for gateway peerings'' []"

text \<open>The names of the request are sorted as they are written, before they are completed.\<close>

definition vpc_request :: "listed_vpc list \<Rightarrow> string \<Rightarrow> string list \<Rightarrow> peerings \<Rightarrow> peerings result" where
  "vpc_request vpcs reqName options ps =
     (case split_on (CHR ''+'') reqName of
        [a, b] \<Rightarrow>
          (case sort [a, b] of [vpc1, vpc2] \<Rightarrow>
             if vpc1 = '''' \<or> vpc2 = ''''
             then Inl (Errf ''invalid VPC peering request %s, both VPCs should be non-empty'' [reqName])
             else let vpc1 = peer_vpc_name vpc1; vpc2 = peer_vpc_name vpc2; name = vpc1 @ ''--'' @ vpc2 in
               ebind (efold vpc_req_option (enumerate 0 options) no_vpc_req) (\<lambda>r.
               if \<not> rq_GW r then
                 if nat_free (rq_Nat1 r) \<and> nat_free (rq_Nat2 r)
                 then Inr (ps\<lparr>pr_VPC := map_put name [map_put vpc2 (rq_Subnets2 r) (map_put vpc1 (rq_Subnets1 r) [])] (pr_VPC ps)\<rparr>)
                 else Inl nat_needs_gateway
               else ebind (vpc_gw_spec vpcs vpc1 vpc2 r) (\<lambda>spec. Inr (ps\<lparr>pr_GW := map_put name spec (pr_GW ps)\<rparr>)))
           | _ \<Rightarrow> Inl (Panic ''runtime error: index out of range''))
      | _ \<Rightarrow> Inl (Errf ''invalid VPC peering request %s'' [reqName]))"

section \<open>Peerings with externals\<close>

record ext_req =
  er_GW :: bool
  er_Subnets :: "string list"
  er_Prefixes :: "string list"
  er_VPCNat :: nat_cfg
  er_ExtNat :: nat_cfg

definition no_ext_req :: ext_req where
  "no_ext_req = \<lparr>er_GW = False, er_Subnets = [], er_Prefixes = [], er_VPCNat = no_nat, er_ExtNat = no_nat\<rparr>"

definition ExtReqKind :: string where "ExtReqKind = ''external peering''"

definition ext_req_option :: "nat \<times> string \<Rightarrow> ext_req \<Rightarrow> ext_req result" where
  "ext_req_option io r =
     (case io of (idx, option) \<Rightarrow> case split_option option of (optName, optValue) \<Rightarrow>
      if optName \<in> {''gw'', ''gateway''} then Inr (r\<lparr>er_GW := True\<rparr>)
      else if optName \<in> {''vpc-subnets'', ''subnets'', ''s''} then
        (if optValue = '''' then Inl (bad_option ExtReqKind ''VPC subnet names should be non-empty'' idx option)
         else Inr (r\<lparr>er_Subnets := split_on (CHR '','') optValue\<rparr>))
      else if optName \<in> {''ext-prefixes'', ''prefixes'', ''p''} then
        (if optValue = '''' then Inl (bad_option ExtReqKind ''external prefixes should be non-empty'' idx option)
         else Inr (r\<lparr>er_Prefixes := split_on (CHR '','') optValue\<rparr>))
      else if optName \<in> {''vpc-as'', ''as-vpc''} then
        ebind (set_as ExtReqKind ''vpc'' idx option optValue (er_VPCNat r)) (\<lambda>n. Inr (r\<lparr>er_VPCNat := n\<rparr>))
      else if optName \<in> {''ext-as'', ''as-ext''} then
        ebind (set_as ExtReqKind ''ext'' idx option optValue (er_ExtNat r)) (\<lambda>n. Inr (r\<lparr>er_ExtNat := n\<rparr>))
      else if optName \<in> {''vpc-nat'', ''nat-vpc''} then
        ebind (set_nat ExtReqKind ''VPC side'' idx option optValue (er_VPCNat r)) (\<lambda>n. Inr (r\<lparr>er_VPCNat := n\<rparr>))
      else if optName \<in> {''ext-nat'', ''nat-ext''} then
        ebind (set_nat ExtReqKind ''external side'' idx option optValue (er_ExtNat r)) (\<lambda>n. Inr (r\<lparr>er_ExtNat := n\<rparr>))
      else if optName \<in> {''vpc-pf'', ''pf-vpc''} then
        ebind (set_pf ExtReqKind ''VPC'' idx option optValue (er_VPCNat r)) (\<lambda>n. Inr (r\<lparr>er_VPCNat := n\<rparr>))
      else if optName \<in> {''ext-pf'', ''pf-ext''} then
        ebind (set_pf ExtReqKind ''external'' idx option optValue (er_ExtNat r)) (\<lambda>n. Inr (r\<lparr>er_ExtNat := n\<rparr>))
      else if optName \<in> {''nat'', ''nat-type'', ''pf'', ''port-forward'', ''port-forward-rules''}
      then Inl (bad_option ExtReqKind ''use per-side NAT options (vpc-nat/ext-nat and vpc-pf/ext-pf)'' idx option)
      else Inl (Errf ''invalid peering option #%d %s'' [itoa idx, option]))"

text \<open>A prefix with an underscore always splits into more than one part.\<close>

definition check_ext_prefix :: "nat \<Rightarrow> string \<Rightarrow> string result" where
  "check_ext_prefix idx raw =
     (if CHR ''_'' \<in> set raw then
        (let parts = split_on (CHR ''_'') raw in
         if length parts > 1
         then Inl (Errf ''invalid external peering option #%d, external prefix should be in format 1.2.3.4/24 (found %s)'' [itoa idx, raw])
         else Inr (hd parts))
      else Inr raw)"

fun check_ext_prefixes :: "nat \<Rightarrow> string list \<Rightarrow> string list result" where
  "check_ext_prefixes idx [] = Inr []"
| "check_ext_prefixes idx (p # ps) =
     ebind (check_ext_prefix idx p) (\<lambda>q. ebind (check_ext_prefixes (idx + 1) ps) (\<lambda>qs. Inr (q # qs)))"

definition ext_spec_of :: "string \<Rightarrow> string \<Rightarrow> ext_req \<Rightarrow> ext_peering_spec result" where
  "ext_spec_of v ext r =
     ebind (check_ext_prefixes 0 (er_Prefixes r)) (\<lambda>prefixes.
     Inr \<lparr>ep_VPC = v, ep_Subnets = sort (if er_Subnets r = [] then [''default''] else er_Subnets r),
       ep_External = ext, ep_Prefixes = sort (if prefixes = [] then [''0.0.0.0/0''] else prefixes)\<rparr>)"

text \<open>Through a gateway: the prefixes in order, and whether the default route is among them.\<close>

fun gw_ext_prefixes :: "nat \<Rightarrow> string list \<Rightarrow> expose_ip list \<times> bool \<Rightarrow> (expose_ip list \<times> bool) result" where
  "gw_ext_prefixes idx [] acc = Inr acc"
| "gw_ext_prefixes idx (p # ps) (ips, dflt) =
     (if p = ''0.0.0.0/0'' \<or> p = ''default'' then gw_ext_prefixes (idx + 1) ps (ips, True)
      else ebind (ewrap ''invalid external peering option #%d, external prefix %q is not valid: %w'' [itoa idx, p] (parse_prefix p)) (\<lambda>_.
        gw_ext_prefixes (idx + 1) ps (ips @ [\<lparr>xi_CIDR = p, xi_Not = '''', xi_VPCSubnet = ''''\<rparr>], dflt)))"

definition ext_gw_spec :: "listed_vpc list \<Rightarrow> string \<Rightarrow> string \<Rightarrow> ext_req \<Rightarrow> gw_peering_spec result" where
  "ext_gw_spec vpcs v ext r =
     ebind (gw_ext_prefixes 0 (er_Prefixes r) ([], False)) (\<lambda>(ips, dflt).
     if ips \<noteq> [] \<and> dflt then Inl (Errf ''cannot expose default route and other IP prefixes at the same time'' [])
     else let x = nat_expose_of (exposed_prefixes vpcs v (er_Subnets r)) False;
              y = nat_expose_of ips (ips = []) in
       if nat_without_as (er_VPCNat r) then Inl (Errf ''NAT options specified for VPC side without vpc-as'' [])
       else if nat_without_as (er_ExtNat r) then Inl (Errf ''NAT options specified for external side without ext-as'' [])
       else if rules_without_pf (er_VPCNat r) then Inl (Errf ''VPC port-forward rules specified but vpc-nat is not port-forward'' [])
       else if rules_without_pf (er_ExtNat r) then Inl (Errf ''external port-forward rules specified but ext-nat is not port-forward'' [])
       else ebind (side_expose ''VPC side'' x (er_VPCNat r)) (\<lambda>x. ebind (side_expose ''external side'' y (er_ExtNat r)) (\<lambda>y.
         Inr (gw_pair v x (VPCInfoExtPrefix @ ext) y))))"

definition ext_request :: "listed_vpc list \<Rightarrow> string list \<Rightarrow> string \<Rightarrow> string list \<Rightarrow> peerings \<Rightarrow> peerings result" where
  "ext_request vpcs externals reqName options ps =
     (case split_on (CHR ''~'') reqName of
        [v, ext] \<Rightarrow>
          if v = '''' then Inl (Errf ''invalid external peering request %s, VPC should be non-empty'' [reqName])
          else if ext = '''' then Inl (Errf ''invalid external peering request %s, external should be non-empty'' [reqName])
          else if ext \<notin> set externals then Inl (Errf ''external %s not found for external peering'' [ext])
          else let v = peer_vpc_name v; name = v @ ''--'' @ ext in
            ebind (efold ext_req_option (enumerate 0 options) no_ext_req) (\<lambda>r.
            if \<not> er_GW r then
              if nat_free (er_VPCNat r) \<and> nat_free (er_ExtNat r)
              then ebind (ext_spec_of v ext r) (\<lambda>spec. Inr (ps\<lparr>pr_Ext := map_put name spec (pr_Ext ps)\<rparr>))
              else Inl nat_needs_gateway
            else ebind (ext_gw_spec vpcs v ext r) (\<lambda>spec. Inr (ps\<lparr>pr_GW := map_put name spec (pr_GW ps)\<rparr>)))
      | _ \<Rightarrow> Inl (Errf ''invalid external peering request %s'' [reqName]))"

section \<open>All requests\<close>

definition peering_request ::
    "listed_vpc list \<Rightarrow> string list \<Rightarrow> string \<Rightarrow> string list \<times> peerings \<Rightarrow> (string list \<times> peerings) result" where
  "peering_request vpcs externals req st =
     (case st of (reqNames, ps) \<Rightarrow> case split_on (CHR '':'') req of
        [] \<Rightarrow> Inl (Errf ''invalid request %q format'' [req])
      | reqName # options \<Rightarrow>
          if reqName \<in> set reqNames then Inl (Errf ''duplicate request %q name %s'' [req, reqName])
          else let vpMark = (CHR ''+'' \<in> set reqName); epMark = (CHR ''~'' \<in> set reqName) in
            ebind (if vpMark \<and> \<not> epMark then vpc_request vpcs reqName options ps
                   else if \<not> vpMark \<and> epMark then ext_request vpcs externals reqName options ps
                   else Inl (Errf ''invalid request name %s'' [reqName])) (\<lambda>ps.
            Inr (reqName # reqNames, ps)))"

definition parse_peerings :: "listed_vpc list \<Rightarrow> string list \<Rightarrow> string list \<Rightarrow> peerings result" where
  "parse_peerings vpcs externals requests =
     ebind (efold (peering_request vpcs externals) requests ([], \<lparr>pr_VPC = [], pr_Ext = [], pr_GW = []\<rparr>)) (\<lambda>(_, ps). Inr ps)"

end
