(* ===== verification/PeerAdmit.thy ===== *)
theory PeerAdmit
  imports PeerReq
begin

text \<open>
  What the API server checks of a gateway peering by itself before it stores it: the part of
  \<^verbatim>\<open>GatewayPeering.Validate\<close> of the vendored fabric module that looks at the spec alone
  (\<^verbatim>\<open>api/gateway/v1alpha1/gatewaypeering_types.go\<close>). The checks of the ACL, which the program never sets, and those
  against the other objects are left out. The code goes over the sides of a peering in the order of a Go map;
  which error comes first may differ, not whether there is one.
\<close>

definition port_number :: "string \<Rightarrow> string \<Rightarrow> int result" where
  "port_number what s =
     (case atoi s of
        None \<Rightarrow> Inl (Errf (''invalid '' @ what @ '' %s'') [s])
      | Some p \<Rightarrow> if p < 1 \<or> p > 65535 then Inl (Errf (''invalid '' @ what @ '' %s: port should be between 1 and 65535'') [s]) else Inr p)"

definition validatePort :: "string \<Rightarrow> unit result" where
  "validatePort s =
     (if trim_space s \<noteq> s then Inl (Errf ''invalid port %q: should not contain leading or trailing whitespace'' [s])
      else if CHR '','' \<in> set s then Inl (Errf ''invalid port %q: should be a single port or range'' [s])
      else if s = '''' then Inl (Errf ''port entry should not be empty'' [])
      else if CHR ''-'' \<notin> set s then ebind (port_number ''port'' s) (\<lambda>_. Inr ())
      else (case split_on (CHR ''-'') s of
         [a, b] \<Rightarrow>
           (let a = trim_space a; b = trim_space b in
            if a = '''' \<or> b = '''' then Inl (Errf ''invalid port range %s: both start and end should not be empty'' [s])
            else ebind (port_number ''start port'' a) (\<lambda>start. ebind (port_number ''end port'' b) (\<lambda>stop.
              if start > stop then Inl (Errf ''invalid port range %s: start port %d is greater than end port %d'' [s, a, b]) else Inr ())))
       | _ \<Rightarrow> Inl (Errf ''invalid port range %s: should be in format start-end'' [s])))"

text \<open>A block of addresses has exactly one of its fields set, and prefixes that parse.\<close>

definition opt_prefix :: "string \<Rightarrow> string \<Rightarrow> string \<Rightarrow> unit result" where
  "opt_prefix msg name s = (if s = '''' then Inr () else ebind (ewrap msg [s, name] (parse_prefix s)) (\<lambda>_. Inr ()))"

definition validate_expose_ip :: "string \<Rightarrow> expose_ip \<Rightarrow> unit result" where
  "validate_expose_ip name ip =
     ebind (opt_prefix ''invalid CIDR %s in peering expose IPs of VPC %s: %w'' name (xi_CIDR ip)) (\<lambda>_.
     ebind (opt_prefix ''invalid Not CIDR %s in peering expose IPs of VPC %s: %w'' name (xi_Not ip)) (\<lambda>_.
     if xi_VPCSubnet ip \<noteq> '''' \<and> has_prefix name VPCInfoExtPrefix
     then Inl (Errf ''external %s cannot have an IP block with VPC Subnets specified'' [drop (length VPCInfoExtPrefix) name])
     else if length (filter (\<lambda>s. s \<noteq> '''') [xi_CIDR ip, xi_Not ip, xi_VPCSubnet ip]) \<noteq> 1
     then Inl (Errf ''exactly one of cidr, not or vpcSubnet must be set in peering expose IPs of VPC %s'' [name])
     else Inr ()))"

definition validate_expose_as :: "string \<Rightarrow> string \<times> string \<Rightarrow> unit result" where
  "validate_expose_as name a =
     ebind (opt_prefix ''invalid CIDR %s in peering expose AS of VPC %s: %w'' name (fst a)) (\<lambda>_.
     ebind (opt_prefix ''invalid Not CIDR %s in peering expose AS of VPC %s: %w'' name (snd a)) (\<lambda>_.
     if length (filter (\<lambda>s. s \<noteq> '''') [fst a, snd a]) \<noteq> 1
     then Inl (Errf ''exactly one of cidr or not must be set in peering expose AS of VPC %s'' [name])
     else Inr ()))"

definition validate_pf_entry :: "string \<Rightarrow> nat \<times> pf_entry \<Rightarrow> unit result" where
  "validate_pf_entry name e =
     (let idx = itoa (fst e); e = snd e in
      ebind (ewrap ''invalid port %q in port forwarding rule %d in NAT section for peering expose of VPC %s: %w'' [fw_Port e, idx, name]
        (validatePort (fw_Port e))) (\<lambda>_.
      ebind (ewrap ''invalid as %q in port forwarding rule %d in NAT section for peering expose of VPC %s: %w'' [fw_As e, idx, name]
        (validatePort (fw_As e))) (\<lambda>_.
      if fw_Protocol e \<notin> {PeeringNATProtocolAny, PeeringNATProtocolTCP, PeeringNATProtocolUDP}
      then Inl (Errf ''invalid protocol %q in port forwarding rule %d in NAT section for peering expose of VPC %s'' [fw_Protocol e, idx, name])
      else Inr ())))"

text \<open>The NAT of a side so far: whether some expose has a stateful one, and whether some has a static one.\<close>

record side_nat =
  sn_Stateful :: bool
  sn_Stateless :: bool

definition validate_expose_nat :: "string \<Rightarrow> peering_nat \<Rightarrow> side_nat \<Rightarrow> side_nat result" where
  "validate_expose_nat name n s =
     (let s = s\<lparr>sn_Stateless := sn_Stateless s \<or> nt_Static n,
                sn_Stateful := sn_Stateful s \<or> nt_Masquerade n \<noteq> None \<or> nt_PortForward n \<noteq> None\<rparr> in
      if length (filter id [nt_Static n, nt_Masquerade n \<noteq> None, nt_PortForward n \<noteq> None]) \<noteq> 1
      then Inl (Errf ''exactly one of masquerade, static, or portForward must be set in NAT section for peering expose of VPC %s'' [name])
      else (case nt_PortForward n of
          None \<Rightarrow> Inr s
        | Some p \<Rightarrow>
            if pn_Ports p = [] then Inl (Errf ''at least one port forwarding rule must be set in NAT section for peering expose of VPC %s'' [name])
            else ebind (efold (\<lambda>e _. validate_pf_entry name e) (enumerate 0 (pn_Ports p)) ()) (\<lambda>_. Inr s)))"

definition validate_expose :: "string \<Rightarrow> nat_expose \<Rightarrow> side_nat \<Rightarrow> side_nat result" where
  "validate_expose name x s =
     (if xe_DefaultDestination x \<and> (xe_IPs x \<noteq> [] \<or> xe_As x \<noteq> [] \<or> ne_NAT x \<noteq> None)
      then Inl (Errf ''default flag should be the only thing set in expose of VPC %s'' [name])
      else if xe_IPs x = [] \<and> \<not> xe_DefaultDestination x
      then Inl (Errf ''at least one IP block must be specified in peering expose of VPC %s'' [name])
      else
        ebind (efold (\<lambda>ip _. validate_expose_ip name ip) (xe_IPs x) ()) (\<lambda>_.
        ebind (efold (\<lambda>a _. validate_expose_as name a) (xe_As x) ()) (\<lambda>_.
        if (xe_As x = []) \<noteq> (ne_NAT x = None)
        then Inl (Errf ''expose.As and expose.NAT must both be set or both be empty in peering expose of VPC %s'' [name])
        else (case ne_NAT x of None \<Rightarrow> Inr s | Some n \<Rightarrow> validate_expose_nat name n s))))"

definition validate_side :: "string \<times> nat_expose list \<Rightarrow> side_nat result" where
  "validate_side p = efold (validate_expose (fst p)) (snd p) \<lparr>sn_Stateful = False, sn_Stateless = False\<rparr>"

definition validate_gw_peering :: "string \<Rightarrow> gw_peering_spec \<Rightarrow> unit result" where
  "validate_gw_peering name spec =
     (if gs_GatewayGroup spec = '''' then Inl (Errf ''gateway group must be specified %s'' [name])
      else (case gs_Peering spec of
          [p1, p2] \<Rightarrow>
            ebind (validate_side p1) (\<lambda>s1. ebind (validate_side p2) (\<lambda>s2.
            if sn_Stateful s1 \<and> sn_Stateful s2
            then Inl (Errf ''unsupported configuration, only one side of a peering can use stateful NAT (i.e. masquerade or portForward)'' [])
            else if (sn_Stateless s1 \<and> sn_Stateful s2) \<or> (sn_Stateless s2 \<and> sn_Stateful s1)
            then Inl (Errf ''unsupported configuration, one side of a peering using static NAT cannot peer with a side using stateful NAT'' [])
            else Inr ()))
        | ps \<Rightarrow> Inl (Errf ''peering must have exactly 2 VPCs, got %d'' [itoa (length ps)])))"

text \<open>Of an external peering: its names and prefixes.\<close>

definition validate_ext_peering :: "ext_peering_spec \<Rightarrow> unit result" where
  "validate_ext_peering e =
     (if ep_VPC e = '''' then Inl (Errf ''vpc.name is required'' [])
      else if ep_External e = '''' then Inl (Errf ''external.name is required'' [])
      else if '''' \<in> set (ep_Prefixes e) then Inl (Errf ''external.prefixes.prefix is required'' [])
      else Inr ())"

text \<open>Of a peering of two VPCs: that every policy names two.\<close>

definition validate_vpc_peering :: "string list gomap list \<Rightarrow> unit result" where
  "validate_vpc_peering permit = ebind (VPCs permit) (\<lambda>_. Inr ())"

text \<open>
  Validation requires what \<^verbatim>\<open>Default\<close> fills in: the group of a peering that is sent without one is never
  empty when it is validated.
\<close>

lemma validate_default_group: "length (gs_Peering s) = 2 \<Longrightarrow> gs_GatewayGroup (default_gw_peering s) \<noteq> ''''"
  by (simp add: default_gw_peering_def DefaultGatewayGroup_def)

end
