(* ===== verification/PeerSetup.thy ===== *)
theory PeerSetup
  imports PeerReq SetupVPCs KubeLog
begin

text \<open>
  How the plan of \<^verbatim>\<open>SetupVPCs\<close> and the peerings of \<^verbatim>\<open>SetupPeerings\<close> are written to the API server
  (\<^verbatim>\<open>pkg/hhfab/testing.go\<close>): what is there and not wanted is deleted, then everything wanted is created or
  updated. The server is a parameter; beside the operations on one object it lists a kind, defaults an
  object (\<^verbatim>\<open>Default\<close> of the fabric module), deletes all objects of a kind, reports whether the Fabricator
  enables the gateway, and waits for the switches.
\<close>

section \<open>The server\<close>

record 'w peer_client =
  pc_kube :: "'w kclient"
  pc_list :: "string \<Rightarrow> 'w \<Rightarrow> kobject list result \<times> 'w"
  pc_default :: "kobject \<Rightarrow> kobject"
  pc_delete_all :: "string \<Rightarrow> 'w \<Rightarrow> go_err option \<times> 'w"
  pc_gateway :: "'w \<Rightarrow> bool result \<times> 'w"
  pc_wait :: "'w \<Rightarrow> unit result \<times> 'w"

definition kworld :: "('w \<Rightarrow> 'a result \<times> 'w) \<Rightarrow> ('w, 'a) kio" where
  "kworld f = (\<lambda>(w, l). case f w of (r, w') \<Rightarrow> (r, w', l))"

definition klist :: "'w peer_client \<Rightarrow> string \<Rightarrow> ('w, kobject list) kio" where
  "klist c kind = kworld (pc_list c kind)"

text \<open>\<^verbatim>\<open>CreateOrUpdate\<close> of the client library with a function that sets what is wanted.\<close>

definition kmutate :: "'w peer_client \<Rightarrow> kobject \<Rightarrow> (kobject \<Rightarrow> kobject) \<Rightarrow> ('w, operation_result) kio" where
  "kmutate c blank f = (\<lambda>s. case kget (pc_kube c) (ko_key blank) s of
     (Inl e, s') \<Rightarrow>
       if \<not> kc_not_found (pc_kube c) e then (Inl e, s')
       else kbind (kcreate (pc_kube c) (f blank)) (\<lambda>_. kret ResultCreated) s'
   | (Inr existing, s') \<Rightarrow>
       let new = f existing in
       if kc_equal (pc_kube c) existing new then (Inr ResultNone, s')
       else kbind (kupdate (pc_kube c) new) (\<lambda>_. kret ResultUpdated) s')"

definition ignore_not_found :: "'w peer_client \<Rightarrow> ('w, unit) kio \<Rightarrow> ('w, unit) kio" where
  "ignore_not_found c m = (\<lambda>s. case m s of
     (Inl e, s') \<Rightarrow> if kc_not_found (pc_kube c) e then (Inr (), s') else (Inl e, s')
   | (Inr x, s') \<Rightarrow> (Inr x, s'))"

definition kwait :: "'w peer_client \<Rightarrow> string \<Rightarrow> ('w, unit) kio" where
  "kwait c msg = kwrap msg [] (kworld (pc_wait c))"

definition set_spec :: "kspec \<Rightarrow> kobject \<Rightarrow> kobject" where "set_spec spec x = x\<lparr>ko_Spec := spec\<rparr>"

section \<open>Peerings\<close>

text \<open>The result of the two loops is whether they changed anything.\<close>

fun delete_stale :: "'w peer_client \<Rightarrow> string \<Rightarrow> string list \<Rightarrow> kobject list \<Rightarrow> ('w, bool) kio" where
  "delete_stale c msg keep [] = kret False"
| "delete_stale c msg keep (x # xs) =
     (if ko_Name x \<in> set keep then delete_stale c msg keep xs
      else kbind (kwrap msg [ko_Name x] (ignore_not_found c (kdelete (pc_kube c) (ko_key x)))) (\<lambda>_.
        kbind (delete_stale c msg keep xs) (\<lambda>_. kret True)))"

fun enforce_specs :: "'w peer_client \<Rightarrow> string \<Rightarrow> ('s \<Rightarrow> kspec) \<Rightarrow> (string \<Rightarrow> 's \<Rightarrow> unit result) \<Rightarrow> (string \<times> 's) list \<Rightarrow> ('w, bool) kio" where
  "enforce_specs c msg mk check [] = kret False"
| "enforce_specs c msg mk check ((name, spec) # xs) =
     kbind (klift (check name spec)) (\<lambda>_.
     kbind (kwrap msg [name] (kmutate c (new_object NamespaceDefault name (mk spec)) (set_spec (mk spec)))) (\<lambda>res.
     kbind (enforce_specs c msg mk check xs) (\<lambda>changed. kret (res \<noteq> ResultNone \<or> changed))))"

definition check_vpc_peering :: "string \<Rightarrow> string list gomap list \<Rightarrow> unit result" where
  "check_vpc_peering name permit =
     ebind (ewrap ''error getting VPCs for peering %s: %w'' [name] (VPCs permit)) (\<lambda>_. Inr ())"

definition check_gw_peering :: "string \<Rightarrow> gw_peering_spec \<Rightarrow> unit result" where
  "check_gw_peering name spec =
     (if length (gs_Peering spec) \<noteq> 2
      then Inl (Errf ''invalid GatewayPeering %s: expected 2 VPCs, got %d'' [name, itoa (length (gs_Peering spec))])
      else Inr ())"

definition VPCPeeringKind :: string where "VPCPeeringKind = ''VPCPeering''"
definition ExternalPeeringKind :: string where "ExternalPeeringKind = ''ExternalPeering''"
definition GatewayPeeringKind :: string where "GatewayPeeringKind = ''GatewayPeering''"

definition stale_peerings :: "'w peer_client \<Rightarrow> string \<Rightarrow> string \<Rightarrow> string \<Rightarrow> string list \<Rightarrow> ('w, bool) kio" where
  "stale_peerings c kind listing deleting keep =
     kbind (kwrap listing [] (klist c kind)) (\<lambda>xs. delete_stale c deleting keep xs)"

definition DoSetupPeerings :: "'w peer_client \<Rightarrow> peerings \<Rightarrow> bool \<Rightarrow> ('w, unit) kio" where
  "DoSetupPeerings c ps waitReady =
     kbind (kwrap ''getting fab: %w'' [] (kworld (pc_gateway c))) (\<lambda>gw.
     if \<not> gw \<and> pr_GW ps \<noteq> [] then kfail (Errf ''gateway peerings are not supported when gateway is not enabled'' [])
     else
       kbind (stale_peerings c VPCPeeringKind ''listing VPC peerings: %w'' ''deleting VPC peering %s: %w'' (map fst (pr_VPC ps))) (\<lambda>c1.
       kbind (stale_peerings c ExternalPeeringKind ''listing external peerings: %w'' ''deleting external peering %s: %w'' (map fst (pr_Ext ps))) (\<lambda>c2.
       kbind (if gw then stale_peerings c GatewayPeeringKind ''listing gateway peerings: %w'' ''deleting gateway peering %s: %w'' (map fst (pr_GW ps))
              else kret False) (\<lambda>c3.
       kbind (enforce_specs c ''error updating VPC peering %s: %w'' VPCPeeringSpec check_vpc_peering (pr_VPC ps)) (\<lambda>c4.
       kbind (enforce_specs c ''error updating external peering %s: %w'' ExternalPeeringSpec (\<lambda>_ _. Inr ()) (pr_Ext ps)) (\<lambda>c5.
       kbind (enforce_specs c ''error updating gateway peering %s: %w'' GatewayPeeringSpec check_gw_peering (pr_GW ps)) (\<lambda>c6.
       if (c1 \<or> c2 \<or> c3 \<or> c4 \<or> c5 \<or> c6) \<and> waitReady then kwait c ''waiting for ready: %w'' else kret ())))))))"

definition listed_vpc_of :: "kobject \<Rightarrow> listed_vpc" where
  "listed_vpc_of x = (ko_Name x, case ko_Spec x of VPCSpec v \<Rightarrow> map (\<lambda>(n, sub). (n, sb_Subnet sub)) (vc_Subnets v) | _ \<Rightarrow> [])"

definition SetupPeerings :: "'w peer_client \<Rightarrow> bool \<Rightarrow> string list \<Rightarrow> ('w, unit) kio" where
  "SetupPeerings c waitReady requests =
     kbind (if waitReady then kwait c ''waiting for ready: %w'' else kret ()) (\<lambda>_.
     kbind (kwrap ''listing VPCs: %w'' [] (klist c ''VPC'')) (\<lambda>vpcs.
     kbind (kwrap ''listing externals: %w'' [] (klist c ''External'')) (\<lambda>externals.
     kbind (klift (parse_peerings (map listed_vpc_of vpcs) (map ko_Name externals) requests)) (\<lambda>ps.
     DoSetupPeerings c ps waitReady))))"

section \<open>VPCs and attachments\<close>

definition CreateOrUpdateVpc :: "'w peer_client \<Rightarrow> string \<times> vpc_spec \<Rightarrow> ('w, bool) kio" where
  "CreateOrUpdateVpc c v =
     kbind (kwrap ''creating or updating VPC %q: %w'' [fst v]
       (kmutate c (new_object NamespaceDefault (fst v) (VPCSpec (snd v))) (\<lambda>x. pc_default c (set_spec (VPCSpec (snd v)) x)))) (\<lambda>res.
     kret (res \<noteq> ResultNone))"

definition create_or_update_attach :: "'w peer_client \<Rightarrow> string \<times> string gomap \<times> vpc_attach_spec \<Rightarrow> ('w, bool) kio" where
  "create_or_update_attach c a =
     (case a of (name, annotations, spec) \<Rightarrow>
       kbind (kwrap ''creating or updating vpc attachment %q: %w'' [name]
         (kmutate c (new_object NamespaceDefault name (VPCAttachmentSpec annotations spec))
           (\<lambda>x. pc_default c (set_spec (VPCAttachmentSpec annotations spec) x)))) (\<lambda>res.
       kret (res \<noteq> ResultNone)))"

fun any_changed :: "('a \<Rightarrow> ('w, bool) kio) \<Rightarrow> 'a list \<Rightarrow> ('w, bool) kio" where
  "any_changed f [] = kret False"
| "any_changed f (x # xs) = kbind (f x) (\<lambda>b. kbind (any_changed f xs) (\<lambda>b'. kret (b \<or> b')))"

definition delete_unwanted :: "'w peer_client \<Rightarrow> string \<Rightarrow> bool \<Rightarrow> string list \<Rightarrow> kobject list \<Rightarrow> ('w, bool) kio" where
  "delete_unwanted c msg force names xs =
     any_changed (\<lambda>x. if force \<or> ko_Name x \<notin> set names
       then kbind (kwrap msg [ko_Name x] (kdelete (pc_kube c) (ko_key x))) (\<lambda>_. kret True) else kret False) xs"

definition delete_all_of :: "'w peer_client \<Rightarrow> string \<Rightarrow> string \<Rightarrow> ('w, unit) kio" where
  "delete_all_of c kind msg =
     kwrap msg [] (ignore_not_found c (kworld (\<lambda>w. case pc_delete_all c kind w of (None, w') \<Rightarrow> (Inr (), w') | (Some e, w') \<Rightarrow> (Inl e, w'))))"

definition remove_peerings :: "'w peer_client \<Rightarrow> bool \<Rightarrow> ('w, unit) kio" where
  "remove_peerings c gw =
     kbind (delete_all_of c VPCPeeringKind ''cleaning up vpc peerings: %w'') (\<lambda>_.
     kbind (delete_all_of c ExternalPeeringKind ''cleaning up external peerings: %w'') (\<lambda>_.
     if gw then delete_all_of c GatewayPeeringKind ''cleaning up gateway peerings: %w'' else kret ()))"

text \<open>
  Writing a plan. VPCs that are gone are awaited before new ones are created; the sleeps are left out.
\<close>

definition apply_plan :: "'w peer_client \<Rightarrow> setup_opts \<Rightarrow> setup_state \<Rightarrow> ('w, unit) kio" where
  "apply_plan c opts s =
     kbind (if su_WaitSwitchesReady opts then kwait c ''waiting for ready: %w'' else kret ()) (\<lambda>_.
     kbind (kwrap ''listing existing attachments: %w'' [] (klist c ''VPCAttachment'')) (\<lambda>attaches.
     kbind (delete_unwanted c ''deleting attachment %q: %w'' (su_ForceCleanup opts) (map fst (pl_Attaches s)) attaches) (\<lambda>c1.
     kbind (kwrap ''listing existing VPCs: %w'' [] (klist c ''VPC'')) (\<lambda>vpcs.
     kbind (delete_unwanted c ''deleting VPC %q: %w'' (su_ForceCleanup opts) (map fst (pl_VPCs s)) vpcs) (\<lambda>c2.
     kbind (if c2 \<and> su_WaitSwitchesReady opts then kwait c ''waiting for switches after VPC deletion: %w'' else kret ()) (\<lambda>_.
     kbind (any_changed (\<lambda>v. kwrap ''creating or updating vpc %q: %w'' [fst v] (CreateOrUpdateVpc c v)) (pl_VPCs s)) (\<lambda>c3.
     kbind (any_changed (create_or_update_attach c) (pl_Attaches s)) (\<lambda>c4.
     if (c1 \<or> c2 \<or> c3 \<or> c4) \<and> su_WaitSwitchesReady opts then kwait c ''waiting for ready: %w'' else kret ()))))))))"

text \<open>
  \<^verbatim>\<open>SetupVPCs\<close> up to the configuration of the servers: \<open>gw\<close> is the gateway flag of the configuration, and the
  plan is returned.
\<close>

definition SetupVPCs :: "'w peer_client \<Rightarrow> setup_env \<Rightarrow> bool \<Rightarrow> setup_opts \<Rightarrow> ('w, setup_opts \<times> setup_state) kio" where
  "SetupVPCs c env gw opts =
     kbind (klift (check_setup_opts env opts)) (\<lambda>opts.
     kbind (if su_KeepPeerings opts then kret () else remove_peerings c gw) (\<lambda>_.
     kbind (klift (plan_vpcs env opts)) (\<lambda>s.
     kbind (apply_plan c opts s) (\<lambda>_. kret (opts, s)))))"

end
