(* ===== verification/PeerProps.thy ===== *)
theory PeerProps
  imports PeerReq
begin

text \<open>
  What \<^verbatim>\<open>SetupPeerings\<close> makes of its requests (\<^verbatim>\<open>pkg/hhfab/testing.go\<close>): whatever it accepts has one
  well-formed expose on each side of a gateway peering, and known externals.
\<close>

section \<open>Well-formed specs\<close>

definition good_as :: "string \<times> string \<Rightarrow> bool" where
  "good_as a \<longleftrightarrow> (snd a = '''' \<and> \<not> isl (parse_prefix (fst a))) \<or> (fst a = '''' \<and> \<not> isl (parse_prefix (snd a)))"

definition good_rule :: "pf_entry \<Rightarrow> bool" where
  "good_rule e \<longleftrightarrow> fw_Protocol e \<in> {PeeringNATProtocolAny, PeeringNATProtocolTCP, PeeringNATProtocolUDP} \<and>
     \<not> bad_rule_part (fw_Port e) \<and> \<not> bad_rule_part (fw_As e)"

text \<open>Exactly one mode, rules for port forwarding, and the idle timeouts and the gateway group left to the defaults.\<close>

definition good_nat :: "peering_nat \<Rightarrow> bool" where
  "good_nat n \<longleftrightarrow> (case nt_PortForward n of
     None \<Rightarrow> (nt_Masquerade n = Some 0 \<and> \<not> nt_Static n) \<or> (nt_Masquerade n = None \<and> nt_Static n)
   | Some p \<Rightarrow> nt_Masquerade n = None \<and> \<not> nt_Static n \<and> pn_IdleTimeout p = 0 \<and> pn_Ports p \<noteq> [] \<and> list_all good_rule (pn_Ports p))"

definition good_side :: "nat_expose \<Rightarrow> bool" where
  "good_side x \<longleftrightarrow> (xe_As x = [] \<longleftrightarrow> ne_NAT x = None) \<and> list_all good_as (xe_As x) \<and> pred_option good_nat (ne_NAT x) \<and>
     (xe_DefaultDestination x \<longrightarrow> xe_IPs x = [])"

definition good_gw :: "gw_peering_spec \<Rightarrow> bool" where
  "good_gw spec \<longleftrightarrow> gs_GatewayGroup spec = '''' \<and>
     distinct (map fst (gs_Peering spec)) \<and> length (gs_Peering spec) \<in> {1, 2} \<and>
     list_all (\<lambda>(n, xs). case xs of [x] \<Rightarrow> good_side x | _ \<Rightarrow> False) (gs_Peering spec)"

definition good_vpc :: "string list gomap list \<Rightarrow> bool" where
  "good_vpc spec \<longleftrightarrow> (case spec of [permit] \<Rightarrow> distinct (map fst permit) \<and> length permit \<in> {1, 2} | _ \<Rightarrow> False)"

definition good_ext :: "string list \<Rightarrow> ext_peering_spec \<Rightarrow> bool" where
  "good_ext externals s \<longleftrightarrow> ep_External s \<in> set externals \<and> ep_Subnets s \<noteq> [] \<and> sorted (ep_Subnets s) \<and>
     ep_Prefixes s \<noteq> [] \<and> sorted (ep_Prefixes s) \<and> (\<forall>p \<in> set (ep_Prefixes s). CHR ''_'' \<notin> set p)"

definition good_peerings :: "string list \<Rightarrow> peerings \<Rightarrow> bool" where
  "good_peerings externals ps \<longleftrightarrow>
     distinct (map fst (pr_VPC ps)) \<and> distinct (map fst (pr_Ext ps)) \<and> distinct (map fst (pr_GW ps)) \<and>
     list_all (good_vpc \<circ> snd) (pr_VPC ps) \<and> list_all (good_ext externals \<circ> snd) (pr_Ext ps) \<and> list_all (good_gw \<circ> snd) (pr_GW ps)"

section \<open>NAT\<close>

lemma parse_prefix_Nil [simp]: "\<exists>e. parse_prefix [] = Inl e"
  by (simp add: parse_prefix_def prefix_err_def)

lemma parse_as_items_good:
  "parse_as_items i items = Inr al \<Longrightarrow> list_all good_as al \<and> length al = length items"
proof (induction items arbitrary: i al)
  case (Cons raw items)
  then obtain a rest where r: "parse_as_items (i + 1) items = Inr rest" "al = a # rest" and a: "good_as a"
    by (auto simp: ok_iff Let_def good_as_def split: if_splits)
  from Cons.IH [OF r(1)] a r(2) show ?case by simp
qed simp

lemma parse_as_list_good: "parsePeeringEntryAsList raw = Inr al \<Longrightarrow> al \<noteq> [] \<and> list_all good_as al"
  by (auto simp: parsePeeringEntryAsList_def dest: parse_as_items_good split: if_splits)

lemma parse_rule_left_protocol:
  "parse_rule_left rule idx left = Inr (proto, port) \<Longrightarrow> proto \<in> {PeeringNATProtocolAny, PeeringNATProtocolTCP, PeeringNATProtocolUDP}"
  by (auto simp: parse_rule_left_def Let_def split: if_splits list.splits)

lemma parse_rule_good: "parse_rule idx raw = Inr e \<Longrightarrow> good_rule e"
  by (auto simp: parse_rule_def good_rule_def Let_def ok_iff split: if_splits list.splits dest!: parse_rule_left_protocol)

lemma parse_rules_good: "parse_rules idx rs = Inr es \<Longrightarrow> list_all good_rule es \<and> length es = length rs"
  by (induction idx rs arbitrary: es rule: parse_rules.induct) (auto simp: ok_iff dest: parse_rule_good)

lemma parse_rule_list_good: "parsePortForwardRuleList raw = Inr es \<Longrightarrow> es \<noteq> [] \<and> list_all good_rule es"
  by (auto simp: parsePortForwardRuleList_def dest: parse_rules_good split: if_splits)

lemma populate_good:
  assumes run: "populateExposeNat x cfg = Inr y" and "xe_DefaultDestination x \<longrightarrow> xe_IPs x = []"
  shows "good_side y"
proof -
  from run obtain al n where al: "parsePeeringEntryAsList (ng_AsRaw cfg) = Inr al" and y: "y = x\<lparr>xe_As := al, ne_NAT := Some n\<rparr>"
    and n: "good_nat n"
    by (auto simp: populateExposeNat_def ok_iff Let_def good_nat_def dest: parse_rule_list_good split: if_splits)
  from parse_as_list_good [OF al] n assms(2) show ?thesis unfolding y by (simp add: good_side_def)
qed

lemma side_expose_good:
  assumes "side_expose side (nat_expose_of ips dflt) cfg = Inr y" "dflt \<longrightarrow> ips = []"
  shows "good_side y"
proof (cases "ng_AsRaw cfg = ''''")
  case True
  with assms show ?thesis by (auto simp: side_expose_def nat_expose_of_def good_side_def)
next
  case False
  with assms(1) have "populateExposeNat (nat_expose_of ips dflt) cfg = Inr y" by (simp add: side_expose_def ok_iff)
  then show ?thesis by (rule populate_good) (use assms(2) in \<open>simp add: nat_expose_of_def\<close>)
qed

section \<open>Requests\<close>

lemma good_gw_pair: "good_side x \<Longrightarrow> good_side y \<Longrightarrow> good_gw (gw_pair a x b y)"
  by (simp add: gw_pair_def good_gw_def)

lemma vpc_gw_spec_good: "vpc_gw_spec vpcs a b r = Inr spec \<Longrightarrow> good_gw spec"
  by (auto simp: vpc_gw_spec_def Let_def ok_iff split: if_splits intro!: good_gw_pair dest: side_expose_good)

lemma ext_gw_spec_good: "ext_gw_spec vpcs v ext r = Inr spec \<Longrightarrow> good_gw spec"
  by (auto simp: ext_gw_spec_def Let_def ok_iff split: if_splits intro!: good_gw_pair dest: side_expose_good)

lemma check_ext_prefixes_good: "check_ext_prefixes i ps = Inr qs \<Longrightarrow> qs = ps \<and> (\<forall>p \<in> set ps. CHR ''_'' \<notin> set p)"
proof (induction ps arbitrary: i qs)
  case (Cons p ps)
  then obtain q rest where q: "check_ext_prefix i p = Inr q" "check_ext_prefixes (i + 1) ps = Inr rest" "qs = q # rest"
    by (auto simp: ok_iff)
  have "1 < length (split_on c s)" if "c \<in> set s" for c s
    using that by (induction c s rule: split_on.induct) (auto split: list.splits)
  with q(1) have "CHR ''_'' \<notin> set p \<and> q = p" by (auto simp: check_ext_prefix_def Let_def split: if_splits)
  with Cons.IH [OF q(2)] q(3) show ?case by simp
qed simp

lemma sort_empty [simp]: "sort xs = [] \<longleftrightarrow> xs = []"
  by (metis set_empty set_sort)

lemma ext_spec_good: "ext_spec_of v ext r = Inr spec \<Longrightarrow> ext \<in> set externals \<Longrightarrow> good_ext externals spec"
  by (cases "er_Subnets r"; cases "er_Prefixes r") (auto simp: ext_spec_of_def ok_iff good_ext_def simp del: sort_key_simps check_ext_prefixes.simps dest!: check_ext_prefixes_good)

lemma in_map_put: "(k', w) \<in> set (map_put k v m) \<Longrightarrow> w = v \<or> (k', w) \<in> set m"
  by (induction k v m rule: map_put.induct) (auto split: if_splits)

lemma all_map_put: "list_all (P \<circ> snd) m \<Longrightarrow> P v \<Longrightarrow> list_all (P \<circ> snd) (map_put k v m)"
  by (auto simp: list_all_iff dest!: in_map_put)

lemma vpc_request_good:
  assumes run: "vpc_request vpcs reqName options ps = Inr ps'" and good: "good_peerings externals ps"
  shows "good_peerings externals ps'"
proof -
  from run consider name a b xs ys where "ps' = ps\<lparr>pr_VPC := map_put name [map_put a xs (map_put b ys [])] (pr_VPC ps)\<rparr>"
    | name a b r spec where "vpc_gw_spec vpcs a b r = Inr spec" "ps' = ps\<lparr>pr_GW := map_put name spec (pr_GW ps)\<rparr>"
    by (auto simp: vpc_request_def Let_def ok_iff simp del: map_put.simps split: list.splits if_splits)
  then show ?thesis
  proof cases
    case 1
    with good show ?thesis by (auto simp: good_peerings_def good_vpc_def intro!: distinct_map_put all_map_put)
  next
    case 2
    with good vpc_gw_spec_good show ?thesis by (auto simp: good_peerings_def intro!: distinct_map_put all_map_put)
  qed
qed

lemma ext_request_good:
  assumes run: "ext_request vpcs externals reqName options ps = Inr ps'" and good: "good_peerings externals ps"
  shows "good_peerings externals ps'"
proof -
  from run consider name v ext r spec where "ext \<in> set externals" "ext_spec_of v ext r = Inr spec"
      "ps' = ps\<lparr>pr_Ext := map_put name spec (pr_Ext ps)\<rparr>"
    | name v ext r spec where "ext_gw_spec vpcs v ext r = Inr spec" "ps' = ps\<lparr>pr_GW := map_put name spec (pr_GW ps)\<rparr>"
    by (auto simp: ext_request_def Let_def ok_iff split: list.splits if_splits)
  then show ?thesis
  proof cases
    case 1
    with good ext_spec_good show ?thesis by (auto simp: good_peerings_def intro!: distinct_map_put all_map_put)
  next
    case 2
    with good ext_gw_spec_good show ?thesis by (auto simp: good_peerings_def intro!: distinct_map_put all_map_put)
  qed
qed

lemma peering_request_good:
  assumes "peering_request vpcs externals req st = Inr st'" "good_peerings externals (snd st)"
  shows "good_peerings externals (snd st')"
  using assms by (auto simp: peering_request_def Let_def ok_iff split: prod.splits list.splits if_splits dest: vpc_request_good ext_request_good)

lemma parse_peerings_good:
  assumes "parse_peerings vpcs externals requests = Inr ps"
  shows "good_peerings externals ps"
proof -
  from assms obtain names where "efold (peering_request vpcs externals) requests ([], \<lparr>pr_VPC = [], pr_Ext = [], pr_GW = []\<rparr>) = Inr (names, ps)"
    by (auto simp: parse_peerings_def ok_iff)
  from efold_invariant [OF this, where P = "good_peerings externals \<circ> snd"] peering_request_good show ?thesis
    by (fastforce simp: good_peerings_def)
qed

end
