(* ===== verification/PeerEnforce.thy ===== *)
theory PeerEnforce
  imports PeerSetup OperatorProps
begin

text \<open>
  \<^verbatim>\<open>DoSetupPeerings\<close> on an API server without other writers, as a function of its contents: the specs
  under their keys. It leaves exactly the peerings that are wanted, as the server defaults them; a run that
  finds them in place writes only those whose defaults the program does not set itself.
\<close>

section \<open>A server as its contents\<close>

type_synonym contents = "okey \<Rightarrow> kspec option"

text \<open>A list of a kind is complete and has nothing else.\<close>

definition listing :: "contents \<Rightarrow> string \<Rightarrow> kobject list \<Rightarrow> bool" where
  "listing C kind xs \<longleftrightarrow>
     (\<forall>x \<in> set xs. kind_of (ko_Spec x) = kind \<and> C (ko_key x) = Some (ko_Spec x)) \<and>
     (\<forall>ns name. C (kind, ns, name) \<noteq> None \<longrightarrow> (kind, ns, name) \<in> ko_key ` set xs) \<and> distinct (map ko_key xs)"

text \<open>
  What admission makes of the spec of a peering. \<^verbatim>\<open>VPCPeering.Default\<close> only sets labels.
\<close>

definition default_peering_spec :: "kspec \<Rightarrow> kspec" where
  "default_peering_spec s = (case s of
     GatewayPeeringSpec g \<Rightarrow> GatewayPeeringSpec (default_gw_peering g)
   | ExternalPeeringSpec e \<Rightarrow> ExternalPeeringSpec (default_ext_peering e)
   | _ \<Rightarrow> s)"

definition holds_defaults :: "contents \<Rightarrow> bool" where
  "holds_defaults C \<longleftrightarrow> (\<forall>k s. C k = Some s \<longrightarrow> default_peering_spec s = s)"

text \<open>
  The server answers every call and nothing else changes it. A create or update of an object is defaulted, then
  validated against what is there: if \<open>admits\<close> accepts it, the defaulted spec is stored. Objects are equal
  when their specs are, and waiting returns.
\<close>

definition faithful_api :: "'w peer_client \<Rightarrow> ('w \<Rightarrow> contents) \<Rightarrow> (contents \<Rightarrow> okey \<Rightarrow> kspec \<Rightarrow> bool) \<Rightarrow> bool \<Rightarrow> bool" where
  "faithful_api c contents admits gw \<longleftrightarrow>
     (\<forall>w kind. \<exists>xs w'. pc_list c kind w = (Inr xs, w') \<and> contents w' = contents w \<and> listing (contents w) kind xs) \<and>
     (\<forall>w k. \<exists>r w'. kc_get (pc_kube c) k w = (r, w') \<and> contents w' = contents w \<and>
        (case contents w k of None \<Rightarrow> \<exists>e. r = Inl e \<and> kc_not_found (pc_kube c) e
         | Some s \<Rightarrow> \<exists>x. r = Inr x \<and> ko_key x = k \<and> ko_Spec x = s)) \<and>
     (\<forall>w x. contents w (ko_key x) = None \<and> admits (contents w) (ko_key x) (default_peering_spec (ko_Spec x)) \<longrightarrow>
        (\<exists>w'. kc_create (pc_kube c) x w = (None, w') \<and> contents w' = (contents w)(ko_key x \<mapsto> default_peering_spec (ko_Spec x)))) \<and>
     (\<forall>w x. contents w (ko_key x) \<noteq> None \<and> admits (contents w) (ko_key x) (default_peering_spec (ko_Spec x)) \<longrightarrow>
        (\<exists>w'. kc_update (pc_kube c) x w = (None, w') \<and> contents w' = (contents w)(ko_key x \<mapsto> default_peering_spec (ko_Spec x)))) \<and>
     (\<forall>w k. contents w k \<noteq> None \<longrightarrow>
        (\<exists>w'. kc_delete (pc_kube c) k w = (None, w') \<and> contents w' = (contents w)(k := None))) \<and>
     (\<forall>x s. kc_equal (pc_kube c) x (x\<lparr>ko_Spec := s\<rparr>) \<longleftrightarrow> ko_Spec x = s) \<and>
     (\<forall>w. \<exists>w'. pc_gateway c w = (Inr gw, w') \<and> contents w' = contents w) \<and>
     (\<forall>w. \<exists>w'. pc_wait c w = (Inr (), w') \<and> contents w' = contents w)"

lemma faithfulD:
  assumes "faithful_api c contents admits gw"
  shows "\<exists>xs w'. pc_list c kind w = (Inr xs, w') \<and> contents w' = contents w \<and> listing (contents w) kind xs"
    "contents w k = None \<Longrightarrow> \<exists>e w'. kc_get (pc_kube c) k w = (Inl e, w') \<and> contents w' = contents w \<and> kc_not_found (pc_kube c) e"
    "contents w k = Some s \<Longrightarrow> \<exists>x w'. kc_get (pc_kube c) k w = (Inr x, w') \<and> contents w' = contents w \<and> ko_key x = k \<and> ko_Spec x = s"
    "contents w (ko_key x) = None \<Longrightarrow> admits (contents w) (ko_key x) (default_peering_spec (ko_Spec x)) \<Longrightarrow>
      \<exists>w'. kc_create (pc_kube c) x w = (None, w') \<and> contents w' = (contents w)(ko_key x \<mapsto> default_peering_spec (ko_Spec x))"
    "contents w (ko_key x) \<noteq> None \<Longrightarrow> admits (contents w) (ko_key x) (default_peering_spec (ko_Spec x)) \<Longrightarrow>
      \<exists>w'. kc_update (pc_kube c) x w = (None, w') \<and> contents w' = (contents w)(ko_key x \<mapsto> default_peering_spec (ko_Spec x))"
    "contents w k \<noteq> None \<Longrightarrow> \<exists>w'. kc_delete (pc_kube c) k w = (None, w') \<and> contents w' = (contents w)(k := None)"
    "kc_equal (pc_kube c) x (x\<lparr>ko_Spec := s\<rparr>) \<longleftrightarrow> ko_Spec x = s"
    "\<exists>w'. pc_gateway c w = (Inr gw, w') \<and> contents w' = contents w"
    "\<exists>w'. pc_wait c w = (Inr (), w') \<and> contents w' = contents w"
proof -
  note f = assms [unfolded faithful_api_def]
  show "\<exists>xs w'. pc_list c kind w = (Inr xs, w') \<and> contents w' = contents w \<and> listing (contents w) kind xs"
    "contents w (ko_key x) = None \<Longrightarrow> admits (contents w) (ko_key x) (default_peering_spec (ko_Spec x)) \<Longrightarrow>
      \<exists>w'. kc_create (pc_kube c) x w = (None, w') \<and> contents w' = (contents w)(ko_key x \<mapsto> default_peering_spec (ko_Spec x))"
    "contents w (ko_key x) \<noteq> None \<Longrightarrow> admits (contents w) (ko_key x) (default_peering_spec (ko_Spec x)) \<Longrightarrow>
      \<exists>w'. kc_update (pc_kube c) x w = (None, w') \<and> contents w' = (contents w)(ko_key x \<mapsto> default_peering_spec (ko_Spec x))"
    "contents w k \<noteq> None \<Longrightarrow> \<exists>w'. kc_delete (pc_kube c) k w = (None, w') \<and> contents w' = (contents w)(k := None)"
    "kc_equal (pc_kube c) x (x\<lparr>ko_Spec := s\<rparr>) \<longleftrightarrow> ko_Spec x = s"
    "\<exists>w'. pc_gateway c w = (Inr gw, w') \<and> contents w' = contents w"
    "\<exists>w'. pc_wait c w = (Inr (), w') \<and> contents w' = contents w" using f by blast+
  from f obtain r w' where g: "kc_get (pc_kube c) k w = (r, w')" "contents w' = contents w"
    "case contents w k of None \<Rightarrow> \<exists>e. r = Inl e \<and> kc_not_found (pc_kube c) e | Some s \<Rightarrow> \<exists>x. r = Inr x \<and> ko_key x = k \<and> ko_Spec x = s"
    by meson
  show "contents w k = None \<Longrightarrow> \<exists>e w'. kc_get (pc_kube c) k w = (Inl e, w') \<and> contents w' = contents w \<and> kc_not_found (pc_kube c) e"
    "contents w k = Some s \<Longrightarrow> \<exists>x w'. kc_get (pc_kube c) k w = (Inr x, w') \<and> contents w' = contents w \<and> ko_key x = k \<and> ko_Spec x = s"
    using g by auto
qed

lemma default_nat_idem [simp]: "default_nat (default_nat n) = default_nat n"
  by (cases "nt_Masquerade n"; cases "nt_PortForward n")
    (simp_all add: default_nat_def DefaultMasqueradeIdleTimeout_def DefaultPortForwardIdleTimeout_def)

lemma default_gw_peering_idem [simp]: "default_gw_peering (default_gw_peering s) = default_gw_peering s"
proof -
  have nat: "map_option default_nat (map_option default_nat o') = map_option default_nat o'" for o' by (cases o') simp_all
  show ?thesis by (simp add: default_gw_peering_def split_beta nat DefaultGatewayGroup_def)
qed

lemma default_ext_peering_idem [simp]: "default_ext_peering (default_ext_peering s) = default_ext_peering s"
  by (simp add: default_ext_peering_def sorted_sort_id)

lemma default_peering_spec_idem [simp]: "default_peering_spec (default_peering_spec s) = default_peering_spec s"
  by (simp add: default_peering_spec_def split: kspec.splits)

lemma kind_of_default [simp]: "kind_of (default_peering_spec s) = kind_of s"
  by (simp add: default_peering_spec_def split: kspec.splits)

lemma default_peering_spec_simps [simp]:
  "default_peering_spec (VPCPeeringSpec v) = VPCPeeringSpec v"
  "default_peering_spec (ExternalPeeringSpec e) = ExternalPeeringSpec (default_ext_peering e)"
  "default_peering_spec (GatewayPeeringSpec g) = GatewayPeeringSpec (default_gw_peering g)"
  by (simp_all add: default_peering_spec_def)

lemma holds_defaults_upd: "holds_defaults C \<Longrightarrow> default_peering_spec s = s \<Longrightarrow> holds_defaults (C(k \<mapsto> s))"
  by (simp add: holds_defaults_def)

section \<open>Programs as functions of the contents\<close>

text \<open>The writes of a run: updates alone, of these keys and with these specs.\<close>

definition updates_only :: "(okey \<times> kspec) list \<Rightarrow> kevent list \<Rightarrow> bool" where
  "updates_only ws es \<longleftrightarrow>
     list_all2 (\<lambda>(k, s) ev. \<exists>x. ev = KUpdate x None \<and> ko_key x = k \<and> ko_Spec x = s) ws (filter (\<lambda>ev. \<not> is_get ev) es)"

lemma updates_only_gets: "updates_only [] es \<longleftrightarrow> list_all is_get es"
  by (simp add: updates_only_def filter_empty_conv list_all_iff)

lemma updates_only_append: "updates_only ws es \<Longrightarrow> updates_only ws' es' \<Longrightarrow> updates_only (ws @ ws') (es @ es')"
  by (simp add: updates_only_def list_all2_appendI)

text \<open>From contents \<open>C\<close> the program returns \<open>x\<close> and leaves \<open>C'\<close>; if \<open>r\<close> holds, its writes are the updates \<open>ws\<close>.\<close>

definition performs ::
    "('w \<Rightarrow> contents) \<Rightarrow> ('w, 'a) kio \<Rightarrow> contents \<Rightarrow> 'a \<Rightarrow> contents \<Rightarrow> bool \<Rightarrow> (okey \<times> kspec) list \<Rightarrow> bool" where
  "performs contents m C x C' r ws \<longleftrightarrow>
     (\<forall>w l. contents w = C \<longrightarrow>
       (\<exists>w' es. m (w, l) = (Inr x, w', l @ es) \<and> contents w' = C' \<and> (r \<longrightarrow> updates_only ws es)))"

lemma performsE:
  assumes "performs contents m C x C' r ws" "contents w = C"
  obtains w' es where "m (w, l) = (Inr x, w', l @ es)" "contents w' = C'" "r \<longrightarrow> updates_only ws es"
  using assms unfolding performs_def by blast

lemma performs_kret: "performs contents (kret x) C x C r []"
  by (auto simp: performs_def kret_def updates_only_gets intro: exI [of _ "[]"])

lemma performs_klift: "v = Inr x \<Longrightarrow> performs contents (klift v) C x C r []"
  by (auto simp: performs_def klift_def updates_only_gets intro: exI [of _ "[]"])

lemma performs_kworld: "(\<And>w. contents w = C \<Longrightarrow> \<exists>w'. f w = (Inr x, w') \<and> contents w' = C') \<Longrightarrow> performs contents (kworld f) C x C' r []"
  by (fastforce simp: performs_def kworld_def updates_only_gets)

lemma performs_kwrap: "performs contents m C x C' r ws \<Longrightarrow> performs contents (kwrap msg args m) C x C' r ws"
  unfolding performs_def
proof (intro allI impI)
  fix w l assume m: "\<forall>w l. contents w = C \<longrightarrow> (\<exists>w' es. m (w, l) = (Inr x, w', l @ es) \<and> contents w' = C' \<and> (r \<longrightarrow> updates_only ws es))"
    and w: "contents w = C"
  from m [rule_format, OF w, of l] obtain w' es where "m (w, l) = (Inr x, w', l @ es)" "contents w' = C'" "r \<longrightarrow> updates_only ws es"
    by blast
  then show "\<exists>w' es. kwrap msg args m (w, l) = (Inr x, w', l @ es) \<and> contents w' = C' \<and> (r \<longrightarrow> updates_only ws es)"
    by (simp add: kwrap_def)
qed

lemma performs_mono: "performs contents m C x C' r ws \<Longrightarrow> (r' \<Longrightarrow> r \<and> ws' = ws) \<Longrightarrow> performs contents m C x C' r' ws'"
  by (fastforce simp: performs_def)

lemma performs_kbind:
  assumes "performs contents m C x C' r1 ws1" "performs contents (f x) C' y C'' r2 ws2"
  shows "performs contents (kbind m f) C y C'' (r1 \<and> r2) (ws1 @ ws2)"
  unfolding performs_def
proof (intro allI impI)
  fix w l assume "contents w = C"
  from performsE [OF assms(1) this, of l] obtain w1 es1 where m: "m (w, l) = (Inr x, w1, l @ es1)" "contents w1 = C'" "r1 \<longrightarrow> updates_only ws1 es1"
    by blast
  from performsE [OF assms(2) m(2), of "l @ es1"] obtain w2 es2 where "f x (w1, l @ es1) = (Inr y, w2, (l @ es1) @ es2)" "contents w2 = C''"
    "r2 \<longrightarrow> updates_only ws2 es2" by blast
  with m show "\<exists>w' es. kbind m f (w, l) = (Inr y, w', l @ es) \<and> contents w' = C'' \<and> (r1 \<and> r2 \<longrightarrow> updates_only (ws1 @ ws2) es)"
    by (intro exI [of _ w2] exI [of _ "es1 @ es2"]) (simp add: kbind_def updates_only_append)
qed

text \<open>The order of a list of the server is not known.\<close>

lemma performs_klist:
  assumes "faithful_api c contents admits gw" "\<And>xs. listing C kind xs \<Longrightarrow> performs contents (f xs) C y C' r ws"
  shows "performs contents (kbind (kwrap msg args (klist c kind)) f) C y C' r ws"
  unfolding performs_def
proof (intro allI impI)
  fix w l assume w: "contents w = C"
  from faithfulD(1) [OF assms(1), of kind w] obtain xs w' where xs: "pc_list c kind w = (Inr xs, w')" "contents w' = C" "listing C kind xs"
    using w by auto
  from performsE [OF assms(2) [OF xs(3)] xs(2), of l] obtain w2 es where "f xs (w', l) = (Inr y, w2, l @ es)" "contents w2 = C'"
    "r \<longrightarrow> updates_only ws es" by blast
  then show "\<exists>w' es. kbind (kwrap msg args (klist c kind)) f (w, l) = (Inr y, w', l @ es) \<and> contents w' = C' \<and> (r \<longrightarrow> updates_only ws es)"
    using xs(1) by (simp add: kbind_def kwrap_def klist_def kworld_def)
qed

lemma performs_delete:
  assumes "faithful_api c contents admits gw" "C k \<noteq> None"
  shows "performs contents (ignore_not_found c (kdelete (pc_kube c) k)) C () (C(k := None)) False ws"
  unfolding performs_def
proof (intro allI impI)
  fix w l assume "contents w = C"
  with faithfulD(6) [OF assms(1), of w k] assms(2) obtain w' where "kc_delete (pc_kube c) k w = (None, w')" "contents w' = C(k := None)"
    by auto
  then show "\<exists>w' es. ignore_not_found c (kdelete (pc_kube c) k) (w, l) = (Inr (), w', l @ es) \<and> contents w' = C(k := None) \<and>
      (False \<longrightarrow> updates_only ws es)"
    by (simp add: ignore_not_found_def kdelete_def kwrite_def)
qed

text \<open>
  A spec that is there in defaulted form is still written again when it is not sent in that form.
\<close>

definition resent :: "okey \<Rightarrow> kspec \<Rightarrow> (okey \<times> kspec) list" where
  "resent k s = (if default_peering_spec s = s then [] else [(k, s)])"

lemma performs_kmutate:
  assumes f: "faithful_api c contents admits gw" and d: "holds_defaults C"
    and adm: "admits C (kind_of spec, ns, name) (default_peering_spec spec)"
  shows "\<exists>res. performs contents (kmutate c (new_object ns name spec) (set_spec spec)) C res
      (C((kind_of spec, ns, name) \<mapsto> default_peering_spec spec))
      (C (kind_of spec, ns, name) = Some (default_peering_spec spec)) (resent (kind_of spec, ns, name) spec)"
proof -
  let ?k = "(kind_of spec, ns, name)" and ?b = "new_object ns name spec" and ?d = "default_peering_spec spec"
  have key: "ko_key ?b = ?k" "set_spec spec ?b = ?b" by (simp_all add: ko_key_def new_object_def set_spec_def)
  have spec: "ko_Spec ?b = spec" by (simp add: new_object_def)
  define res where "res = (case C ?k of None \<Rightarrow> ResultCreated | Some s \<Rightarrow> if s = spec then ResultNone else ResultUpdated)"
  have "performs contents (kmutate c ?b (set_spec spec)) C res (C(?k \<mapsto> ?d)) (C ?k = Some ?d) (resent ?k spec)"
    unfolding performs_def
  proof (intro allI impI)
    fix w l assume w: "contents w = C"
    show "\<exists>w' es. kmutate c ?b (set_spec spec) (w, l) = (Inr res, w', l @ es) \<and> contents w' = C(?k \<mapsto> ?d) \<and>
        (C ?k = Some ?d \<longrightarrow> updates_only (resent ?k spec) es)"
    proof (cases "C ?k")
      case None
      with faithfulD(2) [OF f, of w ?k] w obtain e w1 where g: "kc_get (pc_kube c) ?k w = (Inl e, w1)" "contents w1 = C" "kc_not_found (pc_kube c) e"
        by auto
      with faithfulD(4) [OF f, of w1 ?b] None adm obtain w2 where "kc_create (pc_kube c) ?b w1 = (None, w2)" "contents w2 = C(?k \<mapsto> ?d)"
        by (auto simp: key spec)
      with g None show ?thesis
        by (simp add: kmutate_def kget_def key kbind_def kcreate_def kwrite_def kret_def res_def)
    next
      case (Some s)
      with faithfulD(3) [OF f, of w ?k s] w obtain x w1 where g: "kc_get (pc_kube c) ?k w = (Inr x, w1)" "contents w1 = C" "ko_key x = ?k" "ko_Spec x = s"
        by auto
      show ?thesis
      proof (cases "s = spec")
        case True
        then have "?d = spec" using d Some by (auto simp: holds_defaults_def)
        with True g Some faithfulD(7) [OF f, of x spec] show ?thesis
          by (simp add: kmutate_def kget_def key set_spec_def res_def fun_upd_idem resent_def updates_only_gets)
      next
        case False
        have "ko_key (set_spec spec x) = ?k" using g(3) by (simp add: ko_key_def set_spec_def)
        with faithfulD(5) [OF f, of w1 "set_spec spec x"] g(2) Some adm obtain w2
          where "kc_update (pc_kube c) (set_spec spec x) w1 = (None, w2)" "contents w2 = C(?k \<mapsto> ?d)"
          by (auto simp: set_spec_def)
        with g Some False faithfulD(7) [OF f, of x spec] \<open>ko_key (set_spec spec x) = ?k\<close> show ?thesis
          by (auto simp: kmutate_def kget_def key kbind_def kupdate_def kwrite_def kret_def res_def set_spec_def Let_def
            resent_def updates_only_def)
      qed
    qed
  qed
  then show ?thesis by blast
qed

section \<open>The two loops\<close>

lemma performs_delete_stale:
  assumes f: "faithful_api c contents admits gw"
  shows "distinct (map ko_key xs) \<Longrightarrow> \<forall>x \<in> set xs. C (ko_key x) \<noteq> None \<Longrightarrow>
    performs contents (delete_stale c msg keep xs) C (\<exists>x \<in> set xs. ko_Name x \<notin> set keep)
      (\<lambda>k. if k \<in> ko_key ` {x \<in> set xs. ko_Name x \<notin> set keep} then None else C k) (\<forall>x \<in> set xs. ko_Name x \<in> set keep) []"
proof (induction xs arbitrary: C)
  case Nil
  then show ?case by (simp add: performs_kret)
next
  case (Cons x xs)
  show ?case
  proof (cases "ko_Name x \<in> set keep")
    case True
    have "{y \<in> set (x # xs). ko_Name y \<notin> set keep} = {y \<in> set xs. ko_Name y \<notin> set keep}" using True by auto
    with True Cons show ?thesis by simp
  next
    case False
    let ?C = "C(ko_key x := None)"
    have d: "performs contents (kwrap msg [ko_Name x] (ignore_not_found c (kdelete (pc_kube c) (ko_key x)))) C () ?C False []"
      using Cons.prems by (intro performs_kwrap performs_delete [OF f]) simp
    have "ko_key x \<notin> ko_key ` set xs" using Cons.prems(1) by simp
    then have "\<forall>y \<in> set xs. ?C (ko_key y) \<noteq> None" using Cons.prems(2) by (auto simp: image_iff)
    moreover have "distinct (map ko_key xs)" using Cons.prems(1) by simp
    ultimately have t: "performs contents (delete_stale c msg keep xs) ?C (\<exists>x \<in> set xs. ko_Name x \<notin> set keep)
      (\<lambda>k. if k \<in> ko_key ` {x \<in> set xs. ko_Name x \<notin> set keep} then None else ?C k) (\<forall>x \<in> set xs. ko_Name x \<in> set keep) []" by (intro Cons.IH)
    have e: "(\<lambda>k. if k \<in> ko_key ` {x \<in> set xs. ko_Name x \<notin> set keep} then None else ?C k) =
      (\<lambda>k. if k \<in> ko_key ` {y \<in> set (x # xs). ko_Name y \<notin> set keep} then None else C k)" using False by (auto simp: fun_eq_iff)
    have "performs contents (delete_stale c msg keep (x # xs)) C True
        (\<lambda>k. if k \<in> ko_key ` {x \<in> set xs. ko_Name x \<notin> set keep} then None else ?C k)
        (False \<and> (\<forall>x \<in> set xs. ko_Name x \<in> set keep) \<and> True) ([] @ [] @ [])"
      using False by (simp only: delete_stale.simps if_False) (rule performs_kbind [OF d performs_kbind [OF t performs_kret]])
    then show ?thesis using False by (simp add: e)
  qed
qed

text \<open>The specs of a kind in place, under their names in the default namespace.\<close>

definition enforced :: "contents \<Rightarrow> string \<Rightarrow> ('s \<Rightarrow> kspec) \<Rightarrow> (string \<times> 's) list \<Rightarrow> contents" where
  "enforced C kind mk xs =
     (\<lambda>(k, ns, n). if k = kind \<and> ns = NamespaceDefault \<and> n \<in> fst ` set xs
        then map_option (default_peering_spec \<circ> mk) (map_of xs n) else C (k, ns, n))"

definition between :: "contents \<Rightarrow> contents \<Rightarrow> contents \<Rightarrow> bool" where
  "between C W D \<longleftrightarrow> (\<forall>k. D k = C k \<or> D k = W k)"

definition all_resent :: "string \<Rightarrow> ('s \<Rightarrow> kspec) \<Rightarrow> (string \<times> 's) list \<Rightarrow> (okey \<times> kspec) list" where
  "all_resent kind mk xs = concat (map (\<lambda>(n, s). resent (kind, NamespaceDefault, n) (mk s)) xs)"

lemma enforced_Cons:
  "n \<notin> fst ` set xs \<Longrightarrow>
   enforced (C((kind, NamespaceDefault, n) \<mapsto> default_peering_spec (mk s))) kind mk xs = enforced C kind mk ((n, s) # xs)"
  by (auto simp: enforced_def fun_eq_iff)

lemma holds_defaults_enforced: "holds_defaults C \<Longrightarrow> holds_defaults (enforced C kind mk xs)"
  by (auto simp: holds_defaults_def enforced_def)

lemma performs_enforced:
  assumes f: "faithful_api c contents admits gw" and kind: "\<And>s. kind_of (mk s) = kind"
  shows "distinct (map fst xs) \<Longrightarrow> \<forall>(n, s) \<in> set xs. check n s = Inr () \<Longrightarrow> holds_defaults C \<Longrightarrow>
    (\<And>n s D. (n, s) \<in> set xs \<Longrightarrow> between C (enforced C kind mk xs) D \<Longrightarrow> admits D (kind, NamespaceDefault, n) (default_peering_spec (mk s))) \<Longrightarrow>
    \<exists>b. performs contents (enforce_specs c msg mk check xs) C b (enforced C kind mk xs)
      (\<forall>(n, s) \<in> set xs. C (kind, NamespaceDefault, n) = Some (default_peering_spec (mk s))) (all_resent kind mk xs)"
proof (induction xs arbitrary: C)
  case Nil
  have "enforced C kind mk [] = C" by (auto simp: enforced_def)
  then show ?case by (intro exI [of _ False]) (simp add: performs_kret all_resent_def)
next
  case (Cons x xs)
  obtain name spec where x: "x = (name, spec)" by fastforce
  let ?k = "(kind, NamespaceDefault, name)" and ?d = "default_peering_spec (mk spec)"
  let ?C = "C(?k \<mapsto> ?d)"
  have check: "check name spec = Inr ()" and name: "name \<notin> fst ` set xs" using Cons.prems x by auto
  note e = enforced_Cons [OF name, of C kind mk spec]
  have adm: "admits C ?k ?d" using Cons.prems(4) [of name spec C] x by (simp add: between_def)
  from performs_kmutate [OF f Cons.prems(3), of "mk spec" NamespaceDefault name] adm obtain res where
    m: "performs contents (kmutate c (new_object NamespaceDefault name (mk spec)) (set_spec (mk spec))) C res ?C
      (C ?k = Some ?d) (resent ?k (mk spec))" unfolding kind by blast
  have same: "y \<in> set xs \<Longrightarrow> ?C (kind, NamespaceDefault, fst y) = C (kind, NamespaceDefault, fst y)" for y
    using name by force
  have same_all: "(\<forall>(n, s) \<in> set xs. ?C (kind, NamespaceDefault, n) = Some (default_peering_spec (mk s))) \<longleftrightarrow>
      (\<forall>(n, s) \<in> set xs. C (kind, NamespaceDefault, n) = Some (default_peering_spec (mk s)))"
    by (simp only: split_beta same cong: ball_cong)
  have d: "distinct (map fst xs)" "\<forall>(n, s) \<in> set xs. check n s = Inr ()" "holds_defaults ?C"
    using Cons.prems by (simp_all add: holds_defaults_upd)
  have "admits D (kind, NamespaceDefault, n) (default_peering_spec (mk s))" if "(n, s) \<in> set xs" "between ?C (enforced ?C kind mk xs) D" for n s D
  proof (rule Cons.prems(4))
    have "enforced C kind mk ((name, spec) # xs) ?k = Some ?d" by (simp add: enforced_def)
    with that(2) show "between C (enforced C kind mk (x # xs)) D"
      unfolding e x between_def by (metis fun_upd_apply)
  qed (use that(1) in simp)
  from Cons.IH [OF d this] obtain b where t: "performs contents (enforce_specs c msg mk check xs) ?C b (enforced C kind mk (x # xs))
      (\<forall>(n, s) \<in> set xs. C (kind, NamespaceDefault, n) = Some (default_peering_spec (mk s))) (all_resent kind mk xs)"
    unfolding same_all e x by blast
  have "performs contents (enforce_specs c msg mk check (x # xs)) C (res \<noteq> ResultNone \<or> b) (enforced C kind mk (x # xs))
      (True \<and> C ?k = Some ?d \<and> (\<forall>(n, s) \<in> set xs. C (kind, NamespaceDefault, n) = Some (default_peering_spec (mk s))) \<and> True)
      ([] @ resent ?k (mk spec) @ all_resent kind mk xs @ [])"
    using t unfolding x enforce_specs.simps
    by (intro performs_kbind [OF performs_klift [OF check] performs_kbind [OF performs_kwrap [OF m] performs_kbind [OF _ performs_kret]]])
  then show ?case by (intro exI [of _ "res \<noteq> ResultNone \<or> b"]) (simp add: x all_resent_def)
qed

section \<open>Setting peerings up\<close>

text \<open>Of one kind: the wanted names, with the wanted spec, as it is defaulted, in the default namespace.\<close>

definition wanted_kind :: "contents \<Rightarrow> string \<Rightarrow> ('s \<Rightarrow> kspec) \<Rightarrow> (string \<times> 's) list \<Rightarrow> string \<times> string \<Rightarrow> kspec option" where
  "wanted_kind C kind mk xs = (\<lambda>(ns, n). case map_of xs n of None \<Rightarrow> None
     | Some s \<Rightarrow> if ns = NamespaceDefault then Some (default_peering_spec (mk s)) else C (kind, ns, n))"

definition wanted :: "contents \<Rightarrow> peerings \<Rightarrow> bool \<Rightarrow> contents" where
  "wanted C ps gw = (\<lambda>(k, at).
     if k = VPCPeeringKind then wanted_kind C k VPCPeeringSpec (pr_VPC ps) at
     else if k = ExternalPeeringKind then wanted_kind C k ExternalPeeringSpec (pr_Ext ps) at
     else if k = GatewayPeeringKind \<and> gw then wanted_kind C k GatewayPeeringSpec (pr_GW ps) at
     else C (k, at))"

definition kept :: "contents \<Rightarrow> string \<Rightarrow> string list \<Rightarrow> contents" where
  "kept C kind keep = (\<lambda>(k, ns, n). if k = kind \<and> n \<notin> set keep then None else C (k, ns, n))"

lemma performs_stale:
  assumes f: "faithful_api c contents admits gw"
  shows "performs contents (stale_peerings c kind m1 m2 keep) C (\<exists>ns n. C (kind, ns, n) \<noteq> None \<and> n \<notin> set keep) (kept C kind keep)
    (\<forall>ns n. C (kind, ns, n) \<noteq> None \<longrightarrow> n \<in> set keep) []"
  unfolding stale_peerings_def
proof (rule performs_klist [OF f])
  fix xs assume l: "listing C kind xs"
  have key: "x \<in> set xs \<Longrightarrow> C (ko_key x) \<noteq> None \<and> ko_key x = (kind, ko_Namespace x, ko_Name x)" for x
    using l by (auto simp: listing_def ko_key_def)
  have ex: "C (kind, ns, n) \<noteq> None \<Longrightarrow> \<exists>x \<in> set xs. ko_key x = (kind, ns, n) \<and> ko_Name x = n" for ns n
    using l key by (fastforce simp: listing_def)
  have d: "performs contents (delete_stale c m2 keep xs) C (\<exists>x \<in> set xs. ko_Name x \<notin> set keep)
      (\<lambda>k. if k \<in> ko_key ` {x \<in> set xs. ko_Name x \<notin> set keep} then None else C k) (\<forall>x \<in> set xs. ko_Name x \<in> set keep) []"
    using l key by (intro performs_delete_stale [OF f]) (auto simp: listing_def)
  have "(\<lambda>k. if k \<in> ko_key ` {x \<in> set xs. ko_Name x \<notin> set keep} then None else C k) = kept C kind keep"
    using ex key by (fastforce simp: kept_def fun_eq_iff image_iff)
  moreover have "(\<exists>x \<in> set xs. ko_Name x \<notin> set keep) \<longleftrightarrow> (\<exists>ns n. C (kind, ns, n) \<noteq> None \<and> n \<notin> set keep)"
    using ex key by metis
  moreover have "(\<forall>x \<in> set xs. ko_Name x \<in> set keep) \<longleftrightarrow> (\<forall>ns n. C (kind, ns, n) \<noteq> None \<longrightarrow> n \<in> set keep)"
    using ex key by metis
  ultimately show "performs contents (delete_stale c m2 keep xs) C (\<exists>ns n. C (kind, ns, n) \<noteq> None \<and> n \<notin> set keep) (kept C kind keep)
    (\<forall>ns n. C (kind, ns, n) \<noteq> None \<longrightarrow> n \<in> set keep) []" using d by simp
qed

lemma wanted_steps:
  assumes "gw \<or> pr_GW ps = []"
  shows "enforced (enforced (enforced
      (let C2 = kept (kept C VPCPeeringKind (map fst (pr_VPC ps))) ExternalPeeringKind (map fst (pr_Ext ps))
       in if gw then kept C2 GatewayPeeringKind (map fst (pr_GW ps)) else C2)
      VPCPeeringKind VPCPeeringSpec (pr_VPC ps)) ExternalPeeringKind ExternalPeeringSpec (pr_Ext ps))
      GatewayPeeringKind GatewayPeeringSpec (pr_GW ps) = wanted C ps gw" (is "?l = _")
proof
  fix at :: okey
  obtain k ns n where at: "at = (k, ns, n)" by (cases at) auto
  have none: "map_of xs n = None \<longleftrightarrow> n \<notin> fst ` set xs" for xs :: "(string \<times> 's) list" by (rule map_of_eq_None_iff)
  consider "k = VPCPeeringKind" | "k = ExternalPeeringKind" | "k = GatewayPeeringKind" | "k \<noteq> VPCPeeringKind" "k \<noteq> ExternalPeeringKind" "k \<noteq> GatewayPeeringKind"
    by blast
  then show "?l at = wanted C ps gw at"
    using assms map_of_eq_None_iff [of "pr_VPC ps" n] map_of_eq_None_iff [of "pr_Ext ps" n] map_of_eq_None_iff [of "pr_GW ps" n]
    by cases
      (auto simp: at wanted_def wanted_kind_def enforced_def kept_def VPCPeeringKind_def ExternalPeeringKind_def GatewayPeeringKind_def
        Let_def split: option.splits)
qed

lemma kept_same: "(\<And>ns n. C (kind, ns, n) \<noteq> None \<Longrightarrow> n \<in> set keep) \<Longrightarrow> kept C kind keep = C"
  unfolding kept_def by (rule ext) (auto split: prod.splits, metis option.exhaust)

lemma enforced_same:
  assumes "distinct (map fst xs)" "\<And>n s. (n, s) \<in> set xs \<Longrightarrow> C (kind, NamespaceDefault, n) = Some (default_peering_spec (mk s))"
  shows "enforced C kind mk xs = C"
proof
  fix at :: okey
  obtain k ns n where at: "at = (k, ns, n)" by (cases at) auto
  show "enforced C kind mk xs at = C at"
  proof (cases "map_of xs n")
    case None
    then show ?thesis by (simp add: at enforced_def map_of_eq_None_iff)
  next
    case (Some s)
    then have "(n, s) \<in> set xs" by (rule map_of_SomeD)
    with assms(2) Some show ?thesis by (auto simp: at enforced_def)
  qed
qed

lemma in_place:
  assumes w: "C = wanted C ps gw"
    and names: "distinct (map fst (pr_VPC ps))" "distinct (map fst (pr_Ext ps))" "distinct (map fst (pr_GW ps))"
  shows "C (VPCPeeringKind, ns, n) \<noteq> None \<Longrightarrow> n \<in> set (map fst (pr_VPC ps))"
    "C (ExternalPeeringKind, ns, n) \<noteq> None \<Longrightarrow> n \<in> set (map fst (pr_Ext ps))"
    "gw \<Longrightarrow> C (GatewayPeeringKind, ns, n) \<noteq> None \<Longrightarrow> n \<in> set (map fst (pr_GW ps))"
    "(n, v) \<in> set (pr_VPC ps) \<Longrightarrow> C (VPCPeeringKind, NamespaceDefault, n) = Some (default_peering_spec (VPCPeeringSpec v))"
    "(n, e) \<in> set (pr_Ext ps) \<Longrightarrow> C (ExternalPeeringKind, NamespaceDefault, n) = Some (default_peering_spec (ExternalPeeringSpec e))"
    "gw \<Longrightarrow> (n, g) \<in> set (pr_GW ps) \<Longrightarrow> C (GatewayPeeringKind, NamespaceDefault, n) = Some (default_peering_spec (GatewayPeeringSpec g))"
proof -
  have at: "C (VPCPeeringKind, ns, n) = wanted_kind C VPCPeeringKind VPCPeeringSpec (pr_VPC ps) (ns, n)"
    "C (ExternalPeeringKind, ns, n) = wanted_kind C ExternalPeeringKind ExternalPeeringSpec (pr_Ext ps) (ns, n)"
    "gw \<Longrightarrow> C (GatewayPeeringKind, ns, n) = wanted_kind C GatewayPeeringKind GatewayPeeringSpec (pr_GW ps) (ns, n)" for ns
    using fun_cong [OF w, of "(VPCPeeringKind, ns, n)"] fun_cong [OF w, of "(ExternalPeeringKind, ns, n)"]
      fun_cong [OF w, of "(GatewayPeeringKind, ns, n)"]
    by (simp_all add: wanted_def VPCPeeringKind_def ExternalPeeringKind_def GatewayPeeringKind_def)
  have some: "wanted_kind C kind mk xs (ns, n) \<noteq> None \<Longrightarrow> n \<in> set (map fst xs)" for kind and mk :: "'x \<Rightarrow> kspec" and xs
    using map_of_eq_None_iff [of xs n] by (auto simp: wanted_kind_def split: option.splits)
  have val: "distinct (map fst xs) \<Longrightarrow> (n, s) \<in> set xs \<Longrightarrow> wanted_kind C kind mk xs (NamespaceDefault, n) = Some (default_peering_spec (mk s))" for kind and mk :: "'x \<Rightarrow> kspec" and xs s
    by (simp add: wanted_kind_def)
  show "C (VPCPeeringKind, ns, n) \<noteq> None \<Longrightarrow> n \<in> set (map fst (pr_VPC ps))"
    "C (ExternalPeeringKind, ns, n) \<noteq> None \<Longrightarrow> n \<in> set (map fst (pr_Ext ps))"
    "gw \<Longrightarrow> C (GatewayPeeringKind, ns, n) \<noteq> None \<Longrightarrow> n \<in> set (map fst (pr_GW ps))"
    using at [of ns] by (simp_all only: some)
  show "(n, v) \<in> set (pr_VPC ps) \<Longrightarrow> C (VPCPeeringKind, NamespaceDefault, n) = Some (default_peering_spec (VPCPeeringSpec v))"
    "(n, e) \<in> set (pr_Ext ps) \<Longrightarrow> C (ExternalPeeringKind, NamespaceDefault, n) = Some (default_peering_spec (ExternalPeeringSpec e))"
    "gw \<Longrightarrow> (n, g) \<in> set (pr_GW ps) \<Longrightarrow> C (GatewayPeeringKind, NamespaceDefault, n) = Some (default_peering_spec (GatewayPeeringSpec g))"
    using at [of NamespaceDefault] names by (simp_all only: val)
qed

text \<open>
  The contents while the wanted peerings are written: what is not wanted is gone, and every other key has what it
  had or what is wanted there. Admission accepts the wanted peerings against all of these.
\<close>

definition pruned :: "contents \<Rightarrow> contents \<Rightarrow> contents" where
  "pruned C W = (\<lambda>k. if W k = None then None else C k)"

definition admitted :: "(contents \<Rightarrow> okey \<Rightarrow> kspec \<Rightarrow> bool) \<Rightarrow> contents \<Rightarrow> peerings \<Rightarrow> bool \<Rightarrow> bool" where
  "admitted admits C ps gw \<longleftrightarrow> (\<forall>D. between (pruned C (wanted C ps gw)) (wanted C ps gw) D \<longrightarrow>
     (\<forall>(n, v) \<in> set (pr_VPC ps). admits D (VPCPeeringKind, NamespaceDefault, n) (default_peering_spec (VPCPeeringSpec v))) \<and>
     (\<forall>(n, e) \<in> set (pr_Ext ps). admits D (ExternalPeeringKind, NamespaceDefault, n) (default_peering_spec (ExternalPeeringSpec e))) \<and>
     (\<forall>(n, g) \<in> set (pr_GW ps). admits D (GatewayPeeringKind, NamespaceDefault, n) (default_peering_spec (GatewayPeeringSpec g))))"

lemma kept_pruned:
  "(let C2 = kept (kept C VPCPeeringKind (map fst (pr_VPC ps))) ExternalPeeringKind (map fst (pr_Ext ps))
    in if gw then kept C2 GatewayPeeringKind (map fst (pr_GW ps)) else C2) = pruned C (wanted C ps gw)" (is "?l = _")
proof
  fix at :: okey
  obtain k ns n where at: "at = (k, ns, n)" by (cases at) auto
  consider "k = VPCPeeringKind" | "k = ExternalPeeringKind" | "k = GatewayPeeringKind" | "k \<noteq> VPCPeeringKind" "k \<noteq> ExternalPeeringKind" "k \<noteq> GatewayPeeringKind"
    by blast
  then show "?l at = pruned C (wanted C ps gw) at"
    using map_of_eq_None_iff [of "pr_VPC ps" n] map_of_eq_None_iff [of "pr_Ext ps" n] map_of_eq_None_iff [of "pr_GW ps" n]
    by cases
      (auto simp: at wanted_def wanted_kind_def pruned_def kept_def VPCPeeringKind_def ExternalPeeringKind_def GatewayPeeringKind_def
        Let_def split: option.splits)
qed

lemma between_refl [simp]: "between C W C" "between C W W"
  by (simp_all add: between_def)

lemma between_trans: "between C W X \<Longrightarrow> between C W Y \<Longrightarrow> between X Y D \<Longrightarrow> between C W D"
  unfolding between_def by metis

lemma between_enforced:
  assumes "between B W X" "\<And>n s. map_of xs n = Some s \<Longrightarrow> W (kind, NamespaceDefault, n) = Some (default_peering_spec (mk s))"
  shows "between B W (enforced X kind mk xs)"
proof -
  have "enforced X kind mk xs (k, ns, n) = X (k, ns, n) \<or> enforced X kind mk xs (k, ns, n) = W (k, ns, n)" for k ns n
    using assms(2) [of n] map_of_eq_None_iff [of xs n] by (cases "map_of xs n") (auto simp: enforced_def)
  then have "enforced X kind mk xs at = X at \<or> enforced X kind mk xs at = W at" for at by (cases at) simp
  with assms(1) show ?thesis unfolding between_def by metis
qed

lemma wanted_at:
  "map_of (pr_VPC ps) n = Some v \<Longrightarrow> wanted C ps gw (VPCPeeringKind, NamespaceDefault, n) = Some (default_peering_spec (VPCPeeringSpec v))"
  "map_of (pr_Ext ps) n = Some e \<Longrightarrow> wanted C ps gw (ExternalPeeringKind, NamespaceDefault, n) = Some (default_peering_spec (ExternalPeeringSpec e))"
  "gw \<Longrightarrow> map_of (pr_GW ps) n = Some g \<Longrightarrow> wanted C ps gw (GatewayPeeringKind, NamespaceDefault, n) = Some (default_peering_spec (GatewayPeeringSpec g))"
  by (simp_all add: wanted_def wanted_kind_def VPCPeeringKind_def ExternalPeeringKind_def GatewayPeeringKind_def)

lemma holds_defaults_kept: "holds_defaults C \<Longrightarrow> holds_defaults (kept C kind keep)"
  by (simp add: holds_defaults_def kept_def split_beta)

text \<open>The updates of a run that finds everything in place.\<close>

definition all_updates :: "peerings \<Rightarrow> (okey \<times> kspec) list" where
  "all_updates ps = all_resent VPCPeeringKind VPCPeeringSpec (pr_VPC ps) @ all_resent ExternalPeeringKind ExternalPeeringSpec (pr_Ext ps) @
     all_resent GatewayPeeringKind GatewayPeeringSpec (pr_GW ps)"

lemma performs_DoSetupPeerings:
  assumes f: "faithful_api c contents admits gw"
    and vpc: "\<forall>(n, s) \<in> set (pr_VPC ps). check_vpc_peering n s = Inr ()"
    and gwp: "\<forall>(n, s) \<in> set (pr_GW ps). check_gw_peering n s = Inr ()"
    and enabled: "gw \<or> pr_GW ps = []"
    and names: "distinct (map fst (pr_VPC ps))" "distinct (map fst (pr_Ext ps))" "distinct (map fst (pr_GW ps))"
    and dC: "holds_defaults C" and adm: "admitted admits C ps gw"
  shows "performs contents (DoSetupPeerings c ps waitReady) C () (wanted C ps gw) (C = wanted C ps gw) (all_updates ps)"
proof -
  let ?W = "wanted C ps gw" let ?B = "pruned C ?W"
  let ?C1 = "kept C VPCPeeringKind (map fst (pr_VPC ps))"
  let ?C2 = "kept ?C1 ExternalPeeringKind (map fst (pr_Ext ps))"
  let ?C3 = "if gw then kept ?C2 GatewayPeeringKind (map fst (pr_GW ps)) else ?C2"
  let ?C4 = "enforced ?C3 VPCPeeringKind VPCPeeringSpec (pr_VPC ps)"
  let ?C5 = "enforced ?C4 ExternalPeeringKind ExternalPeeringSpec (pr_Ext ps)"
  let ?C6 = "enforced ?C5 GatewayPeeringKind GatewayPeeringSpec (pr_GW ps)"
  have C6: "?C6 = ?W" using wanted_steps [OF enabled, of C] by (simp add: Let_def)
  have C3: "?C3 = ?B" using kept_pruned [of C ps gw] by (simp add: Let_def)
  have d3: "holds_defaults ?C3" using dC by (simp add: holds_defaults_kept)
  have b3: "between ?B ?W ?C3" unfolding C3 by simp
  have b4: "between ?B ?W ?C4" by (intro between_enforced b3 wanted_at(1))
  have b5: "between ?B ?W ?C5" by (intro between_enforced b4 wanted_at(2))
  have b6: "between ?B ?W ?C6" unfolding C6 by simp
  note a = adm [unfolded admitted_def, rule_format]
  have a4: "admits D (VPCPeeringKind, NamespaceDefault, n) (default_peering_spec (VPCPeeringSpec s))"
    if "(n, s) \<in> set (pr_VPC ps)" "between ?C3 ?C4 D" for n s D
    using a [OF between_trans [OF b3 b4 that(2)]] that(1) by fast
  have a5: "admits D (ExternalPeeringKind, NamespaceDefault, n) (default_peering_spec (ExternalPeeringSpec s))"
    if "(n, s) \<in> set (pr_Ext ps)" "between ?C4 ?C5 D" for n s D
    using a [OF between_trans [OF b4 b5 that(2)]] that(1) by fast
  have a6: "admits D (GatewayPeeringKind, NamespaceDefault, n) (default_peering_spec (GatewayPeeringSpec s))"
    if "(n, s) \<in> set (pr_GW ps)" "between ?C5 ?C6 D" for n s D
    using a [OF between_trans [OF b5 b6 that(2)]] that(1) by fast
  have g: "performs contents (kwrap msg [] (kworld (pc_gateway c))) C gw C r []" for msg r
    using faithfulD(8) [OF f] by (intro performs_kwrap performs_kworld) metis
  have w: "performs contents (if b \<and> waitReady then kwait c msg else kret ()) C' () C' r []" for b msg C' r
    using faithfulD(9) [OF f] by (auto simp: kwait_def intro!: performs_kwrap performs_kworld performs_kret) 
  have s3: "performs contents (if gw then stale_peerings c GatewayPeeringKind m1 m2 (map fst (pr_GW ps)) else kret False) ?C2
      (gw \<and> (\<exists>ns n. ?C2 (GatewayPeeringKind, ns, n) \<noteq> None \<and> n \<notin> set (map fst (pr_GW ps)))) ?C3
      (gw \<longrightarrow> (\<forall>ns n. ?C2 (GatewayPeeringKind, ns, n) \<noteq> None \<longrightarrow> n \<in> set (map fst (pr_GW ps)))) []" for m1 m2
    using performs_stale [OF f, of GatewayPeeringKind m1 m2 "map fst (pr_GW ps)" ?C2] by (simp add: performs_kret)
  have k: "kind_of (VPCPeeringSpec a) = VPCPeeringKind" "kind_of (ExternalPeeringSpec b) = ExternalPeeringKind"
    "kind_of (GatewayPeeringSpec d) = GatewayPeeringKind" for a b d
    by (simp_all add: VPCPeeringKind_def ExternalPeeringKind_def GatewayPeeringKind_def)
  have ext: "\<forall>(n, s) \<in> set (pr_Ext ps). (\<lambda>_ _. Inr ()) n s = Inr ()" by simp
  have supported: "(\<not> gw \<and> pr_GW ps \<noteq> []) = False" using enabled by blast
  obtain c4 where
    e4: "performs contents (enforce_specs c ''error updating VPC peering %s: %w'' VPCPeeringSpec check_vpc_peering (pr_VPC ps)) ?C3 c4 ?C4
      (\<forall>(n, s) \<in> set (pr_VPC ps). ?C3 (VPCPeeringKind, NamespaceDefault, n) = Some (default_peering_spec (VPCPeeringSpec s)))
      (all_resent VPCPeeringKind VPCPeeringSpec (pr_VPC ps))"
    by (rule exE [OF performs_enforced [where mk = VPCPeeringSpec, OF f k(1) names(1) vpc d3 a4]])
  obtain c5 where
    e5: "performs contents (enforce_specs c ''error updating external peering %s: %w'' ExternalPeeringSpec (\<lambda>_ _. Inr ()) (pr_Ext ps)) ?C4 c5 ?C5
      (\<forall>(n, s) \<in> set (pr_Ext ps). ?C4 (ExternalPeeringKind, NamespaceDefault, n) = Some (default_peering_spec (ExternalPeeringSpec s)))
      (all_resent ExternalPeeringKind ExternalPeeringSpec (pr_Ext ps))"
    by (rule exE [OF performs_enforced [where mk = ExternalPeeringSpec, OF f k(2) names(2) ext holds_defaults_enforced [OF d3] a5]])
  obtain c6 where
    e6: "performs contents (enforce_specs c ''error updating gateway peering %s: %w'' GatewayPeeringSpec check_gw_peering (pr_GW ps)) ?C5 c6 ?C6
      (\<forall>(n, s) \<in> set (pr_GW ps). ?C5 (GatewayPeeringKind, NamespaceDefault, n) = Some (default_peering_spec (GatewayPeeringSpec s)))
      (all_resent GatewayPeeringKind GatewayPeeringSpec (pr_GW ps))"
    by (rule exE [OF performs_enforced [where mk = GatewayPeeringSpec, OF f k(3) names(3) gwp holds_defaults_enforced [OF holds_defaults_enforced [OF d3]] a6]])
  have "performs contents (DoSetupPeerings c ps waitReady) C () ?C6
     (True \<and> (\<forall>ns n. C (VPCPeeringKind, ns, n) \<noteq> None \<longrightarrow> n \<in> set (map fst (pr_VPC ps))) \<and>
      (\<forall>ns n. ?C1 (ExternalPeeringKind, ns, n) \<noteq> None \<longrightarrow> n \<in> set (map fst (pr_Ext ps))) \<and>
      (gw \<longrightarrow> (\<forall>ns n. ?C2 (GatewayPeeringKind, ns, n) \<noteq> None \<longrightarrow> n \<in> set (map fst (pr_GW ps)))) \<and>
      (\<forall>(n, s) \<in> set (pr_VPC ps). ?C3 (VPCPeeringKind, NamespaceDefault, n) = Some (default_peering_spec (VPCPeeringSpec s))) \<and>
      (\<forall>(n, s) \<in> set (pr_Ext ps). ?C4 (ExternalPeeringKind, NamespaceDefault, n) = Some (default_peering_spec (ExternalPeeringSpec s))) \<and>
      (\<forall>(n, s) \<in> set (pr_GW ps). ?C5 (GatewayPeeringKind, NamespaceDefault, n) = Some (default_peering_spec (GatewayPeeringSpec s))) \<and> True)
     ([] @ [] @ [] @ [] @ all_resent VPCPeeringKind VPCPeeringSpec (pr_VPC ps) @ all_resent ExternalPeeringKind ExternalPeeringSpec (pr_Ext ps) @
      all_resent GatewayPeeringKind GatewayPeeringSpec (pr_GW ps) @ [])"
    unfolding DoSetupPeerings_def
    apply (rule performs_kbind [OF g])
    apply (simp only: supported if_False)
    apply (rule performs_kbind, rule performs_stale [OF f])
    apply (rule performs_kbind, rule performs_stale [OF f])
    apply (rule performs_kbind, rule s3)
    apply (rule performs_kbind, rule e4)
    apply (rule performs_kbind, rule e5)
    apply (rule performs_kbind, rule e6)
    apply (rule w)
    done
  then show ?thesis unfolding C6
  proof (rule performs_mono)
    assume same: "C = ?W"
    note i = in_place [OF same names]
    have v: "kept C VPCPeeringKind (map fst (pr_VPC ps)) = C" and x: "kept C ExternalPeeringKind (map fst (pr_Ext ps)) = C"
      and gw: "gw \<Longrightarrow> kept C GatewayPeeringKind (map fst (pr_GW ps)) = C" by (rule kept_same, erule i, assumption?)+
    have g: "(if gw then kept C GatewayPeeringKind (map fst (pr_GW ps)) else C) = C" using gw by simp
    have e: "enforced C VPCPeeringKind VPCPeeringSpec (pr_VPC ps) = C" "enforced C ExternalPeeringKind ExternalPeeringSpec (pr_Ext ps) = C"
      by (rule enforced_same, rule names, erule i)+
    have p: "gw" if "(n, s) \<in> set (pr_GW ps)" for n s using enabled that by auto
    have "True \<and> (\<forall>ns n. C (VPCPeeringKind, ns, n) \<noteq> None \<longrightarrow> n \<in> set (map fst (pr_VPC ps))) \<and>
      (\<forall>ns n. ?C1 (ExternalPeeringKind, ns, n) \<noteq> None \<longrightarrow> n \<in> set (map fst (pr_Ext ps))) \<and>
      (gw \<longrightarrow> (\<forall>ns n. ?C2 (GatewayPeeringKind, ns, n) \<noteq> None \<longrightarrow> n \<in> set (map fst (pr_GW ps)))) \<and>
      (\<forall>(n, s) \<in> set (pr_VPC ps). ?C3 (VPCPeeringKind, NamespaceDefault, n) = Some (default_peering_spec (VPCPeeringSpec s))) \<and>
      (\<forall>(n, s) \<in> set (pr_Ext ps). ?C4 (ExternalPeeringKind, NamespaceDefault, n) = Some (default_peering_spec (ExternalPeeringSpec s))) \<and>
      (\<forall>(n, s) \<in> set (pr_GW ps). ?C5 (GatewayPeeringKind, NamespaceDefault, n) = Some (default_peering_spec (GatewayPeeringSpec s))) \<and> True"
      unfolding v x g e
      by (intro conjI allI impI TrueI; ((erule (1) i | erule i)?; clarsimp simp: i p simp del: default_peering_spec_simps)?)
    then show "(True \<and> (\<forall>ns n. C (VPCPeeringKind, ns, n) \<noteq> None \<longrightarrow> n \<in> set (map fst (pr_VPC ps))) \<and>
      (\<forall>ns n. ?C1 (ExternalPeeringKind, ns, n) \<noteq> None \<longrightarrow> n \<in> set (map fst (pr_Ext ps))) \<and>
      (gw \<longrightarrow> (\<forall>ns n. ?C2 (GatewayPeeringKind, ns, n) \<noteq> None \<longrightarrow> n \<in> set (map fst (pr_GW ps)))) \<and>
      (\<forall>(n, s) \<in> set (pr_VPC ps). ?C3 (VPCPeeringKind, NamespaceDefault, n) = Some (default_peering_spec (VPCPeeringSpec s))) \<and>
      (\<forall>(n, s) \<in> set (pr_Ext ps). ?C4 (ExternalPeeringKind, NamespaceDefault, n) = Some (default_peering_spec (ExternalPeeringSpec s))) \<and>
      (\<forall>(n, s) \<in> set (pr_GW ps). ?C5 (GatewayPeeringKind, NamespaceDefault, n) = Some (default_peering_spec (GatewayPeeringSpec s))) \<and> True) \<and>
      all_updates ps = [] @ [] @ [] @ [] @ all_resent VPCPeeringKind VPCPeeringSpec (pr_VPC ps) @ all_resent ExternalPeeringKind ExternalPeeringSpec (pr_Ext ps) @
        all_resent GatewayPeeringKind GatewayPeeringSpec (pr_GW ps) @ []"
      by (simp only: all_updates_def append_Nil append_Nil2 simp_thms)
  qed
qed

end
