(* ===== verification/PeerClaims.thy ===== *)
theory PeerClaims
  imports PeerProps PeerEnforce PeerAdmit "HOL-Library.Code_Target_Nat"
begin

text \<open>
  The peerings of a list of requests: what \<^verbatim>\<open>SetupPeerings\<close> accepts is well formed, and after
  \<^verbatim>\<open>DoSetupPeerings\<close> the API server holds it, with its defaults, and no other peering
  (\<^verbatim>\<open>pkg/hhfab/testing.go\<close>). Every further run writes the gateway peerings again.
\<close>

section \<open>Well-formed requests are enforced\<close>

text \<open>No VPC is peered with itself.\<close>

definition between_two :: "peerings \<Rightarrow> bool" where
  "between_two ps \<longleftrightarrow> (\<forall>(n, s) \<in> set (pr_VPC ps). length (hd s) = 2) \<and> (\<forall>(n, s) \<in> set (pr_GW ps). length (gs_Peering s) = 2)"

lemma good_vpc_accepted:
  assumes "good_vpc s" "length (hd s) = 2"
  shows "check_vpc_peering n s = Inr ()"
proof -
  from assms obtain a x b y where s: "s = [[(a, x), (b, y)]]" and "a \<noteq> b"
    by (auto simp: good_vpc_def length_Suc_conv numeral_2_eq_2 split: list.splits)
  then show ?thesis by (simp add: check_vpc_peering_def VPCs_def)
qed

lemma good_peerings_accepted:
  assumes "good_peerings externals ps" "between_two ps"
  shows "\<forall>(n, s) \<in> set (pr_VPC ps). check_vpc_peering n s = Inr ()" "\<forall>(n, s) \<in> set (pr_GW ps). check_gw_peering n s = Inr ()"
  using assms by (fastforce simp: good_peerings_def between_two_def check_gw_peering_def list_all_iff intro: good_vpc_accepted)+

lemma wanted_wanted:
  "distinct (map fst (pr_VPC ps)) \<Longrightarrow> wanted (wanted C ps gw) ps gw = wanted C ps gw"
  by (auto simp: wanted_def wanted_kind_def fun_eq_iff VPCPeeringKind_def ExternalPeeringKind_def GatewayPeeringKind_def split: option.splits)

lemma holds_defaults_wanted: "holds_defaults C \<Longrightarrow> holds_defaults (wanted C ps gw)"
  by (auto simp: holds_defaults_def wanted_def wanted_kind_def split: if_splits option.splits)

lemma admitted_wanted:
  assumes "distinct (map fst (pr_VPC ps))" "admitted admits C ps gw"
  shows "admitted admits (wanted C ps gw) ps gw"
proof -
  let ?W = "wanted C ps gw"
  have "D = ?W" if "between (pruned ?W ?W) ?W D" for D
    using that unfolding between_def pruned_def by (intro ext) metis
  then show ?thesis using assms(2) unfolding admitted_def wanted_wanted [OF assms(1)] by (metis between_refl(2))
qed

text \<open>A requested gateway peering never has its defaults, the others always have them.\<close>

lemma resent_gw:
  assumes "good_peerings externals ps" "between_two ps"
  shows "all_updates ps = map (\<lambda>(n, g). ((GatewayPeeringKind, NamespaceDefault, n), GatewayPeeringSpec g)) (pr_GW ps)"
proof -
  have ext: "default_ext_peering e = e" if "(n, e) \<in> set (pr_Ext ps)" for n e
    using assms(1) that by (auto simp: good_peerings_def good_ext_def list_all_iff default_ext_peering_def sorted_sort_id)
  have "gs_GatewayGroup g = ''''" "length (gs_Peering g) = 2" if "(n, g) \<in> set (pr_GW ps)" for n g
    using assms that by (auto simp: good_peerings_def good_gw_def list_all_iff between_two_def)
  then have gw: "default_gw_peering g \<noteq> g" if "(n, g) \<in> set (pr_GW ps)" for n g
    using that validate_default_group by metis
  have 1: "all_resent VPCPeeringKind VPCPeeringSpec (pr_VPC ps) = []"
    "all_resent ExternalPeeringKind ExternalPeeringSpec (pr_Ext ps) = []"
    by (auto simp: all_resent_def resent_def ext)
  have "all_resent GatewayPeeringKind GatewayPeeringSpec xs = map (\<lambda>(n, g). ((GatewayPeeringKind, NamespaceDefault, n), GatewayPeeringSpec g)) xs"
    if "set xs \<subseteq> set (pr_GW ps)" for xs
    using that by (induction xs) (auto simp: all_resent_def resent_def gw)
  with 1 show ?thesis by (simp add: all_updates_def)
qed

section \<open>Properties\<close>

text \<open>
  C17. Whatever list of requests is accepted, every peering is well formed: names are distinct, a peering names
  its VPCs once, and an external one names an external that is there, with sorted subnets and prefixes. Each
  side of a gateway peering has one expose; it translates addresses exactly if it has prefixes to translate
  to, in exactly one mode, with port forwarding rules of a known protocol and no empty part; and it is the
  default destination only without prefixes of its own.
\<close>

theorem requested_peerings_wellformed:
  assumes "parse_peerings vpcs externals requests = Inr ps"
  shows "good_peerings externals ps"
  using assms by (rule parse_peerings_good)

text \<open>
  C9. Let the requests be accepted, peer no VPC with itself, and ask for gateway peerings only where the gateway is
  enabled. The API server answers, has no other writers, holds its peerings in defaulted form (\<^verbatim>\<open>Default\<close> of the
  fabric module, which sets the gateway group and the idle timeouts), and admits the wanted peerings in that form
  against anything it may hold while they are written. Then \<^verbatim>\<open>DoSetupPeerings\<close> succeeds and leaves exactly the
  peerings asked for: those of the default namespace have the defaulted specs, all others by other names are gone,
  and no other object is touched. Doing it again succeeds and changes nothing, but it does write: one update for
  each gateway peering, whose spec is sent without the defaults and so never equals the one that is stored; and
  nothing else.
\<close>

theorem requested_peerings_enforced:
  assumes "faithful_api c contents admits gw" "parse_peerings vpcs externals requests = Inr ps"
    and "between_two ps" "gw \<or> pr_GW ps = []"
    and "holds_defaults (contents w)" "admitted admits (contents w) ps gw"
  shows "\<exists>w1 es1. DoSetupPeerings c ps waitReady (w, l) = (Inr (), w1, l @ es1) \<and> contents w1 = wanted (contents w) ps gw \<and>
    (\<exists>w2 es2. DoSetupPeerings c ps waitReady (w1, l @ es1) = (Inr (), w2, l @ es1 @ es2) \<and> contents w2 = contents w1 \<and>
       updates_only (map (\<lambda>(n, g). ((GatewayPeeringKind, NamespaceDefault, n), GatewayPeeringSpec g)) (pr_GW ps)) es2)"
proof -
  have good: "good_peerings externals ps" using assms(2) by (rule parse_peerings_good)
  then have names: "distinct (map fst (pr_VPC ps))" "distinct (map fst (pr_Ext ps))" "distinct (map fst (pr_GW ps))"
    by (simp_all add: good_peerings_def)
  note run = performs_DoSetupPeerings [OF assms(1) good_peerings_accepted [OF good assms(3)] assms(4) names]
  obtain w1 es1 where 1: "DoSetupPeerings c ps waitReady (w, l) = (Inr (), w1, l @ es1)" "contents w1 = wanted (contents w) ps gw"
    by (rule performsE [OF run [OF assms(5,6)] refl]) blast
  have same: "contents w1 = wanted (contents w1) ps gw" using 1(2) wanted_wanted [OF names(1)] by simp
  have "performs contents (DoSetupPeerings c ps waitReady) (contents w1) () (wanted (contents w1) ps gw)
      (contents w1 = wanted (contents w1) ps gw) (all_updates ps)"
    unfolding 1(2) by (rule run [OF holds_defaults_wanted [OF assms(5)] admitted_wanted [OF names(1) assms(6)]])
  from performsE [OF this refl, of "l @ es1"] same
  obtain w2 es2 where "DoSetupPeerings c ps waitReady (w1, l @ es1) = (Inr (), w2, (l @ es1) @ es2)" "contents w2 = contents w1"
    "updates_only (all_updates ps) es2" by metis
  with 1 show ?thesis unfolding resent_gw [OF good assms(3)] by auto
qed

section \<open>A server in memory\<close>

text \<open>
  The world is the list of the objects, the latest first. What is written is defaulted and validated by its spec
  alone, and refused if that fails.
\<close>

definition memory_admits :: "contents \<Rightarrow> okey \<Rightarrow> kspec \<Rightarrow> bool" where
  "memory_admits C k s = (case s of
     GatewayPeeringSpec g \<Rightarrow> validate_gw_peering (snd (snd k)) g = Inr ()
   | ExternalPeeringSpec e \<Rightarrow> validate_ext_peering e = Inr ()
   | VPCPeeringSpec v \<Rightarrow> validate_vpc_peering v = Inr ()
   | _ \<Rightarrow> True)"

definition find_object :: "okey \<Rightarrow> kobject list \<Rightarrow> kobject option" where
  "find_object k w = find (\<lambda>x. ko_key x = k) w"

fun current_objects :: "kobject list \<Rightarrow> kobject list" where
  "current_objects [] = []"
| "current_objects (x # w) = x # filter (\<lambda>y. ko_key y \<noteq> ko_key x) (current_objects w)"

definition memory_contents :: "kobject list \<Rightarrow> contents" where
  "memory_contents w k = map_option ko_Spec (find_object k w)"

definition memory_write :: "kobject \<Rightarrow> kobject list \<Rightarrow> go_err option \<times> kobject list" where
  "memory_write x w =
     (let y = set_spec (default_peering_spec (ko_Spec x)) x in
      if memory_admits (memory_contents w) (ko_key y) (ko_Spec y) then (None, y # w) else (Some (Errf ''admission webhook denied the request'' []), w))"

definition memory_kube :: "kobject list kclient" where
  "memory_kube = \<lparr>kc_get = (\<lambda>k w. (case find_object k w of None \<Rightarrow> Inl (Errf ''not found'' []) | Some x \<Rightarrow> Inr x, w)),
     kc_create = memory_write, kc_update = memory_write,
     kc_delete = (\<lambda>k w. (None, filter (\<lambda>x. ko_key x \<noteq> k) w)),
     kc_not_found = (\<lambda>e. e = Errf ''not found'' []), kc_conflict = (\<lambda>_. False), kc_equal = (\<lambda>x y. ko_Spec x = ko_Spec y), kc_kinds = (\<lambda>x. Inr [kind_of (ko_Spec x)])\<rparr>"

definition memory_client :: "bool \<Rightarrow> kobject list peer_client" where
  "memory_client gw = \<lparr>pc_kube = memory_kube,
     pc_list = (\<lambda>kind w. (Inr (filter (\<lambda>x. kind_of (ko_Spec x) = kind) (current_objects w)), w)),
     pc_default = id, pc_delete_all = (\<lambda>kind w. (None, filter (\<lambda>x. kind_of (ko_Spec x) \<noteq> kind) w)),
     pc_gateway = (\<lambda>w. (Inr gw, w)), pc_wait = (\<lambda>w. (Inr (), w))\<rparr>"

lemma find_object_key: "find_object k w = Some x \<Longrightarrow> ko_key x = k"
  by (auto simp: find_object_def find_Some_iff)

lemma find_object_filter: "find_object k (filter (\<lambda>x. ko_key x \<noteq> k') w) = (if k = k' then None else find_object k w)"
  by (induction w) (auto simp: find_object_def)

lemma current_objects_key: "x \<in> set (current_objects w) \<longleftrightarrow> find_object (ko_key x) w = Some x"
proof (induction w)
  case (Cons y w)
  show ?case
  proof (cases "ko_key y = ko_key x")
    case True
    then show ?thesis by (auto simp: find_object_def)
  next
    case False
    with Cons show ?thesis by (auto simp: find_object_def)
  qed
qed (simp add: find_object_def)

lemma current_objects_distinct: "distinct (map ko_key (current_objects w))"
  by (induction w rule: current_objects.induct) (auto intro: distinct_map_filter)

lemma memory_listing: "listing (memory_contents w) kind (filter (\<lambda>x. kind_of (ko_Spec x) = kind) (current_objects w))"
  unfolding listing_def
proof (intro conjI ballI allI impI)
  fix x assume "x \<in> set (filter (\<lambda>x. kind_of (ko_Spec x) = kind) (current_objects w))"
  then show "kind_of (ko_Spec x) = kind" "memory_contents w (ko_key x) = Some (ko_Spec x)"
    by (simp_all add: current_objects_key memory_contents_def)
next
  fix ns name assume "memory_contents w (kind, ns, name) \<noteq> None"
  then obtain x where f: "find_object (kind, ns, name) w = Some x" by (auto simp: memory_contents_def)
  note k = find_object_key [OF f]
  then have "x \<in> set (current_objects w)" "kind_of (ko_Spec x) = kind" using f by (simp_all add: current_objects_key, simp add: ko_key_def)
  with k show "(kind, ns, name) \<in> ko_key ` set (filter (\<lambda>x. kind_of (ko_Spec x) = kind) (current_objects w))" by force
next
  show "distinct (map ko_key (filter (\<lambda>x. kind_of (ko_Spec x) = kind) (current_objects w)))"
    by (rule distinct_map_filter [OF current_objects_distinct])
qed

lemma memory_put: "memory_contents (x # w) = (memory_contents w)(ko_key x \<mapsto> ko_Spec x)"
  by (auto simp: memory_contents_def find_object_def fun_eq_iff)

lemma memory_stores:
  assumes "memory_admits (memory_contents w) (ko_key x) (default_peering_spec (ko_Spec x))"
  shows "\<exists>w'. memory_write x w = (None, w') \<and> memory_contents w' = (memory_contents w)(ko_key x \<mapsto> default_peering_spec (ko_Spec x))"
  using assms by (simp add: memory_write_def Let_def set_spec_def ko_key_def memory_put)

lemma memory_remove: "memory_contents (filter (\<lambda>x. ko_key x \<noteq> k) w) = (memory_contents w)(k := None)"
  by (auto simp: memory_contents_def find_object_filter fun_eq_iff)

lemma memory_get:
  "case memory_contents w k of
     None \<Rightarrow> kc_get memory_kube k w = (Inl (Errf ''not found'' []), w)
   | Some s \<Rightarrow> \<exists>x. kc_get memory_kube k w = (Inr x, w) \<and> ko_key x = k \<and> ko_Spec x = s"
  by (auto simp: memory_contents_def memory_kube_def dest: find_object_key split: option.splits)

lemma memory_faithful: "faithful_api (memory_client gw) memory_contents memory_admits gw"
  unfolding faithful_api_def
proof (intro conjI allI impI)
  fix w :: "kobject list" and k :: okey
  show "\<exists>r w'. kc_get (pc_kube (memory_client gw)) k w = (r, w') \<and> memory_contents w' = memory_contents w \<and>
      (case memory_contents w k of None \<Rightarrow> \<exists>e. r = Inl e \<and> kc_not_found (pc_kube (memory_client gw)) e
       | Some s \<Rightarrow> \<exists>x. r = Inr x \<and> ko_key x = k \<and> ko_Spec x = s)"
    using memory_get [where w = w and k = k] by (cases "memory_contents w k") (auto simp: memory_client_def memory_kube_def)
qed (simp_all add: memory_client_def memory_kube_def memory_listing memory_stores memory_remove)

section \<open>An example\<close>

definition example_vpcs :: "listed_vpc list" where
  "example_vpcs = [(''vpc-01'', [(''default'', ''10.0.1.0/24'')]), (''vpc-02'', [(''default'', ''10.0.2.0/24'')])]"

definition example_requests :: "string list" where
  "example_requests = [''1+3:vpc1=default'', ''2~as5835:s=default:p=1.0.0.0/8'', ''1+2:gw:nat2=pf:as2=10.20.0.1/32:pf2=tcp/80=8080'']"

text \<open>One peering is there already, for another pair of VPCs.\<close>

definition example_world :: "kobject list" where
  "example_world = [new_object NamespaceDefault ''vpc-08--vpc-09'' (VPCPeeringSpec [[(''vpc-08'', []), (''vpc-09'', [])]])]"

definition example_parse :: "peerings result" where
  "example_parse = parse_peerings example_vpcs [''as5835''] example_requests"

definition example_names :: "peerings \<Rightarrow> bool" where
  "example_names ps \<longleftrightarrow> map fst (pr_VPC ps) = [''vpc-01--vpc-03''] \<and> map fst (pr_Ext ps) = [''vpc-02--as5835''] \<and>
     map fst (pr_GW ps) = [''vpc-01--vpc-02'']"

definition example_admitted :: "peerings \<Rightarrow> bool" where
  "example_admitted ps \<longleftrightarrow>
     list_all (\<lambda>(n, v). validate_vpc_peering v = Inr ()) (pr_VPC ps) \<and>
     list_all (\<lambda>(n, e). validate_ext_peering (default_ext_peering e) = Inr ()) (pr_Ext ps) \<and>
     list_all (\<lambda>(n, g). validate_gw_peering n (default_gw_peering g) = Inr ()) (pr_GW ps)"

lemma example_admitted: "example_admitted ps \<Longrightarrow> admitted memory_admits C ps gw"
  by (auto simp: example_admitted_def admitted_def memory_admits_def list_all_iff)

lemma example_parsed: "\<exists>ps. example_parse = Inr ps \<and> between_two ps \<and> example_names ps \<and> example_admitted ps"
proof -
  have "case example_parse of Inl _ \<Rightarrow> False | Inr ps \<Rightarrow>
    list_all (\<lambda>(n, s). length (hd s) = 2) (pr_VPC ps) \<and> list_all (\<lambda>(n, s). length (gs_Peering s) = 2) (pr_GW ps) \<and> example_names ps \<and>
    example_admitted ps"
    by code_simp
  then show ?thesis by (auto simp: between_two_def list_all_iff split: sum.splits)
qed

lemma example_defaulted: "holds_defaults (memory_contents example_world)"
  by (auto simp: holds_defaults_def memory_contents_def find_object_def example_world_def new_object_def)

theorem requested_peerings_wellformed_witness:
  "\<exists>ps. parse_peerings example_vpcs [''as5835''] example_requests = Inr ps \<and> good_peerings [''as5835''] ps \<and> example_names ps"
  using example_parsed requested_peerings_wellformed unfolding example_parse_def by metis

definition example_deleted :: "contents \<Rightarrow> bool" where
  "example_deleted C \<longleftrightarrow> C (VPCPeeringKind, NamespaceDefault, ''vpc-08--vpc-09'') = None \<and>
     C (VPCPeeringKind, NamespaceDefault, ''vpc-01--vpc-03'') \<noteq> None"

lemma example_wanted: "example_names ps \<Longrightarrow> example_deleted (wanted C ps gw)"
  by (auto simp: example_names_def example_deleted_def wanted_def wanted_kind_def)

text \<open>The gateway peering of the example is there after the first run with its group, and the second writes it again.\<close>

theorem requested_peerings_enforced_witness:
  "\<exists>ps w1 es1 w2 es2 g. parse_peerings example_vpcs [''as5835''] example_requests = Inr ps \<and>
     DoSetupPeerings (memory_client True) ps True (example_world, []) = (Inr (), w1, es1) \<and> example_deleted (memory_contents w1) \<and>
     DoSetupPeerings (memory_client True) ps True (w1, es1) = (Inr (), w2, es1 @ es2) \<and> memory_contents w2 = memory_contents w1 \<and>
     updates_only [((GatewayPeeringKind, NamespaceDefault, ''vpc-01--vpc-02''), GatewayPeeringSpec g)] es2"
proof -
  obtain ps where ps: "example_parse = Inr ps" "between_two ps" "example_names ps" "example_admitted ps" using example_parsed by blast
  then obtain g where g: "pr_GW ps = [(''vpc-01--vpc-02'', g)]" by (auto simp: example_names_def)
  from requested_peerings_enforced [OF memory_faithful ps(1) [unfolded example_parse_def] ps(2) _ example_defaulted example_admitted [OF ps(4)],
    where gw = True and waitReady = True and l = "[]"]
  obtain w1 es1 w2 es2 where "DoSetupPeerings (memory_client True) ps True (example_world, []) = (Inr (), w1, es1)"
    and c: "memory_contents w1 = wanted (memory_contents example_world) ps True"
    and "DoSetupPeerings (memory_client True) ps True (w1, es1) = (Inr (), w2, es1 @ es2)" "memory_contents w2 = memory_contents w1"
    "updates_only [((GatewayPeeringKind, NamespaceDefault, ''vpc-01--vpc-02''), GatewayPeeringSpec g)] es2"
    unfolding g by auto
  with example_wanted [OF ps(3)] ps(1) show ?thesis unfolding example_parse_def by metis
qed

section \<open>The sides of a peering\<close>

lemma split_pair: "c \<notin> set a \<Longrightarrow> c \<notin> set b \<Longrightarrow> split_on c (a @ c # b) = [a, b]"
proof -
  have "split_on c b = [b]" if "c \<notin> set b" for b using that by (induction b) auto
  then show "c \<notin> set a \<Longrightarrow> c \<notin> set b \<Longrightarrow> split_on c (a @ c # b) = [a, b]" by (induction a) auto
qed

lemma sort_pair: "sort [a, b] = (if a \<le> b then [a, b] else [b, a])" for a b :: string
  by auto

text \<open>
  The two VPCs of a request may be written in either order: the peering is the same, options included. The sides
  1 and 2 of the options are those of the sorted names, which are sorted as strings, so as1 of \<open>2+10\<close> is about vpc-10.
\<close>

theorem vpc_request_swapped:
  assumes "CHR ''+'' \<notin> set a" "CHR ''+'' \<notin> set b" "a \<noteq> ''''" "b \<noteq> ''''"
  shows "vpc_request vpcs (a @ ''+'' @ b) options ps = vpc_request vpcs (b @ ''+'' @ a) options ps"
proof -
  have split: "split_on (CHR ''+'') (a @ ''+'' @ b) = [a, b]" "split_on (CHR ''+'') (b @ ''+'' @ a) = [b, a]"
    using assms(1,2) split_pair [of "CHR ''+''"] by simp_all
  obtain x y where "sort [a, b] = [x, y]" "sort [b, a] = [x, y]" "x \<noteq> ''''" "y \<noteq> ''''"
    using assms(3,4) sort_pair by (metis order_antisym linear)
  then show ?thesis unfolding vpc_request_def split by (simp only: list.case simp_thms if_False)
qed

definition as_of_vpc10 :: "peerings result \<Rightarrow> bool" where
  "as_of_vpc10 r = (case r of Inr ps \<Rightarrow> map (\<lambda>(v, xs). (v, map xe_As xs)) (gs_Peering (snd (hd (pr_GW ps)))) =
     [(''vpc-10'', [[(''10.10.0.0/24'', '''')]]), (''vpc-02'', [[]])] | _ \<Rightarrow> False)"

theorem vpc_request_swapped_witness:
  "as_of_vpc10 (vpc_request example_vpcs (''2'' @ ''+'' @ ''10'') [''gw'', ''as1=10.10.0.0/24''] \<lparr>pr_VPC = [], pr_Ext = [], pr_GW = []\<rparr>)"
proof -
  have "as_of_vpc10 (vpc_request example_vpcs (''10'' @ ''+'' @ ''2'') [''gw'', ''as1=10.10.0.0/24''] \<lparr>pr_VPC = [], pr_Ext = [], pr_GW = []\<rparr>)"
    by code_simp
  then show ?thesis by (subst vpc_request_swapped) simp_all
qed

end
