(* ===== verification/Probes.thy ===== *)
theory Probes
  imports Complex_Main Endpoints MatrixTest VlabRail
begin

text \<open>
  The probes of the connectivity tests: the commands they run on a server, and how their outcome is held
  against what is expected (\<^verbatim>\<open>pkg/hhfab/testing.go\<close>, \<^verbatim>\<open>runMatrixIperfPortForward\<close> of
  \<^verbatim>\<open>pkg/hhfab/matrix.go\<close>). An ssh session is a parameter: a command has an outcome and moves the world it
  runs in. Numbers that are \<^verbatim>\<open>float64\<close> in the sources are rational, and computed with exactly.
\<close>

section \<open>Strings\<close>

text \<open>\<^verbatim>\<open>strings.Index\<close>, \<^verbatim>\<open>strings.Contains\<close> and \<^verbatim>\<open>strings.Split\<close>.\<close>

fun str_index :: "string \<Rightarrow> string \<Rightarrow> nat option" where
  "str_index [] p = (if p = [] then Some 0 else None)"
| "str_index (c # cs) p = (if has_prefix (c # cs) p then Some 0 else map_option Suc (str_index cs p))"

definition str_contains :: "string \<Rightarrow> string \<Rightarrow> bool" where
  "str_contains s p \<longleftrightarrow> str_index s p \<noteq> None"

function split_str :: "string \<Rightarrow> string \<Rightarrow> string list" where
  "split_str sep s =
     (if sep = [] \<or> s = [] then [s]
      else case str_index s sep of None \<Rightarrow> [s] | Some i \<Rightarrow> take i s # split_str sep (drop (i + length sep) s))"
  by pat_completeness auto
termination by (relation "measure (length \<circ> snd)") auto

declare split_str.simps [simp del]

definition lines_of :: "string \<Rightarrow> string list" where "lines_of s = split_on (CHR 0x0A) s"

definition show_int :: "int \<Rightarrow> string" where
  "show_int i = (if i < 0 then ''-'' @ itoa (nat (- i)) else itoa (nat i))"

definition show_bool :: "bool \<Rightarrow> string" where "show_bool b = (if b then ''true'' else ''false'')"

text \<open>\<^verbatim>\<open>%.2f\<close>, which rounds halves to even.\<close>

definition round_even :: "rat \<Rightarrow> int" where
  "round_even r = (let f = floor r; d = r - of_int f in if d < 1 / 2 \<or> (d = 1 / 2 \<and> even f) then f else f + 1)"

definition show_fixed2 :: "rat \<Rightarrow> string" where
  "show_fixed2 r = (let n = nat (round_even (100 * abs r)) in
     (if r < 0 then ''-'' else '''') @ itoa (n div 100) @ ''.'' @ pad2 (n mod 100))"

definition show_fixed1 :: "rat \<Rightarrow> string" where
  "show_fixed1 r = (let n = nat (round_even (10 * abs r)) in
     (if r < 0 then ''-'' else '''') @ itoa (n div 10) @ ''.'' @ itoa (n mod 10))"

definition asMbps :: "rat \<Rightarrow> string" where "asMbps x = show_fixed2 (x / 1000000) @ '' Mbps''"

section \<open>Sessions\<close>

text \<open>
  The error of a command: its text, and its exit status if it is one of a command that ran
  (\<^verbatim>\<open>sshutil.ExitStatus\<close>).
\<close>

record ssh_err =
  sx_Msg :: string
  sx_Status :: "int option"

record ssh_out =
  so_Stdout :: string
  so_Stderr :: string
  so_Err :: "ssh_err option"

type_synonym 'w ssh = "string \<Rightarrow> 'w \<Rightarrow> ssh_out \<times> 'w"

definition ExitStatus :: "ssh_err \<Rightarrow> int option" where "ExitStatus e = sx_Status e"

definition maxRetries :: nat where "maxRetries = 3"

definition ssh_trouble :: "ssh_out \<Rightarrow> ssh_err \<Rightarrow> bool" where
  "ssh_trouble out e \<longleftrightarrow>
     str_contains (sx_Msg e) ''ssh:'' \<or> str_contains (so_Stderr out) ''ssh:'' \<or> str_contains (so_Stderr out) ''is currently busy''"

text \<open>The loop with the attempts left; the waits are left out.\<close>

fun retry_loop :: "'w ssh \<Rightarrow> string \<Rightarrow> nat \<Rightarrow> ssh_out \<Rightarrow> 'w \<Rightarrow> ssh_out \<times> 'w" where
  "retry_loop run cmd 0 out w = (out\<lparr>so_Err := None\<rparr>, w)"
| "retry_loop run cmd (Suc left) out w =
     (case run cmd w of (out, w) \<Rightarrow> case so_Err out of
        None \<Rightarrow> (out, w)
      | Some e \<Rightarrow>
          if ssh_trouble out e then
            if left > 0 then retry_loop run cmd left out w
            else (out\<lparr>so_Err := Some (e\<lparr>sx_Msg := ''ssh for remote command failed after '' @ itoa maxRetries @ '' retries: ''
                    @ sx_Msg e @ '': '' @ so_Stderr out\<rparr>)\<rparr>, w)
          else (out, w))"

definition no_output :: ssh_out where "no_output = \<lparr>so_Stdout = '''', so_Stderr = '''', so_Err = None\<rparr>"

definition retrySSHCmd :: "'w ssh option \<Rightarrow> string \<Rightarrow> 'w \<Rightarrow> ssh_out \<times> 'w" where
  "retrySSHCmd ssh cmd w =
     (case ssh of
        None \<Rightarrow> (no_output\<lparr>so_Err := Some \<lparr>sx_Msg = ''ssh client is nil'', sx_Status = None\<rparr>\<rparr>, w)
      | Some run \<Rightarrow> retry_loop run cmd maxRetries no_output w)"

text \<open>The shell did not run the command: it has no exit status, or one of the shell's own.\<close>

definition not_executed :: "ssh_err \<Rightarrow> bool" where
  "not_executed e \<longleftrightarrow> (case ExitStatus e of None \<Rightarrow> True | Some st \<Rightarrow> st = 126 \<or> st = 127)"

section \<open>Pings\<close>

definition expectationWhy :: "reachability \<Rightarrow> string" where
  "expectationWhy r =
     (if re_Reason r \<noteq> '''' \<and> re_Peering r \<noteq> '''' then re_Reason r @ '' '' @ quoted (re_Peering r)
      else if re_Reason r \<noteq> '''' then re_Reason r else ''no reason recorded'')"

definition whySuffix :: "string \<Rightarrow> string" where
  "whySuffix why = (if why = '''' then '''' else '', because: '' @ why)"

record ping_error =
  pe_Source :: string
  pe_Destination :: string
  pe_Expected :: bool
  pe_Why :: string
  pe_Sent :: int
  pe_Received :: int
  pe_Lost :: "int list"
  pe_CmdOutput :: string
  pe_Msg :: string

definition ping_error_text :: "ping_error \<Rightarrow> string" where
  "ping_error_text pe =
     ''ping '' @ pe_Source pe @ '' -> '' @ pe_Destination pe @ '': '' @ pe_Msg pe @ '' (sent '' @ show_int (pe_Sent pe) @ '', rcvd '' @
     show_int (pe_Received pe) @
     (if pe_Lost pe = [] then '''' else '', lost=['' @ join_with '' '' (map show_int (pe_Lost pe)) @ '']'') @
     '', expected '' @ show_bool (pe_Expected pe) @ whySuffix (pe_Why pe) @ '')''"

text \<open>The sequence number of a reply line.\<close>

definition reply_seq :: "string \<Rightarrow> int option" where
  "reply_seq l =
     (if \<not> str_contains l ''bytes from'' then None
      else case str_index l ''icmp_seq='' of None \<Rightarrow> None
        | Some i \<Rightarrow> (case fields_of (drop (i + length ''icmp_seq='') l) of [] \<Rightarrow> None | f # _ \<Rightarrow> atoi f))"

definition parsePingLostSeqs :: "string \<Rightarrow> int \<Rightarrow> int list" where
  "parsePingLostSeqs stdout sent =
     (if sent \<le> 0 then []
      else let seen = List.map_filter reply_seq (lines_of stdout) in filter (\<lambda>n. n \<notin> set seen) [1..sent])"

text \<open>The packets sent and received, from the first summary line.\<close>

definition first_word :: "string \<Rightarrow> string" where "first_word s = trim_space (hd (split_on (CHR '' '') s))"

fun ping_summary :: "string list \<Rightarrow> int \<times> int" where
  "ping_summary [] = (0, 0)"
| "ping_summary (l # ls) =
     (if str_contains l ''packets transmitted'' \<and> str_contains l ''received'' then
        (case split_str '', '' l of
           a # b # _ \<Rightarrow> (case (atoi (first_word a), atoi (first_word b)) of (Some s, Some r) \<Rightarrow> (s, r) | _ \<Rightarrow> (0, 0))
         | _ \<Rightarrow> (0, 0))
      else ping_summary ls)"

definition ping_cmd :: "string \<Rightarrow> addr option \<Rightarrow> addr \<Rightarrow> string" where
  "ping_cmd flags source to = flags @ (case source of None \<Rightarrow> '''' | Some a \<Rightarrow> '' -I '' @ addr_string a) @ '' '' @ addr_string to"

text \<open>What the output of the ping is taken for.\<close>

definition ping_verdict :: "ping_error \<Rightarrow> ssh_out \<Rightarrow> ping_error option" where
  "ping_verdict pe out =
     (let stdout = so_Stdout out; err = so_Err out;
          (sent, received) = ping_summary (lines_of stdout);
          pe = pe\<lparr>pe_CmdOutput := stdout, pe_Sent := sent, pe_Received := received,
                 pe_Lost := (if received > 0 \<and> sent \<noteq> received then parsePingLostSeqs stdout sent else [])\<rparr>;
          fail = (\<lambda>msg. Some (pe\<lparr>pe_Msg := msg\<rparr>));
          pingOk = (err = None \<and> sent = received); pingFail = (err \<noteq> None \<and> received = 0)
      in if (case err of None \<Rightarrow> False | Some e \<Rightarrow> not_executed e)
         then fail (''ping did not execute: '' @ (case err of None \<Rightarrow> '''' | Some e \<Rightarrow> sx_Msg e))
         else if sent = 0 \<and> err = None then fail ''cannot parse ping output to get sent packets''
         else if pingOk = pingFail
         then fail (case err of Some e \<Rightarrow> sx_Msg e | None \<Rightarrow> ''unexpected ping result'')
         else if pe_Expected pe \<and> \<not> pingOk then fail ''should be reachable but ping failed''
         else if \<not> pe_Expected pe \<and> \<not> pingFail then fail ''should not be reachable but ping succeeded''
         else None)"

text \<open>
  \<open>sem\<close> is the error of taking the semaphore, if it fails. The ping before the one that counts is not
  looked at.
\<close>

definition checkPing ::
    "int \<Rightarrow> string option \<Rightarrow> string \<Rightarrow> string \<Rightarrow> 'w ssh option \<Rightarrow> addr \<Rightarrow> addr option \<Rightarrow> reachability \<Rightarrow> 'w \<Rightarrow> ping_error option \<times> 'w" where
  "checkPing pingCount sem from' to' ssh toIP sourceIP expected w =
     (if pingCount \<le> 0 then (None, w)
      else let pe = \<lparr>pe_Source = from', pe_Destination = to', pe_Expected = re_Reachable expected, pe_Why = expectationWhy expected,
                     pe_Sent = 0, pe_Received = 0, pe_Lost = [], pe_CmdOutput = '''', pe_Msg = ''''\<rparr> in
        case sem of
          Some e \<Rightarrow> (Some (pe\<lparr>pe_Msg := ''acquiring ping semaphore: '' @ e\<rparr>), w)
        | None \<Rightarrow>
            (case retrySSHCmd ssh (ping_cmd ''ping -c 1 -W 1'' sourceIP toIP) w of (_, w) \<Rightarrow>
             case retrySSHCmd ssh (ping_cmd (''ping -i 0.5 -c '' @ show_int pingCount @ '' -W 1 -D'') sourceIP toIP) w of (out, w) \<Rightarrow>
             (ping_verdict pe out, w)))"

section \<open>Ports\<close>

record iperf_error =
  ie_Source :: string
  ie_Destination :: string
  ie_Why :: string
  ie_MinSpeed :: string
  ie_SentSpeed :: string
  ie_RcvdSpeed :: string
  ie_ClientMsg :: string
  ie_ServerMsg :: string
  ie_SendSpeedTooLow :: bool

definition new_iperf_error :: "string \<Rightarrow> string \<Rightarrow> iperf_error" where
  "new_iperf_error src dst = \<lparr>ie_Source = src, ie_Destination = dst, ie_Why = '''', ie_MinSpeed = '''', ie_SentSpeed = '''',
     ie_RcvdSpeed = '''', ie_ClientMsg = '''', ie_ServerMsg = '''', ie_SendSpeedTooLow = False\<rparr>"

definition iperf_error_text :: "iperf_error \<Rightarrow> string" where
  "iperf_error_text ie =
     ''iperf '' @ ie_Source ie @ '' -> '' @ ie_Destination ie @
     (if ie_ClientMsg ie \<noteq> '''' \<and> ie_ServerMsg ie \<noteq> '''' then '': client: '' @ ie_ClientMsg ie @ '', server: '' @ ie_ServerMsg ie
      else if ie_ClientMsg ie \<noteq> '''' then '': client: '' @ ie_ClientMsg ie
      else if ie_ServerMsg ie \<noteq> '''' then '': server: '' @ ie_ServerMsg ie else '''') @
     (if ie_SentSpeed ie \<noteq> '''' then '' (sent '' @ ie_SentSpeed ie @ '', rcvd '' @ ie_RcvdSpeed ie @ '', min expected '' @ ie_MinSpeed ie @ '')''
      else '''') @ whySuffix (ie_Why ie)"

definition ncProbeMarker :: string where "ncProbeMarker = ''NCRC=''"

text \<open>The first line with the marker decides.\<close>

fun nc_return_code :: "string list \<Rightarrow> int option" where
  "nc_return_code [] = None"
| "nc_return_code (line # ls) =
     (if has_prefix (trim_space line) ncProbeMarker then atoi (trim_space (drop (length ncProbeMarker) (trim_space line)))
      else nc_return_code ls)"

definition parseNCReturnCode :: "string \<Rightarrow> int option" where
  "parseNCReturnCode stdout = nc_return_code (lines_of stdout)"

definition port_target :: "addr \<Rightarrow> 16 word \<Rightarrow> string" where
  "port_target ip port = addr_string ip @ '':'' @ itoa (unat port)"

definition client_error :: "iperf_error \<Rightarrow> string \<Rightarrow> iperf_error option" where
  "client_error ie msg = Some (ie\<lparr>ie_ClientMsg := msg\<rparr>)"

definition tcp_verdict :: "iperf_error \<Rightarrow> bool \<Rightarrow> ssh_out \<Rightarrow> iperf_error option" where
  "tcp_verdict ie expected out =
     (case so_Err out of
        Some e \<Rightarrow> client_error ie (''TCP probe could not run: '' @ sx_Msg e @ '': '' @ trim_space (so_Stderr out))
      | None \<Rightarrow>
      (case parseNCReturnCode (so_Stdout out) of
        None \<Rightarrow> client_error ie (''TCP probe produced no result marker (stdout '' @ quoted (trim_space (so_Stdout out)) @ '', stderr '' @
          quoted (trim_space (so_Stderr out)) @ '')'')
      | Some rc \<Rightarrow>
          if rc \<noteq> 0 \<and> rc \<noteq> 1
          then client_error ie (''TCP probe returned unexpected exit code '' @ show_int rc @ '' (stdout '' @ quoted (trim_space (so_Stdout out)) @
            '', stderr '' @ quoted (trim_space (so_Stderr out)) @ '')'')
          else if expected \<and> rc \<noteq> 0 then client_error ie ''should be reachable but TCP connect was refused/timed out''
          else if \<not> expected \<and> rc = 0 then client_error ie ''should not be reachable but TCP connect succeeded''
          else None))"

definition checkTCPPort :: "string option \<Rightarrow> string \<Rightarrow> 'w ssh option \<Rightarrow> addr \<Rightarrow> 16 word \<Rightarrow> bool \<Rightarrow> 'w \<Rightarrow> iperf_error option \<times> 'w" where
  "checkTCPPort sem from' ssh toIP port expected w =
     (let ie = new_iperf_error from' (port_target toIP port) in
      case sem of
        Some e \<Rightarrow> (client_error ie (''acquiring iperf3 semaphore: '' @ e), w)
      | None \<Rightarrow>
          (case retrySSHCmd ssh (''nc -zw2 '' @ addr_string toIP @ '' '' @ itoa (unat port) @ ''; echo '' @ ncProbeMarker @ ''$?'') w of
             (out, w) \<Rightarrow> (tcp_verdict ie expected out, w)))"

section \<open>iperf3 reports\<close>

record iperf_sum =
  is_BitsPerSecond :: rat
  is_Packets :: int
  is_LostPercent :: rat

record iperf_report =
  ir_SumSent :: iperf_sum
  ir_SumReceived :: iperf_sum
  ir_SumSentReverse :: iperf_sum
  ir_SumReceivedReverse :: iperf_sum
  ir_Sum :: iperf_sum
  ir_Error :: string

text \<open>What \<^verbatim>\<open>json.Unmarshal\<close> makes of an output: a report, or the text of its error.\<close>

type_synonym unmarshal = "string \<Rightarrow> string + iperf_report"

definition parseIPerf3Report :: "unmarshal \<Rightarrow> string \<Rightarrow> string + iperf_report" where
  "parseIPerf3Report un s = (case un s of Inl e \<Rightarrow> Inl (''unmarshaling iperf3 report: '' @ e) | Inr r \<Rightarrow> Inr r)"

definition udpDenyLossThreshold :: rat where "udpDenyLossThreshold = 99"
definition udpAllowLossThreshold :: rat where "udpAllowLossThreshold = 90"

definition udp_delivered :: "iperf_report \<Rightarrow> bool" where
  "udp_delivered r \<longleftrightarrow> ir_Error r = '''' \<and> is_Packets (ir_Sum r) > 0 \<and> is_LostPercent (ir_Sum r) < udpAllowLossThreshold"

definition udp_blocked :: "iperf_report \<Rightarrow> bool" where
  "udp_blocked r \<longleftrightarrow> ir_Error r \<noteq> '''' \<or> is_Packets (ir_Sum r) = 0 \<or> is_LostPercent (ir_Sum r) \<ge> udpDenyLossThreshold"

definition udp_counts :: "iperf_report \<Rightarrow> string" where
  "udp_counts r = ''(packets '' @ show_int (is_Packets (ir_Sum r)) @ '', loss '' @ show_fixed1 (is_LostPercent (ir_Sum r)) @ ''%)''"

text \<open>The text of an error that may be nil, with \<^verbatim>\<open>%v\<close>.\<close>

definition show_err :: "ssh_err option \<Rightarrow> string" where
  "show_err e = (case e of None \<Rightarrow> ''<nil>'' | Some e \<Rightarrow> sx_Msg e)"

definition udp_verdict :: "unmarshal \<Rightarrow> iperf_error \<Rightarrow> bool \<Rightarrow> ssh_out \<Rightarrow> iperf_error option" where
  "udp_verdict un ie expected out =
     (case parseIPerf3Report un (so_Stdout out) of
        Inl e \<Rightarrow> client_error ie (''iperf3 UDP probe produced no parseable report (cmd err: '' @ show_err (so_Err out) @ '', stderr: '' @
          quoted (trim_space (so_Stderr out)) @ ''): '' @ e)
      | Inr r \<Rightarrow>
          if expected then
            if udp_delivered r then None
            else if ir_Error r \<noteq> '''' then client_error ie (''should be reachable but UDP probe reported error: '' @ ir_Error r)
            else client_error ie (''should be reachable but UDP datagrams not delivered '' @ udp_counts r)
          else if udp_blocked r then None
          else client_error ie (''should not be reachable but UDP datagrams delivered '' @ udp_counts r))"

definition checkUDPPort ::
    "unmarshal \<Rightarrow> int \<Rightarrow> string option \<Rightarrow> string \<Rightarrow> 'w ssh option \<Rightarrow> addr \<Rightarrow> 16 word \<Rightarrow> bool \<Rightarrow> 'w \<Rightarrow> iperf_error option \<times> 'w" where
  "checkUDPPort un iperfsSeconds sem from' ssh toIP port expected w =
     (let ie = new_iperf_error from' (port_target toIP port) in
      case sem of
        Some e \<Rightarrow> (client_error ie (''acquiring iperf3 semaphore: '' @ e), w)
      | None \<Rightarrow>
          let secs = (if iperfsSeconds \<le> 0 then 3 else iperfsSeconds) in
          (case retrySSHCmd ssh (''sudo docker exec iperf3 timeout '' @ show_int (secs + 25) @ '' iperf3 -u -J -c '' @ addr_string toIP @
              '' -p '' @ itoa (unat port) @ '' -t '' @ show_int secs @ '' -b 10M -l 1000'') w of
             (out, w) \<Rightarrow> (udp_verdict un ie expected out, w)))"

section \<open>Curls\<close>

record curl_error =
  cu_Source :: string
  cu_Expected :: bool
  cu_Output :: string
  cu_Msg :: string
  cu_Why :: string

definition curl_error_text :: "curl_error \<Rightarrow> string" where
  "curl_error_text ce = ''curl from '' @ cu_Source ce @ '': '' @ cu_Msg ce @ '' (expected '' @ show_bool (cu_Expected ce) @ whySuffix (cu_Why ce) @ '')''"

definition curl_verdict :: "curl_error \<Rightarrow> ssh_out \<Rightarrow> curl_error option" where
  "curl_verdict ce out =
     (let stdout = so_Stdout out; err = so_Err out; ce = ce\<lparr>cu_Output := stdout\<rparr>; fail = (\<lambda>msg. Some (ce\<lparr>cu_Msg := msg\<rparr>));
          curlOk = (err = None \<and> str_contains stdout ''301 Moved''); curlFail = (err \<noteq> None \<and> \<not> str_contains stdout ''301 Moved'')
      in if (case err of None \<Rightarrow> False | Some e \<Rightarrow> not_executed e)
         then fail (''curl did not execute: '' @ (case err of None \<Rightarrow> '''' | Some e \<Rightarrow> sx_Msg e))
         else if curlOk = curlFail then fail (case err of Some e \<Rightarrow> sx_Msg e | None \<Rightarrow> ''unexpected curl result'')
         else if cu_Expected ce \<and> \<not> curlOk then fail ''should be reachable but curl failed''
         else if \<not> cu_Expected ce \<and> \<not> curlFail then fail ''should not be reachable but curl succeeded''
         else None)"

text \<open>The curls left; the first one that is not as expected ends the check.\<close>

fun curl_loop :: "nat \<Rightarrow> 'w ssh option \<Rightarrow> string \<Rightarrow> curl_error \<Rightarrow> 'w \<Rightarrow> curl_error option \<times> 'w" where
  "curl_loop 0 ssh cmd ce w = (None, w)"
| "curl_loop (Suc n) ssh cmd ce w =
     (case retrySSHCmd ssh cmd w of (out, w) \<Rightarrow>
      case curl_verdict ce out of Some e \<Rightarrow> (Some e, w) | None \<Rightarrow> curl_loop n ssh cmd ce w)"

definition checkCurl :: "int \<Rightarrow> string option \<Rightarrow> string \<Rightarrow> 'w ssh option \<Rightarrow> string \<Rightarrow> reachability \<Rightarrow> 'w \<Rightarrow> curl_error option \<times> 'w" where
  "checkCurl curlsCount sem from' ssh toIP expected w =
     (if curlsCount \<le> 0 then (None, w)
      else let ce = \<lparr>cu_Source = from', cu_Expected = re_Reachable expected, cu_Output = '''', cu_Msg = '''', cu_Why = expectationWhy expected\<rparr> in
        case sem of
          Some e \<Rightarrow> (Some (ce\<lparr>cu_Msg := ''acquiring curl semaphore: '' @ e\<rparr>), w)
        | None \<Rightarrow> curl_loop (nat curlsCount) ssh (''timeout -v 5 curl --insecure --connect-timeout 3 --silent http://'' @ toIP) ce w)"

section \<open>iperf3 runs\<close>

record iperf_opts =
  io_Seconds :: int
  io_MinSpeed :: rat
  io_DSCP :: "8 word"
  io_TOS :: "8 word"

definition iperf3SpeedRetries :: nat where "iperf3SpeedRetries = 2"

definition applySpeedCheck :: "iperf_error \<Rightarrow> rat \<Rightarrow> rat \<Rightarrow> rat \<Rightarrow> string \<Rightarrow> iperf_error" where
  "applySpeedCheck ie sentBps rcvdBps thresholdBps label =
     (if sentBps < thresholdBps
      then ie\<lparr>ie_SendSpeedTooLow := True, ie_ClientMsg := ''iperf3 '' @ label @ ''send speed too low''\<rparr>
      else if rcvdBps < thresholdBps then ie\<lparr>ie_ClientMsg := ''iperf3 '' @ label @ ''receive speed too low''\<rparr>
      else ie)"

definition isReportableIperfError :: "iperf_error \<Rightarrow> bool" where
  "isReportableIperfError ie \<longleftrightarrow> ie_ClientMsg ie \<noteq> '''' \<or> ie_ServerMsg ie \<noteq> ''''"

definition iperf_cmd :: "iperf_opts \<Rightarrow> addr \<Rightarrow> bool \<Rightarrow> string" where
  "iperf_cmd opts toIP bidir =
     ''sudo docker exec iperf3 timeout '' @ show_int (io_Seconds opts + 25) @ '' iperf3 -P 4 -J -c '' @ addr_string toIP @ '' -t '' @
     show_int (io_Seconds opts) @ (if bidir then '' --bidir'' else '''') @
     (if io_DSCP opts > 0 then '' --dscp '' @ itoa (unat (io_DSCP opts)) else '''') @
     (if io_TOS opts > 0 then '' --tos '' @ itoa (unat (io_TOS opts)) else '''')"

definition with_speeds :: "iperf_error \<Rightarrow> iperf_sum \<Rightarrow> iperf_sum \<Rightarrow> iperf_error" where
  "with_speeds ie sent rcvd = ie\<lparr>ie_SentSpeed := asMbps (is_BitsPerSecond sent), ie_RcvdSpeed := asMbps (is_BitsPerSecond rcvd)\<rparr>"

definition iperf_errors :: "iperf_report \<Rightarrow> rat \<Rightarrow> bool \<Rightarrow> iperf_error \<Rightarrow> iperf_error \<Rightarrow> iperf_error list" where
  "iperf_errors r minSpeed bidir fwd rev' =
     (if minSpeed \<le> 0 then []
      else let threshold = minSpeed * 1000000;
               fwd = applySpeedCheck (with_speeds fwd (ir_SumSent r) (ir_SumReceived r))
                 (is_BitsPerSecond (ir_SumSent r)) (is_BitsPerSecond (ir_SumReceived r)) threshold '''';
               rev' = applySpeedCheck (with_speeds rev' (ir_SumSentReverse r) (ir_SumReceivedReverse r))
                 (is_BitsPerSecond (ir_SumSentReverse r)) (is_BitsPerSecond (ir_SumReceivedReverse r)) threshold ''reverse ''
           in (if isReportableIperfError fwd then [fwd] else []) @ (if bidir \<and> isReportableIperfError rev' then [rev'] else []))"

definition runIPerf3Test ::
    "unmarshal \<Rightarrow> iperf_opts \<Rightarrow> string \<Rightarrow> string \<Rightarrow> 'w ssh option \<Rightarrow> addr \<Rightarrow> rat \<Rightarrow> bool \<Rightarrow> 'w \<Rightarrow> iperf_error list \<times> 'w" where
  "runIPerf3Test un opts from' to' ssh toIP minSpeed bidir w =
     (let minStr = asMbps (minSpeed * 1000000);
          fwd = (new_iperf_error from' to')\<lparr>ie_MinSpeed := minStr\<rparr>; rev' = (new_iperf_error to' from')\<lparr>ie_MinSpeed := minStr\<rparr> in
      case retrySSHCmd ssh (iperf_cmd opts toIP bidir) w of (out, w) \<Rightarrow>
      (case (so_Err out, parseIPerf3Report un (so_Stdout out)) of
         (Some e, Inr r) \<Rightarrow> [fwd\<lparr>ie_ClientMsg := (if ir_Error r \<noteq> '''' then ir_Error r else sx_Msg e @ '': '' @ so_Stderr out)\<rparr>]
       | (Some e, Inl _) \<Rightarrow> [fwd\<lparr>ie_ClientMsg := sx_Msg e @ '': '' @ so_Stderr out\<rparr>]
       | (None, Inl pe) \<Rightarrow> [fwd\<lparr>ie_ClientMsg := ''cannot parse iperf3 report: '' @ pe\<rparr>]
       | (None, Inr r) \<Rightarrow> iperf_errors r minSpeed bidir fwd rev', w))"

text \<open>
  The attempts left. Before another one there is a wait, which tells whether the test was cancelled
  meanwhile.
\<close>

fun iperf_attempts ::
    "('w \<Rightarrow> iperf_error list \<times> 'w) \<Rightarrow> ('w \<Rightarrow> bool \<times> 'w) \<Rightarrow> nat \<Rightarrow> iperf_error list \<Rightarrow> 'w \<Rightarrow> iperf_error list \<times> 'w" where
  "iperf_attempts run wait 0 lastErrors w = (lastErrors, w)"
| "iperf_attempts run wait (Suc left) lastErrors w =
     (case (if left < iperf3SpeedRetries then wait w else (False, w)) of (cancelled, w) \<Rightarrow>
      if cancelled then (lastErrors, w)
      else case run w of (ies, w) \<Rightarrow>
        if ies = [] then ([], w)
        else if \<not> list_all ie_SendSpeedTooLow ies then (ies, w)
        else iperf_attempts run wait left ies w)"

definition checkIPerf ::
    "unmarshal \<Rightarrow> iperf_opts \<Rightarrow> string \<Rightarrow> string \<Rightarrow> 'w ssh option \<Rightarrow> ('w \<Rightarrow> bool \<times> 'w) \<Rightarrow> addr \<Rightarrow> reachability \<Rightarrow> bool \<Rightarrow> 'w \<Rightarrow> iperf_error list \<times> 'w" where
  "checkIPerf un opts from' to' ssh wait toIP r bidir w =
     (if io_Seconds opts \<le> 0 \<or> \<not> re_Reachable r then ([], w)
      else let minSpeed = (if re_Reason r = ReachabilityReasonGatewayPeering then min (io_MinSpeed opts) 5000 else io_MinSpeed opts) in
        iperf_attempts (\<lambda>w. case runIPerf3Test un opts from' to' ssh toIP minSpeed bidir w of
            (ies, w) \<Rightarrow> (map (\<lambda>ie. ie\<lparr>ie_Why := expectationWhy r\<rparr>) ies, w)) wait (iperf3SpeedRetries + 1) [] w)"

section \<open>Port forwarding\<close>

text \<open>
  Before the run through a forwarded port the target is polled. \<open>left\<close> pauses of five seconds fit before
  the deadline of two minutes is passed whatever the commands take; \<open>late\<close> tells whether it has passed
  already, and \<open>wait\<close> whether the test was cancelled in a pause.
\<close>

fun pf_gate :: "'w ssh option \<Rightarrow> string \<Rightarrow> ('w \<Rightarrow> bool) \<Rightarrow> ('w \<Rightarrow> string option \<times> 'w) \<Rightarrow> nat \<Rightarrow> 'w \<Rightarrow> string option \<times> 'w" where
  "pf_gate ssh cmd late wait left w =
     (case retrySSHCmd ssh cmd w of (out, w) \<Rightarrow> case so_Err out of
        None \<Rightarrow> (None, w)
      | Some e \<Rightarrow>
          if left = 0 \<or> late w then (Some (''port-forward target not reachable after 2m0s: '' @ sx_Msg e), w)
          else (case wait w of
              (Some cancelled, w) \<Rightarrow> (Some cancelled, w)
            | (None, w) \<Rightarrow> pf_gate ssh cmd late wait (left - 1) w))"

declare pf_gate.simps [simp del]

definition pf_pauses :: nat where "pf_pauses = 25"

definition pf_cmd :: "int \<Rightarrow> addr \<Rightarrow> 16 word \<Rightarrow> string" where
  "pf_cmd secs ip port = ''toolbox -E LD_PRELOAD=/lib/x86_64-linux-gnu/libgcc_s.so.1 -q timeout '' @ show_int (secs + 25) @ '' iperf3 -J -c '' @
     addr_string ip @ '' -p '' @ itoa (unat port) @ '' -t '' @ show_int secs"

definition runMatrixIperfPortForward ::
    "int \<Rightarrow> string option \<Rightarrow> string \<Rightarrow> 'w ssh option \<Rightarrow> addr \<Rightarrow> 16 word \<Rightarrow> reachability \<Rightarrow> ('w \<Rightarrow> bool) \<Rightarrow> ('w \<Rightarrow> string option \<times> 'w) \<Rightarrow>
       'w \<Rightarrow> iperf_error option \<times> 'w" where
  "runMatrixIperfPortForward secs sem from' ssh ip port expected late wait w =
     (let ie = (new_iperf_error from' (port_target ip port))\<lparr>ie_Why := expectationWhy expected\<rparr> in
      if \<not> re_Reachable expected then
        (case checkTCPPort None from' ssh ip port False w of (r, w) \<Rightarrow> (map_option (\<lambda>e. e\<lparr>ie_Why := expectationWhy expected\<rparr>) r, w))
      else case pf_gate ssh (''nc -zw2 '' @ addr_string ip @ '' '' @ itoa (unat port)) late wait pf_pauses w of
          (Some e, w) \<Rightarrow> (client_error ie e, w)
        | (None, w) \<Rightarrow>
            (case sem of
               Some e \<Rightarrow> (client_error ie (''acquiring iperf3 semaphore: '' @ e), w)
             | None \<Rightarrow>
                 (case retrySSHCmd ssh (pf_cmd secs ip port) w of (out, w) \<Rightarrow>
                  (case so_Err out of Some e \<Rightarrow> (client_error ie (sx_Msg e), w) | None \<Rightarrow> (None, w)))))"

section \<open>What the probes observe\<close>

text \<open>
  The lab the probes run in: the sessions, the world each probe starts in, the semaphores, the clock, and the
  options beyond those of the matrix.
\<close>

datatype probe_id = PingId string string addr | IperfId pair_args | OtherId probe

record 'w lab =
  lb_SSH :: "string \<Rightarrow> 'w ssh option"
  lb_World :: "probe_id \<Rightarrow> 'w"
  lb_Sem :: "probe_id \<Rightarrow> string option"
  lb_Late :: "'w \<Rightarrow> bool"
  lb_Wait :: "'w \<Rightarrow> string option \<times> 'w"
  lb_Unmarshal :: unmarshal
  lb_Iperf :: iperf_opts

definition cancelled :: "('w \<Rightarrow> string option \<times> 'w) \<Rightarrow> 'w \<Rightarrow> bool \<times> 'w" where
  "cancelled wait w = (case wait w of (e, w) \<Rightarrow> (e \<noteq> None, w))"

definition observe_ping :: "test_opts \<Rightarrow> 'w lab \<Rightarrow> string \<Rightarrow> string \<Rightarrow> addr \<Rightarrow> reachability \<Rightarrow> go_err option" where
  "observe_ping opts L from' to' ip r =
     map_option (\<lambda>pe. Errf (ping_error_text pe) [])
       (fst (checkPing (to_PingsCount opts) (lb_Sem L (PingId from' to' ip)) from' to' (lb_SSH L from') ip None r (lb_World L (PingId from' to' ip))))"

definition observe_iperf :: "test_opts \<Rightarrow> 'w lab \<Rightarrow> pair_args \<Rightarrow> go_err list" where
  "observe_iperf opts L a =
     (case lb_Sem L (IperfId a) of
        Some e \<Rightarrow> [Wrapf ''acquiring iperf3 semaphore: %w'' [] (Errf e [])]
      | None \<Rightarrow> map (\<lambda>ie. Errf (iperf_error_text ie) [])
          (fst (checkIPerf (lb_Unmarshal L) ((lb_Iperf L)\<lparr>io_Seconds := to_IPerfsSeconds opts\<rparr>) (pa_From a) (pa_To a) (lb_SSH L (pa_From a)) (cancelled (lb_Wait L)) (pa_ToIP a)
             (pa_Expected a) (pa_Bidir a) (lb_World L (IperfId a)))))"

definition observe_other :: "test_opts \<Rightarrow> 'w lab \<Rightarrow> probe \<Rightarrow> go_err option" where
  "observe_other opts L p =
     (let w = lb_World L (OtherId p); sem = lb_Sem L (OtherId p); secs = to_IPerfsSeconds opts;
          iperf = (\<lambda>r. map_option (\<lambda>ie. Errf (iperf_error_text ie) []) (fst r)) in
      case p of
        Curl name r \<Rightarrow> map_option (\<lambda>ce. Errf (curl_error_text ce) [])
          (fst (checkCurl (to_CurlsCount opts) sem name (lb_SSH L name) ''1.0.0.1'' r w))
      | PortForward name ip port r \<Rightarrow> iperf (runMatrixIperfPortForward secs sem name (lb_SSH L name) ip port r (lb_Late L) (lb_Wait L) w)
      | TCPPort name ip port expected \<Rightarrow> iperf (checkTCPPort sem name (lb_SSH L name) ip port expected w)
      | UDPPort name ip port expected \<Rightarrow> iperf (checkUDPPort (lb_Unmarshal L) secs sem name (lb_SSH L name) ip port expected w)
      | _ \<Rightarrow> None)"

definition observe :: "test_opts \<Rightarrow> 'w lab \<Rightarrow> observation" where
  "observe opts L = \<lparr>obs_ping = observe_ping opts L, obs_iperf = observe_iperf opts L, obs_other = observe_other opts L\<rparr>"

end
