(* ===== verification/ProbeProps.thy ===== *)
theory ProbeProps
  imports Probes MatrixProps EndpointsProps
begin

text \<open>
  The verdicts of the probes: when each is as expected, that none is as expected both ways, that the ping
  output is read right, and what a passing test means for the pairs of the matrix.
\<close>

section \<open>Verdicts\<close>

text \<open>The outcome of a ping that is taken for an answer, and for none.\<close>

definition ping_accepts :: "bool \<Rightarrow> ssh_out \<Rightarrow> bool" where
  "ping_accepts expected out =
     (case ping_summary (lines_of (so_Stdout out)) of (sent, received) \<Rightarrow>
        if expected then so_Err out = None \<and> sent = received \<and> sent \<noteq> 0
        else received = 0 \<and> (case so_Err out of None \<Rightarrow> False | Some e \<Rightarrow> \<not> not_executed e))"

lemma ping_verdict_None: "ping_verdict pe out = None \<longleftrightarrow> ping_accepts (pe_Expected pe) out"
  by (cases "so_Err out"; cases "pe_Expected pe"; cases "ping_summary (lines_of (so_Stdout out))")
    (auto simp: ping_verdict_def ping_accepts_def Let_def)

definition ping_out :: "int \<Rightarrow> 'w ssh option \<Rightarrow> addr \<Rightarrow> addr option \<Rightarrow> 'w \<Rightarrow> ssh_out" where
  "ping_out n ssh ip source w =
     fst (retrySSHCmd ssh (ping_cmd (''ping -i 0.5 -c '' @ show_int n @ '' -W 1 -D'') source ip)
       (snd (retrySSHCmd ssh (ping_cmd ''ping -c 1 -W 1'' source ip) w)))"

lemma checkPing_None:
  assumes "0 < n"
  shows "fst (checkPing n sem f t ssh ip source r w) = None \<longleftrightarrow> sem = None \<and> ping_accepts (re_Reachable r) (ping_out n ssh ip source w)"
  using assms by (auto simp: checkPing_def Let_def ping_out_def ping_verdict_None split: option.splits prod.splits)

definition tcp_accepts :: "bool \<Rightarrow> ssh_out \<Rightarrow> bool" where
  "tcp_accepts expected out \<longleftrightarrow> so_Err out = None \<and> parseNCReturnCode (so_Stdout out) = Some (if expected then 0 else 1)"

lemma tcp_verdict_None: "tcp_verdict ie expected out = None \<longleftrightarrow> tcp_accepts expected out"
  by (auto simp: tcp_verdict_def tcp_accepts_def client_error_def split: option.splits)

definition tcp_out :: "'w ssh option \<Rightarrow> addr \<Rightarrow> 16 word \<Rightarrow> 'w \<Rightarrow> ssh_out" where
  "tcp_out ssh ip port w = fst (retrySSHCmd ssh (''nc -zw2 '' @ addr_string ip @ '' '' @ itoa (unat port) @ ''; echo '' @ ncProbeMarker @ ''$?'') w)"

lemma checkTCP_None: "fst (checkTCPPort sem f ssh ip port e w) = None \<longleftrightarrow> sem = None \<and> tcp_accepts e (tcp_out ssh ip port w)"
  by (cases sem) (simp_all add: checkTCPPort_def Let_def tcp_out_def tcp_verdict_None client_error_def split: prod.split)

definition udp_accepts :: "unmarshal \<Rightarrow> bool \<Rightarrow> ssh_out \<Rightarrow> bool" where
  "udp_accepts un expected out =
     (case un (so_Stdout out) of Inl _ \<Rightarrow> False | Inr r \<Rightarrow> if expected then udp_delivered r else udp_blocked r)"

lemma udp_verdict_None: "udp_verdict un ie expected out = None \<longleftrightarrow> udp_accepts un expected out"
  by (auto simp: udp_verdict_def udp_accepts_def parseIPerf3Report_def client_error_def split: sum.splits)

definition udp_out :: "int \<Rightarrow> 'w ssh option \<Rightarrow> addr \<Rightarrow> 16 word \<Rightarrow> 'w \<Rightarrow> ssh_out" where
  "udp_out iperfsSeconds ssh ip port w =
     (let secs = (if iperfsSeconds \<le> 0 then 3 else iperfsSeconds) in
      fst (retrySSHCmd ssh (''sudo docker exec iperf3 timeout '' @ show_int (secs + 25) @ '' iperf3 -u -J -c '' @ addr_string ip @
        '' -p '' @ itoa (unat port) @ '' -t '' @ show_int secs @ '' -b 10M -l 1000'') w))"

lemma checkUDP_None: "fst (checkUDPPort un secs sem f ssh ip port e w) = None \<longleftrightarrow> sem = None \<and> udp_accepts un e (udp_out secs ssh ip port w)"
  by (cases sem) (simp_all add: checkUDPPort_def Let_def udp_out_def udp_verdict_None client_error_def split: prod.split)

definition curl_accepts :: "bool \<Rightarrow> ssh_out \<Rightarrow> bool" where
  "curl_accepts expected out \<longleftrightarrow>
     (if expected then so_Err out = None \<and> str_contains (so_Stdout out) ''301 Moved''
      else (case so_Err out of None \<Rightarrow> False | Some e \<Rightarrow> \<not> not_executed e) \<and> \<not> str_contains (so_Stdout out) ''301 Moved'')"

lemma curl_verdict_None: "curl_verdict ce out = None \<longleftrightarrow> curl_accepts (cu_Expected ce) out"
  by (cases "so_Err out"; cases "cu_Expected ce"; cases "str_contains (so_Stdout out) ''301 Moved''")
    (auto simp: curl_verdict_def curl_accepts_def Let_def)

text \<open>The outcome of the first curl.\<close>

definition curl_out :: "'w ssh option \<Rightarrow> string \<Rightarrow> 'w \<Rightarrow> ssh_out" where
  "curl_out ssh ip w = fst (retrySSHCmd ssh (''timeout -v 5 curl --insecure --connect-timeout 3 --silent http://'' @ ip) w)"

lemma curl_loop_first:
  "fst (curl_loop (Suc n) ssh cmd ce w) = None \<Longrightarrow> curl_accepts (cu_Expected ce) (fst (retrySSHCmd ssh cmd w))"
  by (auto simp: curl_verdict_None [symmetric] split: prod.splits option.splits)

lemma checkCurl_first:
  assumes "0 < curls" "fst (checkCurl curls sem f ssh ip r w) = None"
  shows "curl_accepts (re_Reachable r) (curl_out ssh ip w)"
proof -
  obtain n where n: "nat curls = Suc n" using assms(1) by (cases "nat curls") auto
  from assms show ?thesis
    by (cases sem) (auto simp: checkCurl_def curl_out_def Let_def n simp del: curl_loop.simps dest!: curl_loop_first)
qed

text \<open>No outcome is as expected both ways.\<close>

lemma udp_exclusive: "\<not> (udp_delivered r \<and> udp_blocked r)"
  by (auto simp: udp_delivered_def udp_blocked_def udpDenyLossThreshold_def udpAllowLossThreshold_def)

lemma accepts_exclusive:
  "\<not> (ping_accepts True out \<and> ping_accepts False out)" "\<not> (tcp_accepts True out \<and> tcp_accepts False out)"
  "\<not> (udp_accepts un True out \<and> udp_accepts un False out)" "\<not> (curl_accepts True out \<and> curl_accepts False out)"
  using udp_exclusive
  by (auto simp: ping_accepts_def tcp_accepts_def udp_accepts_def curl_accepts_def split: prod.splits sum.splits option.splits)

section \<open>Errors of an iperf run\<close>

lemma iperf_errors_length: "length (iperf_errors r s b f g) \<le> 2"
  by (simp add: iperf_errors_def Let_def)

lemma runIPerf3Test_length: "length (fst (runIPerf3Test un opts f t ssh ip s b w)) \<le> 2"
  using iperf_errors_length by (auto simp: runIPerf3Test_def Let_def split: prod.splits option.splits sum.splits)

lemma iperf_attempts_length:
  assumes "\<And>w. length (fst (run w)) \<le> k"
  shows "length errs \<le> k \<Longrightarrow> length (fst (iperf_attempts run wait n errs w)) \<le> k"
proof (induction n arbitrary: errs w)
  case (Suc n)
  have "length ies \<le> k" if "run w = (ies, w')" for w ies w' using assms [of w] that by simp
  with Suc show ?case by (auto split: prod.splits)
qed simp

lemma checkIPerf_length: "length (fst (checkIPerf un opts f t ssh wait ip r b w)) \<le> 2"
  unfolding checkIPerf_def
  by (auto simp: Let_def split: prod.splits intro!: iperf_attempts_length) (use runIPerf3Test_length in \<open>metis fst_conv\<close>)+

lemma observe_iperf_length: "length (obs_iperf (observe opts L) a) \<le> 2"
  using checkIPerf_length by (auto simp: observe_def observe_iperf_def split: option.splits)

section \<open>Reading the output of a ping\<close>

text \<open>The lines of an output: replies, stamped or not, and lines that are none.\<close>

datatype ping_line = Reply string string nat string | Other string

fun print_line :: "ping_line \<Rightarrow> string" where
  "print_line (Reply stamp host n rest) = stamp @ ''64 bytes from '' @ host @ '': icmp_seq='' @ itoa n @ '' '' @ rest"
| "print_line (Other l) = l"

fun line_ok :: "ping_line \<Rightarrow> bool" where
  "line_ok (Reply stamp host n rest) \<longleftrightarrow> n < 2 ^ 63 \<and> CHR ''i'' \<notin> set stamp \<and> CHR ''i'' \<notin> set host \<and>
     CHR 0x0A \<notin> set stamp \<and> CHR 0x0A \<notin> set host \<and> CHR 0x0A \<notin> set rest"
| "line_ok (Other l) \<longleftrightarrow> \<not> str_contains l ''bytes from'' \<and> CHR 0x0A \<notin> set l"

fun line_seq :: "ping_line \<Rightarrow> int option" where
  "line_seq (Reply stamp host n rest) = Some (int n)"
| "line_seq (Other l) = None"

lemma has_prefix_append: "has_prefix (p @ s) p"
  by (simp add: has_prefix_def)

lemma str_index_append: "c \<notin> set pre \<Longrightarrow> str_index (pre @ (c # p) @ s) (c # p) = Some (length pre)"
  by (induction pre) (auto simp: has_prefix_def)

lemma str_contains_append: "str_contains (pre @ p @ s) p"
proof (induction pre)
  case Nil
  show ?case using has_prefix_append [of p s] by (cases "p @ s") (auto simp: str_contains_def)
qed (simp add: str_contains_def)

lemma atoi_itoa: "n < 2 ^ 63 \<Longrightarrow> atoi (itoa n) = Some (int n)"
proof -
  assume n: "n < 2 ^ 63"
  have d: "list_all is_digit (itoa n)" by (auto simp: list_all_iff dest: itoa_digits)
  obtain c cs where c: "itoa n = c # cs" by (cases "itoa n") auto
  have "is_digit c" using d c by simp
  then have "c \<noteq> CHR ''-''" "c \<noteq> CHR ''+''" by (auto simp: is_digit_def)
  moreover have "int n < 2 ^ 63" using n by (metis of_nat_less_iff of_nat_numeral of_nat_power)
  moreover have "digits_val (c # cs) = n" using digits_val_itoa [of n] c by simp
  ultimately show ?thesis using d by (simp add: atoi_def c)
qed

lemma drop_two: "drop (length a + length b) (a @ b @ r) = r"
  by simp

lemma reply_seq_print: "line_ok l \<Longrightarrow> reply_seq (print_line l) = line_seq l"
proof (cases l)
  case (Reply stamp host n rest)
  assume ok: "line_ok l"
  let ?pre = "stamp @ ''64 bytes from '' @ host @ '': ''"
  have p: "print_line l = ?pre @ ''icmp_seq='' @ (itoa n @ '' '' @ rest)" by (simp add: Reply)
  have "CHR ''i'' \<notin> set ?pre" using ok by (simp add: Reply)
  from str_index_append [OF this, of "''cmp_seq=''"] have i: "str_index (print_line l) ''icmp_seq='' = Some (length ?pre)"
    by (simp add: p del: str_index.simps)
  have "print_line l = (stamp @ ''64 '') @ ''bytes from'' @ ('' '' @ host @ '': icmp_seq='' @ itoa n @ '' '' @ rest)" by (simp add: Reply)
  then have b: "str_contains (print_line l) ''bytes from''" by (simp only: str_contains_append)
  have d: "drop (length ?pre + length ''icmp_seq='') (print_line l) = itoa n @ '' '' @ rest" unfolding p by (rule drop_two)
  have "\<forall>c \<in> set (itoa n). \<not> is_space c" using digit_not_space itoa_digits by blast
  then have "fields_of (itoa n @ '' '' @ rest) = itoa n # filter (\<lambda>w. w \<noteq> []) (words_of rest)"
    by (simp add: fields_of_def words_of_cons is_space_def)
  with ok show ?thesis unfolding reply_seq_def i d option.case
    by (simp only: b not_True_eq_False if_False) (simp add: Reply atoi_itoa)
next
  case (Other s)
  assume "line_ok l"
  with Other show ?thesis by (simp add: reply_seq_def)
qed

lemma newline_not_digit: "CHR 0x0A \<notin> set (itoa n)"
  using itoa_digits [of "CHR 0x0A" n] by (auto simp: is_digit_def)

lemma print_line_one: "line_ok l \<Longrightarrow> CHR 0x0A \<notin> set (print_line l)"
  by (cases l) (auto simp: newline_not_digit)

lemma lines_of_print:
  assumes "ls \<noteq> []" "list_all line_ok ls"
  shows "lines_of (join_with [CHR 0x0A] (map print_line ls)) = map print_line ls"
proof -
  obtain l ls' where ls: "ls = l # ls'" using assms(1) by (cases ls) auto
  have "\<And>x. x \<in> set (print_line l # map print_line ls') \<Longrightarrow> CHR 0x0A \<notin> set x"
    using assms(2) print_line_one by (auto simp: ls list_all_iff)
  then have "split_on (CHR 0x0A) (join_with [CHR 0x0A] (print_line l # map print_line ls')) = print_line l # map print_line ls'"
    by (rule split_on_join)
  then show ?thesis by (simp add: lines_of_def ls)
qed

lemma map_filter_replies: "list_all line_ok ls \<Longrightarrow> List.map_filter reply_seq (map print_line ls) = List.map_filter line_seq ls"
  by (induction ls) (auto simp: List.map_filter_def reply_seq_print)

section \<open>Properties\<close>

text \<open>
  C16. No probe is as expected both ways: on the same server and in the same world a ping, a TCP or UDP port
  check or a curl that passes where the other end is expected to be reachable fails where it is not, and the
  other way round. So an outcome never supports both a peering and its absence.
\<close>

theorem probe_verdicts_exclusive:
  assumes "0 < pings" "0 < curls" "re_Reachable yes" "\<not> re_Reachable no"
  shows "(fst (checkPing pings sem f t ssh ip source yes w) \<noteq> None \<or> fst (checkPing pings sem f t ssh ip source no w) \<noteq> None) \<and>
    (fst (checkTCPPort sem f ssh ip port True w) \<noteq> None \<or> fst (checkTCPPort sem f ssh ip port False w) \<noteq> None) \<and>
    (fst (checkUDPPort un secs sem f ssh ip port True w) \<noteq> None \<or> fst (checkUDPPort un secs sem f ssh ip port False w) \<noteq> None) \<and>
    (fst (checkCurl curls sem f ssh addr yes w) \<noteq> None \<or> fst (checkCurl curls sem f ssh addr no w) \<noteq> None)"
proof (intro conjI)
  show "fst (checkPing pings sem f t ssh ip source yes w) \<noteq> None \<or> fst (checkPing pings sem f t ssh ip source no w) \<noteq> None"
    using accepts_exclusive(1) assms(3,4) by (simp add: checkPing_None [OF assms(1)])
  show "fst (checkTCPPort sem f ssh ip port True w) \<noteq> None \<or> fst (checkTCPPort sem f ssh ip port False w) \<noteq> None"
    using accepts_exclusive(2) by (simp add: checkTCP_None)
  show "fst (checkUDPPort un secs sem f ssh ip port True w) \<noteq> None \<or> fst (checkUDPPort un secs sem f ssh ip port False w) \<noteq> None"
    using accepts_exclusive(3) by (simp add: checkUDP_None)
  show "fst (checkCurl curls sem f ssh addr yes w) \<noteq> None \<or> fst (checkCurl curls sem f ssh addr no w) \<noteq> None"
    using checkCurl_first [OF assms(2), of sem f ssh addr yes w] checkCurl_first [OF assms(2), of sem f ssh addr no w]
      accepts_exclusive(4) [of "curl_out ssh addr w"] assms(3,4) by auto
qed

text \<open>
  C8. A test that passes has seen what the matrix says: with pings enabled, for any two endpoints of different
  servers among the sources and destinations, whose expectation is neither a forwarded port nor scoped to
  protocols, the ping from one to the other had as many replies as packets, and at least one, if the matrix
  allows the pair, and otherwise ran to its end with no reply at all.
\<close>

theorem passing_test_pings:
  assumes "TestConnectivityWithMatrix opts h (Some m) ssh (observe opts L) = Inr ()" "0 < to_PingsCount opts"
    and "src \<in> set (cm_AllEndpoints m)" "dst \<in> set (cm_AllEndpoints m)" "src \<noteq> dst"
    and "server_at h src = Some s" "server_at h dst = Some d" "\<not> IsSameEndpointNode h src dst"
    and "inSources opts (se_Name s)" "inDestinations opts (se_Name d)"
    and "\<not> HasProtoPortEntries m src dst" "\<not> port_forward (Lookup m src dst any_port)"
  shows "ping_accepts (ce_Verdict (Lookup m src dst any_port) = VerdictAllow)
    (ping_out (to_PingsCount opts) (lb_SSH L (se_Name s)) (target_ip (Lookup m src dst any_port) d) None
      (lb_World L (PingId (se_Name s) (se_Name d) (target_ip (Lookup m src dst any_port) d))))"
proof -
  let ?e = "Lookup m src dst any_port"
  from assms(1) obtain probes where probes: "matrix_test_probes opts h (Some m) ssh = Inr probes"
    and none: "concat (map (run_probe opts (observe opts L)) probes) = []"
    by (auto simp: TestConnectivityWithMatrix_def ok_iff Let_def split: if_splits)
  from probes assms(2) obtain ss where ss: "collect_probes (server_probe opts h m) (List.product (cm_AllEndpoints m) (cm_AllEndpoints m)) = Inr ss"
    "set ss \<subseteq> set probes"
    by (auto simp: matrix_test_probes_def ok_iff Let_def enabled_def runMatrixServerServerPhase_def)
  have "(src, dst) \<in> set (List.product (cm_AllEndpoints m) (cm_AllEndpoints m))" using assms(3,4) by simp
  from collect_probes_all [OF ss(1) this] obtain ys where ys: "server_probe opts h m (src, dst) = Inr ys" "set ys \<subseteq> set ss" by blast
  from ys(1) assms(5-12) obtain a where a: "ys = [PingIperf a]" "pa_From a = se_Name s" "pa_To a = se_Name d" "pa_ToIP a = target_ip ?e d"
    "re_Reachable (pa_Expected a) = (ce_Verdict ?e = VerdictAllow)"
    by (auto simp: server_probe_def Let_def reachabilityFromExpectation_def split: if_splits)
  have "PingIperf a \<in> set probes" using a(1) ys(2) ss(2) by auto
  with none have "run_probe opts (observe opts L) (PingIperf a) = []" by (auto simp: concat_eq_Nil_conv)
  then have "obs_ping (observe opts L) (pa_From a) (pa_To a) (pa_ToIP a) (pa_Expected a) = None"
    by (auto simp: run_probe_def runPingIperfPair_def split: option.splits)
  then show ?thesis by (simp add: observe_def observe_ping_def a(2-5) checkPing_None [OF assms(2)])
qed

text \<open>
  C39. Reading back what a ping printed: from an output of reply lines and others, the lost sequence numbers are
  exactly those up to the number sent that no reply line has, in order.
\<close>

theorem lost_seqs_roundtrip:
  assumes "ls \<noteq> []" "list_all line_ok ls"
  shows "parsePingLostSeqs (join_with [CHR 0x0A] (map print_line ls)) sent =
    filter (\<lambda>n. Some n \<notin> line_seq ` set ls) [1..sent]"
proof -
  have seen: "n \<in> set (List.map_filter line_seq ls) \<longleftrightarrow> Some n \<in> line_seq ` set ls" for n
    by (induction ls) (auto simp: List.map_filter_def)
  show ?thesis
    unfolding parsePingLostSeqs_def lines_of_print [OF assms] map_filter_replies [OF assms(2)] Let_def seen by simp
qed

text \<open>
  C19. The channel the probes send their errors to is large enough: it is read only once all of them have
  ended, and whatever they find on the servers, none of them waits for it.
\<close>

theorem errors_fit_channel:
  assumes "matrix_test_probes opts h (Some m) ssh = Inr probes"
  shows "length (concat (map (run_probe opts (observe opts L)) probes)) \<le> err_capacity m"
  using assms by (rule errors_fit) (rule observe_iperf_length)

section \<open>Probes that cannot run\<close>

text \<open>A session that only has errors without an exit status.\<close>

lemma retry_broken:
  assumes "\<And>cmd w. \<exists>e. so_Err (fst (run cmd w)) = Some e \<and> sx_Status e = None"
  shows "\<exists>e w0 msg. so_Stdout (fst (retry_loop run cmd (Suc n) out w)) = so_Stdout (fst (run cmd w0)) \<and>
    so_Err (fst (retry_loop run cmd (Suc n) out w)) = Some \<lparr>sx_Msg = msg, sx_Status = None\<rparr>"
proof (induction n arbitrary: out w)
  case 0
  obtain o' w' e where "run cmd w = (o', w')" "so_Err o' = Some e" "sx_Status e = None" using assms [of cmd w] by (metis prod.collapse)
  then show ?case by (cases e) (auto intro: exI [of _ w])
next
  case (Suc n)
  obtain o' w' e where o': "run cmd w = (o', w')" "so_Err o' = Some e" "sx_Status e = None" using assms [of cmd w] by (metis prod.collapse)
  show ?case
  proof (cases "ssh_trouble o' e")
    case True
    with o' Suc [of o' w'] show ?thesis by (simp del: retry_loop.simps add: retry_loop.simps(2) [of run cmd "Suc n"])
  next
    case False
    with o' show ?thesis by (cases e) (auto intro: exI [of _ w])
  qed
qed

lemma retrySSH_broken:
  assumes "\<And>cmd w. \<exists>e. so_Err (fst (run cmd w)) = Some e \<and> sx_Status e = None"
  shows "\<exists>w0 msg. so_Stdout (fst (retrySSHCmd (Some run) cmd w)) = so_Stdout (fst (run cmd w0)) \<and>
    so_Err (fst (retrySSHCmd (Some run) cmd w)) = Some \<lparr>sx_Msg = msg, sx_Status = None\<rparr>"
  using retry_broken [where run = run and cmd = cmd and n = 2 and out = no_output and w = w, OF assms] by (simp add: retrySSHCmd_def maxRetries_def numeral_3_eq_3 numeral_2_eq_2)

lemma silent_not_accepted:
  assumes "\<exists>msg. so_Err out = Some \<lparr>sx_Msg = msg, sx_Status = None\<rparr>"
  shows "\<not> ping_accepts e out" "\<not> tcp_accepts e out" "\<not> curl_accepts e out"
  using assms by (auto simp: ping_accepts_def tcp_accepts_def curl_accepts_def not_executed_def ExitStatus_def split: prod.splits)

text \<open>
  A probe whose command does not come to an end on the server is no answer: if every command of a session
  fails without an exit status, and prints no report, no ping, port check or curl over it passes, whatever is
  expected.
\<close>

theorem unexecuted_probes_fail:
  assumes "\<And>cmd w. \<exists>e. so_Err (fst (run cmd w)) = Some e \<and> sx_Status e = None"
    and "\<And>cmd w. \<exists>e. un (so_Stdout (fst (run cmd w))) = Inl e" and "0 < pings" "0 < curls"
  shows "fst (checkPing pings sem f t (Some run) ip source r w) \<noteq> None \<and> fst (checkTCPPort sem f (Some run) ip port e w) \<noteq> None \<and>
    fst (checkUDPPort un secs sem f (Some run) ip port e w) \<noteq> None \<and> fst (checkCurl curls sem f (Some run) addr r w) \<noteq> None"
proof (intro conjI)
  have broken: "\<exists>msg. so_Err (fst (retrySSHCmd (Some run) cmd w)) = Some \<lparr>sx_Msg = msg, sx_Status = None\<rparr>" for cmd w
    using retrySSH_broken [where run = run and cmd = cmd and w = w, OF assms(1)] by blast
  have unread: "\<exists>e. un (so_Stdout (fst (retrySSHCmd (Some run) cmd w))) = Inl e" for cmd w
  proof -
    obtain w0 where "so_Stdout (fst (retrySSHCmd (Some run) cmd w)) = so_Stdout (fst (run cmd w0))"
      using retrySSH_broken [where run = run and cmd = cmd and w = w, OF assms(1)] by blast
    then show ?thesis using assms(2) [of cmd w0] by simp
  qed
  note silent = silent_not_accepted [OF broken]
  show "fst (checkPing pings sem f t (Some run) ip source r w) \<noteq> None"
    unfolding checkPing_None [OF assms(3)] ping_out_def using silent(1) by blast
  show "fst (checkTCPPort sem f (Some run) ip port e w) \<noteq> None"
    unfolding checkTCP_None tcp_out_def using silent(2) by blast
  show "fst (checkUDPPort un secs sem f (Some run) ip port e w) \<noteq> None"
  proof -
    obtain x where "un (so_Stdout (udp_out secs (Some run) ip port w)) = Inl x" unfolding udp_out_def Let_def using unread by blast
    then show ?thesis by (simp add: checkUDP_None udp_accepts_def)
  qed
  show "fst (checkCurl curls sem f (Some run) addr r w) \<noteq> None"
    using checkCurl_first [OF assms(4), of sem f "Some run" addr r w] silent(3) unfolding curl_out_def by blast
qed

section \<open>Examples\<close>

text \<open>A session with one answer to everything.\<close>

definition answers :: "ssh_out \<Rightarrow> unit ssh" where "answers out = (\<lambda>cmd w. (out, w))"

definition good_out :: ssh_out where
  "good_out = no_output\<lparr>so_Stdout := ''3 packets transmitted, 3 received, 0% packet loss, time 2003ms''\<rparr>"

definition broken_out :: ssh_out where
  "broken_out = no_output\<lparr>so_Err := Some \<lparr>sx_Msg = ''context deadline exceeded'', sx_Status = None\<rparr>\<rparr>"

definition quick_report :: iperf_report where
  "quick_report = (let s = \<lparr>is_BitsPerSecond = 0, is_Packets = 0, is_LostPercent = 0\<rparr> in
     \<lparr>ir_SumSent = s, ir_SumReceived = s, ir_SumSentReverse = s, ir_SumReceivedReverse = s, ir_Sum = s, ir_Error = ''''\<rparr>)"

definition example_lab :: "unit lab" where
  "example_lab = \<lparr>lb_SSH = \<lambda>_. Some (answers good_out), lb_World = \<lambda>_. (), lb_Sem = \<lambda>_. None, lb_Late = \<lambda>_. False,
     lb_Wait = \<lambda>w. (None, w), lb_Unmarshal = \<lambda>_. Inr quick_report,
     lb_Iperf = \<lparr>io_Seconds = 5, io_MinSpeed = 0, io_DSCP = 0, io_TOS = 0\<rparr>\<rparr>"

lemma retry_answers: "so_Err out = None \<Longrightarrow> retrySSHCmd (Some (answers out)) cmd w = (out, w)"
  by (simp add: retrySSHCmd_def maxRetries_def answers_def numeral_3_eq_3)

lemma good_ping: "ping_accepts True good_out"
  by code_simp

definition yes :: reachability where "yes = \<lparr>re_Reachable = True, re_Reason = '''', re_Peering = ''''\<rparr>"

lemma lab_pings: "0 < n \<Longrightarrow> re_Reachable r \<Longrightarrow> fst (checkPing n None f t (Some (answers good_out)) ip source r w) = None"
  using good_ping by (simp add: checkPing_None ping_out_def retry_answers good_out_def no_output_def)

theorem probe_verdicts_exclusive_witness:
  "fst (checkPing 3 None ''server-1'' ''server-2'' (Some (answers good_out)) (V4 0x0A000205) None unreachable ()) \<noteq> None"
proof -
  have r: "re_Reachable yes" "\<not> re_Reachable unreachable" by (simp_all add: yes_def unreachable_def)
  have "fst (checkPing 3 None ''server-1'' ''server-2'' (Some (answers good_out)) (V4 0x0A000205) None yes ()) = None"
    by (rule lab_pings) (simp_all add: yes_def)
  with probe_verdicts_exclusive [where pings = 3 and curls = 1 and sem = None and f = "''server-1''" and t = "''server-2''" and
      ssh = "Some (answers good_out)" and ip = "V4 0x0A000205" and source = None and w = "()", OF _ _ r]
  show ?thesis by simp
qed

lemma example_test_passes:
  "TestConnectivityWithMatrix example_opts example_heap (Some open_matrix) [''server-1'', ''server-2''] (observe example_opts example_lab) = Inr ()"
proof -
  have iperf: "fst (checkIPerf (\<lambda>_. Inr quick_report) \<lparr>io_Seconds = 5, io_MinSpeed = 0, io_DSCP = 0, io_TOS = 0\<rparr> f t
      (Some (answers good_out)) wt ip \<lparr>re_Reachable = True, re_Reason = '''', re_Peering = ''''\<rparr> True ()) = []" for f t wt ip
    by (simp add: checkIPerf_def runIPerf3Test_def retry_answers good_out_def no_output_def parseIPerf3Report_def iperf_errors_def Let_def
        ReachabilityReasonGatewayPeering_def iperf3SpeedRetries_def numeral_3_eq_3)
  have run: "run_probe example_opts (observe example_opts example_lab) (open_pair f t ip) = []" for f t ip
    by (simp add: run_probe_def open_pair_def runPingIperfPair_def observe_def observe_ping_def observe_iperf_def example_lab_def
        example_opts_def lab_pings iperf)
  show ?thesis unfolding TestConnectivityWithMatrix_def open_test by (simp add: run)
qed

theorem passing_test_pings_witness:
  "ping_accepts True (ping_out 5 (Some (answers good_out)) (V4 0x0A000205) None ())"
proof -
  have prems: "0 < to_PingsCount example_opts" "0 \<in> set (cm_AllEndpoints open_matrix)" "1 \<in> set (cm_AllEndpoints open_matrix)" "(0::ptr) \<noteq> 1"
    "\<not> IsSameEndpointNode example_heap 0 1" "\<not> HasProtoPortEntries open_matrix 0 1" "\<not> port_forward (Lookup open_matrix 0 1 any_port)"
    and ins: "inSources example_opts n" "inDestinations example_opts n" for n
    by (simp_all add: open_lookups open_lookups(1) [unfolded One_nat_def] open_sel port_forward_def example_opts_def IsSameEndpointNode_def
        example_servers example_servers(2) [unfolded One_nat_def] inSources_def inDestinations_def)
  from passing_test_pings [OF example_test_passes prems(1-4) example_servers(1,2) prems(5) ins prems(6,7)]
  show ?thesis
    by (simp add: open_lookups open_lookups(1) [unfolded One_nat_def] open_sel target_ip_def example_lab_def example_opts_def)
qed

definition example_lines :: "ping_line list" where
  "example_lines = [Other ''PING 10.20.1.4 (10.20.1.4) 56(84) data.'', Reply ''[1690000000.1] '' ''10.20.1.4'' 1 ''ttl=62 time=0.253 ms'',
     Reply '''' ''10.20.1.4'' 3 ''ttl=62 time=0.4 ms'', Other ''4 packets transmitted, 2 received'']"

theorem lost_seqs_roundtrip_witness:
  "parsePingLostSeqs (join_with [CHR 0x0A] (map print_line example_lines)) 4 = [2, 4]"
proof -
  have "\<not> str_contains ''PING 10.20.1.4 (10.20.1.4) 56(84) data.'' ''bytes from''" "\<not> str_contains ''4 packets transmitted, 2 received'' ''bytes from''"
    by code_simp+
  then have ok: "example_lines \<noteq> []" "list_all line_ok example_lines" by (simp_all add: example_lines_def)
  have "filter (\<lambda>n. Some n \<notin> line_seq ` set example_lines) [1..4] = [2, 4]"
    by (simp add: example_lines_def upto.simps)
  with lost_seqs_roundtrip [OF ok, of 4] show ?thesis by simp
qed

theorem errors_fit_channel_witness:
  "length (concat (map (run_probe example_opts (observe example_opts example_lab))
     [open_pair ''server-1'' ''server-2'' 0x0A000205, open_pair ''server-2'' ''server-1'' 0x0A000105])) \<le> 10"
  using errors_fit_channel [OF open_test, of example_lab] by (simp add: err_capacity_def open_lookups)

theorem unexecuted_probes_fail_witness:
  "fst (checkPing 3 None ''server-1'' ''server-2'' (Some (answers broken_out)) (V4 0x0A000205) None unreachable ()) \<noteq> None"
proof -
  have b: "\<And>cmd w. \<exists>e. so_Err (fst (answers broken_out cmd w)) = Some e \<and> sx_Status e = None" by (simp add: answers_def broken_out_def)
  show ?thesis
    using unexecuted_probes_fail [where run = "answers broken_out" and un = "\<lambda>_. Inl ''EOF''" and pings = 3 and curls = 1 and sem = None and
      f = "''server-1''" and t = "''server-2''" and ip = "V4 0x0A000205" and source = None and r = unreachable and w = "()", OF b] by simp
qed

end
