(* ===== verification/Spec2Isabelle.thy ===== *)
theory Spec2Isabelle
  imports Prelude NetIP FabMeta FabTypes Defaults Validate Readiness Kube Hydration HydrationSpec HydrationFull Hydrate Alloc AllocLinks HydrateFull HydrateProps Reach ReachProps Matrix MatrixTest MatrixProps Endpoints EndpointsProps Versions Registry KubeIO AlloyConfig CompPlatform CompFabricator CompFabric CompStatus Operator KubeLog InstallProps InstallOk OperatorProps OperatorLive OperatorExample VlabWiring VlabBuilder VlabRail VlabLogic VlabInvariant VlabPorts VlabTotal VlabComplete VlabProps VlabConfig VlabRun VlabLinks VlabSockets VlabLabProps VpcTypes SetupPlan SetupVPCs SetupSlots SetupRefine SetupProps SetupIters SetupSafe SetupDisjoint SetupClaims PeerReq PeerAdmit PeerSetup PeerProps PeerEnforce PeerClaims Probes ProbeProps
begin

text \<open>
  \<^bold>\<open>Fabricator: configuration, hydration, installation and test of a Hedgehog fabric.\<close>

  Fabricator prepares and runs an Open Network Fabric. The tool \<^verbatim>\<open>hhfab\<close> reads the configuration (a
  Fabricator resource, control and fabric nodes) and a wiring diagram, fills in what is missing (the
  \<^emph>\<open>hydration\<close>: management addresses, ASNs, VTEPs, link addresses), builds installers, generates and runs
  virtual labs, and tests the connectivity of a running fabric. On the control node an operator reads the same
  Fabricator, installs its components as Kubernetes objects and reports their readiness. This development
  models the decisions of these parts, from the sources under \<^verbatim>\<open>src/\<close>, and proves what they promise.

  \<^bold>\<open>Parts, theories and sources.\<close>

  \<^item> \<^emph>\<open>Vocabulary.\<close> \<^theory_text>\<open>Prelude\<close>: Go errors as the left side of a sum, sequencing (\<open>ebind\<close>), loops that may fail
    (\<open>efold\<close>, with its loop rules), numbers and strings of the standard library, Go maps as association lists.
    \<^theory_text>\<open>NetIP\<close>: \<^verbatim>\<open>net/netip\<close>.
  \<^item> \<^emph>\<open>Configuration.\<close> \<^theory_text>\<open>FabMeta\<close> (\<^verbatim>\<open>api/meta\<close>), \<^theory_text>\<open>FabTypes\<close>, \<^theory_text>\<open>Defaults\<close>, \<^theory_text>\<open>Validate\<close>, \<^theory_text>\<open>Readiness\<close>
    (\<^verbatim>\<open>api/fabricator/v1beta1\<close>): the resources as records, \<^verbatim>\<open>Fabricator.Default\<close> and \<^verbatim>\<open>Validate\<close>, the validation of
    nodes, and the two readiness checks. Shown: defaults are idempotent and validate; the subnets a valid
    configuration reserves are disjoint; its VLAN check is exact.
  \<^item> \<^emph>\<open>Hydration\<close> (\<^verbatim>\<open>pkg/hhfab/hydrate.go\<close>). \<^theory_text>\<open>Kube\<close>: the client of the loader (a fake API server, vendored with
    the sources) as a store of objects with versions. \<^theory_text>\<open>Hydration\<close>: the check \<^verbatim>\<open>getHydration\<close>; \<^theory_text>\<open>HydrationSpec\<close>
    and \<^theory_text>\<open>HydrationFull\<close>: when it reports a full hydration. \<^theory_text>\<open>Hydrate\<close>: the hydration itself; \<^theory_text>\<open>Alloc\<close>,
    \<^theory_text>\<open>AllocLinks\<close>, \<^theory_text>\<open>HydrateFull\<close>, \<^theory_text>\<open>HydrateProps\<close>: it succeeds where the subnets have room, and what it leaves is
    fully hydrated, with unique management, protocol and link addresses; the check lets MCLAG leaves reuse a VTEP
    address that another leaf has.
  \<^item> \<^emph>\<open>Connectivity.\<close> \<^theory_text>\<open>Reach\<close>, \<^theory_text>\<open>ReachProps\<close> (\<^verbatim>\<open>pkg/hhfab/testing.go\<close> and the checks of the vendored fabric
    module): whether a server reaches another or an external. \<^theory_text>\<open>Matrix\<close>, \<^theory_text>\<open>MatrixTest\<close>, \<^theory_text>\<open>MatrixProps\<close>
    (\<^verbatim>\<open>pkg/hhfab/matrix.go\<close>): the matrix of expectations over a heap of endpoints, and the test that runs from it.
    \<^theory_text>\<open>Endpoints\<close>, \<^theory_text>\<open>EndpointsProps\<close> (\<^verbatim>\<open>pkg/hhfab/endpoints.go\<close>): how the endpoints are discovered.
  \<^item> \<^emph>\<open>Probes\<close> (\<^verbatim>\<open>pkg/hhfab/testing.go\<close>, and \<^verbatim>\<open>runMatrixIperfPortForward\<close> of \<^verbatim>\<open>matrix.go\<close>). \<^theory_text>\<open>Probes\<close>: what the test runs on
    the servers (ping, the TCP and UDP port checks, curl, iperf3), how it retries and reads what was printed, and the
    verdict of each. \<^theory_text>\<open>ProbeProps\<close>: no outcome of a probe is as expected both ways, lost sequence numbers are read
    right, and a passing test has seen the pings its matrix asks for.
  \<^item> \<^emph>\<open>Setting up VPCs\<close> (\<^verbatim>\<open>SetupVPCs\<close> of \<^verbatim>\<open>pkg/hhfab/testing.go\<close>). \<^theory_text>\<open>VpcTypes\<close>: the specs of VPCs, attachments and
    peerings. \<^theory_text>\<open>SetupPlan\<close>: the options, the iterators over VLANs and subnets, the links and the network command of a
    server; \<^theory_text>\<open>SetupVPCs\<close>: the loop that spreads the servers over subnets and VPCs. \<^theory_text>\<open>SetupSlots\<close>, \<^theory_text>\<open>SetupRefine\<close>,
    \<^theory_text>\<open>SetupProps\<close>, \<^theory_text>\<open>SetupIters\<close>, \<^theory_text>\<open>SetupSafe\<close>, \<^theory_text>\<open>SetupDisjoint\<close>, \<^theory_text>\<open>SetupClaims\<close>: the loop implements an abstract plan (a
    list of subnets with their servers), over the interface \<open>iterator\<close> of a source of fresh items; no VPC or subnet
    holds more than it may, a subnet with host BGP has exactly the servers that need it, and VLANs and subnets are
    those of the namespace and not handed out twice.
  \<^item> \<^emph>\<open>Setting up peerings\<close> (\<^verbatim>\<open>SetupPeerings\<close>, \<^verbatim>\<open>DoSetupPeerings\<close>, \<^verbatim>\<open>CreateOrUpdateVpc\<close> of \<^verbatim>\<open>pkg/hhfab/testing.go\<close>).
    \<^theory_text>\<open>PeerReq\<close>: the language of the requests; \<^theory_text>\<open>PeerSetup\<close>: what is written to the API server, for VPCs too;
    \<^theory_text>\<open>PeerAdmit\<close>: what the server checks of a peering by itself. \<^theory_text>\<open>PeerProps\<close>, \<^theory_text>\<open>PeerEnforce\<close>, \<^theory_text>\<open>PeerClaims\<close>: accepted
    requests give well-formed peerings, and on a server without other writers that admits them, and stores them with
    the defaults of the fabric module, \<^verbatim>\<open>DoSetupPeerings\<close> leaves exactly these. A second run leaves the same, but
    updates every gateway peering again, as it compares them with the specs before the defaults.
  \<^item> \<^emph>\<open>Installation.\<close> \<^theory_text>\<open>Versions\<close>, \<^theory_text>\<open>Registry\<close>, \<^theory_text>\<open>KubeIO\<close> (\<^verbatim>\<open>pkg/fab/versions.go\<close>, \<^verbatim>\<open>pkg/fab/comp/registry.go\<close>,
    \<^verbatim>\<open>kube.go\<close>): versions, images and charts, and how objects are applied, with retries. \<^theory_text>\<open>AlloyConfig\<close>: the
    configuration of Alloy and its validation (vendored with the sources). \<^theory_text>\<open>CompPlatform\<close>,
    \<^theory_text>\<open>CompFabricator\<close>, \<^theory_text>\<open>CompFabric\<close>, \<^theory_text>\<open>CompStatus\<close> (\<^verbatim>\<open>pkg/fab/comp/*\<close>): what each component installs and how
    its status is read. \<^theory_text>\<open>Operator\<close> (\<^verbatim>\<open>pkg/controller/fabricator_ctrl.go\<close>): \<^verbatim>\<open>Reconcile\<close> and \<^verbatim>\<open>statusCheck\<close>. \<^theory_text>\<open>KubeLog\<close>,
    \<^theory_text>\<open>InstallProps\<close>, \<^theory_text>\<open>InstallOk\<close>, \<^theory_text>\<open>OperatorProps\<close>, \<^theory_text>\<open>OperatorLive\<close>, \<^theory_text>\<open>OperatorExample\<close>: the order of the
    enforcement and of the applied status, truth of the readiness conditions, when the installs of a validated
    Fabricator succeed (exactly if its observability targets are fit to be rendered, which its validation leaves
    open), convergence, and a server on which all of it happens. A reconciliation that writes defaults the stored
    Fabricator lacks ends with a conflict, as its next status write is of the version before them; the one after
    it succeeds.
  \<^item> \<^emph>\<open>Virtual labs.\<close> \<^theory_text>\<open>VlabWiring\<close>, \<^theory_text>\<open>VlabBuilder\<close>, \<^theory_text>\<open>VlabRail\<close> (\<^verbatim>\<open>pkg/hhfab/vlabbuilder.go\<close>): the builders of
    wiring diagrams as programs over the loader and the port counters. \<^theory_text>\<open>VlabLogic\<close>, \<^theory_text>\<open>VlabInvariant\<close>: rules for
    such programs, and the interface \<open>wiring_invariant\<close> through which an invariant of the primitives becomes one of
    the builders; \<^theory_text>\<open>VlabPorts\<close>, \<^theory_text>\<open>VlabTotal\<close>, \<^theory_text>\<open>VlabComplete\<close>, \<^theory_text>\<open>VlabProps\<close>: ports, termination, and the links of
    the result. \<^theory_text>\<open>VlabConfig\<close>, \<^theory_text>\<open>VlabRun\<close> (\<^verbatim>\<open>pkg/hhfab/vlabconfig.go\<close>): the configuration of the VMs and their
    command lines; \<^theory_text>\<open>VlabLinks\<close>, \<^theory_text>\<open>VlabSockets\<close>, \<^theory_text>\<open>VlabLabProps\<close>: the NICs and sockets are joined in pairs.

  \<^bold>\<open>How they fit.\<close> \<open>Validate\<close> accepts a configuration; the hydration draws addresses from the subnets it reserves;
  the operator installs what \<open>InstallProps\<close> finds among the artifacts of the installer; the matrix is filled from
  the reachability of the servers. A generated wiring (\<open>Build\<close>) is a list of the objects \<open>createVLABConfig\<close>
  reads, and its VMs are those \<open>vlabFromConfig\<close> starts. On a running fabric, \<open>SetupVPCs\<close> and \<open>SetupPeerings\<close> write
  the VPCs and peerings from which the matrix is filled; the test runs \<open>Probes\<close> for its pairs, and passes only if
  what they observe is what the matrix expects.

  \<^bold>\<open>Conventions.\<close> A panic of the source (an index out of range, a nil pointer that is read) is an error
  \<open>Panic\<close>. A map is iterated in the order of its association list, and lemmas hold for every such list. What a
  failed command leaves behind is dropped, as the commands give up. Widths are those of the source where they
  matter: VLANs and ASNs, and the 8-bit counters of the builders, wrap around. Loops over such a counter that need
  not end are a \<^theory_text>\<open>partial_function\<close> whose missing result means that the call does not return, and
  \<open>vlab_build_diverges_iff\<close> says exactly when that happens; the other loops are over lists or bounded by their
  retries, and there is no fuel. The rates of the probes, \<^verbatim>\<open>float64\<close> in the source, are exact rationals. A plan of
  \<open>SetupVPCs\<close> has disjoint subnets when the VLAN ranges of its namespace end below 65535, where the 16-bit loop of
  the source ends too, and no prefix is all of IPv4.

  \<^bold>\<open>Parameters.\<close> What is not in the sources is an argument: the API server (operations on a world of any type, which
  may change between calls), rendering and marshalling (templates, that of the Alloy configuration too; YAML, JSON), URL and
  semantic-version parsing, struct validation, what servers print and answer over ssh, the clock, and (in \<open>setup_env\<close>)
  what the client answers to the reads of the plan. The hypotheses on
  them are named where they are used, and the witnesses instantiate them.

  \<^bold>\<open>Not modelled.\<close> The command line (\<^verbatim>\<open>cmd/\<close>), files and directories, downloads and OCI stores, ssh sessions and
  processes, the recipes that copy and run installers, the drawing of diagrams, the suites of release tests
  (\<^verbatim>\<open>rt_*.go\<close>), progress bars and logging, and of \<^verbatim>\<open>testing.go\<close> the waiting for switches (\<^verbatim>\<open>WaitReady\<close>), the
  configuration of servers over ssh, the older \<^verbatim>\<open>TestConnectivity\<close> and \<^verbatim>\<open>Inspect\<close>: they are input and output around the parts above. Of the fabric module
  only the checks the tests call are modelled. The mutex of the status check and the delays between retries are
  left out; of concurrent checks only what each of them finds is kept.
\<close>

end
